(* ===== verification/Prelude.thy ===== *)
theory Prelude
  imports Complex_Main
begin

text \<open>
  The part of the JavaScript runtime that every component uses: optional values and the operators
  \<open>??\<close> and \<open>||\<close>, arrays (order-preserving deduplication, stable sorting by a comparator), and
  the insertion-ordered \<open>Map\<close>. It also declares the collections of simplification rules the
  other theories share.

  Conventions of the whole development. \<open>undefined\<close> and \<open>null\<close> of an optional value are
  \<open>None\<close>; where the code tells them apart the model has a datatype of its own. Millisecond
  time stamps and counters are \<open>int\<close> or \<open>nat\<close>; numbers that can be fractional, \<open>NaN\<close> or
  infinite are \<open>jsnum\<close> (theory Js_Number), with exact rational arithmetic in place of double
  rounding.
\<close>

named_theorems js_eval \<open>rules that evaluate the runtime functions on concrete arguments\<close>

named_theorems inv_intros \<open>preservation of a component's invariant by its operations\<close>

section \<open>Optional values\<close>

text \<open>\<open>a ?? b\<close> for an optional \<open>a\<close>.\<close>

definition nullish :: "'a option \<Rightarrow> 'a \<Rightarrow> 'a" where
  "nullish a b = (case a of None \<Rightarrow> b | Some x \<Rightarrow> x)"

lemma nullish_simps [simp, js_eval]:
  "nullish None b = b"
  "nullish (Some x) b = x"
  by (simp_all add: nullish_def)

text \<open>\<open>a ?? b\<close> where \<open>b\<close> is optional too.\<close>

definition nullish_opt :: "'a option \<Rightarrow> 'a option \<Rightarrow> 'a option" where
  "nullish_opt a b = (case a of None \<Rightarrow> b | Some x \<Rightarrow> Some x)"

lemma nullish_opt_simps [simp, js_eval]:
  "nullish_opt None b = b"
  "nullish_opt (Some x) b = Some x"
  by (simp_all add: nullish_opt_def)

lemma nullish_opt_None [simp]: "nullish_opt a None = a"
  by (cases a) simp_all

lemma nullish_opt_assoc: "nullish_opt (nullish_opt a b) c = nullish_opt a (nullish_opt b c)"
  by (cases a) simp_all

text \<open>\<open>a || b\<close> on strings (and arrays of code units): the empty string is falsy.\<close>

definition or_str :: "'a list \<Rightarrow> 'a list \<Rightarrow> 'a list" where
  "or_str a b = (if a = [] then b else a)"

lemma or_str_simps [simp, js_eval]:
  "or_str [] b = b"
  "or_str (x # xs) b = x # xs"
  "a \<noteq> [] \<Longrightarrow> or_str a b = a"
  by (simp_all add: or_str_def)

lemma or_str_Nil_iff [simp]: "or_str a b = [] \<longleftrightarrow> a = [] \<and> b = []"
  by (simp add: or_str_def)

section \<open>Arrays\<close>

text \<open>\<open>Array.from(new Set(xs))\<close>: the first occurrence of every element, in order.\<close>

fun js_uniq :: "'a list \<Rightarrow> 'a list" where
  "js_uniq [] = []"
| "js_uniq (x # xs) = x # filter (\<lambda>y. y \<noteq> x) (js_uniq xs)"

lemma set_js_uniq [simp]: "set (js_uniq xs) = set xs"
  by (induction xs) auto

lemma distinct_js_uniq [simp]: "distinct (js_uniq xs)"
  by (induction xs) auto

lemma js_uniq_distinct: "distinct xs \<Longrightarrow> js_uniq xs = xs"
proof (induction xs)
  case (Cons x xs)
  then have "js_uniq xs = xs" and "x \<notin> set xs" by auto
  then show ?case by (simp add: filter_id_conv) (metis (full_types))
qed simp

lemma js_uniq_idem [simp]: "js_uniq (js_uniq xs) = js_uniq xs"
  by (rule js_uniq_distinct) simp

lemma length_js_uniq_le: "length (js_uniq xs) \<le> length xs"
  by (induction xs) (auto intro: order_trans [OF length_filter_le])

lemma js_uniq_Nil_iff [simp]: "js_uniq xs = [] \<longleftrightarrow> xs = []"
  by (cases xs) auto

text \<open>
  \<open>xs.sort((l, r) => c)\<close> for a comparator whose result is read as "\<open>l\<close> may stand before
  \<open>r\<close>" (\<open>c <= 0\<close>): the stable sort ECMAScript prescribes, as insertion sort.
\<close>

fun js_insert :: "('a \<Rightarrow> 'a \<Rightarrow> bool) \<Rightarrow> 'a \<Rightarrow> 'a list \<Rightarrow> 'a list" where
  "js_insert le x [] = [x]"
| "js_insert le x (y # ys) = (if le x y then x # y # ys else y # js_insert le x ys)"

fun js_sort :: "('a \<Rightarrow> 'a \<Rightarrow> bool) \<Rightarrow> 'a list \<Rightarrow> 'a list" where
  "js_sort le [] = []"
| "js_sort le (x # xs) = js_insert le x (js_sort le xs)"

lemma set_js_insert [simp]: "set (js_insert le x xs) = insert x (set xs)"
  by (induction xs) auto

lemma set_js_sort [simp]: "set (js_sort le xs) = set xs"
  by (induction xs) auto

lemma length_js_insert [simp]: "length (js_insert le x xs) = Suc (length xs)"
  by (induction xs) auto

lemma length_js_sort [simp]: "length (js_sort le xs) = length xs"
  by (induction xs) auto

lemma js_sort_Nil_iff [simp]: "js_sort le xs = [] \<longleftrightarrow> xs = []"
  by (metis length_js_sort length_0_conv)

lemma js_insert_sorted:
  assumes total: "\<And>a b. le a b \<or> le b a"
    and trans: "\<And>a b c. le a b \<Longrightarrow> le b c \<Longrightarrow> le a c"
    and "sorted_wrt le xs"
  shows "sorted_wrt le (js_insert le x xs)"
  using assms(3)
proof (induction xs)
  case (Cons y ys)
  show ?case
  proof (cases "le x y")
    case True
    with Cons.prems show ?thesis by (auto intro: trans)
  next
    case False
    then have "le y x" using total by blast
    with Cons False show ?thesis by auto
  qed
qed simp

lemma js_sort_sorted:
  assumes "\<And>a b. le a b \<or> le b a" and "\<And>a b c. le a b \<Longrightarrow> le b c \<Longrightarrow> le a c"
  shows "sorted_wrt le (js_sort le xs)"
  by (induction xs) (simp_all add: js_insert_sorted [OF assms])

lemma distinct_js_insert [simp]: "distinct (js_insert le x xs) \<longleftrightarrow> x \<notin> set xs \<and> distinct xs"
  by (induction xs) auto

lemma distinct_js_sort [simp]: "distinct (js_sort le xs) \<longleftrightarrow> distinct xs"
  by (induction xs) auto

lemma map_js_insert: "(\<And>a b. le a b \<longleftrightarrow> le' (f a) (f b)) \<Longrightarrow>
    map f (js_insert le x xs) = js_insert le' (f x) (map f xs)"
  by (induction xs) auto

lemma map_js_sort: "(\<And>a b. le a b \<longleftrightarrow> le' (f a) (f b)) \<Longrightarrow>
    map f (js_sort le xs) = js_sort le' (map f xs)"
  by (induction xs) (simp_all add: map_js_insert)

lemma sum_list_map_js_insert: "sum_list (map f (js_insert le x xs)) = f x + sum_list (map f xs)"
  for f :: "'a \<Rightarrow> 'b::comm_monoid_add"
  by (induction xs) (simp_all add: ac_simps)

lemma sum_list_map_js_sort [simp]: "sum_list (map f (js_sort le xs)) = sum_list (map f xs)"
  for f :: "'a \<Rightarrow> 'b::comm_monoid_add"
  by (induction xs) (simp_all add: sum_list_map_js_insert)

text \<open>\<open>find\<close> and \<open>filter\<close> with a partial function.\<close>

lemma find_SomeD: "find P xs = Some x \<Longrightarrow> x \<in> set xs \<and> P x"
  by (induction xs) (auto split: if_splits)

lemma set_map_filter: "set (List.map_filter f xs) = {y. \<exists>x \<in> set xs. f x = Some y}"
  by (induction xs) (auto simp: List.map_filter_simps split: option.splits)

lemma length_map_filter_le: "length (List.map_filter f xs) \<le> length xs"
  by (induction xs) (auto simp: List.map_filter_simps split: option.splits)

text \<open>\<open>xs.slice(start, end)\<close> with non-negative bounds.\<close>

definition js_slice :: "nat \<Rightarrow> nat \<Rightarrow> 'a list \<Rightarrow> 'a list" where
  "js_slice i j xs = take (j - i) (drop i xs)"

lemma length_js_slice: "length (js_slice i j xs) = min (j - i) (length xs - i)"
  by (simp add: js_slice_def min.commute)

section \<open>Insertion-ordered maps\<close>

text \<open>
  A JavaScript \<open>Map\<close> remembers the order in which keys were first inserted: \<open>set\<close> on a present
  key keeps its position, \<open>delete\<close> forgets it. The model is the list of entries in that order.
  A plain object used as a dictionary has the same behaviour for the non-numeric keys the program
  uses.
\<close>

type_synonym ('k, 'v) jsmap = "('k \<times> 'v) list"

definition jm_get :: "('k, 'v) jsmap \<Rightarrow> 'k \<Rightarrow> 'v option" where
  "jm_get m k = map_of m k"

fun jm_set :: "'k \<Rightarrow> 'v \<Rightarrow> ('k, 'v) jsmap \<Rightarrow> ('k, 'v) jsmap" where
  "jm_set k v [] = [(k, v)]"
| "jm_set k v ((k', v') # m) = (if k' = k then (k, v) # m else (k', v') # jm_set k v m)"

definition jm_delete :: "'k \<Rightarrow> ('k, 'v) jsmap \<Rightarrow> ('k, 'v) jsmap" where
  "jm_delete k m = filter (\<lambda>e. fst e \<noteq> k) m"

definition jm_keys :: "('k, 'v) jsmap \<Rightarrow> 'k list" where
  "jm_keys m = map fst m"

definition jm_values :: "('k, 'v) jsmap \<Rightarrow> 'v list" where
  "jm_values m = map snd m"

definition jm_wf :: "('k, 'v) jsmap \<Rightarrow> bool" where
  "jm_wf m \<longleftrightarrow> distinct (map fst m)"

lemma jm_get_Nil [simp, js_eval]: "jm_get [] k = None"
  by (simp add: jm_get_def)

lemma jm_get_Cons [simp, js_eval]: "jm_get ((k', v) # m) k = (if k' = k then Some v else jm_get m k)"
  by (simp add: jm_get_def)

lemma jm_get_set [simp]: "jm_get (jm_set k v m) k' = (if k' = k then Some v else jm_get m k')"
  by (induction k v m rule: jm_set.induct) auto

lemma jm_get_delete [simp]: "jm_get (jm_delete k m) k' = (if k' = k then None else jm_get m k')"
  by (induction m) (auto simp: jm_delete_def)

lemma jm_keys_set [simp]:
  "set (jm_keys (jm_set k v m)) = insert k (set (jm_keys m))"
  by (induction k v m rule: jm_set.induct) (auto simp: jm_keys_def)

lemma jm_get_None_iff: "jm_get m k = None \<longleftrightarrow> k \<notin> set (jm_keys m)"
  by (simp add: jm_get_def jm_keys_def map_of_eq_None_iff)

lemma jm_keys_jm_set: "jm_keys (jm_set k v m) = (if k \<in> set (jm_keys m) then jm_keys m else jm_keys m @ [k])"
  by (induction k v m rule: jm_set.induct) (auto simp: jm_keys_def)

lemma jm_wf_Nil [simp, inv_intros]: "jm_wf []"
  by (simp add: jm_wf_def)

lemma jm_wf_set [simp, inv_intros]: "jm_wf m \<Longrightarrow> jm_wf (jm_set k v m)"
  using jm_keys_jm_set [of k v m] by (simp add: jm_wf_def jm_keys_def)

lemma jm_wf_delete [simp, inv_intros]: "jm_wf m \<Longrightarrow> jm_wf (jm_delete k m)"
  by (simp add: jm_wf_def jm_delete_def distinct_map_filter)

lemma length_jm_set: "length (jm_set k v m) = (if k \<in> set (jm_keys m) then length m else Suc (length m))"
  by (metis jm_keys_def jm_keys_jm_set length_append_singleton length_map)

lemma length_jm_delete_le: "length (jm_delete k m) \<le> length m"
  by (simp add: jm_delete_def)

lemma jm_set_append_new: "k \<notin> set (jm_keys m) \<Longrightarrow> jm_set k v m = m @ [(k, v)]"
  by (induction k v m rule: jm_set.induct) (auto simp: jm_keys_def)

lemma jm_set_same: "jm_get m k = Some v \<Longrightarrow> jm_set k v m = m"
  by (induction k v m rule: jm_set.induct) (auto split: if_splits)

lemma sum_list_jm_set:
  "sum_list (map (f \<circ> snd) (jm_set k v m)) + (case jm_get m k of None \<Rightarrow> 0 | Some w \<Rightarrow> f w)
     = sum_list (map (f \<circ> snd) m) + f v"
  for f :: "'v \<Rightarrow> nat"
  by (induction k v m rule: jm_set.induct) auto

text \<open>\<open>{...a, ...b}\<close>: the entries of \<open>b\<close> written over those of \<open>a\<close>.\<close>

definition js_spread :: "('k, 'v) jsmap \<Rightarrow> ('k, 'v) jsmap \<Rightarrow> ('k, 'v) jsmap" where
  "js_spread a b = fold (\<lambda>(k, v). jm_set k v) b a"

lemma js_spread_Nil [simp]: "js_spread a [] = a"
  by (simp add: js_spread_def)

lemma js_spread_Cons [simp]: "js_spread a ((k, v) # b) = js_spread (jm_set k v a) b"
  by (simp add: js_spread_def)

lemma jm_get_spread: "jm_wf b \<Longrightarrow> jm_get (js_spread a b) k = nullish_opt (jm_get b k) (jm_get a k)"
proof (induction b arbitrary: a)
  case (Cons e b)
  obtain l v where e: "e = (l, v)" by (cases e)
  with Cons.prems have "jm_wf b" and "jm_get b l = None"
    by (auto simp: jm_wf_def jm_get_def map_of_eq_None_iff)
  with Cons.IH [of "jm_set l v a"] e show ?case by auto
qed simp

lemma jm_wf_spread [inv_intros]: "jm_wf a \<Longrightarrow> jm_wf (js_spread a b)"
  by (induction b arbitrary: a) auto

text \<open>
  The interface the clients of a key/value store rely on: what a lookup returns after the store
  was written or a key removed.
\<close>

locale kv_store =
  fixes get :: "'s \<Rightarrow> 'k \<Rightarrow> 'v option"
    and put :: "'k \<Rightarrow> 'v \<Rightarrow> 's \<Rightarrow> 's"
    and del :: "'k \<Rightarrow> 's \<Rightarrow> 's"
  assumes get_put: "get (put k v s) k' = (if k' = k then Some v else get s k')"
    and get_del: "get (del k s) k' = (if k' = k then None else get s k')"
begin

lemma put_put_same: "get (put k v (put k w s)) k' = get (put k v s) k'"
  by (simp add: get_put)

lemma put_put_swap: "k \<noteq> l \<Longrightarrow> get (put k v (put l w s)) k' = get (put l w (put k v s)) k'"
  by (simp add: get_put)

lemma del_put: "get (del k (put k v s)) k' = get (del k s) k'"
  by (simp add: get_put get_del)

lemma get_fold_del: "get (fold del ks s) k = (if k \<in> set ks then None else get s k)"
  by (induction ks arbitrary: s) (auto simp: get_del)

end

interpretation jsm: kv_store jm_get jm_set jm_delete
  by unfold_locales simp_all

end
