(* ===== verification/Js_String.thy ===== *)
theory Js_String
  imports Prelude "HOL-Library.Sublist" "HOL-Library.Code_Target_Nat"
begin

text \<open>
  Strings of the runtime. A JavaScript string is modelled by the bytes of its UTF-8 encoding, an
  Isabelle \<open>string\<close>. Equality, concatenation, \<open>includes\<close>, \<open>startsWith\<close>, \<open>endsWith\<close>, \<open>split\<close>
  and \<open>join\<close> commute with the encoding (UTF-8 is self-synchronising); \<open>trim\<close> knows the
  encodings of every ECMAScript white-space character; \<open>length\<close> and \<open>slice\<close> of the code count
  characters, not bytes, and are \<open>js_length\<close> and \<open>js_take\<close> here (exact for text of the basic
  multilingual plane, where a character is one UTF-16 unit). \<open>toLowerCase\<close> maps the ASCII letters;
  the case pairs of other scripts are not modelled.
\<close>

section \<open>UTF-8\<close>

text \<open>The bytes of a code point; \<open>utf8\<close> builds the program's non-ASCII literals.\<close>

definition utf8_char :: "nat \<Rightarrow> string" where
  "utf8_char n =
     (if n < 128 then [char_of n]
      else if n < 2048 then [char_of (192 + n div 64), char_of (128 + n mod 64)]
      else if n < 65536 then
        [char_of (224 + n div 4096), char_of (128 + (n div 64) mod 64), char_of (128 + n mod 64)]
      else
        [char_of (240 + n div 262144), char_of (128 + (n div 4096) mod 64),
         char_of (128 + (n div 64) mod 64), char_of (128 + n mod 64)])"

definition utf8 :: "nat list \<Rightarrow> string" where
  "utf8 ns = concat (map utf8_char ns)"

definition utf8_continuation :: "char \<Rightarrow> bool" where
  "utf8_continuation c \<longleftrightarrow> 128 \<le> (of_char c :: nat) \<and> (of_char c :: nat) < 192"

definition is_ascii :: "string \<Rightarrow> bool" where
  "is_ascii s \<longleftrightarrow> (\<forall>c \<in> set s. (of_char c :: nat) < 128)"

text \<open>The characters of a string, each with its bytes.\<close>

function js_chars :: "string \<Rightarrow> string list" where
  "js_chars [] = []"
| "js_chars (c # cs) = (c # takeWhile utf8_continuation cs) # js_chars (dropWhile utf8_continuation cs)"
  by pat_completeness auto
termination
  by (relation "measure length") (auto simp: le_imp_less_Suc length_dropWhile_le)

definition js_length :: "string \<Rightarrow> nat" where
  "js_length s = length (js_chars s)"

definition js_take :: "nat \<Rightarrow> string \<Rightarrow> string" where
  "js_take n s = concat (take n (js_chars s))"

definition js_take_last :: "nat \<Rightarrow> string \<Rightarrow> string" where
  "js_take_last n s = concat (drop (length (js_chars s) - n) (js_chars s))"

lemma concat_js_chars [simp]: "concat (js_chars s) = s"
  by (induction s rule: js_chars.induct) simp_all

lemma is_ascii_Nil [simp]: "is_ascii []"
  by (simp add: is_ascii_def)

lemma is_ascii_Cons [simp]: "is_ascii (c # s) \<longleftrightarrow> (of_char c :: nat) < 128 \<and> is_ascii s"
  by (auto simp: is_ascii_def)

lemma is_ascii_append [simp]: "is_ascii (s @ t) \<longleftrightarrow> is_ascii s \<and> is_ascii t"
  by (auto simp: is_ascii_def)

lemma js_chars_ascii: "is_ascii s \<Longrightarrow> js_chars s = map (\<lambda>c. [c]) s"
proof (induction s)
  case (Cons c s)
  have "takeWhile utf8_continuation s = [] \<and> dropWhile utf8_continuation s = s"
    using Cons.prems by (cases s) (auto simp: utf8_continuation_def)
  with Cons show ?case by simp
qed simp

lemma js_length_ascii: "is_ascii s \<Longrightarrow> js_length s = length s"
  by (simp add: js_length_def js_chars_ascii)

lemma js_take_ascii: "is_ascii s \<Longrightarrow> js_take n s = take n s"
  by (simp add: js_take_def js_chars_ascii take_map concat_map_singleton)

lemma js_take_all: "js_length s \<le> n \<Longrightarrow> js_take n s = s"
  by (simp add: js_take_def js_length_def)

section \<open>Searching\<close>

definition startsWith :: "'a list \<Rightarrow> 'a list \<Rightarrow> bool" where
  "startsWith s p \<longleftrightarrow> take (length p) s = p"

definition endsWith :: "'a list \<Rightarrow> 'a list \<Rightarrow> bool" where
  "endsWith s p \<longleftrightarrow> startsWith (rev s) (rev p)"

fun js_includes :: "'a list \<Rightarrow> 'a list \<Rightarrow> bool" where
  "js_includes [] p \<longleftrightarrow> p = []"
| "js_includes (c # s) p \<longleftrightarrow> startsWith (c # s) p \<or> js_includes s p"

text \<open>\<open>s.indexOf(p)\<close>, \<open>None\<close> for \<open>-1\<close>.\<close>

fun indexOf :: "'a list \<Rightarrow> 'a list \<Rightarrow> nat option" where
  "indexOf [] p = (if p = [] then Some 0 else None)"
| "indexOf (c # s) p = (if startsWith (c # s) p then Some 0 else map_option Suc (indexOf s p))"

text \<open>\<open>s.lastIndexOf(p)\<close>.\<close>

fun lastIndexOf :: "'a list \<Rightarrow> 'a list \<Rightarrow> nat option" where
  "lastIndexOf [] p = (if p = [] then Some 0 else None)"
| "lastIndexOf (c # s) p =
     (case lastIndexOf s p of
        Some i \<Rightarrow> Some (Suc i)
      | None \<Rightarrow> if startsWith (c # s) p then Some 0 else None)"

lemma startsWith_prefix: "startsWith s p \<longleftrightarrow> prefix p s"
  unfolding startsWith_def prefix_def by (metis append_take_drop_id append_eq_conv_conj)

lemma startsWith_Nil [simp]: "startsWith s [] \<longleftrightarrow> True"
  by (simp add: startsWith_def)

lemma startsWith_Nil_left [simp]: "startsWith [] p \<longleftrightarrow> p = []"
  by (auto simp: startsWith_def)

lemma startsWith_Cons [simp]: "startsWith (c # s) (d # p) \<longleftrightarrow> c = d \<and> startsWith s p"
  by (auto simp: startsWith_def)

lemma startsWith_append [simp]: "startsWith (p @ s) p"
  by (simp add: startsWith_prefix)

lemma startsWith_append_cancel [simp]: "startsWith (p @ s) (p @ q) \<longleftrightarrow> startsWith s q"
  by (simp add: startsWith_prefix)

lemma startsWith_refl [simp]: "startsWith s s"
  by (simp add: startsWith_prefix)

lemma startsWith_iff: "startsWith s p \<longleftrightarrow> (\<exists>t. s = p @ t)"
  by (auto simp: startsWith_prefix prefix_def)

lemma endsWith_suffix: "endsWith s p \<longleftrightarrow> suffix p s"
  by (simp add: endsWith_def startsWith_prefix suffix_to_prefix)

lemma endsWith_iff: "endsWith s p \<longleftrightarrow> (\<exists>t. s = t @ p)"
  by (auto simp: endsWith_suffix suffix_def)

lemma js_includes_sublist: "js_includes s p \<longleftrightarrow> sublist p s"
  by (induction s) (auto simp: startsWith_prefix sublist_Cons_right)

lemma js_includes_iff: "js_includes s p \<longleftrightarrow> (\<exists>u v. s = u @ p @ v)"
  by (simp add: js_includes_sublist sublist_def)

lemma js_includes_Nil [simp]: "js_includes s []"
  by (simp add: js_includes_sublist)

lemma js_includes_append1: "js_includes s p \<Longrightarrow> js_includes (s @ t) p"
  by (metis append.assoc js_includes_iff)

lemma js_includes_append2: "js_includes t p \<Longrightarrow> js_includes (s @ t) p"
  by (metis append.assoc js_includes_iff)

lemma indexOf_None_iff: "indexOf s p = None \<longleftrightarrow> \<not> js_includes s p"
  by (induction s) auto

lemma indexOf_Some:
  "indexOf s p = Some i \<Longrightarrow> s = take i s @ p @ drop (i + length p) s"
proof (induction s arbitrary: i)
  case (Cons c s)
  show ?case
  proof (cases "startsWith (c # s) p")
    case True
    with Cons.prems have "i = 0" by simp
    with True show ?thesis by (metis add_0 append.left_neutral append_take_drop_id startsWith_def take0)
  next
    case False
    with Cons.prems obtain j where "indexOf s p = Some j" "i = Suc j" by auto
    with Cons.IH [of j] show ?thesis by simp
  qed
qed (auto split: if_splits)

lemma lastIndexOf_Some:
  "lastIndexOf s p = Some i \<Longrightarrow> s = take i s @ p @ drop (i + length p) s"
proof (induction s arbitrary: i)
  case (Cons c s)
  show ?case
  proof (cases "lastIndexOf s p")
    case None
    with Cons.prems have "startsWith (c # s) p" "i = 0" by (auto split: if_splits)
    then show ?thesis by (metis add_0 append.left_neutral append_take_drop_id startsWith_def take0)
  next
    case (Some j)
    with Cons.prems Cons.IH [of j] show ?thesis by auto
  qed
qed (auto split: if_splits)

section \<open>White space\<close>

text \<open>
  The encodings of the ECMAScript \<open>WhiteSpace\<close> and \<open>LineTerminator\<close> characters: the ASCII ones,
  U+00A0, U+1680, U+2000 to U+200A, U+2028, U+2029, U+202F, U+205F, U+3000 and U+FEFF.
\<close>

definition ascii_ws :: "char \<Rightarrow> bool" where
  "ascii_ws c \<longleftrightarrow> c = CHR '' '' \<or> (9 \<le> (of_char c :: nat) \<and> (of_char c :: nat) \<le> 13)"

definition wide_ws :: "string list" where
  "wide_ws =
     [[CHR 0xC2, CHR 0xA0], [CHR 0xE1, CHR 0x9A, CHR 0x80],
      [CHR 0xE2, CHR 0x80, CHR 0x80], [CHR 0xE2, CHR 0x80, CHR 0x81], [CHR 0xE2, CHR 0x80, CHR 0x82],
      [CHR 0xE2, CHR 0x80, CHR 0x83], [CHR 0xE2, CHR 0x80, CHR 0x84], [CHR 0xE2, CHR 0x80, CHR 0x85],
      [CHR 0xE2, CHR 0x80, CHR 0x86], [CHR 0xE2, CHR 0x80, CHR 0x87], [CHR 0xE2, CHR 0x80, CHR 0x88],
      [CHR 0xE2, CHR 0x80, CHR 0x89], [CHR 0xE2, CHR 0x80, CHR 0x8A], [CHR 0xE2, CHR 0x80, CHR 0xA8],
      [CHR 0xE2, CHR 0x80, CHR 0xA9], [CHR 0xE2, CHR 0x80, CHR 0xAF], [CHR 0xE2, CHR 0x81, CHR 0x9F],
      [CHR 0xE3, CHR 0x80, CHR 0x80], [CHR 0xEF, CHR 0xBB, CHR 0xBF]]"

text \<open>The white-space character a string starts with (ends with), as its number of bytes; 0 if none.\<close>

definition ws_head :: "string \<Rightarrow> nat" where
  "ws_head s =
     (case s of
        [] \<Rightarrow> 0
      | c # _ \<Rightarrow> if (of_char c :: nat) < 128 then (if ascii_ws c then 1 else 0)
                else (case find (startsWith s) wide_ws of None \<Rightarrow> 0 | Some w \<Rightarrow> length w))"

definition ws_last :: "string \<Rightarrow> nat" where
  "ws_last s =
     (if s = [] then 0
      else if (of_char (last s) :: nat) < 128 then (if ascii_ws (last s) then 1 else 0)
      else (case find (endsWith s) wide_ws of None \<Rightarrow> 0 | Some w \<Rightarrow> length w))"

lemma ws_head_le: "ws_head s \<le> length s"
proof (cases s)
  case (Cons c cs)
  have "length w \<le> length s" if "find (startsWith s) wide_ws = Some w" for w
  proof -
    from that have "startsWith s w" by (auto simp: find_Some_iff)
    then show ?thesis by (auto simp: startsWith_iff)
  qed
  with Cons show ?thesis by (auto simp: ws_head_def split: option.split)
qed (simp add: ws_head_def)

lemma ws_last_le: "ws_last s \<le> length s"
proof -
  have "length w \<le> length s" if "find (endsWith s) wide_ws = Some w" for w
  proof -
    from that have "endsWith s w" by (auto simp: find_Some_iff)
    then show ?thesis by (auto simp: endsWith_iff)
  qed
  then show ?thesis by (auto simp: ws_last_def Suc_le_eq split: option.split)
qed

function trimStart :: "string \<Rightarrow> string" where
  "trimStart s = (if ws_head s = 0 then s else trimStart (drop (ws_head s) s))"
  by pat_completeness auto
termination
proof (relation "measure length", goal_cases)
  case (2 s)
  with ws_head_le [of s] show ?case unfolding in_measure length_drop by linarith
qed simp

function trimEnd :: "string \<Rightarrow> string" where
  "trimEnd s = (if ws_last s = 0 then s else trimEnd (take (length s - ws_last s) s))"
  by pat_completeness auto
termination
proof (relation "measure length", goal_cases)
  case (2 s)
  with ws_last_le [of s] show ?case unfolding in_measure length_take by linarith
qed simp

declare trimStart.simps [simp del] trimEnd.simps [simp del]

definition trim :: "string \<Rightarrow> string" where
  "trim s = trimEnd (trimStart s)"

lemma Nil_notin_wide_ws: "[] \<notin> set wide_ws"
  by (simp add: wide_ws_def)

lemma ws_head_Nil [simp]: "ws_head [] = 0"
  by (simp add: ws_head_def)

lemma ws_last_Nil [simp]: "ws_last [] = 0"
  by (simp add: ws_last_def)

lemma ws_head_eq_0_iff:
  "ws_head s = 0 \<longleftrightarrow> s = [] \<or> (if (of_char (hd s) :: nat) < 128 then \<not> ascii_ws (hd s)
     else (\<forall>w \<in> set wide_ws. \<not> startsWith s w))"
proof (cases s)
  case (Cons c cs)
  have "(case find (startsWith s) wide_ws of None \<Rightarrow> 0 | Some w \<Rightarrow> length w) = 0
      \<longleftrightarrow> (\<forall>w \<in> set wide_ws. \<not> startsWith s w)"
    using Nil_notin_wide_ws
    by (auto simp: find_None_iff find_Some_iff split: option.splits) (metis nth_mem)+
  with Cons show ?thesis by (simp add: ws_head_def)
qed simp

lemma startsWith_appendI: "startsWith s p \<Longrightarrow> startsWith (s @ t) p"
  by (auto simp: startsWith_iff)

lemma ws_head_prefix: "ws_head (s @ t) = 0 \<Longrightarrow> ws_head s = 0"
  by (cases s) (auto simp: ws_head_eq_0_iff dest: startsWith_appendI [of _ _ t] split: if_splits)

lemma trimStart_Nil [simp]: "trimStart [] = []"
  by (subst trimStart.simps) simp

lemma trimEnd_Nil [simp]: "trimEnd [] = []"
  by (subst trimEnd.simps) simp

lemma trimStart_id: "ws_head s = 0 \<Longrightarrow> trimStart s = s"
  by (subst trimStart.simps) simp

lemma trimEnd_id: "ws_last s = 0 \<Longrightarrow> trimEnd s = s"
  by (subst trimEnd.simps) simp

lemma ws_head_trimStart [simp]: "ws_head (trimStart s) = 0"
  by (induction s rule: trimStart.induct) (metis trimStart.simps)

lemma ws_last_trimEnd [simp]: "ws_last (trimEnd s) = 0"
  by (induction s rule: trimEnd.induct) (metis trimEnd.simps)

lemma trimEnd_prefix: "\<exists>t. s = trimEnd s @ t"
proof (induction s rule: trimEnd.induct)
  case (1 s)
  show ?case
  proof (cases "ws_last s = 0")
    case False
    with 1 obtain t where
      "take (length s - ws_last s) s = trimEnd (take (length s - ws_last s) s) @ t" by blast
    then have "s = trimEnd (take (length s - ws_last s) s) @ t @ drop (length s - ws_last s) s"
      by (metis append.assoc append_take_drop_id)
    moreover from False have "trimEnd s = trimEnd (take (length s - ws_last s) s)"
      by (subst trimEnd.simps) simp
    ultimately show ?thesis by metis
  qed (simp add: trimEnd_id)
qed

lemma ws_head_trimEnd: "ws_head s = 0 \<Longrightarrow> ws_head (trimEnd s) = 0"
  by (metis trimEnd_prefix ws_head_prefix)

lemma ws_head_trim [simp]: "ws_head (trim s) = 0"
  by (simp add: trim_def ws_head_trimEnd)

lemma ws_last_trim [simp]: "ws_last (trim s) = 0"
  by (simp add: trim_def)

lemma trim_id: "ws_head s = 0 \<Longrightarrow> ws_last s = 0 \<Longrightarrow> trim s = s"
  by (simp add: trim_def trimStart_id trimEnd_id)

lemma trim_Nil [simp, js_eval]: "trim [] = []"
  by (simp add: trim_def)

lemma trim_trim [simp]: "trim (trim s) = trim s"
  by (rule trim_id) simp_all

text \<open>A string that starts and ends with a printable ASCII character is its own \<open>trim\<close>.\<close>

definition plain_char :: "char \<Rightarrow> bool" where
  "plain_char c \<longleftrightarrow> (of_char c :: nat) < 128 \<and> \<not> ascii_ws c"

definition plain_ends :: "string \<Rightarrow> bool" where
  "plain_ends s \<longleftrightarrow> s = [] \<or> plain_char (hd s) \<and> plain_char (last s)"

lemma trim_plain: "plain_ends s \<Longrightarrow> trim s = s"
  by (rule trim_id) (auto simp: plain_ends_def plain_char_def ws_head_eq_0_iff ws_last_def)

lemma length_trimStart_le: "length (trimStart s) \<le> length s"
proof (induction s rule: trimStart.induct)
  case (1 s)
  then show ?case
    by (cases "ws_head s = 0") (auto simp: trimStart_id, subst trimStart.simps, auto)
qed

lemma length_trim_le: "length (trim s) \<le> length s"
  by (metis length_append le_add1 length_trimStart_le order_trans trimEnd_prefix trim_def)

section \<open>Case, splitting, joining\<close>

definition lower_char :: "char \<Rightarrow> char" where
  "lower_char c =
     (if 65 \<le> (of_char c :: nat) \<and> (of_char c :: nat) \<le> 90 then char_of ((of_char c :: nat) + 32) else c)"

definition toLowerCase :: "string \<Rightarrow> string" where
  "toLowerCase s = map lower_char s"

lemma lower_char_idem [simp]: "lower_char (lower_char c) = lower_char c"
  by (auto simp: lower_char_def)

lemma toLowerCase_idem [simp]: "toLowerCase (toLowerCase s) = toLowerCase s"
  by (simp add: toLowerCase_def)

lemma toLowerCase_Nil_iff [simp]: "toLowerCase s = [] \<longleftrightarrow> s = []"
  by (simp add: toLowerCase_def)

lemma toLowerCase_append [simp]: "toLowerCase (s @ t) = toLowerCase s @ toLowerCase t"
  by (simp add: toLowerCase_def)

lemma toLowerCase_Nil [simp, js_eval]: "toLowerCase [] = []"
  by (simp add: toLowerCase_def)

text \<open>\<open>s.split(sep)\<close> for a string separator, \<open>xs.join(sep)\<close>.\<close>

function split_on :: "'a list \<Rightarrow> 'a list \<Rightarrow> 'a list list" where
  "split_on sep s =
     (if sep = [] then map (\<lambda>c. [c]) s
      else case indexOf s sep of
             None \<Rightarrow> [s]
           | Some i \<Rightarrow> take i s # split_on sep (drop (i + length sep) s))"
  by pat_completeness auto
termination
proof (relation "measure (\<lambda>(sep, s). length s)", goal_cases)
  case (2 sep s i)
  then have "s = take i s @ sep @ drop (i + length sep) s" by (blast dest: indexOf_Some)
  with 2 have "0 < length s" by (cases s) auto
  with 2 show ?case by (cases sep) auto
qed simp

declare split_on.simps [simp del]

fun join :: "'a list \<Rightarrow> 'a list list \<Rightarrow> 'a list" where
  "join sep [] = []"
| "join sep [x] = x"
| "join sep (x # y # xs) = x @ sep @ join sep (y # xs)"

lemma join_Cons: "join sep (x # xs) = (if xs = [] then x else x @ sep @ join sep xs)"
  by (cases xs) auto

lemma split_on_not_Nil: "sep \<noteq> [] \<Longrightarrow> split_on sep s \<noteq> []"
  by (subst split_on.simps) (auto split: option.splits)

lemma join_split_on: "sep \<noteq> [] \<Longrightarrow> join sep (split_on sep s) = s"
proof (induction sep s rule: split_on.induct)
  case (1 sep s)
  show ?case
  proof (cases "indexOf s sep")
    case None
    with 1 show ?thesis by (subst split_on.simps) simp
  next
    case (Some i)
    with 1 have "join sep (split_on sep (drop (i + length sep) s)) = drop (i + length sep) s" by simp
    with Some 1 show ?thesis
      by (subst split_on.simps) (simp add: join_Cons split_on_not_Nil flip: indexOf_Some)
  qed
qed

lemma indexOf_single: "indexOf s [c] = (if c \<in> set s then Some (length (takeWhile (\<lambda>d. d \<noteq> c) s)) else None)"
  by (induction s) auto

lemma split_on_single:
  "split_on [c] s =
     (if c \<in> set s then takeWhile (\<lambda>d. d \<noteq> c) s # split_on [c] (tl (dropWhile (\<lambda>d. d \<noteq> c) s)) else [s])"
proof (cases "c \<in> set s")
  case True
  let ?k = "length (takeWhile (\<lambda>d. d \<noteq> c) s)"
  have "take ?k s = takeWhile (\<lambda>d. d \<noteq> c) s" and "drop ?k s = dropWhile (\<lambda>d. d \<noteq> c) s"
    by (metis append_eq_conv_conj takeWhile_dropWhile_id)+
  then have "drop (Suc ?k) s = tl (dropWhile (\<lambda>d. d \<noteq> c) s)" by (metis drop_Suc tl_drop)
  with True \<open>take ?k s = _\<close> show ?thesis by (subst split_on.simps) (simp add: indexOf_single)
qed (subst split_on.simps, simp add: indexOf_single)

lemma split_on_single_append:
  assumes "c \<notin> set x"
  shows "split_on [c] (x @ c # s) = x # split_on [c] s"
proof -
  have "takeWhile (\<lambda>d. d \<noteq> c) (x @ c # s) = x" and "dropWhile (\<lambda>d. d \<noteq> c) (x @ c # s) = c # s"
    using assms by (induction x) auto
  then show ?thesis by (subst split_on_single) simp
qed

lemma split_on_join:
  assumes "xs \<noteq> []" and "\<forall>x \<in> set xs. c \<notin> set x"
  shows "split_on [c] (join [c] xs) = xs"
  using assms
proof (induction xs)
  case (Cons x xs)
  show ?case
  proof (cases "xs = []")
    case True
    with Cons.prems show ?thesis by (simp add: split_on_single)
  next
    case False
    with Cons show ?thesis by (simp add: join_Cons split_on_single_append)
  qed
qed simp

section \<open>Decimal digits\<close>

definition digit_char :: "nat \<Rightarrow> char" where
  "digit_char d = char_of (48 + d)"

definition is_digit :: "char \<Rightarrow> bool" where
  "is_digit c \<longleftrightarrow> 48 \<le> (of_char c :: nat) \<and> (of_char c :: nat) \<le> 57"

definition digit_val :: "char \<Rightarrow> nat" where
  "digit_val c = of_char c - 48"

fun nat_to_string :: "nat \<Rightarrow> string" where
  "nat_to_string n = (if n < 10 then [digit_char n] else nat_to_string (n div 10) @ [digit_char (n mod 10)])"

declare nat_to_string.simps [simp del]

text \<open>\<open>String(n)\<close> of an integral number (below the magnitude where JavaScript turns to exponents).\<close>

definition int_to_string :: "int \<Rightarrow> string" where
  "int_to_string i = (if i < 0 then CHR ''-'' # nat_to_string (nat (- i)) else nat_to_string (nat i))"

fun digits_val :: "nat \<Rightarrow> string \<Rightarrow> nat" where
  "digits_val acc [] = acc"
| "digits_val acc (c # cs) = digits_val (10 * acc + digit_val c) cs"

lemma digits_val_append: "digits_val acc (s @ t) = digits_val (digits_val acc s) t"
  by (induction acc s rule: digits_val.induct) auto

lemma digit_val_char: "d < 10 \<Longrightarrow> digit_val (digit_char d) = d"
  by (simp add: digit_val_def digit_char_def)

lemma is_digit_char: "d < 10 \<Longrightarrow> is_digit (digit_char d)"
  by (simp add: is_digit_def digit_char_def)

lemma nat_to_string_digits: "\<forall>c \<in> set (nat_to_string n). is_digit c"
proof (induction n rule: nat_to_string.induct)
  case (1 n)
  then show ?case
    by (cases "n < 10") (simp_all add: nat_to_string.simps [of n] is_digit_char)
qed

lemma nat_to_string_not_Nil [simp]: "nat_to_string n \<noteq> []"
  by (subst nat_to_string.simps) simp

lemma digits_val_nat_to_string [simp]: "digits_val 0 (nat_to_string n) = n"
proof (induction n rule: nat_to_string.induct)
  case (1 n)
  then show ?case
    by (cases "n < 10") (simp_all add: nat_to_string.simps [of n] digits_val_append digit_val_char)
qed

lemma nat_to_string_inject: "nat_to_string m = nat_to_string n \<longleftrightarrow> m = n"
  by (metis digits_val_nat_to_string)

end
