(* ===== verification/Authz.thy ===== *)
theory Authz
  imports Prelude Js_String
begin

text \<open>
  Authorization: the snapshot a session holds (\<open>types/authz.ts\<close>), the registry of protected routes
  and the decisions made from it (\<open>auth/routeAuthorization.ts\<close>). The matching of a path name
  against a route pattern is \<open>matchPath\<close> of the package react-router-dom; it is the parameter
  \<open>mp\<close> (pattern, path name) of every definition that uses it, with what the code relies on as
  hypotheses of the theorems that need it.
\<close>

section \<open>The authorization snapshot\<close>

type_synonym actor_flags = "(string, bool) jsmap"

record authz =
  permissions :: "string list"
  capabilities :: "string list"

record authorization_snapshot = authz +
  scopes :: "string list"
  entitlements :: "string list"
  featureFlags :: "string list"
  authzEpoch :: int
  actorFlags :: actor_flags

record authorization_state = authorization_snapshot +
  authzReady :: bool

definition DEFAULT_ACTOR_FLAGS :: actor_flags where
  "DEFAULT_ACTOR_FLAGS =
     [(''reserved'', False), (''interactive_login_allowed'', False), (''system_subject'', False)]"

definition EMPTY_AUTHORIZATION_SNAPSHOT :: authorization_snapshot where
  "EMPTY_AUTHORIZATION_SNAPSHOT =
     \<lparr>permissions = [], capabilities = [], scopes = [], entitlements = [], featureFlags = [],
      authzEpoch = 0, actorFlags = DEFAULT_ACTOR_FLAGS\<rparr>"

definition EMPTY_AUTHORIZATION_STATE :: authorization_state where
  "EMPTY_AUTHORIZATION_STATE =
     authorization_snapshot.extend EMPTY_AUTHORIZATION_SNAPSHOT \<lparr>authzReady = False\<rparr>"

definition normalizeActorFlags :: "actor_flags option \<Rightarrow> actor_flags" where
  "normalizeActorFlags flags = js_spread DEFAULT_ACTOR_FLAGS (nullish flags [])"

section \<open>The route registry\<close>

record route_authorization_rule =
  path :: string
  requiredCapabilities :: "string list"
  legacyPermissions :: "string list option"
  fallbackPath :: "string option"

definition route_rule ::
    "string \<Rightarrow> string list \<Rightarrow> string list option \<Rightarrow> string option \<Rightarrow> route_authorization_rule" where
  "route_rule p caps legacy fallback =
     \<lparr>path = p, requiredCapabilities = caps, legacyPermissions = legacy, fallbackPath = fallback\<rparr>"

definition ROUTE_AUTHORIZATION_RULES :: "route_authorization_rule list" where
  "ROUTE_AUTHORIZATION_RULES =
    [route_rule ''/'' [''dashboard.read''] (Some [''dashboards:read'']) None,
     route_rule ''/search/realtime'' [''log.query.read''] (Some [''logs:read'']) None,
     route_rule ''/search/history'' [''query.history.read''] (Some [''logs:read'']) None,
     route_rule ''/search/bookmark'' [''query.saved.read''] (Some [''logs:read'']) (Some ''/search/saved''),
     route_rule ''/search/saved'' [''query.saved.read''] (Some [''logs:read'']) None,
     route_rule ''/alerts/list'' [''alert.event.read''] (Some [''alerts:read'']) None,
     route_rule ''/alerts/rules'' [''alert.rule.read''] (Some [''alerts:read'']) None,
     route_rule ''/alerts/notifications'' [''notification.channel.read_metadata''] (Some [''alerts:read'']) None,
     route_rule ''/alerts/silence'' [''alert.silence.read''] (Some [''alerts:read'']) None,
     route_rule ''/incidents/list'' [''incident.read''] (Some [''incidents:read'']) None,
     route_rule ''/incidents/detail/:id'' [''incident.read''] (Some [''incidents:read'']) (Some ''/incidents/list''),
     route_rule ''/incidents/timeline'' [''incident.timeline.read''] (Some [''incidents:read'']) None,
     route_rule ''/incidents/analysis'' [''incident.analysis.read''] (Some [''incidents:read'']) None,
     route_rule ''/incidents/sla'' [''incident.sla.read''] (Some [''incidents:read'']) None,
     route_rule ''/incidents/archive'' [''incident.archive.read''] (Some [''incidents:read'']) None,
     route_rule ''/incidents/archive/report/:id'' [''incident.archive.read''] (Some [''incidents:read'']) (Some ''/incidents/archive''),
     route_rule ''/ingestion/sources'' [''ingest.source.read''] None None,
     route_rule ''/ingestion/agents'' [''agent.read''] None None,
     route_rule ''/ingestion/wizard'' [''ingest.source.read''] None None,
     route_rule ''/ingestion/status'' [''ingest.task.read''] (Some [''metrics:read'']) None,
     route_rule ''/storage/indices'' [''storage.index.read''] None None,
     route_rule ''/storage/ilm'' [''data.retention.read''] None None,
     route_rule ''/storage/backup'' [''backup.read''] None None,
     route_rule ''/storage/capacity'' [''storage.capacity.read''] (Some [''metrics:read'']) None,
     route_rule ''/performance/monitoring'' [''metric.read''] (Some [''metrics:read'']) None,
     route_rule ''/performance/health'' [''ops.health.read''] (Some [''metrics:read'']) None,
     route_rule ''/reports/management'' [''report.read'', ''query.saved.read''] None None,
     route_rule ''/reports/downloads'' [''report.download.read''] (Some [''logs:export'']) None,
     route_rule ''/security/users'' [''iam.user.read''] (Some [''users:read'']) None,
     route_rule ''/security/roles'' [''iam.role.read''] (Some [''users:read'']) None,
     route_rule ''/security/audit'' [''audit.log.read''] (Some [''audit:read'']) None,
     route_rule ''/security/login-policy'' [''auth.login_policy.read''] None None,
     route_rule ''/integration/webhook'' [''integration.webhook.read_metadata'', ''notification.channel.read_metadata''] (Some [''alerts:read'']) None,
     route_rule ''/help/faq'' [''help.read''] (Some [''dashboards:read'', ''logs:read'']) None]"

section \<open>Decisions\<close>

definition hasWildcard :: "string list \<Rightarrow> bool" where
  "hasWildcard values \<longleftrightarrow> ''*'' \<in> set values"

definition normalizeValues :: "string list \<Rightarrow> string list" where
  "normalizeValues values = filter (\<lambda>v. v \<noteq> []) (map trim values)"

definition findRouteAuthorizationRule ::
    "(string \<Rightarrow> string \<Rightarrow> bool) \<Rightarrow> string \<Rightarrow> route_authorization_rule option" where
  "findRouteAuthorizationRule mp pathname =
     find (\<lambda>rule. mp (path rule) pathname) ROUTE_AUTHORIZATION_RULES"

definition hasAnyCapability :: "string list \<Rightarrow> string list \<Rightarrow> bool" where
  "hasAnyCapability caps required =
     (if required = [] then True
      else let normalized = normalizeValues caps
           in if hasWildcard normalized then True
              else list_ex (\<lambda>c. c \<in> set normalized) required)"

definition hasAnyLegacyPermission :: "string list \<Rightarrow> string list option \<Rightarrow> bool" where
  "hasAnyLegacyPermission perms required =
     (case required of
        None \<Rightarrow> False
      | Some req \<Rightarrow>
          if req = [] then False
          else let normalized = normalizeValues perms
               in if hasWildcard normalized then True
                  else list_ex (\<lambda>p. p \<in> set normalized) req)"

definition canAccessRoute :: "(string \<Rightarrow> string \<Rightarrow> bool) \<Rightarrow> string \<Rightarrow> 'a authz_scheme \<Rightarrow> bool" where
  "canAccessRoute mp pathname auth =
     (case findRouteAuthorizationRule mp pathname of
        None \<Rightarrow> True
      | Some rule \<Rightarrow>
          hasAnyCapability (capabilities auth) (requiredCapabilities rule)
          \<or> hasAnyLegacyPermission (permissions auth) (legacyPermissions rule))"

definition findFirstAccessiblePath ::
    "(string \<Rightarrow> string \<Rightarrow> bool) \<Rightarrow> 'a authz_scheme \<Rightarrow> string option" where
  "findFirstAccessiblePath mp auth =
     map_option path
       (find (\<lambda>rule. canAccessRoute mp (path rule) auth)
         (filter (\<lambda>rule. \<not> js_includes (path rule) '':'') ROUTE_AUTHORIZATION_RULES))"

record route_access =
  allowed :: bool
  redirect :: "string option"

definition evaluateRouteAccess ::
    "(string \<Rightarrow> string \<Rightarrow> bool) \<Rightarrow> string \<Rightarrow> 'a authz_scheme \<Rightarrow> route_access" where
  "evaluateRouteAccess mp pathname auth =
     (case findRouteAuthorizationRule mp pathname of
        None \<Rightarrow> \<lparr>allowed = True, redirect = None\<rparr>
      | Some rule \<Rightarrow>
          if canAccessRoute mp pathname auth then \<lparr>allowed = True, redirect = None\<rparr>
          else
            (case fallbackPath rule of
               Some p \<Rightarrow>
                 if p \<noteq> [] \<and> canAccessRoute mp p auth then \<lparr>allowed = False, redirect = Some p\<rparr>
                 else \<lparr>allowed = False, redirect = findFirstAccessiblePath mp auth\<rparr>
             | None \<Rightarrow> \<lparr>allowed = False, redirect = findFirstAccessiblePath mp auth\<rparr>))"

section \<open>Lemmas on the decisions\<close>

text \<open>One snapshot grants at most what another grants.\<close>

definition authz_le :: "'a authz_scheme \<Rightarrow> 'b authz_scheme \<Rightarrow> bool" where
  "authz_le a b \<longleftrightarrow>
     set (permissions a) \<subseteq> set (permissions b) \<and> set (capabilities a) \<subseteq> set (capabilities b)"

lemma set_normalizeValues: "set (normalizeValues vs) = trim ` set vs - {[]}"
  by (auto simp: normalizeValues_def)

lemma normalizeValues_mono: "set a \<subseteq> set b \<Longrightarrow> set (normalizeValues a) \<subseteq> set (normalizeValues b)"
  by (auto simp: set_normalizeValues)

lemma normalizeValues_idem: "normalizeValues (normalizeValues vs) = normalizeValues vs"
  by (induction vs) (auto simp: normalizeValues_def)

lemma hasAnyCapability_iff:
  "hasAnyCapability caps req \<longleftrightarrow>
     req = [] \<or> ''*'' \<in> set (normalizeValues caps) \<or> set req \<inter> set (normalizeValues caps) \<noteq> {}"
  by (auto simp: hasAnyCapability_def hasWildcard_def Let_def list_ex_iff)

lemma hasAnyLegacyPermission_iff:
  "hasAnyLegacyPermission perms req \<longleftrightarrow>
     (\<exists>r. req = Some r \<and> r \<noteq> [] \<and>
        (''*'' \<in> set (normalizeValues perms) \<or> set r \<inter> set (normalizeValues perms) \<noteq> {}))"
  by (auto simp: hasAnyLegacyPermission_def hasWildcard_def Let_def list_ex_iff split: option.splits)

lemma hasAnyCapability_mono:
  "hasAnyCapability a req \<Longrightarrow> set a \<subseteq> set b \<Longrightarrow> hasAnyCapability b req"
  using normalizeValues_mono [of a b] by (auto simp: hasAnyCapability_iff)

lemma hasAnyLegacyPermission_mono:
  "hasAnyLegacyPermission a req \<Longrightarrow> set a \<subseteq> set b \<Longrightarrow> hasAnyLegacyPermission b req"
  using normalizeValues_mono [of a b] by (auto simp: hasAnyLegacyPermission_iff)

lemma trim_star [simp]: "trim ''*'' = ''*''"
  by (rule trim_plain) (simp add: plain_ends_def plain_char_def ascii_ws_def)

lemma hasAnyCapability_wildcard: "''*'' \<in> set caps \<Longrightarrow> hasAnyCapability caps req"
  by (auto simp: hasAnyCapability_iff set_normalizeValues image_iff intro!: bexI [of _ "''*''"])

text \<open>
  What every access decision of the program promises: granting more never takes an access away,
  and the holder of the capability wildcard passes every check. The lemmas are what pages build
  from a check: a page's action flags, their disjunction (\<open>hasAnyWriteAccess\<close>) and its negation
  (\<open>isReadOnly\<close>).
\<close>

locale access_check =
  fixes check :: "authz \<Rightarrow> 'r \<Rightarrow> bool"
  assumes check_mono: "authz_le a b \<Longrightarrow> check a r \<Longrightarrow> check b r"
    and check_wildcard: "''*'' \<in> set (capabilities a) \<Longrightarrow> check a r"
begin

lemma any_mono: "authz_le a b \<Longrightarrow> list_ex (check a) rs \<Longrightarrow> list_ex (check b) rs"
  by (auto simp: list_ex_iff intro: check_mono)

lemma read_only_antimono: "authz_le a b \<Longrightarrow> \<not> list_ex (check b) rs \<Longrightarrow> \<not> list_ex (check a) rs"
  using any_mono by blast

lemma all_wildcard: "''*'' \<in> set (capabilities a) \<Longrightarrow> list_all (check a) rs"
  by (simp add: list_all_iff check_wildcard)

lemma filter_mono: "authz_le a b \<Longrightarrow> set (filter (check a) rs) \<subseteq> set (filter (check b) rs)"
  by (auto intro: check_mono)

lemma filter_wildcard: "''*'' \<in> set (capabilities a) \<Longrightarrow> filter (check a) rs = rs"
  by (simp add: check_wildcard)

end

interpretation cap: access_check "\<lambda>a. hasAnyCapability (capabilities a)"
  by unfold_locales (auto simp: authz_le_def intro: hasAnyCapability_mono hasAnyCapability_wildcard)

lemma canAccessRoute_mono:
  assumes "authz_le a b" and "canAccessRoute mp p a"
  shows "canAccessRoute mp p b"
  using assms hasAnyCapability_mono [of "capabilities a"] hasAnyLegacyPermission_mono [of "permissions a"]
  by (auto simp: canAccessRoute_def authz_le_def split: option.splits)

lemma canAccessRoute_wildcard: "''*'' \<in> set (capabilities a) \<Longrightarrow> canAccessRoute mp p a"
  by (auto simp: canAccessRoute_def hasAnyCapability_wildcard split: option.split)

interpretation route: access_check "\<lambda>a p. canAccessRoute mp p a" for mp
  by unfold_locales (auto intro: canAccessRoute_mono canAccessRoute_wildcard)

lemma findFirstAccessiblePath_accessible:
  "findFirstAccessiblePath mp auth = Some p \<Longrightarrow> canAccessRoute mp p auth"
  by (auto simp: findFirstAccessiblePath_def find_Some_iff)

lemma evaluateRouteAccess_allowed: "allowed (evaluateRouteAccess mp p auth) \<longleftrightarrow> canAccessRoute mp p auth"
  by (auto simp: evaluateRouteAccess_def canAccessRoute_def split: option.splits)

lemma evaluateRouteAccess_redirect:
  "redirect (evaluateRouteAccess mp p auth) = Some q \<Longrightarrow> canAccessRoute mp q auth"
  by (auto simp: evaluateRouteAccess_def findFirstAccessiblePath_accessible
      split: option.splits if_splits)

text \<open>
  The documented behaviour of \<open>matchPath\<close> the registry relies on: a pattern without parameters
  matches the path name equal to it.
\<close>

definition static_match :: "(string \<Rightarrow> string \<Rightarrow> bool) \<Rightarrow> bool" where
  "static_match mp \<longleftrightarrow> (\<forall>p. \<not> js_includes p '':'' \<and> \<not> js_includes p ''*'' \<longrightarrow> mp p p)"

text \<open>Every registered route asks for at least one capability.\<close>

lemma rules_guarded: "r \<in> set ROUTE_AUTHORIZATION_RULES \<Longrightarrow> requiredCapabilities r \<noteq> []"
  by (auto simp: ROUTE_AUTHORIZATION_RULES_def route_rule_def)

lemma rules_paths_distinct: "distinct (map path ROUTE_AUTHORIZATION_RULES)"
  by (simp add: ROUTE_AUTHORIZATION_RULES_def route_rule_def)

text \<open>A session without any grant gets into no registered route.\<close>

lemma registered_needs_grant:
  assumes "findRouteAuthorizationRule mp p = Some r" and "permissions a = []" and "capabilities a = []"
  shows "\<not> canAccessRoute mp p a"
proof -
  have "r \<in> set ROUTE_AUTHORIZATION_RULES"
    using assms(1) by (auto simp: findRouteAuthorizationRule_def find_Some_iff)
  then have "requiredCapabilities r \<noteq> []" by (rule rules_guarded)
  with assms show ?thesis
    by (simp add: canAccessRoute_def hasAnyCapability_iff hasAnyLegacyPermission_iff set_normalizeValues)
qed

lemma findFirstAccessiblePath_None:
  assumes "findFirstAccessiblePath mp auth = None" and "r \<in> set ROUTE_AUTHORIZATION_RULES"
    and "\<not> js_includes (path r) '':''"
  shows "\<not> canAccessRoute mp (path r) auth"
  using assms by (auto simp: findFirstAccessiblePath_def find_None_iff)

lemma evaluateRouteAccess_stuck:
  "\<not> allowed (evaluateRouteAccess mp p auth) \<Longrightarrow> redirect (evaluateRouteAccess mp p auth) = None \<Longrightarrow>
     findFirstAccessiblePath mp auth = None"
  by (auto simp: evaluateRouteAccess_def split: option.splits if_splits)

section \<open>Properties\<close>

text \<open>C6: A refused navigation is redirected to another path, one the session may open, so the
  redirection is not refused in turn; and a refusal without a redirection is given only to a session
  that can open no registered page (whose address has no parameter).\<close>

theorem redirect_sound_and_complete:
  assumes "\<not> allowed (evaluateRouteAccess mp p auth)"
  shows "(case redirect (evaluateRouteAccess mp p auth) of
            Some q \<Rightarrow> q \<noteq> p \<and> evaluateRouteAccess mp q auth = \<lparr>allowed = True, redirect = None\<rparr>
          | None \<Rightarrow> list_all (\<lambda>r. js_includes (path r) '':'' \<or> \<not> canAccessRoute mp (path r) auth)
                      ROUTE_AUTHORIZATION_RULES)"
proof (cases "redirect (evaluateRouteAccess mp p auth)")
  case None
  then have "findFirstAccessiblePath mp auth = None" using assms evaluateRouteAccess_stuck by blast
  with None show ?thesis by (auto simp: list_all_iff dest: findFirstAccessiblePath_None)
next
  case (Some q)
  then have q: "canAccessRoute mp q auth" by (rule evaluateRouteAccess_redirect)
  then have "q \<noteq> p" using assms by (auto simp: evaluateRouteAccess_allowed)
  with q Some show ?thesis by (auto simp: evaluateRouteAccess_def split: option.split)
qed

lemma bookmark_redirect:
  "evaluateRouteAccess (=) ''/search/bookmark'' \<lparr>permissions = [''metrics:read''], capabilities = []\<rparr>
     = \<lparr>allowed = False, redirect = Some ''/ingestion/status''\<rparr>"
  by code_simp

theorem redirect_sound_and_complete_witness:
  "evaluateRouteAccess (=) ''/ingestion/status'' \<lparr>permissions = [''metrics:read''], capabilities = []\<rparr>
     = \<lparr>allowed = True, redirect = None\<rparr>"
  using redirect_sound_and_complete [of "(=)" "''/search/bookmark''"
      "\<lparr>permissions = [''metrics:read''], capabilities = []\<rparr>"] bookmark_redirect
  by simp

text \<open>C7: Access is monotone and guarded: a session with at least the grants of another opens every
  path the other opens; a session holding the capability \<open>*\<close> opens every path; and a registered path
  is closed to a session without any grant.\<close>

theorem route_access_monotone:
  assumes "authz_le a b" and "canAccessRoute mp p a"
  shows "canAccessRoute mp p b
    \<and> canAccessRoute mp q \<lparr>permissions = permissions a, capabilities = ''*'' # capabilities a\<rparr>
    \<and> (findRouteAuthorizationRule mp p = None
       \<or> \<not> canAccessRoute mp p \<lparr>permissions = [], capabilities = []\<rparr>)"
proof -
  have "findRouteAuthorizationRule mp p = None
      \<or> \<not> canAccessRoute mp p \<lparr>permissions = [], capabilities = []\<rparr>"
    by (cases "findRouteAuthorizationRule mp p") (simp_all add: registered_needs_grant)
  then show ?thesis
    using canAccessRoute_mono [OF assms] by (simp add: canAccessRoute_wildcard)
qed

theorem route_access_monotone_witness:
  "canAccessRoute (=) ''/ingestion/status'' \<lparr>permissions = [''alerts:read'', ''metrics:read''], capabilities = []\<rparr>"
proof -
  let ?a = "\<lparr>permissions = [''metrics:read''], capabilities = []\<rparr>"
  let ?b = "\<lparr>permissions = [''alerts:read'', ''metrics:read''], capabilities = []\<rparr>"
  have "authz_le ?a ?b" by (simp add: authz_le_def)
  moreover have "canAccessRoute (=) ''/ingestion/status'' ?a"
    by (rule evaluateRouteAccess_redirect [of _ "''/search/bookmark''"]) (simp only: bookmark_redirect route_access.simps)
  ultimately show ?thesis using route_access_monotone by blast
qed

end
