(* ===== verification/Zh_Text.thy ===== *)
theory Zh_Text
  imports Js_String
begin

text \<open>
  The Chinese literals of the program, as the UTF-8 bytes of their code points, so that the model's
  texts are those of the code. Each constant says what the text means.
\<close>

text \<open>The session lacks (with a trailing space).\<close>

definition zh_session_lacks :: string where
  "zh_session_lacks =
    utf8 [0x5F53, 0x524D, 0x4F1A, 0x8BDD, 0x7F3A, 0x5C11] @ '' ''"

text \<open>Capability (with a leading space).\<close>

definition zh_ability :: string where
  "zh_ability =
    '' '' @ utf8 [0x80FD, 0x529B]"

text \<open>Page access capability (with a leading space).\<close>

definition zh_page_ability :: string where
  "zh_page_ability =
    '' '' @ utf8 [0x9875, 0x9762, 0x8BBF, 0x95EE, 0x80FD, 0x529B]"

text \<open>Monitoring and search.\<close>

definition zh_monitor_section :: string where
  "zh_monitor_section =
    utf8 [0x76D1, 0x63A7, 0x4E0E, 0x68C0, 0x7D22]"

text \<open>Overview.\<close>

definition zh_overview :: string where
  "zh_overview =
    utf8 [0x6982, 0x89C8]"

text \<open>Log search.\<close>

definition zh_log_search :: string where
  "zh_log_search =
    utf8 [0x65E5, 0x5FD7, 0x68C0, 0x7D22]"

text \<open>Realtime search.\<close>

definition zh_realtime_search :: string where
  "zh_realtime_search =
    utf8 [0x5B9E, 0x65F6, 0x68C0, 0x7D22]"

text \<open>Query history.\<close>

definition zh_query_history :: string where
  "zh_query_history =
    utf8 [0x67E5, 0x8BE2, 0x5386, 0x53F2]"

text \<open>Saved queries.\<close>

definition zh_saved_queries :: string where
  "zh_saved_queries =
    utf8 [0x6536, 0x85CF, 0x67E5, 0x8BE2]"

text \<open>Alert centre.\<close>

definition zh_alert_center :: string where
  "zh_alert_center =
    utf8 [0x544A, 0x8B66, 0x4E2D, 0x5FC3]"

text \<open>Alert list.\<close>

definition zh_alert_list :: string where
  "zh_alert_list =
    utf8 [0x544A, 0x8B66, 0x5217, 0x8868]"

text \<open>Alert rules.\<close>

definition zh_alert_rules :: string where
  "zh_alert_rules =
    utf8 [0x544A, 0x8B66, 0x89C4, 0x5219]"

text \<open>Notification settings.\<close>

definition zh_notification_config :: string where
  "zh_notification_config =
    utf8 [0x901A, 0x77E5, 0x914D, 0x7F6E]"

text \<open>Silence policies.\<close>

definition zh_silence_policy :: string where
  "zh_silence_policy =
    utf8 [0x9759, 0x9ED8, 0x7B56, 0x7565]"

text \<open>Incident management.\<close>

definition zh_incident_mgmt :: string where
  "zh_incident_mgmt =
    utf8 [0x4E8B, 0x4EF6, 0x7BA1, 0x7406]"

text \<open>Incident list.\<close>

definition zh_incident_list :: string where
  "zh_incident_list =
    utf8 [0x4E8B, 0x4EF6, 0x5217, 0x8868]"

text \<open>Full timeline.\<close>

definition zh_full_timeline :: string where
  "zh_full_timeline =
    utf8 [0x5168, 0x6D41, 0x7A0B, 0x65F6, 0x95F4, 0x7EBF]"

text \<open>Root cause analysis.\<close>

definition zh_root_cause :: string where
  "zh_root_cause =
    utf8 [0x6839, 0x56E0, 0x5206, 0x6790]"

text \<open>SLA monitoring.\<close>

definition zh_sla_monitor :: string where
  "zh_sla_monitor =
    ''SLA '' @ utf8 [0x76D1, 0x63A7]"

text \<open>Archive management.\<close>

definition zh_archive_mgmt :: string where
  "zh_archive_mgmt =
    utf8 [0x5F52, 0x6863, 0x7BA1, 0x7406]"

text \<open>Data ingestion.\<close>

definition zh_data_ingest :: string where
  "zh_data_ingest =
    utf8 [0x6570, 0x636E, 0x63A5, 0x5165]"

text \<open>Collection and ingestion.\<close>

definition zh_collect :: string where
  "zh_collect =
    utf8 [0x91C7, 0x96C6, 0x4E0E, 0x63A5, 0x5165]"

text \<open>Source management.\<close>

definition zh_source_mgmt :: string where
  "zh_source_mgmt =
    utf8 [0x91C7, 0x96C6, 0x6E90, 0x7BA1, 0x7406]"

text \<open>Agent management.\<close>

definition zh_agent_mgmt :: string where
  "zh_agent_mgmt =
    ''Agent '' @ utf8 [0x7BA1, 0x7406]"

text \<open>Ingestion wizard.\<close>

definition zh_access_wizard :: string where
  "zh_access_wizard =
    utf8 [0x63A5, 0x5165, 0x5411, 0x5BFC]"

text \<open>Source status.\<close>

definition zh_source_status :: string where
  "zh_source_status =
    utf8 [0x6570, 0x636E, 0x6E90, 0x72B6, 0x6001]"

text \<open>Storage and performance.\<close>

definition zh_storage_perf :: string where
  "zh_storage_perf =
    utf8 [0x5B58, 0x50A8, 0x4E0E, 0x6027, 0x80FD]"

text \<open>Indices and storage.\<close>

definition zh_index_storage :: string where
  "zh_index_storage =
    utf8 [0x7D22, 0x5F15, 0x4E0E, 0x5B58, 0x50A8]"

text \<open>Index management.\<close>

definition zh_index_mgmt :: string where
  "zh_index_mgmt =
    utf8 [0x7D22, 0x5F15, 0x7BA1, 0x7406]"

text \<open>Life cycle ILM.\<close>

definition zh_ilm :: string where
  "zh_ilm =
    utf8 [0x751F, 0x547D, 0x5468, 0x671F] @ '' ILM''"

text \<open>Backup and recovery.\<close>

definition zh_backup :: string where
  "zh_backup =
    utf8 [0x5907, 0x4EFD, 0x4E0E, 0x6062, 0x590D]"

text \<open>Capacity monitoring.\<close>

definition zh_capacity :: string where
  "zh_capacity =
    utf8 [0x5BB9, 0x91CF, 0x76D1, 0x63A7]"

text \<open>Performance and availability.\<close>

definition zh_perf_ha :: string where
  "zh_perf_ha =
    utf8 [0x6027, 0x80FD, 0x4E0E, 0x9AD8, 0x53EF, 0x7528]"

text \<open>Performance monitoring.\<close>

definition zh_perf_monitor :: string where
  "zh_perf_monitor =
    utf8 [0x6027, 0x80FD, 0x76D1, 0x63A7]"

text \<open>Health check.\<close>

definition zh_health :: string where
  "zh_health =
    utf8 [0x5065, 0x5EB7, 0x68C0, 0x67E5]"

text \<open>Observability extensions.\<close>

definition zh_observability :: string where
  "zh_observability =
    utf8 [0x53EF, 0x89C2, 0x6D4B, 0x6027, 0x6269, 0x5C55]"

text \<open>Report centre.\<close>

definition zh_report_center :: string where
  "zh_report_center =
    utf8 [0x62A5, 0x8868, 0x4E2D, 0x5FC3]"

text \<open>Report management.\<close>

definition zh_report_mgmt :: string where
  "zh_report_mgmt =
    utf8 [0x62A5, 0x8868, 0x7BA1, 0x7406]"

text \<open>Download records.\<close>

definition zh_downloads :: string where
  "zh_downloads =
    utf8 [0x4E0B, 0x8F7D, 0x8BB0, 0x5F55]"

text \<open>Platform and administration.\<close>

definition zh_platform :: string where
  "zh_platform =
    utf8 [0x5E73, 0x53F0, 0x4E0E, 0x7BA1, 0x7406]"

text \<open>Security and audit.\<close>

definition zh_security_audit :: string where
  "zh_security_audit =
    utf8 [0x5B89, 0x5168, 0x4E0E, 0x5BA1, 0x8BA1]"

text \<open>User management.\<close>

definition zh_users :: string where
  "zh_users =
    utf8 [0x7528, 0x6237, 0x7BA1, 0x7406]"

text \<open>Role permissions.\<close>

definition zh_roles :: string where
  "zh_roles =
    utf8 [0x89D2, 0x8272, 0x6743, 0x9650]"

text \<open>Audit log.\<close>

definition zh_audit_log :: string where
  "zh_audit_log =
    utf8 [0x5BA1, 0x8BA1, 0x65E5, 0x5FD7]"

text \<open>Login policy.\<close>

definition zh_login_policy :: string where
  "zh_login_policy =
    utf8 [0x767B, 0x5F55, 0x7B56, 0x7565]"

text \<open>Integration platform.\<close>

definition zh_integration :: string where
  "zh_integration =
    utf8 [0x96C6, 0x6210, 0x4E0E, 0x5F00, 0x653E, 0x5E73, 0x53F0]"

text \<open>System configuration.\<close>

definition zh_system_config :: string where
  "zh_system_config =
    utf8 [0x7CFB, 0x7EDF, 0x914D, 0x7F6E]"

text \<open>Help centre.\<close>

definition zh_help :: string where
  "zh_help =
    utf8 [0x5E2E, 0x52A9, 0x4E2D, 0x5FC3]"

text \<open>No permission to grant roles.\<close>

definition zh_no_role_grant :: string where
  "zh_no_role_grant =
    utf8 [0x5F53, 0x524D, 0x4F1A, 0x8BDD, 0x7F3A, 0x5C11, 0x7528, 0x6237, 0x89D2, 0x8272,
      0x6388, 0x4E88, 0x6743, 0x9650]"

text \<open>No permission to revoke roles.\<close>

definition zh_no_role_revoke :: string where
  "zh_no_role_revoke =
    utf8 [0x5F53, 0x524D, 0x4F1A, 0x8BDD, 0x7F3A, 0x5C11, 0x7528, 0x6237, 0x89D2, 0x8272,
      0x79FB, 0x9664, 0x6743, 0x9650]"

text \<open>No full permission to change roles.\<close>

definition zh_no_role_change :: string where
  "zh_no_role_change =
    utf8 [0x5F53, 0x524D, 0x4F1A, 0x8BDD, 0x7F3A, 0x5C11, 0x5B8C, 0x6574, 0x7684, 0x89D2,
      0x8272, 0x8C03, 0x6574, 0x6743, 0x9650]"

text \<open>Reserved by the system.\<close>

definition zh_reserved_tag :: string where
  "zh_reserved_tag =
    utf8 [0x7CFB, 0x7EDF, 0x4FDD, 0x7559]"

text \<open>Test account.\<close>

definition zh_test_account :: string where
  "zh_test_account =
    utf8 [0x6D4B, 0x8BD5, 0x8D26, 0x53F7]"

text \<open>Account reserved by the system.\<close>

definition zh_reserved_account :: string where
  "zh_reserved_account =
    utf8 [0x7CFB, 0x7EDF, 0x4FDD, 0x7559, 0x8D26, 0x53F7]"

text \<open>Tooltip of the reserved tag.\<close>

definition zh_reserved_tag_desc :: string where
  "zh_reserved_tag_desc =
    utf8 [0x7CFB, 0x7EDF, 0x4FDD, 0x7559, 0x8D26, 0x53F7, 0xFF0C, 0x4EC5, 0x7528, 0x4E8E,
      0x5E73, 0x53F0, 0x7BA1, 0x7406, 0x6216, 0x81EA, 0x52A8, 0x5316, 0x5F52, 0x56E0, 0xFF0C,
      0x4E0D, 0x5EFA, 0x8BAE, 0x4F5C, 0x4E3A, 0x666E, 0x901A, 0x4E1A, 0x52A1, 0x7528, 0x6237,
      0x5904, 0x7406, 0x3002]"

text \<open>Tooltip of the test tag.\<close>

definition zh_test_tag_desc :: string where
  "zh_test_tag_desc =
    utf8 [0x8BE5, 0x8D26, 0x53F7, 0x7531] @ '' E2E/'' @ utf8 [0x8054, 0x8C03, 0x7528, 0x4F8B,
      0x521B, 0x5EFA, 0xFF0C, 0x5EFA, 0x8BAE, 0x5728, 0x9A8C, 0x8BC1, 0x5B8C, 0x6210, 0x540E,
      0x53CA, 0x65F6, 0x6E05, 0x7406, 0xFF0C, 0x907F, 0x514D, 0x4E0E, 0x771F, 0x5B9E, 0x4E1A,
      0x52A1, 0x8D26, 0x53F7, 0x6DF7, 0x6DC6, 0x3002]"

text \<open>Notice for a reserved account.\<close>

definition zh_reserved_notice :: string where
  "zh_reserved_notice =
    utf8 [0x8BE5, 0x8D26, 0x53F7, 0x7531, 0x7CFB, 0x7EDF, 0x6CBB, 0x7406, 0x89C4, 0x5219,
      0x4FDD, 0x62A4, 0xFF0C, 0x4EC5, 0x7528, 0x4E8E, 0x5E73, 0x53F0, 0x7BA1, 0x7406, 0x6216,
      0x81EA, 0x52A8, 0x5316, 0x5BA1, 0x8BA1, 0x5F52, 0x56E0, 0xFF0C, 0x4E0D, 0x652F, 0x6301,
      0x6309, 0x666E, 0x901A, 0x7528, 0x6237, 0x6D41, 0x7A0B, 0x5904, 0x7406, 0x3002]"

text \<open>Notice for a test account.\<close>

definition zh_test_notice :: string where
  "zh_test_notice =
    utf8 [0x8BE5, 0x8D26, 0x53F7, 0x7531] @ '' E2E/'' @ utf8 [0x8054, 0x8C03, 0x7528, 0x4F8B,
      0x521B, 0x5EFA, 0xFF0C, 0x4EC5, 0x7528, 0x4E8E, 0x81EA, 0x52A8, 0x5316, 0x9A8C, 0x8BC1,
      0x3002, 0x82E5, 0x5DF2, 0x5B8C, 0x6210, 0x9A8C, 0x8BC1, 0xFF0C, 0x5EFA, 0x8BAE, 0x5C3D,
      0x5FEB, 0x6E05, 0x7406, 0xFF0C, 0x907F, 0x514D, 0x5F71, 0x54CD, 0x7528, 0x6237, 0x7BA1,
      0x7406, 0x89C6, 0x56FE, 0x3002]"

text \<open>Full system access.\<close>

definition zh_role_full :: string where
  "zh_role_full =
    utf8 [0x5B8C, 0x6574, 0x7CFB, 0x7EDF, 0x8BBF, 0x95EE, 0x6743, 0x9650, 0xFF0C, 0x5305,
      0x62EC, 0x7528, 0x6237, 0x7BA1, 0x7406, 0x4E0E, 0x7CFB, 0x7EDF, 0x8BBE, 0x7F6E]"

text \<open>System administrator.\<close>

definition zh_role_sysadmin :: string where
  "zh_role_sysadmin =
    utf8 [0x7CFB, 0x7EDF, 0x7BA1, 0x7406, 0x5458, 0xFF0C, 0x5177, 0x5907, 0x7528, 0x6237,
      0x3001, 0x5BA1, 0x8BA1, 0x3001, 0x544A, 0x8B66, 0x3001, 0x4E8B, 0x4EF6, 0x4E0E, 0x76D1,
      0x63A7, 0x7BA1, 0x7406, 0x6743, 0x9650]"

text \<open>Operator access.\<close>

definition zh_role_operator :: string where
  "zh_role_operator =
    utf8 [0x8FD0, 0x7EF4, 0x8BBF, 0x95EE, 0xFF1A, 0x65E5, 0x5FD7, 0x68C0, 0x7D22, 0x3001,
      0x544A, 0x8B66, 0x7BA1, 0x7406, 0x3001, 0x4E8B, 0x4EF6, 0x5904, 0x7F6E, 0x4E0E, 0x76D1,
      0x63A7, 0x67E5, 0x770B]"

text \<open>Read-only access.\<close>

definition zh_role_viewer :: string where
  "zh_role_viewer =
    utf8 [0x53EA, 0x8BFB, 0x8BBF, 0x95EE, 0xFF1A, 0x67E5, 0x770B, 0x65E5, 0x5FD7, 0x3001,
      0x6982, 0x89C8, 0x4E0E, 0x76D1, 0x63A7, 0x6570, 0x636E]"

text \<open>Reserved super administrator.\<close>

definition zh_role_super :: string where
  "zh_role_super =
    utf8 [0x7CFB, 0x7EDF, 0x8D85, 0x7EA7, 0x7BA1, 0x7406, 0x5458, 0xFF08, 0x4FDD, 0x7559,
      0x89D2, 0x8272, 0xFF09, 0xFF0C, 0x4EC5, 0x5141, 0x8BB8, 0x552F, 0x4E00, 0x5F15, 0x5BFC,
      0x521B, 0x5EFA, 0x7528, 0x6237, 0x6301, 0x6709]"

text \<open>Reserved automation role.\<close>

definition zh_role_automation :: string where
  "zh_role_automation =
    utf8 [0x7CFB, 0x7EDF, 0x81EA, 0x52A8, 0x5316, 0x4FDD, 0x7559, 0x89D2, 0x8272, 0xFF0C,
      0x7528, 0x4E8E, 0x81EA, 0x52A8, 0x5316, 0x64CD, 0x4F5C, 0x4E0E, 0x5BA1, 0x8BA1, 0x5F52,
      0x56E0]"

text \<open>Administrator.\<close>

definition zh_name_admin :: string where
  "zh_name_admin =
    utf8 [0x7BA1, 0x7406, 0x5458]"

text \<open>System administrator (name).\<close>

definition zh_name_system_admin :: string where
  "zh_name_system_admin =
    utf8 [0x7CFB, 0x7EDF, 0x7BA1, 0x7406, 0x5458]"

text \<open>Operator (name).\<close>

definition zh_name_operator :: string where
  "zh_name_operator =
    utf8 [0x8FD0, 0x7EF4, 0x4EBA, 0x5458]"

text \<open>Read-only user (name).\<close>

definition zh_name_viewer :: string where
  "zh_name_viewer =
    utf8 [0x53EA, 0x8BFB, 0x7528, 0x6237]"

text \<open>Super administrator (name).\<close>

definition zh_name_super :: string where
  "zh_name_super =
    utf8 [0x7CFB, 0x7EDF, 0x8D85, 0x7EA7, 0x7BA1, 0x7406, 0x5458, 0xFF08, 0x4FDD, 0x7559,
      0x89D2, 0x8272, 0xFF09]"

text \<open>Automation (name).\<close>

definition zh_name_automation :: string where
  "zh_name_automation =
    utf8 [0x7CFB, 0x7EDF, 0x81EA, 0x52A8, 0x5316, 0x64CD, 0x4F5C, 0xFF08, 0x4FDD, 0x7559,
      0x89D2, 0x8272, 0xFF09]"

text \<open>Loading the user failed.\<close>

definition zh_user_detail_failed :: string where
  "zh_user_detail_failed =
    utf8 [0x83B7, 0x53D6, 0x7528, 0x6237, 0x8BE6, 0x60C5, 0x5931, 0x8D25]"

text \<open>Created, but no user id was returned.\<close>

definition zh_user_created_no_id :: string where
  "zh_user_created_no_id =
    utf8 [0x521B, 0x5EFA, 0x6210, 0x529F, 0x4F46, 0x672A, 0x8FD4, 0x56DE, 0x7528, 0x6237] @
      '' ID''"

text \<open>Loading the current user failed.\<close>

definition zh_me_failed :: string where
  "zh_me_failed =
    utf8 [0x83B7, 0x53D6, 0x5F53, 0x524D, 0x7528, 0x6237, 0x5931, 0x8D25]"

text \<open>Empty login policy response.\<close>

definition zh_policy_empty :: string where
  "zh_policy_empty =
    utf8 [0x767B, 0x5F55, 0x7B56, 0x7565, 0x54CD, 0x5E94, 0x4E3A, 0x7A7A]"

text \<open>Saved, but no login policy was returned.\<close>

definition zh_policy_saved_empty :: string where
  "zh_policy_saved_empty =
    utf8 [0x4FDD, 0x5B58, 0x6210, 0x529F, 0x4F46, 0x672A, 0x8FD4, 0x56DE, 0x767B, 0x5F55,
      0x7B56, 0x7565]"

text \<open>Created, but no incident id was returned.\<close>

definition zh_incident_created_no_id :: string where
  "zh_incident_created_no_id =
    utf8 [0x521B, 0x5EFA, 0x6210, 0x529F, 0x4F46, 0x672A, 0x8FD4, 0x56DE, 0x4E8B, 0x4EF6] @
      '' ID''"

text \<open>Report heading.\<close>

definition zh_report_title :: string where
  "zh_report_title =
    ''# '' @ utf8 [0x4E8B, 0x4EF6, 0x5F52, 0x6863, 0x62A5, 0x544A]"

text \<open>Section: basic data.\<close>

definition zh_report_basic :: string where
  "zh_report_basic =
    ''## '' @ utf8 [0x57FA, 0x672C, 0x4FE1, 0x606F]"

text \<open>Incident id.\<close>

definition zh_report_id :: string where
  "zh_report_id =
    ''- '' @ utf8 [0x4E8B, 0x4EF6] @ '' ID'' @ utf8 [0xFF1A]"

text \<open>Title.\<close>

definition zh_report_name :: string where
  "zh_report_name =
    ''- '' @ utf8 [0x6807, 0x9898, 0xFF1A]"

text \<open>Current status.\<close>

definition zh_report_status :: string where
  "zh_report_status =
    ''- '' @ utf8 [0x5F53, 0x524D, 0x72B6, 0x6001, 0xFF1A]"

text \<open>Severity.\<close>

definition zh_report_severity :: string where
  "zh_report_severity =
    ''- '' @ utf8 [0x4E25, 0x91CD, 0x7EA7, 0x522B, 0xFF1A]"

text \<open>Assignee.\<close>

definition zh_report_assignee :: string where
  "zh_report_assignee =
    ''- '' @ utf8 [0x8D1F, 0x8D23, 0x4EBA, 0xFF1A]"

text \<open>Unassigned.\<close>

definition zh_report_unassigned :: string where
  "zh_report_unassigned =
    utf8 [0x672A, 0x5206, 0x914D]"

text \<open>Creator.\<close>

definition zh_report_creator :: string where
  "zh_report_creator =
    ''- '' @ utf8 [0x521B, 0x5EFA, 0x4EBA, 0xFF1A]"

text \<open>Unknown.\<close>

definition zh_report_unknown :: string where
  "zh_report_unknown =
    utf8 [0x672A, 0x77E5]"

text \<open>Source alert.\<close>

definition zh_report_source :: string where
  "zh_report_source =
    ''- '' @ utf8 [0x6765, 0x6E90, 0x544A, 0x8B66, 0xFF1A]"

text \<open>Time of detection.\<close>

definition zh_report_detected :: string where
  "zh_report_detected =
    ''- '' @ utf8 [0x68C0, 0x6D4B, 0x65F6, 0x95F4, 0xFF1A]"

text \<open>Time of response.\<close>

definition zh_report_acked :: string where
  "zh_report_acked =
    ''- '' @ utf8 [0x54CD, 0x5E94, 0x65F6, 0x95F4, 0xFF1A]"

text \<open>Time of resolution.\<close>

definition zh_report_resolved :: string where
  "zh_report_resolved =
    ''- '' @ utf8 [0x89E3, 0x51B3, 0x65F6, 0x95F4, 0xFF1A]"

text \<open>Time of archiving.\<close>

definition zh_report_archived :: string where
  "zh_report_archived =
    ''- '' @ utf8 [0x5F52, 0x6863, 0x65F6, 0x95F4, 0xFF1A]"

text \<open>Response limit.\<close>

definition zh_report_sla_response :: string where
  "zh_report_sla_response =
    ''- SLA '' @ utf8 [0x54CD, 0x5E94, 0x65F6, 0x9650, 0xFF1A]"

text \<open>Resolution limit.\<close>

definition zh_report_sla_resolve :: string where
  "zh_report_sla_resolve =
    ''- SLA '' @ utf8 [0x89E3, 0x51B3, 0x65F6, 0x9650, 0xFF1A]"

text \<open>Minutes.\<close>

definition zh_report_minutes :: string where
  "zh_report_minutes =
    '' '' @ utf8 [0x5206, 0x949F]"

text \<open>Section: verdict.\<close>

definition zh_report_verdict :: string where
  "zh_report_verdict =
    ''## '' @ utf8 [0x7814, 0x5224, 0x7ED3, 0x8BBA]"

text \<open>No verdict.\<close>

definition zh_report_no_verdict :: string where
  "zh_report_no_verdict =
    utf8 [0x6682, 0x65E0, 0x7814, 0x5224, 0x7ED3, 0x8BBA]"

text \<open>Section: root cause.\<close>

definition zh_report_cause :: string where
  "zh_report_cause =
    ''## '' @ utf8 [0x6839, 0x56E0, 0x5206, 0x6790]"

text \<open>No root cause.\<close>

definition zh_report_no_cause :: string where
  "zh_report_no_cause =
    utf8 [0x6682, 0x65E0, 0x6839, 0x56E0, 0x5206, 0x6790]"

text \<open>Section: resolution.\<close>

definition zh_report_resolution :: string where
  "zh_report_resolution =
    ''## '' @ utf8 [0x5904, 0x7F6E, 0x65B9, 0x6848]"

text \<open>No resolution.\<close>

definition zh_report_no_resolution :: string where
  "zh_report_no_resolution =
    utf8 [0x6682, 0x65E0, 0x5904, 0x7F6E, 0x65B9, 0x6848]"

text \<open>Section: timeline.\<close>

definition zh_report_timeline :: string where
  "zh_report_timeline =
    ''## '' @ utf8 [0x5904, 0x7406, 0x65F6, 0x95F4, 0x7EBF]"

text \<open>No timeline.\<close>

definition zh_report_no_timeline :: string where
  "zh_report_no_timeline =
    ''- '' @ utf8 [0x6682, 0x65E0, 0x65F6, 0x95F4, 0x7EBF, 0x8BB0, 0x5F55]"

text \<open>Event time.\<close>

definition zh_report_ev_time :: string where
  "zh_report_ev_time =
    ''   - '' @ utf8 [0x65F6, 0x95F4, 0xFF1A]"

text \<open>Event operator.\<close>

definition zh_report_ev_operator :: string where
  "zh_report_ev_operator =
    ''   - '' @ utf8 [0x64CD, 0x4F5C, 0x4EBA, 0xFF1A]"

text \<open>System.\<close>

definition zh_report_system :: string where
  "zh_report_system =
    utf8 [0x7CFB, 0x7EDF]"

text \<open>Event title.\<close>

definition zh_report_ev_title :: string where
  "zh_report_ev_title =
    ''   - '' @ utf8 [0x6807, 0x9898, 0xFF1A]"

text \<open>Event description.\<close>

definition zh_report_ev_description :: string where
  "zh_report_ev_description =
    ''   - '' @ utf8 [0x63CF, 0x8FF0, 0xFF1A]"

text \<open>Generated at.\<close>

definition zh_report_generated :: string where
  "zh_report_generated =
    ''> '' @ utf8 [0x62A5, 0x544A, 0x751F, 0x6210, 0x65F6, 0x95F4, 0xFF1A]"

text \<open>Timeline label.\<close>

definition zh_ev_log_bundle_created :: string where
  "zh_ev_log_bundle_created =
    utf8 [0x65E5, 0x5FD7, 0x6253, 0x5305]"

text \<open>Timeline label.\<close>

definition zh_ev_log_bundle_pulled :: string where
  "zh_ev_log_bundle_pulled =
    utf8 [0x65E5, 0x5FD7, 0x62C9, 0x53D6]"

text \<open>Timeline label.\<close>

definition zh_ev_alert_triggered :: string where
  "zh_ev_alert_triggered =
    utf8 [0x544A, 0x8B66, 0x89E6, 0x53D1]"

text \<open>Timeline label.\<close>

definition zh_ev_incident_created :: string where
  "zh_ev_incident_created =
    utf8 [0x4E8B, 0x4EF6, 0x521B, 0x5EFA]"

text \<open>Timeline label.\<close>

definition zh_ev_incident_acked :: string where
  "zh_ev_incident_acked =
    utf8 [0x8FD0, 0x7EF4, 0x54CD, 0x5E94]"

text \<open>Timeline label.\<close>

definition zh_ev_assignment_updated :: string where
  "zh_ev_assignment_updated =
    utf8 [0x8D1F, 0x8D23, 0x4EBA, 0x53D8, 0x66F4]"

text \<open>Timeline label.\<close>

definition zh_ev_analysis_started :: string where
  "zh_ev_analysis_started =
    utf8 [0x5F00, 0x59CB, 0x5206, 0x6790]"

text \<open>Timeline label.\<close>

definition zh_ev_action_taken :: string where
  "zh_ev_action_taken =
    utf8 [0x5904, 0x7F6E, 0x52A8, 0x4F5C]"

text \<open>Timeline label.\<close>

definition zh_ev_incident_mitigated :: string where
  "zh_ev_incident_mitigated =
    utf8 [0x5DF2, 0x6B62, 0x635F]"

text \<open>Timeline label.\<close>

definition zh_ev_incident_resolved :: string where
  "zh_ev_incident_resolved =
    utf8 [0x5DF2, 0x89E3, 0x51B3]"

text \<open>Timeline label.\<close>

definition zh_ev_postmortem_completed :: string where
  "zh_ev_postmortem_completed =
    utf8 [0x590D, 0x76D8, 0x5B8C, 0x6210]"

text \<open>Timeline label.\<close>

definition zh_ev_incident_archived :: string where
  "zh_ev_incident_archived =
    utf8 [0x5DF2, 0x5F52, 0x6863]"

text \<open>Timeline label.\<close>

definition zh_ev_escalation :: string where
  "zh_ev_escalation =
    utf8 [0x5347, 0x7EA7, 0x901A, 0x77E5]"

text \<open>Timeline label.\<close>

definition zh_ev_comment :: string where
  "zh_ev_comment =
    utf8 [0x5907, 0x6CE8]"

text \<open>Root cause keyword.\<close>

definition zh_cause_config_1 :: string where
  "zh_cause_config_1 =
    utf8 [0x914D, 0x7F6E]"

text \<open>Root cause keyword.\<close>

definition zh_cause_config_2 :: string where
  "zh_cause_config_2 =
    utf8 [0x53C2, 0x6570]"

text \<open>Root cause keyword.\<close>

definition zh_cause_config_3 :: string where
  "zh_cause_config_3 =
    utf8 [0x8BC1, 0x4E66]"

text \<open>Root cause keyword.\<close>

definition zh_cause_config_4 :: string where
  "zh_cause_config_4 =
    utf8 [0x5BC6, 0x94A5]"

text \<open>Root cause keyword.\<close>

definition zh_cause_config_5 :: string where
  "zh_cause_config_5 =
    utf8 [0x6743, 0x9650]"

text \<open>Root cause keyword.\<close>

definition zh_cause_capacity_1 :: string where
  "zh_cause_capacity_1 =
    utf8 [0x5BB9, 0x91CF]"

text \<open>Root cause keyword.\<close>

definition zh_cause_capacity_2 :: string where
  "zh_cause_capacity_2 =
    utf8 [0x78C1, 0x76D8]"

text \<open>Root cause keyword.\<close>

definition zh_cause_capacity_3 :: string where
  "zh_cause_capacity_3 =
    utf8 [0x5185, 0x5B58]"

text \<open>Root cause keyword.\<close>

definition zh_cause_capacity_4 :: string where
  "zh_cause_capacity_4 =
    utf8 [0x8D1F, 0x8F7D]"

text \<open>Root cause keyword.\<close>

definition zh_cause_capacity_5 :: string where
  "zh_cause_capacity_5 =
    utf8 [0x5806]"

text \<open>Root cause keyword.\<close>

definition zh_cause_dependency_1 :: string where
  "zh_cause_dependency_1 =
    utf8 [0x4F9D, 0x8D56]"

text \<open>Root cause keyword.\<close>

definition zh_cause_dependency_2 :: string where
  "zh_cause_dependency_2 =
    utf8 [0x6570, 0x636E, 0x5E93]"

text \<open>Root cause keyword.\<close>

definition zh_cause_defect_1 :: string where
  "zh_cause_defect_1 =
    utf8 [0x4EE3, 0x7801]"

text \<open>Root cause keyword.\<close>

definition zh_cause_defect_2 :: string where
  "zh_cause_defect_2 =
    utf8 [0x7F3A, 0x9677]"

text \<open>Root cause keyword.\<close>

definition zh_cause_defect_3 :: string where
  "zh_cause_defect_3 =
    utf8 [0x5F02, 0x5E38, 0x903B, 0x8F91]"

text \<open>Root cause keyword.\<close>

definition zh_cause_security_1 :: string where
  "zh_cause_security_1 =
    utf8 [0x5B89, 0x5168]"

text \<open>Root cause keyword.\<close>

definition zh_cause_security_2 :: string where
  "zh_cause_security_2 =
    utf8 [0x653B, 0x51FB]"

text \<open>Root cause keyword.\<close>

definition zh_cause_security_3 :: string where
  "zh_cause_security_3 =
    utf8 [0x6F0F, 0x6D1E]"

text \<open>Root cause keyword.\<close>

definition zh_cause_security_4 :: string where
  "zh_cause_security_4 =
    utf8 [0x5165, 0x4FB5]"

text \<open>Root cause keyword.\<close>

definition zh_cause_network_1 :: string where
  "zh_cause_network_1 =
    utf8 [0x7F51, 0x7EDC]"

text \<open>Root cause keyword.\<close>

definition zh_cause_network_2 :: string where
  "zh_cause_network_2 =
    utf8 [0x8FDE, 0x63A5]"

text \<open>Root cause keyword.\<close>

definition zh_cause_network_3 :: string where
  "zh_cause_network_3 =
    utf8 [0x8D85, 0x65F6]"

text \<open>Root cause keyword.\<close>

definition zh_cause_network_4 :: string where
  "zh_cause_network_4 =
    utf8 [0x4E22, 0x5305]"

text \<open>Root cause keyword.\<close>

definition zh_cause_hardware_1 :: string where
  "zh_cause_hardware_1 =
    utf8 [0x786C, 0x4EF6]"

text \<open>Root cause keyword.\<close>

definition zh_cause_hardware_2 :: string where
  "zh_cause_hardware_2 =
    utf8 [0x4E3B, 0x673A]"

text \<open>Root cause keyword.\<close>

definition zh_cause_hardware_3 :: string where
  "zh_cause_hardware_3 =
    utf8 [0x8282, 0x70B9]"

text \<open>Root cause keyword.\<close>

definition zh_cause_hardware_4 :: string where
  "zh_cause_hardware_4 =
    utf8 [0x78C1, 0x76D8, 0x9635, 0x5217]"

text \<open>Root cause keyword.\<close>

definition zh_cause_hardware_5 :: string where
  "zh_cause_hardware_5 =
    utf8 [0x7535, 0x6E90]"

text \<open>Root cause label.\<close>

definition zh_cause_label_config :: string where
  "zh_cause_label_config =
    utf8 [0x914D, 0x7F6E, 0x9519, 0x8BEF]"

text \<open>Root cause label.\<close>

definition zh_cause_label_capacity :: string where
  "zh_cause_label_capacity =
    utf8 [0x5BB9, 0x91CF, 0x4E0D, 0x8DB3]"

text \<open>Root cause label.\<close>

definition zh_cause_label_dependency :: string where
  "zh_cause_label_dependency =
    utf8 [0x4F9D, 0x8D56, 0x6545, 0x969C]"

text \<open>Root cause label.\<close>

definition zh_cause_label_defect :: string where
  "zh_cause_label_defect =
    utf8 [0x4EE3, 0x7801, 0x7F3A, 0x9677]"

text \<open>Root cause label.\<close>

definition zh_cause_label_security :: string where
  "zh_cause_label_security =
    utf8 [0x5B89, 0x5168, 0x4E8B, 0x4EF6]"

text \<open>Root cause label.\<close>

definition zh_cause_label_network :: string where
  "zh_cause_label_network =
    utf8 [0x7F51, 0x7EDC, 0x95EE, 0x9898]"

text \<open>Root cause label.\<close>

definition zh_cause_label_hardware :: string where
  "zh_cause_label_hardware =
    utf8 [0x786C, 0x4EF6, 0x6545, 0x969C]"

text \<open>Root cause label.\<close>

definition zh_cause_label_unknown :: string where
  "zh_cause_label_unknown =
    utf8 [0x5F85, 0x8865, 0x5145]"

text \<open>Initial alert.\<close>

definition zh_alert_a1_title :: string where
  "zh_alert_a1_title =
    utf8 [0x78C1, 0x76D8, 0x7A7A, 0x95F4, 0x544A, 0x8B66]"

text \<open>Initial alert.\<close>

definition zh_alert_a1_msg :: string where
  "zh_alert_a1_msg =
    ''Node-03 '' @ utf8 [0x78C1, 0x76D8, 0x4F7F, 0x7528, 0x7387, 0x8D85, 0x8FC7] @ '' 85%''"

text \<open>Initial alert.\<close>

definition zh_alert_a2_title :: string where
  "zh_alert_a2_title =
    utf8 [0x5F02, 0x5E38, 0x9519, 0x8BEF, 0x7387]"

text \<open>Initial alert.\<close>

definition zh_alert_a2_msg :: string where
  "zh_alert_a2_msg =
    ''payment-service '' @ utf8 [0x9519, 0x8BEF, 0x7387, 0x98D9, 0x5347, 0x81F3] @ '' 12.3%''"

text \<open>Initial alert.\<close>

definition zh_alert_a3_title :: string where
  "zh_alert_a3_title =
    utf8 [0x8FDE, 0x63A5, 0x8D85, 0x65F6]"

text \<open>Initial alert.\<close>

definition zh_alert_a3_msg :: string where
  "zh_alert_a3_msg =
    ''ES '' @ utf8 [0x96C6, 0x7FA4] @ '' node-05 '' @ utf8 [0x54CD, 0x5E94, 0x8D85, 0x65F6] @
      '' 3 '' @ utf8 [0x6B21]"

text \<open>An em dash.\<close>

definition zh_dash :: string where
  "zh_dash =
    utf8 [0x2014]"

text \<open>Unnamed query.\<close>

definition zh_unnamed_query :: string where
  "zh_unnamed_query =
    utf8 [0x672A, 0x547D, 0x540D, 0x67E5, 0x8BE2]"

text \<open>The session is not authorized, sign in again.\<close>

definition zh_query_unauthorized :: string where
  "zh_query_unauthorized =
    utf8 [0x5F53, 0x524D, 0x4F1A, 0x8BDD, 0x672A, 0x6388, 0x6743, 0xFF0C, 0x8BF7, 0x91CD,
      0x65B0, 0x767B, 0x5F55]"

text \<open>Global.\<close>

definition zh_global :: string where
  "zh_global =
    utf8 [0x5168, 0x5C40]"

text \<open>Sudden drop of traffic.\<close>

definition zh_drop :: string where
  "zh_drop =
    utf8 [0x6D41, 0x91CF, 0x7A81, 0x964D]"

text \<open>Surge of logs.\<close>

definition zh_surge :: string where
  "zh_surge =
    utf8 [0x65E5, 0x5FD7, 0x91CF, 0x6FC0, 0x589E]"

text \<open>Abnormal error rate.\<close>

definition zh_error_rate :: string where
  "zh_error_rate =
    utf8 [0x5F02, 0x5E38, 0x9519, 0x8BEF, 0x7387]"

text \<open>Log volume is.\<close>

definition zh_volume_is :: string where
  "zh_volume_is =
    '' '' @ utf8 [0x7684, 0x65E5, 0x5FD7, 0x91CF, 0x4E3A] @ '' ''"

text \<open>Baseline about.\<close>

definition zh_baseline_about :: string where
  "zh_baseline_about =
    utf8 [0xFF0C, 0x57FA, 0x7EBF, 0x7EA6, 0x4E3A] @ '' ''"

text \<open>Full stop.\<close>

definition zh_full_stop :: string where
  "zh_full_stop =
    utf8 [0x3002]"

text \<open>Share of errors reaches.\<close>

definition zh_error_share :: string where
  "zh_error_share =
    '' '' @ utf8 [0x7684, 0x9519, 0x8BEF, 0x65E5, 0x5FD7, 0x5360, 0x6BD4, 0x8FBE, 0x5230] @
      '' ''"

text \<open>Above the baseline.\<close>

definition zh_above_baseline :: string where
  "zh_above_baseline =
    ''%'' @ utf8 [0xFF0C, 0x9AD8, 0x4E8E, 0x57FA, 0x7EBF] @ '' ''"

text \<open>Percent, full stop.\<close>

definition zh_percent_stop :: string where
  "zh_percent_stop =
    ''%'' @ utf8 [0x3002]"

text \<open>Advice on a drop.\<close>

definition zh_cause_drop :: string where
  "zh_cause_drop =
    utf8 [0x5F53, 0x524D, 0x65F6, 0x95F4, 0x6876, 0x65E5, 0x5FD7, 0x91CF, 0x663E, 0x8457,
      0x4F4E, 0x4E8E, 0x5386, 0x53F2, 0x57FA, 0x7EBF, 0xFF0C, 0x5EFA, 0x8BAE, 0x68C0, 0x67E5,
      0x91C7, 0x96C6, 0x94FE, 0x8DEF, 0x3001] @ ''Agent '' @ utf8 [0x5728, 0x7EBF, 0x72B6,
      0x6001, 0x548C, 0x4E0A, 0x6E38, 0x670D, 0x52A1, 0x6D41, 0x91CF, 0x3002]"

text \<open>Advice on a surge.\<close>

definition zh_cause_surge :: string where
  "zh_cause_surge =
    utf8 [0x5F53, 0x524D, 0x65F6, 0x95F4, 0x6876, 0x65E5, 0x5FD7, 0x91CF, 0x663E, 0x8457,
      0x9AD8, 0x4E8E, 0x5386, 0x53F2, 0x57FA, 0x7EBF, 0xFF0C, 0x5EFA, 0x8BAE, 0x68C0, 0x67E5,
      0x5F02, 0x5E38, 0x91CD, 0x8BD5, 0x3001, 0x6279, 0x91CF, 0x4EFB, 0x52A1, 0x6216, 0x566A,
      0x58F0, 0x65E5, 0x5FD7, 0x6FC0, 0x589E, 0x3002]"

text \<open>Advice on errors.\<close>

definition zh_cause_errors :: string where
  "zh_cause_errors =
    utf8 [0x9519, 0x8BEF, 0x7EA7, 0x522B, 0x65E5, 0x5FD7, 0x5360, 0x6BD4, 0x663E, 0x8457,
      0x5347, 0x9AD8, 0xFF0C, 0x5EFA, 0x8BAE, 0x7ED3, 0x5408, 0x805A, 0x7C7B, 0x5206, 0x6790,
      0x5B9A, 0x4F4D, 0x9AD8, 0x9891, 0x62A5, 0x9519, 0x6A21, 0x5F0F, 0x3002]"

text \<open>Computed from realtime logs.\<close>

definition zh_fb_realtime :: string where
  "zh_fb_realtime =
    utf8 [0x5DF2, 0x4F7F, 0x7528, 0x5B9E, 0x65F6, 0x65E5, 0x5FD7, 0x964D, 0x7EA7, 0x8BA1,
      0x7B97]"

text \<open>Computed from aggregate statistics.\<close>

definition zh_fb_aggregate :: string where
  "zh_fb_aggregate =
    utf8 [0x5DF2, 0x4F7F, 0x7528, 0x805A, 0x5408, 0x7EDF, 0x8BA1, 0x964D, 0x7EA7, 0x8BA1,
      0x7B97]"

text \<open>Fallback of aggregates.\<close>

definition zh_fb_agg_desc :: string where
  "zh_fb_agg_desc =
    utf8 [0x805A, 0x5408, 0x7EDF, 0x8BA1, 0x63A5, 0x53E3, 0x6682, 0x4E0D, 0x53EF, 0x7528,
      0xFF0C, 0x5F53, 0x524D, 0x7ED3, 0x679C, 0x7531, 0x5B9E, 0x65F6, 0x65E5, 0x5FD7, 0x547D,
      0x4E2D, 0x7ED3, 0x679C, 0x4E34, 0x65F6, 0x63A8, 0x5BFC, 0x751F, 0x6210, 0x3002]"

text \<open>Fallback of clusters.\<close>

definition zh_fb_cluster_desc :: string where
  "zh_fb_cluster_desc =
    utf8 [0x805A, 0x7C7B, 0x5206, 0x6790, 0x63A5, 0x53E3, 0x6682, 0x4E0D, 0x53EF, 0x7528,
      0xFF0C, 0x5F53, 0x524D, 0x6A21, 0x5F0F, 0x7ED3, 0x679C, 0x7531, 0x5B9E, 0x65F6, 0x65E5,
      0x5FD7, 0x547D, 0x4E2D, 0x7ED3, 0x679C, 0x4E34, 0x65F6, 0x63A8, 0x5BFC, 0x751F, 0x6210,
      0x3002]"

text \<open>Fallback of anomalies.\<close>

definition zh_fb_anomaly_rt_desc :: string where
  "zh_fb_anomaly_rt_desc =
    utf8 [0x5F02, 0x5E38, 0x68C0, 0x6D4B, 0x63A5, 0x53E3, 0x6682, 0x4E0D, 0x53EF, 0x7528,
      0xFF0C, 0x4E14, 0x805A, 0x5408, 0x7EDF, 0x8BA1, 0x5DF2, 0x56DE, 0x9000, 0x4E3A, 0x5B9E,
      0x65F6, 0x65E5, 0x5FD7, 0x63A8, 0x5BFC, 0xFF0C, 0x5F53, 0x524D, 0x5F02, 0x5E38, 0x7ED3,
      0x679C, 0x4E3A, 0x964D, 0x7EA7, 0x8BA1, 0x7B97, 0x7ED3, 0x679C, 0x3002]"

text \<open>Fallback of anomalies.\<close>

definition zh_fb_anomaly_agg_desc :: string where
  "zh_fb_anomaly_agg_desc =
    utf8 [0x5F02, 0x5E38, 0x68C0, 0x6D4B, 0x63A5, 0x53E3, 0x6682, 0x4E0D, 0x53EF, 0x7528,
      0xFF0C, 0x5F53, 0x524D, 0x5F02, 0x5E38, 0x7ED3, 0x679C, 0x7531, 0x805A, 0x5408, 0x7EDF,
      0x8BA1, 0x4E34, 0x65F6, 0x63A8, 0x5BFC, 0x751F, 0x6210, 0x3002]"

text \<open>Label of the level filter.\<close>

definition zh_filter_level :: string where
  "zh_filter_level =
    utf8 [0x7EA7, 0x522B]"

text \<open>Label of the service filter.\<close>

definition zh_filter_service :: string where
  "zh_filter_service =
    utf8 [0x6765, 0x6E90] @ ''/'' @ utf8 [0x670D, 0x52A1]"

text \<open>Label of the source filter.\<close>

definition zh_filter_source :: string where
  "zh_filter_source =
    utf8 [0x6765, 0x6E90]"

text \<open>Summary of grouped image entries.\<close>

definition zh_images_grouped :: string where
  "zh_images_grouped =
    utf8 [0x56FE, 0x7247, 0x8D44, 0x6E90, 0x65E5, 0x5FD7, 0x5DF2, 0x805A, 0x5408, 0xFF08]"

text \<open>Entries, in a summary.\<close>

definition zh_items_comma :: string where
  "zh_items_comma =
    '' '' @ utf8 [0x6761, 0xFF0C]"

text \<open>Examples, in a summary.\<close>

definition zh_examples :: string where
  "zh_examples =
    utf8 [0xFF0C, 0x793A, 0x4F8B, 0xFF1A]"

text \<open>The comma between enumerated names.\<close>

definition zh_enum_comma :: string where
  "zh_enum_comma =
    utf8 [0x3001]"

text \<open>And more.\<close>

definition zh_and_more :: string where
  "zh_and_more =
    '' '' @ utf8 [0x7B49]"

text \<open>A closing parenthesis.\<close>

definition zh_close_paren :: string where
  "zh_close_paren =
    utf8 [0xFF09]"

text \<open>Total, in a summary.\<close>

definition zh_total :: string where
  "zh_total =
    utf8 [0x5171] @ '' ''"

text \<open>Shown range, in a summary.\<close>

definition zh_showing :: string where
  "zh_showing =
    utf8 [0xFF08, 0x5F53, 0x524D, 0x663E, 0x793A, 0x7B2C] @ '' ''"

text \<open>Entries.\<close>

definition zh_unit_items :: string where
  "zh_unit_items =
    utf8 [0x6761]"

text \<open>Refreshing in the background.\<close>

definition zh_refreshing :: string where
  "zh_refreshing =
    utf8 [0x540E, 0x53F0, 0x5237, 0x65B0, 0x4E2D]"

text \<open>Loading.\<close>

definition zh_loading :: string where
  "zh_loading =
    utf8 [0x52A0, 0x8F7D, 0x4E2D]"

text \<open>No entry matches.\<close>

definition zh_no_match :: string where
  "zh_no_match =
    utf8 [0x5F53, 0x524D, 0x6761, 0x4EF6, 0x4E0B, 0x6CA1, 0x6709, 0x5339, 0x914D, 0x65E5,
      0x5FD7]"

text \<open>No entry in the chosen range.\<close>

definition zh_no_custom_range :: string where
  "zh_no_custom_range =
    utf8 [0x6240, 0x9009, 0x65F6, 0x95F4, 0x8303, 0x56F4, 0x6682, 0x65E0, 0x65E5, 0x5FD7]"

text \<open>No entry at all.\<close>

definition zh_no_all_range :: string where
  "zh_no_all_range =
    utf8 [0x5168, 0x90E8, 0x65F6, 0x95F4, 0x8303, 0x56F4, 0x6682, 0x65E0, 0x65E5, 0x5FD7]"

text \<open>No entry in the current range.\<close>

definition zh_no_range :: string where
  "zh_no_range =
    utf8 [0x5F53, 0x524D, 0x65F6, 0x95F4, 0x8303, 0x56F4, 0x6682, 0x65E0, 0x65E5, 0x5FD7]"

text \<open>An ellipsis.\<close>

definition zh_ellipsis :: string where
  "zh_ellipsis =
    utf8 [0x2026]"

text \<open>A middle dot between spaces.\<close>

definition zh_dot_sep :: string where
  "zh_dot_sep =
    '' '' @ utf8 [0x00B7] @ '' ''"

text \<open>Unknown agent.\<close>

definition zh_unknown_agent :: string where
  "zh_unknown_agent =
    utf8 [0x672A, 0x77E5] @ '' Agent''"

text \<open>No endpoint reported.\<close>

definition zh_no_endpoint :: string where
  "zh_no_endpoint =
    utf8 [0x672A, 0x4E0A, 0x62A5] @ '' endpoint''"

text \<open>Online.\<close>

definition zh_slash_online :: string where
  "zh_slash_online =
    '' / '' @ utf8 [0x5728, 0x7EBF]"

text \<open>An active source overlaps.\<close>

definition zh_overlap_generic :: string where
  "zh_overlap_generic =
    utf8 [0x5F53, 0x524D] @ '' Agent '' @ utf8 [0x5730, 0x5740, 0x4E0B, 0x5DF2, 0x5B58, 0x5728,
      0x542F, 0x7528, 0x4E2D, 0x7684, 0x91C7, 0x96C6, 0x6E90, 0xFF0C, 0x4E14, 0x91C7, 0x96C6,
      0x8DEF, 0x5F84, 0x4E0E, 0x5F53, 0x524D, 0x914D, 0x7F6E, 0x91CD, 0x53E0, 0x3002, 0x8BF7,
      0x6539, 0x7528, 0x4E0D, 0x540C, 0x8DEF, 0x5F84, 0xFF0C, 0x6216, 0x5230, 0x201C, 0x91C7,
      0x96C6, 0x6E90, 0x7BA1, 0x7406, 0x201D, 0x505C, 0x7528] @ ''/'' @ utf8 [0x7F16, 0x8F91,
      0x73B0, 0x6709, 0x91C7, 0x96C6, 0x6E90, 0x540E, 0x518D, 0x4FDD, 0x5B58, 0x3002]"

text \<open>The active source that overlaps.\<close>

definition zh_overlap_source :: string where
  "zh_overlap_source =
    utf8 [0x5F53, 0x524D] @ '' Agent '' @ utf8 [0x5730, 0x5740, 0x4E0B, 0x5DF2, 0x5B58, 0x5728,
      0x542F, 0x7528, 0x4E2D, 0x7684, 0x91C7, 0x96C6, 0x6E90, 0x201C]"

text \<open>Its path.\<close>

definition zh_overlap_path :: string where
  "zh_overlap_path =
    utf8 [0x201D, 0xFF0C, 0x5176, 0x8DEF, 0x5F84, 0x201C]"

text \<open>Advice on an overlap.\<close>

definition zh_overlap_advice :: string where
  "zh_overlap_advice =
    utf8 [0x201D, 0x4E0E, 0x5F53, 0x524D, 0x914D, 0x7F6E, 0x91CD, 0x53E0, 0x3002, 0x8BF7,
      0x6539, 0x7528, 0x4E0D, 0x540C, 0x8DEF, 0x5F84, 0xFF0C, 0x6216, 0x5230, 0x201C, 0x91C7,
      0x96C6, 0x6E90, 0x7BA1, 0x7406, 0x201D, 0x505C, 0x7528] @ ''/'' @ utf8 [0x7F16, 0x8F91,
      0x8FD9, 0x6761, 0x91C7, 0x96C6, 0x6E90, 0x540E, 0x518D, 0x4FDD, 0x5B58, 0x3002]"

text \<open>Source configuration.\<close>

definition zh_saved_config :: string where
  "zh_saved_config =
    utf8 [0x91C7, 0x96C6, 0x6E90, 0x914D, 0x7F6E] @ '' ''"

text \<open>Saved as paused.\<close>

definition zh_saved_paused :: string where
  "zh_saved_paused =
    '' '' @ utf8 [0x5DF2, 0x6309, 0x201C, 0x5F85, 0x542F, 0x7528, 0x201D, 0x72B6, 0x6001,
      0x4FDD, 0x5B58, 0x3002, 0x90E8, 0x7F72, 0x5B8C, 0x6210, 0x540E, 0xFF0C, 0x53EF, 0x5230,
      0x201C, 0x91C7, 0x96C6, 0x6E90, 0x7BA1, 0x7406, 0x201D, 0x68C0, 0x67E5, 0x5E76, 0x542F,
      0x7528, 0x3002]"

text \<open>The active source in conflict.\<close>

definition zh_saved_conflict :: string where
  "zh_saved_conflict =
    utf8 [0x5F53, 0x524D] @ '' Agent '' @ utf8 [0x5730, 0x5740, 0x4E0E, 0x542F, 0x7528, 0x4E2D,
      0x7684, 0x91C7, 0x96C6, 0x6E90, 0x201C]"

text \<open>Overlaps in its paths.\<close>

definition zh_saved_conflict_mid :: string where
  "zh_saved_conflict_mid =
    utf8 [0x201D, 0x5B58, 0x5728, 0x8DEF, 0x5F84, 0x91CD, 0x53E0, 0xFF0C, 0x5DF2, 0x5C06] @
      '' ''"

text \<open>Saved as paused after a conflict.\<close>

definition zh_saved_conflict_end :: string where
  "zh_saved_conflict_end =
    '' '' @ utf8 [0x6309, 0x201C, 0x5F85, 0x542F, 0x7528, 0x201D, 0x72B6, 0x6001, 0x4FDD,
      0x5B58, 0x3002, 0x90E8, 0x7F72, 0x5B8C, 0x6210, 0x540E, 0xFF0C, 0x53EF, 0x5230, 0x201C,
      0x91C7, 0x96C6, 0x6E90, 0x7BA1, 0x7406, 0x201D, 0x68C0, 0x67E5, 0x5E76, 0x6309, 0x9700,
      0x542F, 0x7528, 0x3002]"

text \<open>Application audit.\<close>

definition zh_application_audit :: string where
  "zh_application_audit =
    utf8 [0x5E94, 0x7528, 0x5BA1, 0x8BA1]"

text \<open>System audit.\<close>

definition zh_system_audit :: string where
  "zh_system_audit =
    utf8 [0x7CFB, 0x7EDF, 0x5BA1, 0x8BA1]"

text \<open>Sudden drop, in a title.\<close>

definition zh_sudden_drop :: string where
  "zh_sudden_drop =
    utf8 [0x7A81, 0x964D]"

text \<open>Source: anomaly detection.\<close>

definition zh_draft_source :: string where
  "zh_draft_source =
    utf8 [0x6765, 0x6E90, 0xFF1A, 0x5F02, 0x5E38, 0x68C0, 0x6D4B]"

text \<open>Service, in a draft.\<close>

definition zh_draft_service :: string where
  "zh_draft_service =
    utf8 [0x670D, 0x52A1, 0xFF1A]"

text \<open>Metric, in a draft.\<close>

definition zh_draft_metric :: string where
  "zh_draft_metric =
    utf8 [0x6307, 0x6807, 0xFF1A]"

text \<open>Time of detection, in a draft.\<close>

definition zh_draft_time :: string where
  "zh_draft_time =
    utf8 [0x68C0, 0x6D4B, 0x65F6, 0x95F4, 0xFF1A]"

text \<open>Description, in a draft.\<close>

definition zh_draft_description :: string where
  "zh_draft_description =
    utf8 [0x5F02, 0x5E38, 0x63CF, 0x8FF0, 0xFF1A]"

text \<open>Advice, in a draft.\<close>

definition zh_draft_advice :: string where
  "zh_draft_advice =
    utf8 [0x5904, 0x7F6E, 0x5EFA, 0x8BAE, 0xFF1A]"

text \<open>Title of a draft.\<close>

definition zh_draft_title :: string where
  "zh_draft_title =
    ''['' @ utf8 [0x5F02, 0x5E38, 0x68C0, 0x6D4B] @ ''] ''"

text \<open>A semicolon.\<close>

definition zh_semicolon :: string where
  "zh_semicolon =
    utf8 [0xFF1B]"

text \<open>Marker of rule metadata.\<close>

definition zh_rule_metadata :: string where
  "zh_rule_metadata =
    ''['' @ utf8 [0x89C4, 0x5219, 0x5143, 0x6570, 0x636E] @ '']''"

text \<open>Owner of a rule.\<close>

definition zh_rule_owner :: string where
  "zh_rule_owner =
    utf8 [0x8D1F, 0x8D23, 0x4EBA, 0xFF1A]"

text \<open>Labels of a rule.\<close>

definition zh_rule_labels :: string where
  "zh_rule_labels =
    utf8 [0x6807, 0x7B7E, 0xFF1A]"

text \<open>A comma.\<close>

definition zh_comma :: string where
  "zh_comma =
    utf8 [0xFF0C]"

text \<open>Alarm.\<close>

definition zh_alarm :: string where
  "zh_alarm =
    utf8 [0x544A, 0x8B66]"

text \<open>Abnormal.\<close>

definition zh_abnormal :: string where
  "zh_abnormal =
    utf8 [0x5F02, 0x5E38]"

text \<open>On duty.\<close>

definition zh_on_duty :: string where
  "zh_on_duty =
    utf8 [0x503C, 0x73ED]"

text \<open>Rule created but no id returned.\<close>

definition zh_rule_created_no_id :: string where
  "zh_rule_created_no_id =
    utf8 [0x521B, 0x5EFA, 0x6210, 0x529F, 0x4F46, 0x672A, 0x8FD4, 0x56DE, 0x89C4, 0x5219] @
      '' ID''"

text \<open>Rule created but not found.\<close>

definition zh_rule_created_no_detail :: string where
  "zh_rule_created_no_detail =
    utf8 [0x521B, 0x5EFA, 0x6210, 0x529F, 0x4F46, 0x65E0, 0x6CD5, 0x83B7, 0x53D6, 0x89C4,
      0x5219, 0x8BE6, 0x60C5]"

text \<open>Rule updated but not found.\<close>

definition zh_rule_updated_no_detail :: string where
  "zh_rule_updated_no_detail =
    utf8 [0x66F4, 0x65B0, 0x6210, 0x529F, 0x4F46, 0x65E0, 0x6CD5, 0x83B7, 0x53D6, 0x89C4,
      0x5219, 0x8BE6, 0x60C5]"

text \<open>Silence created but not returned.\<close>

definition zh_silence_created_none :: string where
  "zh_silence_created_none =
    utf8 [0x521B, 0x5EFA, 0x6210, 0x529F, 0x4F46, 0x672A, 0x8FD4, 0x56DE, 0x9759, 0x9ED8,
      0x7B56, 0x7565]"

text \<open>Silence updated but not returned.\<close>

definition zh_silence_updated_none :: string where
  "zh_silence_updated_none =
    utf8 [0x66F4, 0x65B0, 0x6210, 0x529F, 0x4F46, 0x672A, 0x8FD4, 0x56DE, 0x9759, 0x9ED8,
      0x7B56, 0x7565]"

text \<open>Unknown alert.\<close>

definition zh_unknown_alert :: string where
  "zh_unknown_alert =
    utf8 [0x672A, 0x77E5, 0x544A, 0x8B66]"

text \<open>Source created but no id returned.\<close>

definition zh_source_created_no_id :: string where
  "zh_source_created_no_id =
    utf8 [0x521B, 0x5EFA, 0x6210, 0x529F, 0x4F46, 0x672A, 0x8FD4, 0x56DE] @ '' source_id''"

text \<open>Source created but not found.\<close>

definition zh_source_created_no_detail :: string where
  "zh_source_created_no_detail =
    utf8 [0x521B, 0x5EFA, 0x6210, 0x529F, 0x4F46, 0x65E0, 0x6CD5, 0x83B7, 0x53D6, 0x65B0,
      0x91C7, 0x96C6, 0x6E90, 0x8BE6, 0x60C5]"

text \<open>Source updated but not found.\<close>

definition zh_source_updated_no_detail :: string where
  "zh_source_updated_no_detail =
    utf8 [0x66F4, 0x65B0, 0x6210, 0x529F, 0x4F46, 0x65E0, 0x6CD5, 0x83B7, 0x53D6, 0x91C7,
      0x96C6, 0x6E90, 0x8BE6, 0x60C5]"

text \<open>Source id missing.\<close>

definition zh_source_id_empty :: string where
  "zh_source_id_empty =
    ''source_id '' @ utf8 [0x4E0D, 0x80FD, 0x4E3A, 0x7A7A]"

text \<open>Agent, source and task missing.\<close>

definition zh_package_key_empty :: string where
  "zh_package_key_empty =
    ''agent_id'' @ utf8 [0x3001] @ ''source_ref '' @ utf8 [0x6216] @ '' task_id '' @ utf8
      [0x4E0D, 0x80FD, 0x4E3A, 0x7A7A]"

text \<open>Task id missing.\<close>

definition zh_task_id_empty :: string where
  "zh_task_id_empty =
    ''task_id '' @ utf8 [0x4E0D, 0x80FD, 0x4E3A, 0x7A7A]"

text \<open>No task returned.\<close>

definition zh_no_task :: string where
  "zh_no_task =
    utf8 [0x672A, 0x8FD4, 0x56DE, 0x4EFB, 0x52A1, 0x8BE6, 0x60C5]"

text \<open>Package id missing.\<close>

definition zh_package_id_empty :: string where
  "zh_package_id_empty =
    ''package_id '' @ utf8 [0x4E0D, 0x80FD, 0x4E3A, 0x7A7A]"

text \<open>No package returned.\<close>

definition zh_no_package :: string where
  "zh_no_package =
    utf8 [0x672A, 0x8FD4, 0x56DE, 0x5305, 0x8BE6, 0x60C5]"

text \<open>Source and package missing.\<close>

definition zh_receipt_key_empty :: string where
  "zh_receipt_key_empty =
    ''source_ref '' @ utf8 [0x6216] @ '' package_id '' @ utf8 [0x4E0D, 0x80FD, 0x4E3A, 0x7A7A]"

text \<open>Dead letter ids missing.\<close>

definition zh_dead_ids_empty :: string where
  "zh_dead_ids_empty =
    ''dead_letter_ids '' @ utf8 [0x4E0D, 0x80FD, 0x4E3A, 0x7A7A]"

text \<open>Reason of a replay missing.\<close>

definition zh_replay_reason_empty :: string where
  "zh_replay_reason_empty =
    utf8 [0x91CD, 0x653E, 0x539F, 0x56E0, 0x4E0D, 0x80FD, 0x4E3A, 0x7A7A]"

text \<open>Replayed but nothing returned.\<close>

definition zh_replay_no_data :: string where
  "zh_replay_no_data =
    utf8 [0x6B7B, 0x4FE1, 0x91CD, 0x653E, 0x6210, 0x529F, 0x4F46, 0x8FD4, 0x56DE, 0x5185,
      0x5BB9, 0x4E3A, 0x7A7A]"

text \<open>Script generated but nothing returned.\<close>

definition zh_script_no_data :: string where
  "zh_script_no_data =
    utf8 [0x811A, 0x672C, 0x751F, 0x6210, 0x6210, 0x529F, 0x4F46, 0x8FD4, 0x56DE, 0x5185,
      0x5BB9, 0x4E3A, 0x7A7A]"

text \<open>Task submitted but nothing returned.\<close>

definition zh_run_no_data :: string where
  "zh_run_no_data =
    utf8 [0x4EFB, 0x52A1, 0x5DF2, 0x63D0, 0x4EA4, 0x4F46, 0x8FD4, 0x56DE, 0x5185, 0x5BB9,
      0x4E3A, 0x7A7A]"

text \<open>Job created but no id returned.\<close>

definition zh_job_created_no_id :: string where
  "zh_job_created_no_id =
    utf8 [0x521B, 0x5EFA, 0x6210, 0x529F, 0x4F46, 0x672A, 0x8FD4, 0x56DE, 0x4EFB, 0x52A1] @
      '' ID''"

text \<open>No such export job.\<close>

definition zh_no_job :: string where
  "zh_no_job =
    utf8 [0x5BFC, 0x51FA, 0x4EFB, 0x52A1, 0x4E0D, 0x5B58, 0x5728]"

text \<open>Download failed.\<close>

definition zh_download_failed :: string where
  "zh_download_failed =
    utf8 [0x4E0B, 0x8F7D, 0x5931, 0x8D25] @ '': HTTP ''"

text \<open>Repository created but no name returned.\<close>

definition zh_repository_no_name :: string where
  "zh_repository_no_name =
    utf8 [0x521B, 0x5EFA, 0x6210, 0x529F, 0x4F46, 0x672A, 0x8FD4, 0x56DE, 0x4ED3, 0x5E93,
      0x540D, 0x79F0]"

text \<open>No such snapshot.\<close>

definition zh_no_snapshot :: string where
  "zh_no_snapshot =
    utf8 [0x5FEB, 0x7167, 0x4E0D, 0x5B58, 0x5728]"

text \<open>Threshold created but no id returned.\<close>

definition zh_threshold_no_id :: string where
  "zh_threshold_no_id =
    utf8 [0x521B, 0x5EFA, 0x6210, 0x529F, 0x4F46, 0x672A, 0x8FD4, 0x56DE, 0x9608, 0x503C] @
      '' ID''"

text \<open>Threshold created but not found.\<close>

definition zh_threshold_created_no_detail :: string where
  "zh_threshold_created_no_detail =
    utf8 [0x521B, 0x5EFA, 0x6210, 0x529F, 0x4F46, 0x65E0, 0x6CD5, 0x83B7, 0x53D6, 0x9608,
      0x503C, 0x8BE6, 0x60C5]"

text \<open>Threshold updated but not found.\<close>

definition zh_threshold_updated_no_detail :: string where
  "zh_threshold_updated_no_detail =
    utf8 [0x66F4, 0x65B0, 0x6210, 0x529F, 0x4F46, 0x65E0, 0x6CD5, 0x83B7, 0x53D6, 0x9608,
      0x503C, 0x8BE6, 0x60C5]"

text \<open>Channel created but no id returned.\<close>

definition zh_channel_no_id :: string where
  "zh_channel_no_id =
    utf8 [0x521B, 0x5EFA, 0x6210, 0x529F, 0x4F46, 0x672A, 0x8FD4, 0x56DE, 0x6E20, 0x9053] @
      '' ID''"

text \<open>Channel created but not found.\<close>

definition zh_channel_created_no_detail :: string where
  "zh_channel_created_no_detail =
    utf8 [0x521B, 0x5EFA, 0x6210, 0x529F, 0x4F46, 0x65E0, 0x6CD5, 0x83B7, 0x53D6, 0x6E20,
      0x9053, 0x8BE6, 0x60C5]"

text \<open>Channel updated but not found.\<close>

definition zh_channel_updated_no_detail :: string where
  "zh_channel_updated_no_detail =
    utf8 [0x66F4, 0x65B0, 0x6210, 0x529F, 0x4F46, 0x65E0, 0x6CD5, 0x83B7, 0x53D6, 0x6E20,
      0x9053, 0x8BE6, 0x60C5]"

text \<open>As the policy says.\<close>

definition zh_by_policy :: string where
  "zh_by_policy =
    utf8 [0x6309, 0x7B56, 0x7565, 0x6761, 0x4EF6]"

end
