(* ===== verification/Page_Access.thy ===== *)
theory Page_Access
  imports Authz Zh_Text
begin

text \<open>
  What each page lets a session do: the action flags resolved from the authorization snapshot by
  the \<open>*Authorization.ts\<close> modules of the dashboard and of the incident, user, report, audit,
  role, login-policy and webhook pages. Pages that read only the capabilities still take the whole
  snapshot here.
\<close>

section \<open>Requirements of an action\<close>

record action_requirement =
  act_capabilities :: "string list"
  act_legacy :: "string list option"

definition incident_hasActionAccess :: "authz \<Rightarrow> action_requirement \<Rightarrow> bool" where
  "incident_hasActionAccess auth r \<longleftrightarrow>
     hasAnyCapability (capabilities auth) (act_capabilities r)
     \<or> hasAnyLegacyPermission (permissions auth) (act_legacy r)"

definition user_hasActionAccess :: "authz \<Rightarrow> action_requirement \<Rightarrow> bool" where
  "user_hasActionAccess auth r \<longleftrightarrow>
     hasAnyCapability (capabilities auth) (act_capabilities r)
     \<or> hasAnyLegacyPermission (permissions auth) (act_legacy r)"

definition download_hasActionAccess :: "authz \<Rightarrow> action_requirement \<Rightarrow> bool" where
  "download_hasActionAccess auth r \<longleftrightarrow>
     hasAnyCapability (capabilities auth) (act_capabilities r)
     \<or> hasAnyLegacyPermission (permissions auth) (act_legacy r)"

section \<open>Dashboard\<close>

record dashboard_entry_gate =
  gate_allowed :: bool
  gate_tooltip :: "string option"

definition allow :: dashboard_entry_gate where
  "allow = \<lparr>gate_allowed = True, gate_tooltip = None\<rparr>"

definition deny :: "string \<Rightarrow> dashboard_entry_gate" where
  "deny tooltip = \<lparr>gate_allowed = False, gate_tooltip = Some tooltip\<rparr>"

definition lacks :: "string \<Rightarrow> string" where
  "lacks what = zh_session_lacks @ what @ zh_ability"

definition lacks_page :: "string \<Rightarrow> string" where
  "lacks_page what = zh_session_lacks @ what @ zh_page_ability"

record dashboard_quick_action_access =
  gate_realtimeSearch :: dashboard_entry_gate
  gate_alertsList :: dashboard_entry_gate
  gate_ingestSourceCreate :: dashboard_entry_gate
  gate_alertRuleCreate :: dashboard_entry_gate
  gate_storageIndexCreate :: dashboard_entry_gate
  gate_reportGenerate :: dashboard_entry_gate
  gate_auditLogs :: dashboard_entry_gate

definition resolveDashboardQuickActionAccess ::
    "(string \<Rightarrow> string \<Rightarrow> bool) \<Rightarrow> authz \<Rightarrow> dashboard_quick_action_access" where
  "resolveDashboardQuickActionAccess mp auth =
     (let canAccessRealtimeSearch = canAccessRoute mp ''/search/realtime'' auth;
          canAccessAlertsList = canAccessRoute mp ''/alerts/list'' auth;
          canAccessAlertRules = canAccessRoute mp ''/alerts/rules'' auth;
          canAccessIngestionWizard = canAccessRoute mp ''/ingestion/wizard'' auth;
          canAccessStorageIndices = canAccessRoute mp ''/storage/indices'' auth;
          canAccessReportManagement = canAccessRoute mp ''/reports/management'' auth;
          canAccessAuditLogs = canAccessRoute mp ''/security/audit'' auth;
          canCreateAlertRule = canAccessAlertRules
            \<and> (hasAnyCapability (capabilities auth) [''alert.rule.create'']
               \<or> hasAnyLegacyPermission (permissions auth) (Some [''alerts:write'']));
          canCreateIngestSource = canAccessIngestionWizard
            \<and> hasAnyCapability (capabilities auth) [''ingest.source.create''];
          canCreateStorageIndex = canAccessStorageIndices
            \<and> hasAnyCapability (capabilities auth) [''storage.index.update''];
          canGenerateReport = canAccessReportManagement
            \<and> hasAnyCapability (capabilities auth) [''report.generate'']
      in \<lparr>gate_realtimeSearch =
            (if canAccessRealtimeSearch then allow else deny (lacks ''log.query.read / logs:read'')),
          gate_alertsList =
            (if canAccessAlertsList then allow else deny (lacks ''alert.event.read / alerts:read'')),
          gate_ingestSourceCreate =
            (if \<not> canAccessIngestionWizard then deny (lacks_page ''ingest.source.read'')
             else if canCreateIngestSource then allow else deny (lacks ''ingest.source.create'')),
          gate_alertRuleCreate =
            (if \<not> canAccessAlertRules then deny (lacks_page ''alert.rule.read / alerts:read'')
             else if canCreateAlertRule then allow
             else deny (lacks ''alert.rule.create / alerts:write'')),
          gate_storageIndexCreate =
            (if \<not> canAccessStorageIndices then deny (lacks_page ''storage.index.read'')
             else if canCreateStorageIndex then allow else deny (lacks ''storage.index.update'')),
          gate_reportGenerate =
            (if \<not> canAccessReportManagement then deny (lacks ''report.read'')
             else if canGenerateReport then allow else deny (lacks ''report.generate'')),
          gate_auditLogs =
            (if canAccessAuditLogs then allow else deny (lacks ''audit.log.read / audit:read''))\<rparr>)"

section \<open>Incidents\<close>

record incident_action_access =
  inc_canReadIncident :: bool
  inc_canReadSlaSummary :: bool
  inc_canCreateIncident :: bool
  inc_canUpdateIncident :: bool
  inc_canAssignIncident :: bool
  inc_canCloseIncident :: bool
  inc_canArchiveIncident :: bool
  inc_hasAnyWriteAccess :: bool
  inc_isReadOnly :: bool

definition INCIDENT_READ_REQUIREMENT :: action_requirement where
  "INCIDENT_READ_REQUIREMENT =
     \<lparr>act_capabilities = [''incident.read''], act_legacy = Some [''incidents:read'']\<rparr>"

definition INCIDENT_SLA_READ_REQUIREMENT :: action_requirement where
  "INCIDENT_SLA_READ_REQUIREMENT =
     \<lparr>act_capabilities = [''incident.sla.read'', ''incident.read''], act_legacy = Some [''incidents:read'']\<rparr>"

definition INCIDENT_CREATE_REQUIREMENT :: action_requirement where
  "INCIDENT_CREATE_REQUIREMENT =
     \<lparr>act_capabilities = [''incident.create''], act_legacy = Some [''incidents:write'']\<rparr>"

definition INCIDENT_UPDATE_REQUIREMENT :: action_requirement where
  "INCIDENT_UPDATE_REQUIREMENT =
     \<lparr>act_capabilities = [''incident.update''], act_legacy = Some [''incidents:write'']\<rparr>"

definition INCIDENT_ASSIGN_REQUIREMENT :: action_requirement where
  "INCIDENT_ASSIGN_REQUIREMENT =
     \<lparr>act_capabilities = [''incident.assign''], act_legacy = Some [''incidents:write'']\<rparr>"

definition INCIDENT_CLOSE_REQUIREMENT :: action_requirement where
  "INCIDENT_CLOSE_REQUIREMENT =
     \<lparr>act_capabilities = [''incident.close''], act_legacy = Some [''incidents:write'']\<rparr>"

definition INCIDENT_ARCHIVE_REQUIREMENT :: action_requirement where
  "INCIDENT_ARCHIVE_REQUIREMENT =
     \<lparr>act_capabilities = [''incident.archive''], act_legacy = Some [''incidents:write'']\<rparr>"

definition resolveIncidentActionAccess :: "authz \<Rightarrow> incident_action_access" where
  "resolveIncidentActionAccess auth =
     (let canRead = incident_hasActionAccess auth INCIDENT_READ_REQUIREMENT;
          canReadSla = incident_hasActionAccess auth INCIDENT_SLA_READ_REQUIREMENT;
          canCreate = incident_hasActionAccess auth INCIDENT_CREATE_REQUIREMENT;
          canUpdate = incident_hasActionAccess auth INCIDENT_UPDATE_REQUIREMENT;
          canAssign = incident_hasActionAccess auth INCIDENT_ASSIGN_REQUIREMENT;
          canClose = incident_hasActionAccess auth INCIDENT_CLOSE_REQUIREMENT;
          canArchive = incident_hasActionAccess auth INCIDENT_ARCHIVE_REQUIREMENT;
          hasAny = list_ex (\<lambda>b. b) [canCreate, canUpdate, canAssign, canClose, canArchive]
      in \<lparr>inc_canReadIncident = canRead, inc_canReadSlaSummary = canReadSla,
          inc_canCreateIncident = canCreate, inc_canUpdateIncident = canUpdate,
          inc_canAssignIncident = canAssign, inc_canCloseIncident = canClose,
          inc_canArchiveIncident = canArchive, inc_hasAnyWriteAccess = hasAny,
          inc_isReadOnly = (\<not> hasAny)\<rparr>)"

datatype incident_capability =
  IncRead | IncCreate | IncUpdate | IncAssign | IncClose | IncArchive | IncSla

fun getIncidentPermissionDeniedReason :: "incident_capability \<Rightarrow> string" where
  "getIncidentPermissionDeniedReason IncCreate = lacks ''incident.create / incidents:write''"
| "getIncidentPermissionDeniedReason IncUpdate = lacks ''incident.update / incidents:write''"
| "getIncidentPermissionDeniedReason IncAssign = lacks ''incident.assign / incidents:write''"
| "getIncidentPermissionDeniedReason IncClose = lacks ''incident.close / incidents:write''"
| "getIncidentPermissionDeniedReason IncArchive = lacks ''incident.archive / incidents:write''"
| "getIncidentPermissionDeniedReason IncSla =
     lacks ''incident.sla.read / incident.read / incidents:read''"
| "getIncidentPermissionDeniedReason IncRead = lacks ''incident.read / incidents:read''"

section \<open>User management\<close>

record user_management_action_access =
  um_canCreateUser :: bool
  um_canUpdateUserProfile :: bool
  um_canUpdateUserStatus :: bool
  um_canGrantUserRole :: bool
  um_canRevokeUserRole :: bool
  um_canInviteUser :: bool
  um_canImportUser :: bool
  um_hasAnyWriteAccess :: bool
  um_isReadOnly :: bool

datatype user_action =
  CreateUser | UpdateUserProfile | UpdateUserStatus | GrantUserRole | RevokeUserRole | InviteUser | ImportUser

fun USER_MANAGEMENT_ACTION_REQUIREMENTS :: "user_action \<Rightarrow> action_requirement" where
  "USER_MANAGEMENT_ACTION_REQUIREMENTS CreateUser =
     \<lparr>act_capabilities = [''iam.user.create''], act_legacy = Some [''users:write'']\<rparr>"
| "USER_MANAGEMENT_ACTION_REQUIREMENTS UpdateUserProfile =
     \<lparr>act_capabilities = [''iam.user.update_profile''], act_legacy = Some [''users:write'']\<rparr>"
| "USER_MANAGEMENT_ACTION_REQUIREMENTS UpdateUserStatus =
     \<lparr>act_capabilities = [''iam.user.update_status''], act_legacy = Some [''users:write'']\<rparr>"
| "USER_MANAGEMENT_ACTION_REQUIREMENTS GrantUserRole =
     \<lparr>act_capabilities = [''iam.user.grant_role''], act_legacy = Some [''users:write'']\<rparr>"
| "USER_MANAGEMENT_ACTION_REQUIREMENTS RevokeUserRole =
     \<lparr>act_capabilities = [''iam.user.revoke_role''], act_legacy = Some [''users:write'']\<rparr>"
| "USER_MANAGEMENT_ACTION_REQUIREMENTS InviteUser =
     \<lparr>act_capabilities = [''iam.user.invite''], act_legacy = None\<rparr>"
| "USER_MANAGEMENT_ACTION_REQUIREMENTS ImportUser =
     \<lparr>act_capabilities = [''iam.user.import''], act_legacy = None\<rparr>"

definition resolveUserManagementActionAccess :: "authz \<Rightarrow> user_management_action_access" where
  "resolveUserManagementActionAccess auth =
     (let may = (\<lambda>act. user_hasActionAccess auth (USER_MANAGEMENT_ACTION_REQUIREMENTS act));
          canCreate = may CreateUser;
          canUpdateProfile = may UpdateUserProfile;
          canUpdateStatus = may UpdateUserStatus;
          canGrant = may GrantUserRole;
          canRevoke = may RevokeUserRole;
          canInvite = may InviteUser;
          canImport = may ImportUser;
          hasAny = list_ex (\<lambda>b. b)
            [canCreate, canUpdateProfile, canUpdateStatus, canGrant, canRevoke, canInvite, canImport]
      in \<lparr>um_canCreateUser = canCreate, um_canUpdateUserProfile = canUpdateProfile,
          um_canUpdateUserStatus = canUpdateStatus, um_canGrantUserRole = canGrant,
          um_canRevokeUserRole = canRevoke, um_canInviteUser = canInvite,
          um_canImportUser = canImport, um_hasAnyWriteAccess = hasAny,
          um_isReadOnly = (\<not> hasAny)\<rparr>)"

definition canOpenUserEditModal :: "user_management_action_access \<Rightarrow> bool" where
  "canOpenUserEditModal access \<longleftrightarrow>
     um_canUpdateUserProfile access \<or> um_canGrantUserRole access \<or> um_canRevokeUserRole access"

definition canAssignRoleOnCreate :: "user_management_action_access \<Rightarrow> bool" where
  "canAssignRoleOnCreate access \<longleftrightarrow> um_canGrantUserRole access"

text \<open>An optional role id counts as present when it is a non-empty string.\<close>

definition present :: "string option \<Rightarrow> bool" where
  "present r \<longleftrightarrow> nullish r [] \<noteq> []"

definition canEditRoleForUser :: "user_management_action_access \<Rightarrow> string option \<Rightarrow> bool" where
  "canEditRoleForUser access current \<longleftrightarrow>
     um_canGrantUserRole access \<or> (present current \<and> um_canRevokeUserRole access)"

definition canApplyPrimaryRoleChange ::
    "user_management_action_access \<Rightarrow> string option \<Rightarrow> string option \<Rightarrow> bool" where
  "canApplyPrimaryRoleChange access current next =
     (if nullish current [] = nullish next [] then True
      else if \<not> present current \<and> present next then um_canGrantUserRole access
      else if present current \<and> \<not> present next then um_canRevokeUserRole access
      else um_canGrantUserRole access \<and> um_canRevokeUserRole access)"

definition getPrimaryRoleChangeDeniedReason ::
    "user_management_action_access \<Rightarrow> string option \<Rightarrow> string option \<Rightarrow> string option" where
  "getPrimaryRoleChangeDeniedReason access current next =
     (if canApplyPrimaryRoleChange access current next then None
      else if \<not> present current \<and> present next then Some zh_no_role_grant
      else if present current \<and> \<not> present next then Some zh_no_role_revoke
      else Some zh_no_role_change)"

section \<open>Downloads, reports, schedules\<close>

record download_records_action_access =
  dl_canCreateExportJob :: bool
  dl_canDownloadExportJob :: bool
  dl_hasAnyWriteAccess :: bool
  dl_isViewOnly :: bool

datatype download_action = CreateExportJob | DownloadExportJob

fun DOWNLOAD_RECORDS_ACTION_REQUIREMENTS :: "download_action \<Rightarrow> action_requirement" where
  "DOWNLOAD_RECORDS_ACTION_REQUIREMENTS CreateExportJob =
     \<lparr>act_capabilities = [''export.job.create''], act_legacy = Some [''logs:export'']\<rparr>"
| "DOWNLOAD_RECORDS_ACTION_REQUIREMENTS DownloadExportJob =
     \<lparr>act_capabilities = [''export.job.download''], act_legacy = Some [''logs:export'']\<rparr>"

definition resolveDownloadRecordsActionAccess :: "authz \<Rightarrow> download_records_action_access" where
  "resolveDownloadRecordsActionAccess auth =
     (let canCreate = download_hasActionAccess auth (DOWNLOAD_RECORDS_ACTION_REQUIREMENTS CreateExportJob);
          canDownload = download_hasActionAccess auth (DOWNLOAD_RECORDS_ACTION_REQUIREMENTS DownloadExportJob);
          hasAny = canCreate \<or> canDownload
      in \<lparr>dl_canCreateExportJob = canCreate, dl_canDownloadExportJob = canDownload,
          dl_hasAnyWriteAccess = hasAny, dl_isViewOnly = (\<not> hasAny)\<rparr>)"

record report_management_action_access =
  rm_canCreateReport :: bool
  rm_canUpdateReport :: bool
  rm_canDeleteReport :: bool
  rm_canGenerateReport :: bool
  rm_hasAnyWriteAccess :: bool
  rm_isViewOnly :: bool

definition resolveReportManagementActionAccess :: "authz \<Rightarrow> report_management_action_access" where
  "resolveReportManagementActionAccess auth =
     (let canCreate = hasAnyCapability (capabilities auth) [''report.create'', ''query.saved.read''];
          canUpdate = hasAnyCapability (capabilities auth) [''report.update'', ''query.saved.read''];
          canDelete = hasAnyCapability (capabilities auth) [''report.delete'', ''query.saved.read''];
          canGenerate = hasAnyCapability (capabilities auth) [''report.generate'', ''export.job.create''];
          hasAny = canCreate \<or> canUpdate \<or> canDelete \<or> canGenerate
      in \<lparr>rm_canCreateReport = canCreate, rm_canUpdateReport = canUpdate,
          rm_canDeleteReport = canDelete, rm_canGenerateReport = canGenerate,
          rm_hasAnyWriteAccess = hasAny, rm_isViewOnly = (\<not> hasAny)\<rparr>)"

record scheduled_tasks_action_access =
  sch_canCreateScheduledTask :: bool
  sch_canUpdateScheduledTask :: bool
  sch_canDeleteScheduledTask :: bool
  sch_canToggleScheduledTask :: bool
  sch_hasAnyWriteAccess :: bool
  sch_isViewOnly :: bool

definition resolveScheduledTasksActionAccess :: "authz \<Rightarrow> scheduled_tasks_action_access" where
  "resolveScheduledTasksActionAccess auth =
     (let canManage = hasAnyCapability (capabilities auth) [''report.schedule.update'']
      in \<lparr>sch_canCreateScheduledTask = canManage, sch_canUpdateScheduledTask = canManage,
          sch_canDeleteScheduledTask = canManage, sch_canToggleScheduledTask = canManage,
          sch_hasAnyWriteAccess = canManage, sch_isViewOnly = (\<not> canManage)\<rparr>)"

section \<open>Webhooks, audit log, login policy, roles\<close>

record webhook_management_action_access =
  wh_canReadWebhook :: bool
  wh_canCreateWebhook :: bool
  wh_canUpdateWebhook :: bool
  wh_canDeleteWebhook :: bool
  wh_canTestWebhook :: bool

definition resolveWebhookManagementActionAccess :: "authz \<Rightarrow> webhook_management_action_access" where
  "resolveWebhookManagementActionAccess auth =
     \<lparr>wh_canReadWebhook = hasAnyCapability (capabilities auth)
        [''notification.channel.read_metadata'', ''integration.webhook.read_metadata''],
      wh_canCreateWebhook = hasAnyCapability (capabilities auth)
        [''notification.channel.create'', ''integration.webhook.create''],
      wh_canUpdateWebhook = hasAnyCapability (capabilities auth)
        [''notification.channel.update'', ''integration.webhook.update''],
      wh_canDeleteWebhook = hasAnyCapability (capabilities auth)
        [''notification.channel.delete'', ''integration.webhook.delete''],
      wh_canTestWebhook = hasAnyCapability (capabilities auth)
        [''notification.channel.test'', ''integration.webhook.test'']\<rparr>"

record audit_logs_action_access =
  al_canExportAuditLogs :: bool
  al_canReadReservedSubjects :: bool
  al_hasSensitiveAuditAccess :: bool

definition resolveAuditLogsActionAccess :: "authz \<Rightarrow> audit_logs_action_access" where
  "resolveAuditLogsActionAccess auth =
     (let canExport = hasAnyCapability (capabilities auth) [''audit.log.export''];
          canReadReserved = hasAnyCapability (capabilities auth) [''audit.log.read_reserved_subject'']
      in \<lparr>al_canExportAuditLogs = canExport, al_canReadReservedSubjects = canReadReserved,
          al_hasSensitiveAuditAccess = (canExport \<or> canReadReserved)\<rparr>)"

definition isReservedAuditSubjectQuery :: "string \<Rightarrow> string list \<Rightarrow> bool" where
  "isReservedAuditSubjectQuery v reservedUsernames =
     (let normalized = toLowerCase (trim v)
      in if normalized = [] then False
         else list_ex (\<lambda>u. toLowerCase (trim u) = normalized) reservedUsernames)"

record login_policy_action_access =
  lp_canReadLoginPolicy :: bool
  lp_canUpdateLoginPolicy :: bool

definition resolveLoginPolicyActionAccess :: "authz \<Rightarrow> login_policy_action_access" where
  "resolveLoginPolicyActionAccess auth =
     \<lparr>lp_canReadLoginPolicy = hasAnyCapability (capabilities auth) [''auth.login_policy.read''],
      lp_canUpdateLoginPolicy = hasAnyCapability (capabilities auth) [''auth.login_policy.update'']\<rparr>"

record role_permissions_action_access =
  rp_canCopyPermissions :: bool
  rp_hasExplicitCopyCapability :: bool
  rp_isViewOnly :: bool

definition resolveRolePermissionsActionAccess :: "authz \<Rightarrow> role_permissions_action_access" where
  "resolveRolePermissionsActionAccess auth =
     (let hasCopy = hasAnyCapability (capabilities auth) [''iam.role.copy_permission'', ''iam.role.export'']
      in \<lparr>rp_canCopyPermissions = hasCopy, rp_hasExplicitCopyCapability = hasCopy,
          rp_isViewOnly = (\<not> hasCopy)\<rparr>)"

section \<open>The access contract, discharged for the pages\<close>

lemmas action_access_defs =
  incident_hasActionAccess_def user_hasActionAccess_def download_hasActionAccess_def

lemma action_access_mono:
  assumes "authz_le a b"
  shows "incident_hasActionAccess a r \<Longrightarrow> incident_hasActionAccess b r"
    and "user_hasActionAccess a r \<Longrightarrow> user_hasActionAccess b r"
    and "download_hasActionAccess a r \<Longrightarrow> download_hasActionAccess b r"
  using assms hasAnyCapability_mono [of "capabilities a" "act_capabilities r" "capabilities b"]
    hasAnyLegacyPermission_mono [of "permissions a" "act_legacy r" "permissions b"]
  unfolding action_access_defs authz_le_def by blast+

lemma action_access_wildcard:
  assumes "''*'' \<in> set (capabilities a)"
  shows "incident_hasActionAccess a r" and "user_hasActionAccess a r" and "download_hasActionAccess a r"
  using assms by (simp_all add: action_access_defs hasAnyCapability_wildcard)

interpretation incident: access_check incident_hasActionAccess
  by unfold_locales (fact action_access_mono action_access_wildcard)+

interpretation user: access_check user_hasActionAccess
  by unfold_locales (fact action_access_mono action_access_wildcard)+

interpretation download: access_check download_hasActionAccess
  by unfold_locales (fact action_access_mono action_access_wildcard)+

lemma authz_le_caps: "authz_le a b \<Longrightarrow> set (capabilities a) \<subseteq> set (capabilities b)"
  by (simp add: authz_le_def)

section \<open>Properties\<close>

text \<open>Granting a session more never takes an incident or user-management action away and never
  turns a page that offered actions into a read-only one.\<close>

theorem page_actions_monotone:
  assumes "authz_le a b"
  shows
    "inc_canReadIncident (resolveIncidentActionAccess a) \<le> inc_canReadIncident (resolveIncidentActionAccess b)
     \<and> inc_canReadSlaSummary (resolveIncidentActionAccess a) \<le> inc_canReadSlaSummary (resolveIncidentActionAccess b)
     \<and> inc_canCloseIncident (resolveIncidentActionAccess a) \<le> inc_canCloseIncident (resolveIncidentActionAccess b)
     \<and> inc_canArchiveIncident (resolveIncidentActionAccess a) \<le> inc_canArchiveIncident (resolveIncidentActionAccess b)
     \<and> inc_isReadOnly (resolveIncidentActionAccess b) \<le> inc_isReadOnly (resolveIncidentActionAccess a)
     \<and> um_canGrantUserRole (resolveUserManagementActionAccess a) \<le> um_canGrantUserRole (resolveUserManagementActionAccess b)
     \<and> um_canRevokeUserRole (resolveUserManagementActionAccess a) \<le> um_canRevokeUserRole (resolveUserManagementActionAccess b)
     \<and> um_isReadOnly (resolveUserManagementActionAccess b) \<le> um_isReadOnly (resolveUserManagementActionAccess a)
     \<and> dl_isViewOnly (resolveDownloadRecordsActionAccess b) \<le> dl_isViewOnly (resolveDownloadRecordsActionAccess a)
     \<and> rm_isViewOnly (resolveReportManagementActionAccess b) \<le> rm_isViewOnly (resolveReportManagementActionAccess a)
     \<and> rp_isViewOnly (resolveRolePermissionsActionAccess b) \<le> rp_isViewOnly (resolveRolePermissionsActionAccess a)"
  using action_access_mono [OF assms] hasAnyCapability_mono [OF _ authz_le_caps [OF assms]]
  by (auto simp: resolveIncidentActionAccess_def resolveUserManagementActionAccess_def
      resolveDownloadRecordsActionAccess_def resolveReportManagementActionAccess_def
      resolveRolePermissionsActionAccess_def Let_def)

theorem page_actions_monotone_witness:
  "authz_le \<lparr>permissions = [], capabilities = []\<rparr> \<lparr>permissions = [''users:write''], capabilities = []\<rparr>
   \<and> um_isReadOnly (resolveUserManagementActionAccess \<lparr>permissions = [''users:write''], capabilities = []\<rparr>)
       \<le> um_isReadOnly (resolveUserManagementActionAccess \<lparr>permissions = [], capabilities = []\<rparr>)"
proof -
  have h: "authz_le \<lparr>permissions = [], capabilities = []\<rparr> \<lparr>permissions = [''users:write''], capabilities = []\<rparr>"
    by (simp add: authz_le_def)
  show ?thesis using h page_actions_monotone [OF h] by blast
qed

text \<open>A primary role may be changed exactly when nothing changes, or the session may grant the
  role that is added (if one is) and revoke the role that is removed (if one is); a reason for the
  refusal is given exactly when the change is refused.\<close>

theorem primary_role_change_gate:
  "canApplyPrimaryRoleChange access current next
     = (nullish current [] = nullish next []
        \<or> ((nullish next [] = [] \<or> um_canGrantUserRole access)
           \<and> (nullish current [] = [] \<or> um_canRevokeUserRole access)))
   \<and> (getPrimaryRoleChangeDeniedReason access current next = None)
     = canApplyPrimaryRoleChange access current next"
  by (auto simp: canApplyPrimaryRoleChange_def getPrimaryRoleChangeDeniedReason_def present_def)

text \<open>A dashboard entry is open only to a session that may open the page behind it and, for the
  creating entries, holds the creating capability; it explains itself with a tooltip exactly when it
  is closed.\<close>

theorem dashboard_gates_sound:
  assumes "g = resolveDashboardQuickActionAccess mp auth"
  shows
    "(gate_allowed (gate_realtimeSearch g) = canAccessRoute mp ''/search/realtime'' auth)
     \<and> (gate_allowed (gate_alertsList g) = canAccessRoute mp ''/alerts/list'' auth)
     \<and> (gate_allowed (gate_auditLogs g) = canAccessRoute mp ''/security/audit'' auth)
     \<and> (gate_allowed (gate_ingestSourceCreate g) =
          (canAccessRoute mp ''/ingestion/wizard'' auth
           \<and> hasAnyCapability (capabilities auth) [''ingest.source.create'']))
     \<and> (gate_allowed (gate_storageIndexCreate g) =
          (canAccessRoute mp ''/storage/indices'' auth
           \<and> hasAnyCapability (capabilities auth) [''storage.index.update'']))
     \<and> (gate_allowed (gate_reportGenerate g) =
          (canAccessRoute mp ''/reports/management'' auth
           \<and> hasAnyCapability (capabilities auth) [''report.generate'']))
     \<and> (gate_allowed (gate_alertRuleCreate g) =
          (canAccessRoute mp ''/alerts/rules'' auth
           \<and> (hasAnyCapability (capabilities auth) [''alert.rule.create'']
              \<or> hasAnyLegacyPermission (permissions auth) (Some [''alerts:write'']))))
     \<and> list_all (\<lambda>e. gate_allowed e = (gate_tooltip e = None))
          [gate_realtimeSearch g, gate_alertsList g, gate_auditLogs g, gate_ingestSourceCreate g,
           gate_storageIndexCreate g, gate_reportGenerate g, gate_alertRuleCreate g]"
  unfolding assms resolveDashboardQuickActionAccess_def Let_def
  by (auto simp: allow_def deny_def)

theorem dashboard_gates_sound_witness:
  "\<not> gate_allowed (gate_ingestSourceCreate
      (resolveDashboardQuickActionAccess (=) \<lparr>permissions = [''metrics:read''], capabilities = []\<rparr>))"
proof -
  have "\<not> canAccessRoute (=) ''/ingestion/wizard'' \<lparr>permissions = [''metrics:read''], capabilities = []\<rparr>"
    by (simp add: canAccessRoute_def findRouteAuthorizationRule_def ROUTE_AUTHORIZATION_RULES_def
        route_rule_def hasAnyCapability_iff hasAnyLegacyPermission_iff normalizeValues_def)
  then show ?thesis
    using dashboard_gates_sound [OF refl, of "(=)" "\<lparr>permissions = [''metrics:read''], capabilities = []\<rparr>"]
    by simp
qed

end
