(* ===== verification/Menu.thy ===== *)
theory Menu
  imports Authz Zh_Text
begin

text \<open>
  The side menu: its data (\<open>types/navigation.ts\<close>, \<open>constants/menu.ts\<close>) and the functions of
  \<open>components/layout/AppSidebar.tsx\<close> that filter it by the authorization snapshot, find the entry of
  the current path and build the entries handed to the menu widget. Icons and badges of the built
  entries are kept as the icon's name and an optional count.
\<close>

section \<open>Data\<close>

datatype menu_item =
  MenuItem (mi_icon: string) (mi_label: string) (mi_path: "string option")
    (mi_children: "menu_item list option")

record menu_section =
  title :: string
  items :: "menu_item list"

definition leaf :: "string \<Rightarrow> string \<Rightarrow> string \<Rightarrow> menu_item" where
  "leaf icon label p = MenuItem icon label (Some p) None"

definition branch :: "string \<Rightarrow> string \<Rightarrow> menu_item list \<Rightarrow> menu_item" where
  "branch icon label children = MenuItem icon label None (Some children)"

definition MENU_SECTIONS :: "menu_section list" where
  "MENU_SECTIONS =
    [menu_section.make zh_monitor_section
       [leaf ''dashboard'' zh_overview ''/''],
     menu_section.make zh_log_search
       [branch ''manage_search'' zh_log_search
          [leaf ''search'' zh_realtime_search ''/search/realtime'',
           leaf ''history'' zh_query_history ''/search/history'',
           leaf ''bookmark'' zh_saved_queries ''/search/saved''],
        branch ''notifications_active'' zh_alert_center
          [leaf ''list'' zh_alert_list ''/alerts/list'',
           leaf ''rule'' zh_alert_rules ''/alerts/rules'',
           leaf ''forward_to_inbox'' zh_notification_config ''/alerts/notifications'',
           leaf ''do_not_disturb_on'' zh_silence_policy ''/alerts/silence''],
        branch ''assignment'' zh_incident_mgmt
          [leaf ''local_fire_department'' zh_incident_list ''/incidents/list'',
           leaf ''timeline'' zh_full_timeline ''/incidents/timeline'',
           leaf ''biotech'' zh_root_cause ''/incidents/analysis'',
           leaf ''timer'' zh_sla_monitor ''/incidents/sla'',
           leaf ''archive'' zh_archive_mgmt ''/incidents/archive'']],
     menu_section.make zh_data_ingest
       [branch ''input'' zh_collect
          [leaf ''dns'' zh_source_mgmt ''/ingestion/sources'',
           leaf ''smart_toy'' zh_agent_mgmt ''/ingestion/agents'',
           leaf ''assistant_navigation'' zh_access_wizard ''/ingestion/wizard'',
           leaf ''monitor_heart'' zh_source_status ''/ingestion/status'']],
     menu_section.make zh_storage_perf
       [branch ''storage'' zh_index_storage
          [leaf ''table_chart'' zh_index_mgmt ''/storage/indices'',
           leaf ''update'' zh_ilm ''/storage/ilm'',
           leaf ''backup'' zh_backup ''/storage/backup'',
           leaf ''hard_drive'' zh_capacity ''/storage/capacity''],
        branch ''speed'' zh_perf_ha
          [leaf ''trending_up'' zh_perf_monitor ''/performance/monitoring'',
           leaf ''health_and_safety'' zh_health ''/performance/health'']],
     menu_section.make zh_observability
       [branch ''bar_chart'' zh_report_center
          [leaf ''description'' zh_report_mgmt ''/reports/management'',
           leaf ''download'' zh_downloads ''/reports/downloads'']],
     menu_section.make zh_platform
       [branch ''admin_panel_settings'' zh_security_audit
          [leaf ''people'' zh_users ''/security/users'',
           leaf ''shield'' zh_roles ''/security/roles'',
           leaf ''receipt_long'' zh_audit_log ''/security/audit'',
           leaf ''policy'' zh_login_policy ''/security/login-policy''],
        branch ''extension'' zh_integration
          [leaf ''webhook'' ''Webhook'' ''/integration/webhook'']],
     menu_section.make zh_system_config
       [branch ''help_outline'' zh_help
          [leaf ''quiz'' ''FAQ'' ''/help/faq'']]]"

section \<open>Operations\<close>

definition resolveSidebarPath :: "(string \<Rightarrow> string \<Rightarrow> bool) \<Rightarrow> string \<Rightarrow> string" where
  "resolveSidebarPath mp pathname =
     nullish (Option.bind (findRouteAuthorizationRule mp pathname) fallbackPath) pathname"

definition children_of :: "menu_item \<Rightarrow> menu_item list" where
  "children_of item = nullish (mi_children item) []"

definition section_items :: "menu_section list \<Rightarrow> menu_item list" where
  "section_items sections = concat (map items sections)"

definition getOpenKeysForPath ::
    "(string \<Rightarrow> string \<Rightarrow> bool) \<Rightarrow> string \<Rightarrow> menu_section list \<Rightarrow> string list" where
  "getOpenKeysForPath mp pathname sections =
     (let resolvedPath = resolveSidebarPath mp pathname
      in concat (map (\<lambda>item. map (\<lambda>_. mi_label item)
                        (filter (\<lambda>child. mi_path child = Some resolvedPath) (children_of item)))
                  (section_items sections)))"

definition exact_candidates :: "menu_item \<Rightarrow> string option list" where
  "exact_candidates item = mi_path item # map mi_path (children_of item)"

definition getSelectedKey ::
    "(string \<Rightarrow> string \<Rightarrow> bool) \<Rightarrow> string \<Rightarrow> menu_section list \<Rightarrow> string" where
  "getSelectedKey mp pathname sections =
     (let resolvedPath = resolveSidebarPath mp pathname;
          exact = find (\<lambda>p. p = Some resolvedPath) (concat (map exact_candidates (section_items sections)))
      in case exact of
           Some p \<Rightarrow> resolvedPath
         | None \<Rightarrow>
             (let prefixes = filter (\<lambda>p. p \<noteq> [] \<and> startsWith resolvedPath p)
                    (List.map_filter mi_path (concat (map children_of (section_items sections))))
              in case prefixes of p # _ \<Rightarrow> p | [] \<Rightarrow> ''/''))"

definition canAccessMenuPath ::
    "(string \<Rightarrow> string \<Rightarrow> bool) \<Rightarrow> string option \<Rightarrow> authz \<Rightarrow> bool" where
  "canAccessMenuPath mp p auth =
     (case p of None \<Rightarrow> False | Some q \<Rightarrow> if q = [] then False else canAccessRoute mp q auth)"

definition filter_item :: "(string \<Rightarrow> string \<Rightarrow> bool) \<Rightarrow> authz \<Rightarrow> menu_item \<Rightarrow> menu_item option" where
  "filter_item mp auth item =
     (case mi_children item of
        Some cs \<Rightarrow>
          (let filteredChildren = filter (\<lambda>child. canAccessMenuPath mp (mi_path child) auth) cs
           in if filteredChildren = [] then None
              else Some (MenuItem (mi_icon item) (mi_label item) (mi_path item) (Some filteredChildren)))
      | None \<Rightarrow> if canAccessMenuPath mp (mi_path item) auth then Some item else None)"

definition filterSectionsByAuthorization ::
    "(string \<Rightarrow> string \<Rightarrow> bool) \<Rightarrow> menu_section list \<Rightarrow> authz \<Rightarrow> bool \<Rightarrow> menu_section list" where
  "filterSectionsByAuthorization mp sections auth ready =
     (if \<not> ready then []
      else filter (\<lambda>s. items s \<noteq> [])
             (map (\<lambda>s. s\<lparr>items := List.map_filter (filter_item mp auth) (items s)\<rparr>) sections))"

text \<open>An entry as the menu widget receives it; \<open>badge\<close> is the count shown on the icon or the label.\<close>

datatype built_item =
  BuiltItem (bi_key: "string option") (bi_icon: string) (bi_icon_badge: "nat option")
    (bi_label: string) (bi_label_badge: "nat option") (bi_children: "built_item list option")

record built_group =
  bg_label :: string
  bg_children :: "built_item list"

definition build_child :: "menu_item \<Rightarrow> built_item" where
  "build_child child = BuiltItem (mi_path child) (mi_icon child) None (mi_label child) None None"

definition build_item :: "nat \<Rightarrow> bool \<Rightarrow> menu_item \<Rightarrow> built_item" where
  "build_item unreadCount collapsed item =
     (let isAlert = mi_label item = zh_alert_center \<and> unreadCount > 0;
          iconBadge = (if isAlert \<and> collapsed then Some unreadCount else None);
          labelBadge = (if isAlert \<and> \<not> collapsed then Some unreadCount else None)
      in case mi_children item of
           Some cs \<Rightarrow>
             BuiltItem (Some (mi_label item)) (mi_icon item) iconBadge (mi_label item) labelBadge
               (Some (map build_child cs))
         | None \<Rightarrow> BuiltItem (mi_path item) (mi_icon item) iconBadge (mi_label item) labelBadge None)"

definition buildMenuItems :: "menu_section list \<Rightarrow> nat \<Rightarrow> bool \<Rightarrow> built_group list" where
  "buildMenuItems sections unreadCount collapsed =
     map (\<lambda>s. \<lparr>bg_label = title s, bg_children = map (build_item unreadCount collapsed) (items s)\<rparr>) sections"

section \<open>Lemmas\<close>

text \<open>The paths a click in the menu can navigate to.\<close>

definition item_paths :: "menu_item \<Rightarrow> string list" where
  "item_paths item =
     (case mi_children item of
        Some cs \<Rightarrow> List.map_filter mi_path cs
      | None \<Rightarrow> (case mi_path item of None \<Rightarrow> [] | Some p \<Rightarrow> [p]))"

definition menu_paths :: "menu_section list \<Rightarrow> string list" where
  "menu_paths sections = concat (map item_paths (section_items sections))"

lemma canAccessMenuPath_iff:
  "canAccessMenuPath mp p auth \<longleftrightarrow> (\<exists>q. p = Some q \<and> q \<noteq> [] \<and> canAccessRoute mp q auth)"
  by (auto simp: canAccessMenuPath_def split: option.split)

lemma filter_item_paths:
  "filter_item mp auth item = Some item' \<Longrightarrow>
     item_paths item' = filter (\<lambda>p. p \<noteq> [] \<and> canAccessRoute mp p auth) (item_paths item)"
proof (cases "mi_children item")
  case (Some cs)
  moreover have "List.map_filter mi_path (filter (\<lambda>c. canAccessMenuPath mp (mi_path c) auth) cs)
      = filter (\<lambda>p. p \<noteq> [] \<and> canAccessRoute mp p auth) (List.map_filter mi_path cs)"
    by (induction cs) (auto simp: List.map_filter_simps canAccessMenuPath_iff split: option.split)
  moreover assume "filter_item mp auth item = Some item'"
  ultimately show ?thesis by (auto simp: filter_item_def item_paths_def Let_def split: if_splits)
qed (auto simp: filter_item_def item_paths_def canAccessMenuPath_iff split: if_splits)

lemma filter_item_None:
  "filter_item mp auth item = None \<Longrightarrow>
     filter (\<lambda>p. p \<noteq> [] \<and> canAccessRoute mp p auth) (item_paths item) = []"
  by (auto simp: filter_item_def item_paths_def Let_def filter_empty_conv set_map_filter
      canAccessMenuPath_iff split: if_splits option.splits)

lemma filter_items_paths:
  "concat (map item_paths (List.map_filter (filter_item mp auth) xs))
     = filter (\<lambda>p. p \<noteq> [] \<and> canAccessRoute mp p auth) (concat (map item_paths xs))"
proof (induction xs)
  case (Cons x xs)
  then show ?case
    by (cases "filter_item mp auth x")
      (simp_all add: List.map_filter_simps filter_item_paths filter_item_None)
qed (simp add: List.map_filter_simps)

lemma section_items_drop_empty:
  "section_items (filter (\<lambda>s. items s \<noteq> []) ss) = section_items ss"
  by (induction ss) (auto simp: section_items_def)

text \<open>The menu offers exactly the accessible paths of the unfiltered menu, in the same order.\<close>

lemma menu_paths_filterSections:
  "menu_paths (filterSectionsByAuthorization mp ss auth True)
     = filter (\<lambda>p. p \<noteq> [] \<and> canAccessRoute mp p auth) (menu_paths ss)"
  unfolding filterSectionsByAuthorization_def menu_paths_def
  by (simp add: section_items_drop_empty)
    (induction ss, simp_all add: section_items_def filter_items_paths)

lemma menu_paths_MENU_SECTIONS:
  "menu_paths MENU_SECTIONS =
     [''/'', ''/search/realtime'', ''/search/history'', ''/search/saved'', ''/alerts/list'', ''/alerts/rules'',
      ''/alerts/notifications'', ''/alerts/silence'', ''/incidents/list'', ''/incidents/timeline'',
      ''/incidents/analysis'', ''/incidents/sla'', ''/incidents/archive'', ''/ingestion/sources'',
      ''/ingestion/agents'', ''/ingestion/wizard'', ''/ingestion/status'', ''/storage/indices'',
      ''/storage/ilm'', ''/storage/backup'', ''/storage/capacity'', ''/performance/monitoring'',
      ''/performance/health'', ''/reports/management'', ''/reports/downloads'', ''/security/users'',
      ''/security/roles'', ''/security/audit'', ''/security/login-policy'', ''/integration/webhook'',
      ''/help/faq'']"
  by (simp add: MENU_SECTIONS_def menu_section.make_def menu_paths_def section_items_def item_paths_def
      leaf_def branch_def List.map_filter_simps)

text \<open>The highlighted entry is the dashboard or an entry of the menu.\<close>

lemma getSelectedKey_cases:
  "getSelectedKey mp p ss = ''/''
   \<or> (\<exists>i \<in> set (section_items ss). Some (getSelectedKey mp p ss) \<in> set (exact_candidates i))"
proof (cases "find (\<lambda>q. q = Some (resolveSidebarPath mp p)) (concat (map exact_candidates (section_items ss)))")
  case (Some q)
  then have "Some (resolveSidebarPath mp p) \<in> set (concat (map exact_candidates (section_items ss)))"
    by (auto dest: find_SomeD)
  then show ?thesis using Some by (auto simp: getSelectedKey_def Let_def)
next
  case None
  show ?thesis
  proof (cases "filter (\<lambda>q. q \<noteq> [] \<and> startsWith (resolveSidebarPath mp p) q)
      (List.map_filter mi_path (concat (map children_of (section_items ss))))")
    case Nil
    then show ?thesis using None by (simp add: getSelectedKey_def Let_def)
  next
    case (Cons q qs)
    then have "q \<in> set (List.map_filter mi_path (concat (map children_of (section_items ss))))"
      by (metis list.set_intros(1) filter_is_subset subsetD)
    then obtain i c where "i \<in> set (section_items ss)" "c \<in> set (children_of i)" "mi_path c = Some q"
      by (auto simp: set_map_filter)
    then have "Some q \<in> set (exact_candidates i)" unfolding exact_candidates_def by (metis image_eqI list.set_intros(2) list.set_map)
    moreover have "getSelectedKey mp p ss = q" using None Cons by (simp add: getSelectedKey_def Let_def)
    ultimately show ?thesis using \<open>i \<in> set (section_items ss)\<close> by blast
  qed
qed

section \<open>Properties\<close>

text \<open>C14: The side menu offers exactly the entries of the menu the session may open, in the menu's
  order, nothing before the authorization is ready, and no empty group; every registered page
  without an address parameter and without a fallback of its own is in the unfiltered menu, in the registry's order.\<close>

theorem menu_shows_exactly_accessible:
  "menu_paths (filterSectionsByAuthorization mp MENU_SECTIONS auth ready)
     = (if ready then filter (\<lambda>p. p \<noteq> [] \<and> canAccessRoute mp p auth) (menu_paths MENU_SECTIONS) else [])
   \<and> list_all (\<lambda>s. items s \<noteq> []) (filterSectionsByAuthorization mp sections auth ready)
   \<and> menu_paths MENU_SECTIONS
       = map path (filter (\<lambda>r. \<not> js_includes (path r) '':'' \<and> fallbackPath r = None)
           ROUTE_AUTHORIZATION_RULES)"
proof (intro conjI)
  show "menu_paths (filterSectionsByAuthorization mp MENU_SECTIONS auth ready)
     = (if ready then filter (\<lambda>p. p \<noteq> [] \<and> canAccessRoute mp p auth) (menu_paths MENU_SECTIONS) else [])"
    by (cases ready)
      (simp_all add: menu_paths_filterSections, simp add: filterSectionsByAuthorization_def menu_paths_def section_items_def)
  show "list_all (\<lambda>s. items s \<noteq> []) (filterSectionsByAuthorization mp sections auth ready)"
    by (simp add: filterSectionsByAuthorization_def list_all_iff)
  show "menu_paths MENU_SECTIONS
       = map path (filter (\<lambda>r. \<not> js_includes (path r) '':'' \<and> fallbackPath r = None)
           ROUTE_AUTHORIZATION_RULES)"
    unfolding menu_paths_MENU_SECTIONS by code_simp
qed

end
