(* ===== verification/Js_Number.thy ===== *)
theory Js_Number
  imports Js_String
begin

text \<open>
  Numbers of the runtime. A JavaScript number is \<open>NaN\<close>, an infinity or a finite value; finite
  values are exact rationals here, so the model has no rounding error and no overflow to infinity.
  The conversions \<open>Number(s)\<close> and \<open>String(x)\<close> are the decimal ones (\<open>String\<close> for magnitudes
  JavaScript prints without exponent, with at most 17 fractional digits).
\<close>

datatype jsnum = NaN | PosInf | NegInf | Fin rat

definition isFinite :: "jsnum \<Rightarrow> bool" where
  "isFinite x \<longleftrightarrow> (case x of Fin _ \<Rightarrow> True | _ \<Rightarrow> False)"

lemma isFinite_simps [simp, js_eval]:
  "isFinite (Fin q)" "\<not> isFinite NaN" "\<not> isFinite PosInf" "\<not> isFinite NegInf"
  by (simp_all add: isFinite_def)

text \<open>The value of a number known to be finite (0 stands in elsewhere and is never used).\<close>

definition fin_val :: "jsnum \<Rightarrow> rat" where
  "fin_val x = (case x of Fin q \<Rightarrow> q | _ \<Rightarrow> 0)"

lemma fin_val_Fin [simp, js_eval]: "fin_val (Fin q) = q"
  by (simp add: fin_val_def)

text \<open>The comparisons \<open>x > 0\<close> and \<open>x <= 0\<close>; both are false of \<open>NaN\<close>.\<close>

definition num_gt :: "jsnum \<Rightarrow> rat \<Rightarrow> bool" where
  "num_gt x b \<longleftrightarrow> (case x of Fin q \<Rightarrow> b < q | PosInf \<Rightarrow> True | _ \<Rightarrow> False)"

definition num_le :: "jsnum \<Rightarrow> rat \<Rightarrow> bool" where
  "num_le x b \<longleftrightarrow> (case x of Fin q \<Rightarrow> q \<le> b | NegInf \<Rightarrow> True | _ \<Rightarrow> False)"

lemma num_cmp_simps [simp, js_eval]:
  "num_gt (Fin q) b \<longleftrightarrow> b < q" "num_gt PosInf b" "\<not> num_gt NegInf b" "\<not> num_gt NaN b"
  "num_le (Fin q) b \<longleftrightarrow> q \<le> b" "\<not> num_le PosInf b" "num_le NegInf b" "\<not> num_le NaN b"
  by (simp_all add: num_gt_def num_le_def)

text \<open>\<open>x || b\<close> on numbers: 0 and \<open>NaN\<close> are falsy.\<close>

definition or_num :: "jsnum \<Rightarrow> jsnum \<Rightarrow> jsnum" where
  "or_num x b = (if x = NaN \<or> x = Fin 0 then b else x)"

section \<open>Number(s)\<close>

definition parse_exponent :: "string \<Rightarrow> int option" where
  "parse_exponent s =
     (let (neg, ds) = (case s of [] \<Rightarrow> (False, [])
                         | c # t \<Rightarrow> if c = CHR ''-'' then (True, t)
                                    else if c = CHR ''+'' then (False, t) else (False, s))
      in if ds \<noteq> [] \<and> list_all is_digit ds
         then Some (if neg then - int (digits_val 0 ds) else int (digits_val 0 ds)) else None)"

definition scale10 :: "rat \<Rightarrow> int \<Rightarrow> rat" where
  "scale10 q k = (if k < 0 then q / 10 ^ nat (- k) else q * 10 ^ nat k)"

text \<open>An unsigned decimal literal: digits, an optional fraction, an optional exponent.\<close>

definition parse_decimal :: "string \<Rightarrow> rat option" where
  "parse_decimal s =
     (let ip = takeWhile is_digit s; r1 = dropWhile is_digit s;
          (fp, r2) = (case r1 of [] \<Rightarrow> ([], [])
                        | c # t \<Rightarrow> if c = CHR ''.'' then (takeWhile is_digit t, dropWhile is_digit t)
                                   else ([], r1));
          m = of_nat (digits_val 0 (ip @ fp)) / 10 ^ length fp
      in if ip = [] \<and> fp = [] then None
         else case r2 of
                [] \<Rightarrow> Some m
              | c # t \<Rightarrow> if c = CHR ''e'' \<or> c = CHR ''E'' then map_option (scale10 m) (parse_exponent t)
                         else None)"

definition hex_val :: "char \<Rightarrow> nat option" where
  "hex_val c =
     (let n = of_char c :: nat
      in if 48 \<le> n \<and> n \<le> 57 then Some (n - 48)
         else if 97 \<le> n \<and> n \<le> 102 then Some (n - 87)
         else if 65 \<le> n \<and> n \<le> 70 then Some (n - 55) else None)"

fun radix_val :: "nat \<Rightarrow> nat \<Rightarrow> string \<Rightarrow> nat option" where
  "radix_val b acc [] = Some acc"
| "radix_val b acc (c # cs) =
     (case hex_val c of None \<Rightarrow> None
      | Some d \<Rightarrow> if d < b then radix_val b (b * acc + d) cs else None)"

definition parse_radix :: "nat \<Rightarrow> string \<Rightarrow> jsnum" where
  "parse_radix b s =
     (if s = [] then NaN else case radix_val b 0 s of None \<Rightarrow> NaN | Some n \<Rightarrow> Fin (of_nat n))"

definition js_Number :: "string \<Rightarrow> jsnum" where
  "js_Number raw =
     (let s = trim raw
      in if s = [] then Fin 0
         else if startsWith (toLowerCase s) ''0x'' then parse_radix 16 (drop 2 s)
         else if startsWith (toLowerCase s) ''0o'' then parse_radix 8 (drop 2 s)
         else if startsWith (toLowerCase s) ''0b'' then parse_radix 2 (drop 2 s)
         else
           let neg = (hd s = CHR ''-''); u = (if hd s = CHR ''-'' \<or> hd s = CHR ''+'' then tl s else s)
           in if u = ''Infinity'' then (if neg then NegInf else PosInf)
              else case parse_decimal u of None \<Rightarrow> NaN | Some q \<Rightarrow> Fin (if neg then - q else q))"

section \<open>String(x)\<close>

fun frac_digits :: "nat \<Rightarrow> rat \<Rightarrow> string" where
  "frac_digits 0 f = []"
| "frac_digits (Suc n) f =
     (if f = 0 then [] else digit_char (nat \<lfloor>f * 10\<rfloor>) # frac_digits n (f * 10 - of_int \<lfloor>f * 10\<rfloor>))"

definition rat_to_string :: "rat \<Rightarrow> string" where
  "rat_to_string q =
     (if of_int \<lfloor>q\<rfloor> = q then int_to_string \<lfloor>q\<rfloor>
      else (if q < 0 then ''-'' else '''') @ nat_to_string (nat \<lfloor>\<bar>q\<bar>\<rfloor>) @ ''.''
           @ frac_digits 17 (\<bar>q\<bar> - of_int \<lfloor>\<bar>q\<bar>\<rfloor>))"

definition num_to_string :: "jsnum \<Rightarrow> string" where
  "num_to_string x =
     (case x of NaN \<Rightarrow> ''NaN'' | PosInf \<Rightarrow> ''Infinity'' | NegInf \<Rightarrow> ''-Infinity''
      | Fin q \<Rightarrow> rat_to_string q)"

lemma rat_to_string_int [simp]: "rat_to_string (of_int i) = int_to_string i"
  by (simp add: rat_to_string_def)

section \<open>Reading back a printed integer\<close>

lemma takeWhile_digits: "\<forall>c \<in> set s. is_digit c \<Longrightarrow> takeWhile is_digit s = s \<and> dropWhile is_digit s = []"
  by (induction s) auto

lemma parse_decimal_digits:
  assumes "s \<noteq> []" and "\<forall>c \<in> set s. is_digit c"
  shows "parse_decimal s = Some (of_nat (digits_val 0 s))"
  using assms takeWhile_digits [OF assms(2)] by (simp add: parse_decimal_def Let_def del: takeWhile_eq_all_conv dropWhile_eq_Nil_conv)

lemma digit_plain: "is_digit c \<Longrightarrow> plain_char c"
  by (auto simp: is_digit_def plain_char_def ascii_ws_def)

lemma digits_second_not_alpha:
  assumes "\<forall>c \<in> set s. is_digit c" and "\<not> is_digit d"
  shows "\<not> startsWith (toLowerCase s) [CHR ''0'', d]"
proof
  assume "startsWith (toLowerCase s) [CHR ''0'', d]"
  then obtain t where t: "toLowerCase s = CHR ''0'' # d # t" by (auto simp: startsWith_iff)
  have "toLowerCase s = s"
    using assms(1) by (auto simp: toLowerCase_def lower_char_def is_digit_def intro!: map_idI)
  with t have "d \<in> set s" by simp
  with assms show False by blast
qed

lemma js_Number_nat: "js_Number (nat_to_string n) = Fin (of_nat n)"
proof -
  let ?s = "nat_to_string n"
  have ds: "\<forall>c \<in> set ?s. is_digit c" by (rule nat_to_string_digits)
  then have tr: "trim ?s = ?s"
    by (intro trim_plain) (auto simp: plain_ends_def intro!: digit_plain)
  have h: "is_digit (hd ?s)" using ds by simp
  then have h': "hd ?s \<noteq> CHR ''-''" "hd ?s \<noteq> CHR ''+''" "hd ?s \<noteq> CHR ''I''"
    by (auto simp: is_digit_def)
  moreover have "?s \<noteq> ''Infinity''" using h'(3) by auto
  moreover have "\<not> startsWith (toLowerCase ?s) ''0x''" "\<not> startsWith (toLowerCase ?s) ''0o''"
    "\<not> startsWith (toLowerCase ?s) ''0b''"
    by (rule digits_second_not_alpha [OF ds], simp add: is_digit_def)+
  ultimately show ?thesis
    using parse_decimal_digits [OF _ ds] by (simp add: js_Number_def tr Let_def)
qed

lemma js_Number_int: "0 \<le> i \<Longrightarrow> js_Number (int_to_string i) = Fin (of_int i)"
  by (simp add: int_to_string_def js_Number_nat of_nat_nat)

lemma trim_int_to_string [simp]: "trim (int_to_string i) = int_to_string i"
proof -
  have all: "plain_char c" if "c \<in> set (nat_to_string n)" for c n
    using that nat_to_string_digits digit_plain by blast
  have "plain_char (hd (nat_to_string n))" and "plain_char (last (nat_to_string n))" for n
    by (rule all [of _ n], simp)+
  then have "plain_ends (nat_to_string n)" and "plain_ends (CHR ''-'' # nat_to_string n)" for n
    by (simp_all add: plain_ends_def) (simp add: plain_char_def ascii_ws_def)
  then show ?thesis
    by (simp add: int_to_string_def trim_plain)
qed

lemma int_to_string_not_Nil [simp]: "int_to_string i \<noteq> []"
  by (simp add: int_to_string_def)

section \<open>Rounding\<close>

text \<open>\<open>Math.round(x)\<close> and \<open>x.toFixed(d)\<close>; the latter picks the larger of two nearest values of a
  magnitude.\<close>

definition js_round :: "rat \<Rightarrow> int" where
  "js_round x = \<lfloor>x + 1/2\<rfloor>"

definition pad_left :: "nat \<Rightarrow> string \<Rightarrow> string" where
  "pad_left n s = replicate (n - length s) (CHR ''0'') @ s"

definition fixed_digits :: "nat \<Rightarrow> nat \<Rightarrow> string" where
  "fixed_digits d n =
     (if d = 0 then nat_to_string n
      else nat_to_string (n div 10 ^ d) @ ''.'' @ pad_left d (nat_to_string (n mod 10 ^ d)))"

definition toFixed :: "nat \<Rightarrow> rat \<Rightarrow> string" where
  "toFixed d x =
     (if x < 0 then ''-'' else []) @ fixed_digits d (nat (js_round (\<bar>x\<bar> * 10 ^ d)))"

text \<open>\<open>Number(x.toFixed(d))\<close>.\<close>

definition round_to :: "nat \<Rightarrow> rat \<Rightarrow> rat" where
  "round_to d x =
     (if x < 0 then - of_int (js_round (- x * 10 ^ d)) / 10 ^ d else of_int (js_round (x * 10 ^ d)) / 10 ^ d)"

lemma js_round_int [simp]: "js_round (of_int i) = i"
  by (simp add: js_round_def floor_eq_iff)

lemma js_round_mono: "x \<le> y \<Longrightarrow> js_round x \<le> js_round y"
  by (simp add: js_round_def floor_mono)

lemma js_round_bounds: "of_int (js_round x) \<le> x + 1/2" "x - 1/2 < of_int (js_round x)"
  unfolding js_round_def by linarith+

end
