(* ===== verification/Json.thy ===== *)
theory Json
  imports Js_Number
begin

text \<open>
  JSON values with \<open>JSON.stringify\<close> and \<open>JSON.parse\<close> of the runtime, as the components that keep
  state in the browser's storage use them, and the round trip between the two. Objects keep their
  keys in insertion order; parsing a repeated key overwrites its value in place, as \<open>jm_set\<close> does.
\<close>

datatype json =
    JNull
  | JBool bool
  | JNum rat
  | JStr string
  | JArr "json list"
  | JObj "(string \<times> json) list"

section \<open>JSON.stringify\<close>

definition hex_digit :: "nat \<Rightarrow> char" where
  "hex_digit d = (if d < 10 then char_of (48 + d) else char_of (87 + d))"

definition escape_char :: "char \<Rightarrow> string" where
  "escape_char c =
     (if c = CHR 0x22 then [CHR 0x5C, CHR 0x22]
      else if c = CHR 0x5C then [CHR 0x5C, CHR 0x5C]
      else if c = CHR 0x08 then [CHR 0x5C, CHR ''b'']
      else if c = CHR 0x09 then [CHR 0x5C, CHR ''t'']
      else if c = CHR 0x0A then [CHR 0x5C, CHR ''n'']
      else if c = CHR 0x0C then [CHR 0x5C, CHR ''f'']
      else if c = CHR 0x0D then [CHR 0x5C, CHR ''r'']
      else if (of_char c :: nat) < 32 then
        [CHR 0x5C, CHR ''u'', CHR ''0'', CHR ''0'',
         hex_digit (of_char c div 16), hex_digit (of_char c mod 16)]
      else [c])"

definition quote :: "string \<Rightarrow> string" where
  "quote s = CHR 0x22 # concat (map escape_char s) @ [CHR 0x22]"

fun stringify :: "json \<Rightarrow> string"
  and stringify_elems :: "json list \<Rightarrow> string"
  and stringify_members :: "(string \<times> json) list \<Rightarrow> string" where
  "stringify JNull = ''null''"
| "stringify (JBool b) = (if b then ''true'' else ''false'')"
| "stringify (JNum q) = rat_to_string q"
| "stringify (JStr s) = quote s"
| "stringify (JArr xs) = ''['' @ stringify_elems xs @ '']''"
| "stringify (JObj ms) = ''{'' @ stringify_members ms @ ''}''"
| "stringify_elems [] = ''''"
| "stringify_elems (x # xs) = stringify x @ (if xs = [] then '''' else '','' @ stringify_elems xs)"
| "stringify_members [] = ''''"
| "stringify_members ((k, x) # ms) =
     quote k @ '':'' @ stringify x @ (if ms = [] then '''' else '','' @ stringify_members ms)"

section \<open>JSON.parse\<close>

definition json_ws :: "char \<Rightarrow> bool" where
  "json_ws c \<longleftrightarrow> c = CHR '' '' \<or> c = CHR 0x09 \<or> c = CHR 0x0A \<or> c = CHR 0x0D"

definition skip_ws :: "string \<Rightarrow> string" where
  "skip_ws s = dropWhile json_ws s"

definition hex4 :: "char \<Rightarrow> char \<Rightarrow> char \<Rightarrow> char \<Rightarrow> nat option" where
  "hex4 a b c d = radix_val 16 0 [a, b, c, d]"

definition unescape :: "char \<Rightarrow> char option" where
  "unescape e =
     (if e = CHR 0x22 \<or> e = CHR 0x5C \<or> e = CHR ''/'' then Some e
      else if e = CHR ''b'' then Some (CHR 0x08)
      else if e = CHR ''f'' then Some (CHR 0x0C)
      else if e = CHR ''n'' then Some (CHR 0x0A)
      else if e = CHR ''r'' then Some (CHR 0x0D)
      else if e = CHR ''t'' then Some (CHR 0x09) else None)"

text \<open>The body of a string literal up to its closing quote; surrogate pairs are one code point.\<close>

definition prepend :: "string \<Rightarrow> (string \<times> string) option \<Rightarrow> (string \<times> string) option" where
  "prepend p = map_option (\<lambda>(x, r). (p @ x, r))"

fun parse_u :: "string \<Rightarrow> (nat \<times> string) option" where
  "parse_u (a # b # c # d # r) = (case hex4 a b c d of None \<Rightarrow> None | Some n \<Rightarrow> Some (n, r))"
| "parse_u _ = None"

lemma parse_u_length: "parse_u s = Some (n, r) \<Longrightarrow> length r < length s"
  by (cases s rule: parse_u.cases) (auto split: option.splits)

text \<open>A low surrogate escape, if the string goes on with one.\<close>

definition low_surrogate :: "string \<Rightarrow> (nat \<times> string) option" where
  "low_surrogate s =
     (case s of
        a # b # t \<Rightarrow>
          (if a = CHR 0x5C \<and> b = CHR ''u''
           then (case parse_u t of
                   None \<Rightarrow> None
                 | Some (n, r) \<Rightarrow> if 56320 \<le> n \<and> n < 57344 then Some (n, r) else None)
           else None)
      | _ \<Rightarrow> None)"

lemma low_surrogate_length: "low_surrogate s = Some (n, r) \<Longrightarrow> length r < length s"
  by (auto simp: low_surrogate_def dest: parse_u_length split: list.splits option.splits if_splits)

function parse_str :: "string \<Rightarrow> (string \<times> string) option" where
  "parse_str s =
     (case s of
        [] \<Rightarrow> None
      | c # r \<Rightarrow>
          if c = CHR 0x22 then Some ([], r)
          else if c = CHR 0x5C then
            (case r of
               [] \<Rightarrow> None
             | e # r' \<Rightarrow>
                 if e = CHR ''u'' then
                   (case parse_u r' of
                      None \<Rightarrow> None
                    | Some (n, r1) \<Rightarrow>
                        if 55296 \<le> n \<and> n < 56320 then
                          (case low_surrogate r1 of
                             None \<Rightarrow> prepend (utf8_char n) (parse_str r1)
                           | Some (m, r2) \<Rightarrow>
                               prepend (utf8_char (65536 + (n - 55296) * 1024 + (m - 56320))) (parse_str r2))
                        else prepend (utf8_char n) (parse_str r1))
                 else (case unescape e of None \<Rightarrow> None | Some x \<Rightarrow> prepend [x] (parse_str r')))
          else if (of_char c :: nat) < 32 then None
          else prepend [c] (parse_str r))"
  by pat_completeness auto
termination
  by (relation "measure length") (auto dest!: parse_u_length low_surrogate_length)

declare parse_str.simps [simp del]

text \<open>A number token: an optional minus, no leading zero, optional fraction and exponent.\<close>

definition num_char :: "char \<Rightarrow> bool" where
  "num_char c \<longleftrightarrow> is_digit c \<or> c = CHR ''.'' \<or> c = CHR ''e'' \<or> c = CHR ''E'' \<or> c = CHR ''+'' \<or> c = CHR ''-''"

definition frac_ok :: "string \<Rightarrow> bool" where
  "frac_ok t \<longleftrightarrow>
     (case dropWhile is_digit t of
        [] \<Rightarrow> True
      | c # u \<Rightarrow> c = CHR ''.'' \<longrightarrow> (u \<noteq> [] \<and> is_digit (hd u)))"

definition parse_number :: "string \<Rightarrow> (json \<times> string) option" where
  "parse_number s =
     (let tok = takeWhile num_char s; rest = dropWhile num_char s;
          neg = (tok \<noteq> [] \<and> hd tok = CHR ''-''); u = (if neg then tl tok else tok)
      in if u = [] \<or> \<not> is_digit (hd u) then None
         else if hd u = CHR ''0'' \<and> tl u \<noteq> [] \<and> is_digit (hd (tl u)) then None
         else if \<not> frac_ok u then None
         else case parse_decimal u of
                None \<Rightarrow> None
              | Some q \<Rightarrow> Some (JNum (if neg then - q else q), rest))"

text \<open>
  The value parser. The first argument bounds the depth of calls; every call but the ones that
  open an element list consumes a character, so twice the length of the text is always enough
  and \<open>parse\<close> starts with that.
\<close>

fun parse_value :: "nat \<Rightarrow> string \<Rightarrow> (json \<times> string) option"
  and parse_elems :: "nat \<Rightarrow> json list \<Rightarrow> string \<Rightarrow> (json \<times> string) option"
  and parse_members :: "nat \<Rightarrow> (string \<times> json) list \<Rightarrow> string \<Rightarrow> (json \<times> string) option" where
  "parse_value 0 s = None"
| "parse_value (Suc f) s =
     (case skip_ws s of
        [] \<Rightarrow> None
      | c # r \<Rightarrow>
          if c = CHR 0x22 then map_option (\<lambda>(x, r'). (JStr x, r')) (parse_str r)
          else if c = CHR ''{'' then
            (case skip_ws r of
               [] \<Rightarrow> None
             | d # r' \<Rightarrow> if d = CHR ''}'' then Some (JObj [], r') else parse_members f [] (d # r'))
          else if c = CHR ''['' then
            (case skip_ws r of
               [] \<Rightarrow> None
             | d # r' \<Rightarrow> if d = CHR '']'' then Some (JArr [], r') else parse_elems f [] (d # r'))
          else if startsWith (c # r) ''null'' then Some (JNull, drop 3 r)
          else if startsWith (c # r) ''true'' then Some (JBool True, drop 3 r)
          else if startsWith (c # r) ''false'' then Some (JBool False, drop 4 r)
          else parse_number (c # r))"
| "parse_elems 0 acc s = None"
| "parse_elems (Suc f) acc s =
     (case parse_value f s of
        None \<Rightarrow> None
      | Some (v, r) \<Rightarrow>
          (case skip_ws r of
             [] \<Rightarrow> None
           | d # r' \<Rightarrow> if d = CHR '','' then parse_elems f (acc @ [v]) r'
                       else if d = CHR '']'' then Some (JArr (acc @ [v]), r') else None))"
| "parse_members 0 acc s = None"
| "parse_members (Suc f) acc s =
     (case skip_ws s of
        [] \<Rightarrow> None
      | q # s1 \<Rightarrow>
          if q \<noteq> CHR 0x22 then None
          else case parse_str s1 of
                 None \<Rightarrow> None
               | Some (k, s2) \<Rightarrow>
                   (case skip_ws s2 of
                      [] \<Rightarrow> None
                    | col # s3 \<Rightarrow>
                        if col \<noteq> CHR '':'' then None
                        else case parse_value f s3 of
                               None \<Rightarrow> None
                             | Some (v, r) \<Rightarrow>
                                 (case skip_ws r of
                                    [] \<Rightarrow> None
                                  | d # r' \<Rightarrow>
                                      if d = CHR '','' then parse_members f (jm_set k v acc) r'
                                      else if d = CHR ''}'' then Some (JObj (jm_set k v acc), r')
                                      else None)))"

definition parse :: "string \<Rightarrow> json option" where
  "parse s =
     (case parse_value (2 * length s + 2) s of
        None \<Rightarrow> None
      | Some (v, r) \<Rightarrow> if skip_ws r = [] then Some v else None)"

section \<open>Reading back what was printed\<close>

lemma json_ws_quote: "\<not> json_ws (CHR 0x22)" "\<not> json_ws (CHR '':'')" "\<not> json_ws (CHR '','')"
  "\<not> json_ws (CHR '']'')" "\<not> json_ws (CHR ''}'')" "\<not> json_ws (CHR ''['')" "\<not> json_ws (CHR ''{'')"
  by (simp_all add: json_ws_def)

lemma skip_ws_Cons: "\<not> json_ws c \<Longrightarrow> skip_ws (c # s) = c # s"
  by (simp add: skip_ws_def)

lemma skip_ws_Nil [simp]: "skip_ws [] = []"
  by (simp add: skip_ws_def)

lemmas skip_ws_punct [simp] = json_ws_quote [THEN skip_ws_Cons]

lemma hex_val_digit: "d < 16 \<Longrightarrow> hex_val (hex_digit d) = Some d"
  by (auto simp: hex_val_def hex_digit_def)

lemma char_of_less_256: "(of_char c :: nat) < 256"
  by (cases c) (auto simp: of_char_def)

lemma parse_u_control:
  assumes "n < 32"
  shows "parse_u (CHR ''0'' # CHR ''0'' # hex_digit (n div 16) # hex_digit (n mod 16) # t) = Some (n, t)"
proof -
  have "n div 16 < 16" "n mod 16 < 16" "16 * (n div 16) + n mod 16 = n" using assms by auto
  then show ?thesis by (simp add: hex4_def hex_val_digit hex_val_def [of "CHR ''0''"])
qed

lemma parse_str_escape: "parse_str (escape_char c @ t) = prepend [c] (parse_str t)"
proof -
  consider (special) "c \<in> {CHR 0x22, CHR 0x5C, CHR 0x08, CHR 0x09, CHR 0x0A, CHR 0x0C, CHR 0x0D}"
    | (control) "c \<notin> {CHR 0x22, CHR 0x5C, CHR 0x08, CHR 0x09, CHR 0x0A, CHR 0x0C, CHR 0x0D}"
        "(of_char c :: nat) < 32"
    | (plain) "c \<notin> {CHR 0x22, CHR 0x5C, CHR 0x08, CHR 0x09, CHR 0x0A, CHR 0x0C, CHR 0x0D}"
        "\<not> (of_char c :: nat) < 32"
    by blast
  then show ?thesis
  proof cases
    case special
    then show ?thesis
      by (auto simp: escape_char_def parse_str.simps [of "CHR 0x5C # s" for s] unescape_def)
  next
    case control
    then have "utf8_char (of_char c) = [c]" by (simp add: utf8_char_def)
    with control parse_u_control [of "of_char c" t] show ?thesis
      by (simp add: escape_char_def parse_str.simps [of "CHR 0x5C # s" for s])
  next
    case plain
    then show ?thesis by (simp add: escape_char_def parse_str.simps [of "c # t"])
  qed
qed

lemma parse_str_quoted: "parse_str (concat (map escape_char s) @ CHR 0x22 # r) = Some (s, r)"
proof (induction s)
  case Nil
  show ?case by (simp add: parse_str.simps)
next
  case (Cons c s)
  then show ?case by (simp add: parse_str_escape prepend_def)
qed

text \<open>What may follow a value inside a printed text.\<close>

definition json_stop :: "string \<Rightarrow> bool" where
  "json_stop r \<longleftrightarrow> r = [] \<or> hd r \<in> {CHR '','', CHR '']'', CHR ''}''}"

lemma digits_num_char: "is_digit c \<Longrightarrow> num_char c"
  by (simp add: num_char_def)

lemma takeWhile_token:
  assumes "\<forall>c \<in> set s. P c" and "r = [] \<or> \<not> P (hd r)"
  shows "takeWhile P (s @ r) = s" and "dropWhile P (s @ r) = r"
proof -
  have "takeWhile P r = []" and "dropWhile P r = r" using assms(2) by (cases r; simp)+
  with assms(1) show "takeWhile P (s @ r) = s" and "dropWhile P (s @ r) = r"
    by (simp_all add: takeWhile_append2 dropWhile_append2)
qed

lemma nat_to_string_hd0: "hd (nat_to_string n) = CHR ''0'' \<Longrightarrow> tl (nat_to_string n) = []"
proof (induction n rule: nat_to_string.induct)
  case (1 n)
  show ?case
  proof (cases "n < 10")
    case False
    then have eq: "nat_to_string n = nat_to_string (n div 10) @ [digit_char (n mod 10)]"
      by (simp add: nat_to_string.simps [of n])
    with "1.prems" have h: "hd (nat_to_string (n div 10)) = CHR ''0''" by simp
    with "1.IH" False have "tl (nat_to_string (n div 10)) = []" by blast
    with h have "nat_to_string (n div 10) = [CHR ''0'']"
      by (metis list.collapse nat_to_string_not_Nil)
    with digits_val_nat_to_string [of "n div 10"] have "n div 10 = 0"
      by (simp add: digit_val_def)
    with False show ?thesis by simp
  qed (simp add: nat_to_string.simps [of n])
qed


lemma parse_number_int:
  assumes "json_stop r"
  shows "parse_number (int_to_string i @ r) = Some (JNum (of_int i), r)"
proof -
  define n where "n = nat \<bar>i\<bar>"
  let ?d = "nat_to_string n"
  have ds: "\<forall>c \<in> set ?d. is_digit c" by (rule nat_to_string_digits)
  have pd: "parse_decimal ?d = Some (of_nat n)"
    using parse_decimal_digits [OF _ ds] by simp
  have hd: "is_digit (hd ?d)" using ds by simp
  have z: "hd ?d = CHR ''0'' \<Longrightarrow> tl ?d = []" by (rule nat_to_string_hd0)
  have fr: "frac_ok ?d"
    using takeWhile_digits [OF ds] by (simp add: frac_ok_def del: takeWhile_eq_all_conv dropWhile_eq_Nil_conv)
  have st: "r = [] \<or> \<not> num_char (hd r)"
    using assms by (auto simp: json_stop_def num_char_def is_digit_def)
  have tok: "\<forall>c \<in> set (int_to_string i). num_char c"
    using nat_to_string_digits
    by (auto simp: int_to_string_def digits_num_char) (simp add: num_char_def)
  have sp: "int_to_string i = (if i < 0 then CHR ''-'' # ?d else ?d)"
    by (simp add: int_to_string_def n_def)
  have nm: "hd ?d \<noteq> CHR ''-''" using hd by (auto simp: is_digit_def)
  have go: "(if ?d = [] \<or> \<not> is_digit (hd ?d) then None
      else if hd ?d = CHR ''0'' \<and> tl ?d \<noteq> [] \<and> is_digit (hd (tl ?d)) then None
      else if \<not> frac_ok ?d then None
      else case parse_decimal ?d of None \<Rightarrow> None | Some q \<Rightarrow> Some (JNum (if b then - q else q), r))
    = Some (JNum (if b then - of_nat n else of_nat n), r)" for b
    using hd z fr pd by simp
  show ?thesis
  proof (cases "i < 0")
    case True
    then have "of_int i = - (of_nat n :: rat)" by (simp add: n_def)
    with True go [of True] show ?thesis
      unfolding parse_number_def Let_def takeWhile_token [OF tok st]
      by (simp only: sp if_True list.sel list.simps simp_thms)
  next
    case False
    then have "of_int i = (of_nat n :: rat)" by (simp add: n_def)
    with False nm go [of False] show ?thesis
      unfolding parse_number_def Let_def takeWhile_token [OF tok st]
      by (simp only: sp if_False list.sel list.simps simp_thms)
  qed
qed

text \<open>Values whose printed form reads back: integral numbers and no repeated key.\<close>

fun json_wf :: "json \<Rightarrow> bool" where
  "json_wf (JNum q) \<longleftrightarrow> of_int \<lfloor>q\<rfloor> = q"
| "json_wf (JArr xs) \<longleftrightarrow> (\<forall>x \<in> set xs. json_wf x)"
| "json_wf (JObj ms) \<longleftrightarrow> distinct (map fst ms) \<and> (\<forall>e \<in> set ms. json_wf (snd e))"
| "json_wf _ \<longleftrightarrow> True"

lemma int_to_string_hd: "\<exists>c t. int_to_string i = c # t \<and> (is_digit c \<or> c = CHR ''-'')"
proof (cases "i < 0")
  case False
  have "is_digit (hd (nat_to_string (nat i)))" using nat_to_string_digits [of "nat i"] by simp
  then show ?thesis using False
    by (intro exI [of _ "hd (nat_to_string (nat i))"] exI [of _ "tl (nat_to_string (nat i))"])
      (simp add: int_to_string_def)
qed (simp add: int_to_string_def)

lemma stringify_hd:
  "json_wf v \<Longrightarrow> \<exists>c t. stringify v = c # t \<and> \<not> json_ws c \<and> c \<noteq> CHR '']'' \<and> c \<noteq> CHR ''}''"
proof (cases v)
  case (JNum q)
  assume "json_wf v"
  with JNum have "stringify v = int_to_string \<lfloor>q\<rfloor>" by (simp add: rat_to_string_def)
  moreover obtain c t where "int_to_string \<lfloor>q\<rfloor> = c # t" "is_digit c \<or> c = CHR ''-''"
    using int_to_string_hd by blast
  ultimately show ?thesis by (auto simp: json_ws_def is_digit_def)
qed (auto simp: json_ws_def quote_def split: if_splits)

lemma parse_value_number:
  assumes "is_digit c \<or> c = CHR ''-''" and "0 < f"
  shows "parse_value f (c # t) = parse_number (c # t)"
proof -
  have "\<not> json_ws c" "c \<noteq> CHR 0x22" "c \<noteq> CHR ''{''" "c \<noteq> CHR ''[''"
    "c \<noteq> CHR ''n''" "c \<noteq> CHR ''t''" "c \<noteq> CHR ''f''"
    using assms(1) by (auto simp: json_ws_def is_digit_def)
  with assms(2) show ?thesis by (cases f) (auto simp: skip_ws_Cons)
qed

lemma length_stringify_pos: "json_wf v \<Longrightarrow> 0 < length (stringify v)"
  using stringify_hd [of v] by auto

lemma parse_quote: "parse_str (tl (quote k) @ r) = Some (k, r)"
  using parse_str_quoted [of k r] by (simp add: quote_def)

lemma quote_split: "quote k = CHR 0x22 # tl (quote k)"
  by (simp add: quote_def)

lemma parse_value_stringify_aux:
  "json_wf v \<Longrightarrow> json_stop r \<Longrightarrow> length (stringify v) \<le> f \<Longrightarrow>
     parse_value f (stringify v @ r) = Some (v, r)"
  "xs \<noteq> [] \<Longrightarrow> \<forall>x \<in> set xs. json_wf x \<Longrightarrow> length (stringify_elems xs) < f \<Longrightarrow>
     parse_elems f acc (stringify_elems xs @ CHR '']'' # r) = Some (JArr (acc @ xs), r)"
  "ms \<noteq> [] \<Longrightarrow> \<forall>e \<in> set ms. json_wf (snd e) \<Longrightarrow> distinct (map fst (macc @ ms)) \<Longrightarrow>
     length (stringify_members ms) < f \<Longrightarrow>
     parse_members f macc (stringify_members ms @ CHR ''}'' # r) = Some (JObj (macc @ ms), r)"
proof (induction v and xs and ms arbitrary: f r and f r acc and f r macc
    rule: stringify_stringify_elems_stringify_members.induct)
  case 1
  then show ?case by (cases f) (simp_all add: skip_ws_def json_ws_def)
next
  case (2 b)
  then show ?case by (cases b; cases f) (auto simp: skip_ws_def json_ws_def)
next
  case (3 q)
  then have eq: "stringify (JNum q) = int_to_string \<lfloor>q\<rfloor>" and q: "of_int \<lfloor>q\<rfloor> = q"
    by (simp_all add: rat_to_string_def)
  obtain c t where ct: "int_to_string \<lfloor>q\<rfloor> = c # t" "is_digit c \<or> c = CHR ''-''"
    using int_to_string_hd by blast
  have "0 < f" using 3 eq ct by simp
  then show ?case
    using parse_value_number [OF ct(2), of f "t @ r"] parse_number_int [OF 3(2), of "\<lfloor>q\<rfloor>"]
    unfolding eq by (simp add: ct(1) q)
next
  case (4 s)
  then obtain g where "f = Suc g" by (cases f) (auto simp: quote_def)
  then show ?case by (simp add: quote_def parse_str_quoted)
next
  case (5 xs)
  then obtain g where f: "f = Suc g" by (cases f) auto
  show ?case
  proof (cases xs)
    case Nil
    with f show ?thesis by simp
  next
    case (Cons x ys)
    with 5 have wf: "json_wf x" by simp
    then obtain c t where c: "stringify x = c # t" "\<not> json_ws c" "c \<noteq> CHR '']''"
      using stringify_hd by blast
    have "parse_elems g [] (stringify_elems xs @ CHR '']'' # r) = Some (JArr xs, r)"
      using 5 f Cons by simp
    moreover have "skip_ws (stringify_elems xs @ CHR '']'' # r) = stringify_elems xs @ CHR '']'' # r"
      using Cons c by (simp add: skip_ws_Cons)
    ultimately show ?thesis using f Cons c by simp
  qed
next
  case (6 ms)
  then obtain g where f: "f = Suc g" by (cases f) auto
  show ?case
  proof (cases ms)
    case Nil
    with f show ?thesis by simp
  next
    case (Cons e es)
    obtain k x where e: "e = (k, x)" by (cases e)
    have "parse_members g [] (stringify_members ms @ CHR ''}'' # r) = Some (JObj ms, r)"
      using 6 f Cons by simp
    then show ?thesis using f Cons e by (simp add: quote_def)
  qed
next
  case 7
  then show ?case by simp
next
  case (8 x xs)
  then obtain g where f: "f = Suc g" by (cases f) auto
  show ?case
  proof (cases "xs = []")
    case True
    have "parse_value g (stringify x @ CHR '']'' # r) = Some (x, CHR '']'' # r)"
      using 8 f True by (simp add: json_stop_def)
    with f True show ?thesis by simp
  next
    case False
    have "parse_value g (stringify x @ CHR '','' # stringify_elems xs @ CHR '']'' # r)
        = Some (x, CHR '','' # stringify_elems xs @ CHR '']'' # r)"
      using 8 f False by (simp add: json_stop_def)
    moreover have "parse_elems g (acc @ [x]) (stringify_elems xs @ CHR '']'' # r) = Some (JArr (acc @ x # xs), r)"
      using 8 f False by simp
    ultimately show ?thesis using f False by simp
  qed
next
  case 9
  then show ?case by simp
next
  case (10 k x ms)
  then obtain g where f: "f = Suc g" by (cases f) auto
  have new: "k \<notin> set (jm_keys macc)" using "10.prems" by (auto simp: jm_keys_def)
  have q: "quote k @ u = CHR 0x22 # tl (quote k) @ u" for u by (simp add: quote_def)
  show ?case
  proof (cases "ms = []")
    case True
    have "parse_value g (stringify x @ CHR ''}'' # r) = Some (x, CHR ''}'' # r)"
      using 10 f True by (simp add: json_stop_def)
    with f True new show ?thesis by (simp add: q parse_quote jm_set_append_new)
  next
    case False
    have "parse_value g (stringify x @ CHR '','' # stringify_members ms @ CHR ''}'' # r)
        = Some (x, CHR '','' # stringify_members ms @ CHR ''}'' # r)"
      using 10 f False by (simp add: json_stop_def)
    moreover have "parse_members g (macc @ [(k, x)]) (stringify_members ms @ CHR ''}'' # r)
        = Some (JObj (macc @ (k, x) # ms), r)"
      using 10 f False by simp
    ultimately show ?thesis using f False new by (simp add: q parse_quote jm_set_append_new)
  qed
qed

text \<open>The round trip.\<close>

theorem parse_stringify: "json_wf v \<Longrightarrow> parse (stringify v) = Some v"
  using parse_value_stringify_aux(1) [of v "[]" "2 * length (stringify v) + 2"]
  by (simp add: parse_def json_stop_def)


section \<open>The bound on the depth of calls is always enough\<close>

lemma length_skip_ws: "length (skip_ws s) \<le> length s"
  by (simp add: skip_ws_def length_dropWhile_le)

lemma parse_str_length: "parse_str s = Some (x, r) \<Longrightarrow> length r < length s"
proof (induction "length s" arbitrary: s x r rule: less_induct)
  case less
  have IH: "length r' < length s" if "prepend p (parse_str t) = Some (y, r')" "length t < length s" for p t y r'
    using less.hyps [OF that(2)] that by (fastforce simp: prepend_def)
  show ?case
  proof (cases s)
    case Nil
    with less.prems show ?thesis by (subst (asm) parse_str.simps) simp
  next
    case (Cons c t)
    note eq = less.prems [unfolded parse_str.simps [of s], unfolded Cons list.case]
    consider (quote) "c = CHR 0x22" | (esc) "c = CHR 0x5C" | (other) "c \<noteq> CHR 0x22" "c \<noteq> CHR 0x5C" by blast
    then show ?thesis
    proof cases
      case quote
      with eq Cons show ?thesis by simp
    next
      case other
      with eq Cons IH [of "[c]" t] show ?thesis by (auto split: if_splits)
    next
      case esc
      then obtain e t' where t: "t = e # t'" using eq by (cases t) simp_all
      show ?thesis
      proof (cases "e = CHR ''u''")
        case False
        with eq esc t Cons IH [of _ t'] show ?thesis by (auto split: option.splits)
      next
        case True
        with eq esc t obtain n r1 where p: "parse_u t' = Some (n, r1)" by (auto split: option.splits)
        then have "length r1 < length t'" by (rule parse_u_length)
        have IH2: "length r' < length s" if "prepend k (parse_str q) = Some (y, r')" "length q \<le> length r1" for k q y r'
          using IH that \<open>length r1 < length t'\<close> t Cons by simp
        consider (single) k where "prepend k (parse_str r1) = Some (x, r)"
          | (pair) k m r2 where "low_surrogate r1 = Some (m, r2)" "prepend k (parse_str r2) = Some (x, r)"
          using eq esc t True p by (auto split: if_splits option.splits)
        then show ?thesis
          by cases (use IH2 low_surrogate_length [of r1] in \<open>force+\<close>)
      qed
    qed
  qed
qed

lemma parse_number_length: "parse_number s = Some (v, r) \<Longrightarrow> length r < length s"
proof -
  assume a: "parse_number s = Some (v, r)"
  then have "takeWhile num_char s \<noteq> []" and "r = dropWhile num_char s"
    by (auto simp: parse_number_def Let_def split: if_splits option.splits)
  moreover have "length s = length (takeWhile num_char s) + length (dropWhile num_char s)"
    by (metis length_append takeWhile_dropWhile_id)
  ultimately show ?thesis by auto
qed

lemma skip_ws_ConsD: "skip_ws s = c # r \<Longrightarrow> length r < length s"
  using length_skip_ws [of s] by simp

lemma parse_length:
  "parse_value f s = Some (v, r) \<Longrightarrow> length r < length s"
  "parse_elems f acc s = Some (v, r) \<Longrightarrow> length r < length s"
  "parse_members f macc s = Some (v, r) \<Longrightarrow> length r < length s"
proof (induction f s and f acc s and f macc s arbitrary: v r and v r and v r
    rule: parse_value_parse_elems_parse_members.induct)
  case (2 f s)
  show ?case
    using "2.prems" "2.IH"
    by (auto dest!: skip_ws_ConsD parse_str_length split: list.splits if_splits)
      (force dest: parse_number_length)+
next
  case (4 f acc s)
  then show ?case
    by (auto dest!: skip_ws_ConsD split: list.splits if_splits option.splits) fastforce+
next
  case (6 f acc s)
  then show ?case
    by (auto dest!: skip_ws_ConsD parse_str_length split: list.splits if_splits option.splits) fastforce+
qed simp_all

lemma parse_fuel_step:
  "(2 * length s + 1 \<le> f \<longrightarrow> parse_value (Suc f) s = parse_value f s) \<and>
   (2 * length s + 2 \<le> f \<longrightarrow> parse_elems (Suc f) acc s = parse_elems f acc s) \<and>
   (2 * length s + 2 \<le> f \<longrightarrow> parse_members (Suc f) macc s = parse_members f macc s)"
proof (induction f arbitrary: s acc macc)
  case (Suc g)
  have V: "parse_value (Suc g) t = parse_value g t" if "2 * length t + 1 \<le> g" for t
    using Suc.IH [of t] that by blast
  have E: "parse_elems (Suc g) a t = parse_elems g a t" if "2 * length t + 2 \<le> g" for a t
    using Suc.IH [of t] that by blast
  have M: "parse_members (Suc g) a t = parse_members g a t" if "2 * length t + 2 \<le> g" for a t
    using Suc.IH [of t] that by blast
  have value_step: "parse_value (Suc (Suc g)) s = parse_value (Suc g) s" if le: "2 * length s + 1 \<le> Suc g"
  proof (cases "skip_ws s")
    case (Cons c r)
    then have lr: "length r < length s" by (rule skip_ws_ConsD)
    have "parse_elems (Suc g) [] (d # r') = parse_elems g [] (d # r')
        \<and> parse_members (Suc g) [] (d # r') = parse_members g [] (d # r')" if "skip_ws r = d # r'" for d r'
      using length_skip_ws [of r] that lr le by (intro conjI E M) auto
    then show ?thesis
      unfolding parse_value.simps(2) [of "Suc g" s] parse_value.simps(2) [of g s]
      by (auto simp: Cons split: list.split)
  qed simp
  moreover have elems_step: "parse_elems (Suc (Suc g)) acc s = parse_elems (Suc g) acc s"
    if le: "2 * length s + 2 \<le> Suc g"
  proof (cases "parse_value g s")
    case (Some p)
    obtain v r where p: "p = (v, r)" by (cases p)
    then have "length r < length s" using Some parse_length(1) by blast
    then have "parse_elems (Suc g) (acc @ [v]) r' = parse_elems g (acc @ [v]) r'" if "skip_ws r = d # r'" for d r'
      using skip_ws_ConsD [OF that] le by (intro E) auto
    then show ?thesis
      unfolding parse_elems.simps(2) [of "Suc g" acc s] parse_elems.simps(2) [of g acc s]
      using V [of s] le Some p by (auto split: list.split)
  qed (use V [of s] le in simp)
  moreover have "parse_members (Suc (Suc g)) macc s = parse_members (Suc g) macc s"
    if le: "2 * length s + 2 \<le> Suc g"
  proof -
    have val: "parse_value (Suc g) s3 = parse_value g s3 \<and> length s3 < length s"
      if "skip_ws s = q # s1" "parse_str s1 = Some (k, s2)" "skip_ws s2 = col # s3" for q s1 k s2 col s3
      using skip_ws_ConsD [OF that(1)] parse_str_length [OF that(2)] skip_ws_ConsD [OF that(3)] le
      by (intro conjI V) linarith+
    have mem: "parse_members (Suc g) m r' = parse_members g m r'"
      if "parse_value g s3 = Some (v, r)" "length s3 < length s" "skip_ws r = d # r'" for v r d r' s3 m
      using parse_length(1) [OF that(1)] that(2) skip_ws_ConsD [OF that(3)] le by (intro M) auto
    show ?thesis
      unfolding parse_members.simps(2) [of "Suc g" macc s] parse_members.simps(2) [of g macc s]
      using val mem by (auto split: list.split option.split)
  qed
  ultimately show ?case by blast
qed simp

lemma parse_fuel_enough:
  assumes "2 * length s + 1 \<le> f"
  shows "parse_value f s = parse_value (2 * length s + 1) s"
  using assms
proof (induction f rule: dec_induct)
  case (step n)
  with parse_fuel_step [of s n] show ?case by simp
qed simp

text \<open>So the depth bound never makes \<open>parse\<close> fail: any larger bound gives the same answer.\<close>

lemma parse_any_fuel:
  assumes "2 * length s + 1 \<le> f"
  shows "parse s = (case parse_value f s of None \<Rightarrow> None | Some (v, r) \<Rightarrow> if skip_ws r = [] then Some v else None)"
  unfolding parse_def using parse_fuel_enough [OF assms] parse_fuel_enough [of s "2 * length s + 2"] by simp

section \<open>Conversions of loosely typed values\<close>

text \<open>
  A field of a payload the code types as \<open>unknown\<close> is a \<open>json option\<close>: \<open>None\<close> is \<open>undefined\<close>
  (an absent field). \<open>String(v)\<close> of arrays joins the elements with commas, null elements being
  empty.
\<close>

fun js_String :: "json \<Rightarrow> string" where
  "js_String JNull = ''null''"
| "js_String (JBool b) = (if b then ''true'' else ''false'')"
| "js_String (JNum q) = rat_to_string q"
| "js_String (JStr s) = s"
| "js_String (JArr xs) = join '','' (map (\<lambda>x. if x = JNull then [] else js_String x) xs)"
| "js_String (JObj ms) = ''[object Object]''"

text \<open>\<open>v ?? w\<close> where \<open>null\<close> and \<open>undefined\<close> both fall through.\<close>

definition nullish_json :: "json option \<Rightarrow> json option \<Rightarrow> json option" where
  "nullish_json a b = (if a = None \<or> a = Some JNull then b else a)"

text \<open>\<open>String(v ?? '')\<close>.\<close>

definition string_or_empty :: "json option \<Rightarrow> string" where
  "string_or_empty a = (case a of None \<Rightarrow> [] | Some v \<Rightarrow> if v = JNull then [] else js_String v)"

text \<open>The value in boolean position.\<close>

definition truthy :: "json option \<Rightarrow> bool" where
  "truthy a =
     (case a of
        None \<Rightarrow> False
      | Some JNull \<Rightarrow> False
      | Some (JBool b) \<Rightarrow> b
      | Some (JNum q) \<Rightarrow> q \<noteq> 0
      | Some (JStr s) \<Rightarrow> s \<noteq> []
      | Some (JArr _) \<Rightarrow> True
      | Some (JObj _) \<Rightarrow> True)"

text \<open>\<open>Number(v)\<close>; objects are \<open>NaN\<close>, arrays convert through their string.\<close>

definition num_of_json :: "json option \<Rightarrow> jsnum" where
  "num_of_json a =
     (case a of
        None \<Rightarrow> NaN
      | Some JNull \<Rightarrow> Fin 0
      | Some (JBool b) \<Rightarrow> Fin (if b then 1 else 0)
      | Some (JNum q) \<Rightarrow> Fin q
      | Some (JStr s) \<Rightarrow> js_Number s
      | Some (JArr xs) \<Rightarrow> js_Number (js_String (JArr xs))
      | Some (JObj _) \<Rightarrow> NaN)"

text \<open>A property of a value: \<open>v?.k\<close>, absent unless \<open>v\<close> is an object that has it.\<close>

definition json_field :: "json option \<Rightarrow> string \<Rightarrow> json option" where
  "json_field a k = (case a of Some (JObj ms) \<Rightarrow> jm_get ms k | _ \<Rightarrow> None)"

end
