(* ===== verification/Auth_Storage.thy ===== *)
theory Auth_Storage
  imports Json "HOL-Library.Word"
begin

text \<open>
  The session's tokens in the browser's storage (\<open>utils/authStorage.ts\<close>). A storage area is local
  or session storage; it may be unavailable (no window, access denied) and a write may be refused
  (quota), in which case the code carries on: both are part of the state, as \<open>avail\<close> and
  \<open>accepts\<close>. The deterministic user id is computed on 32-bit words, as \<open>Math.imul\<close> does.
\<close>

unbundle bit_operations_syntax

section \<open>Storage areas\<close>

datatype scope = Local | Session

record storage_area =
  avail :: bool
  accepts :: "(string, string) jsmap \<Rightarrow> string \<Rightarrow> string \<Rightarrow> bool"
  entries :: "(string, string) jsmap"

record browser =
  local_area :: storage_area
  session_area :: storage_area

definition getStorage :: "browser \<Rightarrow> scope \<Rightarrow> storage_area" where
  "getStorage b s = (case s of Local \<Rightarrow> local_area b | Session \<Rightarrow> session_area b)"

definition set_entries :: "scope \<Rightarrow> (string, string) jsmap \<Rightarrow> browser \<Rightarrow> browser" where
  "set_entries s m b =
     (case s of
        Local \<Rightarrow> b\<lparr>local_area := (local_area b)\<lparr>entries := m\<rparr>\<rparr>
      | Session \<Rightarrow> b\<lparr>session_area := (session_area b)\<lparr>entries := m\<rparr>\<rparr>)"

definition readStorageValue :: "browser \<Rightarrow> scope \<Rightarrow> string \<Rightarrow> string option" where
  "readStorageValue b s k =
     (let a = getStorage b s in if avail a then jm_get (entries a) k else None)"

definition removeStorageValue :: "scope \<Rightarrow> string \<Rightarrow> browser \<Rightarrow> browser" where
  "removeStorageValue s k b =
     (let a = getStorage b s in if avail a then set_entries s (jm_delete k (entries a)) b else b)"

definition writeStorageValue :: "scope \<Rightarrow> string \<Rightarrow> string \<Rightarrow> browser \<Rightarrow> browser" where
  "writeStorageValue s k v b =
     (let a = getStorage b s
      in if avail a \<and> accepts a (entries a) k v then set_entries s (jm_set k v (entries a)) b else b)"

fun getFallbackScope :: "scope \<Rightarrow> scope" where
  "getFallbackScope Local = Session"
| "getFallbackScope Session = Local"

section \<open>Keys and scopes\<close>

definition ACCESS_TOKEN_KEY :: string where "ACCESS_TOKEN_KEY = ''nexuslog-access-token''"
definition REFRESH_TOKEN_KEY :: string where "REFRESH_TOKEN_KEY = ''nexuslog-refresh-token''"
definition TOKEN_EXPIRES_AT_KEY :: string where "TOKEN_EXPIRES_AT_KEY = ''nexuslog-token-expires-at''"
definition AUTH_PERSIST_KEY :: string where "AUTH_PERSIST_KEY = ''nexuslog-auth''"
definition EMERGENCY_ACCESS_TOKEN_PREFIX :: string where
  "EMERGENCY_ACCESS_TOKEN_PREFIX = ''emergency-access-''"
definition AUTH_STORAGE_SCOPE_KEY :: string where "AUTH_STORAGE_SCOPE_KEY = ''nexuslog-auth-storage-scope''"

definition AUTH_SESSION_KEYS :: "string list" where
  "AUTH_SESSION_KEYS =
     [AUTH_PERSIST_KEY, ACCESS_TOKEN_KEY, REFRESH_TOKEN_KEY, TOKEN_EXPIRES_AT_KEY, AUTH_STORAGE_SCOPE_KEY]"

fun scope_name :: "scope \<Rightarrow> string" where
  "scope_name Local = ''local''"
| "scope_name Session = ''session''"

text \<open>A value read from storage counts in a condition when it is a non-empty string.\<close>

definition holds_value :: "browser \<Rightarrow> scope \<Rightarrow> string \<Rightarrow> bool" where
  "holds_value b s k \<longleftrightarrow> nullish (readStorageValue b s k) [] \<noteq> []"

definition resolveAuthStorageScope :: "browser \<Rightarrow> scope" where
  "resolveAuthStorageScope b =
     (if map_option trim (readStorageValue b Local AUTH_STORAGE_SCOPE_KEY) = Some ''local'' then Local
      else if map_option trim (readStorageValue b Session AUTH_STORAGE_SCOPE_KEY) = Some ''session'' then Session
      else if holds_value b Local ACCESS_TOKEN_KEY \<or> holds_value b Local AUTH_PERSIST_KEY then Local
      else if holds_value b Session ACCESS_TOKEN_KEY \<or> holds_value b Session AUTH_PERSIST_KEY then Session
      else Local)"

definition setActiveAuthStorageScope :: "scope \<Rightarrow> browser \<Rightarrow> browser" where
  "setActiveAuthStorageScope s b =
     removeStorageValue (getFallbackScope s) AUTH_STORAGE_SCOPE_KEY
       (writeStorageValue s AUTH_STORAGE_SCOPE_KEY (scope_name s) b)"

definition getAuthStorageItem :: "browser \<Rightarrow> string \<Rightarrow> string option" where
  "getAuthStorageItem b k =
     (let activeScope = resolveAuthStorageScope b
      in nullish_opt (readStorageValue b activeScope k) (readStorageValue b (getFallbackScope activeScope) k))"

definition clearAuthStorage :: "browser \<Rightarrow> browser" where
  "clearAuthStorage b =
     fold (\<lambda>s. fold (removeStorageValue s) AUTH_SESSION_KEYS) [Local, Session] b"

definition isEmergencyAccessToken :: "string option \<Rightarrow> bool" where
  "isEmergencyAccessToken token =
     (case token of None \<Rightarrow> False | Some t \<Rightarrow> startsWith t EMERGENCY_ACCESS_TOKEN_PREFIX)"

section \<open>Writing a session\<close>

record auth_session =
  accessToken :: string
  refreshToken :: string
  expiresAtMs :: int

definition writeAuthSessionTokens :: "scope \<Rightarrow> auth_session \<Rightarrow> browser \<Rightarrow> browser" where
  "writeAuthSessionTokens s params b =
     (let b1 = setActiveAuthStorageScope s b;
          b2 = writeStorageValue s ACCESS_TOKEN_KEY (accessToken params) b1;
          b3 = writeStorageValue s REFRESH_TOKEN_KEY (refreshToken params) b2;
          b4 = writeStorageValue s TOKEN_EXPIRES_AT_KEY (int_to_string (expiresAtMs params)) b3;
          fallbackScope = getFallbackScope s;
          b5 = removeStorageValue fallbackScope ACCESS_TOKEN_KEY b4;
          b6 = removeStorageValue fallbackScope REFRESH_TOKEN_KEY b5
      in removeStorageValue fallbackScope TOKEN_EXPIRES_AT_KEY b6)"

definition persistAuthSession :: "auth_session \<Rightarrow> bool \<Rightarrow> browser \<Rightarrow> browser" where
  "persistAuthSession params remember b =
     writeAuthSessionTokens (if remember then Local else Session) params (clearAuthStorage b)"

definition persistRefreshedAuthSession :: "auth_session \<Rightarrow> browser \<Rightarrow> browser" where
  "persistRefreshedAuthSession params b = writeAuthSessionTokens (resolveAuthStorageScope b) params b"

text \<open>The storage handed to the persist middleware of the auth store.\<close>

definition authStateStorage_getItem :: "browser \<Rightarrow> string \<Rightarrow> string option" where
  "authStateStorage_getItem b name =
     nullish_opt (readStorageValue b Local name) (readStorageValue b Session name)"

definition authStateStorage_setItem :: "string \<Rightarrow> string \<Rightarrow> browser \<Rightarrow> browser" where
  "authStateStorage_setItem name v b =
     (let s = resolveAuthStorageScope b
      in removeStorageValue (getFallbackScope s) name (writeStorageValue s name v b))"

definition authStateStorage_removeItem :: "string \<Rightarrow> browser \<Rightarrow> browser" where
  "authStateStorage_removeItem name b =
     removeStorageValue Session name (removeStorageValue Local name b)"

section \<open>Deterministic user ids\<close>

definition byte_at :: "string \<Rightarrow> nat \<Rightarrow> nat" where
  "byte_at s i = (if i < length s then of_char (s ! i) else 0)"

definition code_point :: "string \<Rightarrow> nat" where
  "code_point ch =
     (let b = byte_at ch
      in if length ch \<le> 1 then b 0
         else if length ch = 2 then (b 0 - 192) * 64 + (b 1 - 128)
         else if length ch = 3 then (b 0 - 224) * 4096 + (b 1 - 128) * 64 + (b 2 - 128)
         else (b 0 - 240) * 262144 + (b 1 - 128) * 4096 + (b 2 - 128) * 64 + (b 3 - 128))"

text \<open>The UTF-16 units \<open>charCodeAt\<close> yields.\<close>

definition utf16_units :: "string \<Rightarrow> nat list" where
  "utf16_units s =
     concat (map (\<lambda>ch. let cp = code_point ch
                       in if cp < 65536 then [cp]
                          else [55296 + (cp - 65536) div 1024, 56320 + (cp - 65536) mod 1024])
              (js_chars s))"

type_synonym hashes = "32 word \<times> 32 word \<times> 32 word \<times> 32 word"

definition hash_step :: "nat \<times> nat \<Rightarrow> hashes \<Rightarrow> hashes" where
  "hash_step = (\<lambda>(index, code) (a, b, c, d).
     ((a XOR of_nat code) * 16777619,
      (b XOR of_nat (code + index)) * 2246822519,
      (c XOR of_nat (code + 17)) * 3266489917,
      (d XOR of_nat (code + 31)) * 668265263))"

fun toString16 :: "nat \<Rightarrow> string" where
  "toString16 n = (if n < 16 then [hex_digit n] else toString16 (n div 16) @ [hex_digit (n mod 16)])"

declare toString16.simps [simp del]

definition padStart :: "nat \<Rightarrow> char \<Rightarrow> string \<Rightarrow> string" where
  "padStart n c s = replicate (n - length s) c @ s"

definition hash_hex :: "32 word \<Rightarrow> string" where
  "hash_hex w = padStart 8 (CHR ''0'') (toString16 (unat w))"

definition deriveDeterministicUUID :: "string \<Rightarrow> string" where
  "deriveDeterministicUUID seed =
     (let normalized = utf16_units (or_str (toLowerCase (trim seed)) ''nexuslog-user'');
          (a, b, c, d) = fold hash_step (List.enumerate 0 normalized)
                           (0x811c9dc5, 0x9e3779b1, 0x85ebca6b, 0xc2b2ae35);
          hex = concat (map hash_hex [a, b, c, d])
      in js_slice 0 8 hex @ ''-'' @ js_slice 8 12 hex @ ''-'' @ js_slice 12 16 hex @ ''-''
         @ js_slice 16 20 hex @ ''-'' @ js_slice 20 32 hex)"

text \<open>\<open>UUID_PATTERN\<close>: five groups of hexadecimal digits, of lengths 8, 4, 4, 4 and 12.\<close>

definition UUID_PATTERN :: "string \<Rightarrow> bool" where
  "UUID_PATTERN s =
     (let groups = split_on ''-'' s
      in map length groups = [8, 4, 4, 4, 12] \<and> list_all (list_all (\<lambda>c. hex_val c \<noteq> None)) groups)"

text \<open>\<open>v?.trim()\<close> on a value read from JSON: \<open>None\<close> is the \<open>TypeError\<close> of a value that is
  neither absent nor a string.\<close>

definition trim_field :: "json option \<Rightarrow> string option option" where
  "trim_field j =
     (case j of
        None \<Rightarrow> Some None
      | Some JNull \<Rightarrow> Some None
      | Some (JStr s) \<Rightarrow> Some (Some (trim s))
      | Some _ \<Rightarrow> None)"

definition resolveStoredAuthUserID :: "browser \<Rightarrow> string" where
  "resolveStoredAuthUserID b =
     (let raw = nullish (map_option trim (getAuthStorageItem b AUTH_PERSIST_KEY)) []
      in if raw = [] then []
         else case parse raw of
           None \<Rightarrow> []
         | Some parsed \<Rightarrow>
             (let user = json_field (json_field (Some parsed) ''state'') ''user''
              in case trim_field (json_field user ''id'') of
                   None \<Rightarrow> []
                 | Some d \<Rightarrow>
                     (let directID = nullish d []
                      in if UUID_PATTERN directID then directID
                         else if directID \<noteq> [] then deriveDeterministicUUID (''nexuslog-user:'' @ directID)
                         else case trim_field (json_field user ''username'') of
                           None \<Rightarrow> []
                         | Some u \<Rightarrow>
                             (let seed = nullish u []
                              in if seed = [] then []
                                 else deriveDeterministicUUID (''nexuslog-user:'' @ seed)))))"

section \<open>The contract of a storage area\<close>

text \<open>
  A store on which a write may be refused silently: removal always works, a refused write leaves the
  value that was there.
\<close>

locale best_effort_store =
  fixes read :: "'s \<Rightarrow> string \<Rightarrow> string option"
    and save :: "string \<Rightarrow> string \<Rightarrow> 's \<Rightarrow> 's"
    and remove :: "string \<Rightarrow> 's \<Rightarrow> 's"
  assumes read_remove: "read (remove k s) k' = (if k' = k then None else read s k')"
    and read_write_other: "k' \<noteq> k \<Longrightarrow> read (save k v s) k' = read s k'"
    and read_write_same: "read (save k v s) k = Some v \<or> read (save k v s) k = read s k"
begin

lemma read_fold_remove: "read (fold remove ks s) k = (if k \<in> set ks then None else read s k)"
  by (induction ks arbitrary: s) (auto simp: read_remove)

lemma read_remove_write: "read (remove k (save k v s)) k' = read (remove k s) k'"
  by (simp add: read_remove read_write_other)

lemma write_absent: "read s k = None \<Longrightarrow> read (save k v s) k \<in> {None, Some v}"
  using read_write_same [of k v s] by auto

end

lemma getStorage_set_entries [simp]:
  "getStorage (set_entries s m b) s' = (if s' = s then (getStorage b s)\<lparr>entries := m\<rparr> else getStorage b s')"
  by (cases s; cases s') (simp_all add: getStorage_def set_entries_def)

interpretation scoped: best_effort_store
  "\<lambda>b. readStorageValue b s" "writeStorageValue s" "removeStorageValue s" for s
  by unfold_locales (auto simp: readStorageValue_def writeStorageValue_def removeStorageValue_def Let_def)

lemma read_other_scope [simp]:
  "s \<noteq> s' \<Longrightarrow> readStorageValue (writeStorageValue s k v b) s' k' = readStorageValue b s' k'"
  "s \<noteq> s' \<Longrightarrow> readStorageValue (removeStorageValue s k b) s' k' = readStorageValue b s' k'"
  by (auto simp: readStorageValue_def writeStorageValue_def removeStorageValue_def Let_def)

lemma getFallbackScope_neq [simp]: "getFallbackScope s \<noteq> s" "s \<noteq> getFallbackScope s"
  by (cases s; simp)+

lemma getFallbackScope_twice [simp]: "getFallbackScope (getFallbackScope s) = s"
  by (cases s) simp_all

text \<open>An area that accepts every write.\<close>

definition writable :: "scope \<Rightarrow> browser \<Rightarrow> bool" where
  "writable s b \<longleftrightarrow> avail (getStorage b s) \<and> (\<forall>m k v. accepts (getStorage b s) m k v)"

lemma writable_ops [simp, inv_intros]:
  "writable s (writeStorageValue s' k v b) = writable s b"
  "writable s (removeStorageValue s' k b) = writable s b"
  by (auto simp: writable_def writeStorageValue_def removeStorageValue_def Let_def)

lemma read_write_writable [simp]:
  "writable s b \<Longrightarrow>
     readStorageValue (writeStorageValue s k v b) s k' = (if k' = k then Some v else readStorageValue b s k')"
  by (auto simp: writable_def readStorageValue_def writeStorageValue_def Let_def)

lemmas storage_keys =
  ACCESS_TOKEN_KEY_def REFRESH_TOKEN_KEY_def TOKEN_EXPIRES_AT_KEY_def AUTH_PERSIST_KEY_def
  AUTH_STORAGE_SCOPE_KEY_def

lemma keys_distinct: "distinct AUTH_SESSION_KEYS"
  by (simp add: AUTH_SESSION_KEYS_def storage_keys)

lemma keys_neq [simp]:
  "ACCESS_TOKEN_KEY \<noteq> REFRESH_TOKEN_KEY" "REFRESH_TOKEN_KEY \<noteq> ACCESS_TOKEN_KEY"
  "ACCESS_TOKEN_KEY \<noteq> TOKEN_EXPIRES_AT_KEY" "TOKEN_EXPIRES_AT_KEY \<noteq> ACCESS_TOKEN_KEY"
  "ACCESS_TOKEN_KEY \<noteq> AUTH_PERSIST_KEY" "AUTH_PERSIST_KEY \<noteq> ACCESS_TOKEN_KEY"
  "ACCESS_TOKEN_KEY \<noteq> AUTH_STORAGE_SCOPE_KEY" "AUTH_STORAGE_SCOPE_KEY \<noteq> ACCESS_TOKEN_KEY"
  "REFRESH_TOKEN_KEY \<noteq> TOKEN_EXPIRES_AT_KEY" "TOKEN_EXPIRES_AT_KEY \<noteq> REFRESH_TOKEN_KEY"
  "REFRESH_TOKEN_KEY \<noteq> AUTH_PERSIST_KEY" "AUTH_PERSIST_KEY \<noteq> REFRESH_TOKEN_KEY"
  "REFRESH_TOKEN_KEY \<noteq> AUTH_STORAGE_SCOPE_KEY" "AUTH_STORAGE_SCOPE_KEY \<noteq> REFRESH_TOKEN_KEY"
  "TOKEN_EXPIRES_AT_KEY \<noteq> AUTH_PERSIST_KEY" "AUTH_PERSIST_KEY \<noteq> TOKEN_EXPIRES_AT_KEY"
  "TOKEN_EXPIRES_AT_KEY \<noteq> AUTH_STORAGE_SCOPE_KEY" "AUTH_STORAGE_SCOPE_KEY \<noteq> TOKEN_EXPIRES_AT_KEY"
  "AUTH_PERSIST_KEY \<noteq> AUTH_STORAGE_SCOPE_KEY" "AUTH_STORAGE_SCOPE_KEY \<noteq> AUTH_PERSIST_KEY"
  by (simp_all add: storage_keys)

lemma trim_scope_name [simp]: "trim (scope_name s) = scope_name s"
  by (cases s) (simp_all add: trim_plain plain_ends_def plain_char_def ascii_ws_def)

section \<open>What the operations leave in storage\<close>

lemma read_fold_remove_other [simp]:
  "s' \<noteq> s \<Longrightarrow> readStorageValue (fold (removeStorageValue s') ks b) s k = readStorageValue b s k"
  by (induction ks arbitrary: b) simp_all

lemma read_clearAuthStorage:
  "readStorageValue (clearAuthStorage b) s k =
     (if k \<in> set AUTH_SESSION_KEYS then None else readStorageValue b s k)"
  by (cases s) (simp_all add: clearAuthStorage_def scoped.read_fold_remove)

lemma writable_fold_remove [simp]: "writable s (fold (removeStorageValue s') ks b) = writable s b"
  by (induction ks arbitrary: b) simp_all

lemma writable_clearAuthStorage [simp, inv_intros]: "writable s (clearAuthStorage b) = writable s b"
  by (simp add: clearAuthStorage_def)

definition token_keys :: "string list" where
  "token_keys = [AUTH_STORAGE_SCOPE_KEY, ACCESS_TOKEN_KEY, REFRESH_TOKEN_KEY, TOKEN_EXPIRES_AT_KEY]"

text \<open>The fallback scope loses the tokens whether or not the writes succeed.\<close>

lemma read_writeAuthSessionTokens_fallback:
  "readStorageValue (writeAuthSessionTokens s p b) (getFallbackScope s) k =
     (if k \<in> set token_keys then None else readStorageValue b (getFallbackScope s) k)"
  by (simp add: writeAuthSessionTokens_def setActiveAuthStorageScope_def scoped.read_remove token_keys_def
      Let_def)

definition session_value :: "scope \<Rightarrow> auth_session \<Rightarrow> string \<Rightarrow> string option" where
  "session_value s p k =
     (if k = AUTH_STORAGE_SCOPE_KEY then Some (scope_name s)
      else if k = ACCESS_TOKEN_KEY then Some (accessToken p)
      else if k = REFRESH_TOKEN_KEY then Some (refreshToken p)
      else if k = TOKEN_EXPIRES_AT_KEY then Some (int_to_string (expiresAtMs p))
      else None)"

lemma read_writeAuthSessionTokens:
  "writable s b \<Longrightarrow> readStorageValue (writeAuthSessionTokens s p b) s k =
     nullish_opt (session_value s p k) (readStorageValue b s k)"
  by (simp add: writeAuthSessionTokens_def setActiveAuthStorageScope_def session_value_def Let_def)

lemma resolve_after_tokens:
  "writable s b \<Longrightarrow> resolveAuthStorageScope (writeAuthSessionTokens s p b) = s"
  using read_writeAuthSessionTokens [of s b p AUTH_STORAGE_SCOPE_KEY]
    read_writeAuthSessionTokens_fallback [of s p b AUTH_STORAGE_SCOPE_KEY]
  by (cases s) (simp_all add: resolveAuthStorageScope_def session_value_def token_keys_def
      trim_plain plain_ends_def plain_char_def ascii_ws_def)

lemma getAuthStorageItem_after_tokens:
  assumes "writable s b"
  shows "getAuthStorageItem (writeAuthSessionTokens s p b) k =
    nullish_opt (session_value s p k)
      (nullish_opt (readStorageValue b s k)
        (if k \<in> set token_keys then None else readStorageValue b (getFallbackScope s) k))"
  using assms
  by (simp add: getAuthStorageItem_def resolve_after_tokens read_writeAuthSessionTokens
      read_writeAuthSessionTokens_fallback nullish_opt_def split: option.splits)

section \<open>Identifiers\<close>

lemma hex_digit_ok: "d < 16 \<Longrightarrow> hex_val (hex_digit d) \<noteq> None"
  by (simp add: hex_val_digit)

lemma toString16_hex: "c \<in> set (toString16 n) \<Longrightarrow> hex_val c \<noteq> None"
proof (induction n rule: toString16.induct)
  case (1 n)
  then show ?case
    by (subst (asm) (2) toString16.simps) (auto simp: hex_val_digit split: if_splits)
qed

lemma length_toString16: "n < 16 ^ Suc k \<Longrightarrow> length (toString16 n) \<le> Suc k"
proof (induction k arbitrary: n)
  case 0
  then show ?case by (subst toString16.simps) simp
next
  case (Suc k)
  then have "n div 16 < 16 ^ Suc k" by (simp add: less_mult_imp_div_less)
  with Suc.IH [of "n div 16"] show ?case by (subst toString16.simps) simp
qed

lemma length_hash_hex [simp]: "length (hash_hex w) = 8"
proof -
  have "unat w < 16 ^ Suc 7" using unsigned_less [of w, where ?'a=nat] by simp
  then have "length (toString16 (unat w)) \<le> 8" using length_toString16 [of _ 7] by simp
  then show ?thesis by (simp add: hash_hex_def padStart_def)
qed

lemma hash_hex_hex: "c \<in> set (hash_hex w) \<Longrightarrow> hex_val c \<noteq> None"
  using toString16_hex by (auto simp: hash_hex_def padStart_def hex_val_def is_digit_def)

lemma dash_not_hex: "hex_val (CHR ''-'') = None"
  by (simp add: hex_val_def is_digit_def)

lemma UUID_PATTERN_groups:
  assumes "map length gs = [8, 4, 4, 4, 12]" and "\<forall>g \<in> set gs. \<forall>c \<in> set g. hex_val c \<noteq> None"
  shows "UUID_PATTERN (join ''-'' gs)"
proof -
  have "gs \<noteq> []" using assms(1) by auto
  moreover have "\<forall>g \<in> set gs. CHR ''-'' \<notin> set g" using assms(2) dash_not_hex by blast
  ultimately have "split_on ''-'' (join ''-'' gs) = gs" by (rule split_on_join)
  with assms show ?thesis by (simp add: UUID_PATTERN_def list_all_iff)
qed

lemma set_js_slice: "set (js_slice i j xs) \<subseteq> set xs"
  unfolding js_slice_def by (meson set_drop_subset set_take_subset subset_trans)

lemma deriveDeterministicUUID_pattern: "UUID_PATTERN (deriveDeterministicUUID seed)"
proof -
  obtain a b c d where h:
    "fold hash_step (List.enumerate 0 (utf16_units (or_str (toLowerCase (trim seed)) ''nexuslog-user'')))
       (0x811c9dc5, 0x9e3779b1, 0x85ebca6b, 0xc2b2ae35) = (a, b, c, d)"
    by (metis prod_cases4)
  define hex where "hex = concat (map hash_hex [a, b, c, d])"
  define gs where "gs = [js_slice 0 8 hex, js_slice 8 12 hex, js_slice 12 16 hex, js_slice 16 20 hex, js_slice 20 32 hex]"
  have "length hex = 32" by (simp add: hex_def)
  then have "map length gs = [8, 4, 4, 4, 12]" by (simp add: gs_def length_js_slice)
  moreover have "\<forall>c \<in> set hex. hex_val c \<noteq> None" using hash_hex_hex by (auto simp: hex_def)
  then have "\<forall>g \<in> set gs. \<forall>c \<in> set g. hex_val c \<noteq> None"
    using set_js_slice [of _ _ hex] by (fastforce simp: gs_def)
  ultimately have "UUID_PATTERN (join ''-'' gs)" by (rule UUID_PATTERN_groups)
  then show ?thesis
    unfolding gs_def hex_def by (simp add: deriveDeterministicUUID_def h Let_def)
qed

section \<open>Properties\<close>

text \<open>C8: Signing in replaces whatever session was stored: where the chosen scope (local when the user
  is remembered, session otherwise) accepts writes, that scope becomes the active one and the tokens
  and the expiry are read back from it; and nothing of any session is left in the other scope.\<close>

theorem persist_session_readback:
  assumes "s = (if remember then Local else Session)" and "writable s b"
    and "b' = persistAuthSession p remember b"
  shows "resolveAuthStorageScope b' = s
    \<and> getAuthStorageItem b' ACCESS_TOKEN_KEY = Some (accessToken p)
    \<and> getAuthStorageItem b' REFRESH_TOKEN_KEY = Some (refreshToken p)
    \<and> map_option js_Number (getAuthStorageItem b' TOKEN_EXPIRES_AT_KEY)
        = Some (js_Number (int_to_string (expiresAtMs p)))
    \<and> getAuthStorageItem b' AUTH_PERSIST_KEY = None
    \<and> list_all (\<lambda>k. readStorageValue b' (getFallbackScope s) k = None) AUTH_SESSION_KEYS"
proof -
  have b': "b' = writeAuthSessionTokens s p (clearAuthStorage b)"
    using assms by (simp add: persistAuthSession_def)
  have w: "writable s (clearAuthStorage b)" using assms(2) by simp
  note items = getAuthStorageItem_after_tokens [OF w, of p]
  show ?thesis
    unfolding b'
    by (auto simp: resolve_after_tokens [OF w] items session_value_def read_clearAuthStorage token_keys_def
        AUTH_SESSION_KEYS_def list_all_iff read_writeAuthSessionTokens_fallback)
qed

definition open_area :: storage_area where
  "open_area = \<lparr>avail = True, accepts = \<lambda>_ _ _. True, entries = []\<rparr>"

definition sample_session :: auth_session where
  "sample_session = \<lparr>accessToken = ''at'', refreshToken = ''rt'', expiresAtMs = 1700000000000\<rparr>"

theorem persist_session_readback_witness:
  "getAuthStorageItem (persistAuthSession sample_session True \<lparr>local_area = open_area, session_area = open_area\<rparr>)
     ACCESS_TOKEN_KEY = Some ''at''"
  using persist_session_readback [OF refl _ refl, where remember = True
      and b = "\<lparr>local_area = open_area, session_area = open_area\<rparr>" and p = sample_session]
  by (simp add: writable_def getStorage_def open_area_def sample_session_def)

text \<open>A token refresh stays in the scope the session is in: the scope, the persisted user record and
  every other entry are as before, and the new tokens are read back.\<close>

theorem refresh_keeps_scope:
  assumes "writable (resolveAuthStorageScope b) b" and "b' = persistRefreshedAuthSession p b"
  shows "resolveAuthStorageScope b' = resolveAuthStorageScope b
    \<and> getAuthStorageItem b' ACCESS_TOKEN_KEY = Some (accessToken p)
    \<and> getAuthStorageItem b' REFRESH_TOKEN_KEY = Some (refreshToken p)
    \<and> getAuthStorageItem b' AUTH_PERSIST_KEY = getAuthStorageItem b AUTH_PERSIST_KEY
    \<and> (k \<in> set token_keys \<or> getAuthStorageItem b' k = getAuthStorageItem b k)"
proof -
  have before: "getAuthStorageItem b j = nullish_opt (readStorageValue b (resolveAuthStorageScope b) j)
      (readStorageValue b (getFallbackScope (resolveAuthStorageScope b)) j)" for j
    by (simp add: getAuthStorageItem_def Let_def)
  show ?thesis
    using getAuthStorageItem_after_tokens [OF assms(1), of p] resolve_after_tokens [OF assms(1), of p]
    by (auto simp: assms(2) persistRefreshedAuthSession_def before session_value_def token_keys_def)
qed

definition sample_browser :: browser where
  "sample_browser =
     \<lparr>local_area = open_area,
      session_area = open_area\<lparr>entries := [(ACCESS_TOKEN_KEY, ''old''), (''x'', ''y'')]\<rparr>\<rparr>"

theorem refresh_keeps_scope_witness:
  "getAuthStorageItem (persistRefreshedAuthSession sample_session sample_browser) ''x'' = Some ''y''"
proof -
  have r: "resolveAuthStorageScope sample_browser = Session" by code_simp
  have w: "writable (resolveAuthStorageScope sample_browser) sample_browser"
    unfolding r by (simp add: writable_def getStorage_def sample_browser_def open_area_def)
  have x: "getAuthStorageItem sample_browser ''x'' = Some ''y''" by code_simp
  have k: "''x'' \<notin> set token_keys" by (simp add: token_keys_def storage_keys)
  show ?thesis using refresh_keeps_scope [OF w refl, of sample_session "''x''"] x k by simp
qed

text \<open>Clearing the session storage removes every session entry from both scopes, even when storage
  refuses writes, and touches nothing else.\<close>

theorem clear_removes_session:
  "readStorageValue (clearAuthStorage b) s k =
     (if k \<in> {AUTH_PERSIST_KEY, ACCESS_TOKEN_KEY, REFRESH_TOKEN_KEY, TOKEN_EXPIRES_AT_KEY, AUTH_STORAGE_SCOPE_KEY}
      then None else readStorageValue b s k)
   \<and> getAuthStorageItem (clearAuthStorage b) ACCESS_TOKEN_KEY = None
   \<and> resolveStoredAuthUserID (clearAuthStorage b) = []"
  by (simp add: read_clearAuthStorage AUTH_SESSION_KEYS_def getAuthStorageItem_def resolveStoredAuthUserID_def)

text \<open>The user id taken from storage is empty or a UUID, whatever the storage holds: a stored id that
  is no UUID, or a user name, is replaced by the identifier derived from it, which always has the
  shape of one.\<close>

theorem stored_user_id_is_uuid:
  "(resolveStoredAuthUserID b = [] \<or> UUID_PATTERN (resolveStoredAuthUserID b))
   \<and> UUID_PATTERN (deriveDeterministicUUID seed)"
  by (auto simp: resolveStoredAuthUserID_def deriveDeterministicUUID_pattern Let_def split: option.splits)

end
