(* ===== verification/Runtime_Config.thy ===== *)
theory Runtime_Config
  imports Auth_Storage
begin

text \<open>
  The runtime configuration (\<open>config/runtime-config.ts\<close>): defaults, overlaid by a fetched base file
  and an optional local file. A configuration is the JSON object it is fetched as, so that fields the
  types do not name are carried along as in the code. The answer of the server is an argument.
\<close>

section \<open>Configurations\<close>

type_synonym config = "(string, json) jsmap"

text \<open>The members spread by \<open>{...v}\<close>.\<close>

definition own_entries :: "json option \<Rightarrow> (string, json) jsmap" where
  "own_entries v =
     (case v of
        Some (JObj ms) \<Rightarrow> ms
      | Some (JArr xs) \<Rightarrow> map (\<lambda>(i, x). (nat_to_string i, x)) (List.enumerate 0 xs)
      | Some (JStr s) \<Rightarrow> map (\<lambda>(i, c). (nat_to_string i, JStr c)) (List.enumerate 0 (js_chars s))
      | _ \<Rightarrow> [])"

definition DEFAULT_CONFIG :: config where
  "DEFAULT_CONFIG =
    [(''apiBaseUrl'', JStr ''/api/v1''),
     (''wsBaseUrl'', JStr ''/ws''),
     (''appName'', JStr ''NexusLog''),
     (''version'', JStr ''0.0.0''),
     (''features'', JObj
       [(''enableWebSocket'', JBool True), (''enableOfflineMode'', JBool False),
        (''enableAnalytics'', JBool False)]),
     (''theme'', JObj [(''defaultMode'', JStr ''light''), (''primaryColor'', JStr ''#1890ff'')]),
     (''session'', JObj [(''idleTimeoutMinutes'', JNum 30), (''refreshIntervalMinutes'', JNum 5)]),
     (''collectorAgent'', JObj
       [(''releaseProvider'', JStr ''github''),
        (''owner'', JStr ''c1cadabob''),
        (''repo'', JStr ''NexusLog''),
        (''version'', JStr ''v0.1.3''),
        (''releaseBaseUrl'', JStr ''https://github.com/c1cadabob/NexusLog/releases/download/v0.1.3''),
        (''installScriptUrl'',
         JStr ''https://github.com/c1cadabob/NexusLog/releases/download/v0.1.3/collector-agent-installer.sh''),
        (''containerImageProvider'', JStr ''ghcr''),
        (''containerImage'', JStr ''ghcr.io/c1cadabob/nexuslog-collector-agent:v0.1.3''),
        (''deliveryMode'', JStr ''pull''),
        (''kafkaBrokers'', JStr ''127.0.0.1:9092''),
        (''kafkaTopic'', JStr ''nexuslog.logs.raw''),
        (''kafkaSchemaRegistryUrl'', JStr ''http://127.0.0.1:18081''),
        (''kafkaSchemaSubject'', JStr ''nexuslog.logs.raw-value''),
        (''kafkaRequiredAcks'', JStr ''all'')])]"

definition config_sections :: "string list" where
  "config_sections = [''features'', ''theme'', ''session'', ''collectorAgent'']"

text \<open>A section of the merged configuration: \<open>{...merged.k, ...(current.k ?? {})}\<close>.\<close>

definition merge_section :: "config \<Rightarrow> config \<Rightarrow> string \<Rightarrow> json" where
  "merge_section merged current k =
     JObj (js_spread (js_spread [] (own_entries (jm_get merged k)))
       (own_entries (nullish_json (jm_get current k) (Some (JObj [])))))"

definition merge_step :: "config \<Rightarrow> config \<Rightarrow> config" where
  "merge_step merged current =
     fold (\<lambda>k. jm_set k (merge_section merged current k)) config_sections
       (js_spread (js_spread [] merged) current)"

definition mergeRuntimeConfig :: "config list \<Rightarrow> config" where
  "mergeRuntimeConfig configs = foldl merge_step DEFAULT_CONFIG configs"

text \<open>\<open>None\<close>: the field is neither a string nor absent, so that \<open>trim\<close> throws.\<close>

definition resolveConfigTenantId :: "config \<Rightarrow> string option" where
  "resolveConfigTenantId config =
     map_option (\<lambda>t. nullish t [])
       (trim_field (nullish_json (jm_get config ''tenantId'') (jm_get config ''tenantID'')))"

section \<open>Loading\<close>

text \<open>What \<open>fetch\<close> yields: a rejection, or a response with its status and the parsed body
  (\<open>None\<close> when the body is not JSON).\<close>

datatype fetch_result =
  Rejected | Response (res_ok: bool) (res_status: nat) (res_json: "json option")

text \<open>A patch, or \<open>None\<close> where the code throws. A body \<open>null\<close> makes the merge throw.\<close>

definition fetchConfigPatch :: "fetch_result \<Rightarrow> bool \<Rightarrow> config option" where
  "fetchConfigPatch r optional =
     (case r of
        Rejected \<Rightarrow> None
      | Response ok status body \<Rightarrow>
          if \<not> ok then if optional \<and> status = 404 then Some [] else None
          else (case body of
                  None \<Rightarrow> None
                | Some v \<Rightarrow> if v = JNull then None else Some (own_entries (Some v))))"

definition TENANT_ID_KEY :: string where "TENANT_ID_KEY = ''nexuslog-tenant-id''"

definition syncTenantIdToStorage :: "config \<Rightarrow> browser \<Rightarrow> browser option" where
  "syncTenantIdToStorage config b =
     (case resolveConfigTenantId config of
        None \<Rightarrow> None
      | Some tenantId \<Rightarrow>
          if tenantId = [] then Some b
          else if \<not> avail (local_area b) then Some b
          else if map_option trim (readStorageValue b Local TENANT_ID_KEY) \<noteq> Some tenantId
          then Some (writeStorageValue Local TENANT_ID_KEY tenantId b)
          else Some b)"

definition loadRuntimeConfig ::
    "fetch_result \<Rightarrow> fetch_result \<Rightarrow> browser \<Rightarrow> config \<times> browser" where
  "loadRuntimeConfig base_response local_response b =
     (case fetchConfigPatch base_response False of
        None \<Rightarrow> (DEFAULT_CONFIG, b)
      | Some baseConfig \<Rightarrow>
          (case fetchConfigPatch local_response True of
             None \<Rightarrow> (DEFAULT_CONFIG, b)
           | Some localConfig \<Rightarrow>
               (let config = mergeRuntimeConfig [baseConfig, localConfig]
                in case syncTenantIdToStorage config b of
                     None \<Rightarrow> (DEFAULT_CONFIG, b)
                   | Some b' \<Rightarrow> (config, b'))))"

definition getRuntimeConfig :: "config option \<Rightarrow> config" where
  "getRuntimeConfig cachedConfig = nullish cachedConfig DEFAULT_CONFIG"

section \<open>Lemmas\<close>

lemma jm_wf_DEFAULT [simp]: "jm_wf DEFAULT_CONFIG"
  unfolding jm_wf_def by code_simp

lemma nat_to_string_inj: "inj nat_to_string"
  by (simp add: inj_def nat_to_string_inject)

lemma distinct_enumerate_keys: "distinct (map fst (map (\<lambda>(i, x). (nat_to_string i, f x)) (List.enumerate n xs)))"
proof -
  have "map fst (map (\<lambda>(i, x). (nat_to_string i, f x)) (List.enumerate n xs))
      = map nat_to_string [n..<n + length xs]"
    by (induction xs arbitrary: n) (simp_all add: upt_conv_Cons del: upt_Suc)
  then show ?thesis by (simp add: distinct_map inj_on_subset [OF nat_to_string_inj])
qed

text \<open>A value as \<open>JSON.parse\<close> builds it: no object has a key twice.\<close>

lemma own_entries_wf: "(\<And>ms. v = Some (JObj ms) \<Longrightarrow> jm_wf ms) \<Longrightarrow> jm_wf (own_entries v)"
  using distinct_enumerate_keys [of id 0] distinct_enumerate_keys [of JStr 0]
  by (auto simp: own_entries_def jm_wf_def id_def split: option.split json.split)

lemma jm_get_spread_Nil [simp]: "jm_wf m \<Longrightarrow> jm_get (js_spread [] m) k = jm_get m k"
  by (simp add: jm_get_spread nullish_opt_def split: option.split)

text \<open>A field of a section of a configuration.\<close>

definition section_field :: "config \<Rightarrow> string \<Rightarrow> string \<Rightarrow> json option" where
  "section_field c s k = jm_get (own_entries (nullish_json (jm_get c s) (Some (JObj [])))) k"

definition wf_config :: "config \<Rightarrow> bool" where
  "wf_config c \<longleftrightarrow> jm_wf c \<and> (\<forall>s ms. jm_get c s = Some (JObj ms) \<longrightarrow> jm_wf ms)"

lemma get_merge_step:
  assumes "wf_config merged" and "wf_config current"
  shows "jm_get (merge_step merged current) k =
    (if k \<in> set config_sections then Some (merge_section merged current k)
     else nullish_opt (jm_get current k) (jm_get merged k))"
  using assms by (auto simp: wf_config_def merge_step_def config_sections_def jm_get_spread)

lemma jm_wf_merge_step [inv_intros]: "jm_wf (merge_step merged current)"
proof -
  have "jm_wf m \<Longrightarrow> jm_wf (fold (\<lambda>k. jm_set k (f k)) ks m)" for m :: config and f ks
    by (induction ks arbitrary: m) auto
  then show ?thesis by (simp add: merge_step_def jm_wf_spread)
qed

lemma own_entries_section_wf: "wf_config c \<Longrightarrow> jm_wf (own_entries (jm_get c s))"
  by (rule own_entries_wf) (simp add: wf_config_def)

lemma own_entries_nullish_wf: "wf_config c \<Longrightarrow> jm_wf (own_entries (nullish_json (jm_get c s) (Some (JObj []))))"
  by (rule own_entries_wf) (auto simp: wf_config_def nullish_json_def split: if_splits)

lemma own_entries_nullish [simp]:
  "own_entries (nullish_json v (Some (JObj []))) = own_entries v"
  by (auto simp: own_entries_def nullish_json_def split: option.splits json.splits)

lemma own_entries_JObj [simp]: "own_entries (Some (JObj ms)) = ms"
  by (simp add: own_entries_def)

lemma section_field_merge_step:
  assumes "wf_config merged" and "wf_config current" and "s \<in> set config_sections"
  shows "section_field (merge_step merged current) s k =
    nullish_opt (section_field current s k) (section_field merged s k)"
proof -
  have "jm_get (merge_step merged current) s = Some (merge_section merged current s)"
    using assms by (simp add: get_merge_step)
  then show ?thesis
    using own_entries_section_wf [OF assms(1), of s] own_entries_section_wf [OF assms(2), of s]
    by (simp add: section_field_def merge_section_def own_entries_JObj jm_get_spread)
qed

lemma wf_config_merge_step [inv_intros]:
  assumes "wf_config merged" and "wf_config current"
  shows "wf_config (merge_step merged current)"
  unfolding wf_config_def
proof (intro conjI allI impI)
  show "jm_wf (merge_step merged current)" by (rule jm_wf_merge_step)
  fix s ms assume "jm_get (merge_step merged current) s = Some (JObj ms)"
  then show "jm_wf ms"
    using assms by (auto simp: get_merge_step [OF assms] wf_config_def merge_section_def jm_wf_spread nullish_opt_def
        split: if_splits option.splits)
qed

lemma DEFAULT_CONFIG_members:
  "list_all (\<lambda>(k, v). case v of JObj ms \<Rightarrow> distinct (map fst ms) | _ \<Rightarrow> True) DEFAULT_CONFIG"
  by code_simp

lemma wf_config_DEFAULT [simp]: "wf_config DEFAULT_CONFIG"
  unfolding wf_config_def
proof (intro conjI allI impI)
  fix s ms assume "jm_get DEFAULT_CONFIG s = Some (JObj ms)"
  then have "(s, JObj ms) \<in> set DEFAULT_CONFIG" by (simp add: jm_get_def map_of_SomeD)
  with DEFAULT_CONFIG_members show "jm_wf ms" by (auto simp: list_all_iff jm_wf_def)
qed simp

section \<open>Properties\<close>

text \<open>The merged configuration takes every top-level field from the local file, else the base file,
  else the defaults, and the four sections field by field in the same order of precedence.\<close>

theorem config_precedence:
  assumes "wf_config base" and "wf_config override"
  shows "(if k \<in> set config_sections
          then section_field (mergeRuntimeConfig [base, override]) k f =
                 nullish_opt (section_field override k f)
                   (nullish_opt (section_field base k f) (section_field DEFAULT_CONFIG k f))
          else jm_get (mergeRuntimeConfig [base, override]) k =
                 nullish_opt (jm_get override k) (nullish_opt (jm_get base k) (jm_get DEFAULT_CONFIG k)))"
  using assms wf_config_merge_step [OF wf_config_DEFAULT assms(1)]
  by (simp add: mergeRuntimeConfig_def section_field_merge_step get_merge_step)

theorem config_precedence_witness:
  "section_field (mergeRuntimeConfig [[(''theme'', JObj [(''primaryColor'', JStr ''#000000'')])], []])
     ''theme'' ''primaryColor'' = Some (JStr ''#000000'')"
  using config_precedence [of "[(''theme'', JObj [(''primaryColor'', JStr ''#000000'')])]" "[]"
      "''theme''" "''primaryColor''"]
  by (simp add: wf_config_def jm_wf_def config_sections_def section_field_def own_entries_def nullish_json_def
      split: if_splits)

text \<open>Loading always yields a configuration: the merge of the two files when both arrive (the local
  one may be missing) and the tenant id they name is usable, and the defaults otherwise, with the
  storage untouched; and the stored session is the same before and after.\<close>

theorem load_total:
  "(let (c, b') = loadRuntimeConfig r1 r2 b
    in (c = DEFAULT_CONFIG \<and> b' = b
        \<or> (\<exists>base override. fetchConfigPatch r1 False = Some base \<and> fetchConfigPatch r2 True = Some override
             \<and> c = mergeRuntimeConfig [base, override] \<and> syncTenantIdToStorage c b = Some b'))
       \<and> getAuthStorageItem b' ACCESS_TOKEN_KEY = getAuthStorageItem b ACCESS_TOKEN_KEY
       \<and> resolveAuthStorageScope b' = resolveAuthStorageScope b)"
proof -
  have other: "TENANT_ID_KEY \<notin> set AUTH_SESSION_KEYS"
    by (simp add: TENANT_ID_KEY_def AUTH_SESSION_KEYS_def storage_keys)
  have keep: "readStorageValue b' s k = readStorageValue b s k"
    if "syncTenantIdToStorage c b = Some b'" and "k \<in> set AUTH_SESSION_KEYS" for c b' s k
  proof -
    have "k \<noteq> TENANT_ID_KEY" using that(2) other by blast
    then show ?thesis
      using that(1) by (cases s) (auto simp: syncTenantIdToStorage_def scoped.read_write_other
          split: option.splits if_splits)
  qed
  have same: "resolveAuthStorageScope b' = resolveAuthStorageScope b
      \<and> getAuthStorageItem b' ACCESS_TOKEN_KEY = getAuthStorageItem b ACCESS_TOKEN_KEY"
    if "syncTenantIdToStorage c b = Some b'" for c b'
    using keep [OF that] by (simp add: getAuthStorageItem_def resolveAuthStorageScope_def holds_value_def
        AUTH_SESSION_KEYS_def)
  show ?thesis
    by (auto simp: loadRuntimeConfig_def Let_def same split: option.splits)
qed

end
