(* ===== verification/Api_Client.thy ===== *)
theory Api_Client
  imports Runtime_Config
begin

text \<open>
  What the modules under \<open>api/\<close> share: the base path and the headers of a request, its query string,
  and the way an answer becomes a value or an error. Every module has its own copy of these
  functions; the copies agree, and the model has them once (read from \<open>api/user.ts\<close>).

  The server is an argument: a function from requests to answers. The envelope of an answer is
  generic in its payload, as \<open>ApiEnvelope<TData>\<close> is. The browser's URL parser is the argument
  \<open>pathname\<close> (the path name of an absolute or relative URL); the query string is built here.
\<close>

section \<open>Requests and answers\<close>

record api_request =
  rq_url :: string
  rq_method :: string
  rq_headers :: "(string, string) jsmap"
  rq_body :: "json option"

record 'd api_envelope =
  env_code :: "string option"
  env_message :: "string option"
  env_data :: "'d option"
  env_total :: "jsnum option"

text \<open>The outcome of \<open>fetch\<close>: a rejection, or a response whose body may not be JSON (or \<open>null\<close>).\<close>

datatype 'd http_result =
  NetworkFailure
| HttpResponse (http_ok: bool) (http_status: nat) (http_body: "'d api_envelope option")

text \<open>What a call can throw: the error built from a response, an error of the calling function, one with a
  code of its own, or an exception of the browser (no network, storage denied, a configuration value of a wrong type).\<close>

datatype api_error =
  ApiError (err_message: string) (err_status: nat) (err_code: string)
| CallError (err_message: string)
| CodedError (err_message: string) (err_code: string)
| BrowserError

type_synonym 'd server = "api_request \<Rightarrow> 'd http_result"

record api_env =
  api_config :: config
  api_browser :: browser
  api_pathname :: "string \<Rightarrow> string"

section \<open>Encoding\<close>

definition upper_hex :: "nat \<Rightarrow> char" where
  "upper_hex d = (if d < 10 then char_of (48 + d) else char_of (55 + d))"

definition percent :: "char \<Rightarrow> string" where
  "percent c = [CHR ''%'', upper_hex (of_char c div 16), upper_hex (of_char c mod 16)]"

definition is_alnum :: "char \<Rightarrow> bool" where
  "is_alnum c \<longleftrightarrow>
     (let n = of_char c :: nat in 48 \<le> n \<and> n \<le> 57 \<or> 65 \<le> n \<and> n \<le> 90 \<or> 97 \<le> n \<and> n \<le> 122)"

definition uri_unreserved :: "char \<Rightarrow> bool" where
  "uri_unreserved c \<longleftrightarrow> is_alnum c \<or> c \<in> set ''-_.!~*()'' \<or> c = CHR 0x27"

definition encodeURIComponent :: "string \<Rightarrow> string" where
  "encodeURIComponent s = concat (map (\<lambda>c. if uri_unreserved c then [c] else percent c) s)"

text \<open>The serializer of \<open>URLSearchParams\<close>.\<close>

definition form_encode :: "string \<Rightarrow> string" where
  "form_encode s =
     concat (map (\<lambda>c. if is_alnum c \<or> c \<in> set ''*-._'' then [c]
                      else if c = CHR '' '' then ''+'' else percent c) s)"

definition query_string :: "(string, string) jsmap \<Rightarrow> string" where
  "query_string ps =
     (if ps = [] then []
      else ''?'' @ join ''&'' (map (\<lambda>(k, v). form_encode k @ ''='' @ form_encode v) ps))"

section \<open>Building a request\<close>

definition normalizeApiBaseUrl :: "string \<Rightarrow> string" where
  "normalizeApiBaseUrl rawBaseUrl =
     (let normalized = trim (or_str rawBaseUrl ''/api/v1'')
      in if normalized = [] then ''/api/v1''
         else if endsWith normalized ''/'' then take (length normalized - 1) normalized
         else normalized)"

text \<open>\<open>None\<close>: local storage is denied, or the configured tenant is not a string.\<close>

definition resolveTenantId :: "api_env \<Rightarrow> string option" where
  "resolveTenantId env =
     (if \<not> avail (local_area (api_browser env)) then None
      else (let localTenant = nullish (map_option trim (readStorageValue (api_browser env) Local TENANT_ID_KEY)) []
            in if localTenant \<noteq> [] then Some localTenant else resolveConfigTenantId (api_config env)))"

definition resolveAccessToken :: "browser \<Rightarrow> string" where
  "resolveAccessToken b = nullish (map_option trim (getAuthStorageItem b ACCESS_TOKEN_KEY)) []"

definition buildAuthHeaders :: "api_env \<Rightarrow> string \<Rightarrow> (string, string) jsmap option" where
  "buildAuthHeaders env token =
     map_option (\<lambda>tenantId.
        [(''Content-Type'', ''application/json'')]
        @ (if tenantId \<noteq> [] then [(''X-Tenant-ID'', tenantId)] else [])
        @ (if token \<noteq> [] then [(''Authorization'', ''Bearer '' @ token)] else []))
      (resolveTenantId env)"

text \<open>\<open>config.apiBaseUrl || '/api/v1'\<close>, normalized; \<open>None\<close> when it is truthy and no string.\<close>

definition base_url :: "api_env \<Rightarrow> string option" where
  "base_url env =
     (case jm_get (api_config env) ''apiBaseUrl'' of
        Some (JStr s) \<Rightarrow> Some (normalizeApiBaseUrl (or_str s ''/api/v1''))
      | v \<Rightarrow> if truthy v then None else Some (normalizeApiBaseUrl ''/api/v1''))"

text \<open>Query parameters: \<open>None\<close> (undefined) and the empty string are left out; a repeated key is set
  again in place.\<close>

definition search_params :: "(string \<times> string option) list \<Rightarrow> (string, string) jsmap" where
  "search_params query =
     fold (\<lambda>(k, v). case v of None \<Rightarrow> id | Some s \<Rightarrow> if s = [] then id else jm_set k s) query []"

definition api_url :: "api_env \<Rightarrow> string \<Rightarrow> (string \<times> string option) list \<Rightarrow> string" where
  "api_url env p query = api_pathname env p @ query_string (search_params query)"

text \<open>One request of the module whose paths start with \<open>service\<close>, and its answer: the envelope, with
  the default envelope for an empty body, or the error of the module.\<close>

definition default_envelope :: "'d api_envelope" where
  "default_envelope =
     \<lparr>env_code = Some ''OK'', env_message = Some ''success'', env_data = None, env_total = None\<rparr>"

definition decode_answer ::
    "string \<Rightarrow> string \<Rightarrow> 'd http_result \<Rightarrow> api_error + 'd api_envelope" where
  "decode_answer what code r =
     (case r of
        NetworkFailure \<Rightarrow> Inl BrowserError
      | HttpResponse ok status body \<Rightarrow>
          if \<not> ok then
            Inl (ApiError
                  (nullish (Option.bind body env_message) (what @ '' request failed: HTTP '' @ nat_to_string status))
                  status (nullish (Option.bind body env_code) code))
          else Inr (nullish body default_envelope))"

definition request_api ::
    "string \<Rightarrow> string \<Rightarrow> string \<Rightarrow> api_env \<Rightarrow> 'd server \<Rightarrow> string \<Rightarrow> string
     \<Rightarrow> (string \<times> string option) list \<Rightarrow> json option \<Rightarrow> api_error + 'd api_envelope" where
  "request_api service what code env server p method query body =
     (case base_url env of
        None \<Rightarrow> Inl BrowserError
      | Some base \<Rightarrow>
          (case buildAuthHeaders env (resolveAccessToken (api_browser env)) of
             None \<Rightarrow> Inl BrowserError
           | Some headers \<Rightarrow>
               decode_answer what code
                 (server \<lparr>rq_url = api_url env (base @ service @ p) query, rq_method = method,
                          rq_headers = headers, rq_body = body\<rparr>)))"

section \<open>Lemmas\<close>

lemma upper_hex_hex: "d < 16 \<Longrightarrow> upper_hex d \<in> set ''0123456789ABCDEF''"
proof -
  assume "d < 16"
  then have "d \<in> set [0..<16]" by simp
  moreover have "list_all (\<lambda>d. upper_hex d \<in> set ''0123456789ABCDEF'') [0..<16]" by code_simp
  ultimately show ?thesis unfolding list_all_iff by blast
qed

lemma upper_hex_inject: "d < 16 \<Longrightarrow> e < 16 \<Longrightarrow> upper_hex d = upper_hex e \<longleftrightarrow> d = e"
proof -
  assume "d < 16" "e < 16"
  then have "d \<in> set [0..<16]" "e \<in> set [0..<16]" by simp_all
  moreover have "list_all (\<lambda>d. list_all (\<lambda>e. (upper_hex d = upper_hex e) = (d = e)) [0..<16]) [0..<16]"
    by code_simp
  ultimately show ?thesis unfolding list_all_iff by blast
qed

lemma percent_inject: "percent c = percent d \<longleftrightarrow> c = d"
proof -
  have b: "(of_char c :: nat) < 256" "(of_char d :: nat) < 256" by (rule char_of_less_256)+
  then have "percent c = percent d \<longleftrightarrow>
      (of_char c :: nat) div 16 = of_char d div 16 \<and> (of_char c :: nat) mod 16 = of_char d mod 16"
    using b by (simp add: percent_def upper_hex_inject less_mult_imp_div_less)
  also have "\<dots> \<longleftrightarrow> (of_char c :: nat) = of_char d" by (metis mult_div_mod_eq)
  finally show ?thesis by simp
qed

lemma encode_Cons:
  "encodeURIComponent (c # s) = (if uri_unreserved c then [c] else percent c) @ encodeURIComponent s"
  by (simp add: encodeURIComponent_def)

lemma encode_Nil [simp]: "encodeURIComponent [] = []"
  by (simp add: encodeURIComponent_def)

lemma percent_not_unreserved: "\<not> uri_unreserved (CHR ''%'')"
  by (simp add: uri_unreserved_def is_alnum_def)

text \<open>Two ids never share an encoding.\<close>

lemma encodeURIComponent_inject: "encodeURIComponent s = encodeURIComponent t \<longleftrightarrow> s = t"
proof (induction s arbitrary: t)
  case Nil
  show ?case by (cases t) (simp_all add: encode_Cons percent_def)
next
  case (Cons c s)
  show ?case
  proof (cases t)
    case Nil
    then show ?thesis by (simp add: encode_Cons percent_def)
  next
    case (Cons d t')
    have "c = CHR ''%'' \<Longrightarrow> \<not> uri_unreserved c" "d = CHR ''%'' \<Longrightarrow> \<not> uri_unreserved d"
      using percent_not_unreserved by auto
    then show ?thesis
      using Cons Cons.IH [of t'] percent_inject [of c d]
      by (auto simp: encode_Cons percent_def)
  qed
qed

text \<open>An encoded id is one path segment: it cannot leave its place in the path, add a query or a
  fragment.\<close>

lemma percent_chars:
  assumes "x \<in> set (percent c)" shows "x = CHR ''%'' \<or> x \<in> set ''0123456789ABCDEF''"
proof -
  have "(of_char c :: nat) div 16 < 16" using char_of_less_256 [of c] by (simp add: less_mult_imp_div_less)
  then have "upper_hex (of_char c div 16) \<in> set ''0123456789ABCDEF''"
    and "upper_hex (of_char c mod 16) \<in> set ''0123456789ABCDEF''" by (simp_all only: upper_hex_hex mod_less_divisor zero_less_numeral)
  then show ?thesis using assms unfolding percent_def by (metis empty_iff insert_iff list.set(1) list.set(2))
qed

lemma hex_unreserved: "x \<in> set ''0123456789ABCDEF'' \<Longrightarrow> uri_unreserved x"
proof -
  have "list_all uri_unreserved ''0123456789ABCDEF''" by code_simp
  then show "x \<in> set ''0123456789ABCDEF'' \<Longrightarrow> uri_unreserved x" unfolding list_all_iff by blast
qed

lemma encodeURIComponent_chars:
  "x \<in> set (encodeURIComponent s) \<Longrightarrow> x = CHR ''%'' \<or> uri_unreserved x"
proof (induction s)
  case (Cons c s)
  show ?case
  proof (cases "x \<in> set (encodeURIComponent s)")
    case False
    then have "x \<in> set (if uri_unreserved c then [c] else percent c)"
      using Cons.prems unfolding encode_Cons set_append by blast
    then show ?thesis
    proof (cases "uri_unreserved c")
      case True
      then have "x \<in> set [c]" using \<open>x \<in> set (if _ then _ else _)\<close> by simp
      then have "x = c" by simp
      with True show ?thesis by simp
    next
      case False
      then show ?thesis
        using \<open>x \<in> set (if _ then _ else _)\<close> percent_chars [of x c] hex_unreserved [of x] by presburger
    qed
  qed (rule Cons.IH)
qed simp

lemma reserved_chars:
  "\<not> uri_unreserved (CHR ''/'')" "\<not> uri_unreserved (CHR ''?'')" "\<not> uri_unreserved (CHR ''#'')"
  by (simp_all add: uri_unreserved_def is_alnum_def)

lemma encodeURIComponent_segment:
  "CHR ''/'' \<notin> set (encodeURIComponent s)" "CHR ''?'' \<notin> set (encodeURIComponent s)"
  "CHR ''#'' \<notin> set (encodeURIComponent s)"
  using encodeURIComponent_chars [of _ s] reserved_chars by fastforce+

lemma request_api_Inr:
  "request_api service what code env server p m q b = Inr e \<Longrightarrow>
     \<exists>u h st bd. server \<lparr>rq_url = u, rq_method = m, rq_headers = h, rq_body = b\<rparr> = HttpResponse True st bd
       \<and> e = nullish bd default_envelope"
  by (auto simp: request_api_def decode_answer_def split: option.splits http_result.splits if_splits)

text \<open>Every request carries the session's token when there is one.\<close>

lemma buildAuthHeaders_token:
  "buildAuthHeaders env token = Some h \<Longrightarrow>
     jm_get h ''Authorization'' = (if token = [] then None else Some (''Bearer '' @ token))"
  by (auto simp: buildAuthHeaders_def)

lemma not_ends_slash: "endsWith s ''/'' \<longleftrightarrow> (\<exists>t. s = t @ ''/'')"
  by (simp add: endsWith_iff)

end
