(* ===== verification/Governance.thy ===== *)
theory Governance
  imports Zh_Text
begin

text \<open>
  Governance of the accounts and roles the platform reserves for itself
  (\<open>pages/security/securityGovernance.ts\<close>) and the localization of the built-in role descriptions
  (\<open>pages/security/roleDescriptionLocalization.ts\<close>), over the user and role data of \<open>api/user.ts\<close>.
\<close>

section \<open>Users and roles\<close>

record role_data =
  role_id :: string
  role_name :: string
  role_description :: string
  role_permissions :: "string list"

record user_data =
  user_id :: string
  user_username :: string
  user_email :: string
  user_display_name :: string
  user_status :: string
  user_last_login_at :: "string option"
  user_created_at :: string
  user_updated_at :: string
  user_roles :: "role_data list option"

section \<open>Protected and test accounts\<close>

definition protectedGovernanceUsernames :: "string list" where
  "protectedGovernanceUsernames = [''sys-superadmin'', ''system-automation'']"

definition testGovernanceUsernamePrefixes :: "string list" where
  "testGovernanceUsernamePrefixes = [''e2e_login_'', ''e2e_reg_'', ''e2e_reset_'']"

definition protectedRoleNames :: "string list" where
  "protectedRoleNames = [''super_admin'', ''system_automation'']"

datatype governance_key = ProtectedTag | TestTag

record governance_tag =
  tag_key :: governance_key
  tag_label :: string
  tag_color :: string
  tag_description :: string

definition normalizeGovernanceName :: "string option \<Rightarrow> string" where
  "normalizeGovernanceName v = toLowerCase (trim (nullish v []))"

definition isProtectedRoleName :: "string option \<Rightarrow> bool" where
  "isProtectedRoleName name \<longleftrightarrow> normalizeGovernanceName name \<in> set protectedRoleNames"

definition isProtectedRole :: "role_data option \<Rightarrow> bool" where
  "isProtectedRole role = isProtectedRoleName (map_option role_name role)"

definition isProtectedUser :: "user_data option \<Rightarrow> bool" where
  "isProtectedUser user =
     (case user of
        None \<Rightarrow> False
      | Some u \<Rightarrow>
          if normalizeGovernanceName (Some (user_username u)) \<in> set protectedGovernanceUsernames then True
          else list_ex (\<lambda>r. isProtectedRole (Some r)) (nullish (user_roles u) []))"

definition isTestGovernanceUser :: "user_data option \<Rightarrow> bool" where
  "isTestGovernanceUser user =
     (case user of
        None \<Rightarrow> False
      | Some u \<Rightarrow>
          (let normalizedUsername = normalizeGovernanceName (Some (user_username u))
           in list_ex (\<lambda>p. startsWith normalizedUsername p) testGovernanceUsernamePrefixes))"

definition resolveUserGovernanceTags :: "user_data option \<Rightarrow> governance_tag list" where
  "resolveUserGovernanceTags user =
     (if isProtectedUser user
      then [\<lparr>tag_key = ProtectedTag, tag_label = zh_reserved_tag, tag_color = ''magenta'',
             tag_description = zh_reserved_tag_desc\<rparr>]
      else [])
     @ (if isTestGovernanceUser user
        then [\<lparr>tag_key = TestTag, tag_label = zh_test_account, tag_color = ''orange'',
               tag_description = zh_test_tag_desc\<rparr>]
        else [])"

datatype notice_type = InfoNotice | WarningNotice

record governance_notice =
  notice_type :: notice_type
  notice_message :: string
  notice_description :: string

definition getUserGovernanceNotice :: "user_data option \<Rightarrow> governance_notice option" where
  "getUserGovernanceNotice user =
     (if isProtectedUser user
      then Some \<lparr>notice_type = InfoNotice, notice_message = zh_reserved_account,
                 notice_description = zh_reserved_notice\<rparr>
      else if isTestGovernanceUser user
      then Some \<lparr>notice_type = WarningNotice, notice_message = zh_test_account,
                 notice_description = zh_test_notice\<rparr>
      else None)"

definition getAssignableRoles :: "role_data list \<Rightarrow> role_data list" where
  "getAssignableRoles roles = filter (\<lambda>r. \<not> isProtectedRole (Some r)) roles"

section \<open>Role descriptions\<close>

definition BUILTIN_ROLE_DESCRIPTION_LOCALIZATION :: "(string, string) jsmap" where
  "BUILTIN_ROLE_DESCRIPTION_LOCALIZATION =
    [(''Full system access including user management and system settings'', zh_role_full),
     (''System administrator with user, audit, alert, incident, and monitoring management permissions'',
      zh_role_sysadmin),
     (''Operational access: log search, alert management, incident handling, monitoring'', zh_role_operator),
     (''Read-only access: view logs, dashboards, and monitoring data'', zh_role_viewer),
     (''Reserved super administrator role. Only one bootstrap user may hold this role.'', zh_role_super),
     (''Reserved system account role for automated operation and audit attribution.'', zh_role_automation)]"

definition BUILTIN_ROLE_NAME_DESCRIPTION_FALLBACK :: "(string, string) jsmap" where
  "BUILTIN_ROLE_NAME_DESCRIPTION_FALLBACK =
    [(''admin'', zh_name_admin), (''system_admin'', zh_name_system_admin), (''operator'', zh_name_operator),
     (''viewer'', zh_name_viewer), (''super_admin'', zh_name_super),
     (''system_automation'', zh_name_automation)]"

definition localizeRoleDescription :: "role_data \<Rightarrow> string" where
  "localizeRoleDescription role =
     (let normalizedDescription = trim (role_description role)
      in if normalizedDescription = []
         then nullish (jm_get BUILTIN_ROLE_NAME_DESCRIPTION_FALLBACK (role_name role)) []
         else nullish (jm_get BUILTIN_ROLE_DESCRIPTION_LOCALIZATION normalizedDescription)
                normalizedDescription)"

section \<open>Lemmas\<close>

lemma isProtectedUser_roles:
  "\<not> isProtectedUser (Some u) \<Longrightarrow> user_roles u = Some rs \<Longrightarrow> getAssignableRoles rs = rs"
  by (auto simp: isProtectedUser_def getAssignableRoles_def list_ex_iff filter_id_conv split: if_splits)

lemma getAssignableRoles_idem [simp]: "getAssignableRoles (getAssignableRoles rs) = getAssignableRoles rs"
  by (simp add: getAssignableRoles_def)

lemma protected_not_test:
  "normalizeGovernanceName (Some (user_username u)) \<in> set protectedGovernanceUsernames \<Longrightarrow>
     \<not> isTestGovernanceUser (Some u)"
  by (auto simp: protectedGovernanceUsernames_def isTestGovernanceUser_def testGovernanceUsernamePrefixes_def)

section \<open>Properties\<close>

text \<open>C15: The roles offered for assignment are exactly the roles whose name is not reserved, in any spelling, in the order
  they came in. Giving an ordinary account any of them never makes it a protected account, and does not change that it is
  shown as a test account or not; and an account gets a governance notice exactly when it gets a governance tag.\<close>

theorem assignable_roles_safe:
  assumes "\<not> isProtectedUser (Some u)" and "r \<in> set (getAssignableRoles roles)"
  shows "getAssignableRoles roles = [x \<leftarrow> roles. toLowerCase (trim (role_name x)) \<noteq> ''super_admin''
      \<and> toLowerCase (trim (role_name x)) \<noteq> ''system_automation'']
    \<and> \<not> isProtectedUser (Some (u\<lparr>user_roles := Some (r # nullish (user_roles u) [])\<rparr>))
    \<and> resolveUserGovernanceTags (Some (u\<lparr>user_roles := Some [r]\<rparr>)) =
        filter (\<lambda>t. tag_key t = TestTag) (resolveUserGovernanceTags (Some u))
    \<and> (getUserGovernanceNotice v = None) = (resolveUserGovernanceTags v = [])"
proof -
  have "getAssignableRoles roles = [x \<leftarrow> roles. toLowerCase (trim (role_name x)) \<noteq> ''super_admin''
      \<and> toLowerCase (trim (role_name x)) \<noteq> ''system_automation'']"
    by (simp add: getAssignableRoles_def isProtectedRole_def isProtectedRoleName_def protectedRoleNames_def
        normalizeGovernanceName_def)
  moreover have "\<not> isProtectedUser (Some (u\<lparr>user_roles := Some (r # nullish (user_roles u) [])\<rparr>))
    \<and> resolveUserGovernanceTags (Some (u\<lparr>user_roles := Some [r]\<rparr>)) =
        filter (\<lambda>t. tag_key t = TestTag) (resolveUserGovernanceTags (Some u))
    \<and> (getUserGovernanceNotice v = None) = (resolveUserGovernanceTags v = [])"
    using assms
    by (auto simp: getAssignableRoles_def isProtectedUser_def resolveUserGovernanceTags_def
        isTestGovernanceUser_def getUserGovernanceNotice_def split: if_splits)
  ultimately show ?thesis by simp
qed

definition plain_user :: user_data where
  "plain_user = \<lparr>user_id = ''u1'', user_username = ''alice'', user_email = [], user_display_name = [],
     user_status = ''active'', user_last_login_at = None, user_created_at = [], user_updated_at = [],
     user_roles = None\<rparr>"

definition operator_role :: role_data where
  "operator_role = \<lparr>role_id = ''r1'', role_name = ''operator'', role_description = [], role_permissions = []\<rparr>"

theorem assignable_roles_safe_witness:
  "\<not> isProtectedUser (Some (plain_user\<lparr>user_roles := Some [operator_role]\<rparr>)) \<and> getAssignableRoles [operator_role] \<noteq> []"
proof -
  have u: "\<not> isProtectedUser (Some plain_user)" by code_simp
  have r: "operator_role \<in> set (getAssignableRoles [operator_role])"
    by (simp add: getAssignableRoles_def) code_simp
  show ?thesis using assignable_roles_safe [OF u r] r by (auto simp: plain_user_def)
qed

end
