(* ===== verification/User_Api.thy ===== *)
theory User_Api
  imports Api_Client Governance Authz
begin

text \<open>
  The clients of the user, role, session and login-policy services (\<open>api/user.ts\<close>, \<open>api/auth.ts\<close>,
  \<open>api/loginPolicy.ts\<close>), over the shared request function. Payloads have the types the code declares
  for them; an optional field of a payload is an \<open>option\<close>.
\<close>

section \<open>Payloads\<close>

record list_users_response =
  lu_users :: "user_data list option"
  lu_total :: "int option"
  lu_page :: "int option"
  lu_limit :: "int option"

record list_users =
  users :: "user_data list"
  users_total :: int
  users_page :: int
  users_limit :: int

record fetch_users_params =
  fu_page :: "int option"
  fu_pageSize :: "int option"
  fu_query :: "string option"
  fu_status :: "string option"
  fu_roleId :: "string option"

record batch_status_response =
  bs_requested :: "int option"
  bs_updated :: "int option"
  bs_status :: "string option"

record batch_status =
  batch_requested :: int
  batch_updated :: int
  batch_status :: string

record create_user_payload =
  cu_username :: string
  cu_password :: string
  cu_email :: string
  cu_display_name :: "string option"
  cu_role_id :: "string option"

record update_user_payload =
  uu_display_name :: "string option"
  uu_email :: "string option"
  uu_status :: "string option"

record created_user =
  created_id :: "string option"
  created_username :: "string option"

record get_me_payload =
  gm_user :: "user_data option"
  gm_roles :: "role_data list option"
  gm_permissions :: "string list option"
  gm_capabilities :: "string list option"
  gm_scopes :: "string list option"
  gm_entitlements :: "string list option"
  gm_feature_flags :: "string list option"
  gm_authz_epoch :: "int option"
  gm_actor_flags :: "actor_flags option"

record get_me_response =
  me_user :: user_data
  me_roles :: "role_data list"
  me_permissions :: "string list"
  me_capabilities :: "string list"
  me_scopes :: "string list"
  me_entitlements :: "string list"
  me_feature_flags :: "string list"
  me_authz_epoch :: int
  me_actor_flags :: actor_flags

section \<open>Requests\<close>

definition requestUserApi where
  "requestUserApi = request_api ''/users'' ''user api'' ''USER_API_REQUEST_FAILED''"

definition requestRolesApi where
  "requestRolesApi = request_api ''/roles'' ''roles api'' ''ROLES_API_REQUEST_FAILED''"

text \<open>An optional string that is used only when it is non-empty (\<open>s || undefined\<close>).\<close>

definition nonempty :: "string option \<Rightarrow> string option" where
  "nonempty s = (case s of None \<Rightarrow> None | Some t \<Rightarrow> if t = [] then None else Some t)"

text \<open>The object literal of a request body; a field whose value is \<open>undefined\<close> is left out.\<close>

definition body_fields :: "(string \<times> json option) list \<Rightarrow> json" where
  "body_fields fs = JObj (List.map_filter (\<lambda>(k, v). map_option (Pair k) v) fs)"

definition map_envelope :: "('d api_envelope \<Rightarrow> api_error + 'r) \<Rightarrow> api_error + 'd api_envelope \<Rightarrow> api_error + 'r" where
  "map_envelope f r = (case r of Inl e \<Rightarrow> Inl e | Inr env \<Rightarrow> f env)"

definition fetchUsers ::
    "api_env \<Rightarrow> list_users_response server \<Rightarrow> fetch_users_params \<Rightarrow> api_error + list_users" where
  "fetchUsers env server params =
     (let page = nullish (fu_page params) 1;
          pageSize = nullish (fu_pageSize params) 10
      in map_envelope (\<lambda>e.
           Inr \<lparr>users = nullish (Option.bind (env_data e) lu_users) [],
                users_total = nullish (Option.bind (env_data e) lu_total) 0,
                users_page = nullish (Option.bind (env_data e) lu_page) page,
                users_limit = nullish (Option.bind (env_data e) lu_limit) pageSize\<rparr>)
         (requestUserApi env server [] ''GET''
            [(''page'', Some (int_to_string page)),
             (''page_size'', Some (int_to_string pageSize)),
             (''query'', nonempty (map_option trim (fu_query params))),
             (''status'', nonempty (fu_status params)),
             (''role_id'', nonempty (fu_roleId params))] None))"

definition fetchUser :: "api_env \<Rightarrow> user_data server \<Rightarrow> string \<Rightarrow> api_error + user_data" where
  "fetchUser env server i =
     map_envelope (\<lambda>e. case env_data e of
         None \<Rightarrow> Inl (CallError zh_user_detail_failed)
       | Some d \<Rightarrow> if user_id d = [] then Inl (CallError zh_user_detail_failed)
                   else Inr (d\<lparr>user_roles := Some (nullish (user_roles d) [])\<rparr>))
       (requestUserApi env server (''/'' @ encodeURIComponent i) ''GET'' [] None)"

definition createUser ::
    "api_env \<Rightarrow> created_user server \<Rightarrow> create_user_payload \<Rightarrow> api_error + string \<times> string" where
  "createUser env server d =
     map_envelope (\<lambda>e. case Option.bind (env_data e) (nonempty \<circ> created_id) of
         None \<Rightarrow> Inl (CallError zh_user_created_no_id)
       | Some i \<Rightarrow> Inr (i, nullish (Option.bind (env_data e) created_username) (cu_username d)))
       (requestUserApi env server [] ''POST'' []
          (Some (body_fields
            [(''username'', Some (JStr (cu_username d))),
             (''password'', Some (JStr (cu_password d))),
             (''email'', Some (JStr (cu_email d))),
             (''display_name'', Some (JStr (nullish (cu_display_name d) []))),
             (''role_id'', map_option JStr (cu_role_id d))])))"

definition updateUser ::
    "api_env \<Rightarrow> unit server \<Rightarrow> string \<Rightarrow> update_user_payload \<Rightarrow> api_error + unit" where
  "updateUser env server i d =
     map_envelope (\<lambda>_. Inr ())
       (requestUserApi env server (''/'' @ encodeURIComponent i) ''PUT'' []
          (Some (body_fields [(''display_name'', map_option JStr (uu_display_name d)),
             (''email'', map_option JStr (uu_email d)), (''status'', map_option JStr (uu_status d))])))"

definition disableUser :: "api_env \<Rightarrow> unit server \<Rightarrow> string \<Rightarrow> api_error + unit" where
  "disableUser env server i =
     map_envelope (\<lambda>_. Inr ()) (requestUserApi env server (''/'' @ encodeURIComponent i) ''DELETE'' [] None)"

definition batchUpdateUsersStatus ::
    "api_env \<Rightarrow> batch_status_response server \<Rightarrow> string list \<Rightarrow> string \<Rightarrow> api_error + batch_status" where
  "batchUpdateUsersStatus env server ids status =
     map_envelope (\<lambda>e.
         Inr \<lparr>batch_requested = nullish (Option.bind (env_data e) bs_requested) (int (length ids)),
              batch_updated = nullish (Option.bind (env_data e) bs_updated) 0,
              batch_status = nullish (Option.bind (env_data e) bs_status) status\<rparr>)
       (requestUserApi env server ''/batch/status'' ''POST'' []
          (Some (body_fields [(''user_ids'', Some (JArr (map JStr ids))), (''status'', Some (JStr status))])))"

definition assignRole :: "api_env \<Rightarrow> unit server \<Rightarrow> string \<Rightarrow> string \<Rightarrow> api_error + unit" where
  "assignRole env server userId roleId =
     map_envelope (\<lambda>_. Inr ())
       (requestUserApi env server (''/'' @ encodeURIComponent userId @ ''/roles'') ''POST'' []
          (Some (body_fields [(''role_id'', Some (JStr roleId))])))"

definition removeRole :: "api_env \<Rightarrow> unit server \<Rightarrow> string \<Rightarrow> string \<Rightarrow> api_error + unit" where
  "removeRole env server userId roleId =
     map_envelope (\<lambda>_. Inr ())
       (requestUserApi env server
          (''/'' @ encodeURIComponent userId @ ''/roles/'' @ encodeURIComponent roleId) ''DELETE'' [] None)"

definition fetchRoles :: "api_env \<Rightarrow> role_data list option server \<Rightarrow> api_error + role_data list" where
  "fetchRoles env server =
     map_envelope (\<lambda>e. Inr (nullish (Option.bind (env_data e) id) []))
       (requestRolesApi env server [] ''GET'' [] None)"

definition fetchCurrentUser :: "api_env \<Rightarrow> get_me_payload server \<Rightarrow> api_error + get_me_response" where
  "fetchCurrentUser env server =
     map_envelope (\<lambda>e. case env_data e of
         None \<Rightarrow> Inl (CallError zh_me_failed)
       | Some d \<Rightarrow>
           (case gm_user d of
              None \<Rightarrow> Inl (CallError zh_me_failed)
            | Some u \<Rightarrow>
                Inr \<lparr>me_user = u,
                     me_roles = nullish (gm_roles d) [],
                     me_permissions = nullish (gm_permissions d) [],
                     me_capabilities = nullish (gm_capabilities d) [],
                     me_scopes = nullish (gm_scopes d) [],
                     me_entitlements = nullish (gm_entitlements d) [],
                     me_feature_flags = nullish (gm_feature_flags d) [],
                     me_authz_epoch = nullish (gm_authz_epoch d) 0,
                     me_actor_flags = nullish (gm_actor_flags d)
                       [(''reserved'', False), (''interactive_login_allowed'', True),
                        (''system_subject'', False)]\<rparr>))
       (requestUserApi env server ''/me'' ''GET'' [] None)"

section \<open>The session service\<close>

text \<open>\<open>data.logged_out\<close> of the answer.\<close>

definition revokeCurrentSession :: "api_env \<Rightarrow> bool option server \<Rightarrow> api_error + bool" where
  "revokeCurrentSession env server =
     (let b = api_browser env;
          token = nullish (map_option trim (getAuthStorageItem b ACCESS_TOKEN_KEY)) [];
          refresh = nullish (map_option trim (getAuthStorageItem b REFRESH_TOKEN_KEY)) []
      in if refresh = [] \<or> token = [] \<or> isEmergencyAccessToken (Some token) then Inr False
         else case resolveTenantId env of
           None \<Rightarrow> Inl BrowserError
         | Some tenantId \<Rightarrow>
             (case base_url env of
                None \<Rightarrow> Inl BrowserError
              | Some base \<Rightarrow>
                  (case server
                     \<lparr>rq_url = base @ ''/auth/logout'', rq_method = ''POST'',
                      rq_headers =
                        [(''Content-Type'', ''application/json''), (''Authorization'', ''Bearer '' @ token)]
                        @ (if tenantId \<noteq> [] then [(''X-Tenant-ID'', tenantId)] else []),
                      rq_body = Some (body_fields [(''refresh_token'', Some (JStr refresh))])\<rparr> of
                     NetworkFailure \<Rightarrow> Inl BrowserError
                   | HttpResponse ok status body \<Rightarrow>
                       if \<not> ok then
                         Inl (CallError (nullish (Option.bind body env_message)
                               (''logout request failed: HTTP '' @ nat_to_string status)))
                       else Inr (Option.bind (Option.bind body env_data) id \<noteq> Some False))))"

section \<open>Login policy\<close>

record login_policy_settings =
  totpEnabled :: bool
  smsEnabled :: bool
  minLength :: int
  passwordExpiry :: int
  requireUppercase :: bool
  requireLowercase :: bool
  requireNumbers :: bool
  requireSpecialChars :: bool
  historyCheck :: string
  idleTimeout :: int
  maxConcurrentSessions :: int
  maxLoginAttempts :: int
  lockoutDuration :: int
  ipWhitelistEnabled :: bool
  ipWhitelist :: "(string \<times> string) list"

record login_policy_response =
  policy_settings :: "login_policy_settings option"
  policy_updated_at :: "string option"
  policy_updated_by :: "string option"

definition settings_json :: "login_policy_settings \<Rightarrow> json" where
  "settings_json s =
     JObj [(''totpEnabled'', JBool (totpEnabled s)), (''smsEnabled'', JBool (smsEnabled s)),
       (''minLength'', JNum (of_int (minLength s))), (''passwordExpiry'', JNum (of_int (passwordExpiry s))),
       (''requireUppercase'', JBool (requireUppercase s)), (''requireLowercase'', JBool (requireLowercase s)),
       (''requireNumbers'', JBool (requireNumbers s)), (''requireSpecialChars'', JBool (requireSpecialChars s)),
       (''historyCheck'', JStr (historyCheck s)), (''idleTimeout'', JNum (of_int (idleTimeout s))),
       (''maxConcurrentSessions'', JNum (of_int (maxConcurrentSessions s))),
       (''maxLoginAttempts'', JNum (of_int (maxLoginAttempts s))),
       (''lockoutDuration'', JNum (of_int (lockoutDuration s))),
       (''ipWhitelistEnabled'', JBool (ipWhitelistEnabled s)),
       (''ipWhitelist'', JArr (map (\<lambda>(i, n). JObj [(''ip'', JStr i), (''note'', JStr n)]) (ipWhitelist s)))]"

definition requestLoginPolicyApi ::
    "api_env \<Rightarrow> 'd server \<Rightarrow> string \<Rightarrow> json option \<Rightarrow> api_error + 'd api_envelope" where
  "requestLoginPolicyApi env server method body =
     (case base_url env of
        None \<Rightarrow> Inl BrowserError
      | Some base \<Rightarrow>
          (case buildAuthHeaders env (resolveAccessToken (api_browser env)) of
             None \<Rightarrow> Inl BrowserError
           | Some headers \<Rightarrow>
               decode_answer ''login policy'' ''LOGIN_POLICY_REQUEST_FAILED''
                 (server \<lparr>rq_url = base @ ''/security/login-policy'', rq_method = method,
                          rq_headers = headers, rq_body = body\<rparr>)))"

definition policy_or :: "string \<Rightarrow> login_policy_response api_envelope \<Rightarrow> api_error + login_policy_response" where
  "policy_or message e =
     (case env_data e of
        None \<Rightarrow> Inl (CallError message)
      | Some d \<Rightarrow> if policy_settings d = None then Inl (CallError message) else Inr d)"

definition fetchLoginPolicy ::
    "api_env \<Rightarrow> login_policy_response server \<Rightarrow> api_error + login_policy_response" where
  "fetchLoginPolicy env server =
     map_envelope (policy_or zh_policy_empty) (requestLoginPolicyApi env server ''GET'' None)"

definition updateLoginPolicy ::
    "api_env \<Rightarrow> login_policy_response server \<Rightarrow> login_policy_settings \<Rightarrow> api_error + login_policy_response" where
  "updateLoginPolicy env server settings =
     map_envelope (policy_or zh_policy_saved_empty)
       (requestLoginPolicyApi env server ''PUT'' (Some (body_fields [(''settings'', Some (settings_json settings))])))"

section \<open>Lemmas\<close>

lemma map_envelope_Inr: "map_envelope f r = Inr v \<Longrightarrow> \<exists>e. r = Inr e \<and> f e = Inr v"
  by (auto simp: map_envelope_def split: sum.splits)

text \<open>No request leaves without the session's token, when it has one.\<close>

lemma request_api_authorized:
  assumes "request_api service what code env server p m q b = Inr e"
    and "resolveAccessToken (api_browser env) \<noteq> []"
  shows "\<exists>u h st bd. jm_get h ''Authorization'' = Some (''Bearer '' @ resolveAccessToken (api_browser env))
    \<and> server \<lparr>rq_url = u, rq_method = m, rq_headers = h, rq_body = b\<rparr> = HttpResponse True st bd
    \<and> e = nullish bd default_envelope"
proof -
  from assms(1) obtain base h where "base_url env = Some base"
    and h: "buildAuthHeaders env (resolveAccessToken (api_browser env)) = Some h"
    and d: "decode_answer what code (server \<lparr>rq_url = api_url env (base @ service @ p) q, rq_method = m,
        rq_headers = h, rq_body = b\<rparr>) = Inr e"
    by (auto simp: request_api_def split: option.splits)
  from buildAuthHeaders_token [OF h] assms(2)
  have "jm_get h ''Authorization'' = Some (''Bearer '' @ resolveAccessToken (api_browser env))" by simp
  moreover from d obtain st bd where
    "server \<lparr>rq_url = api_url env (base @ service @ p) q, rq_method = m, rq_headers = h, rq_body = b\<rparr>
       = HttpResponse True st bd" "e = nullish bd default_envelope"
    by (auto simp: decode_answer_def split: http_result.splits if_splits)
  ultimately show ?thesis by blast
qed

lemma revoke_needs_session:
  "getAuthStorageItem (api_browser env) REFRESH_TOKEN_KEY = None \<Longrightarrow> revokeCurrentSession env server = Inr False"
  by (simp add: revokeCurrentSession_def Let_def)

section \<open>Properties\<close>

text \<open>Changing the roles of a user addresses that user and that role only: whatever characters the
  ids have, they appear in the request path as two segments without a separator, query or fragment,
  and two different pairs of ids never share a path.\<close>

theorem role_request_addresses_ids:
  assumes "removeRole env server userId roleId = Inr ()"
  shows "(\<exists>base h st bd.
            base_url env = Some base
          \<and> server \<lparr>rq_url = api_pathname env (base @ ''/users/'' @ encodeURIComponent userId @ ''/roles/''
                                @ encodeURIComponent roleId),
                    rq_method = ''DELETE'', rq_headers = h, rq_body = None\<rparr> = HttpResponse True st bd)
    \<and> list_all (\<lambda>c. c \<notin> set (encodeURIComponent userId) \<union> set (encodeURIComponent roleId)) ''/?#''
    \<and> (encodeURIComponent userId = encodeURIComponent other) = (userId = other)"
proof -
  obtain base h st bd where "base_url env = Some base"
    "server \<lparr>rq_url = api_pathname env (base @ ''/users/'' @ encodeURIComponent userId @ ''/roles/''
        @ encodeURIComponent roleId), rq_method = ''DELETE'', rq_headers = h, rq_body = None\<rparr>
      = HttpResponse True st bd"
    using assms by (auto simp: removeRole_def requestUserApi_def map_envelope_def request_api_def decode_answer_def
        api_url_def search_params_def query_string_def split: option.splits http_result.splits if_splits sum.splits)
  then show ?thesis using encodeURIComponent_segment encodeURIComponent_inject by auto
qed

definition sample_env :: api_env where
  "sample_env = \<lparr>api_config = DEFAULT_CONFIG,
     api_browser = \<lparr>local_area = open_area, session_area = open_area\<rparr>, api_pathname = id\<rparr>"

theorem role_request_addresses_ids_witness:
  "list_all (\<lambda>c. c \<notin> set (encodeURIComponent ''a/b?'') \<union> set (encodeURIComponent ''r#1'')) ''/?#''"
proof -
  have "removeRole sample_env (\<lambda>_. HttpResponse True 200 None) ''a/b?'' ''r#1'' = Inr ()" by code_simp
  from role_request_addresses_ids [OF this] show ?thesis by blast
qed

text \<open>The current user is obtained only from an authorized answer: when the session has a token the
  request carries it; the answer must be a success naming a user; and absent grant lists are empty,
  so that nothing is granted that the server did not send.\<close>

theorem current_user_authorized:
  assumes "fetchCurrentUser env server = Inr me" and "resolveAccessToken (api_browser env) \<noteq> []"
  shows "\<exists>u h st env' d.
      jm_get h ''Authorization'' = Some (''Bearer '' @ resolveAccessToken (api_browser env))
    \<and> server \<lparr>rq_url = u, rq_method = ''GET'', rq_headers = h, rq_body = None\<rparr> = HttpResponse True st (Some env')
    \<and> env_data env' = Some d \<and> gm_user d = Some (me_user me)
    \<and> set (me_permissions me) = set (nullish (gm_permissions d) [])
    \<and> set (me_capabilities me) = set (nullish (gm_capabilities d) [])"
proof -
  obtain e where e: "requestUserApi env server ''/me'' ''GET'' [] None = Inr e"
    using assms(1) unfolding fetchCurrentUser_def by (blast dest: map_envelope_Inr)
  with assms(1) obtain d where d: "env_data e = Some d" "gm_user d = Some (me_user me)"
    "me_permissions me = nullish (gm_permissions d) []" "me_capabilities me = nullish (gm_capabilities d) []"
    by (auto simp: fetchCurrentUser_def map_envelope_def split: option.splits)
  from e request_api_authorized [OF _ assms(2)] obtain u h st bd where
    h: "jm_get h ''Authorization'' = Some (''Bearer '' @ resolveAccessToken (api_browser env))"
    and sv: "server \<lparr>rq_url = u, rq_method = ''GET'', rq_headers = h, rq_body = None\<rparr> = HttpResponse True st bd"
    and bd: "e = nullish bd default_envelope"
    unfolding requestUserApi_def by blast
  from bd d(1) have "bd = Some e" by (cases bd) (simp_all add: default_envelope_def)
  with sv have "server \<lparr>rq_url = u, rq_method = ''GET'', rq_headers = h, rq_body = None\<rparr> = HttpResponse True st (Some e)"
    by (simp only:)
  then show ?thesis using d h
    by (intro exI [of _ u] exI [of _ h] exI [of _ st] exI [of _ e] exI [of _ d]) (simp only: simp_thms)
qed

definition sample_me :: get_me_payload where
  "sample_me = \<lparr>gm_user = Some plain_user, gm_roles = None, gm_permissions = Some [''logs:read''],
     gm_capabilities = None, gm_scopes = None, gm_entitlements = None, gm_feature_flags = None,
     gm_authz_epoch = None, gm_actor_flags = None\<rparr>"

definition sample_signed_in :: api_env where
  "sample_signed_in = sample_env\<lparr>api_browser := sample_browser\<rparr>"

theorem current_user_authorized_witness:
  "\<exists>h::(string, string) jsmap. jm_get h ''Authorization'' = Some (''Bearer '' @ ''old'')"
proof -
  let ?server = "\<lambda>_. HttpResponse True 200 (Some (default_envelope\<lparr>env_data := Some sample_me\<rparr>))"
  have t: "resolveAccessToken (api_browser sample_signed_in) = ''old''" by code_simp
  have "\<not> isl (fetchCurrentUser sample_signed_in ?server)" by code_simp
  then obtain me where "fetchCurrentUser sample_signed_in ?server = Inr me"
    by (cases "fetchCurrentUser sample_signed_in ?server") auto
  from current_user_authorized [OF this] t show ?thesis by auto
qed

end
