(* ===== verification/Auth_Store.thy ===== *)
theory Auth_Store
  imports User_Api
begin

text \<open>
  The session store (\<open>stores/authStore.ts\<close>): sign-in, sign-out, and the synchronisation of the
  authorization snapshot with the server. The synchronisation is asynchronous: a request is started,
  other operations may run, and its answer arrives later. The maps that keep track of it
  (\<open>inFlightAuthorizationSyncs\<close>, \<open>recentAuthorizationSyncAt\<close>) are part of the state, a promise is a
  number, and \<open>fetching\<close> lists the requests whose answer is still to come. The interleavings are the
  runs of the step relation \<open>auth_step\<close>. The write-through of the store to browser storage by the
  persist middleware of zustand is not modelled; \<open>Env\<close> steps let the storage change in any way.
\<close>

section \<open>State\<close>

datatype user_role = AdminRole | EditorRole | ViewerRole

record user =
  u_id :: string
  u_username :: string
  u_email :: string
  u_role :: user_role
  u_avatar :: "string option"

record auth_state = authorization_state +
  isAuthenticated :: bool
  user :: "user option"
  authzSourceToken :: "string option"
  isLoading :: bool

record auth_world =
  auth :: auth_state
  browser :: browser
  inFlight :: "(string, nat) jsmap"
  recent :: "(string, int) jsmap"
  fetching :: "(nat \<times> string) list"
  next_promise :: nat

definition AUTHORIZATION_SYNC_DEDUPE_WINDOW_MS :: int where
  "AUTHORIZATION_SYNC_DEDUPE_WINDOW_MS = 3000"

definition ALL_AUTHORIZATION_SCOPES :: "string list" where
  "ALL_AUTHORIZATION_SCOPES =
     [''system'', ''all_tenants'', ''tenant_group'', ''tenant'', ''owned'', ''resource'', ''self'']"

definition resetAuthorizationSyncTracking :: "auth_world \<Rightarrow> auth_world" where
  "resetAuthorizationSyncTracking w = w\<lparr>inFlight := [], recent := []\<rparr>"

definition with_snapshot :: "authorization_state \<Rightarrow> auth_state \<Rightarrow> auth_state" where
  "with_snapshot a s =
     s\<lparr>permissions := permissions a, capabilities := capabilities a, scopes := scopes a,
       entitlements := entitlements a, featureFlags := featureFlags a, authzEpoch := authzEpoch a,
       actorFlags := actorFlags a, authzReady := authzReady a\<rparr>"

definition initial_auth :: auth_state where
  "initial_auth =
     authorization_state.extend EMPTY_AUTHORIZATION_STATE
       \<lparr>isAuthenticated = False, user = None, authzSourceToken = None, isLoading = False\<rparr>"

section \<open>Operations\<close>

definition buildEmergencyAuthorizationSnapshot :: authorization_snapshot where
  "buildEmergencyAuthorizationSnapshot =
     \<lparr>permissions = [''*''], capabilities = [''*''], scopes = ALL_AUTHORIZATION_SCOPES, entitlements = [],
      featureFlags = [], authzEpoch = 0,
      actorFlags = normalizeActorFlags
        (Some [(''reserved'', False), (''interactive_login_allowed'', True), (''system_subject'', False)])\<rparr>"

definition login :: "user \<Rightarrow> auth_world \<Rightarrow> auth_world" where
  "login u w =
     w\<lparr>auth := (with_snapshot EMPTY_AUTHORIZATION_STATE (auth w))
         \<lparr>isAuthenticated := True, user := Some u, isLoading := False, authzSourceToken := None\<rparr>\<rparr>"

text \<open>Signing out; the outcome of revoking the session on the server (when that was asked for) is only
  logged.\<close>

definition logout :: "(api_error + bool) option \<Rightarrow> auth_world \<Rightarrow> auth_world" where
  "logout revoked w =
     (let w1 = resetAuthorizationSyncTracking w;
          w2 = w1\<lparr>browser := clearAuthStorage (browser w1)\<rparr>
      in w2\<lparr>auth := (with_snapshot EMPTY_AUTHORIZATION_STATE (auth w2))
              \<lparr>isAuthenticated := False, user := None, authzSourceToken := None\<rparr>\<rparr>)"

definition setLoading :: "bool \<Rightarrow> auth_world \<Rightarrow> auth_world" where
  "setLoading b w = w\<lparr>auth := (auth w)\<lparr>isLoading := b\<rparr>\<rparr>"

definition setPermissions :: "string list \<Rightarrow> auth_world \<Rightarrow> auth_world" where
  "setPermissions perms w =
     (let normalized = js_uniq (filter (\<lambda>p. p \<noteq> []) (map trim perms));
          token = resolveAccessToken (browser w);
          wild = ''*'' \<in> set normalized;
          s = auth w
      in w\<lparr>auth := s\<lparr>permissions := normalized,
             capabilities := (if wild then [''*''] else capabilities s),
             scopes := (if wild then ALL_AUTHORIZATION_SCOPES else scopes s),
             actorFlags := (if wild then normalizeActorFlags
                  (Some [(''reserved'', False), (''interactive_login_allowed'', True), (''system_subject'', False)])
                else actorFlags s),
             authzReady := True,
             authzSourceToken := (if token \<noteq> [] then Some token else authzSourceToken s)\<rparr>\<rparr>)"

text \<open>The token of a context is undefined, \<open>null\<close> or a string.\<close>

datatype context_token = TokenUndefined | TokenNull | Token string

record authorization_context =
  cx_permissions :: "string list option"
  cx_capabilities :: "string list option"
  cx_scopes :: "string list option"
  cx_entitlements :: "string list option"
  cx_featureFlags :: "string list option"
  cx_authzEpoch :: "int option"
  cx_actorFlags :: "actor_flags option"
  cx_sourceToken :: context_token

definition setAuthorizationContext :: "authorization_context \<Rightarrow> auth_world \<Rightarrow> auth_world" where
  "setAuthorizationContext cx w =
     (let token = (case cx_sourceToken cx of
                     TokenUndefined \<Rightarrow> resolveAccessToken (browser w)
                   | TokenNull \<Rightarrow> []
                   | Token t \<Rightarrow> t)
      in w\<lparr>auth := (auth w)
             \<lparr>permissions := nullish (cx_permissions cx) [],
              capabilities := nullish (cx_capabilities cx) [],
              scopes := nullish (cx_scopes cx) [],
              entitlements := nullish (cx_entitlements cx) [],
              featureFlags := nullish (cx_featureFlags cx) [],
              authzEpoch := nullish (cx_authzEpoch cx) 0,
              actorFlags := normalizeActorFlags (cx_actorFlags cx),
              authzReady := True,
              authzSourceToken := (if token = [] then None else Some token)\<rparr>\<rparr>)"

definition clearAuthorizationContext :: "auth_world \<Rightarrow> auth_world" where
  "clearAuthorizationContext w =
     w\<lparr>auth := (with_snapshot EMPTY_AUTHORIZATION_STATE (auth w))\<lparr>authzSourceToken := None\<rparr>\<rparr>"

definition context_of_snapshot :: "authorization_snapshot \<Rightarrow> string \<Rightarrow> authorization_context" where
  "context_of_snapshot a token =
     \<lparr>cx_permissions = Some (permissions a), cx_capabilities = Some (capabilities a),
      cx_scopes = Some (scopes a), cx_entitlements = Some (entitlements a),
      cx_featureFlags = Some (featureFlags a), cx_authzEpoch = Some (authzEpoch a),
      cx_actorFlags = Some (actorFlags a), cx_sourceToken = Token token\<rparr>"

definition context_of_me :: "get_me_response \<Rightarrow> string \<Rightarrow> authorization_context" where
  "context_of_me me token =
     \<lparr>cx_permissions = Some (me_permissions me), cx_capabilities = Some (me_capabilities me),
      cx_scopes = Some (me_scopes me), cx_entitlements = Some (me_entitlements me),
      cx_featureFlags = Some (me_feature_flags me), cx_authzEpoch = Some (me_authz_epoch me),
      cx_actorFlags = Some (me_actor_flags me), cx_sourceToken = Token token\<rparr>"

text \<open>What a call of \<open>syncAuthorizationContext\<close> returns: it is done, or the promise it waits for.\<close>

datatype sync_outcome = Settled | Joined nat | Started nat

definition syncAuthorizationContext :: "int \<Rightarrow> auth_world \<Rightarrow> auth_world \<times> sync_outcome" where
  "syncAuthorizationContext now w =
     (let token = resolveAccessToken (browser w)
      in if token = [] then (clearAuthorizationContext (resetAuthorizationSyncTracking w), Settled)
         else if isEmergencyAccessToken (Some token) then
           (setAuthorizationContext (context_of_snapshot buildEmergencyAuthorizationSnapshot token)
              (w\<lparr>recent := jm_set token now (recent w)\<rparr>), Settled)
         else (let lastSyncedAt = nullish (jm_get (recent w) token) 0
               in if lastSyncedAt > 0 \<and> now - lastSyncedAt < AUTHORIZATION_SYNC_DEDUPE_WINDOW_MS
                  then (w, Settled)
                  else case jm_get (inFlight w) token of
                         Some p \<Rightarrow> (w, Joined p)
                       | None \<Rightarrow>
                           (w\<lparr>inFlight := jm_set token (next_promise w) (inFlight w),
                              fetching := (next_promise w, token) # fetching w,
                              next_promise := Suc (next_promise w)\<rparr>,
                            Started (next_promise w))))"

text \<open>The answer to the request of promise \<open>p\<close>, started for \<open>token\<close>.\<close>

definition finish_sync ::
    "nat \<Rightarrow> string \<Rightarrow> api_error + get_me_response \<Rightarrow> int \<Rightarrow> auth_world \<Rightarrow> auth_world" where
  "finish_sync p token result now w =
     (let w1 = (case result of
                  Inr me \<Rightarrow>
                    setAuthorizationContext (context_of_me me token)
                      (w\<lparr>recent := jm_set token now (recent w)\<rparr>)
                | Inl _ \<Rightarrow>
                    clearAuthorizationContext (w\<lparr>recent := jm_delete token (recent w)\<rparr>));
          w2 = (if jm_get (inFlight w1) token = Some p
                then w1\<lparr>inFlight := jm_delete token (inFlight w1)\<rparr> else w1)
      in w2\<lparr>fetching := filter (\<lambda>f. fst f \<noteq> p) (fetching w2)\<rparr>)"

section \<open>Interleavings\<close>

inductive auth_step :: "auth_world \<Rightarrow> auth_world \<Rightarrow> bool" where
  Login: "auth_step w (login u w)"
| Logout: "auth_step w (logout revoked w)"
| SetLoading: "auth_step w (setLoading b w)"
| SetPermissions: "auth_step w (setPermissions perms w)"
| SetContext: "auth_step w (setAuthorizationContext cx w)"
| ClearContext: "auth_step w (clearAuthorizationContext w)"
| Sync: "auth_step w (fst (syncAuthorizationContext now w))"
| Finish: "(p, token) \<in> set (fetching w) \<Longrightarrow> auth_step w (finish_sync p token result now w)"
| Env: "auth_step w (w\<lparr>browser := b\<rparr>)"

definition initial_world :: "browser \<Rightarrow> auth_world" where
  "initial_world b =
     \<lparr>auth = initial_auth, browser = b, inFlight = [], recent = [], fetching = [], next_promise = 0\<rparr>"

inductive reachable :: "auth_world \<Rightarrow> bool" where
  Init: "reachable (initial_world b)"
| Step: "reachable w \<Longrightarrow> auth_step w w' \<Longrightarrow> reachable w'"

inductive_cases auth_stepE: "auth_step w w'"

section \<open>Invariants\<close>

text \<open>Before the authorization is ready the store grants nothing and has no source token.\<close>

definition grants_inv :: "auth_state \<Rightarrow> bool" where
  "grants_inv s \<longleftrightarrow>
     (authzReady s \<or> permissions s = [] \<and> capabilities s = [] \<and> scopes s = [] \<and> authzSourceToken s = None)"

text \<open>A tracked request is one that is still outstanding for the same token, and promises are unique.\<close>

definition tracking_inv :: "auth_world \<Rightarrow> bool" where
  "tracking_inv w \<longleftrightarrow>
     jm_wf (inFlight w)
     \<and> distinct (map fst (fetching w))
     \<and> (\<forall>f \<in> set (fetching w). fst f < next_promise w)
     \<and> (\<forall>t p. jm_get (inFlight w) t = Some p \<longrightarrow> (p, t) \<in> set (fetching w))"

lemmas auth_ops =
  login_def logout_def setLoading_def setPermissions_def setAuthorizationContext_def
  clearAuthorizationContext_def resetAuthorizationSyncTracking_def with_snapshot_def

lemma EMPTY_state_simps [simp]:
  "permissions EMPTY_AUTHORIZATION_STATE = []" "capabilities EMPTY_AUTHORIZATION_STATE = []"
  "scopes EMPTY_AUTHORIZATION_STATE = []" "entitlements EMPTY_AUTHORIZATION_STATE = []"
  "featureFlags EMPTY_AUTHORIZATION_STATE = []" "authzEpoch EMPTY_AUTHORIZATION_STATE = 0"
  "actorFlags EMPTY_AUTHORIZATION_STATE = DEFAULT_ACTOR_FLAGS"
  "\<not> authzReady EMPTY_AUTHORIZATION_STATE"
  by (simp_all add: EMPTY_AUTHORIZATION_STATE_def EMPTY_AUTHORIZATION_SNAPSHOT_def authorization_snapshot.defs)

lemma grants_inv_ops [inv_intros]:
  "grants_inv (auth (login u w))"
  "grants_inv (auth (logout r w))"
  "grants_inv (auth (setPermissions perms w))"
  "grants_inv (auth (setAuthorizationContext cx w))"
  "grants_inv (auth (clearAuthorizationContext w))"
  "grants_inv (auth w) \<Longrightarrow> grants_inv (auth (setLoading b w))"
  "grants_inv (auth w) \<Longrightarrow> grants_inv (auth (w\<lparr>browser := b'\<rparr>))"
  by (simp_all add: grants_inv_def auth_ops Let_def)

lemma grants_inv_sync [inv_intros]:
  "grants_inv (auth w) \<Longrightarrow> grants_inv (auth (fst (syncAuthorizationContext now w)))"
  by (auto simp: syncAuthorizationContext_def Let_def grants_inv_ops split: option.split)

lemma grants_inv_finish [inv_intros]: "grants_inv (auth (finish_sync p token result now w))"
  by (auto simp: finish_sync_def Let_def grants_inv_ops split: sum.split)

text \<open>The operations that leave the tracking alone or reset it.\<close>

lemma tracking_frame [simp]:
  "inFlight (setAuthorizationContext cx w) = inFlight w" "fetching (setAuthorizationContext cx w) = fetching w"
  "next_promise (setAuthorizationContext cx w) = next_promise w"
  "inFlight (clearAuthorizationContext w) = inFlight w" "fetching (clearAuthorizationContext w) = fetching w"
  "next_promise (clearAuthorizationContext w) = next_promise w"
  by (simp_all add: auth_ops Let_def)

lemma tracking_inv_ops [inv_intros]:
  "tracking_inv w \<Longrightarrow> tracking_inv (login u w)"
  "tracking_inv w \<Longrightarrow> tracking_inv (logout r w)"
  "tracking_inv w \<Longrightarrow> tracking_inv (setLoading b w)"
  "tracking_inv w \<Longrightarrow> tracking_inv (setPermissions perms w)"
  "tracking_inv w \<Longrightarrow> tracking_inv (setAuthorizationContext cx w)"
  "tracking_inv w \<Longrightarrow> tracking_inv (clearAuthorizationContext w)"
  "tracking_inv w \<Longrightarrow> tracking_inv (resetAuthorizationSyncTracking w)"
  "tracking_inv w \<Longrightarrow> tracking_inv (w\<lparr>browser := b'\<rparr>)"
  "tracking_inv w \<Longrightarrow> tracking_inv (w\<lparr>recent := m\<rparr>)"
  by (simp_all add: tracking_inv_def auth_ops Let_def)

lemma tracking_inv_start:
  "tracking_inv w \<Longrightarrow>
     tracking_inv (w\<lparr>inFlight := jm_set t (next_promise w) (inFlight w),
        fetching := (next_promise w, t) # fetching w, next_promise := Suc (next_promise w)\<rparr>)"
  by (fastforce simp: tracking_inv_def split: if_splits)

lemma tracking_inv_sync [inv_intros]:
  "tracking_inv w \<Longrightarrow> tracking_inv (fst (syncAuthorizationContext now w))"
  by (auto simp: syncAuthorizationContext_def Let_def tracking_inv_start
      intro!: tracking_inv_ops split: option.split)

lemma finish_sync_tracking:
  "inFlight (finish_sync p token result now w) =
     (if jm_get (inFlight w) token = Some p then jm_delete token (inFlight w) else inFlight w)"
  "fetching (finish_sync p token result now w) = filter (\<lambda>f. fst f \<noteq> p) (fetching w)"
  "next_promise (finish_sync p token result now w) = next_promise w"
  by (simp_all add: finish_sync_def Let_def split: sum.split)

lemma tracking_inv_finish [inv_intros]:
  assumes "tracking_inv w" and "(p, token) \<in> set (fetching w)"
  shows "tracking_inv (finish_sync p token result now w)"
proof -
  have only: "t = token" if "jm_get (inFlight w) t = Some p" for t
  proof -
    have "(p, t) \<in> set (fetching w)" using assms(1) that by (simp add: tracking_inv_def)
    with assms show ?thesis unfolding tracking_inv_def by (meson eq_key_imp_eq_value)
  qed
  let ?w = "finish_sync p token result now w"
  have "(q, t) \<in> set (fetching ?w)" if "jm_get (inFlight ?w) t = Some q" for t q
  proof -
    from that have a: "jm_get (inFlight w) t = Some q"
      by (simp add: finish_sync_tracking split: if_splits)
    have "q \<noteq> p"
    proof
      assume "q = p"
      with a have "t = token" by (intro only) simp
      with a \<open>q = p\<close> that show False by (simp add: finish_sync_tracking)
    qed
    with a show ?thesis using assms(1) by (simp add: finish_sync_tracking tracking_inv_def)
  qed
  then show ?thesis
    using assms(1) by (simp add: tracking_inv_def finish_sync_tracking distinct_map_filter)
qed

lemma reachable_inv: "reachable w \<Longrightarrow> grants_inv (auth w) \<and> tracking_inv w"
proof (induction rule: reachable.induct)
  case (Init b)
  show ?case
    by (simp add: initial_world_def grants_inv_def tracking_inv_def initial_auth_def authorization_state.defs)
next
  case (Step w w')
  from Step.hyps(2) Step.IH show ?case
    by (cases rule: auth_step.cases) (auto intro: inv_intros)
qed

section \<open>Properties\<close>

text \<open>C2: In every interleaving of the store's operations: while the authorization is not ready the store
  holds no grant and no source token; every tracked synchronisation is one whose answer is still to
  come, so a caller never joins a promise that cannot settle; and a synchronisation called while one
  for the same token is tracked starts no second request.\<close>

theorem auth_store_invariant:
  assumes "reachable w"
  shows "(authzReady (auth w) \<or> permissions (auth w) = [] \<and> capabilities (auth w) = []
            \<and> authzSourceToken (auth w) = None)
    \<and> (case snd (syncAuthorizationContext now w) of
         Joined p \<Rightarrow> (p, resolveAccessToken (browser w)) \<in> set (fetching w)
                     \<and> fetching (fst (syncAuthorizationContext now w)) = fetching w
       | Started p \<Rightarrow> jm_get (inFlight w) (resolveAccessToken (browser w)) = None
                     \<and> fetching (fst (syncAuthorizationContext now w))
                         = (p, resolveAccessToken (browser w)) # fetching w
       | Settled \<Rightarrow> fetching (fst (syncAuthorizationContext now w)) = fetching w)"
proof -
  have "grants_inv (auth w)" and "tracking_inv w" using reachable_inv [OF assms] by simp_all
  then show ?thesis
    by (auto simp: grants_inv_def tracking_inv_def syncAuthorizationContext_def Let_def auth_ops
        split: option.split)
qed

definition signed_in_world :: auth_world where
  "signed_in_world = (initial_world sample_browser)"

theorem auth_store_invariant_witness:
  "snd (syncAuthorizationContext 1000 (fst (syncAuthorizationContext 1000 signed_in_world))) = Joined 0
   \<and> (0, ''old'') \<in> set (fetching (fst (syncAuthorizationContext 1000 signed_in_world)))"
proof -
  let ?w = "fst (syncAuthorizationContext 1000 signed_in_world)"
  have r: "reachable ?w"
    unfolding signed_in_world_def by (rule reachable.Step [OF reachable.Init auth_step.Sync])
  have j: "snd (syncAuthorizationContext 1000 ?w) = Joined 0" by code_simp
  have t: "resolveAccessToken (browser ?w) = ''old''" by code_simp
  show ?thesis using auth_store_invariant [OF r, of 1000] j t by simp
qed

text \<open>C10: Signing out always cleans up, whether the server revoked the session, refused or could not be
  reached: nobody is signed in, nothing is granted, no token is left in either storage scope and no
  synchronisation is tracked. Signing in starts without grants.\<close>

theorem logout_cleans_up:
  "w' = logout revoked w \<Longrightarrow>
     \<not> isAuthenticated (auth w') \<and> user (auth w') = None
   \<and> permissions (auth w') = [] \<and> capabilities (auth w') = [] \<and> \<not> authzReady (auth w')
   \<and> getAuthStorageItem (browser w') ACCESS_TOKEN_KEY = None
   \<and> getAuthStorageItem (browser w') REFRESH_TOKEN_KEY = None
   \<and> inFlight w' = [] \<and> recent w' = []
   \<and> permissions (auth (login u w)) = [] \<and> capabilities (auth (login u w)) = []
   \<and> isAuthenticated (auth (login u w))"
  by (simp add: auth_ops Let_def getAuthStorageItem_def read_clearAuthStorage AUTH_SESSION_KEYS_def)

theorem logout_cleans_up_witness:
  "getAuthStorageItem (browser (logout (Some (Inl BrowserError)) signed_in_world)) ACCESS_TOKEN_KEY = None"
  using logout_cleans_up [OF refl, of "Some (Inl BrowserError)" signed_in_world] by blast

text \<open>A synchronisation that the server answers installs exactly the grants of the answer and the
  token it was made for; one that fails leaves no grants; either way its promise is no longer
  tracked, so the next call may start a new one.\<close>

theorem sync_installs_answer:
  assumes "reachable w" and "(p, token) \<in> set (fetching w)"
    and "w' = finish_sync p token result now w"
  shows "(case result of
            Inr me \<Rightarrow> permissions (auth w') = me_permissions me \<and> capabilities (auth w') = me_capabilities me
              \<and> authzReady (auth w')
              \<and> authzSourceToken (auth w') = (if token = [] then None else Some token)
              \<and> jm_get (recent w') token = Some now
          | Inl _ \<Rightarrow> permissions (auth w') = [] \<and> capabilities (auth w') = [] \<and> \<not> authzReady (auth w')
              \<and> jm_get (recent w') token = None)
    \<and> (\<forall>t. jm_get (inFlight w') t \<noteq> Some p)"
proof -
  have inv: "tracking_inv w" using reachable_inv [OF assms(1)] by simp
  then have "tracking_inv w'" using assms by (simp add: tracking_inv_finish)
  moreover have "p \<notin> fst ` set (fetching w')" by (auto simp: assms(3) finish_sync_def Let_def)
  ultimately have "\<forall>t. jm_get (inFlight w') t \<noteq> Some p"
    unfolding tracking_inv_def by (metis fst_conv image_eqI)
  then show ?thesis
    by (auto simp: assms(3) finish_sync_def Let_def setAuthorizationContext_def context_of_me_def
        clearAuthorizationContext_def with_snapshot_def split: sum.split)
qed

definition sample_me_response :: get_me_response where
  "sample_me_response =
     \<lparr>me_user = plain_user, me_roles = [], me_permissions = [''logs:read''], me_capabilities = [],
      me_scopes = [], me_entitlements = [], me_feature_flags = [], me_authz_epoch = 0,
      me_actor_flags = []\<rparr>"

theorem sync_installs_answer_witness:
  "permissions (auth (finish_sync 0 ''old'' (Inr sample_me_response) 2000
      (fst (syncAuthorizationContext 1000 signed_in_world)))) = [''logs:read'']"
proof -
  let ?w = "fst (syncAuthorizationContext 1000 signed_in_world)"
  have r: "reachable ?w"
    unfolding signed_in_world_def by (rule reachable.Step [OF reachable.Init auth_step.Sync])
  have f: "(0, ''old'') \<in> set (fetching ?w)" by code_simp
  show ?thesis
    using sync_installs_answer [OF r f refl, of "Inr sample_me_response" 2000]
    by (simp add: sample_me_response_def)
qed

text \<open>
  An answer that arrives after the sign-out is installed all the same: the store then holds the grants
  of the session that was left, and is marked ready, although nobody is signed in.
\<close>

lemma late_answer_restores_grants:
  "let w = fst (syncAuthorizationContext 1000 signed_in_world);
       w' = finish_sync 0 ''old'' (Inr sample_me_response) 2000 (logout None w)
   in permissions (auth w') = [''logs:read''] \<and> authzReady (auth w') \<and> \<not> isAuthenticated (auth w')"
  by code_simp

end
