(* ===== verification/Protected_Route.thy ===== *)
theory Protected_Route
  imports Auth_Store
begin

text \<open>
  The guard of every protected page (\<open>components/auth/ProtectedRoute.tsx\<close>): the validation of the
  stored token, its refresh, the effects the component runs, and the decision what is rendered. The
  session store and the browser storage are those of Auth_Store; the component's own state (the
  hooks \<open>useState\<close> and \<open>useRef\<close>) is \<open>route_state\<close>.
\<close>

section \<open>Token validation\<close>

definition TOKEN_EXPIRY_SKEW_MS :: int where "TOKEN_EXPIRY_SKEW_MS = 5000"

definition MAX_FRONTEND_TOKEN_TTL_SECONDS :: int where
  "MAX_FRONTEND_TOKEN_TTL_SECONDS = 6 * 60 * 60"

datatype token_reason = ReasonOk | MissingToken | MissingExpiry | InvalidExpiry | Expired

record token_validation =
  isValid :: bool
  reason :: token_reason

definition reason_name :: "token_reason \<Rightarrow> string" where
  "reason_name r =
     (case r of ReasonOk \<Rightarrow> ''ok'' | MissingToken \<Rightarrow> ''missing_token'' | MissingExpiry \<Rightarrow> ''missing_expiry''
      | InvalidExpiry \<Rightarrow> ''invalid_expiry'' | Expired \<Rightarrow> ''expired'')"

definition resolveTokenTtlSeconds :: "jsnum \<Rightarrow> int" where
  "resolveTokenTtlSeconds expiresIn =
     (let normalizedExpiresIn =
            (if isFinite expiresIn \<and> num_gt expiresIn 0 then \<lfloor>fin_val expiresIn\<rfloor>
             else MAX_FRONTEND_TOKEN_TTL_SECONDS)
      in min normalizedExpiresIn MAX_FRONTEND_TOKEN_TTL_SECONDS)"

definition getStoredExpiryMs :: "browser \<Rightarrow> jsnum option" where
  "getStoredExpiryMs b =
     (let raw = nullish (map_option trim (getAuthStorageItem b TOKEN_EXPIRES_AT_KEY)) []
      in if raw = [] then None
         else let parsed = js_Number raw
              in if \<not> isFinite parsed \<or> num_le parsed 0 then Some NaN else Some parsed)"

definition validateToken :: "browser \<Rightarrow> int \<Rightarrow> token_validation" where
  "validateToken b now =
     (if resolveAccessToken b = [] then \<lparr>isValid = False, reason = MissingToken\<rparr>
      else case getStoredExpiryMs b of
        None \<Rightarrow> \<lparr>isValid = False, reason = MissingExpiry\<rparr>
      | Some expiresAt \<Rightarrow>
          if \<not> isFinite expiresAt then \<lparr>isValid = False, reason = InvalidExpiry\<rparr>
          else if of_int (now + TOKEN_EXPIRY_SKEW_MS) \<ge> fin_val expiresAt
          then \<lparr>isValid = False, reason = Expired\<rparr>
          else \<lparr>isValid = True, reason = ReasonOk\<rparr>)"

section \<open>Refreshing the token\<close>

record refresh_data =
  rd_access_token :: "string option"
  rd_refresh_token :: "string option"
  rd_expires_in :: "jsnum option"

definition buildRefreshUrl :: "string \<Rightarrow> string" where
  "buildRefreshUrl base = base @ ''/auth/refresh''"

text \<open>The promise of \<open>refreshAccessToken\<close>: it resolves to true (with the new storage) or false, or is
  rejected when the tenant cannot be determined, which happens before the \<open>try\<close>.\<close>

datatype refresh_outcome = Refreshed browser | NotRefreshed | RefreshThrew

definition refresh_session :: "refresh_data http_result \<Rightarrow> int \<Rightarrow> auth_session option" where
  "refresh_session answer now =
     (case answer of
        NetworkFailure \<Rightarrow> None
      | HttpResponse ok _ body \<Rightarrow>
          (case (ok, Option.bind body env_data) of
             (True, Some d) \<Rightarrow>
               (case (nonempty (rd_access_token d), nonempty (rd_refresh_token d)) of
                  (Some a, Some r) \<Rightarrow>
                    Some \<lparr>accessToken = a, refreshToken = r,
                          expiresAtMs = now + resolveTokenTtlSeconds (nullish (rd_expires_in d) NaN) * 1000\<rparr>
                | _ \<Rightarrow> None)
           | _ \<Rightarrow> None))"

definition refreshAccessToken ::
    "api_env \<Rightarrow> refresh_data server \<Rightarrow> string \<Rightarrow> int \<Rightarrow> refresh_outcome" where
  "refreshAccessToken env server refresh now =
     (case resolveTenantId env of
        None \<Rightarrow> RefreshThrew
      | Some tenantId \<Rightarrow>
          (case base_url env of
             None \<Rightarrow> NotRefreshed
           | Some base \<Rightarrow>
               (case refresh_session
                  (server \<lparr>rq_url = buildRefreshUrl base, rq_method = ''POST'',
                           rq_headers = [(''Content-Type'', ''application/json'')]
                             @ (if tenantId \<noteq> [] then [(''X-Tenant-ID'', tenantId)] else []),
                           rq_body = Some (body_fields [(''refresh_token'', Some (JStr refresh))])\<rparr>) now of
                  None \<Rightarrow> NotRefreshed
                | Some s \<Rightarrow> Refreshed (persistRefreshedAuthSession s (api_browser env)))))"

section \<open>The component\<close>

text \<open>The validation is memoized: it is computed again only when \<open>nowMs\<close> changes, while the tokens are
  read from storage at every rendering.\<close>

record route_state =
  nowMs :: int
  memo :: token_validation
  isRefreshing :: bool
  isAuthorizing :: bool
  hasCleaned :: bool
  isMounted :: bool
  refreshAttemptKey :: string

definition setNowMs :: "int \<Rightarrow> browser \<Rightarrow> route_state \<Rightarrow> route_state" where
  "setNowMs now b st =
     (if nowMs st = now then st else st\<lparr>nowMs := now, memo := validateToken b now\<rparr>)"

definition stored_refresh_token :: "browser \<Rightarrow> string" where
  "stored_refresh_token b = nullish (map_option trim (getAuthStorageItem b REFRESH_TOKEN_KEY)) []"

definition shouldAttemptRefresh :: "auth_world \<Rightarrow> route_state \<Rightarrow> bool" where
  "shouldAttemptRefresh w st \<longleftrightarrow>
     isAuthenticated (auth w) \<and> \<not> isValid (memo st)
     \<and> stored_refresh_token (browser w) \<noteq> []"

definition requiresRedirect :: "auth_world \<Rightarrow> route_state \<Rightarrow> bool" where
  "requiresRedirect w st \<longleftrightarrow>
     \<not> isAuthenticated (auth w)
     \<or> (\<not> isValid (memo st) \<and> \<not> shouldAttemptRefresh w st \<and> \<not> isRefreshing st)"

definition needsAuthorizationSync :: "auth_world \<Rightarrow> route_state \<Rightarrow> bool" where
  "needsAuthorizationSync w st \<longleftrightarrow>
     isAuthenticated (auth w) \<and> isValid (memo st)
     \<and> resolveAccessToken (browser w) \<noteq> []
     \<and> authzSourceToken (auth w) \<noteq> Some (resolveAccessToken (browser w))"

datatype view = LoadingScreen | LoginRedirect | NavigateTo string | AccessDenied | ShowChildren

definition route_decision ::
    "(string \<Rightarrow> string \<Rightarrow> bool) \<Rightarrow> auth_state \<Rightarrow> string \<Rightarrow> route_access" where
  "route_decision mp s pathname =
     (if \<not> authzReady s then \<lparr>allowed = True, redirect = None\<rparr>
      else evaluateRouteAccess mp pathname s)"

definition render :: "(string \<Rightarrow> string \<Rightarrow> bool) \<Rightarrow> auth_world \<Rightarrow> route_state \<Rightarrow> string \<Rightarrow> view" where
  "render mp w st pathname =
     (let s = auth w;
          valid = isValid (memo st);
          pending = isAuthenticated s \<and> valid
            \<and> (needsAuthorizationSync w st \<or> isAuthorizing st \<or> \<not> authzReady s);
          access = route_decision mp s pathname
      in if isAuthenticated s \<and> \<not> valid \<and> (shouldAttemptRefresh w st \<or> isRefreshing st) then LoadingScreen
         else if pending then LoadingScreen
         else if requiresRedirect w st then LoginRedirect
         else if \<not> allowed access then
           (case redirect access of
              Some p \<Rightarrow> if p \<noteq> [] \<and> p \<noteq> pathname then NavigateTo p else AccessDenied
            | None \<Rightarrow> AccessDenied)
         else ShowChildren)"

section \<open>Effects\<close>

text \<open>The refresh effect; \<open>Some key\<close> is a request started for that attempt key.\<close>

definition refresh_effect :: "auth_world \<Rightarrow> route_state \<Rightarrow> route_state \<times> string option" where
  "refresh_effect w st =
     (let v = memo st
      in if \<not> shouldAttemptRefresh w st then
           (st\<lparr>refreshAttemptKey := [], isRefreshing := False,
               hasCleaned := (if isValid v then False else hasCleaned st)\<rparr>, None)
         else let key = reason_name (reason v) @ '':'' @ stored_refresh_token (browser w)
              in if refreshAttemptKey st = key then (st, None)
                 else (st\<lparr>refreshAttemptKey := key, isRefreshing := True\<rparr>, Some key))"

text \<open>The continuation of a refresh. Its request has replaced the browser's storage when it succeeded,
  whether or not the component still waits for it.\<close>

definition refresh_done ::
    "string \<Rightarrow> bool \<Rightarrow> int \<Rightarrow> auth_world \<Rightarrow> route_state \<Rightarrow> auth_world \<times> route_state" where
  "refresh_done key refreshed now w st =
     (if \<not> isMounted st \<or> refreshAttemptKey st \<noteq> key then (w, st)
      else let st1 = st\<lparr>refreshAttemptKey := [], isRefreshing := False\<rparr>
           in if refreshed then (w, setNowMs now (browser w) (st1\<lparr>hasCleaned := False\<rparr>))
              else (logout None (w\<lparr>browser := clearAuthStorage (browser w)\<rparr>), st1\<lparr>hasCleaned := True\<rparr>))"

definition cleanup_effect :: "auth_world \<Rightarrow> route_state \<Rightarrow> auth_world \<times> route_state" where
  "cleanup_effect w st =
     (let valid = isValid (memo st)
      in if valid \<or> isRefreshing st \<or> shouldAttemptRefresh w st then
           (w, st\<lparr>hasCleaned := (if valid then False else hasCleaned st)\<rparr>)
         else if hasCleaned st then (w, st)
         else let w1 = w\<lparr>browser := clearAuthStorage (browser w)\<rparr>
              in (if isAuthenticated (auth w) then logout None w1 else w1, st\<lparr>hasCleaned := True\<rparr>))"

definition authorization_effect :: "int \<Rightarrow> auth_world \<Rightarrow> route_state \<Rightarrow> auth_world \<times> route_state" where
  "authorization_effect now w st =
     (if \<not> needsAuthorizationSync w st then (w, st\<lparr>isAuthorizing := False\<rparr>)
      else (fst (syncAuthorizationContext now w), st\<lparr>isAuthorizing := True\<rparr>))"

text \<open>The synchronisation the effect waits for has settled; \<open>cancelled\<close> when the effect was replaced.\<close>

definition authorization_settled ::
    "bool \<Rightarrow> bool \<Rightarrow> auth_world \<Rightarrow> route_state \<Rightarrow> auth_world \<times> route_state" where
  "authorization_settled failed cancelled w st =
     (let (w1, st1) =
            (if failed \<and> \<not> (cancelled \<or> hasCleaned st)
             then (logout None (w\<lparr>browser := clearAuthStorage (browser w)\<rparr>), st\<lparr>hasCleaned := True\<rparr>)
             else (w, st))
      in (w1, if \<not> cancelled \<and> isMounted st1 then st1\<lparr>isAuthorizing := False\<rparr> else st1))"

section \<open>Lemmas\<close>

lemma resolveTokenTtlSeconds_bounds:
  "0 \<le> resolveTokenTtlSeconds e" "resolveTokenTtlSeconds e \<le> 21600"
  by (cases e; simp add: resolveTokenTtlSeconds_def MAX_FRONTEND_TOKEN_TTL_SECONDS_def Let_def)+

lemma validateToken_token: "isValid (validateToken b now) \<Longrightarrow> resolveAccessToken b \<noteq> []"
  by (auto simp: validateToken_def split: if_splits)

lemma validateToken_expiry:
  "isValid (validateToken b now) \<Longrightarrow>
     resolveAccessToken b \<noteq> [] \<and> (\<exists>e. getStoredExpiryMs b = Some (Fin e) \<and> of_int (now + 5000) < e)"
proof -
  assume v: "isValid (validateToken b now)"
  then obtain x where x: "getStoredExpiryMs b = Some x" and "isFinite x"
      and l: "\<not> fin_val x \<le> of_int (now + TOKEN_EXPIRY_SKEW_MS)"
    by (auto simp: validateToken_def split: option.splits if_splits)
  then obtain e where "x = Fin e" by (cases x) simp_all
  with x l validateToken_token [OF v] show ?thesis by (simp add: TOKEN_EXPIRY_SKEW_MS_def not_le)
qed

lemma validateToken_reason: "isValid (validateToken b now) \<longleftrightarrow> reason (validateToken b now) = ReasonOk"
  by (auto simp: validateToken_def split: option.splits)

lemma validateToken_antimono:
  "isValid (validateToken b now) \<Longrightarrow> t \<le> now \<Longrightarrow> isValid (validateToken b t)"
proof -
  assume v: "isValid (validateToken b now)" and "t \<le> now"
  then have "(of_int (t + TOKEN_EXPIRY_SKEW_MS) :: rat) \<le> of_int (now + TOKEN_EXPIRY_SKEW_MS)" by simp
  with v show ?thesis by (auto simp: validateToken_def split: option.splits if_splits)
qed

lemma validate_after_tokens:
  assumes "writable s b" and "trim (accessToken p) \<noteq> []" and "0 < expiresAtMs p"
  shows "isValid (validateToken (writeAuthSessionTokens s p b) now) \<longleftrightarrow> now + 5000 < expiresAtMs p"
proof -
  have "resolveAccessToken (writeAuthSessionTokens s p b) = trim (accessToken p)"
    using assms(1) by (simp add: resolveAccessToken_def getAuthStorageItem_after_tokens session_value_def)
  moreover have "getStoredExpiryMs (writeAuthSessionTokens s p b) = Some (Fin (of_int (expiresAtMs p)))"
    using assms by (simp add: getStoredExpiryMs_def getAuthStorageItem_after_tokens session_value_def
        js_Number_int Let_def)
  moreover have "(of_int (expiresAtMs p) \<le> (of_int (now + TOKEN_EXPIRY_SKEW_MS) :: rat))
      = (expiresAtMs p \<le> now + 5000)"
    by (simp only: of_int_le_iff TOKEN_EXPIRY_SKEW_MS_def)
  ultimately show ?thesis using assms(2) by (auto simp: validateToken_def)
qed

lemma validate_cleared: "\<not> isValid (validateToken (clearAuthStorage b) now)"
  by (simp add: validateToken_def resolveAccessToken_def getAuthStorageItem_def read_clearAuthStorage
      AUTH_SESSION_KEYS_def)

lemma logout_not_authenticated [simp]: "\<not> isAuthenticated (auth (logout r w))"
  by (simp add: logout_def Let_def)

lemma render_logged_out: "\<not> isAuthenticated (auth w) \<Longrightarrow> render mp w st p = LoginRedirect"
  by (simp add: render_def requiresRedirect_def Let_def)

text \<open>Everything the guard waits for has happened.\<close>

definition settled :: "auth_world \<Rightarrow> route_state \<Rightarrow> bool" where
  "settled w st \<longleftrightarrow>
     isAuthenticated (auth w) \<and> isValid (memo st)
     \<and> \<not> needsAuthorizationSync w st \<and> \<not> isAuthorizing st \<and> authzReady (auth w)"

lemma render_settled:
  "settled w st \<Longrightarrow> render mp w st pathname =
     (let access = evaluateRouteAccess mp pathname (auth w)
      in if allowed access then ShowChildren
         else (case redirect access of
                 Some p \<Rightarrow> if p \<noteq> [] \<and> p \<noteq> pathname then NavigateTo p else AccessDenied
               | None \<Rightarrow> AccessDenied))"
  by (simp add: render_def settled_def requiresRedirect_def route_decision_def Let_def)

lemma render_unsettled:
  assumes "\<not> settled w st"
  shows "render mp w st pathname \<in> {LoadingScreen, LoginRedirect}"
proof (cases "isAuthenticated (auth w)")
  case False
  then show ?thesis by (simp add: render_logged_out)
next
  case True
  show ?thesis
  proof (cases "isValid (memo st)")
    case valid: True
    with True assms have "needsAuthorizationSync w st \<or> isAuthorizing st \<or> \<not> authzReady (auth w)"
      by (simp add: settled_def)
    with True valid have "render mp w st pathname = LoadingScreen"
      unfolding render_def Let_def by (simp only: simp_thms if_True if_False if_cancel)
    then show ?thesis by simp
  next
    case invalid: False
    show ?thesis
    proof (cases "shouldAttemptRefresh w st \<or> isRefreshing st")
      case refreshing: True
      with True invalid have "render mp w st pathname = LoadingScreen"
        unfolding render_def Let_def by (simp only: simp_thms if_True)
      then show ?thesis by simp
    next
      case False
      then have "requiresRedirect w st" using invalid by (simp add: requiresRedirect_def)
      with False invalid True have "render mp w st pathname = LoginRedirect"
        unfolding render_def Let_def by (simp only: simp_thms if_True if_False de_Morgan_disj)
      then show ?thesis by simp
    qed
  qed
qed

section \<open>The guard in time\<close>

text \<open>The guard together with the rest of the program and a clock in milliseconds. Time passes between the events only, and
  the timer of the guard fires every five seconds: \<open>gd_last_tick\<close> is when it last did, or was started. \<open>gd_checked\<close> is the
  storage as it was when the token was last checked.\<close>

record guard =
  gd_clock :: int
  gd_last_tick :: int
  gd_checked :: browser
  gd_world :: auth_world
  gd_route :: route_state

definition VALIDATION_INTERVAL_MS :: int where "VALIDATION_INTERVAL_MS = 5000"

definition first_route_state :: "browser \<Rightarrow> int \<Rightarrow> route_state" where
  "first_route_state b now =
     \<lparr>nowMs = now, memo = validateToken b now, isRefreshing = False, isAuthorizing = False, hasCleaned = False, isMounted = True,
      refreshAttemptKey = []\<rparr>"

definition open_guard :: "auth_world \<Rightarrow> int \<Rightarrow> guard" where
  "open_guard w now =
     \<lparr>gd_clock = now, gd_last_tick = now, gd_checked = browser w, gd_world = w, gd_route = first_route_state (browser w) now\<rparr>"

definition guard_wait :: "int \<Rightarrow> guard \<Rightarrow> guard" where
  "guard_wait d g = g\<lparr>gd_clock := gd_clock g + d\<rparr>"

text \<open>A new state of the component; the token has been checked if the time it is checked for is another one.\<close>

definition guard_now :: "auth_world \<Rightarrow> route_state \<Rightarrow> guard \<Rightarrow> guard" where
  "guard_now w st g =
     g\<lparr>gd_world := w, gd_route := st, gd_checked := (if nowMs st = nowMs (gd_route g) then gd_checked g else browser w)\<rparr>"

definition guard_tick :: "guard \<Rightarrow> guard" where
  "guard_tick g =
     (guard_now (gd_world g) (setNowMs (gd_clock g) (browser (gd_world g)) (gd_route g)) g)\<lparr>gd_last_tick := gd_clock g\<rparr>"

inductive guard_run :: "(string \<Rightarrow> string \<Rightarrow> bool) \<Rightarrow> guard \<Rightarrow> bool" for mp where
  guard_opened: "guard_run mp (open_guard w now)"
| guard_waited: "guard_run mp g \<Longrightarrow> 0 \<le> d \<Longrightarrow> gd_clock g + d \<le> gd_last_tick g + VALIDATION_INTERVAL_MS \<Longrightarrow> guard_run mp (guard_wait d g)"
| guard_ticked: "guard_run mp g \<Longrightarrow> gd_clock g = gd_last_tick g + VALIDATION_INTERVAL_MS \<Longrightarrow> guard_run mp (guard_tick g)"
| world_changed: "guard_run mp g \<Longrightarrow> guard_run mp (guard_now w (gd_route g) g)"
| refresh_started: "guard_run mp g \<Longrightarrow> guard_run mp (guard_now (gd_world g) (fst (refresh_effect (gd_world g) (gd_route g))) g)"
| refresh_ended: "guard_run mp g \<Longrightarrow> refresh_done key refreshed (gd_clock g) (gd_world g) (gd_route g) = (w, st) \<Longrightarrow> guard_run mp (guard_now w st g)"
| session_cleaned: "guard_run mp g \<Longrightarrow> cleanup_effect (gd_world g) (gd_route g) = (w, st) \<Longrightarrow> guard_run mp (guard_now w st g)"
| authorization_started: "guard_run mp g \<Longrightarrow> authorization_effect (gd_clock g) (gd_world g) (gd_route g) = (w, st)
    \<Longrightarrow> guard_run mp (guard_now w st g)"
| authorization_ended: "guard_run mp g \<Longrightarrow> authorization_settled failed cancelled (gd_world g) (gd_route g) = (w, st)
    \<Longrightarrow> guard_run mp (guard_now w st g)"

definition guard_ok :: "guard \<Rightarrow> bool" where
  "guard_ok g \<longleftrightarrow>
     memo (gd_route g) = validateToken (gd_checked g) (nowMs (gd_route g))
     \<and> gd_last_tick g \<le> nowMs (gd_route g) \<and> nowMs (gd_route g) \<le> gd_clock g \<and> gd_clock g \<le> gd_last_tick g + 5000"

text \<open>A step that leaves the check alone keeps it.\<close>

lemma guard_ok_same:
  "guard_ok g \<Longrightarrow> nowMs st = nowMs (gd_route g) \<Longrightarrow> memo st = memo (gd_route g) \<Longrightarrow> guard_ok (guard_now w st g)"
  by (simp add: guard_ok_def guard_now_def)

text \<open>A step that checks the token at the present time keeps it.\<close>

lemma guard_ok_checked:
  "guard_ok g \<Longrightarrow> nowMs st = nowMs (gd_route g) \<Longrightarrow> memo st = memo (gd_route g)
   \<Longrightarrow> guard_ok (guard_now w (setNowMs (gd_clock g) (browser w) st) g)"
  by (auto simp: guard_ok_def guard_now_def setNowMs_def)

lemma effect_keeps_check:
  "nowMs (fst (refresh_effect w st)) = nowMs st" "memo (fst (refresh_effect w st)) = memo st"
  "nowMs (snd (cleanup_effect w st)) = nowMs st" "memo (snd (cleanup_effect w st)) = memo st"
  "nowMs (snd (authorization_effect now w st)) = nowMs st" "memo (snd (authorization_effect now w st)) = memo st"
  "nowMs (snd (authorization_settled failed cancelled w st)) = nowMs st"
  "memo (snd (authorization_settled failed cancelled w st)) = memo st"
  by (simp_all add: refresh_effect_def cleanup_effect_def authorization_effect_def authorization_settled_def Let_def)

lemma guard_run_ok: "guard_run mp g \<Longrightarrow> guard_ok g"
proof (induction rule: guard_run.induct)
  case (guard_ticked g)
  have "guard_ok (guard_now (gd_world g) (setNowMs (gd_clock g) (browser (gd_world g)) (gd_route g)) g)"
    using guard_ticked.IH by (rule guard_ok_checked) simp_all
  then show ?case by (auto simp: guard_ok_def guard_tick_def guard_now_def setNowMs_def)
next
  case (refresh_ended g key refreshed w st)
  let ?r = "gd_route g"
  have "w = gd_world g \<and> st = ?r
      \<or> w = gd_world g \<and> (\<exists>r. nowMs r = nowMs ?r \<and> memo r = memo ?r \<and> st = setNowMs (gd_clock g) (browser w) r)
      \<or> nowMs st = nowMs ?r \<and> memo st = memo ?r"
  proof (cases "\<not> isMounted ?r \<or> refreshAttemptKey ?r \<noteq> key \<or> \<not> refreshed")
    case True
    then show ?thesis using refresh_ended.hyps(2) by (auto simp: refresh_done_def Let_def split: if_splits)
  next
    case False
    then show ?thesis using refresh_ended.hyps(2)
      by (intro disjI2 disjI1 conjI exI [of _ "?r\<lparr>refreshAttemptKey := [], isRefreshing := False, hasCleaned := False\<rparr>"])
        (auto simp: refresh_done_def Let_def)
  qed
  then show ?case using refresh_ended.IH by (auto intro: guard_ok_same guard_ok_checked)
next
  case (session_cleaned g w st)
  then show ?case using effect_keeps_check(3,4) by (metis guard_ok_same snd_conv)
next
  case (authorization_started g w st)
  then show ?case using effect_keeps_check(5,6) by (metis guard_ok_same snd_conv)
next
  case (authorization_ended g failed cancelled w st)
  then show ?case using effect_keeps_check(7,8) by (metis guard_ok_same snd_conv)
next
  case (guard_waited g d)
  then show ?case by (simp add: guard_ok_def guard_wait_def VALIDATION_INTERVAL_MS_def)
qed (auto simp: effect_keeps_check intro!: guard_ok_same,
     simp_all add: guard_ok_def open_guard_def first_route_state_def)

section \<open>Properties\<close>

text \<open>C1: A protected page is only shown to a session that is signed in, whose authorization snapshot is complete,
  grants the page and was obtained for the token now stored (if there still is one). The token was valid when it was last
  checked, at most five seconds ago, and by the expiry stored at that check it has not expired now. The timer is taken to
  fire on time.\<close>

theorem children_only_when_authorized:
  assumes "guard_run mp g" and "render mp (gd_world g) (gd_route g) pathname = ShowChildren"
  shows "isAuthenticated (auth (gd_world g)) \<and> authzReady (auth (gd_world g))
    \<and> (resolveAccessToken (browser (gd_world g)) = []
       \<or> authzSourceToken (auth (gd_world g)) = Some (resolveAccessToken (browser (gd_world g))))
    \<and> canAccessRoute mp pathname (auth (gd_world g))
    \<and> isValid (validateToken (gd_checked g) (nowMs (gd_route g)))
    \<and> nowMs (gd_route g) \<le> gd_clock g \<and> gd_clock g \<le> nowMs (gd_route g) + 5000
    \<and> resolveAccessToken (gd_checked g) \<noteq> []
    \<and> (\<exists>e. getStoredExpiryMs (gd_checked g) = Some (Fin e) \<and> of_int (gd_clock g) < e)"
proof -
  let ?w = "gd_world g" and ?st = "gd_route g"
  have st: "settled ?w ?st" using assms(2) render_unsettled [of ?w ?st mp pathname] by auto
  with assms(2) have "canAccessRoute mp pathname (auth ?w)"
    by (auto simp: render_settled Let_def evaluateRouteAccess_allowed split: if_splits option.splits)
  moreover have ok: "guard_ok g" using assms(1) by (rule guard_run_ok)
  moreover have valid: "isValid (validateToken (gd_checked g) (nowMs ?st))"
    using st ok by (simp add: settled_def guard_ok_def)
  moreover obtain e where "getStoredExpiryMs (gd_checked g) = Some (Fin e)" "of_int (nowMs ?st + 5000) < e"
    "resolveAccessToken (gd_checked g) \<noteq> []"
    using validateToken_expiry [OF valid] by blast
  moreover have "(of_int (gd_clock g) :: rat) \<le> of_int (nowMs ?st + 5000)" using ok by (simp only: of_int_le_iff) (simp add: guard_ok_def)
  ultimately show ?thesis using st by (auto simp: settled_def needsAuthorizationSync_def guard_ok_def intro: le_less_trans)
qed

definition guarded_world :: auth_world where
  "guarded_world =
     (let b = persistAuthSession \<lparr>accessToken = ''tok'', refreshToken = ''ref'', expiresAtMs = 100000\<rparr> True
                \<lparr>local_area = open_area, session_area = open_area\<rparr>
      in setPermissions [''logs:read'']
           (login \<lparr>u_id = ''1'', u_username = ''a'', u_email = [], u_role = ViewerRole, u_avatar = None\<rparr>
              (initial_world b)))"


theorem children_only_when_authorized_witness:
  "let g = guard_tick (guard_wait 5000 (open_guard guarded_world 0))
   in render (=) (gd_world g) (gd_route g) ''/search/realtime'' = ShowChildren
      \<and> canAccessRoute (=) ''/search/realtime'' (auth (gd_world g)) \<and> nowMs (gd_route g) = 5000"
proof -
  let ?g = "guard_tick (guard_wait 5000 (open_guard guarded_world 0))"
  have run: "guard_run (=) ?g"
    by (intro guard_ticked guard_waited guard_opened) (simp_all add: open_guard_def guard_wait_def VALIDATION_INTERVAL_MS_def)
  have shown: "render (=) (gd_world ?g) (gd_route ?g) ''/search/realtime'' = ShowChildren" by code_simp
  from children_only_when_authorized [OF run shown] shown show ?thesis
    by (simp add: guard_tick_def guard_now_def guard_wait_def open_guard_def first_route_state_def setNowMs_def Let_def)
qed

text \<open>A refused page sends the session only to a page it may open and never to the page itself, so the
  redirection ends; and whoever is not signed in is sent to the login page.\<close>

theorem refused_page_redirects:
  "(case render mp w st pathname of
      NavigateTo p \<Rightarrow> p \<noteq> pathname \<and> canAccessRoute mp p (auth w)
        \<and> \<not> canAccessRoute mp pathname (auth w)
        \<and> (case render mp w st p of ShowChildren \<Rightarrow> True | _ \<Rightarrow> False)
    | AccessDenied \<Rightarrow> isAuthenticated (auth w) \<and> \<not> canAccessRoute mp pathname (auth w)
    | _ \<Rightarrow> True)
   \<and> (isAuthenticated (auth w) \<or> render mp w st pathname = LoginRedirect)"
proof (cases "settled w st")
  case False
  then have "render mp w st pathname \<in> {LoadingScreen, LoginRedirect}" by (rule render_unsettled)
  then show ?thesis using render_logged_out by auto
next
  case True
  then have ready: "isAuthenticated (auth w)" by (simp add: settled_def)
  have onward: "canAccessRoute mp p (auth w) \<Longrightarrow> render mp w st p = ShowChildren" for p
    using True by (simp add: render_settled evaluateRouteAccess_allowed)
  show ?thesis
  proof (cases "canAccessRoute mp pathname (auth w)")
    case True
    then show ?thesis using onward ready by simp
  next
    case refused: False
    then have na: "\<not> allowed (evaluateRouteAccess mp pathname (auth w))"
      by (simp add: evaluateRouteAccess_allowed)
    have r: "render mp w st pathname = (case redirect (evaluateRouteAccess mp pathname (auth w)) of
        Some p \<Rightarrow> if p \<noteq> [] \<and> p \<noteq> pathname then NavigateTo p else AccessDenied | None \<Rightarrow> AccessDenied)"
      using na by (simp add: render_settled [OF \<open>settled w st\<close>])
    show ?thesis
    proof (cases "redirect (evaluateRouteAccess mp pathname (auth w))")
      case None
      with r ready refused show ?thesis by simp
    next
      case (Some p)
      then have "canAccessRoute mp p (auth w)" by (rule evaluateRouteAccess_redirect)
      with Some r ready refused onward show ?thesis by simp
    qed
  qed
qed

text \<open>A refreshed token is accepted until five seconds before the expiry the server set, never longer
  than six hours after the refresh, in the scope the session was in.\<close>

theorem refreshed_token_valid_until:
  assumes "refreshAccessToken env server refresh now = Refreshed b'" and "0 < now"
    and "writable (resolveAuthStorageScope (api_browser env)) (api_browser env)"
    and "resolveAccessToken b' \<noteq> []"
  shows "\<exists>ttl. 0 \<le> ttl \<and> ttl \<le> 21600
    \<and> (\<forall>t. isValid (validateToken b' t) = (t + 5000 < now + ttl * 1000))
    \<and> resolveAuthStorageScope b' = resolveAuthStorageScope (api_browser env)"
proof -
  let ?s = "resolveAuthStorageScope (api_browser env)"
  obtain s a where s: "refresh_session a now = Some s" and b': "b' = writeAuthSessionTokens ?s s (api_browser env)"
    using assms(1) by (auto simp: refreshAccessToken_def persistRefreshedAuthSession_def split: option.splits)
  from s obtain e where e: "expiresAtMs s = now + resolveTokenTtlSeconds e * 1000"
    by (auto simp: refresh_session_def split: http_result.splits option.splits bool.splits)
  have "trim (accessToken s) \<noteq> []"
    using assms(3,4) b' by (simp add: resolveAccessToken_def getAuthStorageItem_after_tokens session_value_def)
  moreover have "0 < expiresAtMs s" using e assms(2) resolveTokenTtlSeconds_bounds(1) [of e] by linarith
  ultimately have "\<forall>t. isValid (validateToken b' t) = (t + 5000 < expiresAtMs s)"
    using validate_after_tokens [OF assms(3)] b' by simp
  with e resolveTokenTtlSeconds_bounds [of e] b' assms(3) show ?thesis
    by (auto simp: resolve_after_tokens)
qed

definition refresh_answer :: "refresh_data server" where
  "refresh_answer = (\<lambda>_. HttpResponse True 200 (Some (default_envelope
     \<lparr>env_data := Some \<lparr>rd_access_token = Some ''new'', rd_refresh_token = Some ''next'',
                        rd_expires_in = Some (Fin 99999)\<rparr>\<rparr>)))"

theorem refreshed_token_valid_until_witness:
  "\<exists>b' (ttl::int). refreshAccessToken sample_signed_in refresh_answer ''ref'' 1000 = Refreshed b'
     \<and> ttl \<le> 21600 \<and> isValid (validateToken b' 2000) = (2000 + 5000 < 1000 + ttl * 1000)"
proof -
  have "(case refreshAccessToken sample_signed_in refresh_answer ''ref'' 1000 of
           Refreshed _ \<Rightarrow> True | _ \<Rightarrow> False)" by code_simp
  then obtain b' where b': "refreshAccessToken sample_signed_in refresh_answer ''ref'' 1000 = Refreshed b'"
    by (auto split: refresh_outcome.splits)
  have sc: "resolveAuthStorageScope (api_browser sample_signed_in) = Session" by code_simp
  have w: "writable (resolveAuthStorageScope (api_browser sample_signed_in)) (api_browser sample_signed_in)"
    unfolding sc by (simp add: writable_def getStorage_def sample_signed_in_def sample_browser_def open_area_def)
  have n: "resolveAccessToken b' \<noteq> []"
  proof -
    have "(case refreshAccessToken sample_signed_in refresh_answer ''ref'' 1000 of
             Refreshed b \<Rightarrow> resolveAccessToken b | _ \<Rightarrow> []) = ''new''" by code_simp
    with b' show ?thesis by simp
  qed
  have "(0::int) < 1000" by simp
  from refreshed_token_valid_until [OF b' this w n] b' show ?thesis by blast
qed



text \<open>A refresh that is rejected has no continuation: the attempt stays registered, no further one is made for it, and the
  guard goes on showing that it loads, as long as the reason and the token to refresh with stay the same.\<close>

lemma rejected_refresh_waits_for_ever:
  assumes "isAuthenticated (auth w)" "\<not> isValid (memo st)" "stored_refresh_token (browser w) \<noteq> []"
    and "refreshAttemptKey st = reason_name (reason (memo st)) @ '':'' @ stored_refresh_token (browser w)"
  shows "refresh_effect w st = (st, None) \<and> render mp w st pathname = LoadingScreen"
  using assms by (simp add: refresh_effect_def render_def shouldAttemptRefresh_def)

end
