(* ===== verification/Bff.thy ===== *)
theory Bff
  imports Json
begin

text \<open>
  The backend for the frontend (\<open>src/apps/bff-service/src\<close>): its configuration from the environment,
  the bounded cache, the probes of the upstream services and the overview built from them. What an
  upstream answers, the times and the environment are arguments. \<open>getOrSet\<close> awaits its loader, so
  that calls overlap; its two halves are two operations, and a step relation interleaves them.
\<close>

section \<open>Configuration\<close>

record bff_config =
  controlPlaneBaseUrl :: string
  apiServiceBaseUrl :: string
  dataQueryBaseUrl :: string
  dataAuditBaseUrl :: string
  dataExportBaseUrl :: string
  requestTimeoutMs :: rat
  cacheTtlMs :: rat

definition parseNumber :: "(string \<Rightarrow> string option) \<Rightarrow> string \<Rightarrow> rat \<Rightarrow> rat" where
  "parseNumber env name fallback =
     (let raw = nullish (env name) []
      in if raw = [] then fallback
         else let parsed = js_Number raw
              in if isFinite parsed \<and> num_gt parsed 0 then fin_val parsed else fallback)"

definition bff_runtime_config :: "(string \<Rightarrow> string option) \<Rightarrow> bff_config" where
  "bff_runtime_config env =
     \<lparr>controlPlaneBaseUrl = nullish (env ''CONTROL_PLANE_BASE_URL'') ''http://control-plane:8080'',
      apiServiceBaseUrl = nullish (env ''API_SERVICE_BASE_URL'') ''http://api-service:8080'',
      dataQueryBaseUrl = nullish (env ''DATA_QUERY_BASE_URL'') ''http://query-api:8082'',
      dataAuditBaseUrl = nullish (env ''DATA_AUDIT_BASE_URL'') ''http://audit-api:8083'',
      dataExportBaseUrl = nullish (env ''DATA_EXPORT_BASE_URL'') ''http://export-api:8084'',
      requestTimeoutMs = parseNumber env ''BFF_REQUEST_TIMEOUT_MS'' 2500,
      cacheTtlMs = parseNumber env ''BFF_CACHE_TTL_MS'' 10000\<rparr>"

section \<open>The cache\<close>

record 'v cache_entry =
  ce_value :: 'v
  ce_expiresAt :: rat

type_synonym 'v cache = "(string, 'v cache_entry) jsmap"

record 'v cache_result =
  cr_value :: 'v
  cacheHit :: bool

definition maxEntries :: nat where "maxEntries = 1000"

definition evictIfNeeded :: "'v cache \<Rightarrow> 'v cache" where
  "evictIfNeeded store =
     (if length store \<le> maxEntries then store
      else case jm_keys store of [] \<Rightarrow> store | first # _ \<Rightarrow> jm_delete first store)"

text \<open>\<open>getOrSet\<close> up to the loader: a hit, or the key and the expiry the loaded value will get.\<close>

definition cache_lookup :: "'v cache \<Rightarrow> string \<Rightarrow> bool \<Rightarrow> rat \<Rightarrow> 'v option" where
  "cache_lookup store key forceRefresh now =
     (case jm_get store key of
        Some e \<Rightarrow> if \<not> forceRefresh \<and> ce_expiresAt e > now then Some (ce_value e) else None
      | None \<Rightarrow> None)"

text \<open>\<open>getOrSet\<close> after the loader resolved.\<close>

definition cache_store :: "string \<Rightarrow> 'v \<Rightarrow> rat \<Rightarrow> 'v cache \<Rightarrow> 'v cache" where
  "cache_store key v expires store =
     evictIfNeeded (jm_set key \<lparr>ce_value = v, ce_expiresAt = expires\<rparr> store)"

text \<open>A call whose loader does not overlap with another call; a loader that rejects leaves the cache
  as it is.\<close>

definition getOrSet ::
    "string \<Rightarrow> rat \<Rightarrow> 'v option \<Rightarrow> bool \<Rightarrow> rat \<Rightarrow> 'v cache \<Rightarrow> 'v cache_result option \<times> 'v cache" where
  "getOrSet key ttlMs loaded forceRefresh now store =
     (case cache_lookup store key forceRefresh now of
        Some v \<Rightarrow> (Some \<lparr>cr_value = v, cacheHit = True\<rparr>, store)
      | None \<Rightarrow>
          (case loaded of
             None \<Rightarrow> (None, store)
           | Some v \<Rightarrow> (Some \<lparr>cr_value = v, cacheHit = False\<rparr>, cache_store key v (now + ttlMs) store)))"

text \<open>Overlapping calls: loads that were started and have not stored their value yet.\<close>

record 'v cache_world =
  cw_store :: "'v cache"
  cw_loading :: "(string \<times> rat) list"

inductive cache_step :: "'v cache_world \<Rightarrow> 'v cache_world \<Rightarrow> bool" where
  Hit: "cache_lookup (cw_store w) key f now = Some v \<Longrightarrow> cache_step w w"
| StartLoad: "cache_lookup (cw_store w) key f now = None \<Longrightarrow>
    cache_step w (w\<lparr>cw_loading := (key, now + ttl) # cw_loading w\<rparr>)"
| Loaded: "(key, expires) \<in> set (cw_loading w) \<Longrightarrow>
    cache_step w (w\<lparr>cw_store := cache_store key v expires (cw_store w),
                     cw_loading := remove1 (key, expires) (cw_loading w)\<rparr>)"
| LoadFailed: "(key, expires) \<in> set (cw_loading w) \<Longrightarrow>
    cache_step w (w\<lparr>cw_loading := remove1 (key, expires) (cw_loading w)\<rparr>)"

inductive cache_reachable :: "'v cache_world \<Rightarrow> bool" where
  Empty: "cache_reachable \<lparr>cw_store = [], cw_loading = []\<rparr>"
| Next: "cache_reachable w \<Longrightarrow> cache_step w w' \<Longrightarrow> cache_reachable w'"

section \<open>Probes\<close>

record service_probe =
  probe_service :: string
  probe_upstream :: string
  available :: bool
  latencyMs :: int
  statusCode :: nat
  probe_status :: string
  probe_details :: string

record parsed_health =
  ph_status :: string
  ph_details :: string

definition string_field :: "json option \<Rightarrow> string \<Rightarrow> string \<Rightarrow> string" where
  "string_field v k d = (case json_field v k of Some (JStr s) \<Rightarrow> s | _ \<Rightarrow> d)"

definition parseHealthPayload :: "string \<Rightarrow> parsed_health" where
  "parseHealthPayload raw =
     (let trimmed = trim raw
      in if trimmed = [] then \<lparr>ph_status = ''unknown'', ph_details = ''empty response''\<rparr>
         else case parse trimmed of
           None \<Rightarrow> \<lparr>ph_status = ''unknown'', ph_details = js_take 200 trimmed\<rparr>
         | Some JNull \<Rightarrow> \<lparr>ph_status = ''unknown'', ph_details = js_take 200 trimmed\<rparr>
         | Some v \<Rightarrow>
             (let status = string_field (Some v) ''status'' ''unknown'';
                  service = string_field (Some v) ''service'' [];
                  reconciler = json_field (json_field (Some v) ''components'') ''operational_es_reconciler'';
                  reconcilerState = string_field reconciler ''state'' [];
                  reconcilerDetails = (if reconcilerState \<noteq> [] then '' reconciler:'' @ reconcilerState else []);
                  base = (if service \<noteq> [] then service @ '':'' @ status else status)
              in \<lparr>ph_status = status, ph_details = base @ reconcilerDetails\<rparr>))"

text \<open>What the request of a probe comes to: an answer with its text, or an exception (no connection, the
  time-out's abort), with its message when it is an \<open>Error\<close>.\<close>

datatype upstream_answer =
  Answered (ua_ok: bool) (ua_status: nat) (ua_text: string)
| Failed (ua_message: "string option")

definition probe_url :: "string \<Rightarrow> string \<Rightarrow> string" where
  "probe_url service upstream =
     (if endsWith upstream ''/'' then take (length upstream - 1) upstream else upstream)
     @ (if service = ''control-plane'' then ''/api/v1/health'' else ''/healthz'')"

definition probe ::
    "(string \<Rightarrow> upstream_answer) \<Rightarrow> (string \<Rightarrow> int) \<Rightarrow> string \<Rightarrow> string \<Rightarrow> service_probe" where
  "probe net latency service upstream =
     (case net (probe_url service upstream) of
        Answered ok status text \<Rightarrow>
          (let parsed = parseHealthPayload text;
               st = (if ok then ph_status parsed else ''degraded'')
           in \<lparr>probe_service = service, probe_upstream = upstream,
               available = (ok \<and> st \<notin> {''degraded'', ''unhealthy'', ''unreachable''}),
               latencyMs = latency service, statusCode = status, probe_status = st,
               probe_details = ph_details parsed\<rparr>)
      | Failed message \<Rightarrow>
          \<lparr>probe_service = service, probe_upstream = upstream, available = False,
           latencyMs = latency service, statusCode = 0, probe_status = ''unreachable'',
           probe_details = nullish message ''unknown error''\<rparr>)"

section \<open>The overview\<close>

record overview_summary =
  sum_total :: nat
  sum_healthy :: nat
  sum_degraded :: nat
  availabilityRate :: rat

record overview =
  generatedAt :: string
  ov_controlPlane :: service_probe
  ov_apiService :: service_probe
  ov_queryApi :: service_probe
  ov_auditApi :: service_probe
  ov_exportApi :: service_probe
  ov_summary :: overview_summary

definition summarize :: "service_probe list \<Rightarrow> overview_summary" where
  "summarize all =
     (let healthy = length (filter available all); total = length all
      in \<lparr>sum_total = total, sum_healthy = healthy, sum_degraded = total - healthy,
          availabilityRate = round_to 2 (of_nat healthy / of_nat total * 100)\<rparr>)"

definition buildOverview ::
    "bff_config \<Rightarrow> (string \<Rightarrow> upstream_answer) \<Rightarrow> (string \<Rightarrow> int) \<Rightarrow> string \<Rightarrow> overview" where
  "buildOverview cfg net latency stamp =
     (let controlPlane = probe net latency ''control-plane'' (controlPlaneBaseUrl cfg);
          apiService = probe net latency ''api-service'' (apiServiceBaseUrl cfg);
          queryApi = probe net latency ''query-api'' (dataQueryBaseUrl cfg);
          auditApi = probe net latency ''audit-api'' (dataAuditBaseUrl cfg);
          exportApi = probe net latency ''export-api'' (dataExportBaseUrl cfg)
      in \<lparr>generatedAt = stamp, ov_controlPlane = controlPlane, ov_apiService = apiService,
          ov_queryApi = queryApi, ov_auditApi = auditApi, ov_exportApi = exportApi,
          ov_summary = summarize [controlPlane, apiService, queryApi, auditApi, exportApi]\<rparr>)"

record overview_response =
  or_overview :: overview
  or_hit :: bool
  or_ttlMs :: rat

definition aggregateOverview ::
    "(string \<Rightarrow> string option) \<Rightarrow> (string \<Rightarrow> upstream_answer) \<Rightarrow> (string \<Rightarrow> int) \<Rightarrow> string \<Rightarrow> rat \<Rightarrow> bool
     \<Rightarrow> overview cache \<Rightarrow> overview_response option \<times> overview cache" where
  "aggregateOverview env net latency stamp now forceRefresh store =
     (let cfg = bff_runtime_config env;
          (r, store') = getOrSet ''overview:default'' (cacheTtlMs cfg)
             (Some (buildOverview cfg net latency stamp)) forceRefresh now store
      in (map_option (\<lambda>c. \<lparr>or_overview = cr_value c, or_hit = cacheHit c, or_ttlMs = cacheTtlMs cfg\<rparr>) r, store'))"

definition force_refresh :: "string option \<Rightarrow> bool" where
  "force_refresh refresh \<longleftrightarrow> refresh = Some ''1'' \<or> refresh = Some ''true''"

section \<open>The contract of a cache with expiry\<close>

text \<open>
  A lookup answers with the value last stored under the key, while it has not expired; storing under
  one key can only forget the others.
\<close>

locale expiring_cache =
  fixes look :: "'c \<Rightarrow> string \<Rightarrow> rat \<Rightarrow> 'v option"
    and put :: "string \<Rightarrow> 'v \<Rightarrow> rat \<Rightarrow> 'c \<Rightarrow> 'c"
    and empty :: 'c
  assumes look_empty: "look empty k t = None"
    and look_put_same: "look (put k v e c) k t \<in> {None, if t < e then Some v else None}"
    and look_put_other: "k' \<noteq> k \<Longrightarrow> look (put k v e c) k' t \<in> {None, look c k' t}"
begin

lemma look_sound:
  "look (fold (\<lambda>(k, v, e). put k v e) ops empty) k t = Some v \<Longrightarrow>
     \<exists>e. (k, v, e) \<in> set ops \<and> t < e"
proof (induction ops rule: rev_induct)
  case (snoc op ops)
  obtain k' v' e' where op: "op = (k', v', e')" by (cases op)
  show ?case
  proof (cases "k' = k")
    case True
    with snoc.prems op look_put_same [of k v' e' "fold (\<lambda>(k, v, e). put k v e) ops empty" t]
    show ?thesis by (auto split: if_splits)
  next
    case False
    then have "look (fold (\<lambda>(k, v, e). put k v e) ops empty) k t = Some v"
      using snoc.prems op look_put_other [of k k' v' e' "fold (\<lambda>(k, v, e). put k v e) ops empty" t] by auto
    with snoc.IH show ?thesis by auto
  qed
qed (simp add: look_empty)

end

lemma evict_get: "jm_get (evictIfNeeded m) k \<in> {None, jm_get m k}"
  by (auto simp: evictIfNeeded_def split: list.split)

interpretation bff: expiring_cache "\<lambda>c k t. cache_lookup c k False t" cache_store "[]"
proof
  fix k :: string and t e :: rat and v :: 'a and c :: "'a cache" and k'
  show "cache_lookup ([] :: 'a cache) k False t = None" by (simp add: cache_lookup_def)
  show "cache_lookup (cache_store k v e c) k False t \<in> {None, if t < e then Some v else None}"
    using evict_get [of "jm_set k \<lparr>ce_value = v, ce_expiresAt = e\<rparr> c" k]
    by (auto simp: cache_lookup_def cache_store_def)
  show "cache_lookup (cache_store k v e c) k' False t \<in> {None, cache_lookup c k' False t}" if "k' \<noteq> k"
    using evict_get [of "jm_set k \<lparr>ce_value = v, ce_expiresAt = e\<rparr> c" k'] that
    by (auto simp: cache_lookup_def cache_store_def)
qed

section \<open>Lemmas\<close>

lemma length_evict: "length m \<le> Suc maxEntries \<Longrightarrow> length (evictIfNeeded m) \<le> maxEntries"
proof (cases "length m \<le> maxEntries")
  case False
  assume "length m \<le> Suc maxEntries"
  obtain k v m' where m: "m = (k, v) # m'" using False by (cases m) auto
  have "length (jm_delete k m) \<le> length m'"
    using m length_filter_le [of "\<lambda>e. fst e \<noteq> k" m'] by (simp add: jm_delete_def)
  with m \<open>length m \<le> Suc maxEntries\<close> False show ?thesis by (simp add: evictIfNeeded_def jm_keys_def)
qed (simp add: evictIfNeeded_def)

lemma length_cache_store [inv_intros]:
  "length c \<le> maxEntries \<Longrightarrow> length (cache_store k v e c) \<le> maxEntries"
  unfolding cache_store_def by (rule length_evict) (simp add: length_jm_set)

lemma jm_wf_cache_store [inv_intros]: "jm_wf c \<Longrightarrow> jm_wf (cache_store k v e c)"
  by (auto simp: cache_store_def evictIfNeeded_def split: list.split)

text \<open>The value just stored stays: the entry evicted is the oldest, and the cache holds more than one.\<close>

lemma cache_store_keeps:
  assumes "jm_wf c" and "c \<noteq> [] \<or> maxEntries \<ge> 1"
  shows "k \<notin> set (jm_keys c) \<Longrightarrow> jm_get (cache_store k v e c) k = Some \<lparr>ce_value = v, ce_expiresAt = e\<rparr>"
proof -
  assume new: "k \<notin> set (jm_keys c)"
  then have s: "jm_set k \<lparr>ce_value = v, ce_expiresAt = e\<rparr> c = c @ [(k, \<lparr>ce_value = v, ce_expiresAt = e\<rparr>)]"
    by (rule jm_set_append_new)
  have g: "jm_get (c @ [(k, \<lparr>ce_value = v, ce_expiresAt = e\<rparr>)]) k = Some \<lparr>ce_value = v, ce_expiresAt = e\<rparr>"
    using s by (metis jm_get_set)
  show ?thesis
  proof (cases c)
    case Nil
    then show ?thesis using s by (simp add: cache_store_def evictIfNeeded_def maxEntries_def)
  next
    case (Cons x c')
    then have "fst x \<noteq> k" using new by (auto simp: jm_keys_def)
    then show ?thesis using s g Cons by (auto simp: cache_store_def evictIfNeeded_def jm_keys_def)
  qed
qed

lemma cache_reachable_bound: "cache_reachable w \<Longrightarrow> length (cw_store w) \<le> maxEntries \<and> jm_wf (cw_store w)"
proof (induction rule: cache_reachable.induct)
  case (Next w w')
  from Next.hyps(2) Next.IH show ?case
    by (cases rule: cache_step.cases) (auto intro: inv_intros)
qed simp

lemma parseNumber_pos: "0 < d \<Longrightarrow> 0 < parseNumber env n d"
  by (cases "js_Number (nullish (env n) [])") (auto simp: parseNumber_def Let_def)

lemma probe_id [simp]:
  "probe_service (probe net lat s u) = s" "probe_upstream (probe net lat s u) = u"
  by (simp_all add: probe_def Let_def split: upstream_answer.split)

lemma available_probe_iff:
  "available (probe net lat s u) \<longleftrightarrow>
     (case net (probe_url s u) of
        Answered ok _ t \<Rightarrow> ok \<and> ph_status (parseHealthPayload t) \<notin> {''degraded'', ''unhealthy'', ''unreachable''}
      | Failed _ \<Rightarrow> False)"
  by (cases "net (probe_url s u)") (auto simp: probe_def Let_def)

lemma probe_available:
  "available (probe net lat s u) \<Longrightarrow>
     \<exists>st t. net (probe_url s u) = Answered True st t \<and> statusCode (probe net lat s u) = st
       \<and> probe_status (probe net lat s u) = ph_status (parseHealthPayload t)"
  by (auto simp: probe_def Let_def split: upstream_answer.splits)

section \<open>Properties\<close>

text \<open>C13: However calls overlap, the cache never holds more than a thousand entries, nor two under one
  key; a value just loaded under a new key is in it.\<close>

theorem cache_bounded:
  assumes "cache_reachable w"
  shows "length (cw_store w) \<le> 1000 \<and> distinct (jm_keys (cw_store w))
    \<and> length (cache_store k v e (cw_store w)) \<le> 1000
    \<and> (k \<in> set (jm_keys (cw_store w))
       \<or> cache_lookup (cache_store k v e (cw_store w)) k False t = (if t < e then Some v else None))"
proof -
  have b: "length (cw_store w) \<le> maxEntries" "jm_wf (cw_store w)"
    using cache_reachable_bound [OF assms] by simp_all
  have "jm_get (cache_store k v e (cw_store w)) k = Some \<lparr>ce_value = v, ce_expiresAt = e\<rparr>"
    if "k \<notin> set (jm_keys (cw_store w))"
    by (rule cache_store_keeps [OF b(2) _ that]) (simp add: maxEntries_def)
  then have "k \<in> set (jm_keys (cw_store w))
       \<or> cache_lookup (cache_store k v e (cw_store w)) k False t = (if t < e then Some v else None)"
    by (cases "k \<in> set (jm_keys (cw_store w))") (simp_all add: cache_lookup_def)
  moreover have "distinct (jm_keys (cw_store w))" using b(2) by (simp add: jm_wf_def jm_keys_def)
  ultimately show ?thesis using b(1) length_cache_store [OF b(1), of k v e] by (simp add: maxEntries_def)
qed

theorem cache_bounded_witness:
  "cache_lookup (cache_store ''k'' (7::nat) 10 []) ''k'' False 5 = Some 7"
  using cache_bounded [OF cache_reachable.Empty, of "''k''" "7::nat" 10 5] by (simp add: jm_keys_def)

text \<open>The overview is served from the cache exactly when a refresh is not forced and the cached one
  has not expired; then no upstream is asked and the cache is unchanged. Otherwise the answer is the
  overview built now, and it is cached for the configured time, which is positive.\<close>

theorem overview_cache_behaviour:
  "0 < cacheTtlMs (bff_runtime_config env)
   \<and> (case cache_lookup store ''overview:default'' force now of
        Some v \<Rightarrow> aggregateOverview env net lat stamp now force store
                    = (Some \<lparr>or_overview = v, or_hit = True, or_ttlMs = cacheTtlMs (bff_runtime_config env)\<rparr>, store)
      | None \<Rightarrow> (let built = buildOverview (bff_runtime_config env) net lat stamp
                 in aggregateOverview env net lat stamp now force store
                      = (Some \<lparr>or_overview = built, or_hit = False, or_ttlMs = cacheTtlMs (bff_runtime_config env)\<rparr>,
                         cache_store ''overview:default'' built
                           (now + cacheTtlMs (bff_runtime_config env)) store)))
   \<and> cache_lookup store ''overview:default'' True now = None"
  by (auto simp: aggregateOverview_def getOrSet_def Let_def bff_runtime_config_def parseNumber_pos
      cache_lookup_def split: option.split)

text \<open>Of the five services, those counted healthy are exactly the ones that answered with success and
  did not report themselves degraded, unhealthy or unreachable; the others are degraded; and the
  availability rate is the percentage, between 0 and 100.\<close>

theorem overview_summary_correct:
  fixes cfg net lat stamp
  defines "ov \<equiv> buildOverview cfg net lat stamp"
  defines "ps \<equiv> [ov_controlPlane ov, ov_apiService ov, ov_queryApi ov, ov_auditApi ov, ov_exportApi ov]"
  shows "sum_total (ov_summary ov) = 5
    \<and> sum_healthy (ov_summary ov) = length (filter available ps)
    \<and> sum_healthy (ov_summary ov) + sum_degraded (ov_summary ov) = 5
    \<and> availabilityRate (ov_summary ov) = 20 * of_nat (sum_healthy (ov_summary ov))
    \<and> list_all (\<lambda>p. available p = (case net (probe_url (probe_service p) (probe_upstream p)) of
           Answered ok _ t \<Rightarrow> ok \<and> ph_status (parseHealthPayload t) \<notin> {''degraded'', ''unhealthy'', ''unreachable''}
         | Failed _ \<Rightarrow> False)) ps"
proof -
  have s: "ov_summary ov = summarize ps" by (simp add: ov_def ps_def buildOverview_def Let_def)
  have len: "length ps = 5" by (simp add: ps_def)
  have h: "length (filter available ps) \<le> 5" using len length_filter_le [of available ps] by simp
  have "round_to 2 (of_nat h / of_nat 5 * 100) = 20 * of_nat h" for h
  proof -
    have "(of_nat h / of_nat 5 * 100 :: rat) * 10 ^ 2 = of_int (int h * 2000)" by simp
    then have "js_round (of_nat h / of_nat 5 * 100 * 10 ^ 2) = int h * 2000" by (metis js_round_int)
    then show ?thesis by (simp add: round_to_def)
  qed
  moreover have "list_all (\<lambda>p. available p = (case net (probe_url (probe_service p) (probe_upstream p)) of
           Answered ok _ t \<Rightarrow> ok \<and> ph_status (parseHealthPayload t) \<notin> {''degraded'', ''unhealthy'', ''unreachable''}
         | Failed _ \<Rightarrow> False)) ps"
    by (simp only: ps_def ov_def buildOverview_def Let_def overview.simps list.pred_inject available_probe_iff
        probe_id simp_thms)
  ultimately show ?thesis using h len by (simp add: s summarize_def Let_def)
qed

text \<open>The cache only answers with what was stored: a hit after any sequence of stores returns a value
  stored under that key with an expiry still to come.\<close>

theorem cache_hit_sound:
  assumes "cache_lookup (fold (\<lambda>(k, v, e). cache_store k v e) ops []) k False t = Some v"
  shows "list_ex (\<lambda>(k', v', e). k' = k \<and> v' = v \<and> t < e) ops"
  using bff.look_sound [OF assms] by (auto simp: list_ex_iff intro: bexI)

theorem cache_hit_sound_witness:
  "list_ex (\<lambda>(k', v', e). k' = ''a'' \<and> v' = (2::nat) \<and> (3::rat) < e) [(''a'', 1, 5), (''a'', 2, 6)]"
proof -
  have "cache_lookup (fold (\<lambda>(k, v, e). cache_store k v e) [(''a'', 1::nat, 5), (''a'', 2, 6)] []) ''a'' False 3 = Some 2"
    by code_simp
  from cache_hit_sound [OF this] show ?thesis .
qed

end
