(* ===== verification/Js_Date.thy ===== *)
theory Js_Date
  imports Js_Number
begin

text \<open>
  Dates of the runtime: a time value is a number of milliseconds since 1970, an \<open>int\<close>.
  \<open>toISOString\<close> and \<open>Date.parse\<close> of the date-time format the language defines, for the years 0 to
  9999 in the proleptic Gregorian calendar, with the round trip between them. How an implementation
  reads other texts is its own choice; functions that parse dates of unknown origin take that reader
  as the argument \<open>host\<close>, and \<open>date_parse\<close> tries the defined format first.
\<close>

section \<open>The calendar\<close>

definition leap :: "nat \<Rightarrow> bool" where
  "leap y \<longleftrightarrow> y mod 4 = 0 \<and> (y mod 100 \<noteq> 0 \<or> y mod 400 = 0)"

definition year_days :: "nat \<Rightarrow> nat" where
  "year_days y = (if leap y then 366 else 365)"

text \<open>The days of the years before \<open>y\<close>, counted from the start of year 0.\<close>

definition days_before_year :: "nat \<Rightarrow> nat" where
  "days_before_year y = 365 * y + (y + 3) div 4 - (y + 99) div 100 + (y + 399) div 400"

definition month_days :: "bool \<Rightarrow> nat list" where
  "month_days lp = [31, if lp then 29 else 28, 31, 30, 31, 30, 31, 31, 30, 31, 30, 31]"

text \<open>Day number and time of day of a civil date; 1970-01-01 is day 719528.\<close>

definition day_number :: "nat \<Rightarrow> nat \<Rightarrow> nat \<Rightarrow> nat" where
  "day_number y m d = days_before_year y + sum_list (take (m - 1) (month_days (leap y))) + (d - 1)"

definition epoch_day :: int where "epoch_day = 719528"

definition ms_per_day :: int where "ms_per_day = 86400000"

text \<open>The month and day of a day of the year.\<close>

fun find_month :: "nat list \<Rightarrow> nat \<Rightarrow> nat \<Rightarrow> nat \<times> nat" where
  "find_month [] m r = (m, Suc r)"
| "find_month (k # ks) m r = (if r < k \<or> ks = [] then (m, Suc r) else find_month ks (Suc m) (r - k))"

text \<open>The year of a day: at most the quotient by 365, so counting down from it finds it.\<close>

fun find_year :: "nat \<Rightarrow> nat \<Rightarrow> nat" where
  "find_year 0 d = 0"
| "find_year (Suc y) d = (if days_before_year (Suc y) \<le> d then Suc y else find_year y d)"

definition year_of :: "nat \<Rightarrow> nat" where
  "year_of d =
     (let guess = d * 400 div 146097
      in if days_before_year (Suc guess) \<le> d then Suc guess
         else if days_before_year guess \<le> d then guess else find_year guess d)"

definition civil :: "nat \<Rightarrow> nat \<times> nat \<times> nat" where
  "civil d =
     (let y = year_of d; (m, dd) = find_month (month_days (leap y)) 1 (d - days_before_year y)
      in (y, m, dd))"

section \<open>Printing\<close>

definition iso_of :: "nat \<times> nat \<times> nat \<Rightarrow> nat \<Rightarrow> string" where
  "iso_of ymd ms =
     (case ymd of (y, m, d) \<Rightarrow>
        pad_left 4 (nat_to_string y) @ ''-'' @ pad_left 2 (nat_to_string m) @ ''-'' @ pad_left 2 (nat_to_string d)
        @ ''T'' @ pad_left 2 (nat_to_string (ms div 3600000)) @ '':''
        @ pad_left 2 (nat_to_string (ms div 60000 mod 60)) @ '':''
        @ pad_left 2 (nat_to_string (ms div 1000 mod 60)) @ ''.''
        @ pad_left 3 (nat_to_string (ms mod 1000)) @ ''Z'')"

definition toISOString :: "int \<Rightarrow> string" where
  "toISOString t = iso_of (civil (nat (t div ms_per_day + epoch_day))) (nat (t mod ms_per_day))"

text \<open>The times whose year has four digits.\<close>

definition in_iso_range :: "int \<Rightarrow> bool" where
  "in_iso_range t \<longleftrightarrow> 0 \<le> t div ms_per_day + epoch_day \<and> t div ms_per_day + epoch_day < 3652425"

section \<open>Parsing\<close>

definition two :: "string \<Rightarrow> nat \<Rightarrow> nat option" where
  "two s i = (let ds = take 2 (drop i s) in if length ds = 2 \<and> list_all is_digit ds then Some (digits_val 0 ds) else None)"

text \<open>The time zone: \<open>Z\<close>, an offset \<open>+hh:mm\<close>, or nothing.\<close>

definition parse_zone :: "string \<Rightarrow> int option" where
  "parse_zone z =
     (if z = ''Z'' then Some 0
      else case z of
        sg # r \<Rightarrow>
          if (sg = CHR ''+'' \<or> sg = CHR ''-'') \<and> length r = 5 \<and> r ! 2 = CHR '':'' then
            (case (two r 0, two r 3) of
               (Some h, Some m) \<Rightarrow>
                 if h \<le> 23 \<and> m \<le> 59
                 then Some ((if sg = CHR ''-'' then - 1 else 1) * (int h * 60 + int m) * 60000) else None
             | _ \<Rightarrow> None)
          else None
      | [] \<Rightarrow> None)"

definition civil_ms :: "nat \<Rightarrow> nat \<Rightarrow> nat \<Rightarrow> nat \<Rightarrow> int" where
  "civil_ms y m d ms = (int (day_number y m d) - epoch_day) * ms_per_day + int ms"

definition valid_date :: "nat \<Rightarrow> nat \<Rightarrow> nat \<Rightarrow> bool" where
  "valid_date y m d \<longleftrightarrow> 1 \<le> m \<and> m \<le> 12 \<and> 1 \<le> d \<and> d \<le> month_days (leap y) ! (m - 1)"

text \<open>\<open>HH:mm\<close>, \<open>HH:mm:ss\<close> or \<open>HH:mm:ss.sss\<close> (any number of fraction digits, cut to milliseconds),
  then the zone. A date-time without a zone is local time; the model's local zone is UTC.\<close>

definition parse_time :: "string \<Rightarrow> (nat \<times> int) option" where
  "parse_time s =
     (case (two s 0, two s 3) of
        (Some h, Some mi) \<Rightarrow>
          if length s < 5 \<or> s ! 2 \<noteq> CHR '':'' \<or> h > 23 \<or> mi > 59 then None
          else let r = drop 5 s in
            (if r = [] then Some (h * 3600000 + mi * 60000, 0)
             else if hd r \<noteq> CHR '':'' then map_option (Pair (h * 3600000 + mi * 60000)) (parse_zone r)
             else (case two r 1 of
                     None \<Rightarrow> None
                   | Some sec \<Rightarrow>
                       if sec > 59 then None
                       else let r2 = drop 3 r; base = h * 3600000 + mi * 60000 + sec * 1000 in
                         (if r2 = [] then Some (base, 0)
                          else if hd r2 = CHR ''.'' then
                            (let ds = takeWhile is_digit (tl r2); r3 = dropWhile is_digit (tl r2);
                                 ms = digits_val 0 (take 3 (ds @ ''000''))
                             in if ds = [] then None
                                else if r3 = [] then Some (base + ms, 0)
                                else map_option (Pair (base + ms)) (parse_zone r3))
                          else map_option (Pair base) (parse_zone r2))))
      | _ \<Rightarrow> None)"

definition parse_iso :: "string \<Rightarrow> int option" where
  "parse_iso s =
     (let ys = take 4 s in
      if length s < 10 \<or> \<not> list_all is_digit ys \<or> s ! 4 \<noteq> CHR ''-'' \<or> s ! 7 \<noteq> CHR ''-'' then None
      else (case (two s 5, two s 8) of
              (Some m, Some d) \<Rightarrow>
                (let y = digits_val 0 ys in
                 if \<not> valid_date y m d then None
                 else if length s = 10 then Some (civil_ms y m d 0)
                 else if s ! 10 \<noteq> CHR ''T'' then None
                 else (case parse_time (drop 11 s) of
                         None \<Rightarrow> None
                       | Some (ms, zone) \<Rightarrow> Some (civil_ms y m d ms - zone)))
            | _ \<Rightarrow> None))"

definition date_parse :: "(string \<Rightarrow> int option) \<Rightarrow> string \<Rightarrow> int option" where
  "date_parse host s = nullish_opt (parse_iso s) (host s)"

section \<open>The round trip\<close>

lemma find_month_sum:
  "find_month ks m r = (m', d) \<Longrightarrow> r < sum_list ks \<Longrightarrow>
     m \<le> m' \<and> m' < m + length ks \<and> 1 \<le> d \<and> d \<le> ks ! (m' - m) \<and> r = sum_list (take (m' - m) ks) + (d - 1)"
proof (induction ks m r arbitrary: m' d rule: find_month.induct)
  case (2 k ks m r)
  show ?case
  proof (cases "r < k \<or> ks = []")
    case True
    with 2 show ?thesis by auto
  next
    case False
    then have "find_month ks (Suc m) (r - k) = (m', d)" "r - k < sum_list ks" using 2 by auto
    with 2 False have i: "Suc m \<le> m'" "m' < Suc m + length ks" "1 \<le> d" "d \<le> ks ! (m' - Suc m)"
      "r - k = sum_list (take (m' - Suc m) ks) + (d - 1)" by auto
    then have "m' - m = Suc (m' - Suc m)" by simp
    moreover from i False have "r = k + sum_list (take (m' - Suc m) ks) + (d - 1)" by linarith
    ultimately show ?thesis using i by simp
  qed
qed simp

lemma div_ceiling: "0 < n \<Longrightarrow> (y + (n - 1)) div n = y div n + (if y mod n = 0 then 0 else 1)" for n :: nat
proof -
  assume n: "0 < n"
  have y: "y = n * (y div n) + y mod n" by simp
  have r: "y mod n < n" using n by simp
  have "(y + (n - 1)) div n = (n * (y div n) + (y mod n + (n - 1))) div n" using y by (simp add: add.assoc)
  also have "\<dots> = y div n + (y mod n + (n - 1)) div n" using n by (intro div_mult_self4) simp
  also have "(y mod n + (n - 1)) div n = (if y mod n = 0 then 0 else 1)"
  proof (cases "y mod n = 0")
    case False
    then obtain k where k: "y mod n = Suc k" by (cases "y mod n") auto
    then have "y mod n + (n - 1) = n + k" and "k < n" using n r by simp_all
    then have "(y mod n + (n - 1)) div n = 1" using n by (simp add: div_add_self1)
    then show ?thesis using False by simp
  qed (use n in simp)
  finally show ?thesis .
qed

lemma days_before_year_div:
  "days_before_year y = 365 * y + (y div 4 + (if y mod 4 = 0 then 0 else 1))
     - (y div 100 + (if y mod 100 = 0 then 0 else 1)) + (y div 400 + (if y mod 400 = 0 then 0 else 1))"
  using div_ceiling [of 4 y] div_ceiling [of 100 y] div_ceiling [of 400 y]
  by (simp add: days_before_year_def)

lemma leap_count_step:
  fixes A B C y :: nat
  assumes "B \<le> A" and "0 < y"
    and "p400 \<Longrightarrow> p100" and "p100 \<Longrightarrow> p4"
  shows "365 * y + 365 + (A + 1) - (B + 1) + (C + 1) =
    365 * y + (A + (if p4 then 0 else 1)) - (B + (if p100 then 0 else 1)) + (C + (if p400 then 0 else 1))
      + (if p4 \<and> (\<not> p100 \<or> p400) then 366 else 365)"
proof -
  obtain k where k: "A = B + k" using \<open>B \<le> A\<close> le_iff_add by blast
  show ?thesis using assms by (cases p4; cases p100; cases p400) (simp_all add: k)
qed

lemma days_before_Suc: "days_before_year (Suc y) = days_before_year y + year_days y"
proof (cases "y = 0")
  case True
  then show ?thesis by (simp add: days_before_year_def year_days_def leap_def)
next
  case False
  have s: "days_before_year (Suc y) = 365 * y + 365 + (y div 4 + 1) - (y div 100 + 1) + (y div 400 + 1)"
    using div_add_self2 [of 4 y] div_add_self2 [of 100 y] div_add_self2 [of 400 y]
    by (simp add: days_before_year_def)
  have m: "y mod 400 = 0 \<Longrightarrow> y mod 100 = 0" "y mod 100 = 0 \<Longrightarrow> y mod 4 = 0"
    by (auto intro: dvd_trans [of 100 400] dvd_trans [of 4 100] simp: mod_eq_0_iff_dvd)
  have le: "y div 100 \<le> y div 4" by (simp add: div_le_mono2)
  show ?thesis
    unfolding s days_before_year_div [of y] year_days_def leap_def
    by (rule leap_count_step [OF le]) (use False m in auto)
qed

lemma sum_month_days: "sum_list (month_days (leap y)) = year_days y"
  by (simp add: month_days_def year_days_def)

lemma days_before_mono: "y \<le> z \<Longrightarrow> days_before_year y \<le> days_before_year z"
  by (induction z) (auto simp: days_before_Suc le_Suc_eq)

lemma days_before_0 [simp]: "days_before_year 0 = 0"
  by (simp add: days_before_year_def)

lemma find_year_le:
  assumes "d < days_before_year (Suc y)"
  shows "days_before_year (find_year y d) \<le> d \<and> d < days_before_year (Suc (find_year y d))"
  using assms by (induction y) auto

lemma days_before_less: "y < z \<Longrightarrow> days_before_year y < days_before_year z"
  using days_before_mono [of "Suc y" z] by (auto simp: days_before_Suc year_days_def split: if_splits)

text \<open>The guess is never too small.\<close>

lemma div_bounds: "0 < n \<Longrightarrow> n * (x div n) \<le> x" "0 < n \<Longrightarrow> x < n * (x div n) + n" for n x :: nat
  using dividend_less_times_div [of n x] by (simp_all add: times_div_less_eq_dividend add.commute)

lemma days_before_lower: "365 * y + y div 4 + y div 400 \<le> days_before_year y + y div 100 + 1"
  unfolding days_before_year_div by auto

lemma year_guess: "d < days_before_year (d * 400 div 146097 + 2)"
proof -
  define g where "g = d * 400 div 146097"
  define y where "y = g + 2"
  define a where "a = y div 4" define b where "b = y div 100" define c where "c = y div 400"
  have "d * 400 < 146097 * g + 146097" unfolding g_def by (rule div_bounds) simp
  moreover have "y < 4 * a + 4" "100 * b \<le> y" "y < 400 * c + 400"
    unfolding a_def b_def c_def by (rule div_bounds; simp)+
  moreover have "365 * y + a + c \<le> days_before_year y + b + 1"
    unfolding a_def b_def c_def by (rule days_before_lower)
  moreover have "y = g + 2" by (fact y_def)
  ultimately have "400 * d < 400 * days_before_year y" by (simp only: algebra_simps)
  then have "d < days_before_year y" by simp
  then show ?thesis by (simp add: y_def g_def)
qed

lemma year_of_bounds: "days_before_year (year_of d) \<le> d \<and> d < days_before_year (Suc (year_of d))"
proof -
  have "d < days_before_year (Suc (Suc (d * 400 div 146097)))" using year_guess [of d] by simp
  then show ?thesis
    using find_year_le [of d "d * 400 div 146097"] by (simp add: year_of_def Let_def not_le)
qed

lemma civil_day_number:
  assumes "civil d = (y, m, dd)"
  shows "day_number y m dd = d \<and> valid_date y m dd"
proof -
  from assms have y: "y = year_of d"
    and fm: "find_month (month_days (leap y)) 1 (d - days_before_year y) = (m, dd)"
    by (auto simp: civil_def Let_def split: prod.splits)
  have yr: "days_before_year y \<le> d \<and> d < days_before_year (Suc y)"
    using year_of_bounds by (simp add: y)
  then have "d - days_before_year y < sum_list (month_days (leap y))"
    unfolding sum_month_days days_before_Suc by linarith
  from find_month_sum [OF fm this] yr show ?thesis
    by (auto simp: day_number_def valid_date_def month_days_def [of "leap y"])
qed

text \<open>Zero-padded numbers.\<close>

lemma length_nat_to_string: "n < 10 ^ k \<Longrightarrow> 0 < k \<Longrightarrow> length (nat_to_string n) \<le> k"
proof (induction k arbitrary: n)
  case (Suc k)
  show ?case
  proof (cases "n < 10")
    case False
    then have "0 < k" "n div 10 < 10 ^ k" using Suc.prems by (auto intro: Nat.gr0I simp: less_mult_imp_div_less mult.commute)
    then show ?thesis using Suc.IH [of "n div 10"] False by (simp add: nat_to_string.simps [of n])
  qed (simp add: nat_to_string.simps [of n])
qed simp

lemma digits_val_zeros [simp]: "digits_val 0 (replicate k (CHR ''0'') @ s) = digits_val 0 s"
  by (induction k) (simp_all add: digit_val_def)

lemma padded:
  assumes "n < 10 ^ k" and "0 < k"
  shows "length (pad_left k (nat_to_string n)) = k" and "list_all is_digit (pad_left k (nat_to_string n))"
    and "digits_val 0 (pad_left k (nat_to_string n)) = n"
  using length_nat_to_string [OF assms] nat_to_string_digits [of n]
  by (auto simp: pad_left_def list_all_iff is_digit_def)

lemma list_all_takeWhile: "list_all P s \<Longrightarrow> takeWhile P (s @ c # t) = s @ (if P c then takeWhile P (c # t) else [])"
  by (induction s) auto

lemma list_all_dropWhile: "list_all P s \<Longrightarrow> dropWhile P (s @ c # t) = dropWhile P (c # t)"
  by (induction s) auto

text \<open>Strings of two, three and four characters, spelled out.\<close>

lemma length_2_ex: "length s = 2 \<Longrightarrow> \<exists>a b. s = [a, b]"
  by (auto simp: numeral_2_eq_2 length_Suc_conv)

lemma length_3_ex: "length s = 3 \<Longrightarrow> \<exists>a b c. s = [a, b, c]"
  by (auto simp: numeral_3_eq_3 length_Suc_conv)

lemma length_4_ex: "length s = 4 \<Longrightarrow> \<exists>a b c d. s = [a, b, c, d]"
  by (auto simp: eval_nat_numeral length_Suc_conv)

lemma parse_time_iso:
  assumes h: "length h = 2" "list_all is_digit h" "digits_val 0 h \<le> 23"
    and m: "length m = 2" "list_all is_digit m" "digits_val 0 m \<le> 59"
    and sec: "length sec = 2" "list_all is_digit sec" "digits_val 0 sec \<le> 59"
    and f: "length f = 3" "list_all is_digit f"
  shows "parse_time (h @ '':'' @ m @ '':'' @ sec @ ''.'' @ f @ ''Z'') =
    Some (digits_val 0 h * 3600000 + digits_val 0 m * 60000 + digits_val 0 sec * 1000 + digits_val 0 f, 0)"
proof -
  obtain h1 h2 m1 m2 s1 s2 f1 f2 f3 where e: "h = [h1, h2]" "m = [m1, m2]" "sec = [s1, s2]" "f = [f1, f2, f3]"
    using length_2_ex [OF h(1)] length_2_ex [OF m(1)] length_2_ex [OF sec(1)] length_3_ex [OF f(1)] by blast
  have z: "\<not> is_digit (CHR ''Z'')" by (simp add: is_digit_def)
  show ?thesis
    using h(2,3) m(2,3) sec(2,3) f(2) z
    by (simp add: e parse_time_def two_def Let_def parse_zone_def del: digits_val.simps)
qed

lemma parse_iso_split:
  assumes y: "length y = 4" "list_all is_digit y" and m: "length m = 2" "list_all is_digit m"
    and d: "length d = 2" "list_all is_digit d"
  shows "parse_iso (y @ ''-'' @ m @ ''-'' @ d @ ''T'' @ r) =
    (if valid_date (digits_val 0 y) (digits_val 0 m) (digits_val 0 d)
     then map_option (\<lambda>(ms, zone). civil_ms (digits_val 0 y) (digits_val 0 m) (digits_val 0 d) ms - zone) (parse_time r)
     else None)"
proof -
  obtain y1 y2 y3 y4 m1 m2 d1 d2 where e: "y = [y1, y2, y3, y4]" "m = [m1, m2]" "d = [d1, d2]"
    using length_4_ex [OF y(1)] length_2_ex [OF m(1)] length_2_ex [OF d(1)] by blast
  show ?thesis
    using y(2) m(2) d(2)
    by (simp add: e parse_iso_def two_def Let_def case_prod_beta option.case_eq_if map_option_case del: digits_val.simps)
qed

lemma year_of_less: "d < 3652425 \<Longrightarrow> year_of d < 10000"
proof -
  assume d: "d < 3652425"
  have "days_before_year (year_of d) \<le> d" using year_of_bounds by blast
  moreover have "days_before_year 10000 = 3652425" by (simp add: days_before_year_def)
  ultimately show ?thesis using days_before_mono [of 10000 "year_of d"] d by linarith
qed

lemma month_days_le_31: "m \<le> 12 \<Longrightarrow> 1 \<le> m \<Longrightarrow> month_days lp ! (m - 1) \<le> 31"
  by (auto simp: month_days_def nth_Cons' split: if_splits)

lemma day_time_split:
  fixes ms :: nat
  assumes "ms < 86400000"
  shows "ms div 3600000 \<le> 23" and "ms div 60000 mod 60 \<le> 59" and "ms div 1000 mod 60 \<le> 59"
    and "ms div 3600000 * 3600000 + ms div 60000 mod 60 * 60000 + ms div 1000 mod 60 * 1000 + ms mod 1000 = ms"
proof -
  define s where "s = ms div 1000"
  define mi where "mi = s div 60"
  have h: "ms div 3600000 = mi div 60" and m: "ms div 60000 = mi"
    by (simp_all add: s_def mi_def div_mult2_eq [symmetric])
  have "ms div 3600000 < 24" using assms by (intro less_mult_imp_div_less) simp
  then show "ms div 3600000 \<le> 23" by simp
  have "a mod 60 \<le> 59" for a :: nat using mod_less_divisor [of 60 a] by linarith
  then show "ms div 60000 mod 60 \<le> 59" "ms div 1000 mod 60 \<le> 59" by blast+
  have "ms = 1000 * s + ms mod 1000" "s = 60 * mi + s mod 60" "mi = 60 * (mi div 60) + mi mod 60"
    unfolding s_def mi_def by (rule mult_div_mod_eq [symmetric])+
  then show "ms div 3600000 * 3600000 + ms div 60000 mod 60 * 60000 + ms div 1000 mod 60 * 1000 + ms mod 1000 = ms"
    unfolding h m s_def [symmetric] by linarith
qed

lemma parse_iso_iso_of:
  assumes v: "valid_date y m dd" and y: "y < 10000" and ms: "ms < 86400000"
  shows "parse_iso (iso_of (y, m, dd) ms) = Some (civil_ms y m dd ms)"
proof -
  define h mi se fr where "h = ms div 3600000" and "mi = ms div 60000 mod 60"
    and "se = ms div 1000 mod 60" and "fr = ms mod 1000"
  note defs = h_def mi_def se_def fr_def
  note split = day_time_split [OF ms, folded defs]
  have fr: "fr < 10 ^ 3" by (simp add: fr_def)
  have y': "y < 10 ^ 4" using y by simp
  have two: "m < 10 ^ 2" "dd < 10 ^ 2" "h < 10 ^ 2" "mi < 10 ^ 2" "se < 10 ^ 2"
    using v month_days_le_31 [of m "leap y"] split by (auto simp: valid_date_def)
  have pos: "0 < (2::nat)" "0 < (3::nat)" "0 < (4::nat)" by simp_all
  note pads = padded [OF y' pos(3)] padded [OF fr pos(2)] two [THEN padded(1), OF pos(1)]
    two [THEN padded(2), OF pos(1)] two [THEN padded(3), OF pos(1)]
  have "parse_time (pad_left 2 (nat_to_string h) @ '':'' @ pad_left 2 (nat_to_string mi) @ '':''
      @ pad_left 2 (nat_to_string se) @ ''.'' @ pad_left 3 (nat_to_string fr) @ ''Z'') = Some (ms, 0)"
    by (subst parse_time_iso) (simp_all only: pads split)
  then show ?thesis
    using v by (simp add: iso_of_def defs [symmetric] pads
        parse_iso_split [where y = "pad_left 4 (nat_to_string y)" and m = "pad_left 2 (nat_to_string m)"
          and d = "pad_left 2 (nat_to_string dd)", simplified])
qed

lemma parse_iso_toISOString:
  assumes "in_iso_range t"
  shows "parse_iso (toISOString t) = Some t"
proof -
  define q r where "q = t div ms_per_day" and "r = t mod ms_per_day"
  have t: "t = q * ms_per_day + r" by (simp add: q_def r_def)
  obtain y m dd where c: "civil (nat (q + epoch_day)) = (y, m, dd)" by (metis prod_cases3)
  have d: "0 \<le> q + epoch_day" "nat (q + epoch_day) < 3652425"
    using assms by (auto simp: in_iso_range_def q_def)
  have r: "0 \<le> r" "nat r < 86400000" by (simp_all add: r_def ms_per_day_def nat_less_iff)
  from civil_day_number [OF c] have num: "day_number y m dd = nat (q + epoch_day)" and v: "valid_date y m dd"
    by auto
  have y: "y < 10000" using c year_of_less [OF d(2)] by (auto simp: civil_def Let_def split: prod.splits)
  have "parse_iso (toISOString t) = Some (civil_ms y m dd (nat r))"
    unfolding toISOString_def q_def [symmetric] r_def [symmetric] c by (rule parse_iso_iso_of [OF v y r(2)])
  also have "civil_ms y m dd (nat r) = t"
    using d(1) r(1) by (simp add: civil_ms_def num t)
  finally show ?thesis .
qed

lemma date_parse_toISOString: "in_iso_range t \<Longrightarrow> date_parse host (toISOString t) = Some t"
  by (simp add: date_parse_def parse_iso_toISOString)

end
