(* ===== verification/Js_Regex.thy ===== *)
theory Js_Regex
  imports Js_String
begin

text \<open>
  The regular expressions of the program: a backtracking matcher for the constructs they use (classes,
  sequence, alternation, greedy repetition, capture groups, \<open>\b\<close>, \<open>^\<close>, \<open>$\<close>), over the characters of a
  string. \<open>outcomes\<close> lists the ways a pattern can match at a place, in the order in which the language's
  backtracking tries them, so the first one is the match. \<open>rx_match\<close> searches from the left,
  \<open>rx_replace\<close> replaces every match as \<open>replace\<close> with the flag \<open>g\<close> does.

  Captures inside a repetition are not reset between iterations; no pattern of the program has one.
\<close>

section \<open>Classes of characters\<close>

text \<open>A character is the byte string of its UTF-8 form.\<close>

definition ascii_class :: "(char \<Rightarrow> bool) \<Rightarrow> string \<Rightarrow> bool" where
  "ascii_class P c = (case c of [x] \<Rightarrow> P x | _ \<Rightarrow> False)"

definition in_range :: "char \<Rightarrow> char \<Rightarrow> char \<Rightarrow> bool" where
  "in_range a b c \<longleftrightarrow> (of_char a :: nat) \<le> of_char c \<and> (of_char c :: nat) \<le> of_char b"

definition js_space :: "string \<Rightarrow> bool" where
  "js_space c \<longleftrightarrow> ascii_class ascii_ws c \<or> c \<in> set wide_ws"

definition word_char :: "string \<Rightarrow> bool" where
  "word_char = ascii_class (\<lambda>x. in_range (CHR ''a'') (CHR ''z'') x \<or> in_range (CHR ''A'') (CHR ''Z'') x
                                 \<or> is_digit x \<or> x = CHR ''_'')"

definition line_terminator :: "string \<Rightarrow> bool" where
  "line_terminator c \<longleftrightarrow> c \<in> {[CHR 0x0A], [CHR 0x0D], [CHR 0xE2, CHR 0x80, CHR 0xA8], [CHR 0xE2, CHR 0x80, CHR 0xA9]}"

definition digit_char_class :: "string \<Rightarrow> bool" where
  "digit_char_class = ascii_class is_digit"

section \<open>Patterns\<close>

datatype rx =
    Cls "string \<Rightarrow> bool"
  | Seq rx rx
  | Alt rx rx
  | Rep nat "nat option" rx
  | Grp nat rx
  | Word_Boundary
  | Begin_Input
  | End_Input
  | Epsilon

text \<open>A place in the input: the characters before it (nearest first), those after it, the captures.\<close>

record rx_place =
  behind :: "string list"
  ahead :: "string list"
  captures :: "(nat \<times> string) list"

definition at_boundary :: "rx_place \<Rightarrow> bool" where
  "at_boundary p \<longleftrightarrow>
     (case behind p of [] \<Rightarrow> False | c # _ \<Rightarrow> word_char c)
     \<noteq> (case ahead p of [] \<Rightarrow> False | c # _ \<Rightarrow> word_char c)"

definition step_char :: "(string \<Rightarrow> bool) \<Rightarrow> rx_place \<Rightarrow> rx_place list" where
  "step_char P p =
     (case ahead p of
        [] \<Rightarrow> []
      | c # r \<Rightarrow> if P c then [p\<lparr>behind := c # behind p, ahead := r\<rparr>] else [])"

fun repeat :: "(rx_place \<Rightarrow> rx_place list) \<Rightarrow> nat \<Rightarrow> nat \<Rightarrow> nat option \<Rightarrow> rx_place \<Rightarrow> rx_place list" where
  "repeat f 0 lo hi p = (if lo = 0 then [p] else [])"
| "repeat f (Suc n) lo hi p =
     (if hi = Some 0 then [p]
      else concat (map (\<lambda>q. if lo = 0 \<and> ahead q = ahead p then []
                            else repeat f n (lo - 1) (map_option (\<lambda>h. h - 1) hi) q) (f p))
           @ (if lo = 0 then [p] else []))"

definition consumed :: "rx_place \<Rightarrow> rx_place \<Rightarrow> string" where
  "consumed p q = concat (rev (take (length (behind q) - length (behind p)) (behind q)))"

primrec outcomes :: "rx \<Rightarrow> rx_place \<Rightarrow> rx_place list" where
  "outcomes (Cls P) = step_char P"
| "outcomes (Seq a b) = (\<lambda>p. concat (map (outcomes b) (outcomes a p)))"
| "outcomes (Alt a b) = (\<lambda>p. outcomes a p @ outcomes b p)"
| "outcomes (Rep lo hi r) = (\<lambda>p. repeat (outcomes r) (lo + length (ahead p) + 1) lo hi p)"
| "outcomes (Grp n r) = (\<lambda>p. map (\<lambda>q. q\<lparr>captures := (n, consumed p q) # captures q\<rparr>) (outcomes r p))"
| "outcomes Word_Boundary = (\<lambda>p. if at_boundary p then [p] else [])"
| "outcomes Begin_Input = (\<lambda>p. if behind p = [] then [p] else [])"
| "outcomes End_Input = (\<lambda>p. if ahead p = [] then [p] else [])"
| "outcomes Epsilon = (\<lambda>p. [p])"

section \<open>Searching and replacing\<close>

definition first_outcome :: "rx \<Rightarrow> string list \<Rightarrow> string list \<Rightarrow> rx_place option" where
  "first_outcome r pre post =
     (case outcomes r \<lparr>behind = pre, ahead = post, captures = []\<rparr> of [] \<Rightarrow> None | q # _ \<Rightarrow> Some q)"

record rx_result =
  matched :: string
  groups :: "(nat \<times> string) list"

definition result_of :: "string list \<Rightarrow> rx_place \<Rightarrow> rx_result" where
  "result_of pre q =
     \<lparr>matched = concat (rev (take (length (behind q) - length pre) (behind q))), groups = captures q\<rparr>"

fun search :: "rx \<Rightarrow> string list \<Rightarrow> string list \<Rightarrow> rx_result option" where
  "search r pre [] = map_option (result_of pre) (first_outcome r pre [])"
| "search r pre (c # cs) =
     (case first_outcome r pre (c # cs) of
        Some q \<Rightarrow> Some (result_of pre q)
      | None \<Rightarrow> search r (c # pre) cs)"

text \<open>\<open>text.match(r)\<close> without the flag \<open>g\<close>, and \<open>r.test(text)\<close>.\<close>

definition rx_match :: "rx \<Rightarrow> string \<Rightarrow> rx_result option" where
  "rx_match r s = search r [] (js_chars s)"

definition rx_test :: "rx \<Rightarrow> string \<Rightarrow> bool" where
  "rx_test r s \<longleftrightarrow> rx_match r s \<noteq> None"

text \<open>Every match in turn, with a state threaded through the replacement function. A match that consumes
  nothing is replaced and the search goes on one character later.\<close>

function replace_all ::
    "rx \<Rightarrow> (rx_result \<Rightarrow> 's \<Rightarrow> string \<times> 's) \<Rightarrow> string list \<Rightarrow> string list \<Rightarrow> 's \<Rightarrow> string \<times> 's" where
  "replace_all r f pre post st =
     (case first_outcome r pre post of
        None \<Rightarrow>
          (case post of
             [] \<Rightarrow> ([], st)
           | c # cs \<Rightarrow> (case replace_all r f (c # pre) cs st of (t, st') \<Rightarrow> (c @ t, st')))
      | Some q \<Rightarrow>
          (case f (result_of pre q) st of
             (u, st1) \<Rightarrow>
               if length (ahead q) < length post
               then (case replace_all r f (behind q) (ahead q) st1 of (t, st2) \<Rightarrow> (u @ t, st2))
               else (case post of
                       [] \<Rightarrow> (u, st1)
                     | c # cs \<Rightarrow> (case replace_all r f (c # pre) cs st1 of (t, st2) \<Rightarrow> (u @ c @ t, st2)))))"
  by pat_completeness auto
termination
  by (relation "measure (\<lambda>(_, _, _, post, _). length post)") auto

declare replace_all.simps [simp del]

definition rx_replace_with :: "rx \<Rightarrow> (rx_result \<Rightarrow> 's \<Rightarrow> string \<times> 's) \<Rightarrow> string \<Rightarrow> 's \<Rightarrow> string \<times> 's" where
  "rx_replace_with r f s st = replace_all r f [] (js_chars s) st"

definition rx_replace :: "rx \<Rightarrow> string \<Rightarrow> string \<Rightarrow> string" where
  "rx_replace r u s = fst (rx_replace_with r (\<lambda>_ st. (u, st)) s ())"

text \<open>The number of matches, \<open>text.match(r)?.length ?? 0\<close> with the flag \<open>g\<close>.\<close>

definition rx_count :: "rx \<Rightarrow> string \<Rightarrow> nat" where
  "rx_count r s = snd (rx_replace_with r (\<lambda>_ n. ([], Suc n)) s 0)"

definition group :: "nat \<Rightarrow> rx_result \<Rightarrow> string option" where
  "group n m = map_of (groups m) n"

section \<open>Abbreviated patterns\<close>

definition rx_char :: "char \<Rightarrow> rx" where "rx_char x = Cls (\<lambda>c. c = [x])"

definition rx_char_i :: "char \<Rightarrow> rx" where "rx_char_i x = Cls (\<lambda>c. toLowerCase c = [lower_char x])"

fun rx_lit :: "string \<Rightarrow> rx" where
  "rx_lit [] = Epsilon"
| "rx_lit (x # xs) = Seq (rx_char x) (rx_lit xs)"

fun rx_lit_i :: "string \<Rightarrow> rx" where
  "rx_lit_i [] = Epsilon"
| "rx_lit_i (x # xs) = Seq (rx_char_i x) (rx_lit_i xs)"

fun rx_seq :: "rx list \<Rightarrow> rx" where
  "rx_seq [] = Epsilon"
| "rx_seq [r] = r"
| "rx_seq (r # rs) = Seq r (rx_seq rs)"

fun rx_alt :: "rx list \<Rightarrow> rx" where
  "rx_alt [] = Cls (\<lambda>_. False)"
| "rx_alt [r] = r"
| "rx_alt (r # rs) = Alt r (rx_alt rs)"

definition rx_opt :: "rx \<Rightarrow> rx" where "rx_opt r = Rep 0 (Some 1) r"
definition rx_star :: "rx \<Rightarrow> rx" where "rx_star r = Rep 0 None r"
definition rx_plus :: "rx \<Rightarrow> rx" where "rx_plus r = Rep 1 None r"
definition rx_times :: "nat \<Rightarrow> nat \<Rightarrow> rx \<Rightarrow> rx" where "rx_times lo hi r = Rep lo (Some hi) r"

definition rx_dot :: rx where "rx_dot = Cls (\<lambda>c. \<not> line_terminator c)"
definition rx_digit :: rx where "rx_digit = Cls digit_char_class"
definition rx_space :: rx where "rx_space = Cls js_space"
definition rx_nonspace :: rx where "rx_nonspace = Cls (\<lambda>c. \<not> js_space c)"

definition rx_ascii :: "(char \<Rightarrow> bool) \<Rightarrow> rx" where "rx_ascii P = Cls (ascii_class P)"

section \<open>Replacing runs\<close>

text \<open>\<open>replace\<close> of every maximal run of elements of a class, of any length or of length two at least
  (\<open>/[...]+/g\<close>, \<open>/\s{2,}/g\<close>).\<close>

function replace_runs :: "('a \<Rightarrow> bool) \<Rightarrow> 'a list \<Rightarrow> 'a list \<Rightarrow> 'a list" where
  "replace_runs P r [] = []"
| "replace_runs P r (c # s) =
     (if P c then r @ replace_runs P r (dropWhile P s) else c # replace_runs P r s)"
  by pat_completeness auto
termination
  by (relation "measure (\<lambda>(_, _, s). length s)") (auto simp: le_imp_less_Suc length_dropWhile_le)

function replace_long_runs :: "('a \<Rightarrow> bool) \<Rightarrow> 'a list \<Rightarrow> 'a list \<Rightarrow> 'a list" where
  "replace_long_runs P r [] = []"
| "replace_long_runs P r (c # s) =
     (if P c \<and> takeWhile P s \<noteq> [] then r @ replace_long_runs P r (dropWhile P s)
      else c # replace_long_runs P r s)"
  by pat_completeness auto
termination
  by (relation "measure (\<lambda>(_, _, s). length s)") (auto simp: le_imp_less_Suc length_dropWhile_le)

lemma set_replace_runs: "set (replace_runs P r s) \<subseteq> set r \<union> {c \<in> set s. \<not> P c}"
  by (induction P r s rule: replace_runs.induct) (auto dest: set_dropWhileD)

lemma set_replace_long_runs: "set (replace_long_runs P r s) \<subseteq> set r \<union> set s"
  by (induction P r s rule: replace_long_runs.induct) (auto dest: set_dropWhileD)

section \<open>What a match is\<close>

text \<open>A place only moves forward over the input.\<close>

definition moved :: "rx_place \<Rightarrow> rx_place \<Rightarrow> bool" where
  "moved p q \<longleftrightarrow> (\<exists>u. ahead p = u @ ahead q \<and> behind q = rev u @ behind p)"

lemma moved_refl: "moved p p"
  by (simp add: moved_def)

lemma moved_trans: "moved p q \<Longrightarrow> moved q r \<Longrightarrow> moved p r"
proof -
  assume "moved p q" "moved q r"
  then obtain u v where "ahead p = u @ ahead q" "behind q = rev u @ behind p"
    "ahead q = v @ ahead r" "behind r = rev v @ behind q" by (auto simp: moved_def)
  then have "ahead p = (u @ v) @ ahead r \<and> behind r = rev (u @ v) @ behind p" by simp
  then show "moved p r" unfolding moved_def by blast
qed

lemma moved_captures [simp]: "moved p (q\<lparr>captures := x\<rparr>) = moved p q"
  by (simp add: moved_def)

lemma step_char_moved: "q \<in> set (step_char P p) \<Longrightarrow> moved p q"
proof -
  assume "q \<in> set (step_char P p)"
  then obtain c r where "ahead p = c # r" "q = p\<lparr>behind := c # behind p, ahead := r\<rparr>"
    by (cases "ahead p") (simp_all add: step_char_def split: if_splits)
  then have "ahead p = [c] @ ahead q \<and> behind q = rev [c] @ behind p" by simp
  then show "moved p q" unfolding moved_def by blast
qed

lemma repeat_moved:
  assumes "\<And>p q. q \<in> set (f p) \<Longrightarrow> moved p q"
  shows "q \<in> set (repeat f n lo hi p) \<Longrightarrow> moved p q"
proof (induction n arbitrary: lo hi p q)
  case (Suc n)
  show ?case
  proof (cases "q = p")
    case False
    then obtain q' where "q' \<in> set (f p)" "q \<in> set (repeat f n (lo - 1) (map_option (\<lambda>h. h - 1) hi) q')"
      using Suc.prems by (auto split: if_splits)
    then show ?thesis using Suc.IH assms moved_trans by blast
  qed (simp add: moved_refl)
qed (auto simp: moved_refl split: if_splits)

lemma outcomes_moved: "q \<in> set (outcomes r p) \<Longrightarrow> moved p q"
proof (induction r arbitrary: p q)
  case (Seq a b)
  then show ?case using moved_trans by fastforce
next
  case (Rep lo hi r)
  then show ?case using repeat_moved [of "outcomes r"] by (simp del: repeat.simps)
next
  case (Grp n r)
  then show ?case by auto
qed (auto simp: step_char_moved moved_refl split: if_splits)

text \<open>The text a match reports is the piece of the input it covers.\<close>

lemma first_outcome_split:
  assumes "first_outcome r pre post = Some q"
  shows "\<exists>u. post = u @ ahead q \<and> behind q = rev u @ pre \<and> matched (result_of pre q) = concat u"
proof -
  from assms have "moved \<lparr>behind = pre, ahead = post, captures = []\<rparr> q"
    by (intro outcomes_moved [of q r]) (auto simp: first_outcome_def split: list.splits)
  then obtain u where "post = u @ ahead q" "behind q = rev u @ pre" by (auto simp: moved_def)
  then show ?thesis by (auto simp: result_of_def)
qed

lemma search_split: "search r pre post = Some m \<Longrightarrow> \<exists>u v. concat post = u @ matched m @ v"
proof (induction r pre post rule: search.induct)
  case (1 r pre)
  then obtain q where "first_outcome r pre [] = Some q" "m = result_of pre q" by auto
  with first_outcome_split [of r pre "[]" q] show ?case by auto
next
  case (2 r pre c cs)
  show ?case
  proof (cases "first_outcome r pre (c # cs)")
    case None
    with 2 obtain u v where "concat cs = u @ matched m @ v" by auto
    then show ?thesis by (intro exI [of _ "c @ u"] exI [of _ v]) simp
  next
    case (Some q)
    then obtain u where "c # cs = u @ ahead q" "matched m = concat u"
      using 2 first_outcome_split [OF Some] by auto
    then have "concat (c # cs) = [] @ matched m @ concat (ahead q)" by (simp only: concat_append append_Nil)
    then show ?thesis by blast
  qed
qed

theorem rx_match_substring: "rx_match r s = Some m \<Longrightarrow> js_includes s (matched m)"
  using search_split [of r "[]" "js_chars s" m] by (auto simp: rx_match_def js_includes_iff)

text \<open>Replacing every match by itself changes nothing: the matches and the text between them make up the
  input, whatever the pattern.\<close>

lemma fst_replace_all:
  "fst (replace_all r (\<lambda>m st. (matched m, st)) pre post st) =
     (case first_outcome r pre post of
        None \<Rightarrow> (case post of [] \<Rightarrow> [] | c # cs \<Rightarrow> c @ fst (replace_all r (\<lambda>m st. (matched m, st)) (c # pre) cs st))
      | Some q \<Rightarrow>
          matched (result_of pre q) @
          (if length (ahead q) < length post
           then fst (replace_all r (\<lambda>m st. (matched m, st)) (behind q) (ahead q) st)
           else (case post of [] \<Rightarrow> [] | c # cs \<Rightarrow> c @ fst (replace_all r (\<lambda>m st. (matched m, st)) (c # pre) cs st))))"
  by (subst replace_all.simps) (simp split: option.split list.split prod.split)

lemma replace_all_identity: "fst (replace_all r (\<lambda>m st. (matched m, st)) pre post st) = concat post"
proof (induction "length post" arbitrary: pre post rule: less_induct)
  case less
  have tail: "(case post of [] \<Rightarrow> [] | c # cs \<Rightarrow> c @ fst (replace_all r (\<lambda>m st. (matched m, st)) (c # pre) cs st))
      = concat post"
    using less by (cases post) simp_all
  show ?case
  proof (cases "first_outcome r pre post")
    case None
    then show ?thesis using tail by (subst fst_replace_all) simp
  next
    case (Some q)
    then obtain u where u: "post = u @ ahead q" "matched (result_of pre q) = concat u"
      using first_outcome_split [OF Some] by blast
    show ?thesis
    proof (cases "length (ahead q) < length post")
      case True
      have "fst (replace_all r (\<lambda>m st. (matched m, st)) (behind q) (ahead q) st) = concat (ahead q)"
        by (rule less [OF True])
      moreover have "concat post = concat u @ concat (ahead q)" by (subst u(1)) simp
      ultimately show ?thesis using True Some u(2) by (subst fst_replace_all) simp
    next
      case False
      have "length post = length u + length (ahead q)" by (subst u(1)) simp
      with False have "u = []" by simp
      then show ?thesis using False Some u(2) tail by (subst fst_replace_all) simp
    qed
  qed
qed

theorem rx_replace_identity: "fst (rx_replace_with r (\<lambda>m st. (matched m, st)) s st) = s"
  by (simp add: rx_replace_with_def replace_all_identity)

end
