(* ===== verification/Incident.thy ===== *)
theory Incident
  imports User_Api Js_Date Js_Regex
begin

text \<open>
  Incidents (\<open>types/incident.ts\<close>, \<open>api/incident.ts\<close>, \<open>stores/incidentStore.ts\<close>,
  \<open>utils/incidentRootCause.ts\<close>, \<open>utils/incidentArchiveReport.ts\<close>): the translation between the
  states and severities of the console and those of the service, every endpoint, the counters of the
  store, the classification of root causes and the archive report.

  The current time is the argument \<open>now\<close>; \<open>host\<close> is the implementation's reader of dates outside
  the ISO format. A look-up in an object literal finds the literal's own keys.
\<close>

section \<open>Types\<close>

datatype incident_status =
  Detected | Alerted | Acknowledged | Analyzing | Mitigated | Resolved | Postmortem | Archived

datatype incident_severity = P0 | P1 | P2 | P3

datatype root_cause_category =
  ConfigCause | CapacityCause | DependencyCause | CodeDefectCause | SecurityCause | NetworkCause
| HardwareCause | UnknownCause

datatype timeline_type =
  LogBundleCreated | LogBundlePulled | AlertTriggered | IncidentCreated | IncidentAcked
| AssignmentUpdated | AnalysisStarted | ActionTaken | IncidentMitigated | IncidentResolved
| PostmortemCompleted | IncidentArchived | Escalation | Comment

record incident =
  inc_id :: string
  inc_title :: string
  inc_description :: string
  inc_severity :: incident_severity
  inc_status :: incident_status
  inc_source :: string
  inc_fingerprint :: string
  inc_assignee :: string
  inc_escalationLevel :: nat
  inc_detectedAt :: int
  inc_alertedAt :: "int option"
  inc_ackedAt :: "int option"
  inc_mitigatedAt :: "int option"
  inc_resolvedAt :: "int option"
  inc_archivedAt :: "int option"
  inc_alertIds :: "string list"
  inc_logBundleIds :: "string list"
  inc_affectedServices :: "string list"
  inc_affectedUsers :: nat
  inc_tags :: "string list"
  inc_createdAt :: int
  inc_updatedAt :: int
  inc_sourceAlertId :: "string option"
  inc_createdBy :: "string option"
  inc_rootCause :: "string option"
  inc_resolution :: "string option"
  inc_slaResponseMinutes :: "rat option"
  inc_slaResolveMinutes :: "rat option"
  inc_verdict :: "string option"

record timeline_event =
  ev_id :: string
  ev_incidentId :: string
  ev_type :: timeline_type
  ev_title :: string
  ev_description :: string
  ev_operator :: string
  ev_timestamp :: int

text \<open>What the service sends.\<close>

record backend_incident =
  bi_id :: string
  bi_title :: string
  bi_description :: string
  bi_severity :: string
  bi_status :: string
  bi_source_alert_id :: "string option"
  bi_assigned_to :: "string option"
  bi_created_by :: "string option"
  bi_acknowledged_at :: "string option"
  bi_resolved_at :: "string option"
  bi_closed_at :: "string option"
  bi_root_cause :: "string option"
  bi_resolution :: "string option"
  bi_verdict :: "string option"
  bi_sla_response_minutes :: "json option"
  bi_sla_resolve_minutes :: "json option"
  bi_created_at :: string
  bi_updated_at :: string

record backend_timeline_entry =
  bt_id :: string
  bt_incident_id :: string
  bt_action :: string
  bt_actor_id :: "string option"
  bt_detail :: string
  bt_created_at :: string

record backend_sla_summary =
  bsla_total_incidents :: "int option"
  bsla_compliant_incidents :: "int option"
  bsla_avg_response_minutes :: "rat option"
  bsla_avg_resolve_minutes :: "rat option"

record sla_summary =
  sla_totalIncidents :: int
  sla_compliantIncidents :: int
  sla_avgResponseMinutes :: "rat option"
  sla_avgResolveMinutes :: "rat option"

section \<open>Names\<close>

fun status_name :: "incident_status \<Rightarrow> string" where
  "status_name Detected = ''detected''"
| "status_name Alerted = ''alerted''"
| "status_name Acknowledged = ''acknowledged''"
| "status_name Analyzing = ''analyzing''"
| "status_name Mitigated = ''mitigated''"
| "status_name Resolved = ''resolved''"
| "status_name Postmortem = ''postmortem''"
| "status_name Archived = ''archived''"

fun severity_name :: "incident_severity \<Rightarrow> string" where
  "severity_name P0 = ''P0''"
| "severity_name P1 = ''P1''"
| "severity_name P2 = ''P2''"
| "severity_name P3 = ''P3''"

section \<open>Translation\<close>

definition mapSeverity :: "string \<Rightarrow> incident_severity" where
  "mapSeverity sev =
     (let s = toLowerCase sev
      in if s = ''critical'' \<or> s = ''p0'' then P0
         else if s = ''major'' \<or> s = ''p1'' then P1
         else if s = ''minor'' \<or> s = ''p2'' then P2
         else P3)"

definition status_map :: "(string, incident_status) jsmap" where
  "status_map =
     [(''open'', Alerted), (''acknowledged'', Acknowledged), (''investigating'', Analyzing),
      (''resolved'', Resolved), (''closed'', Archived), (''detected'', Detected), (''alerted'', Alerted),
      (''analyzing'', Analyzing), (''mitigated'', Mitigated), (''postmortem'', Postmortem),
      (''archived'', Archived)]"

definition mapStatus :: "string \<Rightarrow> incident_status" where
  "mapStatus s = nullish (jm_get status_map (toLowerCase s)) Detected"

definition parseTime :: "(string \<Rightarrow> int option) \<Rightarrow> string option \<Rightarrow> int option" where
  "parseTime host time = (case nonempty time of None \<Rightarrow> None | Some s \<Rightarrow> date_parse host s)"

definition number_field :: "json option \<Rightarrow> rat option" where
  "number_field v = (case v of Some (JNum q) \<Rightarrow> Some q | _ \<Rightarrow> None)"

definition mapBackendIncidentToFrontend :: "(string \<Rightarrow> int option) \<Rightarrow> int \<Rightarrow> backend_incident \<Rightarrow> incident" where
  "mapBackendIncidentToFrontend host now r =
     (let createdAt = nullish (parseTime host (Some (bi_created_at r))) now;
          updatedAt = nullish (parseTime host (Some (bi_updated_at r))) now
      in \<lparr>inc_id = bi_id r, inc_title = bi_title r, inc_description = bi_description r,
          inc_severity = mapSeverity (bi_severity r), inc_status = mapStatus (bi_status r),
          inc_source = nullish (nonempty (bi_source_alert_id r)) ''-'', inc_fingerprint = bi_id r,
          inc_assignee = nullish (bi_assigned_to r) [], inc_escalationLevel = 1,
          inc_detectedAt = createdAt, inc_alertedAt = parseTime host (Some (bi_created_at r)),
          inc_ackedAt = parseTime host (bi_acknowledged_at r), inc_mitigatedAt = None,
          inc_resolvedAt = parseTime host (bi_resolved_at r), inc_archivedAt = parseTime host (bi_closed_at r),
          inc_alertIds = (case nonempty (bi_source_alert_id r) of None \<Rightarrow> [] | Some i \<Rightarrow> [i]),
          inc_logBundleIds = [], inc_affectedServices = [], inc_affectedUsers = 0, inc_tags = [],
          inc_createdAt = createdAt, inc_updatedAt = updatedAt,
          inc_sourceAlertId = nonempty (bi_source_alert_id r), inc_createdBy = nonempty (bi_created_by r),
          inc_rootCause = nonempty (bi_root_cause r), inc_resolution = nonempty (bi_resolution r),
          inc_slaResponseMinutes = number_field (bi_sla_response_minutes r),
          inc_slaResolveMinutes = number_field (bi_sla_resolve_minutes r),
          inc_verdict = nonempty (bi_verdict r)\<rparr>)"

definition backend_status_map :: "(string, string) jsmap" where
  "backend_status_map =
     [(''detected'', ''open''), (''alerted'', ''open''), (''acknowledged'', ''acknowledged''),
      (''analyzing'', ''investigating''), (''mitigated'', ''resolved''), (''resolved'', ''resolved''),
      (''postmortem'', ''resolved''), (''archived'', ''closed'')]"

definition toBackendStatus :: "string \<Rightarrow> string" where
  "toBackendStatus s = nullish (jm_get backend_status_map s) s"

definition backend_severity_map :: "(string, string) jsmap" where
  "backend_severity_map =
     [(''P0'', ''critical''), (''P1'', ''major''), (''P2'', ''minor''), (''P3'', ''minor'')]"

definition toBackendSeverity :: "string \<Rightarrow> string" where
  "toBackendSeverity s = nullish (jm_get backend_severity_map s) ''minor''"

definition action_map :: "(string, timeline_type) jsmap" where
  "action_map =
     [(''created'', IncidentCreated), (''acknowledged'', IncidentAcked), (''assigned'', AssignmentUpdated),
      (''investigating'', AnalysisStarted), (''resolved'', IncidentResolved), (''closed'', IncidentArchived)]"

definition mapActionToType :: "string \<Rightarrow> timeline_type" where
  "mapActionToType action = nullish (jm_get action_map (toLowerCase action)) Comment"

section \<open>Endpoints\<close>

definition requestIncidentApi where
  "requestIncidentApi = request_api ''/incidents'' ''incident api'' ''INCIDENT_API_REQUEST_FAILED''"

record incident_filters =
  if_status :: "string option"
  if_severity :: "string option"
  if_query :: "string option"

definition filter_value :: "(string \<Rightarrow> string) \<Rightarrow> string option \<Rightarrow> string option" where
  "filter_value f v =
     (case nonempty v of None \<Rightarrow> None | Some s \<Rightarrow> if s = ''all'' then None else Some (f s))"

definition fetchIncidents ::
    "(string \<Rightarrow> int option) \<Rightarrow> int \<Rightarrow> api_env \<Rightarrow> backend_incident list option server
     \<Rightarrow> int option \<Rightarrow> int option \<Rightarrow> incident_filters option \<Rightarrow> api_error + (incident list \<times> jsnum)" where
  "fetchIncidents host now env server page pageSize filters =
     map_envelope (\<lambda>e.
         let items = nullish (Option.bind (env_data e) id) []
         in Inr (map (mapBackendIncidentToFrontend host now) items,
                 nullish (env_total e) (Fin (of_nat (length items)))))
       (requestIncidentApi env server [] ''GET''
          [(''page'', Some (int_to_string (nullish page 1))),
           (''page_size'', Some (int_to_string (nullish pageSize 20))),
           (''status'', filter_value toBackendStatus (Option.bind filters if_status)),
           (''severity'', filter_value toBackendSeverity (Option.bind filters if_severity)),
           (''query'', map_option trim (nonempty (Option.bind filters if_query)))] None)"

record create_incident_payload =
  ci_title :: string
  ci_description :: "string option"
  ci_severity :: "string option"
  ci_assigned_to :: "string option"

definition createIncident ::
    "api_env \<Rightarrow> string option server \<Rightarrow> create_incident_payload \<Rightarrow> api_error + string" where
  "createIncident env server d =
     map_envelope (\<lambda>e. case nonempty (Option.bind (env_data e) id) of
         None \<Rightarrow> Inl (CallError zh_incident_created_no_id)
       | Some i \<Rightarrow> Inr i)
       (requestIncidentApi env server [] ''POST'' []
          (Some (body_fields
            [(''title'', Some (JStr (ci_title d))),
             (''description'', Some (JStr (nullish (ci_description d) []))),
             (''severity'', Some (JStr (case nonempty (ci_severity d) of
                                          None \<Rightarrow> ''minor'' | Some s \<Rightarrow> toBackendSeverity s))),
             (''assigned_to'', map_option JStr (nonempty (ci_assigned_to d)))])))"

record update_incident_payload =
  ui_title :: "string option"
  ui_description :: "string option"
  ui_severity :: "string option"
  ui_assigned_to :: "string option"
  ui_root_cause :: "string option"
  ui_resolution :: "string option"

definition incident_path :: "string \<Rightarrow> string \<Rightarrow> string" where
  "incident_path i action = ''/'' @ encodeURIComponent i @ action"

definition updateIncident ::
    "api_env \<Rightarrow> unit server \<Rightarrow> string \<Rightarrow> update_incident_payload \<Rightarrow> api_error + unit" where
  "updateIncident env server i d =
     map_envelope (\<lambda>_. Inr ())
       (requestIncidentApi env server (incident_path i []) ''PUT'' []
          (Some (body_fields
            [(''title'', map_option JStr (ui_title d)),
             (''description'', map_option JStr (ui_description d)),
             (''severity'', map_option (JStr \<circ> toBackendSeverity) (ui_severity d)),
             (''assigned_to'', map_option JStr (ui_assigned_to d)),
             (''root_cause'', map_option JStr (ui_root_cause d)),
             (''resolution'', map_option JStr (ui_resolution d))])))"

definition archiveIncident :: "api_env \<Rightarrow> unit server \<Rightarrow> string \<Rightarrow> string \<Rightarrow> api_error + unit" where
  "archiveIncident env server i verdict =
     (if trim verdict = [] then Inl (CallError ''verdict is required'')
      else map_envelope (\<lambda>_. Inr ())
        (requestIncidentApi env server (incident_path i ''/archive'') ''POST'' []
          (Some (body_fields [(''verdict'', Some (JStr (trim verdict)))]))))"

definition deleteIncident :: "api_env \<Rightarrow> unit server \<Rightarrow> string \<Rightarrow> api_error + unit" where
  "deleteIncident env server i =
     map_envelope (\<lambda>_. Inr ()) (requestIncidentApi env server (incident_path i []) ''DELETE'' [] None)"

definition acknowledgeIncident :: "api_env \<Rightarrow> unit server \<Rightarrow> string \<Rightarrow> api_error + unit" where
  "acknowledgeIncident env server i =
     map_envelope (\<lambda>_. Inr ()) (requestIncidentApi env server (incident_path i ''/acknowledge'') ''POST'' [] None)"

definition investigateIncident :: "api_env \<Rightarrow> unit server \<Rightarrow> string \<Rightarrow> api_error + unit" where
  "investigateIncident env server i =
     map_envelope (\<lambda>_. Inr ()) (requestIncidentApi env server (incident_path i ''/investigate'') ''POST'' [] None)"

definition resolveIncident :: "api_env \<Rightarrow> unit server \<Rightarrow> string \<Rightarrow> string option \<Rightarrow> api_error + unit" where
  "resolveIncident env server i resolution =
     map_envelope (\<lambda>_. Inr ())
       (requestIncidentApi env server (incident_path i ''/resolve'') ''POST'' []
          (Some (body_fields [(''resolution'', map_option JStr (nonempty resolution))])))"

definition closeIncident :: "api_env \<Rightarrow> unit server \<Rightarrow> string \<Rightarrow> api_error + unit" where
  "closeIncident env server i =
     map_envelope (\<lambda>_. Inr ()) (requestIncidentApi env server (incident_path i ''/close'') ''POST'' [] None)"

definition timeline_entry :: "(string \<Rightarrow> int option) \<Rightarrow> int \<Rightarrow> backend_timeline_entry \<Rightarrow> timeline_event" where
  "timeline_entry host now e =
     \<lparr>ev_id = bt_id e, ev_incidentId = bt_incident_id e, ev_type = mapActionToType (bt_action e),
      ev_title = bt_action e, ev_description = bt_detail e,
      ev_operator = nullish (nonempty (bt_actor_id e)) ''system'',
      ev_timestamp = nullish (parseTime host (Some (bt_created_at e))) now\<rparr>"

definition fetchIncidentTimeline ::
    "(string \<Rightarrow> int option) \<Rightarrow> int \<Rightarrow> api_env \<Rightarrow> backend_timeline_entry list option server \<Rightarrow> string
     \<Rightarrow> api_error + timeline_event list" where
  "fetchIncidentTimeline host now env server i =
     map_envelope (\<lambda>e. Inr (map (timeline_entry host now) (nullish (Option.bind (env_data e) id) [])))
       (requestIncidentApi env server (incident_path i ''/timeline'') ''GET'' [] None)"

definition fetchIncidentDetail ::
    "(string \<Rightarrow> int option) \<Rightarrow> int \<Rightarrow> api_env \<Rightarrow> backend_incident server \<Rightarrow> string \<Rightarrow> api_error + incident" where
  "fetchIncidentDetail host now env server i =
     map_envelope (\<lambda>e. case env_data e of
         None \<Rightarrow> Inl (CallError ''incident not found'')
       | Some d \<Rightarrow> Inr (mapBackendIncidentToFrontend host now d))
       (requestIncidentApi env server (incident_path i []) ''GET'' [] None)"

definition fetchSLASummary :: "api_env \<Rightarrow> backend_sla_summary server \<Rightarrow> api_error + sla_summary" where
  "fetchSLASummary env server =
     map_envelope (\<lambda>e. let d = env_data e in
         Inr \<lparr>sla_totalIncidents = nullish (Option.bind d bsla_total_incidents) 0,
              sla_compliantIncidents = nullish (Option.bind d bsla_compliant_incidents) 0,
              sla_avgResponseMinutes = Option.bind d bsla_avg_response_minutes,
              sla_avgResolveMinutes = Option.bind d bsla_avg_resolve_minutes\<rparr>)
       (requestIncidentApi env server ''/sla/summary'' ''GET'' [] None)"

section \<open>The incident store\<close>

record incident_store =
  statusCounts :: "(string, int) jsmap"
  openCount :: int

definition INITIAL_COUNTS :: "(string, int) jsmap" where
  "INITIAL_COUNTS =
     [(''detected'', 2), (''alerted'', 3), (''acknowledged'', 5), (''analyzing'', 2), (''mitigated'', 1),
      (''resolved'', 8), (''postmortem'', 3), (''archived'', 42)]"

definition open_sum :: "(string, int) jsmap \<Rightarrow> int" where
  "open_sum counts = sum_list (map snd (filter (\<lambda>e. fst e \<noteq> ''archived'') counts))"

definition initial_incident_store :: incident_store where
  "initial_incident_store = \<lparr>statusCounts = INITIAL_COUNTS, openCount = open_sum INITIAL_COUNTS\<rparr>"

definition refreshStatusCounts :: "incident_store \<Rightarrow> incident_store" where
  "refreshStatusCounts st = st\<lparr>openCount := open_sum (statusCounts st)\<rparr>"

section \<open>Root causes\<close>

text \<open>A regular expression that is an alternation of literals matches exactly the texts that contain one
  of them.\<close>

definition mentions :: "string list \<Rightarrow> string \<Rightarrow> bool" where
  "mentions ws text \<longleftrightarrow> list_ex (js_includes text) ws"

definition root_cause_keywords :: "(string list \<times> root_cause_category) list" where
  "root_cause_keywords =
     [([zh_cause_config_1, zh_cause_config_2, zh_cause_config_3, zh_cause_config_4, zh_cause_config_5,
        ''config'', ''setting'', ''certificate'', ''secret'', ''permission''], ConfigCause),
      ([zh_cause_capacity_1, zh_cause_capacity_2, zh_cause_capacity_3, ''cpu'', zh_cause_capacity_4,
        zh_cause_capacity_5, ''oom'', ''capacity'', ''memory'', ''disk'', ''heap''], CapacityCause),
      ([zh_cause_dependency_1, zh_cause_dependency_2, ''es'', ''redis'', ''kafka'', ''mq'', ''dependency'',
        ''upstream'', ''downstream'', ''mysql'', ''postgres''], DependencyCause),
      ([zh_cause_defect_1, zh_cause_defect_2, ''bug'', zh_cause_defect_3, ''panic'', ''nil pointer'', ''defect'',
        ''regression''], CodeDefectCause),
      ([zh_cause_security_1, zh_cause_security_2, zh_cause_security_3, zh_cause_security_4, ''security'', ''cve'',
        ''attack''], SecurityCause),
      ([zh_cause_network_1, zh_cause_network_2, zh_cause_network_3, ''dns'', zh_cause_network_4, ''gateway'',
        ''network'', ''timeout''], NetworkCause),
      ([zh_cause_hardware_1, zh_cause_hardware_2, zh_cause_hardware_3, zh_cause_hardware_4, zh_cause_hardware_5,
        ''hardware'', ''host'', ''node''], HardwareCause)]"

definition classifyRootCause :: "string option \<Rightarrow> root_cause_category" where
  "classifyRootCause rootCause =
     (let text = toLowerCase (nullish rootCause [])
      in if text = [] then UnknownCause
         else case find (\<lambda>r. mentions (fst r) text) root_cause_keywords of
                None \<Rightarrow> UnknownCause
              | Some r \<Rightarrow> snd r)"

section \<open>The archive report\<close>

definition filename_char :: "char \<Rightarrow> bool" where
  "filename_char c \<longleftrightarrow> is_alnum c \<or> c = CHR ''-'' \<or> c = CHR ''_''"

definition strip_dashes :: "string \<Rightarrow> string" where
  "strip_dashes s =
     (let t = (if startsWith s ''-'' then tl s else s) in if endsWith t ''-'' then butlast t else t)"

definition sanitizeFilenameSegment :: "string \<Rightarrow> string" where
  "sanitizeFilenameSegment v =
     or_str (strip_dashes (replace_runs (\<lambda>c. c = CHR ''-'') ''-''
              (replace_runs (\<lambda>c. \<not> filename_char c) ''-'' (trim v)))) ''incident''"

definition buildIncidentArchiveReportFilename :: "incident \<Rightarrow> string \<Rightarrow> string" where
  "buildIncidentArchiveReportFilename i extension =
     ''incident-archive-'' @ inc_id i @ ''-'' @ sanitizeFilenameSegment (or_str (inc_title i) ''archive-report'')
     @ ''.'' @ extension"

text \<open>\<open>locale_time\<close> is \<open>new Date(t).toLocaleString('zh-CN', ...)\<close>.\<close>

definition formatIncidentReportDateTime :: "(int \<Rightarrow> string) \<Rightarrow> int option \<Rightarrow> string" where
  "formatIncidentReportDateTime locale_time timestamp =
     (case timestamp of None \<Rightarrow> ''-'' | Some t \<Rightarrow> if t = 0 then ''-'' else locale_time t)"

fun timelineTypeLabel :: "timeline_type \<Rightarrow> string" where
  "timelineTypeLabel LogBundleCreated = zh_ev_log_bundle_created"
| "timelineTypeLabel LogBundlePulled = zh_ev_log_bundle_pulled"
| "timelineTypeLabel AlertTriggered = zh_ev_alert_triggered"
| "timelineTypeLabel IncidentCreated = zh_ev_incident_created"
| "timelineTypeLabel IncidentAcked = zh_ev_incident_acked"
| "timelineTypeLabel AssignmentUpdated = zh_ev_assignment_updated"
| "timelineTypeLabel AnalysisStarted = zh_ev_analysis_started"
| "timelineTypeLabel ActionTaken = zh_ev_action_taken"
| "timelineTypeLabel IncidentMitigated = zh_ev_incident_mitigated"
| "timelineTypeLabel IncidentResolved = zh_ev_incident_resolved"
| "timelineTypeLabel PostmortemCompleted = zh_ev_postmortem_completed"
| "timelineTypeLabel IncidentArchived = zh_ev_incident_archived"
| "timelineTypeLabel Escalation = zh_ev_escalation"
| "timelineTypeLabel Comment = zh_ev_comment"

definition markdown_special :: "char \<Rightarrow> bool" where
  "markdown_special c \<longleftrightarrow> c \<in> set (CHR 0x5C # CHR 0x60 # ''*_{}[]()#+-.!|>'')"

definition escapeMarkdown :: "string \<Rightarrow> string" where
  "escapeMarkdown v = concat (map (\<lambda>c. if markdown_special c then [CHR 0x5C, c] else [c]) v)"

text \<open>\<open>text?.trim() || fallback\<close>.\<close>

definition trimmed_or :: "string option \<Rightarrow> string \<Rightarrow> string" where
  "trimmed_or v fallback = or_str (nullish (map_option trim v) []) fallback"

definition report_minutes :: "rat option \<Rightarrow> string" where
  "report_minutes m = escapeMarkdown (case m of None \<Rightarrow> ''-'' | Some q \<Rightarrow> rat_to_string q @ zh_report_minutes)"

definition report_header :: "(int \<Rightarrow> string) \<Rightarrow> incident \<Rightarrow> string list" where
  "report_header lt i =
     (let time = \<lambda>t. escapeMarkdown (formatIncidentReportDateTime lt t) in
      [zh_report_title, [], zh_report_basic, [],
       zh_report_id @ escapeMarkdown (inc_id i),
       zh_report_name @ escapeMarkdown (inc_title i),
       zh_report_status @ escapeMarkdown (status_name (inc_status i)),
       zh_report_severity @ escapeMarkdown (severity_name (inc_severity i)),
       zh_report_assignee @ escapeMarkdown (or_str (inc_assignee i) zh_report_unassigned),
       zh_report_creator @ escapeMarkdown (nullish (nonempty (inc_createdBy i)) zh_report_unknown),
       zh_report_source @ escapeMarkdown (nullish (nonempty (inc_sourceAlertId i)) ''-''),
       zh_report_detected @ time (Some (inc_detectedAt i)),
       zh_report_acked @ time (inc_ackedAt i),
       zh_report_resolved @ time (inc_resolvedAt i),
       zh_report_archived @ time (inc_archivedAt i),
       zh_report_sla_response @ report_minutes (inc_slaResponseMinutes i),
       zh_report_sla_resolve @ report_minutes (inc_slaResolveMinutes i),
       [], zh_report_verdict, [], trimmed_or (inc_verdict i) zh_report_no_verdict,
       [], zh_report_cause, [], trimmed_or (inc_rootCause i) zh_report_no_cause,
       [], zh_report_resolution, [], trimmed_or (inc_resolution i) zh_report_no_resolution,
       [], zh_report_timeline, []])"

definition report_event :: "(int \<Rightarrow> string) \<Rightarrow> nat \<times> timeline_event \<Rightarrow> string list" where
  "report_event lt ie =
     (case ie of (index, e) \<Rightarrow>
       [nat_to_string (index + 1) @ ''. **'' @ timelineTypeLabel (ev_type e) @ ''**'',
        zh_report_ev_time @ formatIncidentReportDateTime lt (Some (ev_timestamp e)),
        zh_report_ev_operator @ or_str (ev_operator e) zh_report_system,
        zh_report_ev_title @ or_str (ev_title e) ''-'',
        zh_report_ev_description @ or_str (ev_description e) ''-''])"

definition report_timeline :: "(int \<Rightarrow> string) \<Rightarrow> timeline_event list \<Rightarrow> string list" where
  "report_timeline lt timeline =
     (if timeline = [] then [zh_report_no_timeline]
      else concat (map (report_event lt) (List.enumerate 0 timeline)))"

definition buildIncidentArchiveReportMarkdown ::
    "(int \<Rightarrow> string) \<Rightarrow> int \<Rightarrow> incident \<Rightarrow> timeline_event list \<Rightarrow> string" where
  "buildIncidentArchiveReportMarkdown lt now i timeline =
     join [CHR 0x0A]
       (report_header lt i @ report_timeline lt timeline
        @ [[], zh_report_generated @ formatIncidentReportDateTime lt (Some now)])"

definition shouldAllowIncidentArchiveReport :: "incident \<Rightarrow> bool" where
  "shouldAllowIncidentArchiveReport i \<longleftrightarrow> inc_status i = Archived"

definition buildIncidentArchivePrintRoute :: "string \<Rightarrow> bool \<Rightarrow> string" where
  "buildIncidentArchivePrintRoute i autoPrint =
     ''/#/incidents/archive/report/'' @ encodeURIComponent i @ (if autoPrint then ''?print=1'' else [])"

section \<open>Lemmas\<close>

definition no_double_dash :: "string \<Rightarrow> bool" where
  "no_double_dash = successively (\<lambda>a b. \<not> (a = CHR ''-'' \<and> b = CHR ''-''))"

lemma no_double_dash_simps:
  "no_double_dash []"
  "no_double_dash (c # s) \<longleftrightarrow> s = [] \<or> \<not> (c = CHR ''-'' \<and> hd s = CHR ''-'') \<and> no_double_dash s"
  "no_double_dash (s @ [c]) \<longleftrightarrow> s = [] \<or> no_double_dash s \<and> \<not> (last s = CHR ''-'' \<and> c = CHR ''-'')"
  by (auto simp: no_double_dash_def successively_Cons successively_append_iff)

lemma replace_runs_hd:
  "\<not> P (hd s) \<Longrightarrow> s \<noteq> [] \<Longrightarrow> replace_runs P r s \<noteq> [] \<and> hd (replace_runs P r s) = hd s"
  by (cases s) auto

lemma replace_runs_no_double: "no_double_dash (replace_runs (\<lambda>c. c = CHR ''-'') ''-'' s)"
proof (induction "\<lambda>c. c = CHR ''-''" "''-''" s rule: replace_runs.induct)
  case (2 c s)
  show ?case
  proof (cases "c = CHR ''-''")
    case True
    let ?P = "\<lambda>c. c = CHR ''-''"
    let ?r = "replace_runs ?P ''-'' (dropWhile ?P s)"
    have "?r = [] \<or> hd ?r \<noteq> CHR ''-''"
    proof (cases "dropWhile ?P s")
      case (Cons d t)
      moreover then have "d \<noteq> CHR ''-''" using hd_dropWhile [of ?P s] by auto
      ultimately show ?thesis by simp
    qed (simp only: replace_runs.simps simp_thms)
    then show ?thesis using True 2(1) by (auto simp: no_double_dash_simps(2) simp del: dropWhile_eq_Nil_conv)
  next
    case False
    have "dropWhile (\<lambda>c. c = CHR ''-'') [] = []" by simp
    then show ?thesis using False 2(2) by (simp add: no_double_dash_simps)
  qed
qed (simp add: no_double_dash_simps)

lemma no_double_tl: "no_double_dash s \<Longrightarrow> no_double_dash (tl s)"
  by (cases s) (auto simp: no_double_dash_simps)

lemma no_double_butlast: "no_double_dash s \<Longrightarrow> no_double_dash (butlast s)"
  by (cases s rule: rev_cases) (auto simp: no_double_dash_simps)

lemma starts_dash: "startsWith s ''-'' \<longleftrightarrow> s \<noteq> [] \<and> hd s = CHR ''-''"
  by (cases s) (auto simp: startsWith_iff)

lemma ends_dash: "endsWith s ''-'' \<longleftrightarrow> s \<noteq> [] \<and> last s = CHR ''-''"
  by (cases s rule: rev_cases) (auto simp: endsWith_iff)

lemma tl_no_dash: "no_double_dash s \<Longrightarrow> startsWith s ''-'' \<Longrightarrow> tl s \<noteq> [] \<Longrightarrow> hd (tl s) \<noteq> CHR ''-''"
  by (cases s) (auto simp: starts_dash no_double_dash_simps)

lemma butlast_no_dash:
  "no_double_dash s \<Longrightarrow> endsWith s ''-'' \<Longrightarrow> butlast s \<noteq> [] \<Longrightarrow> last (butlast s) \<noteq> CHR ''-''"
  by (cases s rule: rev_cases) (auto simp: ends_dash no_double_dash_simps)

lemma hd_butlast_eq: "butlast s \<noteq> [] \<Longrightarrow> hd (butlast s) = hd s"
  by (cases s) (auto split: if_splits)

lemma strip_dashes_ends:
  assumes "no_double_dash s" and "strip_dashes s \<noteq> []"
  shows "hd (strip_dashes s) \<noteq> CHR ''-''" and "last (strip_dashes s) \<noteq> CHR ''-''"
    and "no_double_dash (strip_dashes s)"
proof -
  define t where "t = (if startsWith s ''-'' then tl s else s)"
  have e: "strip_dashes s = (if endsWith t ''-'' then butlast t else t)"
    by (simp add: strip_dashes_def t_def Let_def)
  have t: "no_double_dash t" using assms(1) by (auto simp: t_def no_double_tl)
  have h: "t \<noteq> [] \<Longrightarrow> hd t \<noteq> CHR ''-''"
    using assms(1) tl_no_dash [of s] by (auto simp: t_def starts_dash)
  show "hd (strip_dashes s) \<noteq> CHR ''-''"
    using h assms(2) hd_butlast_eq [of t] by (cases "t = []") (auto simp: e split: if_splits)
  show "last (strip_dashes s) \<noteq> CHR ''-''"
    using butlast_no_dash [OF t] assms(2) by (auto simp: e ends_dash split: if_splits)
  show "no_double_dash (strip_dashes s)"
    using t no_double_butlast by (simp add: e)
qed

lemma set_strip_dashes: "set (strip_dashes s) \<subseteq> set s"
proof -
  have "set (butlast t) \<subseteq> set t" "set (tl t) \<subseteq> set t" for t :: string
    by (auto dest: in_set_butlastD) (cases t; simp)
  then show ?thesis unfolding strip_dashes_def Let_def by (smt (verit) subset_trans subset_refl)
qed

lemma requestIncidentApi_Inr:
  "requestIncidentApi env server p m q b = Inr e \<Longrightarrow>
     \<exists>u h st bd. server \<lparr>rq_url = u, rq_method = m, rq_headers = h, rq_body = b\<rparr> = HttpResponse True st bd
       \<and> e = nullish bd default_envelope"
  unfolding requestIncidentApi_def by (rule request_api_Inr)

section \<open>Properties\<close>

text \<open>The translation between the console's and the service's vocabulary is consistent. Every state and
  severity the service stores is shown as a state whose translation back is the stored one, so that
  filtering a list by what it shows asks for the right incidents. In the other direction a state of the
  console survives unless the service has no state for it (detected, mitigated, postmortem), and a
  severity survives except P3, which becomes P2.\<close>

theorem incident_vocabulary_consistent:
  "list_all (\<lambda>b. toBackendStatus (status_name (mapStatus b)) = b)
     [''open'', ''acknowledged'', ''investigating'', ''resolved'', ''closed'']
   \<and> list_all (\<lambda>b. toBackendSeverity (severity_name (mapSeverity b)) = b) [''critical'', ''major'', ''minor'']
   \<and> (mapStatus (toBackendStatus (status_name s)) = s) = (s \<notin> {Detected, Mitigated, Postmortem})
   \<and> mapSeverity (toBackendSeverity (severity_name v)) = (if v = P3 then P2 else v)"
proof (intro conjI)
  show "list_all (\<lambda>b. toBackendStatus (status_name (mapStatus b)) = b)
     [''open'', ''acknowledged'', ''investigating'', ''resolved'', ''closed'']" by code_simp
  show "list_all (\<lambda>b. toBackendSeverity (severity_name (mapSeverity b)) = b) [''critical'', ''major'', ''minor'']"
    by code_simp
  have "list_all (\<lambda>s. (mapStatus (toBackendStatus (status_name s)) = s) = (s \<notin> {Detected, Mitigated, Postmortem}))
      [Detected, Alerted, Acknowledged, Analyzing, Mitigated, Resolved, Postmortem, Archived]" by code_simp
  then show "(mapStatus (toBackendStatus (status_name s)) = s) = (s \<notin> {Detected, Mitigated, Postmortem})"
    by (cases s) (simp_all only: list.pred_inject simp_thms)
  have "list_all (\<lambda>v. mapSeverity (toBackendSeverity (severity_name v)) = (if v = P3 then P2 else v)) [P0, P1, P2, P3]"
    by code_simp
  then show "mapSeverity (toBackendSeverity (severity_name v)) = (if v = P3 then P2 else v)"
    by (cases v) (simp_all only: list.pred_inject simp_thms)
qed

text \<open>An incident is archived only with a verdict: whatever the server does, a blank verdict is refused
  before any request, and a call succeeds exactly when the verdict is not blank and the request with the
  trimmed verdict to the archive endpoint of that incident does.\<close>

theorem archive_needs_verdict:
  "(archiveIncident env server i verdict = Inr ()) =
     (trim verdict \<noteq> []
      \<and> \<not> isl (requestIncidentApi env server (''/'' @ encodeURIComponent i @ ''/archive'') ''POST'' []
                (Some (JObj [(''verdict'', JStr (trim verdict))]))))
   \<and> archiveIncident env server i (replicate n (CHR '' '')) = Inl (CallError ''verdict is required'')"
proof
  show "(archiveIncident env server i verdict = Inr ()) =
     (trim verdict \<noteq> []
      \<and> \<not> isl (requestIncidentApi env server (''/'' @ encodeURIComponent i @ ''/archive'') ''POST'' []
                (Some (JObj [(''verdict'', JStr (trim verdict))]))))"
    by (auto simp: archiveIncident_def incident_path_def body_fields_def List.map_filter_simps map_envelope_def
        split: sum.splits)
  have "trimStart (replicate n (CHR '' '')) = []"
    by (induction n) (subst trimStart.simps, simp add: ws_head_def ascii_ws_def)+
  then show "archiveIncident env server i (replicate n (CHR '' '')) = Inl (CallError ''verdict is required'')"
    by (simp add: archiveIncident_def trim_def)
qed

text \<open>The name of an archive report is safe to save: the part made from the title consists of letters,
  digits, underscores and single dashes, is not empty, and has no dash at either end, whatever the title.\<close>

theorem archive_filename_safe:
  "list_all filename_char (sanitizeFilenameSegment v) \<and> sanitizeFilenameSegment v \<noteq> []
   \<and> hd (sanitizeFilenameSegment v) \<noteq> CHR ''-'' \<and> last (sanitizeFilenameSegment v) \<noteq> CHR ''-''
   \<and> no_double_dash (sanitizeFilenameSegment v)"
proof -
  define s where "s = replace_runs (\<lambda>c. \<not> filename_char c) ''-'' (trim v)"
  define t where "t = replace_runs (\<lambda>c. c = CHR ''-'') ''-'' s"
  have dash: "filename_char (CHR ''-'')" by (simp add: filename_char_def)
  have "set s \<subseteq> Collect filename_char" using set_replace_runs dash unfolding s_def by fastforce
  then have "set t \<subseteq> Collect filename_char" using set_replace_runs dash unfolding t_def by fastforce
  then have st: "set (strip_dashes t) \<subseteq> Collect filename_char" using set_strip_dashes by blast
  have nd: "no_double_dash t" unfolding t_def by (rule replace_runs_no_double)
  have e: "sanitizeFilenameSegment v = or_str (strip_dashes t) ''incident''"
    by (simp add: sanitizeFilenameSegment_def s_def t_def)
  show ?thesis
  proof (cases "strip_dashes t = []")
    case True
    then have "sanitizeFilenameSegment v = ''incident''" by (simp add: e)
    moreover have "list_all filename_char ''incident'' \<and> no_double_dash ''incident''"
      unfolding no_double_dash_def by code_simp
    ultimately show ?thesis by (simp only: list.sel last.simps list.distinct) simp
  next
    case False
    then show ?thesis using st strip_dashes_ends [OF nd False] by (auto simp: e list_all_iff)
  qed
qed

text \<open>A page of incidents shows exactly what the server answered: the same incidents in the same order,
  and the server's total, or the number of incidents shown when it names none.\<close>

theorem incident_page_faithful:
  assumes "fetchIncidents host now env server page pageSize filters = Inr (items, n)"
  shows "\<exists>u h st bd. server \<lparr>rq_url = u, rq_method = ''GET'', rq_headers = h, rq_body = None\<rparr> = HttpResponse True st bd
    \<and> map inc_id items = map bi_id (nullish (Option.bind (Option.bind bd env_data) id) [])
    \<and> map inc_status items = map (mapStatus \<circ> bi_status) (nullish (Option.bind (Option.bind bd env_data) id) [])
    \<and> n = nullish (Option.bind bd env_total) (Fin (of_nat (length items)))"
proof -
  obtain e where r: "requestIncidentApi env server [] ''GET''
          [(''page'', Some (int_to_string (nullish page 1))),
           (''page_size'', Some (int_to_string (nullish pageSize 20))),
           (''status'', filter_value toBackendStatus (Option.bind filters if_status)),
           (''severity'', filter_value toBackendSeverity (Option.bind filters if_severity)),
           (''query'', map_option trim (nonempty (Option.bind filters if_query)))] None = Inr e"
    and v: "items = map (mapBackendIncidentToFrontend host now) (nullish (Option.bind (env_data e) id) [])"
      "n = nullish (env_total e) (Fin (of_nat (length items)))"
    using assms unfolding fetchIncidents_def by (auto dest!: map_envelope_Inr simp: Let_def)
  from requestIncidentApi_Inr [OF r] obtain u h st bd where
    s: "server \<lparr>rq_url = u, rq_method = ''GET'', rq_headers = h, rq_body = None\<rparr> = HttpResponse True st bd"
    and e: "e = nullish bd default_envelope" by blast
  have "Option.bind bd env_data = env_data e" "Option.bind bd env_total = env_total e"
    by (cases bd; simp add: e default_envelope_def)+
  then show ?thesis using s v
    by (intro exI [of _ u] exI [of _ h] exI [of _ st] exI [of _ bd])
       (simp add: mapBackendIncidentToFrontend_def Let_def)
qed

definition sample_incident :: backend_incident where
  "sample_incident =
     \<lparr>bi_id = ''i-1'', bi_title = ''Disk full'', bi_description = [], bi_severity = ''critical'',
      bi_status = ''investigating'', bi_source_alert_id = None, bi_assigned_to = None, bi_created_by = None,
      bi_acknowledged_at = None, bi_resolved_at = None, bi_closed_at = None, bi_root_cause = None,
      bi_resolution = None, bi_verdict = None, bi_sla_response_minutes = None, bi_sla_resolve_minutes = None,
      bi_created_at = ''2024-05-01T10:00:00Z'', bi_updated_at = ''2024-05-01T10:30:00.500+02:00''\<rparr>"

theorem incident_page_faithful_witness:
  "\<exists>(items :: incident list) n. map inc_id items = [''i-1''] \<and> map inc_status items = [Analyzing]
     \<and> n = Fin (of_nat (length items))"
proof -
  let ?server = "\<lambda>_. HttpResponse True 200 (Some (default_envelope\<lparr>env_data := Some (Some [sample_incident])\<rparr>))"
  let ?r = "fetchIncidents (\<lambda>_. None) 0 sample_env ?server None None None"
  have "\<not> isl ?r" by code_simp
  then obtain items n where "?r = Inr (items, n)" by (cases ?r) auto
  from incident_page_faithful [OF this] have
    "map inc_id items = [''i-1''] \<and> map inc_status items = [mapStatus ''investigating'']
     \<and> n = Fin (of_nat (length items))"
    by (auto simp: default_envelope_def sample_incident_def)
  moreover have "mapStatus ''investigating'' = Analyzing" by code_simp
  ultimately have "map inc_id items = [''i-1''] \<and> map inc_status items = [Analyzing]
     \<and> n = Fin (of_nat (length items))" by (simp only: simp_thms)
  then show ?thesis by (intro exI [of _ items] exI [of _ n])
qed

end
