(* ===== verification/Stores.thy ===== *)
theory Stores
  imports Auth_Storage Zh_Text
begin

text \<open>
  Client-side identifiers (\<open>utils/id.ts\<close>) and the small stores of the console: the alerts of the page
  header (\<open>stores/alertStore.ts\<close>), the notification centre (\<open>stores/notificationStore.ts\<close>), the page
  preferences (\<open>stores/preferencesStore.ts\<close>) and the theme (\<open>stores/themeStore.ts\<close>).

  Sources of randomness are arguments: the record \<open>crypto\<close> says which functions of Web Crypto the page
  has and what they deliver. A store's \<open>set\<close> merges the returned object into the state; its write-through
  to local storage is left out. The locale \<open>inbox\<close> is the contract of the two stores that count unread
  entries.
\<close>

unbundle bit_operations_syntax

section \<open>Identifiers\<close>

text \<open>\<open>randomUUID\<close> and \<open>getRandomValues\<close> are missing outside secure contexts; the byte at an index of the
  array, and the successive values of \<open>Math.random\<close> (in \<open>[0, 1)\<close>).\<close>

record crypto =
  randomUUID :: "string option"
  getRandomValues :: "(nat \<Rightarrow> 8 word) option"
  math_random :: "nat \<Rightarrow> rat"

definition getRandomBytes :: "crypto \<Rightarrow> nat \<Rightarrow> 8 word list" where
  "getRandomBytes c n =
     (case getRandomValues c of
        Some f \<Rightarrow> map f [0..<n]
      | None \<Rightarrow> map (\<lambda>i. word_of_int \<lfloor>math_random c i * 256\<rfloor>) [0..<n])"

definition byte_hex :: "8 word \<Rightarrow> string" where
  "byte_hex b = padStart 2 (CHR ''0'') (toString16 (unat b))"

definition createUuidV4 :: "crypto \<Rightarrow> string" where
  "createUuidV4 c =
     (case randomUUID c of
        Some u \<Rightarrow> u
      | None \<Rightarrow>
          (let bytes = getRandomBytes c 16;
               bytes = bytes[6 := (bytes ! 6 AND 0x0f) OR 0x40];
               bytes = bytes[8 := (bytes ! 8 AND 0x3f) OR 0x80];
               hex = concat (map byte_hex bytes)
           in js_slice 0 8 hex @ ''-'' @ js_slice 8 12 hex @ ''-'' @ js_slice 12 16 hex @ ''-''
              @ js_slice 16 20 hex @ ''-'' @ drop 20 hex))"

definition createClientId :: "crypto \<Rightarrow> string option \<Rightarrow> string" where
  "createClientId c pfx =
     (let uuid = createUuidV4 c
      in case pfx of None \<Rightarrow> uuid | Some p \<Rightarrow> if p = [] then uuid else p @ ''-'' @ uuid)"

definition short_alphabet :: string where
  "short_alphabet = ''abcdefghijklmnopqrstuvwxyz0123456789''"

definition createShortId :: "crypto \<Rightarrow> rat \<Rightarrow> string" where
  "createShortId c len =
     (let safeLength = nat (max 1 \<lfloor>len\<rfloor>); bytes = getRandomBytes c safeLength
      in map (\<lambda>i. short_alphabet ! (unat (bytes ! i) mod length short_alphabet)) [0..<safeLength])"

section \<open>The alert store\<close>

datatype alert_level = CriticalLevel | WarningLevel | InfoLevel

record alert_entry =
  al_id :: string
  al_title :: string
  al_message :: string
  al_level :: alert_level
  al_read :: bool
  al_timestamp :: int

record alert_store =
  alerts :: "alert_entry list"
  alerts_unread :: int

definition initial_alerts :: "int \<Rightarrow> alert_store" where
  "initial_alerts now =
     \<lparr>alerts =
        [\<lparr>al_id = ''1'', al_title = zh_alert_a1_title, al_message = zh_alert_a1_msg, al_level = WarningLevel,
          al_read = False, al_timestamp = now - 60000\<rparr>,
         \<lparr>al_id = ''2'', al_title = zh_alert_a2_title, al_message = zh_alert_a2_msg, al_level = CriticalLevel,
          al_read = False, al_timestamp = now - 120000\<rparr>,
         \<lparr>al_id = ''3'', al_title = zh_alert_a3_title, al_message = zh_alert_a3_msg, al_level = CriticalLevel,
          al_read = False, al_timestamp = now - 300000\<rparr>],
      alerts_unread = 3\<rparr>"

definition addAlert :: "crypto \<Rightarrow> int \<Rightarrow> string \<Rightarrow> string \<Rightarrow> alert_level \<Rightarrow> alert_store \<Rightarrow> alert_store" where
  "addAlert c now title message level st =
     st\<lparr>alerts := \<lparr>al_id = createClientId c (Some ''alert''), al_title = title, al_message = message,
                    al_level = level, al_read = False, al_timestamp = now\<rparr> # alerts st,
        alerts_unread := alerts_unread st + 1\<rparr>"

definition alert_markAsRead :: "string \<Rightarrow> alert_store \<Rightarrow> alert_store" where
  "alert_markAsRead i st =
     (let as = map (\<lambda>a. if al_id a = i then a\<lparr>al_read := True\<rparr> else a) (alerts st)
      in st\<lparr>alerts := as, alerts_unread := int (length (filter (\<lambda>a. \<not> al_read a) as))\<rparr>)"

definition markAllAsRead :: "alert_store \<Rightarrow> alert_store" where
  "markAllAsRead st = st\<lparr>alerts := map (\<lambda>a. a\<lparr>al_read := True\<rparr>) (alerts st), alerts_unread := 0\<rparr>"

definition alert_clearAll :: "alert_store \<Rightarrow> alert_store" where
  "alert_clearAll st = st\<lparr>alerts := [], alerts_unread := 0\<rparr>"

section \<open>The notification store\<close>

datatype note_type = NoteInfo | NoteWarning | NoteError | NoteSuccess

record notification =
  no_id :: string
  no_title :: string
  no_message :: string
  no_type :: note_type
  no_read :: bool
  no_timestamp :: int

record notification_store =
  notifications :: "notification list"
  notifications_unread :: int

definition initial_notifications :: notification_store where
  "initial_notifications = \<lparr>notifications = [], notifications_unread = 0\<rparr>"

definition addNotification ::
    "crypto \<Rightarrow> int \<Rightarrow> string \<Rightarrow> string \<Rightarrow> note_type \<Rightarrow> notification_store \<Rightarrow> notification_store" where
  "addNotification c now title message ty st =
     st\<lparr>notifications := \<lparr>no_id = createClientId c (Some ''notice''), no_title = title, no_message = message,
                           no_type = ty, no_read = False, no_timestamp = now\<rparr> # notifications st,
        notifications_unread := notifications_unread st + 1\<rparr>"

definition notification_markAsRead :: "string \<Rightarrow> notification_store \<Rightarrow> notification_store" where
  "notification_markAsRead i st =
     (let ns = map (\<lambda>n. if no_id n = i then n\<lparr>no_read := True\<rparr> else n) (notifications st)
      in st\<lparr>notifications := ns, notifications_unread := int (length (filter (\<lambda>n. \<not> no_read n) ns))\<rparr>)"

definition notification_clearAll :: "notification_store \<Rightarrow> notification_store" where
  "notification_clearAll st = st\<lparr>notifications := [], notifications_unread := 0\<rparr>"

section \<open>Preferences and theme\<close>

record preferences =
  pageSizes :: "(string, int) jsmap"
  refreshInterval :: int

definition initial_preferences :: preferences where
  "initial_preferences = \<lparr>pageSizes = [], refreshInterval = 30\<rparr>"

definition setPageSize :: "string \<Rightarrow> int \<Rightarrow> preferences \<Rightarrow> preferences" where
  "setPageSize pageKey n st = st\<lparr>pageSizes := jm_set pageKey n (pageSizes st)\<rparr>"

definition setRefreshInterval :: "int \<Rightarrow> preferences \<Rightarrow> preferences" where
  "setRefreshInterval interval st = st\<lparr>refreshInterval := interval\<rparr>"

datatype theme_mode = DarkMode | LightMode | AutoMode

datatype density_mode = Compact | Comfortable | Spacious

record theme_store =
  mode :: theme_mode
  density :: density_mode
  isDark :: bool

text \<open>\<open>system_dark\<close> is what the browser says of the preferred colour scheme, if it can be asked.\<close>

definition resolveIsDark :: "bool option \<Rightarrow> theme_mode \<Rightarrow> bool" where
  "resolveIsDark system_dark m = (if m = AutoMode then nullish system_dark True else m = DarkMode)"

definition initial_theme :: theme_store where
  "initial_theme = \<lparr>mode = DarkMode, density = Comfortable, isDark = True\<rparr>"

definition setMode :: "bool option \<Rightarrow> theme_mode \<Rightarrow> theme_store \<Rightarrow> theme_store" where
  "setMode system_dark m st = st\<lparr>mode := m, isDark := resolveIsDark system_dark m\<rparr>"

definition setDensity :: "density_mode \<Rightarrow> theme_store \<Rightarrow> theme_store" where
  "setDensity d st = st\<lparr>density := d\<rparr>"

text \<open>What is persisted, and the state after a reload: the persisted part merged into the initial state,
  then the rehydration hook.\<close>

definition theme_partialize :: "theme_store \<Rightarrow> theme_mode \<times> density_mode" where
  "theme_partialize st = (mode st, density st)"

definition theme_rehydrate :: "bool option \<Rightarrow> theme_mode \<times> density_mode \<Rightarrow> theme_store" where
  "theme_rehydrate system_dark saved =
     (let st = initial_theme\<lparr>mode := fst saved, density := snd saved\<rparr>
      in st\<lparr>isDark := resolveIsDark system_dark (mode st)\<rparr>)"

section \<open>The contract of an inbox\<close>

text \<open>A store of entries with a read flag and a counter of unread entries.\<close>

locale inbox =
  fixes entries_of :: "'s \<Rightarrow> 'i list"
    and unread :: "'s \<Rightarrow> int"
    and ident :: "'i \<Rightarrow> string"
    and seen :: "'i \<Rightarrow> bool"
    and add :: "'x \<Rightarrow> 's \<Rightarrow> 's"
    and mark :: "string \<Rightarrow> 's \<Rightarrow> 's"
    and clear :: "'s \<Rightarrow> 's"
  assumes add_entry: "\<exists>e. entries_of (add x s) = e # entries_of s \<and> \<not> seen e"
    and add_count: "unread (add x s) = unread s + 1"
    and mark_ids: "map ident (entries_of (mark i s)) = map ident (entries_of s)"
    and mark_seen: "map seen (entries_of (mark i s)) = map (\<lambda>e. ident e = i \<or> seen e) (entries_of s)"
    and mark_count: "unread (mark i s) = int (length (filter (\<lambda>e. \<not> seen e) (entries_of (mark i s))))"
    and clear_entries: "entries_of (clear s) = []"
    and clear_count: "unread (clear s) = 0"
begin

definition consistent :: "'s \<Rightarrow> bool" where
  "consistent s \<longleftrightarrow> unread s = int (length (filter (\<lambda>e. \<not> seen e) (entries_of s)))"

lemma consistent_add: "consistent s \<Longrightarrow> consistent (add x s)"
  using add_entry [of x s] add_count [of x s] by (auto simp: consistent_def)

lemma consistent_mark: "consistent (mark i s)"
  using mark_count by (simp add: consistent_def)

lemma consistent_clear: "consistent (clear s)"
  by (simp add: consistent_def clear_entries clear_count)

lemma unread_bounds: "consistent s \<Longrightarrow> 0 \<le> unread s \<and> unread s \<le> int (length (entries_of s))"
  by (simp add: consistent_def)

lemma length_filter_map: "length (filter P (map f xs)) = length (filter (P \<circ> f) xs)"
  by (simp add: filter_map)

text \<open>Marking never raises the counter, and marking twice is marking once.\<close>

lemma count_mark: "unread (mark i s) = int (length (filter (\<lambda>e. ident e \<noteq> i \<and> \<not> seen e) (entries_of s)))"
proof -
  have "length (filter (\<lambda>e. \<not> seen e) (entries_of (mark i s)))
      = length (filter Not (map seen (entries_of (mark i s))))" by (simp add: length_filter_map comp_def)
  also have "\<dots> = length (filter (\<lambda>e. ident e \<noteq> i \<and> \<not> seen e) (entries_of s))"
    by (simp add: mark_seen length_filter_map comp_def)
  finally show ?thesis by (simp add: mark_count)
qed

lemma mark_decreases: "consistent s \<Longrightarrow> unread (mark i s) \<le> unread s"
proof -
  have "length (filter (\<lambda>e. ident e \<noteq> i \<and> \<not> seen e) xs) \<le> length (filter (\<lambda>e. \<not> seen e) xs)" for xs
    by (induction xs) auto
  then show "consistent s \<Longrightarrow> unread (mark i s) \<le> unread s" by (simp add: count_mark consistent_def)
qed

end

interpretation ai: inbox alerts alerts_unread al_id al_read
  "\<lambda>(c, now, title, message, level). addAlert c now title message level" alert_markAsRead alert_clearAll
  by unfold_locales
    (auto simp: addAlert_def alert_markAsRead_def alert_clearAll_def Let_def split: prod.splits)

interpretation ni: inbox notifications notifications_unread no_id no_read
  "\<lambda>(c, now, title, message, ty). addNotification c now title message ty" notification_markAsRead
  notification_clearAll
  by unfold_locales
    (auto simp: addNotification_def notification_markAsRead_def notification_clearAll_def Let_def split: prod.splits)

section \<open>Runs of the stores\<close>

datatype alert_op =
  AddAlert crypto int string string alert_level | MarkAlertRead string | MarkAllAlertsRead | ClearAlerts

fun alert_step :: "alert_op \<Rightarrow> alert_store \<Rightarrow> alert_store" where
  "alert_step (AddAlert c now title message level) st = addAlert c now title message level st"
| "alert_step (MarkAlertRead i) st = alert_markAsRead i st"
| "alert_step MarkAllAlertsRead st = markAllAsRead st"
| "alert_step ClearAlerts st = alert_clearAll st"

datatype note_op = AddNote crypto int string string note_type | MarkNoteRead string | ClearNotes

fun note_step :: "note_op \<Rightarrow> notification_store \<Rightarrow> notification_store" where
  "note_step (AddNote c now title message ty) st = addNotification c now title message ty st"
| "note_step (MarkNoteRead i) st = notification_markAsRead i st"
| "note_step ClearNotes st = notification_clearAll st"

lemma alert_step_consistent: "ai.consistent st \<Longrightarrow> ai.consistent (alert_step op st)"
proof (cases op)
  case (AddAlert c now title message level)
  then show "ai.consistent st \<Longrightarrow> ?thesis"
    using ai.consistent_add [of st "(c, now, title, message, level)"] by simp
next
  case MarkAllAlertsRead
  then show ?thesis by (simp add: ai.consistent_def markAllAsRead_def filter_map comp_def)
qed (simp_all add: ai.consistent_mark ai.consistent_clear)

lemma note_step_consistent: "ni.consistent st \<Longrightarrow> ni.consistent (note_step op st)"
proof (cases op)
  case (AddNote c now title message ty)
  then show "ni.consistent st \<Longrightarrow> ?thesis"
    using ni.consistent_add [of st "(c, now, title, message, ty)"] by simp
qed (simp_all add: ni.consistent_mark ni.consistent_clear)

lemma alert_run_consistent: "ai.consistent st \<Longrightarrow> ai.consistent (fold alert_step ops st)"
  by (induction ops arbitrary: st) (simp_all add: alert_step_consistent)

lemma note_run_consistent: "ni.consistent st \<Longrightarrow> ni.consistent (fold note_step ops st)"
  by (induction ops arbitrary: st) (simp_all add: note_step_consistent)

section \<open>Lemmas on identifiers\<close>

lemma unat_byte: "unat (b :: 8 word) < 256"
  using unsigned_less [of b, where ?'a = nat] by simp

lemma hex_digits: "hex_digit 0 = CHR ''0''" "hex_digit 4 = CHR ''4''" "hex_digit 8 = CHR ''8''"
  "hex_digit 9 = CHR ''9''" "hex_digit 10 = CHR ''a''" "hex_digit 11 = CHR ''b''"
  by code_simp+

lemma byte_hex_eq: "byte_hex b = [hex_digit (unat b div 16), hex_digit (unat b mod 16)]"
proof -
  have "unat b < 256" by (rule unat_byte)
  then have d: "unat b div 16 < 16" by (simp add: less_mult_imp_div_less)
  show ?thesis
  proof (cases "unat b < 16")
    case True
    then show ?thesis
      by (simp add: byte_hex_def padStart_def toString16.simps [of "unat b"] hex_digits)
  next
    case False
    then show ?thesis
      using d by (simp add: byte_hex_def padStart_def toString16.simps [of "unat b"] toString16.simps [of "unat b div 16"])
  qed
qed

lemma byte_hex_hex: "list_all (\<lambda>c. hex_val c \<noteq> None) (byte_hex b)"
proof -
  have "unat b div 16 < 16" using unat_byte [of b] by (simp add: less_mult_imp_div_less)
  then show ?thesis by (simp add: byte_hex_eq hex_val_digit)
qed

lemma version_digit: "hd (byte_hex ((b AND 0x0f) OR 0x40)) = CHR ''4''"
proof -
  have "drop_bit 4 (unat b AND 15 OR 64) = 4"
    by (simp add: drop_bit_and drop_bit_or)
  then have "unat ((b AND 0x0f) OR 0x40) div 16 = 4"
    by (simp add: unsigned_or_eq unsigned_and_eq drop_bit_eq_div)
  then show ?thesis by (simp add: byte_hex_eq hex_digits)
qed

lemma variant_digit: "hd (byte_hex ((b AND 0x3f) OR 0x80)) \<in> set ''89ab''"
proof -
  define m where "m = drop_bit 4 (unat b) AND 3"
  have "m = take_bit 2 (drop_bit 4 (unat b))"
    by (simp add: m_def take_bit_eq_mask mask_eq_exp_minus_1)
  then have "m < 4" by (simp add: take_bit_eq_mod)
  then have "m \<in> {0, 1, 2, 3}" by auto
  moreover have "drop_bit 4 (unat b AND 63 OR 128) = m OR 8"
    by (simp add: drop_bit_and drop_bit_or m_def)
  ultimately have "drop_bit 4 (unat b AND 63 OR 128) \<in> {8, 9, 10, 11}" by auto
  then have "unat ((b AND 0x3f) OR 0x80) div 16 \<in> {8, 9, 10, 11}"
    by (simp add: unsigned_or_eq unsigned_and_eq drop_bit_eq_div)
  then show ?thesis by (auto simp: byte_hex_eq hex_digits)
qed

lemma length_getRandomBytes [simp]: "length (getRandomBytes c n) = n"
  by (simp add: getRandomBytes_def split: option.splits)

lemma length_concat_pairs: "(\<And>x. x \<in> set xs \<Longrightarrow> length x = 2) \<Longrightarrow> length (concat xs) = 2 * length xs"
  by (induction xs) auto

lemma nth_concat_pairs:
  "(\<And>x. x \<in> set xs \<Longrightarrow> length x = 2) \<Longrightarrow> i < length xs \<Longrightarrow> concat xs ! (2 * i) = hd (xs ! i)"
proof (induction xs arbitrary: i)
  case (Cons x xs)
  then have x: "length x = 2" "x \<noteq> []" by (auto simp: length_0_conv [symmetric] simp del: length_0_conv)
  show ?case
  proof (cases i)
    case 0
    then show ?thesis using x by (simp add: nth_append hd_conv_nth)
  next
    case (Suc j)
    then show ?thesis using Cons x by (simp add: nth_append)
  qed
qed simp

lemma length_byte_hex [simp]: "length (byte_hex b) = 2"
  by (simp add: byte_hex_eq)

lemma generated_uuid:
  assumes "randomUUID c = None"
  obtains bytes where "length bytes = 16"
    and "hd (byte_hex (bytes ! 6)) = CHR ''4''" and "hd (byte_hex (bytes ! 8)) \<in> set ''89ab''"
    and "createUuidV4 c = (let hex = concat (map byte_hex bytes) in join ''-''
           [js_slice 0 8 hex, js_slice 8 12 hex, js_slice 12 16 hex, js_slice 16 20 hex, js_slice 20 32 hex])"
proof
  define raw where "raw = getRandomBytes c 16"
  define bytes where "bytes = raw[6 := (raw ! 6 AND 0x0f) OR 0x40, 8 := (raw ! 8 AND 0x3f) OR 0x80]"
  have len: "length raw = 16" by (simp add: raw_def)
  then show l: "length bytes = 16" by (simp add: bytes_def)
  have b6: "bytes ! 6 = (raw ! 6 AND 0x0f) OR 0x40" and b8: "bytes ! 8 = (raw ! 8 AND 0x3f) OR 0x80"
    using len by (simp_all add: bytes_def)
  show "hd (byte_hex (bytes ! 6)) = CHR ''4''" unfolding b6 by (rule version_digit)
  show "hd (byte_hex (bytes ! 8)) \<in> set ''89ab''" unfolding b8 by (rule variant_digit)
  have "length (concat (map byte_hex bytes)) = 32" using l by (subst length_concat_pairs) auto
  then have "drop 20 (concat (map byte_hex bytes)) = js_slice 20 32 (concat (map byte_hex bytes))"
    by (simp add: js_slice_def)
  then show "createUuidV4 c = (let hex = concat (map byte_hex bytes) in join ''-''
           [js_slice 0 8 hex, js_slice 8 12 hex, js_slice 12 16 hex, js_slice 16 20 hex, js_slice 20 32 hex])"
    using len assms by (simp add: createUuidV4_def Let_def raw_def bytes_def)
qed

section \<open>Properties\<close>

text \<open>The badges never lie: after any sequence of operations the counter of the alert store and that of
  the notification store are the numbers of unread entries they hold.\<close>

theorem unread_counters_correct:
  "alerts_unread (fold alert_step ops (initial_alerts now))
     = int (length (filter (\<lambda>a. \<not> al_read a) (alerts (fold alert_step ops (initial_alerts now)))))
   \<and> notifications_unread (fold note_step ops' initial_notifications)
     = int (length (filter (\<lambda>n. \<not> no_read n) (notifications (fold note_step ops' initial_notifications))))"
proof -
  have "ai.consistent (initial_alerts now)" by (simp add: ai.consistent_def initial_alerts_def)
  moreover have "ni.consistent initial_notifications" by (simp add: ni.consistent_def initial_notifications_def)
  ultimately show ?thesis
    using alert_run_consistent note_run_consistent unfolding ai.consistent_def ni.consistent_def by blast
qed

text \<open>Without \<open>randomUUID\<close> the generated identifiers still have the form of a version 4 UUID, whatever
  the random bytes are: the groups of hexadecimal digits, the version digit 4 and a variant digit from
  8 to b.\<close>

theorem fallback_uuid_v4:
  assumes "randomUUID c = None"
  shows "UUID_PATTERN (createUuidV4 c) \<and> createUuidV4 c ! 14 = CHR ''4'' \<and> createUuidV4 c ! 19 \<in> set ''89ab''"
proof -
  obtain bytes where l: "length bytes = 16" and v: "hd (byte_hex (bytes ! 6)) = CHR ''4''"
    and w: "hd (byte_hex (bytes ! 8)) \<in> set ''89ab''"
    and u: "createUuidV4 c = (let hex = concat (map byte_hex bytes) in join ''-''
           [js_slice 0 8 hex, js_slice 8 12 hex, js_slice 12 16 hex, js_slice 16 20 hex, js_slice 20 32 hex])"
    using generated_uuid [OF assms] by metis
  define hex where "hex = concat (map byte_hex bytes)"
  define gs where "gs = [js_slice 0 8 hex, js_slice 8 12 hex, js_slice 12 16 hex, js_slice 16 20 hex, js_slice 20 32 hex]"
  have hex: "length hex = 32" unfolding hex_def using l by (subst length_concat_pairs) auto
  have "\<forall>x \<in> set hex. hex_val x \<noteq> None" using byte_hex_hex by (auto simp: hex_def list_all_iff)
  then have "\<forall>g \<in> set gs. \<forall>x \<in> set g. hex_val x \<noteq> None"
    using set_js_slice [of _ _ hex] by (fastforce simp: gs_def)
  then have "UUID_PATTERN (join ''-'' gs)"
    by (intro UUID_PATTERN_groups) (simp_all add: gs_def length_js_slice hex)
  moreover have "join ''-'' gs ! 14 = hex ! (2 * 6)" "join ''-'' gs ! 19 = hex ! (2 * 8)"
    by (simp_all add: gs_def nth_append nth_Cons' js_slice_def hex)
  moreover have "hex ! (2 * 6) = hd (byte_hex (bytes ! 6))" "hex ! (2 * 8) = hd (byte_hex (bytes ! 8))"
    unfolding hex_def by (subst nth_concat_pairs; auto simp: l)+
  ultimately show ?thesis using u v w by (simp add: gs_def hex_def Let_def)
qed

definition insecure_page :: crypto where
  "insecure_page = \<lparr>randomUUID = None, getRandomValues = None, math_random = (\<lambda>i. of_nat i / 16)\<rparr>"

theorem fallback_uuid_v4_witness: "createUuidV4 insecure_page ! 14 = CHR ''4''"
proof -
  have "randomUUID insecure_page = None" by (simp add: insecure_page_def)
  from fallback_uuid_v4 [OF this] show ?thesis by blast
qed

text \<open>A short identifier has the requested length, rounded down and at least one, and consists of
  lower-case letters and digits.\<close>

theorem short_id_shape:
  "int (length (createShortId c len)) = max 1 \<lfloor>len\<rfloor>
   \<and> list_all (\<lambda>x. x \<in> set short_alphabet) (createShortId c len)"
proof -
  have "unat b mod length short_alphabet < length short_alphabet" for b :: "8 word"
    by (rule mod_less_divisor) (simp add: short_alphabet_def)
  then show ?thesis by (simp add: createShortId_def Let_def list_all_iff)
qed

datatype theme_op = SetMode theme_mode | SetDensity density_mode

fun theme_step :: "bool option \<Rightarrow> theme_op \<Rightarrow> theme_store \<Rightarrow> theme_store" where
  "theme_step sys (SetMode m) st = setMode sys m st"
| "theme_step sys (SetDensity d) st = setDensity d st"

lemma theme_run_dark:
  "isDark st = resolveIsDark sys (mode st) \<Longrightarrow>
     isDark (fold (theme_step sys) ops st) = resolveIsDark sys (mode (fold (theme_step sys) ops st))"
proof (induction ops arbitrary: st)
  case (Cons op ops)
  then show ?case by (cases op) (simp_all add: setMode_def setDensity_def)
qed simp

text \<open>The chosen theme survives a reload: as long as the preference of the system does not change, the
  state rebuilt from what was persisted is the state that was left, after any choices of mode and
  density.\<close>

theorem theme_survives_reload:
  "theme_rehydrate sys (theme_partialize (fold (theme_step sys) ops initial_theme))
     = fold (theme_step sys) ops initial_theme"
proof -
  have "isDark (fold (theme_step sys) ops initial_theme)
      = resolveIsDark sys (mode (fold (theme_step sys) ops initial_theme))"
    by (rule theme_run_dark) (simp add: initial_theme_def resolveIsDark_def)
  then show ?thesis
    by (intro theme_store.equality) (simp_all add: theme_rehydrate_def theme_partialize_def initial_theme_def Let_def)
qed

end
