(* ===== verification/Query_Store.thy ===== *)
theory Query_Store
  imports Auth_Storage Js_Date Zh_Text
begin

text \<open>
  The query history and the saved queries a browser keeps locally (the storage part of
  \<open>api/query.ts\<close>): reading and writing the two lists, paging, searching, recording a query, saving and
  removing. The lists are JSON in local storage; what is read may be anything, so every field goes
  through the conversions of the code.

  Arguments that stand for the surroundings of the code: the current time and the host's reader of
  dates outside the ISO format (record \<open>clock\<close>), the random suffix of a new id, and \<open>lc\<close>, the sign of
  \<open>localeCompare\<close>. A sort whose comparator yields \<open>NaN\<close> (a date that cannot be parsed) has no
  prescribed result; the model treats such a pair as equal, as the comparator's conversion does.
\<close>

record clock =
  now_ms :: int
  host_date :: "string \<Rightarrow> int option"

definition date_of :: "clock \<Rightarrow> string \<Rightarrow> int option" where
  "date_of c s = date_parse (host_date c) s"

definition now_iso :: "clock \<Rightarrow> string" where
  "now_iso c = toISOString (now_ms c)"

section \<open>Records\<close>

record query_history =
  qh_id :: string
  qh_query :: string
  qh_executedAt :: string
  qh_duration :: jsnum
  qh_resultCount :: jsnum

record saved_query =
  sq_id :: string
  sq_name :: string
  sq_description :: string
  sq_query :: string
  sq_filters :: json
  sq_tags :: "string list"
  sq_createdAt :: string
  sq_updatedAt :: "string option"
  sq_runCount :: jsnum

definition LOCAL_QUERY_HISTORY_KEY :: string where
  "LOCAL_QUERY_HISTORY_KEY = ''nexuslog-local-query-history''"

definition LOCAL_SAVED_QUERIES_KEY :: string where
  "LOCAL_SAVED_QUERIES_KEY = ''nexuslog-local-saved-queries''"

definition LOCAL_QUERY_HISTORY_LIMIT :: nat where
  "LOCAL_QUERY_HISTORY_LIMIT = 200"

definition LOCAL_QUERY_HISTORY_DEDUP_WINDOW_MS :: int where
  "LOCAL_QUERY_HISTORY_DEDUP_WINDOW_MS = 1500"

section \<open>Lists in local storage\<close>

definition readLocalList :: "browser \<Rightarrow> string \<Rightarrow> json list" where
  "readLocalList b k =
     (case readStorageValue b Local k of
        None \<Rightarrow> []
      | Some raw \<Rightarrow>
          if raw = [] then [] else (case parse raw of Some (JArr xs) \<Rightarrow> xs | _ \<Rightarrow> []))"

definition writeLocalList :: "string \<Rightarrow> json list \<Rightarrow> browser \<Rightarrow> browser" where
  "writeLocalList k xs b = writeStorageValue Local k (stringify (JArr xs)) b"

text \<open>A number as \<open>JSON.stringify\<close> writes it, and \<open>String(v ?? w)\<close>, \<open>Number(v ?? 0)\<close>.\<close>

definition json_of_num :: "jsnum \<Rightarrow> json" where
  "json_of_num n = (case n of Fin q \<Rightarrow> JNum q | _ \<Rightarrow> JNull)"

definition string_or :: "json option \<Rightarrow> string \<Rightarrow> string" where
  "string_or v w = (case nullish_json v None of None \<Rightarrow> w | Some j \<Rightarrow> js_String j)"

definition number_or_zero :: "json option \<Rightarrow> jsnum" where
  "number_or_zero v = (case nullish_json v None of None \<Rightarrow> Fin 0 | Some j \<Rightarrow> num_of_json (Some j))"

definition object_or_empty :: "json option \<Rightarrow> json" where
  "object_or_empty v = (case v of Some (JObj ms) \<Rightarrow> JObj ms | Some (JArr xs) \<Rightarrow> JArr xs | _ \<Rightarrow> JObj [])"

definition string_field :: "json option \<Rightarrow> string option" where
  "string_field v = (case v of Some (JStr s) \<Rightarrow> Some s | _ \<Rightarrow> None)"

definition array_items :: "json option \<Rightarrow> json list" where
  "array_items v = (case v of Some (JArr xs) \<Rightarrow> xs | _ \<Rightarrow> [])"

definition history_of_json :: "clock \<Rightarrow> json \<Rightarrow> query_history" where
  "history_of_json c j =
     (let f = json_field (Some j) in
      \<lparr>qh_id = string_or_empty (f ''id''), qh_query = string_or_empty (f ''query''),
       qh_executedAt = string_or (f ''executedAt'') (now_iso c),
       qh_duration = number_or_zero (f ''duration''), qh_resultCount = number_or_zero (f ''resultCount'')\<rparr>)"

definition json_of_history :: "query_history \<Rightarrow> json" where
  "json_of_history h =
     JObj [(''id'', JStr (qh_id h)), (''query'', JStr (qh_query h)), (''executedAt'', JStr (qh_executedAt h)),
           (''duration'', json_of_num (qh_duration h)), (''resultCount'', json_of_num (qh_resultCount h))]"

definition readLocalQueryHistory :: "clock \<Rightarrow> browser \<Rightarrow> query_history list" where
  "readLocalQueryHistory c b =
     map (history_of_json c)
       (filter (\<lambda>j. truthy (json_field (Some j) ''id'') \<and> truthy (json_field (Some j) ''query''))
         (readLocalList b LOCAL_QUERY_HISTORY_KEY))"

definition writeLocalQueryHistory :: "query_history list \<Rightarrow> browser \<Rightarrow> browser" where
  "writeLocalQueryHistory hs = writeLocalList LOCAL_QUERY_HISTORY_KEY (map json_of_history hs)"

definition saved_of_json :: "clock \<Rightarrow> json \<Rightarrow> saved_query" where
  "saved_of_json c j =
     (let f = json_field (Some j) in
      \<lparr>sq_id = string_or_empty (f ''id''), sq_name = string_or_empty (f ''name''),
       sq_description = string_or_empty (f ''description''), sq_query = string_or_empty (f ''query''),
       sq_filters = object_or_empty (f ''filters''),
       sq_tags = filter (\<lambda>t. t \<noteq> []) (map js_String (array_items (f ''tags''))),
       sq_createdAt = string_or (f ''createdAt'') (now_iso c), sq_updatedAt = string_field (f ''updatedAt''),
       sq_runCount = number_or_zero (f ''runCount'')\<rparr>)"

definition json_of_saved :: "saved_query \<Rightarrow> json" where
  "json_of_saved q =
     JObj ([(''id'', JStr (sq_id q)), (''name'', JStr (sq_name q)), (''description'', JStr (sq_description q)),
            (''query'', JStr (sq_query q)), (''filters'', sq_filters q),
            (''tags'', JArr (map JStr (sq_tags q))), (''createdAt'', JStr (sq_createdAt q))]
           @ (case sq_updatedAt q of None \<Rightarrow> [] | Some u \<Rightarrow> [(''updatedAt'', JStr u)])
           @ [(''runCount'', json_of_num (sq_runCount q))])"

definition readLocalSavedQueries :: "clock \<Rightarrow> browser \<Rightarrow> saved_query list" where
  "readLocalSavedQueries c b =
     map (saved_of_json c)
       (filter (\<lambda>j. truthy (json_field (Some j) ''id'') \<and> truthy (json_field (Some j) ''name''))
         (readLocalList b LOCAL_SAVED_QUERIES_KEY))"

definition writeLocalSavedQueries :: "saved_query list \<Rightarrow> browser \<Rightarrow> browser" where
  "writeLocalSavedQueries qs = writeLocalList LOCAL_SAVED_QUERIES_KEY (map json_of_saved qs)"

section \<open>Paging\<close>

record 'a paged =
  pg_items :: "'a list"
  pg_total :: nat
  pg_page :: nat
  pg_pageSize :: nat
  pg_hasNext :: bool

definition toPagedResult :: "'a list \<Rightarrow> int \<Rightarrow> int \<Rightarrow> 'a paged" where
  "toPagedResult source page pageSize =
     (let safePage = nat (max 1 page);
          safePageSize = nat (max 1 pageSize);
          start = (safePage - 1) * safePageSize
      in \<lparr>pg_items = js_slice start (start + safePageSize) source, pg_total = length source,
          pg_page = safePage, pg_pageSize = safePageSize,
          pg_hasNext = start + safePageSize < length source\<rparr>)"

section \<open>Searching\<close>

record history_params =
  hp_page :: int
  hp_pageSize :: int
  hp_keyword :: "string option"
  hp_from :: "string option"
  hp_to :: "string option"

text \<open>\<open>Date.parse\<close> of a bound that is present and not empty; an item without a date passes.\<close>

definition bound_ms :: "clock \<Rightarrow> string option \<Rightarrow> int option" where
  "bound_ms c b = (case b of None \<Rightarrow> None | Some s \<Rightarrow> if s = [] then None else date_of c s)"

definition within_bounds :: "int option \<Rightarrow> int option \<Rightarrow> int option \<Rightarrow> bool" where
  "within_bounds lo hi t =
     (case t of None \<Rightarrow> True
      | Some x \<Rightarrow> (case lo of None \<Rightarrow> True | Some l \<Rightarrow> l \<le> x) \<and> (case hi of None \<Rightarrow> True | Some h \<Rightarrow> x \<le> h))"

definition newer_first :: "clock \<Rightarrow> ('a \<Rightarrow> string) \<Rightarrow> 'a \<Rightarrow> 'a \<Rightarrow> bool" where
  "newer_first c f a b =
     (case (date_of c (f a), date_of c (f b)) of (Some x, Some y) \<Rightarrow> y \<le> x | _ \<Rightarrow> True)"

definition history_matches :: "clock \<Rightarrow> history_params \<Rightarrow> query_history \<Rightarrow> bool" where
  "history_matches c p h =
     (let keyword = toLowerCase (nullish (map_option trim (hp_keyword p)) []) in
      (keyword = [] \<or> js_includes (toLowerCase (qh_query h)) keyword)
      \<and> within_bounds (bound_ms c (hp_from p)) (bound_ms c (hp_to p)) (date_of c (qh_executedAt h)))"

definition buildLocalQueryHistoryResult :: "clock \<Rightarrow> browser \<Rightarrow> history_params \<Rightarrow> query_history paged" where
  "buildLocalQueryHistoryResult c b p =
     toPagedResult
       (js_sort (newer_first c qh_executedAt) (filter (history_matches c p) (readLocalQueryHistory c b)))
       (hp_page p) (hp_pageSize p)"

definition normalizeSavedQueryTags :: "(string \<Rightarrow> string \<Rightarrow> int) \<Rightarrow> string list \<Rightarrow> string list" where
  "normalizeSavedQueryTags lc tags =
     js_sort (\<lambda>l r. lc l r \<le> 0) (js_uniq (filter (\<lambda>t. t \<noteq> []) (map trim tags)))"

record saved_params =
  sp_page :: int
  sp_pageSize :: int
  sp_tag :: "string option"
  sp_keyword :: "string option"

definition saved_matches :: "saved_params \<Rightarrow> saved_query \<Rightarrow> bool" where
  "saved_matches p q =
     (let keyword = toLowerCase (nullish (map_option trim (sp_keyword p)) []);
          tag = nullish (map_option trim (sp_tag p)) []
      in (keyword = [] \<or> js_includes (toLowerCase (sq_name q)) keyword
            \<or> js_includes (toLowerCase (sq_query q)) keyword)
         \<and> (tag = [] \<or> tag \<in> set (sq_tags q)))"

definition buildLocalSavedQueryResult ::
    "(string \<Rightarrow> string \<Rightarrow> int) \<Rightarrow> clock \<Rightarrow> browser \<Rightarrow> saved_params \<Rightarrow> saved_query paged \<times> string list" where
  "buildLocalSavedQueryResult lc c b p =
     (let all = readLocalSavedQueries c b
      in (toPagedResult (js_sort (newer_first c sq_createdAt) (filter (saved_matches p) all))
            (sp_page p) (sp_pageSize p),
          normalizeSavedQueryTags lc (concat (map sq_tags all))))"

section \<open>Recording, saving, removing\<close>

text \<open>\<open>Math.max(0, Math.floor(x))\<close>.\<close>

definition floor_nonneg :: "jsnum \<Rightarrow> jsnum" where
  "floor_nonneg x =
     (case x of NaN \<Rightarrow> NaN | PosInf \<Rightarrow> PosInf | NegInf \<Rightarrow> Fin 0 | Fin q \<Rightarrow> Fin (of_int (max 0 \<lfloor>q\<rfloor>)))"

text \<open>\<open>random\<close> is the text drawn from \<open>Math.random\<close>.\<close>

definition createLocalID :: "clock \<Rightarrow> string \<Rightarrow> string \<Rightarrow> string" where
  "createLocalID c random pfx = pfx @ ''-'' @ int_to_string (now_ms c) @ ''-'' @ random"

definition repeats_latest :: "clock \<Rightarrow> string \<Rightarrow> query_history list \<Rightarrow> bool" where
  "repeats_latest c q hs =
     (case hs of
        [] \<Rightarrow> False
      | h # _ \<Rightarrow> qh_query h = q
          \<and> (case date_of c (qh_executedAt h) of
               None \<Rightarrow> False
             | Some t \<Rightarrow> now_ms c - t \<le> LOCAL_QUERY_HISTORY_DEDUP_WINDOW_MS))"

definition record_query :: "clock \<Rightarrow> string \<Rightarrow> string \<Rightarrow> jsnum \<Rightarrow> jsnum \<Rightarrow> query_history list \<Rightarrow> query_history list" where
  "record_query c random q durationMS resultCount hs =
     (if repeats_latest c q hs
      then (hd hs)\<lparr>qh_duration := floor_nonneg durationMS, qh_resultCount := floor_nonneg resultCount\<rparr> # tl hs
      else take LOCAL_QUERY_HISTORY_LIMIT
             (\<lparr>qh_id = createLocalID c random ''query-history'', qh_query = q, qh_executedAt = now_iso c,
               qh_duration = floor_nonneg durationMS, qh_resultCount = floor_nonneg resultCount\<rparr> # hs))"

definition appendLocalQueryHistory ::
    "clock \<Rightarrow> string \<Rightarrow> string \<Rightarrow> jsnum \<Rightarrow> jsnum \<Rightarrow> browser \<Rightarrow> browser" where
  "appendLocalQueryHistory c random query durationMS resultCount b =
     (let q = trim query in
      if q = [] then b
      else writeLocalQueryHistory
             (record_query c random q durationMS resultCount (readLocalQueryHistory c b)) b)"

fun upsert :: "('a \<Rightarrow> string) \<Rightarrow> 'a \<Rightarrow> 'a list \<Rightarrow> 'a list option" where
  "upsert ident x [] = None"
| "upsert ident x (y # ys) =
     (if ident y = ident x then Some (x # ys) else map_option (Cons y) (upsert ident x ys))"

definition saveLocalSavedQuery :: "clock \<Rightarrow> saved_query \<Rightarrow> browser \<Rightarrow> browser" where
  "saveLocalSavedQuery c item b =
     (let current = readLocalSavedQueries c b
      in writeLocalSavedQueries (nullish (upsert sq_id item current) (item # current)) b)"

definition removeLocalSavedQuery :: "clock \<Rightarrow> string \<Rightarrow> browser \<Rightarrow> bool \<times> browser" where
  "removeLocalSavedQuery c i b =
     (let current = readLocalSavedQueries c b; next_list = filter (\<lambda>q. sq_id q \<noteq> i) current
      in if length next_list = length current then (False, b) else (True, writeLocalSavedQueries next_list b))"

definition removeLocalQueryHistory :: "clock \<Rightarrow> string \<Rightarrow> browser \<Rightarrow> bool \<times> browser" where
  "removeLocalQueryHistory c i b =
     (let current = readLocalQueryHistory c b; next_list = filter (\<lambda>h. qh_id h \<noteq> i) current
      in if length next_list = length current then (False, b) else (True, writeLocalQueryHistory next_list b))"

section \<open>What survives the storage\<close>

definition integral :: "jsnum \<Rightarrow> bool" where
  "integral n = (case n of Fin q \<Rightarrow> of_int \<lfloor>q\<rfloor> = q | _ \<Rightarrow> False)"

definition history_wf :: "query_history \<Rightarrow> bool" where
  "history_wf h \<longleftrightarrow> qh_id h \<noteq> [] \<and> qh_query h \<noteq> [] \<and> integral (qh_duration h) \<and> integral (qh_resultCount h)"

definition saved_wf :: "saved_query \<Rightarrow> bool" where
  "saved_wf q \<longleftrightarrow> sq_id q \<noteq> [] \<and> sq_name q \<noteq> [] \<and> json_wf (sq_filters q)
     \<and> object_or_empty (Some (sq_filters q)) = sq_filters q \<and> [] \<notin> set (sq_tags q) \<and> integral (sq_runCount q)"

lemma integral_json: "integral n \<Longrightarrow> json_wf (json_of_num n) \<and> number_or_zero (Some (json_of_num n)) = n"
  by (auto simp: integral_def json_of_num_def number_or_zero_def nullish_json_def num_of_json_def split: jsnum.splits)

lemma integral_floor_nonneg: "integral (floor_nonneg (Fin q))"
  by (simp add: integral_def floor_nonneg_def)

lemma string_fields [simp]:
  "string_or_empty (Some (JStr t)) = t" "string_or (Some (JStr t)) w = t" "truthy (Some (JStr t)) = (t \<noteq> [])"
  "string_field (Some (JStr t)) = Some t" "string_field None = None" "array_items (Some (JArr xs)) = xs"
  by (simp_all add: string_or_empty_def string_or_def nullish_json_def truthy_def string_field_def array_items_def)

lemma history_json:
  assumes "history_wf h"
  shows "history_of_json c (json_of_history h) = h" and "json_wf (json_of_history h)"
    and "truthy (json_field (Some (json_of_history h)) ''id'')"
    and "truthy (json_field (Some (json_of_history h)) ''query'')"
  using assms integral_json
  by (auto simp: history_wf_def history_of_json_def json_of_history_def json_field_def Let_def)

lemma saved_json:
  assumes "saved_wf q"
  shows "saved_of_json c (json_of_saved q) = q" and "json_wf (json_of_saved q)"
    and "truthy (json_field (Some (json_of_saved q)) ''id'')"
    and "truthy (json_field (Some (json_of_saved q)) ''name'')"
proof -
  have t: "filter (\<lambda>t. t \<noteq> []) (map js_String (map JStr (sq_tags q))) = sq_tags q"
    using assms by (auto simp: saved_wf_def comp_def filter_id_conv)
  from assms have f: "object_or_empty (Some (sq_filters q)) = sq_filters q" "json_wf (sq_filters q)"
    "json_wf (json_of_num (sq_runCount q))" "number_or_zero (Some (json_of_num (sq_runCount q))) = sq_runCount q"
    "sq_id q \<noteq> []" "sq_name q \<noteq> []"
    using integral_json by (auto simp: saved_wf_def)
  show "saved_of_json c (json_of_saved q) = q" "json_wf (json_of_saved q)"
    "truthy (json_field (Some (json_of_saved q)) ''id'')" "truthy (json_field (Some (json_of_saved q)) ''name'')"
    using f by (cases "sq_updatedAt q"; simp add: saved_of_json_def json_of_saved_def json_field_def Let_def t
        del: map_map)+
qed

lemma read_written_list:
  "writable Local b \<Longrightarrow> list_all json_wf xs \<Longrightarrow> readLocalList (writeLocalList k xs b) k = xs"
  using parse_stringify [of "JArr xs"] by (simp add: readLocalList_def writeLocalList_def list_all_iff)

lemma readLocalList_other: "k \<noteq> k' \<Longrightarrow> readLocalList (writeLocalList k xs b) k' = readLocalList b k'"
proof -
  assume "k \<noteq> k'"
  then have "readStorageValue (writeLocalList k xs b) Local k' = readStorageValue b Local k'"
    by (simp add: writeLocalList_def scoped.read_write_other)
  then show ?thesis by (simp add: readLocalList_def)
qed

section \<open>The contract of a stored list\<close>

text \<open>A list kept in a store: what was stored is loaded again, as long as the store takes writes and every
  element is storable.\<close>

locale stored_list =
  fixes load :: "'s \<Rightarrow> 'a list"
    and store :: "'a list \<Rightarrow> 's \<Rightarrow> 's"
    and writes :: "'s \<Rightarrow> bool"
    and storable :: "'a \<Rightarrow> bool"
    and ident :: "'a \<Rightarrow> string"
  assumes load_store: "writes s \<Longrightarrow> list_all storable xs \<Longrightarrow> load (store xs s) = xs"
    and writes_store: "writes (store xs s) = writes s"
begin

definition good :: "'s \<Rightarrow> bool" where
  "good s \<longleftrightarrow> writes s \<and> list_all storable (load s)"

lemma update_refines:
  assumes "good s" and "list_all storable (f (load s))"
  shows "load (store (f (load s)) s) = f (load s)" and "good (store (f (load s)) s)"
  using assms load_store writes_store by (auto simp: good_def)

lemma upsert_storable:
  "list_all storable xs \<Longrightarrow> storable x \<Longrightarrow> list_all storable (nullish (upsert ident x xs) (x # xs))"
proof -
  have "upsert ident x xs = Some ys \<Longrightarrow> list_all storable xs \<Longrightarrow> storable x \<Longrightarrow> list_all storable ys" for ys
    by (induction xs arbitrary: ys) (auto split: if_splits)
  then show "list_all storable xs \<Longrightarrow> storable x \<Longrightarrow> ?thesis" by (cases "upsert ident x xs") auto
qed

lemma load_upsert:
  assumes "good s" and "storable x"
  shows "load (store (nullish (upsert ident x (load s)) (x # load s)) s) = nullish (upsert ident x (load s)) (x # load s)"
  using update_refines(1) [of s "\<lambda>xs. nullish (upsert ident x xs) (x # xs)"] upsert_storable assms
  by (simp add: good_def)

lemma load_remove: "good s \<Longrightarrow> load (store (filter P (load s)) s) = filter P (load s)"
  using update_refines(1) [of s "filter P"] by (simp add: good_def list_all_iff)

end

lemma upsert_find:
  "find (\<lambda>q. ident q = i) (nullish (upsert ident x xs) (x # xs))
     = (if i = ident x then Some x else find (\<lambda>q. ident q = i) xs)"
proof -
  have some: "upsert ident x xs = Some ys \<Longrightarrow>
      find (\<lambda>q. ident q = i) ys = (if i = ident x then Some x else find (\<lambda>q. ident q = i) xs)" for ys
    by (induction xs arbitrary: ys) (auto split: if_splits)
  have none: "upsert ident x xs = None \<Longrightarrow> find (\<lambda>q. ident q = ident x) xs = None"
    by (induction xs) (auto split: if_splits)
  show ?thesis by (cases "upsert ident x xs") (auto simp: some)
qed

lemma find_filter_ident:
  "find (\<lambda>q. ident q = i) (filter (\<lambda>q. ident q \<noteq> j) xs) = (if i = j then None else find (\<lambda>q. ident q = i) xs)"
  by (induction xs) auto

lemma upsert_ids:
  "map ident (nullish (upsert ident x xs) (x # xs))
     = (if ident x \<in> set (map ident xs) then map ident xs else ident x # map ident xs)"
proof -
  have some: "upsert ident x xs = Some ys \<Longrightarrow> map ident ys = map ident xs \<and> ident x \<in> set (map ident xs)" for ys
    by (induction xs arbitrary: ys) (auto split: if_splits)
  have none: "upsert ident x xs = None \<Longrightarrow> ident x \<notin> set (map ident xs)"
    by (induction xs) (auto split: if_splits)
  show ?thesis by (cases "upsert ident x xs") (auto dest: some none)
qed

interpretation hl: stored_list "readLocalQueryHistory c" writeLocalQueryHistory "writable Local" history_wf qh_id for c
proof
  fix s xs
  assume w: "writable Local s" and xs: "list_all history_wf xs"
  then have "list_all json_wf (map json_of_history xs)" using history_json(2) by (auto simp: list_all_iff)
  with w show "readLocalQueryHistory c (writeLocalQueryHistory xs s) = xs"
    using xs by (simp add: readLocalQueryHistory_def writeLocalQueryHistory_def read_written_list filter_map comp_def
        list_all_iff history_json cong: filter_cong) (simp add: map_idI history_json)
qed (simp add: writeLocalQueryHistory_def writeLocalList_def)

interpretation sl: stored_list "readLocalSavedQueries c" writeLocalSavedQueries "writable Local" saved_wf sq_id for c
proof
  fix s xs
  assume w: "writable Local s" and xs: "list_all saved_wf xs"
  then have "list_all json_wf (map json_of_saved xs)" using saved_json(2) by (auto simp: list_all_iff)
  with w show "readLocalSavedQueries c (writeLocalSavedQueries xs s) = xs"
    using xs by (simp add: readLocalSavedQueries_def writeLocalSavedQueries_def read_written_list filter_map comp_def
        list_all_iff saved_json cong: filter_cong) (simp add: map_idI saved_json)
qed (simp add: writeLocalSavedQueries_def writeLocalList_def)

section \<open>Lemmas on paging, sorting and recording\<close>

lemma page_items: "pg_items (toPagedResult xs (int (Suc p)) (int k)) = take (max 1 k) (drop (p * max 1 k) xs)"
proof -
  have "nat (max 1 (int k)) = max 1 k" by (simp add: max_def)
  moreover have "nat (max 1 (int (Suc p))) = Suc p" by simp
  ultimately show ?thesis by (simp add: toPagedResult_def Let_def js_slice_def)
qed

lemma page_hasNext: "pg_hasNext (toPagedResult xs (int (Suc p)) (int k)) = (Suc p * max 1 k < length xs)"
proof -
  have "nat (max 1 (int k)) = max 1 k" by (simp add: max_def)
  moreover have "nat (max 1 (int (Suc p))) = Suc p" by simp
  ultimately show ?thesis by (simp add: toPagedResult_def Let_def add.commute)
qed

lemma set_page_items: "set (pg_items (toPagedResult xs p k)) \<subseteq> set xs"
  unfolding toPagedResult_def Let_def js_slice_def by (simp, meson set_drop_subset set_take_subset subset_trans)

lemma sorted_page_items: "sorted_wrt R xs \<Longrightarrow> sorted_wrt R (pg_items (toPagedResult xs p k))"
  by (simp add: toPagedResult_def Let_def js_slice_def sorted_wrt_take sorted_wrt_drop)

lemma js_insert_cong:
  "(\<And>b. b \<in> set xs \<Longrightarrow> le x b = le' x b) \<Longrightarrow> js_insert le x xs = js_insert le' x xs"
  by (induction xs) auto

lemma js_sort_cong:
  "(\<And>a b. a \<in> set xs \<Longrightarrow> b \<in> set xs \<Longrightarrow> le a b = le' a b) \<Longrightarrow> js_sort le xs = js_sort le' xs"
proof (induction xs)
  case (Cons a xs)
  then have "js_sort le xs = js_sort le' xs" by simp
  moreover have "js_insert le a (js_sort le' xs) = js_insert le' a (js_sort le' xs)"
    by (rule js_insert_cong) (use Cons.prems in auto)
  ultimately show ?case by simp
qed simp

lemma newer_first_sorted:
  assumes "\<And>x. x \<in> set xs \<Longrightarrow> date_of c (f x) \<noteq> None"
  shows "sorted_wrt (\<lambda>a b. the (date_of c (f b)) \<le> the (date_of c (f a))) (js_sort (newer_first c f) xs)"
proof -
  have "js_sort (newer_first c f) xs = js_sort (\<lambda>a b. the (date_of c (f b)) \<le> the (date_of c (f a))) xs"
    using assms by (intro js_sort_cong) (fastforce simp: newer_first_def split: option.splits)
  then show ?thesis by (simp only:) (rule js_sort_sorted; linarith)
qed

definition spaced :: "(string \<Rightarrow> int option) \<Rightarrow> query_history \<Rightarrow> query_history \<Rightarrow> bool" where
  "spaced host n old \<longleftrightarrow> qh_query n \<noteq> qh_query old
     \<or> (case (date_parse host (qh_executedAt n), date_parse host (qh_executedAt old)) of
          (Some x, Some y) \<Rightarrow> LOCAL_QUERY_HISTORY_DEDUP_WINDOW_MS < x - y
        | _ \<Rightarrow> True)"

definition history_inv :: "(string \<Rightarrow> int option) \<Rightarrow> query_history list \<Rightarrow> bool" where
  "history_inv host hs \<longleftrightarrow>
     length hs \<le> LOCAL_QUERY_HISTORY_LIMIT \<and> list_all history_wf hs \<and> successively (spaced host) hs"

lemma successively_take: "successively P xs \<Longrightarrow> successively P (take n xs)"
  using successively_append_iff [of P "take n xs" "drop n xs"] by simp

lemma record_query_wf:
  "list_all history_wf hs \<Longrightarrow> q \<noteq> [] \<Longrightarrow> list_all history_wf (record_query c random q (Fin d) (Fin n) hs)"
proof -
  assume hs: "list_all history_wf hs" and q: "q \<noteq> []"
  let ?new = "\<lparr>qh_id = createLocalID c random ''query-history'', qh_query = q, qh_executedAt = now_iso c,
       qh_duration = floor_nonneg (Fin d), qh_resultCount = floor_nonneg (Fin n)\<rparr>"
  have new: "history_wf ?new"
    using q by (simp add: history_wf_def createLocalID_def integral_floor_nonneg)
  show ?thesis
  proof (cases "repeats_latest c q hs")
    case True
    with hs show ?thesis
      by (cases hs) (auto simp: record_query_def repeats_latest_def history_wf_def integral_floor_nonneg)
  next
    case False
    have "list_all history_wf (take k (?new # hs))" for k
      using hs new unfolding list_all_iff by (metis in_set_takeD set_ConsD)
    with False show ?thesis by (simp add: record_query_def)
  qed
qed

lemma record_query_inv:
  assumes inv: "history_inv (host_date c) hs" and q: "q \<noteq> []" and t: "in_iso_range (now_ms c)"
  shows "history_inv (host_date c) (record_query c random q (Fin d) (Fin n) hs)"
proof -
  let ?new = "\<lparr>qh_id = createLocalID c random ''query-history'', qh_query = q, qh_executedAt = now_iso c,
       qh_duration = floor_nonneg (Fin d), qh_resultCount = floor_nonneg (Fin n)\<rparr>"
  have wf: "list_all history_wf (record_query c random q (Fin d) (Fin n) hs)"
    using inv q record_query_wf by (simp add: history_inv_def)
  show ?thesis
  proof (cases "repeats_latest c q hs")
    case True
    then obtain h tl_hs where hs: "hs = h # tl_hs" by (auto simp: repeats_latest_def split: list.splits)
    have "successively (spaced (host_date c)) (h\<lparr>qh_duration := x, qh_resultCount := y\<rparr> # tl_hs)" for x y
      using inv by (auto simp: history_inv_def hs successively_Cons spaced_def)
    then show ?thesis using True inv wf by (simp add: record_query_def history_inv_def hs)
  next
    case False
    have "successively (spaced (host_date c)) (?new # hs)"
    proof (cases hs)
      case (Cons h tl_hs)
      have "date_parse (host_date c) (now_iso c) = Some (now_ms c)"
        using t by (simp add: now_iso_def date_parse_toISOString)
      then have "spaced (host_date c) ?new h"
        using False by (auto simp: spaced_def repeats_latest_def Cons date_of_def split: option.splits)
      then show ?thesis using inv by (simp add: history_inv_def Cons)
    qed simp
    then show ?thesis
      using False wf by (simp add: record_query_def history_inv_def successively_take del: take_Suc_Cons)
  qed
qed

definition record_run ::
    "(string \<Rightarrow> int option) \<Rightarrow> (int \<times> string \<times> string \<times> rat \<times> rat) list \<Rightarrow> browser \<Rightarrow> browser" where
  "record_run host evs b =
     fold (\<lambda>(t, random, q, d, n). appendLocalQueryHistory \<lparr>now_ms = t, host_date = host\<rparr> random q (Fin d) (Fin n)) evs b"

definition holds_history :: "(string \<Rightarrow> int option) \<Rightarrow> query_history list \<Rightarrow> browser \<Rightarrow> bool" where
  "holds_history host hs b \<longleftrightarrow>
     writable Local b \<and> (\<forall>c. readLocalQueryHistory c b = hs) \<and> history_inv host hs"

lemma append_holds_history:
  assumes h: "holds_history host hs b" and t: "in_iso_range t"
  shows "holds_history host (if trim q = [] then hs else record_query \<lparr>now_ms = t, host_date = host\<rparr> random (trim q) (Fin d) (Fin n) hs)
    (appendLocalQueryHistory \<lparr>now_ms = t, host_date = host\<rparr> random q (Fin d) (Fin n) b)"
proof (cases "trim q = []")
  case True
  with h show ?thesis by (auto simp: appendLocalQueryHistory_def)
next
  case False
  let ?c = "\<lparr>now_ms = t, host_date = host\<rparr>"
  let ?hs = "record_query ?c random (trim q) (Fin d) (Fin n) hs"
  have inv: "history_inv host ?hs"
    using record_query_inv [of ?c hs "trim q"] h t False by (simp add: holds_history_def)
  then have "list_all history_wf ?hs" by (simp add: history_inv_def)
  then have "\<forall>c. readLocalQueryHistory c (writeLocalQueryHistory ?hs b) = ?hs"
    using hl.load_store h by (auto simp: holds_history_def)
  moreover have "appendLocalQueryHistory ?c random q (Fin d) (Fin n) b = writeLocalQueryHistory ?hs b"
    using h False by (simp add: appendLocalQueryHistory_def holds_history_def)
  ultimately show ?thesis using inv h hl.writes_store False by (auto simp: holds_history_def)
qed

section \<open>Properties\<close>

text \<open>Paging a local list shows every entry exactly once: the first \<open>n\<close> pages, one after the other, are
  the first entries of the list, no page is larger than the page size (at least one), a further page is
  announced exactly when it is not empty, and the total is the length of the list.\<close>

theorem pages_partition:
  "concat (map (\<lambda>p. pg_items (toPagedResult xs (int (Suc p)) (int k))) [0..<n]) = take (n * max 1 k) xs
   \<and> length (pg_items (toPagedResult xs (int (Suc p)) (int k))) \<le> max 1 k
   \<and> pg_hasNext (toPagedResult xs (int (Suc p)) (int k))
       = (pg_items (toPagedResult xs (int (Suc (Suc p))) (int k)) \<noteq> [])
   \<and> pg_total (toPagedResult xs (int (Suc p)) (int k)) = length xs"
proof (intro conjI)
  show "concat (map (\<lambda>p. pg_items (toPagedResult xs (int (Suc p)) (int k))) [0..<n]) = take (n * max 1 k) xs"
    by (induction n) (simp_all only: page_items upt_Suc map_append concat_append, simp_all add: take_add [symmetric] add.commute)
qed (simp_all only: page_items page_hasNext, simp_all add: toPagedResult_def Let_def not_le)

text \<open>The history as a memory of what was asked, when, for how long and with how many results: a query asked again within a
  second and a half only corrects the last entry, any other one is put in front, and two hundred are kept.\<close>

record remembered =
  rm_text :: string
  rm_time :: "int option"
  rm_duration :: int
  rm_count :: int

fun remember :: "int \<Rightarrow> string \<Rightarrow> int \<Rightarrow> int \<Rightarrow> remembered list \<Rightarrow> remembered list" where
  "remember now q d n [] = [\<lparr>rm_text = q, rm_time = Some now, rm_duration = d, rm_count = n\<rparr>]"
| "remember now q d n (e # es) =
     (if rm_text e = q \<and> (case rm_time e of None \<Rightarrow> False | Some t \<Rightarrow> now \<le> t + 1500)
      then e\<lparr>rm_duration := d, rm_count := n\<rparr> # es
      else \<lparr>rm_text = q, rm_time = Some now, rm_duration = d, rm_count = n\<rparr> # take 199 (e # es))"

definition remember_asked :: "int \<times> string \<times> string \<times> rat \<times> rat \<Rightarrow> remembered list \<Rightarrow> remembered list" where
  "remember_asked asked es =
     (case asked of (now, _, q, d, n) \<Rightarrow> if trim q = [] then es else remember now (trim q) (max 0 \<lfloor>d\<rfloor>) (max 0 \<lfloor>n\<rfloor>) es)"

definition remembered_of :: "(string \<Rightarrow> int option) \<Rightarrow> query_history \<Rightarrow> remembered" where
  "remembered_of host h =
     \<lparr>rm_text = qh_query h, rm_time = date_parse host (qh_executedAt h), rm_duration = \<lfloor>fin_val (qh_duration h)\<rfloor>,
      rm_count = \<lfloor>fin_val (qh_resultCount h)\<rfloor>\<rparr>"

lemma record_query_remembers:
  assumes "in_iso_range (now_ms c)"
  shows "map (remembered_of (host_date c)) (record_query c random q (Fin d) (Fin n) hs)
    = remember (now_ms c) q (max 0 \<lfloor>d\<rfloor>) (max 0 \<lfloor>n\<rfloor>) (map (remembered_of (host_date c)) hs)"
proof -
  have new: "date_parse (host_date c) (now_iso c) = Some (now_ms c)" using assms by (simp add: now_iso_def date_parse_toISOString)
  show ?thesis
    by (cases hs)
      (auto simp: record_query_def repeats_latest_def remembered_of_def floor_nonneg_def date_of_def new take_map
        LOCAL_QUERY_HISTORY_LIMIT_def LOCAL_QUERY_HISTORY_DEDUP_WINDOW_MS_def numeral_eq_Suc split: option.splits)
qed

lemma run_remembers:
  "holds_history host hs b \<Longrightarrow> list_all (\<lambda>e. in_iso_range (fst e)) evs \<Longrightarrow>
     \<exists>hs'. holds_history host hs' (record_run host evs b)
       \<and> map (remembered_of host) hs' = fold remember_asked evs (map (remembered_of host) hs)"
proof (induction evs arbitrary: b hs)
  case (Cons e evs)
  obtain t random q d n where e: "e = (t, random, q, d, n)" by (cases e)
  let ?c = "\<lparr>now_ms = t, host_date = host\<rparr>"
  let ?hs = "if trim q = [] then hs else record_query ?c random (trim q) (Fin d) (Fin n) hs"
  have "holds_history host ?hs (appendLocalQueryHistory ?c random q (Fin d) (Fin n) b)"
    using append_holds_history [OF Cons.prems(1)] Cons.prems(2) by (simp add: e)
  from Cons.IH [OF this] Cons.prems(2) obtain hs' where hs': "holds_history host hs' (record_run host (e # evs) b)"
      "map (remembered_of host) hs' = fold remember_asked evs (map (remembered_of host) ?hs)"
    by (auto simp: record_run_def e)
  moreover have "map (remembered_of host) ?hs = remember_asked e (map (remembered_of host) hs)"
    using record_query_remembers [of ?c random "trim q" d n hs] Cons.prems(2) by (simp add: e remember_asked_def)
  ultimately show ?case by auto
qed (auto simp: record_run_def)

text \<open>C16: The history in the browser is a memory of the queries asked: after any queries at any times, beginning with no
  history, what is read back from the storage is, entry by entry, the memory of the queries that were not blank, with
  their text trimmed, their times, and their durations and numbers of results rounded down and not below zero. The storage
  is one that takes writes, and the times are ones a date has.\<close>

theorem history_refines:
  assumes "writable Local b" and "readStorageValue b Local LOCAL_QUERY_HISTORY_KEY = None"
    and "list_all (\<lambda>e. in_iso_range (fst e)) evs"
  shows "map (remembered_of host) (readLocalQueryHistory c (record_run host evs b)) = fold remember_asked evs []"
proof -
  have "holds_history host [] b"
    using assms(1,2) by (simp add: holds_history_def readLocalQueryHistory_def readLocalList_def history_inv_def)
  from run_remembers [OF this assms(3)] show ?thesis by (auto simp: holds_history_def)
qed

definition empty_browser :: browser where
  "empty_browser =
     \<lparr>local_area = \<lparr>avail = True, accepts = (\<lambda>_ _ _. True), entries = []\<rparr>,
      session_area = \<lparr>avail = True, accepts = (\<lambda>_ _ _. True), entries = []\<rparr>\<rparr>"

definition sample_clock :: clock where
  "sample_clock = \<lparr>now_ms = 1714557600000, host_date = (\<lambda>_. None)\<rparr>"

lemma empty_browser: "writable Local empty_browser" "readLocalQueryHistory c empty_browser = []"
  "readLocalSavedQueries c empty_browser = []"
  by (simp_all add: writable_def getStorage_def empty_browser_def readLocalQueryHistory_def readLocalSavedQueries_def
      readLocalList_def readStorageValue_def)

theorem history_refines_witness:
  "map rm_text (map (remembered_of (\<lambda>_. None)) (readLocalQueryHistory sample_clock
      (record_run (\<lambda>_. None) [(0, ''x'', '' level:error '', 12, 3), (1000, ''y'', ''level:error'', 9, 4), (9000, ''z'', ''a'', 1, 1)]
         empty_browser))) = [''a'', ''level:error'']"
proof -
  let ?evs = "[(0, ''x'', '' level:error '', 12, 3), (1000, ''y'', ''level:error'', 9, 4), (9000, ''z'', ''a'', 1, 1)]
    :: (int \<times> string \<times> string \<times> rat \<times> rat) list"
  have k: "readStorageValue empty_browser Local LOCAL_QUERY_HISTORY_KEY = None"
    by (simp add: readStorageValue_def getStorage_def empty_browser_def)
  have r: "list_all (\<lambda>e. in_iso_range (fst e)) ?evs" "map rm_text (fold remember_asked ?evs []) = [''a'', ''level:error'']" by code_simp+
  show ?thesis unfolding history_refines [OF empty_browser(1) k r(1)] by (rule r(2))
qed

text \<open>However many queries are recorded, at whatever times, the history read back never has more than 200
  entries, its entries stay well formed, and no entry repeats the query of the one before it within the
  deduplication window.\<close>

theorem history_bounded_and_spaced:
  assumes "writable Local b" and "readStorageValue b Local LOCAL_QUERY_HISTORY_KEY = None"
    and "list_all (\<lambda>e. in_iso_range (fst e)) evs"
    and "hs = readLocalQueryHistory c (record_run host evs b)"
  shows "length hs \<le> 200 \<and> list_all history_wf hs \<and> successively (spaced host) hs"
proof -
  have "holds_history host [] b"
    using assms(1,2) by (simp add: holds_history_def readLocalQueryHistory_def readLocalList_def history_inv_def)
  from run_remembers [OF this assms(3)] show ?thesis
    using assms(4) by (auto simp: holds_history_def history_inv_def LOCAL_QUERY_HISTORY_LIMIT_def)
qed

theorem history_bounded_and_spaced_witness:
  "length (readLocalQueryHistory sample_clock
     (record_run (\<lambda>_. None) [(0, ''a'', ''q'', 1, 1), (1000, ''b'', ''q'', 2, 2)] empty_browser)) \<le> 200"
proof -
  have k: "readStorageValue empty_browser Local LOCAL_QUERY_HISTORY_KEY = None"
    by (simp add: readStorageValue_def getStorage_def empty_browser_def)
  have r: "list_all (\<lambda>e. in_iso_range (fst e)) [(0, ''a'', ''q'', 1, 1), (1000, ''b'', ''q'', 2, 2)]" by code_simp
  show ?thesis using history_bounded_and_spaced [OF empty_browser(1) k r refl] by blast
qed

text \<open>Saving a query under an id makes that id stand for it and no other id change, whether the id was
  there or not; the ids stay distinct; and removing the id afterwards succeeds and leaves a list without
  it in which every other id stands for what it stood for.\<close>

theorem saved_query_upsert:
  assumes "writable Local b" and "list_all saved_wf (readLocalSavedQueries c b)" and "saved_wf item"
    and "distinct (map sq_id (readLocalSavedQueries c b))"
    and "b' = saveLocalSavedQuery c item b" and "(ok, b'') = removeLocalSavedQuery c (sq_id item) b'"
  shows "find (\<lambda>q. sq_id q = i) (readLocalSavedQueries c b') =
        (if i = sq_id item then Some item else find (\<lambda>q. sq_id q = i) (readLocalSavedQueries c b))
    \<and> distinct (map sq_id (readLocalSavedQueries c b'))
    \<and> ok
    \<and> find (\<lambda>q. sq_id q = i) (readLocalSavedQueries c b'') =
        (if i = sq_id item then None else find (\<lambda>q. sq_id q = i) (readLocalSavedQueries c b))"
proof -
  let ?old = "readLocalSavedQueries c b"
  let ?new = "nullish (upsert sq_id item ?old) (item # ?old)"
  have good: "sl.good c b" using assms by (simp add: sl.good_def)
  have b': "b' = writeLocalSavedQueries ?new b" using assms(5) by (simp add: saveLocalSavedQuery_def Let_def)
  have new: "readLocalSavedQueries c b' = ?new" unfolding b' by (rule sl.load_upsert [OF good assms(3)])
  have "list_all saved_wf ?new" by (rule sl.upsert_storable [OF assms(2,3)])
  then have good': "sl.good c b'"
    using new assms(1) by (simp add: sl.good_def) (simp add: b' sl.writes_store)
  have find: "find (\<lambda>q. sq_id q = i) ?new = (if i = sq_id item then Some item else find (\<lambda>q. sq_id q = i) ?old)" for i
    by (rule upsert_find)
  have ids: "distinct (map sq_id ?new)" using assms(4) by (simp add: upsert_ids)
  have "sq_id item \<in> set (map sq_id ?new)" by (simp add: upsert_ids)
  then have len: "length (filter (\<lambda>q. sq_id q \<noteq> sq_id item) ?new) < length ?new"
    by (auto intro!: length_filter_less)
  then have ok: "ok" and b'': "b'' = writeLocalSavedQueries (filter (\<lambda>q. sq_id q \<noteq> sq_id item) ?new) b'"
    using assms(6) by (auto simp: removeLocalSavedQuery_def Let_def new)
  have "readLocalSavedQueries c b'' = filter (\<lambda>q. sq_id q \<noteq> sq_id item) ?new"
    using sl.load_remove [OF good'] unfolding b'' new .
  then show ?thesis using find ids ok new by (simp add: find_filter_ident)
qed

definition sample_saved :: saved_query where
  "sample_saved = \<lparr>sq_id = ''s1'', sq_name = ''errors'', sq_description = [], sq_query = ''level:error'',
     sq_filters = JObj [], sq_tags = [''ops''], sq_createdAt = ''2024-05-01T10:00:00.000Z'', sq_updatedAt = None,
     sq_runCount = Fin 0\<rparr>"

theorem saved_query_upsert_witness:
  "find (\<lambda>q. sq_id q = ''s1'')
     (readLocalSavedQueries sample_clock (saveLocalSavedQuery sample_clock sample_saved empty_browser)) = Some sample_saved"
proof -
  have wf: "saved_wf sample_saved"
    by (simp add: saved_wf_def sample_saved_def object_or_empty_def integral_def)
  obtain ok b'' where r: "(ok, b'') = removeLocalSavedQuery sample_clock (sq_id sample_saved)
      (saveLocalSavedQuery sample_clock sample_saved empty_browser)" by (metis surj_pair)
  have old: "list_all saved_wf (readLocalSavedQueries sample_clock empty_browser)"
    "distinct (map sq_id (readLocalSavedQueries sample_clock empty_browser))" by (simp_all add: empty_browser)
  have "sq_id sample_saved = ''s1''" by (simp add: sample_saved_def)
  with saved_query_upsert [OF empty_browser(1) old(1) wf old(2) refl r, of "''s1''"] show ?thesis by simp
qed

text \<open>A search of the local history is exact: the total is the number of entries that match, every entry
  shown is one of them, and when all entries have a date they are shown newest first.\<close>

theorem history_search_exact:
  assumes "list_all (\<lambda>h. date_of c (qh_executedAt h) \<noteq> None) (readLocalQueryHistory c b)"
    and "r = buildLocalQueryHistoryResult c b p"
  shows "pg_total r = length (filter (history_matches c p) (readLocalQueryHistory c b))
    \<and> set (pg_items r) \<subseteq> {h \<in> set (readLocalQueryHistory c b). history_matches c p h}
    \<and> sorted_wrt (\<lambda>x y. the (date_of c (qh_executedAt y)) \<le> the (date_of c (qh_executedAt x))) (pg_items r)"
proof -
  let ?m = "filter (history_matches c p) (readLocalQueryHistory c b)"
  let ?s = "js_sort (newer_first c qh_executedAt) ?m"
  have r: "r = toPagedResult ?s (hp_page p) (hp_pageSize p)"
    using assms(2) by (simp add: buildLocalQueryHistoryResult_def)
  have "sorted_wrt (\<lambda>x y. the (date_of c (qh_executedAt y)) \<le> the (date_of c (qh_executedAt x))) ?s"
    using assms(1) by (intro newer_first_sorted) (auto simp: list_all_iff)
  then have "sorted_wrt (\<lambda>x y. the (date_of c (qh_executedAt y)) \<le> the (date_of c (qh_executedAt x))) (pg_items r)"
    unfolding r by (rule sorted_page_items)
  moreover have "pg_total r = length ?m" by (simp add: r toPagedResult_def Let_def)
  moreover have "set (pg_items r) \<subseteq> set ?s" unfolding r by (rule set_page_items)
  ultimately show ?thesis by auto
qed

theorem history_search_exact_witness:
  "pg_total (buildLocalQueryHistoryResult sample_clock empty_browser
     \<lparr>hp_page = 1, hp_pageSize = 10, hp_keyword = Some '' Error'', hp_from = None, hp_to = None\<rparr>) = 0"
proof -
  have "list_all (\<lambda>h. date_of sample_clock (qh_executedAt h) \<noteq> None) (readLocalQueryHistory sample_clock empty_browser)"
    by (simp add: empty_browser)
  from history_search_exact [OF this refl] show ?thesis by (simp add: empty_browser)
qed

end
