(* ===== verification/Log_Fields.thy ===== *)
theory Log_Fields
  imports Query_Store Js_Regex
begin

text \<open>
  How a hit of the log search becomes an entry of the console (the normalisation functions of
  \<open>api/query.ts\<close>): unwrapping of JSON messages, cleaning of the displayed text, the host, address, service
  and level of an entry. A hit and its fields are JSON values; an absent field is \<open>None\<close>.
\<close>

section \<open>Entries\<close>

datatype log_level = ErrorLog | WarnLog | InfoLog | DebugLog

fun level_name :: "log_level \<Rightarrow> string" where
  "level_name ErrorLog = ''error''"
| "level_name WarnLog = ''warn''"
| "level_name InfoLog = ''info''"
| "level_name DebugLog = ''debug''"

record log_entry =
  lg_id :: string
  lg_timestamp :: string
  lg_level :: log_level
  lg_service :: string
  lg_host :: string
  lg_hostIp :: string
  lg_message :: string
  lg_fields :: json
  lg_rawLog :: string

section \<open>Patterns\<close>

definition LOG_LEVEL_TOKEN_PATTERN :: rx where
  "LOG_LEVEL_TOKEN_PATTERN =
     rx_seq [Word_Boundary,
       Grp 1 (rx_alt [rx_lit_i ''trace'', rx_lit_i ''debug'', rx_lit_i ''info'',
                      Seq (rx_lit_i ''warn'') (rx_opt (rx_lit_i ''ing'')),
                      rx_lit_i ''error'', rx_lit_i ''fatal'', rx_lit_i ''panic'']),
       Word_Boundary]"

definition ANSI_COLOR_PATTERN :: rx where
  "ANSI_COLOR_PATTERN =
     rx_seq [rx_char (CHR 0x1B), rx_char (CHR ''[''), rx_star (rx_ascii (in_range (CHR ''0'') (CHR ''?''))),
       rx_star (rx_ascii (in_range (CHR '' '') (CHR ''/''))), rx_ascii (in_range (CHR ''@'') (CHR 0x7E))]"

definition control_char :: "char \<Rightarrow> bool" where
  "control_char c \<longleftrightarrow> (of_char c :: nat) \<le> 8 \<or> (11 \<le> (of_char c :: nat) \<and> (of_char c :: nat) \<le> 31)
     \<or> (of_char c :: nat) = 127"

definition rx_upper :: rx where "rx_upper = rx_ascii (in_range (CHR ''A'') (CHR ''Z''))"
definition rx_lower :: rx where "rx_lower = rx_ascii (in_range (CHR ''a'') (CHR ''z''))"

definition digits :: "nat \<Rightarrow> nat \<Rightarrow> rx" where
  "digits lo hi = rx_times lo hi rx_digit"

definition RFC3164_HOSTNAME_PATTERN :: rx where
  "RFC3164_HOSTNAME_PATTERN =
     rx_seq [Begin_Input, rx_upper, rx_times 2 2 rx_lower, rx_plus rx_space, digits 1 2, rx_plus rx_space,
       digits 2 2, rx_char (CHR '':''), digits 2 2, rx_char (CHR '':''), digits 2 2, rx_plus rx_space,
       Grp 1 (rx_plus rx_nonspace), rx_plus rx_space]"

definition RFC5424_HOSTNAME_PATTERN :: rx where
  "RFC5424_HOSTNAME_PATTERN =
     rx_seq [Begin_Input, rx_opt (rx_seq [rx_char (CHR ''<''), digits 1 3, rx_char (CHR ''>'')]), rx_plus rx_digit,
       rx_plus rx_space, rx_plus rx_nonspace, rx_plus rx_space, Grp 1 (rx_plus rx_nonspace), rx_plus rx_space]"

definition BOGUS_SERVICE_NAMES :: "string list" where
  "BOGUS_SERVICE_NAMES =
     [''jan'', ''feb'', ''mar'', ''apr'', ''may'', ''jun'', ''jul'', ''aug'', ''sep'', ''oct'', ''nov'', ''dec'']"

definition one_of :: "string \<Rightarrow> rx" where "one_of cs = rx_ascii (\<lambda>c. c \<in> set cs)"

definition DATE_NAME_PATTERN :: rx where
  "DATE_NAME_PATTERN =
     rx_seq [Begin_Input, digits 4 4, one_of ''-/'', digits 1 2, one_of ''-/'', digits 1 2,
       rx_opt (rx_seq [one_of ''Tt _'', digits 1 2, rx_char (CHR '':''), digits 2 2,
         rx_opt (rx_seq [rx_char (CHR '':''), digits 2 2, rx_opt (Seq (one_of ''.,'') (rx_plus rx_digit))]),
         rx_opt (Alt (rx_char (CHR ''Z''))
                     (rx_seq [one_of ''+-'', digits 2 2, rx_opt (rx_char (CHR '':'')), digits 2 2]))]),
       End_Input]"

section \<open>Messages\<close>

definition unwrapMessageForLevel :: "json option \<Rightarrow> string" where
  "unwrapMessageForLevel message =
     (let raw = trim (string_or_empty message)
      in if raw = [] then []
         else if \<not> startsWith raw ''{'' \<or> \<not> endsWith raw ''}'' then raw
         else (case parse raw of
             Some (JObj payload) \<Rightarrow>
               (case find (\<lambda>t. t \<noteq> [])
                       (map (\<lambda>k. trim (string_or_empty (jm_get payload k))) [''log'', ''message'', ''msg'', ''raw_log'']) of
                  Some candidate \<Rightarrow> candidate
                | None \<Rightarrow> raw)
           | _ \<Rightarrow> raw))"

text \<open>The replacements of single characters work on the bytes, since all of them are ASCII. A carriage
  return, with the line feed after it if there is one, becomes a line feed.\<close>

fun normalize_newlines :: "string \<Rightarrow> string" where
  "normalize_newlines [] = []"
| "normalize_newlines (c # s) =
     (if c = CHR 0x0D then CHR 0x0A # (case s of [] \<Rightarrow> [] | d # t \<Rightarrow> if d = CHR 0x0A then normalize_newlines t else normalize_newlines s)
      else c # normalize_newlines s)"

definition replace_char :: "(char \<Rightarrow> bool) \<Rightarrow> char \<Rightarrow> string \<Rightarrow> string" where
  "replace_char P d s = map (\<lambda>c. if P c then d else c) s"

definition sanitizeDisplayMessage :: "string \<Rightarrow> string" where
  "sanitizeDisplayMessage message =
     (if message = [] then []
      else (let cleaned = rx_replace ANSI_COLOR_PATTERN [] message;
                cleaned = normalize_newlines cleaned;
                cleaned = replace_char (\<lambda>c. c = CHR 0x09) (CHR '' '') cleaned;
                cleaned = replace_char control_char (CHR '' '') cleaned;
                cleaned = replace_runs (\<lambda>c. c = CHR 0x0A) '' '' cleaned;
                cleaned = concat (replace_long_runs js_space ['' ''] (js_chars cleaned))
            in trim cleaned))"

definition normalizeDisplayMessage :: "json option \<Rightarrow> string" where
  "normalizeDisplayMessage message =
     (let raw = trim (string_or_empty message)
      in if raw = [] then []
         else sanitizeDisplayMessage (or_str (unwrapMessageForLevel (Some (JStr raw))) raw))"

section \<open>Host and address\<close>

definition toHostString :: "json option \<Rightarrow> string" where
  "toHostString v =
     (case v of
        Some (JStr s) \<Rightarrow> trim s
      | Some (JNum q) \<Rightarrow> trim (rat_to_string q)
      | Some (JBool b) \<Rightarrow> js_String (JBool b)
      | _ \<Rightarrow> [])"

definition extractHostnameFromSyslogMessage :: "json option \<Rightarrow> string" where
  "extractHostnameFromSyslogMessage message =
     (let text = trim (unwrapMessageForLevel message)
      in if text = [] then []
         else nullish
           (find (\<lambda>h. h \<noteq> [] \<and> h \<noteq> ''-'')
             (map (\<lambda>r. nullish (map_option trim (Option.bind (rx_match r text) (group 1))) [])
               [RFC3164_HOSTNAME_PATTERN, RFC5424_HOSTNAME_PATTERN])) [])"

definition first_nonempty :: "string list \<Rightarrow> string" where
  "first_nonempty xs = nullish (find (\<lambda>s. s \<noteq> []) xs) []"

definition no_dash :: "string \<Rightarrow> string" where
  "no_dash s = (if s = ''-'' then [] else s)"

fun toDisplayIP :: "json \<Rightarrow> string" where
  "toDisplayIP (JArr xs) = first_nonempty (map toDisplayIP xs)"
| "toDisplayIP v = no_dash (toHostString (Some v))"

definition display_ip :: "json option \<Rightarrow> string" where
  "display_ip v = (case v of None \<Rightarrow> [] | Some j \<Rightarrow> toDisplayIP j)"

definition resolveLogHost :: "json \<Rightarrow> json option list \<Rightarrow> string" where
  "resolveLogHost flds messages =
     (let f = json_field (Some flds);
          direct = first_nonempty (map (toHostString \<circ> f)
                     [''host'', ''host.name'', ''hostname'', ''syslog_hostname'', ''server_id''])
      in if direct \<noteq> [] then direct
         else or_str (first_nonempty (map extractHostnameFromSyslogMessage messages)) zh_dash)"

definition resolveLogHostIP :: "json \<Rightarrow> string" where
  "resolveLogHostIP flds =
     (let f = json_field (Some flds); agent = json_field (f ''agent'')
      in or_str (first_nonempty (map display_ip
           [f ''host_ip'', f ''host.ip'', f ''hostIp'', f ''server_ip'', f ''agent.ip'', f ''agent_ip'',
            agent ''ip'', f ''agent.id'', agent ''id'', f ''agent_id''])) zh_dash)"

section \<open>Service\<close>

definition normalizeServiceNameCandidate :: "string \<Rightarrow> string" where
  "normalizeServiceNameCandidate v =
     (let normalized = trim v
      in if js_length normalized \<le> 4 \<or> \<not> endsWith (toLowerCase normalized) ''.log'' then normalized
         else or_str (trim (take (length normalized - 4) normalized)) normalized)"

definition extractServiceNameFromSourcePath :: "json option \<Rightarrow> string" where
  "extractServiceNameFromSourcePath sourcePath =
     (let raw = trim (string_or_empty sourcePath)
      in if raw = [] then []
         else (let segments = filter (\<lambda>s. s \<noteq> []) (split_on ''/'' (replace_char (\<lambda>c. c = CHR 0x5C) (CHR ''/'') raw));
                   fileName = (if segments = [] then [] else trim (last segments))
               in normalizeServiceNameCandidate fileName))"

definition bogus_service :: "string \<Rightarrow> bool" where
  "bogus_service s \<longleftrightarrow>
     s = [] \<or> toLowerCase s \<in> set BOGUS_SERVICE_NAMES \<or> startsWith s ''{'' \<or> startsWith s ''[''
     \<or> js_includes s [CHR ''{'', CHR 0x22] \<or> js_includes s [CHR 0x5C, CHR 0x22]
     \<or> list_ex (\<lambda>c. c = CHR 0x0D \<or> c = CHR 0x0A \<or> c = CHR 0x09) s
     \<or> list_all is_digit s \<or> rx_test DATE_NAME_PATTERN s"

definition toServiceString :: "json option \<Rightarrow> string" where
  "toServiceString v =
     (let normalized = toHostString v
      in if bogus_service normalized then [] else normalizeServiceNameCandidate normalized)"

definition resolveLogService :: "json \<Rightarrow> json option list \<Rightarrow> string" where
  "resolveLogService flds candidates =
     (let f = json_field (Some flds) in
      or_str (first_nonempty
        (map toServiceString (candidates @ map f [''service_name'', ''service'', ''app'', ''container_name''])
         @ map (extractServiceNameFromSourcePath \<circ> f) [''source_path'', ''source'', ''source_internal'']
         @ map (toServiceString \<circ> f) [''service_instance_id'', ''agent_id'', ''source_id'']))
        ''unknown'')"

section \<open>Level\<close>

definition detectExplicitLevelFromMessage :: "json option \<Rightarrow> log_level option" where
  "detectExplicitLevelFromMessage message =
     (let text = unwrapMessageForLevel message
      in if text = [] then None
         else (case nullish (Option.bind (rx_match LOG_LEVEL_TOKEN_PATTERN text) (group 1)) [] of
             [] \<Rightarrow> None
           | t0 # t1 \<Rightarrow>
               (let token = toLowerCase (trim (t0 # t1))
                in if token = ''warn'' \<or> token = ''warning'' then Some WarnLog
                   else if token = ''error'' \<or> token = ''fatal'' \<or> token = ''panic'' then Some ErrorLog
                   else if token = ''debug'' \<or> token = ''trace'' then Some DebugLog
                   else if token = ''info'' then Some InfoLog
                   else None)))"

text \<open>\<open>None\<close> is the index -1.\<close>

definition earliestKeywordIndex :: "string \<Rightarrow> string list \<Rightarrow> nat option" where
  "earliestKeywordIndex text keywords =
     fold (\<lambda>k result. case indexOf text k of
              None \<Rightarrow> result
            | Some i \<Rightarrow> (case result of None \<Rightarrow> Some i | Some j \<Rightarrow> if i < j then Some i else Some j))
       keywords None"

definition normalizeLevel :: "json option \<Rightarrow> json option \<Rightarrow> log_level" where
  "normalizeLevel rawLevel message =
     (let level = toLowerCase (trim (string_or_empty rawLevel))
      in if level = ''error'' then ErrorLog
         else if level = ''warn'' \<or> level = ''warning'' then WarnLog
         else if level = ''debug'' then DebugLog
         else if level = ''info'' then InfoLog
         else (case detectExplicitLevelFromMessage message of
             Some l \<Rightarrow> l
           | None \<Rightarrow>
               (let text = toLowerCase (string_or_empty message);
                    warnIndex = earliestKeywordIndex text [''warn'', ''warning''];
                    errorIndex = earliestKeywordIndex text [''error'', ''panic'', ''fatal'', ''fail'']
                in if warnIndex \<noteq> None \<and> (errorIndex = None \<or> the warnIndex < the errorIndex) then WarnLog
                   else if errorIndex \<noteq> None then ErrorLog
                   else if js_includes text ''debug'' then DebugLog
                   else InfoLog)))"

section \<open>A hit\<close>

definition first_present :: "json option list \<Rightarrow> json option" where
  "first_present vs = foldr nullish_json vs None"

text \<open>The entry of a hit whose properties can be read: of every value but \<open>null\<close>.\<close>

definition hit_entry :: "clock \<Rightarrow> json \<Rightarrow> nat \<Rightarrow> log_entry" where
  "hit_entry c hit index =
     (let h = json_field (Some hit);
          flds = (case nullish_json (h ''fields'') None of None \<Rightarrow> JObj [] | Some j \<Rightarrow> j);
          f = json_field (Some flds);
          timestamp = or_str (trim (string_or_empty (first_present [h ''timestamp'', f ''timestamp'', f ''collect_time''])))
                        (now_iso c);
          sourceMessage = trim (string_or_empty (first_present [h ''message'', f ''message'']));
          rawLogSource = first_present [h ''raw_log'', f ''raw_message'', f ''raw_log'', f ''data'', Some (JStr sourceMessage)];
          rawLog = trim (if truthy rawLogSource then string_or_empty rawLogSource else sourceMessage);
          message = or_str (normalizeDisplayMessage (Some (JStr (or_str sourceMessage rawLog)))) ''(empty message)'';
          default_id = ''log-'' @ nat_to_string (index + 1)
      in \<lparr>lg_id = or_str (trim (string_or_empty
                     (first_present [h ''id'', f ''event_id'', f ''record_id'', Some (JStr default_id)]))) default_id,
          lg_timestamp = timestamp,
          lg_level = normalizeLevel (first_present [h ''level'', f ''level''])
                       (Some (JStr (or_str sourceMessage (or_str rawLog message)))),
          lg_service = resolveLogService flds [h ''service'', f ''service_name'', f ''service''],
          lg_host = resolveLogHost flds [Some (JStr sourceMessage), Some (JStr rawLog)],
          lg_hostIp = resolveLogHostIP flds,
          lg_message = message, lg_fields = flds, lg_rawLog = rawLog\<rparr>)"

text \<open>\<open>None\<close> is the type error of reading \<open>hit.fields\<close> of \<open>null\<close>.\<close>

definition normalizeHit :: "clock \<Rightarrow> json \<Rightarrow> nat \<Rightarrow> log_entry option" where
  "normalizeHit c hit index = (if hit = JNull then None else Some (hit_entry c hit index))"

section \<open>Items of the query API\<close>

definition normalizeQueryHistory :: "clock \<Rightarrow> json \<Rightarrow> nat \<Rightarrow> query_history" where
  "normalizeQueryHistory c item index =
     (let f = json_field (Some item) in
      \<lparr>qh_id = string_or (f ''id'') (''query-history-'' @ nat_to_string (index + 1)),
       qh_query = string_or_empty (f ''query''), qh_executedAt = string_or (f ''executed_at'') (now_iso c),
       qh_duration = number_or_zero (f ''duration_ms''), qh_resultCount = number_or_zero (f ''result_count'')\<rparr>)"

definition normalizeSavedQuery :: "clock \<Rightarrow> json \<Rightarrow> nat \<Rightarrow> saved_query" where
  "normalizeSavedQuery c item index =
     (let f = json_field (Some item) in
      \<lparr>sq_id = string_or (f ''id'') (''saved-query-'' @ nat_to_string (index + 1)),
       sq_name = string_or (f ''name'') zh_unnamed_query, sq_description = nullish (string_field (f ''description'')) [],
       sq_query = string_or_empty (f ''query''), sq_filters = object_or_empty (f ''filters''),
       sq_tags = filter (\<lambda>t. t \<noteq> []) (map (trim \<circ> js_String) (array_items (f ''tags''))),
       sq_createdAt = string_or (f ''created_at'') (now_iso c), sq_updatedAt = string_field (f ''updated_at''),
       sq_runCount = number_or_zero (f ''run_count'')\<rparr>)"

definition toPositiveNumber :: "json option \<Rightarrow> int \<Rightarrow> int" where
  "toPositiveNumber raw fallback =
     (case num_of_json raw of Fin q \<Rightarrow> if q \<le> 0 then fallback else \<lfloor>q\<rfloor> | _ \<Rightarrow> fallback)"

section \<open>Lemmas\<close>

lemma set_trimStart: "set (trimStart s) \<subseteq> set s"
proof (induction s rule: trimStart.induct)
  case (1 s)
  then show ?case by (subst trimStart.simps) (auto dest: in_set_dropD)
qed

lemma set_trim: "set (trim s) \<subseteq> set s"
proof -
  have "set (trimEnd t) \<subseteq> set t" for t using trimEnd_prefix [of t] by (metis Un_upper1 set_append)
  then show ?thesis using set_trimStart [of s] by (auto simp: trim_def)
qed

definition printable :: "char \<Rightarrow> bool" where
  "printable c \<longleftrightarrow> \<not> control_char c \<and> c \<noteq> CHR 0x0A \<and> c \<noteq> CHR 0x09"

lemma printable_code: "printable c \<Longrightarrow> 32 \<le> (of_char c :: nat) \<and> (of_char c :: nat) \<noteq> 127"
proof -
  assume p: "printable c"
  have "char_of (10 :: nat) = CHR 0x0A" "char_of (9 :: nat) = CHR 0x09" by code_simp+
  then have "(of_char c :: nat) = 10 \<Longrightarrow> c = CHR 0x0A" "(of_char c :: nat) = 9 \<Longrightarrow> c = CHR 0x09"
    by (metis char_of_char)+
  with p have "(of_char c :: nat) \<noteq> 10" "(of_char c :: nat) \<noteq> 9" by (auto simp: printable_def)
  moreover have "\<not> (of_char c :: nat) \<le> 8" "\<not> (11 \<le> (of_char c :: nat) \<and> (of_char c :: nat) \<le> 31)"
    "(of_char c :: nat) \<noteq> 127"
    using p by (auto simp: printable_def control_char_def)
  ultimately show ?thesis by linarith
qed

lemma sanitized_printable: "list_all printable (sanitizeDisplayMessage m)"
proof -
  define a where "a = normalize_newlines (rx_replace ANSI_COLOR_PATTERN [] m)"
  define b where "b = replace_char control_char (CHR '' '') (replace_char (\<lambda>c. c = CHR 0x09) (CHR '' '') a)"
  define d where "d = replace_runs (\<lambda>c. c = CHR 0x0A) '' '' b"
  define e where "e = concat (replace_long_runs js_space ['' ''] (js_chars d))"
  have sp: "printable (CHR '' '')" "\<not> control_char (CHR '' '')" by (simp_all add: printable_def control_char_def)
  have "c \<in> set b \<Longrightarrow> \<not> control_char c \<and> c \<noteq> CHR 0x09" for c
    using sp by (auto simp: b_def replace_char_def)
  then have "set d \<subseteq> Collect printable"
    using set_replace_runs [of "\<lambda>c. c = CHR 0x0A" "'' ''" b] sp by (auto simp: d_def printable_def)
  moreover have "set e \<subseteq> insert (CHR '' '') (set d)"
  proof -
    have "set (replace_long_runs js_space ['' ''] (js_chars d)) \<subseteq> insert '' '' (set (js_chars d))"
      using set_replace_long_runs [of js_space "['' '']" "js_chars d"] by simp
    moreover have "\<Union> (set ` set (js_chars d)) = set d" unfolding set_concat [symmetric] by simp
    ultimately show ?thesis unfolding e_def set_concat by fastforce
  qed
  ultimately have "set (trim e) \<subseteq> Collect printable" using set_trim [of e] sp by auto
  moreover have "sanitizeDisplayMessage m = (if m = [] then [] else trim e)"
    by (simp add: sanitizeDisplayMessage_def Let_def a_def b_def d_def e_def)
  ultimately show ?thesis by (auto simp: list_all_iff)
qed

lemma sanitized_trimmed: "trim (sanitizeDisplayMessage m) = sanitizeDisplayMessage m"
  by (simp add: sanitizeDisplayMessage_def Let_def)

lemma displayed_message:
  "list_all printable (normalizeDisplayMessage m) \<and> trim (normalizeDisplayMessage m) = normalizeDisplayMessage m"
  using sanitized_printable sanitized_trimmed by (simp add: normalizeDisplayMessage_def Let_def)

lemma first_nonempty_simps [simp]:
  "first_nonempty [] = []" "first_nonempty (x # xs) = (if x = [] then first_nonempty xs else x)"
  by (simp_all add: first_nonempty_def)

lemma zh_dash_nonempty: "zh_dash \<noteq> []"
  by code_simp

lemma lg_message_eq:
  "\<exists>m. lg_message (hit_entry c hit i) = or_str (normalizeDisplayMessage m) ''(empty message)''"
  by (auto simp: hit_entry_def Let_def)

lemma lg_nonempty:
  "lg_id (hit_entry c hit i) \<noteq> []" "lg_service (hit_entry c hit i) \<noteq> []" "lg_host (hit_entry c hit i) \<noteq> []"
  "lg_hostIp (hit_entry c hit i) \<noteq> []" "lg_message (hit_entry c hit i) \<noteq> []"
  using zh_dash_nonempty
  by (simp_all add: hit_entry_def Let_def resolveLogService_def resolveLogHost_def resolveLogHostIP_def
      del: first_nonempty_simps)

lemma lg_host_eq:
  "json_field (Some hit) ''fields'' = Some flds \<Longrightarrow> flds \<noteq> JNull \<Longrightarrow>
     \<exists>ms. lg_host (hit_entry c hit i) = resolveLogHost flds ms"
  unfolding hit_entry_def Let_def by (simp add: nullish_json_def) blast

lemma lg_service_eq:
  "json_field (Some hit) ''fields'' = Some flds \<Longrightarrow> flds \<noteq> JNull \<Longrightarrow>
     \<exists>vs. lg_service (hit_entry c hit i) = resolveLogService flds (json_field (Some hit) ''service'' # vs)"
  unfolding hit_entry_def Let_def by (simp add: nullish_json_def) blast

lemma candidate_nonempty: "\<not> bogus_service s \<Longrightarrow> trim s = s \<Longrightarrow> normalizeServiceNameCandidate s \<noteq> []"
  by (auto simp: normalizeServiceNameCandidate_def Let_def bogus_service_def)

lemma empty_message_ok: "list_all printable ''(empty message)'' \<and> trim ''(empty message)'' = ''(empty message)''"
  by code_simp

section \<open>Properties\<close>

text \<open>C17: Whatever a hit of the search service looks like, only \<open>null\<close> is no entry (reading its fields is a
  type error); of any other the entry can be shown in the table: its id, service, host, address and message
  are not empty, and the message is trimmed and has no ASCII control character, so no tabulator, line feed or
  carriage return (the line separators beyond ASCII are not looked for by the code).\<close>

theorem entry_displayable:
  "(case normalizeHit c hit i of
      None \<Rightarrow> hit = JNull
    | Some e \<Rightarrow> hit \<noteq> JNull
        \<and> lg_id e \<noteq> [] \<and> lg_service e \<noteq> [] \<and> lg_host e \<noteq> [] \<and> lg_hostIp e \<noteq> [] \<and> lg_message e \<noteq> []
        \<and> list_all (\<lambda>ch. 32 \<le> (of_char ch :: nat) \<and> (of_char ch :: nat) \<noteq> 127) (lg_message e)
        \<and> trim (lg_message e) = lg_message e)"
proof -
  let ?e = "hit_entry c hit i"
  obtain m where m: "lg_message ?e = or_str (normalizeDisplayMessage m) ''(empty message)''"
    using lg_message_eq by blast
  have "list_all printable (or_str (normalizeDisplayMessage m) ''(empty message)'')
      \<and> trim (or_str (normalizeDisplayMessage m) ''(empty message)'') = or_str (normalizeDisplayMessage m) ''(empty message)''"
    using displayed_message [of m] empty_message_ok unfolding or_str_def by presburger
  then have "list_all (\<lambda>ch. 32 \<le> (of_char ch :: nat) \<and> (of_char ch :: nat) \<noteq> 127) (lg_message ?e)
      \<and> trim (lg_message ?e) = lg_message ?e"
    unfolding m [symmetric] by (auto simp: list_all_iff dest: printable_code)
  then show ?thesis using lg_nonempty [of c hit i] by (simp add: normalizeHit_def)
qed

text \<open>The level of an entry: a level the service names as error, warn, warning, debug or info is used,
  whatever its case and whatever the message says; any other level is ignored and the message decides.
  In particular the level FATAL, which the collector agent assigns, is lost when the message does not
  contain a level word of its own.\<close>

theorem level_resolution:
  "(case toLowerCase (trim s) of
      t \<Rightarrow> normalizeLevel (Some (JStr s)) m =
            (if t = ''error'' then ErrorLog
             else if t = ''warn'' \<or> t = ''warning'' then WarnLog
             else if t = ''debug'' then DebugLog
             else if t = ''info'' then InfoLog
             else normalizeLevel None m))
   \<and> normalizeLevel (Some (JStr ''FATAL'')) (Some (JStr ''[CRITICAL] disk gone'')) = InfoLog"
proof
  have "normalizeLevel (Some (JStr ''FATAL'')) (Some (JStr ''[CRITICAL] disk gone'')) = InfoLog" by code_simp
  then show "normalizeLevel (Some (JStr ''FATAL'')) (Some (JStr ''[CRITICAL] disk gone'')) = InfoLog" .
  have "toLowerCase (trim (string_or_empty None)) = []" by (simp add: string_or_empty_def)
  then show "case toLowerCase (trim s) of
      t \<Rightarrow> normalizeLevel (Some (JStr s)) m =
            (if t = ''error'' then ErrorLog
             else if t = ''warn'' \<or> t = ''warning'' then WarnLog
             else if t = ''debug'' then DebugLog
             else if t = ''info'' then InfoLog
             else normalizeLevel None m)"
    by (simp add: normalizeLevel_def Let_def)
qed

text \<open>The host an entry names is the one its fields name, and its service the one the hit names, when they
  name one: a non-blank \<open>host\<close> field wins over every other field and over the message, and a service of
  the hit that is not bogus wins over every field and over the path of the source file.\<close>

theorem host_and_service_priority:
  assumes "json_field (Some hit) ''fields'' = Some flds" and "flds \<noteq> JNull"
    and "json_field (Some flds) ''host'' = Some (JStr h)" and "trim h \<noteq> []"
    and "json_field (Some hit) ''service'' = Some (JStr v)" and "\<not> bogus_service (trim v)"
  shows "lg_host (hit_entry c hit i) = trim h
    \<and> lg_service (hit_entry c hit i) = normalizeServiceNameCandidate (trim v)"
proof
  obtain ms where "lg_host (hit_entry c hit i) = resolveLogHost flds ms"
    using lg_host_eq [OF assms(1,2)] by blast
  also have "\<dots> = trim h" using assms(3,4) by (simp add: resolveLogHost_def Let_def toHostString_def)
  finally show "lg_host (hit_entry c hit i) = trim h" .
  obtain vs where "lg_service (hit_entry c hit i) = resolveLogService flds (json_field (Some hit) ''service'' # vs)"
    using lg_service_eq [OF assms(1,2)] by blast
  also have "\<dots> = normalizeServiceNameCandidate (trim v)"
    using assms(5,6) candidate_nonempty [of "trim v"]
    by (simp add: resolveLogService_def Let_def toServiceString_def toHostString_def)
  finally show "lg_service (hit_entry c hit i) = normalizeServiceNameCandidate (trim v)" .
qed

definition sample_hit :: json where
  "sample_hit = JObj [(''service'', JStr ''nginx.log''), (''fields'', JObj [(''host'', JStr '' web-1 '')])]"

theorem host_and_service_priority_witness:
  "lg_host (hit_entry sample_clock sample_hit 0) = ''web-1''
   \<and> lg_service (hit_entry sample_clock sample_hit 0) = ''nginx''"
proof -
  have f: "json_field (Some sample_hit) ''fields'' = Some (JObj [(''host'', JStr '' web-1 '')])"
    "JObj [(''host'', JStr '' web-1 '')] \<noteq> JNull"
    "json_field (Some (JObj [(''host'', JStr '' web-1 '')])) ''host'' = Some (JStr '' web-1 '')"
    "trim '' web-1 '' \<noteq> []" "json_field (Some sample_hit) ''service'' = Some (JStr ''nginx.log'')"
    "\<not> bogus_service (trim ''nginx.log'')"
    by (simp add: sample_hit_def json_field_def, simp, simp add: json_field_def, code_simp,
        simp add: sample_hit_def json_field_def, code_simp)
  have e: "trim '' web-1 '' = ''web-1''" "normalizeServiceNameCandidate (trim ''nginx.log'') = ''nginx''"
    by code_simp+
  show ?thesis using host_and_service_priority [OF f, of sample_clock 0] unfolding e .
qed

end
