(* ===== verification/Query_Demo.thy ===== *)
theory Query_Demo
  imports Log_Fields Api_Client
begin

text \<open>
  The demonstration logs the console shows offline or in an emergency session, their filters, and the
  dashboard overview computed from them (\<open>api/query.ts\<close>). \<open>random\<close> gives the random suffix of the id of
  the n-th entry of a seed, \<open>lc\<close> the sign of \<open>localeCompare\<close>. Hours and days are truncated in the local
  time zone; the model's local zone is UTC.
\<close>

section \<open>Demonstration logs\<close>

record demo_seed =
  ds_host :: string
  ds_hostIp :: string
  ds_service :: string
  ds_source :: string
  ds_env :: string
  ds_region :: string
  ds_count :: nat
  ds_intervalMinutes :: int
  ds_messagePrefix :: string

definition LOCAL_DEMO_LOG_SEEDS :: "demo_seed list" where
  "LOCAL_DEMO_LOG_SEEDS =
     [\<lparr>ds_host = ''prod-node-sh01'', ds_hostIp = ''10.20.1.21'', ds_service = ''nginx-gateway'',
       ds_source = ''/var/log/nginx/access.log'', ds_env = ''prod'', ds_region = ''cn-east-1'', ds_count = 18,
       ds_intervalMinutes = 6, ds_messagePrefix = ''gateway access''\<rparr>,
      \<lparr>ds_host = ''billing-node-a-02'', ds_hostIp = ''10.20.2.34'', ds_service = ''payments-processor-api'',
       ds_source = ''/var/log/app/payment/processor.log'', ds_env = ''prod'', ds_region = ''cn-east-1'', ds_count = 14,
       ds_intervalMinutes = 9, ds_messagePrefix = ''payment workflow''\<rparr>,
      \<lparr>ds_host = ''order-node-b-11'', ds_hostIp = ''10.20.3.18'', ds_service = ''order-event-consumer'',
       ds_source = ''/var/log/app/order/consumer.log'', ds_env = ''prod'', ds_region = ''cn-east-1'', ds_count = 11,
       ds_intervalMinutes = 11, ds_messagePrefix = ''order event''\<rparr>,
      \<lparr>ds_host = ''k8s-worker-cn-east-1a'', ds_hostIp = ''10.20.4.45'', ds_service = ''inventory-sync-worker'',
       ds_source = ''/var/lib/docker/containers/abcdef123456/abcdef123456-json.log'', ds_env = ''prod'',
       ds_region = ''cn-east-1'', ds_count = 8, ds_intervalMinutes = 15, ds_messagePrefix = ''inventory sync''\<rparr>,
      \<lparr>ds_host = ''audit-gateway-01'', ds_hostIp = ''10.20.5.16'', ds_service = ''auditd'',
       ds_source = ''/var/log/audit/audit.log'', ds_env = ''prod'', ds_region = ''cn-east-1'', ds_count = 6,
       ds_intervalMinutes = 19, ds_messagePrefix = ''audit event''\<rparr>]"

definition resolveDemoLogLevel :: "nat \<Rightarrow> nat \<Rightarrow> log_level" where
  "resolveDemoLogLevel seedIndex itemIndex =
     (if (seedIndex + itemIndex) mod 11 = 0 then ErrorLog
      else if (seedIndex + itemIndex) mod 5 = 0 then WarnLog
      else if itemIndex mod 2 = 0 then InfoLog else DebugLog)"

definition upper_char :: "char \<Rightarrow> char" where
  "upper_char c = (if 97 \<le> (of_char c :: nat) \<and> (of_char c :: nat) \<le> 122 then char_of (of_char c - 32 :: nat) else c)"

definition demo_log :: "clock \<Rightarrow> string \<Rightarrow> (nat \<Rightarrow> nat \<Rightarrow> string) \<Rightarrow> nat \<Rightarrow> demo_seed \<Rightarrow> nat \<Rightarrow> log_entry" where
  "demo_log c tenantId random seedIndex seed itemIndex =
     (let level = resolveDemoLogLevel seedIndex itemIndex;
          timestamp = toISOString (now_ms c - (int seedIndex * 17 + int itemIndex * ds_intervalMinutes seed) * 60000);
          statusCode = (if level = ErrorLog then 500 else if level = WarnLog then 429 else 200 :: nat);
          message = ds_messagePrefix seed @ '' '' @ nat_to_string (itemIndex + 1) @ '' on '' @ ds_service seed
                    @ '' returned '' @ nat_to_string statusCode;
          rawLog = ''['' @ map upper_char (level_name level) @ ''] '' @ timestamp @ '' '' @ ds_host seed @ '' ''
                   @ ds_service seed @ '': '' @ message;
          str = \<lambda>k v. (k, JStr v)
      in \<lparr>lg_id = createLocalID c (random seedIndex itemIndex)
            (''demo-log-'' @ ds_service seed @ ''-'' @ nat_to_string itemIndex),
          lg_timestamp = timestamp, lg_level = level, lg_service = ds_service seed, lg_host = ds_host seed,
          lg_hostIp = ds_hostIp seed, lg_message = message,
          lg_fields = JObj
            [str ''timestamp'' timestamp, str ''level'' (level_name level), str ''message'' message,
             str ''raw_log'' rawLog, str ''raw_message'' rawLog, str ''source'' (ds_source seed),
             str ''source_path'' (ds_source seed), str ''source_internal'' (ds_source seed),
             str ''host'' (ds_host seed), str ''host_ip'' (ds_hostIp seed), str ''env'' (ds_env seed),
             str ''region'' (ds_region seed), str ''service_name'' (ds_service seed),
             str ''service_instance_id'' (ds_service seed @ ''-'' @ ds_host seed),
             str ''container_name'' (ds_service seed), str ''tenant_id'' tenantId,
             (''statusCode'', JNum (of_nat statusCode))],
          lg_rawLog = rawLog\<rparr>)"

text \<open>\<open>tenant\<close> is the result of \<open>resolveTenantId\<close>.\<close>

definition buildLocalDemoLogEntries :: "clock \<Rightarrow> string \<Rightarrow> (nat \<Rightarrow> nat \<Rightarrow> string) \<Rightarrow> log_entry list" where
  "buildLocalDemoLogEntries c tenant random =
     (let tenantId = or_str tenant ''00000000-0000-0000-0000-000000000001''
      in js_sort (newer_first c lg_timestamp)
           (concat (map (\<lambda>(i, seed). map (demo_log c tenantId random i seed) [0..<ds_count seed])
             (List.enumerate 0 LOCAL_DEMO_LOG_SEEDS))))"

section \<open>Filters\<close>

definition strip_quotes :: "char \<Rightarrow> string \<Rightarrow> string" where
  "strip_quotes q s =
     (case rx_match (rx_seq [Begin_Input, rx_char q, Grp 1 (rx_plus (Cls (\<lambda>c. \<not> line_terminator c))), rx_char q, End_Input]) s of
        None \<Rightarrow> s
      | Some m \<Rightarrow> nullish (group 1 m) [])"

definition stripQuotedTerm :: "string \<Rightarrow> string" where
  "stripQuotedTerm raw = trim (strip_quotes (CHR 0x27) (strip_quotes (CHR 0x22) raw))"

definition matchesLocalDemoKeyword :: "log_entry \<Rightarrow> string \<Rightarrow> bool" where
  "matchesLocalDemoKeyword entry token =
     (let normalized = toLowerCase (stripQuotedTerm token);
          f = json_field (Some (lg_fields entry));
          source = toLowerCase (string_or_empty (first_present [f ''source_path'', f ''source'']));
          service = toLowerCase (lg_service entry);
          host = toLowerCase (lg_host entry);
          message = toLowerCase (lg_message entry @ '' '' @ lg_rawLog entry);
          anywhere = \<lambda>t. js_includes message t \<or> js_includes service t \<or> js_includes source t \<or> js_includes host t
      in if normalized = [] \<or> normalized = ''and'' \<or> normalized = ''or'' then True
         else if CHR '':'' \<in> set normalized then
           (case split_on '':'' normalized of
              [] \<Rightarrow> True
            | rawField # rest \<Rightarrow>
                (let expected = trim (join '':'' rest)
                 in if expected = [] then True
                    else if rawField = ''level'' then js_includes (level_name (lg_level entry)) expected
                    else if rawField = ''service'' \<or> rawField = ''service.name'' then js_includes service expected
                    else if rawField = ''source'' \<or> rawField = ''source.path'' then js_includes source expected
                    else if rawField = ''host'' \<or> rawField = ''host.name'' then js_includes host expected
                    else anywhere expected))
         else anywhere normalized)"

text \<open>\<open>text.split(/\s+/)\<close>.\<close>

function split_runs :: "('a \<Rightarrow> bool) \<Rightarrow> 'a list \<Rightarrow> 'a list list" where
  "split_runs P xs =
     (case dropWhile (\<lambda>x. \<not> P x) xs of
        [] \<Rightarrow> [takeWhile (\<lambda>x. \<not> P x) xs]
      | _ # r \<Rightarrow> takeWhile (\<lambda>x. \<not> P x) xs # split_runs P (dropWhile P r))"
  by pat_completeness auto
termination
proof (relation "measure (\<lambda>(_, xs). length xs)")
  fix P :: "'a \<Rightarrow> bool" and xs :: "'a list" and x r
  assume "dropWhile (\<lambda>x. \<not> P x) xs = x # r"
  then have "length (x # r) \<le> length xs" by (metis length_dropWhile_le)
  moreover have "length (dropWhile P r) \<le> length r" by (rule length_dropWhile_le)
  ultimately show "((P, dropWhile P r), (P, xs)) \<in> measure (\<lambda>(_, xs). length xs)" by simp
qed simp

declare split_runs.simps [simp del]

definition split_spaces :: "string \<Rightarrow> string list" where
  "split_spaces s = map concat (split_runs js_space (js_chars s))"

definition matchesLocalDemoKeywords :: "log_entry \<Rightarrow> string \<Rightarrow> bool" where
  "matchesLocalDemoKeywords entry keywords =
     (let trimmed = trim keywords
      in trimmed = [] \<or> list_all (matchesLocalDemoKeyword entry) (split_spaces trimmed))"

definition matchesLocalDemoFilters :: "log_entry \<Rightarrow> json option \<Rightarrow> bool" where
  "matchesLocalDemoFilters entry filters =
     (case filters of
        None \<Rightarrow> True
      | Some _ \<Rightarrow>
          (let level = toLowerCase (trim (string_or_empty (json_field filters ''level'')));
               service = toLowerCase (trim (string_or_empty (json_field filters ''service'')))
           in (level = [] \<or> level_name (lg_level entry) = level)
              \<and> (service = [] \<or> js_includes (toLowerCase (lg_service entry)) service)))"

record time_range =
  tr_from :: "string option"
  tr_to :: "string option"

definition matchesLocalDemoTimeRange :: "clock \<Rightarrow> log_entry \<Rightarrow> time_range option \<Rightarrow> bool" where
  "matchesLocalDemoTimeRange c entry tr =
     (case date_of c (lg_timestamp entry) of
        None \<Rightarrow> False
      | Some t \<Rightarrow>
          within_bounds (bound_ms c (Option.bind tr tr_from)) (bound_ms c (Option.bind tr tr_to)) (Some t))"

definition filterLocalDemoLogs ::
    "clock \<Rightarrow> string \<Rightarrow> (nat \<Rightarrow> nat \<Rightarrow> string) \<Rightarrow> string option \<Rightarrow> json option \<Rightarrow> time_range option \<Rightarrow> log_entry list" where
  "filterLocalDemoLogs c tenant random keywords filters tr =
     filter (\<lambda>entry. matchesLocalDemoTimeRange c entry tr \<and> matchesLocalDemoFilters entry filters
                 \<and> matchesLocalDemoKeywords entry (nullish keywords []))
       (buildLocalDemoLogEntries c tenant random)"

section \<open>Counting\<close>

text \<open>\<open>buckets.set(key, (buckets.get(key) ?? 0) + 1)\<close> for every element.\<close>

definition count_key :: "'k \<Rightarrow> ('k, nat) jsmap \<Rightarrow> ('k, nat) jsmap" where
  "count_key k m = jm_set k (nullish (jm_get m k) 0 + 1) m"

definition count_keys :: "('a \<Rightarrow> 'k) \<Rightarrow> 'a list \<Rightarrow> ('k, nat) jsmap \<Rightarrow> ('k, nat) jsmap" where
  "count_keys f xs m = fold (\<lambda>x. count_key (f x)) xs m"

section \<open>Top sources\<close>

record top_source =
  ts_source :: string
  ts_host :: string
  ts_service :: string
  ts_count :: jsnum

definition SOURCE_AGGREGATE_KEY_SEPARATOR :: string where
  "SOURCE_AGGREGATE_KEY_SEPARATOR = [CHR 0x1F]"

definition buildDashboardTopSourceLabel :: "string \<Rightarrow> string \<Rightarrow> string" where
  "buildDashboardTopSourceLabel host service = host @ '' / '' @ service"

definition buildDashboardTopSourceIdentity :: "string \<Rightarrow> string \<Rightarrow> string" where
  "buildDashboardTopSourceIdentity host service = host @ SOURCE_AGGREGATE_KEY_SEPARATOR @ service"

definition pair_parts :: "string \<Rightarrow> string list" where
  "pair_parts s = filter (\<lambda>p. p \<noteq> []) (map trim (split_on '' / '' s))"

definition deriveDashboardTopSourceHost :: "string \<Rightarrow> string" where
  "deriveDashboardTopSourceHost source =
     (let normalized = trim source; parts = pair_parts normalized
      in if normalized = [] then ''unknown''
         else if 2 \<le> length parts then or_str (hd parts) ''unknown'' else ''unknown'')"

definition LOG_SUFFIX_PATTERN :: rx where
  "LOG_SUFFIX_PATTERN =
     rx_seq [rx_char (CHR ''.''),
       rx_alt [rx_lit_i ''log'', rx_lit_i ''txt'', rx_lit_i ''out'', Seq (rx_lit_i ''json'') (rx_opt (rx_char_i (CHR ''l'')))],
       End_Input]"

definition deriveDashboardTopSourceService :: "string \<Rightarrow> string" where
  "deriveDashboardTopSourceService source =
     (let normalized = trim source; pairParts = pair_parts normalized
      in if normalized = [] then ''unknown''
         else if 2 \<le> length pairParts then or_str (last pairParts) ''unknown''
         else (let normalizedPath = replace_char (\<lambda>c. c = CHR 0x5C) (CHR ''/'') normalized;
                   segments = filter (\<lambda>s. s \<noteq> []) (split_on ''/'' normalizedPath);
                   tail = (if segments = [] then normalizedPath else last segments);
                   display = trim (rx_replace LOG_SUFFIX_PATTERN [] tail)
               in or_str display (or_str tail ''unknown'')))"

definition nonblank_string :: "json option \<Rightarrow> string option" where
  "nonblank_string v = (case v of Some (JStr s) \<Rightarrow> if trim s = [] then None else Some (trim s) | _ \<Rightarrow> None)"

definition normalizeDashboardTopSource :: "json option \<Rightarrow> top_source" where
  "normalizeDashboardTopSource source =
     (let f = json_field source;
          rawSource = nullish (nonblank_string (f ''source'')) [];
          host = nullish (nonblank_string (f ''host'')) (deriveDashboardTopSourceHost rawSource);
          service = nullish (nonblank_string (f ''service'')) (deriveDashboardTopSourceService rawSource)
      in \<lparr>ts_source = or_str rawSource (buildDashboardTopSourceLabel host service), ts_host = host,
          ts_service = service, ts_count = or_num (num_of_json (f ''count'')) (Fin 0)\<rparr>)"

definition trimmed_or_unknown :: "string \<Rightarrow> string" where
  "trimmed_or_unknown s = or_str (trim s) ''unknown''"

definition top_source_key :: "log_entry \<Rightarrow> string \<times> string" where
  "top_source_key entry = (trimmed_or_unknown (lg_host entry), trimmed_or_unknown (lg_service entry))"

text \<open>The buckets are keyed by the identity of host and service; the entry keeps the first pair seen.\<close>

definition add_source :: "log_entry \<Rightarrow> (string, (string \<times> string) \<times> nat) jsmap \<Rightarrow> (string, (string \<times> string) \<times> nat) jsmap" where
  "add_source entry m =
     (case top_source_key entry of (host, service) \<Rightarrow>
        (let k = buildDashboardTopSourceIdentity host service;
             current = nullish (jm_get m k) ((host, service), 0)
         in jm_set k (fst current, snd current + 1) m))"

definition source_before ::
    "(string \<Rightarrow> string \<Rightarrow> int) \<Rightarrow> (string \<times> string) \<times> nat \<Rightarrow> (string \<times> string) \<times> nat \<Rightarrow> bool" where
  "source_before lc l r =
     (if snd l \<noteq> snd r then snd r < snd l
      else lc (buildDashboardTopSourceLabel (fst (fst l)) (snd (fst l)))
              (buildDashboardTopSourceLabel (fst (fst r)) (snd (fst r))) \<le> 0)"

definition source_json :: "(string \<times> string) \<times> nat \<Rightarrow> json" where
  "source_json e =
     (case e of ((host, service), count) \<Rightarrow>
        JObj [(''source'', JStr (buildDashboardTopSourceLabel host service)), (''host'', JStr host),
              (''service'', JStr service), (''count'', JNum (of_nat count))])"

definition toOverviewTopSources :: "(string \<Rightarrow> string \<Rightarrow> int) \<Rightarrow> log_entry list \<Rightarrow> top_source list" where
  "toOverviewTopSources lc logs =
     map (normalizeDashboardTopSource \<circ> Some \<circ> source_json)
       (take 5 (js_sort (source_before lc) (jm_values (fold add_source logs []))))"

section \<open>The overview\<close>

datatype overview_range = Range24h | Range7d

record overview_stats =
  os_total :: nat
  os_levels :: "(string, nat) jsmap"
  os_sources :: "top_source list"
  os_alerts :: "nat \<times> nat \<times> nat"
  os_trend :: "(string \<times> nat) list"

definition truncate_to :: "int \<Rightarrow> int \<Rightarrow> int" where
  "truncate_to unit t = t - t mod unit"

definition truncateDateToMinute :: "int \<Rightarrow> int" where "truncateDateToMinute = truncate_to 60000"
definition truncateDateToHour :: "int \<Rightarrow> int" where "truncateDateToHour = truncate_to 3600000"
definition truncateDateToDay :: "int \<Rightarrow> int" where "truncateDateToDay = truncate_to 86400000"

definition resolveDashboardOverviewRangeDuration :: "overview_range \<Rightarrow> int" where
  "resolveDashboardOverviewRangeDuration r = (if r = Range7d then 7 * 24 * 60 * 60 * 1000 else 24 * 60 * 60 * 1000)"

text \<open>\<open>levelDistribution[level] += 1\<close> for the levels the object has.\<close>

definition count_level :: "log_entry \<Rightarrow> (string, nat) jsmap \<Rightarrow> (string, nat) jsmap" where
  "count_level entry m =
     (case jm_get m (level_name (lg_level entry)) of
        None \<Rightarrow> m
      | Some n \<Rightarrow> jm_set (level_name (lg_level entry)) (n + 1) m)"

definition trend_start :: "clock \<Rightarrow> overview_range \<Rightarrow> (string, nat) jsmap" where
  "trend_start c r =
     (if r = Range7d
      then fold (\<lambda>i. jm_set (toISOString (truncateDateToDay (now_ms c - int i * 24 * 60 * 60 * 1000))) 0) (rev [0..<7]) []
      else fold (\<lambda>i. jm_set (toISOString (truncateDateToHour (now_ms c - int i * 60 * 60 * 1000))) 0) (rev [0..<24]) [])"

definition trend_key :: "clock \<Rightarrow> overview_range \<Rightarrow> log_entry \<Rightarrow> string" where
  "trend_key c r entry =
     (let t = nullish (date_of c (lg_timestamp entry)) 0
      in toISOString (if r = Range7d then truncateDateToDay t else truncateDateToHour t))"

definition buildLocalDashboardOverview ::
    "(string \<Rightarrow> string \<Rightarrow> int) \<Rightarrow> clock \<Rightarrow> string \<Rightarrow> (nat \<Rightarrow> nat \<Rightarrow> string) \<Rightarrow> overview_range \<Rightarrow> overview_stats" where
  "buildLocalDashboardOverview lc c tenant random r =
     (let logs = filterLocalDemoLogs c tenant random None None
            (Some \<lparr>tr_from = Some (toISOString (now_ms c - resolveDashboardOverviewRangeDuration r)),
                   tr_to = Some (toISOString (now_ms c))\<rparr>);
          firing = length (filter (\<lambda>l. lg_level l = ErrorLog) logs);
          resolved = length (filter (\<lambda>l. lg_level l = WarnLog) logs)
      in \<lparr>os_total = length logs,
          os_levels = fold count_level logs [(''debug'', 0), (''info'', 0), (''warn'', 0), (''error'', 0), (''fatal'', 0)],
          os_sources = toOverviewTopSources lc logs,
          os_alerts = (firing + resolved, firing, resolved),
          os_trend = count_keys (trend_key c r) logs (trend_start c r)\<rparr>)"

section \<open>Lemmas on counting\<close>

definition total_count :: "('k, nat) jsmap \<Rightarrow> nat" where
  "total_count m = sum_list (map snd m)"

lemma total_count_set: "total_count (jm_set k v m) + nullish (jm_get m k) 0 = total_count m + v"
  using sum_list_jm_set [of id k v m] by (cases "jm_get m k") (simp_all add: total_count_def)

lemma total_count_key [simp]: "total_count (count_key k m) = Suc (total_count m)"
  using total_count_set [of k "nullish (jm_get m k) 0 + 1" m] by (simp add: count_key_def)

lemma total_count_keys: "total_count (count_keys f xs m) = total_count m + length xs"
  unfolding count_keys_def by (induction xs arbitrary: m) simp_all

lemma get_count_key: "jm_get (count_key k m) k' = (if k' = k then Some (nullish (jm_get m k) 0 + 1) else jm_get m k')"
  by (simp add: count_key_def)

lemma get_count_keys:
  "jm_get (count_keys f xs m) k =
     (if k \<in> f ` set xs then Some (nullish (jm_get m k) 0 + length (filter (\<lambda>x. f x = k) xs)) else jm_get m k)"
  unfolding count_keys_def
proof (induction xs arbitrary: m)
  case (Cons x xs)
  have none: "filter (\<lambda>x. f x = k) xs = []" if "k \<notin> f ` set xs" using that by (auto simp: filter_empty_conv)
  show ?case using none by (auto simp: Cons.IH get_count_key)
qed simp

lemma jm_wf_count_keys: "jm_wf m \<Longrightarrow> jm_wf (count_keys f xs m)"
  unfolding count_keys_def by (induction xs arbitrary: m) (simp_all add: count_key_def)

lemma total_zero_fold: "total_count m = 0 \<Longrightarrow> total_count (fold (\<lambda>i. jm_set (f i) 0) is m) = 0"
proof (induction "is" arbitrary: m)
  case (Cons i "is")
  have "total_count (jm_set (f i) 0 m) = 0" using total_count_set [of "f i" 0 m] Cons.prems by simp
  then show ?case using Cons.IH by simp
qed simp

lemma total_trend_start: "total_count (trend_start c r) = 0"
  unfolding trend_start_def by (simp add: total_zero_fold total_count_def [of "[]"] del: upt_rec_numeral)

definition level_keys :: "(string, nat) jsmap \<Rightarrow> bool" where
  "level_keys m \<longleftrightarrow> list_all (\<lambda>l. jm_get m (level_name l) \<noteq> None) [ErrorLog, WarnLog, InfoLog, DebugLog]"

lemma level_keys_D: "level_keys m \<Longrightarrow> jm_get m (level_name l) \<noteq> None"
  by (cases l) (auto simp: level_keys_def)

lemma count_level_eq: "level_keys m \<Longrightarrow> count_level entry m = count_key (level_name (lg_level entry)) m"
  using level_keys_D [of m "lg_level entry"] by (auto simp: count_level_def count_key_def split: option.splits)

lemma level_keys_count: "level_keys m \<Longrightarrow> level_keys (count_key k m)"
  by (simp add: level_keys_def get_count_key)

lemma fold_count_level: "level_keys m \<Longrightarrow> fold count_level es m = count_keys (level_name \<circ> lg_level) es m"
  unfolding count_keys_def
  by (induction es arbitrary: m) (simp_all add: count_level_eq level_keys_count)

lemma level_name_inject: "level_name l = level_name k \<longleftrightarrow> l = k"
  by (cases l; cases k) simp_all

section \<open>Properties\<close>

text \<open>The figures of the local dashboard overview agree with each other: the counts per level and the
  counts of the trend both add up to the total, the alerts are the errors and the warnings of those
  counts, and at most five sources are shown.\<close>

theorem overview_consistent:
  "total_count (os_levels (buildLocalDashboardOverview lc c tenant random r))
      = os_total (buildLocalDashboardOverview lc c tenant random r)
   \<and> total_count (os_trend (buildLocalDashboardOverview lc c tenant random r))
      = os_total (buildLocalDashboardOverview lc c tenant random r)
   \<and> os_alerts (buildLocalDashboardOverview lc c tenant random r) =
      (let m = os_levels (buildLocalDashboardOverview lc c tenant random r);
           e = nullish (jm_get m ''error'') 0; w = nullish (jm_get m ''warn'') 0
       in (e + w, e, w))
   \<and> length (os_sources (buildLocalDashboardOverview lc c tenant random r)) \<le> 5"
proof -
  define es where "es = filterLocalDemoLogs c tenant random None None
      (Some \<lparr>tr_from = Some (toISOString (now_ms c - resolveDashboardOverviewRangeDuration r)),
             tr_to = Some (toISOString (now_ms c))\<rparr>)"
  let ?start = "[(''debug'', 0), (''info'', 0), (''warn'', 0), (''error'', 0), (''fatal'', 0)] :: (string, nat) jsmap"
  have "level_keys ?start" by (simp add: level_keys_def)
  then have lv: "fold count_level es ?start = count_keys (level_name \<circ> lg_level) es ?start"
    by (rule fold_count_level)
  have names: "level_name l = ''error'' \<longleftrightarrow> l = ErrorLog" "level_name l = ''warn'' \<longleftrightarrow> l = WarnLog" for l
    by (cases l; simp)+
  have get: "nullish (jm_get (count_keys (level_name \<circ> lg_level) es ?start) (level_name l)) 0 =
      length (filter (\<lambda>e. lg_level e = l) es)" if "nullish (jm_get ?start (level_name l)) 0 = 0" for l
    using that by (auto simp: get_count_keys level_name_inject filter_empty_conv)
  have e: "nullish (jm_get (count_keys (level_name \<circ> lg_level) es ?start) ''error'') 0 =
      length (filter (\<lambda>e. lg_level e = ErrorLog) es)"
    and w: "nullish (jm_get (count_keys (level_name \<circ> lg_level) es ?start) ''warn'') 0 =
      length (filter (\<lambda>e. lg_level e = WarnLog) es)"
    using get [of ErrorLog] get [of WarnLog] by simp_all
  have o: "buildLocalDashboardOverview lc c tenant random r =
      \<lparr>os_total = length es, os_levels = count_keys (level_name \<circ> lg_level) es ?start,
       os_sources = toOverviewTopSources lc es,
       os_alerts = (length (filter (\<lambda>l. lg_level l = ErrorLog) es) + length (filter (\<lambda>l. lg_level l = WarnLog) es),
         length (filter (\<lambda>l. lg_level l = ErrorLog) es), length (filter (\<lambda>l. lg_level l = WarnLog) es)),
       os_trend = count_keys (trend_key c r) es (trend_start c r)\<rparr>"
    unfolding buildLocalDashboardOverview_def Let_def es_def [symmetric] lv ..
  have "length (toOverviewTopSources lc es) \<le> 5" by (simp add: toOverviewTopSources_def)
  then show ?thesis
    unfolding o Let_def overview_stats.simps e w
    by (simp add: total_count_keys total_trend_start) (simp add: total_count_def)
qed

end
