(* ===== verification/Query_Stats.thy ===== *)
theory Query_Stats
  imports Query_Demo
begin

text \<open>
  The statistics the console computes itself when the query service cannot (\<open>api/query.ts\<close>): counts per
  level, source, hour or minute; clusters of similar messages; anomalies of the log volume and of the
  error rate. Averages and ratios are exact rationals; \<open>sqr\<close> is an argument, since a square sqr is not
  rational, and so are \<open>locale_time\<close> (the local rendering of a time stamp) and \<open>lc\<close> (\<open>localeCompare\<close>).
\<close>

section \<open>Aggregation\<close>

datatype group_by = ByLevel | BySource | ByHour | ByMinute

datatype agg_range = Agg30m | Agg1h | Agg6h | Agg24h | Agg7d

record aggregate_bucket =
  ab_key :: string
  ab_count :: rat
  ab_label :: "string option"
  ab_host :: "string option"
  ab_service :: "string option"

fun agg_duration :: "agg_range \<Rightarrow> int" where
  "agg_duration Agg30m = 1800000"
| "agg_duration Agg1h = 3600000"
| "agg_duration Agg6h = 21600000"
| "agg_duration Agg24h = 86400000"
| "agg_duration Agg7d = 604800000"

definition range_ending :: "clock \<Rightarrow> int \<Rightarrow> time_range" where
  "range_ending c d = \<lparr>tr_from = Some (toISOString (now_ms c - d)), tr_to = Some (toISOString (now_ms c))\<rparr>"

definition resolveAggregateTimeRange :: "clock \<Rightarrow> agg_range \<Rightarrow> time_range" where
  "resolveAggregateTimeRange c r = range_ending c (agg_duration r)"

text \<open>\<open>String(a || f.x || f.y || d).trim() || d\<close>.\<close>

definition name_or :: "string \<Rightarrow> json option list \<Rightarrow> string \<Rightarrow> string" where
  "name_or a vs d =
     (let s = (if a \<noteq> [] then a else case find truthy vs of Some (Some j) \<Rightarrow> js_String j | _ \<Rightarrow> d)
      in or_str (trim s) d)"

definition source_pair :: "log_entry \<Rightarrow> string \<times> string" where
  "source_pair e =
     (let f = json_field (Some (lg_fields e))
      in (name_or (lg_host e) [f ''host''] ''unknown-host'',
          name_or (lg_service e) [f ''service_name'', f ''service''] ''unknown-service''))"

definition group_key :: "clock \<Rightarrow> group_by \<Rightarrow> log_entry \<Rightarrow> string option" where
  "group_key c g e =
     (case g of
        ByLevel \<Rightarrow> Some (level_name (lg_level e))
      | BySource \<Rightarrow> (case source_pair e of (h, s) \<Rightarrow> Some (h @ SOURCE_AGGREGATE_KEY_SEPARATOR @ s))
      | ByHour \<Rightarrow> map_option (toISOString \<circ> truncateDateToHour) (date_of c (lg_timestamp e))
      | ByMinute \<Rightarrow> map_option (toISOString \<circ> truncateDateToMinute) (date_of c (lg_timestamp e)))"

definition source_meta :: "clock \<Rightarrow> log_entry list \<Rightarrow> (string, string \<times> string) jsmap" where
  "source_meta c es =
     fold (\<lambda>e. case group_key c BySource e of None \<Rightarrow> id | Some k \<Rightarrow> jm_set k (source_pair e)) es []"

definition bucket_of :: "(string, string \<times> string) jsmap option \<Rightarrow> string \<times> nat \<Rightarrow> aggregate_bucket" where
  "bucket_of meta kn =
     (let pair = Option.bind meta (\<lambda>m. jm_get m (fst kn))
      in \<lparr>ab_key = fst kn, ab_count = of_nat (snd kn),
          ab_label = map_option (\<lambda>(h, s). h @ '' / '' @ s) pair, ab_host = map_option fst pair,
          ab_service = map_option snd pair\<rparr>)"

definition bucket_before :: "(string \<Rightarrow> string \<Rightarrow> int) \<Rightarrow> group_by \<Rightarrow> aggregate_bucket \<Rightarrow> aggregate_bucket \<Rightarrow> bool" where
  "bucket_before lc g l r =
     (if g = ByHour \<or> g = ByMinute then lc (ab_key l) (ab_key r) \<le> 0
      else if ab_count l \<noteq> ab_count r then ab_count r < ab_count l
      else lc (ab_key l) (ab_key r) \<le> 0)"

definition aggregate_counts :: "clock \<Rightarrow> group_by \<Rightarrow> log_entry list \<Rightarrow> (string, nat) jsmap" where
  "aggregate_counts c g es = fold (\<lambda>e. case group_key c g e of None \<Rightarrow> id | Some k \<Rightarrow> count_key k) es []"

definition buildAggregateStatsFromLogs ::
    "(string \<Rightarrow> string \<Rightarrow> int) \<Rightarrow> clock \<Rightarrow> log_entry list \<Rightarrow> group_by \<Rightarrow> aggregate_bucket list" where
  "buildAggregateStatsFromLogs lc c es g =
     js_sort (bucket_before lc g)
       (map (bucket_of (if g = BySource then Some (source_meta c es) else None)) (aggregate_counts c g es))"

section \<open>Clusters\<close>

definition CLUSTER_TREND_BUCKET_COUNT :: nat where "CLUSTER_TREND_BUCKET_COUNT = 8"

definition hexdigit_class :: rx where
  "hexdigit_class = rx_ascii (\<lambda>c. is_digit c \<or> in_range (CHR ''a'') (CHR ''f'') (lower_char c))"

definition rx_hex :: "nat \<Rightarrow> rx" where "rx_hex n = rx_times n n hexdigit_class"

definition CLUSTER_IP_PATTERN :: rx where
  "CLUSTER_IP_PATTERN =
     rx_seq [Word_Boundary, rx_times 3 3 (Seq (digits 1 3) (rx_char (CHR ''.''))), digits 1 3, Word_Boundary]"

definition CLUSTER_UUID_PATTERN :: rx where
  "CLUSTER_UUID_PATTERN =
     (let dash = rx_char (CHR ''-'')
      in rx_seq [Word_Boundary, rx_hex 8, dash, rx_hex 4, dash, one_of ''12345'', rx_hex 3, dash,
           rx_ascii (\<lambda>c. lower_char c \<in> set ''89ab''), rx_hex 3, dash, rx_hex 12, Word_Boundary])"

definition letter :: "char \<Rightarrow> bool" where
  "letter c \<longleftrightarrow> in_range (CHR ''a'') (CHR ''z'') c \<or> in_range (CHR ''A'') (CHR ''Z'') c"

definition CLUSTER_EMAIL_PATTERN :: rx where
  "CLUSTER_EMAIL_PATTERN =
     rx_seq [rx_plus (rx_ascii (\<lambda>c. letter c \<or> is_digit c \<or> c \<in> set ''._%+-'')), rx_char (CHR ''@''),
       rx_plus (rx_ascii (\<lambda>c. letter c \<or> is_digit c \<or> c \<in> set ''.-'')), rx_char (CHR ''.''),
       Rep 2 None (rx_ascii letter)]"

definition CLUSTER_PORT_PATTERN :: rx where
  "CLUSTER_PORT_PATTERN = rx_seq [Word_Boundary, rx_lit_i ''port'', rx_plus rx_space, Grp 1 (digits 2 5), Word_Boundary]"

definition plural_i :: "string \<Rightarrow> rx" where "plural_i w = Seq (rx_lit_i w) (rx_opt (rx_char_i (CHR ''s'')))"

definition CLUSTER_DURATION_PATTERN :: rx where
  "CLUSTER_DURATION_PATTERN =
     rx_seq [Word_Boundary, rx_plus rx_digit, rx_opt (Seq (rx_char (CHR ''.'')) (rx_plus rx_digit)), rx_opt rx_space,
       rx_alt [rx_lit_i ''ms'', rx_lit_i ''s'', rx_lit_i ''sec'', rx_lit_i ''secs'', plural_i ''second'', rx_lit_i ''m'',
               rx_lit_i ''min'', rx_lit_i ''mins'', plural_i ''minute'', rx_lit_i ''h'', rx_lit_i ''hr'', rx_lit_i ''hrs'',
               plural_i ''hour''], Word_Boundary]"

definition keyword_pattern :: "string \<Rightarrow> rx" where
  "keyword_pattern w =
     rx_seq [Word_Boundary, Grp 1 (rx_lit_i w), rx_plus rx_space,
       Grp 2 (rx_plus (rx_ascii (\<lambda>c. letter c \<or> is_digit c \<or> c \<in> set ''._:@-'')))]"

definition CLUSTER_USER_PATTERN :: rx where "CLUSTER_USER_PATTERN = keyword_pattern ''user''"
definition CLUSTER_REQUEST_PATTERN :: rx where "CLUSTER_REQUEST_PATTERN = keyword_pattern ''request''"
definition CLUSTER_JOB_PATTERN :: rx where "CLUSTER_JOB_PATTERN = keyword_pattern ''job''"

definition CLUSTER_IDENTIFIER_PATTERN :: rx where
  "CLUSTER_IDENTIFIER_PATTERN = rx_seq [Word_Boundary, Rep 12 None hexdigit_class, Word_Boundary]"

definition CLUSTER_LONG_NUMBER_PATTERN :: rx where
  "CLUSTER_LONG_NUMBER_PATTERN = rx_seq [Word_Boundary, Rep 3 None rx_digit, Word_Boundary]"

definition CLUSTER_PLACEHOLDER_PATTERN :: rx where
  "CLUSTER_PLACEHOLDER_PATTERN =
     rx_seq [rx_char (CHR ''{''), rx_plus (rx_ascii (\<lambda>c. in_range (CHR ''A'') (CHR ''Z'') c \<or> c = CHR ''_'')),
       rx_char (CHR ''}'')]"

type_synonym variables = "(string, string) jsmap"

text \<open>A variable keeps its first value.\<close>

definition remember :: "string \<Rightarrow> string \<Rightarrow> variables \<Rightarrow> variables" where
  "remember placeholder v vars =
     (if v \<noteq> [] \<and> nullish (jm_get vars placeholder) [] = [] then jm_set placeholder v vars else vars)"

definition braced :: "string \<Rightarrow> string" where "braced p = ''{'' @ p @ ''}''"

definition replaceLocalClusterPattern :: "rx \<Rightarrow> string \<Rightarrow> string \<times> variables \<Rightarrow> string \<times> variables" where
  "replaceLocalClusterPattern r placeholder sv =
     rx_replace_with r (\<lambda>m vars. (braced placeholder, remember placeholder (trim (matched m)) vars)) (fst sv) (snd sv)"

definition replaceLocalClusterKeywordPattern :: "rx \<Rightarrow> string \<Rightarrow> string \<times> variables \<Rightarrow> string \<times> variables" where
  "replaceLocalClusterKeywordPattern r placeholder sv =
     rx_replace_with r
       (\<lambda>m vars. (or_str (trim (nullish (group 1 m) [])) (toLowerCase placeholder) @ '' '' @ braced placeholder,
                  remember placeholder (trim (nullish (group 2 m) [])) vars)) (fst sv) (snd sv)"

definition replace_port :: "string \<times> variables \<Rightarrow> string \<times> variables" where
  "replace_port sv =
     rx_replace_with CLUSTER_PORT_PATTERN
       (\<lambda>m vars. (''port {PORT}'', remember ''PORT'' (trim (nullish (group 1 m) [])) vars)) (fst sv) (snd sv)"

definition normalizeLocalClusterTemplate :: "string \<Rightarrow> string \<times> variables" where
  "normalizeLocalClusterTemplate message =
     (let template = trim message
      in if template = [] then ([], [])
         else (let sv = (template, []);
                   sv = replaceLocalClusterKeywordPattern CLUSTER_USER_PATTERN ''USER_ID'' sv;
                   sv = replaceLocalClusterKeywordPattern CLUSTER_REQUEST_PATTERN ''REQUEST_ID'' sv;
                   sv = replaceLocalClusterKeywordPattern CLUSTER_JOB_PATTERN ''JOB_ID'' sv;
                   sv = replace_port sv;
                   sv = replaceLocalClusterPattern CLUSTER_DURATION_PATTERN ''DURATION'' sv;
                   sv = replaceLocalClusterPattern CLUSTER_UUID_PATTERN ''UUID'' sv;
                   sv = replaceLocalClusterPattern CLUSTER_IP_PATTERN ''IP_ADDRESS'' sv;
                   sv = replaceLocalClusterPattern CLUSTER_EMAIL_PATTERN ''EMAIL'' sv;
                   sv = replaceLocalClusterPattern CLUSTER_IDENTIFIER_PATTERN ''IDENTIFIER'' sv;
                   sv = replaceLocalClusterPattern CLUSTER_LONG_NUMBER_PATTERN ''NUMBER'' sv
               in (trim (concat (replace_runs js_space ['' ''] (js_chars (fst sv)))), snd sv)))"

definition resolveLocalClusterTrendBucket :: "clock \<Rightarrow> string \<Rightarrow> int \<Rightarrow> int \<Rightarrow> nat" where
  "resolveLocalClusterTrendBucket c timestamp from to =
     (case date_of c timestamp of
        None \<Rightarrow> CLUSTER_TREND_BUCKET_COUNT - 1
      | Some ts \<Rightarrow>
          (let totalWindow = to - from
           in if totalWindow \<le> 0 then CLUSTER_TREND_BUCKET_COUNT - 1
              else (let offset = max 0 (min totalWindow (ts - from));
                        index = \<lfloor>(of_int offset / of_int totalWindow :: rat) * 8\<rfloor>
                    in nat (max 0 (min (int CLUSTER_TREND_BUCKET_COUNT - 1) index)))))"

definition buildLocalClusterTrend :: "nat list \<Rightarrow> int \<Rightarrow> int \<Rightarrow> (string \<times> nat) list" where
  "buildLocalClusterTrend counts from to =
     (let totalWindow = max 60000 (to - from);
          bucketWidth = max 60000 (totalWindow div int CLUSTER_TREND_BUCKET_COUNT)
      in map (\<lambda>i. (toISOString (from + int i * bucketWidth), if i < length counts then counts ! i else 0))
           [0..<CLUSTER_TREND_BUCKET_COUNT])"

definition estimateLocalClusterSimilarity :: "string \<Rightarrow> int" where
  "estimateLocalClusterSimilarity template =
     (let ws = filter (\<lambda>w. w \<noteq> []) (split_spaces (trim template));
          placeholders = rx_count CLUSTER_PLACEHOLDER_PATTERN template
      in if ws = [] \<or> placeholders = 0 then 100
         else max 72 (min 100 (js_round (100 - of_nat placeholders / of_nat (length ws) * 45))))"

record cluster_sample =
  cs_timestamp :: string
  cs_message :: string
  cs_variables :: variables
  cs_host :: string
  cs_service :: string
  cs_level :: log_level

record cluster =
  cl_id :: string
  cl_template :: string
  cl_level :: log_level
  cl_occurrences :: nat
  cl_firstSeen :: string
  cl_lastSeen :: string
  cl_samples :: "cluster_sample list"
  cl_trend :: "nat list"

record cluster_pattern =
  cp_id :: string
  cp_template :: string
  cp_similarity :: int
  cp_occurrences :: nat
  cp_first_seen :: string
  cp_last_seen :: string
  cp_level :: log_level
  cp_trend :: "(string \<times> nat) list"
  cp_samples :: "cluster_sample list"

record cluster_summary =
  su_analyzed :: rat
  su_sampled :: nat
  su_unique :: nat
  su_new_today :: nat

text \<open>The order of strings, on their bytes.\<close>

fun str_less :: "string \<Rightarrow> string \<Rightarrow> bool" where
  "str_less _ [] = False"
| "str_less [] (_ # _) = True"
| "str_less (c # s) (d # t) = ((of_char c :: nat) < of_char d \<or> c = d \<and> str_less s t)"

definition cluster_key :: "log_entry \<Rightarrow> string \<Rightarrow> string" where
  "cluster_key e template = toLowerCase (level_name (lg_level e)) @ [CHR 0x00] @ toLowerCase template"

definition new_cluster :: "log_entry \<Rightarrow> string \<Rightarrow> cluster" where
  "new_cluster e template =
     \<lparr>cl_id = cluster_key e template, cl_template = template, cl_level = lg_level e, cl_occurrences = 0,
      cl_firstSeen = lg_timestamp e, cl_lastSeen = lg_timestamp e, cl_samples = [],
      cl_trend = replicate CLUSTER_TREND_BUCKET_COUNT 0\<rparr>"

definition extend_cluster :: "clock \<Rightarrow> int \<Rightarrow> int \<Rightarrow> log_entry \<Rightarrow> variables \<Rightarrow> cluster \<Rightarrow> cluster" where
  "extend_cluster c from to e vars p =
     (let i = resolveLocalClusterTrendBucket c (lg_timestamp e) from to
      in p\<lparr>cl_occurrences := cl_occurrences p + 1,
           cl_firstSeen := (if str_less (lg_timestamp e) (cl_firstSeen p) then lg_timestamp e else cl_firstSeen p),
           cl_lastSeen := (if str_less (cl_lastSeen p) (lg_timestamp e) then lg_timestamp e else cl_lastSeen p),
           cl_trend := (cl_trend p)[i := cl_trend p ! i + 1],
           cl_samples := (if length (cl_samples p) < 3
             then cl_samples p @ [\<lparr>cs_timestamp = lg_timestamp e, cs_message = lg_message e, cs_variables = vars,
                                   cs_host = lg_host e, cs_service = lg_service e, cs_level = lg_level e\<rparr>]
             else cl_samples p)\<rparr>)"

definition add_to_clusters :: "clock \<Rightarrow> int \<Rightarrow> int \<Rightarrow> log_entry \<Rightarrow> (string, cluster) jsmap \<Rightarrow> (string, cluster) jsmap" where
  "add_to_clusters c from to e m =
     (case normalizeLocalClusterTemplate (or_str (lg_message e) (lg_rawLog e)) of
        (template, vars) \<Rightarrow>
          if template = [] then m
          else jm_set (cluster_key e template)
                 (extend_cluster c from to e vars
                   (nullish (jm_get m (cluster_key e template)) (new_cluster e template))) m)"

datatype cluster_range = Cluster1h | Cluster24h | Cluster7d

fun cluster_duration :: "cluster_range \<Rightarrow> int" where
  "cluster_duration Cluster1h = 3600000"
| "cluster_duration Cluster24h = 86400000"
| "cluster_duration Cluster7d = 604800000"

definition resolveClusterTimeRange :: "clock \<Rightarrow> cluster_range \<Rightarrow> time_range" where
  "resolveClusterTimeRange c r = range_ending c (cluster_duration r)"

definition pattern_of :: "int \<Rightarrow> int \<Rightarrow> cluster \<Rightarrow> cluster_pattern" where
  "pattern_of from to p =
     \<lparr>cp_id = cl_id p, cp_template = cl_template p, cp_similarity = estimateLocalClusterSimilarity (cl_template p),
      cp_occurrences = cl_occurrences p, cp_first_seen = cl_firstSeen p, cp_last_seen = cl_lastSeen p,
      cp_level = cl_level p, cp_trend = buildLocalClusterTrend (cl_trend p) from to, cp_samples = cl_samples p\<rparr>"

definition pattern_before :: "(string \<Rightarrow> string \<Rightarrow> int) \<Rightarrow> cluster_pattern \<Rightarrow> cluster_pattern \<Rightarrow> bool" where
  "pattern_before lc l r =
     (if cp_occurrences l \<noteq> cp_occurrences r then cp_occurrences r < cp_occurrences l
      else if lc (cp_last_seen r) (cp_last_seen l) \<noteq> 0 then lc (cp_last_seen r) (cp_last_seen l) < 0
      else lc (cp_template l) (cp_template r) \<le> 0)"

definition clamp :: "int \<Rightarrow> int \<Rightarrow> int \<Rightarrow> int" where
  "clamp lo hi x = max lo (min x hi)"

definition cluster_map :: "clock \<Rightarrow> cluster_range \<Rightarrow> log_entry list \<Rightarrow> (string, cluster) jsmap" where
  "cluster_map c r es = fold (add_to_clusters c (now_ms c - cluster_duration r) (now_ms c)) es []"

definition buildLogClustersFromLogs ::
    "(string \<Rightarrow> string \<Rightarrow> int) \<Rightarrow> clock \<Rightarrow> log_entry list \<Rightarrow> cluster_range \<Rightarrow> int option \<Rightarrow> int option \<Rightarrow> jsnum
     \<Rightarrow> cluster_summary \<times> cluster_pattern list" where
  "buildLogClustersFromLogs lc c es r limit sampleSize analyzedTotal =
     (let from = now_ms c - cluster_duration r; to = now_ms c;
          sampled = take (nat (clamp 1 1000 (nullish sampleSize 400))) es;
          m = cluster_map c r sampled;
          patterns = js_sort (pattern_before lc) (map (pattern_of from to) (jm_values m));
          total = (case analyzedTotal of Fin q \<Rightarrow> q | _ \<Rightarrow> of_nat (length es))
      in (\<lparr>su_analyzed = max (of_nat (length es)) total, su_sampled = length sampled, su_unique = length m,
           su_new_today = length (filter (\<lambda>p. case date_of c (cp_first_seen p) of
              None \<Rightarrow> False | Some t \<Rightarrow> now_ms c - 86400000 \<le> t) patterns)\<rparr>,
          take (nat (clamp 1 50 (nullish limit 20))) patterns))"

section \<open>Anomalies\<close>

datatype anomaly_range = Anom1h | Anom6h | Anom24h | Anom7d

fun anomaly_duration :: "anomaly_range \<Rightarrow> int" where
  "anomaly_duration Anom1h = 3600000"
| "anomaly_duration Anom6h = 21600000"
| "anomaly_duration Anom24h = 86400000"
| "anomaly_duration Anom7d = 604800000"

definition resolveAnomalyTimeRange :: "clock \<Rightarrow> anomaly_range \<Rightarrow> time_range" where
  "resolveAnomalyTimeRange c r = range_ending c (anomaly_duration r)"

fun resolveAnomalyBucketSize :: "anomaly_range \<Rightarrow> int" where
  "resolveAnomalyBucketSize Anom1h = 300000"
| "resolveAnomalyBucketSize Anom6h = 1800000"
| "resolveAnomalyBucketSize Anom7d = 43200000"
| "resolveAnomalyBucketSize Anom24h = 7200000"

definition computeMeanAndStd :: "(rat \<Rightarrow> rat) \<Rightarrow> rat list \<Rightarrow> rat \<times> rat" where
  "computeMeanAndStd sqr vs =
     (if vs = [] then (0, 0)
      else (let mean = sum_list vs / of_nat (length vs);
                variance = sum_list (map (\<lambda>v. (v - mean) ^ 2) vs) / of_nat (length vs)
            in (mean, sqr variance)))"

definition computeRollingExpectation :: "(rat \<Rightarrow> rat) \<Rightarrow> rat list \<Rightarrow> nat \<Rightarrow> nat \<Rightarrow> rat \<times> rat" where
  "computeRollingExpectation sqr vs index lookback =
     (if index = 0 then (0, 0) else computeMeanAndStd sqr (js_slice (index - lookback) index vs))"

definition roundMetric :: "rat \<Rightarrow> nat \<Rightarrow> rat" where
  "roundMetric v ds = of_int (js_round (v * 10 ^ ds)) / 10 ^ ds"

datatype anomaly_severity = CriticalAnomaly | HighAnomaly | MediumAnomaly | LowAnomaly

definition classifyAnomalySeverity :: "rat \<Rightarrow> anomaly_severity" where
  "classifyAnomalySeverity changeRatio =
     (if 2 \<le> changeRatio then CriticalAnomaly
      else if 12 / 10 \<le> changeRatio then HighAnomaly
      else if 6 / 10 \<le> changeRatio then MediumAnomaly
      else LowAnomaly)"

definition classifyAnomalyConfidence :: "rat \<Rightarrow> int" where
  "classifyAnomalyConfidence changeRatio = max 55 (min 99 (65 + js_round (changeRatio * 20)))"

datatype anomaly_status = ActiveAnomaly | InvestigatingAnomaly

definition resolveAnomalyStatus :: "clock \<Rightarrow> string \<Rightarrow> anomaly_status" where
  "resolveAnomalyStatus c timestamp =
     (case date_of c timestamp of
        None \<Rightarrow> InvestigatingAnomaly
      | Some ts \<Rightarrow> if now_ms c - ts \<le> 7200000 then ActiveAnomaly else InvestigatingAnomaly)"

record log_bucket =
  lb_time :: string
  lb_actual :: rat
  lb_errorCount :: rat

record trend_point =
  tp_time :: string
  tp_actual :: rat
  tp_expected :: rat
  tp_lower :: rat
  tp_upper :: rat
  tp_is_anomaly :: bool
  tp_error_rate :: rat

record anomaly =
  an_id :: string
  an_title :: string
  an_description :: string
  an_severity :: anomaly_severity
  an_status :: anomaly_status
  an_timestamp :: string
  an_service :: string
  an_confidence :: int
  an_metric :: string
  an_expected :: rat
  an_actual :: rat
  an_root_cause :: string

record anomaly_summary =
  as_total :: nat
  as_critical :: nat
  as_health :: int
  as_buckets :: nat
  as_services :: nat

text \<open>The expectations of a bucket: rolling over the four buckets before it, global when that is not positive.\<close>

definition expectation :: "(rat \<Rightarrow> rat) \<Rightarrow> rat list \<Rightarrow> nat \<Rightarrow> rat \<times> rat" where
  "expectation sqr vs i =
     (let r = computeRollingExpectation sqr vs i 4; g = computeMeanAndStd sqr vs
      in (if 0 < fst r then fst r else fst g, if 0 < snd r then snd r else snd g))"

definition error_rate :: "log_bucket \<Rightarrow> rat" where
  "error_rate b = (if 0 < lb_actual b then lb_errorCount b / lb_actual b * 100 else 0)"

record bucket_view =
  bv_expected :: rat
  bv_lower :: rat
  bv_upper :: rat
  bv_rate :: rat
  bv_expectedError :: rat
  bv_volume :: bool
  bv_error :: bool

definition view_bucket :: "(rat \<Rightarrow> rat) \<Rightarrow> log_bucket list \<Rightarrow> nat \<Rightarrow> bucket_view" where
  "view_bucket sqr bs i =
     (let actual = lb_actual (bs ! i);
          (expected, expectedStd) = expectation sqr (map lb_actual bs) i;
          margin = max 5 (max (expected * (1 / 4)) (expectedStd * 2));
          lower = max 0 (expected - margin);
          upper = expected + margin;
          rate = error_rate (bs ! i);
          (expectedError, errorStd) = expectation sqr (map error_rate bs) i;
          errorMargin = max (3 / 2) (max (expectedError * (1 / 2)) (errorStd * 2))
      in \<lparr>bv_expected = expected, bv_lower = lower, bv_upper = upper, bv_rate = rate,
          bv_expectedError = expectedError, bv_volume = upper < actual \<or> actual < lower,
          bv_error = 20 \<le> actual \<and> expectedError + errorMargin < rate\<rparr>)"

definition trend_of :: "log_bucket \<Rightarrow> bucket_view \<Rightarrow> trend_point" where
  "trend_of b v =
     \<lparr>tp_time = lb_time b, tp_actual = lb_actual b, tp_expected = roundMetric (bv_expected v) 2,
      tp_lower = roundMetric (bv_lower v) 2, tp_upper = roundMetric (bv_upper v) 2,
      tp_is_anomaly = (bv_volume v \<or> bv_error v), tp_error_rate = roundMetric (bv_rate v) 2\<rparr>"

definition volume_anomaly :: "(string \<Rightarrow> string) \<Rightarrow> clock \<Rightarrow> string \<Rightarrow> log_bucket \<Rightarrow> bucket_view \<Rightarrow> anomaly list" where
  "volume_anomaly locale_time c service b v =
     (if bv_volume v \<and> (0 < lb_actual b \<or> 0 < bv_expected v)
      then (let ratio = (if 0 < bv_expected v then \<bar>lb_actual b - bv_expected v\<bar> / bv_expected v else 0);
                drop = lb_actual b < bv_lower v
            in [\<lparr>an_id = lb_time b @ ''-volume'', an_title = (if drop then zh_drop else zh_surge),
                 an_description = locale_time (lb_time b) @ zh_volume_is @ rat_to_string (lb_actual b)
                   @ zh_baseline_about @ rat_to_string (roundMetric (bv_expected v) 0) @ zh_full_stop,
                 an_severity = classifyAnomalySeverity ratio, an_status = resolveAnomalyStatus c (lb_time b),
                 an_timestamp = lb_time b, an_service = service, an_confidence = classifyAnomalyConfidence ratio,
                 an_metric = ''log_volume'', an_expected = roundMetric (bv_expected v) 2,
                 an_actual = roundMetric (lb_actual b) 2,
                 an_root_cause = (if drop then zh_cause_drop else zh_cause_surge)\<rparr>])
      else [])"

definition error_anomaly :: "(string \<Rightarrow> string) \<Rightarrow> clock \<Rightarrow> string \<Rightarrow> log_bucket \<Rightarrow> bucket_view \<Rightarrow> anomaly list" where
  "error_anomaly locale_time c service b v =
     (if bv_error v
      then (let ratio = (if 0 < bv_expectedError v then \<bar>bv_rate v - bv_expectedError v\<bar> / bv_expectedError v
                         else bv_rate v / 5)
            in [\<lparr>an_id = lb_time b @ ''-error-rate'', an_title = zh_error_rate,
                 an_description = locale_time (lb_time b) @ zh_error_share @ rat_to_string (roundMetric (bv_rate v) 2)
                   @ zh_above_baseline @ rat_to_string (roundMetric (bv_expectedError v) 2) @ zh_percent_stop,
                 an_severity = classifyAnomalySeverity ratio, an_status = resolveAnomalyStatus c (lb_time b),
                 an_timestamp = lb_time b, an_service = service, an_confidence = classifyAnomalyConfidence ratio,
                 an_metric = ''error_rate'', an_expected = roundMetric (bv_expectedError v) 2,
                 an_actual = roundMetric (bv_rate v) 2, an_root_cause = zh_cause_errors\<rparr>])
      else [])"

fun severity_rank :: "anomaly_severity \<Rightarrow> nat" where
  "severity_rank CriticalAnomaly = 4"
| "severity_rank HighAnomaly = 3"
| "severity_rank MediumAnomaly = 2"
| "severity_rank LowAnomaly = 1"

definition anomaly_before :: "(string \<Rightarrow> string \<Rightarrow> int) \<Rightarrow> anomaly \<Rightarrow> anomaly \<Rightarrow> bool" where
  "anomaly_before lc l r =
     (if severity_rank (an_severity l) \<noteq> severity_rank (an_severity r)
      then severity_rank (an_severity r) < severity_rank (an_severity l)
      else lc (an_timestamp r) (an_timestamp l) \<le> 0)"

record anomaly_env =
  ae_lc :: "string \<Rightarrow> string \<Rightarrow> int"
  ae_sqrt :: "rat \<Rightarrow> rat"
  ae_locale_time :: "string \<Rightarrow> string"
  ae_clock :: clock

definition buildAnomalyStatsFromBuckets ::
    "anomaly_env \<Rightarrow> log_bucket list \<Rightarrow> string \<Rightarrow> anomaly_summary \<times> trend_point list \<times> anomaly list" where
  "buildAnomalyStatsFromBuckets env bs service =
     (let views = map (view_bucket (ae_sqrt env) bs) [0..<length bs];
          trend = map2 trend_of bs views;
          anomalies = concat (map2 (\<lambda>b v. volume_anomaly (ae_locale_time env) (ae_clock env) service b v
                                         @ error_anomaly (ae_locale_time env) (ae_clock env) service b v) bs views);
          sorted_anomalies = js_sort (anomaly_before (ae_lc env)) anomalies;
          critical = length (filter (\<lambda>a. an_severity a = CriticalAnomaly) sorted_anomalies)
      in (\<lparr>as_total = length sorted_anomalies, as_critical = critical,
           as_health = max 0 (100 - int (length sorted_anomalies) * 8 - int critical * 10),
           as_buckets = length (filter tp_is_anomaly trend), as_services = (if sorted_anomalies \<noteq> [] then 1 else 0)\<rparr>,
          trend, take 20 sorted_anomalies))"

definition resolveFallbackAnomalyService :: "json option \<Rightarrow> string" where
  "resolveFallbackAnomalyService filters =
     or_str (nullish (map_option trim (string_field (json_field filters ''service''))) []) zh_global"

definition resolveAggregateGroupByForAnomalyTimeRange :: "anomaly_range \<Rightarrow> group_by" where
  "resolveAggregateGroupByForAnomalyTimeRange r = (if r = Anom1h \<or> r = Anom6h then ByMinute else ByHour)"

definition buildAggregateBackedAnomalyStats ::
    "anomaly_env \<Rightarrow> aggregate_bucket list \<Rightarrow> string \<Rightarrow> anomaly_summary \<times> trend_point list \<times> anomaly list" where
  "buildAggregateBackedAnomalyStats env buckets service =
     buildAnomalyStatsFromBuckets env
       (js_sort (\<lambda>l r. ae_lc env (lb_time l) (lb_time r) \<le> 0)
         (map (\<lambda>b. \<lparr>lb_time = ab_key b, lb_actual = max 0 (ab_count b), lb_errorCount = 0\<rparr>) buckets)) service"

text \<open>The time buckets from \<open>from\<close> to \<open>to\<close>, and the bucket of an entry.\<close>

definition empty_buckets :: "int \<Rightarrow> int \<Rightarrow> int \<Rightarrow> log_bucket list" where
  "empty_buckets from to bucketSize =
     (if to < from then []
      else map (\<lambda>i. \<lparr>lb_time = toISOString (from + int i * bucketSize), lb_actual = 0, lb_errorCount = 0\<rparr>)
             [0..<Suc (nat ((to - from) div bucketSize))])"

definition fill_bucket :: "clock \<Rightarrow> int \<Rightarrow> int \<Rightarrow> log_entry \<Rightarrow> log_bucket list \<Rightarrow> log_bucket list" where
  "fill_bucket c from bucketSize e bs =
     (case date_of c (lg_timestamp e) of
        None \<Rightarrow> bs
      | Some ts \<Rightarrow>
          (let i = (ts - from) div bucketSize
           in if i < 0 \<or> int (length bs) \<le> i then bs
              else (let b = bs ! nat i
                    in bs[nat i := b\<lparr>lb_actual := lb_actual b + 1,
                            lb_errorCount := lb_errorCount b + (if lg_level e = ErrorLog \<or> lg_level e = WarnLog then 1 else 0)\<rparr>])))"

definition dominant_service :: "log_entry list \<Rightarrow> string" where
  "dominant_service es =
     or_str (fst (fold (\<lambda>e best.
        let current = length (filter (\<lambda>x. lg_service x = lg_service e) es)
        in if snd best < current then (or_str (lg_service e) zh_global, current) else best) es (zh_global, 0))) zh_global"

definition anomaly_stats_of_logs ::
    "anomaly_env \<Rightarrow> log_entry list \<Rightarrow> anomaly_range \<Rightarrow> anomaly_summary \<times> trend_point list \<times> anomaly list" where
  "anomaly_stats_of_logs env es r =
     (let to = now_ms (ae_clock env); from = to - anomaly_duration r; sz = resolveAnomalyBucketSize r
      in buildAnomalyStatsFromBuckets env
           (fold (fill_bucket (ae_clock env) from sz) es (empty_buckets from to sz)) (dominant_service es))"

definition buildLocalAnomalyStats ::
    "anomaly_env \<Rightarrow> string \<Rightarrow> (nat \<Rightarrow> nat \<Rightarrow> string) \<Rightarrow> string option \<Rightarrow> json option \<Rightarrow> anomaly_range
     \<Rightarrow> anomaly_summary \<times> trend_point list \<times> anomaly list" where
  "buildLocalAnomalyStats env tenant random keywords filters r =
     anomaly_stats_of_logs env
       (filterLocalDemoLogs (ae_clock env) tenant random keywords filters (Some (resolveAnomalyTimeRange (ae_clock env) r))) r"

definition buildLocalAggregateStats ::
    "(string \<Rightarrow> string \<Rightarrow> int) \<Rightarrow> clock \<Rightarrow> string \<Rightarrow> (nat \<Rightarrow> nat \<Rightarrow> string) \<Rightarrow> string option \<Rightarrow> json option
     \<Rightarrow> agg_range \<Rightarrow> group_by \<Rightarrow> aggregate_bucket list" where
  "buildLocalAggregateStats lc c tenant random keywords filters r g =
     buildAggregateStatsFromLogs lc c
       (filterLocalDemoLogs c tenant random keywords filters (Some (resolveAggregateTimeRange c r))) g"

definition buildLocalLogClusters ::
    "(string \<Rightarrow> string \<Rightarrow> int) \<Rightarrow> clock \<Rightarrow> string \<Rightarrow> (nat \<Rightarrow> nat \<Rightarrow> string) \<Rightarrow> string option \<Rightarrow> json option
     \<Rightarrow> cluster_range \<Rightarrow> int option \<Rightarrow> int option \<Rightarrow> cluster_summary \<times> cluster_pattern list" where
  "buildLocalLogClusters lc c tenant random keywords filters r limit sampleSize =
     (let es = filterLocalDemoLogs c tenant random keywords filters (Some (resolveClusterTimeRange c r))
      in buildLogClustersFromLogs lc c es r limit sampleSize (Fin (of_nat (length es))))"

section \<open>Lemmas on aggregation\<close>

lemma aggregate_counts_eq:
  "aggregate_counts c g es = count_keys (the \<circ> group_key c g) (filter (\<lambda>e. group_key c g e \<noteq> None) es) []"
proof -
  have "fold (\<lambda>e. case group_key c g e of None \<Rightarrow> id | Some k \<Rightarrow> count_key k) es m
      = count_keys (the \<circ> group_key c g) (filter (\<lambda>e. group_key c g e \<noteq> None) es) m" for m
    unfolding count_keys_def by (induction es arbitrary: m) auto
  then show ?thesis by (simp add: aggregate_counts_def)
qed

lemma jm_get_aggregate:
  "jm_get (aggregate_counts c g es) k =
     (if Some k \<in> group_key c g ` set es then Some (length (filter (\<lambda>e. group_key c g e = Some k) es)) else None)"
proof -
  let ?es = "filter (\<lambda>e. group_key c g e \<noteq> None) es"
  have mem: "k \<in> (the \<circ> group_key c g) ` set ?es \<longleftrightarrow> Some k \<in> group_key c g ` set es"
    by (auto simp: image_iff) (metis option.sel)+
  have "filter (\<lambda>e. (the \<circ> group_key c g) e = k) ?es = filter (\<lambda>e. group_key c g e = Some k) es"
    by (auto intro!: filter_cong)
  with mem show ?thesis by (simp add: aggregate_counts_eq get_count_keys)
qed

lemma jm_wf_aggregate: "jm_wf (aggregate_counts c g es)"
  by (simp add: aggregate_counts_eq jm_wf_count_keys)

lemma set_jm_of_get: "jm_wf m \<Longrightarrow> set m = {(k, v). jm_get m k = Some v}"
  by (auto simp: jm_wf_def jm_get_def map_of_eq_Some_iff)

lemma map_key_bucket_of [simp]: "map ab_key (map (bucket_of meta) m) = map fst m"
  by (induction m) (simp_all add: bucket_of_def Let_def)

lemma source_meta_get:
  "jm_get (source_meta c es) k =
     map_option source_pair (find (\<lambda>e. group_key c BySource e = Some k) (rev es))"
proof -
  have "jm_get (fold (\<lambda>e. case group_key c BySource e of None \<Rightarrow> id | Some k \<Rightarrow> jm_set k (source_pair e)) es m) k
      = (case find (\<lambda>e. group_key c BySource e = Some k) (rev es) of None \<Rightarrow> jm_get m k
         | Some e \<Rightarrow> Some (source_pair e))" for m
  proof (induction es rule: rev_induct)
    case (snoc e es)
    then show ?case by (cases "group_key c BySource e") auto
  qed simp
  then show ?thesis by (simp add: source_meta_def split: option.splits)
qed

section \<open>Lemmas on clusters\<close>

definition cluster_ok :: "cluster \<Rightarrow> bool" where
  "cluster_ok p \<longleftrightarrow> length (cl_trend p) = CLUSTER_TREND_BUCKET_COUNT \<and> sum_list (cl_trend p) = cl_occurrences p
     \<and> length (cl_samples p) = min 3 (cl_occurrences p)"

lemma resolve_bucket_less: "resolveLocalClusterTrendBucket c t from to < CLUSTER_TREND_BUCKET_COUNT"
  by (auto simp: resolveLocalClusterTrendBucket_def CLUSTER_TREND_BUCKET_COUNT_def Let_def split: option.splits)

lemma sum_list_update_Suc: "i < length xs \<Longrightarrow> sum_list (xs[i := Suc (xs ! i)]) = Suc (sum_list xs)" for xs :: "nat list"
  by (induction xs arbitrary: i) (auto split: nat.splits)

lemma cluster_ok_new: "cluster_ok (new_cluster e t)"
  by (simp add: cluster_ok_def new_cluster_def sum_list_replicate)

lemma cluster_ok_extend:
  assumes "cluster_ok p"
  shows "cluster_ok (extend_cluster c from to e vars p)"
    and "cl_occurrences (extend_cluster c from to e vars p) = Suc (cl_occurrences p)"
  using assms resolve_bucket_less [of c "lg_timestamp e" "from" "to"]
  by (auto simp: cluster_ok_def extend_cluster_def Let_def sum_list_update_Suc)

definition templated :: "log_entry \<Rightarrow> bool" where
  "templated e \<longleftrightarrow> fst (normalizeLocalClusterTemplate (or_str (lg_message e) (lg_rawLog e))) \<noteq> []"

lemma add_to_clusters_step:
  assumes "\<forall>p \<in> set (jm_values m). cluster_ok p \<and> 0 < cl_occurrences p"
  shows "(\<forall>p \<in> set (jm_values (add_to_clusters c from to e m)). cluster_ok p \<and> 0 < cl_occurrences p)
    \<and> sum_list (map (cl_occurrences \<circ> snd) (add_to_clusters c from to e m))
      = sum_list (map (cl_occurrences \<circ> snd) m) + (if templated e then 1 else 0)"
proof (cases "normalizeLocalClusterTemplate (or_str (lg_message e) (lg_rawLog e))")
  case (Pair t vars)
  show ?thesis
  proof (cases "t = []")
    case True
    with Pair assms show ?thesis by (simp add: add_to_clusters_def templated_def)
  next
    case False
    let ?k = "cluster_key e t"
    let ?old = "nullish (jm_get m ?k) (new_cluster e t)"
    let ?new = "extend_cluster c from to e vars ?old"
    have old: "cluster_ok ?old"
      using assms by (cases "jm_get m ?k") (auto simp: cluster_ok_new jm_get_def jm_values_def dest!: map_of_SomeD)
    have step: "add_to_clusters c from to e m = jm_set ?k ?new m"
      using Pair False by (simp add: add_to_clusters_def)
    have sub: "set (jm_values (jm_set ?k ?new m)) \<subseteq> insert ?new (set (jm_values m))"
      unfolding jm_values_def by (induction ?k ?new m rule: jm_set.induct) auto
    have "(case jm_get m ?k of None \<Rightarrow> 0 | Some w \<Rightarrow> cl_occurrences w) = cl_occurrences ?old"
      by (cases "jm_get m ?k") (simp_all add: new_cluster_def)
    with sum_list_jm_set [of cl_occurrences ?k ?new m] cluster_ok_extend [OF old]
    have "sum_list (map (cl_occurrences \<circ> snd) (jm_set ?k ?new m)) = Suc (sum_list (map (cl_occurrences \<circ> snd) m))"
      by simp
    with step sub assms cluster_ok_extend [OF old] False Pair show ?thesis
      by (auto simp: templated_def)
  qed
qed

lemma cluster_map_ok:
  "(\<forall>p \<in> set (jm_values (cluster_map c r es)). cluster_ok p \<and> 0 < cl_occurrences p)
    \<and> sum_list (map (cl_occurrences \<circ> snd) (cluster_map c r es)) = length (filter templated es)"
  unfolding cluster_map_def
proof (induction es rule: rev_induct)
  case (snoc e es)
  from add_to_clusters_step [OF conjunct1 [OF snoc], of c "now_ms c - cluster_duration r" "now_ms c" e] conjunct2 [OF snoc]
  show ?case by (simp add: comp_def)
qed (simp add: jm_values_def)

lemma snd_trend: "length xs = CLUSTER_TREND_BUCKET_COUNT \<Longrightarrow> map snd (buildLocalClusterTrend xs from to) = xs"
  by (rule nth_equalityI) (simp_all add: buildLocalClusterTrend_def Let_def)

lemma similarity_bounds: "72 \<le> estimateLocalClusterSimilarity t \<and> estimateLocalClusterSimilarity t \<le> 100"
  by (simp add: estimateLocalClusterSimilarity_def Let_def)

section \<open>Lemmas on anomalies\<close>

lemma roundMetric_mono: "x \<le> y \<Longrightarrow> roundMetric x n \<le> roundMetric y n"
  by (simp add: roundMetric_def divide_right_mono js_round_mono mult_right_mono)

lemma roundMetric_0 [simp]: "roundMetric 0 n = 0"
  by (simp add: roundMetric_def js_round_def floor_eq_iff)

lemma roundMetric_nonneg: "0 \<le> x \<Longrightarrow> 0 \<le> roundMetric x n"
  using roundMetric_mono [of 0 x n] by simp

lemma mean_nonneg:
  assumes "\<forall>v \<in> set vs. 0 \<le> v"
  shows "0 \<le> fst (computeMeanAndStd sqr vs)"
  using assms sum_list_nonneg [of vs] by (simp add: computeMeanAndStd_def Let_def)

lemma expectation_nonneg: "\<forall>v \<in> set vs. 0 \<le> v \<Longrightarrow> 0 \<le> fst (expectation sqr vs i)"
  using mean_nonneg [of vs sqr] by (auto simp: expectation_def Let_def)

lemma view_bounds:
  assumes "\<forall>b \<in> set bs. 0 \<le> lb_actual b"
  shows "0 \<le> bv_lower (view_bucket sqr bs i)" "bv_lower (view_bucket sqr bs i) \<le> bv_expected (view_bucket sqr bs i)"
    "bv_expected (view_bucket sqr bs i) \<le> bv_upper (view_bucket sqr bs i)"
proof -
  obtain x sx where x: "expectation sqr (map lb_actual bs) i = (x, sx)" by force
  obtain y sy where y: "expectation sqr (map error_rate bs) i = (y, sy)" by force
  have "0 \<le> x" using expectation_nonneg [of "map lb_actual bs" sqr i] assms x by simp
  then show "0 \<le> bv_lower (view_bucket sqr bs i)" "bv_lower (view_bucket sqr bs i) \<le> bv_expected (view_bucket sqr bs i)"
    "bv_expected (view_bucket sqr bs i) \<le> bv_upper (view_bucket sqr bs i)"
    by (simp_all add: view_bucket_def x y Let_def)
qed

lemma confidence_bounds: "55 \<le> classifyAnomalyConfidence q \<and> classifyAnomalyConfidence q \<le> 99"
  by (simp add: classifyAnomalyConfidence_def)

lemma trend_bounds:
  assumes "\<forall>b \<in> set bs. 0 \<le> lb_actual b"
  shows "0 \<le> tp_lower (trend_of b (view_bucket sqr bs i))"
    "tp_lower (trend_of b (view_bucket sqr bs i)) \<le> tp_expected (trend_of b (view_bucket sqr bs i))"
    "tp_expected (trend_of b (view_bucket sqr bs i)) \<le> tp_upper (trend_of b (view_bucket sqr bs i))"
  using view_bounds [OF assms, of sqr i] by (simp_all add: trend_of_def roundMetric_mono roundMetric_nonneg)

lemma found_confidence:
  "a \<in> set (volume_anomaly lt c s b v) \<or> a \<in> set (error_anomaly lt c s b v) \<Longrightarrow>
    55 \<le> an_confidence a \<and> an_confidence a \<le> 99"
  unfolding volume_anomaly_def error_anomaly_def Let_def using confidence_bounds
  by (auto split: if_splits)

lemma found_length: "length (volume_anomaly lt c s b v) + length (error_anomaly lt c s b v) \<le> 2"
  by (simp add: volume_anomaly_def error_anomaly_def Let_def)

lemma length_concat_map2_le: "(\<And>a b. length (f a b) \<le> k) \<Longrightarrow> length (concat (map2 f xs ys)) \<le> k * length xs"
proof (induction xs arbitrary: ys)
  case (Cons x xs)
  then show ?case by (cases ys) (auto simp: add_mono)
qed simp

section \<open>Properties\<close>

text \<open>What it means for an entry to belong to a bucket, by the values of the entry alone: its level, its host and
  service, or the hour or minute its time lies in.\<close>

fun in_bucket :: "clock \<Rightarrow> group_by \<Rightarrow> string \<Rightarrow> log_entry \<Rightarrow> bool" where
  "in_bucket c ByLevel k e \<longleftrightarrow> k = level_name (lg_level e)"
| "in_bucket c BySource k e \<longleftrightarrow> k = trim (lg_host e) @ SOURCE_AGGREGATE_KEY_SEPARATOR @ trim (lg_service e)"
| "in_bucket c ByHour k e \<longleftrightarrow>
     (case date_of c (lg_timestamp e) of None \<Rightarrow> False | Some t \<Rightarrow> k = toISOString (t div 3600000 * 3600000))"
| "in_bucket c ByMinute k e \<longleftrightarrow>
     (case date_of c (lg_timestamp e) of None \<Rightarrow> False | Some t \<Rightarrow> k = toISOString (t div 60000 * 60000))"

definition dated :: "clock \<Rightarrow> group_by \<Rightarrow> log_entry \<Rightarrow> bool" where
  "dated c g e \<longleftrightarrow> g = ByLevel \<or> g = BySource \<or> date_of c (lg_timestamp e) \<noteq> None"

definition named_entry :: "log_entry \<Rightarrow> bool" where
  "named_entry e \<longleftrightarrow> trim (lg_host e) \<noteq> [] \<and> trim (lg_service e) \<noteq> []"

lemma source_pair_named: "named_entry e \<Longrightarrow> source_pair e = (trim (lg_host e), trim (lg_service e))"
  by (auto simp: named_entry_def source_pair_def name_or_def Let_def)

lemma truncate_to_div: "0 < d \<Longrightarrow> truncate_to d t = t div d * d"
  by (simp add: truncate_to_def minus_mod_eq_div_mult [symmetric])

lemma group_key_in_bucket: "named_entry e \<Longrightarrow> group_key c g e = Some k \<longleftrightarrow> in_bucket c g k e"
  by (cases g) (auto simp: group_key_def source_pair_named truncateDateToHour_def truncateDateToMinute_def truncate_to_div
      split: option.splits)

lemma group_key_dated: "group_key c g e \<noteq> None \<longleftrightarrow> dated c g e"
  by (cases g) (auto simp: group_key_def dated_def split: prod.splits)

lemma total_aggregate:
  "sum_list (map ab_count (buildAggregateStatsFromLogs lc c es g)) = of_nat (length (filter (dated c g) es))"
proof -
  have "sum_list (map (\<lambda>kn. of_nat (snd kn)) m) = (of_nat (total_count m) :: rat)" for m :: "(string, nat) jsmap"
    by (induction m) (simp_all add: total_count_def)
  then have "sum_list (map ab_count (buildAggregateStatsFromLogs lc c es g)) = of_nat (total_count (aggregate_counts c g es))"
    by (simp add: buildAggregateStatsFromLogs_def bucket_of_def Let_def comp_def)
  also have "total_count (aggregate_counts c g es) = length (filter (dated c g) es)"
    unfolding aggregate_counts_eq total_count_keys group_key_dated by (simp add: total_count_def)
  finally show ?thesis .
qed

lemma buckets_counted:
  "set (map (\<lambda>b. (ab_key b, ab_count b)) (buildAggregateStatsFromLogs lc c es g))
     = (\<lambda>k. (k, of_nat (length (filter (\<lambda>e. group_key c g e = Some k) es)))) ` {k. Some k \<in> group_key c g ` set es}"
proof -
  let ?m = "aggregate_counts c g es"
  have "set (map (\<lambda>b. (ab_key b, ab_count b)) (buildAggregateStatsFromLogs lc c es g)) = (\<lambda>kn. (fst kn, of_nat (snd kn))) ` set ?m"
    by (simp add: buildAggregateStatsFromLogs_def bucket_of_def Let_def image_image)
  also have "\<dots> = (\<lambda>k. (k, of_nat (length (filter (\<lambda>e. group_key c g e = Some k) es)))) ` {k. Some k \<in> group_key c g ` set es}"
    unfolding set_jm_of_get [OF jm_wf_aggregate] jm_get_aggregate
    by (auto simp: image_iff split: if_splits)
  finally show ?thesis .
qed

lemma buckets_distinct: "distinct (map ab_key (buildAggregateStatsFromLogs lc c es g))"
proof -
  have d: "distinct (map f (js_sort le bs)) \<longleftrightarrow> distinct (map f bs)" for f :: "aggregate_bucket \<Rightarrow> string" and le bs
  proof -
    have "card (set (map f (js_sort le bs))) = card (set (map f bs))" by simp
    then show ?thesis by (metis card_distinct distinct_card length_js_sort length_map)
  qed
  show ?thesis
    using jm_wf_aggregate [of c g es] unfolding buildAggregateStatsFromLogs_def d map_key_bucket_of jm_wf_def .
qed

lemma source_bucket_of_entry:
  assumes b: "b \<in> set (buildAggregateStatsFromLogs lc c es BySource)" and named: "list_all named_entry es"
  shows "list_ex (\<lambda>e. in_bucket c BySource (ab_key b) e \<and> ab_host b = Some (trim (lg_host e))
    \<and> ab_service b = Some (trim (lg_service e)) \<and> ab_label b = Some (trim (lg_host e) @ '' / '' @ trim (lg_service e))) es"
proof -
  from b obtain k n where kn: "(k, n) \<in> set (aggregate_counts c BySource es)"
    and b: "b = bucket_of (Some (source_meta c es)) (k, n)"
    by (auto simp: buildAggregateStatsFromLogs_def)
  from kn have "Some k \<in> group_key c BySource ` set es"
    unfolding set_jm_of_get [OF jm_wf_aggregate] jm_get_aggregate by (simp split: if_splits)
  then have "find (\<lambda>e. group_key c BySource e = Some k) (rev es) \<noteq> None"
    by (auto simp: find_None_iff)
  then obtain e where e: "find (\<lambda>e. group_key c BySource e = Some k) (rev es) = Some e" by blast
  then have "group_key c BySource e = Some k" "e \<in> set es" by (auto dest: find_SomeD)
  moreover from this named have "named_entry e" by (simp add: list_all_iff)
  ultimately show ?thesis using e b
    by (auto simp: bucket_of_def Let_def source_meta_get source_pair_named list_ex_iff group_key_in_bucket simp del: in_bucket.simps)
qed

lemma hit_named: "named_entry (hit_entry c hit i)"
proof -
  let ?trimmed = "\<lambda>s. trim s = s"
  have first: "\<forall>s \<in> set xs. ?trimmed s \<Longrightarrow> ?trimmed (first_nonempty xs)" for xs
    by (induction xs) auto
  have host: "?trimmed (toHostString v)" for v
    by (auto simp: toHostString_def split: option.split json.split; code_simp)
  have opt: "?trimmed (nullish (map_option trim x) [])" for x
    by (cases x) simp_all
  have message: "?trimmed (extractHostnameFromSyslogMessage v)" for v
    unfolding extractHostnameFromSyslogMessage_def Let_def
    by (auto simp: opt split: option.split)
  have dash: "?trimmed zh_dash" "?trimmed ''unknown''" by code_simp+
  have "?trimmed (resolveLogHost flds ms)" for flds ms
    using first [of "map (toHostString \<circ> json_field (Some flds))
        [''host'', ''host.name'', ''hostname'', ''syslog_hostname'', ''server_id'']"]
      first [of "map extractHostnameFromSyslogMessage ms"] host message dash
    by (simp add: resolveLogHost_def Let_def or_str_def)
  then have "?trimmed (lg_host (hit_entry c hit i))" by (simp add: hit_entry_def Let_def)
  moreover have candidate: "?trimmed (normalizeServiceNameCandidate v)" for v
    by (simp add: normalizeServiceNameCandidate_def Let_def or_str_def)
  have "?trimmed (toServiceString v)" "?trimmed (extractServiceNameFromSourcePath v)" for v
    by (simp_all add: toServiceString_def extractServiceNameFromSourcePath_def Let_def candidate)
  then have "?trimmed (resolveLogService flds vs)" for flds vs
    unfolding resolveLogService_def Let_def or_str_def using dash by (auto intro!: first)
  then have "?trimmed (lg_service (hit_entry c hit i))" by (simp add: hit_entry_def Let_def)
  ultimately show ?thesis using lg_nonempty [of c hit i] by (simp add: named_entry_def)
qed

text \<open>C21: Aggregating a list of entries is counting them. When every entry has a host and a service, as every
  hit of the search does: there is exactly one bucket for every level, every pair of host and service, every
  hour or every minute that some entry has, with the number of entries that have it. By level and by source
  every entry is counted once; by hour and by minute every entry whose time stamp can be read, and no other.
  A bucket by source carries the host and the service of an entry of its own.\<close>

theorem aggregate_equivalence:
  assumes "list_all named_entry es"
  shows "set (map (\<lambda>b. (ab_key b, ab_count b)) (buildAggregateStatsFromLogs lc c es g))
       = {(k, of_nat (length (filter (in_bucket c g k) es))) | k. list_ex (in_bucket c g k) es}
   \<and> distinct (map ab_key (buildAggregateStatsFromLogs lc c es g))
   \<and> sum_list (map ab_count (buildAggregateStatsFromLogs lc c es g)) = of_nat (length (filter (dated c g) es))
   \<and> list_all (\<lambda>b. list_ex (\<lambda>e. in_bucket c BySource (ab_key b) e \<and> ab_host b = Some (trim (lg_host e))
        \<and> ab_service b = Some (trim (lg_service e))
        \<and> ab_label b = Some (trim (lg_host e) @ '' / '' @ trim (lg_service e))) es)
       (buildAggregateStatsFromLogs lc c es BySource)"
proof -
  have k: "group_key c g e = Some k \<longleftrightarrow> in_bucket c g k e" if "e \<in> set es" for e k
    using that assms group_key_in_bucket by (simp add: list_all_iff)
  have f: "filter (\<lambda>e. group_key c g e = Some k) es = filter (in_bucket c g k) es" for k
    by (rule filter_cong) (simp_all add: k)
  have "{k. Some k \<in> group_key c g ` set es} = {k. list_ex (in_bucket c g k) es}"
    using k by (force simp: list_ex_iff image_iff)
  then show ?thesis
    unfolding buckets_counted f using buckets_distinct total_aggregate source_bucket_of_entry [OF _ assms]
    by (auto simp: list_all_iff)
qed

definition sample_entries :: "log_entry list" where
  "sample_entries =
     map (\<lambda>(t, l, h). \<lparr>lg_id = ''1'', lg_timestamp = t, lg_level = l, lg_service = ''api'', lg_host = h, lg_hostIp = ''-'',
         lg_message = ''m'', lg_fields = JObj [], lg_rawLog = ''m''\<rparr>)
       [(''2026-01-02T10:05:00Z'', ErrorLog, ''web-1''), (''2026-01-02T10:59:59Z'', InfoLog, ''web-2''),
        (''yesterday'', ErrorLog, ''web-1'')]"

theorem aggregate_equivalence_witness:
  "set (map (\<lambda>b. (ab_key b, ab_count b)) (buildAggregateStatsFromLogs (\<lambda>_ _. 0) sample_clock sample_entries ByHour))
     = {(''2026-01-02T10:00:00.000Z'', 2)}
   \<and> sum_list (map ab_count (buildAggregateStatsFromLogs (\<lambda>_ _. 0) sample_clock sample_entries ByLevel)) = 3"
proof -
  have n: "list_all named_entry sample_entries" by code_simp
  have b: "{k. list_ex (in_bucket sample_clock ByHour k) sample_entries} = {''2026-01-02T10:00:00.000Z''}"
    "length (filter (in_bucket sample_clock ByHour ''2026-01-02T10:00:00.000Z'') sample_entries) = 2"
    "length (filter (dated sample_clock ByLevel) sample_entries) = 3"
  proof -
    have d: "date_of sample_clock ''2026-01-02T10:05:00Z'' = Some 1767348300000"
      "date_of sample_clock ''2026-01-02T10:59:59Z'' = Some 1767351599000" "date_of sample_clock ''yesterday'' = None"
      "toISOString 1767348000000 = ''2026-01-02T10:00:00.000Z''"
      by code_simp+
    have q: "(1767348300000 :: int) div 3600000 * 3600000 = 1767348000000"
      "(1767351599000 :: int) div 3600000 * 3600000 = 1767348000000" by code_simp+
    have t: "map lg_timestamp sample_entries = [''2026-01-02T10:05:00Z'', ''2026-01-02T10:59:59Z'', ''yesterday'']"
      unfolding sample_entries_def by simp
    have m: "map (in_bucket sample_clock ByHour k) sample_entries = map (\<lambda>t. case date_of sample_clock t of None \<Rightarrow> False
        | Some t \<Rightarrow> k = toISOString (t div 3600000 * 3600000)) (map lg_timestamp sample_entries)" for k
      by simp
    have m: "map (in_bucket sample_clock ByHour k) sample_entries
        = [k = ''2026-01-02T10:00:00.000Z'', k = ''2026-01-02T10:00:00.000Z'', False]" for k
      unfolding m t list.map d option.case q ..
    have ex: "map P es = [b, b, False] \<Longrightarrow> list_ex P es \<longleftrightarrow> b" for P :: "log_entry \<Rightarrow> bool" and es b
      by (auto simp: map_eq_Cons_conv)
    have len: "map P es = [b, b, False] \<Longrightarrow> length (filter P es) = (if b then 2 else 0)" for P :: "log_entry \<Rightarrow> bool" and es b
      by (auto simp: map_eq_Cons_conv)
    have "list_ex (in_bucket sample_clock ByHour k) sample_entries \<longleftrightarrow> k = ''2026-01-02T10:00:00.000Z''" for k
      using ex [OF m [of k]] .
    then show "{k. list_ex (in_bucket sample_clock ByHour k) sample_entries} = {''2026-01-02T10:00:00.000Z''}"
      by blast
    show "length (filter (in_bucket sample_clock ByHour ''2026-01-02T10:00:00.000Z'') sample_entries) = 2"
      using len [OF m] by simp
    show "length (filter (dated sample_clock ByLevel) sample_entries) = 3"
      by (simp add: sample_entries_def dated_def)
  qed
  have one: "{(k, f k) | k. P k} = {(x, f x)}" if "{k. P k} = {x}" for P :: "string \<Rightarrow> bool" and f :: "string \<Rightarrow> rat" and x
  proof -
    have "P k \<longleftrightarrow> k = x" for k using eqset_imp_iff [OF that, of k] by simp
    then show ?thesis by simp
  qed
  show ?thesis
    using conjunct1 [OF aggregate_equivalence [OF n, of "\<lambda>_ _. 0" sample_clock ByHour]]
      conjunct1 [OF conjunct2 [OF conjunct2 [OF aggregate_equivalence [OF n, of "\<lambda>_ _. 0" sample_clock ByLevel]]]]
    unfolding one [OF b(1)] b of_nat_numeral by (rule conjI)
qed

text \<open>Clustering counts every sampled entry that has a message once: a cluster's trend adds up to its
  occurrences, it keeps the first three of them as samples (fewer when there are fewer), its similarity is a
  percentage from 72 up, and at most fifty clusters are shown.\<close>

theorem cluster_counts:
  "list_all (\<lambda>p. 0 < cp_occurrences p \<and> sum_list (map snd (cp_trend p)) = cp_occurrences p
      \<and> length (cp_samples p) = min 3 (cp_occurrences p) \<and> 72 \<le> cp_similarity p \<and> cp_similarity p \<le> 100)
    (snd (buildLogClustersFromLogs lc c es r limit sampleSize t))
   \<and> length (snd (buildLogClustersFromLogs lc c es r limit sampleSize t)) \<le> 50
   \<and> sum_list (map cl_occurrences (jm_values (cluster_map c r es))) = length (filter templated es)"
proof (intro conjI)
  define sampled where "sampled = take (nat (clamp 1 1000 (nullish sampleSize 400))) es"
  have ok: "0 < cp_occurrences q \<and> sum_list (map snd (cp_trend q)) = cp_occurrences q
      \<and> length (cp_samples q) = min 3 (cp_occurrences q) \<and> 72 \<le> cp_similarity q \<and> cp_similarity q \<le> 100"
    if q: "q \<in> pattern_of a b ` set (jm_values (cluster_map c r sampled))" for q a b
  proof -
    from q obtain p where p: "p \<in> set (jm_values (cluster_map c r sampled))" and q: "q = pattern_of a b p" by blast
    from p cluster_map_ok [of c r sampled] have "cluster_ok p" and "0 < cl_occurrences p" by blast+
    with q show ?thesis by (simp add: pattern_of_def cluster_ok_def snd_trend similarity_bounds)
  qed
  show "list_all (\<lambda>p. 0 < cp_occurrences p \<and> sum_list (map snd (cp_trend p)) = cp_occurrences p
      \<and> length (cp_samples p) = min 3 (cp_occurrences p) \<and> 72 \<le> cp_similarity p \<and> cp_similarity p \<le> 100)
    (snd (buildLogClustersFromLogs lc c es r limit sampleSize t))"
    unfolding list_all_iff buildLogClustersFromLogs_def Let_def snd_conv sampled_def [symmetric]
    by (intro ballI ok) (auto dest!: in_set_takeD)
  show "length (snd (buildLogClustersFromLogs lc c es r limit sampleSize t)) \<le> 50"
    by (simp add: buildLogClustersFromLogs_def Let_def clamp_def)
  show "sum_list (map cl_occurrences (jm_values (cluster_map c r es))) = length (filter templated es)"
    using cluster_map_ok [of c r es] by (simp add: jm_values_def)
qed

text \<open>The anomaly report stays within its scales whatever the buckets: one trend point per bucket with
  \<open>0 <= lower <= expected <= upper\<close>, at most twenty anomalies of at most two per bucket, confidences
  from 55 to 99, and a health score from 0 to 100 that is 100 exactly when nothing was found.\<close>

theorem anomaly_bounds:
  "length (fst (snd (buildAggregateBackedAnomalyStats env buckets service))) = length buckets
   \<and> list_all (\<lambda>t. 0 \<le> tp_lower t \<and> tp_lower t \<le> tp_expected t \<and> tp_expected t \<le> tp_upper t)
       (fst (snd (buildAggregateBackedAnomalyStats env buckets service)))
   \<and> length (snd (snd (buildAggregateBackedAnomalyStats env buckets service))) \<le> 20
   \<and> as_total (fst (buildAggregateBackedAnomalyStats env buckets service)) \<le> 2 * length buckets
   \<and> list_all (\<lambda>a. 55 \<le> an_confidence a \<and> an_confidence a \<le> 99)
       (snd (snd (buildAggregateBackedAnomalyStats env buckets service)))
   \<and> 0 \<le> as_health (fst (buildAggregateBackedAnomalyStats env buckets service))
   \<and> as_health (fst (buildAggregateBackedAnomalyStats env buckets service)) \<le> 100
   \<and> (as_health (fst (buildAggregateBackedAnomalyStats env buckets service)) = 100
      \<longleftrightarrow> snd (snd (buildAggregateBackedAnomalyStats env buckets service)) = [])"
proof -
  define bs where "bs = js_sort (\<lambda>l r. ae_lc env (lb_time l) (lb_time r) \<le> 0)
      (map (\<lambda>b. \<lparr>lb_time = ab_key b, lb_actual = max 0 (ab_count b), lb_errorCount = 0\<rparr>) buckets)"
  define found where "found = (\<lambda>b v. volume_anomaly (ae_locale_time env) (ae_clock env) service b v
      @ error_anomaly (ae_locale_time env) (ae_clock env) service b v)"
  define views where "views = map (view_bucket (ae_sqrt env) bs) [0..<length bs]"
  define as where "as = js_sort (anomaly_before (ae_lc env)) (concat (map2 found bs views))"
  have nn: "\<forall>b \<in> set bs. 0 \<le> lb_actual b" by (auto simp: bs_def)
  have len: "length bs = length buckets" "length views = length bs" by (simp_all add: bs_def views_def)
  have conf: "\<forall>a \<in> set as. 55 \<le> an_confidence a \<and> an_confidence a \<le> 99"
    using found_confidence by (fastforce simp: as_def found_def)
  have two: "length as \<le> 2 * length bs"
    unfolding as_def length_js_sort
    by (rule length_concat_map2_le) (simp add: found_def found_length)
  have trend: "\<forall>t \<in> set (map2 trend_of bs views). 0 \<le> tp_lower t \<and> tp_lower t \<le> tp_expected t \<and> tp_expected t \<le> tp_upper t"
    using trend_bounds [OF nn] by (auto simp: views_def set_zip)
  have r: "buildAggregateBackedAnomalyStats env buckets service =
     (\<lparr>as_total = length as, as_critical = length (filter (\<lambda>a. an_severity a = CriticalAnomaly) as),
       as_health = max 0 (100 - int (length as) * 8 - int (length (filter (\<lambda>a. an_severity a = CriticalAnomaly) as)) * 10),
       as_buckets = length (filter tp_is_anomaly (map2 trend_of bs views)), as_services = (if as \<noteq> [] then 1 else 0)\<rparr>,
      map2 trend_of bs views, take 20 as)"
    unfolding buildAggregateBackedAnomalyStats_def buildAnomalyStatsFromBuckets_def Let_def
      bs_def [symmetric] found_def [symmetric] views_def [symmetric] as_def [symmetric] ..
  have health: "max 0 (100 - int (length as) * 8 - int (length (filter P as)) * 10) = 100 \<longleftrightarrow> as = []" for P
    by (cases as) (auto simp: max_def)
  show ?thesis
    unfolding r list_all_iff fst_conv snd_conv anomaly_summary.simps health
  proof (intro conjI)
    show "\<forall>a \<in> set (take 20 as). 55 \<le> an_confidence a \<and> an_confidence a \<le> 99" using conf by (blast dest: in_set_takeD)
  qed (use trend two len in simp_all)
qed

end
