(* ===== verification/Query_Request.thy ===== *)
theory Query_Request
  imports Query_Stats
begin

text \<open>
  How the query module of the console (\<open>api/query.ts\<close>) sends a request: the token, the headers, the
  envelope of the answer and the errors it can turn into, the sharing of equal requests that are under
  way, and the two questions that decide about local data: may the call be answered locally without a
  request, and may a failed request be.

  The server is a function from its own state and a request to an answer and its next state, so that no
  claim rests on it being well-behaved. An answer's body is any JSON value; \<open>None\<close> stands for a body that
  is no JSON.
\<close>

section \<open>The surroundings\<close>

datatype query_answer =
  Unreachable
| Answer (answer_status: nat) (answer_body: "json option")

record 's query_env =
  qe_config :: config
  qe_pathname :: "string \<Rightarrow> string"
  qe_clock :: clock
  qe_lc :: "string \<Rightarrow> string \<Rightarrow> int"
  qe_random :: "nat \<Rightarrow> nat \<Rightarrow> string"
  qe_id :: string
  qe_sqrt :: "rat \<Rightarrow> rat"
  qe_locale_time :: "string \<Rightarrow> string"
  qe_server :: "'s \<Rightarrow> api_request \<Rightarrow> query_answer \<times> 's"

record 's world =
  wd_browser :: browser
  wd_net :: 's

definition api_at :: "'s query_env \<Rightarrow> browser \<Rightarrow> api_env" where
  "api_at env b = \<lparr>api_config = qe_config env, api_browser = b, api_pathname = qe_pathname env\<rparr>"

text \<open>\<open>OtherError\<close>: the network, a type error, denied storage.\<close>

datatype query_error =
  QueryApiAuthError (qerr_message: string) (qerr_status: nat)
| QueryApiRequestError (qerr_status: nat) (qerr_code: json) (qerr_message: string)
| OtherError

section \<open>Sending\<close>

definition resolveValidAccessToken :: "clock \<Rightarrow> browser \<Rightarrow> string" where
  "resolveValidAccessToken c b =
     (let token = nullish (map_option trim (getAuthStorageItem b ACCESS_TOKEN_KEY)) [];
          expiresAtRaw = nullish (map_option trim (getAuthStorageItem b TOKEN_EXPIRES_AT_KEY)) []
      in if token = [] then []
         else if expiresAtRaw = [] then token
         else (case js_Number expiresAtRaw of
                 Fin expires \<Rightarrow> if expires \<le> of_int (now_ms c) then [] else token
               | _ \<Rightarrow> token))"

definition query_headers :: "'s query_env \<Rightarrow> browser \<Rightarrow> string \<Rightarrow> (string, string) jsmap option" where
  "query_headers env b token =
     map_option (\<lambda>tenantId.
        let userId = resolveStoredAuthUserID b
        in [(''Content-Type'', ''application/json'')]
           @ (if tenantId \<noteq> [] then [(''X-Tenant-ID'', tenantId)] else [])
           @ (if userId \<noteq> [] then [(''X-User-ID'', userId)] else [])
           @ (if token \<noteq> [] then [(''Authorization'', ''Bearer '' @ token)] else []))
      (resolveTenantId (api_at env b))"

text \<open>An object literal; a field whose value is \<open>undefined\<close> is left out of its JSON.\<close>

definition literal :: "(string \<times> json option) list \<Rightarrow> json" where
  "literal fs = JObj (List.map_filter (\<lambda>(k, v). map_option (Pair k) v) fs)"

definition query_request ::
    "'s query_env \<Rightarrow> browser \<Rightarrow> string \<Rightarrow> string \<Rightarrow> (string \<times> string option) list \<Rightarrow> json option
     \<Rightarrow> api_request option" where
  "query_request env b p method query body =
     (case base_url (api_at env b) of
        None \<Rightarrow> None
      | Some base \<Rightarrow>
          map_option (\<lambda>headers.
             \<lparr>rq_url = api_url (api_at env b) (base @ ''/query'' @ p) query, rq_method = method,
              rq_headers = headers, rq_body = body\<rparr>)
           (query_headers env b (resolveValidAccessToken (qe_clock env) b)))"

text \<open>\<open>await response.json().catch(() => null)\<close>, with \<open>null\<close> as \<open>None\<close>.\<close>

definition envelope_of :: "json option \<Rightarrow> json option" where
  "envelope_of body = nullish_json body None"

definition response_ok :: "nat \<Rightarrow> bool" where
  "response_ok status \<longleftrightarrow> 200 \<le> status \<and> status \<le> 299"

definition field_or :: "json option \<Rightarrow> string \<Rightarrow> json \<Rightarrow> json" where
  "field_or v k d = (case nullish_json (json_field v k) None of None \<Rightarrow> d | Some j \<Rightarrow> j)"

definition decode_query_answer :: "query_answer \<Rightarrow> query_error + json" where
  "decode_query_answer a =
     (case a of
        Unreachable \<Rightarrow> Inl OtherError
      | Answer status body \<Rightarrow>
          (let envelope = envelope_of body
           in if \<not> response_ok status then
                (if status = 401 \<or> status = 403
                 then Inl (QueryApiAuthError
                        (js_String (field_or envelope ''message'' (JStr zh_query_unauthorized))) status)
                 else Inl (QueryApiRequestError status
                        (field_or envelope ''code'' (JStr ''QUERY_API_REQUEST_FAILED''))
                        (js_String (field_or envelope ''message''
                           (JStr (''query api request failed: HTTP '' @ nat_to_string status))))))
              else Inr (nullish envelope
                     (JObj [(''code'', JStr ''OK''), (''message'', JStr ''success''), (''meta'', JObj [])]))))"

type_synonym ('s, 'r) call = "'s world \<Rightarrow> (query_error + 'r) \<times> 's world"

definition requestQueryApi ::
    "'s query_env \<Rightarrow> string \<Rightarrow> string \<Rightarrow> (string \<times> string option) list \<Rightarrow> json option \<Rightarrow> ('s, json) call" where
  "requestQueryApi env p method query body w =
     (case query_request env (wd_browser w) p method query body of
        None \<Rightarrow> (Inl OtherError, w)
      | Some rq \<Rightarrow>
          (case qe_server env (wd_net w) rq of
             (a, s) \<Rightarrow> (decode_query_answer a, w\<lparr>wd_net := s\<rparr>)))"

section \<open>Requests under way\<close>

text \<open>
  A \<open>GET\<close> without an abort signal is shared: while one with the same key is under way, a further call
  waits for its answer. A promise is its number in the list of the requests sent, which also says whether
  it is shared; \<open>in_map\<close> is \<open>IN_FLIGHT_QUERY_GET_REQUESTS\<close>.
\<close>

record inflight =
  in_map :: "(string, nat) jsmap"
  in_sent :: "(bool \<times> api_request) list"
  in_open :: "nat list"

definition request_key :: "api_request \<Rightarrow> string" where
  "request_key rq = rq_method rq @ '' '' @ rq_url rq"

definition should_dedupe :: "string \<Rightarrow> bool \<Rightarrow> bool" where
  "should_dedupe method signal \<longleftrightarrow> method = ''GET'' \<and> \<not> signal"

definition perform :: "bool \<Rightarrow> api_request \<Rightarrow> inflight \<Rightarrow> nat \<times> inflight" where
  "perform shared rq s =
     (let p = length (in_sent s)
      in (p, s\<lparr>in_sent := in_sent s @ [(shared, rq)], in_open := p # in_open s\<rparr>))"

definition start_request :: "bool \<Rightarrow> api_request \<Rightarrow> inflight \<Rightarrow> nat \<times> inflight" where
  "start_request signal rq s =
     (if \<not> should_dedupe (rq_method rq) signal then perform False rq s
      else case jm_get (in_map s) (request_key rq) of
             Some p \<Rightarrow> (p, s)
           | None \<Rightarrow>
               (case perform True rq s of
                  (p, s') \<Rightarrow> (p, s'\<lparr>in_map := jm_set (request_key rq) p (in_map s')\<rparr>)))"

text \<open>The promise settles; the call that made a shared one takes it out of the map.\<close>

definition settle :: "nat \<Rightarrow> inflight \<Rightarrow> inflight" where
  "settle p s =
     (let s' = s\<lparr>in_open := filter (\<lambda>q. q \<noteq> p) (in_open s)\<rparr>; sent = in_sent s ! p
      in if fst sent \<and> jm_get (in_map s) (request_key (snd sent)) = Some p
         then s'\<lparr>in_map := jm_delete (request_key (snd sent)) (in_map s)\<rparr>
         else s')"

inductive inflight_reachable :: "inflight \<Rightarrow> bool" where
  none: "inflight_reachable \<lparr>in_map = [], in_sent = [], in_open = []\<rparr>"
| ask: "inflight_reachable s \<Longrightarrow> inflight_reachable (snd (start_request signal rq s))"
| answered: "inflight_reachable s \<Longrightarrow> p \<in> set (in_open s) \<Longrightarrow> inflight_reachable (settle p s)"

section \<open>Local data instead of an answer\<close>

definition isOfflineModeEnabled :: "config \<Rightarrow> bool" where
  "isOfflineModeEnabled cfg \<longleftrightarrow> truthy (json_field (jm_get cfg ''features'') ''enableOfflineMode'')"

definition shouldUseEmergencyQueryFallback :: "clock \<Rightarrow> browser \<Rightarrow> bool" where
  "shouldUseEmergencyQueryFallback c b \<longleftrightarrow>
     resolveValidAccessToken c b \<noteq> [] \<and> startsWith (resolveValidAccessToken c b) EMERGENCY_ACCESS_TOKEN_PREFIX"

definition shouldUseQueryCollectionFallback :: "'s query_env \<Rightarrow> browser \<Rightarrow> bool" where
  "shouldUseQueryCollectionFallback env b \<longleftrightarrow>
     (if shouldUseEmergencyQueryFallback (qe_clock env) b then True
      else if \<not> isOfflineModeEnabled (qe_config env) then False
      else resolveValidAccessToken (qe_clock env) b = [])"

text \<open>\<open>status >= 500 || status === 404\<close>, or one of two codes.\<close>

definition service_unavailable :: "query_error \<Rightarrow> bool" where
  "service_unavailable e =
     (case e of
        QueryApiRequestError status code _ \<Rightarrow>
          500 \<le> status \<or> status = 404 \<or> code = JStr ''QUERY_SERVICE_UNAVAILABLE'' \<or> code = JStr ''QUERY_INTERNAL_ERROR''
      | _ \<Rightarrow> False)"

fun is_auth_error :: "query_error \<Rightarrow> bool" where
  "is_auth_error (QueryApiAuthError _ _) = True"
| "is_auth_error _ = False"

definition shouldFallbackToLocalStore :: "'s query_env \<Rightarrow> browser \<Rightarrow> query_error \<Rightarrow> bool" where
  "shouldFallbackToLocalStore env b e \<longleftrightarrow>
     (if shouldUseEmergencyQueryFallback (qe_clock env) b \<and> is_auth_error e then True
      else if \<not> isOfflineModeEnabled (qe_config env) then False
      else if is_auth_error e then True
      else service_unavailable e)"

definition shouldFallbackToAggregateDerivedAnomalyStats :: "query_error \<Rightarrow> bool" where
  "shouldFallbackToAggregateDerivedAnomalyStats = service_unavailable"

definition shouldFallbackToRealtimeLogDerivation :: "query_error \<Rightarrow> bool" where
  "shouldFallbackToRealtimeLogDerivation = service_unavailable"

text \<open>The frame every operation of the module has: local data at once, or the request, whose error may be
  answered with local data.\<close>

definition with_local_fallback :: "'s query_env \<Rightarrow> ('s, 'r) call \<Rightarrow> ('s, 'r) call \<Rightarrow> ('s, 'r) call" where
  "with_local_fallback env here remote w =
     (if shouldUseQueryCollectionFallback env (wd_browser w) then here w
      else (case remote w of
              (Inl e, w') \<Rightarrow> if shouldFallbackToLocalStore env (wd_browser w') e then here w' else (Inl e, w')
            | (Inr r, w') \<Rightarrow> (Inr r, w')))"

section \<open>Lemmas\<close>

definition inflight_ok :: "inflight \<Rightarrow> bool" where
  "inflight_ok s \<longleftrightarrow> jm_wf (in_map s) \<and> distinct (in_open s) \<and> set (in_open s) \<subseteq> {..<length (in_sent s)}
     \<and> (\<forall>k p. jm_get (in_map s) k = Some p \<longleftrightarrow>
          p \<in> set (in_open s) \<and> fst (in_sent s ! p) \<and> request_key (snd (in_sent s ! p)) = k)"

lemma inflight_ok_D:
  "inflight_ok s \<Longrightarrow> jm_get (in_map s) k = Some p \<longleftrightarrow>
     p \<in> set (in_open s) \<and> fst (in_sent s ! p) \<and> request_key (snd (in_sent s ! p)) = k"
  by (simp add: inflight_ok_def)

lemma inflight_ok_get:
  "inflight_ok s \<Longrightarrow> p \<in> set (in_open s) \<Longrightarrow> fst (in_sent s ! p) \<Longrightarrow>
     jm_get (in_map s) (request_key (snd (in_sent s ! p))) = Some p"
  using inflight_ok_D by blast

lemma inflight_ok_perform:
  assumes "inflight_ok s"
  shows "inflight_ok (snd (perform False rq s))"
    and "jm_get (in_map s) (request_key rq) = None \<Longrightarrow>
      inflight_ok ((snd (perform True rq s))\<lparr>in_map := jm_set (request_key rq) (length (in_sent s)) (in_map s)\<rparr>)"
proof -
  have lt: "\<And>p. p \<in> set (in_open s) \<Longrightarrow> p < length (in_sent s)" using assms by (auto simp: inflight_ok_def)
  then have new: "length (in_sent s) \<notin> set (in_open s)" by blast
  show "inflight_ok (snd (perform False rq s))"
    using assms new lt by (auto simp: inflight_ok_def perform_def Let_def nth_append less_Suc_eq)
  assume none: "jm_get (in_map s) (request_key rq) = None"
  have other: "request_key (snd (in_sent s ! p)) \<noteq> request_key rq" if "p \<in> set (in_open s)" "fst (in_sent s ! p)" for p
    using that none inflight_ok_D [OF assms, of "request_key rq" p] by auto
  show "inflight_ok ((snd (perform True rq s))\<lparr>in_map := jm_set (request_key rq) (length (in_sent s)) (in_map s)\<rparr>)"
    using assms new lt other by (auto simp: inflight_ok_def perform_def Let_def nth_append less_Suc_eq)
qed

lemma inflight_ok_start: "inflight_ok s \<Longrightarrow> inflight_ok (snd (start_request signal rq s))"
  using inflight_ok_perform [of s rq]
  by (auto simp: start_request_def perform_def Let_def split: option.splits)

lemma inflight_ok_settle:
  assumes ok: "inflight_ok s" and p: "p \<in> set (in_open s)"
  shows "inflight_ok (settle p s)"
proof (cases "fst (in_sent s ! p)")
  case True
  then have "jm_get (in_map s) (request_key (snd (in_sent s ! p))) = Some p"
    using inflight_ok_D [OF ok] p by blast
  then have s: "settle p s = s\<lparr>in_open := filter (\<lambda>q. q \<noteq> p) (in_open s),
      in_map := jm_delete (request_key (snd (in_sent s ! p))) (in_map s)\<rparr>"
    using True by (simp add: settle_def Let_def)
  have "q = p" if "q \<in> set (in_open s)" "fst (in_sent s ! q)"
    "request_key (snd (in_sent s ! q)) = request_key (snd (in_sent s ! p))" for q
    using that inflight_ok_D [OF ok, of "request_key (snd (in_sent s ! p))"] True p by (metis option.inject)
  then show ?thesis using ok unfolding s by (auto simp: inflight_ok_def)
next
  case False
  then show ?thesis using ok by (auto simp: inflight_ok_def settle_def Let_def)
qed

lemma reachable_ok: "inflight_reachable s \<Longrightarrow> inflight_ok s"
proof (induction rule: inflight_reachable.induct)
  case none
  show ?case by (simp add: inflight_ok_def)
qed (simp_all add: inflight_ok_start inflight_ok_settle)

text \<open>The promise a call gets is under way and is for the very request it asked for.\<close>

lemma start_request_promise:
  assumes "inflight_ok s"
  shows "fst (start_request signal rq s) \<in> set (in_open (snd (start_request signal rq s)))
    \<and> request_key (snd (in_sent (snd (start_request signal rq s)) ! fst (start_request signal rq s))) = request_key rq"
  using inflight_ok_D [OF assms, of "request_key rq"]
  by (auto simp: start_request_def perform_def Let_def split: option.splits)

section \<open>Properties\<close>

text \<open>C18: Of the shared requests under way no two are for the same method and address, however calls and
  answers interleave; and the promise a further call gets is under way and is for its own method and address.\<close>

theorem one_request_in_flight:
  assumes "inflight_reachable s"
  shows "distinct (map (\<lambda>p. request_key (snd (in_sent s ! p))) (filter (\<lambda>p. fst (in_sent s ! p)) (in_open s)))
    \<and> fst (start_request signal rq s) \<in> set (in_open (snd (start_request signal rq s)))
    \<and> request_key (snd (in_sent (snd (start_request signal rq s)) ! fst (start_request signal rq s))) = request_key rq"
proof -
  note ok = reachable_ok [OF assms]
  have "inj_on (\<lambda>p. request_key (snd (in_sent s ! p))) (set (filter (\<lambda>p. fst (in_sent s ! p)) (in_open s)))"
  proof (rule inj_onI)
    fix p q
    assume "p \<in> set (filter (\<lambda>p. fst (in_sent s ! p)) (in_open s))" "q \<in> set (filter (\<lambda>p. fst (in_sent s ! p)) (in_open s))"
      and eq: "request_key (snd (in_sent s ! p)) = request_key (snd (in_sent s ! q))"
    then have "p \<in> set (in_open s)" "fst (in_sent s ! p)" "q \<in> set (in_open s)" "fst (in_sent s ! q)" by simp_all
    then have "Some p = Some q" using inflight_ok_get [OF ok] eq by metis
    then show "p = q" by simp
  qed
  moreover have "distinct (in_open s)" using ok by (simp add: inflight_ok_def)
  ultimately show ?thesis using start_request_promise [OF ok, of signal rq] by (simp add: distinct_map)
qed

definition sample_get :: "string \<Rightarrow> api_request" where
  "sample_get url = \<lparr>rq_url = url, rq_method = ''GET'', rq_headers = [], rq_body = None\<rparr>"

definition sample_inflight :: inflight where
  "sample_inflight =
     settle 0 (snd (start_request False (sample_get ''/b'') (snd (start_request False (sample_get ''/a'')
       \<lparr>in_map = [], in_sent = [], in_open = []\<rparr>))))"

theorem one_request_in_flight_witness:
  "inflight_reachable sample_inflight \<and> in_open sample_inflight = [1]
   \<and> fst (start_request False (sample_get ''/b'') sample_inflight) = 1
   \<and> request_key (snd (in_sent (snd (start_request False (sample_get ''/b'') sample_inflight)) ! 1)) = ''GET /b''"
proof -
  have r: "inflight_reachable sample_inflight"
    unfolding sample_inflight_def
    by (rule answered, rule ask, rule ask, rule none)
      (simp add: start_request_def perform_def should_dedupe_def request_key_def sample_get_def Let_def)
  have e: "in_open sample_inflight = [1]" "fst (start_request False (sample_get ''/b'') sample_inflight) = 1"
    "request_key (sample_get ''/b'') = ''GET /b''"
    by (simp_all add: sample_inflight_def settle_def start_request_def perform_def should_dedupe_def request_key_def
        sample_get_def Let_def jm_delete_def)
  show ?thesis using r e one_request_in_flight [OF r, of False "sample_get ''/b''"] by simp
qed

text \<open>The key of a shared request is its method and address only. A call made while an equal request is
  under way gets that request's answer and sends none of its own, whatever its headers say: neither the
  token nor the tenant nor the user of the second call matters.\<close>

theorem shared_answer_ignores_session:
  "start_request False (\<lparr>rq_url = url, rq_method = ''GET'', rq_headers = headers2, rq_body = None\<rparr>)
      (snd (start_request False (\<lparr>rq_url = url, rq_method = ''GET'', rq_headers = headers1, rq_body = None\<rparr>) s))
   = start_request False (\<lparr>rq_url = url, rq_method = ''GET'', rq_headers = headers1, rq_body = None\<rparr>) s"
  by (auto simp: start_request_def should_dedupe_def request_key_def perform_def Let_def split: option.splits)

text \<open>A token whose stored expiry has passed is never sent, and a token that is sent is the stored one.\<close>

theorem expired_token_not_sent:
  assumes "query_request env b p method query body = Some rq"
  shows "jm_get (rq_headers rq) ''Authorization'' =
    (let token = nullish (map_option trim (getAuthStorageItem b ACCESS_TOKEN_KEY)) [];
         expires = nullish (map_option trim (getAuthStorageItem b TOKEN_EXPIRES_AT_KEY)) []
     in if token = [] \<or> expires \<noteq> [] \<and> num_le (js_Number expires) (of_int (now_ms (qe_clock env)))
          \<and> isFinite (js_Number expires)
        then None else Some (''Bearer '' @ token))"
proof -
  obtain tenant where h: "rq_headers rq = [(''Content-Type'', ''application/json'')]
      @ (if tenant \<noteq> [] then [(''X-Tenant-ID'', tenant)] else [])
      @ (if resolveStoredAuthUserID b \<noteq> [] then [(''X-User-ID'', resolveStoredAuthUserID b)] else [])
      @ (if resolveValidAccessToken (qe_clock env) b \<noteq> []
         then [(''Authorization'', ''Bearer '' @ resolveValidAccessToken (qe_clock env) b)] else [])"
    using assms by (auto simp: query_request_def query_headers_def Let_def split: option.splits)
  have "jm_get (rq_headers rq) ''Authorization'' =
      (if resolveValidAccessToken (qe_clock env) b = [] then None
       else Some (''Bearer '' @ resolveValidAccessToken (qe_clock env) b))"
    by (simp add: h)
  then show ?thesis
    by (cases "js_Number (nullish (map_option trim (getAuthStorageItem b TOKEN_EXPIRES_AT_KEY)) [])")
      (simp_all add: resolveValidAccessToken_def Let_def)
qed

definition sample_env :: "(nat \<Rightarrow> api_request \<Rightarrow> query_answer \<times> nat) \<Rightarrow> nat query_env" where
  "sample_env server =
     \<lparr>qe_config = DEFAULT_CONFIG, qe_pathname = id, qe_clock = \<lparr>now_ms = 1000, host_date = \<lambda>_. None\<rparr>,
      qe_lc = \<lambda>_ _. 0, qe_random = \<lambda>_ _. ''r'', qe_id = ''r'', qe_sqrt = id, qe_locale_time = id, qe_server = server\<rparr>"

definition expired_browser :: browser where
  "expired_browser = writeStorageValue Session ACCESS_TOKEN_KEY ''tok''
     (writeStorageValue Session TOKEN_EXPIRES_AT_KEY ''999'' \<lparr>local_area = open_area, session_area = open_area\<rparr>)"

definition silent_env :: "nat query_env" where
  "silent_env = sample_env (\<lambda>n _. (Unreachable, n + 1))"

theorem expired_token_not_sent_witness:
  "map_option (\<lambda>rq. jm_get (rq_headers rq) ''Authorization'')
     (query_request silent_env expired_browser ''/history'' ''GET'' [] None) = Some None"
proof -
  have "query_request silent_env expired_browser ''/history'' ''GET'' [] None \<noteq> None" by code_simp
  then obtain rq where rq: "query_request silent_env expired_browser ''/history'' ''GET'' [] None = Some rq" by blast
  have e: "nullish (map_option trim (getAuthStorageItem expired_browser TOKEN_EXPIRES_AT_KEY)) [] = ''999''" by code_simp
  have n: "js_Number ''999'' = Fin 999" "now_ms (qe_clock silent_env) = 1000" by code_simp+
  show ?thesis using expired_token_not_sent [OF rq] rq by (simp add: e n Let_def)
qed

end
