(* ===== verification/Query_Calls.thy ===== *)
theory Query_Calls
  imports Query_Request
begin

text \<open>
  The operations of the query module (\<open>api/query.ts\<close>): searching the logs, the query history and the
  saved queries, with the local store in place of the service when the fallback rules say so.
  Every operation maps the browser's storage and the server's state to its outcome and the next states.
\<close>

section \<open>Numbers of an answer\<close>

definition js_less :: "jsnum \<Rightarrow> jsnum \<Rightarrow> bool" where
  "js_less a b =
     (case (a, b) of
        (NaN, _) \<Rightarrow> False
      | (_, NaN) \<Rightarrow> False
      | (Fin x, Fin y) \<Rightarrow> x < y
      | (NegInf, y) \<Rightarrow> y \<noteq> NegInf
      | (PosInf, _) \<Rightarrow> False
      | (Fin _, y) \<Rightarrow> y = PosInf)"

definition inf_of_sign :: "rat \<Rightarrow> jsnum" where
  "inf_of_sign q = (if q = 0 then NaN else if 0 < q then PosInf else NegInf)"

definition js_times :: "jsnum \<Rightarrow> jsnum \<Rightarrow> jsnum" where
  "js_times a b =
     (case (a, b) of
        (NaN, _) \<Rightarrow> NaN
      | (_, NaN) \<Rightarrow> NaN
      | (Fin x, Fin y) \<Rightarrow> Fin (x * y)
      | (PosInf, Fin y) \<Rightarrow> inf_of_sign y
      | (NegInf, Fin y) \<Rightarrow> inf_of_sign (- y)
      | (Fin x, PosInf) \<Rightarrow> inf_of_sign x
      | (Fin x, NegInf) \<Rightarrow> inf_of_sign (- x)
      | (x, y) \<Rightarrow> if x = y then PosInf else NegInf)"

text \<open>\<open>Number(v ?? d)\<close>, \<open>Boolean(v ?? d)\<close> and \<open>Number.isFinite(x) ? x : d\<close>.\<close>

definition number_or :: "json option \<Rightarrow> jsnum \<Rightarrow> jsnum" where
  "number_or v d = (case nullish_json v None of None \<Rightarrow> d | Some j \<Rightarrow> num_of_json (Some j))"

definition boolean_or :: "json option \<Rightarrow> bool \<Rightarrow> bool" where
  "boolean_or v d = (case nullish_json v None of None \<Rightarrow> d | Some j \<Rightarrow> truthy (Some j))"

definition finite_or :: "jsnum \<Rightarrow> rat \<Rightarrow> rat" where
  "finite_or x d = (case x of Fin q \<Rightarrow> q | _ \<Rightarrow> d)"

text \<open>\<open>(v ?? []).map(f)\<close> for an \<open>f\<close> that reads properties of its argument: a type error when \<open>v\<close> is no
  array or has a \<open>null\<close> item.\<close>

definition map_items :: "(json \<Rightarrow> nat \<Rightarrow> 'a) \<Rightarrow> json option \<Rightarrow> 'a list option" where
  "map_items f v =
     (case nullish_json v None of
        None \<Rightarrow> Some []
      | Some (JArr xs) \<Rightarrow> if JNull \<in> set xs then None else Some (map2 f xs [0..<length xs])
      | Some _ \<Rightarrow> None)"

text \<open>The items of a list of results, unless one of them raised.\<close>

fun all_Some :: "'a option list \<Rightarrow> 'a list option" where
  "all_Some [] = Some []"
| "all_Some (None # vs) = None"
| "all_Some (Some v # vs) = map_option (Cons v) (all_Some vs)"

text \<open>The hits of an answer; a \<open>null\<close> hit is a type error.\<close>

definition hits_of :: "clock \<Rightarrow> json option \<Rightarrow> log_entry list option" where
  "hits_of c v = Option.bind (map_items (normalizeHit c) v) all_Some"

text \<open>An operation continues with the envelope, or fails with a type error.\<close>

definition answered_by :: "('s, json) call \<Rightarrow> (json \<Rightarrow> 'r option) \<Rightarrow> ('s, 'r) call" where
  "answered_by request f w =
     (case request w of
        (Inl e, w') \<Rightarrow> (Inl e, w')
      | (Inr envelope, w') \<Rightarrow> (case f envelope of None \<Rightarrow> (Inl OtherError, w') | Some r \<Rightarrow> (Inr r, w')))"

text \<open>\<open>envelope.data?.k\<close> and \<open>envelope.meta?.k\<close>.\<close>

definition data_field :: "json \<Rightarrow> string \<Rightarrow> json option" where
  "data_field envelope = json_field (json_field (Some envelope) ''data'')"

definition meta_field :: "json \<Rightarrow> string \<Rightarrow> json option" where
  "meta_field envelope = json_field (json_field (Some envelope) ''meta'')"

section \<open>Searching the logs\<close>

record logs_payload =
  lp_keywords :: string
  lp_page :: int
  lp_pageSize :: int
  lp_filters :: "json option"
  lp_timeRange :: "time_range option"
  lp_pitId :: "string option"
  lp_searchAfter :: "json list option"
  lp_recordHistory :: bool

record logs_result =
  lr_hits :: "log_entry list"
  lr_total :: rat
  lr_totalIsLowerBound :: bool
  lr_page :: rat
  lr_pageSize :: rat
  lr_hasNext :: bool
  lr_queryTimeMS :: rat
  lr_timedOut :: bool
  lr_aggregations :: json
  lr_pitId :: "string option"
  lr_nextSearchAfter :: "json list option"

text \<open>The demo entries; \<open>None\<close> when the tenant cannot be read.\<close>

definition demo_logs ::
    "'s query_env \<Rightarrow> browser \<Rightarrow> string option \<Rightarrow> json option \<Rightarrow> time_range option \<Rightarrow> log_entry list option" where
  "demo_logs env b keywords filters tr =
     map_option (\<lambda>tenant. filterLocalDemoLogs (qe_clock env) tenant (qe_random env) keywords filters tr)
       (resolveTenantId (api_at env b))"

definition page_result :: "int \<Rightarrow> int \<Rightarrow> log_entry list \<Rightarrow> logs_result" where
  "page_result page pageSize filtered =
     (let paged = toPagedResult filtered page pageSize
      in \<lparr>lr_hits = pg_items paged, lr_total = of_nat (pg_total paged), lr_totalIsLowerBound = False,
          lr_page = of_nat (pg_page paged), lr_pageSize = of_nat (pg_pageSize paged),
          lr_hasNext = pg_hasNext paged, lr_queryTimeMS = 12, lr_timedOut = False, lr_aggregations = JObj [],
          lr_pitId = None, lr_nextSearchAfter = None\<rparr>)"

definition buildLocalRealtimeLogsResult :: "'s query_env \<Rightarrow> browser \<Rightarrow> logs_payload \<Rightarrow> logs_result option" where
  "buildLocalRealtimeLogsResult env b payload =
     map_option (page_result (lp_page payload) (lp_pageSize payload))
      (demo_logs env b (Some (lp_keywords payload)) (lp_filters payload) (lp_timeRange payload))"

definition record_history :: "'s query_env \<Rightarrow> logs_payload \<Rightarrow> logs_result \<Rightarrow> 's world \<Rightarrow> 's world" where
  "record_history env payload r w =
     (if lp_recordHistory payload
      then w\<lparr>wd_browser := appendLocalQueryHistory (qe_clock env) (qe_id env) (lp_keywords payload)
               (Fin (lr_queryTimeMS r)) (Fin (lr_total r)) (wd_browser w)\<rparr>
      else w)"

definition local_logs :: "'s query_env \<Rightarrow> logs_payload \<Rightarrow> ('s, logs_result) call" where
  "local_logs env payload w =
     (case buildLocalRealtimeLogsResult env (wd_browser w) payload of
        None \<Rightarrow> (Inl OtherError, w)
      | Some r \<Rightarrow> (Inr r, record_history env payload r w))"

definition nonempty_json :: "string option \<Rightarrow> json option" where
  "nonempty_json s = (case s of None \<Rightarrow> None | Some t \<Rightarrow> if t = [] then None else Some (JStr t))"

definition logs_body :: "logs_payload \<Rightarrow> json" where
  "logs_body payload =
     literal
       [(''keywords'', Some (JStr (trim (lp_keywords payload)))),
        (''page'', Some (JNum (of_int (lp_page payload)))),
        (''page_size'', Some (JNum (of_int (lp_pageSize payload)))),
        (''filters'', Some (nullish (lp_filters payload) (JObj []))),
        (''time_range'', Some (JObj
           [(''from'', JStr (nullish (Option.bind (lp_timeRange payload) tr_from) [])),
            (''to'', JStr (nullish (Option.bind (lp_timeRange payload) tr_to) []))])),
        (''sort'', Some (JArr [JObj [(''field'', JStr ''@timestamp''), (''order'', JStr ''desc'')]])),
        (''pit_id'', nonempty_json (map_option trim (lp_pitId payload))),
        (''search_after'', (case lp_searchAfter payload of
            None \<Rightarrow> None | Some xs \<Rightarrow> if xs = [] then None else Some (JArr xs))),
        (''record_history'', Some (JBool (lp_recordHistory payload)))]"

definition logs_of_envelope :: "'s query_env \<Rightarrow> logs_payload \<Rightarrow> json \<Rightarrow> logs_result option" where
  "logs_of_envelope env payload envelope =
     map_option (\<lambda>hits.
        let meta = meta_field envelope;
            totl = number_or (meta ''total'') (Fin (of_nat (length hits)));
            page = number_or (meta ''page'') (Fin (of_int (lp_page payload)));
            pageSize = number_or (meta ''page_size'') (Fin (of_int (lp_pageSize payload)));
            totalRelation = toLowerCase (trim (string_or_empty (meta ''total_relation'')))
        in \<lparr>lr_hits = hits, lr_total = finite_or totl (of_nat (length hits)),
            lr_totalIsLowerBound = (totalRelation = ''gte'' \<or> truthy (meta ''total_is_lower_bound'')),
            lr_page = finite_or page (of_int (lp_page payload)),
            lr_pageSize = finite_or pageSize (of_int (lp_pageSize payload)),
            lr_hasNext = boolean_or (meta ''has_next'') (js_less (js_times page pageSize) totl),
            lr_queryTimeMS = finite_or (number_or (meta ''query_time_ms'') (Fin 0)) 0,
            lr_timedOut = boolean_or (meta ''timed_out'') False,
            lr_aggregations = nullish (nullish_json (data_field envelope ''aggregations'') None) (JObj []),
            lr_pitId = map_option trim (string_field (meta ''pit_id'')),
            lr_nextSearchAfter = (case meta ''next_search_after'' of Some (JArr xs) \<Rightarrow> Some xs | _ \<Rightarrow> None)\<rparr>)
      (hits_of (qe_clock env) (data_field envelope ''hits''))"

definition remote_logs :: "'s query_env \<Rightarrow> logs_payload \<Rightarrow> ('s, logs_result) call" where
  "remote_logs env payload w =
     (case answered_by (requestQueryApi env ''/logs'' ''POST'' [] (Some (logs_body payload)))
             (logs_of_envelope env payload) w of
        (Inr r, w') \<Rightarrow> (Inr r, record_history env payload r w')
      | (Inl e, w') \<Rightarrow> (Inl e, w'))"

definition queryRealtimeLogs :: "'s query_env \<Rightarrow> logs_payload \<Rightarrow> ('s, logs_result) call" where
  "queryRealtimeLogs env payload = with_local_fallback env (local_logs env payload) (remote_logs env payload)"

section \<open>The query history\<close>

record 'a listed =
  ls_items :: "'a list"
  ls_total :: int
  ls_page :: int
  ls_pageSize :: int
  ls_hasNext :: bool
  ls_tags :: "string list option"

definition listed_of_page :: "'a paged \<Rightarrow> string list option \<Rightarrow> 'a listed" where
  "listed_of_page p tags =
     \<lparr>ls_items = pg_items p, ls_total = int (pg_total p), ls_page = int (pg_page p),
      ls_pageSize = int (pg_pageSize p), ls_hasNext = pg_hasNext p, ls_tags = tags\<rparr>"

definition listed_of_envelope :: "int \<Rightarrow> int \<Rightarrow> json \<Rightarrow> string list option \<Rightarrow> 'a list \<Rightarrow> 'a listed" where
  "listed_of_envelope page0 pageSize0 envelope tags items =
     (let meta = meta_field envelope;
          totl = toPositiveNumber (meta ''total'') (int (length items));
          page = toPositiveNumber (meta ''page'') page0;
          pageSize = toPositiveNumber (meta ''page_size'') pageSize0
      in \<lparr>ls_items = items, ls_total = totl, ls_page = page, ls_pageSize = pageSize,
          ls_hasNext = boolean_or (meta ''has_next'') (page * pageSize < totl), ls_tags = tags\<rparr>)"

definition fetchQueryHistory :: "'s query_env \<Rightarrow> history_params \<Rightarrow> ('s, query_history listed) call" where
  "fetchQueryHistory env params =
     with_local_fallback env
       (\<lambda>w. (Inr (listed_of_page (buildLocalQueryHistoryResult (qe_clock env) (wd_browser w) params) None), w))
       (answered_by
         (requestQueryApi env ''/history'' ''GET''
           [(''page'', Some (int_to_string (hp_page params))),
            (''page_size'', Some (int_to_string (hp_pageSize params))),
            (''keyword'', map_option trim (hp_keyword params)), (''from'', hp_from params), (''to'', hp_to params)] None)
         (\<lambda>envelope. map_option (listed_of_envelope (hp_page params) (hp_pageSize params) envelope None)
            (map_items (normalizeQueryHistory (qe_clock env)) (data_field envelope ''items''))))"

definition local_change :: "(browser \<Rightarrow> 'r \<times> browser) \<Rightarrow> ('s, 'r) call" where
  "local_change f w = (case f (wd_browser w) of (r, b) \<Rightarrow> (Inr r, w\<lparr>wd_browser := b\<rparr>))"

definition deleteQueryHistory :: "'s query_env \<Rightarrow> string \<Rightarrow> ('s, bool) call" where
  "deleteQueryHistory env historyID =
     with_local_fallback env
       (local_change (removeLocalQueryHistory (qe_clock env) historyID))
       (answered_by (requestQueryApi env (''/history/'' @ encodeURIComponent historyID) ''DELETE'' [] None)
         (\<lambda>envelope. Some (truthy (data_field envelope ''deleted''))))"

section \<open>Saved queries\<close>

definition fetchSavedQueries :: "'s query_env \<Rightarrow> saved_params \<Rightarrow> ('s, saved_query listed) call" where
  "fetchSavedQueries env params =
     with_local_fallback env
       (\<lambda>w. case buildLocalSavedQueryResult (qe_lc env) (qe_clock env) (wd_browser w) params of
              (p, tags) \<Rightarrow> (Inr (listed_of_page p (Some tags)), w))
       (answered_by
         (requestQueryApi env ''/saved'' ''GET''
           [(''page'', Some (int_to_string (sp_page params))),
            (''page_size'', Some (int_to_string (sp_pageSize params))),
            (''tag'', map_option trim (sp_tag params)), (''keyword'', map_option trim (sp_keyword params))] None)
         (\<lambda>envelope.
            let tags = (case meta_field envelope ''available_tags'' of
                  Some (JArr xs) \<Rightarrow> Some (normalizeSavedQueryTags (qe_lc env) (map (\<lambda>x. string_or_empty (Some x)) xs))
                | _ \<Rightarrow> None)
            in map_option (listed_of_envelope (sp_page params) (sp_pageSize params) envelope tags)
                 (map_items (normalizeSavedQuery (qe_clock env)) (data_field envelope ''items''))))"

record saved_payload =
  sv_name :: string
  sv_query :: string
  sv_tags :: "string list"
  sv_description :: "string option"
  sv_filters :: "json option"

definition local_item :: "clock \<Rightarrow> string \<Rightarrow> saved_payload \<Rightarrow> saved_query" where
  "local_item c i payload =
     \<lparr>sq_id = i, sq_name = or_str (trim (sv_name payload)) zh_unnamed_query,
      sq_description = nullish (map_option trim (sv_description payload)) [],
      sq_query = trim (sv_query payload), sq_filters = nullish (sv_filters payload) (JObj []),
      sq_tags = sv_tags payload, sq_createdAt = now_iso c, sq_updatedAt = Some (now_iso c), sq_runCount = Fin 0\<rparr>"

definition saved_body :: "saved_payload \<Rightarrow> json" where
  "saved_body payload =
     JObj [(''name'', JStr (sv_name payload)), (''query'', JStr (sv_query payload)),
           (''tags'', JArr (map JStr (sv_tags payload))),
           (''description'', JStr (nullish (sv_description payload) [])),
           (''filters'', nullish (sv_filters payload) (JObj []))]"

definition item_or :: "clock \<Rightarrow> json option \<Rightarrow> saved_payload \<Rightarrow> json option \<Rightarrow> json" where
  "item_or c i payload item =
     (case nullish_json item None of
        Some j \<Rightarrow> j
      | None \<Rightarrow> literal
          [(''id'', i), (''name'', Some (JStr (sv_name payload))),
           (''description'', Some (JStr (nullish (sv_description payload) []))),
           (''query'', Some (JStr (sv_query payload))), (''filters'', Some (nullish (sv_filters payload) (JObj []))),
           (''tags'', Some (JArr (map JStr (sv_tags payload)))), (''created_at'', Some (JStr (now_iso c))),
           (''updated_at'', Some (JStr (now_iso c))), (''run_count'', Some (JNum 0))])"

definition keep_saved :: "'s query_env \<Rightarrow> saved_query \<Rightarrow> 's world \<Rightarrow> 's world" where
  "keep_saved env item w = w\<lparr>wd_browser := saveLocalSavedQuery (qe_clock env) item (wd_browser w)\<rparr>"

definition save_locally :: "'s query_env \<Rightarrow> saved_query \<Rightarrow> ('s, saved_query) call" where
  "save_locally env item w = (Inr item, keep_saved env item w)"

text \<open>The answered item is kept in the local list too.\<close>

definition save_remotely :: "'s query_env \<Rightarrow> ('s, saved_query) call \<Rightarrow> ('s, saved_query) call" where
  "save_remotely env request w =
     (case request w of (Inl e, w') \<Rightarrow> (Inl e, w') | (Inr q, w') \<Rightarrow> (Inr q, keep_saved env q w'))"

definition createSavedQuery :: "'s query_env \<Rightarrow> saved_payload \<Rightarrow> ('s, saved_query) call" where
  "createSavedQuery env payload =
     with_local_fallback env
       (save_locally env (local_item (qe_clock env) (createLocalID (qe_clock env) (qe_id env) ''saved-query'') payload))
       (save_remotely env
         (answered_by (requestQueryApi env ''/saved'' ''POST'' [] (Some (saved_body payload)))
           (\<lambda>envelope. Some (normalizeSavedQuery (qe_clock env)
              (item_or (qe_clock env) (data_field envelope ''saved_query_id'') payload (data_field envelope ''item'')) 0))))"

definition updateSavedQuery :: "'s query_env \<Rightarrow> string \<Rightarrow> saved_payload \<Rightarrow> ('s, saved_query) call" where
  "updateSavedQuery env savedQueryID payload =
     with_local_fallback env
       (save_locally env (local_item (qe_clock env) savedQueryID payload))
       (save_remotely env
         (answered_by
           (requestQueryApi env (''/saved/'' @ encodeURIComponent savedQueryID) ''PUT'' [] (Some (saved_body payload)))
           (\<lambda>envelope. Some (normalizeSavedQuery (qe_clock env)
              (item_or (qe_clock env) (Some (JStr savedQueryID)) payload (data_field envelope ''item'')) 0))))"

definition deleteSavedQuery :: "'s query_env \<Rightarrow> string \<Rightarrow> ('s, bool) call" where
  "deleteSavedQuery env savedQueryID =
     with_local_fallback env
       (local_change (removeLocalSavedQuery (qe_clock env) savedQueryID))
       (\<lambda>w. case answered_by
                (requestQueryApi env (''/saved/'' @ encodeURIComponent savedQueryID) ''DELETE'' [] None)
                (\<lambda>envelope. Some (truthy (data_field envelope ''deleted''))) w of
              (Inr deleted, w') \<Rightarrow>
                (Inr deleted, if deleted
                   then w'\<lparr>wd_browser := snd (removeLocalSavedQuery (qe_clock env) savedQueryID (wd_browser w'))\<rparr> else w')
            | (Inl e, w') \<Rightarrow> (Inl e, w'))"

section \<open>Lemmas\<close>

lemma requestQueryApi_keeps:
  "requestQueryApi env p mthd qry body w = (r, w') \<Longrightarrow> wd_browser w' = wd_browser w"
  by (auto simp: requestQueryApi_def split: option.splits prod.splits)

lemma answered_by_keeps:
  "answered_by (requestQueryApi env p mthd qry body) f w = (r, w') \<Longrightarrow> wd_browser w' = wd_browser w"
  by (auto simp: answered_by_def dest: requestQueryApi_keeps split: sum.splits option.splits prod.splits)

lemma browser_after [simp]:
  "wd_browser (snd (requestQueryApi env p mthd qry body w)) = wd_browser w"
  "wd_browser (snd (answered_by (requestQueryApi env p mthd qry body) f w)) = wd_browser w"
  by (metis prod.collapse requestQueryApi_keeps) (metis prod.collapse answered_by_keeps)

text \<open>A service that answers no request.\<close>

definition failing_service :: "'s query_env \<Rightarrow> bool" where
  "failing_service env \<longleftrightarrow> (\<forall>s rq. isl (decode_query_answer (fst (qe_server env s rq))))"

lemma requestQueryApi_fails:
  "failing_service env \<Longrightarrow> isl (fst (requestQueryApi env p mthd qry body w))"
  by (auto simp: requestQueryApi_def failing_service_def split: option.splits prod.splits) (metis fst_conv)

lemma answered_by_fails:
  assumes "failing_service env"
  obtains e w' where "answered_by (requestQueryApi env p mthd qry body) f w = (Inl e, w')"
    and "wd_browser w' = wd_browser w"
proof -
  obtain e w' where r: "requestQueryApi env p mthd qry body w = (Inl e, w')"
    using requestQueryApi_fails [OF assms, of p mthd qry body w] by (metis isl_def prod.collapse)
  show ?thesis using that requestQueryApi_keeps [OF r] by (simp add: answered_by_def r)
qed

text \<open>Without offline mode and without an emergency token nothing is answered locally.\<close>

definition online :: "'s query_env \<Rightarrow> browser \<Rightarrow> bool" where
  "online env b \<longleftrightarrow> \<not> isOfflineModeEnabled (qe_config env) \<and> \<not> shouldUseEmergencyQueryFallback (qe_clock env) b"

lemma online_no_fallback:
  "online env b \<Longrightarrow> \<not> shouldUseQueryCollectionFallback env b"
  "online env b \<Longrightarrow> \<not> shouldFallbackToLocalStore env b e"
  by (simp_all add: online_def shouldUseQueryCollectionFallback_def shouldFallbackToLocalStore_def)

lemma with_local_fallback_online:
  assumes "online env (wd_browser w)" and "wd_browser (snd (remote w)) = wd_browser w"
  shows "with_local_fallback env here remote w = remote w"
  using assms online_no_fallback [of env "wd_browser w"]
  by (auto simp: with_local_fallback_def split: sum.splits prod.splits)

lemma with_local_fallback_local:
  "shouldUseQueryCollectionFallback env (wd_browser w) \<Longrightarrow> with_local_fallback env here remote w = here w"
  by (simp add: with_local_fallback_def)

text \<open>The outcome of a call as the storage sees it: did it fail, and what is stored now.\<close>

definition outcome :: "(query_error + 'r) \<times> 's world \<Rightarrow> bool \<times> browser" where
  "outcome rw = (isl (fst rw), wd_browser (snd rw))"

lemma remote_logs_fails:
  assumes "failing_service env" shows "outcome (remote_logs env payload w) = (True, wd_browser w)"
  by (rule answered_by_fails [OF assms, of "''/logs''" "''POST''" "[]" "Some (logs_body payload)" "logs_of_envelope env payload" w])
    (simp add: remote_logs_def outcome_def)

lemma queryRealtimeLogs_fails:
  "failing_service env \<Longrightarrow> online env (wd_browser w) \<Longrightarrow> outcome (queryRealtimeLogs env payload w) = (True, wd_browser w)"
  using remote_logs_fails [of env payload w] by (simp add: queryRealtimeLogs_def with_local_fallback_online outcome_def)

lemma answered_fallback_fails:
  assumes "failing_service env" "online env (wd_browser w)"
  shows "outcome (with_local_fallback env here (answered_by (requestQueryApi env p mthd qry body) f) w) = (True, wd_browser w)"
  by (rule answered_by_fails [OF assms(1), of p mthd qry body f w])
    (simp add: with_local_fallback_online assms(2) outcome_def)

lemma save_remotely_fails:
  assumes "failing_service env" "online env (wd_browser w)"
  shows "outcome (with_local_fallback env here (save_remotely env (answered_by (requestQueryApi env p mthd qry body) f)) w)
      = (True, wd_browser w)"
  by (rule answered_by_fails [OF assms(1), of p mthd qry body f w])
    (simp add: with_local_fallback_online assms(2) outcome_def save_remotely_def)

lemma deleteSavedQuery_fails:
  assumes "failing_service env" "online env (wd_browser w)"
  shows "outcome (deleteSavedQuery env i w) = (True, wd_browser w)"
  unfolding deleteSavedQuery_def
  by (rule answered_by_fails [OF assms(1), of "''/saved/'' @ encodeURIComponent i" "''DELETE''" "[]" None
        "\<lambda>envelope. Some (truthy (data_field envelope ''deleted''))" w])
    (subst with_local_fallback_online; simp add: assms(2) outcome_def)

end
