(* ===== verification/Query_Derived.thy ===== *)
theory Query_Derived
  imports Query_Calls
begin

text \<open>
  The statistics of the query module (\<open>api/query.ts\<close>): overview, aggregates, clusters and anomalies. Each
  asks the service, and when the service is unavailable computes a substitute from what it can still get:
  the local demo entries, the log search page by page, or (for anomalies) the aggregates.
\<close>

section \<open>Fetching many pages\<close>

text \<open>
  The loop of \<open>fetchRealtimeLogsForDerivedStats\<close>, over the function \<open>fetch\<close> that searches one page: its
  arguments are the page, the page size, the point-in-time id and the position to search after. Every
  round that goes on has added an entry, so at most \<open>limit\<close> rounds are made.
\<close>

type_synonym cursor = "string option \<times> json list option"

definition next_cursor :: "logs_result \<Rightarrow> cursor" where
  "next_cursor r =
     (let nextPitId = nullish (map_option trim (lr_pitId r)) [];
          pitId = (if nextPitId = [] then None else Some nextPitId);
          searchAfter = (if pitId = None then None
                         else case lr_nextSearchAfter r of None \<Rightarrow> None | Some xs \<Rightarrow> if xs = [] then None else Some xs)
      in (pitId, searchAfter))"

function derived_loop ::
    "(nat \<Rightarrow> nat \<Rightarrow> cursor \<Rightarrow> 'w \<Rightarrow> (query_error + logs_result) \<times> 'w) \<Rightarrow> nat \<Rightarrow> nat
     \<Rightarrow> log_entry list \<Rightarrow> nat \<Rightarrow> cursor \<Rightarrow> rat \<Rightarrow> 'w \<Rightarrow> (query_error + log_entry list \<times> rat) \<times> 'w" where
  "derived_loop fetch limit pageSize hits page cur totl w =
     (if length hits < limit
      then (case fetch page (min pageSize (limit - length hits)) cur w of
              (Inl e, w') \<Rightarrow> (Inl e, w')
            | (Inr r, w') \<Rightarrow>
                (let hits' = hits @ lr_hits r;
                     totl' = max totl (max (lr_total r) (of_nat (length hits')))
                 in if \<not> lr_hasNext r \<or> lr_hits r = [] then (Inr (hits', totl'), w')
                    else derived_loop fetch limit pageSize hits' (page + 1) (next_cursor r) totl' w'))
      else (Inr (hits, totl), w))"
  by pat_completeness auto

termination
  by (relation "measure (\<lambda>(_, limit, _, hits, _, _, _, _). limit - length hits)") (auto intro: diff_less_mono2 simp: neq_Nil_conv)

declare derived_loop.simps [simp del]

record derived_params =
  dp_keywords :: "string option"
  dp_filters :: "json option"
  dp_timeRange :: time_range
  dp_limit :: int

definition derived_limit :: "int \<Rightarrow> nat" where
  "derived_limit n = nat (max 1 (min n 2000))"

definition page_payload :: "derived_params \<Rightarrow> nat \<Rightarrow> nat \<Rightarrow> cursor \<Rightarrow> logs_payload" where
  "page_payload params page pageSize cur =
     \<lparr>lp_keywords = nullish (dp_keywords params) [], lp_page = int page, lp_pageSize = int pageSize,
      lp_filters = dp_filters params, lp_timeRange = Some (dp_timeRange params), lp_pitId = fst cur,
      lp_searchAfter = snd cur, lp_recordHistory = False\<rparr>"

definition fetchRealtimeLogsForDerivedStats ::
    "'s query_env \<Rightarrow> derived_params \<Rightarrow> ('s, log_entry list \<times> rat) call" where
  "fetchRealtimeLogsForDerivedStats env params w =
     (let normalizedLimit = derived_limit (dp_limit params);
          pageSize = min 200 normalizedLimit
      in case derived_loop (\<lambda>page size cur. queryRealtimeLogs env (page_payload params page size cur))
                normalizedLimit pageSize [] 1 (None, None) 0 w of
           (Inl e, w') \<Rightarrow> (Inl e, w')
         | (Inr (hits, totl), w') \<Rightarrow> (Inr (take normalizedLimit hits, totl), w'))"

section \<open>The overview\<close>

record served_overview =
  so_total :: jsnum
  so_levels :: json
  so_sources :: "top_source list"
  so_alerts :: json
  so_trend :: json

datatype overview_result = ServedOverview served_overview | LocalOverview overview_stats

fun overview_range_name :: "overview_range \<Rightarrow> string" where
  "overview_range_name Range24h = ''24h''"
| "overview_range_name Range7d = ''7d''"

definition local_overview :: "'s query_env \<Rightarrow> overview_range \<Rightarrow> ('s, overview_result) call" where
  "local_overview env rng w =
     (case resolveTenantId (api_at env (wd_browser w)) of
        None \<Rightarrow> (Inl OtherError, w)
      | Some tenant \<Rightarrow>
          (Inr (LocalOverview (buildLocalDashboardOverview (qe_lc env) (qe_clock env) tenant (qe_random env) rng)), w))"

definition overview_of_data :: "json \<Rightarrow> served_overview" where
  "overview_of_data data =
     (let d = Some data in
      \<lparr>so_total = or_num (num_of_json (json_field d ''total_logs'')) (Fin 0),
       so_levels = field_or d ''level_distribution'' (JObj []),
       so_sources = map (normalizeDashboardTopSource \<circ> Some) (array_items (json_field d ''top_sources'')),
       so_alerts = field_or d ''alert_summary''
         (JObj [(''total'', JNum 0), (''firing'', JNum 0), (''resolved'', JNum 0)]),
       so_trend = field_or d ''log_trend'' (JArr [])\<rparr>)"

definition fetchDashboardOverview :: "'s query_env \<Rightarrow> overview_range \<Rightarrow> ('s, overview_result) call" where
  "fetchDashboardOverview env rng =
     with_local_fallback env (local_overview env rng)
       (\<lambda>w. case requestQueryApi env ''/stats/overview'' ''GET'' [(''range'', Some (overview_range_name rng))] None w of
              (Inl e, w') \<Rightarrow> (Inl e, w')
            | (Inr envelope, w') \<Rightarrow>
                (let data = json_field (Some envelope) ''data''
                 in if truthy data then (Inr (ServedOverview (overview_of_data (the data))), w')
                    else (Inl (QueryApiRequestError 500 (JStr ''QUERY_STATS_EMPTY'') ''Overview stats empty''), w')))"

section \<open>Aggregates\<close>

datatype fallback_kind = RealtimeLogDerived | AggregateDerived

record fallback_info =
  fb_kind :: fallback_kind
  fb_label :: string
  fb_description :: string

record agg_params =
  ap_groupBy :: group_by
  ap_timeRange :: agg_range
  ap_keywords :: "string option"
  ap_filters :: "json option"

fun group_by_name :: "group_by \<Rightarrow> string" where
  "group_by_name ByLevel = ''level''"
| "group_by_name BySource = ''source''"
| "group_by_name ByHour = ''hour''"
| "group_by_name ByMinute = ''minute''"

fun agg_range_name :: "agg_range \<Rightarrow> string" where
  "agg_range_name Agg30m = ''30m''"
| "agg_range_name Agg1h = ''1h''"
| "agg_range_name Agg6h = ''6h''"
| "agg_range_name Agg24h = ''24h''"
| "agg_range_name Agg7d = ''7d''"

text \<open>A bucket of the service, read with the types the code declares for it.\<close>

definition bucket_of_json :: "json \<Rightarrow> aggregate_bucket" where
  "bucket_of_json j =
     (let f = json_field (Some j) in
      \<lparr>ab_key = string_or_empty (f ''key''),
       ab_count = (if truthy (f ''count'') then finite_or (num_of_json (f ''count'')) 0 else 0),
       ab_label = string_field (f ''label''), ab_host = string_field (f ''host''),
       ab_service = string_field (f ''service'')\<rparr>)"

text \<open>What the substitute of a failed call may do: a failure of its own gives back the first error.\<close>

definition or_first_error :: "query_error \<Rightarrow> ('s, 'r) call \<Rightarrow> ('s, 'r) call" where
  "or_first_error e substitute w = (case substitute w of (Inl _, w') \<Rightarrow> (Inl e, w') | (Inr r, w') \<Rightarrow> (Inr r, w'))"

text \<open>The frame of the three statistics: local data, the service, or a substitute for it.\<close>

definition with_substitute ::
    "'s query_env \<Rightarrow> ('s, 'r) call \<Rightarrow> ('s, 'r) call \<Rightarrow> ('s, 'r) call \<Rightarrow> ('s, 'r) call" where
  "with_substitute env here remote substitute w =
     (if shouldUseQueryCollectionFallback env (wd_browser w) then here w
      else (case remote w of
              (Inr r, w') \<Rightarrow> (Inr r, w')
            | (Inl e, w') \<Rightarrow>
                (if shouldFallbackToLocalStore env (wd_browser w') e then here w'
                 else if service_unavailable e then or_first_error e substitute w'
                 else (Inl e, w'))))"

definition stats_body :: "(string \<times> json option) list \<Rightarrow> string option \<Rightarrow> json option
    \<Rightarrow> (string \<times> json option) list \<Rightarrow> json" where
  "stats_body before_fields keywords filters after_fields =
     literal (before_fields
       @ [(''keywords'', Some (JStr (nullish (map_option trim keywords) []))),
          (''filters'', Some (nullish filters (JObj [])))] @ after_fields)"

definition local_aggregates ::
    "'s query_env \<Rightarrow> agg_params \<Rightarrow> ('s, aggregate_bucket list \<times> fallback_info option) call" where
  "local_aggregates env params w =
     (case resolveTenantId (api_at env (wd_browser w)) of
        None \<Rightarrow> (Inl OtherError, w)
      | Some tenant \<Rightarrow>
          (Inr (buildLocalAggregateStats (qe_lc env) (qe_clock env) tenant (qe_random env) (ap_keywords params)
                  (ap_filters params) (ap_timeRange params) (ap_groupBy params), None), w))"

definition map_result :: "('a \<Rightarrow> 'b) \<Rightarrow> ('s, 'a) call \<Rightarrow> ('s, 'b) call" where
  "map_result f call w = (case call w of (Inl e, w') \<Rightarrow> (Inl e, w') | (Inr r, w') \<Rightarrow> (Inr (f r), w'))"

definition derived_aggregates ::
    "'s query_env \<Rightarrow> agg_params \<Rightarrow> ('s, aggregate_bucket list \<times> fallback_info option) call" where
  "derived_aggregates env params =
     map_result (\<lambda>(hits, totl).
         (buildAggregateStatsFromLogs (qe_lc env) (qe_clock env) hits (ap_groupBy params),
          Some \<lparr>fb_kind = RealtimeLogDerived, fb_label = zh_fb_realtime, fb_description = zh_fb_agg_desc\<rparr>))
       (fetchRealtimeLogsForDerivedStats env
          \<lparr>dp_keywords = ap_keywords params, dp_filters = ap_filters params,
           dp_timeRange = resolveAggregateTimeRange (qe_clock env) (ap_timeRange params), dp_limit = 2000\<rparr>)"

definition remote_aggregates ::
    "'s query_env \<Rightarrow> agg_params \<Rightarrow> ('s, aggregate_bucket list \<times> fallback_info option) call" where
  "remote_aggregates env params =
     answered_by
       (requestQueryApi env ''/stats/aggregate'' ''POST'' []
         (Some (stats_body [(''group_by'', Some (JStr (group_by_name (ap_groupBy params)))),
            (''time_range'', Some (JStr (agg_range_name (ap_timeRange params))))] (ap_keywords params) (ap_filters params) [])))
       (\<lambda>envelope. Some (map bucket_of_json (array_items (data_field envelope ''buckets'')), None))"

definition fetchAggregateStats ::
    "'s query_env \<Rightarrow> agg_params \<Rightarrow> ('s, aggregate_bucket list \<times> fallback_info option) call" where
  "fetchAggregateStats env params =
     with_substitute env (local_aggregates env params) (remote_aggregates env params) (derived_aggregates env params)"

section \<open>Clusters\<close>

record cluster_params =
  cq_timeRange :: cluster_range
  cq_keywords :: "string option"
  cq_filters :: "json option"
  cq_limit :: "int option"
  cq_sampleSize :: "int option"

datatype clusters_result =
  ServedClusters json json
| ComputedClusters "cluster_summary \<times> cluster_pattern list" "fallback_info option"

fun cluster_range_name :: "cluster_range \<Rightarrow> string" where
  "cluster_range_name Cluster1h = ''1h''"
| "cluster_range_name Cluster24h = ''24h''"
| "cluster_range_name Cluster7d = ''7d''"

definition zero_fields :: "(string \<times> rat) list \<Rightarrow> json" where
  "zero_fields fs = JObj (map (\<lambda>(k, q). (k, JNum q)) fs)"

definition local_clusters :: "'s query_env \<Rightarrow> cluster_params \<Rightarrow> ('s, clusters_result) call" where
  "local_clusters env params w =
     (case resolveTenantId (api_at env (wd_browser w)) of
        None \<Rightarrow> (Inl OtherError, w)
      | Some tenant \<Rightarrow>
          (Inr (ComputedClusters (buildLocalLogClusters (qe_lc env) (qe_clock env) tenant (qe_random env)
                  (cq_keywords params) (cq_filters params) (cq_timeRange params) (cq_limit params) (cq_sampleSize params)) None), w))"

definition remote_clusters :: "'s query_env \<Rightarrow> cluster_params \<Rightarrow> ('s, clusters_result) call" where
  "remote_clusters env params =
     answered_by
       (requestQueryApi env ''/stats/clusters'' ''POST'' []
         (Some (stats_body [(''time_range'', Some (JStr (cluster_range_name (cq_timeRange params))))]
            (cq_keywords params) (cq_filters params)
            [(''limit'', Some (JNum (of_int (nullish (cq_limit params) 20)))),
             (''sample_size'', Some (JNum (of_int (nullish (cq_sampleSize params) 400))))])))
       (\<lambda>envelope. Some (ServedClusters
          (nullish (nullish_json (data_field envelope ''summary'') None)
            (zero_fields [(''analyzed_logs_total'', 0), (''sampled_logs'', 0), (''unique_patterns'', 0),
                          (''new_patterns_today'', 0)]))
          (nullish (nullish_json (data_field envelope ''patterns'') None) (JArr []))))"

definition derived_clusters :: "'s query_env \<Rightarrow> cluster_params \<Rightarrow> ('s, clusters_result) call" where
  "derived_clusters env params =
     map_result (\<lambda>(hits, totl).
         ComputedClusters (buildLogClustersFromLogs (qe_lc env) (qe_clock env) hits (cq_timeRange params)
             (cq_limit params) (cq_sampleSize params) (Fin totl))
           (Some \<lparr>fb_kind = RealtimeLogDerived, fb_label = zh_fb_realtime, fb_description = zh_fb_cluster_desc\<rparr>))
       (fetchRealtimeLogsForDerivedStats env
          \<lparr>dp_keywords = cq_keywords params, dp_filters = cq_filters params,
           dp_timeRange = resolveClusterTimeRange (qe_clock env) (cq_timeRange params),
           dp_limit = max 400 (min (nullish (cq_sampleSize params) 400) 1000)\<rparr>)"

definition fetchLogClusters :: "'s query_env \<Rightarrow> cluster_params \<Rightarrow> ('s, clusters_result) call" where
  "fetchLogClusters env params =
     with_substitute env (local_clusters env params) (remote_clusters env params) (derived_clusters env params)"

section \<open>Anomalies\<close>

record anomaly_params =
  aq_timeRange :: anomaly_range
  aq_keywords :: "string option"
  aq_filters :: "json option"

datatype anomalies_result =
  ServedAnomalies json json json
| ComputedAnomalies "anomaly_summary \<times> trend_point list \<times> anomaly list" "fallback_info option"

fun anomaly_range_name :: "anomaly_range \<Rightarrow> string" where
  "anomaly_range_name Anom1h = ''1h''"
| "anomaly_range_name Anom6h = ''6h''"
| "anomaly_range_name Anom24h = ''24h''"
| "anomaly_range_name Anom7d = ''7d''"

fun agg_of_anomaly_range :: "anomaly_range \<Rightarrow> agg_range" where
  "agg_of_anomaly_range Anom1h = Agg1h"
| "agg_of_anomaly_range Anom6h = Agg6h"
| "agg_of_anomaly_range Anom24h = Agg24h"
| "agg_of_anomaly_range Anom7d = Agg7d"

definition anomaly_env_of :: "'s query_env \<Rightarrow> anomaly_env" where
  "anomaly_env_of env =
     \<lparr>ae_lc = qe_lc env, ae_sqrt = qe_sqrt env, ae_locale_time = qe_locale_time env, ae_clock = qe_clock env\<rparr>"

definition local_anomalies :: "'s query_env \<Rightarrow> anomaly_params \<Rightarrow> ('s, anomalies_result) call" where
  "local_anomalies env params w =
     (case resolveTenantId (api_at env (wd_browser w)) of
        None \<Rightarrow> (Inl OtherError, w)
      | Some tenant \<Rightarrow>
          (Inr (ComputedAnomalies (buildLocalAnomalyStats (anomaly_env_of env) tenant (qe_random env)
                  (aq_keywords params) (aq_filters params) (aq_timeRange params)) None), w))"

definition remote_anomalies :: "'s query_env \<Rightarrow> anomaly_params \<Rightarrow> ('s, anomalies_result) call" where
  "remote_anomalies env params =
     answered_by
       (requestQueryApi env ''/stats/anomalies'' ''POST'' []
         (Some (stats_body [(''time_range'', Some (JStr (anomaly_range_name (aq_timeRange params))))]
            (aq_keywords params) (aq_filters params) [])))
       (\<lambda>envelope. Some (ServedAnomalies
          (nullish (nullish_json (data_field envelope ''summary'') None)
            (zero_fields [(''total_anomalies'', 0), (''critical_count'', 0), (''health_score'', 100),
                          (''anomalous_buckets'', 0), (''affected_services'', 0)]))
          (nullish (nullish_json (data_field envelope ''trend'') None) (JArr []))
          (nullish (nullish_json (data_field envelope ''anomalies'') None) (JArr []))))"

definition anomaly_fallback :: "fallback_info option \<Rightarrow> fallback_info" where
  "anomaly_fallback info =
     (if map_option fb_kind info = Some RealtimeLogDerived
      then \<lparr>fb_kind = RealtimeLogDerived, fb_label = zh_fb_realtime, fb_description = zh_fb_anomaly_rt_desc\<rparr>
      else \<lparr>fb_kind = AggregateDerived, fb_label = zh_fb_aggregate, fb_description = zh_fb_anomaly_agg_desc\<rparr>)"

definition derived_anomalies :: "'s query_env \<Rightarrow> anomaly_params \<Rightarrow> ('s, anomalies_result) call" where
  "derived_anomalies env params =
     map_result (\<lambda>(buckets, info).
         ComputedAnomalies (buildAggregateBackedAnomalyStats (anomaly_env_of env) buckets
             (resolveFallbackAnomalyService (aq_filters params))) (Some (anomaly_fallback info)))
       (fetchAggregateStats env
          \<lparr>ap_groupBy = resolveAggregateGroupByForAnomalyTimeRange (aq_timeRange params),
           ap_timeRange = agg_of_anomaly_range (aq_timeRange params),
           ap_keywords = aq_keywords params, ap_filters = aq_filters params\<rparr>)"

definition fetchAnomalyStats :: "'s query_env \<Rightarrow> anomaly_params \<Rightarrow> ('s, anomalies_result) call" where
  "fetchAnomalyStats env params =
     with_substitute env (local_anomalies env params) (remote_anomalies env params) (derived_anomalies env params)"

section \<open>Lemmas on the loop\<close>

text \<open>A counter that a round advances by at most one, the loop advances by at most the missing entries.\<close>

lemma derived_loop_count:
  assumes "\<And>page sz cur w. cnt (snd (fetch page sz cur w)) \<le> cnt w + (1::nat)"
  shows "cnt (snd (derived_loop fetch limit pageSize hits page cur totl w)) \<le> cnt w + (limit - length hits)"
  using assms
proof (induction fetch limit pageSize hits page cur totl w rule: derived_loop.induct)
  case (1 fetch limit pageSize hits page cur totl w)
  let ?sz = "min pageSize (limit - length hits)"
  show ?case
  proof (cases "length hits < limit")
    case False
    then show ?thesis by (subst derived_loop.simps) simp
  next
    case True
    obtain x w' where f: "fetch page ?sz cur w = (x, w')" by force
    have step: "cnt w' \<le> cnt w + 1" using 1(2) [of page ?sz cur w] f by simp
    show ?thesis
    proof (cases "\<exists>r. x = Inr r \<and> lr_hasNext r \<and> lr_hits r \<noteq> []")
      case stop: False
      then show ?thesis using True f step
        by (subst derived_loop.simps) (auto simp: Let_def split: sum.splits)
    next
      case goes_on: True
      then obtain r where r: "x = Inr r" "lr_hasNext r" "lr_hits r \<noteq> []" by blast
      then have "1 \<le> length (lr_hits r)" by (cases "lr_hits r") auto
      with 1(1) [OF True f [symmetric] r(1) refl refl _ 1(2)] r step True
      show ?thesis by (subst derived_loop.simps) (simp add: f Let_def)
    qed
  qed
qed

text \<open>A search that serves the pages of a fixed list.\<close>

definition page_server :: "log_entry list \<Rightarrow> nat \<Rightarrow> nat \<Rightarrow> cursor \<Rightarrow> 'w \<Rightarrow> (query_error + logs_result) \<times> 'w" where
  "page_server xs page sz cur w = (Inr (page_result (int page) (int sz) xs), w)"

lemma page_server_result:
  assumes "0 < page" and "0 < sz"
  shows "page_server xs page sz cur w = (Inr r, w') \<longleftrightarrow>
    w' = w \<and> r = page_result (int page) (int sz) xs"
    and "lr_hits (page_result (int page) (int sz) xs) = take sz (drop ((page - 1) * sz) xs)"
    and "lr_total (page_result (int page) (int sz) xs) = of_nat (length xs)"
    and "lr_hasNext (page_result (int page) (int sz) xs) \<longleftrightarrow> page * sz < length xs"
    and "next_cursor (page_result (int page) (int sz) xs) = (None, None)"
proof -
  have m: "nat (max 1 (int page)) = page" "nat (max 1 (int sz)) = sz" using assms by auto
  have "(page - 1) * sz + sz = page * sz" using assms by (cases page) simp_all
  then show "lr_hits (page_result (int page) (int sz) xs) = take sz (drop ((page - 1) * sz) xs)"
    "lr_total (page_result (int page) (int sz) xs) = of_nat (length xs)"
    "lr_hasNext (page_result (int page) (int sz) xs) \<longleftrightarrow> page * sz < length xs"
    "next_cursor (page_result (int page) (int sz) xs) = (None, None)"
    by (simp_all add: page_result_def toPagedResult_def m Let_def js_slice_def next_cursor_def)
qed (auto simp: page_server_def)

text \<open>One round over such a search.\<close>

lemma derived_loop_page:
  assumes "length hits < limit" and "0 < page" and "0 < pageSize"
    and sz: "sz = min pageSize (limit - length hits)" and new: "new = take sz (drop ((page - 1) * sz) xs)"
  shows "derived_loop (page_server xs) limit pageSize hits page cur totl w =
    (let hits' = hits @ new; totl' = max totl (max (of_nat (length xs)) (of_nat (length hits')))
     in if length xs \<le> page * sz \<or> new = [] then (Inr (hits', totl'), w)
        else derived_loop (page_server xs) limit pageSize hits' (page + 1) (None, None) totl' w)"
proof -
  have "0 < sz" using assms by simp
  note p = page_server_result [OF assms(2) this]
  show ?thesis
    by (subst derived_loop.simps) (simp add: assms(1) sz [symmetric] page_server_def p Let_def new not_less)
qed

text \<open>Whole pages: with a limit that the page size divides the loop collects a prefix of the list.\<close>

lemma derived_loop_whole_pages:
  assumes "0 < ps" and "ps dvd limit" and "k * ps \<le> limit" and "k = 0 \<and> totl = 0 \<or> k * ps < length xs \<and> totl = of_nat (length xs)"
    and "0 < limit"
  shows "derived_loop (page_server xs) limit ps (take (k * ps) xs) (k + 1) (None, None) totl w
    = (Inr (take limit xs, of_nat (length xs)), w)"
  using assms(3,4)
proof (induction "limit - k * ps" arbitrary: k totl rule: less_induct)
  case less
  show ?case
  proof (cases "k * ps = limit")
    case True
    with less.prems assms(5) have "k * ps < length xs" "totl = of_nat (length xs)" by auto
    with True show ?thesis by (subst derived_loop.simps) simp
  next
    case False
    with less.prems have lt: "k * ps < limit" by simp
    have le: "Suc k * ps \<le> limit"
    proof -
      obtain m where m: "limit = ps * m" using assms(2) by (elim dvdE)
      with lt have "k < m" by simp
      then have "Suc k * ps \<le> m * ps" by (intro mult_right_mono) simp_all
      then show ?thesis by (simp add: m mult.commute)
    qed
    then have "ps \<le> limit - k * ps" by simp
    then have sz: "ps = min ps (limit - length (take (k * ps) xs))" by simp
    have len: "length (take (k * ps) xs) < limit" using lt by simp
    have app: "take (k * ps) xs @ take ps (drop (k * ps) xs) = take (Suc k * ps) xs"
      by (simp add: take_add [symmetric] add.commute)
    note round = derived_loop_page [OF len, of "k + 1" ps ps "take ps (drop (k * ps) xs)" xs "(None, None)" totl w]
    have totl: "max totl (max (of_nat (length xs)) (of_nat (length (take (Suc k * ps) xs)))) = of_nat (length xs)"
      using less.prems(2) by auto
    show ?thesis
    proof (cases "length xs \<le> (k + 1) * ps")
      case True
      have "take (Suc k * ps) xs = take limit xs" using True le by simp
      then show ?thesis using round assms(1) sz True app totl by (simp add: Let_def)
    next
      case False
      then have "take ps (drop (k * ps) xs) \<noteq> []" using assms(1) by simp
      moreover have "derived_loop (page_server xs) limit ps (take (Suc k * ps) xs) (Suc k + 1) (None, None)
          (of_nat (length xs)) w = (Inr (take limit xs, of_nat (length xs)), w)"
        by (rule less.hyps) (use lt le False assms(1) in auto)
      ultimately show ?thesis using round assms(1) sz False app totl by (simp add: Let_def)
    qed
  qed
qed

section \<open>Counting requests\<close>

text \<open>The same surroundings with a server that counts the requests it gets.\<close>

definition counted :: "'s query_env \<Rightarrow> ('s \<times> nat) query_env" where
  "counted env =
     \<lparr>qe_config = qe_config env, qe_pathname = qe_pathname env, qe_clock = qe_clock env, qe_lc = qe_lc env,
      qe_random = qe_random env, qe_id = qe_id env, qe_sqrt = qe_sqrt env, qe_locale_time = qe_locale_time env,
      qe_server = \<lambda>(s, n) rq. case qe_server env s rq of (a, s') \<Rightarrow> (a, (s', Suc n))\<rparr>"

definition requests :: "('s \<times> nat) world \<Rightarrow> nat" where
  "requests w = snd (wd_net w)"

lemma counted_request: "requests (snd (requestQueryApi (counted env) p mthd qry body w)) \<le> requests w + 1"
  by (auto simp: requestQueryApi_def counted_def requests_def split: option.splits prod.splits)

lemma requests_record [simp]: "requests (record_history env payload r w) = requests w"
  by (simp add: record_history_def requests_def)

lemma counted_remote: "requests (snd (remote_logs (counted env) payload w)) \<le> requests w + 1"
  using counted_request [of env "''/logs''" "''POST''" "[]" "Some (logs_body payload)" w]
  by (auto simp: remote_logs_def answered_by_def split: sum.splits option.splits prod.splits)

lemma counted_local: "requests (snd (local_logs env payload w)) = requests w"
  by (auto simp: local_logs_def split: option.splits)

lemma counted_search: "requests (snd (queryRealtimeLogs (counted env) payload w)) \<le> requests w + 1"
  using counted_remote [of env payload w] counted_local [of "counted env" payload w]
    counted_local [of "counted env" payload "snd (remote_logs (counted env) payload w)"]
  by (auto simp: queryRealtimeLogs_def with_local_fallback_def split: sum.splits prod.splits)

section \<open>Properties\<close>

text \<open>C19: Deriving statistics from the log search always ends: whatever the server answers, at most as many
  searches are sent as entries are wanted, never more than 2000, and no more entries than wanted come back.\<close>

theorem derived_search_bounded:
  "requests (snd (fetchRealtimeLogsForDerivedStats (counted env) params w)) \<le> requests w + derived_limit (dp_limit params)
   \<and> derived_limit (dp_limit params) \<le> 2000
   \<and> (case fst (fetchRealtimeLogsForDerivedStats (counted env) params w) of
        Inl e \<Rightarrow> True | Inr (hits, totl) \<Rightarrow> length hits \<le> derived_limit (dp_limit params))"
proof -
  let ?n = "derived_limit (dp_limit params)"
  let ?r = "derived_loop (\<lambda>page sz cur. queryRealtimeLogs (counted env) (page_payload params page sz cur)) ?n (min 200 ?n) [] 1 (None, None) 0 w"
  have "requests (snd ?r) \<le> requests w + (?n - length ([] :: log_entry list))"
    by (rule derived_loop_count) (rule counted_search)
  then have "requests (snd (fetchRealtimeLogsForDerivedStats (counted env) params w)) \<le> requests w + ?n"
    by (auto simp: fetchRealtimeLogsForDerivedStats_def Let_def split: sum.splits prod.splits)
  moreover have "?n \<le> 2000" by (simp add: derived_limit_def)
  ultimately show ?thesis
    by (auto simp: fetchRealtimeLogsForDerivedStats_def Let_def split: sum.splits prod.splits)
qed

text \<open>C20: Over a search that serves pages of a fixed list by number, the loop collects exactly the first
  \<open>limit\<close> entries and the true total, when the limit is one page or a whole number of pages.\<close>

theorem derived_paging_complete:
  assumes "0 < limit" and "limit \<le> 200 \<or> 200 dvd limit"
  shows "derived_loop (page_server xs) limit (min 200 limit) [] 1 (None, None) 0 w
    = (Inr (take limit xs, of_nat (length xs)), w)"
proof -
  have "min 200 limit dvd limit" using assms(2) by (auto simp: min_def)
  then show ?thesis
    using derived_loop_whole_pages [of "min 200 limit" limit 0 0 xs w] assms(1) by simp
qed

definition numbered_entry :: "nat \<Rightarrow> log_entry" where
  "numbered_entry n =
     \<lparr>lg_id = nat_to_string n, lg_timestamp = [], lg_level = InfoLog, lg_service = [], lg_host = [], lg_hostIp = [],
      lg_message = [], lg_fields = JObj [], lg_rawLog = []\<rparr>"

theorem derived_paging_complete_witness:
  "derived_loop (page_server (map numbered_entry [0..<3])) 400 200 [] 1 (None, None) 0 ()
     = (Inr (map numbered_entry [0..<3], 3), ())"
  using derived_paging_complete [of 400 "map numbered_entry [0..<3]" "()"] by simp

text \<open>When the limit is no whole number of pages the last page is asked for with a smaller page size but the
  next page number, so without a point in time to search after it is taken from the wrong place: of 500 entries
  with a limit of 500, the entries from 200 to 299 come twice and the last hundred never.\<close>

theorem derived_paging_repeats:
  "derived_loop (page_server (map f [0..<500])) 500 200 [] 1 (None, None) 0 w
     = (Inr (map f ([0..<400] @ [200..<300]), 500), w)"
proof -
  let ?xs = "map f [0..<500]"
  have t: "take n (drop m [0..<500]) = [m..<min 500 (m + n)]" for n m
    by (cases "m + n \<le> 500") (simp_all add: take_upt min_def)
  have slice: "take n (drop m ?xs) = map f [m..<min 500 (m + n)]" for n m
    unfolding drop_map take_map t ..
  have len: "length ?xs = 500" by (simp only: length_map length_upt)
  have l: "length (map f [a..<b]) = b - a" for a b by (simp only: length_map length_upt)
  have join1: "map f [0..<200] @ map f [200..<400] = map f [0..<400]"
    by (metis add_numeral_left le0 map_append numeral_Bit0 upt_add_eq_append)
  have "derived_loop (page_server ?xs) 500 200 (map f [0..<400] @ map f [200..<300]) 4 (None, None) 500 w
      = (Inr (map f [0..<400] @ map f [200..<300], 500), w)"
    by (subst derived_loop.simps) (simp add: l del: upt_rec_numeral)
  moreover have "derived_loop (page_server ?xs) 500 200 (map f [0..<400]) 3 (None, None) 500 w
      = derived_loop (page_server ?xs) 500 200 (map f [0..<400] @ map f [200..<300]) 4 (None, None) 500 w"
    by (subst derived_loop_page [of _ _ 3 200 100 "map f [200..<300]"])
      (simp_all only: l len slice Let_def length_append, simp_all)
  moreover have "derived_loop (page_server ?xs) 500 200 (map f [0..<200]) 2 (None, None) 500 w
      = derived_loop (page_server ?xs) 500 200 (map f [0..<400]) 3 (None, None) 500 w"
    by (subst derived_loop_page [of _ _ 2 200 200 "map f [200..<400]"])
      (simp_all only: l len slice Let_def join1, simp_all)
  moreover have "derived_loop (page_server ?xs) 500 200 [] 1 (None, None) 0 w
      = derived_loop (page_server ?xs) 500 200 (map f [0..<200]) 2 (None, None) 500 w"
    by (subst derived_loop_page [of _ _ 1 200 200 "map f [0..<200]"])
      (simp_all only: l len slice Let_def append_Nil, simp_all add: numeral_2_eq_2)
  ultimately show ?thesis by (simp only: map_append)
qed

section \<open>Errors\<close>

lemma with_substitute_online:
  assumes "online env (wd_browser w)" and "wd_browser (snd (remote w)) = wd_browser w"
  shows "with_substitute env here remote substitute w =
    (case remote w of
       (Inr r, w') \<Rightarrow> (Inr r, w')
     | (Inl e, w') \<Rightarrow> if service_unavailable e then or_first_error e substitute w' else (Inl e, w'))"
  using assms online_no_fallback [of env "wd_browser w"]
  by (auto simp: with_substitute_def split: sum.splits prod.splits)

lemma or_first_error_Inl: "fst (or_first_error e substitute w) = Inl e' \<Longrightarrow> e' = e"
  by (auto simp: or_first_error_def split: sum.splits prod.splits)

lemma with_substitute_error:
  assumes "online env (wd_browser w)" and "wd_browser (snd (remote w)) = wd_browser w"
    and "fst (with_substitute env here remote substitute w) = Inl e"
  shows "fst (remote w) = Inl e"
  using assms(3) or_first_error_Inl
  by (fastforce simp: with_substitute_online [of env w remote, OF assms(1,2)] split: sum.splits prod.splits if_splits)

lemma remote_browser [simp]:
  "wd_browser (snd (remote_aggregates env ap w)) = wd_browser w"
  "wd_browser (snd (remote_clusters env cp w)) = wd_browser w"
  "wd_browser (snd (remote_anomalies env qp w)) = wd_browser w"
  by (simp_all add: remote_aggregates_def remote_clusters_def remote_anomalies_def)

text \<open>A call fails with the storage as it was.\<close>

definition fails :: "('s, 'r) call \<Rightarrow> 's world \<Rightarrow> bool" where
  "fails call w \<longleftrightarrow> outcome (call w) = (True, wd_browser w)"

lemma failsE: "fails call w \<Longrightarrow> (\<And>e w'. call w = (Inl e, w') \<Longrightarrow> wd_browser w' = wd_browser w \<Longrightarrow> thesis) \<Longrightarrow> thesis"
  by (cases "call w") (auto simp: fails_def outcome_def isl_def)

lemma answered_by_fails': "failing_service env \<Longrightarrow> fails (answered_by (requestQueryApi env p mthd qry body) f) w"
  by (erule answered_by_fails [of env p mthd qry body f w]) (simp add: fails_def outcome_def)

lemma derived_search_fails:
  assumes "failing_service env" "online env (wd_browser w)"
  shows "fails (fetchRealtimeLogsForDerivedStats env params) w"
proof -
  let ?n = "derived_limit (dp_limit params)"
  have pos: "0 < ?n" by (simp add: derived_limit_def)
  obtain e w' where "queryRealtimeLogs env (page_payload params 1 (min (min 200 ?n) ?n) (None, None)) w = (Inl e, w')"
    and "wd_browser w' = wd_browser w"
    using queryRealtimeLogs_fails [OF assms] failsE unfolding fails_def by blast
  then have "derived_loop (\<lambda>page sz cur. queryRealtimeLogs env (page_payload params page sz cur)) ?n (min 200 ?n) [] 1 (None, None) 0 w
      = (Inl e, w')"
    using pos by (subst derived_loop.simps) simp
  then show ?thesis
    using \<open>wd_browser w' = wd_browser w\<close> by (simp add: fails_def outcome_def fetchRealtimeLogsForDerivedStats_def Let_def)
qed

lemma map_result_fails: "fails call w \<Longrightarrow> fails (map_result f call) w"
  by (erule failsE) (simp add: fails_def outcome_def map_result_def)

lemma with_substitute_fails:
  assumes "online env (wd_browser w)" and "fails remote w"
    and "\<And>w'. wd_browser w' = wd_browser w \<Longrightarrow> fails substitute w'"
  shows "fails (with_substitute env here remote substitute) w"
  using assms(2)
proof (rule failsE)
  fix e w' assume r: "remote w = (Inl e, w')" "wd_browser w' = wd_browser w"
  then obtain e' w'' where "substitute w' = (Inl e', w'')" "wd_browser w'' = wd_browser w"
    using assms(3) [OF r(2)] by (auto elim!: failsE)
  with r show ?thesis
    by (simp add: fails_def outcome_def with_substitute_online assms(1) or_first_error_def)
qed

lemma fetchAggregateStats_fails:
  "failing_service env \<Longrightarrow> online env (wd_browser w) \<Longrightarrow> fails (fetchAggregateStats env ap) w"
  unfolding fetchAggregateStats_def
  by (rule with_substitute_fails)
    (simp_all add: remote_aggregates_def derived_aggregates_def answered_by_fails' derived_search_fails map_result_fails)

lemma fetchAnomalyStats_fails:
  "failing_service env \<Longrightarrow> online env (wd_browser w) \<Longrightarrow> fails (fetchAnomalyStats env qp) w"
  unfolding fetchAnomalyStats_def
  by (rule with_substitute_fails)
    (simp_all add: remote_anomalies_def derived_anomalies_def answered_by_fails' fetchAggregateStats_fails map_result_fails)

text \<open>Without offline mode and without an emergency token a failing service is never covered up: every
  operation of the query module fails and leaves the browser's storage as it was.\<close>

theorem failing_service_surfaces:
  assumes "failing_service env" and "online env (wd_browser w)"
  shows "list_all (\<lambda>x. x = (True, wd_browser w))
    [outcome (queryRealtimeLogs env lp w), outcome (fetchQueryHistory env hp w), outcome (deleteQueryHistory env i w),
     outcome (fetchSavedQueries env sp w), outcome (createSavedQuery env sv w), outcome (updateSavedQuery env i sv w),
     outcome (deleteSavedQuery env i w), outcome (fetchDashboardOverview env rng w),
     outcome (fetchAggregateStats env ap w), outcome (fetchLogClusters env cp w), outcome (fetchAnomalyStats env qp w)]"
proof -
  have "fails (fetchLogClusters env cp) w"
    unfolding fetchLogClusters_def
    by (rule with_substitute_fails)
      (simp_all add: assms remote_clusters_def derived_clusters_def answered_by_fails' derived_search_fails map_result_fails)
  moreover have "fails (fetchDashboardOverview env rng) w"
  proof -
    obtain e w' where r: "requestQueryApi env ''/stats/overview'' ''GET'' [(''range'', Some (overview_range_name rng))] None w = (Inl e, w')"
      using requestQueryApi_fails [OF assms(1)] by (metis isl_def prod.collapse)
    then have "wd_browser w' = wd_browser w" by (rule requestQueryApi_keeps)
    with r show ?thesis
      unfolding fetchDashboardOverview_def fails_def
      by (subst with_local_fallback_online) (simp_all add: assms(2) outcome_def)
  qed
  moreover note fetchAggregateStats_fails [OF assms, of ap] fetchAnomalyStats_fails [OF assms, of qp] queryRealtimeLogs_fails [OF assms, of lp] deleteSavedQuery_fails [OF assms, of i]
  ultimately show ?thesis
    using assms
    by (simp add: fails_def fetchQueryHistory_def deleteQueryHistory_def fetchSavedQueries_def createSavedQuery_def
        updateSavedQuery_def answered_fallback_fails save_remotely_fails)
qed

definition silent_world :: "nat world" where
  "silent_world = \<lparr>wd_browser = \<lparr>local_area = open_area, session_area = open_area\<rparr>, wd_net = 0\<rparr>"

lemma silent_online: "failing_service silent_env" "online silent_env (wd_browser silent_world)"
proof -
  show "failing_service silent_env" by (simp add: failing_service_def silent_env_def sample_env_def decode_query_answer_def)
  have "\<not> isOfflineModeEnabled (qe_config silent_env)"
    "\<not> shouldUseEmergencyQueryFallback (qe_clock silent_env) (wd_browser silent_world)" by code_simp+
  then show "online silent_env (wd_browser silent_world)" by (simp add: online_def)
qed

theorem failing_service_surfaces_witness:
  "outcome (deleteSavedQuery silent_env ''q'' silent_world) = (True, wd_browser silent_world)"
  using failing_service_surfaces [OF silent_online, where i = "''q''"] by simp

text \<open>When a statistics call fails, the error it fails with is the one its own request failed with, not
  one of the substitutes tried after it (which for anomalies are up to two further calls).\<close>

theorem substitute_keeps_error:
  assumes "online env (wd_browser w)"
  shows "(isl (fst (fetchAggregateStats env ap w)) \<longrightarrow>
      projl (fst (fetchAggregateStats env ap w)) = projl (fst (remote_aggregates env ap w)) \<and> isl (fst (remote_aggregates env ap w)))
    \<and> (isl (fst (fetchLogClusters env cp w)) \<longrightarrow>
      projl (fst (fetchLogClusters env cp w)) = projl (fst (remote_clusters env cp w)) \<and> isl (fst (remote_clusters env cp w)))
    \<and> (isl (fst (fetchAnomalyStats env qp w)) \<longrightarrow>
      projl (fst (fetchAnomalyStats env qp w)) = projl (fst (remote_anomalies env qp w)) \<and> isl (fst (remote_anomalies env qp w)))"
  using with_substitute_error [of env w "remote_aggregates env ap" "local_aggregates env ap" "derived_aggregates env ap", OF assms remote_browser(1)]
    with_substitute_error [of env w "remote_clusters env cp" "local_clusters env cp" "derived_clusters env cp", OF assms remote_browser(2)]
    with_substitute_error [of env w "remote_anomalies env qp" "local_anomalies env qp" "derived_anomalies env qp", OF assms remote_browser(3)]
  by (auto simp: fetchAggregateStats_def fetchLogClusters_def fetchAnomalyStats_def isl_def)

theorem substitute_keeps_error_witness:
  "projl (fst (fetchAnomalyStats silent_env \<lparr>aq_timeRange = Anom1h, aq_keywords = None, aq_filters = None\<rparr> silent_world))
     = OtherError"
proof -
  let ?q = "\<lparr>aq_timeRange = Anom1h, aq_keywords = None, aq_filters = None\<rparr>"
  have "isl (fst (fetchAnomalyStats silent_env ?q silent_world))"
    using fetchAnomalyStats_fails [OF silent_online, of ?q] by (simp add: fails_def outcome_def)
  moreover have "fst (remote_anomalies silent_env ?q silent_world) = Inl OtherError" by code_simp
  ultimately show ?thesis using substitute_keeps_error [OF silent_online(2), of _ _ ?q] by simp
qed

text \<open>With an emergency token, or offline without a token, no operation of the query module sends anything:
  the server's state is untouched.\<close>

theorem local_answers_send_nothing:
  assumes "shouldUseQueryCollectionFallback env (wd_browser w)"
  shows "list_all (\<lambda>s. s = wd_net w)
    [wd_net (snd (queryRealtimeLogs env lp w)), wd_net (snd (fetchQueryHistory env hp w)),
     wd_net (snd (deleteQueryHistory env i w)), wd_net (snd (fetchSavedQueries env sp w)),
     wd_net (snd (createSavedQuery env sv w)), wd_net (snd (updateSavedQuery env i sv w)),
     wd_net (snd (deleteSavedQuery env i w)), wd_net (snd (fetchDashboardOverview env rng w)),
     wd_net (snd (fetchAggregateStats env ap w)), wd_net (snd (fetchLogClusters env cp w)),
     wd_net (snd (fetchAnomalyStats env qp w))]"
  using assms
  by (simp add: queryRealtimeLogs_def fetchQueryHistory_def deleteQueryHistory_def fetchSavedQueries_def
      createSavedQuery_def updateSavedQuery_def deleteSavedQuery_def fetchDashboardOverview_def fetchAggregateStats_def
      fetchLogClusters_def fetchAnomalyStats_def with_local_fallback_local with_substitute_def local_logs_def
      record_history_def local_change_def save_locally_def keep_saved_def local_overview_def local_aggregates_def
      local_clusters_def local_anomalies_def split: option.splits prod.splits)

definition emergency_world :: "nat world" where
  "emergency_world =
     \<lparr>wd_browser = writeStorageValue Session ACCESS_TOKEN_KEY (EMERGENCY_ACCESS_TOKEN_PREFIX @ ''1'')
        \<lparr>local_area = open_area, session_area = open_area\<rparr>, wd_net = 7\<rparr>"

theorem local_answers_send_nothing_witness:
  "wd_net (snd (deleteSavedQuery silent_env ''q'' emergency_world)) = 7"
proof -
  have s: "shouldUseQueryCollectionFallback silent_env (wd_browser emergency_world)" by code_simp
  have "wd_net emergency_world = 7" by (simp add: emergency_world_def)
  then show ?thesis using local_answers_send_nothing [OF s, where i = "''q''"] by simp
qed

end
