(* ===== verification/Search_Query.thy ===== *)
theory Search_Query
  imports Log_Fields
begin

text \<open>
  The queries of the search pages (\<open>pages/search\<close>): the textual form of a query with its filters and how it
  is read back (\<open>realtimePresetQuery.ts\<close>), the cleaned form shown for old queries (\<open>queryCleanupState.ts\<close>,
  \<open>queryCleanupPreview.ts\<close>), the filters sent with a search (\<open>realtimeNoiseFilters.ts\<close>), the query handed to the
  page on start (\<open>realtimeStartupQuery.ts\<close>) and the recent queries (\<open>realtimeRecentQueries.ts\<close>).

  A storage area is there, though it may refuse a write; \<open>lc\<close> is the sign of \<open>localeCompare\<close>.
\<close>

section \<open>A query with its filters as text\<close>

type_synonym filters = "(string, json) jsmap"

record preset_range =
  pr_from :: string
  pr_to :: string

record preset_query =
  pq_queryText :: string
  pq_filters :: filters
  pq_levelFilter :: string
  pq_sourceFilter :: string
  pq_strippedTimeRange :: bool
  pq_extractedFilters :: bool
  pq_timeRange :: "preset_range option"

definition not_char :: "char list \<Rightarrow> rx" where
  "not_char cs = Cls (\<lambda>c. c \<notin> (\<lambda>x. [x]) ` set cs)"

definition TRAILING_TIME_RANGE_PATTERN :: rx where
  "TRAILING_TIME_RANGE_PATTERN =
     rx_seq [rx_alt [Begin_Input, rx_space], rx_lit_i ''time:['', rx_star rx_space,
       Grp 1 (rx_star (not_char '',]'')), rx_star rx_space, rx_char (CHR '',''), rx_star rx_space,
       Grp 2 (rx_star (not_char '']'')), rx_star rx_space, rx_char (CHR '']''), rx_star rx_space, End_Input]"

definition FILTERS_PREFIX :: string where "FILTERS_PREFIX = ''filters:''"

definition normalizeFilterString :: "json option \<Rightarrow> string" where
  "normalizeFilterString v =
     (case v of
        Some (JStr s) \<Rightarrow> trim s
      | Some (JArr xs) \<Rightarrow>
          (case find (\<lambda>x. case x of JStr s \<Rightarrow> trim s \<noteq> [] | _ \<Rightarrow> False) xs of
             Some (JStr s) \<Rightarrow> trim s
           | _ \<Rightarrow> [])
      | _ \<Rightarrow> [])"

definition normalizeTimeRangeBoundary :: "clock \<Rightarrow> string option \<Rightarrow> string" where
  "normalizeTimeRangeBoundary c v =
     (let normalized = trim (nullish v [])
      in if normalized = [] \<or> date_of c normalized = None then [] else normalized)"

text \<open>The pattern ends at the end of the input, so the text before a match is what its length leaves over.\<close>

definition extractTrailingTimeRange :: "clock \<Rightarrow> string \<Rightarrow> string \<times> preset_range option \<times> bool" where
  "extractTrailingTimeRange c queryText =
     (let trimmedQuery = trim queryText
      in if trimmedQuery = [] then ([], None, False)
         else (case rx_match TRAILING_TIME_RANGE_PATTERN trimmedQuery of
                 None \<Rightarrow> (trimmedQuery, None, False)
               | Some m \<Rightarrow>
                   (let from = normalizeTimeRangeBoundary c (group 1 m); to = normalizeTimeRangeBoundary c (group 2 m)
                    in (trim (take (length trimmedQuery - length (matched m)) trimmedQuery),
                        if from \<noteq> [] \<or> to \<noteq> [] then Some \<lparr>pr_from = from, pr_to = to\<rparr> else None, True))))"

definition filter_token_index :: "string \<Rightarrow> nat option" where
  "filter_token_index q =
     (if startsWith q FILTERS_PREFIX then Some 0 else map_option Suc (lastIndexOf q ('' '' @ FILTERS_PREFIX)))"

definition extractTrailingFilters :: "string \<Rightarrow> string \<times> filters \<times> bool" where
  "extractTrailingFilters queryText =
     (let trimmedQuery = trim queryText
      in if trimmedQuery = [] then ([], [], False)
         else (case filter_token_index trimmedQuery of
                 None \<Rightarrow> (trimmedQuery, [], False)
               | Some i \<Rightarrow>
                   (case parse (trim (drop (i + length FILTERS_PREFIX) trimmedQuery)) of
                      Some (JObj ms) \<Rightarrow> (trim (take i trimmedQuery), ms, True)
                    | _ \<Rightarrow> (trimmedQuery, [], False))))"

text \<open>The object built from normalised members: blank keys and dropped values are left out, a key that is met
  again keeps its place and takes the later value.\<close>

definition build_members :: "(string \<times> json option) list \<Rightarrow> filters" where
  "build_members kvs =
     fold (\<lambda>(k, v) r. if trim k = [] then r else case v of None \<Rightarrow> r | Some j \<Rightarrow> jm_set (trim k) j r) kvs []"

fun normalizeRealtimePresetFilterValue :: "json \<Rightarrow> json option" where
  "normalizeRealtimePresetFilterValue (JStr s) = (if trim s = [] then None else Some (JStr (trim s)))"
| "normalizeRealtimePresetFilterValue (JNum q) = Some (JNum q)"
| "normalizeRealtimePresetFilterValue (JBool b) = Some (JBool b)"
| "normalizeRealtimePresetFilterValue JNull = None"
| "normalizeRealtimePresetFilterValue (JArr xs) =
     (let ys = List.map_filter id (map normalizeRealtimePresetFilterValue xs)
      in if ys = [] then None else Some (JArr ys))"
| "normalizeRealtimePresetFilterValue (JObj ms) =
     (let ob = build_members (map (\<lambda>e. (fst e, normalizeRealtimePresetFilterValue (snd e))) ms)
      in if ob = [] then None else Some (JObj ob))"

definition normalizeRealtimePresetFilters :: "filters \<Rightarrow> filters" where
  "normalizeRealtimePresetFilters ms =
     build_members (map (\<lambda>e. (fst e, normalizeRealtimePresetFilterValue (snd e))) ms)"

fun sortJSONValue :: "(string \<Rightarrow> string \<Rightarrow> int) \<Rightarrow> json \<Rightarrow> json" where
  "sortJSONValue lc (JArr xs) = JArr (map (sortJSONValue lc) xs)"
| "sortJSONValue lc (JObj ms) =
     JObj (js_sort (\<lambda>l r. lc (fst l) (fst r) \<le> 0) (map (\<lambda>e. (fst e, sortJSONValue lc (snd e))) ms))"
| "sortJSONValue lc v = v"

definition buildRealtimePresetQuery :: "(string \<Rightarrow> string \<Rightarrow> int) \<Rightarrow> string \<Rightarrow> filters \<Rightarrow> string" where
  "buildRealtimePresetQuery lc query filters =
     (let queryText = trim query;
          normalizedFilters = normalizeRealtimePresetFilters filters;
          filtersText = (if normalizedFilters \<noteq> [] then FILTERS_PREFIX @ stringify (sortJSONValue lc (JObj normalizedFilters)) else [])
      in trim (join '' '' (filter (\<lambda>t. t \<noteq> []) [queryText, filtersText])))"

definition normalizeRealtimePresetQuery :: "clock \<Rightarrow> string \<Rightarrow> preset_query" where
  "normalizeRealtimePresetQuery c rawQuery =
     (case extractTrailingTimeRange c rawQuery of
        (withoutRange, trange, stripped) \<Rightarrow>
          (case extractTrailingFilters withoutRange of
             (withoutFilters, filters, extracted) \<Rightarrow>
               (let normalizedFilters = normalizeRealtimePresetFilters filters; f = jm_get normalizedFilters
                in \<lparr>pq_queryText = withoutFilters, pq_filters = normalizedFilters,
                    pq_levelFilter = normalizeFilterString (f ''level''),
                    pq_sourceFilter = or_str (normalizeFilterString (f ''service'')) (normalizeFilterString (f ''source'')),
                    pq_strippedTimeRange = stripped, pq_extractedFilters = extracted, pq_timeRange = trange\<rparr>)))"

section \<open>The cleaned form of a query\<close>

record preview_filter =
  pf_key :: string
  pf_label :: string
  pf_value :: string

definition formatQueryCleanupFilterLabel :: "string \<Rightarrow> string" where
  "formatQueryCleanupFilterLabel key =
     (if key = ''level'' then zh_filter_level
      else if key = ''service'' then zh_filter_service
      else if key = ''source'' then zh_filter_source
      else key)"

fun formatQueryCleanupFilterValue :: "json \<Rightarrow> string" where
  "formatQueryCleanupFilterValue (JArr xs) = join '', '' (map formatQueryCleanupFilterValue xs)"
| "formatQueryCleanupFilterValue (JObj ms) = stringify (JObj ms)"
| "formatQueryCleanupFilterValue v = js_String v"

definition shown_filter :: "json \<Rightarrow> bool" where
  "shown_filter v \<longleftrightarrow> v \<noteq> JNull \<and> v \<noteq> JStr [] \<and> v \<noteq> JArr []"

definition buildQueryCleanupPreviewFilters :: "(string \<Rightarrow> string \<Rightarrow> int) \<Rightarrow> filters \<Rightarrow> preview_filter list" where
  "buildQueryCleanupPreviewFilters lc filters =
     map (\<lambda>e. \<lparr>pf_key = fst e, pf_label = formatQueryCleanupFilterLabel (fst e),
               pf_value = formatQueryCleanupFilterValue (snd e)\<rparr>)
       (js_sort (\<lambda>l r. lc (fst l) (fst r) \<le> 0) (filter (\<lambda>e. shown_filter (snd e)) filters))"

record cleanup_state =
  cu_rawQuery :: string
  cu_normalized :: preset_query
  cu_effectiveFilters :: filters
  cu_cleanedQuery :: string
  cu_comparisonBaseQuery :: string
  cu_needsCleanup :: bool
  cu_strippedTimeRange :: bool
  cu_extractedFilters :: bool
  cu_previewFilters :: "preview_filter list"
  cu_filterCount :: nat

definition buildQueryCleanupFallbackFilters :: "string option \<Rightarrow> string option \<Rightarrow> filters" where
  "buildQueryCleanupFallbackFilters level source =
     (let levelFilter = nullish (map_option trim level) []; sourceFilter = nullish (map_option trim source) []
      in (if levelFilter \<noteq> [] then [(''level'', JStr levelFilter)] else [])
         @ (if sourceFilter \<noteq> [] then [(''service'', JStr sourceFilter)] else []))"

definition buildQueryCleanupState ::
    "(string \<Rightarrow> string \<Rightarrow> int) \<Rightarrow> clock \<Rightarrow> string \<Rightarrow> filters option \<Rightarrow> cleanup_state" where
  "buildQueryCleanupState lc c raw fallback =
     (let rawQuery = trim raw;
          fallbackFilters = nullish fallback [];
          normalized = normalizeRealtimePresetQuery c rawQuery;
          effectiveFilters = (if pq_extractedFilters normalized then pq_filters normalized else fallbackFilters);
          cleanedQuery = buildRealtimePresetQuery lc (pq_queryText normalized) effectiveFilters;
          comparisonBaseQuery = (if pq_extractedFilters normalized then rawQuery
                                 else buildRealtimePresetQuery lc rawQuery fallbackFilters);
          previewFilters = buildQueryCleanupPreviewFilters lc effectiveFilters
      in \<lparr>cu_rawQuery = rawQuery, cu_normalized = normalized, cu_effectiveFilters = effectiveFilters,
          cu_cleanedQuery = cleanedQuery, cu_comparisonBaseQuery = comparisonBaseQuery,
          cu_needsCleanup = (cleanedQuery \<noteq> comparisonBaseQuery),
          cu_strippedTimeRange = pq_strippedTimeRange normalized,
          cu_extractedFilters = pq_extractedFilters normalized, cu_previewFilters = previewFilters,
          cu_filterCount = length previewFilters\<rparr>)"

section \<open>The filters sent with a search\<close>

definition REALTIME_NOISE_FILTER_KEY :: string where
  "REALTIME_NOISE_FILTER_KEY = ''exclude_internal_noise''"

record filter_params =
  fp_levelFilter :: "string option"
  fp_sourceFilter :: "string option"
  fp_queryText :: "string option"
  fp_extraFilters :: "filters option"

text \<open>An object whose members may be \<open>undefined\<close>.\<close>

type_synonym sent_filters = "(string, json option) jsmap"

definition kept_extra :: "string \<times> json \<Rightarrow> bool" where
  "kept_extra e \<longleftrightarrow> snd e \<noteq> JNull \<and> \<not> (case snd e of JStr s \<Rightarrow> trim s = [] | _ \<Rightarrow> False) \<and> snd e \<noteq> JArr []
     \<and> trim (fst e) \<noteq> []"

definition normalizeRealtimeExtraFilters :: "filters option \<Rightarrow> filters" where
  "normalizeRealtimeExtraFilters extra = fold (\<lambda>e. if kept_extra e then jm_set (fst e) (snd e) else id) (nullish extra []) []"

definition trimmed_text :: "string option \<Rightarrow> string" where
  "trimmed_text s = nullish (map_option trim s) []"

definition shouldApplyRealtimeNoiseFilter :: "filter_params \<Rightarrow> bool" where
  "shouldApplyRealtimeNoiseFilter p \<longleftrightarrow>
     trimmed_text (fp_queryText p) = [] \<and> trimmed_text (fp_sourceFilter p) = []
     \<and> normalizeRealtimeExtraFilters (fp_extraFilters p) = []"

definition shouldRelaxRealtimeHistogramNoiseFilter :: "filter_params \<Rightarrow> bool" where
  "shouldRelaxRealtimeHistogramNoiseFilter p \<longleftrightarrow> trimmed_text (fp_queryText p) = [] \<and> shouldApplyRealtimeNoiseFilter p"

definition text_or_undefined :: "string \<Rightarrow> json option" where
  "text_or_undefined s = (if s = [] then None else Some (JStr s))"

definition buildRealtimeQueryFilters :: "filter_params \<Rightarrow> sent_filters" where
  "buildRealtimeQueryFilters p =
     (let filters = jm_set ''service'' (text_or_undefined (trimmed_text (fp_sourceFilter p)))
            (jm_set ''level'' (text_or_undefined (trimmed_text (fp_levelFilter p)))
              (map (\<lambda>e. (fst e, Some (snd e))) (normalizeRealtimeExtraFilters (fp_extraFilters p))))
      in if shouldApplyRealtimeNoiseFilter p then jm_set REALTIME_NOISE_FILTER_KEY (Some (JBool True)) filters else filters)"

definition buildRealtimeHistogramFilters :: "filter_params \<Rightarrow> sent_filters" where
  "buildRealtimeHistogramFilters p =
     (let filters = buildRealtimeQueryFilters p
      in if \<not> shouldRelaxRealtimeHistogramNoiseFilter p then filters
         else jm_delete REALTIME_NOISE_FILTER_KEY filters)"

section \<open>The query the page starts with\<close>

definition REALTIME_STARTUP_QUERY_STORAGE_KEY :: string where
  "REALTIME_STARTUP_QUERY_STORAGE_KEY = ''nexuslog-realtime-startup-query''"

definition STARTUP_QUERY_MAX_AGE_MS :: int where "STARTUP_QUERY_MAX_AGE_MS = 60000"

definition persistPendingRealtimeStartupQuery :: "clock \<Rightarrow> string \<Rightarrow> browser \<Rightarrow> browser" where
  "persistPendingRealtimeStartupQuery c presetQuery b =
     (let normalizedQuery = trim presetQuery
      in if normalizedQuery = [] then b
         else writeStorageValue Session REALTIME_STARTUP_QUERY_STORAGE_KEY
                (stringify (JObj [(''presetQuery'', JStr normalizedQuery), (''createdAt'', JNum (of_int (now_ms c)))])) b)"

text \<open>A stored value of another shape raises while it is read, and gives the empty query.\<close>

definition readPendingRealtimeStartupQuery :: "clock \<Rightarrow> browser \<Rightarrow> string \<times> browser" where
  "readPendingRealtimeStartupQuery c b =
     (let raw = nullish (map_option trim (readStorageValue b Session REALTIME_STARTUP_QUERY_STORAGE_KEY)) []
      in if raw = [] then ([], b)
         else (case parse raw of
                 None \<Rightarrow> ([], b)
               | Some parsed \<Rightarrow>
                   (case trim_field (json_field (Some parsed) ''presetQuery'') of
                      None \<Rightarrow> ([], b)
                    | Some q \<Rightarrow>
                        (let presetQuery = nullish q [];
                             createdAt = number_or_zero (json_field (Some parsed) ''createdAt'');
                             isExpired = (case createdAt of
                                 Fin t \<Rightarrow> of_int STARTUP_QUERY_MAX_AGE_MS < of_int (now_ms c) - t | _ \<Rightarrow> True)
                         in if presetQuery = [] \<or> isExpired
                            then ([], removeStorageValue Session REALTIME_STARTUP_QUERY_STORAGE_KEY b)
                            else (presetQuery, b)))))"

definition clearPendingRealtimeStartupQuery :: "browser \<Rightarrow> browser" where
  "clearPendingRealtimeStartupQuery b = removeStorageValue Session REALTIME_STARTUP_QUERY_STORAGE_KEY b"

section \<open>Recent queries\<close>

definition RECENT_QUERY_STORAGE_KEY :: string where "RECENT_QUERY_STORAGE_KEY = ''nexuslog-realtime-recent-queries''"

definition MAX_RECENT_QUERIES :: nat where "MAX_RECENT_QUERIES = 5"

definition DEFAULT_RECENT_QUERIES :: "string list" where
  "DEFAULT_RECENT_QUERIES =
     [''level:error AND service:payment'', ''status:500'', ''service:order-api'',
      ''message:'' @ [CHR 0x22] @ ''timeout'' @ [CHR 0x22], ''level:warn'']"

text \<open>The loop of \<open>normalizeRecentQueries\<close>: what it has kept so far is also what it has seen.\<close>

fun keep_recent :: "string list \<Rightarrow> string list \<Rightarrow> string list" where
  "keep_recent normalized [] = normalized"
| "keep_recent normalized (candidate # input) =
     (let v = trim candidate
      in if v = [] \<or> v \<in> set normalized then keep_recent normalized input
         else if MAX_RECENT_QUERIES \<le> length normalized + 1 then normalized @ [v]
         else keep_recent (normalized @ [v]) input)"

definition normalizeRecentQueries :: "string list \<Rightarrow> string list" where
  "normalizeRecentQueries input = keep_recent [] input"

definition readRealtimeRecentQueries :: "browser \<Rightarrow> string list" where
  "readRealtimeRecentQueries b =
     (let raw = nullish (map_option trim (readStorageValue b Local RECENT_QUERY_STORAGE_KEY)) []
      in if raw = [] then DEFAULT_RECENT_QUERIES
         else (case parse raw of
                 Some (JArr xs) \<Rightarrow>
                   or_str (normalizeRecentQueries (List.map_filter (\<lambda>x. string_field (Some x)) xs)) DEFAULT_RECENT_QUERIES
               | _ \<Rightarrow> DEFAULT_RECENT_QUERIES))"

definition writeStoredRecentQueries :: "string list \<Rightarrow> browser \<Rightarrow> browser" where
  "writeStoredRecentQueries queries b =
     writeStorageValue Local RECENT_QUERY_STORAGE_KEY (stringify (JArr (map JStr (normalizeRecentQueries queries)))) b"

definition recordRealtimeRecentQuery :: "string \<Rightarrow> browser \<Rightarrow> string list \<times> browser" where
  "recordRealtimeRecentQuery query b =
     (let trimmedQuery = trim query; current = readRealtimeRecentQueries b
      in if trimmedQuery = [] then (current, b)
         else (let next_list = normalizeRecentQueries (trimmedQuery # current)
               in (next_list, writeStoredRecentQueries next_list b)))"

definition clearRealtimeRecentQueries :: "browser \<Rightarrow> browser" where
  "clearRealtimeRecentQueries b = removeStorageValue Local RECENT_QUERY_STORAGE_KEY b"

section \<open>Lemmas on recent queries\<close>

lemma js_uniq_filter: "js_uniq (filter P xs) = filter P (js_uniq xs)"
  by (induction xs) (auto simp: filter_filter conj_commute intro!: filter_cong)

lemma keep_recent_eq:
  "length acc < MAX_RECENT_QUERIES \<Longrightarrow>
    keep_recent acc xs =
      take MAX_RECENT_QUERIES (acc @ filter (\<lambda>v. v \<notin> set acc) (js_uniq (filter (\<lambda>v. v \<noteq> []) (map trim xs))))"
proof (induction acc xs rule: keep_recent.induct)
  case (2 acc x xs)
  let ?v = "trim x"
  let ?rest = "js_uniq (filter (\<lambda>v. v \<noteq> []) (map trim xs))"
  consider (skip) "?v = [] \<or> ?v \<in> set acc" | (full) "\<not> (?v = [] \<or> ?v \<in> set acc)" "MAX_RECENT_QUERIES \<le> length acc + 1"
    | (more) "\<not> (?v = [] \<or> ?v \<in> set acc)" "length acc + 1 < MAX_RECENT_QUERIES" by linarith
  then show ?case
  proof cases
    case skip
    have "filter (\<lambda>v. v \<notin> set acc) (filter (\<lambda>y. y \<noteq> ?v) ?rest) = filter (\<lambda>v. v \<notin> set acc) ?rest" if "?v \<in> set acc"
      using that by (auto simp: filter_filter intro!: filter_cong)
    then show ?thesis using skip 2 by (auto simp: Let_def)
  next
    case full
    with 2(3) have "MAX_RECENT_QUERIES - length acc = Suc 0" by linarith
    with full show ?thesis by (simp add: Let_def)
  next
    case more
    have "filter (\<lambda>v. v \<notin> set acc) (filter (\<lambda>y. y \<noteq> ?v) ?rest) = filter (\<lambda>v. v \<notin> set (acc @ [?v])) ?rest"
      by (auto simp: filter_filter intro!: filter_cong)
    then show ?thesis using more 2(2) [OF refl] by (simp add: Let_def)
  qed
qed simp

lemma normalizeRecentQueries_eq:
  "normalizeRecentQueries xs = take MAX_RECENT_QUERIES (js_uniq (filter (\<lambda>v. v \<noteq> []) (map trim xs)))"
  using keep_recent_eq [of "[]" xs] by (simp add: normalizeRecentQueries_def MAX_RECENT_QUERIES_def)

definition recent_ok :: "string list \<Rightarrow> bool" where
  "recent_ok qs \<longleftrightarrow> length qs \<le> MAX_RECENT_QUERIES \<and> distinct qs \<and> list_all (\<lambda>q. q \<noteq> [] \<and> trim q = q) qs"

lemma recent_ok_normalized: "recent_ok (normalizeRecentQueries xs)"
  by (auto simp: recent_ok_def normalizeRecentQueries_eq list_all_iff dest!: in_set_takeD)

lemma normalizeRecentQueries_ok: "recent_ok qs \<Longrightarrow> normalizeRecentQueries qs = qs"
proof -
  assume ok: "recent_ok qs"
  then have "map trim qs = qs" by (simp add: recent_ok_def list_all_iff map_idI)
  moreover have "filter (\<lambda>v. v \<noteq> []) qs = qs" using ok by (simp add: recent_ok_def list_all_iff filter_id_conv)
  ultimately show ?thesis using ok by (simp add: normalizeRecentQueries_eq js_uniq_distinct recent_ok_def)
qed

lemma recent_ok_default: "recent_ok DEFAULT_RECENT_QUERIES"
proof -
  have "list_all (\<lambda>q. q \<noteq> [] \<and> plain_ends q) DEFAULT_RECENT_QUERIES \<and> distinct DEFAULT_RECENT_QUERIES
    \<and> length DEFAULT_RECENT_QUERIES \<le> MAX_RECENT_QUERIES" by code_simp
  then show ?thesis by (auto simp: recent_ok_def list_all_iff trim_plain)
qed

lemma recent_ok_read: "recent_ok (readRealtimeRecentQueries b)"
  using recent_ok_default recent_ok_normalized
  by (auto simp: readRealtimeRecentQueries_def Let_def or_str_def split: option.splits json.splits)

lemma trim_stringify_arr: "trim (stringify (JArr xs)) = stringify (JArr xs)"
  by (rule trim_plain) (auto simp: plain_ends_def plain_char_def ascii_ws_def)

lemma trim_stringify_obj: "trim (stringify (JObj ms)) = stringify (JObj ms)"
  by (rule trim_plain) (auto simp: plain_ends_def plain_char_def ascii_ws_def)

lemma map_filter_Some: "List.map_filter (\<lambda>x. string_field (Some x)) (map JStr qs) = qs"
  by (induction qs) (simp_all add: List.map_filter_simps)

lemma read_written_recent:
  assumes "writable Local b" and "recent_ok qs" and "qs \<noteq> []"
  shows "readRealtimeRecentQueries (writeStoredRecentQueries qs b) = qs"
proof -
  have nn: "normalizeRecentQueries qs = qs" by (rule normalizeRecentQueries_ok [OF assms(2)])
  have "json_wf (JArr (map JStr qs))" by auto
  then have p: "parse (stringify (JArr (map JStr qs))) = Some (JArr (map JStr qs))" by (rule parse_stringify)
  have s: "readStorageValue (writeStoredRecentQueries qs b) Local RECENT_QUERY_STORAGE_KEY = Some (stringify (JArr (map JStr qs)))"
    using assms(1) nn by (simp add: writeStoredRecentQueries_def del: stringify.simps)
  have "stringify (JArr (map JStr qs)) \<noteq> []" by simp
  then show ?thesis
    unfolding readRealtimeRecentQueries_def Let_def s option.map nullish_simps trim_stringify_arr
    by (simp add: p map_filter_Some nn assms(3) del: stringify.simps)
qed

section \<open>Lemmas on the normal form of filters\<close>

definition clean :: "filters \<Rightarrow> bool" where
  "clean ms \<longleftrightarrow> distinct (map fst ms) \<and>
     (\<forall>e \<in> set ms. fst e \<noteq> [] \<and> trim (fst e) = fst e \<and> normalizeRealtimePresetFilterValue (snd e) = Some (snd e))"

lemma build_members_snoc:
  "build_members (kvs @ [(k, v)]) =
     (if trim k = [] then build_members kvs
      else case v of None \<Rightarrow> build_members kvs | Some j \<Rightarrow> jm_set (trim k) j (build_members kvs))"
  by (cases v) (simp_all add: build_members_def)

lemma set_jm_set: "set (jm_set k v m) \<subseteq> insert (k, v) (set m)"
  by (induction k v m rule: jm_set.induct) auto

lemma build_members_props:
  "distinct (map fst (build_members kvs)) \<and>
   (\<forall>e \<in> set (build_members kvs). fst e \<noteq> [] \<and> trim (fst e) = fst e \<and> (\<exists>k. (k, Some (snd e)) \<in> set kvs))"
proof (induction kvs rule: rev_induct)
  case (snoc kv kvs)
  obtain k v where kv: "kv = (k, v)" by force
  show ?case
  proof (cases "trim k = [] \<or> v = None")
    case True
    then show ?thesis using snoc by (auto simp: kv build_members_snoc)
  next
    case False
    then obtain j where j: "v = Some j" "trim k \<noteq> []" by blast
    have "distinct (map fst (jm_set (trim k) j (build_members kvs)))"
      using jm_wf_set [unfolded jm_wf_def, of "build_members kvs"] snoc by blast
    moreover have "\<forall>e \<in> set (jm_set (trim k) j (build_members kvs)).
        fst e \<noteq> [] \<and> trim (fst e) = fst e \<and> (\<exists>k'. (k', Some (snd e)) \<in> set (kvs @ [(k, Some j)]))"
    proof
      fix e assume "e \<in> set (jm_set (trim k) j (build_members kvs))"
      then have "e \<in> insert (trim k, j) (set (build_members kvs))"
        using set_jm_set [of "trim k" j "build_members kvs"] by (rule rev_subsetD)
      then consider "e = (trim k, j)" | "e \<in> set (build_members kvs)" by blast
      then show "fst e \<noteq> [] \<and> trim (fst e) = fst e \<and> (\<exists>k'. (k', Some (snd e)) \<in> set (kvs @ [(k, Some j)]))"
        using snoc j by cases auto
    qed
    ultimately show ?thesis using j by (simp add: kv build_members_snoc)
  qed
qed (simp add: build_members_def)

lemma build_members_clean:
  assumes "clean ms"
  shows "build_members (map (\<lambda>e. (fst e, normalizeRealtimePresetFilterValue (snd e))) ms) = ms"
  using assms
proof (induction ms rule: rev_induct)
  case (snoc e ms)
  then have "clean ms" by (auto simp: clean_def)
  with snoc show ?case by (auto simp: clean_def build_members_snoc jm_set_append_new jm_keys_def)
qed (simp add: build_members_def)

lemma normalizeRealtimePresetFilters_clean: "clean ms \<Longrightarrow> normalizeRealtimePresetFilters ms = ms"
  by (simp add: normalizeRealtimePresetFilters_def build_members_clean)

lemma map_filter_same: "(\<And>x. x \<in> set xs \<Longrightarrow> f x = Some x) \<Longrightarrow> List.map_filter id (map f xs) = xs"
  by (induction xs) (simp_all add: List.map_filter_simps)

lemma normalize_value_idem:
  "normalizeRealtimePresetFilterValue v = Some w \<Longrightarrow> normalizeRealtimePresetFilterValue w = Some w"
proof (induction v arbitrary: w rule: normalizeRealtimePresetFilterValue.induct)
  case (5 xs)
  let ?ys = "List.map_filter id (map normalizeRealtimePresetFilterValue xs)"
  have "List.map_filter id (map normalizeRealtimePresetFilterValue ?ys) = ?ys"
    by (rule map_filter_same) (use 5(1) in \<open>auto simp: set_map_filter\<close>)
  with 5(2) show ?case by (auto simp: Let_def split: if_splits)
next
  case (6 ms)
  let ?o = "build_members (map (\<lambda>e. (fst e, normalizeRealtimePresetFilterValue (snd e))) ms)"
  have "clean ?o"
    using build_members_props [of "map (\<lambda>e. (fst e, normalizeRealtimePresetFilterValue (snd e))) ms"] 6(1)
    unfolding clean_def by fastforce
  then have "build_members (map (\<lambda>e. (fst e, normalizeRealtimePresetFilterValue (snd e))) ?o) = ?o"
    by (rule build_members_clean)
  with 6(2) show ?case by (auto simp: Let_def split: if_splits)
qed (auto split: if_splits)

lemma clean_normalized: "clean (normalizeRealtimePresetFilters ms)"
  using build_members_props [of "map (\<lambda>e. (fst e, normalizeRealtimePresetFilterValue (snd e))) ms"] normalize_value_idem
  unfolding clean_def normalizeRealtimePresetFilters_def by fastforce

lemma normalize_obj: "clean ms \<Longrightarrow> ms \<noteq> [] \<Longrightarrow> normalizeRealtimePresetFilterValue (JObj ms) = Some (JObj ms)"
  by (simp add: build_members_clean Let_def)

lemma clean_of_obj: "normalizeRealtimePresetFilterValue (JObj ms) = Some (JObj ms) \<Longrightarrow> clean ms \<and> ms \<noteq> []"
  using clean_normalized [of ms]
  by (auto simp: normalizeRealtimePresetFilters_def Let_def split: if_splits)

text \<open>Sorting keeps the normal form.\<close>

lemma distinct_map_js_sort: "distinct (map f (js_sort le xs)) \<longleftrightarrow> distinct (map f xs)"
proof -
  have "card (set (map f (js_sort le xs))) = card (set (map f xs))" by simp
  then show ?thesis by (metis card_distinct distinct_card length_js_sort length_map)
qed

lemma normalize_sorted:
  "normalizeRealtimePresetFilterValue v = Some v \<Longrightarrow>
     normalizeRealtimePresetFilterValue (sortJSONValue lc v) = Some (sortJSONValue lc v)"
proof (induction v rule: sortJSONValue.induct)
  case (1 lc xs)
  have each: "normalizeRealtimePresetFilterValue x = Some x" if "x \<in> set xs" for x
  proof -
    have "List.map_filter id (map normalizeRealtimePresetFilterValue xs) = xs"
      using 1(2) by (auto simp: Let_def split: if_splits)
    with that have "x \<in> set (List.map_filter id (map normalizeRealtimePresetFilterValue xs))" by simp
    then show ?thesis using normalize_value_idem by (auto simp: set_map_filter)
  qed
  have "List.map_filter id (map normalizeRealtimePresetFilterValue (map (sortJSONValue lc) xs)) = map (sortJSONValue lc) xs"
    by (rule map_filter_same) (use 1(1) each in auto)
  moreover have "xs \<noteq> []" using 1(2) by (auto simp: Let_def List.map_filter_simps split: if_splits)
  ultimately show ?case by (simp add: Let_def)
next
  case (2 lc ms)
  from clean_of_obj [OF 2(2)] have c: "clean ms" "ms \<noteq> []" by (rule conjunct1, rule conjunct2)
  let ?s = "js_sort (\<lambda>l r. lc (fst l) (fst r) \<le> 0) (map (\<lambda>e. (fst e, sortJSONValue lc (snd e))) ms)"
  have "distinct (map fst ?s)" using c(1) by (simp add: distinct_map_js_sort clean_def comp_def)
  moreover have "fst e \<noteq> [] \<and> trim (fst e) = fst e \<and> normalizeRealtimePresetFilterValue (snd e) = Some (snd e)"
    if "e \<in> set ?s" for e
  proof -
    from that obtain d where d: "d \<in> set ms" "e = (fst d, sortJSONValue lc (snd d))" by auto
    with c(1) have "fst d \<noteq> []" "trim (fst d) = fst d" "normalizeRealtimePresetFilterValue (snd d) = Some (snd d)"
      by (auto simp: clean_def)
    with 2(1) [OF d(1)] d(2) show ?thesis by simp
  qed
  ultimately have "clean ?s" unfolding clean_def by blast
  moreover have "?s \<noteq> []" using c(2) by simp
  ultimately show ?case unfolding sortJSONValue.simps by (rule normalize_obj)
qed simp_all

lemma clean_sorted:
  assumes "clean ms" and "ms \<noteq> []" and "sortJSONValue lc (JObj ms) = JObj ms'"
  shows "clean ms' \<and> ms' \<noteq> []"
  using clean_of_obj [of ms'] normalize_sorted [OF normalize_obj [OF assms(1,2)], of lc] assms(3) by simp

lemma json_wf_normalized:
  "json_wf v \<Longrightarrow> normalizeRealtimePresetFilterValue v = Some w \<Longrightarrow> json_wf w"
proof (induction v arbitrary: w rule: normalizeRealtimePresetFilterValue.induct)
  case (5 xs)
  then show ?case by (auto simp: Let_def set_map_filter split: if_splits)
next
  case (6 ms)
  let ?kvs = "map (\<lambda>e. (fst e, normalizeRealtimePresetFilterValue (snd e))) ms"
  have "json_wf (JObj (build_members ?kvs))"
    using build_members_props [of ?kvs] 6(1,2) by fastforce
  with 6(3) show ?case by (auto simp: Let_def split: if_splits)
qed (auto split: if_splits)

lemma json_wf_normalized_filters: "json_wf (JObj ms) \<Longrightarrow> json_wf (JObj (normalizeRealtimePresetFilters ms))"
  using json_wf_normalized [of "JObj ms"]
  by (cases "normalizeRealtimePresetFilters ms = []") (auto simp: normalizeRealtimePresetFilters_def Let_def)

lemma json_wf_sorted: "json_wf v \<Longrightarrow> json_wf (sortJSONValue lc v)"
proof (induction v rule: sortJSONValue.induct)
  case (2 lc ms)
  then show ?case by (auto simp: distinct_map_js_sort comp_def)
qed auto

section \<open>Lemmas on the text of a query\<close>

lemma js_chars_snoc: "\<not> utf8_continuation c \<Longrightarrow> js_chars (s @ [c]) = js_chars s @ [[c]]"
proof (induction s rule: js_chars.induct)
  case (2 x xs)
  then show ?case by (simp add: takeWhile_tail dropWhile_append3)
qed simp

lemma startsWith_before: "c \<notin> set p \<Longrightarrow> startsWith (s @ c # t) p \<longleftrightarrow> startsWith s p"
proof
  assume c: "c \<notin> set p" and "startsWith (s @ c # t) p"
  then obtain u where "s @ c # t = p @ u" by (auto simp: startsWith_iff)
  then consider v where "s = p @ v" | v where "p = s @ v" "c # t = v @ u" by (auto simp: append_eq_append_conv2)
  then show "startsWith s p"
  proof cases
    case 2
    with c show ?thesis by (cases v) auto
  qed simp
qed (rule startsWith_appendI)

lemma ws_head_space:
  assumes "s \<noteq> []" and "ws_head s = 0"
  shows "ws_head (s @ CHR '' '' # t) = 0"
proof -
  have "list_all (\<lambda>w. CHR '' '' \<notin> set w) wide_ws" by code_simp
  then have "\<forall>w \<in> set wide_ws. startsWith (s @ CHR '' '' # t) w \<longleftrightarrow> startsWith s w"
    by (simp add: list_all_iff startsWith_before)
  with assms show ?thesis by (auto simp: ws_head_eq_0_iff split: if_splits)
qed

lemma trim_space: "trim s = s \<Longrightarrow> trim (s @ '' '') = s"
proof -
  assume t: "trim s = s"
  show ?thesis
  proof (cases "s = []")
    case True
    show ?thesis unfolding True by code_simp
  next
    case False
    have h: "ws_head s = 0" "ws_last s = 0" by (metis t ws_head_trim) (metis t ws_last_trim)
    have "ws_last (s @ '' '') = 1" by (simp add: ws_last_def ascii_ws_def)
    then have "trimEnd (s @ '' '') = trimEnd s" by (subst trimEnd.simps) simp
    then show ?thesis using h ws_head_space [OF False h(1), of "[]"] by (simp add: trim_def trimStart_id trimEnd_id)
  qed
qed

lemma lastIndexOf_None: "lastIndexOf s p = None \<longleftrightarrow> \<not> js_includes s p"
  by (induction s) (auto split: option.splits)

lemma lastIndexOf_here:
  assumes "\<not> js_includes (p @ t) (c # p)"
  shows "lastIndexOf (s @ c # p @ t) (c # p) = Some (length s)"
proof (induction s)
  case Nil
  have "lastIndexOf (p @ t) (c # p) = None" using assms by (simp add: lastIndexOf_None)
  then show ?case by simp
qed simp

lemma js_includes_skip: "c \<notin> set s \<Longrightarrow> js_includes (s @ t) (c # p) \<longleftrightarrow> js_includes t (c # p)"
  by (induction s) auto

text \<open>A match of the time range pattern ends with a closing bracket, up to white space.\<close>

lemma repeat_class:
  "q \<in> set (repeat (step_char P) n lo hi p) \<Longrightarrow> \<exists>sp. behind q = sp @ behind p \<and> list_all P sp"
proof (induction n arbitrary: lo hi p)
  case (Suc n)
  show ?case
  proof (cases "q = p")
    case False
    with Suc.prems obtain r where r: "r \<in> set (step_char P p)"
      and q: "q \<in> set (repeat (step_char P) n (lo - 1) (map_option (\<lambda>h. h - 1) hi) r)"
      by (auto split: if_splits)
    from r obtain c where "behind r = c # behind p" "P c"
      by (auto simp: step_char_def split: list.splits if_splits)
    moreover obtain sp where "behind q = sp @ behind r" "list_all P sp" using Suc.IH [OF q] by blast
    ultimately show ?thesis by (intro exI [of _ "sp @ [c]"]) simp
  qed (auto intro: exI [of _ "[]"])
qed (auto split: if_splits)

definition closes :: "rx_place \<Rightarrow> bool" where
  "closes q \<longleftrightarrow> ahead q = [] \<and> (\<exists>sp u. behind q = sp @ '']'' # u \<and> list_all js_space sp)"

lemma closes_tail: "q \<in> set (outcomes (rx_seq [rx_char (CHR '']''), rx_star rx_space, End_Input]) p) \<Longrightarrow> closes q"
proof -
  assume "q \<in> set (outcomes (rx_seq [rx_char (CHR '']''), rx_star rx_space, End_Input]) p)"
  then obtain r where r: "r \<in> set (step_char (\<lambda>c. c = '']'') p)" and e: "ahead q = []"
    and q: "q \<in> set (repeat (step_char js_space) (length (ahead r) + 1) 0 None r)"
    by (auto simp: rx_char_def rx_star_def rx_space_def split: if_splits simp del: repeat.simps)
  from r obtain u where "behind r = '']'' # u" by (auto simp: step_char_def split: list.splits if_splits)
  moreover obtain sp where "behind q = sp @ behind r" "list_all js_space sp" using repeat_class [OF q] by blast
  ultimately show ?thesis using e unfolding closes_def by (intro conjI exI [of _ sp] exI [of _ u]) simp_all
qed

lemma closes_Seq: "(\<And>p q. q \<in> set (outcomes b p) \<Longrightarrow> closes q) \<Longrightarrow> q \<in> set (outcomes (Seq a b) p) \<Longrightarrow> closes q"
  by auto

lemma time_range_closes: "q \<in> set (outcomes TRAILING_TIME_RANGE_PATTERN p) \<Longrightarrow> closes q"
  unfolding TRAILING_TIME_RANGE_PATTERN_def rx_seq.simps
  by (erule closes_Seq [rotated], erule closes_Seq [rotated], erule closes_Seq [rotated], erule closes_Seq [rotated],
      erule closes_Seq [rotated], erule closes_Seq [rotated], erule closes_Seq [rotated], erule closes_Seq [rotated],
      erule closes_Seq [rotated], erule closes_tail [unfolded rx_seq.simps])

lemma first_outcome_place:
  "first_outcome r pre post = Some q \<Longrightarrow>
     q \<in> set (outcomes r \<lparr>behind = pre, ahead = post, captures = []\<rparr>) \<and> rev (behind q) @ ahead q = rev pre @ post"
  using first_outcome_split [of r pre post q] by (auto simp: first_outcome_def split: list.splits)

lemma search_outcome:
  "search r pre post = Some m \<Longrightarrow> \<exists>p q. q \<in> set (outcomes r p) \<and> rev (behind q) @ ahead q = rev pre @ post"
proof (induction r pre post rule: search.induct)
  case (1 r pre)
  then show ?case using first_outcome_place [of r pre "[]"] by auto
next
  case (2 r pre c cs)
  then show ?case using first_outcome_place [of r pre "c # cs"] by (cases "first_outcome r pre (c # cs)") auto
qed

lemma no_time_range: "rx_match TRAILING_TIME_RANGE_PATTERN (s @ ''}'') = None"
proof (rule ccontr)
  assume "rx_match TRAILING_TIME_RANGE_PATTERN (s @ ''}'') \<noteq> None"
  then obtain p q where q: "q \<in> set (outcomes TRAILING_TIME_RANGE_PATTERN p)"
    and split: "rev (behind q) @ ahead q = js_chars (s @ ''}'')"
    using search_outcome [of TRAILING_TIME_RANGE_PATTERN "[]" "js_chars (s @ ''}'')"] by (auto simp: rx_match_def)
  have c: "\<not> utf8_continuation (CHR ''}'')" by (simp add: utf8_continuation_def)
  from time_range_closes [OF q] obtain sp u where "behind q = sp @ '']'' # u" "list_all js_space sp" "ahead q = []"
    by (auto simp: closes_def)
  with split have "sp @ '']'' # u = ''}'' # rev (js_chars s)"
    by (metis append_Nil2 js_chars_snoc [OF c] rev.simps(2) rev_rev_ident rev_swap)
  moreover have "\<not> js_space ''}''" by code_simp
  ultimately show False using \<open>list_all js_space sp\<close> by (cases sp) auto
qed

text \<open>The text of a query that has filters.\<close>

definition query_with_filters :: "string \<Rightarrow> json \<Rightarrow> string" where
  "query_with_filters q v = (if q = [] then [] else q @ '' '') @ FILTERS_PREFIX @ stringify v"

lemma stringify_obj_end: "\<exists>t. stringify (JObj ms) = t @ ''}''"
  by simp

lemma query_with_filters_end: "\<exists>t. query_with_filters q (JObj ms) = t @ ''}''"
  unfolding query_with_filters_def using stringify_obj_end [of ms] by (metis append.assoc)

lemma trim_query_with_filters: "trim q = q \<Longrightarrow> trim (query_with_filters q (JObj ms)) = query_with_filters q (JObj ms)"
proof (rule trim_id)
  assume q: "trim q = q"
  obtain t where "query_with_filters q (JObj ms) = t @ ''}''" using query_with_filters_end by blast
  then show "ws_last (query_with_filters q (JObj ms)) = 0" by (simp add: ws_last_def ascii_ws_def)
  have "ws_head q = 0" by (metis q ws_head_trim)
  then show "ws_head (query_with_filters q (JObj ms)) = 0"
    by (auto simp: query_with_filters_def ws_head_space) (simp add: FILTERS_PREFIX_def ws_head_def ascii_ws_def)
qed

lemma build_with_filters:
  assumes "normalizeRealtimePresetFilters f \<noteq> []"
  shows "buildRealtimePresetQuery lc q f = query_with_filters (trim q) (sortJSONValue lc (JObj (normalizeRealtimePresetFilters f)))"
proof -
  obtain ms where ms: "sortJSONValue lc (JObj (normalizeRealtimePresetFilters f)) = JObj ms" by simp
  have "FILTERS_PREFIX \<noteq> []" by (simp add: FILTERS_PREFIX_def)
  then have j: "join '' '' (filter (\<lambda>t. t \<noteq> []) [trim q, FILTERS_PREFIX @ stringify (JObj ms)]) = query_with_filters (trim q) (JObj ms)"
    by (simp add: query_with_filters_def del: stringify.simps)
  have "buildRealtimePresetQuery lc q f = trim (query_with_filters (trim q) (JObj ms))"
    unfolding buildRealtimePresetQuery_def Let_def ms using assms j by (simp only: if_True not_False_eq_True)
  then show ?thesis by (simp only: ms trim_query_with_filters [OF trim_trim])
qed

lemma extract_query_with_filters:
  assumes q: "trim q = q" and "\<not> startsWith q FILTERS_PREFIX"
    and inner: "\<not> js_includes (stringify (JObj ms)) ('' '' @ FILTERS_PREFIX)" and wf: "json_wf (JObj ms)"
  shows "extractTrailingFilters (query_with_filters q (JObj ms)) = (q, ms, True)"
proof -
  let ?t = "query_with_filters q (JObj ms)"
  have ne: "?t \<noteq> []" by (simp add: query_with_filters_def)
  have sp: "CHR '' '' \<notin> set FILTERS_PREFIX" by (simp add: FILTERS_PREFIX_def)
  obtain i where i: "filter_token_index ?t = Some i" "drop (i + length FILTERS_PREFIX) ?t = stringify (JObj ms)"
    "trim (take i ?t) = q"
  proof (cases "q = []")
    case True
    then have "?t = FILTERS_PREFIX @ stringify (JObj ms)" by (simp add: query_with_filters_def)
    then show ?thesis using that [of 0] True by (simp add: filter_token_index_def del: stringify.simps)
  next
    case False
    then have t: "?t = q @ CHR '' '' # FILTERS_PREFIX @ stringify (JObj ms)" by (simp add: query_with_filters_def)
    have "\<not> startsWith ?t FILTERS_PREFIX" unfolding t using assms(2) sp by (simp add: startsWith_before)
    moreover have "lastIndexOf ?t (CHR '' '' # FILTERS_PREFIX) = Some (length q)"
      unfolding t by (rule lastIndexOf_here) (use inner sp in \<open>simp add: js_includes_skip\<close>)
    ultimately have f: "filter_token_index ?t = Some (Suc (length q))" by (simp add: filter_token_index_def)
    have "take (Suc (length q)) ?t = q @ '' ''" unfolding t by simp
    then show ?thesis using that [OF f] trim_space [OF q] by (simp add: t del: stringify.simps)
  qed
  show ?thesis
    using ne parse_stringify [OF wf]
    by (simp add: extractTrailingFilters_def Let_def trim_query_with_filters [OF q] i trim_stringify_obj del: stringify.simps)
qed

lemma normalize_query_with_filters:
  assumes "trim q = q" and "\<not> startsWith q FILTERS_PREFIX"
    and "\<not> js_includes (stringify (JObj ms)) ('' '' @ FILTERS_PREFIX)" and "json_wf (JObj ms)" and "clean ms"
  shows "normalizeRealtimePresetQuery c (query_with_filters q (JObj ms)) =
    \<lparr>pq_queryText = q, pq_filters = ms, pq_levelFilter = normalizeFilterString (jm_get ms ''level''),
     pq_sourceFilter = or_str (normalizeFilterString (jm_get ms ''service'')) (normalizeFilterString (jm_get ms ''source'')),
     pq_strippedTimeRange = False, pq_extractedFilters = True, pq_timeRange = None\<rparr>"
proof -
  obtain t where t: "query_with_filters q (JObj ms) = t @ ''}''" using query_with_filters_end by blast
  have "extractTrailingTimeRange c (query_with_filters q (JObj ms)) = (query_with_filters q (JObj ms), None, False)"
    unfolding extractTrailingTimeRange_def Let_def trim_query_with_filters [OF assms(1)]
    by (simp add: t no_time_range)
  then show ?thesis
    by (simp add: normalizeRealtimePresetQuery_def extract_query_with_filters [OF assms(1-4)] Let_def
        normalizeRealtimePresetFilters_clean [OF assms(5)])
qed

text \<open>Sorting twice is sorting once.\<close>

lemma js_sort_id: "sorted_wrt le xs \<Longrightarrow> js_sort le xs = xs"
proof (induction xs)
  case (Cons x xs)
  then show ?case by (cases xs) auto
qed simp

definition total_order :: "(string \<Rightarrow> string \<Rightarrow> int) \<Rightarrow> bool" where
  "total_order lc \<longleftrightarrow> (\<forall>a b. lc a b \<le> 0 \<or> lc b a \<le> 0) \<and> (\<forall>a b c. lc a b \<le> 0 \<longrightarrow> lc b c \<le> 0 \<longrightarrow> lc a c \<le> 0)"

lemma js_sort_idem:
  assumes "total_order lc"
  shows "js_sort (\<lambda>l r. lc (fst l) (fst r) \<le> 0) (js_sort (\<lambda>l r. lc (fst l) (fst r) \<le> 0) xs)
    = js_sort (\<lambda>l r. lc (fst l) (fst r) \<le> 0) xs"
  by (rule js_sort_id, rule js_sort_sorted) (use assms in \<open>unfold total_order_def, blast+\<close>)

lemma sortJSONValue_idem: "total_order lc \<Longrightarrow> sortJSONValue lc (sortJSONValue lc v) = sortJSONValue lc v"
proof (induction lc v rule: sortJSONValue.induct)
  case (2 lc ms)
  let ?le = "\<lambda>l r :: string \<times> json. lc (fst l) (fst r) \<le> 0"
  let ?f = "\<lambda>e. (fst e, sortJSONValue lc (snd e))"
  have "map ?f (js_sort ?le (map ?f ms)) = js_sort ?le (map ?f (map ?f ms))" by (rule map_js_sort) simp
  also have "map ?f (map ?f ms) = map ?f ms" using 2 by simp
  finally show ?case using js_sort_idem [OF 2(2)] by simp
qed simp_all

section \<open>Properties\<close>










definition sample_filters :: filters where
  "sample_filters = [('' service '', JStr '' api ''), (''empty'', JStr []), (''code'', JNum 500)]"





text \<open>Cleaning a query settles: the cleaned form of a query with filters is left as it is when it is cleaned
  again, whatever the fallback filters are then.\<close>

theorem cleanup_settles:
  assumes "total_order lc" and "s = buildQueryCleanupState lc c raw fallback"
    and "json_wf (JObj (cu_effectiveFilters s))" and "normalizeRealtimePresetFilters (cu_effectiveFilters s) \<noteq> []"
    and "\<not> startsWith (trim (pq_queryText (cu_normalized s))) FILTERS_PREFIX"
    and "\<not> js_includes (stringify (sortJSONValue lc (JObj (normalizeRealtimePresetFilters (cu_effectiveFilters s)))))
      ('' '' @ FILTERS_PREFIX)"
  shows "cu_cleanedQuery (buildQueryCleanupState lc c (cu_cleanedQuery s) fallback2) = cu_cleanedQuery s
    \<and> \<not> cu_needsCleanup (buildQueryCleanupState lc c (cu_cleanedQuery s) fallback2)"
proof -
  let ?f = "cu_effectiveFilters s"
  let ?q = "trim (pq_queryText (cu_normalized s))"
  obtain ms where ms: "sortJSONValue lc (JObj (normalizeRealtimePresetFilters ?f)) = JObj ms" by simp
  have cl: "clean ms" "ms \<noteq> []" using clean_sorted [OF clean_normalized assms(4) ms] by blast+
  have wf: "json_wf (JObj ms)" using json_wf_sorted [OF json_wf_normalized_filters [OF assms(3)], of lc] unfolding ms .
  have "cu_cleanedQuery s = buildRealtimePresetQuery lc (pq_queryText (cu_normalized s)) ?f"
    by (simp add: assms(2) buildQueryCleanupState_def Let_def)
  then have q: "cu_cleanedQuery s = query_with_filters ?q (JObj ms)" unfolding build_with_filters [OF assms(4)] ms .
  have "sortJSONValue lc (JObj ms) = JObj ms" using sortJSONValue_idem [OF assms(1)] ms by metis
  then have "buildRealtimePresetQuery lc ?q ms = query_with_filters ?q (JObj ms)"
    using build_with_filters [of ms lc ?q] cl by (simp add: normalizeRealtimePresetFilters_clean del: sortJSONValue.simps)
  moreover have "normalizeRealtimePresetQuery c (query_with_filters ?q (JObj ms)) =
    \<lparr>pq_queryText = ?q, pq_filters = ms, pq_levelFilter = normalizeFilterString (jm_get ms ''level''),
     pq_sourceFilter = or_str (normalizeFilterString (jm_get ms ''service'')) (normalizeFilterString (jm_get ms ''source'')),
     pq_strippedTimeRange = False, pq_extractedFilters = True, pq_timeRange = None\<rparr>"
    using assms(5,6) wf cl(1) unfolding ms by (intro normalize_query_with_filters trim_trim)
  ultimately show ?thesis
    by (simp add: buildQueryCleanupState_def Let_def q trim_query_with_filters)
qed

definition sample_clock :: clock where "sample_clock = \<lparr>now_ms = 0, host_date = \<lambda>_. None\<rparr>"

definition old_query :: string where
  "old_query = ''disk full time:[a, b]''"

theorem cleanup_settles_witness:
  "\<not> cu_needsCleanup (buildQueryCleanupState (\<lambda>_ _. 0) sample_clock
      (cu_cleanedQuery (buildQueryCleanupState (\<lambda>_ _. 0) sample_clock old_query (Some sample_filters))) None)
   \<and> cu_needsCleanup (buildQueryCleanupState (\<lambda>_ _. 0) sample_clock old_query (Some sample_filters))"
proof -
  let ?s = "buildQueryCleanupState (\<lambda>_ _. 0) sample_clock old_query (Some sample_filters)"
  have t: "total_order (\<lambda>_ _. 0)" by (simp add: total_order_def)
  have c: "json_wf (JObj (cu_effectiveFilters ?s))" "normalizeRealtimePresetFilters (cu_effectiveFilters ?s) \<noteq> []"
    "\<not> startsWith (trim (pq_queryText (cu_normalized ?s))) FILTERS_PREFIX"
    "\<not> js_includes (stringify (sortJSONValue (\<lambda>_ _. 0) (JObj (normalizeRealtimePresetFilters (cu_effectiveFilters ?s)))))
      ('' '' @ FILTERS_PREFIX)"
    "cu_needsCleanup ?s"
    by code_simp+
  show ?thesis using cleanup_settles [OF t refl c(1-4)] c(5) by simp
qed

text \<open>The query handed to the page on start is read back trimmed for a minute, by whatever clock reads it; after
  that, and when it was blank, nothing is read, and what has expired is removed.\<close>

theorem startup_query_roundtrip:
  assumes "writable Session b" and "trim q \<noteq> []"
  shows "fst (readPendingRealtimeStartupQuery c2 (persistPendingRealtimeStartupQuery c1 q b)) =
      (if now_ms c2 - now_ms c1 \<le> STARTUP_QUERY_MAX_AGE_MS then trim q else [])
    \<and> (readStorageValue (snd (readPendingRealtimeStartupQuery c2 (persistPendingRealtimeStartupQuery c1 q b))) Session
         REALTIME_STARTUP_QUERY_STORAGE_KEY = None \<longleftrightarrow> STARTUP_QUERY_MAX_AGE_MS < now_ms c2 - now_ms c1)"
proof -
  let ?j = "JObj [(''presetQuery'', JStr (trim q)), (''createdAt'', JNum (of_int (now_ms c1)))]"
  have "json_wf ?j" by simp
  then have p: "parse (stringify ?j) = Some ?j" by (rule parse_stringify)
  have r: "readStorageValue (persistPendingRealtimeStartupQuery c1 q b) Session REALTIME_STARTUP_QUERY_STORAGE_KEY
      = Some (stringify ?j)"
    using assms by (simp add: persistPendingRealtimeStartupQuery_def Let_def del: stringify.simps)
  have ne: "stringify ?j \<noteq> []" by simp
  have f: "json_field (Some ?j) ''presetQuery'' = Some (JStr (trim q))"
    "json_field (Some ?j) ''createdAt'' = Some (JNum (of_int (now_ms c1)))" by (simp_all add: json_field_def)
  have n: "number_or_zero (Some (JNum (of_int (now_ms c1)))) = Fin (of_int (now_ms c1))"
    by (simp add: number_or_zero_def nullish_json_def num_of_json_def)
  have cmp: "(of_int STARTUP_QUERY_MAX_AGE_MS :: rat) < of_int (now_ms c2) - of_int (now_ms c1)
      \<longleftrightarrow> STARTUP_QUERY_MAX_AGE_MS < now_ms c2 - now_ms c1"
    unfolding of_int_diff [symmetric] of_int_less_iff ..
  have read: "readPendingRealtimeStartupQuery c2 (persistPendingRealtimeStartupQuery c1 q b) =
      (if STARTUP_QUERY_MAX_AGE_MS < now_ms c2 - now_ms c1
       then ([], removeStorageValue Session REALTIME_STARTUP_QUERY_STORAGE_KEY (persistPendingRealtimeStartupQuery c1 q b))
       else (trim q, persistPendingRealtimeStartupQuery c1 q b))"
    unfolding readPendingRealtimeStartupQuery_def Let_def r option.map nullish_simps trim_stringify_obj
    using assms(2) ne by (simp add: p f n cmp trim_field_def del: stringify.simps)
  show ?thesis unfolding read by (simp add: r scoped.read_remove del: stringify.simps)
qed

theorem startup_query_roundtrip_witness:
  "fst (readPendingRealtimeStartupQuery (sample_clock\<lparr>now_ms := 60000\<rparr>)
      (persistPendingRealtimeStartupQuery sample_clock '' disk '' \<lparr>local_area = open_area, session_area = open_area\<rparr>)) = ''disk''"
proof -
  have w: "writable Session \<lparr>local_area = open_area, session_area = open_area\<rparr>"
    by (simp add: writable_def getStorage_def open_area_def)
  have t: "trim '' disk '' = ''disk''" by code_simp
  have ne: "trim '' disk '' \<noteq> []" by (simp add: t)
  show ?thesis
    using startup_query_roundtrip [OF w ne, of "sample_clock\<lparr>now_ms := 60000\<rparr>" sample_clock]
    by (simp add: t STARTUP_QUERY_MAX_AGE_MS_def sample_clock_def)
qed

text \<open>The recent queries are at all times at most five different trimmed queries; recording one puts it first,
  before the others in their order, and what recording returns is what is read afterwards.\<close>

theorem recent_queries_record:
  assumes "writable Local b"
  shows "recent_ok (readRealtimeRecentQueries b)
    \<and> fst (recordRealtimeRecentQuery q b) =
        (if trim q = [] then readRealtimeRecentQueries b
         else take MAX_RECENT_QUERIES (trim q # filter (\<lambda>x. x \<noteq> trim q) (readRealtimeRecentQueries b)))
    \<and> readRealtimeRecentQueries (snd (recordRealtimeRecentQuery q b)) = fst (recordRealtimeRecentQuery q b)"
proof (cases "trim q = []")
  case True
  then show ?thesis by (simp add: recent_ok_read recordRealtimeRecentQuery_def Let_def)
next
  case False
  let ?r = "readRealtimeRecentQueries b"
  let ?n = "normalizeRecentQueries (trim q # ?r)"
  have ok: "recent_ok ?r" by (rule recent_ok_read)
  then have "map trim ?r = ?r" "filter (\<lambda>v. v \<noteq> []) ?r = ?r" "js_uniq ?r = ?r"
    by (simp_all add: recent_ok_def list_all_iff map_idI filter_id_conv js_uniq_distinct)
  then have n: "?n = take MAX_RECENT_QUERIES (trim q # filter (\<lambda>x. x \<noteq> trim q) ?r)"
    using False by (simp add: normalizeRecentQueries_eq)
  have ne: "?n \<noteq> []" using n by (simp add: MAX_RECENT_QUERIES_def)
  have "readRealtimeRecentQueries (writeStoredRecentQueries ?n b) = ?n"
    by (rule read_written_recent [OF assms recent_ok_normalized ne])
  then show ?thesis using False ok n by (simp add: recordRealtimeRecentQuery_def Let_def)
qed

theorem recent_queries_record_witness:
  "fst (recordRealtimeRecentQuery '' disk '' \<lparr>local_area = open_area, session_area = open_area\<rparr>) =
     ''disk'' # take 4 DEFAULT_RECENT_QUERIES"
proof -
  have w: "writable Local \<lparr>local_area = open_area, session_area = open_area\<rparr>"
    by (simp add: writable_def getStorage_def open_area_def)
  have t: "trim '' disk '' = ''disk''" by code_simp
  have r: "readRealtimeRecentQueries \<lparr>local_area = open_area, session_area = open_area\<rparr> = DEFAULT_RECENT_QUERIES" by code_simp
  have "filter (\<lambda>x. x \<noteq> ''disk'') DEFAULT_RECENT_QUERIES = DEFAULT_RECENT_QUERIES" by code_simp
  then show ?thesis
    using recent_queries_record [OF w, of "'' disk ''"] by (simp add: t r MAX_RECENT_QUERIES_def numeral_eq_Suc)
qed

text \<open>The histogram is asked for with the filters of the table; only the noise filter is left out where it was
  put in, which is exactly when there is no query, no source and no further filter.\<close>

theorem histogram_filters_agree:
  "jm_get (buildRealtimeHistogramFilters p) k =
     (if k = REALTIME_NOISE_FILTER_KEY \<and> shouldApplyRealtimeNoiseFilter p then None
      else jm_get (buildRealtimeQueryFilters p) k)
   \<and> (jm_get (buildRealtimeQueryFilters p) REALTIME_NOISE_FILTER_KEY = None \<or>
      jm_get (buildRealtimeQueryFilters p) REALTIME_NOISE_FILTER_KEY =
        (if shouldApplyRealtimeNoiseFilter p then Some (Some (JBool True))
         else map_option Some (jm_get (normalizeRealtimeExtraFilters (fp_extraFilters p)) REALTIME_NOISE_FILTER_KEY)))"
proof -
  have m: "jm_get (map (\<lambda>e. (fst e, Some (snd e))) xs) k = map_option Some (jm_get xs k)" for xs :: filters and k
    by (induction xs) (auto simp: jm_get_def)
  show ?thesis
    by (auto simp: buildRealtimeHistogramFilters_def buildRealtimeQueryFilters_def Let_def
        shouldRelaxRealtimeHistogramNoiseFilter_def shouldApplyRealtimeNoiseFilter_def m REALTIME_NOISE_FILTER_KEY_def)
qed

end
