(* ===== verification/Search_View.thy ===== *)
theory Search_View
  imports Query_Calls
begin

text \<open>
  What the search pages show (\<open>pages/search\<close>): the histogram (\<open>realtimeHistogram.ts\<close>) and when it is fetched
  again (\<open>realtimeRefreshPolicy.ts\<close>), the grouping of image requests in the table (\<open>realtimeLogAggregation.ts\<close>)
  and the lines about the shown page (\<open>searchPagePresentation.ts\<close>).

  Arguments: \<open>lc\<close>, the sign of \<open>localeCompare\<close>; \<open>locale_time\<close> and \<open>locale_number\<close>, the local rendering of a
  time and of a number.
\<close>

section \<open>The histogram\<close>

record histogram_point =
  hg_key :: string
  hg_time :: string
  hg_normal :: rat
  hg_error :: rat

definition normalizeBucketKey :: "clock \<Rightarrow> string \<Rightarrow> string" where
  "normalizeBucketKey c raw =
     (case date_of c raw of None \<Rightarrow> raw | Some t \<Rightarrow> js_take 16 (toISOString (truncateDateToMinute t)))"

definition formatBucketTime :: "(int \<Rightarrow> string) \<Rightarrow> clock \<Rightarrow> string \<Rightarrow> string" where
  "formatBucketTime locale_time c raw = (case date_of c raw of None \<Rightarrow> raw | Some t \<Rightarrow> locale_time t)"

type_synonym points = "(string, histogram_point) jsmap"

definition add_total :: "(int \<Rightarrow> string) \<Rightarrow> clock \<Rightarrow> aggregate_bucket \<Rightarrow> points \<Rightarrow> points" where
  "add_total locale_time c bucket m =
     (let key = normalizeBucketKey c (ab_key bucket)
      in jm_set key \<lparr>hg_key = key, hg_time = formatBucketTime locale_time c (ab_key bucket),
                     hg_normal = max 0 (ab_count bucket), hg_error = 0\<rparr> m)"

definition add_errors :: "(int \<Rightarrow> string) \<Rightarrow> clock \<Rightarrow> aggregate_bucket \<Rightarrow> points \<Rightarrow> points" where
  "add_errors locale_time c bucket m =
     (let key = normalizeBucketKey c (ab_key bucket);
          current = nullish (jm_get m key)
            \<lparr>hg_key = key, hg_time = formatBucketTime locale_time c (ab_key bucket), hg_normal = 0, hg_error = 0\<rparr>;
          totl = hg_normal current + hg_error current;
          err = min totl (max 0 (ab_count bucket))
      in jm_set key (current\<lparr>hg_error := err, hg_normal := max 0 (totl - err)\<rparr>) m)"

definition buildRealtimeHistogramData ::
    "(string \<Rightarrow> string \<Rightarrow> int) \<Rightarrow> (int \<Rightarrow> string) \<Rightarrow> clock \<Rightarrow> aggregate_bucket list \<Rightarrow> aggregate_bucket list
     \<Rightarrow> histogram_point list" where
  "buildRealtimeHistogramData lc locale_time c totalBuckets errorBuckets =
     js_sort (\<lambda>l r. lc (hg_key l) (hg_key r) \<le> 0)
       (jm_values (fold (add_errors locale_time c) errorBuckets (fold (add_total locale_time c) totalBuckets [])))"

definition sumRealtimeHistogramEvents :: "histogram_point list \<Rightarrow> rat" where
  "sumRealtimeHistogramEvents ps = fold (\<lambda>p s. s + hg_normal p + hg_error p) ps 0"

section \<open>Fetching the histogram again\<close>

definition LIVE_HISTOGRAM_REFRESH_INTERVAL_MS :: rat where "LIVE_HISTOGRAM_REFRESH_INTERVAL_MS = 15000"

datatype refresh_mode = AutoRefresh | ForceRefresh | SkipRefresh

record refresh_key_params =
  rk_queryText :: "string option"
  rk_levelFilter :: "string option"
  rk_sourceFilter :: "string option"
  rk_extraFiltersKey :: "string option"

definition key_fields :: "refresh_key_params \<Rightarrow> string list" where
  "key_fields p =
     map (\<lambda>s. nullish (map_option trim s) []) [rk_queryText p, rk_levelFilter p, rk_sourceFilter p, rk_extraFiltersKey p]"

definition buildRealtimeHistogramRefreshKey :: "refresh_key_params \<Rightarrow> string" where
  "buildRealtimeHistogramRefreshKey p = join [CHR 0x00] (key_fields p)"

record refresh_params =
  rp_mode :: "refresh_mode option"
  rp_nextRequestKey :: string
  rp_lastRequestKey :: string
  rp_lastFetchedAt :: rat
  rp_now :: "jsnum option"
  rp_hasHistogramData :: bool

definition shouldRefreshRealtimeHistogram :: "clock \<Rightarrow> refresh_params \<Rightarrow> bool" where
  "shouldRefreshRealtimeHistogram c p =
     (if \<not> rp_hasHistogramData p then True
      else if rp_nextRequestKey p \<noteq> rp_lastRequestKey p then True
      else if rp_mode p = Some ForceRefresh then True
      else if rp_mode p = Some SkipRefresh then False
      else (let now = (case rp_now p of Some (Fin q) \<Rightarrow> q | _ \<Rightarrow> of_int (now_ms c))
            in LIVE_HISTOGRAM_REFRESH_INTERVAL_MS \<le> now - rp_lastFetchedAt p))"

section \<open>Grouping image requests\<close>

definition path_char :: rx where
  "path_char = rx_ascii (\<lambda>c. letter c \<or> is_digit c \<or> c \<in> set ''_@%+=:,./-'')"

definition image_path :: rx where
  "image_path =
     rx_seq [rx_plus path_char, rx_char (CHR ''.''),
       rx_alt [rx_lit_i ''png'', rx_seq [rx_lit_i ''jp'', rx_opt (rx_char_i (CHR ''e'')), rx_char_i (CHR ''g'')],
               rx_lit_i ''gif'', rx_lit_i ''webp'', rx_lit_i ''svg'', rx_lit_i ''bmp'', rx_lit_i ''ico'', rx_lit_i ''avif'']]"

definition IMAGE_FILE_PATTERN :: rx where
  "IMAGE_FILE_PATTERN =
     Seq (Grp 1 image_path)
       (rx_opt (rx_seq [rx_star rx_space, rx_lit ''->'', rx_star rx_space, Grp 2 image_path]))"

definition SYSLOG_ACTOR_PATTERN :: rx where
  "SYSLOG_ACTOR_PATTERN =
     rx_seq [Begin_Input, rx_upper, rx_times 2 2 rx_lower, rx_plus rx_space, rx_plus rx_digit, rx_plus rx_space,
       digits 2 2, rx_char (CHR '':''), digits 2 2, rx_char (CHR '':''), digits 2 2, rx_plus rx_space,
       rx_plus rx_nonspace, rx_plus rx_space, Grp 1 (rx_plus (Cls (\<lambda>c. c \<noteq> '':''))), rx_char (CHR '':'')]"

definition MIN_IMAGE_BURST_SIZE :: nat where "MIN_IMAGE_BURST_SIZE = 3"

record image_descriptor =
  im_actor :: string
  im_directory :: string
  im_extension :: string
  im_fileName :: string
  im_path :: string
  im_timestampBucket :: string

definition normalizeTimestampToSecond :: "clock \<Rightarrow> string \<Rightarrow> string" where
  "normalizeTimestampToSecond c timestamp =
     (case date_of c timestamp of None \<Rightarrow> trim timestamp | Some t \<Rightarrow> js_take 19 (toISOString t))"

definition nonempty_parts :: "string \<Rightarrow> string \<Rightarrow> string list" where
  "nonempty_parts sep s = filter (\<lambda>x. x \<noteq> []) (split_on sep s)"

text \<open>The last element of an array (\<open>at(-1)\<close>) or a default.\<close>

definition last_or :: "'a \<Rightarrow> 'a list \<Rightarrow> 'a" where
  "last_or d xs = (if xs = [] then d else last xs)"

definition extractImageAssetDescriptor :: "clock \<Rightarrow> log_entry \<Rightarrow> image_descriptor option" where
  "extractImageAssetDescriptor c e =
     (let rawText = join [CHR 0x0A] (filter (\<lambda>t. t \<noteq> []) [lg_message e, lg_rawLog e]);
          candidatePath = (case rx_match IMAGE_FILE_PATTERN rawText of
              None \<Rightarrow> [] | Some m \<Rightarrow> nullish (nullish_opt (group 1 m) (group 2 m)) [])
      in if candidatePath = [] then None
         else (let normalizedPath = trim (replace_char (\<lambda>x. x = CHR 0x5C) (CHR ''/'') candidatePath);
                   segments = nonempty_parts ''/'' normalizedPath;
                   fileName = last_or normalizedPath segments;
                   extension = (if CHR ''.'' \<in> set fileName then toLowerCase (last_or [] (split_on ''.'' fileName)) else [])
               in if fileName = [] \<or> extension = [] then None
                  else Some \<lparr>im_actor = or_str (case rx_match SYSLOG_ACTOR_PATTERN rawText of
                                None \<Rightarrow> [] | Some m \<Rightarrow> trim (nullish (group 1 m) [])) (lg_service e),
                             im_directory = join ''/'' (butlast segments), im_extension = extension,
                             im_fileName = fileName, im_path = normalizedPath,
                             im_timestampBucket = normalizeTimestampToSecond c (lg_timestamp e)\<rparr>))"

definition buildImageBurstGroupKey :: "log_entry \<Rightarrow> image_descriptor \<Rightarrow> string" where
  "buildImageBurstGroupKey e d =
     join ''|'' [im_timestampBucket d, level_name (lg_level e), lg_service e, lg_host e, lg_hostIp e, im_actor d,
                 im_directory d, im_extension d]"

definition uniqueStrings :: "string list \<Rightarrow> string list" where
  "uniqueStrings vs = js_uniq (filter (\<lambda>v. v \<noteq> []) vs)"

definition formatDirectoryLabel :: "image_descriptor \<Rightarrow> string" where
  "formatDirectoryLabel d =
     (if im_directory d = [] then ''*.'' @ im_extension d
      else last_or (im_directory d) (nonempty_parts ''/'' (im_directory d)) @ ''/*.'' @ im_extension d)"

definition buildAggregatedSummary :: "image_descriptor \<Rightarrow> string list \<Rightarrow> nat \<Rightarrow> string" where
  "buildAggregatedSummary d samplePaths count =
     (let preview = take 3 (uniqueStrings (map (\<lambda>p. last_or p (nonempty_parts ''/'' p)) samplePaths));
          previewLabel = (if preview \<noteq> []
            then zh_examples @ join zh_enum_comma preview @ (if length preview < count then zh_and_more else []) else []);
          actorLabel = (if im_actor d \<noteq> [] then im_actor d @ '' '' else [])
      in actorLabel @ zh_images_grouped @ nat_to_string count @ zh_items_comma @ formatDirectoryLabel d
         @ previewLabel @ zh_close_paren)"

record entry_detail =
  de_id :: string
  de_timestamp :: string
  de_message :: string
  de_rawLog :: string

record aggregated_group =
  ag_count :: nat
  ag_summary :: string
  ag_samplePaths :: "string list"
  ag_entries :: "entry_detail list"

record display_log = log_entry +
  dl_aggregated :: "aggregated_group option"

definition shown_alone :: "log_entry \<Rightarrow> display_log" where
  "shown_alone e = log_entry.extend e \<lparr>dl_aggregated = None\<rparr>"

definition detail_of :: "log_entry \<Rightarrow> entry_detail" where
  "detail_of e = \<lparr>de_id = lg_id e, de_timestamp = lg_timestamp e, de_message = lg_message e, de_rawLog = lg_rawLog e\<rparr>"

definition members_of :: "json \<Rightarrow> (string, json) jsmap" where
  "members_of j = (case j of JObj ms \<Rightarrow> ms | _ \<Rightarrow> [])"

definition buildAggregatedLogEntry :: "clock \<Rightarrow> log_entry list \<Rightarrow> image_descriptor \<Rightarrow> display_log" where
  "buildAggregatedLogEntry c grp d =
     (let first = hd grp;
          samplePaths = uniqueStrings (filter (\<lambda>p. p \<noteq> [])
            (map (\<lambda>e. case extractImageAssetDescriptor c e of None \<Rightarrow> [] | Some x \<Rightarrow> im_path x) grp));
          summary = buildAggregatedSummary d samplePaths (length grp)
      in log_entry.extend
           (first\<lparr>lg_id := ''aggregated:'' @ im_timestampBucket d @ '':'' @ lg_id first,
                  lg_message := summary,
                  lg_rawLog := join [CHR 0x0A] (map lg_rawLog grp),
                  lg_fields := JObj (js_spread (members_of (lg_fields first))
                    [(''aggregation_kind'', JStr ''image_asset_burst''),
                     (''aggregation_count'', JNum (of_nat (length grp))),
                     (''aggregation_sample_paths'', JArr (map JStr samplePaths))])\<rparr>)
           \<lparr>dl_aggregated = Some \<lparr>ag_count = length grp, ag_summary = summary, ag_samplePaths = samplePaths,
                                  ag_entries = map detail_of grp\<rparr>\<rparr>)"

text \<open>The entries from the next one on that belong to the same group.\<close>

definition same_burst :: "clock \<Rightarrow> string \<Rightarrow> log_entry \<Rightarrow> bool" where
  "same_burst c groupKey e \<longleftrightarrow>
     (case extractImageAssetDescriptor c e of None \<Rightarrow> False | Some d \<Rightarrow> buildImageBurstGroupKey e d = groupKey)"

function aggregateRealtimeDisplayLogs :: "clock \<Rightarrow> log_entry list \<Rightarrow> display_log list" where
  "aggregateRealtimeDisplayLogs c [] = []"
| "aggregateRealtimeDisplayLogs c (current # logs) =
     (case extractImageAssetDescriptor c current of
        None \<Rightarrow> shown_alone current # aggregateRealtimeDisplayLogs c logs
      | Some d \<Rightarrow>
          (let groupKey = buildImageBurstGroupKey current d;
               candidateGroup = current # takeWhile (same_burst c groupKey) logs
           in (if MIN_IMAGE_BURST_SIZE \<le> length candidateGroup then [buildAggregatedLogEntry c candidateGroup d]
               else map shown_alone candidateGroup)
              @ aggregateRealtimeDisplayLogs c (dropWhile (same_burst c groupKey) logs)))"
  by pat_completeness auto

termination
  by (relation "measure (\<lambda>(_, logs). length logs)") (auto simp: le_imp_less_Suc length_dropWhile_le)

definition summarizeImageAggregation :: "display_log list \<Rightarrow> nat \<times> nat" where
  "summarizeImageAggregation logs =
     fold (\<lambda>e (groupedRows, hiddenRows).
        case dl_aggregated e of
          None \<Rightarrow> (groupedRows, hiddenRows)
        | Some a \<Rightarrow> (groupedRows + 1, hiddenRows + (ag_count a - 1))) logs (0, 0)"

section \<open>The shown page in words\<close>

record visible_range =
  vr_start :: int
  vr_end :: int

definition floor_at_least :: "int \<Rightarrow> jsnum \<Rightarrow> int" where
  "floor_at_least d x = (case x of Fin q \<Rightarrow> max d \<lfloor>q\<rfloor> | _ \<Rightarrow> d)"

definition resolveSearchPageVisibleRange :: "jsnum \<Rightarrow> jsnum \<Rightarrow> jsnum \<Rightarrow> jsnum \<Rightarrow> visible_range" where
  "resolveSearchPageVisibleRange total0 page0 pageSize0 itemCount0 =
     (let totl = floor_at_least 0 total0; itemCount = floor_at_least 0 itemCount0
      in if totl = 0 \<or> itemCount = 0 then \<lparr>vr_start = 0, vr_end = 0\<rparr>
         else (let page = floor_at_least 1 page0; pageSize = floor_at_least 1 pageSize0;
                   start = (page - 1) * pageSize + 1
               in \<lparr>vr_start = start, vr_end = start + itemCount - 1\<rparr>))"

definition hasSearchPageVisibleRange :: "visible_range \<Rightarrow> bool" where
  "hasSearchPageVisibleRange r \<longleftrightarrow> 0 < vr_start r \<and> vr_start r \<le> vr_end r"

definition formatSearchPageTotal :: "(int \<Rightarrow> string) \<Rightarrow> jsnum \<Rightarrow> string \<Rightarrow> string" where
  "formatSearchPageTotal locale_number totl unitLabel =
     zh_total @ locale_number (floor_at_least 0 totl) @ '' '' @ unitLabel"

definition formatSearchPageSummary ::
    "(int \<Rightarrow> string) \<Rightarrow> jsnum \<Rightarrow> string \<Rightarrow> visible_range option \<Rightarrow> string option \<Rightarrow> string" where
  "formatSearchPageSummary locale_number totl unitLabel visibleRange visibleRangeUnitLabel =
     (let totalLabel = formatSearchPageTotal locale_number totl unitLabel
      in case visibleRange of
           None \<Rightarrow> totalLabel
         | Some r \<Rightarrow>
             if \<not> hasSearchPageVisibleRange r then totalLabel
             else totalLabel @ zh_showing @ int_to_string (vr_start r) @ ''-'' @ int_to_string (vr_end r) @ '' ''
                  @ nullish visibleRangeUnitLabel zh_unit_items @ zh_close_paren)"

definition resolveSearchPageLoadingLabel :: "rat \<Rightarrow> string" where
  "resolveSearchPageLoadingLabel itemCount = (if 0 < itemCount then zh_refreshing else zh_loading)"

definition resolveSearchPageEmptyDescription :: "bool \<Rightarrow> string \<Rightarrow> string \<Rightarrow> string" where
  "resolveSearchPageEmptyDescription hasFilters filteredDescription idleDescription =
     (if hasFilters then filteredDescription else idleDescription)"

record empty_options =
  eo_queryText :: "string option"
  eo_levelFilter :: "string option"
  eo_sourceFilter :: "string option"
  eo_hasCustomTimeRange :: bool
  eo_liveWindow :: "string option"

definition resolveRealtimeLogsEmptyDescription :: "empty_options \<Rightarrow> string" where
  "resolveRealtimeLogsEmptyDescription p =
     (let given = \<lambda>s. trim (nullish s []) \<noteq> []
      in if given (eo_queryText p) \<or> given (eo_levelFilter p) \<or> given (eo_sourceFilter p) then zh_no_match
         else if eo_hasCustomTimeRange p then zh_no_custom_range
         else if trim (nullish (eo_liveWindow p) []) = ''all'' then zh_no_all_range
         else zh_no_range)"

section \<open>Histogram lemmas\<close>

lemma sum_rat_jm_set:
  "sum_list (map f (jm_values (jm_set k v m)))
     = sum_list (map f (jm_values m)) + f v - (case jm_get m k of None \<Rightarrow> 0 | Some w \<Rightarrow> f w)"
  for f :: "'v \<Rightarrow> rat"
  by (induction k v m rule: jm_set.induct) (auto simp: jm_values_def)

lemma list_all_jm_set:
  "list_all P (jm_values m) \<Longrightarrow> P v \<Longrightarrow> list_all P (jm_values (jm_set k v m))"
  by (induction k v m rule: jm_set.induct) (auto simp: jm_values_def)

lemma list_all_jm_get: "list_all P (jm_values m) \<Longrightarrow> jm_get m k = Some v \<Longrightarrow> P v"
  by (induction m) (auto simp: jm_values_def split: if_splits)

definition point_ok :: "histogram_point \<Rightarrow> bool" where
  "point_ok p \<longleftrightarrow> 0 \<le> hg_normal p \<and> 0 \<le> hg_error p"

definition events_of :: "histogram_point \<Rightarrow> rat" where
  "events_of p = hg_normal p + hg_error p"

lemma sum_events: "sumRealtimeHistogramEvents ps = sum_list (map events_of ps)"
proof -
  have "fold (\<lambda>p s. s + hg_normal p + hg_error p) ps a = a + sum_list (map events_of ps)" for a
    by (induction ps arbitrary: a) (simp_all add: events_of_def)
  then show ?thesis by (simp add: sumRealtimeHistogramEvents_def)
qed

lemma add_total_ok:
  "list_all point_ok (jm_values m) \<Longrightarrow> list_all point_ok (jm_values (add_total lt c b m))"
  by (simp add: add_total_def Let_def list_all_jm_set point_ok_def)

lemma add_errors_ok:
  assumes "list_all point_ok (jm_values m)"
  shows "list_all point_ok (jm_values (add_errors lt c b m))"
    and "sum_list (map events_of (jm_values (add_errors lt c b m))) = sum_list (map events_of (jm_values m))"
proof -
  let ?k = "normalizeBucketKey c (ab_key b)"
  have "point_ok p" if "jm_get m ?k = Some p" for p
    using list_all_jm_get [OF assms that] .
  then show "list_all point_ok (jm_values (add_errors lt c b m))"
    using assms by (cases "jm_get m ?k")
      (auto simp: add_errors_def Let_def point_ok_def intro!: list_all_jm_set)
  from \<open>\<And>p. jm_get m ?k = Some p \<Longrightarrow> point_ok p\<close>
  show "sum_list (map events_of (jm_values (add_errors lt c b m))) = sum_list (map events_of (jm_values m))"
    by (cases "jm_get m ?k") (auto simp: add_errors_def Let_def point_ok_def sum_rat_jm_set events_of_def)
qed

lemma fold_errors_ok:
  "list_all point_ok (jm_values m) \<Longrightarrow>
   list_all point_ok (jm_values (fold (add_errors lt c) es m)) \<and>
   sum_list (map events_of (jm_values (fold (add_errors lt c) es m))) = sum_list (map events_of (jm_values m))"
  by (induction es arbitrary: m) (simp_all add: add_errors_ok)

lemma fold_totals_ok:
  "list_all point_ok (jm_values m) \<Longrightarrow> list_all point_ok (jm_values (fold (add_total lt c) ts m))"
  by (induction ts arbitrary: m) (simp_all add: add_total_ok)

text \<open>
  the error counts only divide the columns of the histogram: whatever error buckets arrive, no column
  gets a negative part and the number of events drawn is the one of the totals alone.
\<close>

theorem histogram_errors_within_totals:
  "list_all (\<lambda>p. 0 \<le> hg_normal p \<and> 0 \<le> hg_error p) (buildRealtimeHistogramData lc locale_time c totals errors)
   \<and> sumRealtimeHistogramEvents (buildRealtimeHistogramData lc locale_time c totals errors)
     = sumRealtimeHistogramEvents (buildRealtimeHistogramData lc locale_time c totals [])"
proof -
  let ?m = "fold (add_total locale_time c) totals []"
  have "list_all point_ok (jm_values ?m)"
    by (rule fold_totals_ok) (simp add: jm_values_def)
  from fold_errors_ok [OF this, of locale_time c errors] show ?thesis
    by (simp add: buildRealtimeHistogramData_def sum_events) (simp add: list_all_iff point_ok_def)
qed

section \<open>Refresh decision\<close>

definition key_plain :: "refresh_key_params \<Rightarrow> bool" where
  "key_plain p \<longleftrightarrow> list_all (\<lambda>s. CHR 0x00 \<notin> set s) (key_fields p)"

lemma key_fields_of_key:
  "key_plain p \<Longrightarrow> split_on [CHR 0x00] (buildRealtimeHistogramRefreshKey p) = key_fields p"
  unfolding buildRealtimeHistogramRefreshKey_def
  by (rule split_on_join) (simp_all add: key_fields_def key_plain_def list_all_iff)

text \<open>
  the histogram shown is reused only for the request it was fetched for: when the code decides not to
  fetch, there is a histogram, no refresh was forced, the query, level, source and extra filters are (trimmed)
  those of the last fetch, and that is less than 15 seconds ago unless refreshing is switched off.
\<close>

theorem histogram_reuse_same_request:
  assumes "\<not> shouldRefreshRealtimeHistogram c r"
    and "rp_nextRequestKey r = buildRealtimeHistogramRefreshKey p"
    and "rp_lastRequestKey r = buildRealtimeHistogramRefreshKey q"
    and "key_plain p" and "key_plain q"
  shows "key_fields p = key_fields q \<and> rp_hasHistogramData r \<and> rp_mode r \<noteq> Some ForceRefresh
    \<and> (rp_now r = Some (Fin t) \<longrightarrow> rp_mode r = Some SkipRefresh \<or> t - rp_lastFetchedAt r < 15000)"
proof -
  have "buildRealtimeHistogramRefreshKey p = buildRealtimeHistogramRefreshKey q"
    using assms(1-3) by (auto simp: shouldRefreshRealtimeHistogram_def split: if_splits)
  then have "key_fields p = key_fields q"
    using key_fields_of_key [OF assms(4)] key_fields_of_key [OF assms(5)] by metis
  then show ?thesis
    using assms(1) by (auto simp: shouldRefreshRealtimeHistogram_def LIVE_HISTOGRAM_REFRESH_INTERVAL_MS_def
        split: if_splits)
qed

definition reused_key :: refresh_key_params where
  "reused_key = \<lparr>rk_queryText = Some '' timeout '', rk_levelFilter = Some ''error'', rk_sourceFilter = None,
                rk_extraFiltersKey = None\<rparr>"

definition reused_request :: refresh_params where
  "reused_request = \<lparr>rp_mode = Some AutoRefresh, rp_nextRequestKey = buildRealtimeHistogramRefreshKey reused_key,
     rp_lastRequestKey = buildRealtimeHistogramRefreshKey reused_key, rp_lastFetchedAt = 1000,
     rp_now = Some (Fin 9000), rp_hasHistogramData = True\<rparr>"

theorem histogram_reuse_same_request_witness:
  "key_fields reused_key = key_fields reused_key \<and> rp_hasHistogramData reused_request
   \<and> rp_mode reused_request \<noteq> Some ForceRefresh"
proof -
  have "key_fields reused_key = [''timeout'', ''error'', [], []]" by code_simp
  then have "key_plain reused_key" by (simp add: key_plain_def)
  moreover have "\<not> shouldRefreshRealtimeHistogram c reused_request" for c
    by (simp add: reused_request_def shouldRefreshRealtimeHistogram_def LIVE_HISTOGRAM_REFRESH_INTERVAL_MS_def)
  moreover have "rp_nextRequestKey reused_request = buildRealtimeHistogramRefreshKey reused_key"
    and "rp_lastRequestKey reused_request = buildRealtimeHistogramRefreshKey reused_key"
    by (simp_all add: reused_request_def)
  ultimately show ?thesis
    using histogram_reuse_same_request [of "\<lparr>now_ms = 0, host_date = (\<lambda>_. None)\<rparr>" reused_request reused_key reused_key] by blast
qed

section \<open>Aggregation lemmas\<close>

text \<open>The log entries a row of the table stands for, and how many it hides.\<close>

definition row_entries :: "display_log \<Rightarrow> entry_detail list" where
  "row_entries row = (case dl_aggregated row of None \<Rightarrow> [detail_of (log_entry.truncate row)] | Some a \<Rightarrow> ag_entries a)"

definition row_hidden :: "display_log \<Rightarrow> nat" where
  "row_hidden row = (case dl_aggregated row of None \<Rightarrow> 0 | Some a \<Rightarrow> ag_count a - 1)"

definition row_ok :: "display_log \<Rightarrow> bool" where
  "row_ok row \<longleftrightarrow> (case dl_aggregated row of None \<Rightarrow> True
      | Some a \<Rightarrow> 3 \<le> ag_count a \<and> ag_count a = length (ag_entries a))"

lemma row_shown_alone [simp]:
  "row_entries (shown_alone e) = [detail_of e]" "row_hidden (shown_alone e) = 0" "row_ok (shown_alone e)"
  "dl_aggregated (shown_alone e) = None"
  by (simp_all add: row_entries_def row_hidden_def row_ok_def shown_alone_def log_entry.defs detail_of_def)

lemma row_aggregated [simp]:
  "row_entries (buildAggregatedLogEntry c g d) = map detail_of g"
  "row_hidden (buildAggregatedLogEntry c g d) = length g - 1"
  "row_ok (buildAggregatedLogEntry c g d) \<longleftrightarrow> 3 \<le> length g"
  "dl_aggregated (buildAggregatedLogEntry c g d) \<noteq> None"
  by (simp_all add: row_entries_def row_hidden_def row_ok_def buildAggregatedLogEntry_def Let_def log_entry.defs)

lemma summarize_eq:
  "summarizeImageAggregation rows
     = (length (filter (\<lambda>r. dl_aggregated r \<noteq> None) rows), sum_list (map row_hidden rows))"
proof -
  have "fold (\<lambda>e (groupedRows, hiddenRows). case dl_aggregated e of None \<Rightarrow> (groupedRows, hiddenRows)
          | Some a \<Rightarrow> (groupedRows + 1, hiddenRows + (ag_count a - 1))) rows (x, y)
        = (x + length (filter (\<lambda>r. dl_aggregated r \<noteq> None) rows), y + sum_list (map row_hidden rows))" for x y
    by (induction rows arbitrary: x y) (auto simp: row_hidden_def split: option.split)
  then show ?thesis by (simp add: summarizeImageAggregation_def)
qed

lemma map_shown_alone:
  "concat (map row_entries (map shown_alone es)) = map detail_of es"
  "sum_list (map row_hidden (map shown_alone es)) = 0"
  "list_all row_ok (map shown_alone es)"
  by (induction es) simp_all

lemma aggregate_step:
  fixes c :: clock and rows :: "display_log list"
  assumes "rows = (if MIN_IMAGE_BURST_SIZE \<le> length g then [buildAggregatedLogEntry c g d] else map shown_alone g)"
  shows "concat (map row_entries rows) = map detail_of g" and "list_all row_ok rows"
    and "length rows + sum_list (map row_hidden rows) = length g"
  using assms map_shown_alone [of g] by (auto simp: MIN_IMAGE_BURST_SIZE_def)

lemma aggregate_keeps:
  "concat (map row_entries (aggregateRealtimeDisplayLogs c logs)) = map detail_of logs
   \<and> list_all row_ok (aggregateRealtimeDisplayLogs c logs)
   \<and> length (aggregateRealtimeDisplayLogs c logs) + sum_list (map row_hidden (aggregateRealtimeDisplayLogs c logs))
     = length logs"
proof (induction c logs rule: aggregateRealtimeDisplayLogs.induct)
  case (2 c current logs)
  show ?case
  proof (cases "extractImageAssetDescriptor c current")
    case None
    with 2(1) show ?thesis by simp
  next
    case (Some d)
    let ?P = "same_burst c (buildImageBurstGroupKey current d)"
    let ?g = "current # takeWhile ?P logs"
    have split: "logs = takeWhile ?P logs @ dropWhile ?P logs" by simp
    then have "length logs = length (takeWhile ?P logs) + length (dropWhile ?P logs)"
      by (metis length_append)
    moreover have "map detail_of logs = map detail_of (takeWhile ?P logs) @ map detail_of (dropWhile ?P logs)"
      by (metis map_append split)
    moreover note 2(2) [OF Some refl refl] aggregate_step [OF refl, of ?g c d]
    ultimately show ?thesis using Some by (simp add: Let_def)
  qed
qed simp

text \<open>grouping image requests in the table loses no log: the entries behind the rows are, in order, exactly
  the logs given; a grouped row counts its entries and has at least three; and the two numbers of the summary
  are the grouped rows and the difference between logs and rows.\<close>

theorem aggregation_lossless:
  "concat (map row_entries (aggregateRealtimeDisplayLogs c logs)) = map detail_of logs
   \<and> list_all (\<lambda>r. case dl_aggregated r of None \<Rightarrow> True
       | Some a \<Rightarrow> ag_count a = length (ag_entries a) \<and> 3 \<le> ag_count a) (aggregateRealtimeDisplayLogs c logs)
   \<and> summarizeImageAggregation (aggregateRealtimeDisplayLogs c logs)
     = (length (filter (\<lambda>r. dl_aggregated r \<noteq> None) (aggregateRealtimeDisplayLogs c logs)),
        length logs - length (aggregateRealtimeDisplayLogs c logs))"
  using aggregate_keeps [of c logs]
  by (auto simp: summarize_eq list_all_iff row_ok_def split: option.splits)

section \<open>Range lemmas\<close>

lemma visible_range:
  fixes xs :: "'a list" and page pageSize :: int
  defines "shown \<equiv> pg_items (toPagedResult xs page pageSize)"
    and "r \<equiv> resolveSearchPageVisibleRange (Fin (of_nat (length xs))) (Fin (of_int page)) (Fin (of_int pageSize))
             (Fin (of_nat (length (pg_items (toPagedResult xs page pageSize)))))"
  shows "hasSearchPageVisibleRange r = (shown \<noteq> []) \<and> js_slice (nat (vr_start r - 1)) (nat (vr_end r)) xs = shown"
proof (cases "shown = []")
  case True
  then show ?thesis
    by (simp add: shown_def r_def resolveSearchPageVisibleRange_def hasSearchPageVisibleRange_def floor_at_least_def
        js_slice_def)
next
  case False
  define p k where "p = nat (max 1 page) - 1" and "k = nat (max 1 pageSize)"
  have pk: "max 1 page = int p + 1" "max 1 pageSize = int k" by (simp_all add: p_def k_def)
  have shown: "shown = take k (drop (p * k) xs)"
    by (simp add: shown_def toPagedResult_def Let_def js_slice_def p_def k_def)
  with False have "xs \<noteq> []" by auto
  have r: "r = \<lparr>vr_start = int (p * k) + 1, vr_end = int (p * k + length shown)\<rparr>"
    using False \<open>xs \<noteq> []\<close> by (simp add: r_def resolveSearchPageVisibleRange_def floor_at_least_def Let_def pk
        flip: shown_def)
  have "take (length shown) (drop (p * k) xs) = shown"
    by (simp add: shown min_def)
  with r False show ?thesis
    by (auto simp: hasSearchPageVisibleRange_def js_slice_def nat_add_distrib nat_mult_distrib Suc_le_eq)
qed

text \<open>the line "showing m-n" tells the truth about a page: for a page the store cut out of a list, the range
  computed from the page's own numbers is shown exactly when the page has entries, and then entries m to n
  of the list are the page.\<close>

theorem visible_range_truthful:
  "let shown = pg_items (toPagedResult xs page pageSize);
       r = resolveSearchPageVisibleRange (Fin (of_nat (length xs))) (Fin (of_int page)) (Fin (of_int pageSize))
             (Fin (of_nat (length shown)))
   in hasSearchPageVisibleRange r = (shown \<noteq> []) \<and> js_slice (nat (vr_start r - 1)) (nat (vr_end r)) xs = shown"
  unfolding Let_def by (rule visible_range)

end
