(* ===== verification/Ingest_Paths.thy ===== *)
theory Ingest_Paths
  imports Api_Client Js_Regex Zh_Text
begin

text \<open>
  The pull sources of the ingestion pages: when the path patterns of two sources overlap
  (\<open>pages/ingestion/accessWizardHelpers.ts\<close>) and how a source is shown
  (\<open>pages/ingestion/sourceManagementDisplay.ts\<close>).

  A path pattern is a glob; the code turns it into a regular expression, the model into the pattern that
  expression stands for. The argument \<open>engine\<close> is the regular expression engine for the one case the
  model does not read: a bracket that contains a backslash, whose end and meaning are the engine's.
\<close>

section \<open>Pull sources\<close>

record pull_source =
  ps_source_id :: string
  ps_name :: string
  ps_host :: string
  ps_port :: jsnum
  ps_protocol :: string
  ps_path :: string
  ps_auth :: string
  ps_agent_base_url :: "string option"
  ps_pull_interval_sec :: jsnum
  ps_pull_timeout_sec :: jsnum
  ps_key_ref :: "string option"
  ps_status :: string
  ps_created_at :: string
  ps_updated_at :: string

section \<open>Globs\<close>

definition splitSourcePathPatterns :: "string \<Rightarrow> string list" where
  "splitSourcePathPatterns raw = filter (\<lambda>x. x \<noteq> []) (map trim (split_on '','' raw))"

definition is_wild :: "char \<Rightarrow> bool" where
  "is_wild c \<longleftrightarrow> c = CHR ''*'' \<or> c = CHR ''?'' \<or> c = CHR ''[''"

definition hasWildcard :: "string \<Rightarrow> bool" where
  "hasWildcard pat \<longleftrightarrow> list_ex is_wild pat"

definition patternStaticPrefix :: "string \<Rightarrow> string" where
  "patternStaticPrefix pat = takeWhile (\<lambda>c. \<not> is_wild c) pat"

text \<open>The pieces of a glob, in the order of the loop that builds the expression.\<close>

datatype glob_item = Any_Run | Any_Char | Bracket "string list" | Exactly string

function glob_items :: "string list \<Rightarrow> glob_item list" where
  "glob_items [] = []"
| "glob_items (c # cs) =
     (if c = ''*'' then Any_Run # glob_items cs
      else if c = ''?'' then Any_Char # glob_items cs
      else if c = ''['' then
        (let content = takeWhile (\<lambda>d. d \<noteq> '']'') cs; rest = dropWhile (\<lambda>d. d \<noteq> '']'') cs
         in if rest = [] \<or> content = [] then Exactly c # glob_items cs
            else Bracket content # glob_items (tl rest))
      else Exactly c # glob_items cs)"
  by pat_completeness auto
termination
  by (relation "measure length")
    (simp_all add: less_Suc_eq_le order.trans [OF diff_le_self length_dropWhile_le])

text \<open>The members of a bracket: single characters and ranges; a range in the wrong order is a syntax error.\<close>

fun bracket_ranges :: "string list \<Rightarrow> (nat \<times> nat) list option" where
  "bracket_ranges [] = Some []"
| "bracket_ranges [a] = Some [(code_point a, code_point a)]"
| "bracket_ranges [a, b] = Some [(code_point a, code_point a), (code_point b, code_point b)]"
| "bracket_ranges (a # b # c # cs) =
     (if b = ''-'' then
        (if code_point a \<le> code_point c then map_option (Cons (code_point a, code_point c)) (bracket_ranges cs)
         else None)
      else map_option (Cons (code_point a, code_point a)) (bracket_ranges (b # c # cs)))"

definition in_ranges :: "(nat \<times> nat) list \<Rightarrow> string \<Rightarrow> bool" where
  "in_ranges rs c \<longleftrightarrow> list_ex (\<lambda>(a, b). a \<le> code_point c \<and> code_point c \<le> b) rs"

definition bracket_class :: "string list \<Rightarrow> (string \<Rightarrow> bool) option" where
  "bracket_class content =
     (case content of
        [] \<Rightarrow> Some (\<lambda>_. False)
      | x # xs \<Rightarrow>
          if x = ''^'' then map_option (\<lambda>rs c. \<not> in_ranges rs c) (bracket_ranges xs)
          else map_option in_ranges (bracket_ranges (x # xs)))"

definition item_class :: "glob_item \<Rightarrow> (string \<Rightarrow> bool) option" where
  "item_class g =
     (case g of
        Any_Run \<Rightarrow> Some (\<lambda>c. \<not> line_terminator c)
      | Any_Char \<Rightarrow> Some (\<lambda>c. \<not> line_terminator c)
      | Bracket content \<Rightarrow> bracket_class content
      | Exactly c \<Rightarrow> Some (\<lambda>d. d = c))"

fun items_rx :: "glob_item list \<Rightarrow> rx option" where
  "items_rx [] = Some End_Input"
| "items_rx (g # gs) =
     (case (item_class g, items_rx gs) of
        (Some P, Some r) \<Rightarrow> Some (Seq (if g = Any_Run then rx_star (Cls P) else Cls P) r)
      | _ \<Rightarrow> None)"

definition buildGlobRegExp :: "string \<Rightarrow> rx option" where
  "buildGlobRegExp pat = map_option (Seq Begin_Input) (items_rx (glob_items (js_chars pat)))"

definition escapes :: "glob_item list \<Rightarrow> bool" where
  "escapes gs \<longleftrightarrow> list_ex (\<lambda>g. case g of Bracket content \<Rightarrow> [CHR 0x5C] \<in> set content | _ \<Rightarrow> False) gs"

type_synonym regexp_engine = "string \<Rightarrow> string \<Rightarrow> bool"

definition glob_test :: "regexp_engine \<Rightarrow> string \<Rightarrow> string \<Rightarrow> bool" where
  "glob_test engine pat path =
     (if escapes (glob_items (js_chars pat)) then engine pat path
      else case buildGlobRegExp pat of None \<Rightarrow> False | Some r \<Rightarrow> rx_test r path)"

section \<open>Overlap\<close>

definition patternOverlaps :: "regexp_engine \<Rightarrow> string \<Rightarrow> string \<Rightarrow> bool" where
  "patternOverlaps engine left right =
     (let normalizedLeft = trim left; normalizedRight = trim right
      in if normalizedLeft = [] \<or> normalizedRight = [] then True
         else if normalizedLeft = normalizedRight then True
         else (let leftHasWildcard = hasWildcard normalizedLeft; rightHasWildcard = hasWildcard normalizedRight
               in if \<not> leftHasWildcard \<and> \<not> rightHasWildcard then False
                  else if leftHasWildcard \<and> \<not> rightHasWildcard then glob_test engine normalizedLeft normalizedRight
                  else if \<not> leftHasWildcard \<and> rightHasWildcard then glob_test engine normalizedRight normalizedLeft
                  else (let leftPrefix = patternStaticPrefix normalizedLeft;
                            rightPrefix = patternStaticPrefix normalizedRight
                        in if leftPrefix = [] \<or> rightPrefix = [] then True
                           else startsWith leftPrefix rightPrefix \<or> startsWith rightPrefix leftPrefix)))"

definition pullSourcePathsOverlap :: "regexp_engine \<Rightarrow> string \<Rightarrow> string \<Rightarrow> bool" where
  "pullSourcePathsOverlap engine leftPath rightPath =
     (let leftPatterns = splitSourcePathPatterns leftPath; rightPatterns = splitSourcePathPatterns rightPath
      in if leftPatterns = [] \<or> rightPatterns = [] then True
         else list_ex (\<lambda>l. list_ex (patternOverlaps engine l) rightPatterns) leftPatterns)"

definition strip_slashes :: "string \<Rightarrow> string" where
  "strip_slashes s = rev (dropWhile (\<lambda>c. c = CHR ''/'') (rev s))"

definition normalizeAgentBaseUrl :: "string option \<Rightarrow> string" where
  "normalizeAgentBaseUrl raw = strip_slashes (toLowerCase (trim (nullish raw [])))"

record overlap_candidate =
  oc_agent_base_url :: "string option"
  oc_path :: string
  oc_status :: "string option"

definition conflicts_with :: "regexp_engine \<Rightarrow> string \<Rightarrow> string \<Rightarrow> pull_source \<Rightarrow> bool" where
  "conflicts_with engine candidateIdentity path s \<longleftrightarrow>
     toLowerCase (trim (ps_status s)) = ''active''
     \<and> normalizeAgentBaseUrl (ps_agent_base_url s) = candidateIdentity
     \<and> pullSourcePathsOverlap engine path (ps_path s)"

definition findOverlappingActivePullSource ::
    "regexp_engine \<Rightarrow> pull_source list \<Rightarrow> overlap_candidate \<Rightarrow> pull_source option" where
  "findOverlappingActivePullSource engine existingSources candidate =
     (if toLowerCase (trim (nullish (oc_status candidate) ''active'')) \<noteq> ''active'' then None
      else (let candidateIdentity = normalizeAgentBaseUrl (oc_agent_base_url candidate)
            in if candidateIdentity = [] then None
               else find (conflicts_with engine candidateIdentity (oc_path candidate)) existingSources))"

definition buildPullSourceOverlapMessage :: "pull_source option \<Rightarrow> string" where
  "buildPullSourceOverlapMessage conflict =
     (case conflict of
        None \<Rightarrow> zh_overlap_generic
      | Some s \<Rightarrow> zh_overlap_source @ ps_name s @ zh_overlap_path @ ps_path s @ zh_overlap_advice)"

definition buildPullSourceSavedAsPausedMessage :: "pull_source option \<Rightarrow> string \<Rightarrow> string" where
  "buildPullSourceSavedAsPausedMessage conflict savedSourceName =
     (case conflict of
        None \<Rightarrow> zh_saved_config @ savedSourceName @ zh_saved_paused
      | Some s \<Rightarrow> zh_saved_conflict @ ps_name s @ zh_saved_conflict_mid @ savedSourceName @ zh_saved_conflict_end)"

section \<open>Agents in a list\<close>

record agent_item =
  ai_agent_id :: string
  ai_agent_base_url :: "string option"
  ai_host :: "string option"
  ai_hostname :: "string option"
  ai_status :: string
  ai_live_connected :: bool

definition buildAgentOptionValue :: "agent_item \<Rightarrow> string" where
  "buildAgentOptionValue a = trim (ai_agent_id a) @ ''@@'' @ normalizeAgentBaseUrl (ai_agent_base_url a)"

definition buildAgentOptionLabel :: "agent_item \<Rightarrow> string" where
  "buildAgentOptionLabel a =
     (let primary = or_str (nullish (ai_hostname a) [])
            (or_str (nullish (ai_host a) []) (or_str (ai_agent_id a) zh_unknown_agent));
          endpoint = or_str (trim (nullish (ai_agent_base_url a) [])) zh_no_endpoint;
          status = (if ai_live_connected a then ai_status a @ zh_slash_online else ai_status a)
      in primary @ zh_dot_sep @ endpoint @ '' ('' @ status @ '')'')"

section \<open>Showing a source\<close>

datatype source_display_type = File_Log | Http_Source | Syslog_Source | Tcp_Source

definition compactSourceID :: "string \<Rightarrow> string" where
  "compactSourceID sourceID =
     (let normalized = trim sourceID
      in if js_length normalized \<le> 18 then normalized
         else js_take 8 normalized @ zh_ellipsis @ js_take_last 8 normalized)"

text \<open>\<open>(^|,)\s*\<close> before a literal.\<close>

definition list_start :: "string \<Rightarrow> rx" where
  "list_start s = rx_seq [rx_alt [Begin_Input, rx_char (CHR '','')], rx_star rx_space, rx_lit_i s]"

definition json_log_char :: "string \<Rightarrow> bool" where
  "json_log_char c \<longleftrightarrow> ascii_class (\<lambda>x. x = CHR ''-'' \<or> x = CHR ''_'' \<or> is_alnum x) c"

definition filesystem_patterns :: "rx list" where
  "filesystem_patterns =
     [list_start ''/var/log/'', list_start ''/host-'', list_start ''/tmp/'',
      Seq (rx_lit_i ''*.log'') Word_Boundary, Seq (rx_lit_i ''.log'') Word_Boundary,
      rx_seq [rx_lit ''*/*'', rx_star (Cls json_log_char), rx_lit_i ''json.log'', Word_Boundary]]"

definition looksLikeFilesystemPath :: "string \<Rightarrow> bool" where
  "looksLikeFilesystemPath path =
     (let normalized = trim path
      in if normalized = [] then False
         else startsWith normalized ''./'' \<or> startsWith normalized ''../'' \<or> startsWith normalized ''~/''
              \<or> list_ex (\<lambda>r. rx_test r normalized) filesystem_patterns)"

definition inferSourceDisplayType :: "string \<Rightarrow> string \<Rightarrow> source_display_type" where
  "inferSourceDisplayType protocol0 path =
     (let protocol = toLowerCase (trim protocol0)
      in if protocol = ''syslog_tcp'' \<or> protocol = ''syslog_udp'' then Syslog_Source
         else if protocol = ''tcp'' then Tcp_Source
         else if protocol = ''ssh'' \<or> protocol = ''sftp'' then File_Log
         else if looksLikeFilesystemPath path then File_Log
         else Http_Source)"

fun display_type_name :: "source_display_type \<Rightarrow> string" where
  "display_type_name File_Log = ''File / Log''"
| "display_type_name Http_Source = ''HTTP''"
| "display_type_name Syslog_Source = ''Syslog''"
| "display_type_name Tcp_Source = ''TCP''"

definition sourceDisplayTypeToFilterGroup :: "string \<Rightarrow> string \<Rightarrow> string" where
  "sourceDisplayTypeToFilterGroup protocol path =
     (let displayType = inferSourceDisplayType protocol path
      in if displayType = File_Log then ''File'' else display_type_name displayType)"

definition getSourceDisplayIcon :: "string \<Rightarrow> string \<Rightarrow> string" where
  "getSourceDisplayIcon protocol path =
     (let displayType = inferSourceDisplayType protocol path
      in if displayType = File_Log then ''description''
         else if displayType = Syslog_Source then ''dns''
         else if displayType = Tcp_Source then ''cable''
         else ''public'')"

definition splitSourcePaths :: "string \<Rightarrow> string list" where
  "splitSourcePaths path = filter (\<lambda>x. x \<noteq> []) (map trim (split_on '','' (trim path)))"

record path_summary =
  su_label :: string
  su_extraCount :: nat
  su_fullText :: string

definition summarizeSourcePath :: "string \<Rightarrow> path_summary" where
  "summarizeSourcePath path =
     (let paths = splitSourcePaths path
      in if paths = [] then \<lparr>su_label = zh_dash, su_extraCount = 0, su_fullText = zh_dash\<rparr>
         else \<lparr>su_label = hd paths, su_extraCount = length paths - 1, su_fullText = join [CHR 0x0A] paths\<rparr>)"

section \<open>Globs: the reference reading\<close>

text \<open>What a glob says about a path, without regular expressions.\<close>

definition fits :: "glob_item \<Rightarrow> string \<Rightarrow> bool" where
  "fits g c = (case item_class g of None \<Rightarrow> False | Some P \<Rightarrow> P c)"

fun glob_match :: "glob_item list \<Rightarrow> string list \<Rightarrow> bool" where
  "glob_match [] cs = (cs = [])"
| "glob_match (g # gs) cs =
     (if g = Any_Run
      then glob_match gs cs \<or> (case cs of [] \<Rightarrow> False | c # r \<Rightarrow> \<not> line_terminator c \<and> glob_match (g # gs) r)
      else (case cs of [] \<Rightarrow> False | c # r \<Rightarrow> fits g c \<and> glob_match gs r))"

text \<open>Whether a pattern, or one of a comma separated list, covers a path.\<close>

definition covers_pattern :: "string \<Rightarrow> string \<Rightarrow> bool" where
  "covers_pattern pat path =
     (if hasWildcard pat then glob_match (glob_items (js_chars pat)) (js_chars path) else path = pat)"

definition covers :: "string \<Rightarrow> string \<Rightarrow> bool" where
  "covers raw path = list_ex (\<lambda>pat. covers_pattern pat path) (splitSourcePathPatterns raw)"

definition plain_globs :: "string \<Rightarrow> bool" where
  "plain_globs raw = list_all (\<lambda>pat. \<not> escapes (glob_items (js_chars pat))) (splitSourcePathPatterns raw)"

section \<open>The regular expression of a glob\<close>

lemma star_ahead:
  "length (ahead p) < n \<Longrightarrow>
   ahead ` set (repeat (step_char P) n 0 None p) = {drop k (ahead p) | k. k \<le> length (takeWhile P (ahead p))}"
proof (induction n arbitrary: p)
  case (Suc n)
  show ?case
  proof (cases "ahead p")
    case Nil
    then show ?thesis by (simp add: step_char_def)
  next
    case (Cons c r)
    let ?q = "p\<lparr>behind := c # behind p, ahead := r\<rparr>"
    show ?thesis
    proof (cases "P c")
      case True
      have "ahead ` set (repeat (step_char P) n 0 None ?q) = {drop k r | k. k \<le> length (takeWhile P r)}"
        using Suc.IH [of ?q] Suc.prems Cons by simp
      then have "ahead ` set (repeat (step_char P) (Suc n) 0 None p)
          = insert (c # r) {drop k r | k. k \<le> length (takeWhile P r)}"
        using Cons True by (simp add: step_char_def)
      also have "\<dots> = {drop k (c # r) | k. k \<le> Suc (length (takeWhile P r))}"
      proof (intro equalityI subsetI)
        fix x assume "x \<in> insert (c # r) {drop k r | k. k \<le> length (takeWhile P r)}"
        then consider "x = drop 0 (c # r)" | k where "x = drop (Suc k) (c # r)" "k \<le> length (takeWhile P r)" by auto
        then show "x \<in> {drop k (c # r) | k. k \<le> Suc (length (takeWhile P r))}"
          by cases (blast intro: le0, metis (mono_tags, lifting) Suc_le_mono mem_Collect_eq)
      next
        fix x assume "x \<in> {drop k (c # r) | k. k \<le> Suc (length (takeWhile P r))}"
        then obtain k where "x = drop k (c # r)" "k \<le> Suc (length (takeWhile P r))" by blast
        then show "x \<in> insert (c # r) {drop k r | k. k \<le> length (takeWhile P r)}" by (cases k) auto
      qed
      finally show ?thesis using Cons True by simp
    qed (simp add: Cons step_char_def)
  qed
qed simp

lemma run_match:
  "glob_match (Any_Run # gs) cs
     \<longleftrightarrow> (\<exists>k \<le> length (takeWhile (\<lambda>c. \<not> line_terminator c) cs). glob_match gs (drop k cs))"
proof (induction cs)
  case (Cons c r)
  show ?case
  proof (cases "line_terminator c")
    case False
    have "(\<exists>k \<le> Suc (length (takeWhile (\<lambda>c. \<not> line_terminator c) r)). glob_match gs (drop k (c # r)))
        \<longleftrightarrow> glob_match gs (c # r) \<or> (\<exists>k \<le> length (takeWhile (\<lambda>c. \<not> line_terminator c) r). glob_match gs (drop k r))"
      (is "?L = ?R")
    proof
      assume ?L
      then obtain k where "k \<le> Suc (length (takeWhile (\<lambda>c. \<not> line_terminator c) r))" "glob_match gs (drop k (c # r))" by blast
      then show ?R by (cases k) auto
    next
      assume ?R
      then show ?L by (metis Suc_le_mono drop0 drop_Suc_Cons le0)
    qed
    then show ?thesis using Cons.IH False by simp
  qed simp
qed simp

lemma items_outcomes:
  "items_rx gs = Some r \<Longrightarrow> outcomes r p \<noteq> [] \<longleftrightarrow> glob_match gs (ahead p)"
proof (induction gs arbitrary: r p)
  case (Cons g gs)
  then obtain P r' where P: "item_class g = Some P" and r': "items_rx gs = Some r'"
    and r: "r = Seq (if g = Any_Run then rx_star (Cls P) else Cls P) r'"
    by (auto split: option.splits)
  note IH = Cons.IH [OF r']
  show ?case
  proof (cases "g = Any_Run")
    case True
    with P have "P = (\<lambda>c. \<not> line_terminator c)" by (simp add: item_class_def)
    moreover have "outcomes r p \<noteq> [] \<longleftrightarrow>
        (\<exists>v \<in> ahead ` set (repeat (step_char P) (length (ahead p) + 1) 0 None p). glob_match gs v)"
      using True IH by (auto simp: r rx_star_def simp del: repeat.simps)
    ultimately show ?thesis
      unfolding True run_match by (simp add: star_ahead del: repeat.simps) blast
  next
    case False
    then show ?thesis
      using IH P by (auto simp: r step_char_def fits_def split: list.split)
  qed
qed auto

lemma items_rx_None: "items_rx gs = None \<Longrightarrow> \<not> glob_match gs cs"
proof (induction gs arbitrary: cs)
  case (Cons g gs)
  show ?case
  proof (cases "item_class g")
    case None
    then have "g \<noteq> Any_Run" by (auto simp: item_class_def)
    then show ?thesis using None by (subst glob_match.simps) (simp add: fits_def split: list.split)
  next
    case (Some P)
    with Cons.prems have "items_rx gs = None" by (auto split: option.splits)
    with Cons.IH have no: "\<not> glob_match gs ds" for ds by blast
    show ?thesis
    proof (cases "g = Any_Run")
      case True
      show ?thesis unfolding True run_match using no by blast
    next
      case False
      then show ?thesis by (subst glob_match.simps) (simp add: no split: list.split)
    qed
  qed
qed simp

lemma search_anchored: "search (Seq Begin_Input r) (c # pre) post = None"
  by (induction post arbitrary: c pre) (simp_all add: first_outcome_def)

lemma anchored_test: "rx_test (Seq Begin_Input r) s \<longleftrightarrow> outcomes r \<lparr>behind = [], ahead = js_chars s, captures = []\<rparr> \<noteq> []"
  by (cases "js_chars s")
    (auto simp: rx_test_def rx_match_def first_outcome_def search_anchored split: list.split)

text \<open>The regular expression the code builds matches exactly the paths of the glob.\<close>

lemma glob_test_match:
  "\<not> escapes (glob_items (js_chars pat)) \<Longrightarrow>
     glob_test engine pat path = glob_match (glob_items (js_chars pat)) (js_chars path)"
  using items_outcomes [of "glob_items (js_chars pat)"] items_rx_None [of "glob_items (js_chars pat)"]
  by (auto simp: glob_test_def buildGlobRegExp_def anchored_test split: option.split)

section \<open>Overlap lemmas\<close>

definition wild_item :: "string \<Rightarrow> bool" where
  "wild_item c \<longleftrightarrow> c = ''*'' \<or> c = ''?'' \<or> c = ''[''"

lemma items_prefix:
  "glob_match (glob_items cs) xs \<Longrightarrow> prefix (takeWhile (\<lambda>c. \<not> wild_item c) cs) xs"
proof (induction cs arbitrary: xs)
  case (Cons c cs)
  show ?case
  proof (cases "wild_item c")
    case False
    then have "glob_items (c # cs) = Exactly c # glob_items cs" by (auto simp: wild_item_def)
    with Cons.prems obtain r where "xs = c # r" "glob_match (glob_items cs) r"
      by (auto simp: fits_def item_class_def split: list.splits)
    with Cons.IH False show ?thesis by simp
  qed simp
qed simp

lemma static_prefix_chars:
  "prefix (takeWhile (\<lambda>c. \<not> is_wild c) (concat cs)) (concat (takeWhile (\<lambda>c. \<not> wild_item c) cs))"
proof (induction cs)
  case (Cons c cs)
  consider (wild) "wild_item c" | (inner) "\<not> wild_item c" "\<exists>x \<in> set c. is_wild x"
    | (plain) "\<not> wild_item c" "\<forall>x \<in> set c. \<not> is_wild x" by blast
  then show ?case
  proof cases
    case wild
    then show ?thesis by (auto simp: wild_item_def is_wild_def)
  next
    case inner
    then have "takeWhile (\<lambda>c. \<not> is_wild c) (c @ concat cs) = takeWhile (\<lambda>c. \<not> is_wild c) c"
      by (auto intro: takeWhile_append1)
    with inner show ?thesis
      by (simp add: takeWhile_is_prefix prefix_order.trans [OF _ prefixI])
  next
    case plain
    then show ?thesis using Cons by (simp add: takeWhile_append2)
  qed
qed simp

lemma static_prefix:
  "glob_match (glob_items (js_chars pat)) (js_chars path) \<Longrightarrow> prefix (patternStaticPrefix pat) path"
proof -
  assume "glob_match (glob_items (js_chars pat)) (js_chars path)"
  then have "prefix (takeWhile (\<lambda>c. \<not> wild_item c) (js_chars pat)) (js_chars path)" by (rule items_prefix)
  then obtain u where "js_chars path = takeWhile (\<lambda>c. \<not> wild_item c) (js_chars pat) @ u" by (auto simp: prefix_def)
  then have "path = concat (takeWhile (\<lambda>c. \<not> wild_item c) (js_chars pat)) @ concat u"
    by (metis concat_append concat_js_chars)
  moreover have "prefix (patternStaticPrefix pat) (concat (takeWhile (\<lambda>c. \<not> wild_item c) (js_chars pat)))"
    using static_prefix_chars [of "js_chars pat"] by (simp add: patternStaticPrefix_def)
  ultimately show ?thesis by (metis prefix_def prefix_order.trans)
qed

lemma covering_patterns_overlap:
  assumes "covers_pattern l path" and "covers_pattern r path"
    and "\<not> escapes (glob_items (js_chars l))" and "\<not> escapes (glob_items (js_chars r))"
    and "trim l = l" and "trim r = r"
  shows "patternOverlaps engine l r"
proof -
  consider (left) "hasWildcard l" "\<not> hasWildcard r" | (right) "\<not> hasWildcard l" "hasWildcard r"
    | (none) "\<not> hasWildcard l" "\<not> hasWildcard r" | (both) "hasWildcard l" "hasWildcard r" by blast
  then show ?thesis
  proof cases
    case both
    then have "prefix (patternStaticPrefix l) path" "prefix (patternStaticPrefix r) path"
      using assms by (simp_all add: covers_pattern_def static_prefix)
    then have "startsWith (patternStaticPrefix l) (patternStaticPrefix r)
        \<or> startsWith (patternStaticPrefix r) (patternStaticPrefix l)"
      unfolding startsWith_prefix by (rule prefix_same_cases [THEN disj_commute [THEN iffD1]])
    then show ?thesis using assms both by (simp add: patternOverlaps_def Let_def)
  qed (use assms in \<open>auto simp: covers_pattern_def patternOverlaps_def Let_def glob_test_match\<close>)
qed

lemma split_patterns_trim: "p \<in> set (splitSourcePathPatterns raw) \<Longrightarrow> trim p = p"
  by (auto simp: splitSourcePathPatterns_def)

lemma covering_paths_overlap:
  assumes "covers l path" and "covers r path" and "plain_globs l" and "plain_globs r"
  shows "pullSourcePathsOverlap engine l r"
proof -
  from assms obtain p q where "p \<in> set (splitSourcePathPatterns l)" "q \<in> set (splitSourcePathPatterns r)"
    "covers_pattern p path" "covers_pattern q path"
    and "\<not> escapes (glob_items (js_chars p))" "\<not> escapes (glob_items (js_chars q))"
    by (auto simp: covers_def plain_globs_def list_ex_iff list_all_iff)
  then show ?thesis
    using covering_patterns_overlap [of p path q engine] split_patterns_trim
    by (auto simp: pullSourcePathsOverlap_def Let_def list_ex_iff)
qed

text \<open>no file is collected twice unnoticed: when an active source of the same agent covers a path that the
  new active source covers too (globs read as \<open>*\<close>, \<open>?\<close> and brackets without backslashes), the check of the
  wizard reports a conflict, and what it reports is an active source of that agent.\<close>

theorem overlap_never_missed:
  assumes "s \<in> set sources" and "toLowerCase (trim (ps_status s)) = ''active''"
    and "toLowerCase (trim (nullish (oc_status cand) ''active'')) = ''active''"
    and "normalizeAgentBaseUrl (ps_agent_base_url s) = normalizeAgentBaseUrl (oc_agent_base_url cand)"
    and "normalizeAgentBaseUrl (oc_agent_base_url cand) \<noteq> []"
    and "covers (ps_path s) path" and "covers (oc_path cand) path"
    and "plain_globs (ps_path s)" and "plain_globs (oc_path cand)"
  shows "\<exists>t. findOverlappingActivePullSource engine sources cand = Some t \<and> t \<in> set sources
     \<and> toLowerCase (trim (ps_status t)) = ''active''
     \<and> normalizeAgentBaseUrl (ps_agent_base_url t) = normalizeAgentBaseUrl (oc_agent_base_url cand)"
proof -
  have "conflicts_with engine (normalizeAgentBaseUrl (oc_agent_base_url cand)) (oc_path cand) s"
    using assms covering_paths_overlap by (simp add: conflicts_with_def)
  with assms(1) have "find (conflicts_with engine (normalizeAgentBaseUrl (oc_agent_base_url cand)) (oc_path cand)) sources
      \<noteq> None" by (auto simp: find_None_iff)
  then obtain t where t: "find (conflicts_with engine (normalizeAgentBaseUrl (oc_agent_base_url cand)) (oc_path cand))
      sources = Some t" by blast
  from find_SomeD [OF this] show ?thesis
    using t assms by (auto simp: findOverlappingActivePullSource_def conflicts_with_def)
qed

definition sample_source :: pull_source where
  "sample_source = \<lparr>ps_source_id = ''s1'', ps_name = ''nginx'', ps_host = ''h'', ps_port = Fin 9091, ps_protocol = ''http'',
     ps_path = ''/var/log/app?.log, /srv/[a-c]*.log'', ps_auth = [], ps_agent_base_url = Some ''http://Agent:9091/'',
     ps_pull_interval_sec = Fin 30, ps_pull_timeout_sec = Fin 30, ps_key_ref = None, ps_status = ''active'',
     ps_created_at = [], ps_updated_at = []\<rparr>"

definition sample_candidate :: overlap_candidate where
  "sample_candidate = \<lparr>oc_agent_base_url = Some ''http://agent:9091'', oc_path = ''/srv/*.log'', oc_status = None\<rparr>"

theorem overlap_never_missed_witness:
  "\<exists>t. findOverlappingActivePullSource (\<lambda>_ _. False) [sample_source] sample_candidate = Some t"
proof -
  have "covers (ps_path sample_source) ''/srv/b1.log''" "covers (oc_path sample_candidate) ''/srv/b1.log''"
    "plain_globs (ps_path sample_source)" "plain_globs (oc_path sample_candidate)"
    "toLowerCase (trim (ps_status sample_source)) = ''active''"
    "toLowerCase (trim (nullish (oc_status sample_candidate) ''active'')) = ''active''"
    "normalizeAgentBaseUrl (ps_agent_base_url sample_source) = normalizeAgentBaseUrl (oc_agent_base_url sample_candidate)"
    "normalizeAgentBaseUrl (oc_agent_base_url sample_candidate) \<noteq> []"
    by code_simp+
  with overlap_never_missed [of sample_source "[sample_source]" sample_candidate "''/srv/b1.log''" "\<lambda>_ _. False"]
  show ?thesis by auto
qed

end
