(* ===== verification/Alert_Prefill.thy ===== *)
theory Alert_Prefill
  imports Query_Stats
begin

text \<open>
  Alert rules made from detected anomalies (\<open>utils/alertRulePrefill.ts\<close>): the draft, its way through the
  session storage to the rule page, the metadata written into a rule's description, and the notification
  channels suggested for it; and the recognition of test alerts (\<open>utils/localAlertArtifacts.ts\<close>).

  \<open>lc\<close> is the sign of \<open>localeCompare\<close> for the locale zh-CN.
\<close>

section \<open>Types of alerting\<close>

datatype alert_severity = Sev_Critical | Sev_High | Sev_Medium | Sev_Low

datatype condition_operator = Op_gt | Op_lt | Op_eq | Op_gte | Op_lte | Op_ne

fun alert_severity_name :: "alert_severity \<Rightarrow> string" where
  "alert_severity_name Sev_Critical = ''critical''"
| "alert_severity_name Sev_High = ''high''"
| "alert_severity_name Sev_Medium = ''medium''"
| "alert_severity_name Sev_Low = ''low''"

fun operator_name :: "condition_operator \<Rightarrow> string" where
  "operator_name Op_gt = ''gt''"
| "operator_name Op_lt = ''lt''"
| "operator_name Op_eq = ''eq''"
| "operator_name Op_gte = ''gte''"
| "operator_name Op_lte = ''lte''"
| "operator_name Op_ne = ''ne''"

record notification_channel =
  nc_id :: string
  nc_name :: string
  nc_type :: string
  nc_config :: json
  nc_enabled :: bool
  nc_createdAt :: jsnum
  nc_updatedAt :: jsnum

section \<open>The draft of a rule\<close>

definition ALERT_RULE_DRAFT_STORAGE_KEY :: string where
  "ALERT_RULE_DRAFT_STORAGE_KEY = ''nexuslog-pending-alert-rule-draft''"

record rule_draft =
  rd_name :: string
  rd_description :: string
  rd_severity :: alert_severity
  rd_conditionMetric :: string
  rd_conditionOperator :: condition_operator
  rd_conditionThreshold :: rat
  rd_owner :: string
  rd_labels :: "string list"
  rd_notificationChannelIDs :: "string list"

definition normalizeSeverity :: "string \<Rightarrow> alert_severity" where
  "normalizeSeverity v =
     (if v = ''critical'' then Sev_Critical else if v = ''high'' then Sev_High
      else if v = ''medium'' then Sev_Medium else if v = ''low'' then Sev_Low else Sev_Medium)"

definition roundThreshold :: "jsnum \<Rightarrow> rat" where
  "roundThreshold v =
     (case v of Fin q \<Rightarrow> if q \<le> 0 then 1 else of_int (js_round (q * 100)) / 100 | _ \<Rightarrow> 1)"

fun anomaly_severity_name :: "anomaly_severity \<Rightarrow> string" where
  "anomaly_severity_name CriticalAnomaly = ''critical''"
| "anomaly_severity_name HighAnomaly = ''high''"
| "anomaly_severity_name MediumAnomaly = ''medium''"
| "anomaly_severity_name LowAnomaly = ''low''"

definition resolveOperator :: "anomaly \<Rightarrow> condition_operator" where
  "resolveOperator a =
     (if js_includes (trim (an_title a)) zh_sudden_drop \<or> an_actual a < an_expected a then Op_lte else Op_gte)"

definition resolveThreshold :: "anomaly \<Rightarrow> condition_operator \<Rightarrow> rat" where
  "resolveThreshold a operator =
     (let actual = max 0 (an_actual a); expected = max 0 (an_expected a)
      in if operator = Op_lte then
           (if 0 < actual \<and> 0 < expected then roundThreshold (Fin (max actual (expected * (25 / 100))))
            else if 0 < expected then roundThreshold (Fin (expected * (25 / 100)))
            else 1)
         else if 0 < actual then roundThreshold (Fin actual)
         else if 0 < expected then roundThreshold (Fin (expected * (12 / 10)))
         else 1)"

definition buildAlertRuleDraftFromAnomaly :: "anomaly \<Rightarrow> rule_draft" where
  "buildAlertRuleDraftFromAnomaly a =
     (let service = or_str (trim (an_service a)) ''global'';
          metric = or_str (trim (an_metric a)) ''log_volume'';
          operator = resolveOperator a;
          severity = normalizeSeverity (anomaly_severity_name (an_severity a));
          detailParts =
            [zh_draft_source, zh_draft_service @ service, zh_draft_metric @ metric, zh_draft_time @ an_timestamp a,
             zh_draft_description @ trim (an_description a)]
            @ (if trim (an_root_cause a) \<noteq> [] then [zh_draft_advice @ trim (an_root_cause a)] else [])
      in \<lparr>rd_name = zh_draft_title @ trim (an_title a) @ '' - '' @ service,
          rd_description = join zh_semicolon detailParts, rd_severity = severity, rd_conditionMetric = metric,
          rd_conditionOperator = operator, rd_conditionThreshold = resolveThreshold a operator, rd_owner = service,
          rd_labels = [''source:anomaly_detection'', ''service:'' @ service, ''metric:'' @ metric,
                       ''severity:'' @ alert_severity_name severity],
          rd_notificationChannelIDs = []\<rparr>)"

section \<open>Metadata in a description\<close>

definition normalizeLabelList :: "string list \<Rightarrow> string list" where
  "normalizeLabelList labels = js_uniq (filter (\<lambda>l. l \<noteq> []) (map trim labels))"

definition composeAlertRuleDescription :: "string \<Rightarrow> string \<Rightarrow> string list \<Rightarrow> string" where
  "composeAlertRuleDescription body0 owner0 labels0 =
     (let body = trim body0; owner = trim owner0; labels = normalizeLabelList labels0
      in if owner = [] \<and> labels = [] then body
         else trim (join [CHR 0x0A]
           ([zh_rule_metadata]
            @ (if owner \<noteq> [] then [zh_rule_owner @ owner] else [])
            @ (if labels \<noteq> [] then [zh_rule_labels @ join '', '' labels] else [])
            @ [''---'']
            @ (if body \<noteq> [] then [body] else []))))"

text \<open>\<open>split(/\r?\n/)\<close> and \<open>split(/[\<dots>,]/)\<close> with the full-width comma.\<close>

definition drop_cr :: "string \<Rightarrow> string" where
  "drop_cr l = (if l \<noteq> [] \<and> last l = CHR 0x0D then butlast l else l)"

definition split_lines :: "string \<Rightarrow> string list" where
  "split_lines s = (let ls = split_on [CHR 0x0A] s in map drop_cr (butlast ls) @ [last ls])"

definition split_commas :: "string \<Rightarrow> string list" where
  "split_commas s = concat (map (split_on zh_comma) (split_on '','' s))"

record parsed_description =
  pd_body :: string
  pd_owner :: string
  pd_labels :: "string list"

text \<open>The loop over the lines of the metadata; the last component holds the lines of the body once the rule
  line has been met.\<close>

fun read_metadata :: "string list \<Rightarrow> string \<Rightarrow> string list \<Rightarrow> string \<times> string list \<times> string list option" where
  "read_metadata [] owner labels = (owner, labels, None)"
| "read_metadata (raw # rest) owner labels =
     (let line = trim raw
      in if line = [] then read_metadata rest owner labels
         else if line = ''---'' then (owner, labels, Some rest)
         else if startsWith line zh_rule_owner
              then read_metadata rest (trim (drop (length zh_rule_owner) line)) labels
         else if startsWith line zh_rule_labels
              then read_metadata rest owner (normalizeLabelList (split_commas (drop (length zh_rule_labels) line)))
         else read_metadata rest owner labels)"

definition parseAlertRuleDescription :: "string \<Rightarrow> parsed_description" where
  "parseAlertRuleDescription rawDescription =
     (let description = trim rawDescription
      in if \<not> startsWith description zh_rule_metadata
         then \<lparr>pd_body = description, pd_owner = [], pd_labels = []\<rparr>
         else (case read_metadata (tl (split_lines description)) [] [] of
                 (owner, labels, rest) \<Rightarrow>
                   \<lparr>pd_body = (case rest of None \<Rightarrow> [] | Some ls \<Rightarrow> trim (join [CHR 0x0A] ls)),
                    pd_owner = owner, pd_labels = labels\<rparr>))"

section \<open>Suggested channels\<close>

definition notificationChannelScore :: "notification_channel \<Rightarrow> string list \<Rightarrow> nat" where
  "notificationChannelScore ch hints =
     (let haystack = toLowerCase (nc_name ch @ '' '' @ nc_type ch);
          hit = \<lambda>hint. (let h = toLowerCase (trim hint) in h \<noteq> [] \<and> js_includes haystack h)
      in 3 * length (filter hit hints)
         + 2 * length (filter (js_includes haystack) [''alert'', ''alarm'', zh_alarm, zh_abnormal, zh_on_duty, ''oncall''])
         + (if nc_enabled ch then 1 else 0) + (if nc_type ch = ''dingtalk'' then 1 else 0)
         + (if nc_type ch = ''email'' then 1 else 0))"

definition ranked_before ::
    "(string \<Rightarrow> string \<Rightarrow> int) \<Rightarrow> notification_channel \<times> nat \<Rightarrow> notification_channel \<times> nat \<Rightarrow> bool" where
  "ranked_before lc l r \<longleftrightarrow>
     (if snd l \<noteq> snd r then snd r < snd l else lc (nc_name (fst l)) (nc_name (fst r)) \<le> 0)"

definition resolveSuggestedNotificationChannelIDs ::
    "(string \<Rightarrow> string \<Rightarrow> int) \<Rightarrow> rule_draft \<Rightarrow> notification_channel list \<Rightarrow> string list" where
  "resolveSuggestedNotificationChannelIDs lc draft channels =
     (if rd_notificationChannelIDs draft \<noteq> [] then rd_notificationChannelIDs draft
      else (let enabledChannels = filter nc_enabled channels
            in if enabledChannels = [] then []
               else (let hints = rd_owner draft # rd_labels draft @ [rd_conditionMetric draft, rd_name draft];
                         ranked = js_sort (ranked_before lc)
                           (map (\<lambda>ch. (ch, notificationChannelScore ch hints)) enabledChannels);
                         positive = map (nc_id \<circ> fst) (take 2 (filter (\<lambda>x. 1 < snd x) ranked))
                     in if positive \<noteq> [] then positive else [nc_id (hd enabledChannels)])))"

section \<open>Handing a draft over\<close>

definition json_of_draft :: "rule_draft \<Rightarrow> json" where
  "json_of_draft d =
     JObj [(''source'', JStr ''anomaly_detection''), (''name'', JStr (rd_name d)),
           (''description'', JStr (rd_description d)), (''ruleType'', JStr ''threshold''),
           (''severity'', JStr (alert_severity_name (rd_severity d))),
           (''conditionMetric'', JStr (rd_conditionMetric d)),
           (''conditionOperator'', JStr (operator_name (rd_conditionOperator d))),
           (''conditionThreshold'', JNum (rd_conditionThreshold d)), (''owner'', JStr (rd_owner d)),
           (''labels'', JArr (map JStr (rd_labels d))),
           (''notificationChannelIDs'', JArr (map JStr (rd_notificationChannelIDs d)))]"

definition savePendingAlertRuleDraft :: "rule_draft \<Rightarrow> browser \<Rightarrow> browser" where
  "savePendingAlertRuleDraft d b = writeStorageValue Session ALERT_RULE_DRAFT_STORAGE_KEY (stringify (json_of_draft d)) b"

definition operator_of :: "json option \<Rightarrow> condition_operator" where
  "operator_of v =
     (if v = Some (JStr ''lte'') then Op_lte else if v = Some (JStr ''lt'') then Op_lt
      else if v = Some (JStr ''eq'') then Op_eq else if v = Some (JStr ''ne'') then Op_ne
      else if v = Some (JStr ''gt'') then Op_gt else Op_gte)"

definition strings_of :: "json option \<Rightarrow> string list" where
  "strings_of v = (case v of Some (JArr xs) \<Rightarrow> map js_String xs | _ \<Rightarrow> [])"

definition draft_of_json :: "json \<Rightarrow> rule_draft" where
  "draft_of_json parsed =
     (let field = json_field (Some parsed)
      in \<lparr>rd_name = trim (string_or_empty (field ''name'')),
          rd_description = trim (string_or_empty (field ''description'')),
          rd_severity = normalizeSeverity (trim (js_String
             (nullish (nullish_json (field ''severity'') (Some (JStr ''medium''))) JNull))),
          rd_conditionMetric = trim (string_or_empty (field ''conditionMetric'')),
          rd_conditionOperator = operator_of (field ''conditionOperator''),
          rd_conditionThreshold = roundThreshold (or_num (num_of_json (field ''conditionThreshold'')) (Fin 0)),
          rd_owner = trim (string_or_empty (field ''owner'')),
          rd_labels = normalizeLabelList (strings_of (field ''labels'')),
          rd_notificationChannelIDs =
            js_uniq (filter (\<lambda>s. s \<noteq> []) (map trim (strings_of (field ''notificationChannelIDs''))))\<rparr>)"

definition consumePendingAlertRuleDraft :: "browser \<Rightarrow> rule_draft option \<times> browser" where
  "consumePendingAlertRuleDraft b =
     (let raw = nullish (map_option trim (readStorageValue b Session ALERT_RULE_DRAFT_STORAGE_KEY)) []
      in if raw = [] then (None, b)
         else (let b' = removeStorageValue Session ALERT_RULE_DRAFT_STORAGE_KEY b
               in case parse raw of
                    None \<Rightarrow> (None, b')
                  | Some parsed \<Rightarrow> if \<not> truthy (Some parsed) then (None, b') else (Some (draft_of_json parsed), b')))"

section \<open>Test alerts\<close>

definition LOCAL_ALERT_ARTIFACT_MARKERS :: "string list" where
  "LOCAL_ALERT_ARTIFACT_MARKERS =
     [''local-host-token-alert'', ''local-fullchain-'', ''local-e2e-'', ''nexuslog_local_'', ''nexuslog_alert_e2e_'',
      ''bootstrap token'', ''local e2e keyword alert'', ''local post-patch e2e alert'']"

definition isLocalAlertArtifact :: "string option list \<Rightarrow> bool" where
  "isLocalAlertArtifact flds =
     (let fingerprint = toLowerCase (join [CHR 0x0A]
            (filter (\<lambda>s. s \<noteq> [] \<and> trim s \<noteq> []) (List.map_filter id flds)))
      in if fingerprint = [] then False
         else list_ex (js_includes fingerprint) LOCAL_ALERT_ARTIFACT_MARKERS)"

section \<open>Lemmas on text\<close>

definition utf8_start :: "string \<Rightarrow> bool" where
  "utf8_start s \<longleftrightarrow> s = [] \<or> \<not> utf8_continuation (hd s)"

lemma wide_ws_tail: "w \<in> set wide_ws \<Longrightarrow> c \<in> set (tl w) \<Longrightarrow> utf8_continuation c"
proof -
  have "list_all (\<lambda>w. list_all utf8_continuation (tl w)) wide_ws" by code_simp
  then show "w \<in> set wide_ws \<Longrightarrow> c \<in> set (tl w) \<Longrightarrow> utf8_continuation c" by (auto simp: list_all_iff)
qed

lemma ws_last_eq_0_iff:
  "ws_last s = 0 \<longleftrightarrow> s = [] \<or> (if (of_char (last s) :: nat) < 128 then \<not> ascii_ws (last s)
     else (\<forall>w \<in> set wide_ws. \<not> endsWith s w))"
proof -
  have "(case find (endsWith s) wide_ws of None \<Rightarrow> 0 | Some w \<Rightarrow> length w) = 0
      \<longleftrightarrow> (\<forall>w \<in> set wide_ws. \<not> endsWith s w)"
    using Nil_notin_wide_ws
    by (auto simp: find_None_iff find_Some_iff split: option.splits) (metis nth_mem)+
  then show ?thesis by (simp add: ws_last_def)
qed

text \<open>What follows a whole character decides how a text ends.\<close>

lemma ws_last_append:
  assumes "t \<noteq> []" and "utf8_start t" and "ws_last t = 0"
  shows "ws_last (s @ t) = 0"
proof -
  have "\<not> endsWith (s @ t) w" if w: "w \<in> set wide_ws" and "\<not> endsWith t w" for w
  proof
    assume "endsWith (s @ t) w"
    then obtain u where "s @ t = u @ w" by (auto simp: endsWith_iff)
    then obtain v where "u = s @ v \<and> t = v @ w \<or> s = u @ v \<and> w = v @ t" by (auto simp: append_eq_append_conv2)
    with \<open>\<not> endsWith t w\<close> have v: "w = v @ t" by (auto simp: endsWith_iff)
    have "v \<noteq> []" using v \<open>\<not> endsWith t w\<close> by (auto simp: endsWith_iff)
    with v assms(1) have "hd t \<in> set (tl w)" by (cases v) auto
    with wide_ws_tail [OF w] assms(1,2) show False by (simp add: utf8_start_def)
  qed
  with assms show ?thesis by (auto simp: ws_last_eq_0_iff)
qed

lemma trim_append:
  "ws_head (s @ t) = 0 \<Longrightarrow> t \<noteq> [] \<Longrightarrow> utf8_start t \<Longrightarrow> trim t = t \<Longrightarrow> trim (s @ t) = s @ t"
  by (rule trim_id, assumption, rule ws_last_append) (use ws_last_trim [of t] in auto)

lemma trim_before_space: "trim ('' '' @ s) = trim s"
  by (simp add: trim_def, subst trimStart.simps, simp add: ws_head_def ascii_ws_def)

lemma split_on_absent: "sep \<noteq> [] \<Longrightarrow> \<not> js_includes s sep \<Longrightarrow> split_on sep s = [s]"
  by (subst split_on.simps) (simp add: indexOf_None_iff [THEN iffD2])

lemma split_on_pieces: "x \<in> set (split_on [c] s) \<Longrightarrow> c \<notin> set x"
proof (induction "length s" arbitrary: s rule: less_induct)
  case less
  show ?case
  proof (cases "c \<in> set s")
    case True
    then have "length (tl (dropWhile (\<lambda>d. d \<noteq> c) s)) < length s"
      by (cases s) (auto simp: less_Suc_eq_le order.trans [OF diff_le_self length_dropWhile_le])
    with less(1) have IH: "x \<in> set (split_on [c] (tl (dropWhile (\<lambda>d. d \<noteq> c) s))) \<Longrightarrow> c \<notin> set x" by blast
    have "split_on [c] s = takeWhile (\<lambda>d. d \<noteq> c) s # split_on [c] (tl (dropWhile (\<lambda>d. d \<noteq> c) s))"
      using True by (subst split_on_single) simp
    with less.prems IH show ?thesis by (auto dest: set_takeWhileD)
  next
    case False
    with less.prems show ?thesis by (subst (asm) split_on_single) auto
  qed
qed

lemma join_comma_space: "join '', '' (x # xs) = join '','' (x # map (\<lambda>y. '' '' @ y) xs)"
  by (induction xs arbitrary: x) (auto simp: join_Cons)

lemma in_set_join: "c \<in> set (join sep xs) \<Longrightarrow> c \<in> set sep \<or> (\<exists>x \<in> set xs. c \<in> set x)"
  by (induction sep xs rule: join.induct) auto

section \<open>Lemmas on descriptions\<close>

text \<open>Texts the metadata can carry: one line; one line without either comma; several lines.\<close>

definition inline_text :: "string \<Rightarrow> bool" where
  "inline_text s \<longleftrightarrow> utf8_start s \<and> CHR 0x0A \<notin> set s \<and> CHR 0x0D \<notin> set s"

definition label_text :: "string \<Rightarrow> bool" where
  "label_text s \<longleftrightarrow> inline_text s \<and> CHR '','' \<notin> set s \<and> \<not> js_includes s zh_comma"

definition block_text :: "string \<Rightarrow> bool" where
  "block_text s \<longleftrightarrow> utf8_start s \<and> CHR 0x0D \<notin> set s"

lemma normalizeLabelList_ok: "distinct ls \<Longrightarrow> (\<forall>l \<in> set ls. l \<noteq> [] \<and> trim l = l) \<Longrightarrow> normalizeLabelList ls = ls"
  by (simp add: normalizeLabelList_def map_idI filter_id_conv js_uniq_distinct)

lemma normalizeLabelList_props:
  "distinct (normalizeLabelList ls)" "l \<in> set (normalizeLabelList ls) \<Longrightarrow> l \<noteq> [] \<and> trim l = l"
  by (auto simp: normalizeLabelList_def)

lemma concat_singletons: "(\<And>y. y \<in> set ys \<Longrightarrow> f y = [y]) \<Longrightarrow> concat (map f ys) = ys"
  by (induction ys) simp_all

lemma zh_comma_head: "zh_comma \<noteq> []" "\<not> startsWith ('' '' @ l) zh_comma"
proof -
  have z: "zh_comma = [CHR 0xEF, CHR 0xBC, CHR 0x8C]" by code_simp
  show "zh_comma \<noteq> []" "\<not> startsWith ('' '' @ l) zh_comma" unfolding z by simp_all
qed

lemma split_commas_join:
  assumes "ls \<noteq> []" and "\<forall>l \<in> set ls. label_text l"
  shows "split_commas (join '', '' ls) = hd ls # map (\<lambda>y. '' '' @ y) (tl ls)"
proof -
  obtain x xs where ls: "ls = x # xs" using assms(1) by (cases ls) auto
  have "split_on '','' (join '','' (x # map (\<lambda>y. '' '' @ y) xs)) = x # map (\<lambda>y. '' '' @ y) xs"
    using assms(2) by (intro split_on_join) (auto simp: ls label_text_def)
  moreover have "split_on zh_comma l = [l]" "split_on zh_comma ('' '' @ l) = ['' '' @ l]" if "l \<in> set ls" for l
  proof -
    from assms(2) that zh_comma_head show "split_on zh_comma l = [l]" "split_on zh_comma ('' '' @ l) = ['' '' @ l]"
      by (auto intro!: split_on_absent simp: label_text_def)
  qed
  then have "concat (map (split_on zh_comma) (x # map (\<lambda>y. '' '' @ y) xs)) = x # map (\<lambda>y. '' '' @ y) xs"
    by (intro concat_singletons) (auto simp: ls)
  ultimately show ?thesis using ls unfolding split_commas_def by (simp only: join_comma_space list.sel)
qed

lemma labels_read_back:
  assumes "ls \<noteq> []" and "\<forall>l \<in> set ls. label_text l" and "ls = normalizeLabelList raw"
  shows "normalizeLabelList (split_commas (join '', '' ls)) = ls"
proof -
  have "map trim (split_commas (join '', '' ls)) = map trim ls"
    using split_commas_join [OF assms(1,2)] assms(1) by (cases ls) (auto simp: trim_before_space [simplified])
  moreover have "normalizeLabelList ls = ls"
    using normalizeLabelList_props normalizeLabelList_ok assms(3) by metis
  ultimately show ?thesis unfolding normalizeLabelList_def by simp
qed

lemma marker_facts:
  "zh_rule_metadata \<noteq> []" "CHR 0x0A \<notin> set zh_rule_metadata" "CHR 0x0D \<notin> set zh_rule_metadata"
  "CHR 0x0A \<notin> set zh_rule_owner" "CHR 0x0D \<notin> set zh_rule_owner"
  "CHR 0x0A \<notin> set zh_rule_labels" "CHR 0x0D \<notin> set zh_rule_labels"
  by code_simp+

lemma marker_heads:
  "ws_head (zh_rule_owner @ s) = 0" "ws_head (zh_rule_labels @ s) = 0" "ws_head (zh_rule_metadata @ s) = 0"
  "zh_rule_owner @ s \<noteq> ''---''" "zh_rule_labels @ s \<noteq> ''---''" "zh_rule_owner \<noteq> []" "zh_rule_labels \<noteq> []"
  "\<not> startsWith (zh_rule_labels @ s) zh_rule_owner"
proof -
  have z: "zh_rule_owner = [CHR 0xE8, CHR 0xB4, CHR 0x9F, CHR 0xE8, CHR 0xB4, CHR 0xA3, CHR 0xE4, CHR 0xBA, CHR 0xBA,
      CHR 0xEF, CHR 0xBC, CHR 0x9A]" by code_simp
  have y: "zh_rule_labels = [CHR 0xE6, CHR 0xA0, CHR 0x87, CHR 0xE7, CHR 0xAD, CHR 0xBE, CHR 0xEF, CHR 0xBC, CHR 0x9A]"
    by code_simp
  have "hd zh_rule_metadata = CHR ''[''" by code_simp
  then show "ws_head (zh_rule_metadata @ s) = 0"
    using marker_facts(1) by (simp add: ws_head_eq_0_iff ascii_ws_def)
  show "ws_head (zh_rule_owner @ s) = 0" unfolding z by (simp add: ws_head_eq_0_iff wide_ws_def)
  show "ws_head (zh_rule_labels @ s) = 0" unfolding y by (simp add: ws_head_eq_0_iff wide_ws_def)
  show "zh_rule_owner @ s \<noteq> ''---''" "zh_rule_owner \<noteq> []" unfolding z by simp_all
  show "zh_rule_labels @ s \<noteq> ''---''" "zh_rule_labels \<noteq> []" unfolding y by simp_all
  show "\<not> startsWith (zh_rule_labels @ s) zh_rule_owner" unfolding z y by simp
qed

definition owner_lines :: "string \<Rightarrow> string list" where
  "owner_lines owner = (if owner \<noteq> [] then [zh_rule_owner @ owner] else [])"

definition label_lines :: "string list \<Rightarrow> string list" where
  "label_lines labels = (if labels \<noteq> [] then [zh_rule_labels @ join '', '' labels] else [])"

definition body_lines :: "string \<Rightarrow> string list" where
  "body_lines body = (if body \<noteq> [] then split_on [CHR 0x0A] body else [])"

lemma read_owner:
  assumes "trim owner = owner" and "utf8_start owner"
  shows "read_metadata (owner_lines owner @ rest) [] ls = read_metadata rest owner ls"
proof (cases "owner = []")
  case False
  then have "trim (zh_rule_owner @ owner) = zh_rule_owner @ owner"
    using assms trim_append marker_heads(1) by blast
  with False assms(1) show ?thesis by (simp add: owner_lines_def marker_heads Let_def)
qed (simp add: owner_lines_def)

lemma join_last: "xs \<noteq> [] \<Longrightarrow> \<exists>u. join sep xs = u @ last xs"
  by (induction sep xs rule: join.induct) (auto simp: join_Cons split: if_splits intro: exI [of _ "[]"])

lemma utf8_start_last:
  assumes "ls \<noteq> []" and "\<forall>l \<in> set ls. l \<noteq> [] \<and> trim l = l \<and> utf8_start l" and "\<And>t. ws_head (s @ t) = 0"
  shows "trim (s @ join sep ls) = s @ join sep ls"
proof -
  obtain u where u: "join sep ls = u @ last ls" using join_last assms(1) by blast
  have "trim ((s @ u) @ last ls) = (s @ u) @ last ls"
    by (rule trim_append) (use assms in \<open>simp_all\<close>)
  with u show ?thesis by simp
qed

lemma read_labels:
  assumes "labels = normalizeLabelList raw" and "\<forall>l \<in> set labels. label_text l"
  shows "read_metadata (label_lines labels @ rest) owner [] = read_metadata rest owner labels"
proof (cases "labels = []")
  case False
  have "\<forall>l \<in> set labels. l \<noteq> [] \<and> trim l = l \<and> utf8_start l"
    using assms normalizeLabelList_props(2) by (auto simp: label_text_def inline_text_def)
  then have "trim (zh_rule_labels @ join '', '' labels) = zh_rule_labels @ join '', '' labels"
    using utf8_start_last [of labels zh_rule_labels "'', ''"] False marker_heads(2) by simp
  moreover have "normalizeLabelList (split_commas (join '', '' labels)) = labels"
    using labels_read_back [of labels raw] False assms by blast
  ultimately show ?thesis using False by (simp add: label_lines_def marker_heads Let_def)
qed (simp add: label_lines_def)

lemma drop_cr_id: "CHR 0x0D \<notin> set l \<Longrightarrow> drop_cr l = l"
  by (auto simp: drop_cr_def dest: last_in_set)

lemma set_join_piece: "x \<in> set xs \<Longrightarrow> set x \<subseteq> set (join sep xs)"
  by (induction sep xs rule: join.induct) auto

lemma split_lines_join:
  assumes "ls \<noteq> []" and "\<forall>l \<in> set ls. CHR 0x0A \<notin> set l \<and> CHR 0x0D \<notin> set l"
  shows "split_lines (join [CHR 0x0A] ls) = ls"
proof -
  have "split_on [CHR 0x0A] (join [CHR 0x0A] ls) = ls" using assms by (intro split_on_join) auto
  moreover have "map drop_cr (butlast ls) = butlast ls"
    using assms(2) by (auto intro!: map_idI drop_cr_id dest: in_set_butlastD)
  ultimately show ?thesis using assms(1) by (simp add: split_lines_def Let_def)
qed

lemma body_lines_join: "join [CHR 0x0A] (body_lines body) = body"
  by (simp add: body_lines_def join_split_on)

lemma join_append: "xs \<noteq> [] \<Longrightarrow> ys \<noteq> [] \<Longrightarrow> join sep (xs @ ys) = join sep xs @ sep @ join sep ys"
  by (induction sep xs rule: join.induct) (auto simp: join_Cons)

text \<open>The composed text: its lines, with the body's lines in the place of the body.\<close>

definition description_lines :: "string \<Rightarrow> string list \<Rightarrow> string \<Rightarrow> string list" where
  "description_lines owner labels body =
     zh_rule_metadata # owner_lines owner @ label_lines labels @ [''---''] @ body_lines body"

lemma composed_text:
  assumes "trim owner0 \<noteq> [] \<or> normalizeLabelList labels0 \<noteq> []" and "utf8_start (trim body0)"
  shows "composeAlertRuleDescription body0 owner0 labels0
    = join [CHR 0x0A] (description_lines (trim owner0) (normalizeLabelList labels0) (trim body0))"
proof -
  let ?h = "zh_rule_metadata # owner_lines (trim owner0) @ label_lines (normalizeLabelList labels0) @ [''---'']"
  let ?b = "if trim body0 \<noteq> [] then [trim body0] else []"
  have "join [CHR 0x0A] (?h @ ?b) = join [CHR 0x0A] (?h @ body_lines (trim body0))"
    by (cases "trim body0 = []") (simp_all add: join_append body_lines_def join_split_on split_on_not_Nil del: append_Cons)
  moreover have "trim (join [CHR 0x0A] (?h @ ?b)) = join [CHR 0x0A] (?h @ ?b)"
  proof -
    let ?l = "(if trim body0 \<noteq> [] then trim body0 else ''---'')"
    have "\<exists>u. join [CHR 0x0A] (?h @ ?b) = zh_rule_metadata @ u @ ?l"
      using join_last [of "owner_lines (trim owner0) @ label_lines (normalizeLabelList labels0) @ [''---''] @ ?b" "[CHR 0x0A]"]
      by (auto simp: join_Cons)
    then obtain u where u: "join [CHR 0x0A] (?h @ ?b) = zh_rule_metadata @ u @ ?l" by blast
    have dash: "trim ''---'' = ''---''" "utf8_start ''---''" by code_simp+
    have "trim ((zh_rule_metadata @ u) @ ?l) = (zh_rule_metadata @ u) @ ?l"
      by (rule trim_append) (use assms(2) dash marker_heads(3) in auto)
    with u show ?thesis by simp
  qed
  ultimately show ?thesis using assms(1)
    by (simp add: composeAlertRuleDescription_def Let_def description_lines_def owner_lines_def label_lines_def) blast
qed

text \<open>the owner and the labels written into the description of a rule come back when the rule is edited, and so
  does the text itself: for one-line owners, labels without commas and a text without carriage returns (which, when
  there is neither owner nor label, does not itself start with the marker of the metadata), reading the composed
  description gives the trimmed owner, the normal form of the labels and the trimmed text.\<close>

theorem description_roundtrip:
  assumes "inline_text (trim owner)" and "list_all label_text (normalizeLabelList labels)" and "block_text (trim body)"
    and "trim owner \<noteq> [] \<or> normalizeLabelList labels \<noteq> [] \<or> \<not> startsWith (trim body) zh_rule_metadata"
  shows "parseAlertRuleDescription (composeAlertRuleDescription body owner labels)
    = \<lparr>pd_body = trim body, pd_owner = trim owner, pd_labels = normalizeLabelList labels\<rparr>"
proof (cases "trim owner \<noteq> [] \<or> normalizeLabelList labels \<noteq> []")
  case True
  let ?o = "trim owner" and ?ls = "normalizeLabelList labels" and ?b = "trim body"
  let ?d = "description_lines ?o ?ls ?b"
  have composed: "composeAlertRuleDescription body owner labels = join [CHR 0x0A] ?d"
    using composed_text [OF True] assms(3) by (simp add: block_text_def)
  moreover have "trim (composeAlertRuleDescription body owner labels) = composeAlertRuleDescription body owner labels"
    by (simp add: composeAlertRuleDescription_def Let_def)
  ultimately have "trim (join [CHR 0x0A] ?d) = join [CHR 0x0A] ?d" by (simp only:)
  moreover have "startsWith (join [CHR 0x0A] ?d) zh_rule_metadata"
    by (simp add: description_lines_def join_Cons)
  moreover have "split_lines (join [CHR 0x0A] ?d) = ?d"
  proof (rule split_lines_join)
    have "CHR 0x0A \<notin> set l \<and> CHR 0x0D \<notin> set l" if "l \<in> set (body_lines ?b)" for l
    proof
      from that have l: "l \<in> set (split_on [CHR 0x0A] ?b)" by (auto simp: body_lines_def split: if_splits)
      then show "CHR 0x0A \<notin> set l" by (rule split_on_pieces)
      from l have "set l \<subseteq> set ?b"
        using set_join_piece [of l _ "[CHR 0x0A]"] join_split_on [of "[CHR 0x0A]" ?b] by fastforce
      with assms(3) show "CHR 0x0D \<notin> set l" by (auto simp: block_text_def)
    qed
    moreover have "CHR 0x0A \<notin> set (join '', '' ?ls)" "CHR 0x0D \<notin> set (join '', '' ?ls)"
      using assms(2) by (auto simp: list_all_iff label_text_def inline_text_def dest!: in_set_join)
    ultimately show "\<forall>l \<in> set ?d. CHR 0x0A \<notin> set l \<and> CHR 0x0D \<notin> set l"
      using assms(1) marker_facts
      by (auto simp: description_lines_def owner_lines_def label_lines_def inline_text_def)
  qed (simp add: description_lines_def)
  moreover have "read_metadata (tl ?d) [] [] = (?o, ?ls, Some (body_lines ?b))"
  proof -
    have "trim ''---'' = ''---''" by code_simp
    with assms(1,2) show ?thesis
      by (simp add: description_lines_def read_owner read_labels inline_text_def list_all_iff Let_def)
  qed
  ultimately show ?thesis
    unfolding parseAlertRuleDescription_def composed Let_def by (simp add: body_lines_join)
next
  case False
  with assms(4) show ?thesis by (simp add: composeAlertRuleDescription_def parseAlertRuleDescription_def)
qed

theorem description_roundtrip_witness:
  "parseAlertRuleDescription (composeAlertRuleDescription ''restart it '' '' ops'' [''a'', '' b'', ''a''])
    = \<lparr>pd_body = ''restart it'', pd_owner = ''ops'', pd_labels = [''a'', ''b'']\<rparr>"
proof -
  have facts: "trim '' ops'' = ''ops''" "normalizeLabelList [''a'', '' b'', ''a''] = [''a'', ''b'']"
    "trim ''restart it '' = ''restart it''" by code_simp+
  moreover have "inline_text ''ops''" "list_all label_text [''a'', ''b'']" "block_text ''restart it''" by code_simp+
  ultimately show ?thesis
    using description_roundtrip [of "'' ops''" "[''a'', '' b'', ''a'']" "''restart it ''"] by simp
qed

section \<open>Lemmas on drafts\<close>

text \<open>Drafts in normal form, as the rule page reads them.\<close>

definition draft_ok :: "rule_draft \<Rightarrow> bool" where
  "draft_ok d \<longleftrightarrow> trim (rd_name d) = rd_name d \<and> trim (rd_description d) = rd_description d
     \<and> trim (rd_conditionMetric d) = rd_conditionMetric d \<and> trim (rd_owner d) = rd_owner d
     \<and> normalizeLabelList (rd_labels d) = rd_labels d
     \<and> normalizeLabelList (rd_notificationChannelIDs d) = rd_notificationChannelIDs d
     \<and> 0 < rd_conditionThreshold d \<and> of_int \<lfloor>rd_conditionThreshold d\<rfloor> = rd_conditionThreshold d"

lemma json_draft_wf: "of_int \<lfloor>rd_conditionThreshold d\<rfloor> = rd_conditionThreshold d \<Longrightarrow> json_wf (json_of_draft d)"
  by (auto simp: json_of_draft_def)

lemma severity_reads_back: "normalizeSeverity (trim (alert_severity_name s)) = s"
  by (cases s) (simp_all add: trim_plain plain_ends_def plain_char_def ascii_ws_def normalizeSeverity_def)

lemma operator_reads_back: "operator_of (Some (JStr (operator_name x))) = x"
  by (cases x) (simp_all add: operator_of_def)

lemma round_integral: "0 < q \<Longrightarrow> of_int \<lfloor>q\<rfloor> = q \<Longrightarrow> roundThreshold (or_num (Fin q) (Fin 0)) = q"
proof -
  assume q: "0 < q" "of_int \<lfloor>q\<rfloor> = q"
  then obtain k where k: "q = of_int k" by metis
  have "\<lfloor>(of_int k * 100 + 1 / 2 :: rat)\<rfloor> = k * 100" by linarith
  with q(1) show ?thesis by (simp add: k roundThreshold_def or_num_def js_round_def)
qed

lemma map_js_String: "map js_String (map JStr xs) = xs"
  by (simp add: comp_def)

lemma draft_reads_back:
  assumes "draft_ok d"
  shows "draft_of_json (json_of_draft d) = d"
proof -
  note o = assms [unfolded draft_ok_def normalizeLabelList_def]
  have "roundThreshold (or_num (num_of_json (Some (JNum (rd_conditionThreshold d)))) (Fin 0)) = rd_conditionThreshold d"
    using assms round_integral by (simp add: draft_ok_def num_of_json_def)
  moreover have "normalizeLabelList (strings_of (Some (JArr (map JStr xs)))) = normalizeLabelList xs" for xs
    by (simp add: strings_of_def comp_def)
  moreover have "js_uniq (filter (\<lambda>s. s \<noteq> []) (map trim (strings_of (Some (JArr (map JStr xs)))))) = normalizeLabelList xs" for xs
    by (simp add: strings_of_def comp_def normalizeLabelList_def)
  ultimately show ?thesis
    using assms severity_reads_back operator_reads_back
    by (simp add: draft_ok_def draft_of_json_def json_of_draft_def json_field_def string_or_empty_def nullish_json_def
        Let_def)
qed

text \<open>a draft reaches the rule page once: with a session storage that takes writes, reading after saving gives
  the draft as it was saved (texts trimmed, labels and channel ids without blanks and repetitions, a positive
  whole threshold), and reading again gives nothing.\<close>

theorem draft_handed_over_once:
  assumes "writable Session b" and "draft_ok d"
  shows "\<exists>b'. consumePendingAlertRuleDraft (savePendingAlertRuleDraft d b) = (Some d, b')
     \<and> consumePendingAlertRuleDraft b' = (None, b')"
proof -
  let ?b = "savePendingAlertRuleDraft d b" and ?b' = "removeStorageValue Session ALERT_RULE_DRAFT_STORAGE_KEY (savePendingAlertRuleDraft d b)"
  have w: "writable Session ?b" using assms(1) by (simp add: savePendingAlertRuleDraft_def)
  have s: "readStorageValue ?b Session ALERT_RULE_DRAFT_STORAGE_KEY = Some (stringify (json_of_draft d))"
    using assms(1) by (simp add: savePendingAlertRuleDraft_def)
  have t: "trim (stringify (json_of_draft d)) = stringify (json_of_draft d)" "stringify (json_of_draft d) \<noteq> []"
    unfolding json_of_draft_def by (rule trim_plain) (auto simp: plain_ends_def plain_char_def ascii_ws_def)
  have p: "parse (stringify (json_of_draft d)) = Some (json_of_draft d)"
    using assms(2) by (intro parse_stringify json_draft_wf) (simp add: draft_ok_def)
  have "truthy (Some (json_of_draft d))" by (simp add: truthy_def json_of_draft_def)
  with s t p have "consumePendingAlertRuleDraft ?b = (Some d, ?b')"
    by (simp add: consumePendingAlertRuleDraft_def Let_def draft_reads_back [OF assms(2)])
  moreover have "readStorageValue ?b' Session ALERT_RULE_DRAFT_STORAGE_KEY = None"
    by (simp add: readStorageValue_def removeStorageValue_def Let_def)
  then have "consumePendingAlertRuleDraft ?b' = (None, ?b')"
    by (simp add: consumePendingAlertRuleDraft_def)
  ultimately show ?thesis by blast
qed

text \<open>
  the rule drafted from an anomaly fits the anomaly: its threshold is, up to the rounding to two digits, on
  the side of the observed value that makes the condition true of it, for values that are not negative and not
  both zero (and an expectation that is positive when the title speaks of a drop).
\<close>

theorem drafted_rule_fits_anomaly:
  assumes "0 \<le> an_actual a" and "0 \<le> an_expected a" and "0 < an_actual a \<or> 0 < an_expected a"
    and "js_includes (trim (an_title a)) zh_sudden_drop \<Longrightarrow> 0 < an_expected a"
  shows "case rd_conditionOperator (buildAlertRuleDraftFromAnomaly a) of
      Op_lte \<Rightarrow> an_actual a - 1 / 200 \<le> rd_conditionThreshold (buildAlertRuleDraftFromAnomaly a)
    | Op_gte \<Rightarrow> rd_conditionThreshold (buildAlertRuleDraftFromAnomaly a) \<le> an_actual a + 1 / 200
    | _ \<Rightarrow> False"
proof -
  have round: "q - 1 / 200 \<le> roundThreshold (Fin q) \<and> roundThreshold (Fin q) \<le> q + 1 / 200" if "0 < q" for q :: rat
  proof -
    have "of_int \<lfloor>q * 100 + 1 / 2\<rfloor> \<le> q * 100 + 1 / 2" "q * 100 + 1 / 2 < of_int \<lfloor>q * 100 + 1 / 2\<rfloor> + 1"
      by (rule of_int_floor_le) linarith
    with that show ?thesis by (simp add: roundThreshold_def js_round_def)
  qed
  let ?f = "buildAlertRuleDraftFromAnomaly a"
  have f: "rd_conditionOperator ?f = resolveOperator a" "rd_conditionThreshold ?f = resolveThreshold a (resolveOperator a)"
    by (simp_all add: buildAlertRuleDraftFromAnomaly_def Let_def)
  show ?thesis
  proof (cases "js_includes (trim (an_title a)) zh_sudden_drop \<or> an_actual a < an_expected a")
    case True
    define m where "m = max (an_actual a) (an_expected a / 4)"
    have e: "0 < an_expected a" using True assms by auto
    then have "0 < m" "an_actual a \<le> m" by (auto simp: m_def)
    with round [of m] have "an_actual a - 1 / 200 \<le> roundThreshold (Fin m)" by linarith
    moreover have "an_expected a * (25 / 100) - 1 / 200 \<le> roundThreshold (Fin (an_expected a * (25 / 100)))"
      using round [of "an_expected a * (25 / 100)"] e by simp
    ultimately show ?thesis
      using True assms(1) e
      by (auto simp: f resolveOperator_def resolveThreshold_def Let_def simp flip: m_def)
  next
    case False
    with assms show ?thesis using round [of "an_actual a"]
      by (auto simp: f resolveOperator_def resolveThreshold_def Let_def)
  qed
qed

definition drop_anomaly :: anomaly where
  "drop_anomaly = \<lparr>an_id = ''a1'', an_title = zh_drop, an_description = ''few logs'', an_severity = HighAnomaly,
     an_status = ActiveAnomaly, an_timestamp = ''2024-05-01T10:00:00.000Z'', an_service = ''payment'', an_confidence = 90,
     an_metric = ''log_volume'', an_expected = 400, an_actual = 12, an_root_cause = []\<rparr>"

theorem drafted_rule_fits_anomaly_witness:
  "an_actual drop_anomaly - 1 / 200 \<le> rd_conditionThreshold (buildAlertRuleDraftFromAnomaly drop_anomaly)
   \<and> rd_conditionThreshold (buildAlertRuleDraftFromAnomaly drop_anomaly) = 100"
proof -
  have op: "rd_conditionOperator (buildAlertRuleDraftFromAnomaly drop_anomaly) = Op_lte" by code_simp
  have "an_actual drop_anomaly - 1 / 200 \<le> rd_conditionThreshold (buildAlertRuleDraftFromAnomaly drop_anomaly)"
    using drafted_rule_fits_anomaly [of drop_anomaly] by (simp add: op) (simp add: drop_anomaly_def)
  moreover have "rd_conditionThreshold (buildAlertRuleDraftFromAnomaly drop_anomaly) = 100" by code_simp
  ultimately show ?thesis by blast
qed

definition drop_draft :: rule_draft where
  "drop_draft = \<lparr>rd_name = ''drop'', rd_description = ''few logs'', rd_severity = Sev_High, rd_conditionMetric = ''log_volume'',
     rd_conditionOperator = Op_lte, rd_conditionThreshold = 100, rd_owner = ''payment'',
     rd_labels = [''service:payment''], rd_notificationChannelIDs = []\<rparr>"

theorem draft_handed_over_once_witness:
  "\<exists>b'. consumePendingAlertRuleDraft (savePendingAlertRuleDraft drop_draft \<lparr>local_area = open_area, session_area = open_area\<rparr>)
      = (Some drop_draft, b')"
proof -
  have "writable Session \<lparr>local_area = open_area, session_area = open_area\<rparr>"
    by (simp add: writable_def getStorage_def open_area_def)
  moreover have "draft_ok drop_draft" by code_simp
  ultimately show ?thesis using draft_handed_over_once [of _ drop_draft] by blast
qed

section \<open>Lemmas on suggested channels\<close>

lemma set_taken: "set (map f (take n (filter P xs))) \<subseteq> f ` set xs"
  by (auto dest: in_set_takeD)

text \<open>
  channels are suggested only among those that can be used: unless the draft names channels itself, the
  suggestion is empty exactly when no channel is enabled, has at most two entries, and each is the id of
  an enabled channel.
\<close>

theorem suggested_channels_usable:
  assumes "rd_notificationChannelIDs d = []"
    and "resolveSuggestedNotificationChannelIDs lc d channels = ids"
  shows "length ids \<le> 2 \<and> (ids = [] \<longleftrightarrow> \<not> list_ex nc_enabled channels)
    \<and> set ids \<subseteq> nc_id ` set (filter nc_enabled channels)"
proof (cases "filter nc_enabled channels")
  case Nil
  with assms show ?thesis
    by (auto simp: resolveSuggestedNotificationChannelIDs_def list_ex_iff filter_empty_conv)
next
  case (Cons c cs)
  let ?hints = "rd_owner d # rd_labels d @ [rd_conditionMetric d, rd_name d]"
  let ?ranked = "js_sort (ranked_before lc) (map (\<lambda>ch. (ch, notificationChannelScore ch ?hints)) (c # cs))"
  let ?pos = "map (nc_id \<circ> fst) (take 2 (filter (\<lambda>x. 1 < snd x) ?ranked))"
  have ids: "ids = (if ?pos \<noteq> [] then ?pos else [nc_id c])"
    using assms(1) Cons unfolding assms(2) [symmetric] resolveSuggestedNotificationChannelIDs_def Let_def
    by (simp only: list.sel if_False list.simps simp_thms)
  have "set ?pos \<subseteq> (nc_id \<circ> fst) ` set ?ranked" by (rule set_taken)
  also have "\<dots> = nc_id ` set (c # cs)" by (force simp: image_iff)
  finally have "set ids \<subseteq> nc_id ` set (filter nc_enabled channels)" unfolding ids Cons by simp
  moreover have "c \<in> set channels" "nc_enabled c"
    using Cons by (auto simp: filter_eq_Cons_iff)
  ultimately show ?thesis unfolding ids by (auto simp: list_ex_iff)
qed

definition mail_channel :: notification_channel where
  "mail_channel = \<lparr>nc_id = ''c1'', nc_name = ''ops mail'', nc_type = ''email'', nc_config = JObj [], nc_enabled = True,
     nc_createdAt = Fin 0, nc_updatedAt = Fin 0\<rparr>"

theorem suggested_channels_usable_witness:
  "length (resolveSuggestedNotificationChannelIDs (\<lambda>_ _. 0) drop_draft [mail_channel, mail_channel\<lparr>nc_enabled := False\<rparr>]) \<le> 2
   \<and> resolveSuggestedNotificationChannelIDs (\<lambda>_ _. 0) drop_draft [mail_channel, mail_channel\<lparr>nc_enabled := False\<rparr>] = [''c1'']"
  using suggested_channels_usable [of drop_draft "\<lambda>_ _. 0" "[mail_channel, mail_channel\<lparr>nc_enabled := False\<rparr>]"]
  by (simp add: drop_draft_def) code_simp

end
