(* ===== verification/Service_Request.thy ===== *)
theory Service_Request
  imports Query_Calls
begin

text \<open>
  What the clients of the other services share (the modules \<open>alert\<close>, \<open>audit\<close>, \<open>export\<close>, \<open>ingest\<close>, \<open>metrics\<close>,
  \<open>notification\<close> and \<open>storage\<close> under \<open>api/\<close>): every module has its own copy of the functions that build a request
  and read the answer; the copies agree but for the path, the name in the message, the error code and, for
  ingestion, the header with the user, which are the fields of \<open>service\<close>. The server is the one of
  Query_Request: a function of its own state and the request.

  An operation maps the browser's storage and the server's state to its outcome and the next states;
  \<open>and_then\<close> is \<open>await\<close> followed by the rest of the function. Also here: the map that forgets the key not used
  for longest, of which two modules have a copy.
\<close>

section \<open>Operations\<close>

text \<open>A step on a state \<open>'w\<close>, which may fail with an \<open>'e\<close>.\<close>

type_synonym ('w, 'e, 'r) act = "'w \<Rightarrow> ('e + 'r) \<times> 'w"

type_synonym ('s, 'r) op = "('s world, api_error, 'r) act"

definition give :: "'r \<Rightarrow> ('w, 'e, 'r) act" where
  "give r w = (Inr r, w)"

definition raise :: "'e \<Rightarrow> ('w, 'e, 'r) act" where
  "raise e w = (Inl e, w)"

definition and_then :: "('w, 'e, 'a) act \<Rightarrow> ('a \<Rightarrow> ('w, 'e, 'b) act) \<Rightarrow> ('w, 'e, 'b) act" where
  "and_then f g w = (case f w of (Inl e, w') \<Rightarrow> (Inl e, w') | (Inr a, w') \<Rightarrow> g a w')"

text \<open>A value that reading may find to be of a wrong type, which raises.\<close>

definition give_read :: "'r option \<Rightarrow> ('s, 'r) op" where
  "give_read v = (case v of None \<Rightarrow> raise BrowserError | Some r \<Rightarrow> give r)"

lemma and_then_simps [simp]:
  "and_then (give a) g = g a" "and_then (raise e) g = raise e" "and_then f give = f"
  by (auto simp: and_then_def give_def raise_def fun_eq_iff split: prod.split sum.split)

lemma and_then_assoc: "and_then (and_then f g) h = and_then f (\<lambda>a. and_then (g a) h)"
  by (auto simp: and_then_def fun_eq_iff split: prod.split sum.split)

lemma and_then_Inr:
  "and_then f g w = (Inr r, w'') \<longleftrightarrow> (\<exists>a w'. f w = (Inr a, w') \<and> g a w' = (Inr r, w''))"
  by (auto simp: and_then_def split: prod.splits sum.splits)

lemma and_then_Inl:
  "and_then f g w = (Inl e, w'') \<longleftrightarrow> f w = (Inl e, w'') \<or> (\<exists>a w'. f w = (Inr a, w') \<and> g a w' = (Inl e, w''))"
  by (auto simp: and_then_def split: prod.splits sum.splits)

section \<open>Requests\<close>

record service =
  sv_path :: string
  sv_name :: string
  sv_code :: string
  sv_user :: bool

definition service_headers :: "'s query_env \<Rightarrow> browser \<Rightarrow> service \<Rightarrow> (string, string) jsmap option" where
  "service_headers env b sv =
     (let accessToken = resolveAccessToken b
      in map_option (\<lambda>tenantId.
           let userId = (if sv_user sv then resolveStoredAuthUserID b else [])
           in [(''Content-Type'', ''application/json'')]
              @ (if tenantId \<noteq> [] then [(''X-Tenant-ID'', tenantId)] else [])
              @ (if userId \<noteq> [] then [(''X-User-ID'', userId)] else [])
              @ (if accessToken \<noteq> [] then [(''Authorization'', ''Bearer '' @ accessToken)] else []))
         (resolveTenantId (api_at env b)))"

definition service_api_request ::
    "'s query_env \<Rightarrow> browser \<Rightarrow> service \<Rightarrow> string \<Rightarrow> string \<Rightarrow> (string \<times> string option) list \<Rightarrow> json option
     \<Rightarrow> api_request option" where
  "service_api_request env b sv p method query body =
     (case base_url (api_at env b) of
        None \<Rightarrow> None
      | Some base \<Rightarrow>
          map_option (\<lambda>headers.
             \<lparr>rq_url = api_url (api_at env b) (base @ sv_path sv @ p) query, rq_method = method,
              rq_headers = headers, rq_body = body\<rparr>)
           (service_headers env b sv))"

definition failed_answer :: "service \<Rightarrow> nat \<Rightarrow> json option \<Rightarrow> api_error" where
  "failed_answer sv status envelope =
     ApiError
       (js_String (field_or envelope ''message'' (JStr (sv_name sv @ '' request failed: HTTP '' @ nat_to_string status))))
       status (js_String (field_or envelope ''code'' (JStr (sv_code sv))))"

definition empty_envelope :: json where
  "empty_envelope = JObj [(''code'', JStr ''OK''), (''message'', JStr ''success''), (''meta'', JObj [])]"

definition decode_service_answer :: "service \<Rightarrow> query_answer \<Rightarrow> api_error + json" where
  "decode_service_answer sv a =
     (case a of
        Unreachable \<Rightarrow> Inl BrowserError
      | Answer status body \<Rightarrow>
          (let envelope = envelope_of body
           in if \<not> response_ok status then Inl (failed_answer sv status envelope)
              else Inr (nullish envelope empty_envelope)))"

definition requestServiceApi ::
    "service \<Rightarrow> 's query_env \<Rightarrow> string \<Rightarrow> string \<Rightarrow> (string \<times> string option) list \<Rightarrow> json option \<Rightarrow> ('s, json) op" where
  "requestServiceApi sv env p method query body w =
     (case service_api_request env (wd_browser w) sv p method query body of
        None \<Rightarrow> (Inl BrowserError, w)
      | Some rq \<Rightarrow>
          (case qe_server env (wd_net w) rq of
             (a, s) \<Rightarrow> (decode_service_answer sv a, w\<lparr>wd_net := s\<rparr>)))"

definition alert_service :: service where
  "alert_service = \<lparr>sv_path = ''/alert'', sv_name = ''alert api'', sv_code = ''ALERT_API_REQUEST_FAILED'', sv_user = False\<rparr>"

definition audit_service :: service where
  "audit_service = \<lparr>sv_path = ''/audit'', sv_name = ''audit api'', sv_code = ''AUDIT_API_REQUEST_FAILED'', sv_user = False\<rparr>"

definition export_service :: service where
  "export_service = \<lparr>sv_path = ''/export'', sv_name = ''export api'', sv_code = ''EXPORT_API_REQUEST_FAILED'', sv_user = False\<rparr>"

definition backup_service :: service where
  "backup_service = \<lparr>sv_path = ''/backup'', sv_name = ''backup api'', sv_code = ''BACKUP_API_REQUEST_FAILED'', sv_user = False\<rparr>"

definition ingest_service :: service where
  "ingest_service = \<lparr>sv_path = ''/ingest'', sv_name = ''ingest api'', sv_code = ''INGEST_API_REQUEST_FAILED'', sv_user = True\<rparr>"

definition resource_service :: service where
  "resource_service = \<lparr>sv_path = ''/resource'', sv_name = ''resource api'', sv_code = ''RESOURCE_API_REQUEST_FAILED'', sv_user = False\<rparr>"

definition notification_service :: service where
  "notification_service = \<lparr>sv_path = ''/notification/channels'', sv_name = ''notification api'',
     sv_code = ''NOTIFICATION_API_REQUEST_FAILED'', sv_user = False\<rparr>"

definition storage_service :: service where
  "storage_service = \<lparr>sv_path = ''/storage'', sv_name = ''storage api'', sv_code = ''STORAGE_API_REQUEST_FAILED'', sv_user = False\<rparr>"

text \<open>The request functions of the modules. (That of \<open>metrics\<close> is for the thresholds.)\<close>

definition requestAlertApi ::
    "'s query_env \<Rightarrow> string \<Rightarrow> string \<Rightarrow> (string \<times> string option) list \<Rightarrow> json option \<Rightarrow> ('s, json) op" where
  "requestAlertApi = requestServiceApi alert_service"

definition requestAuditApi ::
    "'s query_env \<Rightarrow> string \<Rightarrow> string \<Rightarrow> (string \<times> string option) list \<Rightarrow> json option \<Rightarrow> ('s, json) op" where
  "requestAuditApi = requestServiceApi audit_service"

definition requestExportApi ::
    "'s query_env \<Rightarrow> string \<Rightarrow> string \<Rightarrow> (string \<times> string option) list \<Rightarrow> json option \<Rightarrow> ('s, json) op" where
  "requestExportApi = requestServiceApi export_service"

definition requestBackupApi ::
    "'s query_env \<Rightarrow> string \<Rightarrow> string \<Rightarrow> (string \<times> string option) list \<Rightarrow> json option \<Rightarrow> ('s, json) op" where
  "requestBackupApi = requestServiceApi backup_service"

definition requestIngestApi ::
    "'s query_env \<Rightarrow> string \<Rightarrow> string \<Rightarrow> (string \<times> string option) list \<Rightarrow> json option \<Rightarrow> ('s, json) op" where
  "requestIngestApi = requestServiceApi ingest_service"

definition requestResourceApi ::
    "'s query_env \<Rightarrow> string \<Rightarrow> string \<Rightarrow> (string \<times> string option) list \<Rightarrow> json option \<Rightarrow> ('s, json) op" where
  "requestResourceApi = requestServiceApi resource_service"

definition requestNotificationApi ::
    "'s query_env \<Rightarrow> string \<Rightarrow> string \<Rightarrow> (string \<times> string option) list \<Rightarrow> json option \<Rightarrow> ('s, json) op" where
  "requestNotificationApi = requestServiceApi notification_service"

definition requestStorageApi ::
    "'s query_env \<Rightarrow> string \<Rightarrow> string \<Rightarrow> (string \<times> string option) list \<Rightarrow> json option \<Rightarrow> ('s, json) op" where
  "requestStorageApi = requestServiceApi storage_service"

text \<open>Reading parts of an envelope: \<open>envelope.data\<close>, and \<open>Number(envelope.meta?.total ?? d)\<close>.\<close>

definition env_field :: "json \<Rightarrow> string \<Rightarrow> json option" where
  "env_field envelope k = nullish_json (json_field (Some envelope) k) None"

definition meta_total :: "json \<Rightarrow> nat \<Rightarrow> jsnum" where
  "meta_total envelope d = number_or (meta_field envelope ''total'') (Fin (of_nat d))"

definition int_param :: "int \<Rightarrow> string option" where
  "int_param n = Some (int_to_string n)"

text \<open>\<open>v || d\<close>, and \<open>v.toLowerCase() || d\<close>: a type error when \<open>v\<close> is neither absent nor a string.\<close>

definition or_json :: "json option \<Rightarrow> json \<Rightarrow> json" where
  "or_json v d = (case v of Some j \<Rightarrow> if truthy v then j else d | None \<Rightarrow> d)"

definition lowered_or :: "json option \<Rightarrow> string \<Rightarrow> string option" where
  "lowered_or v d =
     (case nullish_json v None of
        None \<Rightarrow> Some d
      | Some (JStr s) \<Rightarrow> Some (or_str (toLowerCase s) d)
      | Some _ \<Rightarrow> None)"

text \<open>\<open>new Date(v).getTime()\<close>, and \<open>v ? new Date(v).getTime() : d\<close>.\<close>

definition date_ms :: "clock \<Rightarrow> json \<Rightarrow> jsnum" where
  "date_ms c v =
     (case v of
        JNum q \<Rightarrow> if \<bar>q\<bar> \<le> 8640000000000000 then Fin (of_int (if 0 \<le> q then \<lfloor>q\<rfloor> else \<lceil>q\<rceil>)) else NaN
      | JBool b \<Rightarrow> Fin (if b then 1 else 0)
      | JNull \<Rightarrow> Fin 0
      | _ \<Rightarrow> (case date_of c (js_String v) of None \<Rightarrow> NaN | Some t \<Rightarrow> Fin (of_int t)))"

definition date_or :: "clock \<Rightarrow> json option \<Rightarrow> int \<Rightarrow> jsnum" where
  "date_or c v d = (if truthy v then date_ms c (nullish v JNull) else Fin (of_int d))"

text \<open>\<open>(v ?? []).map(f)\<close> for an \<open>f\<close> that may raise.\<close>

definition map_items_raising :: "(json \<Rightarrow> 'a option) \<Rightarrow> json option \<Rightarrow> 'a list option" where
  "map_items_raising f v = Option.bind (map_items (\<lambda>x _. f x) v) all_Some"

definition items_of :: "json \<Rightarrow> json list option" where
  "items_of envelope = map_items (\<lambda>item _. item) (data_field envelope ''items'')"

definition no_blank :: "string option \<Rightarrow> string" where
  "no_blank v = nullish (map_option trim v) []"

text \<open>\<open>throw new Error(text)\<close> unless the condition holds.\<close>

definition require :: "bool \<Rightarrow> string \<Rightarrow> ('w, api_error, 'r) act \<Rightarrow> ('w, api_error, 'r) act" where
  "require c msg f = (if c then f else raise (CallError msg))"

text \<open>\<open>if (!v) throw new Error(text)\<close> on a value of an answer.\<close>

definition give_truthy :: "json option \<Rightarrow> string \<Rightarrow> ('w, api_error, json) act" where
  "give_truthy v msg = (case v of Some j \<Rightarrow> (if truthy v then give j else raise (CallError msg)) | None \<Rightarrow> raise (CallError msg))"

section \<open>The least recently used key is forgotten\<close>

text \<open>Keys in the order of their last use; \<open>evict\<close> is the loop that makes room, which stops at an empty key.\<close>

definition lru_touch :: "string \<Rightarrow> (string, 'v) jsmap \<Rightarrow> 'v option \<times> (string, 'v) jsmap" where
  "lru_touch k m = (case jm_get m k of None \<Rightarrow> (None, m) | Some v \<Rightarrow> (Some v, jm_set k v (jm_delete k m)))"

function evict :: "nat \<Rightarrow> (string, 'v) jsmap \<Rightarrow> (string, 'v) jsmap" where
  "evict limit m =
     (if limit < length m
      then (let oldestKey = fst (hd m) in if oldestKey = [] then m else evict limit (jm_delete oldestKey m))
      else m)"
  by pat_completeness auto
termination
proof (relation "measure (\<lambda>(_, m). length m)", goal_cases)
  case (2 limit m k)
  then show ?case by (cases m) (auto simp: jm_delete_def intro: le_imp_less_Suc order.trans [OF length_filter_le])
qed simp

declare evict.simps [simp del]

definition lru_set :: "nat \<Rightarrow> string \<Rightarrow> 'v \<Rightarrow> (string, 'v) jsmap \<Rightarrow> (string, 'v) jsmap" where
  "lru_set limit k v m =
     evict limit (jm_set k v (if k \<in> set (jm_keys m) then jm_delete k m else m))"

text \<open>Maps without repeated or empty keys.\<close>

definition lru_ok :: "nat \<Rightarrow> (string, 'v) jsmap \<Rightarrow> bool" where
  "lru_ok limit m \<longleftrightarrow> jm_wf m \<and> [] \<notin> set (jm_keys m) \<and> length m \<le> limit"

lemma jm_delete_absent: "k \<notin> set (jm_keys m) \<Longrightarrow> jm_delete k m = m"
  by (auto simp: jm_delete_def jm_keys_def filter_id_conv)

lemma jm_keys_delete [simp]: "set (jm_keys (jm_delete k m)) = set (jm_keys m) - {k}"
  by (auto simp: jm_delete_def jm_keys_def)

lemma lru_set_eq:
  assumes "jm_wf m"
  shows "lru_set limit k v m = evict limit (jm_delete k m @ [(k, v)])"
proof -
  have "jm_set k v (jm_delete k m) = jm_delete k m @ [(k, v)]" by (rule jm_set_append_new) simp
  then show ?thesis by (auto simp: lru_set_def jm_delete_absent)
qed

lemma evict_one:
  assumes "jm_wf m" and "length m \<le> Suc limit" and "[] \<notin> set (jm_keys m)"
  shows "evict limit m = (if length m = Suc limit then tl m else m)"
proof (cases m)
  case (Cons e r)
  have "jm_delete (fst e) r = r"
    using assms(1) Cons by (intro jm_delete_absent) (auto simp: jm_wf_def jm_keys_def)
  then have d: "jm_delete (fst e) m = r" using Cons by (simp add: jm_delete_def)
  show ?thesis
  proof (cases "length m = Suc limit")
    case True
    then have "evict limit m = evict limit r"
      using assms(3) Cons d by (subst evict.simps) (auto simp: jm_keys_def)
    also have "\<dots> = r" using True Cons by (subst evict.simps) simp
    finally show ?thesis using True Cons by simp
  next
    case False
    with assms(2) show ?thesis by (subst evict.simps) simp
  qed
qed (simp add: evict.simps)

text \<open>
  What the clients of such a map rely on: the key just set can be read, every other key keeps its value or is
  forgotten, and the number of entries stays bounded.
\<close>

locale recency_cache =
  fixes look :: "'c \<Rightarrow> string \<Rightarrow> 'v option" and put :: "string \<Rightarrow> 'v \<Rightarrow> 'c \<Rightarrow> 'c"
    and touch :: "string \<Rightarrow> 'c \<Rightarrow> 'v option \<times> 'c" and ok :: "'c \<Rightarrow> bool" and size_of :: "'c \<Rightarrow> nat" and limit :: nat
  assumes put_ok: "ok m \<Longrightarrow> k \<noteq> [] \<Longrightarrow> ok (put k v m)"
    and size_le: "ok m \<Longrightarrow> size_of m \<le> limit"
    and look_put: "ok m \<Longrightarrow> k \<noteq> [] \<Longrightarrow> look (put k v m) k = Some v"
    and look_other: "ok m \<Longrightarrow> k \<noteq> [] \<Longrightarrow> k' \<noteq> k \<Longrightarrow> look (put k v m) k' \<in> {None, look m k'}"
    and touch_found: "fst (touch k m) = look m k"
    and touch_ok: "ok m \<Longrightarrow> ok (snd (touch k m))"
    and touch_look: "ok m \<Longrightarrow> look (snd (touch k m)) k' = look m k'"
begin

definition keep :: "(string \<Rightarrow> 'v \<Rightarrow> bool) \<Rightarrow> 'c \<Rightarrow> bool" where
  "keep P m \<longleftrightarrow> ok m \<and> (\<forall>k v. look m k = Some v \<longrightarrow> P k v)"

text \<open>A property of the values stored holds of every value read.\<close>

lemma keep_put: "keep P m \<Longrightarrow> k \<noteq> [] \<Longrightarrow> P k v \<Longrightarrow> keep P (put k v m)"
  unfolding keep_def using put_ok look_put look_other by (metis empty_iff insert_iff option.inject option.simps(3))

lemma keep_touch: "keep P m \<Longrightarrow> keep P (snd (touch k m))"
  unfolding keep_def using touch_ok touch_look by metis

lemma keep_found: "keep P m \<Longrightarrow> fst (touch k m) = Some v \<Longrightarrow> P k v"
  unfolding keep_def using touch_found by metis

lemma keep_run:
  "keep P m \<Longrightarrow> list_all (\<lambda>(k, v). k \<noteq> [] \<and> P k v) ops \<Longrightarrow> keep P (fold (\<lambda>(k, v). put k v) ops m)"
  by (induction ops arbitrary: m) (auto intro: keep_put)

lemma run_bounded: "keep P m \<Longrightarrow> size_of m \<le> limit"
  unfolding keep_def using size_le by blast

end

lemma lru_set_ok:
  assumes "lru_ok limit m" and "k \<noteq> []" and "0 < limit"
  shows "lru_ok limit (lru_set limit k v m)"
    and "jm_get (lru_set limit k v m) k = Some v"
    and "k' \<noteq> k \<Longrightarrow> jm_get (lru_set limit k v m) k' \<in> {None, jm_get m k'}"
proof -
  let ?m = "jm_delete k m @ [(k, v)]"
  have wf: "jm_wf ?m" and ne: "[] \<notin> set (jm_keys ?m)"
    using assms by (auto simp: lru_ok_def jm_wf_def jm_keys_def jm_delete_def distinct_map_filter)
  have len: "length ?m \<le> Suc limit"
    using assms(1) length_jm_delete_le [of k m] by (simp add: lru_ok_def)
  have s: "lru_set limit k v m = (if length ?m = Suc limit then tl ?m else ?m)"
    using evict_one [OF wf len ne] lru_set_eq [of m limit k v] assms(1) by (simp add: lru_ok_def)
  have sub: "set (tl ?m) \<subseteq> set ?m" by (cases ?m) auto
  have wft: "jm_wf (tl ?m)" using wf by (cases ?m) (auto simp: jm_wf_def)
  have nt: "[] \<notin> set (jm_keys (tl ?m))" using ne sub unfolding jm_keys_def set_map by blast
  show "lru_ok limit (lru_set limit k v m)"
    using s wf ne len wft nt by (auto simp: lru_ok_def simp del: tl_append2)
  have look: "jm_get ?m k' = (if k' = k then Some v else jm_get m k')" for k'
  proof -
    have "jm_get (jm_delete k m @ [(k, v)]) k' = jm_get (jm_set k v (jm_delete k m)) k'"
      by (subst jm_set_append_new) simp_all
    then show ?thesis by simp
  qed
  have tlk: "jm_get (tl ?m) k' \<in> {None, jm_get ?m k'}" for k'
    using wf by (cases ?m) (auto simp: jm_wf_def jm_get_def map_of_eq_None_iff split: if_splits)
  show "k' \<noteq> k \<Longrightarrow> jm_get (lru_set limit k v m) k' \<in> {None, jm_get m k'}"
    using s look [of k'] tlk [of k'] by (auto simp del: tl_append2)
  have "jm_get (tl ?m) k = Some v" if "length ?m = Suc limit"
  proof -
    from that assms(3) have "jm_delete k m \<noteq> []" by auto
    then obtain e r where er: "jm_delete k m = e # r" by (cases "jm_delete k m") auto
    then have "k \<notin> set (jm_keys r)" using jm_keys_delete [of k m] by (auto simp: jm_keys_def)
    then have "jm_get (r @ [(k, v)]) k = Some v" by (metis jm_get_set jm_set_append_new)
    with er show ?thesis by simp
  qed
  then show "jm_get (lru_set limit k v m) k = Some v" using s look [of k] by (simp del: tl_append2)
qed

lemma lru_touch_ok:
  shows "fst (lru_touch k m) = jm_get m k"
    and "lru_ok limit m \<Longrightarrow> lru_ok limit (snd (lru_touch k m))"
    and "lru_ok limit m \<Longrightarrow> jm_get (snd (lru_touch k m)) k' = jm_get m k'"
proof -
  show "fst (lru_touch k m) = jm_get m k" by (simp add: lru_touch_def split: option.split)
  have app: "jm_set k v (jm_delete k m) = jm_delete k m @ [(k, v)]" for v by (rule jm_set_append_new) simp
  have in_keys: "k \<in> set (jm_keys m)" if "jm_get m k = Some v" for v
    using that map_of_SomeD [of m k v] by (force simp: jm_get_def jm_keys_def)
  have len: "length (jm_delete k m) < length m" if "k \<in> set (jm_keys m)"
    using that by (auto simp: jm_keys_def jm_delete_def intro: length_filter_less)
  show "lru_ok limit (snd (lru_touch k m))" if "lru_ok limit m"
  proof (cases "jm_get m k")
    case (Some v)
    then have "length (jm_delete k m @ [(k, v)]) \<le> limit" using that len [OF in_keys] by (simp add: lru_ok_def)
    then show ?thesis
      using that Some in_keys [OF Some] app [of v]
      by (auto simp: lru_ok_def lru_touch_def jm_wf_def jm_keys_def jm_delete_def distinct_map_filter)
  qed (use that in \<open>simp add: lru_touch_def\<close>)
  show "jm_get (snd (lru_touch k m)) k' = jm_get m k'" if "lru_ok limit m"
    by (cases "k' = k") (simp_all add: lru_touch_def split: option.split)
qed

end
