(* ===== verification/Audit_Parse.thy ===== *)
theory Audit_Parse
  imports Query_Calls
begin

text \<open>
  The audit records of the operating system as the console shows them (\<open>api/audit.ts\<close>, the first half): the
  fields read from the text of a record with regular expressions, the audit entry made of a log entry, and the
  summary of an entry's details (\<open>pages/security/auditDetailSummary.ts\<close>).
\<close>

section \<open>Patterns\<close>

text \<open>\<open>\b<name>=(<value>)\<close> for the three kinds of values: a class of characters, a number, a quoted text.\<close>

definition field_pattern :: "string \<Rightarrow> rx \<Rightarrow> rx" where
  "field_pattern name value = rx_seq [Word_Boundary, rx_lit (name @ ''=''), Grp 1 value]"

definition quoted_pattern :: "string \<Rightarrow> rx" where
  "quoted_pattern name =
     rx_seq [Word_Boundary, rx_lit (name @ ''=''), rx_char (CHR 0x22),
             Grp 1 (rx_plus (Cls (\<lambda>c. c \<noteq> [CHR 0x22]))), rx_char (CHR 0x22)]"

definition bare_value :: rx where
  "bare_value = rx_plus (Cls (\<lambda>c. \<not> js_space c \<and> c \<noteq> [CHR 0x27] \<and> c \<noteq> [CHR 0x22]))"

definition type_char :: "char \<Rightarrow> bool" where
  "type_char c \<longleftrightarrow> in_range (CHR ''A'') (CHR ''Z'') c \<or> is_digit c \<or> c = CHR ''_''"

definition AUDIT_TYPE_PATTERN :: rx where
  "AUDIT_TYPE_PATTERN = field_pattern ''type'' (rx_plus (rx_ascii type_char))"

definition AUDIT_SEQUENCE_PATTERN :: rx where
  "AUDIT_SEQUENCE_PATTERN =
     rx_seq [rx_lit ''audit('', rx_plus (Cls (\<lambda>c. c \<noteq> '':'')), rx_char (CHR '':''), Grp 1 (rx_plus rx_digit), rx_char (CHR '')'')]"

definition AUDIT_PID_PATTERN :: rx where
  "AUDIT_PID_PATTERN = field_pattern ''pid'' (rx_plus rx_digit)"

definition AUDIT_ACCOUNT_PATTERNS :: "rx list" where
  "AUDIT_ACCOUNT_PATTERNS =
     [quoted_pattern ''acct'', quoted_pattern ''AUID'', quoted_pattern ''ID'', quoted_pattern ''UID'',
      field_pattern ''auid'' (rx_plus rx_digit), field_pattern ''uid'' (rx_plus rx_digit)]"

definition AUDIT_OPERATION_PATTERN :: rx where "AUDIT_OPERATION_PATTERN = field_pattern ''op'' bare_value"
definition AUDIT_RESULT_PATTERN :: rx where "AUDIT_RESULT_PATTERN = field_pattern ''res'' bare_value"
definition AUDIT_ADDR_PATTERN :: rx where "AUDIT_ADDR_PATTERN = field_pattern ''addr'' bare_value"
definition AUDIT_HOSTNAME_PATTERN :: rx where "AUDIT_HOSTNAME_PATTERN = field_pattern ''hostname'' bare_value"
definition AUDIT_COMM_PATTERN :: rx where "AUDIT_COMM_PATTERN = quoted_pattern ''comm''"
definition AUDIT_EXE_PATTERN :: rx where "AUDIT_EXE_PATTERN = quoted_pattern ''exe''"

section \<open>Tokens\<close>

definition is_quote :: "char \<Rightarrow> bool" where
  "is_quote c \<longleftrightarrow> c = CHR 0x27 \<or> c = CHR 0x22"

text \<open>\<open>replace(/^['"]|['"]$/g, '')\<close>.\<close>

definition strip_quote_ends :: "string \<Rightarrow> string" where
  "strip_quote_ends s =
     (let t = (if s \<noteq> [] \<and> is_quote (hd s) then tl s else s)
      in if t \<noteq> [] \<and> is_quote (last t) then butlast t else t)"

definition cleanAuditToken :: "string option \<Rightarrow> string" where
  "cleanAuditToken v =
     (let normalized = strip_quote_ends (trim (nullish v []))
      in if normalized = [] \<or> normalized = ''?'' \<or> normalized = ''4294967295'' then [] else normalized)"

definition captured :: "rx \<Rightarrow> string \<Rightarrow> string option" where
  "captured r s = Option.bind (rx_match r s) (group 1)"

fun extractFirstMatch :: "string \<Rightarrow> rx list \<Rightarrow> string" where
  "extractFirstMatch raw [] = []"
| "extractFirstMatch raw (r # rs) =
     (let v = nullish (captured r raw) [] in
      if v \<noteq> [] \<and> cleanAuditToken (Some v) \<noteq> [] then cleanAuditToken (Some v) else extractFirstMatch raw rs)"

definition normalizeProcessName :: "string \<Rightarrow> string" where
  "normalizeProcessName raw =
     (let v = cleanAuditToken (Some raw)
      in if v = [] then []
         else (let segments = filter (\<lambda>s. s \<noteq> []) (split_on ''/'' v) in if segments = [] then v else last segments))"

definition ip_pattern :: rx where
  "ip_pattern =
     rx_seq [Begin_Input, rx_times 3 3 (Seq (rx_times 1 3 rx_digit) (rx_char (CHR ''.''))), rx_times 1 3 rx_digit, End_Input]"

definition isIPAddress :: "string \<Rightarrow> bool" where
  "isIPAddress v \<longleftrightarrow> rx_test ip_pattern v \<or> js_includes v '':''"

record parsed_audit =
  pa_type :: string
  pa_sequence :: string
  pa_pid :: string
  pa_user :: string
  pa_operation :: string
  pa_result :: string
  pa_address :: string
  pa_hostname :: string
  pa_process :: string

definition parseAuditMessage :: "string \<Rightarrow> parsed_audit" where
  "parseAuditMessage raw =
     (let token = \<lambda>r. cleanAuditToken (captured r raw)
      in \<lparr>pa_type = token AUDIT_TYPE_PATTERN, pa_sequence = token AUDIT_SEQUENCE_PATTERN,
          pa_pid = token AUDIT_PID_PATTERN, pa_user = extractFirstMatch raw AUDIT_ACCOUNT_PATTERNS,
          pa_operation = token AUDIT_OPERATION_PATTERN, pa_result = token AUDIT_RESULT_PATTERN,
          pa_address = token AUDIT_ADDR_PATTERN, pa_hostname = token AUDIT_HOSTNAME_PATTERN,
          pa_process = normalizeProcessName (extractFirstMatch raw [AUDIT_COMM_PATTERN, AUDIT_EXE_PATTERN])\<rparr>)"

section \<open>Audit entries\<close>

record audit_item =
  au_id :: string
  au_tenant_id :: "string option"
  au_user_id :: string
  au_action :: string
  au_resource_type :: string
  au_resource_id :: string
  au_detail :: "json option"
  au_ip_address :: "string option"
  au_user_agent :: "string option"
  au_created_at :: string

definition extractEventOriginal :: "json \<Rightarrow> string" where
  "extractEventOriginal flds = nullish (string_field (json_field (json_field (Some flds) ''event'') ''original'')) []"

fun firstNonEmpty :: "string option list \<Rightarrow> string" where
  "firstNonEmpty [] = []"
| "firstNonEmpty (v # vs) = (if cleanAuditToken v \<noteq> [] then cleanAuditToken v else firstNonEmpty vs)"

definition or_undefined :: "string \<Rightarrow> json option" where
  "or_undefined s = (if s = [] then None else Some (JStr s))"

definition audit_text :: "log_entry \<Rightarrow> string" where
  "audit_text e = firstNonEmpty [Some (lg_message e), Some (extractEventOriginal (lg_fields e)), Some (lg_rawLog e)]"

definition mapAuditLogEntry :: "log_entry \<Rightarrow> audit_item" where
  "mapAuditLogEntry e =
     (let field = json_field (Some (lg_fields e));
          rawMessage = audit_text e;
          parsed = parseAuditMessage rawMessage;
          resolvedIP = firstNonEmpty
            [Some (if isIPAddress (pa_address parsed) then pa_address parsed else []),
             Some (if isIPAddress (pa_hostname parsed) then pa_hostname parsed else []), Some (lg_hostIp e)]
      in \<lparr>au_id = lg_id e, au_tenant_id = string_field (field ''tenant_id''),
          au_user_id = or_str (firstNonEmpty [Some (pa_user parsed), Some (lg_host e)]) zh_dash,
          au_action = or_str (pa_type parsed) ''AUDIT'',
          au_resource_type = or_str (pa_process parsed) (or_str (lg_service e) ''audit''),
          au_resource_id = firstNonEmpty [Some (pa_sequence parsed), Some (pa_pid parsed), Some (lg_id e)],
          au_detail = Some (literal
            [(''operation'', or_undefined (pa_operation parsed)), (''result'', or_undefined (pa_result parsed)),
             (''process'', or_undefined (pa_process parsed)), (''pid'', or_undefined (pa_pid parsed)),
             (''sequence'', or_undefined (pa_sequence parsed)), (''host'', or_undefined (lg_host e)),
             (''source_kind'', Some (JStr ''system'')),
             (''source'', map_option JStr (nullish_opt (string_field (field ''source'')) (string_field (field ''source_path'')))),
             (''raw_message'', Some (JStr rawMessage))]),
          au_ip_address = (if resolvedIP = [] then None else Some resolvedIP), au_user_agent = None,
          au_created_at = lg_timestamp e\<rparr>)"

section \<open>The summary of the details\<close>

text \<open>\<open>detail.k ? `label=${String(detail.k)}` : ''\<close>.\<close>

definition shown_if_truthy :: "json \<Rightarrow> string \<times> string \<Rightarrow> string" where
  "shown_if_truthy detail p =
     (let v = json_field (Some detail) (fst p)
      in if truthy v then snd p @ ''='' @ js_String (nullish v JNull) else [])"

text \<open>\<open>xs.join(',')\<close>.\<close>

definition js_join_items :: "json list \<Rightarrow> string" where
  "js_join_items xs = js_String (JArr xs)"

definition summary_pairs :: "json \<Rightarrow> string list" where
  "summary_pairs detail =
     (let field = json_field (Some detail);
          sourceKind = nullish (string_field (field ''source_kind'')) [];
          port = field ''port'';
          hasPort = (nullish_json port None \<noteq> None \<and> port \<noteq> Some (JStr []));
          shown = map (shown_if_truthy detail)
      in [if sourceKind = ''application'' then zh_application_audit else [],
          if sourceKind = ''system'' then zh_system_audit else []]
         @ shown [(''operation'', ''op''), (''result'', ''res''), (''username'', ''user''), (''target_user_id'', ''target''),
             (''source_name'', ''source''), (''target_source_id'', ''source_id''), (''role_id'', ''role''),
             (''rule_name'', ''rule''), (''target_rule_id'', ''rule_id''), (''target_silence_id'', ''silence_id''),
             (''repository'', ''repo''), (''snapshot'', ''snapshot''), (''location'', ''location''),
             (''protocol'', ''proto''), (''host'', ''host'')]
         @ [if hasPort then ''port='' @ js_String (nullish port JNull) else []]
         @ shown [(''path'', ''path''), (''severity'', ''severity'')]
         @ [case field ''enabled'' of Some (JBool b) \<Rightarrow> ''enabled='' @ (if b then ''true'' else ''false'') | _ \<Rightarrow> []]
         @ shown [(''matcher_count'', ''matchers'')]
         @ [case field ''indices'' of Some (JArr xs) \<Rightarrow> ''indices='' @ js_join_items xs | _ \<Rightarrow> [],
            case field ''indices'' of Some (JArr xs) \<Rightarrow> [] | _ \<Rightarrow> shown_if_truthy detail (''indices'', ''indices'')]
         @ shown [(''state'', ''state''), (''status'', ''status''), (''process'', ''proc''), (''pid'', ''pid''),
             (''sequence'', ''seq'')]
         @ [case field ''updated_fields'' of Some (JArr xs) \<Rightarrow> ''fields='' @ js_join_items xs | _ \<Rightarrow> []]
         @ shown [(''error_code'', ''code'')])"

definition buildAuditDetailSummary :: "json option \<Rightarrow> string" where
  "buildAuditDetailSummary detail =
     (case detail of
        Some (JObj (m # ms)) \<Rightarrow>
          or_str (join zh_dot_sep (filter (\<lambda>p. p \<noteq> []) (summary_pairs (JObj (m # ms)))))
            (let raw = nullish_json (json_field detail ''raw_message'') None
             in case raw of None \<Rightarrow> zh_dash | Some v \<Rightarrow> js_String v)
      | _ \<Rightarrow> zh_dash)"

section \<open>Lemmas\<close>

lemma cleanAuditToken_ne: "cleanAuditToken v \<noteq> ''?'' \<and> cleanAuditToken v \<noteq> ''4294967295''"
  by (simp add: cleanAuditToken_def Let_def)

lemma extractFirstMatch_clean: "extractFirstMatch raw rs = [] \<or> (\<exists>v. extractFirstMatch raw rs = cleanAuditToken v)"
  by (induction rs) (auto simp: Let_def)

lemma firstNonEmpty_clean: "firstNonEmpty vs = [] \<or> (\<exists>v \<in> set vs. firstNonEmpty vs = cleanAuditToken v)"
  by (induction vs) auto

text \<open>A placeholder is what the audit subsystem writes for an unknown or unset value.\<close>

definition no_placeholder :: "string \<Rightarrow> bool" where
  "no_placeholder s \<longleftrightarrow> s \<noteq> ''?'' \<and> s \<noteq> ''4294967295''"

lemma no_placeholder_token [simp]: "no_placeholder (cleanAuditToken v)" "no_placeholder []"
  using cleanAuditToken_ne by (auto simp: no_placeholder_def)

lemma no_placeholder_first [simp]:
  "no_placeholder (extractFirstMatch raw rs)" "no_placeholder (firstNonEmpty vs)"
  using extractFirstMatch_clean [of raw rs] firstNonEmpty_clean [of vs] by auto

lemma audit_fields:
  "au_user_id (mapAuditLogEntry e)
     = or_str (firstNonEmpty [Some (pa_user (parseAuditMessage (audit_text e))), Some (lg_host e)]) zh_dash"
  "au_action (mapAuditLogEntry e) = or_str (pa_type (parseAuditMessage (audit_text e))) ''AUDIT''"
  "au_resource_type (mapAuditLogEntry e)
     = or_str (pa_process (parseAuditMessage (audit_text e))) (or_str (lg_service e) ''audit'')"
  "au_resource_id (mapAuditLogEntry e)
     = firstNonEmpty [Some (pa_sequence (parseAuditMessage (audit_text e))), Some (pa_pid (parseAuditMessage (audit_text e))),
                      Some (lg_id e)]"
  "au_created_at (mapAuditLogEntry e) = lg_timestamp e"
  by (simp_all only: mapAuditLogEntry_def Let_def audit_item.select_convs)

text \<open>
  an audit record is always shown with somebody, something and an action: the entry made of any log entry
  has a user, an action and a resource type that are not empty, and neither the user nor the resource id is the
  placeholder of an unset value (a question mark or 4294967295).
\<close>

theorem audit_entry_displayable:
  "au_user_id (mapAuditLogEntry e) \<noteq> [] \<and> au_action (mapAuditLogEntry e) \<noteq> []
   \<and> au_resource_type (mapAuditLogEntry e) \<noteq> []
   \<and> no_placeholder (au_user_id (mapAuditLogEntry e)) \<and> no_placeholder (au_resource_id (mapAuditLogEntry e))
   \<and> au_created_at (mapAuditLogEntry e) = lg_timestamp e"
proof -
  have "zh_dash \<noteq> [] \<and> no_placeholder zh_dash" by code_simp
  then have "no_placeholder (or_str (firstNonEmpty vs) zh_dash) \<and> or_str (firstNonEmpty vs) zh_dash \<noteq> []" for vs
    by (cases "firstNonEmpty vs = []") simp_all
  then show ?thesis by (simp only: audit_fields no_placeholder_first or_str_Nil_iff) simp
qed

end
