(* ===== verification/Audit_Logs.thy ===== *)
theory Audit_Logs
  imports Service_Request Audit_Parse
begin

text \<open>
  The audit log of the console (\<open>api/audit.ts\<close>, the second half): the application's own audit events from the
  audit service and the operating system's from the query service, each fetched page by page or in one window,
  merged by time and cut to the page shown; the three caches that keep what was fetched; the export.

  Items are JSON values, as the service sends them. A \<open>while\<close> loop with no bound of its own is a partial
  function: \<open>None\<close> stands for a call that never returns. The two sources run concurrently and touch disjoint
  caches; the model runs the audit service's first.
\<close>

section \<open>Parameters and state\<close>

record audit_params =
  fa_user_query :: "string option"
  fa_action :: "string option"
  fa_resource_type :: "string option"
  fa_from :: "string option"
  fa_to :: "string option"
  fa_page :: "int option"
  fa_page_size :: "int option"
  fa_sort_by :: "string option"
  fa_sort_order :: "string option"

record audit_page =
  ap_items :: "json list"
  ap_total :: rat
  ap_page :: int
  ap_pageSize :: int
  ap_hasNext :: bool

record source_entry =
  se_items :: "json list"
  se_total :: rat
  se_hasNext :: bool
  se_loadedPages :: nat

definition AUDIT_SOURCE_CACHE_LIMIT :: nat where
  "AUDIT_SOURCE_CACHE_LIMIT = 24"

record audit_caches =
  auditApiPageCache :: "(string, source_entry) jsmap"
  auditApiFilteredCache :: "(string, source_entry) jsmap"
  queryPipelinePageCache :: "(string, source_entry) jsmap"

record 's audit_state =
  as_world :: "'s world"
  as_caches :: audit_caches

datatype audit_error = From_Audit api_error | From_Query query_error

type_synonym ('s, 'r) job = "('s audit_state, audit_error, 'r) act"

definition on_world :: "('e \<Rightarrow> audit_error) \<Rightarrow> ('s world, 'e, 'r) act \<Rightarrow> ('s, 'r) job" where
  "on_world err f st =
     (case f (as_world st) of
        (Inl e, w) \<Rightarrow> (Inl (err e), st\<lparr>as_world := w\<rparr>)
      | (Inr r, w) \<Rightarrow> (Inr r, st\<lparr>as_world := w\<rparr>))"

text \<open>Page, page size and the size of the window from the first item to the last of the page.\<close>

definition resolveAuditFetchWindow :: "audit_params \<Rightarrow> int \<times> int \<times> int" where
  "resolveAuditFetchWindow params =
     (let page = max 1 (nullish (fa_page params) 1); pageSize = max 1 (nullish (fa_page_size params) 20)
      in (page, pageSize, page * pageSize))"

definition createAuditLogSourceCacheEntry :: source_entry where
  "createAuditLogSourceCacheEntry = \<lparr>se_items = [], se_total = 0, se_hasNext = True, se_loadedPages = 0\<rparr>"

definition trimmed :: "string option \<Rightarrow> string" where
  "trimmed v = nullish (map_option trim v) []"

definition buildAuditSourceCacheKey :: "string \<Rightarrow> audit_params \<Rightarrow> int \<Rightarrow> string" where
  "buildAuditSourceCacheKey source params pageSize =
     stringify (JObj
       [(''source'', JStr source), (''user_query'', JStr (trimmed (fa_user_query params))),
        (''action'', JStr (trimmed (fa_action params))), (''resource_type'', JStr (trimmed (fa_resource_type params))),
        (''from'', JStr (trimmed (fa_from params))), (''to'', JStr (trimmed (fa_to params))),
        (''sort_by'', JStr (trimmed (fa_sort_by params))), (''sort_order'', JStr (trimmed (fa_sort_order params))),
        (''page_size'', JNum (of_int pageSize))])"

text \<open>\<open>touchAuditLogSourceCache\<close> and \<open>setAuditLogSourceCache\<close> are \<open>lru_touch\<close> and this.\<close>

definition setAuditLogSourceCache ::
    "string \<Rightarrow> source_entry \<Rightarrow> (string, source_entry) jsmap \<Rightarrow> (string, source_entry) jsmap" where
  "setAuditLogSourceCache = lru_set AUDIT_SOURCE_CACHE_LIMIT"

section \<open>Items\<close>

definition json_of_audit :: "audit_item \<Rightarrow> json" where
  "json_of_audit a =
     literal
       [(''id'', Some (JStr (au_id a))), (''tenant_id'', map_option JStr (au_tenant_id a)),
        (''user_id'', Some (JStr (au_user_id a))), (''action'', Some (JStr (au_action a))),
        (''resource_type'', Some (JStr (au_resource_type a))), (''resource_id'', Some (JStr (au_resource_id a))),
        (''ip_address'', map_option JStr (au_ip_address a)), (''created_at'', Some (JStr (au_created_at a))),
        (''detail'', au_detail a)]"

definition normalizeAuditApiItem :: "json \<Rightarrow> json" where
  "normalizeAuditApiItem item =
     (let detail = own_entries (case json_field (Some item) ''detail'' of
                      Some (JObj ms) \<Rightarrow> Some (JObj ms) | Some (JArr xs) \<Rightarrow> Some (JArr xs) | _ \<Rightarrow> None)
      in JObj (js_spread (own_entries (Some item))
            [(''detail'', JObj (js_spread [(''source_kind'', JStr ''application'')] detail))]))"

text \<open>\<open>Date.parse(item.created_at || '')\<close>; the later first, and an unreadable time equal to any.\<close>

definition audit_time :: "clock \<Rightarrow> json \<Rightarrow> int option" where
  "audit_time c item =
     (let v = json_field (Some item) ''created_at''
      in date_of c (if truthy v then js_String (nullish v JNull) else []))"

definition compareAuditItemsByCreatedAt :: "clock \<Rightarrow> json \<Rightarrow> json \<Rightarrow> bool" where
  "compareAuditItemsByCreatedAt c left right =
     (case (audit_time c left, audit_time c right) of (Some l, Some r) \<Rightarrow> r \<le> l | _ \<Rightarrow> True)"

text \<open>A version 1 to 5 UUID of the usual variant: the pattern of this module.\<close>

definition audit_uuid :: "string \<Rightarrow> bool" where
  "audit_uuid s \<longleftrightarrow>
     UUID_PATTERN s \<and> s ! 14 \<in> set ''12345'' \<and> lower_char (s ! 19) \<in> set ''89ab''"

definition resolveAuditApiUserIdFilter :: "string \<Rightarrow> string option" where
  "resolveAuditApiUserIdFilter userQuery =
     (let normalized = trim userQuery in if audit_uuid normalized then Some normalized else None)"

definition readAuditDetailString :: "json option \<Rightarrow> string \<Rightarrow> string" where
  "readAuditDetailString detail k = trimmed (string_field (json_field detail k))"

text \<open>\<open>candidates.some(...)\<close> with \<open>toLowerCase\<close>, a type error on a candidate that is no string.\<close>

fun some_includes :: "string \<Rightarrow> json option list \<Rightarrow> bool option" where
  "some_includes q [] = Some False"
| "some_includes q (v # vs) =
     (case string_field v of
        None \<Rightarrow> None
      | Some s \<Rightarrow> if js_includes (toLowerCase s) q then Some True else some_includes q vs)"

definition matchesAuditUserQuery :: "string \<Rightarrow> json \<Rightarrow> bool option" where
  "matchesAuditUserQuery userQuery item =
     (let normalizedQuery = toLowerCase (trim userQuery); detail = json_field (Some item) ''detail''
      in if normalizedQuery = [] then Some True
         else some_includes normalizedQuery
           [json_field (Some item) ''user_id'', json_field (Some item) ''resource_id'',
            Some (JStr (readAuditDetailString detail ''username'')),
            Some (JStr (readAuditDetailString detail ''target_user_id'')),
            Some (JStr (readAuditDetailString detail ''raw_message''))])"

fun filter_read :: "('a \<Rightarrow> bool option) \<Rightarrow> 'a list \<Rightarrow> 'a list option" where
  "filter_read P [] = Some []"
| "filter_read P (x # xs) =
     (case P x of
        None \<Rightarrow> None
      | Some b \<Rightarrow> map_option (if b then Cons x else id) (filter_read P xs))"

section \<open>The query service's records\<close>

definition buildAuditKeywords :: "audit_params \<Rightarrow> string" where
  "buildAuditKeywords params =
     join '' '' (filter (\<lambda>t. t \<noteq> [])
       [trimmed (fa_user_query params),
        if trimmed (fa_action params) \<noteq> [] then ''type='' @ trimmed (fa_action params) else [],
        trimmed (fa_resource_type params)])"

definition DEFAULT_SYSTEM_AUDIT_LOOKBACK_MS :: int where
  "DEFAULT_SYSTEM_AUDIT_LOOKBACK_MS = 7 * 24 * 60 * 60 * 1000"

definition resolveSystemAuditQueryTimeRange :: "clock \<Rightarrow> audit_params \<Rightarrow> time_range" where
  "resolveSystemAuditQueryTimeRange c params =
     (let normalizedTo = or_str (trimmed (fa_to params)) (now_iso c);
          normalizedFrom = trimmed (fa_from params)
      in if normalizedFrom \<noteq> [] then \<lparr>tr_from = Some normalizedFrom, tr_to = Some normalizedTo\<rparr>
         else (let upper = nullish (date_of c normalizedTo) (now_ms c)
               in \<lparr>tr_from = Some (toISOString (upper - DEFAULT_SYSTEM_AUDIT_LOOKBACK_MS)), tr_to = Some (toISOString upper)\<rparr>))"

definition audit_logs_payload :: "clock \<Rightarrow> audit_params \<Rightarrow> int \<Rightarrow> logs_payload" where
  "audit_logs_payload c params pageSize =
     \<lparr>lp_keywords = buildAuditKeywords params, lp_page = 1, lp_pageSize = pageSize,
      lp_filters = Some (JObj [(''service'', JStr ''audit.log''), (''exclude_internal_noise'', JBool False)]),
      lp_timeRange = Some (resolveSystemAuditQueryTimeRange c params), lp_pitId = None, lp_searchAfter = None,
      lp_recordHistory = False\<rparr>"

definition system_items :: "logs_result \<Rightarrow> json list" where
  "system_items r = map (\<lambda>e. json_of_audit (mapAuditLogEntry e)) (lr_hits r)"

definition query_audit_logs :: "'s query_env \<Rightarrow> audit_params \<Rightarrow> int \<Rightarrow> ('s, logs_result) job" where
  "query_audit_logs env params pageSize =
     on_world From_Query (queryRealtimeLogs env (audit_logs_payload (qe_clock env) params pageSize))"

definition fetchAuditLogsFromQueryPipeline :: "'s query_env \<Rightarrow> audit_params \<Rightarrow> ('s, audit_page) job" where
  "fetchAuditLogsFromQueryPipeline env params =
     (case resolveAuditFetchWindow params of
        (page, pageSize, _) \<Rightarrow>
          and_then (query_audit_logs env params pageSize) (\<lambda>result.
            give \<lparr>ap_items = system_items result, ap_total = lr_total result, ap_page = page, ap_pageSize = pageSize,
                  ap_hasNext = of_int pageSize < lr_total result\<rparr>))"

section \<open>Loading pages into a cache\<close>

text \<open>
  The loop of both bounded sources: as long as pages are missing and there are more, request the next one,
  make the next cache entry of it and the entry so far, and store it.
\<close>

function load_pages ::
    "(nat \<Rightarrow> source_entry \<Rightarrow> ('s, source_entry) job) \<Rightarrow> (source_entry \<Rightarrow> 's audit_state \<Rightarrow> 's audit_state)
     \<Rightarrow> nat \<Rightarrow> source_entry \<Rightarrow> ('s, source_entry) job" where
  "load_pages request store page entry st =
     (if se_loadedPages entry < page \<and> (se_loadedPages entry = 0 \<or> se_hasNext entry)
      then (case request (se_loadedPages entry + 1) entry st of
              (Inl e, st') \<Rightarrow> (Inl e, st')
            | (Inr batch, st') \<Rightarrow>
                (let entry' = batch\<lparr>se_loadedPages := se_loadedPages entry + 1\<rparr>
                 in if se_hasNext entry' then load_pages request store page entry' (store entry' st')
                    else (Inr entry', store entry' st')))
      else (Inr entry, st))"
  by pat_completeness auto
termination by (relation "measure (\<lambda>(_, _, page, entry, _). page - se_loadedPages entry)") auto

declare load_pages.simps [simp del]

text \<open>The next entry of the query service's records: the larger window replaces the smaller.\<close>

definition query_window :: "'s query_env \<Rightarrow> audit_params \<Rightarrow> int \<Rightarrow> nat \<Rightarrow> source_entry \<Rightarrow> ('s, source_entry) job" where
  "query_window env params pageSize nextPage entry =
     and_then (query_audit_logs env params (int nextPage * pageSize)) (\<lambda>result.
       give \<lparr>se_items = system_items result, se_total = lr_total result,
             se_hasNext = of_int (int nextPage * pageSize) < lr_total result, se_loadedPages = nextPage\<rparr>)"

definition store_pipeline :: "string \<Rightarrow> source_entry \<Rightarrow> 's audit_state \<Rightarrow> 's audit_state" where
  "store_pipeline k entry st =
     st\<lparr>as_caches := (as_caches st)\<lparr>queryPipelinePageCache :=
          setAuditLogSourceCache k entry (queryPipelinePageCache (as_caches st))\<rparr>\<rparr>"

definition fetchBoundedAuditLogsFromQueryPipeline :: "'s query_env \<Rightarrow> audit_params \<Rightarrow> ('s, audit_page) job" where
  "fetchBoundedAuditLogsFromQueryPipeline env params st =
     (case resolveAuditFetchWindow params of
        (page, pageSize, _) \<Rightarrow>
          (let cacheKey = buildAuditSourceCacheKey ''query-pipeline-window'' params pageSize;
               (cached, cache) = lru_touch cacheKey (queryPipelinePageCache (as_caches st))
           in and_then
                (load_pages (query_window env params pageSize) (store_pipeline cacheKey) (nat page)
                  (nullish cached createAuditLogSourceCacheEntry))
                (\<lambda>entry. give \<lparr>ap_items = se_items entry, ap_total = se_total entry, ap_page = page,
                    ap_pageSize = pageSize, ap_hasNext = of_int (page * pageSize) < se_total entry\<rparr>)
                (st\<lparr>as_caches := (as_caches st)\<lparr>queryPipelinePageCache := cache\<rparr>\<rparr>)))"

section \<open>The audit service's events\<close>

text \<open>\<open>parseInt(s, 10)\<close>.\<close>

definition parse_int_10 :: "string \<Rightarrow> jsnum" where
  "parse_int_10 s =
     (let t = trimStart s; neg = startsWith t ''-'';
          digits = takeWhile is_digit (if neg \<or> startsWith t ''+'' then tl t else t)
      in if digits = [] then NaN else Fin (of_int ((if neg then -1 else 1) * int (digits_val 0 digits))))"

definition audit_page_of :: "int \<Rightarrow> int \<Rightarrow> json \<Rightarrow> audit_page option" where
  "audit_page_of requestPage requestPageSize envelope =
     map_option (\<lambda>items.
       let totl = (case meta_field envelope ''total'' of
                     Some (JNum q) \<Rightarrow> Fin q
                   | Some (JStr s) \<Rightarrow> parse_int_10 s
                   | _ \<Rightarrow> Fin (of_nat (length items)));
           hasNext = (case meta_field envelope ''has_next'' of
                     Some (JBool b) \<Rightarrow> b
                   | _ \<Rightarrow> js_less (Fin (of_int (requestPage * requestPageSize))) totl)
       in \<lparr>ap_items = items, ap_total = finite_or totl (of_nat (length items)), ap_page = requestPage,
           ap_pageSize = requestPageSize, ap_hasNext = hasNext\<rparr>)
     (map_items (\<lambda>item _. normalizeAuditApiItem item) (data_field envelope ''items''))"

definition requestAuditLogPage ::
    "'s query_env \<Rightarrow> audit_params \<Rightarrow> int \<Rightarrow> int \<Rightarrow> string option \<Rightarrow> ('s, audit_page) op" where
  "requestAuditLogPage env params requestPage requestPageSize userIDFilter =
     and_then
       (requestAuditApi env ''/logs'' ''GET''
         [(''user_id'', userIDFilter), (''action'', fa_action params), (''resource_type'', fa_resource_type params),
          (''from'', fa_from params), (''to'', fa_to params), (''page'', int_param requestPage),
          (''page_size'', int_param requestPageSize), (''sort_by'', fa_sort_by params),
          (''sort_order'', fa_sort_order params)] None)
       (\<lambda>envelope. give_read (audit_page_of requestPage requestPageSize envelope))"

text \<open>The next entry of the audit service's events: the page is appended.\<close>

definition audit_api_page ::
    "'s query_env \<Rightarrow> audit_params \<Rightarrow> int \<Rightarrow> string option \<Rightarrow> nat \<Rightarrow> source_entry \<Rightarrow> ('s, source_entry) job" where
  "audit_api_page env params pageSize userIDFilter nextPage entry =
     and_then (on_world From_Audit (requestAuditLogPage env params (int nextPage) pageSize userIDFilter)) (\<lambda>batch.
       give \<lparr>se_items = se_items entry @ ap_items batch, se_total = ap_total batch, se_hasNext = ap_hasNext batch,
             se_loadedPages = nextPage\<rparr>)"

definition store_page :: "string \<Rightarrow> source_entry \<Rightarrow> 's audit_state \<Rightarrow> 's audit_state" where
  "store_page k entry st =
     st\<lparr>as_caches := (as_caches st)\<lparr>auditApiPageCache :=
          setAuditLogSourceCache k entry (auditApiPageCache (as_caches st))\<rparr>\<rparr>"

definition fetchBoundedAuditApiPages ::
    "'s query_env \<Rightarrow> audit_params \<Rightarrow> int \<Rightarrow> int \<Rightarrow> string option \<Rightarrow> ('s, audit_page) job" where
  "fetchBoundedAuditApiPages env params page pageSize userIDFilter st =
     (let cacheKey = buildAuditSourceCacheKey ''audit-api-page'' params pageSize;
          (cached, cache) = lru_touch cacheKey (auditApiPageCache (as_caches st))
      in and_then
           (load_pages (audit_api_page env params pageSize userIDFilter) (store_page cacheKey) (nat page)
             (nullish cached createAuditLogSourceCacheEntry))
           (\<lambda>entry. give \<lparr>ap_items = se_items entry, ap_total = se_total entry, ap_page = page,
               ap_pageSize = pageSize, ap_hasNext = se_hasNext entry\<rparr>)
           (st\<lparr>as_caches := (as_caches st)\<lparr>auditApiPageCache := cache\<rparr>\<rparr>))"

text \<open>
  The search for a user that is no id: every page of the service is fetched and filtered here. The loop ends
  when the service says there is no next page.
\<close>

definition audit_batch_size :: int where
  "audit_batch_size = 200"

definition matching_page :: "'s query_env \<Rightarrow> audit_params \<Rightarrow> string \<Rightarrow> int \<Rightarrow> ('s, json list \<times> bool) op" where
  "matching_page env params userQuery requestPageNumber =
     and_then (requestAuditLogPage env params requestPageNumber audit_batch_size None) (\<lambda>batch.
       give_read (map_option (\<lambda>matching. (matching, ap_hasNext batch))
         (filter_read (matchesAuditUserQuery userQuery) (ap_items batch))))"

partial_function (option) collect_matching ::
    "'s query_env \<Rightarrow> audit_params \<Rightarrow> string \<Rightarrow> int \<Rightarrow> json list \<Rightarrow> nat \<Rightarrow> 's world
     \<Rightarrow> ((api_error + json list \<times> nat \<times> int) \<times> 's world) option" where
  "collect_matching env params userQuery requestPageNumber matchedItems totl w =
     (case matching_page env params userQuery requestPageNumber w of
        (Inl e, w') \<Rightarrow> Some (Inl e, w')
      | (Inr (matching, hasNext), w') \<Rightarrow>
          (if hasNext
           then collect_matching env params userQuery (requestPageNumber + 1) (matchedItems @ matching)
                  (totl + length matching) w'
           else Some (Inr (matchedItems @ matching, totl + length matching, requestPageNumber + 1), w')))"

text \<open>A job that may not return.\<close>

type_synonym ('s, 'r) slow_job = "'s audit_state \<Rightarrow> ((audit_error + 'r) \<times> 's audit_state) option"

definition collected ::
    "('s world \<Rightarrow> ((api_error + 'r) \<times> 's world) option) \<Rightarrow> ('r \<Rightarrow> ('s, 'a) job) \<Rightarrow> ('s, 'a) slow_job" where
  "collected f g st =
     (case f (as_world st) of
        None \<Rightarrow> None
      | Some (Inl e, w) \<Rightarrow> Some (Inl (From_Audit e), st\<lparr>as_world := w\<rparr>)
      | Some (Inr r, w) \<Rightarrow> Some (g r (st\<lparr>as_world := w\<rparr>)))"

definition store_filtered :: "string \<Rightarrow> source_entry \<Rightarrow> 's audit_state \<Rightarrow> 's audit_state" where
  "store_filtered k entry st =
     st\<lparr>as_caches := (as_caches st)\<lparr>auditApiFilteredCache :=
          setAuditLogSourceCache k entry (auditApiFilteredCache (as_caches st))\<rparr>\<rparr>"

definition filtered_page :: "int \<Rightarrow> int \<Rightarrow> source_entry \<Rightarrow> audit_page" where
  "filtered_page page pageSize entry =
     \<lparr>ap_items = se_items entry, ap_total = se_total entry, ap_page = page, ap_pageSize = pageSize,
      ap_hasNext = of_int (page * pageSize) < se_total entry\<rparr>"

definition fetchBoundedAuditApiFilteredLogs ::
    "'s query_env \<Rightarrow> audit_params \<Rightarrow> int \<Rightarrow> int \<Rightarrow> string \<Rightarrow> ('s, audit_page) slow_job" where
  "fetchBoundedAuditApiFilteredLogs env params page pageSize userQuery st =
     (let cacheKey = buildAuditSourceCacheKey ''audit-api-filtered'' params 0
      in case lru_touch cacheKey (auditApiFilteredCache (as_caches st)) of
           (Some entry, cache) \<Rightarrow>
             Some (Inr (filtered_page page pageSize entry),
                   st\<lparr>as_caches := (as_caches st)\<lparr>auditApiFilteredCache := cache\<rparr>\<rparr>)
         | (None, _) \<Rightarrow>
             collected (collect_matching env params userQuery 1 [] 0)
               (\<lambda>(items, totl, nextPage) st'.
                  let entry = \<lparr>se_items = items, se_total = of_nat totl, se_hasNext = False,
                               se_loadedPages = nat (nextPage - 1)\<rparr>
                  in (Inr (filtered_page page pageSize entry), store_filtered cacheKey entry st'))
               st)"

definition fetchAuditLogsFromAuditApi :: "'s query_env \<Rightarrow> audit_params \<Rightarrow> ('s, audit_page) slow_job" where
  "fetchAuditLogsFromAuditApi env params st =
     (case resolveAuditFetchWindow params of
        (page, pageSize, _) \<Rightarrow>
          (let userQuery = trimmed (fa_user_query params); userIDFilter = resolveAuditApiUserIdFilter userQuery
           in if userQuery = [] \<or> userIDFilter \<noteq> None
              then Some (on_world From_Audit (requestAuditLogPage env params 1 pageSize userIDFilter) st)
              else collected (collect_matching env params userQuery 1 [] 0)
                (\<lambda>(items, totl, _). give
                   \<lparr>ap_items = items, ap_total = of_nat totl, ap_page = page, ap_pageSize = pageSize,
                    ap_hasNext = pageSize < int totl\<rparr>) st))"

definition fetchBoundedAuditLogsFromAuditApi :: "'s query_env \<Rightarrow> audit_params \<Rightarrow> ('s, audit_page) slow_job" where
  "fetchBoundedAuditLogsFromAuditApi env params st =
     (case resolveAuditFetchWindow params of
        (page, pageSize, _) \<Rightarrow>
          (let userQuery = trimmed (fa_user_query params); userIDFilter = resolveAuditApiUserIdFilter userQuery
           in if userQuery = [] \<or> userIDFilter \<noteq> None
              then Some (fetchBoundedAuditApiPages env params page pageSize userIDFilter st)
              else fetchBoundedAuditApiFilteredLogs env params page pageSize userQuery st))"

section \<open>Merging the two sources\<close>

text \<open>\<open>Promise.allSettled\<close> and what is made of the two outcomes.\<close>

definition settle_both ::
    "('s, audit_page) slow_job \<Rightarrow> ('s, audit_page) job
     \<Rightarrow> 's audit_state \<Rightarrow> (((audit_error + audit_page) \<times> (audit_error + audit_page)) \<times> 's audit_state) option" where
  "settle_both app sys st =
     (case app st of
        None \<Rightarrow> None
      | Some (applicationResult, st') \<Rightarrow>
          (case sys st' of (systemResult, st'') \<Rightarrow> Some ((applicationResult, systemResult), st'')))"

definition fulfilled_items :: "audit_error + audit_page \<Rightarrow> json list" where
  "fulfilled_items r = (case r of Inl _ \<Rightarrow> [] | Inr p \<Rightarrow> ap_items p)"

definition fulfilled_total :: "audit_error + audit_page \<Rightarrow> rat" where
  "fulfilled_total r = (case r of Inl _ \<Rightarrow> 0 | Inr p \<Rightarrow> ap_total p)"

definition merged_page ::
    "clock \<Rightarrow> int \<Rightarrow> int \<Rightarrow> (audit_error + audit_page) \<times> (audit_error + audit_page) \<Rightarrow> audit_error + audit_page" where
  "merged_page c page pageSize results =
     (case results of
        (Inl e, Inl _) \<Rightarrow> Inl e
      | (app, sys) \<Rightarrow>
          (let mergedItems = js_sort (compareAuditItemsByCreatedAt c) (fulfilled_items app @ fulfilled_items sys);
               start = (page - 1) * pageSize; stop = start + pageSize;
               totl = fulfilled_total app + fulfilled_total sys
           in Inr \<lparr>ap_items = js_slice (nat start) (nat stop) mergedItems, ap_total = totl, ap_page = page,
                   ap_pageSize = pageSize, ap_hasNext = of_int stop < totl\<rparr>))"

definition fetchAuditLogsWithSlidingWindow :: "'s query_env \<Rightarrow> audit_params \<Rightarrow> ('s, audit_page) slow_job" where
  "fetchAuditLogsWithSlidingWindow env params st =
     (case resolveAuditFetchWindow params of
        (page, pageSize, windowSize) \<Rightarrow>
          (let mergedParams = params\<lparr>fa_page := Some 1, fa_page_size := Some windowSize\<rparr>
           in map_option (map_prod (merged_page (qe_clock env) page pageSize) id)
                (settle_both (fetchAuditLogsFromAuditApi env mergedParams)
                   (fetchAuditLogsFromQueryPipeline env mergedParams) st)))"

definition fetchAuditLogsWithBoundedWindow :: "'s query_env \<Rightarrow> audit_params \<Rightarrow> ('s, audit_page) slow_job" where
  "fetchAuditLogsWithBoundedWindow env params st =
     (case resolveAuditFetchWindow params of
        (page, pageSize, _) \<Rightarrow>
          (let boundedParams = params\<lparr>fa_page := Some page, fa_page_size := Some pageSize\<rparr>
           in map_option (map_prod (merged_page (qe_clock env) page pageSize) id)
                (settle_both (fetchBoundedAuditLogsFromAuditApi env boundedParams)
                   (fetchBoundedAuditLogsFromQueryPipeline env boundedParams) st)))"

definition fetchAuditLogs :: "'s query_env \<Rightarrow> audit_params \<Rightarrow> ('s, audit_page) slow_job" where
  "fetchAuditLogs env params =
     (let normalizedTo = trimmed (fa_to params)
      in if normalizedTo = [] then fetchAuditLogsWithSlidingWindow env params
         else fetchAuditLogsWithBoundedWindow env (params\<lparr>fa_to := Some normalizedTo\<rparr>))"

section \<open>The export\<close>

definition decode_download :: "string \<Rightarrow> string \<Rightarrow> query_answer \<Rightarrow> api_error + json option" where
  "decode_download what code a =
     (case a of
        Unreachable \<Rightarrow> Inl BrowserError
      | Answer status body \<Rightarrow>
          (let envelope = envelope_of body
           in if \<not> response_ok status
              then Inl (ApiError
                (js_String (field_or envelope ''message'' (JStr (what @ '': HTTP '' @ nat_to_string status)))) status
                (js_String (field_or envelope ''code'' (JStr code))))
              else Inr body))"

definition downloadAuditLogs :: "'s query_env \<Rightarrow> audit_params \<Rightarrow> string \<Rightarrow> ('s, json option) op" where
  "downloadAuditLogs env params format w =
     (let trimmed_opt = map_option trim
      in case service_api_request env (wd_browser w) audit_service ''/logs/export'' ''GET''
            [(''user_id'', trimmed_opt (fa_user_query params)), (''action'', trimmed_opt (fa_action params)),
             (''resource_type'', trimmed_opt (fa_resource_type params)), (''from'', trimmed_opt (fa_from params)),
             (''to'', trimmed_opt (fa_to params)),
             (''sort_by'', Some (nullish (trimmed_opt (fa_sort_by params)) ''created_at'')),
             (''sort_order'', Some (nullish (trimmed_opt (fa_sort_order params)) ''desc'')), (''format'', Some format)] None of
           None \<Rightarrow> (Inl BrowserError, w)
         | Some rq \<Rightarrow>
             (case qe_server env (wd_net w) rq of
                (a, s) \<Rightarrow> (decode_download ''audit export failed'' ''AUDIT_EXPORT_FAILED'' a, w\<lparr>wd_net := s\<rparr>)))"

section \<open>Lemmas\<close>

subsection \<open>Merging sorted lists\<close>

text \<open>The reference: two lists in order are merged as Mergesort does, equal elements from the first.\<close>

fun merge :: "('a \<Rightarrow> 'a \<Rightarrow> bool) \<Rightarrow> 'a list \<Rightarrow> 'a list \<Rightarrow> 'a list" where
  "merge le [] ys = ys"
| "merge le xs [] = xs"
| "merge le (x # xs) (y # ys) = (if le x y then x # merge le xs (y # ys) else y # merge le (x # xs) ys)"

lemma merge_Nil2 [simp]: "merge le xs [] = xs"
  by (cases xs) simp_all

lemma length_merge [simp]: "length (merge le xs ys) = length xs + length ys"
  by (induction le xs ys rule: merge.induct) simp_all

lemma js_insert_head: "list_all (le x) (take 1 ys) \<Longrightarrow> js_insert le x ys = x # ys"
  by (cases ys) simp_all

lemma merge_head: "take 1 (merge le xs ys) = take 1 xs \<or> take 1 (merge le xs ys) = take 1 ys"
  by (cases xs; cases ys) auto

lemma js_insert_merge:
  assumes trans: "\<And>a b c. a \<in> S \<Longrightarrow> b \<in> S \<Longrightarrow> c \<in> S \<Longrightarrow> le a b \<Longrightarrow> le b c \<Longrightarrow> le a c"
    and "sorted_wrt le (x # xs)" and "sorted_wrt le ys" and "set (x # xs) \<union> set ys \<subseteq> S"
  shows "js_insert le x (merge le xs ys) = merge le (x # xs) ys"
  using assms(2-)
proof (induction ys)
  case Nil
  then show ?case by (simp add: js_insert_head) (cases xs; simp)
next
  case (Cons y ys)
  show ?case
  proof (cases "le x y")
    case True
    have "list_all (le x) (take 1 (merge le xs (y # ys)))"
      using merge_head [of le xs "y # ys"] True Cons.prems(1) by (cases xs) auto
    then show ?thesis using True by (simp add: js_insert_head)
  next
    case False
    have "\<not> le x' y" if "x' \<in> set xs" for x'
      using False that Cons.prems trans [of x x' y] by auto
    then have "merge le xs (y # ys) = y # merge le xs ys" by (cases xs) auto
    then show ?thesis using False Cons by simp
  qed
qed

lemma js_sort_sorted_id: "sorted_wrt le xs \<Longrightarrow> js_sort le xs = xs"
proof (induction xs)
  case (Cons x xs)
  then show ?case by (cases xs) simp_all
qed simp

lemma js_sort_append:
  assumes "\<And>a b c. a \<in> S \<Longrightarrow> b \<in> S \<Longrightarrow> c \<in> S \<Longrightarrow> le a b \<Longrightarrow> le b c \<Longrightarrow> le a c"
    and "sorted_wrt le xs" and "sorted_wrt le ys" and "set xs \<union> set ys \<subseteq> S"
  shows "js_sort le (xs @ ys) = merge le xs ys"
  using assms(2,4)
proof (induction xs)
  case (Cons x xs)
  then show ?case using js_insert_merge [OF assms(1), where x = x and xs = xs and ys = ys] assms(3) by simp
qed (use assms(3) in \<open>simp add: js_sort_sorted_id\<close>)

lemma take_merge:
  "n \<le> i \<Longrightarrow> n \<le> j \<Longrightarrow> take n (merge le (take i xs) (take j ys)) = take n (merge le xs ys)"
proof (induction n arbitrary: xs ys i j)
  case (Suc n)
  then obtain i' j' where ij: "i = Suc i'" "j = Suc j'" "n \<le> i'" "n \<le> j'" by (metis Suc_le_D Suc_le_mono)
  show ?case
  proof (cases xs; cases ys)
    fix x xs' y ys'
    assume "xs = x # xs'" "ys = y # ys'"
    then show ?thesis using ij Suc.IH [of i' "Suc j'" xs' ys] Suc.IH [of "Suc i'" j' xs ys'] by simp
  qed (use ij in simp_all)
qed simp

lemma js_slice_take: "j \<le> n \<Longrightarrow> js_slice i j (take n xs) = js_slice i j xs"
  by (auto simp: js_slice_def drop_take min_def)

lemma js_slice_cong: "take j xs = take j ys \<Longrightarrow> js_slice i j xs = js_slice i j ys"
  by (metis js_slice_take order_refl)

lemma concat_pages: "concat (map (\<lambda>p. js_slice (p * n) (p * n + n) xs) [0..<k]) = take (k * n) xs"
proof (induction k)
  case (Suc k)
  have "take (k * n) xs @ js_slice (k * n) (k * n + n) xs = take (k * n + n) xs"
    by (simp add: js_slice_def take_add)
  with Suc show ?case by (simp add: add.commute)
qed simp

subsection \<open>The sources\<close>

text \<open>Records of a source in the order of their time, the newest first, every time readable.\<close>

definition not_older :: "clock \<Rightarrow> json \<Rightarrow> json \<Rightarrow> bool" where
  "not_older c a b \<longleftrightarrow> the (audit_time c b) \<le> the (audit_time c a)"

definition newest_first :: "clock \<Rightarrow> json list \<Rightarrow> bool" where
  "newest_first c xs \<longleftrightarrow> list_all (\<lambda>x. audit_time c x \<noteq> None) xs \<and> sorted_wrt (not_older c) xs"

lemma newest_first_take: "newest_first c xs \<Longrightarrow> newest_first c (take n xs)"
  by (auto simp: newest_first_def list_all_iff sorted_wrt_take dest: in_set_takeD)

text \<open>On records with a readable time the code's comparison is the order by time.\<close>

lemma compare_not_older:
  "audit_time c a \<noteq> None \<Longrightarrow> audit_time c b \<noteq> None \<Longrightarrow> compareAuditItemsByCreatedAt c a b = not_older c a b"
  by (auto simp: compareAuditItemsByCreatedAt_def not_older_def)

lemma newest_first_compare: "newest_first c xs \<Longrightarrow> sorted_wrt (compareAuditItemsByCreatedAt c) xs"
  unfolding newest_first_def list_all_iff
  by (elim conjE, erule sorted_wrt_mono_rel [rotated]) (simp add: compare_not_older)

lemma merge_cong:
  "(\<And>a b. a \<in> set xs \<Longrightarrow> b \<in> set ys \<Longrightarrow> le a b = le' a b) \<Longrightarrow> merge le xs ys = merge le' xs ys"
  by (induction le xs ys rule: merge.induct) auto

lemma merge_newest_first:
  "newest_first c xs \<Longrightarrow> newest_first c ys \<Longrightarrow> merge (compareAuditItemsByCreatedAt c) xs ys = merge (not_older c) xs ys"
  by (rule merge_cong) (simp add: newest_first_def list_all_iff compare_not_older)

lemma compare_trans:
  "audit_time c a \<noteq> None \<Longrightarrow> audit_time c b \<noteq> None \<Longrightarrow> audit_time c d \<noteq> None \<Longrightarrow>
     compareAuditItemsByCreatedAt c a b \<Longrightarrow> compareAuditItemsByCreatedAt c b d \<Longrightarrow> compareAuditItemsByCreatedAt c a d"
  by (auto simp: compareAuditItemsByCreatedAt_def)

lemma sort_both:
  assumes "newest_first c xs" and "newest_first c ys"
  shows "js_sort (compareAuditItemsByCreatedAt c) (xs @ ys) = merge (compareAuditItemsByCreatedAt c) xs ys"
proof (rule js_sort_append [where S = "{x. audit_time c x \<noteq> None}"], goal_cases)
  case (1 a b d)
  then show ?case using compare_trans [of c a b d] by simp
next
  case 4
  then show ?case using assms by (auto simp: newest_first_def list_all_iff)
qed (use assms newest_first_compare in blast)+

text \<open>A page is the same whether the sources are given whole or as far as the end of the page.\<close>

lemma merged_items_window:
  assumes "newest_first c xs" and "newest_first c ys" and "j \<le> n" and "j \<le> m"
  shows "js_slice i j (js_sort (compareAuditItemsByCreatedAt c) (take n xs @ take m ys))
    = js_slice i j (merge (not_older c) xs ys)"
  unfolding merge_newest_first [OF assms(1,2), symmetric] sort_both [OF newest_first_take [OF assms(1)] newest_first_take [OF assms(2)]]
  by (rule js_slice_cong [OF take_merge [OF assms(3,4)]])

subsection \<open>The caches\<close>

lemmas lru_laws = lru_set_ok lru_touch_ok

interpretation ac: recency_cache jm_get setAuditLogSourceCache lru_touch "lru_ok AUDIT_SOURCE_CACHE_LIMIT" length
    AUDIT_SOURCE_CACHE_LIMIT
proof (unfold_locales, goal_cases)
  case (4 m k k' v)
  then show ?case unfolding setAuditLogSourceCache_def by (intro lru_laws(3)) (simp_all add: AUDIT_SOURCE_CACHE_LIMIT_def)
qed (simp_all add: setAuditLogSourceCache_def lru_laws AUDIT_SOURCE_CACHE_LIMIT_def, simp add: lru_ok_def)

lemma cache_key_ne [simp]: "buildAuditSourceCacheKey source params n \<noteq> []"
  by (simp add: buildAuditSourceCacheKey_def)

text \<open>Three properties, one of each cache's entries.\<close>

definition caches_keep ::
    "(string \<Rightarrow> source_entry \<Rightarrow> bool) \<Rightarrow> (string \<Rightarrow> source_entry \<Rightarrow> bool) \<Rightarrow> (string \<Rightarrow> source_entry \<Rightarrow> bool)
     \<Rightarrow> audit_caches \<Rightarrow> bool" where
  "caches_keep P F Q cs \<longleftrightarrow>
     ac.keep P (auditApiPageCache cs) \<and> ac.keep F (auditApiFilteredCache cs) \<and> ac.keep Q (queryPipelinePageCache cs)"

lemma on_world_caches [simp]: "as_caches (snd (on_world err f st)) = as_caches st"
  by (auto simp: on_world_def split: prod.split sum.split)

lemma store_keeps:
  "caches_keep P F Q (as_caches st) \<Longrightarrow> k \<noteq> [] \<Longrightarrow> P k e \<Longrightarrow> caches_keep P F Q (as_caches (store_page k e st))"
  "caches_keep P F Q (as_caches st) \<Longrightarrow> k \<noteq> [] \<Longrightarrow> F k e \<Longrightarrow> caches_keep P F Q (as_caches (store_filtered k e st))"
  "caches_keep P F Q (as_caches st) \<Longrightarrow> k \<noteq> [] \<Longrightarrow> Q k e \<Longrightarrow> caches_keep P F Q (as_caches (store_pipeline k e st))"
  by (simp_all add: caches_keep_def store_page_def store_filtered_def store_pipeline_def ac.keep_put)

lemma touch_keeps:
  "caches_keep P F Q cs \<Longrightarrow> caches_keep P F Q (cs\<lparr>auditApiPageCache := snd (lru_touch k (auditApiPageCache cs))\<rparr>)"
  "caches_keep P F Q cs \<Longrightarrow> caches_keep P F Q (cs\<lparr>auditApiFilteredCache := snd (lru_touch k (auditApiFilteredCache cs))\<rparr>)"
  "caches_keep P F Q cs \<Longrightarrow> caches_keep P F Q (cs\<lparr>queryPipelinePageCache := snd (lru_touch k (queryPipelinePageCache cs))\<rparr>)"
  by (simp_all add: caches_keep_def ac.keep_touch)

subsection \<open>Loading pages\<close>

lemma load_pages_stop:
  "\<not> (se_loadedPages entry < page \<and> (se_loadedPages entry = 0 \<or> se_hasNext entry)) \<Longrightarrow>
     load_pages request store page entry st = (Inr entry, st)"
  by (subst load_pages.simps) (rule if_not_P)

lemma load_pages_go:
  "se_loadedPages entry < page \<and> (se_loadedPages entry = 0 \<or> se_hasNext entry) \<Longrightarrow>
     load_pages request store page entry st =
     (case request (se_loadedPages entry + 1) entry st of
        (Inl e, st') \<Rightarrow> (Inl e, st')
      | (Inr batch, st') \<Rightarrow>
          (let entry' = batch\<lparr>se_loadedPages := se_loadedPages entry + 1\<rparr>
           in if se_hasNext entry' then load_pages request store page entry' (store entry' st')
              else (Inr entry', store entry' st')))"
  by (subst load_pages.simps) simp

text \<open>An invariant \<open>I\<close> of the state and \<open>E\<close> of the entry which the request and the store keep.\<close>

lemma load_pages_inv:
  assumes request: "\<And>n entry st. I st \<Longrightarrow> I (snd (request n entry st))"
    and result: "\<And>n entry st e. fst (request n entry st) = Inr e \<Longrightarrow> E entry \<Longrightarrow> n = se_loadedPages entry + 1 \<Longrightarrow>
                    I st \<Longrightarrow> E (e\<lparr>se_loadedPages := n\<rparr>)"
    and store: "\<And>e st. I st \<Longrightarrow> E e \<Longrightarrow> 0 < se_loadedPages e \<Longrightarrow> I (store e st)"
    and "I st" and "E entry"
  shows "I (snd (load_pages request store page entry st))
    \<and> (\<forall>e. fst (load_pages request store page entry st) = Inr e \<longrightarrow> E e)"
  using assms(4,5)
proof (induction "page - se_loadedPages entry" arbitrary: entry st rule: less_induct)
  case less
  show ?case
  proof (cases "se_loadedPages entry < page \<and> (se_loadedPages entry = 0 \<or> se_hasNext entry)")
    case go: True
    obtain r st' where r: "request (se_loadedPages entry + 1) entry st = (r, st')" by (cases "request (se_loadedPages entry + 1) entry st")
    then have st': "I st'" using request [OF less.prems(1)] by (metis snd_conv)
    show ?thesis
    proof (cases r)
      case (Inl e)
      then show ?thesis using go r st' by (simp add: load_pages_go)
    next
      case (Inr batch)
      let ?e = "batch\<lparr>se_loadedPages := se_loadedPages entry + 1\<rparr>"
      have e: "E ?e" using result [of _ entry st batch] r Inr less.prems by simp
      then have s: "I (store ?e st')" using store [OF st'] by simp
      have "page - se_loadedPages ?e < page - se_loadedPages entry" using go by auto
      from less.hyps [OF this s e] show ?thesis using go r Inr s e by (simp add: load_pages_go Let_def)
    qed
  qed (use less.prems in \<open>simp add: load_pages_stop\<close>)
qed

lemma snd_and_then_give [simp]: "snd (and_then f (\<lambda>a. give (g a)) st) = snd (f st)"
  by (auto simp: and_then_def give_def split: prod.splits sum.splits)

lemma query_window_caches [simp]: "as_caches (snd (query_window env params sz n e st)) = as_caches st"
  by (simp add: query_window_def query_audit_logs_def)

lemma audit_api_page_caches [simp]: "as_caches (snd (audit_api_page env params sz u n e st)) = as_caches st"
  by (simp add: audit_api_page_def)

lemma audit_api_page_loaded: "fst (audit_api_page env params sz u n e st) = Inr e' \<Longrightarrow> se_loadedPages e' = n"
  by (auto simp: audit_api_page_def and_then_def give_def split: prod.splits sum.splits)

lemma query_window_loaded: "fst (query_window env params sz n e st) = Inr e' \<Longrightarrow> se_loadedPages e' = n"
  by (auto simp: query_window_def and_then_def give_def split: prod.splits sum.splits)

text \<open>What the entries of the caches satisfy after any calls: no page is empty-handed, a filtered list is whole.\<close>

definition loaded_entry :: "string \<Rightarrow> source_entry \<Rightarrow> bool" where
  "loaded_entry k e \<longleftrightarrow> 0 < se_loadedPages e"

definition whole_entry :: "string \<Rightarrow> source_entry \<Rightarrow> bool" where
  "whole_entry k e \<longleftrightarrow> \<not> se_hasNext e \<and> se_total e = of_nat (length (se_items e))"

abbreviation sound_caches :: "audit_caches \<Rightarrow> bool" where
  "sound_caches \<equiv> caches_keep loaded_entry whole_entry loaded_entry"

lemma bounded_pipeline_sound:
  assumes "sound_caches (as_caches st)"
  shows "sound_caches (as_caches (snd (fetchBoundedAuditLogsFromQueryPipeline env params st)))"
proof -
  have "sound_caches (as_caches (snd (load_pages (query_window env params sz) (store_pipeline k) n e (st\<lparr>as_caches := cs\<rparr>))))"
    if "sound_caches cs" and "k \<noteq> []" for sz k n e cs
    by (rule conjunct1 [OF load_pages_inv [where E = "\<lambda>_. True"]])
      (use that in \<open>auto intro: store_keeps(3) loaded_entry_def [THEN iffD2]\<close>)
  note this [OF touch_keeps(3) [OF assms] cache_key_ne]
  then show ?thesis
    by (simp add: fetchBoundedAuditLogsFromQueryPipeline_def Let_def case_prod_unfold)
qed

lemma bounded_pages_sound:
  assumes "sound_caches (as_caches st)"
  shows "sound_caches (as_caches (snd (fetchBoundedAuditApiPages env params page sz u st)))"
proof -
  have "sound_caches (as_caches (snd (load_pages (audit_api_page env params sz u) (store_page k) n e (st\<lparr>as_caches := cs\<rparr>))))"
    if "sound_caches cs" and "k \<noteq> []" for k n e cs
    by (rule conjunct1 [OF load_pages_inv [where E = "\<lambda>_. True"]])
      (use that in \<open>auto intro: store_keeps(1) loaded_entry_def [THEN iffD2]\<close>)
  note this [OF touch_keeps(1) [OF assms] cache_key_ne]
  then show ?thesis
    by (simp add: fetchBoundedAuditApiPages_def Let_def case_prod_unfold)
qed

lemma collect_matching_counts:
  "collect_matching env params q p items totl w = Some r \<Longrightarrow>
     totl = length items \<longrightarrow> (case fst r of Inl _ \<Rightarrow> True | Inr (items', totl', _) \<Rightarrow> totl' = length items')"
proof (erule collect_matching.raw_induct [rotated, where
      P = "\<lambda>env params q p items totl w r. totl = length items \<longrightarrow>
             (case fst r of Inl _ \<Rightarrow> True | Inr (items', totl', _) \<Rightarrow> totl' = length items')"], goal_cases)
  case (1 f env params q p items totl w r)
  from 1(2) show ?case by (auto split: prod.splits sum.splits if_splits dest!: 1(1))
qed

lemma collect_matching_total:
  "collect_matching env params q p items (length items) w = Some (Inr (items', totl', p'), w') \<Longrightarrow> totl' = length items'"
  using collect_matching_counts by fastforce

lemma filtered_sound:
  assumes "sound_caches (as_caches st)" and "fetchBoundedAuditApiFilteredLogs env params page sz q st = Some (r, st')"
  shows "sound_caches (as_caches st')"
proof (cases "fst (lru_touch (buildAuditSourceCacheKey ''audit-api-filtered'' params 0) (auditApiFilteredCache (as_caches st)))")
  case None
  then show ?thesis
    using assms collect_matching_total [of env params q 1 "[]" "as_world st"]
    by (auto simp: fetchBoundedAuditApiFilteredLogs_def collected_def Let_def whole_entry_def store_keeps(2)
        split: prod.splits option.splits sum.splits)
next
  case (Some e)
  then show ?thesis
    using assms touch_keeps(2) [OF assms(1), of "buildAuditSourceCacheKey ''audit-api-filtered'' params 0"]
    by (auto simp: fetchBoundedAuditApiFilteredLogs_def Let_def split: prod.splits)
qed

lemma settle_both_SomeD:
  "settle_both app sys st = Some (rs, st'') \<Longrightarrow>
     \<exists>st'. app st = Some (fst rs, st') \<and> sys st' = (snd rs, st'')"
  by (auto simp: settle_both_def split: option.splits prod.splits)

lemma fetchAuditLogs_sound:
  assumes ok: "sound_caches (as_caches st)" and r: "fetchAuditLogs env params st = Some (r, st'')"
  shows "sound_caches (as_caches st'')"
proof (cases "trimmed (fa_to params) = []")
  case True
  obtain rs ps where "settle_both (fetchAuditLogsFromAuditApi env ps) (fetchAuditLogsFromQueryPipeline env ps) st = Some (rs, st'')"
    using r True by (auto simp: fetchAuditLogs_def fetchAuditLogsWithSlidingWindow_def Let_def split: prod.splits)
  then obtain st' where st': "fetchAuditLogsFromAuditApi env ps st = Some (fst rs, st')"
    "fetchAuditLogsFromQueryPipeline env ps st' = (snd rs, st'')" using settle_both_SomeD by blast
  have "as_caches st' = as_caches st"
    using st'(1) on_world_caches [of From_Audit _ st]
    by (auto simp: fetchAuditLogsFromAuditApi_def collected_def give_def Let_def
        split: prod.splits option.splits sum.splits if_splits dest!: arg_cong [of _ "(fst rs, st')" snd])
  moreover have "as_caches st'' = as_caches st'"
    using st'(2) by (auto simp: fetchAuditLogsFromQueryPipeline_def query_audit_logs_def split: prod.splits
        dest!: arg_cong [of _ "(snd rs, st'')" "\<lambda>x. as_caches (snd x)"])
  ultimately show ?thesis using ok by simp
next
  case False
  obtain rs ps where "settle_both (fetchBoundedAuditLogsFromAuditApi env ps) (fetchBoundedAuditLogsFromQueryPipeline env ps) st
      = Some (rs, st'')"
    using r False by (auto simp: fetchAuditLogs_def fetchAuditLogsWithBoundedWindow_def Let_def split: prod.splits)
  then obtain st' where st': "fetchBoundedAuditLogsFromAuditApi env ps st = Some (fst rs, st')"
    "fetchBoundedAuditLogsFromQueryPipeline env ps st' = (snd rs, st'')" using settle_both_SomeD by blast
  have "sound_caches (as_caches st')"
    using st'(1) bounded_pages_sound [OF ok] filtered_sound [OF ok]
    by (auto simp: fetchBoundedAuditLogsFromAuditApi_def Let_def split: prod.splits if_splits) (metis snd_conv)+
  from bounded_pipeline_sound [OF this, of env ps] show ?thesis using st'(2) by simp
qed

subsection \<open>Paging through the merged log\<close>

text \<open>
  The contract of the services for one set of filters: the audit service has the events \<open>A\<close> and answers page
  \<open>n\<close> with its slice of them, the query service has the records \<open>B\<close> and answers a window with its newest.
\<close>

definition events_page :: "json list \<Rightarrow> nat \<Rightarrow> nat \<Rightarrow> audit_page" where
  "events_page A sz n =
     \<lparr>ap_items = js_slice ((n - 1) * sz) (n * sz) A, ap_total = of_nat (length A), ap_page = int n,
      ap_pageSize = int sz, ap_hasNext = (n * sz < length A)\<rparr>"

definition serves_events ::
    "'s query_env \<Rightarrow> audit_params \<Rightarrow> browser \<Rightarrow> json list \<Rightarrow> nat \<Rightarrow> nat \<Rightarrow> bool" where
  "serves_events env params b A sz pages \<longleftrightarrow>
     (\<forall>n\<in>{1..pages}. \<forall>s. \<exists>s'. requestAuditLogPage env params (int n) (int sz) None \<lparr>wd_browser = b, wd_net = s\<rparr>
        = (Inr (events_page A sz n), \<lparr>wd_browser = b, wd_net = s'\<rparr>))"

definition serves_records ::
    "'s query_env \<Rightarrow> audit_params \<Rightarrow> browser \<Rightarrow> json list \<Rightarrow> nat \<Rightarrow> nat \<Rightarrow> bool" where
  "serves_records env params b B sz pages \<longleftrightarrow>
     (\<forall>n\<in>{1..pages}. \<forall>s. \<exists>r s'.
        queryRealtimeLogs env (audit_logs_payload (qe_clock env) params (int n * int sz)) \<lparr>wd_browser = b, wd_net = s\<rparr>
          = (Inr r, \<lparr>wd_browser = b, wd_net = s'\<rparr>)
        \<and> system_items r = take (n * sz) B \<and> lr_total r = of_nat (length B))"

definition entry_at :: "json list \<Rightarrow> nat \<Rightarrow> nat \<Rightarrow> source_entry" where
  "entry_at A sz n =
     \<lparr>se_items = take (n * sz) A, se_total = of_nat (length A), se_hasNext = (n * sz < length A), se_loadedPages = n\<rparr>"

definition holds_pages :: "json list \<Rightarrow> nat \<Rightarrow> source_entry \<Rightarrow> bool" where
  "holds_pages A sz e \<longleftrightarrow>
     e = (if se_loadedPages e = 0 then createAuditLogSourceCacheEntry else entry_at A sz (se_loadedPages e))"

lemma holds_pages_simps [simp]:
  "holds_pages A sz createAuditLogSourceCacheEntry" "0 < n \<Longrightarrow> holds_pages A sz (entry_at A sz n)"
  "se_loadedPages (entry_at A sz n) = n" "(entry_at A sz n)\<lparr>se_loadedPages := n\<rparr> = entry_at A sz n"
  by (simp_all add: holds_pages_def createAuditLogSourceCacheEntry_def entry_at_def)

lemma holds_pages_items: "holds_pages A sz e \<Longrightarrow> se_items e = take (se_loadedPages e * sz) A"
  by (cases e) (auto simp: holds_pages_def createAuditLogSourceCacheEntry_def entry_at_def split: if_splits)

lemma load_pages_serves:
  assumes request: "\<And>e st. se_loadedPages e < page \<Longrightarrow> holds_pages A sz e \<Longrightarrow> I st \<Longrightarrow>
      \<exists>st'. request (se_loadedPages e + 1) e st = (Inr (entry_at A sz (se_loadedPages e + 1)), st') \<and> I st'"
    and store: "\<And>e st. I st \<Longrightarrow> holds_pages A sz e \<Longrightarrow> I (store e st)"
    and "I st" and "holds_pages A sz e" and "0 < page"
  shows "\<exists>n st'. load_pages request store page e st = (Inr (entry_at A sz n), st') \<and> I st' \<and> 0 < n
    \<and> (page \<le> n \<or> length A \<le> n * sz)"
  using assms(3,4)
proof (induction "page - se_loadedPages e" arbitrary: e st rule: less_induct)
  case less
  have e: "e = entry_at A sz (se_loadedPages e)" if "se_loadedPages e \<noteq> 0"
    using less.prems(2) that by (simp add: holds_pages_def)
  show ?case
  proof (cases "se_loadedPages e < page \<and> (se_loadedPages e = 0 \<or> se_hasNext e)")
    case go: True
    let ?n = "se_loadedPages e + 1"
    let ?e = "entry_at A sz ?n"
    obtain st' where r: "request ?n e st = (Inr ?e, st')" "I st'" using request go less.prems by blast
    have s: "I (store ?e st')" using store r(2) by simp
    have "page - se_loadedPages ?e < page - se_loadedPages e" using go by auto
    from less.hyps [OF this s] show ?thesis
    proof (cases "se_hasNext ?e")
      case True
      then have "load_pages request store page e st = load_pages request store page ?e (store ?e st')"
        using go r(1) by (simp add: load_pages_go Let_def)
      then show ?thesis using less.hyps [OF \<open>page - se_loadedPages ?e < _\<close> s] by simp
    next
      case False
      then have "load_pages request store page e st = (Inr ?e, store ?e st')"
        using go r(1) by (simp add: load_pages_go Let_def)
      moreover have "length A \<le> ?n * sz" using False by (simp add: entry_at_def)
      ultimately show ?thesis using s by (intro exI [of _ ?n] exI [of _ "store ?e st'"]) simp
    qed
  next
    case False
    then have n: "0 < se_loadedPages e" and "page \<le> se_loadedPages e \<or> \<not> se_hasNext e"
      using assms(5) by auto
    then have "page \<le> se_loadedPages e \<or> length A \<le> se_loadedPages e * sz"
      using e by (metis (no_types, lifting) entry_at_def not_less source_entry.select_convs(3) less_irrefl)
    moreover have "load_pages request store page e st = (Inr (entry_at A sz (se_loadedPages e)), st)"
      using load_pages_stop [OF False, of request store st] e n by simp
    ultimately show ?thesis using n less.prems(1) by blast
  qed
qed

text \<open>What the caches may hold of the two sources under the filters.\<close>

definition caches_hold :: "audit_params \<Rightarrow> json list \<Rightarrow> json list \<Rightarrow> nat \<Rightarrow> audit_caches \<Rightarrow> bool" where
  "caches_hold params A B sz =
     caches_keep (\<lambda>k e. k = buildAuditSourceCacheKey ''audit-api-page'' params (int sz) \<longrightarrow> holds_pages A sz e)
       (\<lambda>_ _. True)
       (\<lambda>k e. k = buildAuditSourceCacheKey ''query-pipeline-window'' params (int sz) \<longrightarrow> holds_pages B sz e)"

definition good_state :: "audit_params \<Rightarrow> browser \<Rightarrow> json list \<Rightarrow> json list \<Rightarrow> nat \<Rightarrow> 's audit_state \<Rightarrow> bool" where
  "good_state params b A B sz st \<longleftrightarrow> wd_browser (as_world st) = b \<and> caches_hold params A B sz (as_caches st)"

lemma store_worlds [simp]:
  "as_world (store_page k e st) = as_world st" "as_world (store_pipeline k e st) = as_world st"
  by (simp_all add: store_page_def store_pipeline_def)

lemma no_user_filter [simp]: "resolveAuditApiUserIdFilter [] = None"
  by code_simp

lemma rat_less_nat: "of_int (int n * int k) < (of_nat m :: rat) \<longleftrightarrow> n * k < m"
  by (metis of_int_of_nat_eq of_nat_less_iff of_nat_mult)

lemma js_slice_extend: "take (n * sz) A @ js_slice (n * sz) (Suc n * sz) A = take (Suc n * sz) A"
  by (simp add: js_slice_def take_add [symmetric] add.commute)

lemma api_pages_served:
  assumes serves: "serves_events env params b A sz page" and st: "good_state params b A B sz st" and "0 < page"
  shows "\<exists>n st'. fetchBoundedAuditApiPages env params (int page) (int sz) None st
      = (Inr \<lparr>ap_items = take n A, ap_total = of_nat (length A), ap_page = int page, ap_pageSize = int sz,
              ap_hasNext = (n < length A)\<rparr>, st')
    \<and> (page * sz \<le> n \<or> length A \<le> n) \<and> good_state params b A B sz st'"
proof -
  let ?key = "buildAuditSourceCacheKey ''audit-api-page'' params (int sz)"
  let ?c = "snd (lru_touch ?key (auditApiPageCache (as_caches st)))"
  let ?st = "st\<lparr>as_caches := (as_caches st)\<lparr>auditApiPageCache := ?c\<rparr>\<rparr>"
  let ?e = "nullish (fst (lru_touch ?key (auditApiPageCache (as_caches st)))) createAuditLogSourceCacheEntry"
  have e: "holds_pages A sz ?e"
    using st ac.keep_found [of _ "auditApiPageCache (as_caches st)" ?key]
    by (cases "fst (lru_touch ?key (auditApiPageCache (as_caches st)))") (auto simp: good_state_def caches_hold_def caches_keep_def)
  have st': "good_state params b A B sz ?st"
    using st touch_keeps(1) unfolding good_state_def caches_hold_def by simp
  have "\<exists>n st'. load_pages (audit_api_page env params (int sz) None) (store_page ?key) page ?e ?st = (Inr (entry_at A sz n), st')
      \<and> good_state params b A B sz st' \<and> 0 < n \<and> (page \<le> n \<or> length A \<le> n * sz)"
  proof (rule load_pages_serves [where I = "good_state params b A B sz", OF _ _ st' e \<open>0 < page\<close>])
    fix e and st :: "'a audit_state"
    assume *: "se_loadedPages e < page" "holds_pages A sz e" "good_state params b A B sz st"
    then obtain s' where "requestAuditLogPage env params (int (se_loadedPages e + 1)) (int sz) None (as_world st)
        = (Inr (events_page A sz (se_loadedPages e + 1)), \<lparr>wd_browser = b, wd_net = s'\<rparr>)"
      using serves [unfolded serves_events_def, rule_format, of "se_loadedPages e + 1" "wd_net (as_world st)"]
      by (cases "as_world st") (auto simp: good_state_def)
    then have "audit_api_page env params (int sz) None (se_loadedPages e + 1) e st
        = (Inr (entry_at A sz (se_loadedPages e + 1)), st\<lparr>as_world := \<lparr>wd_browser = b, wd_net = s'\<rparr>\<rparr>)"
      using js_slice_extend [of "se_loadedPages e" sz A] holds_pages_items [OF *(2)]
      by (simp add: audit_api_page_def and_then_def on_world_def give_def events_page_def entry_at_def)
    then show "\<exists>st'. audit_api_page env params (int sz) None (se_loadedPages e + 1) e st
        = (Inr (entry_at A sz (se_loadedPages e + 1)), st') \<and> good_state params b A B sz st'"
      using *(3) by (auto simp: good_state_def)
  qed (auto simp: good_state_def caches_hold_def intro: store_keeps(1))
  then obtain n st' where "load_pages (audit_api_page env params (int sz) None) (store_page ?key) page ?e ?st
      = (Inr (entry_at A sz n), st')" "good_state params b A B sz st'" "page \<le> n \<or> length A \<le> n * sz" by blast
  then show ?thesis
    by (intro exI [of _ "n * sz"] exI [of _ st'])
      (auto simp: fetchBoundedAuditApiPages_def Let_def case_prod_unfold and_then_def give_def entry_at_def)
qed

lemma records_served:
  assumes serves: "serves_records env params b B sz page" and st: "good_state params b A B sz st" and "0 < page"
    and window: "resolveAuditFetchWindow params = (int page, int sz, w)"
  shows "\<exists>n st'. fetchBoundedAuditLogsFromQueryPipeline env params st
      = (Inr \<lparr>ap_items = take n B, ap_total = of_nat (length B), ap_page = int page, ap_pageSize = int sz,
              ap_hasNext = (page * sz < length B)\<rparr>, st')
    \<and> (page * sz \<le> n \<or> length B \<le> n) \<and> good_state params b A B sz st'"
proof -
  let ?key = "buildAuditSourceCacheKey ''query-pipeline-window'' params (int sz)"
  let ?c = "snd (lru_touch ?key (queryPipelinePageCache (as_caches st)))"
  let ?st = "st\<lparr>as_caches := (as_caches st)\<lparr>queryPipelinePageCache := ?c\<rparr>\<rparr>"
  let ?e = "nullish (fst (lru_touch ?key (queryPipelinePageCache (as_caches st)))) createAuditLogSourceCacheEntry"
  have e: "holds_pages B sz ?e"
    using st ac.keep_found [of _ "queryPipelinePageCache (as_caches st)" ?key]
    by (cases "fst (lru_touch ?key (queryPipelinePageCache (as_caches st)))") (auto simp: good_state_def caches_hold_def caches_keep_def)
  have st': "good_state params b A B sz ?st"
    using st touch_keeps(3) unfolding good_state_def caches_hold_def by simp
  have "\<exists>n st'. load_pages (query_window env params (int sz)) (store_pipeline ?key) page ?e ?st = (Inr (entry_at B sz n), st')
      \<and> good_state params b A B sz st' \<and> 0 < n \<and> (page \<le> n \<or> length B \<le> n * sz)"
  proof (rule load_pages_serves [where I = "good_state params b A B sz", OF _ _ st' e \<open>0 < page\<close>])
    fix e and st :: "'a audit_state"
    assume *: "se_loadedPages e < page" "holds_pages B sz e" "good_state params b A B sz st"
    let ?n = "se_loadedPages e + 1"
    obtain r s' where r: "queryRealtimeLogs env (audit_logs_payload (qe_clock env) params (int ?n * int sz)) (as_world st)
        = (Inr r, \<lparr>wd_browser = b, wd_net = s'\<rparr>)" "system_items r = take (?n * sz) B" "lr_total r = of_nat (length B)"
      using serves [unfolded serves_records_def, rule_format, of ?n "wd_net (as_world st)"] *
      by (cases "as_world st") (auto simp: good_state_def)
    have "query_window env params (int sz) ?n e st
        = (Inr \<lparr>se_items = take (?n * sz) B, se_total = of_nat (length B),
                se_hasNext = of_int (int ?n * int sz) < (of_nat (length B) :: rat), se_loadedPages = ?n\<rparr>,
           st\<lparr>as_world := \<lparr>wd_browser = b, wd_net = s'\<rparr>\<rparr>)"
      using r by (simp add: query_window_def query_audit_logs_def and_then_def on_world_def give_def)
    also have "of_int (int ?n * int sz) < (of_nat (length B) :: rat) \<longleftrightarrow> ?n * sz < length B" by (rule rat_less_nat)
    finally have "query_window env params (int sz) ?n e st = (Inr (entry_at B sz ?n), st\<lparr>as_world := \<lparr>wd_browser = b, wd_net = s'\<rparr>\<rparr>)"
      by (simp only: entry_at_def)
    then show "\<exists>st'. query_window env params (int sz) ?n e st = (Inr (entry_at B sz ?n), st') \<and> good_state params b A B sz st'"
      using *(3) by (auto simp: good_state_def)
  qed (auto simp: good_state_def caches_hold_def intro: store_keeps(3))
  then obtain n st' where "load_pages (query_window env params (int sz)) (store_pipeline ?key) page ?e ?st
      = (Inr (entry_at B sz n), st')" "good_state params b A B sz st'" "page \<le> n \<or> length B \<le> n * sz" by blast
  then show ?thesis
    using window rat_less_nat [of page sz "length B"]
    by (intro exI [of _ "n * sz"] exI [of _ st'])
      (auto simp: fetchBoundedAuditLogsFromQueryPipeline_def Let_def case_prod_unfold and_then_def give_def entry_at_def)
qed

section \<open>Properties\<close>
text \<open>C12: Paging through the audit log shows the merged log. With a fixed end of the period, no user searched for, and a page
  and a page size of at least one: when the audit service has the events \<open>A\<close> and the query service the records \<open>B\<close>, both
  newest first with readable times, each of their first pages, as many as the page asked for, is answered with its slice
  by the one and as the window up to its end by the other, and the caches hold nothing of the two under these filters
  but such pages, then the page shown is exactly its slice of the two lists merged by time, an event before a record of
  the same time, with the total of both and the note on a next page; and the caches are again so afterwards.\<close>

theorem audit_page_shown:
  fixes page sz :: nat
  assumes "trimmed (fa_to params) \<noteq> []" and "trimmed (fa_user_query params) = []"
    and "fa_page params = Some (int page)" and "fa_page_size params = Some (int sz)" and "0 < page" and "0 < sz"
    and "ps = params\<lparr>fa_to := Some (trimmed (fa_to params))\<rparr>"
    and "serves_events env ps b A sz page" and "serves_records env ps b B sz page"
    and "newest_first (qe_clock env) A" and "newest_first (qe_clock env) B"
    and "good_state ps b A B sz st"
  shows "\<exists>st'. fetchAuditLogs env params st
      = Some (Inr \<lparr>ap_items = js_slice ((page - 1) * sz) (page * sz) (merge (not_older (qe_clock env)) A B),
                   ap_total = of_nat (length A + length B), ap_page = int page, ap_pageSize = int sz,
                   ap_hasNext = (page * sz < length A + length B)\<rparr>, st')
    \<and> good_state ps b A B sz st'"
proof -
  have window: "resolveAuditFetchWindow ps = (int page, int sz, int page * int sz)"
    using assms(3-7) by (simp add: resolveAuditFetchWindow_def Let_def)
  have same: "ps\<lparr>fa_page := Some (int page), fa_page_size := Some (int sz)\<rparr> = ps" using assms(3,4,7) by simp
  obtain n st' where api: "fetchBoundedAuditApiPages env ps (int page) (int sz) None st
      = (Inr \<lparr>ap_items = take n A, ap_total = of_nat (length A), ap_page = int page, ap_pageSize = int sz,
              ap_hasNext = (n < length A)\<rparr>, st')" "page * sz \<le> n \<or> length A \<le> n" "good_state ps b A B sz st'"
    using api_pages_served [OF assms(8,12,5)] by blast
  obtain m st'' where sys: "fetchBoundedAuditLogsFromQueryPipeline env ps st'
      = (Inr \<lparr>ap_items = take m B, ap_total = of_nat (length B), ap_page = int page, ap_pageSize = int sz,
              ap_hasNext = (page * sz < length B)\<rparr>, st'')" "page * sz \<le> m \<or> length B \<le> m" "good_state ps b A B sz st''"
    using records_served [OF assms(9) api(3) assms(5) window] by blast
  have app: "fetchBoundedAuditLogsFromAuditApi env ps st = Some (fetchBoundedAuditApiPages env ps (int page) (int sz) None st)"
    using assms(2,7) window by (simp add: fetchBoundedAuditLogsFromAuditApi_def Let_def)
  have take_ge: "\<exists>k\<ge>j. take i xs = take k xs" if "j \<le> i \<or> length xs \<le> i" for i j and xs :: "json list"
    using that by (cases "j \<le> i") (auto intro: exI [of _ "max i j"])
  obtain i j where ij: "page * sz \<le> i" "take n A = take i A" "page * sz \<le> j" "take m B = take j B"
    using take_ge [OF api(2)] take_ge [OF sys(2)] by metis
  have start: "nat ((int page - 1) * int sz) = (page - 1) * sz" and stop: "nat ((int page - 1) * int sz + int sz) = page * sz"
    using assms(5) by (auto simp: of_nat_diff nat_mult_distrib algebra_simps simp flip: of_nat_mult of_nat_add)
  let ?le = "compareAuditItemsByCreatedAt (qe_clock env)" and ?newer = "not_older (qe_clock env)"
  have items: "js_slice ((page - 1) * sz) (page * sz) (js_sort ?le (take n A @ take m B))
      = js_slice ((page - 1) * sz) (page * sz) (merge ?newer A B)"
    unfolding ij(2,4) by (rule merged_items_window [OF assms(10,11) ij(1,3)])
  have more: "of_int ((int page - 1) * int sz + int sz) < (of_nat (length A) + of_nat (length B) :: rat)
      \<longleftrightarrow> page * sz < length A + length B"
    using rat_less_nat [of page sz "length A + length B"] by (simp add: algebra_simps)
  have settled: "settle_both (fetchBoundedAuditLogsFromAuditApi env ps) (fetchBoundedAuditLogsFromQueryPipeline env ps) st
      = Some ((Inr \<lparr>ap_items = take n A, ap_total = of_nat (length A), ap_page = int page, ap_pageSize = int sz,
                    ap_hasNext = (n < length A)\<rparr>,
               Inr \<lparr>ap_items = take m B, ap_total = of_nat (length B), ap_page = int page, ap_pageSize = int sz,
                    ap_hasNext = (page * sz < length B)\<rparr>), st'')"
    by (simp add: settle_both_def app api(1) sys(1))
  have "fetchAuditLogs env params st = fetchAuditLogsWithBoundedWindow env ps st"
    using assms(1,7) by (simp add: fetchAuditLogs_def Let_def)
  also have "\<dots> = Some (Inr \<lparr>ap_items = js_slice ((page - 1) * sz) (page * sz) (merge ?newer A B),
      ap_total = of_nat (length A + length B), ap_page = int page, ap_pageSize = int sz,
      ap_hasNext = (page * sz < length A + length B)\<rparr>, st'')"
    by (simp only: fetchAuditLogsWithBoundedWindow_def window prod.case same Let_def settled option.map map_prod_simp id_apply
        merged_page_def sum.case fulfilled_items_def fulfilled_total_def start stop items more of_nat_add audit_page.select_convs)
  finally show ?thesis using sys(3) by blast
qed

text \<open>A sample: two events, one record between them.\<close>

definition sample_event :: "string \<Rightarrow> string \<Rightarrow> json" where
  "sample_event i t = JObj [(''id'', JStr i), (''user_id'', JStr ''u''), (''created_at'', JStr t)]"

definition sample_events :: "json list" where
  "sample_events = [sample_event ''a1'' ''2026-01-02T00:00:03Z'', sample_event ''a2'' ''2026-01-02T00:00:01Z'']"

definition sample_hit :: json where
  "sample_hit = JObj [(''id'', JStr ''s1''), (''timestamp'', JStr ''2026-01-02T00:00:02Z''), (''message'', JStr ''m'')]"

definition audit_server :: "nat \<Rightarrow> api_request \<Rightarrow> query_answer \<times> nat" where
  "audit_server n rq =
     (if rq_method rq = ''POST''
      then (Answer 200 (Some (JObj [(''data'', JObj [(''hits'', JArr [sample_hit])]), (''meta'', JObj [(''total'', JNum 1)])])), n)
      else (let i = (if js_includes (rq_url rq) ''page=2'' then 1 else 0)
            in (Answer 200 (Some (JObj
                  [(''data'', JObj [(''items'', JArr [sample_events ! i])]), (''meta'', JObj [(''total'', JNum 2)])])), n)))"

definition audit_env :: "nat query_env" where
  "audit_env = sample_env audit_server"

definition sample_audit_params :: audit_params where
  "sample_audit_params =
     \<lparr>fa_user_query = None, fa_action = None, fa_resource_type = None, fa_from = None, fa_to = Some ''2026-01-03T00:00:00Z'',
      fa_page = Some 2, fa_page_size = Some 1, fa_sort_by = None, fa_sort_order = None\<rparr>"

definition sample_records :: "json list" where
  "sample_records = [json_of_audit (mapAuditLogEntry (hit_entry (qe_clock audit_env) sample_hit 0))]"

definition fresh_audit :: "nat audit_state" where
  "fresh_audit = \<lparr>as_world = \<lparr>wd_browser = expired_browser, wd_net = 0\<rparr>,
     as_caches = \<lparr>auditApiPageCache = [], auditApiFilteredCache = [], queryPipelinePageCache = []\<rparr>\<rparr>"

lemma sample_events_served:
  "serves_events audit_env sample_audit_params expired_browser (map normalizeAuditApiItem sample_events) 1 2"
  unfolding serves_events_def
proof (intro ballI allI exI)
  fix n s assume "n \<in> {1..2::nat}"
  let ?query = "\<lambda>n. [(''user_id'', None), (''action'', fa_action sample_audit_params), (''resource_type'', fa_resource_type sample_audit_params),
      (''from'', fa_from sample_audit_params), (''to'', fa_to sample_audit_params), (''page'', int_param (int n)),
      (''page_size'', int_param (int 1)), (''sort_by'', fa_sort_by sample_audit_params), (''sort_order'', fa_sort_order sample_audit_params)]"
  have "map_option (\<lambda>rq. (rq_method rq, js_includes (rq_url rq) ''page=2''))
      (service_api_request audit_env expired_browser audit_service ''/logs'' ''GET'' (?query 1) None) = Some (''GET'', False)"
    and "map_option (\<lambda>rq. (rq_method rq, js_includes (rq_url rq) ''page=2''))
      (service_api_request audit_env expired_browser audit_service ''/logs'' ''GET'' (?query 2) None) = Some (''GET'', True)"
    by code_simp+
  moreover have "qe_server audit_env = audit_server" by (simp add: audit_env_def sample_env_def)
  moreover have "case_sum (\<lambda>_. None) (audit_page_of 1 1) (decode_service_answer audit_service (fst (audit_server 0
        \<lparr>rq_url = '''', rq_method = ''GET'', rq_headers = [], rq_body = None\<rparr>)))
      = Some (events_page (map normalizeAuditApiItem sample_events) 1 1)"
    "case_sum (\<lambda>_. None) (audit_page_of 2 1) (decode_service_answer audit_service (fst (audit_server 0
        \<lparr>rq_url = ''page=2'', rq_method = ''GET'', rq_headers = [], rq_body = None\<rparr>)))
      = Some (events_page (map normalizeAuditApiItem sample_events) 1 2)"
    by code_simp+
  moreover have "n = 1 \<or> n = 2" using \<open>n \<in> {1..2}\<close> by auto
  ultimately show "requestAuditLogPage audit_env sample_audit_params (int n) (int 1) None \<lparr>wd_browser = expired_browser, wd_net = s\<rparr>
      = (Inr (events_page (map normalizeAuditApiItem sample_events) 1 n), \<lparr>wd_browser = expired_browser, wd_net = s\<rparr>)"
    by (auto simp: requestAuditLogPage_def requestAuditApi_def requestServiceApi_def and_then_def give_read_def give_def audit_server_def Let_def
        split: option.splits sum.splits)
qed

lemma sample_records_served:
  "serves_records audit_env sample_audit_params expired_browser sample_records 1 2"
  unfolding serves_records_def
proof (intro ballI allI)
  fix n and s :: nat assume "n \<in> {1..2::nat}"
  let ?payload = "audit_logs_payload (qe_clock audit_env) sample_audit_params (int n * int 1)"
  let ?w = "\<lparr>wd_browser = expired_browser, wd_net = s\<rparr>"
  have sent: "\<exists>rq. query_request audit_env expired_browser ''/logs'' ''POST'' [] body = Some rq \<and> rq_method rq = ''POST''" for body
  proof -
    have "base_url (api_at audit_env expired_browser) \<noteq> None"
      "query_headers audit_env expired_browser (resolveValidAccessToken (qe_clock audit_env) expired_browser) \<noteq> None"
      by code_simp+
    then show ?thesis by (auto simp: query_request_def)
  qed
  let ?envelope = "JObj [(''data'', JObj [(''hits'', JArr [sample_hit])]), (''meta'', JObj [(''total'', JNum 1)])]"
  have answer: "audit_server s rq = (Answer 200 (Some ?envelope), s)" if "rq_method rq = ''POST''" for rq
    using that by (simp add: audit_server_def)
  have server: "qe_server audit_env = audit_server" by (simp add: audit_env_def sample_env_def)
  have decoded: "decode_query_answer (Answer 200 (Some ?envelope)) = Inr ?envelope" by code_simp
  obtain r where r: "logs_of_envelope audit_env ?payload ?envelope = Some r"
    and hits: "lr_hits r = [hit_entry (qe_clock audit_env) sample_hit 0]" and totl: "lr_total r = 1"
  proof -
    have "JNull \<noteq> sample_hit" by (simp add: sample_hit_def)
    then have "hits_of (qe_clock audit_env) (data_field ?envelope ''hits'')
        = Some [hit_entry (qe_clock audit_env) sample_hit 0]"
      by (simp add: hits_of_def normalizeHit_def map_items_def data_field_def json_field_def jm_get_def nullish_json_def)
    moreover have "number_or (meta_field ?envelope ''total'') d = Fin 1" for d
      by (simp add: meta_field_def json_field_def jm_get_def number_or_def nullish_json_def num_of_json_def)
    ultimately show ?thesis using that by (simp add: logs_of_envelope_def Let_def finite_or_def)
  qed
  have "online audit_env expired_browser" by code_simp
  moreover have "lp_recordHistory ?payload = False" by (simp add: audit_logs_payload_def)
  moreover obtain rq where rq: "query_request audit_env expired_browser ''/logs'' ''POST'' [] (Some (logs_body ?payload)) = Some rq"
    "rq_method rq = ''POST''" using sent by blast
  then have "remote_logs audit_env ?payload ?w = (Inr r, ?w)"
    using decoded r calculation(2)
    by (simp add: remote_logs_def answered_by_def requestQueryApi_def server answer record_history_def)
  ultimately have "queryRealtimeLogs audit_env ?payload ?w = (Inr r, ?w)"
    by (simp add: queryRealtimeLogs_def with_local_fallback_online)
  moreover have "system_items r = take (n * 1) sample_records"
    using \<open>n \<in> {1..2}\<close> by (simp add: system_items_def hits sample_records_def)
  moreover have "lr_total r = of_nat (length sample_records)" by (simp add: totl sample_records_def)
  ultimately show "\<exists>r s'. queryRealtimeLogs audit_env ?payload ?w = (Inr r, \<lparr>wd_browser = expired_browser, wd_net = s'\<rparr>)
      \<and> system_items r = take (n * 1) sample_records \<and> lr_total r = of_nat (length sample_records)"
    by blast
qed

lemma json_of_audit_time: "json_field (Some (json_of_audit a)) ''created_at'' = Some (JStr (au_created_at a))"
  by (auto simp: json_of_audit_def literal_def List.map_filter_simps json_field_def jm_get_def split: option.split)

lemma sample_sorted:
  "newest_first (qe_clock audit_env) (map normalizeAuditApiItem sample_events)"
  "newest_first (qe_clock audit_env) sample_records"
proof -
  show "newest_first (qe_clock audit_env) (map normalizeAuditApiItem sample_events)" by code_simp
  have "lg_timestamp (hit_entry (qe_clock audit_env) sample_hit 0) = ''2026-01-02T00:00:02Z''"
    by (simp add: hit_entry_def Let_def) code_simp
  moreover have "date_of (qe_clock audit_env) ''2026-01-02T00:00:02Z'' \<noteq> None" by code_simp
  ultimately show "newest_first (qe_clock audit_env) sample_records"
    by (simp add: newest_first_def sample_records_def audit_time_def json_of_audit_time audit_fields truthy_def Let_def)
qed

lemma fresh_good: "good_state sample_audit_params expired_browser (map normalizeAuditApiItem sample_events) sample_records 1 fresh_audit"
  by (simp add: good_state_def fresh_audit_def caches_hold_def caches_keep_def ac.keep_def lru_ok_def jm_wf_def jm_keys_def jm_get_def)

theorem audit_page_shown_witness:
  "\<exists>st'. fetchAuditLogs audit_env sample_audit_params fresh_audit
     = Some (Inr \<lparr>ap_items = js_slice 1 2 (merge (not_older (qe_clock audit_env))
                                (map normalizeAuditApiItem sample_events) sample_records),
                  ap_total = 3, ap_page = 2, ap_pageSize = 1, ap_hasNext = True\<rparr>, st')"
proof -
  have t: "trimmed (fa_to sample_audit_params) = ''2026-01-03T00:00:00Z''" "trimmed (fa_user_query sample_audit_params) = []"
    by code_simp+
  have ps: "sample_audit_params = sample_audit_params\<lparr>fa_to := Some (trimmed (fa_to sample_audit_params))\<rparr>"
    unfolding t(1) by (simp add: sample_audit_params_def)
  have "trimmed (fa_to sample_audit_params) \<noteq> []" unfolding t(1) by simp
  note audit_page_shown [where page = 2 and sz = 1, OF this t(2) _ _ _ _ ps sample_events_served sample_records_served
      sample_sorted fresh_good]
  then show ?thesis by (auto simp: sample_audit_params_def sample_events_def sample_records_def)
qed

subsection \<open>The caches stay bounded\<close>

text \<open>The states the page can be in: nothing cached at first, then calls of \<open>fetchAuditLogs\<close> with any
  parameters, between which the browser's storage and the servers change in any way.\<close>

inductive audit_reachable :: "'s query_env \<Rightarrow> 's audit_state \<Rightarrow> bool" for env where
  fresh: "audit_reachable env \<lparr>as_world = w, as_caches = \<lparr>auditApiPageCache = [], auditApiFilteredCache = [],
            queryPipelinePageCache = []\<rparr>\<rparr>"
| changed: "audit_reachable env st \<Longrightarrow> audit_reachable env (st\<lparr>as_world := w\<rparr>)"
| called: "audit_reachable env st \<Longrightarrow> fetchAuditLogs env params st = Some (r, st') \<Longrightarrow> audit_reachable env st'"

lemma audit_reachable_sound: "audit_reachable env st \<Longrightarrow> sound_caches (as_caches st)"
proof (induction rule: audit_reachable.induct)
  case fresh
  show ?case by (simp add: caches_keep_def ac.keep_def lru_ok_def jm_wf_def jm_keys_def jm_get_def)
qed (simp_all add: fetchAuditLogs_sound)

text \<open>What a source has returned for a period it has cached.\<close>

lemma load_pages_cached:
  assumes store: "\<And>e st. I st \<Longrightarrow> get (store e st) = Some e \<and> I (store e st)"
    and request: "\<And>n e st. I st \<Longrightarrow> I (snd (request n e st))"
    and "load_pages request store page e st = (Inr e', st')"
    and "get st = Some e \<or> se_loadedPages e = 0 \<and> 0 < page" and "I st"
  shows "get st' = Some e'"
  using assms(3-5)
proof (induction "page - se_loadedPages e" arbitrary: e st rule: less_induct)
  case less
  show ?case
  proof (cases "se_loadedPages e < page \<and> (se_loadedPages e = 0 \<or> se_hasNext e)")
    case go: True
    obtain r st1 where r: "request (se_loadedPages e + 1) e st = (r, st1)" by force
    then have st1: "I st1" using request [OF less.prems(3), of "se_loadedPages e + 1" e] by simp
    obtain b where b: "r = Inr b" using less.prems(1) go r by (cases r) (auto simp: load_pages_go)
    let ?e = "b\<lparr>se_loadedPages := se_loadedPages e + 1\<rparr>"
    note s = store [OF st1, of ?e]
    have m: "page - se_loadedPages ?e < page - se_loadedPages e" using go by auto
    show ?thesis
    proof (cases "se_hasNext ?e")
      case True
      then have "load_pages request store page ?e (store ?e st1) = (Inr e', st')"
        using less.prems(1) go r b by (simp add: load_pages_go Let_def)
      with less.hyps [OF m this] s show ?thesis by blast
    next
      case False
      then have "?e = e' \<and> store ?e st1 = st'" using less.prems(1) go r b by (auto simp: load_pages_go Let_def)
      with s show ?thesis by auto
    qed
  qed (use less.prems in \<open>auto simp: load_pages_stop\<close>)
qed

lemma pipeline_cached:
  assumes "lru_ok AUDIT_SOURCE_CACHE_LIMIT (queryPipelinePageCache (as_caches st))"
    and "fetchBoundedAuditLogsFromQueryPipeline env params st = (Inr p, st')"
    and "resolveAuditFetchWindow params = (page, sz, w)" and "0 < page"
  shows "jm_get (queryPipelinePageCache (as_caches st')) (buildAuditSourceCacheKey ''query-pipeline-window'' params sz) \<noteq> None"
proof -
  let ?k = "buildAuditSourceCacheKey ''query-pipeline-window'' params sz"
  let ?c = "lru_touch ?k (queryPipelinePageCache (as_caches st))"
  let ?st = "st\<lparr>as_caches := (as_caches st)\<lparr>queryPipelinePageCache := snd ?c\<rparr>\<rparr>"
  let ?e = "nullish (fst ?c) createAuditLogSourceCacheEntry"
  obtain e where e: "load_pages (query_window env params sz) (store_pipeline ?k) (nat page) ?e ?st = (Inr e, st')"
    using assms(2,3)
    by (auto simp: fetchBoundedAuditLogsFromQueryPipeline_def Let_def case_prod_unfold and_then_def give_def split: sum.splits)
      (metis prod.collapse)
  have "jm_get (queryPipelinePageCache (as_caches st')) ?k = Some e"
  proof (rule load_pages_cached [where I = "\<lambda>st. lru_ok AUDIT_SOURCE_CACHE_LIMIT (queryPipelinePageCache (as_caches st))"
      and get = "\<lambda>st. jm_get (queryPipelinePageCache (as_caches st)) ?k", OF _ _ e])
    show "jm_get (queryPipelinePageCache (as_caches ?st)) ?k = Some ?e \<or> se_loadedPages ?e = 0 \<and> 0 < nat page"
      using assms(1,4) lru_touch_ok(1) [of ?k "queryPipelinePageCache (as_caches st)"]
        lru_touch_ok(3) [of _ "queryPipelinePageCache (as_caches st)" ?k ?k]
      by (cases "jm_get (queryPipelinePageCache (as_caches st)) ?k") (auto simp: createAuditLogSourceCacheEntry_def)
  qed (use assms(1) cache_key_ne in \<open>auto simp: store_pipeline_def setAuditLogSourceCache_def AUDIT_SOURCE_CACHE_LIMIT_def
      intro: lru_set_ok lru_touch_ok(2)\<close>)
  then show ?thesis by simp
qed

text \<open>C23: However often the audit page is visited, with whatever filters, none of its three caches holds more than
  24 entries; a list cached for a search by user name is whole: it has as many items as it says and no next
  page; and what is cached for either of the two sources, the audit service and the query service, has at least
  one page.\<close>

theorem audit_caches_bounded:
  assumes "audit_reachable env st"
  shows "length (auditApiPageCache (as_caches st)) \<le> 24 \<and> length (auditApiFilteredCache (as_caches st)) \<le> 24
    \<and> length (queryPipelinePageCache (as_caches st)) \<le> 24
    \<and> (jm_get (auditApiFilteredCache (as_caches st)) k \<noteq> None \<longrightarrow>
         (let e = the (jm_get (auditApiFilteredCache (as_caches st)) k)
          in \<not> se_hasNext e \<and> se_total e = of_nat (length (se_items e))))
    \<and> (jm_get (auditApiPageCache (as_caches st)) k \<noteq> None \<longrightarrow>
         0 < se_loadedPages (the (jm_get (auditApiPageCache (as_caches st)) k)))
    \<and> (jm_get (queryPipelinePageCache (as_caches st)) k \<noteq> None \<longrightarrow>
         0 < se_loadedPages (the (jm_get (queryPipelinePageCache (as_caches st)) k)))"
proof -
  note s = audit_reachable_sound [OF assms, unfolded caches_keep_def]
  then have k: "ac.keep loaded_entry (auditApiPageCache (as_caches st))"
    "ac.keep whole_entry (auditApiFilteredCache (as_caches st))"
    "ac.keep loaded_entry (queryPipelinePageCache (as_caches st))" by blast+
  note k [THEN ac.run_bounded, unfolded AUDIT_SOURCE_CACHE_LIMIT_def]
  then show ?thesis
    using k by (auto simp: ac.keep_def loaded_entry_def whole_entry_def Let_def)
qed

text \<open>After a visit with the sample services the window of the query service is cached.\<close>

theorem audit_caches_bounded_witness:
  "\<exists>st k. audit_reachable audit_env st \<and> jm_get (queryPipelinePageCache (as_caches st)) k \<noteq> None
     \<and> 0 < se_loadedPages (the (jm_get (queryPipelinePageCache (as_caches st)) k))"
proof -
  let ?A = "map normalizeAuditApiItem sample_events"
  obtain st1 p1 where app: "fetchBoundedAuditApiPages audit_env sample_audit_params 2 1 None fresh_audit = (Inr p1, st1)"
    and good: "good_state sample_audit_params expired_browser ?A sample_records 1 st1"
    using api_pages_served [OF sample_events_served fresh_good] by fastforce
  have w: "resolveAuditFetchWindow sample_audit_params = (2, 1, 2)"
    by (simp add: resolveAuditFetchWindow_def sample_audit_params_def)
  obtain st2 p2 where sys: "fetchBoundedAuditLogsFromQueryPipeline audit_env sample_audit_params st1 = (Inr p2, st2)"
    using records_served [OF sample_records_served good] w by fastforce
  have "lru_ok AUDIT_SOURCE_CACHE_LIMIT (queryPipelinePageCache (as_caches st1))"
    using good by (simp add: good_state_def caches_hold_def caches_keep_def ac.keep_def)
  from pipeline_cached [OF this sys w]
  have cached: "jm_get (queryPipelinePageCache (as_caches st2)) (buildAuditSourceCacheKey ''query-pipeline-window'' sample_audit_params 1) \<noteq> None"
    by simp
  have t: "trimmed (fa_to sample_audit_params) = ''2026-01-03T00:00:00Z''" "trimmed (fa_user_query sample_audit_params) = []"
    "sample_audit_params\<lparr>fa_to := Some ''2026-01-03T00:00:00Z''\<rparr> = sample_audit_params"
    "sample_audit_params\<lparr>fa_page := Some 2, fa_page_size := Some 1\<rparr> = sample_audit_params"
    by (code_simp, code_simp, simp_all add: sample_audit_params_def)
  have "fetchBoundedAuditLogsFromAuditApi audit_env sample_audit_params fresh_audit = Some (Inr p1, st1)"
    by (simp add: fetchBoundedAuditLogsFromAuditApi_def w t app)
  then have "fetchAuditLogs audit_env sample_audit_params fresh_audit
      = Some (merged_page (qe_clock audit_env) 2 1 (Inr p1, Inr p2), st2)"
    by (simp add: fetchAuditLogs_def fetchAuditLogsWithBoundedWindow_def t w settle_both_def sys)
  moreover have "audit_reachable audit_env fresh_audit" unfolding fresh_audit_def by (rule audit_reachable.fresh)
  ultimately have "audit_reachable audit_env st2" by (rule audit_reachable.called [rotated])
  with audit_caches_bounded [OF this] cached show ?thesis by blast
qed

subsection \<open>The search by user name ends\<close>

text \<open>The service says at page \<open>final\<close> that there is no next one, whatever is asked.\<close>

definition ends_at :: "'s query_env \<Rightarrow> nat \<Rightarrow> bool" where
  "ends_at env final \<longleftrightarrow>
     (\<forall>params w p w'. requestAuditLogPage env params (int final) audit_batch_size None w = (Inr p, w') \<longrightarrow> \<not> ap_hasNext p)"

lemma collect_matching_returns:
  assumes "ends_at env final"
  shows "n \<le> final \<Longrightarrow> \<exists>r. collect_matching env params q (int n) items totl w = Some r"
proof (induction "final - n" arbitrary: n items totl w)
  case 0
  obtain r w' where m: "matching_page env params q (int n) w = (r, w')" by (cases "matching_page env params q (int n) w")
  have "case r of Inl _ \<Rightarrow> True | Inr mh \<Rightarrow> \<not> snd mh"
    using m assms 0 by (auto simp: matching_page_def and_then_def ends_at_def give_read_def give_def raise_def
        split: prod.splits sum.splits option.splits)
  then show ?case using m by (subst collect_matching.simps) (auto split: sum.split)
next
  case (Suc d)
  then have next_page: "collect_matching env params q (int n + 1) items' totl' w' \<noteq> None" for items' totl' w'
    using Suc.hyps(1) [of "Suc n"] by (fastforce simp: add.commute)
  have "collect_matching env params q (int n) items totl w \<noteq> None"
    by (subst collect_matching.simps) (simp add: next_page split: prod.split sum.split del: not_None_eq)
  then show ?case by blast
qed

text \<open>C24: The audit page gets its answer: if the audit service at some page says that there is no next one, then
  \<open>fetchAuditLogs\<close> returns, a list or an error, for all filters and from all states; the search by user name,
  whose loop has no bound of its own, included.\<close>

theorem audit_search_returns:
  assumes "ends_at env final" and "1 \<le> final"
  shows "\<exists>r. fetchAuditLogs env params st = Some r"
proof -
  have c: "collect_matching env ps q 1 [] 0 w \<noteq> None" for ps q w
    using collect_matching_returns [OF assms(1), of 1] assms(2) by fastforce
  have collected: "collected (collect_matching env ps q 1 [] 0) g st' \<noteq> None"
    for ps q and g :: "_ \<Rightarrow> ('a, audit_page) job" and st'
    using c [of ps q "as_world st'"] by (auto simp: collected_def split: sum.split prod.split)
  have api: "fetchAuditLogsFromAuditApi env ps st' \<noteq> None" for ps st'
    using collected by (auto simp: fetchAuditLogsFromAuditApi_def Let_def split: prod.split)
  have filtered: "fetchBoundedAuditApiFilteredLogs env ps page sz q st' \<noteq> None" for ps page sz q st'
    unfolding fetchBoundedAuditApiFilteredLogs_def Let_def by (simp add: collected split: prod.split option.split del: not_None_eq)
  have bounded: "fetchBoundedAuditLogsFromAuditApi env ps st' \<noteq> None" for ps st'
    unfolding fetchBoundedAuditLogsFromAuditApi_def Let_def by (simp add: filtered split: prod.split del: not_None_eq)
  have both: "settle_both app sys st' \<noteq> None" if "\<And>st'. app st' \<noteq> None"
    for app :: "('a, audit_page) slow_job" and sys st'
    using that [of st'] by (auto simp: settle_both_def split: prod.split)
  have s: "settle_both (fetchAuditLogsFromAuditApi env ps) sys st' \<noteq> None"
    "settle_both (fetchBoundedAuditLogsFromAuditApi env ps) sys st' \<noteq> None" for ps sys st'
    using both api bounded by blast+
  have "fetchAuditLogs env params st \<noteq> None"
    by (simp add: fetchAuditLogs_def fetchAuditLogsWithSlidingWindow_def fetchAuditLogsWithBoundedWindow_def Let_def s
        split: prod.split del: not_None_eq)
  then show ?thesis by blast
qed

text \<open>A service with two pages of events: the first says that there is a next one, the second that there is not.\<close>

definition two_page_server :: "nat \<Rightarrow> api_request \<Rightarrow> query_answer \<times> nat" where
  "two_page_server n rq =
     (if rq_method rq = ''POST'' then audit_server n rq
      else (Answer 200 (Some (JObj
              [(''data'', JObj [(''items'', JArr [sample_events ! 0])]),
               (''meta'', JObj [(''total'', JNum 2), (''has_next'', JBool (\<not> js_includes (rq_url rq) ''page=2''))])])), n + 1))"

definition two_page_env :: "nat query_env" where
  "two_page_env = sample_env two_page_server"

lemma query_string_param: "(k, v) \<in> set ps \<Longrightarrow> js_includes (query_string ps) (form_encode k @ ''='' @ form_encode v)"
proof -
  have inc: "x \<in> set xs \<Longrightarrow> js_includes (join ''&'' xs) x" for x and xs :: "string list"
  proof (induction xs)
    case (Cons y ys)
    have self: "js_includes (x @ t) x" "js_includes x x" for t by (auto simp: js_includes_iff intro: exI [of _ "[]"])
    show ?case
    proof (cases "x = y")
      case False
      with Cons have "js_includes ((y @ ''&'') @ join ''&'' ys) x" by (intro js_includes_append2) auto
      with Cons.prems False show ?thesis by (auto simp: join_Cons)
    qed (use self in \<open>auto simp: join_Cons\<close>)
  qed simp
  assume "(k, v) \<in> set ps"
  then have "form_encode k @ ''='' @ form_encode v \<in> set (map (\<lambda>(k, v). form_encode k @ ''='' @ form_encode v) ps)" by force
  from inc [OF this] \<open>(k, v) \<in> set ps\<close> show ?thesis
    by (auto simp: query_string_def js_includes_iff) (metis append_Cons)
qed

lemma search_params_get:
  assumes "s \<noteq> []" and "k \<notin> fst ` set ys"
  shows "jm_get (search_params (xs @ (k, Some s) # ys)) k = Some s"
proof -
  have "k \<notin> fst ` set ys \<Longrightarrow> jm_get (fold (\<lambda>(k, v). case v of None \<Rightarrow> id | Some s \<Rightarrow> if s = [] then id else jm_set k s) ys m) k
      = jm_get m k" for m
    by (induction ys arbitrary: m) (auto split: option.split)
  with assms show ?thesis by (simp add: search_params_def)
qed

lemma second_page_asked:
  "service_api_request two_page_env b audit_service ''/logs'' ''GET''
     [(''user_id'', u), (''action'', a), (''resource_type'', r), (''from'', f), (''to'', t), (''page'', int_param 2),
      (''page_size'', z), (''sort_by'', sb), (''sort_order'', so)] None = Some rq
   \<Longrightarrow> rq_method rq = ''GET'' \<and> js_includes (rq_url rq) ''page=2''"
proof -
  let ?ps = "[(''user_id'', u), (''action'', a), (''resource_type'', r), (''from'', f), (''to'', t), (''page'', int_param 2),
      (''page_size'', z), (''sort_by'', sb), (''sort_order'', so)]"
  assume rq: "service_api_request two_page_env b audit_service ''/logs'' ''GET'' ?ps None = Some rq"
  have two: "int_param 2 = Some ''2''" "form_encode ''page'' @ ''='' @ form_encode ''2'' = ''page=2''" by code_simp+
  have "jm_get (search_params ?ps) ''page'' = Some ''2''"
    using search_params_get [of "''2''" "''page''" "drop 6 ?ps" "take 5 ?ps"] by (simp add: two)
  then have "(''page'', ''2'') \<in> set (search_params ?ps)" by (auto simp: jm_get_def dest: map_of_SomeD)
  from query_string_param [OF this] have "js_includes (query_string (search_params ?ps)) ''page=2''" unfolding two(2) .
  then have "js_includes (api_url env p ?ps) ''page=2''" for env p
    unfolding api_url_def by (rule js_includes_append2)
  with rq show ?thesis by (auto simp: service_api_request_def split: option.splits)
qed

lemma two_pages_end: "ends_at two_page_env 2"
  unfolding ends_at_def
proof (intro allI impI)
  fix params and w w' :: "nat world" and p
  assume *: "requestAuditLogPage two_page_env params (int 2) audit_batch_size None w = (Inr p, w')"
  have server: "qe_server two_page_env = two_page_server" by (simp add: two_page_env_def sample_env_def)
  have last_page: "case_sum (\<lambda>_. None) (map_option ap_hasNext \<circ> audit_page_of 2 audit_batch_size) (decode_service_answer audit_service
      (Answer 200 (Some (JObj [(''data'', JObj [(''items'', JArr [sample_events ! 0])]),
         (''meta'', JObj [(''total'', JNum 2), (''has_next'', JBool False)])])))) = Some False"
    by code_simp
  from * last_page show "\<not> ap_hasNext p"
    by (auto simp: requestAuditLogPage_def requestAuditApi_def requestServiceApi_def and_then_def give_read_def give_def raise_def
        server two_page_server_def dest!: second_page_asked split: option.splits sum.splits prod.splits)
qed

theorem audit_search_returns_witness:
  "(case requestAuditLogPage two_page_env sample_audit_params 1 audit_batch_size None \<lparr>wd_browser = expired_browser, wd_net = 0\<rparr> of
      (Inr p, _) \<Rightarrow> ap_hasNext p | _ \<Rightarrow> False)
   \<and> (case requestAuditLogPage two_page_env sample_audit_params 2 audit_batch_size None \<lparr>wd_browser = expired_browser, wd_net = 0\<rparr> of
      (Inr p, _) \<Rightarrow> \<not> ap_hasNext p | _ \<Rightarrow> False)
   \<and> (\<exists>r. fetchAuditLogs two_page_env (sample_audit_params\<lparr>fa_user_query := Some ''anna''\<rparr>) fresh_audit = Some r)"
proof (intro conjI)
  show "\<exists>r. fetchAuditLogs two_page_env (sample_audit_params\<lparr>fa_user_query := Some ''anna''\<rparr>) fresh_audit = Some r"
    by (rule audit_search_returns [OF two_pages_end]) simp
qed code_simp+

end
