(* ===== verification/Ingest_Api.thy ===== *)
theory Ingest_Api
  imports Service_Request
begin

text \<open>
  The client of the ingestion service (\<open>api/ingest.ts\<close>): the pull sources and what runs on them. Items are JSON
  values as the service sends them. A list the service sends is an array without \<open>null\<close> or absent; any other value in its
  place is taken for a type error, which in the program comes as soon as the list is used.

  How long an answer takes is a function of the server's state and the request; it matters for the one call with
  a time limit. Loading all sources calls itself for the next page, without a bound: a partial function.
\<close>

section \<open>Requests\<close>

definition timeout_error :: "nat \<Rightarrow> api_error" where
  "timeout_error timeoutMs =
     CodedError (''ingest api request timed out after '' @ nat_to_string ((timeoutMs + 999) div 1000) @ ''s'')
       ''INGEST_API_TIMEOUT''"

text \<open>A request with a time limit of \<open>timeoutMs\<close>; 0 is none. The request itself reaches the service.\<close>

definition requestIngestApiWithin ::
    "'s query_env \<Rightarrow> ('s \<Rightarrow> api_request \<Rightarrow> nat) \<Rightarrow> nat \<Rightarrow> string \<Rightarrow> string \<Rightarrow> (string \<times> string option) list
     \<Rightarrow> json option \<Rightarrow> ('s, json) op" where
  "requestIngestApiWithin env took timeoutMs p method query body w =
     (case service_api_request env (wd_browser w) ingest_service p method query body of
        None \<Rightarrow> (Inl BrowserError, w)
      | Some rq \<Rightarrow>
          (if 0 < timeoutMs \<and> timeoutMs \<le> took (wd_net w) rq
           then (Inl (timeout_error timeoutMs), w\<lparr>wd_net := snd (qe_server env (wd_net w) rq)\<rparr>)
           else requestIngestApi env p method query body w))"

record listing =
  lt_items :: "json list"
  lt_total :: jsnum
  lt_hasNext :: bool

definition listing_of :: "json \<Rightarrow> listing option" where
  "listing_of envelope =
     map_option (\<lambda>items.
       \<lparr>lt_items = items, lt_total = meta_total envelope (length items),
        lt_hasNext = boolean_or (meta_field envelope ''has_next'') False\<rparr>) (items_of envelope)"

section \<open>Pull sources\<close>

definition sources_page :: "'s query_env \<Rightarrow> int \<Rightarrow> string \<Rightarrow> int \<Rightarrow> ('s, json list \<times> bool) op" where
  "sources_page env pageSize status page =
     and_then
       (requestIngestApi env ''/pull-sources'' ''GET''
         [(''page'', int_param page), (''page_size'', int_param pageSize), (''status'', Some status)] None)
       (\<lambda>envelope. give_read (map_option (\<lambda>items.
          (items,
           boolean_or (meta_field envelope ''has_next'')
             (js_less (Fin (of_int (page * pageSize))) (meta_total envelope (length items)))
           \<and> int (length items) = pageSize)) (items_of envelope)))"

text \<open>The function calls itself for the next page as long as a full page says there is one.\<close>

partial_function (option) all_pages ::
    "(int \<Rightarrow> 'w \<Rightarrow> (api_error + json list \<times> bool) \<times> 'w) \<Rightarrow> int \<Rightarrow> 'w \<Rightarrow> ((api_error + json list) \<times> 'w) option" where
  "all_pages page_at page w =
     (case page_at page w of
        (Inl e, w') \<Rightarrow> Some (Inl e, w')
      | (Inr (items, again), w') \<Rightarrow>
          (if again
           then Option.bind (all_pages page_at (page + 1) w') (\<lambda>(r, w''). Some (map_sum id (\<lambda>next_items. items @ next_items) r, w''))
           else Some (Inr items, w')))"

record sources_params =
  sr_page :: "int option"
  sr_page_size :: "int option"
  sr_status :: "string option"

definition fetchPullSources ::
    "'s query_env \<Rightarrow> sources_params \<Rightarrow> 's world \<Rightarrow> ((api_error + json list) \<times> 's world) option" where
  "fetchPullSources env params =
     all_pages (sources_page env (nullish (sr_page_size params) 200) (no_blank (sr_status params)))
       (nullish (sr_page params) 1)"

definition every_source :: sources_params where
  "every_source = \<lparr>sr_page = None, sr_page_size = None, sr_status = None\<rparr>"

definition body_or :: "json \<Rightarrow> string \<Rightarrow> json \<Rightarrow> string \<times> json option" where
  "body_or data k d = (k, Some (field_or (Some data) k d))"

text \<open>The payloads are objects of the program; the fields read here may be absent.\<close>

definition create_source_body :: "json \<Rightarrow> json" where
  "create_source_body data =
     literal
       (map (\<lambda>k. (k, json_field (Some data) k)) [''name'', ''host'', ''port'', ''protocol'', ''path'']
        @ [body_or data ''auth'' (JStr []), body_or data ''agent_base_url'' (JStr []),
           body_or data ''pull_interval_sec'' (JNum 30), body_or data ''pull_timeout_sec'' (JNum 30),
           body_or data ''key_ref'' (JStr []), body_or data ''status'' (JStr ''active'')])"

text \<open>\<open>all.find((s) => s.source_id === id)\<close>, and the error when there is none.\<close>

definition find_source ::
    "json \<Rightarrow> string \<Rightarrow> ((api_error + json list) \<times> 's world) option \<Rightarrow> ((api_error + json) \<times> 's world) option" where
  "find_source i missing r =
     map_option (\<lambda>(outcome, w).
       (case outcome of
          Inl e \<Rightarrow> Inl e
        | Inr all_sources \<Rightarrow>
            (case find (\<lambda>s. json_field (Some s) ''source_id'' = Some i) all_sources of
               None \<Rightarrow> Inl (CallError missing) | Some s \<Rightarrow> Inr s), w)) r"

definition createPullSource :: "'s query_env \<Rightarrow> json \<Rightarrow> 's world \<Rightarrow> ((api_error + json) \<times> 's world) option" where
  "createPullSource env data w =
     (case and_then (requestIngestApi env ''/pull-sources'' ''POST'' [] (Some (create_source_body data)))
             (\<lambda>envelope. give_truthy (data_field envelope ''source_id'') zh_source_created_no_id) w of
        (Inl e, w') \<Rightarrow> Some (Inl e, w')
      | (Inr sourceId, w') \<Rightarrow> find_source sourceId zh_source_created_no_detail (fetchPullSources env every_source w'))"

definition updatePullSource :: "'s query_env \<Rightarrow> string \<Rightarrow> json \<Rightarrow> 's world \<Rightarrow> ((api_error + json) \<times> 's world) option" where
  "updatePullSource env i data w =
     (case requestIngestApi env (''/pull-sources/'' @ encodeURIComponent i) ''PUT'' [] (Some data) w of
        (Inl e, w') \<Rightarrow> Some (Inl e, w')
      | (Inr _, w') \<Rightarrow> find_source (JStr i) zh_source_updated_no_detail (fetchPullSources env every_source w'))"

definition deletePullSource :: "'s query_env \<Rightarrow> ('s \<Rightarrow> api_request \<Rightarrow> nat) \<Rightarrow> string \<Rightarrow> ('s, unit) op" where
  "deletePullSource env took i =
     and_then (requestIngestApiWithin env took 15000 (''/pull-sources/'' @ encodeURIComponent i) ''DELETE'' [] None)
       (\<lambda>_. give ())"

definition fetchIngestAgents :: "'s query_env \<Rightarrow> ('s, json list) op" where
  "fetchIngestAgents env =
     and_then (requestIngestApi env ''/agents'' ''GET'' [] None) (\<lambda>envelope. give_read (items_of envelope))"

definition empty_source_status :: "string \<Rightarrow> json" where
  "empty_source_status rng =
     JObj
       [(''summary'', JObj (map (\<lambda>k. (k, JNum 0))
          [''total_sources'', ''active_sources'', ''paused_sources'', ''disabled_sources'', ''online_agents'',
           ''offline_agents'', ''healthy_sources'', ''failed_sources'', ''recent_record_count'', ''recent_package_count''])),
        (''items'', JArr []), (''trend'', JArr []), (''range'', JStr rng), (''last_refresh_at'', JStr [])]"

definition fetchPullSourceStatus :: "'s query_env \<Rightarrow> string \<Rightarrow> ('s, json) op" where
  "fetchPullSourceStatus env rng =
     and_then (requestIngestApi env ''/pull-sources/status'' ''GET'' [(''range'', Some rng)] None)
       (\<lambda>envelope. give (nullish (env_field envelope ''data'') (empty_source_status rng)))"

section \<open>Tasks, packages, receipts, dead letters\<close>

record list_params =
  li_source :: "string option"
  li_package :: "string option"
  li_agent :: "string option"
  li_task :: "string option"
  li_status :: "string option"
  li_error_code :: "string option"
  li_replayed :: "string option"
  li_page :: "int option"
  li_page_size :: "int option"

definition page_params :: "list_params \<Rightarrow> (string \<times> string option) list" where
  "page_params params =
     [(''page'', int_param (nullish (li_page params) 1)), (''page_size'', int_param (nullish (li_page_size params) 20))]"

definition fetchPullTasks :: "'s query_env \<Rightarrow> list_params \<Rightarrow> ('s, listing) op" where
  "fetchPullTasks env params =
     (let sourceId = no_blank (li_source params)
      in require (sourceId \<noteq> []) zh_source_id_empty
           (and_then
             (requestIngestApi env ''/pull-tasks'' ''GET''
               ((''source_id'', Some sourceId) # page_params params @ [(''status'', Some (no_blank (li_status params)))]) None)
             (\<lambda>envelope. give_read (listing_of envelope))))"

definition fetchPullPackages :: "'s query_env \<Rightarrow> list_params \<Rightarrow> ('s, listing) op" where
  "fetchPullPackages env params =
     (let agentId = no_blank (li_agent params); sourceRef = no_blank (li_source params); taskId = no_blank (li_task params)
      in require (agentId \<noteq> [] \<or> sourceRef \<noteq> [] \<or> taskId \<noteq> []) zh_package_key_empty
           (and_then
             (requestIngestApi env ''/packages'' ''GET''
               ([(''agent_id'', Some agentId), (''source_ref'', Some sourceRef), (''task_id'', Some taskId),
                 (''status'', Some (no_blank (li_status params)))] @ page_params params) None)
             (\<lambda>envelope. give_read (listing_of envelope))))"

definition fetch_by_id :: "'s query_env \<Rightarrow> string \<Rightarrow> string \<Rightarrow> string \<Rightarrow> string \<Rightarrow> ('s, json) op" where
  "fetch_by_id env p i blank missing =
     require (trim i \<noteq> []) blank
       (and_then (requestIngestApi env (p @ encodeURIComponent (trim i)) ''GET'' [] None)
         (\<lambda>envelope. give_truthy (data_field envelope ''item'') missing))"

definition fetchPullTaskById :: "'s query_env \<Rightarrow> string \<Rightarrow> ('s, json) op" where
  "fetchPullTaskById env taskId = fetch_by_id env ''/pull-tasks/'' taskId zh_task_id_empty zh_no_task"

definition fetchPullPackageById :: "'s query_env \<Rightarrow> string \<Rightarrow> ('s, json) op" where
  "fetchPullPackageById env packageId = fetch_by_id env ''/packages/'' packageId zh_package_id_empty zh_no_package"

record receipt_summary =
  rs_ack_count :: jsnum
  rs_nack_count :: jsnum
  rs_error_code_buckets :: json
  rs_nack_reason_buckets :: json

definition receipt_summary_of :: "json option \<Rightarrow> receipt_summary" where
  "receipt_summary_of rawSummary =
     \<lparr>rs_ack_count = number_or (json_field rawSummary ''ack_count'') (Fin 0),
      rs_nack_count = number_or (json_field rawSummary ''nack_count'') (Fin 0),
      rs_error_code_buckets = field_or rawSummary ''error_code_buckets'' (JArr []),
      rs_nack_reason_buckets = field_or rawSummary ''nack_reason_buckets'' (JArr [])\<rparr>"

definition fetchReceipts :: "'s query_env \<Rightarrow> list_params \<Rightarrow> ('s, listing \<times> receipt_summary) op" where
  "fetchReceipts env params =
     (let sourceRef = no_blank (li_source params); packageId = no_blank (li_package params)
      in require (sourceRef \<noteq> [] \<or> packageId \<noteq> []) zh_receipt_key_empty
           (and_then
             (requestIngestApi env ''/receipts'' ''GET''
               ([(''source_ref'', Some sourceRef), (''package_id'', Some packageId), (''status'', li_status params),
                 (''error_code'', Some (no_blank (li_error_code params)))] @ page_params params) None)
             (\<lambda>envelope. give_read (map_option (\<lambda>l. (l, receipt_summary_of (data_field envelope ''summary'')))
                (listing_of envelope)))))"

definition fetchDeadLetters :: "'s query_env \<Rightarrow> list_params \<Rightarrow> ('s, listing) op" where
  "fetchDeadLetters env params =
     (let sourceRef = no_blank (li_source params); packageId = no_blank (li_package params)
      in require (sourceRef \<noteq> [] \<or> packageId \<noteq> []) zh_receipt_key_empty
           (and_then
             (requestIngestApi env ''/dead-letters'' ''GET''
               ([(''source_ref'', Some sourceRef), (''package_id'', Some packageId), (''replayed'', li_replayed params)]
                @ page_params params) None)
             (\<lambda>envelope. give_read (listing_of envelope))))"

definition replay_body :: "string list \<Rightarrow> string \<Rightarrow> json" where
  "replay_body ids reason = JObj [(''dead_letter_ids'', JArr (map JStr ids)), (''reason'', JStr reason)]"

definition replayDeadLetters :: "'s query_env \<Rightarrow> string list \<Rightarrow> string \<Rightarrow> ('s, json) op" where
  "replayDeadLetters env ids reason0 =
     (let deadLetterIds = filter (\<lambda>i. i \<noteq> []) (map trim ids); reason = trim reason0
      in require (deadLetterIds \<noteq> []) zh_dead_ids_empty
           (require (reason \<noteq> []) zh_replay_reason_empty
             (and_then
               (requestIngestApi env ''/dead-letters/replay'' ''POST'' [] (Some (replay_body deadLetterIds reason)))
               (\<lambda>envelope. give_truthy (json_field (Some envelope) ''data'') zh_replay_no_data))))"

definition generateDeploymentScript :: "'s query_env \<Rightarrow> json \<Rightarrow> ('s, json) op" where
  "generateDeploymentScript env payload =
     and_then (requestIngestApi env ''/deployment-scripts/generate'' ''POST'' [] (Some payload))
       (\<lambda>envelope. give_truthy (json_field (Some envelope) ''data'') zh_script_no_data)"

definition runPullTask :: "'s query_env \<Rightarrow> string \<Rightarrow> ('s, json) op" where
  "runPullTask env sourceId =
     require (trim sourceId \<noteq> []) zh_source_id_empty
       (and_then
         (requestIngestApi env ''/pull-tasks/run'' ''POST'' []
           (Some (JObj [(''source_id'', JStr (trim sourceId)), (''trigger_type'', JStr ''manual'')])))
         (\<lambda>envelope. give_truthy (json_field (Some envelope) ''data'') zh_run_no_data))"

section \<open>Lemmas\<close>

text \<open>The answer of a service that has the sources \<open>S\<close> to page \<open>n\<close> of pages of \<open>sz\<close>, and such a service.\<close>

definition sources_envelope :: "json list \<Rightarrow> nat \<Rightarrow> nat \<Rightarrow> json" where
  "sources_envelope S sz n =
     JObj [(''data'', JObj [(''items'', JArr (js_slice ((n - 1) * sz) (n * sz) S))]),
           (''meta'', JObj [(''total'', JNum (of_nat (length S)))])]"

definition serves_sources :: "'s query_env \<Rightarrow> browser \<Rightarrow> json list \<Rightarrow> nat \<Rightarrow> string \<Rightarrow> bool" where
  "serves_sources env b S sz status \<longleftrightarrow>
     (\<forall>n\<in>{1..length S div sz + 1}. \<forall>s. \<exists>s'.
        requestIngestApi env ''/pull-sources'' ''GET''
          [(''page'', int_param (int n)), (''page_size'', int_param (int sz)), (''status'', Some status)] None
          \<lparr>wd_browser = b, wd_net = s\<rparr>
        = (Inr (sources_envelope S sz n), \<lparr>wd_browser = b, wd_net = s'\<rparr>))"

lemma map_items_id: "JNull \<notin> set xs \<Longrightarrow> map_items (\<lambda>x _. x) (Some (JArr xs)) = Some xs"
proof -
  have "map2 (\<lambda>x _. x) xs [0..<length xs] = xs" by (rule nth_equalityI) simp_all
  moreover assume "JNull \<notin> set xs"
  ultimately show ?thesis by (simp add: map_items_def nullish_json_def)
qed

lemma sources_envelope_fields:
  assumes "JNull \<notin> set S"
  shows "items_of (sources_envelope S sz n) = Some (js_slice ((n - 1) * sz) (n * sz) S)"
    and "meta_total (sources_envelope S sz n) d = Fin (of_nat (length S))"
    and "boolean_or (meta_field (sources_envelope S sz n) ''has_next'') e = e"
proof -
  have "JNull \<notin> set (js_slice i j S)" for i j
    using assms by (auto simp: js_slice_def dest: in_set_takeD in_set_dropD)
  then show "items_of (sources_envelope S sz n) = Some (js_slice ((n - 1) * sz) (n * sz) S)"
    using map_items_id by (simp add: items_of_def sources_envelope_def data_field_def json_field_def jm_get_def)
qed (simp_all add: sources_envelope_def meta_total_def meta_field_def json_field_def jm_get_def number_or_def
    nullish_json_def num_of_json_def boolean_or_def)

lemma sources_page_served:
  assumes "serves_sources env b S sz status" and "JNull \<notin> set S" and "0 < sz" and "0 < n" and "n \<le> length S div sz + 1"
  shows "\<exists>s'. sources_page env (int sz) status (int n) \<lparr>wd_browser = b, wd_net = s\<rparr>
    = (Inr (js_slice ((n - 1) * sz) (n * sz) S, n * sz < length S), \<lparr>wd_browser = b, wd_net = s'\<rparr>)"
proof -
  obtain s' where "requestIngestApi env ''/pull-sources'' ''GET''
          [(''page'', int_param (int n)), (''page_size'', int_param (int sz)), (''status'', Some status)] None
          \<lparr>wd_browser = b, wd_net = s\<rparr> = (Inr (sources_envelope S sz n), \<lparr>wd_browser = b, wd_net = s'\<rparr>)"
    using assms(1,4,5) unfolding serves_sources_def by fastforce
  moreover have "js_less (Fin (of_int (int n * int sz))) (Fin (of_nat (length S))) \<longleftrightarrow> n * sz < length S"
    unfolding js_less_def by (simp del: of_int_mult of_nat_mult) (metis of_int_of_nat_eq of_nat_less_iff of_nat_mult)
  moreover have "length (js_slice ((n - 1) * sz) (n * sz) S) = sz" if "n * sz < length S"
  proof -
    have "(n - 1) * sz + sz = n * sz" using assms(4) by (cases n) simp_all
    then show ?thesis using that by (simp add: length_js_slice)
  qed
  ultimately show ?thesis
    using sources_envelope_fields [OF assms(2), of sz n]
    by (auto simp: sources_page_def and_then_def give_read_def give_def)
qed

lemma all_pages_served:
  assumes "serves_sources env b S sz status" and "JNull \<notin> set S" and "0 < sz"
  shows "0 < n \<Longrightarrow> n \<le> length S div sz + 1 \<Longrightarrow>
    \<exists>s'. all_pages (sources_page env (int sz) status) (int n) \<lparr>wd_browser = b, wd_net = s\<rparr>
      = Some (Inr (drop ((n - 1) * sz) S), \<lparr>wd_browser = b, wd_net = s'\<rparr>)"
proof (induction "length S div sz + 1 - n" arbitrary: n s rule: less_induct)
  case less
  obtain s' where p: "sources_page env (int sz) status (int n) \<lparr>wd_browser = b, wd_net = s\<rparr>
    = (Inr (js_slice ((n - 1) * sz) (n * sz) S, n * sz < length S), \<lparr>wd_browser = b, wd_net = s'\<rparr>)"
    using sources_page_served [OF assms less.prems] by blast
  have w: "(n - 1) * sz + sz = n * sz" using less.prems(1) by (cases n) simp_all
  show ?case
  proof (cases "n * sz < length S")
    case True
    then have n': "Suc n \<le> length S div sz + 1"
      using assms(3) less_eq_div_iff_mult_less_eq [of sz n "length S"] by simp
    then obtain s'' where "all_pages (sources_page env (int sz) status) (int (Suc n)) \<lparr>wd_browser = b, wd_net = s'\<rparr>
        = Some (Inr (drop (n * sz) S), \<lparr>wd_browser = b, wd_net = s''\<rparr>)"
      using less.hyps [of "Suc n" s'] by (auto simp: Suc_diff_le)
    moreover have "js_slice ((n - 1) * sz) (n * sz) S @ drop (n * sz) S = drop ((n - 1) * sz) S"
      using w by (metis js_slice_def append_take_drop_id drop_drop add.commute add_diff_cancel_left')
    ultimately show ?thesis
      using p True by (subst all_pages.simps) (simp add: add.commute)
  next
    case False
    then have "js_slice ((n - 1) * sz) (n * sz) S = drop ((n - 1) * sz) S"
      using w by (simp add: js_slice_def)
    then show ?thesis using p False by (subst all_pages.simps) simp
  qed
qed

section \<open>Properties\<close>

text \<open>C25: The list of pull sources is complete, however many there are: when the service has the sources \<open>S\<close> and
  answers each page with its slice and their number, then \<open>fetchPullSources\<close>, which calls itself page by page,
  returns exactly \<open>S\<close>, in the service's order, and it does return.\<close>

theorem every_source_fetched:
  assumes "serves_sources env b S sz (no_blank status)" and "JNull \<notin> set S" and "0 < sz"
  shows "\<exists>s'. fetchPullSources env \<lparr>sr_page = None, sr_page_size = Some (int sz), sr_status = status\<rparr>
      \<lparr>wd_browser = b, wd_net = s\<rparr> = Some (Inr S, \<lparr>wd_browser = b, wd_net = s'\<rparr>)"
  using all_pages_served [OF assms, of 1 s] by (simp add: fetchPullSources_def)

definition ingest_server :: "nat \<Rightarrow> api_request \<Rightarrow> query_answer \<times> nat" where
  "ingest_server n rq =
     (Answer 200 (Some (sources_envelope [JStr ''a'', JStr ''b'', JStr ''c''] 2
        (if js_includes (rq_url rq) ''page=2'' then 2 else 1))), n + 1)"

definition ingest_env :: "nat query_env" where
  "ingest_env = sample_env ingest_server"

lemma ingest_server_serves: "serves_sources ingest_env expired_browser [JStr ''a'', JStr ''b'', JStr ''c''] 2 []"
  unfolding serves_sources_def
proof (intro ballI allI exI)
  fix n s assume "n \<in> {1..length [JStr ''a'', JStr ''b'', JStr ''c''] div 2 + 1}"
  then have n: "n = 1 \<or> n = 2" by auto
  have "map_option (\<lambda>rq. js_includes (rq_url rq) ''page=2'') (service_api_request ingest_env expired_browser ingest_service
      ''/pull-sources'' ''GET'' [(''page'', int_param (int 1)), (''page_size'', int_param (int 2)), (''status'', Some [])] None)
      = Some False"
    "map_option (\<lambda>rq. js_includes (rq_url rq) ''page=2'') (service_api_request ingest_env expired_browser ingest_service
      ''/pull-sources'' ''GET'' [(''page'', int_param (int 2)), (''page_size'', int_param (int 2)), (''status'', Some [])] None)
      = Some True"
    by code_simp+
  moreover have "decode_service_answer ingest_service (Answer 200 (Some (sources_envelope S sz n)))
      = Inr (sources_envelope S sz n)" for S sz n
    by (simp add: decode_service_answer_def envelope_of_def nullish_json_def sources_envelope_def response_ok_def)
  moreover have "qe_server ingest_env = ingest_server" by (simp add: ingest_env_def sample_env_def)
  ultimately show "requestIngestApi ingest_env ''/pull-sources'' ''GET''
      [(''page'', int_param (int n)), (''page_size'', int_param (int 2)), (''status'', Some [])] None
      \<lparr>wd_browser = expired_browser, wd_net = s\<rparr>
      = (Inr (sources_envelope [JStr ''a'', JStr ''b'', JStr ''c''] 2 n), \<lparr>wd_browser = expired_browser, wd_net = s + 1\<rparr>)"
    using n by (auto simp: requestIngestApi_def requestServiceApi_def ingest_server_def split: option.splits)
qed

theorem every_source_fetched_witness:
  "\<exists>s'. fetchPullSources ingest_env \<lparr>sr_page = None, sr_page_size = Some 2, sr_status = None\<rparr>
      \<lparr>wd_browser = expired_browser, wd_net = 0\<rparr>
    = Some (Inr [JStr ''a'', JStr ''b'', JStr ''c''], \<lparr>wd_browser = expired_browser, wd_net = s'\<rparr>)"
proof -
  have "no_blank None = []" by (simp add: no_blank_def)
  then show ?thesis
    using every_source_fetched [of ingest_env expired_browser "[JStr ''a'', JStr ''b'', JStr ''c'']" 2 None 0]
      ingest_server_serves by simp
qed

text \<open>A blank identifier never reaches the service. Where a call needs a source, a package, a task or a reason
  and what is given is empty or only white space, the call fails with the message for it and nothing is sent: the
  server's state and the storage are as before.\<close>

theorem blank_identifiers_not_sent:
  assumes "trim i = []"
  shows "fetchPullTasks env (params\<lparr>li_source := Some i\<rparr>) w = (Inl (CallError zh_source_id_empty), w)
    \<and> fetchPullPackages env (params\<lparr>li_source := Some i, li_agent := Some i, li_task := None\<rparr>) w
        = (Inl (CallError zh_package_key_empty), w)
    \<and> fetchReceipts env (params\<lparr>li_source := Some i, li_package := None\<rparr>) w = (Inl (CallError zh_receipt_key_empty), w)
    \<and> fetchDeadLetters env (params\<lparr>li_source := None, li_package := Some i\<rparr>) w = (Inl (CallError zh_receipt_key_empty), w)
    \<and> fetchPullTaskById env i w = (Inl (CallError zh_task_id_empty), w)
    \<and> fetchPullPackageById env i w = (Inl (CallError zh_package_id_empty), w)
    \<and> runPullTask env i w = (Inl (CallError zh_source_id_empty), w)
    \<and> replayDeadLetters env (replicate n i) reason w = (Inl (CallError zh_dead_ids_empty), w)
    \<and> replayDeadLetters env (''d'' # ids) i w = (Inl (CallError zh_replay_reason_empty), w)"
proof -
  have "trim ''d'' = ''d''" by code_simp
  then show ?thesis
    using assms
    by (simp add: fetchPullTasks_def fetchPullPackages_def fetchReceipts_def fetchDeadLetters_def fetchPullTaskById_def
        fetchPullPackageById_def fetch_by_id_def runPullTask_def replayDeadLetters_def require_def raise_def no_blank_def
        filter_False Let_def)
qed

theorem blank_identifiers_not_sent_witness:
  "runPullTask ingest_env ''  '' \<lparr>wd_browser = expired_browser, wd_net = 0\<rparr>
     = (Inl (CallError zh_source_id_empty), \<lparr>wd_browser = expired_browser, wd_net = 0\<rparr>)"
proof -
  have "trim ''  '' = []" by code_simp
  from blank_identifiers_not_sent [OF this] show ?thesis by blast
qed

end
