(* ===== verification/Alert_Api.thy ===== *)
theory Alert_Api
  imports Service_Request
begin

text \<open>
  The client of the alerting service (\<open>api/alert.ts\<close>): rules, silences and events. What the service sends is
  JSON; the fields the console passes on without looking at them stay JSON values here. Operators, severities
  and states are the strings the console uses.
\<close>

section \<open>Texts of lists\<close>

lemma parse_u_rest: "parse_u s = Some (n, r) \<Longrightarrow> length r + 4 = length s"
  by (cases s rule: parse_u.cases) (auto split: option.splits)

lemma low_surrogate_rest: "low_surrogate s = Some (n, r) \<Longrightarrow> length r + 6 = length s"
  by (auto simp: low_surrogate_def dest: parse_u_rest split: list.splits option.splits if_splits)

lemma length_utf8_char: "length (utf8_char n) \<le> 4"
  by (simp add: utf8_char_def)

text \<open>The content of a literal is shorter than the literal.\<close>

lemma parse_str_content: "parse_str s = Some (x, r) \<Longrightarrow> length x + length r < length s"
proof (induction "length s" arbitrary: s x r rule: less_induct)
  case less
  have IH: "length y + length r' < length p + length t" if "prepend p (parse_str t) = Some (y, r')" "length t < length s" for p t y r'
    using less.hyps [OF that(2)] that by (fastforce simp: prepend_def)
  show ?case
  proof (cases s)
    case Nil
    with less.prems show ?thesis by (subst (asm) parse_str.simps) simp
  next
    case (Cons c t)
    note eq = less.prems [unfolded parse_str.simps [of s], unfolded Cons list.case]
    consider (quote) "c = CHR 0x22" | (esc) "c = CHR 0x5C" | (other) "c \<noteq> CHR 0x22" "c \<noteq> CHR 0x5C" by blast
    then show ?thesis
    proof cases
      case quote
      with eq Cons show ?thesis by simp
    next
      case other
      with eq Cons IH [of "[c]" t] show ?thesis by (auto split: if_splits)
    next
      case esc
      then obtain e t' where t: "t = e # t'" using eq by (cases t) simp_all
      show ?thesis
      proof (cases "e = CHR ''u''")
        case False
        with eq esc t obtain y where y: "prepend [y] (parse_str t') = Some (x, r)" by (auto split: option.splits)
        show ?thesis using IH [OF y] t Cons by simp
      next
        case True
        with eq esc t obtain n r1 where p: "parse_u t' = Some (n, r1)" by (auto split: option.splits)
        then have r1: "length r1 + 6 = length s" using parse_u_rest [OF p] t Cons by simp
        obtain n' k where k: "prepend (utf8_char n') (parse_str k) = Some (x, r)" "length k \<le> length r1"
          using eq esc t True p low_surrogate_rest [of r1] by (auto split: if_splits option.splits)
        then show ?thesis using IH [OF k(1)] length_utf8_char [of n'] r1 by simp
      qed
    qed
  qed
qed

lemma parse_kinds:
  "parse_elems f acc s = Some (v, r) \<Longrightarrow> \<exists>xs. v = JArr xs"
  "parse_members f macc s = Some (v, r) \<Longrightarrow> \<exists>ms. v = JObj ms"
proof -
  show "parse_elems f acc s = Some (v, r) \<Longrightarrow> \<exists>xs. v = JArr xs"
    by (induction f arbitrary: acc s) (auto split: option.splits list.splits if_splits)
  show "parse_members f macc s = Some (v, r) \<Longrightarrow> \<exists>ms. v = JObj ms"
    by (induction f arbitrary: macc s) (auto split: option.splits list.splits if_splits)
qed

lemma parse_number_kind: "parse_number s = Some (v, r) \<Longrightarrow> \<exists>q. v = JNum q"
  by (auto simp: parse_number_def Let_def split: option.splits if_splits)

lemma parse_value_string:
  "parse_value (Suc f) s = Some (JStr x, r) \<Longrightarrow> \<exists>t. skip_ws s = CHR 0x22 # t \<and> parse_str t = Some (x, r)"
  by (auto split: list.splits if_splits dest: parse_kinds parse_number_kind)

lemma parse_string_shorter: "parse s = Some (JStr x) \<Longrightarrow> length x < length s"
proof -
  assume "parse s = Some (JStr x)"
  then obtain r where "parse_value (Suc (2 * length s + 1)) s = Some (JStr x, r)"
    by (auto simp: parse_def split: option.splits if_splits)
  from parse_value_string [OF this] obtain t where t: "skip_ws s = CHR 0x22 # t" "parse_str t = Some (x, r)" by blast
  show ?thesis using parse_str_content [OF t(2)] length_skip_ws [of s] t(1) by simp
qed

section \<open>Rules\<close>

text \<open>A JSON text of a list, or of such a text; each text is shorter than the one it is in.\<close>

function normalizeNotificationChannelIDs :: "json option \<Rightarrow> string list" where
  "normalizeNotificationChannelIDs raw =
     (case raw of
        Some (JArr xs) \<Rightarrow> js_uniq (filter (\<lambda>i. i \<noteq> []) (map (\<lambda>x. trim (string_or_empty (Some x))) xs))
      | Some (JStr s) \<Rightarrow>
          (if trim s = [] then []
           else (case parse (trim s) of None \<Rightarrow> [] | Some v \<Rightarrow> normalizeNotificationChannelIDs (Some v)))
      | _ \<Rightarrow> [])"
  by pat_completeness auto
termination
proof (relation "measure (\<lambda>raw. case raw of Some (JStr s) \<Rightarrow> Suc (length s) | _ \<Rightarrow> 0)", goal_cases)
  case (2 raw v s v')
  then show ?case
    using parse_string_shorter [of "trim s"] length_trim_le [of s] by (auto split: json.split)
qed simp

declare normalizeNotificationChannelIDs.simps [simp del]

record alert_rule =
  ar_id :: "json option"
  ar_name :: "json option"
  ar_description :: json
  ar_query :: string
  ar_severity :: string
  ar_status :: string
  ar_metric :: json
  ar_operator :: string
  ar_threshold :: json
  ar_actions :: "string list"
  ar_createdBy :: json
  ar_createdAt :: jsnum
  ar_updatedAt :: jsnum

definition quoted :: "string \<Rightarrow> string" where
  "quoted s = CHR 0x27 # s @ [CHR 0x27]"

text \<open>The sign of a comparison and its name.\<close>

definition operator_of_sign :: "json \<Rightarrow> string" where
  "operator_of_sign op =
     (if op = JStr ''>='' then ''gte'' else if op = JStr ''<='' then ''lte'' else if op = JStr ''<'' then ''lt''
      else if op = JStr ''='' then ''eq'' else if op = JStr ''!='' then ''ne'' else ''gt'')"

text \<open>The condition as text, metric, operator and threshold.\<close>

definition condition_shown :: "json \<Rightarrow> string \<times> json \<times> string \<times> json" where
  "condition_shown cond =
     (let field = json_field (Some cond); condType = or_json (field ''type'') (JStr ''keyword'')
      in if condType = JStr ''keyword'' then
           (''contains('' @ js_String (or_json (field ''field'') (JStr ''message'')) @ '', ''
              @ quoted (js_String (or_json (field ''keyword'') (JStr []))) @ '')'',
            JStr [], ''gt'', JNum 0)
         else if condType = JStr ''level_count'' then
           (let th = or_json (field ''threshold'') (JNum 10)
            in (''count(level='' @ quoted (js_String (or_json (field ''level'') (JStr ''ERROR''))) @ '') in ''
                  @ js_String (or_json (field ''window_seconds'') (JNum 300)) @ ''s'',
                JStr ''level_count'', ''gt'', th))
         else if condType = JStr ''threshold'' then
           (let m = or_json (field ''metric'') (JStr []); op = or_json (field ''operator'') (JStr ''>'');
                val = or_json (field ''value'') (JNum 0)
            in (js_String m @ '' '' @ js_String op @ '' '' @ js_String val, m, operator_of_sign op, val))
         else (stringify cond, JStr [], ''gt'', JNum 0))"

definition mapBackendRuleToFrontend :: "clock \<Rightarrow> json \<Rightarrow> alert_rule option" where
  "mapBackendRuleToFrontend c r =
     (let field = json_field (Some r);
          (query, metric, operator, threshold) = condition_shown (or_json (field ''condition'') (JObj []));
          updatedAt = date_or c (field ''updated_at'') (now_ms c)
      in map_option (\<lambda>severity.
           \<lparr>ar_id = field ''id'', ar_name = field ''name'', ar_description = or_json (field ''description'') (JStr []),
            ar_query = query, ar_severity = severity,
            ar_status = (if truthy (field ''enabled'') then ''enabled'' else ''disabled''),
            ar_metric = or_json (Some metric) (JStr ''value''), ar_operator = operator, ar_threshold = threshold,
            ar_actions = normalizeNotificationChannelIDs (field ''notification_channels''),
            ar_createdBy = or_json (field ''created_by'') (JStr []),
            ar_createdAt = date_or c (field ''created_at'') (now_ms c), ar_updatedAt = updatedAt\<rparr>)
         (lowered_or (field ''severity'') ''medium''))"

definition fetchAlertRules :: "'s query_env \<Rightarrow> int \<Rightarrow> int \<Rightarrow> ('s, alert_rule list \<times> jsnum) op" where
  "fetchAlertRules env page pageSize =
     and_then
       (requestAlertApi env ''/rules'' ''GET'' [(''page'', int_param page), (''page_size'', int_param pageSize)] None)
       (\<lambda>envelope. give_read (map_option (\<lambda>rules. (rules, meta_total envelope (length rules)))
          (map_items_raising (mapBackendRuleToFrontend (qe_clock env)) (data_field envelope ''items''))))"

definition operator_signs :: "(string, string) jsmap" where
  "operator_signs = [(''gt'', ''>''), (''gte'', ''>=''), (''lt'', ''<''), (''lte'', ''<=''), (''eq'', ''=''), (''ne'', ''!='')]"

definition sign_of :: "json option \<Rightarrow> string" where
  "sign_of op = nullish (jm_get operator_signs (js_String (or_json op (JStr ''gt'')))) ''>''"

definition buildCondition :: "string \<Rightarrow> json \<Rightarrow> json" where
  "buildCondition conditionType condition =
     (let field = json_field (Some condition)
      in if conditionType = ''keyword'' then
           JObj [(''type'', JStr ''keyword''), (''keyword'', or_json (field ''keyword'') (JStr [])),
                 (''field'', or_json (field ''field'') (JStr ''message''))]
         else if conditionType = ''level_count'' then
           JObj [(''type'', JStr ''level_count''), (''level'', or_json (field ''level'') (JStr ''ERROR'')),
                 (''threshold'', field_or (Some condition) ''threshold'' (JNum 10)),
                 (''window_seconds'', field_or (Some condition) ''window_seconds'' (JNum 300))]
         else if conditionType = ''threshold'' then
           JObj [(''type'', JStr ''threshold''), (''metric'', or_json (field ''metric'') (JStr [])),
                 (''operator'', JStr (sign_of (field ''operator''))), (''value'', field_or (Some condition) ''value'' (JNum 0))]
         else JObj [(''type'', JStr ''keyword''), (''keyword'', JStr []), (''field'', JStr ''message'')])"

record rule_payload =
  rp_name :: "string option"
  rp_description :: "string option"
  rp_conditionType :: "string option"
  rp_condition :: "json option"
  rp_severity :: "string option"
  rp_enabled :: "bool option"
  rp_notificationChannelIDs :: "string list option"

definition json_strings :: "string list \<Rightarrow> json" where
  "json_strings xs = JArr (map JStr xs)"

definition create_rule_body :: "rule_payload \<Rightarrow> json" where
  "create_rule_body data =
     literal
       [(''name'', map_option JStr (rp_name data)), (''description'', Some (JStr (nullish (rp_description data) []))),
        (''condition'', Some (buildCondition (nullish (rp_conditionType data) []) (nullish (rp_condition data) (JObj [])))),
        (''severity'', Some (JStr (or_str (nullish (rp_severity data) []) ''medium''))),
        (''enabled'', Some (JBool (nullish (rp_enabled data) True))),
        (''notification_channels'', Some (json_strings (nullish (rp_notificationChannelIDs data) [])))]"

text \<open>The rule with the id among the first 200, or the error that it cannot be shown.\<close>

definition shown_rule :: "'s query_env \<Rightarrow> json \<Rightarrow> string \<Rightarrow> ('s, alert_rule) op" where
  "shown_rule env i missing =
     and_then (fetchAlertRules env 1 200) (\<lambda>(items, _).
       case find (\<lambda>r. ar_id r = Some i) items of None \<Rightarrow> raise (CallError missing) | Some r \<Rightarrow> give r)"

definition createAlertRule :: "'s query_env \<Rightarrow> rule_payload \<Rightarrow> ('s, alert_rule) op" where
  "createAlertRule env data =
     and_then (requestAlertApi env ''/rules'' ''POST'' [] (Some (create_rule_body data))) (\<lambda>envelope.
       let i = data_field envelope ''id''
       in if truthy i then shown_rule env (nullish i JNull) zh_rule_created_no_detail
          else raise (CallError zh_rule_created_no_id))"

definition update_condition :: "rule_payload \<Rightarrow> json option" where
  "update_condition data =
     (case (rp_conditionType data, rp_condition data) of
        (Some conditionType, Some condition) \<Rightarrow>
          (if truthy (Some condition) \<and> conditionType \<in> set [''keyword'', ''level_count'', ''threshold'']
           then Some (buildCondition conditionType condition) else None)
      | _ \<Rightarrow> None)"

definition update_rule_body :: "rule_payload \<Rightarrow> json" where
  "update_rule_body data =
     literal
       [(''name'', map_option JStr (rp_name data)), (''description'', map_option JStr (rp_description data)),
        (''condition'', update_condition data), (''severity'', map_option JStr (rp_severity data)),
        (''enabled'', map_option JBool (rp_enabled data)),
        (''notification_channels'', map_option json_strings (rp_notificationChannelIDs data))]"

definition updateAlertRule :: "'s query_env \<Rightarrow> string \<Rightarrow> rule_payload \<Rightarrow> ('s, alert_rule) op" where
  "updateAlertRule env i data =
     and_then (requestAlertApi env (''/rules/'' @ encodeURIComponent i) ''PUT'' [] (Some (update_rule_body data)))
       (\<lambda>_. shown_rule env (JStr i) zh_rule_updated_no_detail)"

text \<open>Calls whose answer is not looked at.\<close>

definition alert_command :: "'s query_env \<Rightarrow> string \<Rightarrow> string \<Rightarrow> json option \<Rightarrow> ('s, unit) op" where
  "alert_command env p method body = and_then (requestAlertApi env p method [] body) (\<lambda>_. give ())"

definition deleteAlertRule :: "'s query_env \<Rightarrow> string \<Rightarrow> ('s, unit) op" where
  "deleteAlertRule env i = alert_command env (''/rules/'' @ encodeURIComponent i) ''DELETE'' None"

definition enableAlertRule :: "'s query_env \<Rightarrow> string \<Rightarrow> ('s, unit) op" where
  "enableAlertRule env i = alert_command env (''/rules/'' @ encodeURIComponent i @ ''/enable'') ''PUT'' None"

definition disableAlertRule :: "'s query_env \<Rightarrow> string \<Rightarrow> ('s, unit) op" where
  "disableAlertRule env i = alert_command env (''/rules/'' @ encodeURIComponent i @ ''/disable'') ''PUT'' None"

section \<open>Silences\<close>

record alert_silence =
  as_id :: "json option"
  as_matchers :: json
  as_reason :: json
  as_startsAt :: jsnum
  as_endsAt :: jsnum
  as_createdBy :: json
  as_createdAt :: jsnum
  as_updatedAt :: jsnum

definition mapBackendSilenceToFrontend :: "clock \<Rightarrow> json \<Rightarrow> alert_silence" where
  "mapBackendSilenceToFrontend c b =
     (let field = json_field (Some b); kept = field_or (Some b)
      in \<lparr>as_id = field ''id'', as_matchers = kept ''matchers'' (JObj []), as_reason = kept ''reason'' (JStr []),
          as_startsAt = date_or c (field ''starts_at'') 0, as_endsAt = date_or c (field ''ends_at'') 0,
          as_createdBy = kept ''created_by'' (JStr []), as_createdAt = date_or c (field ''created_at'') 0,
          as_updatedAt = date_or c (field ''updated_at'') 0\<rparr>)"

definition fetchAlertSilences :: "'s query_env \<Rightarrow> ('s, alert_silence list) op" where
  "fetchAlertSilences env =
     and_then (requestAlertApi env ''/silences'' ''GET'' [] None) (\<lambda>envelope.
       let raw = json_field (Some envelope) ''data'';
           items = (case json_field raw ''items'' of Some (JArr xs) \<Rightarrow> xs | _ \<Rightarrow> array_items raw)
       in give_read (map_items (\<lambda>b _. mapBackendSilenceToFrontend (qe_clock env) b) (Some (JArr items))))"

definition silence_of :: "'s query_env \<Rightarrow> string \<Rightarrow> json \<Rightarrow> ('s, alert_silence) op" where
  "silence_of env missing envelope =
     (let created = json_field (Some envelope) ''data''
      in if truthy created then give (mapBackendSilenceToFrontend (qe_clock env) (nullish created JNull))
         else raise (CallError missing))"

record silence_payload =
  sl_matchers :: "json option"
  sl_reason :: "string option"
  sl_starts_at :: "string option"
  sl_ends_at :: "string option"

definition createAlertSilence :: "'s query_env \<Rightarrow> silence_payload \<Rightarrow> ('s, alert_silence) op" where
  "createAlertSilence env data =
     and_then
       (requestAlertApi env ''/silences'' ''POST'' []
         (Some (literal
           [(''matchers'', Some (nullish (sl_matchers data) (JObj []))), (''reason'', Some (JStr (nullish (sl_reason data) []))),
            (''starts_at'', map_option JStr (sl_starts_at data)), (''ends_at'', map_option JStr (sl_ends_at data))])))
       (silence_of env zh_silence_created_none)"

definition updateAlertSilence :: "'s query_env \<Rightarrow> string \<Rightarrow> silence_payload \<Rightarrow> ('s, alert_silence) op" where
  "updateAlertSilence env i data =
     and_then
       (requestAlertApi env (''/silences/'' @ encodeURIComponent i) ''PUT'' []
         (Some (literal
           [(''matchers'', sl_matchers data), (''reason'', map_option JStr (sl_reason data)),
            (''starts_at'', map_option JStr (sl_starts_at data)), (''ends_at'', map_option JStr (sl_ends_at data))])))
       (silence_of env zh_silence_updated_none)"

definition deleteAlertSilence :: "'s query_env \<Rightarrow> string \<Rightarrow> ('s, unit) op" where
  "deleteAlertSilence env i = alert_command env (''/silences/'' @ encodeURIComponent i) ''DELETE'' None"

section \<open>Events\<close>

record notification_summary =
  ns_status :: string
  ns_attemptedChannels :: jsnum
  ns_successfulChannels :: jsnum
  ns_lastAttemptAt :: "rat option"
  ns_raw :: "json option"

record incident_link =
  il_incidentId :: string
  il_autoCreated :: bool
  il_linkedAt :: "rat option"

definition json_object :: "json option \<Rightarrow> json option" where
  "json_object v = (case v of Some (JObj ms) \<Rightarrow> Some (JObj ms) | _ \<Rightarrow> None)"

definition normalizeAlertNotificationResult :: "json option \<Rightarrow> json option" where
  "normalizeAlertNotificationResult raw =
     (case raw of
        Some (JObj ms) \<Rightarrow> Some (JObj ms)
      | Some (JStr s) \<Rightarrow> (if trim s = [] then None else json_object (parse s))
      | _ \<Rightarrow> None)"

text \<open>\<open>Number.isFinite(t) ? t : undefined\<close>, and the time of a string that is not empty.\<close>

definition finite_time :: "jsnum option \<Rightarrow> rat option" where
  "finite_time t = (case t of Some (Fin q) \<Rightarrow> Some q | _ \<Rightarrow> None)"

definition text_time :: "clock \<Rightarrow> json option \<Rightarrow> jsnum option" where
  "text_time c v = (case v of Some (JStr s) \<Rightarrow> if s = [] then None else Some (date_ms c (JStr s)) | _ \<Rightarrow> None)"

definition normalizeAlertIncidentLink :: "clock \<Rightarrow> json option \<Rightarrow> incident_link option" where
  "normalizeAlertIncidentLink c raw =
     (case json_object (json_field (normalizeAlertNotificationResult raw) ''incident_link'') of
        None \<Rightarrow> None
      | Some link \<Rightarrow>
          (let incidentId = nullish (map_option trim (string_field (json_field (Some link) ''incident_id''))) []
           in if incidentId = [] then None
              else Some \<lparr>il_incidentId = incidentId, il_autoCreated = truthy (json_field (Some link) ''auto_created''),
                         il_linkedAt = finite_time (text_time c (json_field (Some link) ''linked_at''))\<rparr>))"

definition normalizeAlertNotificationSummary :: "clock \<Rightarrow> json option \<Rightarrow> json option \<Rightarrow> notification_summary option" where
  "normalizeAlertNotificationSummary c raw notifiedAt =
     (let notificationResult = normalizeAlertNotificationResult raw
      in case json_object (json_field notificationResult ''channel_dispatch'') of
           None \<Rightarrow> None
         | Some summary \<Rightarrow>
             (let field = json_field (Some summary);
                  lastAttempt = nullish_opt (text_time c (field ''last_attempt_at''))
                     (if truthy notifiedAt then Some (date_ms c (nullish notifiedAt JNull)) else None)
              in Some \<lparr>ns_status = nullish (string_field (field ''status'')) ''unknown'',
                       ns_attemptedChannels = number_or (field ''attempted_channels'') (Fin 0),
                       ns_successfulChannels = number_or (field ''successful_channels'') (Fin 0),
                       ns_lastAttemptAt = finite_time lastAttempt, ns_raw = notificationResult\<rparr>))"

record alert_event =
  ae_id :: "json option"
  ae_name :: json
  ae_severity :: string
  ae_status :: string
  ae_source :: json
  ae_count :: json
  ae_lastTriggeredAt :: jsnum
  ae_ruleId :: "json option"
  ae_detail :: json
  ae_notificationSummary :: "notification_summary option"
  ae_incidentId :: "string option"
  ae_incidentAutoCreated :: "bool option"

definition mapStatus :: "json \<Rightarrow> string" where
  "mapStatus s =
     (if s = JStr ''firing'' \<or> s = JStr ''active'' then ''active''
      else if s = JStr ''acknowledged'' then ''acknowledged''
      else if s = JStr ''resolved'' then ''resolved''
      else if s = JStr ''silenced'' then ''silenced''
      else ''active'')"

definition mapAlertEvent :: "clock \<Rightarrow> json \<Rightarrow> alert_event option" where
  "mapAlertEvent c e =
     (let field = json_field (Some e); incidentLink = normalizeAlertIncidentLink c (field ''notification_result'')
      in map_option (\<lambda>severity.
           \<lparr>ae_id = field ''id'',
            ae_name = or_json (field ''name'') (or_json (field ''title'') (JStr zh_unknown_alert)),
            ae_severity = severity, ae_status = mapStatus (or_json (field ''status'') (JStr ''firing'')),
            ae_source = or_json (field ''source_id'') (JStr ''-''), ae_count = field_or (Some e) ''count'' (JNum 1),
            ae_lastTriggeredAt = date_or c (field ''fired_at'') (now_ms c), ae_ruleId = field ''rule_id'',
            ae_detail = or_json (field ''detail'') (or_json (field ''title'') (or_json (field ''name'') (JStr []))),
            ae_notificationSummary =
              normalizeAlertNotificationSummary c (field ''notification_result'') (field ''notified_at''),
            ae_incidentId = map_option il_incidentId incidentLink,
            ae_incidentAutoCreated = map_option il_autoCreated incidentLink\<rparr>)
         (lowered_or (field ''severity'') ''medium''))"

record event_list =
  el_items :: "alert_event list"
  el_total :: jsnum
  el_pending :: jsnum
  el_critical :: jsnum
  el_warning :: jsnum
  el_silenced :: jsnum

definition events_of_envelope :: "clock \<Rightarrow> json \<Rightarrow> event_list option" where
  "events_of_envelope c envelope =
     (let count = (\<lambda>k. number_or (json_field (data_field envelope ''summary'') k) (Fin 0))
      in map_option (\<lambda>items.
           \<lparr>el_items = items, el_total = meta_total envelope (length items), el_pending = count ''pending'',
            el_critical = count ''critical'', el_warning = count ''warning'', el_silenced = count ''silenced''\<rparr>)
         (map_items_raising (mapAlertEvent c) (data_field envelope ''items'')))"

definition fetchAlertEvents ::
    "'s query_env \<Rightarrow> int \<Rightarrow> int \<Rightarrow> string option \<Rightarrow> string option \<Rightarrow> string option \<Rightarrow> ('s, event_list) op" where
  "fetchAlertEvents env page pageSize status severity q =
     and_then
       (requestAlertApi env ''/events'' ''GET''
         [(''page'', int_param page), (''page_size'', int_param pageSize), (''status'', status), (''severity'', severity),
          (''query'', q)] None)
       (\<lambda>envelope. give_read (events_of_envelope (qe_clock env) envelope))"

definition mutateAlertEvent :: "'s query_env \<Rightarrow> string \<Rightarrow> string \<Rightarrow> json \<Rightarrow> ('s, unit) op" where
  "mutateAlertEvent env eventID action body =
     alert_command env (''/events/'' @ encodeURIComponent eventID @ ''/'' @ action) ''POST'' (Some body)"

definition acknowledgeAlertEvent :: "'s query_env \<Rightarrow> string \<Rightarrow> ('s, unit) op" where
  "acknowledgeAlertEvent env eventID = mutateAlertEvent env eventID ''acknowledge'' (JObj [])"

definition resolveAlertEvent :: "'s query_env \<Rightarrow> string \<Rightarrow> ('s, unit) op" where
  "resolveAlertEvent env eventID = mutateAlertEvent env eventID ''resolve'' (JObj [])"

definition silenceAlertEvent :: "'s query_env \<Rightarrow> string \<Rightarrow> string option \<Rightarrow> rat option \<Rightarrow> ('s, unit) op" where
  "silenceAlertEvent env eventID reason durationSeconds =
     mutateAlertEvent env eventID ''silence''
       (JObj [(''reason'', JStr (nullish reason [])), (''duration_seconds'', JNum (nullish durationSeconds 3600))])"

section \<open>Lemmas\<close>

lemma channel_list [simp]:
  "normalizeNotificationChannelIDs (Some (JArr xs))
     = js_uniq (filter (\<lambda>i. i \<noteq> []) (map (\<lambda>x. trim (string_or_empty (Some x))) xs))"
  by (subst normalizeNotificationChannelIDs.simps) simp

lemma channel_text:
  "normalizeNotificationChannelIDs (Some (JStr s)) =
     (if trim s = [] then [] else case parse (trim s) of None \<Rightarrow> [] | Some v \<Rightarrow> normalizeNotificationChannelIDs (Some v))"
  by (subst normalizeNotificationChannelIDs.simps) simp

lemma channel_other [simp]:
  "normalizeNotificationChannelIDs None = []" "normalizeNotificationChannelIDs (Some JNull) = []"
  "normalizeNotificationChannelIDs (Some (JBool b)) = []" "normalizeNotificationChannelIDs (Some (JNum q)) = []"
  "normalizeNotificationChannelIDs (Some (JObj ms)) = []"
  by (subst normalizeNotificationChannelIDs.simps; simp)+

definition clean_ids :: "string list \<Rightarrow> bool" where
  "clean_ids ids \<longleftrightarrow> distinct ids \<and> list_all (\<lambda>i. i \<noteq> [] \<and> trim i = i) ids"

lemma clean_ids_uniq: "clean_ids (js_uniq (filter (\<lambda>i. i \<noteq> []) (map (\<lambda>x. trim (f x)) xs)))"
  by (auto simp: clean_ids_def list_all_iff)

lemma clean_ids_normal: "clean_ids (normalizeNotificationChannelIDs raw)"
proof (induction raw rule: normalizeNotificationChannelIDs.induct)
  case (1 raw)
  show ?case
  proof (cases "\<exists>s. raw = Some (JStr s)")
    case True
    then obtain s where s: "raw = Some (JStr s)" by blast
    show ?thesis
      unfolding s channel_text using 1 [OF s refl] by (auto simp: clean_ids_def split: option.split)
  next
    case False
    then show ?thesis
      using clean_ids_uniq by (cases raw rule: option.exhaust; simp; cases "the raw"; simp add: clean_ids_def)
  qed
qed

lemma json_strings_wf [simp]: "json_wf (json_strings ids)"
  by (auto simp: json_strings_def)

lemma normalize_strings:
  "normalizeNotificationChannelIDs (Some (json_strings ids)) = js_uniq (filter (\<lambda>i. i \<noteq> []) (map trim ids))"
  by (simp add: json_strings_def string_or_empty_def comp_def)

lemma clean_ids_fixed: "clean_ids ids \<Longrightarrow> js_uniq (filter (\<lambda>i. i \<noteq> []) (map trim ids)) = ids"
proof -
  assume c: "clean_ids ids"
  then have "map trim ids = ids" by (auto simp: clean_ids_def list_all_iff intro: map_idI)
  moreover have "filter (\<lambda>i. i \<noteq> []) ids = ids" using c by (auto simp: clean_ids_def list_all_iff filter_id_conv)
  ultimately show ?thesis using c by (simp add: clean_ids_def js_uniq_distinct)
qed

lemma trim_stringify_text: "trim (stringify (JStr s)) = stringify (JStr s)" "trim (stringify (json_strings ids)) = stringify (json_strings ids)"
proof -
  have "plain_char (CHR 0x22)" "plain_char (CHR ''['')" "plain_char (CHR '']'')" by code_simp+
  then show "trim (stringify (JStr s)) = stringify (JStr s)" "trim (stringify (json_strings ids)) = stringify (json_strings ids)"
    by (auto intro!: trim_plain simp: plain_ends_def quote_def json_strings_def)
qed

lemma stringify_ne: "json_wf v \<Longrightarrow> stringify v \<noteq> []"
  using length_stringify_pos by force

lemma normalize_text:
  "json_wf v \<Longrightarrow> trim (stringify v) = stringify v \<Longrightarrow>
     normalizeNotificationChannelIDs (Some (JStr (stringify v))) = normalizeNotificationChannelIDs (Some v)"
  by (simp add: channel_text parse_stringify stringify_ne)

section \<open>Properties\<close>

text \<open>
  The notification channels of a rule are a clean list whatever the service sends: no id twice, none blank,
  none with white space around it; a list sent as its JSON text, or as the text of that text, gives the same
  channels as the list; and a list already clean stays as it is.
\<close>

theorem channel_ids_clean:
  "clean_ids (normalizeNotificationChannelIDs raw)
   \<and> normalizeNotificationChannelIDs (Some (JStr (stringify (json_strings ids))))
       = normalizeNotificationChannelIDs (Some (json_strings ids))
   \<and> normalizeNotificationChannelIDs (Some (JStr (stringify (JStr (stringify (json_strings ids))))))
       = normalizeNotificationChannelIDs (Some (json_strings ids))
   \<and> normalizeNotificationChannelIDs (Some (json_strings (normalizeNotificationChannelIDs raw)))
       = normalizeNotificationChannelIDs raw"
  using clean_ids_normal [of raw]
  by (simp add: normalize_text trim_stringify_text del: stringify.simps)
    (simp add: normalize_strings clean_ids_fixed)

text \<open>A threshold rule comes back as it was entered: the body the console posts for a metric, an operator, a
  threshold and channels, read as the rule the service returns, shows the same metric, operator, threshold,
  channels and state.\<close>

theorem threshold_rule_roundtrip:
  assumes "metric \<noteq> []" and "jm_get operator_signs operator \<noteq> None" and "clean_ids ids"
  shows "map_option (\<lambda>r. (ar_metric r, ar_operator r, ar_threshold r, ar_actions r, ar_status r))
      (mapBackendRuleToFrontend c (create_rule_body
        \<lparr>rp_name = nam, rp_description = description, rp_conditionType = Some ''threshold'',
         rp_condition = Some (JObj [(''metric'', JStr metric), (''operator'', JStr operator), (''value'', JNum v)]),
         rp_severity = severity, rp_enabled = Some enabled, rp_notificationChannelIDs = Some ids\<rparr>))
    = Some (JStr metric, operator, JNum v, ids, if enabled then ''enabled'' else ''disabled'')"
proof -
  have op: "operator \<in> set (map fst operator_signs)"
    using assms(2) by (simp add: jm_get_def map_of_eq_None_iff)
  then have ne: "operator \<noteq> []" and named: "operator_of_sign (JStr (nullish (jm_get operator_signs operator) ''>'')) = operator"
    by (auto simp: operator_signs_def jm_get_def operator_of_sign_def)
  have sign: "nullish (jm_get operator_signs operator) ''>'' \<noteq> []"
    using op by (auto simp: operator_signs_def jm_get_def)
  have ids: "normalizeNotificationChannelIDs (Some (json_strings ids)) = ids"
    using assms(3) by (simp add: normalize_strings clean_ids_fixed)
  have lowered: "lowered_or (Some (JStr s)) ''medium'' = Some (or_str (toLowerCase s) ''medium'')" for s
    by (simp add: lowered_or_def nullish_json_def)
  show ?thesis
    using assms(1) ne named sign ids lowered
    by (cases nam; simp add: mapBackendRuleToFrontend_def create_rule_body_def literal_def List.map_filter_simps json_field_def
        jm_get_def buildCondition_def sign_of_def or_json_def truthy_def field_or_def nullish_json_def condition_shown_def Let_def)
qed

theorem threshold_rule_roundtrip_witness:
  "map_option (\<lambda>r. (ar_metric r, ar_operator r, ar_threshold r, ar_actions r, ar_status r))
      (mapBackendRuleToFrontend sample_clock (create_rule_body
        \<lparr>rp_name = Some ''n'', rp_description = None, rp_conditionType = Some ''threshold'',
         rp_condition = Some (JObj [(''metric'', JStr ''cpu''), (''operator'', JStr ''lte''), (''value'', JNum 90)]),
         rp_severity = None, rp_enabled = Some True, rp_notificationChannelIDs = Some [''c1'']\<rparr>))
    = Some (JStr ''cpu'', ''lte'', JNum 90, [''c1''], ''enabled'')"
proof -
  have "clean_ids [''c1'']" by code_simp
  then show ?thesis
    using threshold_rule_roundtrip [of "''cpu''" "''lte''" "[''c1'']" sample_clock "Some ''n''" None 90 None True]
    by (simp add: operator_signs_def jm_get_def)
qed

end
