(* ===== verification/Storage_Api.thy ===== *)
theory Storage_Api
  imports Service_Request
begin

text \<open>
  The client of the storage service (\<open>api/storage.ts\<close>): indices and lifecycle policies, the names it brings into
  the console's vocabulary, the numbers it formats, and the summaries it computes when the service sends none.
\<close>

section \<open>Vocabulary\<close>

datatype index_health = Health_Green | Health_Yellow | Health_Red | Health_Unknown

datatype index_status = Index_Open | Index_Closed

datatype policy_status = Policy_Active | Policy_Error | Policy_Unused

datatype execution_status = Execution_Success | Execution_Failed | Execution_Idle

datatype lifecycle_phase = Phase_Hot | Phase_Warm | Phase_Cold | Phase_Delete

text \<open>\<open>(raw || '').trim().toLowerCase()\<close>: a type error on a truthy value that is no string.\<close>

definition word_of :: "json option \<Rightarrow> string option" where
  "word_of raw =
     (if \<not> truthy raw then Some []
      else (case raw of Some (JStr s) \<Rightarrow> Some (toLowerCase (trim s)) | _ \<Rightarrow> None))"

definition normalizeIndexHealth :: "json option \<Rightarrow> index_health option" where
  "normalizeIndexHealth raw =
     map_option (\<lambda>w. if w = ''green'' then Health_Green else if w = ''yellow'' then Health_Yellow
                      else if w = ''red'' then Health_Red else Health_Unknown) (word_of raw)"

definition normalizeIndexStatus :: "json option \<Rightarrow> index_status option" where
  "normalizeIndexStatus raw =
     map_option (\<lambda>w. if w = ''open'' then Index_Open else Index_Closed) (word_of raw)"

definition normalizePolicyStatus :: "json option \<Rightarrow> policy_status option" where
  "normalizePolicyStatus raw =
     map_option (\<lambda>w. if w = ''error'' then Policy_Error else if w = ''unused'' then Policy_Unused else Policy_Active)
       (word_of raw)"

definition normalizeExecutionStatus :: "json option \<Rightarrow> execution_status option" where
  "normalizeExecutionStatus raw =
     map_option (\<lambda>w. if w = ''failed'' then Execution_Failed else if w = ''idle'' then Execution_Idle else Execution_Success)
       (word_of raw)"

definition normalizeLifecyclePhase :: "json option \<Rightarrow> lifecycle_phase option" where
  "normalizeLifecyclePhase raw =
     map_option (\<lambda>w. if w = ''warm'' then Phase_Warm else if w = ''cold'' then Phase_Cold
                      else if w = ''delete'' then Phase_Delete else Phase_Hot) (word_of raw)"

section \<open>Numbers as text\<close>

text \<open>\<open>toLocaleString('en-US')\<close> of a positive number: groups of three digits, at most three decimals.\<close>

function grouped :: "nat \<Rightarrow> string" where
  "grouped n =
     (if n < 1000 then nat_to_string n else grouped (n div 1000) @ '','' @ pad_left 3 (nat_to_string (n mod 1000)))"
  by pat_completeness auto
termination by (relation "measure id") auto

declare grouped.simps [simp del]

definition drop_last_zeros :: "string \<Rightarrow> string" where
  "drop_last_zeros s = rev (dropWhile (\<lambda>c. c = CHR ''0'') (rev s))"

definition to_locale_en :: "rat \<Rightarrow> string" where
  "to_locale_en q =
     (let n = nat (js_round (q * 1000)); decimals = drop_last_zeros (pad_left 3 (nat_to_string (n mod 1000)))
      in grouped (n div 1000) @ (if decimals = [] then [] else ''.'' @ decimals))"

definition formatCount :: "jsnum \<Rightarrow> string" where
  "formatCount value =
     (case value of
        Fin q \<Rightarrow>
          (if q \<le> 0 then ''0''
           else if 1000000000 \<le> q then toFixed (if 10000000000 \<le> q then 0 else 1) (q / 1000000000) @ '' B''
           else if 1000000 \<le> q then toFixed (if 10000000 \<le> q then 0 else 1) (q / 1000000) @ '' M''
           else if 1000 \<le> q then to_locale_en q
           else num_to_string (Fin q))
      | _ \<Rightarrow> ''0'')"

definition byte_units :: "string list" where
  "byte_units = [''B'', ''KB'', ''MB'', ''GB'', ''TB'', ''PB'']"

text \<open>The loop: divide by 1024 while the value is that large and there is a larger unit.\<close>

function scale_bytes :: "rat \<Rightarrow> nat \<Rightarrow> rat \<times> nat" where
  "scale_bytes v unitIndex =
     (if 1024 \<le> v \<and> unitIndex < length byte_units - 1 then scale_bytes (v / 1024) (unitIndex + 1) else (v, unitIndex))"
  by pat_completeness auto
termination by (relation "measure (\<lambda>(_, unitIndex). length byte_units - unitIndex)") auto

declare scale_bytes.simps [simp del]

definition formatBytes :: "jsnum \<Rightarrow> string" where
  "formatBytes bytes =
     (case bytes of
        Fin q \<Rightarrow>
          (if q \<le> 0 then ''0 B''
           else (case scale_bytes q 0 of
                   (v, unitIndex) \<Rightarrow>
                     toFixed (if 100 \<le> v \<or> unitIndex = 0 then 0 else if 10 \<le> v then 1 else 2) v
                     @ '' '' @ byte_units ! unitIndex))
      | _ \<Rightarrow> ''0 B'')"

definition formatStorageCount :: "jsnum \<Rightarrow> string" where
  "formatStorageCount = formatCount"

definition formatStorageBytes :: "jsnum \<Rightarrow> string" where
  "formatStorageBytes = formatBytes"

section \<open>Indices\<close>

record index_info =
  ix_name :: "json option"
  ix_health :: index_health
  ix_status :: index_status
  ix_shards :: string
  ix_docs :: string
  ix_bytes :: string
  ix_primaryShards :: jsnum
  ix_replicaShards :: jsnum
  ix_docsCount :: jsnum
  ix_storeSizeBytes :: jsnum

definition mapBackendIndexToFrontend :: "json \<Rightarrow> index_info option" where
  "mapBackendIndexToFrontend item =
     (let field = json_field (Some item); count = (\<lambda>k. number_or (field k) (Fin 0));
          primaryShards = count ''primary_shards''; replicaShards = count ''replica_shards'';
          docsCount = count ''docs_count''; storeSizeBytes = count ''store_size_bytes''
      in case (normalizeIndexHealth (field ''health''), normalizeIndexStatus (field ''status'')) of
           (Some health, Some status) \<Rightarrow>
             Some \<lparr>ix_name = field ''name'', ix_health = health, ix_status = status,
                   ix_shards = num_to_string primaryShards @ '' / '' @ num_to_string replicaShards,
                   ix_docs = formatCount docsCount, ix_bytes = formatBytes storeSizeBytes,
                   ix_primaryShards = primaryShards, ix_replicaShards = replicaShards, ix_docsCount = docsCount,
                   ix_storeSizeBytes = storeSizeBytes\<rparr>
         | _ \<Rightarrow> None)"

text \<open>\<open>a + b\<close>, and the sum of a field over a list.\<close>

definition js_plus :: "jsnum \<Rightarrow> jsnum \<Rightarrow> jsnum" where
  "js_plus a b =
     (case (a, b) of
        (NaN, _) \<Rightarrow> NaN
      | (_, NaN) \<Rightarrow> NaN
      | (Fin x, Fin y) \<Rightarrow> Fin (x + y)
      | (Fin _, y) \<Rightarrow> y
      | (x, Fin _) \<Rightarrow> x
      | (x, y) \<Rightarrow> if x = y then x else NaN)"

definition sum_of :: "('a \<Rightarrow> jsnum) \<Rightarrow> 'a list \<Rightarrow> jsnum" where
  "sum_of f xs = fold (\<lambda>x s. js_plus s (f x)) xs (Fin 0)"

definition count_of :: "('a \<Rightarrow> bool) \<Rightarrow> 'a list \<Rightarrow> jsnum" where
  "count_of P xs = Fin (of_nat (length (filter P xs)))"

text \<open>\<open>v ? Date.parse(v) : d\<close>.\<close>

definition parsed_or :: "clock \<Rightarrow> json option \<Rightarrow> jsnum option \<Rightarrow> jsnum option" where
  "parsed_or c v d =
     (if truthy v
      then Some (case date_of c (js_String (nullish v JNull)) of None \<Rightarrow> NaN | Some t \<Rightarrow> Fin (of_int t))
      else d)"

record index_summary =
  is_total :: jsnum
  is_green :: jsnum
  is_yellow :: jsnum
  is_red :: jsnum
  is_docsCount :: jsnum
  is_storeSizeBytes :: jsnum
  is_refreshedAt :: "jsnum option"

definition index_summary_of :: "clock \<Rightarrow> json option \<Rightarrow> index_info list \<Rightarrow> index_summary" where
  "index_summary_of c data items =
     (let sent = (\<lambda>k d. number_or (json_field (json_field data ''summary'') k) d);
          healthy = (\<lambda>h. count_of (\<lambda>i. ix_health i = h) items)
      in \<lparr>is_total = sent ''total'' (Fin (of_nat (length items))), is_green = sent ''green'' (healthy Health_Green),
          is_yellow = sent ''yellow'' (healthy Health_Yellow), is_red = sent ''red'' (healthy Health_Red),
          is_docsCount = sent ''docs_count'' (sum_of ix_docsCount items),
          is_storeSizeBytes = sent ''store_size_bytes'' (sum_of ix_storeSizeBytes items),
          is_refreshedAt = parsed_or c (json_field data ''refreshed_at'') (Some (Fin (of_int (now_ms c))))\<rparr>)"

definition fetchStorageIndices :: "'s query_env \<Rightarrow> ('s, index_info list \<times> index_summary) op" where
  "fetchStorageIndices env =
     and_then (requestStorageApi env ''/indices'' ''GET'' [] None) (\<lambda>envelope.
       let data = json_field (Some envelope) ''data''
       in give_read (map_option (\<lambda>items. (items, index_summary_of (qe_clock env) data items))
            (map_items_raising mapBackendIndexToFrontend (json_field data ''items''))))"

section \<open>Lifecycle policies\<close>

record phase_transition =
  pt_from :: lifecycle_phase
  pt_to :: lifecycle_phase
  pt_condition :: string

definition trimmed_text :: "json option \<Rightarrow> string" where
  "trimmed_text v = trim (string_or_empty v)"

definition mapBackendPhaseTransition :: "json \<Rightarrow> phase_transition option" where
  "mapBackendPhaseTransition item =
     (let field = json_field (Some item)
      in case (normalizeLifecyclePhase (field ''from''), normalizeLifecyclePhase (field ''to'')) of
           (Some a, Some b) \<Rightarrow>
             Some \<lparr>pt_from = a, pt_to = b, pt_condition = or_str (trimmed_text (field ''condition'')) zh_by_policy\<rparr>
         | _ \<Rightarrow> None)"

definition mapBackendPhaseCount :: "json \<Rightarrow> (lifecycle_phase \<times> jsnum) option" where
  "mapBackendPhaseCount item =
     map_option (\<lambda>p. (p, number_or (json_field (Some item) ''count'') (Fin 0)))
       (normalizeLifecyclePhase (json_field (Some item) ''phase''))"

text \<open>\<open>(v ?? []).map(normalizeLifecyclePhase)\<close>, where \<open>null\<close> items are read as empty.\<close>

definition phases_of :: "json option \<Rightarrow> lifecycle_phase list option" where
  "phases_of v =
     (case nullish_json v None of
        None \<Rightarrow> Some []
      | Some (JArr xs) \<Rightarrow> all_Some (map (\<lambda>x. normalizeLifecyclePhase (Some x)) xs)
      | Some _ \<Rightarrow> None)"

record policy_item =
  po_name :: string
  po_status :: policy_status
  po_managedIndexCount :: jsnum
  po_dataStreamCount :: jsnum
  po_templateCount :: jsnum
  po_updatedAt :: "jsnum option"
  po_description :: "string option"
  po_phaseSequence :: "lifecycle_phase list"
  po_phases :: "phase_transition list"
  po_executionStatus :: execution_status
  po_executionMessage :: "string option"
  po_errorCount :: jsnum
  po_managed :: bool
  po_deprecated :: bool
  po_currentPhaseCounts :: "(lifecycle_phase \<times> jsnum) list"

definition not_empty :: "string \<Rightarrow> string option" where
  "not_empty s = (if s = [] then None else Some s)"

definition mapBackendLifecyclePolicyToFrontend :: "clock \<Rightarrow> json \<Rightarrow> policy_item option" where
  "mapBackendLifecyclePolicyToFrontend c item =
     (let field = json_field (Some item); count = (\<lambda>k. number_or (field k) (Fin 0))
      in case (normalizePolicyStatus (field ''status''), phases_of (field ''phase_sequence''),
               map_items_raising mapBackendPhaseTransition (field ''phases''),
               normalizeExecutionStatus (field ''execution_status''),
               map_items_raising mapBackendPhaseCount (field ''current_phase_counts'')) of
           (Some status, Some phaseSequence, Some phases, Some executionStatus, Some counts) \<Rightarrow>
             Some \<lparr>po_name = trimmed_text (field ''name''), po_status = status,
                   po_managedIndexCount = count ''managed_index_count'', po_dataStreamCount = count ''data_stream_count'',
                   po_templateCount = count ''template_count'', po_updatedAt = parsed_or c (field ''updated_at'') None,
                   po_description = not_empty (trimmed_text (field ''description'')), po_phaseSequence = phaseSequence,
                   po_phases = phases, po_executionStatus = executionStatus,
                   po_executionMessage = not_empty (trimmed_text (field ''execution_message'')),
                   po_errorCount = count ''error_count'', po_managed = truthy (field ''managed''),
                   po_deprecated = truthy (field ''deprecated''), po_currentPhaseCounts = counts\<rparr>
         | _ \<Rightarrow> None)"

record policy_summary =
  pp_total :: jsnum
  pp_active :: jsnum
  pp_error :: jsnum
  pp_unused :: jsnum
  pp_managedIndices :: jsnum
  pp_operationMode :: string
  pp_refreshedAt :: "jsnum option"

definition policy_summary_of :: "clock \<Rightarrow> json option \<Rightarrow> policy_item list \<Rightarrow> policy_summary" where
  "policy_summary_of c data items =
     (let field = json_field (json_field data ''summary''); sent = (\<lambda>k d. number_or (field k) d);
          in_state = (\<lambda>s. count_of (\<lambda>i. po_status i = s) items)
      in \<lparr>pp_total = sent ''total'' (Fin (of_nat (length items))), pp_active = sent ''active'' (in_state Policy_Active),
          pp_error = sent ''error'' (in_state Policy_Error), pp_unused = sent ''unused'' (in_state Policy_Unused),
          pp_managedIndices = sent ''managed_indices'' (sum_of po_managedIndexCount items),
          pp_operationMode = or_str (trim (string_or (field ''operation_mode'') ''UNKNOWN'')) ''UNKNOWN'',
          pp_refreshedAt = parsed_or c (json_field data ''refreshed_at'') (Some (Fin (of_int (now_ms c))))\<rparr>)"

definition fetchLifecyclePolicies :: "'s query_env \<Rightarrow> ('s, policy_item list \<times> policy_summary) op" where
  "fetchLifecyclePolicies env =
     and_then (requestStorageApi env ''/lifecycle-policies'' ''GET'' [] None) (\<lambda>envelope.
       let data = json_field (Some envelope) ''data''
       in give_read (map_option (\<lambda>items. (items, policy_summary_of (qe_clock env) data items))
            (map_items_raising (mapBackendLifecyclePolicyToFrontend (qe_clock env)) (json_field data ''items''))))"

section \<open>Properties\<close>

lemma scale_bytes_run:
  "i \<le> 5 \<Longrightarrow> scale_bytes v i = (v', i') \<Longrightarrow>
     i \<le> i' \<and> i' \<le> 5 \<and> v = v' * 1024 ^ (i' - i) \<and> (v' < 1024 \<or> i' = 5) \<and> (i < i' \<longrightarrow> 1 \<le> v')"
proof (induction v i rule: scale_bytes.induct)
  case (1 v i)
  show ?case
  proof (cases "1024 \<le> v \<and> i < length byte_units - 1")
    case True
    then have i: "i + 1 \<le> 5" and s: "scale_bytes (v / 1024) (i + 1) = (v', i')"
      using "1.prems"(2) by (simp_all add: byte_units_def scale_bytes.simps [of v i])
    note IH = "1.IH" [OF True i s]
    then have "i' - i = Suc (i' - (i + 1))" by arith
    moreover have "1 \<le> v'"
    proof (cases "i + 1 < i'")
      case False
      then have "v' = v / 1024" using IH by simp
      then show ?thesis using True by simp
    qed (use IH in simp)
    ultimately show ?thesis using IH by (simp add: field_simps)
  next
    case False
    then have "scale_bytes v i = (v, i)" by (subst scale_bytes.simps) (rule if_not_P)
    then show ?thesis using "1.prems" False by (auto simp: byte_units_def)
  qed
qed

text \<open>A size is shown in the unit that fits: for a positive number of bytes the loop ends within the list of
  units, its value times the unit is exactly the number of bytes, it is below 1024 unless the unit is the largest,
  and it is at least 1 in every unit above the byte.\<close>

theorem bytes_in_fitting_unit:
  fixes q :: rat
  assumes "0 < q"
  shows "let (v, i) = scale_bytes q 0
    in formatStorageBytes (Fin q)
         = toFixed (if 100 \<le> v \<or> i = 0 then 0 else if 10 \<le> v then 1 else 2) v @ '' '' @ byte_units ! i
      \<and> i < length byte_units \<and> q = v * 1024 ^ i \<and> (v < 1024 \<or> i = length byte_units - 1) \<and> (i = 0 \<or> 1 \<le> v)"
proof -
  obtain v i where s: "scale_bytes q 0 = (v, i)" by (cases "scale_bytes q 0")
  show ?thesis
    using scale_bytes_run [of 0 q v i] s assms
    by (auto simp: formatStorageBytes_def formatBytes_def byte_units_def)
qed

theorem bytes_in_fitting_unit_witness:
  "formatStorageBytes (Fin 1536) = ''1.50 KB'' \<and> scale_bytes 1536 0 = (3 / 2, 1)"
proof -
  have s: "scale_bytes 1536 0 = (3 / 2, 1)" by (simp add: scale_bytes.simps byte_units_def)
  have "toFixed 2 (3 / 2) = ''1.50''" by code_simp
  then show ?thesis using bytes_in_fitting_unit [of 1536] s by (simp add: byte_units_def)
qed

end
