(* ===== verification/Export_Api.thy ===== *)
theory Export_Api
  imports Service_Request Log_Fields
begin

text \<open>
  The clients of the export and backup services (\<open>api/export.ts\<close>), of the metrics service and its resource
  thresholds (\<open>api/metrics.ts\<close>) and of the console's own backend (\<open>api/bff.ts\<close>). Payloads and items are JSON
  values; an error the program makes without a code has the empty one here.
\<close>

section \<open>Export jobs\<close>

record export_job =
  ej_id :: json
  ej_format :: json
  ej_status :: json
  ej_total_records :: "json option"
  ej_file_path :: "json option"
  ej_file_size_bytes :: "json option"
  ej_error_message :: "json option"
  ej_created_at :: json
  ej_completed_at :: "json option"
  ej_expires_at :: "json option"

text \<open>Three spellings of every field are read, the first present one counts.\<close>

definition normalizeExportJob :: "json \<Rightarrow> export_job" where
  "normalizeExportJob raw =
     (let field = (\<lambda>ks. first_present (map (json_field (Some raw)) ks));
          or = (\<lambda>ks d. nullish (nullish_json (field ks) None) d)
      in \<lparr>ej_id = or [''id'', ''ID''] (JStr []), ej_format = or [''format'', ''Format''] (JStr ''csv''),
          ej_status = or [''status'', ''Status''] (JStr ''pending''),
          ej_total_records = field [''total_records'', ''TotalRecords'', ''totalRecords''],
          ej_file_path = field [''file_path'', ''FilePath'', ''filePath''],
          ej_file_size_bytes = field [''file_size_bytes'', ''FileSizeBytes'', ''fileSizeBytes''],
          ej_error_message = field [''error_message'', ''ErrorMessage'', ''errorMessage''],
          ej_created_at = or [''created_at'', ''CreatedAt'', ''createdAt''] (JStr []),
          ej_completed_at = field [''completed_at'', ''CompletedAt'', ''completedAt''],
          ej_expires_at = field [''expires_at'', ''ExpiresAt'', ''expiresAt'']\<rparr>)"

definition createExportJob :: "'s query_env \<Rightarrow> json \<Rightarrow> ('s, json \<times> json) op" where
  "createExportJob env params =
     and_then (requestExportApi env ''/jobs'' ''POST'' [] (Some params)) (\<lambda>envelope.
       and_then (give_truthy (data_field envelope ''job_id'') zh_job_created_no_id) (\<lambda>job_id.
         give (job_id, field_or (json_field (Some envelope) ''data'') ''status'' (JStr ''pending''))))"

record job_page =
  jp_items :: "export_job list"
  jp_total :: jsnum
  jp_page :: jsnum
  jp_pageSize :: jsnum

definition fetchExportJobs :: "'s query_env \<Rightarrow> int \<Rightarrow> int \<Rightarrow> ('s, job_page) op" where
  "fetchExportJobs env page pageSize =
     and_then
       (requestExportApi env ''/jobs'' ''GET'' [(''page'', int_param page), (''page_size'', int_param pageSize)] None)
       (\<lambda>envelope. give_read (map_option (\<lambda>items.
          \<lparr>jp_items = items, jp_total = meta_total envelope (length items),
           jp_page = number_or (meta_field envelope ''page'') (Fin (of_int page)),
           jp_pageSize = number_or (meta_field envelope ''page_size'') (Fin (of_int pageSize))\<rparr>)
          (map_items (\<lambda>raw _. normalizeExportJob raw) (data_field envelope ''items''))))"

text \<open>The job, or the data themselves; \<open>in\<close> raises on a primitive value.\<close>

definition raw_job :: "json option \<Rightarrow> json option option" where
  "raw_job data =
     (case nullish_json data None of
        None \<Rightarrow> Some None
      | Some (JObj ms) \<Rightarrow> Some (if ''job'' \<in> set (jm_keys ms) then jm_get ms ''job'' else Some (JObj ms))
      | Some (JArr xs) \<Rightarrow> Some (Some (JArr xs))
      | Some _ \<Rightarrow> None)"

definition fetchExportJob :: "'s query_env \<Rightarrow> string \<Rightarrow> ('s, export_job) op" where
  "fetchExportJob env i =
     and_then (requestExportApi env (''/jobs/'' @ encodeURIComponent i) ''GET'' [] None) (\<lambda>envelope.
       and_then (give_read (raw_job (json_field (Some envelope) ''data''))) (\<lambda>raw.
         and_then (give_truthy raw zh_no_job) (\<lambda>job. give (normalizeExportJob job))))"

text \<open>The address is used as it is, and there is no content type.\<close>

definition download_request :: "'s query_env \<Rightarrow> browser \<Rightarrow> string \<Rightarrow> api_request option" where
  "download_request env b i =
     (case base_url (api_at env b) of
        None \<Rightarrow> None
      | Some base \<Rightarrow>
          map_option (\<lambda>tenantId.
             let accessToken = resolveAccessToken b
             in \<lparr>rq_url = base @ ''/export/jobs/'' @ encodeURIComponent i @ ''/download'', rq_method = ''GET'',
                 rq_headers = (if tenantId \<noteq> [] then [(''X-Tenant-ID'', tenantId)] else [])
                   @ (if accessToken \<noteq> [] then [(''Authorization'', ''Bearer '' @ accessToken)] else []),
                 rq_body = None\<rparr>)
           (resolveTenantId (api_at env b)))"

definition download_answer :: "query_answer \<Rightarrow> api_error + json option" where
  "download_answer a =
     (case a of
        Unreachable \<Rightarrow> Inl BrowserError
      | Answer status body \<Rightarrow>
          if response_ok status then Inr body
          else (let m = json_field body ''message''
                in Inl (CallError (if truthy m then js_String (nullish m JNull)
                                   else zh_download_failed @ nat_to_string status))))"

definition downloadExportFile :: "'s query_env \<Rightarrow> string \<Rightarrow> ('s, json option) op" where
  "downloadExportFile env i w =
     (case download_request env (wd_browser w) i of
        None \<Rightarrow> (Inl BrowserError, w)
      | Some rq \<Rightarrow>
          (case qe_server env (wd_net w) rq of (a, s) \<Rightarrow> (download_answer a, w\<lparr>wd_net := s\<rparr>)))"

section \<open>Backups\<close>

definition fetchBackupRepositories :: "'s query_env \<Rightarrow> ('s, json list) op" where
  "fetchBackupRepositories env =
     and_then (requestBackupApi env ''/repositories'' ''GET'' [] None)
       (\<lambda>envelope. give (array_items (data_field envelope ''repositories'')))"

definition createBackupRepository :: "'s query_env \<Rightarrow> json \<Rightarrow> ('s, json) op" where
  "createBackupRepository env data =
     and_then (requestBackupApi env ''/repositories'' ''POST'' [] (Some data))
       (\<lambda>envelope. give_truthy (data_field envelope ''name'') zh_repository_no_name)"

definition fetchBackupSnapshots :: "'s query_env \<Rightarrow> string \<Rightarrow> ('s, json list) op" where
  "fetchBackupSnapshots env repo =
     and_then (requestBackupApi env ''/snapshots'' ''GET'' [(''repository'', Some repo)] None)
       (\<lambda>envelope. give (array_items (data_field envelope ''snapshots'')))"

definition createBackupSnapshot :: "'s query_env \<Rightarrow> json \<Rightarrow> ('s, json option \<times> json option) op" where
  "createBackupSnapshot env data =
     and_then (requestBackupApi env ''/snapshots'' ''POST'' [] (Some data)) (\<lambda>envelope.
       give (nullish_json (data_field envelope ''repository'') (json_field (Some data) ''repository''),
             nullish_json (data_field envelope ''snapshot'') (json_field (Some data) ''name'')))"

definition getSnapshotStatus :: "'s query_env \<Rightarrow> string \<Rightarrow> string option \<Rightarrow> ('s, json) op" where
  "getSnapshotStatus env snapshot repo =
     and_then (requestBackupApi env (''/snapshots/'' @ encodeURIComponent snapshot) ''GET'' [(''repository'', repo)] None)
       (\<lambda>envelope. give_truthy (json_field (Some envelope) ''data'') zh_no_snapshot)"

definition restoreSnapshot :: "'s query_env \<Rightarrow> string \<Rightarrow> json \<Rightarrow> ('s, unit) op" where
  "restoreSnapshot env snapshot data =
     and_then (requestBackupApi env (''/snapshots/'' @ encodeURIComponent snapshot @ ''/restore'') ''POST'' [] (Some data))
       (\<lambda>_. give ())"

definition cancelSnapshot :: "'s query_env \<Rightarrow> string \<Rightarrow> string \<Rightarrow> ('s, unit) op" where
  "cancelSnapshot env snapshot repo =
     and_then (requestBackupApi env (''/snapshots/'' @ encodeURIComponent snapshot @ ''/cancel'') ''POST''
         [(''repository'', Some repo)] None) (\<lambda>_. give ())"

definition deleteSnapshot :: "'s query_env \<Rightarrow> string \<Rightarrow> string \<Rightarrow> ('s, unit) op" where
  "deleteSnapshot env snapshot repo =
     and_then (requestBackupApi env (''/snapshots/'' @ encodeURIComponent snapshot) ''DELETE'' [(''repository'', Some repo)] None)
       (\<lambda>_. give ())"

section \<open>Answers without an envelope\<close>

text \<open>The metrics service and the backend answer with the data themselves, \<open>null\<close> being \<open>None\<close>.\<close>

definition plain_service :: "string \<Rightarrow> string \<Rightarrow> service" where
  "plain_service p what = \<lparr>sv_path = p, sv_name = what, sv_code = [], sv_user = False\<rparr>"

definition decode_plain_answer :: "string \<Rightarrow> query_answer \<Rightarrow> api_error + json option" where
  "decode_plain_answer what a =
     (case a of
        Unreachable \<Rightarrow> Inl BrowserError
      | Answer status body \<Rightarrow>
          if response_ok status then Inr (envelope_of body)
          else (let m = json_field body ''message''
                in Inl (ApiError (if truthy m then js_String (nullish m JNull)
                                  else what @ '' request failed: HTTP '' @ nat_to_string status) status [])))"

definition requestPlainApi ::
    "string \<Rightarrow> string \<Rightarrow> 's query_env \<Rightarrow> string \<Rightarrow> string \<Rightarrow> (string \<times> string option) list \<Rightarrow> json option
     \<Rightarrow> ('s, json option) op" where
  "requestPlainApi base what env p method query body w =
     (case service_api_request env (wd_browser w) (plain_service base what) p method query body of
        None \<Rightarrow> (Inl BrowserError, w)
      | Some rq \<Rightarrow>
          (case qe_server env (wd_net w) rq of
             (a, s) \<Rightarrow> (decode_plain_answer what a, w\<lparr>wd_net := s\<rparr>)))"

definition requestMetricsApi ::
    "'s query_env \<Rightarrow> string \<Rightarrow> string \<Rightarrow> (string \<times> string option) list \<Rightarrow> json option \<Rightarrow> ('s, json option) op" where
  "requestMetricsApi = requestPlainApi ''/metrics'' ''metrics api''"

definition requestBffApi ::
    "'s query_env \<Rightarrow> string \<Rightarrow> string \<Rightarrow> (string \<times> string option) list \<Rightarrow> json option \<Rightarrow> ('s, json option) op" where
  "requestBffApi = requestPlainApi ''/bff'' ''bff api''"

definition fetchBffOverview :: "'s query_env \<Rightarrow> bool \<Rightarrow> ('s, json option) op" where
  "fetchBffOverview env refresh =
     requestBffApi env ''/overview'' ''GET'' [(''refresh'', if refresh then Some ''1'' else None)] None"

definition fetchServerMetrics :: "'s query_env \<Rightarrow> string \<Rightarrow> string option \<Rightarrow> string option \<Rightarrow> ('s, json option) op" where
  "fetchServerMetrics env agentId rng metricName =
     requestMetricsApi env (''/servers/'' @ encodeURIComponent agentId) ''GET''
       [(''range'', rng), (''metric_name'', metricName)] None"

definition fetchMetricsOverview :: "'s query_env \<Rightarrow> string \<Rightarrow> int \<Rightarrow> ('s, json option) op" where
  "fetchMetricsOverview env rng limit =
     requestMetricsApi env ''/overview'' ''GET'' [(''range'', Some rng), (''limit'', int_param limit)] None"

definition reportMetrics :: "'s query_env \<Rightarrow> json \<Rightarrow> ('s, unit) op" where
  "reportMetrics env data = and_then (requestMetricsApi env ''/report'' ''POST'' [] (Some data)) (\<lambda>_. give ())"

section \<open>Resource thresholds\<close>

definition fetchResourceThresholds ::
    "'s query_env \<Rightarrow> string option \<Rightarrow> int option \<Rightarrow> int option \<Rightarrow> ('s, json list \<times> jsnum) op" where
  "fetchResourceThresholds env agent_id page page_size =
     and_then
       (requestResourceApi env ''/thresholds'' ''GET''
         [(''agent_id'', Some (nullish agent_id [])), (''page'', int_param (nullish page 1)),
          (''page_size'', int_param (nullish page_size 200))] None)
       (\<lambda>envelope. give_read (map_option (\<lambda>items. (items, meta_total envelope (length items))) (items_of envelope)))"

text \<open>The threshold with the id among the first 200, or the error that it cannot be shown.\<close>

definition shown_threshold :: "'s query_env \<Rightarrow> json \<Rightarrow> string \<Rightarrow> ('s, json) op" where
  "shown_threshold env i missing =
     and_then (fetchResourceThresholds env None None (Some 200)) (\<lambda>(items, _).
       case find (\<lambda>t. json_field (Some t) ''id'' = Some i) items of
         None \<Rightarrow> raise (CallError missing) | Some t \<Rightarrow> give t)"

definition create_threshold_body :: "json \<Rightarrow> json" where
  "create_threshold_body data =
     (let field = json_field (Some data); or = (\<lambda>k d. (k, Some (field_or (Some data) k d)))
      in literal
           [or ''agent_id'' JNull, (''metric_name'', field ''metric_name''), (''threshold_value'', field ''threshold_value''),
            (''comparison'', field ''comparison''), or ''alert_severity'' (JStr ''warning''), or ''enabled'' (JBool True),
            or ''notification_channels'' (JArr [])])"

definition createResourceThreshold :: "'s query_env \<Rightarrow> json \<Rightarrow> ('s, json) op" where
  "createResourceThreshold env data =
     and_then (requestResourceApi env ''/thresholds'' ''POST'' [] (Some (create_threshold_body data))) (\<lambda>envelope.
       and_then (give_truthy (data_field envelope ''id'') zh_threshold_no_id) (\<lambda>i.
         shown_threshold env i zh_threshold_created_no_detail))"

definition update_threshold_body :: "json \<Rightarrow> json" where
  "update_threshold_body data =
     literal (map (\<lambda>k. (k, json_field (Some data) k))
       [''agent_id'', ''metric_name'', ''threshold_value'', ''comparison'', ''alert_severity'', ''enabled'',
        ''notification_channels''])"

definition updateResourceThreshold :: "'s query_env \<Rightarrow> string \<Rightarrow> json \<Rightarrow> ('s, json) op" where
  "updateResourceThreshold env i data =
     and_then (requestResourceApi env (''/thresholds/'' @ encodeURIComponent i) ''PUT'' [] (Some (update_threshold_body data)))
       (\<lambda>_. shown_threshold env (JStr i) zh_threshold_updated_no_detail)"

definition deleteResourceThreshold :: "'s query_env \<Rightarrow> string \<Rightarrow> ('s, unit) op" where
  "deleteResourceThreshold env i =
     and_then (requestResourceApi env (''/thresholds/'' @ encodeURIComponent i) ''DELETE'' [] None) (\<lambda>_. give ())"

section \<open>Properties\<close>

definition snake_keys :: "string list" where
  "snake_keys = [''id'', ''format'', ''status'', ''total_records'', ''file_path'', ''file_size_bytes'', ''error_message'',
     ''created_at'', ''completed_at'', ''expires_at'']"

definition pascal_keys :: "string list" where
  "pascal_keys = [''ID'', ''Format'', ''Status'', ''TotalRecords'', ''FilePath'', ''FileSizeBytes'', ''ErrorMessage'',
     ''CreatedAt'', ''CompletedAt'', ''ExpiresAt'']"

definition camel_keys :: "string list" where
  "camel_keys = [''id'', ''format'', ''status'', ''totalRecords'', ''filePath'', ''fileSizeBytes'', ''errorMessage'',
     ''createdAt'', ''completedAt'', ''expiresAt'']"

text \<open>Every name that is read, and what is found under them.\<close>

definition job_names :: "string list" where
  "job_names = [''id'', ''ID'', ''format'', ''Format'', ''status'', ''Status'', ''total_records'', ''TotalRecords'', ''totalRecords'',
     ''file_path'', ''FilePath'', ''filePath'', ''file_size_bytes'', ''FileSizeBytes'', ''fileSizeBytes'', ''error_message'',
     ''ErrorMessage'', ''errorMessage'', ''created_at'', ''CreatedAt'', ''createdAt'', ''completed_at'', ''CompletedAt'',
     ''completedAt'', ''expires_at'', ''ExpiresAt'', ''expiresAt'']"

definition found :: "(string, json) jsmap \<Rightarrow> json option list" where
  "found ms = map (jm_get ms) job_names"

definition job_of_found :: "json option list \<Rightarrow> export_job" where
  "job_of_found vs =
     (let field = (\<lambda>is. first_present (map (nth vs) is)); or = (\<lambda>is d. nullish (nullish_json (field is) None) d)
      in \<lparr>ej_id = or [0, 1] (JStr []), ej_format = or [2, 3] (JStr ''csv''), ej_status = or [4, 5] (JStr ''pending''),
          ej_total_records = field [6, 7, 8], ej_file_path = field [9, 10, 11], ej_file_size_bytes = field [12, 13, 14],
          ej_error_message = field [15, 16, 17], ej_created_at = or [18, 19, 20] (JStr []),
          ej_completed_at = field [21, 22, 23], ej_expires_at = field [24, 25, 26]\<rparr>)"

lemma job_found: "normalizeExportJob (JObj ms) = job_of_found (found ms)"
  by (simp add: normalizeExportJob_def job_of_found_def found_def job_names_def json_field_def Let_def)

lemma found_spellings:
  "found (zip snake_keys [a, b, c, d, e, f, g, h, i, j]) =
     [Some a, None, Some b, None, Some c, None, Some d, None, None, Some e, None, None, Some f, None, None, Some g, None,
      None, Some h, None, None, Some i, None, None, Some j, None, None]"
  "found (zip pascal_keys [a, b, c, d, e, f, g, h, i, j]) =
     [None, Some a, None, Some b, None, Some c, None, Some d, None, None, Some e, None, None, Some f, None, None, Some g,
      None, None, Some h, None, None, Some i, None, None, Some j, None]"
  "found (rev (zip pascal_keys [a, b, c, d, e, f, g, h, i, j])) =
     [None, Some a, None, Some b, None, Some c, None, Some d, None, None, Some e, None, None, Some f, None, None, Some g,
      None, None, Some h, None, None, Some i, None, None, Some j, None]"
  "found (zip camel_keys [a, b, c, d, e, f, g, h, i, j]) =
     [Some a, None, Some b, None, Some c, None, None, None, Some d, None, None, Some e, None, None, Some f, None, None,
      Some g, None, None, Some h, None, None, Some i, None, None, Some j]"
  by code_simp+

text \<open>How the export service spells its fields does not matter: a job whose fields are written with underscores,
  in Pascal case or in camel case, whatever the order of the fields, is read as the same job.\<close>

theorem job_spelling_irrelevant:
  assumes "length vs = 10" and "JNull \<notin> set vs"
  shows "normalizeExportJob (JObj (zip pascal_keys vs)) = normalizeExportJob (JObj (zip snake_keys vs))
    \<and> normalizeExportJob (JObj (zip camel_keys vs)) = normalizeExportJob (JObj (zip snake_keys vs))
    \<and> normalizeExportJob (JObj (rev (zip pascal_keys vs))) = normalizeExportJob (JObj (zip snake_keys vs))"
proof -
  obtain a b c d e f g h i j where vs: "vs = [a, b, c, d, e, f, g, h, i, j]"
    using assms(1) by (auto simp: numeral_eq_Suc length_Suc_conv)
  then have "a \<noteq> JNull" "b \<noteq> JNull" "c \<noteq> JNull" "d \<noteq> JNull" "e \<noteq> JNull" "f \<noteq> JNull" "g \<noteq> JNull" "h \<noteq> JNull"
    "i \<noteq> JNull" "j \<noteq> JNull" using assms(2) by auto
  then show ?thesis
    unfolding vs job_found found_spellings by (simp add: job_of_found_def first_present_def nullish_json_def Let_def)
qed

theorem job_spelling_irrelevant_witness:
  "ej_id (normalizeExportJob (JObj (zip pascal_keys (JStr ''j1'' # replicate 9 (JNum 1))))) = JStr ''j1''"
proof -
  have "ej_id (normalizeExportJob (JObj (zip snake_keys (JStr ''j1'' # replicate 9 (JNum 1))))) = JStr ''j1''" by code_simp
  then show ?thesis using job_spelling_irrelevant [of "JStr ''j1'' # replicate 9 (JNum 1)"] by simp
qed

end
