(* ===== verification/Notification_Api.thy ===== *)
theory Notification_Api
  imports Service_Request
begin

text \<open>
  The client of the notification channels (\<open>api/notification.ts\<close>): the channels of all pages, the cache of the
  lists fetched, and the changes that empty it. Fields the console passes on without looking at them are JSON.

  Calls are modelled one after the other; so no request of an earlier call is under way when a call starts, and
  the map of requests under way, which only matters for calls that overlap, is empty.
\<close>

section \<open>Channels\<close>

record channel =
  ch_id :: "json option"
  ch_name :: "json option"
  ch_type :: "json option"
  ch_config :: json
  ch_enabled :: "json option"
  ch_createdAt :: jsnum
  ch_updatedAt :: jsnum

definition mapBackendChannelToFrontend :: "clock \<Rightarrow> json \<Rightarrow> channel" where
  "mapBackendChannelToFrontend c item =
     (let field = json_field (Some item);
          config = (case field ''config'' of
              Some (JObj ms) \<Rightarrow> JObj ms
            | Some (JArr xs) \<Rightarrow> JArr xs
            | Some JNull \<Rightarrow> JNull
            | Some (JStr s) \<Rightarrow> nullish (parse s) (JObj [])
            | _ \<Rightarrow> JObj [])
      in \<lparr>ch_id = field ''id'', ch_name = field ''name'', ch_type = field ''type'', ch_config = config,
          ch_enabled = field ''enabled'', ch_createdAt = date_or c (field ''created_at'') (now_ms c),
          ch_updatedAt = date_or c (field ''updated_at'') (now_ms c)\<rparr>)"

section \<open>The cache\<close>

definition NOTIFICATION_CHANNEL_CACHE_LIMIT :: nat where
  "NOTIFICATION_CHANNEL_CACHE_LIMIT = 24"

record 's notification_state =
  nt_world :: "'s world"
  nt_cache :: "(string, channel list) jsmap"

definition buildNotificationChannelCacheKey :: "int \<Rightarrow> int \<Rightarrow> string" where
  "buildNotificationChannelCacheKey page pageSize =
     stringify (JObj [(''page'', JNum (of_int page)), (''page_size'', JNum (of_int pageSize))])"

definition clone_channel :: "channel \<Rightarrow> channel" where
  "clone_channel item = item\<lparr>ch_config := JObj (own_entries (nullish_json (Some (ch_config item)) (Some (JObj []))))\<rparr>"

definition cloneNotificationChannels :: "channel list \<Rightarrow> channel list" where
  "cloneNotificationChannels = map clone_channel"

definition touchNotificationChannelCache :: "string \<Rightarrow> (string, channel list) jsmap \<Rightarrow> channel list option \<times> (string, channel list) jsmap" where
  "touchNotificationChannelCache k cache = map_prod (map_option cloneNotificationChannels) id (lru_touch k cache)"

definition setNotificationChannelCache :: "string \<Rightarrow> channel list \<Rightarrow> (string, channel list) jsmap \<Rightarrow> (string, channel list) jsmap" where
  "setNotificationChannelCache k items cache =
     lru_set NOTIFICATION_CHANNEL_CACHE_LIMIT k (cloneNotificationChannels items) cache"

definition invalidateNotificationChannelCache :: "'s notification_state \<Rightarrow> 's notification_state" where
  "invalidateNotificationChannelCache st = st\<lparr>nt_cache := []\<rparr>"

section \<open>Fetching\<close>

definition on_service :: "('s, 'r) op \<Rightarrow> 's notification_state \<Rightarrow> (api_error + 'r) \<times> 's notification_state" where
  "on_service f st = (case f (nt_world st) of (r, w) \<Rightarrow> (r, st\<lparr>nt_world := w\<rparr>))"

text \<open>A page, and whether there is a next one to fetch.\<close>

definition channels_page :: "'s query_env \<Rightarrow> int \<Rightarrow> int \<Rightarrow> ('s, channel list \<times> bool) op" where
  "channels_page env page pageSize =
     and_then
       (requestNotificationApi env [] ''GET'' [(''page'', int_param page), (''page_size'', int_param pageSize)] None)
       (\<lambda>envelope. give_read (map_option (\<lambda>items.
          (items,
           boolean_or (meta_field envelope ''has_next'')
             (js_less (Fin (of_int (page * pageSize))) (meta_total envelope (length items)))
           \<and> int (length items) = pageSize))
          (map_items (\<lambda>item _. mapBackendChannelToFrontend (qe_clock env) item) (data_field envelope ''items''))))"

definition keep_channels ::
    "int \<Rightarrow> int \<Rightarrow> channel list \<Rightarrow> 's notification_state \<Rightarrow> (api_error + channel list) \<times> 's notification_state" where
  "keep_channels page pageSize items st =
     (Inr (cloneNotificationChannels items),
      st\<lparr>nt_cache := setNotificationChannelCache (buildNotificationChannelCacheKey page pageSize) items (nt_cache st)\<rparr>)"

definition join_channels ::
    "int \<Rightarrow> int \<Rightarrow> channel list \<Rightarrow> api_error + channel list \<Rightarrow> 's notification_state
     \<Rightarrow> (api_error + channel list) \<times> 's notification_state" where
  "join_channels page pageSize items r st =
     (case r of Inl e \<Rightarrow> (Inl e, st) | Inr next_items \<Rightarrow> keep_channels page pageSize (items @ next_items) st)"

text \<open>The cached list of the page and all later ones, if it may be used.\<close>

definition look_up ::
    "bool \<Rightarrow> int \<Rightarrow> int \<Rightarrow> 's notification_state \<Rightarrow> channel list option \<times> 's notification_state" where
  "look_up force page pageSize st =
     (if force then (None, st)
      else (case touchNotificationChannelCache (buildNotificationChannelCacheKey page pageSize) (nt_cache st) of
              (cached, cache) \<Rightarrow> (cached, st\<lparr>nt_cache := cache\<rparr>)))"

partial_function (option) fetch_channels ::
    "'s query_env \<Rightarrow> int \<Rightarrow> int \<Rightarrow> bool \<Rightarrow> 's notification_state
     \<Rightarrow> ((api_error + channel list) \<times> 's notification_state) option" where
  "fetch_channels env page pageSize force st =
     (case look_up force page pageSize st of
        (Some items, st') \<Rightarrow> Some (Inr items, st')
      | (None, st') \<Rightarrow>
          (case on_service (channels_page env page pageSize) st' of
             (Inl e, st'') \<Rightarrow> Some (Inl e, st'')
           | (Inr (items, again), st'') \<Rightarrow>
               (if again
                then Option.bind (fetch_channels env (page + 1) pageSize force st'') (\<lambda>(r, st3).
                       Some (join_channels page pageSize items r st3))
                else Some (keep_channels page pageSize items st''))))"

record channels_params =
  cp_page :: "int option"
  cp_page_size :: "int option"
  cp_force :: bool

definition fetchNotificationChannels ::
    "'s query_env \<Rightarrow> channels_params \<Rightarrow> 's notification_state
     \<Rightarrow> ((api_error + channel list) \<times> 's notification_state) option" where
  "fetchNotificationChannels env params =
     fetch_channels env (nullish (cp_page params) 1) (nullish (cp_page_size params) 200) (cp_force params)"

section \<open>Changing\<close>

text \<open>After a change: the cache is emptied, all channels are fetched, the one with the id is returned.\<close>

definition refetched ::
    "'s query_env \<Rightarrow> json \<Rightarrow> string \<Rightarrow> 's notification_state \<Rightarrow> ((api_error + channel) \<times> 's notification_state) option" where
  "refetched env i missing st =
     map_option (\<lambda>(r, st').
       (case r of
          Inl e \<Rightarrow> Inl e
        | Inr channels \<Rightarrow>
            (case find (\<lambda>c. ch_id c = Some i) channels of None \<Rightarrow> Inl (CallError missing) | Some c \<Rightarrow> Inr c), st'))
       (fetchNotificationChannels env \<lparr>cp_page = None, cp_page_size = None, cp_force = True\<rparr>
         (invalidateNotificationChannelCache st))"

definition createNotificationChannel ::
    "'s query_env \<Rightarrow> json \<Rightarrow> 's notification_state \<Rightarrow> ((api_error + channel) \<times> 's notification_state) option" where
  "createNotificationChannel env data st =
     (let field = json_field (Some data);
          body = literal [(''name'', field ''name''), (''type'', field ''type''), (''config'', field ''config''),
                          (''enabled'', Some (field_or (Some data) ''enabled'' (JBool True)))]
      in case on_service (and_then (requestNotificationApi env [] ''POST'' [] (Some body))
                 (\<lambda>envelope. give_truthy (data_field envelope ''id'') zh_channel_no_id)) st of
           (Inl e, st') \<Rightarrow> Some (Inl e, st')
         | (Inr i, st') \<Rightarrow> refetched env i zh_channel_created_no_detail st')"

definition updateNotificationChannel ::
    "'s query_env \<Rightarrow> string \<Rightarrow> json \<Rightarrow> 's notification_state \<Rightarrow> ((api_error + channel) \<times> 's notification_state) option" where
  "updateNotificationChannel env i data st =
     (case on_service (requestNotificationApi env (CHR ''/'' # encodeURIComponent i) ''PUT'' [] (Some data)) st of
        (Inl e, st') \<Rightarrow> Some (Inl e, st')
      | (Inr _, st') \<Rightarrow> refetched env (JStr i) zh_channel_updated_no_detail st')"

definition deleteNotificationChannel ::
    "'s query_env \<Rightarrow> string \<Rightarrow> 's notification_state \<Rightarrow> (api_error + unit) \<times> 's notification_state" where
  "deleteNotificationChannel env i st =
     (case on_service (requestNotificationApi env (CHR ''/'' # encodeURIComponent i) ''DELETE'' [] None) st of
        (Inl e, st') \<Rightarrow> (Inl e, st')
      | (Inr _, st') \<Rightarrow> (Inr (), invalidateNotificationChannelCache st'))"

definition testNotificationChannel ::
    "'s query_env \<Rightarrow> string \<Rightarrow> string option \<Rightarrow> 's notification_state \<Rightarrow> (api_error + json) \<times> 's notification_state" where
  "testNotificationChannel env i recipient =
     on_service (and_then
       (requestNotificationApi env (CHR ''/'' # encodeURIComponent i @ ''/test'') ''POST'' []
         (Some (case recipient of None \<Rightarrow> JObj [] | Some r \<Rightarrow> if r = [] then JObj [] else JObj [(''to'', JStr r)])))
       (\<lambda>envelope. give (field_or (json_field (Some envelope) ''data'') ''sent'' (JBool False))))"

section \<open>Lemmas\<close>

lemma own_entries_object [simp]: "own_entries (Some (JObj ms)) = ms"
  by (simp add: own_entries_def)

lemma clone_clone [simp]: "clone_channel (clone_channel c) = clone_channel c"
  by (simp add: clone_channel_def nullish_json_def)

lemma clones_clone [simp]: "cloneNotificationChannels (cloneNotificationChannels cs) = cloneNotificationChannels cs"
  by (simp add: cloneNotificationChannels_def)

text \<open>Copies that nobody else holds.\<close>

definition cloned :: "channel list \<Rightarrow> bool" where
  "cloned cs \<longleftrightarrow> cloneNotificationChannels cs = cs"

interpretation nc: recency_cache jm_get "\<lambda>k items. lru_set NOTIFICATION_CHANNEL_CACHE_LIMIT k items" lru_touch
    "lru_ok NOTIFICATION_CHANNEL_CACHE_LIMIT" length NOTIFICATION_CHANNEL_CACHE_LIMIT
proof (unfold_locales, goal_cases)
  case (4 m k k' v)
  then show ?case by (intro lru_set_ok(3)) (simp_all add: NOTIFICATION_CHANNEL_CACHE_LIMIT_def)
qed (simp_all add: lru_set_ok lru_touch_ok NOTIFICATION_CHANNEL_CACHE_LIMIT_def, simp add: lru_ok_def)

definition cache_sound :: "'s notification_state \<Rightarrow> bool" where
  "cache_sound st \<longleftrightarrow> nc.keep (\<lambda>_. cloned) (nt_cache st)"

lemma channel_key_ne [simp]: "buildNotificationChannelCacheKey page sz \<noteq> []"
  by (simp add: buildNotificationChannelCacheKey_def)

lemma on_service_sound [simp]: "cache_sound (snd (on_service f st)) \<longleftrightarrow> cache_sound st"
  by (simp add: on_service_def cache_sound_def split: prod.split)

lemma on_service_soundD: "on_service f st = (r, st') \<Longrightarrow> cache_sound st \<Longrightarrow> cache_sound st'"
  by (metis on_service_sound snd_conv)

lemma keep_channels_sound: "cache_sound st \<Longrightarrow> cache_sound (snd (keep_channels page sz items st))"
  by (simp add: keep_channels_def cache_sound_def setNotificationChannelCache_def nc.keep_put cloned_def)

lemma look_up_sound: "cache_sound st \<Longrightarrow> cache_sound (snd (look_up force page sz st))"
  using nc.keep_touch [of "\<lambda>_. cloned" "nt_cache st"]
  by (simp add: look_up_def touchNotificationChannelCache_def cache_sound_def case_prod_unfold)

lemma fetch_channels_sound:
  "fetch_channels env page sz force st = Some r \<Longrightarrow> cache_sound st \<longrightarrow> cache_sound (snd r)"
proof (erule fetch_channels.raw_induct [rotated, where
      P = "\<lambda>env page sz force st r. cache_sound st \<longrightarrow> cache_sound (snd r)"], intro impI, goal_cases)
  case (1 f env page sz force st r)
  obtain found st' where l: "look_up force page sz st = (found, st')" by (cases "look_up force page sz st")
  have st': "cache_sound st'" using look_up_sound [OF 1(3), of force page sz] l by simp
  obtain r' st'' where p: "on_service (channels_page env page sz) st' = (r', st'')"
    by (cases "on_service (channels_page env page sz) st'")
  have st'': "cache_sound st''" using on_service_sound [of "channels_page env page sz" st'] p st' by simp
  show ?case
  proof (cases found)
    case (Some items)
    then show ?thesis using 1(2) l st' by auto
  next
    case None
    have later: "cache_sound st3" if "f env (page + 1) sz force st'' = Some (q, st3)" for q st3
      using 1(1) [OF that] st'' by simp
    have "cache_sound (snd (join_channels page sz items q st3))" if "cache_sound st3" for q st3 items
      using that by (auto simp: join_channels_def keep_channels_sound split: sum.split)
    then show ?thesis
      using 1(2) None l p st'' keep_channels_sound
      by (auto split: sum.splits if_splits simp: bind_eq_Some_conv dest!: later)
  qed
qed

lemma refetched_sound: "refetched env i missing st = Some (r, st') \<Longrightarrow> cache_sound st'"
proof -
  have "cache_sound (invalidateNotificationChannelCache st)"
    by (simp add: cache_sound_def nc.keep_def invalidateNotificationChannelCache_def lru_ok_def jm_wf_def jm_keys_def jm_get_def)
  then show "refetched env i missing st = Some (r, st') \<Longrightarrow> cache_sound st'"
    using fetch_channels_sound by (fastforce simp: refetched_def fetchNotificationChannels_def)
qed

section \<open>Properties\<close>

text \<open>What the console does with channels, and between the calls the browser and the service change in any way.\<close>

inductive channels_reachable :: "'s query_env \<Rightarrow> 's notification_state \<Rightarrow> bool" for env where
  fresh: "channels_reachable env \<lparr>nt_world = w, nt_cache = []\<rparr>"
| changed: "channels_reachable env st \<Longrightarrow> channels_reachable env (st\<lparr>nt_world := w\<rparr>)"
| fetched: "channels_reachable env st \<Longrightarrow> fetchNotificationChannels env params st = Some (r, st') \<Longrightarrow> channels_reachable env st'"
| created: "channels_reachable env st \<Longrightarrow> createNotificationChannel env data st = Some (q, st') \<Longrightarrow> channels_reachable env st'"
| updated: "channels_reachable env st \<Longrightarrow> updateNotificationChannel env i data st = Some (q, st') \<Longrightarrow> channels_reachable env st'"
| deleted: "channels_reachable env st \<Longrightarrow> deleteNotificationChannel env i st = (d, st') \<Longrightarrow> channels_reachable env st'"
| tested: "channels_reachable env st \<Longrightarrow> testNotificationChannel env i t st = (j, st') \<Longrightarrow> channels_reachable env st'"

lemma reachable_sound: "channels_reachable env st \<Longrightarrow> cache_sound st"
proof (induction rule: channels_reachable.induct)
  case (fresh w)
  show ?case by (simp add: cache_sound_def nc.keep_def lru_ok_def jm_wf_def jm_keys_def jm_get_def)
next
  case (changed st w)
  then show ?case by (simp add: cache_sound_def)
next
  case (fetched st params r st')
  then show ?case using fetch_channels_sound by (fastforce simp: fetchNotificationChannels_def)
next
  case (created st data q st')
  then show ?case
    by (auto simp: createNotificationChannel_def Let_def split: prod.splits sum.splits dest: on_service_soundD refetched_sound)
next
  case (updated st i data q st')
  then show ?case
    by (auto simp: updateNotificationChannel_def split: prod.splits sum.splits dest: on_service_soundD refetched_sound)
next
  case (deleted st i d st')
  moreover have "cache_sound (invalidateNotificationChannelCache s)" for s :: "'a notification_state"
    by (simp add: cache_sound_def nc.keep_def invalidateNotificationChannelCache_def lru_ok_def jm_wf_def jm_keys_def jm_get_def)
  ultimately show ?case
    by (auto simp: deleteNotificationChannel_def split: prod.splits sum.splits dest: on_service_soundD)
next
  case (tested st i t j st')
  then show ?case unfolding testNotificationChannel_def using on_service_soundD by blast
qed

text \<open>Whatever is fetched, created, changed, deleted and tested, in whatever order, the cache of channel lists
  never holds more than 24 lists, and what it holds are copies: the configuration of every cached channel is an
  object of its own.\<close>

theorem channel_cache_sound:
  assumes "channels_reachable env st" and "jm_get (nt_cache st) k = Some channels"
  shows "length (nt_cache st) \<le> 24 \<and> list_all (\<lambda>c. \<exists>ms. ch_config c = JObj ms) channels"
proof -
  have keep: "nc.keep (\<lambda>_. cloned) (nt_cache st)" using reachable_sound [OF assms(1)] by (simp add: cache_sound_def)
  then have "cloned channels" using assms(2) by (simp add: nc.keep_def)
  then have "map clone_channel channels = map id channels" by (simp add: cloned_def cloneNotificationChannels_def)
  then have "clone_channel c = c" if "c \<in> set channels" for c using that by (simp only: map_eq_conv id_apply)
  then have "\<exists>ms. ch_config c = JObj ms" if "c \<in> set channels" for c
    using that by (metis (no_types, lifting) channel.select_convs(4) channel.surjective channel.update_convs(4) clone_channel_def)
  then show ?thesis
    using nc.run_bounded [OF keep] by (simp add: NOTIFICATION_CHANNEL_CACHE_LIMIT_def list_all_iff)
qed

text \<open>A service with one channel.\<close>

definition one_channel_answer :: json where
  "one_channel_answer = JObj
     [(''data'', JObj [(''items'', JArr [JObj [(''id'', JStr ''c1''), (''created_at'', JNum 5), (''updated_at'', JNum 6)]])])]"

definition one_channel_env :: "nat query_env" where
  "one_channel_env = sample_env (\<lambda>n _. (Answer 200 (Some one_channel_answer), n))"

definition no_channels :: "nat notification_state" where
  "no_channels = \<lparr>nt_world = \<lparr>wd_browser = expired_browser, wd_net = 0\<rparr>, nt_cache = []\<rparr>"

definition one_channel :: channel where
  "one_channel = \<lparr>ch_id = Some (JStr ''c1''), ch_name = None, ch_type = None, ch_config = JObj [], ch_enabled = None,
     ch_createdAt = Fin 5, ch_updatedAt = Fin 6\<rparr>"

lemma one_channel_request:
  "requestNotificationApi one_channel_env p mthd qry body (nt_world no_channels) = (Inr one_channel_answer, nt_world no_channels)"
proof -
  have "base_url (api_at one_channel_env expired_browser) \<noteq> None" "service_headers one_channel_env expired_browser notification_service \<noteq> None"
    by code_simp+
  then obtain rq where "service_api_request one_channel_env expired_browser notification_service p mthd qry body = Some rq"
    by (auto simp: service_api_request_def)
  moreover have "decode_service_answer notification_service (Answer 200 (Some one_channel_answer)) = Inr one_channel_answer"
    by code_simp
  ultimately show ?thesis
    by (simp add: requestNotificationApi_def requestServiceApi_def no_channels_def) (simp add: one_channel_env_def sample_env_def)
qed

theorem channel_cache_sound_witness:
  "\<exists>st k. channels_reachable one_channel_env st \<and> jm_get (nt_cache st) k = Some [one_channel]
     \<and> length (nt_cache st) \<le> 24 \<and> list_all (\<lambda>c. \<exists>ms. ch_config c = JObj ms) [one_channel]"
proof -
  let ?k = "buildNotificationChannelCacheKey 1 200"
  let ?st = "no_channels\<lparr>nt_cache := [(?k, [one_channel])]\<rparr>"
  have "look_up True 1 200 no_channels = (None, no_channels)" by (simp add: look_up_def)
  moreover have "on_service (channels_page one_channel_env 1 200) no_channels = (Inr ([one_channel], False), no_channels)"
  proof -
    have "map_items (\<lambda>item _. mapBackendChannelToFrontend (qe_clock one_channel_env) item) (data_field one_channel_answer ''items'')
        = Some [one_channel]"
      "boolean_or (meta_field one_channel_answer ''has_next'') (js_less (Fin (of_int (1 * 200))) (meta_total one_channel_answer 1))
        = False" by code_simp+
    then show ?thesis
      by (simp add: on_service_def channels_page_def and_then_def one_channel_request give_read_def give_def)
  qed
  moreover have kept: "keep_channels 1 200 [one_channel] no_channels = (Inr [one_channel], ?st)"
    by (simp add: keep_channels_def no_channels_def setNotificationChannelCache_def lru_set_def jm_keys_def evict.simps
        cloneNotificationChannels_def clone_channel_def one_channel_def nullish_json_def NOTIFICATION_CHANNEL_CACHE_LIMIT_def)
  ultimately have "fetchNotificationChannels one_channel_env \<lparr>cp_page = None, cp_page_size = None, cp_force = True\<rparr> no_channels
      = Some (Inr [one_channel], ?st)"
    by (simp add: fetchNotificationChannels_def fetch_channels.simps)
  moreover have "channels_reachable one_channel_env no_channels" unfolding no_channels_def by (rule channels_reachable.fresh)
  ultimately have r: "channels_reachable one_channel_env ?st" using channels_reachable.fetched by blast
  have "jm_get (nt_cache ?st) ?k = Some [one_channel]" by (simp add: jm_get_def)
  then show ?thesis using r channel_cache_sound [OF r] by blast
qed

text \<open>A change is never followed by a stale list: when the service has accepted that a channel is updated or
  deleted, neither what the call returns nor the cache it leaves depends on what was cached before; after a
  deletion nothing is cached.\<close>

theorem change_ignores_cache:
  assumes "on_service (requestNotificationApi env (CHR ''/'' # encodeURIComponent i) ''PUT'' [] (Some data)) st = (Inr e, st')"
    and "on_service (requestNotificationApi env (CHR ''/'' # encodeURIComponent i) ''DELETE'' [] None) st = (Inr e', st'')"
  shows "updateNotificationChannel env i data st = updateNotificationChannel env i data (st\<lparr>nt_cache := other\<rparr>)
    \<and> deleteNotificationChannel env i st = (Inr (), st''\<lparr>nt_cache := []\<rparr>)
    \<and> deleteNotificationChannel env i (st\<lparr>nt_cache := other\<rparr>) = (Inr (), st''\<lparr>nt_cache := []\<rparr>)"
  using assms
  by (auto simp: updateNotificationChannel_def deleteNotificationChannel_def on_service_def refetched_def
      invalidateNotificationChannelCache_def split: prod.splits)

theorem change_ignores_cache_witness:
  "deleteNotificationChannel one_channel_env ''c1'' (no_channels\<lparr>nt_cache := [(''k'', [one_channel])]\<rparr>) = (Inr (), no_channels)"
proof -
  let ?p = "CHR ''/'' # encodeURIComponent ''c1''"
  have "on_service (requestNotificationApi one_channel_env ?p mthd [] body) no_channels = (Inr one_channel_answer, no_channels)"
    for mthd body by (simp add: on_service_def one_channel_request)
  from change_ignores_cache [OF this this, where other = "[(''k'', [one_channel])]"]
  show ?thesis by (simp add: no_channels_def)
qed

end
