(* ===== verification/Zh_Pages.thy ===== *)
theory Zh_Pages
  imports Js_String
begin

text \<open>
  The Chinese literals of the pages, as the UTF-8 bytes of their code points, so that the model's
  texts are those of the code. Each constant says what the text means.
\<close>

text \<open>No lower limit.\<close>

definition zh_from_unlimited :: string where
  "zh_from_unlimited =
    utf8 [0x8D77, 0x59CB, 0x672A, 0x9650, 0x5236]"

text \<open>No upper limit.\<close>

definition zh_to_unlimited :: string where
  "zh_to_unlimited =
    utf8 [0x7ED3, 0x675F, 0x672A, 0x9650, 0x5236]"

text \<open>A dash for a missing value.\<close>

definition zh_em_dash :: string where
  "zh_em_dash =
    utf8 [0x2014]"

text \<open>Last 5 minutes.\<close>

definition zh_last_5m :: string where
  "zh_last_5m =
    utf8 [0x6700, 0x8FD1] @ '' 5 '' @ utf8 [0x5206, 0x949F]"

text \<open>Last 15 minutes.\<close>

definition zh_last_15m :: string where
  "zh_last_15m =
    utf8 [0x6700, 0x8FD1] @ '' 15 '' @ utf8 [0x5206, 0x949F]"

text \<open>Last 30 minutes.\<close>

definition zh_last_30m :: string where
  "zh_last_30m =
    utf8 [0x6700, 0x8FD1] @ '' 30 '' @ utf8 [0x5206, 0x949F]"

text \<open>Last hour.\<close>

definition zh_last_1h :: string where
  "zh_last_1h =
    utf8 [0x6700, 0x8FD1] @ '' 1 '' @ utf8 [0x5C0F, 0x65F6]"

text \<open>Any time.\<close>

definition zh_all_time :: string where
  "zh_all_time =
    utf8 [0x5168, 0x90E8, 0x65F6, 0x95F4]"

text \<open>A past period.\<close>

definition zh_past_range :: string where
  "zh_past_range =
    utf8 [0x5386, 0x53F2, 0x65F6, 0x95F4, 0x8303, 0x56F4]"

text \<open>Loading logs.\<close>

definition zh_loading_logs :: string where
  "zh_loading_logs =
    utf8 [0x6B63, 0x5728, 0x52A0, 0x8F7D, 0x65E5, 0x5FD7] @ ''...''"

text \<open>In all.\<close>

definition zh_total_of :: string where
  "zh_total_of =
    utf8 [0x5171] @ '' ''"

text \<open>Results, taking.\<close>

definition zh_results_taking :: string where
  "zh_results_taking =
    '' '' @ utf8 [0x6761, 0x7ED3, 0x679C] @ '' '' @ utf8 [0x00B7] @ '' '' @ utf8 [0x8017,
      0x65F6] @ '' ''"

text \<open>Current page.\<close>

definition zh_current_page :: string where
  "zh_current_page =
    utf8 [0x5F53, 0x524D, 0x9875] @ '' ''"

text \<open>Rows, in all.\<close>

definition zh_rows_total :: string where
  "zh_rows_total =
    '' '' @ utf8 [0x6761] @ '' '' @ utf8 [0x00B7] @ '' '' @ utf8 [0x5171] @ '' ''"

text \<open>Rows.\<close>

definition zh_rows :: string where
  "zh_rows =
    '' '' @ utf8 [0x6761]"

text \<open>The cursor of a deep page was not found.\<close>

definition zh_cursor_failed :: string where
  "zh_cursor_failed =
    utf8 [0x6DF1, 0x5206, 0x9875, 0x6E38, 0x6807, 0x5B9A, 0x4F4D, 0x5931, 0x8D25, 0xFF0C,
      0x8BF7, 0x7A0D, 0x540E, 0x91CD, 0x8BD5]"

text \<open>No logs lately, any time is shown.\<close>

definition zh_switched_to_all :: string where
  "zh_switched_to_all =
    utf8 [0x6700, 0x8FD1, 0x65F6, 0x6BB5, 0x6682, 0x65E0, 0x65E5, 0x5FD7, 0xFF0C, 0x5DF2,
      0x5207, 0x6362, 0x5230, 0x5168, 0x90E8, 0x65F6, 0x95F4, 0x5C55, 0x793A, 0x6700, 0x8FD1,
      0x53EF, 0x7528, 0x65E5, 0x5FD7]"

text \<open>The query timed out, the result may be incomplete.\<close>

definition zh_query_timed_out :: string where
  "zh_query_timed_out =
    utf8 [0x67E5, 0x8BE2, 0x8D85, 0x65F6, 0xFF0C, 0x7ED3, 0x679C, 0x53EF, 0x80FD, 0x4E0D,
      0x5B8C, 0x6574]"

text \<open>The query failed.\<close>

definition zh_query_failed :: string where
  "zh_query_failed =
    utf8 [0x67E5, 0x8BE2, 0x5931, 0x8D25, 0xFF0C, 0x8BF7, 0x7A0D, 0x540E, 0x91CD, 0x8BD5]"

text \<open>Refreshing the table failed, the previous rows are kept.\<close>

definition zh_table_kept :: string where
  "zh_table_kept =
    utf8 [0x8868, 0x683C, 0x5237, 0x65B0, 0x5931, 0x8D25, 0xFF0C, 0x5DF2, 0x4FDD, 0x7559,
      0x4E0A, 0x4E00, 0x7248, 0x7ED3, 0x679C]"

text \<open>Refreshing the chart failed.\<close>

definition zh_chart_failed :: string where
  "zh_chart_failed =
    utf8 [0x56FE, 0x8868, 0x5237, 0x65B0, 0x5931, 0x8D25, 0xFF0C, 0x8BF7, 0x7A0D, 0x540E,
      0x91CD, 0x8BD5]"

text \<open>Refreshing the chart failed, the previous one is kept.\<close>

definition zh_chart_kept :: string where
  "zh_chart_kept =
    utf8 [0x56FE, 0x8868, 0x5237, 0x65B0, 0x5931, 0x8D25, 0xFF0C, 0x5DF2, 0x4FDD, 0x7559,
      0x4E0A, 0x4E00, 0x7248, 0x7EDF, 0x8BA1]"

text \<open>No live polling for any time or a past period.\<close>

definition zh_no_live_here :: string where
  "zh_no_live_here =
    utf8 [0x5168, 0x90E8, 0x65F6, 0x95F4, 0x6216, 0x5386, 0x53F2, 0x65F6, 0x95F4, 0x8303,
      0x56F4, 0x4E0B, 0x4E0D, 0x652F, 0x6301, 0x5B9E, 0x65F6, 0x8F6E, 0x8BE2]"

text \<open>Deep pages need a cursor.\<close>

definition zh_no_direct_jump :: string where
  "zh_no_direct_jump =
    utf8 [0x5F53, 0x524D, 0x7ED3, 0x679C, 0x96C6, 0x8D85, 0x8FC7] @ '' 10,000 '' @ utf8 [0x6761,
      0xFF0C, 0x9996] @ '' 10,000 '' @ utf8 [0x6761, 0x5185, 0x53EF, 0x76F4, 0x63A5, 0x8DF3,
      0x9875, 0xFF0C, 0x66F4, 0x6DF1, 0x9875, 0x7801, 0x9700, 0x987A, 0x5E8F, 0x7FFB, 0x9875,
      0x5EFA, 0x7ACB, 0x6E38, 0x6807]"

end
