(* ===== verification/Realtime_Window.thy ===== *)
theory Realtime_Window
  imports Search_Query Search_View Query_Derived Zh_Pages
begin

text \<open>
  The helpers of the search page (\<open>pages/search/RealtimeSearch.tsx\<close>): the period a search covers, the filters of
  the page and their state key, the window of the histogram, how deep a page may be asked for directly, and texts.

  Arguments: \<open>lc\<close>, the sign of \<open>localeCompare\<close>; \<open>locale_time\<close> and \<open>locale_number\<close>, the local rendering of a
  time and of a number. Pages and page sizes are whole numbers.
\<close>

section \<open>The period\<close>

definition MAX_PAGINATION_WINDOW_ROWS :: int where "MAX_PAGINATION_WINDOW_ROWS = 10000"

datatype live_window = Last_5m | Last_15m | Last_30m | Last_1h | Any_Time | Past_Range

definition DEFAULT_LIVE_WINDOW :: live_window where "DEFAULT_LIVE_WINDOW = Last_15m"

definition BASE_LIVE_WINDOW_OPTIONS :: "(live_window \<times> string) list" where
  "BASE_LIVE_WINDOW_OPTIONS =
     [(Last_5m, zh_last_5m), (Last_15m, zh_last_15m), (Last_30m, zh_last_30m), (Last_1h, zh_last_1h), (Any_Time, zh_all_time)]"

definition bound_text :: "time_range option \<Rightarrow> (time_range \<Rightarrow> string option) \<Rightarrow> string" where
  "bound_text trange bound = trimmed_text (Option.bind trange bound)"

definition normalizeRealtimeExplicitTimeRange :: "time_range option \<Rightarrow> time_range option" where
  "normalizeRealtimeExplicitTimeRange trange =
     (let lower = bound_text trange tr_from; upper = bound_text trange tr_to;
          given = (\<lambda>s. if s = [] then None else Some s)
      in if lower = [] \<and> upper = [] then None else Some \<lparr>tr_from = given lower, tr_to = given upper\<rparr>)"

definition hasRealtimeExplicitTimeRange :: "time_range option \<Rightarrow> bool" where
  "hasRealtimeExplicitTimeRange trange \<longleftrightarrow> bound_text trange tr_from \<noteq> [] \<or> bound_text trange tr_to \<noteq> []"

definition date_text :: "(int \<Rightarrow> string) \<Rightarrow> clock \<Rightarrow> string \<Rightarrow> string" where
  "date_text locale_time c s = (case date_of c s of None \<Rightarrow> ''Invalid Date'' | Some t \<Rightarrow> locale_time t)"

definition formatRealtimeExplicitTimeRange :: "(int \<Rightarrow> string) \<Rightarrow> clock \<Rightarrow> time_range option \<Rightarrow> string" where
  "formatRealtimeExplicitTimeRange locale_time c trange =
     (case normalizeRealtimeExplicitTimeRange trange of
        None \<Rightarrow> []
      | Some r \<Rightarrow>
          (case tr_from r of None \<Rightarrow> zh_from_unlimited | Some s \<Rightarrow> date_text locale_time c s) @ '' ~ ''
          @ (case tr_to r of None \<Rightarrow> zh_to_unlimited | Some s \<Rightarrow> date_text locale_time c s))"

fun resolveRealtimeWindowDurationMS :: "live_window \<Rightarrow> int" where
  "resolveRealtimeWindowDurationMS Last_5m = 5 * 60 * 1000"
| "resolveRealtimeWindowDurationMS Last_30m = 30 * 60 * 1000"
| "resolveRealtimeWindowDurationMS Last_1h = 60 * 60 * 1000"
| "resolveRealtimeWindowDurationMS _ = 15 * 60 * 1000"

text \<open>The end of the period: the snapshot, or now when there is none or it is no date.\<close>

definition snapshot_ms :: "clock \<Rightarrow> string option \<Rightarrow> int" where
  "snapshot_ms c snapshotTo =
     (if trimmed_text snapshotTo = [] then now_ms c else nullish (date_of c (nullish snapshotTo [])) (now_ms c))"

definition shouldUseUnboundedRealtimeQuery :: "live_window \<Rightarrow> time_range option \<Rightarrow> bool" where
  "shouldUseUnboundedRealtimeQuery liveWindow explicitTimeRange \<longleftrightarrow>
     liveWindow = Any_Time \<and> \<not> hasRealtimeExplicitTimeRange explicitTimeRange"

definition buildRealtimeTableTimeRange :: "clock \<Rightarrow> live_window \<Rightarrow> string option \<Rightarrow> time_range option \<Rightarrow> time_range" where
  "buildRealtimeTableTimeRange c liveWindow snapshotTo explicitTimeRange =
     (let snapshot = snapshot_ms c snapshotTo;
          normalizedExplicitTimeRange = normalizeRealtimeExplicitTimeRange explicitTimeRange
      in case normalizedExplicitTimeRange of
           Some r \<Rightarrow> \<lparr>tr_from = Some (nullish (tr_from r) []), tr_to = Some (nullish (tr_to r) (toISOString snapshot))\<rparr>
         | None \<Rightarrow>
             if shouldUseUnboundedRealtimeQuery liveWindow normalizedExplicitTimeRange
             then \<lparr>tr_from = Some [], tr_to = Some (toISOString snapshot)\<rparr>
             else \<lparr>tr_from = Some (toISOString (snapshot - resolveRealtimeWindowDurationMS liveWindow)),
                   tr_to = Some (toISOString snapshot)\<rparr>)"

section \<open>The filters of the page\<close>

definition reserved_key :: "string \<Rightarrow> bool" where
  "reserved_key k \<longleftrightarrow> trim k \<in> {''level'', ''service'', ''source''}"

fun normalizeRealtimeExtraFilterValue :: "json \<Rightarrow> json option" where
  "normalizeRealtimeExtraFilterValue (JStr s) = (if trim s = [] then None else Some (JStr (trim s)))"
| "normalizeRealtimeExtraFilterValue (JNum q) = Some (JNum q)"
| "normalizeRealtimeExtraFilterValue (JBool b) = Some (JBool b)"
| "normalizeRealtimeExtraFilterValue JNull = None"
| "normalizeRealtimeExtraFilterValue (JArr xs) =
     (let ys = List.map_filter id (map normalizeRealtimeExtraFilterValue xs)
      in if ys = [] then None else Some (JArr ys))"
| "normalizeRealtimeExtraFilterValue (JObj ms) =
     (let ob = build_members (map (\<lambda>e. (fst e, if reserved_key (fst e) then None else normalizeRealtimeExtraFilterValue (snd e))) ms)
      in if ob = [] then None else Some (JObj ob))"

definition normalizePageFilters :: "filters \<Rightarrow> filters" where
  "normalizePageFilters ms =
     build_members (map (\<lambda>e. (fst e, if reserved_key (fst e) then None else normalizeRealtimeExtraFilterValue (snd e))) ms)"

definition serializeRealtimeExtraFilterState :: "(string \<Rightarrow> string \<Rightarrow> int) \<Rightarrow> filters \<Rightarrow> string" where
  "serializeRealtimeExtraFilterState lc filters =
     (let normalizedFilters = normalizePageFilters filters
      in if normalizedFilters = [] then [] else stringify (sortJSONValue lc (JObj normalizedFilters)))"

definition buildRealtimeFilterStateKey :: "(string \<Rightarrow> string \<Rightarrow> int) \<Rightarrow> string \<Rightarrow> string \<Rightarrow> filters \<Rightarrow> string" where
  "buildRealtimeFilterStateKey lc levelFilter sourceFilter extraFilters =
     join [CHR 0x00] [trim levelFilter, trim sourceFilter, serializeRealtimeExtraFilterState lc extraFilters]"

definition formatRealtimeFilterTagValue :: "(string \<Rightarrow> string \<Rightarrow> int) \<Rightarrow> json \<Rightarrow> string" where
  "formatRealtimeFilterTagValue lc v =
     (case v of
        JStr s \<Rightarrow> s
      | JNum q \<Rightarrow> js_String v
      | JBool b \<Rightarrow> js_String v
      | _ \<Rightarrow> stringify (sortJSONValue lc v))"

definition resolveRealtimeExtraFilterTags :: "(string \<Rightarrow> string \<Rightarrow> int) \<Rightarrow> filters \<Rightarrow> (string \<times> string) list" where
  "resolveRealtimeExtraFilterTags lc filters =
     map (\<lambda>e. (fst e, formatRealtimeFilterTagValue lc (snd e)))
       (js_sort (\<lambda>l r. lc (fst l) (fst r) \<le> 0) (normalizePageFilters filters))"

section \<open>What follows from an empty or a live window\<close>

definition bounded_window :: "live_window \<Rightarrow> bool" where
  "bounded_window liveWindow \<longleftrightarrow> liveWindow \<noteq> Any_Time \<and> liveWindow \<noteq> Past_Range"

record fallback_params =
  fb_autoAll :: bool
  fb_resultTotal :: rat
  fb_page :: int
  fb_queryText :: string
  fb_levelFilter :: string
  fb_sourceFilter :: string
  fb_extraFilters :: filters
  fb_liveWindow :: live_window
  fb_explicitTimeRange :: "time_range option"

definition shouldAutoFallbackEmptyRealtimeWindow :: "fallback_params \<Rightarrow> bool" where
  "shouldAutoFallbackEmptyRealtimeWindow p \<longleftrightarrow>
     fb_autoAll p \<and> \<not> 0 < fb_resultTotal p \<and> fb_page p = 1 \<and> trim (fb_queryText p) = []
     \<and> trim (fb_levelFilter p) = [] \<and> trim (fb_sourceFilter p) = [] \<and> normalizePageFilters (fb_extraFilters p) = []
     \<and> \<not> hasRealtimeExplicitTimeRange (fb_explicitTimeRange p) \<and> bounded_window (fb_liveWindow p)"

definition shouldSuppressNextLiveTickAfterInteractiveRefresh :: "bool \<Rightarrow> live_window \<Rightarrow> time_range option \<Rightarrow> bool" where
  "shouldSuppressNextLiveTickAfterInteractiveRefresh isLive liveWindow explicitTimeRange \<longleftrightarrow>
     isLive \<and> \<not> hasRealtimeExplicitTimeRange explicitTimeRange \<and> bounded_window liveWindow"

definition shouldSuppressNextLiveTickAfterPaginationRefresh ::
    "bool \<Rightarrow> live_window \<Rightarrow> time_range option \<Rightarrow> bool \<Rightarrow> int \<Rightarrow> bool" where
  "shouldSuppressNextLiveTickAfterPaginationRefresh isLive liveWindow explicitTimeRange pageSizeChanged targetPage \<longleftrightarrow>
     pageSizeChanged \<and> targetPage = 1
     \<and> shouldSuppressNextLiveTickAfterInteractiveRefresh isLive liveWindow explicitTimeRange"

definition getRealtimeTableDataSourceForRender :: "'a list \<Rightarrow> int \<Rightarrow> int \<Rightarrow> bool \<Rightarrow> 'a list" where
  "getRealtimeTableDataSourceForRender logs pageSize currentPage tableRefreshing =
     (if \<not> tableRefreshing \<or> currentPage \<noteq> 1 \<or> int (length logs) \<le> pageSize then logs
      else take (nat pageSize) logs)"

section \<open>The window of the histogram\<close>

definition resolveRealtimeHistogramRequestTimeRange :: "live_window \<Rightarrow> time_range option \<Rightarrow> agg_range option" where
  "resolveRealtimeHistogramRequestTimeRange liveWindow explicitTimeRange =
     (if hasRealtimeExplicitTimeRange explicitTimeRange \<or> liveWindow = Any_Time \<or> liveWindow = Past_Range then None
      else Some (if liveWindow = Last_1h then Agg1h else Agg30m))"

definition bucket_within :: "clock \<Rightarrow> int \<Rightarrow> int \<Rightarrow> aggregate_bucket \<Rightarrow> bool" where
  "bucket_within c lower upper bucket =
     (case date_of c (ab_key bucket) of None \<Rightarrow> True | Some t \<Rightarrow> lower \<le> t \<and> t \<le> upper)"

definition filterRealtimeHistogramBucketsByLiveWindow ::
    "clock \<Rightarrow> live_window \<Rightarrow> string option \<Rightarrow> aggregate_bucket list \<Rightarrow> aggregate_bucket list" where
  "filterRealtimeHistogramBucketsByLiveWindow c liveWindow snapshotTo buckets =
     (if liveWindow = Last_30m \<or> liveWindow = Last_1h then buckets
      else (let snapshot = snapshot_ms c snapshotTo
            in filter (bucket_within c (snapshot - resolveRealtimeWindowDurationMS liveWindow) snapshot) buckets))"

section \<open>How deep a page may be\<close>

definition resolveMaxPaginationPage :: "int \<Rightarrow> int" where
  "resolveMaxPaginationPage pageSize = max 1 (MAX_PAGINATION_WINDOW_ROWS div max 1 pageSize)"

section \<open>Texts\<close>

definition toDisplayText :: "json option \<Rightarrow> string \<Rightarrow> string" where
  "toDisplayText v fallback =
     (case nullish_json v None of
        None \<Rightarrow> fallback
      | Some (JStr s) \<Rightarrow> or_str (trim s) fallback
      | Some j \<Rightarrow> js_String j)"

definition formatRealtimeTotal :: "(int \<Rightarrow> string) \<Rightarrow> jsnum \<Rightarrow> bool \<Rightarrow> string" where
  "formatRealtimeTotal locale_number totl isLowerBound =
     (let displayTotal = locale_number (floor_at_least 0 totl)
      in if isLowerBound then displayTotal @ ''+'' else displayTotal)"

definition formatRealtimeTimestamp :: "(int \<Rightarrow> string) \<Rightarrow> clock \<Rightarrow> string \<Rightarrow> string" where
  "formatRealtimeTimestamp locale_time c s =
     (case date_of c s of None \<Rightarrow> toDisplayText (Some (JStr s)) zh_em_dash | Some t \<Rightarrow> locale_time t)"

section \<open>Lemmas\<close>

lemma bound_text_None [simp]: "bound_text None f = []"
  by (simp add: bound_text_def trimmed_text_def)

lemma trim_trimmed_text [simp]: "trim (trimmed_text s) = trimmed_text s"
  by (cases s) (simp_all add: trimmed_text_def)

lemma hasRealtimeExplicitTimeRange_iff:
  "hasRealtimeExplicitTimeRange r \<longleftrightarrow> normalizeRealtimeExplicitTimeRange r \<noteq> None"
  by (auto simp: hasRealtimeExplicitTimeRange_def normalizeRealtimeExplicitTimeRange_def Let_def)

lemma no_explicit_range [simp]: "normalizeRealtimeExplicitTimeRange None = None" "\<not> hasRealtimeExplicitTimeRange None"
  by (simp_all add: normalizeRealtimeExplicitTimeRange_def hasRealtimeExplicitTimeRange_def)

lemma normalizeRealtimeExplicitTimeRange_idem [simp]:
  "normalizeRealtimeExplicitTimeRange (normalizeRealtimeExplicitTimeRange r) = normalizeRealtimeExplicitTimeRange r"
  by (auto simp: normalizeRealtimeExplicitTimeRange_def Let_def bound_text_def trimmed_text_def [of "Some _"]
      trimmed_text_def [of None])

lemma duration_pos: "0 < resolveRealtimeWindowDurationMS w"
  by (cases w) simp_all

lemma resolveMaxPaginationPage_pos [simp]: "1 \<le> resolveMaxPaginationPage sz"
  by (simp add: resolveMaxPaginationPage_def)

lemma page_within_window:
  assumes "1 \<le> sz" "sz \<le> MAX_PAGINATION_WINDOW_ROWS" "page \<le> resolveMaxPaginationPage sz"
  shows "page * sz \<le> MAX_PAGINATION_WINDOW_ROWS"
proof -
  have "1 \<le> MAX_PAGINATION_WINDOW_ROWS div sz"
    using assms zdiv_mono1 [of sz MAX_PAGINATION_WINDOW_ROWS sz] by simp
  then have "page \<le> MAX_PAGINATION_WINDOW_ROWS div sz" using assms by (simp add: resolveMaxPaginationPage_def)
  then have "page * sz \<le> MAX_PAGINATION_WINDOW_ROWS div sz * sz" using assms by (intro mult_right_mono) auto
  also have "\<dots> \<le> MAX_PAGINATION_WINDOW_ROWS" using assms by (simp add: minus_mod_eq_div_mult [symmetric])
  finally show ?thesis .
qed

text \<open>Table and chart show the same period: in a live window without a past period, the table asks for exactly
  the last minutes of the window before the snapshot, and the chart keeps, of the minutes the statistics service
  answers with, none outside that period when it asked for a longer one.\<close>

theorem window_agrees:
  assumes "bounded_window w" "\<not> hasRealtimeExplicitTimeRange r"
    and "in_iso_range (snapshot_ms c snapshotTo)" "in_iso_range (snapshot_ms c snapshotTo - resolveRealtimeWindowDurationMS w)"
  shows "\<exists>lower upper. buildRealtimeTableTimeRange c w snapshotTo r = \<lparr>tr_from = Some lower, tr_to = Some upper\<rparr>
    \<and> date_of c upper = Some (snapshot_ms c snapshotTo)
    \<and> date_of c lower = Some (snapshot_ms c snapshotTo - resolveRealtimeWindowDurationMS w)
    \<and> resolveRealtimeHistogramRequestTimeRange w r \<noteq> None
    \<and> resolveRealtimeWindowDurationMS w \<le> agg_duration (the (resolveRealtimeHistogramRequestTimeRange w r))
    \<and> (resolveRealtimeWindowDurationMS w < agg_duration (the (resolveRealtimeHistogramRequestTimeRange w r)) \<longrightarrow>
        (\<forall>b \<in> set (filterRealtimeHistogramBucketsByLiveWindow c w snapshotTo buckets).
           bucket_within c (the (date_of c lower)) (the (date_of c upper)) b))"
proof (intro exI conjI)
  let ?lower = "toISOString (snapshot_ms c snapshotTo - resolveRealtimeWindowDurationMS w)"
  let ?upper = "toISOString (snapshot_ms c snapshotTo)"
  show "buildRealtimeTableTimeRange c w snapshotTo r = \<lparr>tr_from = Some ?lower, tr_to = Some ?upper\<rparr>"
    using assms(1,2)
    by (simp add: buildRealtimeTableTimeRange_def Let_def hasRealtimeExplicitTimeRange_iff shouldUseUnboundedRealtimeQuery_def
        bounded_window_def)
  show u: "date_of c ?upper = Some (snapshot_ms c snapshotTo)"
    and l: "date_of c ?lower = Some (snapshot_ms c snapshotTo - resolveRealtimeWindowDurationMS w)"
    using assms(3,4) by (simp_all add: date_of_def date_parse_toISOString)
  show "resolveRealtimeHistogramRequestTimeRange w r \<noteq> None"
    "resolveRealtimeWindowDurationMS w \<le> agg_duration (the (resolveRealtimeHistogramRequestTimeRange w r))"
    using assms(1,2) by (cases w; simp add: resolveRealtimeHistogramRequestTimeRange_def bounded_window_def)+
  show "resolveRealtimeWindowDurationMS w < agg_duration (the (resolveRealtimeHistogramRequestTimeRange w r)) \<longrightarrow>
      (\<forall>b \<in> set (filterRealtimeHistogramBucketsByLiveWindow c w snapshotTo buckets).
         bucket_within c (the (date_of c ?lower)) (the (date_of c ?upper)) b)"
    using assms(1,2) unfolding u l
    by (cases w) (simp_all add: resolveRealtimeHistogramRequestTimeRange_def bounded_window_def
        filterRealtimeHistogramBucketsByLiveWindow_def Let_def)
qed

theorem window_agrees_witness:
  "date_of sample_clock
     (nullish (tr_from (buildRealtimeTableTimeRange sample_clock Last_5m None None)) []) = Some (-300000)"
proof -
  have s: "snapshot_ms sample_clock None = 0" by (simp add: snapshot_ms_def trimmed_text_def sample_clock_def)
  have "in_iso_range 0" "in_iso_range (-300000)" by code_simp+
  then show ?thesis
    using window_agrees [of Last_5m None sample_clock None "[]"] by (auto simp: s bounded_window_def)
qed

end
