(* ===== verification/Realtime_Cursor.thy ===== *)
theory Realtime_Cursor
  imports Realtime_Window
begin

text \<open>
  Deep pages of the search page (\<open>pages/search/RealtimeSearch.tsx\<close>). The service serves the first ten thousand
  rows by page number; later pages are asked for by a cursor, the sort values of the row before the page within a
  point in time. The page keeps the cursors it has met by page number, and \<open>ensureRealtimePageCursor\<close> goes on from
  the nearest one, page by page, until it has that of the page wanted.

  That function waits for an answer at two places. It is modelled by its \<open>progress\<close>: either it is done, or it
  has sent a request and remembers where it waits (\<open>locating\<close>). Run in one go it is
  \<open>ensureRealtimePageCursor\<close> below; the page of \<open>Realtime_Page\<close> resumes it when an answer arrives.
\<close>

section \<open>Cursors\<close>

record page_cursor =
  cu_pitId :: "string option"
  cu_searchAfter :: "json list option"

type_synonym cursor_map = "(int, page_cursor) jsmap"

definition cloneSearchAfter :: "json list option \<Rightarrow> json list option" where
  "cloneSearchAfter searchAfter = (case searchAfter of Some (x # xs) \<Rightarrow> Some (x # xs) | _ \<Rightarrow> None)"

definition buildRealtimePageCursor :: "string option \<Rightarrow> json list option \<Rightarrow> page_cursor option" where
  "buildRealtimePageCursor pitId searchAfter =
     (let normalizedPitId = (if trimmed_text pitId = [] then None else Some (trimmed_text pitId));
          normalizedSearchAfter = cloneSearchAfter searchAfter
      in if normalizedPitId = None \<and> normalizedSearchAfter = None then None
         else Some \<lparr>cu_pitId = normalizedPitId, cu_searchAfter = normalizedSearchAfter\<rparr>)"

definition cloneRealtimePageCursor :: "page_cursor option \<Rightarrow> page_cursor option" where
  "cloneRealtimePageCursor cursor = Option.bind cursor (\<lambda>c. buildRealtimePageCursor (cu_pitId c) (cu_searchAfter c))"

definition cloneRealtimePageCursorMap :: "cursor_map \<Rightarrow> cursor_map" where
  "cloneRealtimePageCursorMap source =
     List.map_filter (\<lambda>(page, cursor). map_option (Pair page) (cloneRealtimePageCursor (Some cursor))) source"

definition refreshCursorMapPitID :: "string \<Rightarrow> cursor_map \<Rightarrow> cursor_map" where
  "refreshCursorMapPitID pitId cursorMap =
     (let normalizedPitId = trim pitId
      in if normalizedPitId = [] then cursorMap
         else map (\<lambda>(page, cursor). (page,
                \<lparr>cu_pitId = Some normalizedPitId, cu_searchAfter = cloneSearchAfter (cu_searchAfter cursor)\<rparr>)) cursorMap)"

definition has_position :: "page_cursor \<Rightarrow> bool" where
  "has_position cursor \<longleftrightarrow> cloneSearchAfter (cu_searchAfter cursor) \<noteq> None"

definition shouldBlockRealtimeDirectPageJump :: "int \<Rightarrow> int \<Rightarrow> bool \<Rightarrow> page_cursor option \<Rightarrow> bool" where
  "shouldBlockRealtimeDirectPageJump page pageSize deepPaginationRestricted cursor \<longleftrightarrow>
     deepPaginationRestricted \<and> resolveMaxPaginationPage pageSize < page \<and> cursor = None"

definition shouldResolveRealtimeDeepPageCursor :: "int \<Rightarrow> int \<Rightarrow> page_cursor option \<Rightarrow> bool" where
  "shouldResolveRealtimeDeepPageCursor page pageSize cursor \<longleftrightarrow>
     resolveMaxPaginationPage pageSize < page \<and> (case cursor of None \<Rightarrow> True | Some c \<Rightarrow> \<not> has_position c)"

section \<open>Finding the cursor of a deep page\<close>

record cursor_options =
  co_targetPage :: int
  co_pageSize :: int
  co_queryText :: string
  co_filters :: json
  co_timeRange :: time_range
  co_cursorMap :: cursor_map

text \<open>Where it waits: for the last page that is served by number, or for a page asked for by its cursor.\<close>

datatype locating = Bridging cursor_map | Stepping cursor_map int page_cursor

datatype progress = Located cursor_map "page_cursor option" | Asking logs_payload locating

definition cursor_payload :: "cursor_options \<Rightarrow> int \<Rightarrow> string option \<Rightarrow> json list option \<Rightarrow> logs_payload" where
  "cursor_payload opts page pitId searchAfter =
     \<lparr>lp_keywords = co_queryText opts, lp_page = page, lp_pageSize = co_pageSize opts, lp_filters = Some (co_filters opts),
      lp_timeRange = Some (co_timeRange opts), lp_pitId = pitId, lp_searchAfter = searchAfter, lp_recordHistory = False\<rparr>"

definition nearest_page :: "int \<Rightarrow> cursor_map \<Rightarrow> int" where
  "nearest_page targetPage cursorMap =
     fold (\<lambda>(page, cursor) currentPage.
       if page \<le> targetPage \<and> currentPage < page \<and> has_position cursor then page else currentPage) cursorMap 0"

text \<open>The test of the loop.\<close>

definition locate_on :: "cursor_options \<Rightarrow> cursor_map \<Rightarrow> int \<Rightarrow> page_cursor option \<Rightarrow> progress" where
  "locate_on opts cursorMap currentPage currentCursor =
     (case currentCursor of
        Some cur \<Rightarrow>
          if currentPage < co_targetPage opts
          then Asking (cursor_payload opts currentPage (cu_pitId cur) (cu_searchAfter cur)) (Stepping cursorMap currentPage cur)
          else Located cursorMap (cloneRealtimePageCursor (jm_get cursorMap (co_targetPage opts)))
      | None \<Rightarrow> Located cursorMap (cloneRealtimePageCursor (jm_get cursorMap (co_targetPage opts))))"

definition start_locating :: "cursor_options \<Rightarrow> progress" where
  "start_locating opts =
     (let nextCursorMap = cloneRealtimePageCursorMap (co_cursorMap opts);
          maxPaginationPage = resolveMaxPaginationPage (co_pageSize opts);
          cachedTargetCursor = cloneRealtimePageCursor (jm_get nextCursorMap (co_targetPage opts))
      in if co_targetPage opts \<le> maxPaginationPage
            \<or> \<not> shouldResolveRealtimeDeepPageCursor (co_targetPage opts) (co_pageSize opts) cachedTargetCursor
         then Located nextCursorMap cachedTargetCursor
         else (let rootCursor = cloneRealtimePageCursor (jm_get nextCursorMap 1);
                   currentPage = nearest_page (co_targetPage opts) nextCursorMap;
                   currentCursor = (if 0 < currentPage then cloneRealtimePageCursor (jm_get nextCursorMap currentPage) else None)
               in case currentCursor of
                    None \<Rightarrow> Asking (cursor_payload opts maxPaginationPage (Option.bind rootCursor cu_pitId) None)
                              (Bridging nextCursorMap)
                  | Some cur \<Rightarrow> locate_on opts nextCursorMap currentPage (Some cur)))"

definition set_cursor :: "int \<Rightarrow> page_cursor option \<Rightarrow> cursor_map \<Rightarrow> cursor_map" where
  "set_cursor page cursor cursorMap = (case cursor of None \<Rightarrow> cursorMap | Some c \<Rightarrow> jm_set page c cursorMap)"

fun resume_locating :: "cursor_options \<Rightarrow> locating \<Rightarrow> logs_result \<Rightarrow> progress" where
  "resume_locating opts (Bridging cursorMap) bridgeResult =
     (let bridgePitId = trimmed_text (lr_pitId bridgeResult);
          refreshed = (if bridgePitId = [] then cursorMap
                       else jm_set 1 \<lparr>cu_pitId = Some bridgePitId, cu_searchAfter = None\<rparr>
                              (refreshCursorMapPitID bridgePitId cursorMap));
          currentPage = resolveMaxPaginationPage (co_pageSize opts) + 1;
          currentCursor = buildRealtimePageCursor (Some bridgePitId) (lr_nextSearchAfter bridgeResult)
      in locate_on opts (set_cursor currentPage currentCursor refreshed) currentPage currentCursor)"
| "resume_locating opts (Stepping cursorMap page cur) stepResult =
     (let nextPitId = or_str (trimmed_text (lr_pitId stepResult)) (trimmed_text (cu_pitId cur));
          refreshed = (if nextPitId = [] then cursorMap else refreshCursorMapPitID nextPitId cursorMap);
          currentPage = page + 1;
          currentCursor = buildRealtimePageCursor (Some nextPitId) (lr_nextSearchAfter stepResult)
      in locate_on opts (set_cursor currentPage currentCursor refreshed) currentPage currentCursor)"

fun waiting_map :: "locating \<Rightarrow> cursor_map" where
  "waiting_map (Bridging cursorMap) = cursorMap"
| "waiting_map (Stepping cursorMap page cur) = cursorMap"

text \<open>How many requests are still to come, at most.\<close>

fun rest_requests :: "cursor_options \<Rightarrow> progress \<Rightarrow> nat" where
  "rest_requests opts (Located cursorMap cursor) = 0"
| "rest_requests opts (Asking p (Bridging cursorMap)) = nat (co_targetPage opts) + 2"
| "rest_requests opts (Asking p (Stepping cursorMap page cur)) = nat (co_targetPage opts - page) + 1"

lemma resume_locating_less: "rest_requests opts (resume_locating opts loc r) < rest_requests opts (Asking p loc)"
  by (cases loc)
    (auto simp: locate_on_def Let_def resolveMaxPaginationPage_def max_def split: option.splits)

text \<open>
  Run in one go: \<open>ask\<close> is the search, \<open>stale\<close> tells after an answer whether a newer search has begun.
\<close>

function run_locating ::
    "cursor_options \<Rightarrow> ('w \<Rightarrow> bool) \<Rightarrow> (logs_payload \<Rightarrow> 'w \<Rightarrow> ('e + logs_result) \<times> 'w) \<Rightarrow> progress \<Rightarrow> 'w
     \<Rightarrow> ('e + cursor_map \<times> page_cursor option) \<times> 'w" where
  "run_locating opts stale ask (Located cursorMap cursor) w = (Inr (cursorMap, cursor), w)"
| "run_locating opts stale ask (Asking p loc) w =
     (case ask p w of
        (Inl e, w') \<Rightarrow> (Inl e, w')
      | (Inr r, w') \<Rightarrow>
          if stale w' then (Inr (waiting_map loc, None), w')
          else run_locating opts stale ask (resume_locating opts loc r) w')"
  by pat_completeness auto
termination
  by (relation "measure (\<lambda>(opts, stale, ask, pr, w). rest_requests opts pr)")
     (auto simp del: rest_requests.simps resume_locating.simps intro: resume_locating_less)

definition ensureRealtimePageCursor ::
    "cursor_options \<Rightarrow> ('w \<Rightarrow> bool) \<Rightarrow> (logs_payload \<Rightarrow> 'w \<Rightarrow> ('e + logs_result) \<times> 'w) \<Rightarrow> 'w
     \<Rightarrow> ('e + cursor_map \<times> page_cursor option) \<times> 'w" where
  "ensureRealtimePageCursor opts stale ask = run_locating opts stale ask (start_locating opts)"

section \<open>The cursor is found\<close>

text \<open>
  A service with \<open>n\<close> rows, \<open>after i\<close> being the sort values of the \<open>i\<close>-th row. It serves the first ten thousand by
  page number and any others by cursor, and tells the sort values of the last row it sent. What it does with other
  requests is left open. The world counts the requests.
\<close>

definition answers_from :: "(nat \<Rightarrow> json list) \<Rightarrow> nat \<Rightarrow> (logs_payload \<Rightarrow> nat \<Rightarrow> ('e + logs_result) \<times> nat) \<Rightarrow> nat \<Rightarrow> logs_payload \<Rightarrow> bool" where
  "answers_from after n ask i p \<longleftrightarrow>
     (\<forall>k. \<exists>r. ask p k = (Inr r, k + 1)
        \<and> lr_nextSearchAfter r = (if i < n then Some (after (min n (i + nat (lp_pageSize p)))) else None))"

definition serves_pages :: "(nat \<Rightarrow> json list) \<Rightarrow> nat \<Rightarrow> (logs_payload \<Rightarrow> nat \<Rightarrow> ('e + logs_result) \<times> nat) \<Rightarrow> bool" where
  "serves_pages after n ask \<longleftrightarrow>
     (\<forall>i. after i \<noteq> [])
     \<and> (\<forall>p. lp_searchAfter p = None \<and> 1 \<le> lp_page p \<and> lp_page p * lp_pageSize p \<le> MAX_PAGINATION_WINDOW_ROWS
            \<longrightarrow> answers_from after n ask (nat ((lp_page p - 1) * lp_pageSize p)) p)
     \<and> (\<forall>p i. lp_searchAfter p = Some (after i) \<longrightarrow> answers_from after n ask i p)"

definition positions_ok :: "(nat \<Rightarrow> json list) \<Rightarrow> int \<Rightarrow> cursor_map \<Rightarrow> bool" where
  "positions_ok after sz cursorMap \<longleftrightarrow>
     list_all (\<lambda>(page, c). has_position c \<longrightarrow> cu_searchAfter c = Some (after (nat ((page - 1) * sz)))) cursorMap"

lemma cloneSearchAfter_simps [simp]:
  "cloneSearchAfter None = None" "cloneSearchAfter (Some []) = None" "xs \<noteq> [] \<Longrightarrow> cloneSearchAfter (Some xs) = Some xs"
  by (auto simp: cloneSearchAfter_def split: list.split)

lemma cloneSearchAfter_cases: "cloneSearchAfter v = None \<or> cloneSearchAfter v = v"
  by (auto simp: cloneSearchAfter_def split: option.split list.split)

lemma has_position_iff: "has_position c \<longleftrightarrow> (\<exists>xs. cu_searchAfter c = Some xs \<and> xs \<noteq> [])"
  by (auto simp: has_position_def cloneSearchAfter_def split: option.splits list.splits)

lemma clone_cursor_position:
  "cloneRealtimePageCursor (Some c) = Some c' \<Longrightarrow> has_position c' = has_position c \<and> (has_position c \<longrightarrow> cu_searchAfter c' = cu_searchAfter c)"
  using cloneSearchAfter_cases [of "cu_searchAfter c"]
  by (auto simp: cloneRealtimePageCursor_def buildRealtimePageCursor_def Let_def has_position_def simp del: not_None_eq
      split: if_splits)

lemma clone_cursor_Some: "has_position c \<Longrightarrow> \<exists>c'. cloneRealtimePageCursor (Some c) = Some c'"
  by (auto simp: cloneRealtimePageCursor_def buildRealtimePageCursor_def Let_def has_position_def)

lemma in_clone_map:
  "(page, c') \<in> set (cloneRealtimePageCursorMap m) \<Longrightarrow> \<exists>c. (page, c) \<in> set m \<and> cloneRealtimePageCursor (Some c) = Some c'"
  by (auto simp: cloneRealtimePageCursorMap_def set_map_filter)

lemma positions_ok_clone: "positions_ok after sz m \<Longrightarrow> positions_ok after sz (cloneRealtimePageCursorMap m)"
  unfolding positions_ok_def list_all_iff by (fastforce dest!: in_clone_map clone_cursor_position)

lemma positions_ok_refresh: "positions_ok after sz m \<Longrightarrow> positions_ok after sz (refreshCursorMapPitID pit m)"
  unfolding positions_ok_def refreshCursorMapPitID_def
  by (fastforce simp: list_all_iff Let_def has_position_iff cloneSearchAfter_def split: option.splits list.splits)

lemma positions_ok_set:
  "positions_ok after sz m \<Longrightarrow> (has_position c \<Longrightarrow> cu_searchAfter c = Some (after (nat ((page - 1) * sz))))
    \<Longrightarrow> positions_ok after sz (jm_set page c m)"
  unfolding positions_ok_def by (induction page c m rule: jm_set.induct) auto

lemma positions_ok_get:
  "positions_ok after sz m \<Longrightarrow> jm_get m page = Some c \<Longrightarrow> has_position c \<Longrightarrow> cu_searchAfter c = Some (after (nat ((page - 1) * sz)))"
  unfolding positions_ok_def jm_get_def by (auto simp: list_all_iff dest: map_of_SomeD)

lemma build_cursor_position:
  "xs \<noteq> [] \<Longrightarrow> \<exists>pit. buildRealtimePageCursor v (Some xs) = Some \<lparr>cu_pitId = pit, cu_searchAfter = Some xs\<rparr>"
  by (simp add: buildRealtimePageCursor_def Let_def)

lemma served_by_number:
  "serves_pages after n ask \<Longrightarrow> lp_searchAfter p = None \<Longrightarrow> 1 \<le> lp_page p
     \<Longrightarrow> lp_page p * lp_pageSize p \<le> MAX_PAGINATION_WINDOW_ROWS
     \<Longrightarrow> answers_from after n ask (nat ((lp_page p - 1) * lp_pageSize p)) p"
  by (simp add: serves_pages_def)

lemma answered:
  "answers_from after n ask i p \<Longrightarrow> i < n \<Longrightarrow>
     \<exists>r. ask p k = (Inr r, k + 1) \<and> lr_nextSearchAfter r = Some (after (min n (i + nat (lp_pageSize p))))"
  by (auto simp: answers_from_def)

lemma next_position:
  fixes n :: nat
  assumes "1 \<le> sz" "1 \<le> page" "page * sz < int n"
  shows "nat ((page - 1) * sz) < n" "min n (nat ((page - 1) * sz) + nat sz) = nat (page * sz)"
proof -
  have "(page - 1) * sz = page * sz - sz" by (simp add: algebra_simps)
  moreover have "0 \<le> (page - 1) * sz" using assms by simp
  ultimately show "nat ((page - 1) * sz) < n" "min n (nat ((page - 1) * sz) + nat sz) = nat (page * sz)"
    using assms by linarith+
qed

lemma run_steps:
  assumes serves: "serves_pages after n ask" and sz: "1 \<le> co_pageSize opts"
    and exists: "(co_targetPage opts - 1) * co_pageSize opts < int n"
  shows "positions_ok after (co_pageSize opts) m \<Longrightarrow> jm_get m page = Some kept \<Longrightarrow> has_position kept
    \<Longrightarrow> cu_searchAfter cur = Some (after (nat ((page - 1) * co_pageSize opts))) \<Longrightarrow> 1 \<le> page \<Longrightarrow> page \<le> co_targetPage opts
    \<Longrightarrow> \<exists>m' c. run_locating opts (\<lambda>_. False) ask (locate_on opts m page (Some cur)) k
          = (Inr (m', Some c), k + nat (co_targetPage opts - page))
        \<and> cu_searchAfter c = Some (after (nat ((co_targetPage opts - 1) * co_pageSize opts)))
        \<and> positions_ok after (co_pageSize opts) m'"
proof (induction "nat (co_targetPage opts - page)" arbitrary: m page kept cur k)
  case 0
  let ?sz = "co_pageSize opts"
  have "page = co_targetPage opts" using 0 by simp
  moreover obtain c where "cloneRealtimePageCursor (Some kept) = Some c" using clone_cursor_Some 0(4) by blast
  moreover have "cu_searchAfter kept = Some (after (nat ((page - 1) * ?sz)))" using positions_ok_get 0 by blast
  ultimately show ?case using clone_cursor_position [of kept c] 0 by (auto simp: locate_on_def)
next
  case (Suc d)
  let ?sz = "co_pageSize opts"
  let ?p = "cursor_payload opts page (cu_pitId cur) (cu_searchAfter cur)"
  have page: "page < co_targetPage opts" "page \<le> co_targetPage opts - 1" using Suc(2) by simp_all
  then have "page * ?sz \<le> (co_targetPage opts - 1) * ?sz" using sz by (intro mult_right_mono) auto
  then have room: "page * ?sz < int n" using exists by simp
  have "answers_from after n ask (nat ((page - 1) * ?sz)) ?p"
    using serves Suc(6) by (simp add: serves_pages_def cursor_payload_def)
  from answered [OF this next_position(1) [OF sz Suc(7) room], of k] obtain r
    where r: "ask ?p k = (Inr r, k + 1)" "lr_nextSearchAfter r = Some (after (nat (page * ?sz)))"
    using next_position(2) [OF sz Suc(7) room] by (auto simp: cursor_payload_def)
  define pit where "pit = or_str (trimmed_text (lr_pitId r)) (trimmed_text (cu_pitId cur))"
  define m1 where "m1 = (if pit = [] then m else refreshCursorMapPitID pit m)"
  have ne: "after (nat (page * ?sz)) \<noteq> []" using serves by (simp add: serves_pages_def)
  obtain cur' where cur': "buildRealtimePageCursor (Some pit) (Some (after (nat (page * ?sz)))) = Some cur'"
    "cu_searchAfter cur' = Some (after (nat ((page + 1 - 1) * ?sz)))"
    using build_cursor_position [OF ne, of "Some pit"] by auto
  have placed: "has_position cur'" using ne cur'(2) by (simp add: has_position_iff)
  have ok: "positions_ok after ?sz (jm_set (page + 1) cur' m1)"
    using Suc(3) cur'(2) by (intro positions_ok_set) (simp_all add: m1_def positions_ok_refresh)
  have d: "d = nat (co_targetPage opts - (page + 1))" "1 \<le> page + 1" "page + 1 \<le> co_targetPage opts"
    using Suc(2,7) page by simp_all
  have "run_locating opts (\<lambda>_. False) ask (locate_on opts m page (Some cur)) k
      = run_locating opts (\<lambda>_. False) ask (locate_on opts (jm_set (page + 1) cur' m1) (page + 1) (Some cur')) (k + 1)"
    using page r cur'(1) by (simp add: locate_on_def [of opts m] set_cursor_def pit_def m1_def Let_def)
  moreover have "k + nat (co_targetPage opts - page) = k + 1 + nat (co_targetPage opts - (page + 1))"
    using page by simp
  moreover have "jm_get (jm_set (page + 1) cur' m1) (page + 1) = Some cur'" by simp
  note Suc(1) [OF d(1) ok this placed cur'(2) d(2,3), of "k + 1"]
  ultimately show ?case by (simp only:)
qed

lemma nearest_page_prop:
  fixes s target :: int
  shows "0 \<le> s \<Longrightarrow> s \<le> target \<Longrightarrow>
   (let q = fold (\<lambda>(page, cursor) currentPage.
       if page \<le> target \<and> currentPage < page \<and> has_position cursor then page else currentPage) m s
    in s \<le> q \<and> q \<le> target \<and> (q = s \<or> (\<exists>c. (q, c) \<in> set m \<and> has_position c))
       \<and> (\<forall>(page, c) \<in> set m. page \<le> target \<and> has_position c \<longrightarrow> page \<le> q))"
proof (induction m arbitrary: s)
  case (Cons e m)
  obtain page c where e: "e = (page, c)" by (cases e)
  define s' where "s' = (if page \<le> target \<and> s < page \<and> has_position c then page else s)"
  have "0 \<le> s'" "s' \<le> target" using Cons(2,3) by (auto simp: s'_def)
  note q = Cons(1) [OF this]
  show ?case using q by (auto simp: Let_def e s'_def split: if_splits)
qed (simp add: Let_def)

lemma nearest_page_cases:
  assumes "0 \<le> target"
  shows "nearest_page target m = 0 \<or> (\<exists>c. (nearest_page target m, c) \<in> set m \<and> has_position c)"
    "0 \<le> nearest_page target m" "nearest_page target m \<le> target"
    "(page, c) \<in> set m \<Longrightarrow> has_position c \<Longrightarrow> page \<le> target \<Longrightarrow> page \<le> nearest_page target m"
  using nearest_page_prop [of 0 target m] assms unfolding nearest_page_def Let_def by auto

lemma jm_wf_clone: "jm_wf m \<Longrightarrow> jm_wf (cloneRealtimePageCursorMap m)"
proof (induction m)
  case (Cons e m)
  then show ?case
    by (cases e)
      (force simp: cloneRealtimePageCursorMap_def jm_wf_def jm_keys_def List.map_filter_simps set_map_filter split: option.split)
qed (simp add: cloneRealtimePageCursorMap_def List.map_filter_simps)

lemma jm_get_set_same: "jm_get (jm_set k v m) k = Some v"
  by simp

text \<open>What locating a deep page ends with: the cursor that continues after the row before it.\<close>

abbreviation found ::
    "(nat \<Rightarrow> json list) \<Rightarrow> cursor_options \<Rightarrow> ('e + cursor_map \<times> page_cursor option) \<times> nat \<Rightarrow> nat \<Rightarrow> bool" where
  "found after opts r k \<equiv> \<exists>m c. r = (Inr (m, Some c), k)
     \<and> cu_searchAfter c = Some (after (nat ((co_targetPage opts - 1) * co_pageSize opts)))
     \<and> positions_ok after (co_pageSize opts) m"

text \<open>From the last page that is served by number, when no cursor is known before the page.\<close>

lemma bridged:
  fixes opts :: cursor_options
  defines "max_page \<equiv> resolveMaxPaginationPage (co_pageSize opts)"
  assumes "serves_pages after n ask" "1 \<le> co_pageSize opts" "co_pageSize opts \<le> MAX_PAGINATION_WINDOW_ROWS"
    and "positions_ok after (co_pageSize opts) m" "max_page < co_targetPage opts"
    and "(co_targetPage opts - 1) * co_pageSize opts < int n"
    and start: "start_locating opts = Asking (cursor_payload opts max_page pit0 None) (Bridging m)"
  shows "found after opts (ensureRealtimePageCursor opts (\<lambda>_. False) ask k) (k + nat (co_targetPage opts - max_page))"
proof -
  let ?sz = "co_pageSize opts" and ?t = "co_targetPage opts" and ?p = "cursor_payload opts max_page pit0 None"
  have pos: "1 \<le> max_page" by (simp add: max_page_def)
  have "max_page * ?sz \<le> (?t - 1) * ?sz" using assms(3,6) by (intro mult_right_mono) auto
  then have room: "max_page * ?sz < int n" using assms(7) by simp
  have "answers_from after n ask (nat ((max_page - 1) * ?sz)) ?p"
    using served_by_number [OF assms(2), of ?p] page_within_window [OF assms(3,4), of max_page] pos
    by (simp add: cursor_payload_def max_page_def)
  from answered [OF this next_position(1) [OF assms(3) pos room], of k] obtain r
    where r: "ask ?p k = (Inr r, k + 1)" "lr_nextSearchAfter r = Some (after (nat (max_page * ?sz)))"
    using next_position(2) [OF assms(3) pos room] by (auto simp: cursor_payload_def)
  define pit where "pit = trimmed_text (lr_pitId r)"
  define m1 where "m1 = (if pit = [] then m else jm_set 1 \<lparr>cu_pitId = Some pit, cu_searchAfter = None\<rparr> (refreshCursorMapPitID pit m))"
  have ne: "after (nat (max_page * ?sz)) \<noteq> []" using assms(2) by (simp add: serves_pages_def)
  obtain cur where cur: "buildRealtimePageCursor (Some pit) (Some (after (nat (max_page * ?sz)))) = Some cur"
    "cu_searchAfter cur = Some (after (nat ((max_page + 1 - 1) * ?sz)))"
    using build_cursor_position [OF ne, of "Some pit"] by auto
  have placed: "has_position cur" using ne cur(2) by (simp add: has_position_iff)
  have "positions_ok after ?sz m1"
    using assms(5) by (auto simp: m1_def has_position_def intro!: positions_ok_set positions_ok_refresh)
  then have ok: "positions_ok after ?sz (jm_set (max_page + 1) cur m1)" using cur(2) by (intro positions_ok_set) simp_all
  have "ensureRealtimePageCursor opts (\<lambda>_. False) ask k
      = run_locating opts (\<lambda>_. False) ask (locate_on opts (jm_set (max_page + 1) cur m1) (max_page + 1) (Some cur)) (k + 1)"
    using r cur(1) by (simp add: ensureRealtimePageCursor_def start set_cursor_def Let_def flip: pit_def m1_def max_page_def)
  moreover have "1 \<le> max_page + 1" "max_page + 1 \<le> ?t" using pos assms(6) by linarith+
  note run_steps [OF assms(2,3,7) ok jm_get_set_same placed cur(2) this, of "k + 1"]
  moreover have "k + nat (?t - max_page) = k + 1 + nat (?t - (max_page + 1))" using assms(6) by simp
  ultimately show ?thesis by (simp only:)
qed

text \<open>From the nearest page whose cursor is known.\<close>

lemma stepped:
  assumes "serves_pages after n ask" "1 \<le> co_pageSize opts" "jm_wf m" "positions_ok after (co_pageSize opts) m"
    and m: "m = cloneRealtimePageCursorMap (co_cursorMap opts)" and q: "q = nearest_page (co_targetPage opts) m"
    and "resolveMaxPaginationPage (co_pageSize opts) < co_targetPage opts" "q \<noteq> 0" "1 \<le> q"
    and "(co_targetPage opts - 1) * co_pageSize opts < int n"
  shows "found after opts (ensureRealtimePageCursor opts (\<lambda>_. False) ask k) (k + nat (co_targetPage opts - q))"
proof -
  let ?sz = "co_pageSize opts" and ?t = "co_targetPage opts"
  have t: "0 \<le> ?t" using assms(7) resolveMaxPaginationPage_pos [of ?sz] by linarith
  note near = nearest_page_cases [OF t, where m = m, folded q]
  have get: "jm_get m page = Some c" if "(page, c) \<in> set m" for page c
    using assms(3) that by (simp add: jm_get_def jm_wf_def jm_keys_def)
  obtain c where c: "(q, c) \<in> set m" "has_position c" using near(1) assms(8) by blast
  then obtain c' where c': "cloneRealtimePageCursor (Some c) = Some c'" using clone_cursor_Some by blast
  have at: "cu_searchAfter c' = Some (after (nat ((q - 1) * ?sz)))" "has_position c'"
    using clone_cursor_position [OF c'] c positions_ok_get [OF assms(4) get [OF c(1)]] by simp_all
  show ?thesis
  proof (cases "shouldResolveRealtimeDeepPageCursor ?t ?sz (cloneRealtimePageCursor (jm_get m ?t))")
    case True
    then have "start_locating opts = locate_on opts m q (Some c')"
      using assms(7,8) near(2) get [OF c(1)] c' by (simp add: start_locating_def Let_def flip: m q)
    then show ?thesis
      using run_steps [OF assms(1,2,10,4) get [OF c(1)] c(2) at(1) assms(9) near(3), of k]
      by (simp add: ensureRealtimePageCursor_def Let_def)
  next
    case False
    then obtain kept t' where kept: "jm_get m ?t = Some kept" "cloneRealtimePageCursor (Some kept) = Some t'" "has_position t'"
      using assms(7)
      by (cases "jm_get m ?t"; cases "cloneRealtimePageCursor (jm_get m ?t)")
        (auto simp: shouldResolveRealtimeDeepPageCursor_def cloneRealtimePageCursor_def [of None])
    have "has_position kept" "cu_searchAfter t' = cu_searchAfter kept" using clone_cursor_position [OF kept(2)] kept(3) by simp_all
    moreover from this have "q = ?t"
      using near(3) near(4) [of ?t kept] kept(1) by (force simp: jm_get_def dest: map_of_SomeD)
    moreover have "start_locating opts = Located m (Some t')"
      using False kept by (simp add: start_locating_def Let_def flip: m)
    ultimately show ?thesis
      using positions_ok_get [OF assms(4) kept(1)] assms(4) by (simp add: ensureRealtimePageCursor_def)
  qed
qed

text \<open>C30: The cursor of a deep page is found: against a service with \<open>n\<close> rows that serves the first ten thousand by
  number and others by cursor, locating any page that exists, from any cursors met so far, ends with the cursor
  that continues after the row before the page. No request is made that the service would not serve, and exactly
  one for every page between the nearest known cursor (or the last page served by number) and the page wanted.\<close>

theorem deep_page_located:
  assumes "serves_pages after n ask" "1 \<le> co_pageSize opts" "co_pageSize opts \<le> MAX_PAGINATION_WINDOW_ROWS"
    and "jm_wf (co_cursorMap opts)" "positions_ok after (co_pageSize opts) (co_cursorMap opts)"
    and "list_all (\<lambda>(page, c). 1 \<le> page) (co_cursorMap opts)"
    and "resolveMaxPaginationPage (co_pageSize opts) < co_targetPage opts"
    and "(co_targetPage opts - 1) * co_pageSize opts < int n"
  shows "\<exists>m c. ensureRealtimePageCursor opts (\<lambda>_. False) ask k
      = (Inr (m, Some c),
         k + nat (co_targetPage opts -
               (let q = nearest_page (co_targetPage opts) (cloneRealtimePageCursorMap (co_cursorMap opts))
                in if q = 0 then resolveMaxPaginationPage (co_pageSize opts) else q)))
    \<and> cu_searchAfter c = Some (after (nat ((co_targetPage opts - 1) * co_pageSize opts)))
    \<and> positions_ok after (co_pageSize opts) m"
proof -
  let ?sz = "co_pageSize opts" and ?t = "co_targetPage opts" and ?max = "resolveMaxPaginationPage (co_pageSize opts)"
  define m where "m = cloneRealtimePageCursorMap (co_cursorMap opts)"
  define q where "q = nearest_page ?t m"
  have wf: "jm_wf m" and ok: "positions_ok after ?sz m" and pos: "\<And>page c. (page, c) \<in> set m \<Longrightarrow> 1 \<le> page"
    using assms(4-6) unfolding m_def by (auto simp: jm_wf_clone positions_ok_clone list_all_iff dest!: in_clone_map)
  have t: "0 \<le> ?t" using assms(7) resolveMaxPaginationPage_pos [of ?sz] by linarith
  note near = nearest_page_cases [OF t, where m = m, folded q_def]
  show ?thesis
  proof (cases "q = 0")
    case True
    have "jm_get m ?t = Some c \<Longrightarrow> \<not> has_position c" for c
      using near(4) [of ?t c] True t assms(7) resolveMaxPaginationPage_pos [of ?sz] by (force simp: jm_get_def dest: map_of_SomeD)
    then have "shouldResolveRealtimeDeepPageCursor ?t ?sz (cloneRealtimePageCursor (jm_get m ?t))"
      using assms(7) by (cases "jm_get m ?t")
        (auto simp: shouldResolveRealtimeDeepPageCursor_def cloneRealtimePageCursor_def [of None] dest: clone_cursor_position split: option.split)
    then have start: "start_locating opts
        = Asking (cursor_payload opts ?max (Option.bind (cloneRealtimePageCursor (jm_get m 1)) cu_pitId) None) (Bridging m)"
      using assms(7) True by (simp add: start_locating_def Let_def flip: m_def q_def)
    show ?thesis
      using bridged [OF assms(1-3) ok assms(7,8) start, of k] True by (simp only: Let_def simp_thms if_True m_def [symmetric] q_def [symmetric])
  next
    case False
    then have "1 \<le> q" using near(1) pos by blast
    then show ?thesis
      using stepped [OF assms(1,2) wf ok m_def q_def assms(7) False _ assms(8), of k] False
      by (simp only: Let_def if_False m_def [symmetric] q_def [symmetric])
  qed
qed

text \<open>A service with \<open>n\<close> rows, whose sort value is their number.\<close>

definition row_service :: "nat \<Rightarrow> logs_payload \<Rightarrow> nat \<Rightarrow> (query_error + logs_result) \<times> nat" where
  "row_service n p k =
     (let i = (case lp_searchAfter p of Some [JNum q] \<Rightarrow> nat \<lfloor>q\<rfloor> | _ \<Rightarrow> nat ((lp_page p - 1) * lp_pageSize p))
      in (Inr \<lparr>lr_hits = [], lr_total = of_nat n, lr_totalIsLowerBound = False, lr_page = of_int (lp_page p),
            lr_pageSize = of_int (lp_pageSize p), lr_hasNext = True, lr_queryTimeMS = 1, lr_timedOut = False,
            lr_aggregations = JNull, lr_pitId = Some ''pit'',
            lr_nextSearchAfter = (if i < n then Some [JNum (of_nat (min n (i + nat (lp_pageSize p))))] else None)\<rparr>, k + 1))"

definition fourth_page :: cursor_options where
  "fourth_page = \<lparr>co_targetPage = 4, co_pageSize = 10000, co_queryText = [], co_filters = JObj [],
     co_timeRange = \<lparr>tr_from = None, tr_to = None\<rparr>, co_cursorMap = [(1, \<lparr>cu_pitId = Some ''old'', cu_searchAfter = None\<rparr>)]\<rparr>"

lemma row_service_serves: "serves_pages (\<lambda>i. [JNum (of_nat i)]) n (row_service n)"
  by (auto simp: serves_pages_def answers_from_def row_service_def Let_def)

theorem deep_page_located_witness:
  "\<exists>m c. ensureRealtimePageCursor fourth_page (\<lambda>_. False) (row_service 40000) 0 = (Inr (m, Some c), 3)
     \<and> cu_searchAfter c = Some [JNum 30000]"
proof -
  have near: "nearest_page 4 (cloneRealtimePageCursorMap (co_cursorMap fourth_page)) = 0" by code_simp
  have ok: "positions_ok (\<lambda>i. [JNum (of_nat i)]) 10000 (co_cursorMap fourth_page)" "jm_wf (co_cursorMap fourth_page)"
    "list_all (\<lambda>(page, c). 1 \<le> page) (co_cursorMap fourth_page)"
    by (simp_all add: fourth_page_def positions_ok_def has_position_def jm_wf_def)
  have sz: "co_pageSize fourth_page = 10000" "co_targetPage fourth_page = 4" "resolveMaxPaginationPage 10000 = 1"
    by (simp_all add: fourth_page_def resolveMaxPaginationPage_def MAX_PAGINATION_WINDOW_ROWS_def)
  have n: "4 - 1 = (3::int)" "(3::int) * 10000 < int 40000" by simp_all
  show ?thesis
    using deep_page_located [OF row_service_serves [of 40000], of fourth_page 0] ok n
    by (simp add: sz near MAX_PAGINATION_WINDOW_ROWS_def) blast
qed

end
