(* ===== verification/Page_Base.thy ===== *)
theory Page_Base
  imports Json
begin

text \<open>
  What the pages share: the messages they show for a moment, and comparisons of numbers that may be no numbers.
\<close>

datatype notice = Info string | Success_Notice string | Warning string | Error_Notice string

text \<open>\<open>x < b\<close> and \<open>x > b\<close> for a number \<open>b\<close>; both are false of \<open>NaN\<close>.\<close>

definition num_lt :: "jsnum \<Rightarrow> rat \<Rightarrow> bool" where
  "num_lt x b \<longleftrightarrow> (case x of Fin q \<Rightarrow> q < b | NegInf \<Rightarrow> True | _ \<Rightarrow> False)"

lemma num_lt_simps [simp, js_eval]: "num_lt (Fin q) b \<longleftrightarrow> q < b" "\<not> num_lt PosInf b" "num_lt NegInf b" "\<not> num_lt NaN b"
  by (simp_all add: num_lt_def)

text \<open>A list without its \<open>i\<close>-th element: the request that has been answered.\<close>

definition drop_at :: "nat \<Rightarrow> 'a list \<Rightarrow> 'a list" where
  "drop_at i xs = take i xs @ drop (i + 1) xs"

lemma set_drop_at: "set (drop_at i xs) \<subseteq> set xs"
  by (auto simp: drop_at_def dest: in_set_takeD in_set_dropD)

end
