(* ===== verification/Realtime_Page.thy ===== *)
theory Realtime_Page
  imports Realtime_Cursor Stores Page_Base
begin

text \<open>
  The search page (\<open>pages/search/RealtimeSearch.tsx\<close>) as a state machine. The record \<open>page\<close> holds the state
  variables (\<open>rs_\<close>) and the refs (\<open>rf_\<close>) of the component, and the searches that wait for an answer. A handler, a
  timer or an effect is one step; \<open>executeQuery\<close> is cut at its awaits: \<open>begin_search\<close> runs to the first one, and
  each \<open>on_\<close> function from one answer to the next await. Between two awaits any other step may happen, with any
  answer, error or abort as the outcome of a request.

  A handler sees the values of the render it belongs to. They are the state \<open>cl\<close> in which the handler starts: what it
  sets itself is seen only by the next one, as in React. The refs that effects keep equal to the state
  (\<open>activeQueryRef\<close>, \<open>pageSizeRef\<close>, \<open>currentPageRef\<close>) are read from the state.

  Arguments: \<open>lc\<close>, the sign of \<open>localeCompare\<close>, and \<open>locale_time\<close>, the local rendering of a time.
\<close>

section \<open>The state\<close>

record query_options =
  qo_queryText :: string
  qo_page :: int
  qo_pageSize :: int
  qo_silent :: bool
  qo_recordHistory :: bool
  qo_snapshotTo :: "string option"
  qo_cursor :: "page_cursor option"
  qo_resetCursor :: bool
  qo_liveWindowOverride :: "live_window option"
  qo_timeRangeOverride :: "time_range option"
  qo_histogramRefreshMode :: "refresh_mode option"
  qo_levelFilterOverride :: "string option"
  qo_sourceFilterOverride :: "string option"
  qo_extraFiltersOverride :: "filters option"
  qo_autoAll :: bool

definition plain_options :: "string \<Rightarrow> int \<Rightarrow> int \<Rightarrow> query_options" where
  "plain_options queryText page pageSize =
     \<lparr>qo_queryText = queryText, qo_page = page, qo_pageSize = pageSize, qo_silent = True, qo_recordHistory = False,
      qo_snapshotTo = None, qo_cursor = None, qo_resetCursor = False, qo_liveWindowOverride = None,
      qo_timeRangeOverride = None, qo_histogramRefreshMode = None, qo_levelFilterOverride = None,
      qo_sourceFilterOverride = None, qo_extraFiltersOverride = None, qo_autoAll = False\<rparr>"

text \<open>How a search ends, and what its caller does then (\<open>then\<close> and \<open>finally\<close> on the promise).\<close>

datatype search_status = Succeeded | Failed | Stale

datatype continuation = No_Continuation | Restore_Page int int int | End_Retry

text \<open>Where a search waits.\<close>

datatype waiting = Wait_Cursor cursor_options locating | Wait_Table | Wait_Totals | Wait_Errors "aggregate_bucket list"

text \<open>What a search takes from the render its handler belongs to.\<close>

record closure =
  cl_liveWindow :: live_window
  cl_levelFilter :: string
  cl_sourceFilter :: string
  cl_extraFilters :: filters
  cl_customTimeRange :: "time_range option"
  cl_hasLogs :: bool
  cl_hasHistogram :: bool

text \<open>A search under way: its number, its options, the values it has computed, and where it waits.\<close>

record search =
  se_id :: nat
  se_options :: query_options
  se_snapshotTo :: string
  se_liveWindow :: live_window
  se_levelFilter :: string
  se_sourceFilter :: string
  se_extraFilters :: filters
  se_timeRange :: "time_range option"
  se_payload :: logs_payload
  se_histogram :: "agg_params option"
  se_histogramKey :: string
  se_refreshHistogram :: bool
  se_relaxNoise :: bool
  se_closure :: closure
  se_cursorMap :: cursor_map
  se_succeeded :: bool
  se_failedHard :: bool
  se_waiting :: waiting
  se_aborted :: bool
  se_then :: continuation

text \<open>A retry of the chart alone.\<close>

record chart_retry =
  cr_id :: nat
  cr_histogram :: agg_params
  cr_key :: string
  cr_levelFilter :: string
  cr_liveWindow :: live_window
  cr_snapshotTo :: string
  cr_relaxNoise :: bool
  cr_hadHistogram :: bool
  cr_failedHard :: bool
  cr_totals :: "aggregate_bucket list option"
  cr_aborted :: bool

record page =
  rs_query :: string
  rs_activeQuery :: string
  rs_isLive :: bool
  rs_liveWindow :: live_window
  rs_customTimeRange :: "time_range option"
  rs_recentQueries :: "string list"
  rs_levelFilter :: string
  rs_sourceFilter :: string
  rs_extraFilters :: filters
  rs_logs :: "log_entry list"
  rs_total :: rat
  rs_queryTimeMS :: rat
  rs_queryTimedOut :: bool
  rs_totalIsLowerBound :: bool
  rs_initialLoading :: bool
  rs_tableRefreshing :: bool
  rs_tableUsingStaleData :: bool
  rs_tableErrorText :: string
  rs_tableStaleErrorText :: string
  rs_retryingCurrentQuery :: bool
  rs_retryingHistogram :: bool
  rs_histogramInitialLoading :: bool
  rs_histogramRefreshing :: bool
  rs_histogramUsingStaleData :: bool
  rs_histogramErrorText :: string
  rs_histogramNoiseFilterRelaxed :: bool
  rs_histogramData :: "histogram_point list"
  rs_tableSnapshotTo :: string
  rs_currentPage :: int
  rs_pageSize :: int
  rs_preferences :: preferences
  rs_browser :: browser
  rs_hidden :: bool
  rs_notices :: "notice list"
  rs_locating :: "int option"
  rf_latestQueryRequest :: nat
  rf_latestHistogramRequest :: nat
  rf_inFlightRequestID :: "nat option"
  rf_pageCursorMap :: cursor_map
  rf_liveTimer :: "int option"
  rf_isLive :: bool
  rf_isUnmounted :: bool
  rf_lastHistogramRefreshKey :: string
  rf_lastHistogramFetchedAt :: int
  rf_lastFilterState :: string
  rf_suppressNextLiveTick :: bool
  rf_searches :: "search list"
  rf_chartRetries :: "chart_retry list"

text \<open>The page when it opens.\<close>

definition open_page :: "(string \<Rightarrow> string \<Rightarrow> int) \<Rightarrow> clock \<Rightarrow> preferences \<Rightarrow> browser \<Rightarrow> bool \<Rightarrow> page" where
  "open_page lc c prefs b hidden =
     \<lparr>rs_query = [], rs_activeQuery = [], rs_isLive = True, rs_liveWindow = DEFAULT_LIVE_WINDOW, rs_customTimeRange = None,
      rs_recentQueries = readRealtimeRecentQueries b, rs_levelFilter = [], rs_sourceFilter = [], rs_extraFilters = [],
      rs_logs = [], rs_total = 0, rs_queryTimeMS = 0, rs_queryTimedOut = False, rs_totalIsLowerBound = False,
      rs_initialLoading = True, rs_tableRefreshing = False, rs_tableUsingStaleData = False, rs_tableErrorText = [],
      rs_tableStaleErrorText = [], rs_retryingCurrentQuery = False, rs_retryingHistogram = False,
      rs_histogramInitialLoading = True, rs_histogramRefreshing = False, rs_histogramUsingStaleData = False,
      rs_histogramErrorText = [], rs_histogramNoiseFilterRelaxed = False, rs_histogramData = [],
      rs_tableSnapshotTo = now_iso c, rs_currentPage = 1,
      rs_pageSize = nullish (jm_get (pageSizes prefs) ''realtimeSearch'') 20, rs_preferences = prefs, rs_browser = b,
      rs_hidden = hidden, rs_notices = [], rs_locating = None, rf_latestQueryRequest = 0, rf_latestHistogramRequest = 0,
      rf_inFlightRequestID = None, rf_pageCursorMap = [], rf_liveTimer = None, rf_isLive = True, rf_isUnmounted = False,
      rf_lastHistogramRefreshKey = [], rf_lastHistogramFetchedAt = 0,
      rf_lastFilterState = buildRealtimeFilterStateKey lc [] [] [], rf_suppressNextLiveTick = False, rf_searches = [],
      rf_chartRetries = []\<rparr>"

definition closure_of :: "page \<Rightarrow> closure" where
  "closure_of st =
     \<lparr>cl_liveWindow = rs_liveWindow st, cl_levelFilter = rs_levelFilter st, cl_sourceFilter = rs_sourceFilter st,
      cl_extraFilters = rs_extraFilters st, cl_customTimeRange = rs_customTimeRange st, cl_hasLogs = (rs_logs st \<noteq> []),
      cl_hasHistogram = (rs_histogramData st \<noteq> [])\<rparr>"

definition notify :: "notice \<Rightarrow> page \<Rightarrow> page" where
  "notify n st = st\<lparr>rs_notices := n # rs_notices st\<rparr>"

definition hasCustomTimeRange :: "page \<Rightarrow> bool" where
  "hasCustomTimeRange st \<longleftrightarrow> hasRealtimeExplicitTimeRange (rs_customTimeRange st)"

definition livePollingDisabled :: "page \<Rightarrow> bool" where
  "livePollingDisabled st \<longleftrightarrow> hasCustomTimeRange st \<or> rs_liveWindow st = Any_Time"

definition liveWindowOptions :: "page \<Rightarrow> (live_window \<times> string) list" where
  "liveWindowOptions st = BASE_LIVE_WINDOW_OPTIONS @ (if hasCustomTimeRange st then [(Past_Range, zh_past_range)] else [])"

definition deepPaginationRestricted :: "page \<Rightarrow> bool" where
  "deepPaginationRestricted st \<longleftrightarrow>
     of_int MAX_PAGINATION_WINDOW_ROWS < rs_total st
     \<or> (rs_totalIsLowerBound st \<and> of_int MAX_PAGINATION_WINDOW_ROWS \<le> rs_total st)"

definition setPageSize_realtime :: "int \<Rightarrow> page \<Rightarrow> page" where
  "setPageSize_realtime n st = st\<lparr>rs_pageSize := n, rs_preferences := setPageSize ''realtimeSearch'' n (rs_preferences st)\<rparr>"

section \<open>The timer of the live view\<close>

definition LIVE_POLL_INTERVAL_MS :: int where "LIVE_POLL_INTERVAL_MS = 5000"

definition clearLiveTimer :: "page \<Rightarrow> page" where
  "clearLiveTimer st = st\<lparr>rf_liveTimer := None\<rparr>"

text \<open>\<open>disabled\<close> is \<open>livePollingDisabled\<close> of the last render.\<close>

definition scheduleNextLiveTick :: "bool \<Rightarrow> int \<Rightarrow> page \<Rightarrow> page" where
  "scheduleNextLiveTick disabled delay st =
     (if \<not> rf_isLive st \<or> rf_isUnmounted st \<or> rs_hidden st \<or> disabled then clearLiveTimer st
      else st\<lparr>rf_liveTimer := Some delay\<rparr>)"

definition armSuppressedNextLiveTick :: "bool \<Rightarrow> page \<Rightarrow> page" where
  "armSuppressedNextLiveTick disabled st =
     (let st' = st\<lparr>rf_suppressNextLiveTick := True\<rparr>
      in if \<not> rf_isLive st' \<or> disabled then st' else scheduleNextLiveTick disabled LIVE_POLL_INTERVAL_MS st')"

definition abortActiveRequests :: "page \<Rightarrow> page" where
  "abortActiveRequests st =
     st\<lparr>rf_searches := map (\<lambda>s. s\<lparr>se_aborted := True\<rparr>) (rf_searches st),
        rf_chartRetries := map (\<lambda>r. r\<lparr>cr_aborted := True\<rparr>) (rf_chartRetries st)\<rparr>"

section \<open>A search begins\<close>

definition page_filter_params :: "string \<Rightarrow> string \<Rightarrow> string \<Rightarrow> filters \<Rightarrow> filter_params" where
  "page_filter_params levelFilter sourceFilter queryText extraFilters =
     \<lparr>fp_levelFilter = Some levelFilter, fp_sourceFilter = Some sourceFilter, fp_queryText = Some queryText,
      fp_extraFilters = Some extraFilters\<rparr>"

definition histogram_key :: "(string \<Rightarrow> string \<Rightarrow> int) \<Rightarrow> string \<Rightarrow> string \<Rightarrow> string \<Rightarrow> filters \<Rightarrow> string" where
  "histogram_key lc queryText levelFilter sourceFilter extraFilters =
     buildRealtimeHistogramRefreshKey
       \<lparr>rk_queryText = Some queryText, rk_levelFilter = Some levelFilter, rk_sourceFilter = Some sourceFilter,
        rk_extraFiltersKey = Some (serializeRealtimeExtraFilterState lc extraFilters)\<rparr>"

definition histogram_params :: "agg_range option \<Rightarrow> string \<Rightarrow> sent_filters \<Rightarrow> agg_params option" where
  "histogram_params trange queryText sent =
     map_option (\<lambda>r. \<lparr>ap_groupBy = ByMinute, ap_timeRange = r, ap_keywords = Some queryText,
                     ap_filters = Some (literal sent)\<rparr>) trange"

text \<open>The error counts: the same statistics, for the level error.\<close>

definition error_params :: "agg_params \<Rightarrow> agg_params" where
  "error_params p =
     p\<lparr>ap_filters := (case ap_filters p of Some (JObj ms) \<Rightarrow> Some (JObj (jm_set ''level'' (JStr ''error'') ms)) | v \<Rightarrow> v)\<rparr>"

definition search_payload :: "query_options \<Rightarrow> json \<Rightarrow> time_range \<Rightarrow> page_cursor option \<Rightarrow> logs_payload" where
  "search_payload options filters trange cursor =
     \<lparr>lp_keywords = qo_queryText options, lp_page = qo_page options, lp_pageSize = qo_pageSize options,
      lp_filters = Some filters, lp_timeRange = Some trange, lp_pitId = Option.bind cursor cu_pitId,
      lp_searchAfter = Option.bind cursor cu_searchAfter, lp_recordHistory = qo_recordHistory options\<rparr>"

definition with_cursor :: "page_cursor option \<Rightarrow> search \<Rightarrow> search" where
  "with_cursor cursor s =
     s\<lparr>se_payload := (se_payload s)\<lparr>lp_pitId := Option.bind cursor cu_pitId, lp_searchAfter := Option.bind cursor cu_searchAfter\<rparr>,
       se_waiting := Wait_Table\<rparr>"

definition park :: "search \<Rightarrow> page \<Rightarrow> page" where
  "park s st = st\<lparr>rf_searches := rf_searches st @ [s]\<rparr>"

text \<open>The end of a search: the \<open>finally\<close> block, then what the caller attached.\<close>

definition settle_flags :: "search \<Rightarrow> page \<Rightarrow> page" where
  "settle_flags s st =
     (if se_id s = rf_latestQueryRequest st then st\<lparr>rs_initialLoading := False, rs_tableRefreshing := False\<rparr> else st)"

definition release :: "search \<Rightarrow> page \<Rightarrow> page" where
  "release s st =
     (let st1 = (if rf_inFlightRequestID st = Some (se_id s) then st\<lparr>rf_inFlightRequestID := None\<rparr> else st)
      in if se_id s = rf_latestQueryRequest st1
         then (let st2 = st1\<lparr>rs_initialLoading := False, rs_tableRefreshing := False, rs_histogramRefreshing := False,
                             rs_histogramInitialLoading := False\<rparr>
               in if rf_isLive st2 \<and> \<not> rf_isUnmounted st2 then scheduleNextLiveTick (livePollingDisabled st2) LIVE_POLL_INTERVAL_MS st2
                  else st2)
         else st1)"

text \<open>After a turn of the page the notice of the page being located is closed, whichever turn opened it: there is
  one such notice, known by its key.\<close>

fun continue_after :: "continuation \<Rightarrow> search_status \<Rightarrow> page \<Rightarrow> page" where
  "continue_after No_Continuation status st = st"
| "continue_after (Restore_Page previousPage previousPageSize nextPageSize) status st =
     (let st1 = st\<lparr>rs_locating := None\<rparr>
      in if status = Failed
         then (let st2 = st1\<lparr>rs_currentPage := previousPage\<rparr>
               in if nextPageSize \<noteq> previousPageSize then setPageSize_realtime previousPageSize st2 else st2)
         else st1)"
| "continue_after End_Retry status st = st\<lparr>rs_retryingCurrentQuery := False\<rparr>"

definition finish_search :: "search \<Rightarrow> search_status \<Rightarrow> page \<Rightarrow> page" where
  "finish_search s status st = continue_after (se_then s) status (release s st)"

text \<open>A newer search has begun: this one ends without a trace.\<close>

definition status_or_stale :: "search \<Rightarrow> search_status" where
  "status_or_stale s = (if se_succeeded s then Succeeded else Stale)"

definition cursor_options_of :: "search \<Rightarrow> cursor_options" where
  "cursor_options_of s =
     \<lparr>co_targetPage = qo_page (se_options s), co_pageSize = qo_pageSize (se_options s),
      co_queryText = qo_queryText (se_options s), co_filters = nullish (lp_filters (se_payload s)) JNull,
      co_timeRange = nullish (lp_timeRange (se_payload s)) \<lparr>tr_from = None, tr_to = None\<rparr>, co_cursorMap = se_cursorMap s\<rparr>"

text \<open>The cursor has been looked for: go on to the table, or give up.\<close>

definition on_located :: "search \<Rightarrow> cursor_map \<Rightarrow> page_cursor option \<Rightarrow> page \<Rightarrow> page" where
  "on_located s cursorMap cursor st =
     (if se_id s \<noteq> rf_latestQueryRequest st then finish_search s (status_or_stale s) st
      else (let st1 = st\<lparr>rf_pageCursorMap := cursorMap\<rparr>; s1 = s\<lparr>se_cursorMap := cursorMap\<rparr>
            in case cloneRealtimePageCursor cursor of
                 None \<Rightarrow>
                   finish_search s1 Failed
                     (settle_flags s1 (if qo_silent (se_options s) then st1 else notify (Warning zh_cursor_failed) st1))
               | Some c \<Rightarrow> park (with_cursor (Some c) s1) st1))"

definition locate_further :: "search \<Rightarrow> progress \<Rightarrow> page \<Rightarrow> page" where
  "locate_further s pr st =
     (case pr of
        Located cursorMap cursor \<Rightarrow> on_located s cursorMap cursor st
      | Asking payload loc \<Rightarrow> park (s\<lparr>se_waiting := Wait_Cursor (cursor_options_of s) loc\<rparr>) st)"

definition new_search ::
    "(string \<Rightarrow> string \<Rightarrow> int) \<Rightarrow> clock \<Rightarrow> closure \<Rightarrow> query_options \<Rightarrow> continuation \<Rightarrow> page \<Rightarrow> search \<times> page_cursor option" where
  "new_search lc c cl options k st =
     (let snapshotTo = or_str (trimmed_text (qo_snapshotTo options)) (now_iso c);
          liveWindow = nullish (qo_liveWindowOverride options) (cl_liveWindow cl);
          levelFilter = nullish (qo_levelFilterOverride options) (cl_levelFilter cl);
          sourceFilter = nullish (qo_sourceFilterOverride options) (cl_sourceFilter cl);
          extraFilters = normalizePageFilters (nullish (qo_extraFiltersOverride options) (normalizePageFilters (cl_extraFilters cl)));
          workingCursorMap = (if qo_resetCursor options then [] else cloneRealtimePageCursorMap (rf_pageCursorMap st));
          requestedCursor = nullish_opt (cloneRealtimePageCursor (qo_cursor options))
                              (cloneRealtimePageCursor (jm_get workingCursorMap (qo_page options)));
          rootPitId = Option.bind (cloneRealtimePageCursor (jm_get workingCursorMap 1)) cu_pitId;
          activeCursor = nullish_opt requestedCursor
            (if 1 < qo_page options \<and> rootPitId \<noteq> None then Some \<lparr>cu_pitId = rootPitId, cu_searchAfter = None\<rparr> else None);
          params = page_filter_params levelFilter sourceFilter (qo_queryText options) extraFilters;
          timeRange = normalizeRealtimeExplicitTimeRange (nullish_opt (qo_timeRangeOverride options) (cl_customTimeRange cl));
          histogramTimeRange = resolveRealtimeHistogramRequestTimeRange liveWindow timeRange;
          histogramKey = histogram_key lc (qo_queryText options) levelFilter sourceFilter extraFilters
      in (\<lparr>se_id = rf_latestQueryRequest st, se_options = options, se_snapshotTo = snapshotTo, se_liveWindow = liveWindow,
           se_levelFilter = levelFilter, se_sourceFilter = sourceFilter, se_extraFilters = extraFilters, se_timeRange = timeRange,
           se_payload = search_payload options (literal (buildRealtimeQueryFilters params))
             (buildRealtimeTableTimeRange c liveWindow (Some snapshotTo) timeRange) activeCursor,
           se_histogram = histogram_params histogramTimeRange (qo_queryText options) (buildRealtimeHistogramFilters params),
           se_histogramKey = histogramKey,
           se_refreshHistogram = (histogramTimeRange \<noteq> None \<and> shouldRefreshRealtimeHistogram c
             \<lparr>rp_mode = qo_histogramRefreshMode options, rp_nextRequestKey = histogramKey,
              rp_lastRequestKey = rf_lastHistogramRefreshKey st, rp_lastFetchedAt = of_int (rf_lastHistogramFetchedAt st),
              rp_now = None, rp_hasHistogramData = cl_hasHistogram cl\<rparr>),
           se_relaxNoise = shouldRelaxRealtimeHistogramNoiseFilter params, se_closure = cl, se_cursorMap = workingCursorMap, se_succeeded = False,
           se_failedHard = False, se_waiting = Wait_Table, se_aborted = False, se_then = k\<rparr>, activeCursor))"

text \<open>The part before the first await.\<close>

definition enter_search :: "query_options \<Rightarrow> page \<Rightarrow> page" where
  "enter_search options st =
     (let n = rf_latestQueryRequest st + 1;
          st1 = st\<lparr>rf_latestQueryRequest := n, rf_latestHistogramRequest := rf_latestHistogramRequest st + 1,
                   rf_inFlightRequestID := Some n\<rparr>;
          st2 = abortActiveRequests (clearLiveTimer st1)
      in st2\<lparr>rs_retryingHistogram := False, rs_tableErrorText := [], rs_tableStaleErrorText := [], rs_histogramErrorText := []\<rparr>)"

definition show_refreshing :: "search \<Rightarrow> page \<Rightarrow> page" where
  "show_refreshing s st =
     (let st1 = (if qo_resetCursor (se_options s) then st\<lparr>rf_pageCursorMap := []\<rparr> else st);
          st2 = (if \<not> se_refreshHistogram s \<and> se_histogram s = None
                 then st1\<lparr>rs_histogramData := [], rs_histogramUsingStaleData := False, rs_histogramNoiseFilterRelaxed := False,
                          rs_histogramInitialLoading := False\<rparr> else st1)
      in st2\<lparr>rs_tableRefreshing := True, rs_histogramRefreshing := se_refreshHistogram s\<rparr>)"

definition begin_search ::
    "(string \<Rightarrow> string \<Rightarrow> int) \<Rightarrow> clock \<Rightarrow> closure \<Rightarrow> query_options \<Rightarrow> continuation \<Rightarrow> page \<Rightarrow> page" where
  "begin_search lc c cl options k st =
     (let st1 = enter_search options st
      in case new_search lc c cl options k st1 of
           (s, activeCursor) \<Rightarrow>
             (let st2 = show_refreshing s st1
              in if shouldResolveRealtimeDeepPageCursor (qo_page options) (qo_pageSize options) activeCursor
                 then locate_further s (start_locating (cursor_options_of s)) st2
                 else park s st2))"

section \<open>A search goes on\<close>

datatype 'r outcome = Answered 'r | Broken string | Aborted

definition cursor_map_after :: "search \<Rightarrow> logs_result \<Rightarrow> cursor_map" where
  "cursor_map_after s r =
     (let effectivePitId = or_str (trimmed_text (lr_pitId r)) (trimmed_text (lp_pitId (se_payload s)));
          page = \<lfloor>lr_page r\<rfloor>
      in if effectivePitId = [] then se_cursorMap s
         else (let m1 = jm_set 1 \<lparr>cu_pitId = Some effectivePitId, cu_searchAfter = None\<rparr>
                          (refreshCursorMapPitID effectivePitId (se_cursorMap s));
                   here = Option.bind (jm_get m1 page) cu_searchAfter;
                   m2 = jm_delete (page + 1)
                          (jm_set page \<lparr>cu_pitId = Some effectivePitId, cu_searchAfter = cloneSearchAfter here\<rparr> m1)
               in case cloneSearchAfter (lr_nextSearchAfter r) of
                    None \<Rightarrow> m2
                  | Some xs \<Rightarrow> jm_set (page + 1) \<lparr>cu_pitId = Some effectivePitId, cu_searchAfter = Some xs\<rparr> m2))"

definition show_rows :: "search \<Rightarrow> logs_result \<Rightarrow> page \<Rightarrow> page" where
  "show_rows s r st =
     (let st1 = st\<lparr>rf_pageCursorMap := cursor_map_after s r, rs_logs := lr_hits r, rs_total := lr_total r,
                   rs_totalIsLowerBound := lr_totalIsLowerBound r, rs_currentPage := \<lfloor>lr_page r\<rfloor>,
                   rs_queryTimeMS := lr_queryTimeMS r, rs_queryTimedOut := lr_timedOut r,
                   rs_tableSnapshotTo := se_snapshotTo s, rs_tableUsingStaleData := False, rs_tableErrorText := [],
                   rs_tableStaleErrorText := []\<rparr>
      in if lr_timedOut r \<and> \<not> qo_silent (se_options s) then notify (Warning zh_query_timed_out) st1 else st1)"

definition show_table_error :: "search \<Rightarrow> string \<Rightarrow> page \<Rightarrow> page" where
  "show_table_error s readableError st =
     (let stale = cl_hasLogs (se_closure s);
          st1 = st\<lparr>rs_tableUsingStaleData := stale, rs_tableErrorText := (if stale then [] else readableError),
                   rs_tableStaleErrorText := (if stale then readableError else [])\<rparr>
      in if qo_silent (se_options s) then st1
         else notify (if stale then Warning zh_table_kept else Error_Notice readableError) st1)"

text \<open>After the table: the chart, when it is to be fetched again.\<close>

definition after_table :: "search \<Rightarrow> page \<Rightarrow> page" where
  "after_table s st =
     (let st1 = settle_flags s st
      in if \<not> se_refreshHistogram s then finish_search s (if se_succeeded s then Succeeded else Failed) st1
         else park (s\<lparr>se_waiting := Wait_Totals\<rparr>) st1)"

definition table_failed :: "search \<Rightarrow> string \<Rightarrow> page \<Rightarrow> page" where
  "table_failed s readableError st =
     (if se_id s \<noteq> rf_latestQueryRequest st then finish_search s (status_or_stale s) st
      else after_table s (show_table_error s readableError st))"

definition search_aborted :: "search \<Rightarrow> page \<Rightarrow> page" where
  "search_aborted s st = finish_search s (status_or_stale s) (settle_flags s st)"

definition fallback_params_of :: "search \<Rightarrow> logs_result \<Rightarrow> fallback_params" where
  "fallback_params_of s r =
     \<lparr>fb_autoAll = qo_autoAll (se_options s), fb_resultTotal = lr_total r, fb_page = \<lfloor>lr_page r\<rfloor>,
      fb_queryText = qo_queryText (se_options s), fb_levelFilter = se_levelFilter s, fb_sourceFilter = se_sourceFilter s,
      fb_extraFilters = se_extraFilters s, fb_liveWindow = se_liveWindow s, fb_explicitTimeRange = se_timeRange s\<rparr>"

definition widen_options :: "query_options \<Rightarrow> query_options" where
  "widen_options o0 =
     o0\<lparr>qo_page := 1, qo_resetCursor := True, qo_liveWindowOverride := Some Any_Time, qo_timeRangeOverride := None,
        qo_histogramRefreshMode := Some ForceRefresh, qo_autoAll := False, qo_silent := True\<rparr>"

definition on_table ::
    "(string \<Rightarrow> string \<Rightarrow> int) \<Rightarrow> clock \<Rightarrow> search \<Rightarrow> logs_result outcome \<Rightarrow> page \<Rightarrow> page" where
  "on_table lc c s reply st =
     (case reply of
        Aborted \<Rightarrow> search_aborted s st
      | Broken readableError \<Rightarrow> table_failed s readableError st
      | Answered r \<Rightarrow>
          if se_id s \<noteq> rf_latestQueryRequest st then finish_search s (status_or_stale s) st
          else if shouldAutoFallbackEmptyRealtimeWindow (fallback_params_of s r)
          then begin_search lc c (se_closure s) (widen_options (se_options s)) (se_then s)
                 (notify (Info zh_switched_to_all)
                   (st\<lparr>rf_isLive := False, rs_isLive := False, rs_customTimeRange := None, rs_liveWindow := Any_Time\<rparr>))
          else after_table (s\<lparr>se_succeeded := True\<rparr>) (show_rows s r st))"

definition on_cursor :: "search \<Rightarrow> logs_result outcome \<Rightarrow> page \<Rightarrow> page" where
  "on_cursor s reply st =
     (case se_waiting s of
        Wait_Cursor opts loc \<Rightarrow>
          (case reply of
             Aborted \<Rightarrow> search_aborted s st
           | Broken readableError \<Rightarrow> table_failed s readableError st
           | Answered r \<Rightarrow>
               if se_id s \<noteq> rf_latestQueryRequest st then on_located s (waiting_map loc) None st
               else (case resume_locating opts loc r of
                       Located cursorMap cursor \<Rightarrow> on_located s cursorMap cursor st
                     | Asking payload loc' \<Rightarrow> park (s\<lparr>se_waiting := Wait_Cursor opts loc'\<rparr>) st))
      | _ \<Rightarrow> st)"

definition histogram_points ::
    "(string \<Rightarrow> string \<Rightarrow> int) \<Rightarrow> (int \<Rightarrow> string) \<Rightarrow> clock \<Rightarrow> live_window \<Rightarrow> string \<Rightarrow> string
     \<Rightarrow> aggregate_bucket list \<Rightarrow> aggregate_bucket list \<Rightarrow> histogram_point list" where
  "histogram_points lc locale_time c liveWindow snapshotTo levelFilter totals errors =
     (let visible = filterRealtimeHistogramBucketsByLiveWindow c liveWindow (Some snapshotTo);
          totalBuckets = visible totals;
          errorBuckets = (if levelFilter = ''error'' then totalBuckets else visible errors)
      in buildRealtimeHistogramData lc locale_time c totalBuckets errorBuckets)"

definition show_chart :: "clock \<Rightarrow> histogram_point list \<Rightarrow> bool \<Rightarrow> string \<Rightarrow> page \<Rightarrow> page" where
  "show_chart c points relaxNoise key st =
     st\<lparr>rs_histogramData := points, rs_histogramUsingStaleData := False, rs_histogramErrorText := [],
        rs_histogramNoiseFilterRelaxed := relaxNoise, rs_histogramInitialLoading := False,
        rf_lastHistogramRefreshKey := key, rf_lastHistogramFetchedAt := now_ms c\<rparr>"

definition show_chart_error :: "bool \<Rightarrow> bool \<Rightarrow> page \<Rightarrow> page" where
  "show_chart_error hadHistogram silent st =
     (let st1 = st\<lparr>rs_histogramUsingStaleData := hadHistogram, rs_histogramErrorText := zh_chart_failed,
                   rs_histogramNoiseFilterRelaxed := (if hadHistogram then rs_histogramNoiseFilterRelaxed st else False),
                   rs_histogramInitialLoading := False\<rparr>
      in if silent then st1 else notify (Warning (if hadHistogram then zh_chart_kept else zh_chart_failed)) st1)"

definition conclude ::
    "(string \<Rightarrow> string \<Rightarrow> int) \<Rightarrow> (int \<Rightarrow> string) \<Rightarrow> clock \<Rightarrow> search
     \<Rightarrow> (aggregate_bucket list \<times> aggregate_bucket list) option \<Rightarrow> page \<Rightarrow> page" where
  "conclude lc locale_time c s histograms st =
     finish_search s (if se_succeeded s then Succeeded else Failed)
      (case histograms of
         Some (totals, errors) \<Rightarrow>
           show_chart c (histogram_points lc locale_time c (se_liveWindow s) (se_snapshotTo s) (se_levelFilter s) totals errors)
             (se_relaxNoise s) (se_histogramKey s) st
       | None \<Rightarrow>
           if se_failedHard s then show_chart_error (cl_hasHistogram (se_closure s)) (qo_silent (se_options s)) st else st)"

definition hard :: "'r outcome \<Rightarrow> bool" where
  "hard reply \<longleftrightarrow> (case reply of Broken _ \<Rightarrow> True | _ \<Rightarrow> False)"

definition on_totals ::
    "(string \<Rightarrow> string \<Rightarrow> int) \<Rightarrow> (int \<Rightarrow> string) \<Rightarrow> clock \<Rightarrow> search \<Rightarrow> aggregate_bucket list outcome \<Rightarrow> page \<Rightarrow> page" where
  "on_totals lc locale_time c s reply st =
     (let s1 = s\<lparr>se_failedHard := se_failedHard s \<or> hard reply\<rparr>
      in if se_id s \<noteq> rf_latestQueryRequest st then finish_search s1 (status_or_stale s1) st
         else (case reply of
                 Answered totals \<Rightarrow>
                   if se_levelFilter s = [] then park (s1\<lparr>se_waiting := Wait_Errors totals\<rparr>) st
                   else conclude lc locale_time c s1 (Some (totals, [])) st
               | _ \<Rightarrow> conclude lc locale_time c s1 None st))"

definition on_errors ::
    "(string \<Rightarrow> string \<Rightarrow> int) \<Rightarrow> (int \<Rightarrow> string) \<Rightarrow> clock \<Rightarrow> search \<Rightarrow> aggregate_bucket list
     \<Rightarrow> aggregate_bucket list outcome \<Rightarrow> page \<Rightarrow> page" where
  "on_errors lc locale_time c s totals reply st =
     (let s1 = s\<lparr>se_failedHard := se_failedHard s \<or> hard reply\<rparr>
      in if se_id s \<noteq> rf_latestQueryRequest st then finish_search s1 (status_or_stale s1) st
         else conclude lc locale_time c s1 (Some (totals, case reply of Answered errors \<Rightarrow> errors | _ \<Rightarrow> [])) st)"

section \<open>Retrying the chart\<close>

definition handleRetryHistogram :: "(string \<Rightarrow> string \<Rightarrow> int) \<Rightarrow> page \<Rightarrow> page" where
  "handleRetryHistogram lc st =
     (if hasCustomTimeRange st \<or> rs_liveWindow st = Any_Time then st
      else (let n = rf_latestHistogramRequest st + 1;
                extraFilters = normalizePageFilters (rs_extraFilters st);
                params = page_filter_params (rs_levelFilter st) (rs_sourceFilter st) (rs_activeQuery st) extraFilters;
                trange = resolveRealtimeHistogramRequestTimeRange (rs_liveWindow st)
                           (normalizeRealtimeExplicitTimeRange (rs_customTimeRange st));
                st1 = st\<lparr>rf_latestHistogramRequest := n\<rparr>
            in case histogram_params trange (rs_activeQuery st) (buildRealtimeHistogramFilters params) of
                 None \<Rightarrow> st1\<lparr>rs_retryingHistogram := False, rs_histogramRefreshing := False\<rparr>
               | Some p \<Rightarrow>
                   st1\<lparr>rs_retryingHistogram := True, rs_histogramRefreshing := True,
                       rf_chartRetries := rf_chartRetries st @
                         [\<lparr>cr_id = n, cr_histogram = p,
                           cr_key = histogram_key lc (rs_activeQuery st) (rs_levelFilter st) (rs_sourceFilter st) extraFilters,
                           cr_levelFilter = rs_levelFilter st, cr_liveWindow = rs_liveWindow st,
                           cr_snapshotTo = rs_tableSnapshotTo st,
                           cr_relaxNoise = shouldRelaxRealtimeHistogramNoiseFilter params,
                           cr_hadHistogram = rs_histogramData st \<noteq> [], cr_failedHard = False, cr_totals = None,
                           cr_aborted = False\<rparr>]\<rparr>))"

definition end_retry :: "chart_retry \<Rightarrow> page \<Rightarrow> page" where
  "end_retry r st =
     (if cr_id r = rf_latestHistogramRequest st
      then st\<lparr>rs_histogramRefreshing := False, rs_histogramInitialLoading := False, rs_retryingHistogram := False\<rparr> else st)"

definition conclude_retry ::
    "(string \<Rightarrow> string \<Rightarrow> int) \<Rightarrow> (int \<Rightarrow> string) \<Rightarrow> clock \<Rightarrow> chart_retry
     \<Rightarrow> (aggregate_bucket list \<times> aggregate_bucket list) option \<Rightarrow> page \<Rightarrow> page" where
  "conclude_retry lc locale_time c r histograms st =
     end_retry r
      (case histograms of
         Some (totals, errors) \<Rightarrow>
           show_chart c (histogram_points lc locale_time c (cr_liveWindow r) (cr_snapshotTo r) (cr_levelFilter r) totals errors)
             (cr_relaxNoise r) (cr_key r) st
       | None \<Rightarrow> if cr_failedHard r then show_chart_error (cr_hadHistogram r) False st else st)"

definition on_retry ::
    "(string \<Rightarrow> string \<Rightarrow> int) \<Rightarrow> (int \<Rightarrow> string) \<Rightarrow> clock \<Rightarrow> chart_retry \<Rightarrow> aggregate_bucket list outcome \<Rightarrow> page \<Rightarrow> page" where
  "on_retry lc locale_time c r reply st =
     (let r1 = r\<lparr>cr_failedHard := cr_failedHard r \<or> hard reply\<rparr>
      in if cr_id r \<noteq> rf_latestHistogramRequest st then end_retry r1 st
         else (case (cr_totals r, reply) of
                 (None, Answered totals) \<Rightarrow>
                   if cr_levelFilter r = [] then st\<lparr>rf_chartRetries := rf_chartRetries st @ [r1\<lparr>cr_totals := Some totals\<rparr>]\<rparr>
                   else conclude_retry lc locale_time c r1 (Some (totals, [])) st
               | (None, _) \<Rightarrow> conclude_retry lc locale_time c r1 None st
               | (Some totals, Answered errors) \<Rightarrow> conclude_retry lc locale_time c r1 (Some (totals, errors)) st
               | (Some totals, _) \<Rightarrow> conclude_retry lc locale_time c r1 (Some (totals, [])) st))"

section \<open>Handlers\<close>

definition live_options :: "page \<Rightarrow> query_options" where
  "live_options st =
     (plain_options (rs_activeQuery st) (rs_currentPage st) (rs_pageSize st))
       \<lparr>qo_resetCursor := (rs_currentPage st = 1), qo_histogramRefreshMode := Some AutoRefresh\<rparr>"

text \<open>The timer fires.\<close>

definition live_tick :: "(string \<Rightarrow> string \<Rightarrow> int) \<Rightarrow> clock \<Rightarrow> int \<Rightarrow> page \<Rightarrow> page" where
  "live_tick lc c delay st =
     (let st1 = clearLiveTimer st
      in if \<not> rf_isLive st1 \<or> rf_isUnmounted st1 \<or> rs_hidden st1 then st1
         else if rf_inFlightRequestID st1 \<noteq> None then scheduleNextLiveTick (livePollingDisabled st1) delay st1
         else if rf_suppressNextLiveTick st1
         then scheduleNextLiveTick (livePollingDisabled st1) delay (st1\<lparr>rf_suppressNextLiveTick := False\<rparr>)
         else begin_search lc c (closure_of st1) (live_options st1) No_Continuation st1)"

definition handleVisibilityChange :: "(string \<Rightarrow> string \<Rightarrow> int) \<Rightarrow> clock \<Rightarrow> bool \<Rightarrow> page \<Rightarrow> page" where
  "handleVisibilityChange lc c hidden st =
     (let st1 = st\<lparr>rs_hidden := hidden\<rparr>
      in if \<not> rf_isLive st1 \<or> livePollingDisabled st1 then st1
         else if hidden then clearLiveTimer st1
         else if rf_inFlightRequestID st1 \<noteq> None then st1
         else begin_search lc c (closure_of st1) (live_options st1) No_Continuation st1)"

text \<open>The effects on the live view.\<close>

definition disable_live :: "page \<Rightarrow> page" where
  "disable_live st =
     (if livePollingDisabled st \<and> rs_isLive st then clearLiveTimer (st\<lparr>rf_isLive := False, rs_isLive := False\<rparr>) else st)"

definition follow_live :: "page \<Rightarrow> page" where
  "follow_live st =
     (let st1 = st\<lparr>rf_isLive := rs_isLive st\<rparr>
      in if \<not> rs_isLive st1 \<or> livePollingDisabled st1 then clearLiveTimer st1
         else if rf_inFlightRequestID st1 = None
         then scheduleNextLiveTick (livePollingDisabled st1) LIVE_POLL_INTERVAL_MS st1 else st1)"

text \<open>The effect on changed filters.\<close>

definition follow_filters :: "(string \<Rightarrow> string \<Rightarrow> int) \<Rightarrow> clock \<Rightarrow> page \<Rightarrow> page" where
  "follow_filters lc c st =
     (let nextFilterState = buildRealtimeFilterStateKey lc (rs_levelFilter st) (rs_sourceFilter st) (normalizePageFilters (rs_extraFilters st));
          st1 = st\<lparr>rf_lastFilterState := nextFilterState\<rparr>;
          st2 = (if shouldSuppressNextLiveTickAfterInteractiveRefresh (rf_isLive st1) (rs_liveWindow st1)
                      (normalizeRealtimeExplicitTimeRange (rs_customTimeRange st1))
                 then armSuppressedNextLiveTick (livePollingDisabled st) st1 else st1)
      in if rf_lastFilterState st = nextFilterState then st
         else begin_search lc c (closure_of st)
                ((plain_options (rs_activeQuery st) 1 (rs_pageSize st))
                   \<lparr>qo_resetCursor := True, qo_histogramRefreshMode := Some ForceRefresh\<rparr>)
                No_Continuation (st2\<lparr>rs_currentPage := 1\<rparr>))"

definition unmount :: "page \<Rightarrow> page" where
  "unmount st = abortActiveRequests (clearLiveTimer (st\<lparr>rf_isUnmounted := True\<rparr>))"

definition preset_time_range :: "preset_range option \<Rightarrow> time_range option" where
  "preset_time_range r = map_option (\<lambda>p. \<lparr>tr_from = Some (pr_from p), tr_to = Some (pr_to p)\<rparr>) r"

text \<open>The query the page starts with: of the address, of the navigation, or one left in the storage.\<close>

record navigation =
  nv_autoRun :: bool
  nv_presetQuery :: "string option"
  nv_timeRange :: "time_range option"

definition startupAutoRunState ::
    "clock \<Rightarrow> string option \<Rightarrow> string option \<Rightarrow> navigation option \<Rightarrow> browser \<Rightarrow> (string \<times> time_range option) option \<times> browser" where
  "startupAutoRunState c presetParam autoRunParam nav b =
     (let queryPreset = trimmed_text presetParam; queryAutoRun = trimmed_text autoRunParam;
          presetQuery = trimmed_text (Option.bind nav nv_presetQuery)
      in if (queryAutoRun = ''1'' \<or> toLowerCase queryAutoRun = ''true'') \<and> queryPreset \<noteq> [] then (Some (queryPreset, None), b)
         else if (case nav of None \<Rightarrow> False | Some n \<Rightarrow> nv_autoRun n) \<and> presetQuery \<noteq> []
         then (Some (presetQuery, normalizeRealtimeExplicitTimeRange (Option.bind nav nv_timeRange)), b)
         else (case readPendingRealtimeStartupQuery c b of
                 (pending, b') \<Rightarrow> (if pending = [] then None else Some (pending, None), b')))"

definition start_plain :: "(string \<Rightarrow> string \<Rightarrow> int) \<Rightarrow> clock \<Rightarrow> page \<Rightarrow> page" where
  "start_plain lc c st =
     begin_search lc c (closure_of st) ((plain_options [] 1 (rs_pageSize st))\<lparr>qo_resetCursor := True\<rparr>) No_Continuation st"

definition start_preset ::
    "(string \<Rightarrow> string \<Rightarrow> int) \<Rightarrow> clock \<Rightarrow> string \<Rightarrow> time_range option \<Rightarrow> page \<Rightarrow> page" where
  "start_preset lc c presetQuery trange st =
     (let preset = normalizeRealtimePresetQuery c presetQuery;
          startupTimeRange = normalizeRealtimeExplicitTimeRange (nullish_opt trange (preset_time_range (pq_timeRange preset)));
          nextExtraFilters = normalizePageFilters (if pq_extractedFilters preset then pq_filters preset else []);
          st1 = st\<lparr>rf_lastFilterState := buildRealtimeFilterStateKey lc (pq_levelFilter preset) (pq_sourceFilter preset) nextExtraFilters,
                   rs_browser := clearPendingRealtimeStartupQuery (rs_browser st),
                   rs_levelFilter := pq_levelFilter preset, rs_sourceFilter := pq_sourceFilter preset,
                   rs_extraFilters := nextExtraFilters, rs_query := pq_queryText preset, rs_activeQuery := pq_queryText preset,
                   rs_customTimeRange := startupTimeRange\<rparr>;
          st2 = (if startupTimeRange = None then st1
                 else st1\<lparr>rf_isLive := False, rs_isLive := False, rs_liveWindow := Past_Range\<rparr>)
      in begin_search lc c (closure_of st)
           ((plain_options (pq_queryText preset) 1 (rs_pageSize st))
              \<lparr>qo_silent := False, qo_resetCursor := True, qo_timeRangeOverride := startupTimeRange,
               qo_liveWindowOverride := (if startupTimeRange = None then None else Some Past_Range),
               qo_histogramRefreshMode := Some ForceRefresh, qo_levelFilterOverride := Some (pq_levelFilter preset),
               qo_sourceFilterOverride := Some (pq_sourceFilter preset), qo_extraFiltersOverride := Some nextExtraFilters\<rparr>)
           No_Continuation st2)"

definition runSearch :: "(string \<Rightarrow> string \<Rightarrow> int) \<Rightarrow> clock \<Rightarrow> string \<Rightarrow> bool \<Rightarrow> page \<Rightarrow> page" where
  "runSearch lc c text_value recordHistory st =
     (let q = normalizeRealtimePresetQuery c text_value;
          keyword = pq_queryText q; extracted = pq_extractedFilters q;
          nextLevelFilter = (if extracted then pq_levelFilter q else rs_levelFilter st);
          nextSourceFilter = (if extracted then pq_sourceFilter q else rs_sourceFilter st);
          nextTimeRange = normalizeRealtimeExplicitTimeRange (preset_time_range (pq_timeRange q));
          nextExtraFilters = (if extracted then normalizePageFilters (pq_filters q) else normalizePageFilters (rs_extraFilters st));
          shouldRecord = (recordHistory \<and> keyword \<noteq> []);
          st1 = (if shouldRecord
                 then (case recordRealtimeRecentQuery keyword (rs_browser st) of
                         (queries, b) \<Rightarrow> st\<lparr>rs_recentQueries := queries, rs_browser := b\<rparr>)
                 else st);
          st2 = st1\<lparr>rf_lastFilterState := buildRealtimeFilterStateKey lc nextLevelFilter nextSourceFilter nextExtraFilters\<rparr>;
          st3 = (if shouldSuppressNextLiveTickAfterInteractiveRefresh (rf_isLive st2) (rs_liveWindow st) nextTimeRange
                 then armSuppressedNextLiveTick (livePollingDisabled st) st2 else st2);
          st4 = st3\<lparr>rs_currentPage := 1\<rparr>;
          st5 = (if extracted
                 then st4\<lparr>rs_levelFilter := nextLevelFilter, rs_sourceFilter := nextSourceFilter, rs_extraFilters := nextExtraFilters\<rparr>
                 else st4);
          st6 = (if nextTimeRange = None then st5
                 else (clearLiveTimer st5)\<lparr>rf_isLive := False, rs_isLive := False, rs_customTimeRange := nextTimeRange,
                                           rs_liveWindow := Past_Range\<rparr>)
      in begin_search lc c (closure_of st)
           ((plain_options keyword 1 (rs_pageSize st))
              \<lparr>qo_silent := False, qo_recordHistory := shouldRecord, qo_resetCursor := True,
               qo_timeRangeOverride := nullish_opt nextTimeRange (normalizeRealtimeExplicitTimeRange (rs_customTimeRange st)),
               qo_liveWindowOverride := (if nextTimeRange = None then None else Some Past_Range),
               qo_histogramRefreshMode := Some ForceRefresh, qo_levelFilterOverride := Some nextLevelFilter,
               qo_sourceFilterOverride := Some nextSourceFilter, qo_extraFiltersOverride := Some nextExtraFilters\<rparr>)
           No_Continuation (st6\<lparr>rs_query := keyword, rs_activeQuery := keyword\<rparr>))"

definition handleSearch :: "(string \<Rightarrow> string \<Rightarrow> int) \<Rightarrow> clock \<Rightarrow> string \<Rightarrow> page \<Rightarrow> page" where
  "handleSearch lc c text_value st = runSearch lc c text_value True st"

definition handleLiveWindowChange :: "(string \<Rightarrow> string \<Rightarrow> int) \<Rightarrow> clock \<Rightarrow> live_window \<Rightarrow> page \<Rightarrow> page" where
  "handleLiveWindowChange lc c v st =
     (let nextTimeRange = (if v = Past_Range then normalizeRealtimeExplicitTimeRange (rs_customTimeRange st) else None);
          st1 = st\<lparr>rs_liveWindow := v\<rparr>;
          st2 = (if v \<noteq> Past_Range then st1\<lparr>rs_customTimeRange := None\<rparr> else st1);
          st3 = (if v = Any_Time \<or> v = Past_Range then (clearLiveTimer st2)\<lparr>rf_isLive := False, rs_isLive := False\<rparr>
                 else if shouldSuppressNextLiveTickAfterInteractiveRefresh (rf_isLive st2) v nextTimeRange
                 then armSuppressedNextLiveTick (livePollingDisabled st) st2 else st2)
      in if v = rs_liveWindow st \<and> \<not> (v = Past_Range \<and> hasCustomTimeRange st) then st
         else begin_search lc c (closure_of st)
                ((plain_options (rs_activeQuery st) 1 (rs_pageSize st))
                   \<lparr>qo_resetCursor := True, qo_timeRangeOverride := nextTimeRange, qo_liveWindowOverride := Some v,
                    qo_histogramRefreshMode := Some ForceRefresh\<rparr>)
                No_Continuation (st3\<lparr>rs_currentPage := 1\<rparr>))"

definition handleToggleLive :: "(string \<Rightarrow> string \<Rightarrow> int) \<Rightarrow> clock \<Rightarrow> page \<Rightarrow> page" where
  "handleToggleLive lc c st =
     (if livePollingDisabled st then notify (Info zh_no_live_here) st
      else if rs_isLive st then (clearLiveTimer st)\<lparr>rf_isLive := False, rs_isLive := False\<rparr>
      else (let st1 = st\<lparr>rf_isLive := True, rs_isLive := True\<rparr>
            in if rs_currentPage st = 1 then st1
               else begin_search lc c (closure_of st)
                      ((plain_options (rs_activeQuery st) 1 (rs_pageSize st))
                         \<lparr>qo_resetCursor := True, qo_histogramRefreshMode := Some SkipRefresh\<rparr>)
                      No_Continuation (st1\<lparr>rs_currentPage := 1\<rparr>)))"

definition handleRetryCurrentQuery :: "(string \<Rightarrow> string \<Rightarrow> int) \<Rightarrow> clock \<Rightarrow> page \<Rightarrow> page" where
  "handleRetryCurrentQuery lc c st =
     begin_search lc c (closure_of st)
       ((live_options st)\<lparr>qo_silent := False, qo_histogramRefreshMode := Some ForceRefresh\<rparr>)
       End_Retry (st\<lparr>rs_retryingCurrentQuery := True\<rparr>)"

definition turn_page_options :: "page \<Rightarrow> int \<Rightarrow> int \<Rightarrow> query_options" where
  "turn_page_options st targetPage nextPageSize =
     (let cached = cloneRealtimePageCursor (jm_get (rf_pageCursorMap st) targetPage)
      in (plain_options (rs_activeQuery st) targetPage nextPageSize)
           \<lparr>qo_silent := False, qo_snapshotTo := Some (rs_tableSnapshotTo st),
            qo_cursor := nullish_opt cached
              (if 1 < targetPage then cloneRealtimePageCursor (jm_get (rf_pageCursorMap st) 1) else None),
            qo_resetCursor := (nextPageSize \<noteq> rs_pageSize st), qo_histogramRefreshMode := Some SkipRefresh\<rparr>)"

definition handleResultsPaginationChange :: "(string \<Rightarrow> string \<Rightarrow> int) \<Rightarrow> clock \<Rightarrow> int \<Rightarrow> int option \<Rightarrow> page \<Rightarrow> page" where
  "handleResultsPaginationChange lc c page sz st =
     (let nextPageSize = nullish sz (rs_pageSize st);
          pageSizeChanged = (nextPageSize \<noteq> rs_pageSize st);
          targetPage = (if pageSizeChanged then 1 else page);
          st1 = (if 1 < targetPage \<and> rf_isLive st then (clearLiveTimer st)\<lparr>rf_isLive := False, rs_isLive := False\<rparr> else st);
          cachedCursor = cloneRealtimePageCursor (jm_get (rf_pageCursorMap st) targetPage);
          st2 = (if shouldResolveRealtimeDeepPageCursor targetPage nextPageSize cachedCursor
                 then st1\<lparr>rs_locating := Some targetPage\<rparr> else st1);
          st3 = abortActiveRequests (clearLiveTimer st2);
          st4 = (if shouldSuppressNextLiveTickAfterPaginationRefresh (rf_isLive st3) (rs_liveWindow st)
                      (normalizeRealtimeExplicitTimeRange (rs_customTimeRange st)) pageSizeChanged targetPage
                 then armSuppressedNextLiveTick (livePollingDisabled st) st3 else st3);
          st5 = (if pageSizeChanged then setPageSize_realtime nextPageSize st4 else st4)
      in if shouldBlockRealtimeDirectPageJump targetPage nextPageSize (deepPaginationRestricted st) cachedCursor
         then notify (Warning zh_no_direct_jump) st1
         else begin_search lc c (closure_of st) (turn_page_options st targetPage nextPageSize)
                (Restore_Page (rs_currentPage st) (rs_pageSize st) nextPageSize) (st5\<lparr>rs_currentPage := targetPage\<rparr>))"

section \<open>The lines above and below the table\<close>

definition tableDataSource :: "clock \<Rightarrow> page \<Rightarrow> display_log list" where
  "tableDataSource c st =
     getRealtimeTableDataSourceForRender (aggregateRealtimeDisplayLogs c (rs_logs st)) (rs_pageSize st) (rs_currentPage st)
       (rs_tableRefreshing st)"

definition realtimeLoadingStateVisible :: "clock \<Rightarrow> page \<Rightarrow> bool" where
  "realtimeLoadingStateVisible c st \<longleftrightarrow>
     rs_initialLoading st \<or> (rs_tableRefreshing st \<and> tableDataSource c st = [] \<and> \<not> rs_retryingCurrentQuery st)"

definition showRealtimeInlineErrorState :: "clock \<Rightarrow> page \<Rightarrow> bool" where
  "showRealtimeInlineErrorState c st \<longleftrightarrow>
     (rs_tableErrorText st \<noteq> [] \<or> rs_retryingCurrentQuery st) \<and> \<not> rs_tableUsingStaleData st
     \<and> tableDataSource c st = [] \<and> \<not> realtimeLoadingStateVisible c st"

definition realtimeResultsSummaryText :: "(int \<Rightarrow> string) \<Rightarrow> clock \<Rightarrow> page \<Rightarrow> string" where
  "realtimeResultsSummaryText locale_number c st =
     (if realtimeLoadingStateVisible c st then zh_loading_logs
      else zh_total_of @ formatRealtimeTotal locale_number (Fin (rs_total st)) (rs_totalIsLowerBound st) @ zh_results_taking
           @ rat_to_string (rs_queryTimeMS st) @ ''ms'')"

definition realtimeVisibleSummaryText :: "(int \<Rightarrow> string) \<Rightarrow> clock \<Rightarrow> page \<Rightarrow> string" where
  "realtimeVisibleSummaryText locale_number c st =
     (if realtimeLoadingStateVisible c st then zh_loading_logs
      else zh_current_page @ nat_to_string (length (tableDataSource c st)) @ zh_rows_total
           @ formatRealtimeTotal locale_number (Fin (rs_total st)) (rs_totalIsLowerBound st) @ zh_rows)"

end
