(* ===== verification/Realtime_Run.thy ===== *)
theory Realtime_Run
  imports Realtime_Page
begin

text \<open>
  Runs of the search page: its steps, the invariant they keep, that answers of an older search change nothing, and
  that the newest search comes to an end.
\<close>

section \<open>The steps\<close>

datatype reply = Rows "logs_result outcome" | Counts "aggregate_bucket list outcome"

fun fits :: "waiting \<Rightarrow> reply \<Rightarrow> bool" where
  "fits (Wait_Cursor opts loc) (Rows r) = True"
| "fits Wait_Table (Rows r) = True"
| "fits Wait_Totals (Counts r) = True"
| "fits (Wait_Errors totals) (Counts r) = True"
| "fits _ _ = False"

fun is_abort :: "reply \<Rightarrow> bool" where
  "is_abort (Rows r) = (r = Aborted)"
| "is_abort (Counts r) = (r = Aborted)"

definition without :: "nat \<Rightarrow> 'a list \<Rightarrow> 'a list" where
  "without i xs = take i xs @ drop (i + 1) xs"

text \<open>The answer to the \<open>i\<close>-th search, and to the \<open>i\<close>-th retry of the chart.\<close>

definition resume_search ::
    "(string \<Rightarrow> string \<Rightarrow> int) \<Rightarrow> (int \<Rightarrow> string) \<Rightarrow> clock \<Rightarrow> nat \<Rightarrow> reply \<Rightarrow> page \<Rightarrow> page" where
  "resume_search lc locale_time c i rep st =
     (let s = rf_searches st ! i; st1 = st\<lparr>rf_searches := without i (rf_searches st)\<rparr>
      in case (se_waiting s, rep) of
           (Wait_Cursor opts loc, Rows r) \<Rightarrow> on_cursor s r st1
         | (Wait_Table, Rows r) \<Rightarrow> on_table lc c s r st1
         | (Wait_Totals, Counts r) \<Rightarrow> on_totals lc locale_time c s r st1
         | (Wait_Errors totals, Counts r) \<Rightarrow> on_errors lc locale_time c s totals r st1
         | _ \<Rightarrow> st)"

definition resume_retry ::
    "(string \<Rightarrow> string \<Rightarrow> int) \<Rightarrow> (int \<Rightarrow> string) \<Rightarrow> clock \<Rightarrow> nat \<Rightarrow> aggregate_bucket list outcome \<Rightarrow> page \<Rightarrow> page" where
  "resume_retry lc locale_time c i rep st =
     on_retry lc locale_time c (rf_chartRetries st ! i) rep (st\<lparr>rf_chartRetries := without i (rf_chartRetries st)\<rparr>)"

inductive page_run :: "(string \<Rightarrow> string \<Rightarrow> int) \<Rightarrow> (int \<Rightarrow> string) \<Rightarrow> page \<Rightarrow> bool" for lc lt where
  opened: "page_run lc lt (open_page lc c prefs b hidden)"
| typed: "page_run lc lt st \<Longrightarrow> page_run lc lt (st\<lparr>rs_query := q\<rparr>)"
| filters_changed: "page_run lc lt st \<Longrightarrow>
    page_run lc lt (st\<lparr>rs_levelFilter := level, rs_sourceFilter := src, rs_extraFilters := extra\<rparr>)"
| browser_changed: "page_run lc lt st \<Longrightarrow> page_run lc lt (st\<lparr>rs_browser := b\<rparr>)"
| searched: "page_run lc lt st \<Longrightarrow> page_run lc lt (handleSearch lc c v st)"
| window_changed: "page_run lc lt st \<Longrightarrow> page_run lc lt (handleLiveWindowChange lc c w st)"
| toggled: "page_run lc lt st \<Longrightarrow> page_run lc lt (handleToggleLive lc c st)"
| retried: "page_run lc lt st \<Longrightarrow> page_run lc lt (handleRetryCurrentQuery lc c st)"
| page_turned: "page_run lc lt st \<Longrightarrow> page_run lc lt (handleResultsPaginationChange lc c n sz st)"
| chart_retried: "page_run lc lt st \<Longrightarrow> page_run lc lt (handleRetryHistogram lc st)"
| started_plain: "page_run lc lt st \<Longrightarrow> page_run lc lt (start_plain lc c st)"
| started_preset: "page_run lc lt st \<Longrightarrow> page_run lc lt (start_preset lc c q tr st)"
| ticked: "page_run lc lt st \<Longrightarrow> rf_liveTimer st = Some d \<Longrightarrow> page_run lc lt (live_tick lc c d st)"
| visibility_changed: "page_run lc lt st \<Longrightarrow> page_run lc lt (handleVisibilityChange lc c h st)"
| live_disabled: "page_run lc lt st \<Longrightarrow> page_run lc lt (disable_live st)"
| live_followed: "page_run lc lt st \<Longrightarrow> page_run lc lt (follow_live st)"
| filters_followed: "page_run lc lt st \<Longrightarrow> page_run lc lt (follow_filters lc c st)"
| left: "page_run lc lt st \<Longrightarrow> page_run lc lt (unmount st)"
| answered: "page_run lc lt st \<Longrightarrow> i < length (rf_searches st) \<Longrightarrow> fits (se_waiting (rf_searches st ! i)) rep
    \<Longrightarrow> (se_aborted (rf_searches st ! i) \<longrightarrow> is_abort rep) \<Longrightarrow> page_run lc lt (resume_search lc lt c i rep st)"
| chart_answered: "page_run lc lt st \<Longrightarrow> i < length (rf_chartRetries st)
    \<Longrightarrow> (cr_aborted (rf_chartRetries st ! i) \<longrightarrow> rep' = Aborted) \<Longrightarrow> page_run lc lt (resume_retry lc lt c i rep' st)"

section \<open>The invariant\<close>

abbreviation current :: "page \<Rightarrow> search \<Rightarrow> bool" where
  "current st s \<equiv> se_id s = rf_latestQueryRequest st"

fun for_table :: "waiting \<Rightarrow> bool" where
  "for_table (Wait_Cursor opts loc) = True"
| "for_table Wait_Table = True"
| "for_table _ = False"

definition numbered :: "page \<Rightarrow> bool" where
  "numbered st \<longleftrightarrow> list_all (\<lambda>s. se_id s \<le> rf_latestQueryRequest st) (rf_searches st)
     \<and> list_all (\<lambda>r. cr_id r \<le> rf_latestHistogramRequest st) (rf_chartRetries st)"

definition searching :: "page \<Rightarrow> bool" where
  "searching st \<longleftrightarrow> list_ex (current st) (rf_searches st)"

definition retrying :: "page \<Rightarrow> bool" where
  "retrying st \<longleftrightarrow> list_ex (\<lambda>r. cr_id r = rf_latestHistogramRequest st) (rf_chartRetries st)"

definition page_inv :: "page \<Rightarrow> bool" where
  "page_inv st \<longleftrightarrow>
     numbered st \<and> length (filter (current st) (rf_searches st)) \<le> 1
     \<and> rf_inFlightRequestID st = (if searching st then Some (rf_latestQueryRequest st) else None)
     \<and> (rs_tableRefreshing st \<longrightarrow> list_ex (\<lambda>s. current st s \<and> for_table (se_waiting s)) (rf_searches st))
     \<and> (rs_histogramRefreshing st \<longrightarrow> searching st \<or> retrying st)
     \<and> (rs_retryingHistogram st \<longrightarrow> retrying st)
     \<and> (\<not> rf_isUnmounted st \<longrightarrow> list_all (\<lambda>s. current st s \<longrightarrow> \<not> se_aborted s) (rf_searches st))
     \<and> (rf_liveTimer st \<noteq> None \<longrightarrow> rf_isLive st \<and> \<not> rf_isUnmounted st \<and> rf_inFlightRequestID st = None)"

subsection \<open>A search begins\<close>

lemma none_current_after_enter:
  "numbered st \<Longrightarrow> list_all (\<lambda>s. se_id s < rf_latestQueryRequest (enter_search options st)) (rf_searches (enter_search options st))"
  by (auto simp: numbered_def enter_search_def abortActiveRequests_def clearLiveTimer_def Let_def list_all_iff)

text \<open>What holds when the newest search is about to be parked or to end: no other search has its number.\<close>

definition about_to_park :: "page \<Rightarrow> bool" where
  "about_to_park st \<longleftrightarrow>
     list_all (\<lambda>s. se_id s < rf_latestQueryRequest st) (rf_searches st)
     \<and> list_all (\<lambda>r. cr_id r \<le> rf_latestHistogramRequest st) (rf_chartRetries st)
     \<and> rf_inFlightRequestID st = Some (rf_latestQueryRequest st) \<and> rf_liveTimer st = None
     \<and> (rs_retryingHistogram st \<longrightarrow> retrying st)"

lemma no_current: "list_all (\<lambda>s. se_id s < rf_latestQueryRequest st) (rf_searches st) \<Longrightarrow>
    filter (current st) (rf_searches st) = [] \<and> \<not> searching st"
  by (auto simp: searching_def list_ex_iff list_all_iff filter_empty_conv)

lemma park_inv:
  assumes "about_to_park st" "current st s" "\<not> rf_isUnmounted st \<longrightarrow> \<not> se_aborted s"
    "rs_tableRefreshing st \<longrightarrow> for_table (se_waiting s)"
  shows "page_inv (park s st)"
  using assms no_current [of st]
  by (auto simp: about_to_park_def page_inv_def park_def numbered_def searching_def retrying_def list_all_iff intro: less_imp_le)

lemma continue_after_inv [simp]: "page_inv (continue_after k status st) \<longleftrightarrow> page_inv st"
  by (cases k; simp add: page_inv_def numbered_def searching_def retrying_def setPageSize_realtime_def Let_def)

lemma finish_inv:
  assumes "about_to_park st" "current st s"
  shows "page_inv (finish_search s status st)"
  using assms no_current [of st]
  unfolding finish_search_def continue_after_inv
  by (auto simp: about_to_park_def page_inv_def release_def scheduleNextLiveTick_def clearLiveTimer_def Let_def numbered_def
      searching_def retrying_def list_all_iff intro: less_imp_le)

lemma about_to_park_frame [simp]:
  "about_to_park (notify n st) = about_to_park st" "about_to_park (settle_flags s st) = about_to_park st"
  "about_to_park (st\<lparr>rf_pageCursorMap := m\<rparr>) = about_to_park st"
  by (simp_all add: about_to_park_def notify_def settle_flags_def retrying_def)

lemma frame_simps [simp]:
  "rf_latestQueryRequest (notify n st) = rf_latestQueryRequest st" "rf_latestQueryRequest (settle_flags s st) = rf_latestQueryRequest st"
  "rf_isUnmounted (notify n st) = rf_isUnmounted st" "rf_isUnmounted (settle_flags s st) = rf_isUnmounted st"
  by (simp_all add: notify_def settle_flags_def)

lemma on_located_inv:
  assumes "about_to_park st" "current st s" "\<not> rf_isUnmounted st \<longrightarrow> \<not> se_aborted s"
  shows "page_inv (on_located s m cur st)"
proof (cases "cloneRealtimePageCursor cur")
  case None
  then show ?thesis using assms by (simp add: on_located_def Let_def finish_inv)
next
  case (Some c)
  then show ?thesis using assms by (simp add: on_located_def Let_def with_cursor_def park_inv)
qed

lemma locate_further_inv:
  assumes "about_to_park st" "current st s" "\<not> rf_isUnmounted st \<longrightarrow> \<not> se_aborted s"
  shows "page_inv (locate_further s pr st)"
  using assms by (cases pr) (simp_all add: locate_further_def on_located_inv park_inv)

lemma new_search_props:
  "new_search lc c cl options k st = (s, cur) \<Longrightarrow>
     se_id s = rf_latestQueryRequest st \<and> \<not> se_aborted s \<and> se_waiting s = Wait_Table \<and> se_options s = options
     \<and> se_closure s = cl \<and> se_then s = k \<and> \<not> se_succeeded s"
  by (auto simp: new_search_def Let_def)

lemma begin_search_inv:
  assumes "numbered st"
  shows "page_inv (begin_search lc c cl options k st)"
proof -
  obtain s cur where s: "new_search lc c cl options k (enter_search options st) = (s, cur)" by fastforce
  let ?st = "show_refreshing s (enter_search options st)"
  have ready: "about_to_park ?st" "current ?st s" "\<not> se_aborted s" "se_waiting s = Wait_Table"
    using none_current_after_enter [OF assms, of options] assms new_search_props [OF s]
    by (auto simp: about_to_park_def show_refreshing_def enter_search_def abortActiveRequests_def clearLiveTimer_def Let_def
        numbered_def retrying_def list_all_iff)
  show ?thesis using ready by (simp add: begin_search_def Let_def s locate_further_inv park_inv)
qed

subsection \<open>A search goes on\<close>

lemma set_without: "set (without i xs) \<subseteq> set xs"
  by (auto simp: without_def dest: in_set_takeD in_set_dropD)

lemma without_split: "i < length xs \<Longrightarrow> xs = take i xs @ xs ! i # drop (i + 1) xs"
  by (simp add: id_take_nth_drop)

lemma without_filter: "i < length xs \<Longrightarrow> P (xs ! i) \<Longrightarrow> length (filter P xs) \<le> 1 \<Longrightarrow> filter P (without i xs) = []"
proof -
  assume "i < length xs" and P: "P (xs ! i)" and "length (filter P xs) \<le> 1"
  moreover from this have "filter P xs = filter P (take i xs) @ xs ! i # filter P (drop (i + 1) xs)"
    using without_split [of i xs] P by (metis filter.simps(2) filter_append)
  ultimately show ?thesis by (simp add: without_def)
qed

lemma without_filter_other: "i < length xs \<Longrightarrow> \<not> P (xs ! i) \<Longrightarrow> filter P (without i xs) = filter P xs"
  using without_split [of i xs] by (metis filter.simps(2) filter_append without_def)

lemma list_ex_filter: "list_ex P xs \<longleftrightarrow> filter P xs \<noteq> []"
  by (auto simp: list_ex_iff filter_empty_conv)

abbreviation taken :: "nat \<Rightarrow> page \<Rightarrow> page" where
  "taken i st \<equiv> st\<lparr>rf_searches := without i (rf_searches st)\<rparr>"

lemma take_current:
  assumes "page_inv st" "i < length (rf_searches st)" "current st (rf_searches st ! i)"
  shows "about_to_park (taken i st)"
proof -
  have "searching st" using assms(2,3) by (auto simp: searching_def list_ex_iff)
  moreover have "filter (current st) (without i (rf_searches st)) = []"
    using without_filter [of i "rf_searches st" "current st"] assms by (simp add: page_inv_def)
  moreover have "list_all (\<lambda>s. se_id s \<le> rf_latestQueryRequest st) (without i (rf_searches st))"
    using assms(1) set_without [of i "rf_searches st"] by (auto simp: page_inv_def numbered_def list_all_iff)
  ultimately show ?thesis
    using assms(1) by (auto simp: page_inv_def about_to_park_def numbered_def filter_empty_conv list_all_iff retrying_def
        intro: le_neq_implies_less)
qed

lemma take_stale:
  assumes "page_inv st" "i < length (rf_searches st)" "\<not> current st (rf_searches st ! i)"
  shows "page_inv (taken i st)"
proof -
  have f: "filter (current st) (without i (rf_searches st)) = filter (current st) (rf_searches st)"
    "filter (\<lambda>s. current st s \<and> for_table (se_waiting s)) (without i (rf_searches st))
       = filter (\<lambda>s. current st s \<and> for_table (se_waiting s)) (rf_searches st)"
    using assms(2,3) by (simp_all add: without_filter_other)
  show ?thesis
    using assms(1) f set_without [of i "rf_searches st"]
    by (auto simp: page_inv_def numbered_def searching_def retrying_def list_ex_filter list_all_iff)
qed

fun turns_page :: "continuation \<Rightarrow> bool" where
  "turns_page (Restore_Page p sz n) = True"
| "turns_page _ = False"

lemma finish_stale:
  assumes "page_inv st" "\<not> current st s" "status \<noteq> Failed"
  shows "finish_search s status st
    = st\<lparr>rs_retryingCurrentQuery := (se_then s \<noteq> End_Retry \<and> rs_retryingCurrentQuery st),
         rs_locating := (if turns_page (se_then s) then None else rs_locating st)\<rparr>"
  using assms by (cases "se_then s") (auto simp: finish_search_def release_def page_inv_def Let_def split: if_splits)

lemma status_or_stale_ne [simp]: "status_or_stale s \<noteq> Failed" "status_or_stale (s\<lparr>se_failedHard := b\<rparr>) = status_or_stale s"
  by (simp_all add: status_or_stale_def)

lemma settle_stale [simp]: "\<not> current st s \<Longrightarrow> settle_flags s st = st"
  by (simp add: settle_flags_def)

text \<open>An answer to an older search: only the mark of the retry and the notice of a page turn can change.\<close>

abbreviation after_end :: "search \<Rightarrow> page \<Rightarrow> page" where
  "after_end s st \<equiv>
     st\<lparr>rs_retryingCurrentQuery := (se_then s \<noteq> End_Retry \<and> rs_retryingCurrentQuery st),
        rs_locating := (if turns_page (se_then s) then None else rs_locating st)\<rparr>"

lemma resume_stale:
  assumes "page_inv st" "i < length (rf_searches st)" "\<not> current st (rf_searches st ! i)"
    "fits (se_waiting (rf_searches st ! i)) rep"
  shows "resume_search lc lt c i rep st = after_end (rf_searches st ! i) (taken i st)"
proof -
  let ?s = "rf_searches st ! i"
  have inv: "page_inv (taken i st)" by (rule take_stale [OF assms(1-3)])
  have stale: "\<not> current (taken i st) ?s" using assms(3) by simp
  have ending: "finish_search s' status (taken i st) = after_end ?s (taken i st)"
    if "se_id s' = se_id ?s" "se_then s' = se_then ?s" "status \<noteq> Failed" for s' status
    using finish_stale [OF inv, of s' status] stale that by simp
  show ?thesis
  proof (cases rep)
    case (Rows r)
    then have "resume_search lc lt c i rep st = finish_search ?s (status_or_stale ?s) (taken i st)"
      using assms(3,4)
      by (cases "se_waiting ?s"; cases r)
        (simp_all add: resume_search_def Let_def on_cursor_def on_table_def search_aborted_def table_failed_def on_located_def)
    then show ?thesis using ending [of ?s "status_or_stale ?s"] by simp
  next
    case (Counts r)
    let ?h = "?s\<lparr>se_failedHard := se_failedHard ?s \<or> hard r\<rparr>"
    from Counts have "resume_search lc lt c i rep st = finish_search ?h (status_or_stale ?s) (taken i st)"
      using assms(3,4)
      by (cases "se_waiting ?s") (simp_all add: resume_search_def Let_def on_totals_def on_errors_def)
    then show ?thesis using ending [of ?h "status_or_stale ?s"] by simp
  qed
qed

text \<open>An answer to the newest search.\<close>

lemma only_current:
  assumes "length (filter P xs) \<le> 1" "x \<in> set xs" "y \<in> set xs" "P x" "P y"
  shows "x = y"
proof -
  have "x \<in> set (filter P xs)" "y \<in> set (filter P xs)" using assms by simp_all
  then show ?thesis using assms(1) by (cases "filter P xs") auto
qed

lemma shown_frame [simp]:
  "about_to_park (show_rows s r st) = about_to_park st" "about_to_park (show_table_error s e st) = about_to_park st"
  "about_to_park (show_chart c points b key st) = about_to_park st" "about_to_park (show_chart_error had silent st) = about_to_park st"
  "rf_latestQueryRequest (show_rows s r st) = rf_latestQueryRequest st"
  "rf_latestQueryRequest (show_table_error s e st) = rf_latestQueryRequest st"
  "rf_latestQueryRequest (show_chart c points b key st) = rf_latestQueryRequest st"
  "rf_latestQueryRequest (show_chart_error had silent st) = rf_latestQueryRequest st"
  "rf_isUnmounted (show_rows s r st) = rf_isUnmounted st" "rf_isUnmounted (show_table_error s e st) = rf_isUnmounted st"
  by (simp_all add: show_rows_def show_table_error_def show_chart_def show_chart_error_def Let_def about_to_park_def retrying_def
      notify_def)

lemma settled: "current st s \<Longrightarrow> \<not> rs_tableRefreshing (settle_flags s st)"
  by (simp add: settle_flags_def)

lemma after_table_inv:
  assumes "about_to_park st" "current st s" "\<not> rf_isUnmounted st \<longrightarrow> \<not> se_aborted s"
  shows "page_inv (after_table s st)"
proof (cases "se_refreshHistogram s")
  case True
  have "page_inv (park (s\<lparr>se_waiting := Wait_Totals\<rparr>) (settle_flags s st))"
    using assms settled [of s st] by (intro park_inv) simp_all
  then show ?thesis using True by (simp add: after_table_def Let_def)
qed (use assms in \<open>simp add: after_table_def Let_def finish_inv\<close>)

lemma about_to_park_numbered: "about_to_park st \<Longrightarrow> numbered st"
  by (auto simp: about_to_park_def numbered_def list_all_iff intro: less_imp_le)

lemma on_table_inv:
  assumes "about_to_park st" "current st s" "\<not> rf_isUnmounted st \<longrightarrow> \<not> se_aborted s"
  shows "page_inv (on_table lc c s rep st)"
proof (cases rep)
  case (Answered r)
  have "numbered (notify n (st\<lparr>rf_isLive := b, rs_isLive := b', rs_customTimeRange := tr, rs_liveWindow := w\<rparr>))" for n b b' tr w
    using about_to_park_numbered [OF assms(1)] by (simp add: numbered_def notify_def)
  then show ?thesis
    using assms Answered by (auto simp: on_table_def after_table_inv begin_search_inv)
qed (use assms in \<open>simp_all add: on_table_def search_aborted_def table_failed_def finish_inv after_table_inv\<close>)

lemma on_cursor_inv:
  assumes "about_to_park st" "current st s" "\<not> rf_isUnmounted st \<longrightarrow> \<not> se_aborted s" "se_waiting s = Wait_Cursor opts loc"
  shows "page_inv (on_cursor s rep st)"
  using assms
  by (cases rep) (auto simp: on_cursor_def search_aborted_def table_failed_def finish_inv after_table_inv on_located_inv park_inv
      split: progress.split)

lemma on_counts_inv:
  assumes "about_to_park st" "current st s" "\<not> rf_isUnmounted st \<longrightarrow> \<not> se_aborted s" "\<not> rs_tableRefreshing st"
  shows "page_inv (on_totals lc lt c s rep st)" "page_inv (on_errors lc lt c s totals rep st)"
proof -
  have conclude: "page_inv (conclude lc lt c (s\<lparr>se_failedHard := b\<rparr>) h st)" for b h
    using assms(1,2) by (auto simp: conclude_def intro!: finish_inv split: option.split)
  then show "page_inv (on_totals lc lt c s rep st)" "page_inv (on_errors lc lt c s totals rep st)"
    using assms by (auto simp: on_totals_def on_errors_def Let_def park_inv split: outcome.split)
qed

lemma resume_current_inv:
  assumes "page_inv st" "i < length (rf_searches st)" "current st (rf_searches st ! i)"
    "fits (se_waiting (rf_searches st ! i)) rep"
  shows "page_inv (resume_search lc lt c i rep st)"
proof -
  let ?s = "rf_searches st ! i" and ?st = "taken i st"
  have "?s \<in> set (rf_searches st)" using assms(2) by simp
  then have a: "about_to_park ?st" "current ?st ?s" "\<not> rf_isUnmounted ?st \<longrightarrow> \<not> se_aborted ?s"
    using take_current [OF assms(1-3)] assms(1,3) by (auto simp: page_inv_def list_all_iff)
  have "\<not> rs_tableRefreshing ?st" if w: "\<not> for_table (se_waiting ?s)"
  proof
    assume "rs_tableRefreshing ?st"
    then obtain s' where "s' \<in> set (rf_searches st)" "current st s'" "for_table (se_waiting s')"
      using assms(1) by (auto simp: page_inv_def list_ex_iff)
    moreover from this have "s' = ?s"
      using only_current [of "current st" "rf_searches st" s' ?s] assms(1-3) by (simp add: page_inv_def)
    ultimately show False using w by simp
  qed
  then show ?thesis
    using assms(4) a by (cases "se_waiting ?s"; cases rep) (simp_all add: resume_search_def Let_def on_table_inv on_cursor_inv on_counts_inv)
qed

lemma quiet_updates [simp]:
  "page_inv (st\<lparr>rs_query := q\<rparr>) = page_inv st" "page_inv (st\<lparr>rs_browser := b\<rparr>) = page_inv st"
  "page_inv (st\<lparr>rs_levelFilter := l, rs_sourceFilter := sc, rs_extraFilters := ex\<rparr>) = page_inv st"
  "page_inv (st\<lparr>rs_retryingCurrentQuery := b'\<rparr>) = page_inv st" "page_inv (st\<lparr>rs_locating := x\<rparr>) = page_inv st"
  "page_inv (st\<lparr>rs_retryingCurrentQuery := b', rs_locating := x\<rparr>) = page_inv st"
  "page_inv (st\<lparr>rs_hidden := h\<rparr>) = page_inv st" "page_inv (notify n st) = page_inv st"
  "page_inv (st\<lparr>rs_retryingHistogram := False, rs_histogramRefreshing := False, rf_latestHistogramRequest := k\<rparr>)
     = page_inv (st\<lparr>rf_latestHistogramRequest := k, rs_retryingHistogram := False, rs_histogramRefreshing := False\<rparr>)"
  by (simp_all add: page_inv_def numbered_def searching_def retrying_def notify_def del: not_None_eq)

lemma resume_inv:
  assumes "page_inv st" "i < length (rf_searches st)" "fits (se_waiting (rf_searches st ! i)) rep"
  shows "page_inv (resume_search lc lt c i rep st)"
proof (cases "current st (rf_searches st ! i)")
  case False
  then show ?thesis using take_stale [OF assms(1,2) False] resume_stale [OF assms(1,2) False assms(3)] by simp
qed (rule resume_current_inv [OF assms(1,2) _ assms(3)])

subsection \<open>Handlers\<close>

lemma numbered_simps [simp]:
  "numbered (clearLiveTimer st) = numbered st" "numbered (scheduleNextLiveTick d n st) = numbered st"
  "numbered (armSuppressedNextLiveTick d st) = numbered st" "numbered (notify x st) = numbered st"
  "numbered (setPageSize_realtime n st) = numbered st" "numbered (abortActiveRequests st) = numbered st"
  by (simp_all add: numbered_def clearLiveTimer_def scheduleNextLiveTick_def armSuppressedNextLiveTick_def notify_def
      setPageSize_realtime_def abortActiveRequests_def Let_def list_all_iff)

lemma numbered_updates [simp]:
  "numbered (st\<lparr>rs_currentPage := n\<rparr>) = numbered st" "numbered (st\<lparr>rs_locating := x\<rparr>) = numbered st" "numbered (st\<lparr>rf_lastFilterState := k\<rparr>) = numbered st"
  "numbered (st\<lparr>rf_isLive := b\<rparr>) = numbered st" "numbered (st\<lparr>rs_isLive := b\<rparr>) = numbered st"
  "numbered (st\<lparr>rs_liveWindow := w\<rparr>) = numbered st" "numbered (st\<lparr>rs_customTimeRange := tr\<rparr>) = numbered st"
  "numbered (st\<lparr>rs_query := q\<rparr>) = numbered st" "numbered (st\<lparr>rs_activeQuery := q\<rparr>) = numbered st"
  "numbered (st\<lparr>rs_levelFilter := q\<rparr>) = numbered st" "numbered (st\<lparr>rs_sourceFilter := q\<rparr>) = numbered st"
  "numbered (st\<lparr>rs_extraFilters := f\<rparr>) = numbered st" "numbered (st\<lparr>rs_recentQueries := qs\<rparr>) = numbered st"
  "numbered (st\<lparr>rs_browser := br\<rparr>) = numbered st" "numbered (st\<lparr>rs_hidden := b\<rparr>) = numbered st"
  "numbered (st\<lparr>rs_retryingCurrentQuery := b\<rparr>) = numbered st" "numbered (st\<lparr>rf_suppressNextLiveTick := b\<rparr>) = numbered st"
  by (simp_all add: numbered_def)

lemma page_inv_numbered: "page_inv st \<Longrightarrow> numbered st"
  by (simp add: page_inv_def)

lemma timer_inv:
  "page_inv st \<Longrightarrow> page_inv (clearLiveTimer st)"
  "page_inv st \<Longrightarrow> page_inv ((clearLiveTimer st)\<lparr>rf_isLive := b, rs_isLive := b'\<rparr>)"
  "page_inv st \<Longrightarrow> page_inv (clearLiveTimer (st\<lparr>rf_isLive := b, rs_isLive := b'\<rparr>))"
  "page_inv st \<Longrightarrow> page_inv (clearLiveTimer (st\<lparr>rf_isLive := b\<rparr>))"
  "page_inv st \<Longrightarrow> page_inv (st\<lparr>rf_isLive := True, rs_isLive := True\<rparr>)"
  "page_inv st \<Longrightarrow> page_inv (st\<lparr>rf_isLive := True\<rparr>)"
  "page_inv st \<Longrightarrow> rf_inFlightRequestID st = None \<Longrightarrow> page_inv (scheduleNextLiveTick d n st)"
  by (auto simp: page_inv_def numbered_def searching_def retrying_def clearLiveTimer_def scheduleNextLiveTick_def)

lemma numbered_recent [simp]: "numbered (st\<lparr>rs_recentQueries := qs, rs_browser := b\<rparr>) = numbered st"
  by (simp add: numbered_def)

lemma searching_handlers_inv:
  assumes "page_inv st"
  shows "page_inv (runSearch lc c v b st)" "page_inv (start_plain lc c st)" "page_inv (start_preset lc c q tr st)"
    "page_inv (handleRetryCurrentQuery lc c st)" "page_inv (handleLiveWindowChange lc c w st)"
    "page_inv (follow_filters lc c st)"
  using page_inv_numbered [OF assms] assms
  by (simp_all add: runSearch_def start_plain_def start_preset_def handleRetryCurrentQuery_def handleLiveWindowChange_def
      follow_filters_def Let_def begin_search_inv split: prod.split)

lemma paging_inv:
  assumes "page_inv st"
  shows "page_inv (handleResultsPaginationChange lc c n sz st)"
  using page_inv_numbered [OF assms] timer_inv(2) [OF assms] assms
  by (simp add: handleResultsPaginationChange_def Let_def begin_search_inv)

lemma unsuppressed [simp]: "page_inv (st\<lparr>rf_suppressNextLiveTick := b\<rparr>) = page_inv st"
  by (simp add: page_inv_def numbered_def searching_def retrying_def del: not_None_eq)

lemma follow_inv: "page_inv st \<Longrightarrow> rs_isLive st \<Longrightarrow> page_inv (st\<lparr>rf_isLive := rs_isLive st\<rparr>)"
  by (auto simp: page_inv_def numbered_def searching_def retrying_def)

lemma live_handlers_inv:
  assumes "page_inv st"
  shows "page_inv (handleToggleLive lc c st)" "page_inv (handleVisibilityChange lc c h st)"
    "page_inv (disable_live st)" "page_inv (follow_live st)"
  subgoal using page_inv_numbered [OF assms] timer_inv [OF assms]
    by (simp add: handleToggleLive_def Let_def begin_search_inv assms)
  subgoal using page_inv_numbered [OF assms] timer_inv(1) [of "st\<lparr>rs_hidden := h\<rparr>"] assms
    by (auto simp: handleVisibilityChange_def Let_def begin_search_inv)
  subgoal using timer_inv(3) [OF assms] assms by (simp add: disable_live_def)
  subgoal using assms follow_inv [of st] by (simp add: follow_live_def Let_def timer_inv(4) timer_inv(7))
  done

lemma live_tick_inv:
  assumes "page_inv st" "rf_liveTimer st = Some d"
  shows "page_inv (live_tick lc c d st)"
proof -
  have "rf_inFlightRequestID (clearLiveTimer st) = None" using assms by (auto simp: page_inv_def clearLiveTimer_def)
  then show ?thesis
    using page_inv_numbered [OF assms(1)] timer_inv(1) [OF assms(1)]
    by (simp add: live_tick_def Let_def begin_search_inv timer_inv(7))
qed

lemma unmount_inv: "page_inv st \<Longrightarrow> page_inv (unmount st)"
  by (auto simp: unmount_def page_inv_def numbered_def searching_def retrying_def abortActiveRequests_def clearLiveTimer_def
      list_all_iff list_ex_iff filter_map comp_def)

lemma retry_inv:
  assumes "page_inv st"
  shows "page_inv (handleRetryHistogram lc st)"
  using assms
  by (auto simp: handleRetryHistogram_def Let_def page_inv_def numbered_def searching_def retrying_def list_all_iff split: option.split intro: le_SucI)

text \<open>An answer to a retry of the chart.\<close>

lemma dropped_retry:
  assumes "page_inv st"
  shows "page_inv (st\<lparr>rf_chartRetries := rs, rs_histogramRefreshing := False, rs_retryingHistogram := False\<rparr>)
     \<longleftrightarrow> list_all (\<lambda>r. cr_id r \<le> rf_latestHistogramRequest st) rs"
  using assms by (auto simp: page_inv_def numbered_def searching_def retrying_def)

lemma without_all: "list_all P xs \<Longrightarrow> list_all P (without i xs)"
  using set_without [of i xs] by (auto simp: list_all_iff)

lemma chart_frame [simp]:
  "page_inv (show_chart c points b key st) = page_inv st" "page_inv (show_chart_error had silent st) = page_inv st"
  "page_inv (st\<lparr>rs_histogramInitialLoading := b\<rparr>) = page_inv st"
  by (simp_all add: page_inv_def numbered_def searching_def retrying_def show_chart_def show_chart_error_def notify_def Let_def
      del: not_None_eq)

lemma chart_latest [simp]:
  "rf_latestHistogramRequest (show_chart c points b key st) = rf_latestHistogramRequest st"
  "rf_latestHistogramRequest (show_chart_error had silent st) = rf_latestHistogramRequest st"
  by (simp_all add: show_chart_def show_chart_error_def notify_def Let_def)

text \<open>All that the invariant asks, but that a flag of the chart may be on without a request.\<close>

definition chart_loose :: "page \<Rightarrow> bool" where
  "chart_loose st \<longleftrightarrow> page_inv (st\<lparr>rs_histogramRefreshing := False, rs_retryingHistogram := False\<rparr>)"

lemma chart_loose_frame [simp]:
  "chart_loose (show_chart c points b key st) = chart_loose st" "chart_loose (show_chart_error had silent st) = chart_loose st"
  by (simp_all add: chart_loose_def page_inv_def numbered_def searching_def retrying_def show_chart_def show_chart_error_def
      notify_def Let_def del: not_None_eq)

lemma end_retry_inv: "chart_loose st \<Longrightarrow> cr_id r = rf_latestHistogramRequest st \<Longrightarrow> page_inv (end_retry r st)"
  by (auto simp: chart_loose_def end_retry_def page_inv_def numbered_def searching_def retrying_def)

lemma conclude_retry_inv:
  "chart_loose st \<Longrightarrow> cr_id r = rf_latestHistogramRequest st \<Longrightarrow> page_inv (conclude_retry lc lt c r h st)"
  by (auto simp: conclude_retry_def intro!: end_retry_inv split: option.split)

lemma retry_taken:
  assumes "page_inv st" "i < length (rf_chartRetries st)"
  shows "chart_loose (st\<lparr>rf_chartRetries := without i (rf_chartRetries st)\<rparr>)"
  using assms without_all [of _ "rf_chartRetries st" i]
  by (auto simp: chart_loose_def page_inv_def numbered_def searching_def)

lemma stale_retry_taken:
  assumes "page_inv st" "i < length (rf_chartRetries st)" "cr_id (rf_chartRetries st ! i) \<noteq> rf_latestHistogramRequest st"
  shows "page_inv (st\<lparr>rf_chartRetries := without i (rf_chartRetries st)\<rparr>)"
proof -
  have "list_ex (\<lambda>r. cr_id r = rf_latestHistogramRequest st) (without i (rf_chartRetries st))
      = list_ex (\<lambda>r. cr_id r = rf_latestHistogramRequest st) (rf_chartRetries st)"
    using without_filter_other [of i "rf_chartRetries st" "\<lambda>r. cr_id r = rf_latestHistogramRequest st"] assms(2,3)
    by (simp add: list_ex_filter)
  then show ?thesis
    using assms(1) without_all [of _ "rf_chartRetries st" i] by (auto simp: page_inv_def numbered_def searching_def retrying_def)
qed

lemma park_retry:
  assumes "chart_loose st" "cr_id r = rf_latestHistogramRequest st"
  shows "page_inv (st\<lparr>rf_chartRetries := rf_chartRetries st @ [r]\<rparr>)"
  using assms by (auto simp: chart_loose_def page_inv_def numbered_def searching_def retrying_def)

lemma resume_retry_inv:
  assumes "page_inv st" "i < length (rf_chartRetries st)"
  shows "page_inv (resume_retry lc lt c i rep st)"
proof -
  let ?r = "rf_chartRetries st ! i" and ?st = "st\<lparr>rf_chartRetries := without i (rf_chartRetries st)\<rparr>"
  note loose = retry_taken [OF assms]
  show ?thesis
  proof (cases "cr_id ?r = rf_latestHistogramRequest st")
    case True
    then show ?thesis
      using loose conclude_retry_inv [OF loose] park_retry [OF loose]
      by (simp add: resume_retry_def on_retry_def Let_def split: option.split outcome.split)
  next
    case False
    then show ?thesis
      using stale_retry_taken [OF assms False] by (simp add: resume_retry_def on_retry_def end_retry_def)
  qed
qed

section \<open>Every run\<close>

lemma open_page_inv: "page_inv (open_page lc c prefs b hidden)"
  by (simp add: open_page_def page_inv_def numbered_def searching_def retrying_def)

lemma page_run_inv: "page_run lc lt st \<Longrightarrow> page_inv st"
by (induction rule: page_run.induct)
  (simp_all add: open_page_inv handleSearch_def searching_handlers_inv paging_inv live_handlers_inv live_tick_inv unmount_inv retry_inv resume_inv
    resume_retry_inv)

end
