(* ===== verification/Realtime_Life.thy ===== *)
theory Realtime_Life
  imports Realtime_Run
begin

text \<open>
  What holds on every run of the search page: one newest search at most, which is the registered one; indicators
  of loading only while something is under way; answers to older searches without effect; an end of the newest
  search after a bounded number of answers.
\<close>

section \<open>The answers a search still waits for\<close>

fun waiting_rank :: "waiting \<Rightarrow> nat" where
  "waiting_rank (Wait_Cursor opts (Bridging m)) = nat (co_targetPage opts) + 5"
| "waiting_rank (Wait_Cursor opts (Stepping m page cur)) = nat (co_targetPage opts - page) + 4"
| "waiting_rank Wait_Table = 3"
| "waiting_rank Wait_Totals = 2"
| "waiting_rank (Wait_Errors totals) = 1"

definition search_rank :: "search \<Rightarrow> nat" where
  "search_rank s = waiting_rank (se_waiting s) + (if qo_autoAll (se_options s) then 3 else 0)"

definition page_rank :: "page \<Rightarrow> nat" where
  "page_rank st = sum_list (map search_rank (filter (current st) (rf_searches st)))"

lemma waiting_rank_asking: "waiting_rank (Wait_Cursor opts loc) = rest_requests opts (Asking p loc) + 3"
  by (cases loc) simp_all

lemma waiting_rank_pos [simp]: "waiting_rank w \<noteq> 0" "0 < waiting_rank w"
  by (cases w rule: waiting_rank.cases; simp)+

lemma page_rank_zero: "page_rank st = 0 \<longleftrightarrow> \<not> searching st"
  by (auto simp: page_rank_def searching_def list_ex_iff search_rank_def)

lemma park_rank: "about_to_park st \<Longrightarrow> current st s \<Longrightarrow> page_rank (park s st) = search_rank s"
  using no_current [of st] by (simp add: about_to_park_def page_rank_def park_def)

lemma continue_after_rank [simp]: "page_rank (continue_after k status st) = page_rank st"
  by (cases k; simp add: page_rank_def setPageSize_realtime_def Let_def)

lemma release_rank [simp]: "page_rank (release s st) = page_rank st"
  by (simp add: release_def Let_def page_rank_def scheduleNextLiveTick_def clearLiveTimer_def)

lemma ready_rank: "about_to_park st \<Longrightarrow> page_rank st = 0"
  using no_current [of st] by (simp add: about_to_park_def page_rank_def)

lemma finish_rank: "about_to_park st \<Longrightarrow> page_rank (finish_search s status st) = 0"
  by (simp add: finish_search_def ready_rank)

lemma located_rank:
  "about_to_park st \<Longrightarrow> current st s \<Longrightarrow> page_rank (on_located s m cur st) \<le> (if qo_autoAll (se_options s) then 6 else 3)"
  by (cases "cloneRealtimePageCursor cur")
    (simp_all add: on_located_def Let_def finish_rank park_rank with_cursor_def search_rank_def)

lemma after_table_rank:
  "about_to_park st \<Longrightarrow> current st s \<Longrightarrow> page_rank (after_table s st) \<le> (if qo_autoAll (se_options s) then 5 else 2)"
  by (simp add: after_table_def Let_def finish_rank park_rank search_rank_def)

lemma first_page_parked:
  "qo_page options = 1 \<Longrightarrow> begin_search lc c cl options k st
     = (let s = fst (new_search lc c cl options k (enter_search options st))
        in park s (show_refreshing s (enter_search options st)))"
  using resolveMaxPaginationPage_pos [of "qo_pageSize options"]
  by (simp add: begin_search_def Let_def shouldResolveRealtimeDeepPageCursor_def not_less split: prod.split
      del: resolveMaxPaginationPage_pos)

lemma first_page_rank:
  assumes "numbered st" "qo_page options = 1" "\<not> qo_autoAll options"
  shows "page_rank (begin_search lc c cl options k st) = 3"
proof -
  obtain s cur where s: "new_search lc c cl options k (enter_search options st) = (s, cur)" by fastforce
  let ?st = "show_refreshing s (enter_search options st)"
  have "about_to_park ?st" "current ?st s" "se_waiting s = Wait_Table" "se_options s = options"
    using none_current_after_enter [OF assms(1), of options] assms(1) new_search_props [OF s]
    by (auto simp: about_to_park_def show_refreshing_def enter_search_def abortActiveRequests_def clearLiveTimer_def Let_def
        numbered_def retrying_def list_all_iff)
  moreover have "\<not> shouldResolveRealtimeDeepPageCursor (qo_page options) (qo_pageSize options) cur"
    using assms(2) resolveMaxPaginationPage_pos [of "qo_pageSize options"] by (simp add: shouldResolveRealtimeDeepPageCursor_def not_less del: resolveMaxPaginationPage_pos)
  ultimately show ?thesis using assms(3) by (simp add: begin_search_def Let_def s park_rank search_rank_def)
qed

lemma on_table_rank:
  assumes "about_to_park st" "current st s" "se_waiting s = Wait_Table"
  shows "page_rank (on_table lc c s rep st) < search_rank s"
proof (cases rep)
  case (Answered r)
  have fallback: "page_rank (begin_search lc c (se_closure s) (widen_options (se_options s)) (se_then s)
      (notify n (st\<lparr>rf_isLive := False, rs_isLive := False, rs_customTimeRange := None, rs_liveWindow := Any_Time\<rparr>))) = 3" for n
    using about_to_park_numbered [OF assms(1)] by (intro first_page_rank) (simp_all add: widen_options_def)
  have shown: "page_rank (after_table (s\<lparr>se_succeeded := True\<rparr>) (show_rows s r st)) < search_rank s"
    using after_table_rank [of "show_rows s r st" "s\<lparr>se_succeeded := True\<rparr>"] assms by (simp add: search_rank_def split: if_splits)
  show ?thesis
    using Answered assms fallback shown
    by (auto simp: on_table_def search_rank_def shouldAutoFallbackEmptyRealtimeWindow_def fallback_params_of_def split: if_splits)
next
  case (Broken e)
  then show ?thesis
    using after_table_rank [of "show_table_error s e st" s] assms
    by (simp add: on_table_def table_failed_def search_rank_def split: if_splits)
qed (use assms in \<open>simp add: on_table_def search_aborted_def finish_rank search_rank_def\<close>)

lemma on_cursor_rank:
  assumes "about_to_park st" "current st s" "se_waiting s = Wait_Cursor opts loc"
  shows "page_rank (on_cursor s rep st) < search_rank s"
proof (cases rep)
  case (Answered r)
  have big: "3 < waiting_rank (Wait_Cursor opts loc)" by (cases loc) simp_all
  have less: "rest_requests opts (resume_locating opts loc r) < rest_requests opts (Asking (lp_dummy) loc)" for lp_dummy
    using resume_locating_less by blast
  show ?thesis
  proof (cases "resume_locating opts loc r")
    case (Located m cur)
    then show ?thesis
      using located_rank [OF assms(1,2), of m cur] Answered assms big by (simp add: on_cursor_def search_rank_def split: if_splits)
  next
    case (Asking p loc')
    then have "waiting_rank (Wait_Cursor opts loc') < waiting_rank (Wait_Cursor opts loc)"
      using less [of p] by (simp add: waiting_rank_asking [of _ _ p])
    then show ?thesis using Asking Answered assms by (simp add: on_cursor_def park_rank search_rank_def)
  qed
next
  case (Broken e)
  have big: "3 < waiting_rank (Wait_Cursor opts loc)" by (cases loc) simp_all
  show ?thesis
    using after_table_rank [of "show_table_error s e st" s] assms Broken big
    by (simp add: on_cursor_def table_failed_def search_rank_def split: if_splits)
qed (use assms in \<open>simp add: on_cursor_def search_aborted_def finish_rank search_rank_def\<close>)

lemma on_counts_rank:
  assumes "about_to_park st" "current st s"
  shows "se_waiting s = Wait_Totals \<Longrightarrow> page_rank (on_totals lc lt c s rep st) < search_rank s"
    "se_waiting s = Wait_Errors totals \<Longrightarrow> page_rank (on_errors lc lt c s totals rep st) < search_rank s"
proof -
  have conclude: "page_rank (conclude lc lt c s' h st) = 0" for s' h
    using assms(1) by (auto simp: conclude_def intro!: finish_rank split: option.split)
  then show "se_waiting s = Wait_Totals \<Longrightarrow> page_rank (on_totals lc lt c s rep st) < search_rank s"
    "se_waiting s = Wait_Errors totals \<Longrightarrow> page_rank (on_errors lc lt c s totals rep st) < search_rank s"
    using assms by (auto simp: on_totals_def on_errors_def Let_def park_rank search_rank_def split: outcome.split)
qed

lemma one_current:
  assumes "length (filter P xs) \<le> 1" "x \<in> set xs" "P x"
  shows "filter P xs = [x]"
proof -
  have "x \<in> set (filter P xs)" using assms by simp
  then show ?thesis using assms(1) by (cases "filter P xs") auto
qed

lemma resume_rank:
  assumes "page_inv st" "i < length (rf_searches st)" "current st (rf_searches st ! i)"
    "fits (se_waiting (rf_searches st ! i)) rep"
  shows "page_rank (resume_search lc lt c i rep st) < page_rank st"
proof -
  let ?s = "rf_searches st ! i"
  have "page_rank st = search_rank ?s"
    using assms(1-3) one_current [of "current st" "rf_searches st" ?s] by (simp add: page_inv_def page_rank_def)
  moreover have "about_to_park (taken i st)" "current (taken i st) ?s" using take_current [OF assms(1-3)] assms(3) by simp_all
  ultimately show ?thesis
    using assms(4)
    by (cases "se_waiting ?s"; cases rep) (simp_all add: resume_search_def Let_def on_table_rank on_cursor_rank on_counts_rank)
qed

section \<open>Answering the newest search to its end\<close>

definition newest :: "page \<Rightarrow> nat" where
  "newest st = length (takeWhile (\<lambda>s. \<not> current st s) (rf_searches st))"

fun answer_newest ::
    "(string \<Rightarrow> string \<Rightarrow> int) \<Rightarrow> (int \<Rightarrow> string) \<Rightarrow> (nat \<Rightarrow> clock) \<Rightarrow> (nat \<Rightarrow> search \<Rightarrow> reply) \<Rightarrow> nat \<Rightarrow> page \<Rightarrow> page" where
  "answer_newest lc lt c ans 0 st = st"
| "answer_newest lc lt c ans (Suc n) st =
     (if searching st
      then answer_newest lc lt c ans n (resume_search lc lt (c n) (newest st) (ans n (rf_searches st ! newest st)) st) else st)"

lemma takeWhile_stops: "\<exists>x \<in> set xs. \<not> P x \<Longrightarrow> length (takeWhile P xs) < length xs"
  by (induction xs) auto

lemma newest_current:
  assumes "searching st"
  shows "newest st < length (rf_searches st)" "current st (rf_searches st ! newest st)"
proof -
  have "\<exists>s \<in> set (rf_searches st). \<not> \<not> current st s" using assms by (auto simp: searching_def list_ex_iff)
  then show "newest st < length (rf_searches st)" unfolding newest_def by (rule takeWhile_stops)
  then show "current st (rf_searches st ! newest st)" unfolding newest_def using nth_length_takeWhile by fastforce
qed

lemma answer_newest_ends:
  assumes "page_inv st" "\<And>n s. fits (se_waiting s) (ans n s)" "page_rank st \<le> n"
  shows "page_inv (answer_newest lc lt c ans n st) \<and> \<not> searching (answer_newest lc lt c ans n st)"
  using assms(1,3)
proof (induction n arbitrary: st)
  case 0
  then show ?case using page_rank_zero [of st] by simp
next
  case (Suc n)
  show ?case
  proof (cases "searching st")
    case True
    let ?st = "resume_search lc lt (c n) (newest st) (ans n (rf_searches st ! newest st)) st"
    note at = newest_current [OF True]
    have "page_inv ?st" by (rule resume_inv [OF Suc.prems(1) at(1) assms(2)])
    moreover have "page_rank ?st \<le> n"
      using resume_rank [OF Suc.prems(1) at assms(2), of lc lt "c n" n] Suc.prems(2) by linarith
    ultimately show ?thesis using Suc.IH True by simp
  qed (use Suc.prems in simp)
qed

section \<open>Marks of loading\<close>

text \<open>The marks of the first loading are on only while the newest search is under way or none has begun; the mark of
  the retry and the notice of a page turn only while a retry, a page turn has not ended. A search that
  continues with \<open>k\<close> is about to be parked or to end.\<close>

definition marks_before :: "continuation \<Rightarrow> page \<Rightarrow> bool" where
  "marks_before k st \<longleftrightarrow>
     (rs_retryingCurrentQuery st \<longrightarrow> k = End_Retry \<or> list_ex (\<lambda>s. se_then s = End_Retry) (rf_searches st))
     \<and> (rs_locating st \<noteq> None \<longrightarrow> turns_page k \<or> list_ex (turns_page \<circ> se_then) (rf_searches st))"

definition marks_ok :: "page \<Rightarrow> bool" where
  "marks_ok st \<longleftrightarrow>
     (rs_initialLoading st \<or> rs_histogramInitialLoading st \<longrightarrow> searching st \<or> rf_latestQueryRequest st = 0)
     \<and> marks_before No_Continuation st"

lemma park_marks: "current st s \<Longrightarrow> marks_before (se_then s) st \<Longrightarrow> marks_ok (park s st)"
  by (auto simp: marks_ok_def marks_before_def park_def searching_def)

lemma marks_before_frame [simp]:
  "marks_before k (release s st) = marks_before k st" "marks_before k (settle_flags s st) = marks_before k st"
  "marks_before k (notify x st) = marks_before k st" "marks_before k (show_rows s r st) = marks_before k st"
  "marks_before k (show_table_error s e st) = marks_before k st" "marks_before k (show_refreshing s st) = marks_before k st"
  "marks_before k (show_chart c points b key st) = marks_before k st"
  "marks_before k (show_chart_error had silent st) = marks_before k st"
  "marks_before k (clearLiveTimer st) = marks_before k st" "marks_before k (scheduleNextLiveTick d j st) = marks_before k st"
  "marks_before k (armSuppressedNextLiveTick d st) = marks_before k st"
  "marks_before k (setPageSize_realtime z st) = marks_before k st"
  "marks_before k (abortActiveRequests st) = marks_before k st" "marks_before k (enter_search options st) = marks_before k st"
  "marks_before k (st\<lparr>rf_pageCursorMap := m\<rparr>) = marks_before k st"
  by (auto simp: marks_before_def release_def settle_flags_def notify_def show_rows_def show_table_error_def show_refreshing_def
      show_chart_def show_chart_error_def clearLiveTimer_def scheduleNextLiveTick_def armSuppressedNextLiveTick_def
      setPageSize_realtime_def abortActiveRequests_def enter_search_def Let_def list_ex_iff)

lemma show_refreshing_latest [simp]: "rf_latestQueryRequest (show_refreshing s st) = rf_latestQueryRequest st"
  by (simp add: show_refreshing_def Let_def)

lemma release_clears:
  "current st s \<Longrightarrow> \<not> rs_initialLoading (release s st) \<and> \<not> rs_histogramInitialLoading (release s st)"
  by (simp add: release_def Let_def scheduleNextLiveTick_def clearLiveTimer_def)

lemma finish_marks:
  assumes "current st s" "marks_before (se_then s) st"
  shows "marks_ok (finish_search s status st)"
proof -
  have "marks_before (se_then s) (release s st)" using assms(2) by simp
  then show ?thesis
    using release_clears [OF assms(1)]
    by (cases "se_then s") (auto simp: finish_search_def marks_ok_def marks_before_def setPageSize_realtime_def Let_def)
qed

lemma located_marks:
  "current st s \<Longrightarrow> marks_before (se_then s) st \<Longrightarrow> marks_ok (on_located s m cur st)"
  by (cases "cloneRealtimePageCursor cur") (simp_all add: on_located_def Let_def finish_marks park_marks with_cursor_def)

lemma begin_marks:
  assumes "marks_before k st"
  shows "marks_ok (begin_search lc c cl options k st)"
proof -
  obtain s cur where s: "new_search lc c cl options k (enter_search options st) = (s, cur)" by fastforce
  let ?st = "show_refreshing s (enter_search options st)"
  have "current ?st s" "marks_before (se_then s) ?st" using assms new_search_props [OF s] by simp_all
  then show ?thesis
    by (auto simp: begin_search_def Let_def s locate_further_def located_marks park_marks split: progress.split)
qed

lemma after_table_marks: "current st s \<Longrightarrow> marks_before (se_then s) st \<Longrightarrow> marks_ok (after_table s st)"
  by (simp add: after_table_def Let_def finish_marks park_marks)

lemma failed_marks:
  assumes "current st s" "marks_before (se_then s) st"
  shows "marks_ok (table_failed s e st)" "marks_ok (search_aborted s st)"
  using assms by (simp_all add: table_failed_def search_aborted_def after_table_marks finish_marks)

lemma conclude_marks: "current st s \<Longrightarrow> marks_before (se_then s) st \<Longrightarrow> marks_ok (conclude lc lt c s h st)"
  by (auto simp: conclude_def intro!: finish_marks split: option.split)

lemma resume_current_marks:
  assumes "current st s" "marks_before (se_then s) st"
  shows "marks_ok (on_table lc c s r st)" "se_waiting s = Wait_Cursor opts loc \<Longrightarrow> marks_ok (on_cursor s r st)"
    "marks_ok (on_totals lc lt c s q st)" "marks_ok (on_errors lc lt c s totals q st)"
proof -
  have "marks_before k (notify n (st\<lparr>rf_isLive := b, rs_isLive := b', rs_customTimeRange := tr, rs_liveWindow := w\<rparr>)) = marks_before k st"
    for k n b b' tr w by (simp add: marks_before_def notify_def)
  then show "marks_ok (on_table lc c s r st)"
    using assms by (auto simp: on_table_def failed_marks after_table_marks begin_marks split: outcome.split)
  show "marks_ok (on_cursor s r st)" if "se_waiting s = Wait_Cursor opts loc"
    using assms that by (auto simp: on_cursor_def failed_marks located_marks park_marks split: outcome.split progress.split)
  show "marks_ok (on_totals lc lt c s q st)" "marks_ok (on_errors lc lt c s totals q st)"
    using assms by (auto simp: on_totals_def on_errors_def Let_def conclude_marks park_marks split: outcome.split)
qed

lemma without_ex: "i < length xs \<Longrightarrow> list_ex P xs \<longleftrightarrow> P (xs ! i) \<or> list_ex P (without i xs)"
proof -
  assume "i < length xs"
  then have "list_ex P xs \<longleftrightarrow> list_ex P (take i xs @ xs ! i # drop (i + 1) xs)" using without_split by metis
  then show ?thesis by (auto simp: without_def)
qed

lemma taken_marks:
  "marks_ok st \<Longrightarrow> i < length (rf_searches st) \<Longrightarrow> marks_before (se_then (rf_searches st ! i)) (taken i st)"
  using without_ex [of i "rf_searches st"] by (auto simp: marks_ok_def marks_before_def)

lemma resume_marks:
  assumes "page_inv st" "marks_ok st" "i < length (rf_searches st)" "fits (se_waiting (rf_searches st ! i)) rep"
  shows "marks_ok (resume_search lc lt c i rep st)"
proof (cases "current st (rf_searches st ! i)")
  case True
  note resume_current_marks [where st = "taken i st" and s = "rf_searches st ! i", OF _ taken_marks [OF assms(2,3)]]
  then show ?thesis
    using True assms(4) by (cases "se_waiting (rf_searches st ! i)"; cases rep) (simp_all add: resume_search_def Let_def)
next
  case False
  have "searching (taken i st) \<longleftrightarrow> searching st"
    using False without_ex [OF assms(3), of "current st"] by (simp add: searching_def)
  then show ?thesis
    using assms(2) taken_marks [OF assms(2,3)]
    by (cases "se_then (rf_searches st ! i)")
      (auto simp: resume_stale [OF assms(1,3) False assms(4)] marks_ok_def marks_before_def searching_def)
qed

text \<open>The steps of the user, the timers and the effects.\<close>

lemma marks_before_updates [simp]:
  "marks_before k (st\<lparr>rs_currentPage := n\<rparr>) = marks_before k st" "marks_before k (st\<lparr>rf_lastFilterState := t\<rparr>) = marks_before k st"
  "marks_before k (st\<lparr>rf_isLive := b\<rparr>) = marks_before k st" "marks_before k (st\<lparr>rs_isLive := b\<rparr>) = marks_before k st"
  "marks_before k (st\<lparr>rs_liveWindow := w\<rparr>) = marks_before k st"
  "marks_before k (st\<lparr>rs_customTimeRange := tr\<rparr>) = marks_before k st"
  "marks_before k (st\<lparr>rs_query := t\<rparr>) = marks_before k st" "marks_before k (st\<lparr>rs_activeQuery := t\<rparr>) = marks_before k st"
  "marks_before k (st\<lparr>rs_levelFilter := t\<rparr>) = marks_before k st" "marks_before k (st\<lparr>rs_sourceFilter := t\<rparr>) = marks_before k st"
  "marks_before k (st\<lparr>rs_extraFilters := f\<rparr>) = marks_before k st"
  "marks_before k (st\<lparr>rs_recentQueries := qs\<rparr>) = marks_before k st"
  "marks_before k (st\<lparr>rs_browser := br\<rparr>) = marks_before k st" "marks_before k (st\<lparr>rs_hidden := b\<rparr>) = marks_before k st"
  "marks_before k (st\<lparr>rf_suppressNextLiveTick := b\<rparr>) = marks_before k st"
  "marks_before k (st\<lparr>rf_isUnmounted := b\<rparr>) = marks_before k st"
  "marks_before End_Retry (st\<lparr>rs_retryingCurrentQuery := b\<rparr>) = marks_before End_Retry st"
  by (simp_all add: marks_before_def)

lemma marks_before_weaken: "marks_before No_Continuation st \<Longrightarrow> marks_before k st"
  by (auto simp: marks_before_def)

lemma marks_ok_before: "marks_ok st \<Longrightarrow> marks_before k st"
  using marks_before_weaken by (simp add: marks_ok_def)

lemma marks_ok_frame [simp]:
  "marks_ok (clearLiveTimer st) = marks_ok st" "marks_ok (scheduleNextLiveTick d j st) = marks_ok st"
  "marks_ok (notify x st) = marks_ok st" "marks_ok (st\<lparr>rf_isLive := b\<rparr>) = marks_ok st"
  "marks_ok (st\<lparr>rs_isLive := b\<rparr>) = marks_ok st" "marks_ok (st\<lparr>rs_hidden := b\<rparr>) = marks_ok st"
  "marks_ok (st\<lparr>rf_suppressNextLiveTick := b\<rparr>) = marks_ok st" "marks_ok (abortActiveRequests st) = marks_ok st"
  "marks_ok (st\<lparr>rf_isUnmounted := b\<rparr>) = marks_ok st" "marks_ok (st\<lparr>rs_query := q\<rparr>) = marks_ok st"
  "marks_ok (st\<lparr>rs_browser := br\<rparr>) = marks_ok st"
  by (auto simp: marks_ok_def marks_before_def searching_def clearLiveTimer_def scheduleNextLiveTick_def notify_def
      abortActiveRequests_def list_ex_iff)

lemma searching_handlers_marks:
  assumes "marks_ok st"
  shows "marks_ok (runSearch lc c v b st)" "marks_ok (start_plain lc c st)" "marks_ok (start_preset lc c q tr st)"
    "marks_ok (handleRetryCurrentQuery lc c st)" "marks_ok (handleLiveWindowChange lc c w st)" "marks_ok (follow_filters lc c st)"
  using assms marks_ok_before [OF assms]
  by (simp_all add: runSearch_def start_plain_def start_preset_def handleRetryCurrentQuery_def handleLiveWindowChange_def
      follow_filters_def Let_def begin_marks split: prod.split)

lemma paging_marks:
  assumes "marks_ok st"
  shows "marks_ok (handleResultsPaginationChange lc c n sz st)"
proof -
  have "marks_before (Restore_Page p z m) (st'\<lparr>rs_locating := x\<rparr>) = marks_before (Restore_Page p z m) st'" for p z m st' x
    by (auto simp: marks_before_def)
  then show ?thesis
    using assms marks_ok_before [OF assms] by (simp add: handleResultsPaginationChange_def Let_def begin_marks)
qed

lemma live_handlers_marks:
  assumes "marks_ok st"
  shows "marks_ok (live_tick lc c d st)" "marks_ok (handleToggleLive lc c st)" "marks_ok (handleVisibilityChange lc c h st)"
    "marks_ok (disable_live st)" "marks_ok (follow_live st)" "marks_ok (unmount st)"
  using assms marks_ok_before [OF assms]
  by (simp_all add: live_tick_def handleToggleLive_def handleVisibilityChange_def disable_live_def follow_live_def unmount_def
      Let_def begin_marks)

lemma chart_marks:
  assumes "marks_ok st"
  shows "marks_ok (handleRetryHistogram lc st)" "marks_ok (resume_retry lc lt c i r st)"
  using assms
  by (auto simp: handleRetryHistogram_def resume_retry_def on_retry_def conclude_retry_def end_retry_def show_chart_def
      show_chart_error_def notify_def marks_ok_def marks_before_def searching_def Let_def split: option.split outcome.split)

lemma page_run_marks: "page_run lc lt st \<Longrightarrow> marks_ok st"
proof (induction rule: page_run.induct)
  case (answered st i rep c)
  then show ?case using resume_marks page_run_inv by blast
qed (simp_all add: searching_handlers_marks paging_marks live_handlers_marks chart_marks handleSearch_def, simp_all add: marks_ok_def marks_before_def open_page_def searching_def)

text \<open>Numbers of searches only grow.\<close>

lemma latest_frame [simp]:
  "rf_latestQueryRequest (finish_search s status st) = rf_latestQueryRequest st"
  "rf_latestQueryRequest (park s st) = rf_latestQueryRequest st"
  by (cases "se_then s"; simp add: finish_search_def release_def scheduleNextLiveTick_def clearLiveTimer_def setPageSize_realtime_def Let_def)
    (simp add: park_def)

lemma later_frame [simp]:
  "rf_latestQueryRequest (after_table s st) = rf_latestQueryRequest st"
  "rf_latestQueryRequest (on_located s m cur st) = rf_latestQueryRequest st"
  "rf_latestQueryRequest (conclude lc lt c s h st) = rf_latestQueryRequest st"
  by (simp_all add: after_table_def on_located_def conclude_def Let_def split: option.split)

lemma begin_latest [simp]: "rf_latestQueryRequest (begin_search lc c cl options k st) = Suc (rf_latestQueryRequest st)"
  by (simp add: begin_search_def locate_further_def enter_search_def abortActiveRequests_def clearLiveTimer_def Let_def
      split: prod.split progress.split)

lemma resume_latest: "rf_latestQueryRequest st \<le> rf_latestQueryRequest (resume_search lc lt c i rep st)"
  by (auto simp: resume_search_def on_cursor_def on_table_def on_totals_def on_errors_def table_failed_def search_aborted_def Let_def
      split: waiting.split reply.split outcome.split progress.split)

lemma answer_newest_marks:
  assumes "page_inv st" "marks_ok st" "\<And>n s. fits (se_waiting s) (ans n s)" "rf_latestQueryRequest st \<noteq> 0"
  shows "marks_ok (answer_newest lc lt c ans n st) \<and> rf_latestQueryRequest (answer_newest lc lt c ans n st) \<noteq> 0"
  using assms(1,2,4)
proof (induction n arbitrary: st)
  case (Suc n)
  show ?case
  proof (cases "searching st")
    case True
    note at = newest_current [OF True]
    show ?thesis
      using Suc.IH [OF resume_inv [OF Suc.prems(1) at(1) assms(3)] resume_marks [OF Suc.prems(1,2) at(1) assms(3)]]
        resume_latest Suc.prems(3) True by (metis answer_newest.simps(2) le_zero_eq)
  qed (use Suc.prems in simp)
qed simp

section \<open>Properties\<close>

text \<open>C26: Whatever the user, the timers, the effects and the services do, in any order: at most one search carries the
  newest number, and it is the one the page has registered as under way; the table is marked as being refreshed
  only while that search still waits for rows, the chart only while that search or a retry of the chart is under
  way; as long as the page is shown the newest search is never cancelled; and the timer of the live view is armed
  only when the view is live, the page shown and no search under way, so live refreshes never overlap a search.\<close>

theorem search_page_consistent:
  assumes "page_run lc lt st"
  shows "length (filter (current st) (rf_searches st)) \<le> 1
    \<and> rf_inFlightRequestID st = (if searching st then Some (rf_latestQueryRequest st) else None)
    \<and> (rs_tableRefreshing st \<longrightarrow> list_ex (\<lambda>s. current st s \<and> for_table (se_waiting s)) (rf_searches st))
    \<and> (rs_histogramRefreshing st \<longrightarrow> searching st \<or> retrying st)
    \<and> (rs_retryingHistogram st \<longrightarrow> retrying st)
    \<and> (\<not> rf_isUnmounted st \<longrightarrow> list_all (\<lambda>s. current st s \<longrightarrow> \<not> se_aborted s) (rf_searches st))
    \<and> (rf_liveTimer st \<noteq> None \<longrightarrow> rf_isLive st \<and> \<not> rf_isUnmounted st \<and> rf_inFlightRequestID st = None)"
  using page_run_inv [OF assms] unfolding page_inv_def by blast

text \<open>A page that has opened, searched, and been asked for another window before the answer came.\<close>

definition opened :: page where
  "opened = start_plain (\<lambda>_ _. 0) sample_clock (open_page (\<lambda>_ _. 0) sample_clock initial_preferences sample_browser False)"

definition overtaken :: page where
  "overtaken = handleLiveWindowChange (\<lambda>_ _. 0) sample_clock Last_5m opened"

lemma opened_run: "page_run (\<lambda>_ _. 0) lt opened" "page_run (\<lambda>_ _. 0) lt overtaken"
  by (auto simp: opened_def overtaken_def intro!: page_run.intros)

text \<open>C27: An answer to an overtaken search leaves no trace but what its caller attached: whatever rows, counts, error
  or abort it brings, the page is as if the search had never been, except that the mark on the retry button goes
  when the search was a retry, and that the notice of a page being located is closed when the search was a turn of
  the page, even when the notice is that of a newer turn which is still being located.\<close>

theorem overtaken_answer_ignored:
  assumes "page_run lc lt st" "i < length (rf_searches st)" "se_id (rf_searches st ! i) \<noteq> rf_latestQueryRequest st"
    and "fits (se_waiting (rf_searches st ! i)) rep"
  shows "resume_search lc lt c i rep st
    = st\<lparr>rf_searches := without i (rf_searches st),
         rs_retryingCurrentQuery := (se_then (rf_searches st ! i) \<noteq> End_Retry \<and> rs_retryingCurrentQuery st),
         rs_locating := (if turns_page (se_then (rf_searches st ! i)) then None else rs_locating st)\<rparr>"
  using resume_stale [OF page_run_inv [OF assms(1)] assms(2-4)] by simp

text \<open>C28: A search comes to an end: from any state of any run in which a search has been started, when the newest search
  is answered again and again, with any rows, counts, errors or aborts, then after at most as many answers as its
  rank says nothing is under way any more, and the marks of loading are gone: of the first loading and of a
  refresh, of the table and of the chart, a refresh or a retry of the chart excepted while a retry of it is under way.
  The mark of the retry button and the notice of a page being located can only be left of an older retry or turn
  of the page that has not been answered.\<close>

theorem newest_search_ends:
  assumes "page_run lc lt st" "\<And>n s. fits (se_waiting s) (ans n s)" "rf_latestQueryRequest st \<noteq> 0"
  shows "\<not> searching (answer_newest lc lt c ans (page_rank st) st)
    \<and> rf_inFlightRequestID (answer_newest lc lt c ans (page_rank st) st) = None
    \<and> \<not> rs_initialLoading (answer_newest lc lt c ans (page_rank st) st)
    \<and> \<not> rs_histogramInitialLoading (answer_newest lc lt c ans (page_rank st) st)
    \<and> \<not> rs_tableRefreshing (answer_newest lc lt c ans (page_rank st) st)
    \<and> (rs_histogramRefreshing (answer_newest lc lt c ans (page_rank st) st)
         \<or> rs_retryingHistogram (answer_newest lc lt c ans (page_rank st) st)
       \<longrightarrow> retrying (answer_newest lc lt c ans (page_rank st) st))
    \<and> (rs_retryingCurrentQuery (answer_newest lc lt c ans (page_rank st) st)
       \<longrightarrow> list_ex (\<lambda>s. se_then s = End_Retry) (rf_searches (answer_newest lc lt c ans (page_rank st) st)))
    \<and> (rs_locating (answer_newest lc lt c ans (page_rank st) st) \<noteq> None
       \<longrightarrow> list_ex (\<lambda>s. turns_page (se_then s)) (rf_searches (answer_newest lc lt c ans (page_rank st) st)))"
proof -
  let ?st = "answer_newest lc lt c ans (page_rank st) st"
  have *: "page_inv ?st" "\<not> searching ?st"
    using answer_newest_ends [OF page_run_inv [OF assms(1)] assms(2) order_refl, of lc lt c] by simp_all
  have "marks_ok ?st" "rf_latestQueryRequest ?st \<noteq> 0"
    using answer_newest_marks [where ans = ans and n = "page_rank st" and lc = lc and lt = lt and c = c,
        OF page_run_inv [OF assms(1)] page_run_marks [OF assms(1)] assms(2,3)] by blast+
  then show ?thesis using *
    by (auto simp: page_inv_def searching_def list_ex_iff marks_ok_def marks_before_def)
qed

text \<open>C29: Leaving a past period sends the period left: when the page shows a past period with a start and an end and the
  user chooses another window, the page shows that window and no period, but the search it starts, which carries
  the newest number, asks for rows from that start to that end, and not for rows of the window: it takes the
  period of the render in which the choice was made.\<close>

theorem left_period_is_sent:
  assumes "rs_customTimeRange st = Some \<lparr>tr_from = Some from, tr_to = Some to\<rparr>" "trim from \<noteq> []" "trim to \<noteq> []"
    and "v \<noteq> Past_Range" "v \<noteq> rs_liveWindow st"
  shows "rs_liveWindow (handleLiveWindowChange lc c v st) = v
    \<and> rs_customTimeRange (handleLiveWindowChange lc c v st) = None
    \<and> (\<exists>ss s. rf_searches (handleLiveWindowChange lc c v st) = ss @ [s] \<and> current (handleLiveWindowChange lc c v st) s
      \<and> lp_timeRange (se_payload s) = Some \<lparr>tr_from = Some (trim from), tr_to = Some (trim to)\<rparr>)"
proof (intro conjI)
  let ?r = "\<lparr>tr_from = Some (trim from), tr_to = Some (trim to)\<rparr>"
  have r: "normalizeRealtimeExplicitTimeRange (rs_customTimeRange st) = Some ?r" "normalizeRealtimeExplicitTimeRange (Some ?r) = Some ?r"
    using assms(2,3) by (simp_all add: normalizeRealtimeExplicitTimeRange_def bound_text_def trimmed_text_def assms(1) Let_def)
  obtain options st' where
    h: "handleLiveWindowChange lc c v st = begin_search lc c (closure_of st) options No_Continuation st'"
    and o: "qo_page options = 1" "qo_timeRangeOverride options = None" "qo_liveWindowOverride options = Some v"
    and st': "rs_liveWindow st' = v" "rs_customTimeRange st' = None"
    using assms(4,5) by (auto simp: handleLiveWindowChange_def Let_def plain_options_def armSuppressedNextLiveTick_def
        scheduleNextLiveTick_def clearLiveTimer_def)
  let ?s = "fst (new_search lc c (closure_of st) options No_Continuation (enter_search options st'))"
  have parked: "handleLiveWindowChange lc c v st = park ?s (show_refreshing ?s (enter_search options st'))"
    using h first_page_parked [OF o(1), of lc c "closure_of st" No_Continuation st'] by (simp add: Let_def)
  note frame = park_def show_refreshing_def enter_search_def abortActiveRequests_def clearLiveTimer_def Let_def
  show "rs_liveWindow (handleLiveWindowChange lc c v st) = v" "rs_customTimeRange (handleLiveWindowChange lc c v st) = None"
    using st' by (simp_all add: parked frame)
  have "lp_timeRange (se_payload ?s) = Some (buildRealtimeTableTimeRange c v (Some (se_snapshotTo ?s)) (Some ?r))"
    using r(1) o by (simp add: new_search_def Let_def search_payload_def closure_of_def)
  also have "buildRealtimeTableTimeRange c v (Some (se_snapshotTo ?s)) (Some ?r) = ?r"
    by (simp add: buildRealtimeTableTimeRange_def r(2) Let_def)
  finally have sent: "lp_timeRange (se_payload ?s) = Some ?r" .
  have "current (handleLiveWindowChange lc c v st) ?s" by (simp add: parked new_search_def frame)
  with sent show "\<exists>ss s. rf_searches (handleLiveWindowChange lc c v st) = ss @ [s] \<and> current (handleLiveWindowChange lc c v st) s
      \<and> lp_timeRange (se_payload s) = Some ?r"
    unfolding parked by (intro exI [of _ "rf_searches (show_refreshing ?s (enter_search options st'))"] exI [of _ ?s])
      (simp add: park_def)
qed

section \<open>Witnesses\<close>

text \<open>What a search on the first page leaves behind.\<close>

definition view :: "search \<Rightarrow> nat \<times> waiting \<times> continuation \<times> bool" where
  "view s = (se_id s, se_waiting s, se_then s, qo_autoAll (se_options s))"

lemma begun:
  assumes "qo_page options = 1"
  shows "rf_latestQueryRequest (begin_search lc c cl options k st) = Suc (rf_latestQueryRequest st)"
    "map view (rf_searches (begin_search lc c cl options k st))
       = map view (rf_searches st) @ [(Suc (rf_latestQueryRequest st), Wait_Table, k, qo_autoAll options)]"
    "rs_retryingCurrentQuery (begin_search lc c cl options k st) = rs_retryingCurrentQuery st"
    "rs_liveWindow (begin_search lc c cl options k st) = rs_liveWindow st"
  using assms
  by (simp_all add: first_page_parked view_def park_def show_refreshing_def enter_search_def abortActiveRequests_def
      clearLiveTimer_def new_search_def Let_def comp_def)

lemma opened_view:
  "rf_latestQueryRequest opened = 1" "map view (rf_searches opened) = [(1, Wait_Table, No_Continuation, False)]"
  "\<not> rs_retryingCurrentQuery opened" "rs_liveWindow opened = Last_15m"
  by (simp_all add: opened_def start_plain_def begun plain_options_def open_page_def DEFAULT_LIVE_WINDOW_def)

lemma overtaken_view:
  "rf_latestQueryRequest overtaken = 2" "\<not> rs_retryingCurrentQuery overtaken"
  "map view (rf_searches overtaken) = [(1, Wait_Table, No_Continuation, False), (2, Wait_Table, No_Continuation, False)]"
  using opened_view
  by (simp_all add: overtaken_def handleLiveWindowChange_def begun plain_options_def armSuppressedNextLiveTick_def
      scheduleNextLiveTick_def clearLiveTimer_def Let_def)

lemma overtaken_searches:
  obtains s t where "rf_searches overtaken = [s, t]" "se_id s = 1" "se_id t = 2" "se_waiting s = Wait_Table"
    "se_waiting t = Wait_Table" "\<not> qo_autoAll (se_options t)" "se_then s = No_Continuation"
  using overtaken_view(3) by (auto simp: view_def map_eq_Cons_conv)

theorem search_page_consistent_witness:
  "rf_inFlightRequestID overtaken = Some 2 \<and> rf_liveTimer overtaken = None"
proof -
  have "searching overtaken" by (rule overtaken_searches) (simp add: searching_def overtaken_view)
  then show ?thesis
    using search_page_consistent [OF opened_run(2) [of "\<lambda>_. []"]] overtaken_view by auto
qed

theorem overtaken_answer_ignored_witness:
  "resume_search (\<lambda>_ _. 0) (\<lambda>_. []) sample_clock 0 (Rows (Broken ''gone'')) overtaken
    = overtaken\<lparr>rf_searches := [rf_searches overtaken ! 1], rs_retryingCurrentQuery := False\<rparr>"
proof (rule overtaken_searches)
  fix s t
  assume "rf_searches overtaken = [s, t]" "se_id s = 1" "se_waiting s = Wait_Table" "se_then s = No_Continuation"
  then show ?thesis
    using overtaken_answer_ignored [OF opened_run(2), of 0 "Rows (Broken ''gone'')" "\<lambda>_. []" sample_clock] overtaken_view
    by (simp add: without_def)
qed

definition failing :: "nat \<Rightarrow> search \<Rightarrow> reply" where
  "failing n s = (if for_table (se_waiting s) then Rows (Broken ''down'') else Counts (Answered []))"

theorem newest_search_ends_witness:
  "\<not> searching (answer_newest (\<lambda>_ _. 0) (\<lambda>_. []) (\<lambda>_. sample_clock) failing 3 overtaken)
   \<and> \<not> rs_initialLoading (answer_newest (\<lambda>_ _. 0) (\<lambda>_. []) (\<lambda>_. sample_clock) failing 3 overtaken)"
proof (rule overtaken_searches)
  fix s t
  assume "rf_searches overtaken = [s, t]" "se_id s = 1" "se_id t = 2" "se_waiting t = Wait_Table" "\<not> qo_autoAll (se_options t)"
  then have rank: "page_rank overtaken = 3" by (simp add: page_rank_def search_rank_def overtaken_view)
  have fits: "fits (se_waiting s) (failing n s)" for n s
    by (cases "se_waiting s") (simp_all add: failing_def)
  have "rf_latestQueryRequest overtaken \<noteq> 0" by (simp add: overtaken_view)
  then show ?thesis
    using newest_search_ends [OF opened_run(2), of failing "\<lambda>_. []" "\<lambda>_. sample_clock"] fits unfolding rank by blast
qed

definition in_the_past :: page where
  "in_the_past = opened\<lparr>rs_liveWindow := Past_Range,
     rs_customTimeRange := Some \<lparr>tr_from = Some ''2024-01-01'', tr_to = Some ''2024-01-02 ''\<rparr>\<rparr>"

theorem left_period_is_sent_witness:
  "rs_liveWindow (handleLiveWindowChange (\<lambda>_ _. 0) sample_clock Last_5m in_the_past) = Last_5m
   \<and> lp_timeRange (se_payload (List.last (rf_searches (handleLiveWindowChange (\<lambda>_ _. 0) sample_clock Last_5m in_the_past))))
       = Some \<lparr>tr_from = Some ''2024-01-01'', tr_to = Some ''2024-01-02''\<rparr>"
proof -
  have t: "trim ''2024-01-01'' = ''2024-01-01''" "trim ''2024-01-02 '' = ''2024-01-02''" by code_simp+
  have "rs_customTimeRange in_the_past = Some \<lparr>tr_from = Some ''2024-01-01'', tr_to = Some ''2024-01-02 ''\<rparr>"
    "Last_5m \<noteq> rs_liveWindow in_the_past"
    by (simp_all add: in_the_past_def)
  note left_period_is_sent [OF this(1) _ _ _ this(2), of "\<lambda>_ _. 0" sample_clock, unfolded t]
  then show ?thesis by auto
qed

end
