(* ===== verification/Zh_Console.thy ===== *)
theory Zh_Console
  imports Js_String
begin

text \<open>
  The Chinese literals of the forms and the administration pages, as the UTF-8 bytes of their code points, so that the model's
  texts are those of the code. Each constant says what the text means.
\<close>

text \<open>The office network.\<close>

definition zh_note_office :: string where
  "zh_note_office =
    utf8 [0x5185, 0x7F51, 0x529E, 0x516C, 0x6BB5]"

text \<open>The address of the administrator.\<close>

definition zh_note_admin :: string where
  "zh_note_admin =
    utf8 [0x7BA1, 0x7406, 0x5458, 0x56FA, 0x5B9A] @ '' IP''"

text \<open>The VPN gateway.\<close>

definition zh_note_vpn :: string where
  "zh_note_vpn =
    ''VPN '' @ utf8 [0x7F51, 0x5173]"

text \<open>Not saved yet.\<close>

definition zh_never_saved :: string where
  "zh_never_saved =
    utf8 [0x5C1A, 0x672A, 0x4FDD, 0x5B58]"

text \<open>The minimal length is below 8.\<close>

definition zh_min_length_bad :: string where
  "zh_min_length_bad =
    utf8 [0x5BC6, 0x7801, 0x6700, 0x5C0F, 0x957F, 0x5EA6, 0x4E0D, 0x80FD, 0x5C0F, 0x4E8E] @
      '' 8 '' @ utf8 [0x4F4D]"

text \<open>Fewer than three rules for passwords.\<close>

definition zh_complexity_bad :: string where
  "zh_complexity_bad =
    utf8 [0x8BF7, 0x81F3, 0x5C11, 0x542F, 0x7528] @ '' 3 '' @ utf8 [0x9879, 0x5BC6, 0x7801,
      0x590D, 0x6742, 0x5EA6, 0x8981, 0x6C42]"

text \<open>The life of passwords is not within 0 and 365 days.\<close>

definition zh_expiry_bad :: string where
  "zh_expiry_bad =
    utf8 [0x5BC6, 0x7801, 0x6709, 0x6548, 0x671F, 0x5FC5, 0x987B, 0x5728] @ '' 0 '' @ utf8
      [0x5230] @ '' 365 '' @ utf8 [0x5929, 0x4E4B, 0x95F4]"

text \<open>The list of networks is on and empty.\<close>

definition zh_whitelist_empty :: string where
  "zh_whitelist_empty =
    utf8 [0x542F, 0x7528] @ '' IP '' @ utf8 [0x767D, 0x540D, 0x5355, 0x65F6, 0xFF0C, 0x81F3,
      0x5C11, 0x4FDD, 0x7559, 0x4E00, 0x6761, 0x5141, 0x8BB8, 0x89C4, 0x5219]"

text \<open>An entry of the list of networks is malformed.\<close>

definition zh_whitelist_bad :: string where
  "zh_whitelist_bad =
    utf8 [0x767D, 0x540D, 0x5355] @ '' IP '' @ utf8 [0x683C, 0x5F0F, 0x65E0, 0x6548, 0xFF1A]"

text \<open>The session may not save the policy.\<close>

definition zh_policy_save_denied :: string where
  "zh_policy_save_denied =
    utf8 [0x5F53, 0x524D, 0x4F1A, 0x8BDD, 0x7F3A, 0x5C11, 0x767B, 0x5F55, 0x7B56, 0x7565,
      0x4FDD, 0x5B58, 0x6743, 0x9650]"

text \<open>The policy is saved.\<close>

definition zh_policy_saved :: string where
  "zh_policy_saved =
    utf8 [0x767B, 0x5F55, 0x7B56, 0x7565, 0x5DF2, 0x4FDD, 0x5B58]"

text \<open>Loading the policy failed.\<close>

definition zh_policy_load_failed :: string where
  "zh_policy_load_failed =
    utf8 [0x52A0, 0x8F7D, 0x767B, 0x5F55, 0x7B56, 0x7565, 0x5931, 0x8D25]"

text \<open>Saving the policy failed.\<close>

definition zh_policy_save_failed :: string where
  "zh_policy_save_failed =
    utf8 [0x4FDD, 0x5B58, 0x767B, 0x5F55, 0x7B56, 0x7565, 0x5931, 0x8D25]"

text \<open>The defaults are back, to be saved.\<close>

definition zh_policy_reset :: string where
  "zh_policy_reset =
    utf8 [0x5DF2, 0x6062, 0x590D, 0x9ED8, 0x8BA4, 0x503C, 0xFF0C, 0x8BF7, 0x70B9, 0x51FB,
      0x201C, 0x4FDD, 0x5B58, 0x8BBE, 0x7F6E, 0x201D, 0x540E, 0x751F, 0x6548]"

text \<open>An address or network is asked for.\<close>

definition zh_enter_network :: string where
  "zh_enter_network =
    utf8 [0x8BF7, 0x8F93, 0x5165] @ '' IP '' @ utf8 [0x5730, 0x5740, 0x6216] @ '' CIDR''"

text \<open>The address or network is malformed.\<close>

definition zh_network_bad :: string where
  "zh_network_bad =
    ''IP '' @ utf8 [0x5730, 0x5740, 0x6216] @ '' CIDR '' @ utf8 [0x683C, 0x5F0F, 0x65E0, 0x6548]"

text \<open>The entry exists.\<close>

definition zh_network_known :: string where
  "zh_network_known =
    utf8 [0x8BE5, 0x767D, 0x540D, 0x5355, 0x89C4, 0x5219, 0x5DF2, 0x5B58, 0x5728]"

text \<open>Sign-in: the tenant is missing.\<close>

definition zh_login_tenant_required :: string where
  "zh_login_tenant_required =
    utf8 [0x767B, 0x5F55, 0x5931, 0x8D25, 0xFF1A, 0x7F3A, 0x5C11, 0x79DF, 0x6237, 0x4FE1,
      0x606F, 0xFF0C, 0x8BF7, 0x5148, 0x914D, 0x7F6E, 0x79DF, 0x6237] @ '' ID'' @ utf8 [0xFF08]
      @ ''localStorage '' @ utf8 [0x952E, 0xFF1A] @ ''nexuslog-tenant-id'' @ utf8 [0xFF09]"

text \<open>Sign-in: the tenant is malformed.\<close>

definition zh_login_tenant_invalid :: string where
  "zh_login_tenant_invalid =
    utf8 [0x767B, 0x5F55, 0x5931, 0x8D25, 0xFF1A, 0x79DF, 0x6237] @ '' ID '' @ utf8 [0x683C,
      0x5F0F, 0x65E0, 0x6548]"

text \<open>Sign-in: the tenant is unknown.\<close>

definition zh_login_tenant_unknown :: string where
  "zh_login_tenant_unknown =
    utf8 [0x767B, 0x5F55, 0x5931, 0x8D25, 0xFF1A, 0x79DF, 0x6237, 0x4E0D, 0x5B58, 0x5728,
      0x6216, 0x672A, 0x6FC0, 0x6D3B]"

text \<open>Sign-in: refused.\<close>

definition zh_login_refused :: string where
  "zh_login_refused =
    utf8 [0x767B, 0x5F55, 0x5931, 0x8D25, 0xFF0C, 0x8BF7, 0x68C0, 0x67E5, 0x8D26, 0x53F7,
      0x5BC6, 0x7801, 0x540E, 0x91CD, 0x8BD5]"

text \<open>Sign-in: the answer is incomplete.\<close>

definition zh_login_incomplete :: string where
  "zh_login_incomplete =
    utf8 [0x767B, 0x5F55, 0x5931, 0x8D25, 0xFF1A, 0x670D, 0x52A1, 0x7AEF, 0x8FD4, 0x56DE,
      0x6570, 0x636E, 0x4E0D, 0x5B8C, 0x6574]"

text \<open>Sign-in: no network.\<close>

definition zh_login_network :: string where
  "zh_login_network =
    utf8 [0x767B, 0x5F55, 0x5931, 0x8D25, 0xFF1A, 0x7F51, 0x7EDC, 0x5F02, 0x5E38, 0xFF0C,
      0x8BF7, 0x7A0D, 0x540E, 0x91CD, 0x8BD5]"

text \<open>Signed in.\<close>

definition zh_login_done :: string where
  "zh_login_done =
    utf8 [0x767B, 0x5F55, 0x6210, 0x529F]"

text \<open>The emergency mode is on.\<close>

definition zh_login_emergency :: string where
  "zh_login_emergency =
    utf8 [0x5E94, 0x6025, 0x6A21, 0x5F0F, 0x5DF2, 0x542F, 0x7528, 0xFF1A, 0x5F53, 0x524D,
      0x4F7F, 0x7528, 0x672C, 0x5730, 0x6A21, 0x62DF, 0x767B, 0x5F55]"

text \<open>Registration: the name is malformed.\<close>

definition zh_reg_username :: string where
  "zh_reg_username =
    utf8 [0x6CE8, 0x518C, 0x5931, 0x8D25, 0xFF1A, 0x7528, 0x6237, 0x540D, 0x683C, 0x5F0F,
      0x4E0D, 0x5408, 0x6CD5, 0xFF08] @ ''3-32 '' @ utf8 [0x4F4D, 0xFF0C, 0x652F, 0x6301,
      0x5B57, 0x6BCD, 0x6570, 0x5B57, 0x4E0E] @ '' _.-'' @ utf8 [0xFF09]"

text \<open>Registration: the length of the password.\<close>

definition zh_reg_password :: string where
  "zh_reg_password =
    utf8 [0x6CE8, 0x518C, 0x5931, 0x8D25, 0xFF1A, 0x5BC6, 0x7801, 0x957F, 0x5EA6, 0x9700,
      0x4E3A] @ '' 8-72 '' @ utf8 [0x4F4D]"

text \<open>Registration: the mail address is malformed.\<close>

definition zh_reg_email :: string where
  "zh_reg_email =
    utf8 [0x6CE8, 0x518C, 0x5931, 0x8D25, 0xFF1A, 0x90AE, 0x7BB1, 0x683C, 0x5F0F, 0x4E0D,
      0x6B63, 0x786E]"

text \<open>Registration: the display name is too long.\<close>

definition zh_reg_display :: string where
  "zh_reg_display =
    utf8 [0x6CE8, 0x518C, 0x5931, 0x8D25, 0xFF1A, 0x663E, 0x793A, 0x540D, 0x79F0, 0x957F,
      0x5EA6, 0x4E0D, 0x80FD, 0x8D85, 0x8FC7] @ '' 255 '' @ utf8 [0x5B57, 0x7B26]"

text \<open>Registration: an argument is malformed.\<close>

definition zh_reg_argument :: string where
  "zh_reg_argument =
    utf8 [0x6CE8, 0x518C, 0x5931, 0x8D25, 0xFF1A, 0x53C2, 0x6570, 0x4E0D, 0x5408, 0x6CD5,
      0xFF0C, 0x8BF7, 0x68C0, 0x67E5, 0x8F93, 0x5165, 0x540E, 0x91CD, 0x8BD5]"

text \<open>Registration: the tenant is missing.\<close>

definition zh_reg_tenant_required :: string where
  "zh_reg_tenant_required =
    utf8 [0x6CE8, 0x518C, 0x5931, 0x8D25, 0xFF1A, 0x7F3A, 0x5C11, 0x79DF, 0x6237, 0x4FE1,
      0x606F, 0xFF0C, 0x8BF7, 0x5148, 0x914D, 0x7F6E, 0x79DF, 0x6237] @ '' ID'' @ utf8 [0xFF08]
      @ ''localStorage '' @ utf8 [0x952E, 0xFF1A] @ ''nexuslog-tenant-id'' @ utf8 [0xFF09]"

text \<open>Registration: the tenant is malformed.\<close>

definition zh_reg_tenant_invalid :: string where
  "zh_reg_tenant_invalid =
    utf8 [0x6CE8, 0x518C, 0x5931, 0x8D25, 0xFF1A, 0x79DF, 0x6237] @ '' ID '' @ utf8 [0x683C,
      0x5F0F, 0x65E0, 0x6548]"

text \<open>Registration: the tenant is unknown.\<close>

definition zh_reg_tenant_unknown :: string where
  "zh_reg_tenant_unknown =
    utf8 [0x6CE8, 0x518C, 0x5931, 0x8D25, 0xFF1A, 0x79DF, 0x6237, 0x4E0D, 0x5B58, 0x5728,
      0x6216, 0x672A, 0x6FC0, 0x6D3B]"

text \<open>Registration: the name is taken.\<close>

definition zh_reg_name_taken :: string where
  "zh_reg_name_taken =
    utf8 [0x6CE8, 0x518C, 0x5931, 0x8D25, 0xFF1A, 0x7528, 0x6237, 0x540D, 0x5DF2, 0x5B58,
      0x5728]"

text \<open>Registration: the mail address is taken.\<close>

definition zh_reg_email_taken :: string where
  "zh_reg_email_taken =
    utf8 [0x6CE8, 0x518C, 0x5931, 0x8D25, 0xFF1A, 0x90AE, 0x7BB1, 0x5DF2, 0x88AB, 0x6CE8,
      0x518C]"

text \<open>Registration failed.\<close>

definition zh_reg_failed :: string where
  "zh_reg_failed =
    utf8 [0x6CE8, 0x518C, 0x5931, 0x8D25, 0xFF0C, 0x8BF7, 0x7A0D, 0x540E, 0x91CD, 0x8BD5]"

text \<open>Registration: the answer is incomplete.\<close>

definition zh_reg_incomplete :: string where
  "zh_reg_incomplete =
    utf8 [0x6CE8, 0x518C, 0x5931, 0x8D25, 0xFF1A, 0x670D, 0x52A1, 0x7AEF, 0x8FD4, 0x56DE,
      0x6570, 0x636E, 0x4E0D, 0x5B8C, 0x6574]"

text \<open>Registered.\<close>

definition zh_reg_done :: string where
  "zh_reg_done =
    utf8 [0x6CE8, 0x518C, 0x6210, 0x529F, 0xFF0C, 0x8BF7, 0x767B, 0x5F55]"

text \<open>Registration: no network.\<close>

definition zh_reg_network :: string where
  "zh_reg_network =
    utf8 [0x6CE8, 0x518C, 0x5931, 0x8D25, 0xFF1A, 0x7F51, 0x7EDC, 0x5F02, 0x5E38, 0xFF0C,
      0x8BF7, 0x7A0D, 0x540E, 0x91CD, 0x8BD5]"

text \<open>Reset request: no valid mail address or name.\<close>

definition zh_send_identifier :: string where
  "zh_send_identifier =
    utf8 [0x53D1, 0x9001, 0x5931, 0x8D25, 0xFF1A, 0x8BF7, 0x8F93, 0x5165, 0x6709, 0x6548,
      0x7684, 0x90AE, 0x7BB1, 0x6216, 0x7528, 0x6237, 0x540D]"

text \<open>Reset request: the tenant is missing.\<close>

definition zh_send_tenant_required :: string where
  "zh_send_tenant_required =
    utf8 [0x53D1, 0x9001, 0x5931, 0x8D25, 0xFF1A, 0x7F3A, 0x5C11, 0x79DF, 0x6237, 0x4FE1,
      0x606F, 0xFF0C, 0x8BF7, 0x5148, 0x914D, 0x7F6E, 0x79DF, 0x6237] @ '' ID'' @ utf8 [0xFF08]
      @ ''localStorage '' @ utf8 [0x952E, 0xFF1A] @ ''nexuslog-tenant-id'' @ utf8 [0xFF09]"

text \<open>Reset request: the tenant is malformed.\<close>

definition zh_send_tenant_invalid :: string where
  "zh_send_tenant_invalid =
    utf8 [0x53D1, 0x9001, 0x5931, 0x8D25, 0xFF1A, 0x79DF, 0x6237] @ '' ID '' @ utf8 [0x683C,
      0x5F0F, 0x65E0, 0x6548]"

text \<open>Reset request: the tenant is unknown.\<close>

definition zh_send_tenant_unknown :: string where
  "zh_send_tenant_unknown =
    utf8 [0x53D1, 0x9001, 0x5931, 0x8D25, 0xFF1A, 0x79DF, 0x6237, 0x4E0D, 0x5B58, 0x5728,
      0x6216, 0x672A, 0x6FC0, 0x6D3B]"

text \<open>Reset request failed.\<close>

definition zh_send_failed :: string where
  "zh_send_failed =
    utf8 [0x53D1, 0x9001, 0x5931, 0x8D25, 0xFF0C, 0x8BF7, 0x7A0D, 0x540E, 0x91CD, 0x8BD5]"

text \<open>Reset request: the answer is incomplete.\<close>

definition zh_send_incomplete :: string where
  "zh_send_incomplete =
    utf8 [0x53D1, 0x9001, 0x5931, 0x8D25, 0xFF1A, 0x670D, 0x52A1, 0x7AEF, 0x8FD4, 0x56DE,
      0x6570, 0x636E, 0x4E0D, 0x5B8C, 0x6574]"

text \<open>The reset link was sent.\<close>

definition zh_send_done :: string where
  "zh_send_done =
    utf8 [0x91CD, 0x7F6E, 0x94FE, 0x63A5, 0x5DF2, 0x53D1, 0x9001, 0xFF0C, 0x8BF7, 0x68C0,
      0x67E5, 0x90AE, 0x7BB1]"

text \<open>Reset request: no network.\<close>

definition zh_send_network :: string where
  "zh_send_network =
    utf8 [0x53D1, 0x9001, 0x5931, 0x8D25, 0xFF1A, 0x7F51, 0x7EDC, 0x5F02, 0x5E38, 0xFF0C,
      0x8BF7, 0x7A0D, 0x540E, 0x91CD, 0x8BD5]"

text \<open>Reset: no valid token.\<close>

definition zh_reset_token_bad :: string where
  "zh_reset_token_bad =
    utf8 [0x91CD, 0x7F6E, 0x5931, 0x8D25, 0xFF1A, 0x8BF7, 0x8F93, 0x5165, 0x6709, 0x6548,
      0x7684, 0x91CD, 0x7F6E, 0x4EE4, 0x724C]"

text \<open>Reset: the length of the password.\<close>

definition zh_reset_password_bad :: string where
  "zh_reset_password_bad =
    utf8 [0x91CD, 0x7F6E, 0x5931, 0x8D25, 0xFF1A, 0x65B0, 0x5BC6, 0x7801, 0x957F, 0x5EA6,
      0x9700, 0x4E3A] @ '' 8-72 '' @ utf8 [0x4F4D]"

text \<open>Reset: an argument is malformed.\<close>

definition zh_reset_argument :: string where
  "zh_reset_argument =
    utf8 [0x91CD, 0x7F6E, 0x5931, 0x8D25, 0xFF1A, 0x8BF7, 0x6C42, 0x53C2, 0x6570, 0x4E0D,
      0x5408, 0x6CD5]"

text \<open>Reset: the tenant is missing.\<close>

definition zh_reset_tenant_required :: string where
  "zh_reset_tenant_required =
    utf8 [0x91CD, 0x7F6E, 0x5931, 0x8D25, 0xFF1A, 0x7F3A, 0x5C11, 0x79DF, 0x6237, 0x4FE1,
      0x606F, 0xFF0C, 0x8BF7, 0x5148, 0x914D, 0x7F6E, 0x79DF, 0x6237] @ '' ID'' @ utf8 [0xFF08]
      @ ''localStorage '' @ utf8 [0x952E, 0xFF1A] @ ''nexuslog-tenant-id'' @ utf8 [0xFF09]"

text \<open>Reset: the tenant is malformed.\<close>

definition zh_reset_tenant_invalid :: string where
  "zh_reset_tenant_invalid =
    utf8 [0x91CD, 0x7F6E, 0x5931, 0x8D25, 0xFF1A, 0x79DF, 0x6237] @ '' ID '' @ utf8 [0x683C,
      0x5F0F, 0x65E0, 0x6548]"

text \<open>Reset: the tenant is unknown.\<close>

definition zh_reset_tenant_unknown :: string where
  "zh_reset_tenant_unknown =
    utf8 [0x91CD, 0x7F6E, 0x5931, 0x8D25, 0xFF1A, 0x79DF, 0x6237, 0x4E0D, 0x5B58, 0x5728,
      0x6216, 0x672A, 0x6FC0, 0x6D3B]"

text \<open>Reset: the token is unknown or has expired.\<close>

definition zh_reset_token_expired :: string where
  "zh_reset_token_expired =
    utf8 [0x91CD, 0x7F6E, 0x5931, 0x8D25, 0xFF1A, 0x91CD, 0x7F6E, 0x4EE4, 0x724C, 0x65E0,
      0x6548, 0x6216, 0x5DF2, 0x8FC7, 0x671F]"

text \<open>Reset failed.\<close>

definition zh_reset_failed :: string where
  "zh_reset_failed =
    utf8 [0x91CD, 0x7F6E, 0x5931, 0x8D25, 0xFF0C, 0x8BF7, 0x7A0D, 0x540E, 0x91CD, 0x8BD5]"

text \<open>Reset: the answer is incomplete.\<close>

definition zh_reset_incomplete :: string where
  "zh_reset_incomplete =
    utf8 [0x91CD, 0x7F6E, 0x5931, 0x8D25, 0xFF1A, 0x670D, 0x52A1, 0x7AEF, 0x8FD4, 0x56DE,
      0x6570, 0x636E, 0x4E0D, 0x5B8C, 0x6574]"

text \<open>The password was reset.\<close>

definition zh_reset_done :: string where
  "zh_reset_done =
    utf8 [0x5BC6, 0x7801, 0x91CD, 0x7F6E, 0x6210, 0x529F, 0xFF0C, 0x8BF7, 0x91CD, 0x65B0,
      0x767B, 0x5F55]"

text \<open>Reset: no network.\<close>

definition zh_reset_network :: string where
  "zh_reset_network =
    utf8 [0x91CD, 0x7F6E, 0x5931, 0x8D25, 0xFF1A, 0x7F51, 0x7EDC, 0x5F02, 0x5E38, 0xFF0C,
      0x8BF7, 0x7A0D, 0x540E, 0x91CD, 0x8BD5]"

text \<open>Loading the users failed.\<close>

definition zh_user_list_failed :: string where
  "zh_user_list_failed =
    utf8 [0x52A0, 0x8F7D, 0x7528, 0x6237, 0x5217, 0x8868, 0x5931, 0x8D25]"

text \<open>Loading the roles failed.\<close>

definition zh_role_list_failed :: string where
  "zh_role_list_failed =
    utf8 [0x52A0, 0x8F7D, 0x89D2, 0x8272, 0x5217, 0x8868, 0x5931, 0x8D25]"

text \<open>Loading a user failed.\<close>

definition zh_load_user_failed :: string where
  "zh_load_user_failed =
    utf8 [0x52A0, 0x8F7D, 0x7528, 0x6237, 0x8BE6, 0x60C5, 0x5931, 0x8D25]"

text \<open>Enabled.\<close>

definition zh_enabled :: string where
  "zh_enabled =
    utf8 [0x542F, 0x7528]"

text \<open>Disabled.\<close>

definition zh_disabled :: string where
  "zh_disabled =
    utf8 [0x7981, 0x7528]"

text \<open>The session may not create users.\<close>

definition zh_create_denied :: string where
  "zh_create_denied =
    utf8 [0x5F53, 0x524D, 0x4F1A, 0x8BDD, 0x7F3A, 0x5C11, 0x65B0, 0x589E, 0x7528, 0x6237,
      0x6743, 0x9650]"

text \<open>Reserved accounts can only be viewed.\<close>

definition zh_edit_reserved :: string where
  "zh_edit_reserved =
    utf8 [0x7CFB, 0x7EDF, 0x4FDD, 0x7559, 0x8D26, 0x53F7, 0x4EC5, 0x652F, 0x6301, 0x67E5,
      0x770B, 0xFF0C, 0x4E0D, 0x652F, 0x6301, 0x5728, 0x6B64, 0x9875, 0x7F16, 0x8F91, 0x6216,
      0x91CD, 0x65B0, 0x6388, 0x6743]"

text \<open>The session may not edit users.\<close>

definition zh_edit_denied :: string where
  "zh_edit_denied =
    utf8 [0x5F53, 0x524D, 0x4F1A, 0x8BDD, 0x7F3A, 0x5C11, 0x7F16, 0x8F91, 0x7528, 0x6237,
      0x8D44, 0x6599, 0x6216, 0x8C03, 0x6574, 0x89D2, 0x8272, 0x7684, 0x6743, 0x9650]"

text \<open>Reserved accounts are not edited here.\<close>

definition zh_edit_reserved_here :: string where
  "zh_edit_reserved_here =
    utf8 [0x7CFB, 0x7EDF, 0x4FDD, 0x7559, 0x8D26, 0x53F7, 0x4E0D, 0x652F, 0x6301, 0x5728,
      0x6B64, 0x9875, 0x7F16, 0x8F91]"

text \<open>The user was created.\<close>

definition zh_user_created :: string where
  "zh_user_created =
    utf8 [0x7528, 0x6237, 0x521B, 0x5EFA, 0x6210, 0x529F]"

text \<open>Creating the user failed.\<close>

definition zh_user_create_failed :: string where
  "zh_user_create_failed =
    utf8 [0x521B, 0x5EFA, 0x7528, 0x6237, 0x5931, 0x8D25]"

text \<open>Nothing to save.\<close>

definition zh_nothing_changed :: string where
  "zh_nothing_changed =
    utf8 [0x6CA1, 0x6709, 0x9700, 0x8981, 0x4FDD, 0x5B58, 0x7684, 0x53D8, 0x66F4]"

text \<open>The user was updated.\<close>

definition zh_user_updated :: string where
  "zh_user_updated =
    utf8 [0x7528, 0x6237, 0x4FE1, 0x606F, 0x5DF2, 0x66F4, 0x65B0]"

text \<open>Updating the user failed.\<close>

definition zh_user_update_failed :: string where
  "zh_user_update_failed =
    utf8 [0x66F4, 0x65B0, 0x7528, 0x6237, 0x5931, 0x8D25]"

text \<open>Reserved accounts keep their status.\<close>

definition zh_status_reserved :: string where
  "zh_status_reserved =
    utf8 [0x7CFB, 0x7EDF, 0x4FDD, 0x7559, 0x8D26, 0x53F7, 0x4E0D, 0x652F, 0x6301, 0x542F,
      0x7528, 0x3001, 0x7981, 0x7528, 0x6216, 0x5220, 0x9664]"

text \<open>The session may not change the status.\<close>

definition zh_status_denied :: string where
  "zh_status_denied =
    utf8 [0x5F53, 0x524D, 0x4F1A, 0x8BDD, 0x7F3A, 0x5C11, 0x53D8, 0x66F4, 0x7528, 0x6237,
      0x72B6, 0x6001, 0x7684, 0x6743, 0x9650]"

text \<open>The user was enabled.\<close>

definition zh_user_enabled :: string where
  "zh_user_enabled =
    utf8 [0x7528, 0x6237, 0x5DF2, 0x542F, 0x7528]"

text \<open>The user was disabled.\<close>

definition zh_user_disabled :: string where
  "zh_user_disabled =
    utf8 [0x7528, 0x6237, 0x5DF2, 0x7981, 0x7528]"

text \<open>The action failed.\<close>

definition zh_action_failed :: string where
  "zh_action_failed =
    utf8 [0x64CD, 0x4F5C, 0x5931, 0x8D25]"

text \<open>The session may not change several users.\<close>

definition zh_batch_denied :: string where
  "zh_batch_denied =
    utf8 [0x5F53, 0x524D, 0x4F1A, 0x8BDD, 0x7F3A, 0x5C11, 0x6279, 0x91CF, 0x53D8, 0x66F4,
      0x7528, 0x6237, 0x72B6, 0x6001, 0x7684, 0x6743, 0x9650]"

text \<open>Reserved accounts are left out.\<close>

definition zh_batch_reserved :: string where
  "zh_batch_reserved =
    utf8 [0x7CFB, 0x7EDF, 0x4FDD, 0x7559, 0x8D26, 0x53F7, 0x4E0D, 0x4F1A, 0x53C2, 0x4E0E,
      0x6279, 0x91CF, 0x72B6, 0x6001, 0x53D8, 0x66F4]"

text \<open>All selected users are enabled.\<close>

definition zh_all_enabled :: string where
  "zh_all_enabled =
    utf8 [0x6240, 0x9009, 0x7528, 0x6237, 0x5747, 0x5DF2, 0x542F, 0x7528]"

text \<open>All selected users are disabled.\<close>

definition zh_all_disabled :: string where
  "zh_all_disabled =
    utf8 [0x6240, 0x9009, 0x7528, 0x6237, 0x5747, 0x5DF2, 0x7981, 0x7528]"

text \<open>Done for several: asked for.\<close>

definition zh_batch_partly :: string where
  "zh_batch_partly =
    utf8 [0x6279, 0x91CF, 0x64CD, 0x4F5C, 0x5B8C, 0x6210, 0xFF1A, 0x8BF7, 0x6C42] @ '' ''"

text \<open>Updated in fact.\<close>

definition zh_batch_partly2 :: string where
  "zh_batch_partly2 =
    '' '' @ utf8 [0x4E2A, 0xFF0C, 0x5B9E, 0x9645, 0x66F4, 0x65B0] @ '' ''"

text \<open>(so many).\<close>

definition zh_batch_count :: string where
  "zh_batch_count =
    '' '' @ utf8 [0x4E2A]"

text \<open>Done for.\<close>

definition zh_batch_done :: string where
  "zh_batch_done =
    utf8 [0x5DF2, 0x5904, 0x7406] @ '' ''"

text \<open>Ordinary users.\<close>

definition zh_batch_done2 :: string where
  "zh_batch_done2 =
    '' '' @ utf8 [0x4E2A, 0x666E, 0x901A, 0x7528, 0x6237, 0xFF1B]"

text \<open>Reserved accounts were skipped.\<close>

definition zh_batch_done3 :: string where
  "zh_batch_done3 =
    '' '' @ utf8 [0x4E2A, 0x7CFB, 0x7EDF, 0x4FDD, 0x7559, 0x8D26, 0x53F7, 0x5DF2, 0x8DF3,
      0x8FC7]"

text \<open>Enabled together.\<close>

definition zh_batch_enabled :: string where
  "zh_batch_enabled =
    utf8 [0x5DF2, 0x6279, 0x91CF, 0x542F, 0x7528] @ '' ''"

text \<open>Disabled together.\<close>

definition zh_batch_disabled :: string where
  "zh_batch_disabled =
    utf8 [0x5DF2, 0x6279, 0x91CF, 0x7981, 0x7528] @ '' ''"

text \<open>Users.\<close>

definition zh_batch_users :: string where
  "zh_batch_users =
    '' '' @ utf8 [0x4E2A, 0x7528, 0x6237]"

text \<open>The action on several failed.\<close>

definition zh_batch_failed :: string where
  "zh_batch_failed =
    utf8 [0x6279, 0x91CF, 0x64CD, 0x4F5C, 0x5931, 0x8D25]"

text \<open>The filtered page has.\<close>

definition zh_page_filtered :: string where
  "zh_page_filtered =
    utf8 [0x5F53, 0x524D, 0x7B5B, 0x9009, 0x9875, 0x8FD4, 0x56DE] @ '' ''"

text \<open>Rows, the service found.\<close>

definition zh_page_filtered2 :: string where
  "zh_page_filtered2 =
    '' '' @ utf8 [0x6761, 0xFF1B, 0x540E, 0x7AEF, 0x547D, 0x4E2D] @ '' ''"

text \<open>The page has.\<close>

definition zh_page_loaded :: string where
  "zh_page_loaded =
    utf8 [0x5F53, 0x524D, 0x9875, 0x5DF2, 0x52A0, 0x8F7D] @ '' ''"

text \<open>Rows, the service has.\<close>

definition zh_page_loaded2 :: string where
  "zh_page_loaded2 =
    '' '' @ utf8 [0x6761, 0xFF1B, 0x540E, 0x7AEF, 0x603B, 0x6570] @ '' ''"

text \<open>Rows.\<close>

definition zh_rows_unit :: string where
  "zh_rows_unit =
    '' '' @ utf8 [0x6761]"

text \<open>Copying failed.\<close>

definition zh_copy_failed :: string where
  "zh_copy_failed =
    utf8 [0x590D, 0x5236, 0x5931, 0x8D25]"

text \<open>Healthy.\<close>

definition zh_health_ok :: string where
  "zh_health_ok =
    utf8 [0x5065, 0x5EB7]"

text \<open>Degraded.\<close>

definition zh_health_degraded :: string where
  "zh_health_degraded =
    utf8 [0x964D, 0x7EA7]"

text \<open>Out of order.\<close>

definition zh_health_bad :: string where
  "zh_health_bad =
    utf8 [0x5F02, 0x5E38]"

text \<open>Unreachable.\<close>

definition zh_health_unreachable :: string where
  "zh_health_unreachable =
    utf8 [0x4E0D, 0x53EF, 0x8FBE]"

text \<open>Unknown.\<close>

definition zh_unknown :: string where
  "zh_unknown =
    utf8 [0x672A, 0x77E5]"

text \<open>The last seven days.\<close>

definition zh_last_7_days :: string where
  "zh_last_7_days =
    utf8 [0x8FD1] @ '' 7 '' @ utf8 [0x5929]"

text \<open>The last twenty-four hours.\<close>

definition zh_last_24_hours :: string where
  "zh_last_24_hours =
    utf8 [0x8FD1] @ '' 24 '' @ utf8 [0x5C0F, 0x65F6]"

text \<open>Seconds ago.\<close>

definition zh_seconds_ago :: string where
  "zh_seconds_ago =
    utf8 [0x79D2, 0x524D]"

text \<open>Minutes ago.\<close>

definition zh_minutes_ago :: string where
  "zh_minutes_ago =
    utf8 [0x5206, 0x949F, 0x524D]"

text \<open>Hours ago.\<close>

definition zh_hours_ago :: string where
  "zh_hours_ago =
    utf8 [0x5C0F, 0x65F6, 0x524D]"

text \<open>Days ago.\<close>

definition zh_days_ago :: string where
  "zh_days_ago =
    utf8 [0x5929, 0x524D]"

text \<open>No data yet.\<close>

definition zh_no_data_yet :: string where
  "zh_no_data_yet =
    utf8 [0x6682, 0x65E0, 0x6570, 0x636E]"

text \<open>Has created.\<close>

definition zh_did_create :: string where
  "zh_did_create =
    utf8 [0x521B, 0x5EFA, 0x4E86]"

text \<open>Has deleted.\<close>

definition zh_did_delete :: string where
  "zh_did_delete =
    utf8 [0x5220, 0x9664, 0x4E86]"

text \<open>Has granted.\<close>

definition zh_did_grant :: string where
  "zh_did_grant =
    utf8 [0x6388, 0x6743, 0x4E86]"

text \<open>Has revoked.\<close>

definition zh_did_revoke :: string where
  "zh_did_revoke =
    utf8 [0x56DE, 0x6536, 0x4E86]"

text \<open>Has signed in to.\<close>

definition zh_did_sign_in :: string where
  "zh_did_sign_in =
    utf8 [0x767B, 0x5F55, 0x4E86]"

text \<open>Has signed out of.\<close>

definition zh_did_sign_out :: string where
  "zh_did_sign_out =
    utf8 [0x9000, 0x51FA, 0x4E86]"

text \<open>Has reset the password of.\<close>

definition zh_did_reset :: string where
  "zh_did_reset =
    utf8 [0x91CD, 0x7F6E, 0x4E86, 0x5BC6, 0x7801]"

text \<open>Has updated.\<close>

definition zh_did_update :: string where
  "zh_did_update =
    utf8 [0x66F4, 0x65B0, 0x4E86]"

text \<open>An object of the system.\<close>

definition zh_system_object :: string where
  "zh_system_object =
    utf8 [0x7CFB, 0x7EDF, 0x5BF9, 0x8C61]"

text \<open>The system.\<close>

definition zh_system :: string where
  "zh_system =
    utf8 [0x7CFB, 0x7EDF]"

text \<open>Waiting for data.\<close>

definition zh_waiting_for_data :: string where
  "zh_waiting_for_data =
    utf8 [0x7B49, 0x5F85, 0x6570, 0x636E]"

text \<open>Top host.\<close>

definition zh_top_host :: string where
  "zh_top_host =
    ''Top '' @ utf8 [0x4E3B, 0x673A] @ '' ''"

text \<open>Top service.\<close>

definition zh_top_service :: string where
  "zh_top_service =
    ''Top '' @ utf8 [0x670D, 0x52A1] @ '' ''"

text \<open>Unknown host.\<close>

definition zh_unknown_host :: string where
  "zh_unknown_host =
    utf8 [0x672A, 0x77E5, 0x4E3B, 0x673A]"

text \<open>Unknown service.\<close>

definition zh_unknown_service :: string where
  "zh_unknown_service =
    utf8 [0x672A, 0x77E5, 0x670D, 0x52A1]"

text \<open>Number of all entries.\<close>

definition zh_total_logs :: string where
  "zh_total_logs =
    utf8 [0x603B, 0x65E5, 0x5FD7, 0x91CF]"

text \<open>Error rate.\<close>

definition zh_error_rate_label :: string where
  "zh_error_rate_label =
    utf8 [0x9519, 0x8BEF, 0x7387]"

text \<open>Alerts firing.\<close>

definition zh_alerts_firing :: string where
  "zh_alerts_firing =
    utf8 [0x544A, 0x8B66, 0x4E2D]"

text \<open>In total.\<close>

definition zh_in_total :: string where
  "zh_in_total =
    utf8 [0x603B, 0x8BA1] @ '' ''"

text \<open>Alerts resolved.\<close>

definition zh_alerts_resolved :: string where
  "zh_alerts_resolved =
    utf8 [0x5DF2, 0x89E3, 0x51B3, 0x544A, 0x8B66]"

text \<open>Active sources.\<close>

definition zh_active_sources :: string where
  "zh_active_sources =
    utf8 [0x6D3B, 0x8DC3, 0x6765, 0x6E90]"

text \<open>Levels that occur.\<close>

definition zh_level_coverage :: string where
  "zh_level_coverage =
    utf8 [0x7EA7, 0x522B, 0x8986, 0x76D6]"

text \<open>Of low risk.\<close>

definition zh_low_risk :: string where
  "zh_low_risk =
    '' '' @ utf8 [0x4F4E, 0x98CE, 0x9669]"

text \<open>Control plane.\<close>

definition zh_control_plane :: string where
  "zh_control_plane =
    utf8 [0x63A7, 0x5236, 0x9762, 0x670D, 0x52A1]"

text \<open>Business API.\<close>

definition zh_business_api :: string where
  "zh_business_api =
    utf8 [0x4E1A, 0x52A1] @ '' API''"

text \<open>Query service.\<close>

definition zh_query_service :: string where
  "zh_query_service =
    utf8 [0x67E5, 0x8BE2, 0x670D, 0x52A1]"

text \<open>Audit service.\<close>

definition zh_audit_service :: string where
  "zh_audit_service =
    utf8 [0x5BA1, 0x8BA1, 0x670D, 0x52A1]"

text \<open>Export service.\<close>

definition zh_export_service :: string where
  "zh_export_service =
    utf8 [0x5BFC, 0x51FA, 0x670D, 0x52A1]"

text \<open>The rights are being loaded.\<close>

definition zh_rights_loading :: string where
  "zh_rights_loading =
    utf8 [0x6743, 0x9650, 0x4FE1, 0x606F, 0x52A0, 0x8F7D, 0x4E2D]"

text \<open>Overview of the logs.\<close>

definition zh_overview_error :: string where
  "zh_overview_error =
    utf8 [0x65E5, 0x5FD7, 0x6982, 0x89C8, 0xFF1A]"

text \<open>Loading failed.\<close>

definition zh_load_failed_short :: string where
  "zh_load_failed_short =
    utf8 [0x52A0, 0x8F7D, 0x5931, 0x8D25]"

text \<open>Infrastructure.\<close>

definition zh_metrics_error :: string where
  "zh_metrics_error =
    utf8 [0x57FA, 0x7840, 0x8BBE, 0x65BD, 0x76D1, 0x63A7, 0xFF1A]"

text \<open>Health of the platform.\<close>

definition zh_health_error :: string where
  "zh_health_error =
    utf8 [0x5E73, 0x53F0, 0x5065, 0x5EB7, 0xFF1A]"

text \<open>Audit.\<close>

definition zh_audit_error :: string where
  "zh_audit_error =
    utf8 [0x5BA1, 0x8BA1, 0x6D3B, 0x52A8, 0xFF1A]"

text \<open>The session may not open the page.\<close>

definition zh_no_page_right :: string where
  "zh_no_page_right =
    utf8 [0x5F53, 0x524D, 0x4F1A, 0x8BDD, 0x7F3A, 0x5C11, 0x8BBF, 0x95EE, 0x6743, 0x9650]"

text \<open>The session may not query logs.\<close>

definition zh_no_query_right :: string where
  "zh_no_query_right =
    utf8 [0x5F53, 0x524D, 0x4F1A, 0x8BDD, 0x7F3A, 0x5C11, 0x65E5, 0x5FD7, 0x67E5, 0x8BE2,
      0x6743, 0x9650]"

text \<open>High.\<close>

definition zh_high :: string where
  "zh_high =
    utf8 [0x9AD8]"

text \<open>Middle.\<close>

definition zh_middle :: string where
  "zh_middle =
    utf8 [0x4E2D]"

text \<open>Low.\<close>

definition zh_low :: string where
  "zh_low =
    utf8 [0x4F4E]"

text \<open>No saved query matches.\<close>

definition zh_sv_no_match :: string where
  "zh_sv_no_match =
    utf8 [0x6CA1, 0x6709, 0x5339, 0x914D, 0x7684, 0x6536, 0x85CF, 0x67E5, 0x8BE2]"

text \<open>There are no saved queries.\<close>

definition zh_sv_none :: string where
  "zh_sv_none =
    utf8 [0x6682, 0x65E0, 0x6536, 0x85CF, 0x67E5, 0x8BE2]"

text \<open>Loading the saved queries failed.\<close>

definition zh_sv_load_failed :: string where
  "zh_sv_load_failed =
    utf8 [0x52A0, 0x8F7D, 0x6536, 0x85CF, 0x67E5, 0x8BE2, 0x5931, 0x8D25]"

text \<open>Loading the page of saved queries failed, back to the last one.\<close>

definition zh_sv_turn_failed :: string where
  "zh_sv_turn_failed =
    utf8 [0x6536, 0x85CF, 0x67E5, 0x8BE2, 0x5206, 0x9875, 0x52A0, 0x8F7D, 0x5931, 0x8D25,
      0xFF0C, 0x5DF2, 0x56DE, 0x9000, 0x5230, 0x4E0A, 0x4E00, 0x9875]"

text \<open>Name and query must be given.\<close>

definition zh_sv_incomplete :: string where
  "zh_sv_incomplete =
    utf8 [0x8BF7, 0x586B, 0x5199, 0x5B8C, 0x6574, 0x67E5, 0x8BE2, 0x540D, 0x79F0, 0x548C,
      0x8BED, 0x53E5]"

text \<open>Saved, and the old time range removed.\<close>

definition zh_sv_created_cleaned :: string where
  "zh_sv_created_cleaned =
    utf8 [0x5DF2, 0x521B, 0x5EFA, 0x6536, 0x85CF, 0x67E5, 0x8BE2, 0xFF0C, 0x5E76, 0x81EA,
      0x52A8, 0x6E05, 0x6D17, 0x65E7, 0x683C, 0x5F0F, 0x65F6, 0x95F4, 0x8303, 0x56F4]"

text \<open>Saved.\<close>

definition zh_sv_created :: string where
  "zh_sv_created =
    utf8 [0x5DF2, 0x521B, 0x5EFA, 0x6536, 0x85CF, 0x67E5, 0x8BE2]"

text \<open>Changed, and the old time range removed.\<close>

definition zh_sv_updated_cleaned :: string where
  "zh_sv_updated_cleaned =
    utf8 [0x5DF2, 0x4FDD, 0x5B58, 0x4FEE, 0x6539, 0xFF0C, 0x5E76, 0x81EA, 0x52A8, 0x6E05,
      0x6D17, 0x65E7, 0x683C, 0x5F0F, 0x65F6, 0x95F4, 0x8303, 0x56F4]"

text \<open>Changed.\<close>

definition zh_sv_updated :: string where
  "zh_sv_updated =
    utf8 [0x5DF2, 0x4FDD, 0x5B58, 0x4FEE, 0x6539]"

text \<open>Saving failed.\<close>

definition zh_sv_save_failed :: string where
  "zh_sv_save_failed =
    utf8 [0x4FDD, 0x5B58, 0x5931, 0x8D25]"

text \<open>The record does not exist or has been deleted.\<close>

definition zh_missing_record :: string where
  "zh_missing_record =
    utf8 [0x8BB0, 0x5F55, 0x4E0D, 0x5B58, 0x5728, 0x6216, 0x5DF2, 0x88AB, 0x5220, 0x9664]"

text \<open>Deleted.\<close>

definition zh_deleted :: string where
  "zh_deleted =
    utf8 [0x5DF2, 0x5220, 0x9664]"

text \<open>Deleting failed.\<close>

definition zh_delete_failed :: string where
  "zh_delete_failed =
    utf8 [0x5220, 0x9664, 0x5931, 0x8D25]"

text \<open>The saved query is empty and cannot be run.\<close>

definition zh_sv_empty_query :: string where
  "zh_sv_empty_query =
    utf8 [0x6536, 0x85CF, 0x67E5, 0x8BE2, 0x8BED, 0x53E5, 0x4E3A, 0x7A7A, 0xFF0C, 0x65E0,
      0x6CD5, 0x6267, 0x884C]"

text \<open>On the search page, running.\<close>

definition zh_going_to_search :: string where
  "zh_going_to_search =
    utf8 [0x5DF2, 0x8DF3, 0x8F6C, 0x5230, 0x5B9E, 0x65F6, 0x68C0, 0x7D22, 0x5E76, 0x81EA,
      0x52A8, 0x6267, 0x884C]"

text \<open>And copied.\<close>

definition zh_and_copied :: string where
  "zh_and_copied =
    utf8 [0xFF0C, 0x5E76, 0x540C, 0x6B65, 0x5230, 0x526A, 0x8D34, 0x677F]"

text \<open>But not copied.\<close>

definition zh_but_not_copied :: string where
  "zh_but_not_copied =
    utf8 [0xFF0C, 0x4F46, 0x672A, 0x80FD, 0x540C, 0x6B65, 0x5230, 0x526A, 0x8D34, 0x677F]"

text \<open>Cleaned.\<close>

definition zh_cleaned :: string where
  "zh_cleaned =
    utf8 [0x5DF2, 0x6E05, 0x6D17] @ '' ''"

text \<open>Saved queries of the old form.\<close>

definition zh_cleaned_saved :: string where
  "zh_cleaned_saved =
    '' '' @ utf8 [0x6761, 0x65E7, 0x683C, 0x5F0F, 0x6536, 0x85CF, 0x67E5, 0x8BE2]"

text \<open>Saved queries could not be cleaned.\<close>

definition zh_clean_failed :: string where
  "zh_clean_failed =
    '' '' @ utf8 [0x6761, 0x6536, 0x85CF, 0x67E5, 0x8BE2, 0x6E05, 0x6D17, 0x5931, 0x8D25,
      0xFF0C, 0x8BF7, 0x7A0D, 0x540E, 0x91CD, 0x8BD5]"

text \<open>Saved queries are being loaded.\<close>

definition zh_sv_loading :: string where
  "zh_sv_loading =
    utf8 [0x6B63, 0x5728, 0x52A0, 0x8F7D, 0x6536, 0x85CF, 0x67E5, 0x8BE2] @ ''...''"

text \<open>Loading the saved queries again.\<close>

definition zh_sv_retrying :: string where
  "zh_sv_retrying =
    utf8 [0x6B63, 0x5728, 0x91CD, 0x8BD5, 0x6536, 0x85CF, 0x67E5, 0x8BE2] @ ''...''"

text \<open>Saved queries.\<close>

definition zh_sv_unit :: string where
  "zh_sv_unit =
    utf8 [0x4E2A, 0x6536, 0x85CF]"

text \<open>Of them.\<close>

definition zh_piece :: string where
  "zh_piece =
    utf8 [0x4E2A]"

text \<open>Loading the history failed.\<close>

definition zh_hy_load_failed :: string where
  "zh_hy_load_failed =
    utf8 [0x67E5, 0x8BE2, 0x5386, 0x53F2, 0x52A0, 0x8F7D, 0x5931, 0x8D25]"

text \<open>Loading the page of the history failed, back to the last one.\<close>

definition zh_hy_turn_failed :: string where
  "zh_hy_turn_failed =
    utf8 [0x67E5, 0x8BE2, 0x5386, 0x53F2, 0x5206, 0x9875, 0x52A0, 0x8F7D, 0x5931, 0x8D25,
      0xFF0C, 0x5DF2, 0x56DE, 0x9000, 0x5230, 0x4E0A, 0x4E00, 0x9875]"

text \<open>No query of the history matches.\<close>

definition zh_hy_no_match :: string where
  "zh_hy_no_match =
    utf8 [0x6CA1, 0x6709, 0x5339, 0x914D, 0x7684, 0x67E5, 0x8BE2, 0x5386, 0x53F2]"

text \<open>The history is empty.\<close>

definition zh_hy_none :: string where
  "zh_hy_none =
    utf8 [0x6682, 0x65E0, 0x67E5, 0x8BE2, 0x5386, 0x53F2]"

text \<open>On the search page, running with the old period.\<close>

definition zh_hy_replay_range :: string where
  "zh_hy_replay_range =
    utf8 [0x5DF2, 0x8DF3, 0x8F6C, 0x5230, 0x5B9E, 0x65F6, 0x68C0, 0x7D22, 0x5E76, 0x6309,
      0x539F, 0x65F6, 0x95F4, 0x8303, 0x56F4, 0x81EA, 0x52A8, 0x6267, 0x884C]"

text \<open>Query of the history.\<close>

definition zh_hy_name :: string where
  "zh_hy_name =
    utf8 [0x5386, 0x53F2, 0x67E5, 0x8BE2] @ '' ''"

text \<open>The tag of bookmarks made from the history.\<close>

definition zh_hy_tag :: string where
  "zh_hy_tag =
    utf8 [0x5386, 0x53F2, 0x67E5, 0x8BE2]"

text \<open>Saved without the old period.\<close>

definition zh_hy_bookmarked_cleaned :: string where
  "zh_hy_bookmarked_cleaned =
    utf8 [0x5DF2, 0x6536, 0x85CF, 0x67E5, 0x8BE2, 0x8BED, 0x53E5, 0xFF0C, 0x5E76, 0x81EA,
      0x52A8, 0x79FB, 0x9664, 0x5386, 0x53F2, 0x65F6, 0x95F4, 0x8303, 0x56F4]"

text \<open>Saved.\<close>

definition zh_hy_bookmarked :: string where
  "zh_hy_bookmarked =
    utf8 [0x5DF2, 0x6536, 0x85CF, 0x67E5, 0x8BE2, 0x8BED, 0x53E5]"

text \<open>Saving failed.\<close>

definition zh_hy_bookmark_failed :: string where
  "zh_hy_bookmark_failed =
    utf8 [0x6536, 0x85CF, 0x5931, 0x8D25]"

text \<open>Deleted.\<close>

definition zh_hy_deleted :: string where
  "zh_hy_deleted =
    utf8 [0x5DF2, 0x5220, 0x9664] @ '' ''"

text \<open>Records.\<close>

definition zh_hy_records :: string where
  "zh_hy_records =
    '' '' @ utf8 [0x6761, 0x8BB0, 0x5F55]"

text \<open>Records do not exist or have been deleted.\<close>

definition zh_hy_missing :: string where
  "zh_hy_missing =
    '' '' @ utf8 [0x6761, 0x8BB0, 0x5F55, 0x4E0D, 0x5B58, 0x5728, 0x6216, 0x5DF2, 0x88AB,
      0x5220, 0x9664]"

text \<open>Records could not be deleted.\<close>

definition zh_hy_failed :: string where
  "zh_hy_failed =
    '' '' @ utf8 [0x6761, 0x8BB0, 0x5F55, 0x5220, 0x9664, 0x5931, 0x8D25, 0xFF0C, 0x8BF7,
      0x7A0D, 0x540E, 0x91CD, 0x8BD5]"

text \<open>The history is being loaded.\<close>

definition zh_hy_loading :: string where
  "zh_hy_loading =
    utf8 [0x6B63, 0x5728, 0x52A0, 0x8F7D, 0x67E5, 0x8BE2, 0x5386, 0x53F2] @ ''...''"

text \<open>Loading the history again.\<close>

definition zh_hy_retrying :: string where
  "zh_hy_retrying =
    utf8 [0x6B63, 0x5728, 0x91CD, 0x8BD5, 0x67E5, 0x8BE2, 0x5386, 0x53F2] @ ''...''"

text \<open>Records.\<close>

definition zh_hy_unit :: string where
  "zh_hy_unit =
    utf8 [0x6761, 0x8BB0, 0x5F55]"

text \<open>The record does not exist.\<close>

definition zh_not_there :: string where
  "zh_not_there =
    utf8 [0x8BB0, 0x5F55, 0x4E0D, 0x5B58, 0x5728]"

text \<open>Has been deleted.\<close>

definition zh_was_deleted :: string where
  "zh_was_deleted =
    utf8 [0x5DF2, 0x88AB, 0x5220, 0x9664]"

text \<open>Loading the rules failed.\<close>

definition zh_ru_load_failed :: string where
  "zh_ru_load_failed =
    utf8 [0x52A0, 0x8F7D, 0x544A, 0x8B66, 0x89C4, 0x5219, 0x5931, 0x8D25]"

text \<open>The rule has been filled in from an anomaly.\<close>

definition zh_ru_prefilled :: string where
  "zh_ru_prefilled =
    utf8 [0x5DF2, 0x6839, 0x636E, 0x5F02, 0x5E38, 0x68C0, 0x6D4B, 0x7ED3, 0x679C, 0x9884,
      0x586B, 0x544A, 0x8B66, 0x89C4, 0x5219, 0xFF0C, 0x8BF7, 0x786E, 0x8BA4, 0x540E, 0x4FDD,
      0x5B58]"

text \<open>The rule.\<close>

definition zh_ru_rule :: string where
  "zh_ru_rule =
    utf8 [0x89C4, 0x5219] @ '' '' @ utf8 [0x0022]"

text \<open>Has been created.\<close>

definition zh_ru_created :: string where
  "zh_ru_created =
    utf8 [0x0022] @ '' '' @ utf8 [0x5DF2, 0x521B, 0x5EFA]"

text \<open>Has been updated.\<close>

definition zh_ru_updated :: string where
  "zh_ru_updated =
    utf8 [0x0022] @ '' '' @ utf8 [0x5DF2, 0x66F4, 0x65B0]"

text \<open>Has been deleted.\<close>

definition zh_ru_deleted :: string where
  "zh_ru_deleted =
    utf8 [0x0022] @ '' '' @ utf8 [0x5DF2, 0x5220, 0x9664]"

text \<open>Has been disabled.\<close>

definition zh_ru_disabled :: string where
  "zh_ru_disabled =
    utf8 [0x0022] @ '' '' @ utf8 [0x5DF2, 0x7981, 0x7528]"

text \<open>Has been enabled.\<close>

definition zh_ru_enabled :: string where
  "zh_ru_enabled =
    utf8 [0x0022] @ '' '' @ utf8 [0x5DF2, 0x542F, 0x7528]"

text \<open>No rules besides the hidden ones.\<close>

definition zh_ru_none_hidden :: string where
  "zh_ru_none_hidden =
    utf8 [0x5F53, 0x524D, 0x6682, 0x65E0, 0x4E1A, 0x52A1, 0x544A, 0x8B66, 0x89C4, 0x5219,
      0xFF0C, 0x5DF2, 0x9690, 0x85CF, 0x672C, 0x5730, 0x5F15, 0x5BFC] @ ''/'' @ utf8 [0x8054,
      0x8C03, 0x89C4, 0x5219]"

text \<open>No rules.\<close>

definition zh_ru_none :: string where
  "zh_ru_none =
    utf8 [0x6682, 0x65E0, 0x544A, 0x8B66, 0x89C4, 0x5219]"

text \<open>Normal.\<close>

definition zh_ru_normal :: string where
  "zh_ru_normal =
    utf8 [0x6B63, 0x5E38]"

text \<open>Disabled.\<close>

definition zh_ru_off :: string where
  "zh_ru_off =
    utf8 [0x5DF2, 0x7981, 0x7528]"

end
