(* ===== verification/Auth_Forms.thy ===== *)
theory Auth_Forms
  imports Page_Base Protected_Route Zh_Console
begin

text \<open>
  The forms before a session: signing in (\<open>components/auth/LoginForm.tsx\<close>), registering (\<open>RegisterForm.tsx\<close>) and
  resetting a password (\<open>ForgotPasswordForm.tsx\<close>). A form is a state; submitting it yields a request, and what it
  does with the answer is a function of its own, so anything may happen between the two.

  An answer is \<open>None\<close> when \<open>fetch\<close> is rejected, else whether it is ok and its body (\<open>None\<close>: no JSON). A submission is
  \<open>None\<close> when the handler throws before it begins: the configured base URL or tenant is no string.
\<close>

section \<open>What the forms share\<close>

type_synonym form_answer = "(bool \<times> json option) option"

definition form_base :: "config \<Rightarrow> string option" where
  "form_base config =
     (case jm_get config ''apiBaseUrl'' of
        Some (JStr s) \<Rightarrow> (let base = or_str s ''/api/v1'' in Some (if endsWith base ''/'' then take (length base - 1) base else base))
      | v \<Rightarrow> if truthy v then None else Some ''/api/v1'')"

text \<open>The tenant; empty for none.\<close>

definition form_tenant :: "config \<Rightarrow> browser \<Rightarrow> string option" where
  "form_tenant config b =
     (let localTenant = trim (nullish (readStorageValue b Local TENANT_ID_KEY) [])
      in if localTenant \<noteq> [] then Some localTenant else resolveConfigTenantId config)"

definition form_request :: "config \<Rightarrow> browser \<Rightarrow> string \<Rightarrow> json \<Rightarrow> (api_request \<times> string) option" where
  "form_request config b url_path body =
     (case (form_base config, form_tenant config b) of
        (Some base, Some tenantId) \<Rightarrow>
          Some (\<lparr>rq_url = base @ url_path, rq_method = ''POST'',
                 rq_headers = [(''Content-Type'', ''application/json'')]
                   @ (if tenantId \<noteq> [] then [(''X-Tenant-ID'', tenantId)] else []),
                 rq_body = Some body\<rparr>, tenantId)
      | _ \<Rightarrow> None)"

definition code_is :: "json option \<Rightarrow> string \<Rightarrow> bool" where
  "code_is body code \<longleftrightarrow> json_field body ''code'' = Some (JStr code)"

text \<open>\<open>errorBody?.message ?? fallback\<close>.\<close>

definition message_or :: "json option \<Rightarrow> string \<Rightarrow> string" where
  "message_or body fallback =
     (case nullish_json (json_field body ''message'') None of None \<Rightarrow> fallback | Some v \<Rightarrow> js_String v)"

text \<open>The first of the codes the body has decides the message.\<close>

definition message_by_code :: "(string \<times> string) list \<Rightarrow> json option \<Rightarrow> string \<Rightarrow> string" where
  "message_by_code table body fallback =
     (case find (\<lambda>e. code_is body (fst e)) table of Some e \<Rightarrow> snd e | None \<Rightarrow> message_or body fallback)"

text \<open>The argument an error is about, when it is named.\<close>

definition faulty_field :: "json option \<Rightarrow> string" where
  "faulty_field body =
     (case json_field (json_field body ''details'') ''field'' of Some (JStr s) \<Rightarrow> s | _ \<Rightarrow> [])"

text \<open>What storage writes for a value.\<close>

definition storage_text :: "json option \<Rightarrow> string" where
  "storage_text v = (case v of None \<Rightarrow> ''undefined'' | Some j \<Rightarrow> js_String j)"

section \<open>Signing in\<close>

record login_values =
  lv_username :: string
  lv_password :: string
  lv_remember :: bool

record login_form =
  lf_world :: auth_world
  lf_notices :: "notice list"

text \<open>A sign-in under way: its tenant and whether the session is to be remembered.\<close>

record login_call =
  lc_request :: api_request
  lc_tenant :: string
  lc_remember :: bool

definition mapRole :: "json option \<Rightarrow> user_role" where
  "mapRole role =
     (if role = Some (JStr ''admin'') then AdminRole else if role = Some (JStr ''editor'') then EditorRole else ViewerRole)"

definition EMERGENCY_AUTH_MOCK_KEY :: string where
  "EMERGENCY_AUTH_MOCK_KEY = ''nexuslog-auth-emergency-mock''"

definition isEmergencyMockEnabled :: "config \<Rightarrow> browser \<Rightarrow> bool" where
  "isEmergencyMockEnabled config b =
     (let localFlag = toLowerCase (trim (nullish (readStorageValue b Local EMERGENCY_AUTH_MOCK_KEY) []))
      in localFlag \<in> {''1'', ''true'', ''on'', ''enabled''}
         \<or> truthy (jm_get config ''enableAuthEmergencyMock'') \<or> truthy (jm_get config ''authEmergencyMockEnabled'')
         \<or> truthy (json_field (jm_get config ''features'') ''enableAuthEmergencyMock''))"

definition buildEmergencyMockUserID :: "string \<Rightarrow> string" where
  "buildEmergencyMockUserID username =
     deriveDeterministicUUID (''nexuslog-emergency:'' @ or_str (toLowerCase (trim username)) ''emergency-user'')"

definition writeEmergencyMockSessionTokens :: "string \<Rightarrow> int \<Rightarrow> bool \<Rightarrow> browser \<Rightarrow> browser" where
  "writeEmergencyMockSessionTokens randomSuffix now remember b =
     persistAuthSession
       \<lparr>accessToken = ''emergency-access-'' @ randomSuffix, refreshToken = ''emergency-refresh-'' @ randomSuffix,
        expiresAtMs = now + MAX_FRONTEND_TOKEN_TTL_SECONDS * 1000\<rparr> remember b"

definition extractErrorMessage :: "json option \<Rightarrow> string \<Rightarrow> string" where
  "extractErrorMessage =
     message_by_code
       [(''AUTH_LOGIN_TENANT_REQUIRED'', zh_login_tenant_required), (''AUTH_LOGIN_TENANT_INVALID'', zh_login_tenant_invalid),
        (''AUTH_LOGIN_TENANT_NOT_FOUND'', zh_login_tenant_unknown)]"

definition lf_say :: "notice \<Rightarrow> login_form \<Rightarrow> login_form" where
  "lf_say n st = st\<lparr>lf_notices := n # lf_notices st\<rparr>"

definition on_world :: "(auth_world \<Rightarrow> auth_world) \<Rightarrow> login_form \<Rightarrow> login_form" where
  "on_world f st = st\<lparr>lf_world := f (lf_world st)\<rparr>"

definition on_browser :: "(browser \<Rightarrow> browser) \<Rightarrow> auth_world \<Rightarrow> auth_world" where
  "on_browser f w = w\<lparr>browser := f (browser w)\<rparr>"

text \<open>\<open>localStorage.setItem\<close> of the tenant: it throws when local storage is denied or refuses the value.\<close>

definition keep_tenant :: "string \<Rightarrow> browser \<Rightarrow> browser option" where
  "keep_tenant tenantId b =
     (let a = local_area b
      in if tenantId = [] then Some b
         else if avail a \<and> accepts a (entries a) TENANT_ID_KEY tenantId
         then Some (writeStorageValue Local TENANT_ID_KEY tenantId b) else None)"

definition emergency_context :: authorization_context where
  "emergency_context =
     \<lparr>cx_permissions = Some [''*''], cx_capabilities = Some [''*''], cx_scopes = Some ALL_AUTHORIZATION_SCOPES,
      cx_entitlements = Some [], cx_featureFlags = Some [], cx_authzEpoch = Some 0,
      cx_actorFlags = Some [(''reserved'', False), (''interactive_login_allowed'', True), (''system_subject'', False)],
      cx_sourceToken = TokenUndefined\<rparr>"

definition emergency_login :: "string \<Rightarrow> int \<Rightarrow> string \<Rightarrow> login_values \<Rightarrow> login_form \<Rightarrow> login_form" where
  "emergency_login randomSuffix now tenantId values st =
     (let st1 = on_world (on_browser (writeEmergencyMockSessionTokens randomSuffix now (lv_remember values)) \<circ> setLoading True) st;
          emergencyUsername = or_str (trim (lv_username values)) ''emergency-user'';
          u = \<lparr>u_id = buildEmergencyMockUserID emergencyUsername, u_username = emergencyUsername,
               u_email = emergencyUsername @ ''@nexuslog.local'', u_role = AdminRole, u_avatar = None\<rparr>
      in on_world (setLoading False)
           (case keep_tenant tenantId (browser (lf_world st1)) of
              None \<Rightarrow> st1
            | Some b \<Rightarrow>
                lf_say (Warning zh_login_emergency)
                  (on_world (setAuthorizationContext emergency_context \<circ> login u \<circ> on_browser (\<lambda>_. b)) st1)))"

text \<open>Submitting; the form is disabled while the store is loading.\<close>

definition submit_login ::
    "config \<Rightarrow> string \<Rightarrow> int \<Rightarrow> login_values \<Rightarrow> login_form \<Rightarrow> (login_form \<times> login_call option) option" where
  "submit_login config randomSuffix now values st =
     (case form_request config (browser (lf_world st)) ''/auth/login''
             (JObj [(''username'', JStr (trim (lv_username values))), (''password'', JStr (lv_password values)),
                    (''remember_me'', JBool (lv_remember values))]) of
        None \<Rightarrow> None
      | Some (request, tenantId) \<Rightarrow>
          if isEmergencyMockEnabled config (browser (lf_world st))
          then Some (emergency_login randomSuffix now tenantId values st, None)
          else Some (on_world (setLoading True) st,
                     Some \<lparr>lc_request = request, lc_tenant = tenantId, lc_remember = lv_remember values\<rparr>))"

text \<open>What an answer says: who has signed in with which session.\<close>

definition session_of :: "int \<Rightarrow> json option \<Rightarrow> (auth_session \<times> user) option" where
  "session_of now body =
     (let data = json_field body ''data''; u = json_field data ''user'';
          username = storage_text (json_field u ''username'')
      in if \<not> truthy (json_field u ''user_id'') \<or> \<not> truthy (json_field u ''username'') then None
         else Some (\<lparr>accessToken = storage_text (json_field data ''access_token''),
                     refreshToken = storage_text (json_field data ''refresh_token''),
                     expiresAtMs = now + resolveTokenTtlSeconds
                       (case json_field data ''expires_in'' of Some (JNum q) \<Rightarrow> Fin q | _ \<Rightarrow> NaN) * 1000\<rparr>,
                    \<lparr>u_id = storage_text (json_field u ''user_id''), u_username = username,
                     u_email = (if truthy (json_field u ''email'') then storage_text (json_field u ''email'')
                                else username @ ''@nexuslog.local''),
                     u_role = mapRole (json_field u ''role''), u_avatar = None\<rparr>))"

text \<open>A sign-in that has failed, and one that goes on to fetch the authorization: the promise it waits for, if any.\<close>

definition login_failed :: "string \<Rightarrow> login_form \<Rightarrow> login_form" where
  "login_failed m st = on_world (setLoading False) (lf_say (Error_Notice m) st)"

definition login_done :: "login_form \<Rightarrow> login_form" where
  "login_done st = on_world (setLoading False) (lf_say (Success_Notice zh_login_done) st)"

definition answer_login :: "int \<Rightarrow> login_call \<Rightarrow> form_answer \<Rightarrow> login_form \<Rightarrow> login_form \<times> nat option" where
  "answer_login now call answer st =
     (case answer of
        None \<Rightarrow> (login_failed zh_login_network st, None)
      | Some (ok, body) \<Rightarrow>
          if \<not> ok then (login_failed (extractErrorMessage body zh_login_refused) st, None)
          else (case session_of now body of
                  None \<Rightarrow> (login_failed zh_login_incomplete st, None)
                | Some (s, u) \<Rightarrow>
                    (let st1 = on_world (on_browser (persistAuthSession s (lc_remember call))) st
                     in case keep_tenant (lc_tenant call) (browser (lf_world st1)) of
                          None \<Rightarrow> (login_failed zh_login_network st1, None)
                        | Some b \<Rightarrow>
                            (case syncAuthorizationContext now (login u (on_browser (\<lambda>_. b) (lf_world st1))) of
                               (w, Settled) \<Rightarrow> (login_done (st1\<lparr>lf_world := w\<rparr>), None)
                             | (w, Joined p) \<Rightarrow> (st1\<lparr>lf_world := w\<rparr>, Some p)
                             | (w, Started p) \<Rightarrow> (st1\<lparr>lf_world := w\<rparr>, Some p)))))"

section \<open>Registering\<close>

record register_values =
  rv_username :: string
  rv_email :: string
  rv_password :: string

record register_form =
  rg_loading :: bool
  rg_left :: bool
  rg_notices :: "notice list"

definition extractRegisterErrorMessage :: "json option \<Rightarrow> string \<Rightarrow> string" where
  "extractRegisterErrorMessage body fallback =
     (if code_is body ''AUTH_REGISTER_INVALID_ARGUMENT''
      then (let field = faulty_field body
            in if field = ''username'' then zh_reg_username else if field = ''password'' then zh_reg_password
               else if field = ''email'' then zh_reg_email else if field = ''display_name'' then zh_reg_display else zh_reg_argument)
      else message_by_code
        [(''AUTH_REGISTER_TENANT_REQUIRED'', zh_reg_tenant_required), (''AUTH_REGISTER_TENANT_INVALID'', zh_reg_tenant_invalid),
         (''AUTH_REGISTER_TENANT_NOT_FOUND'', zh_reg_tenant_unknown), (''AUTH_REGISTER_USERNAME_CONFLICT'', zh_reg_name_taken),
         (''AUTH_REGISTER_EMAIL_CONFLICT'', zh_reg_email_taken)] body fallback)"

definition submit_register ::
    "config \<Rightarrow> browser \<Rightarrow> register_values \<Rightarrow> register_form \<Rightarrow> (register_form \<times> api_request) option" where
  "submit_register config b values st =
     map_option (\<lambda>(request, _). (st\<lparr>rg_loading := True\<rparr>, request))
       (form_request config b ''/auth/register''
          (JObj [(''username'', JStr (trim (rv_username values))), (''email'', JStr (trim (rv_email values))),
                 (''password'', JStr (rv_password values)), (''display_name'', JStr (trim (rv_username values)))]))"

definition answer_register :: "form_answer \<Rightarrow> register_form \<Rightarrow> register_form" where
  "answer_register answer st =
     (let say = (\<lambda>n st. st\<lparr>rg_notices := n # rg_notices st\<rparr>);
          data = (\<lambda>body. json_field body ''data'')
      in (case answer of
            None \<Rightarrow> say (Error_Notice zh_reg_network) st
          | Some (ok, body) \<Rightarrow>
              if \<not> ok then say (Error_Notice (extractRegisterErrorMessage body zh_reg_failed)) st
              else if \<not> truthy (json_field (data body) ''user_id'') \<or> \<not> truthy (json_field (data body) ''username'')
              then say (Error_Notice zh_reg_incomplete) st
              else (say (Success_Notice zh_reg_done) st)\<lparr>rg_left := True\<rparr>)\<lparr>rg_loading := False\<rparr>)"

section \<open>Resetting a password\<close>

datatype reset_step = Request_Step | Request_Success | Confirm_Step | Confirm_Success

record reset_form =
  rf_submitting :: bool
  rf_step :: reset_step
  rf_identifier :: string
  rf_token :: string
  rf_messages :: "notice list"

text \<open>\<open>initialToken\<close>: the token of the link the page was opened with (empty: none).\<close>

definition initial_reset_token :: "string option \<Rightarrow> string option \<Rightarrow> string" where
  "initial_reset_token token_param reset_token_param = trim (nullish token_param (nullish reset_token_param []))"

definition open_reset_form :: "string \<Rightarrow> reset_form" where
  "open_reset_form initialToken =
     \<lparr>rf_submitting = False, rf_step = (if initialToken = [] then Request_Step else Confirm_Step), rf_identifier = [],
      rf_token = initialToken, rf_messages = []\<rparr>"

definition extractResetRequestErrorMessage :: "json option \<Rightarrow> string \<Rightarrow> string" where
  "extractResetRequestErrorMessage =
     message_by_code
       [(''AUTH_RESET_REQUEST_INVALID_ARGUMENT'', zh_send_identifier), (''AUTH_RESET_REQUEST_TENANT_REQUIRED'', zh_send_tenant_required),
        (''AUTH_RESET_REQUEST_TENANT_INVALID'', zh_send_tenant_invalid),
        (''AUTH_RESET_REQUEST_TENANT_NOT_FOUND'', zh_send_tenant_unknown)]"

definition extractResetConfirmErrorMessage :: "json option \<Rightarrow> string \<Rightarrow> string" where
  "extractResetConfirmErrorMessage body fallback =
     (if code_is body ''AUTH_RESET_CONFIRM_INVALID_ARGUMENT''
      then (let field = faulty_field body
            in if field = ''token'' then zh_reset_token_bad else if field = ''new_password'' then zh_reset_password_bad
               else zh_reset_argument)
      else message_by_code
        [(''AUTH_RESET_CONFIRM_TENANT_REQUIRED'', zh_reset_tenant_required), (''AUTH_RESET_CONFIRM_TENANT_INVALID'', zh_reset_tenant_invalid),
         (''AUTH_RESET_CONFIRM_TENANT_NOT_FOUND'', zh_reset_tenant_unknown), (''AUTH_RESET_CONFIRM_INVALID_TOKEN'', zh_reset_token_expired)]
        body fallback)"

definition rf_say :: "notice \<Rightarrow> reset_form \<Rightarrow> reset_form" where
  "rf_say n st = st\<lparr>rf_messages := n # rf_messages st\<rparr>"

definition submit_reset_request ::
    "config \<Rightarrow> browser \<Rightarrow> string \<Rightarrow> reset_form \<Rightarrow> (reset_form \<times> api_request) option" where
  "submit_reset_request config b emailOrUsername st =
     map_option (\<lambda>(request, _). (st\<lparr>rf_submitting := True\<rparr>, request))
       (form_request config b ''/auth/password/reset-request''
          (JObj [(''email_or_username'', JStr (trim emailOrUsername))]))"

definition answer_reset_request :: "string \<Rightarrow> form_answer \<Rightarrow> reset_form \<Rightarrow> reset_form" where
  "answer_reset_request emailOrUsername answer st =
     (case answer of
        None \<Rightarrow> rf_say (Error_Notice zh_send_network) st
      | Some (ok, body) \<Rightarrow>
          if \<not> ok then rf_say (Error_Notice (extractResetRequestErrorMessage body zh_send_failed)) st
          else if json_field (json_field body ''data'') ''accepted'' \<noteq> Some (JBool True)
          then rf_say (Error_Notice zh_send_incomplete) st
          else rf_say (Success_Notice zh_send_done)
                 (st\<lparr>rf_identifier := trim emailOrUsername, rf_step := Request_Success\<rparr>))\<lparr>rf_submitting := False\<rparr>"

definition submit_reset_confirm ::
    "config \<Rightarrow> browser \<Rightarrow> string \<Rightarrow> string \<Rightarrow> reset_form \<Rightarrow> (reset_form \<times> api_request) option" where
  "submit_reset_confirm config b token newPassword st =
     map_option (\<lambda>(request, _). (st\<lparr>rf_submitting := True\<rparr>, request))
       (form_request config b ''/auth/password/reset-confirm''
          (JObj [(''token'', JStr (trim token)), (''new_password'', JStr newPassword)]))"

definition answer_reset_confirm :: "form_answer \<Rightarrow> reset_form \<Rightarrow> reset_form" where
  "answer_reset_confirm answer st =
     (case answer of
        None \<Rightarrow> rf_say (Error_Notice zh_reset_network) st
      | Some (ok, body) \<Rightarrow>
          if \<not> ok then rf_say (Error_Notice (extractResetConfirmErrorMessage body zh_reset_failed)) st
          else if json_field (json_field body ''data'') ''reset'' \<noteq> Some (JBool True)
          then rf_say (Error_Notice zh_reset_incomplete) st
          else rf_say (Success_Notice zh_reset_done) (st\<lparr>rf_step := Confirm_Success\<rparr>))\<lparr>rf_submitting := False\<rparr>"

text \<open>The buttons that change the step: to the token of a mail, and back to asking for a mail.\<close>

definition enter_token :: "reset_form \<Rightarrow> reset_form" where
  "enter_token st = st\<lparr>rf_step := Confirm_Step, rf_token := []\<rparr>"

definition ask_again :: "reset_form \<Rightarrow> reset_form" where
  "ask_again st = st\<lparr>rf_step := Request_Step\<rparr>"

section \<open>Lemmas\<close>

text \<open>What the guard of the pages sees depends on the storage keys of a session only.\<close>

lemma session_frame:
  assumes "\<And>s k. k \<noteq> TENANT_ID_KEY \<Longrightarrow> readStorageValue b' s k = readStorageValue b s k"
  shows "validateToken b' t = validateToken b t" "resolveAuthStorageScope b' = resolveAuthStorageScope b"
    and "k \<in> {ACCESS_TOKEN_KEY, REFRESH_TOKEN_KEY, TOKEN_EXPIRES_AT_KEY} \<Longrightarrow> getAuthStorageItem b' k = getAuthStorageItem b k"
proof -
  have keys: "ACCESS_TOKEN_KEY \<noteq> TENANT_ID_KEY" "REFRESH_TOKEN_KEY \<noteq> TENANT_ID_KEY" "TOKEN_EXPIRES_AT_KEY \<noteq> TENANT_ID_KEY"
    "AUTH_PERSIST_KEY \<noteq> TENANT_ID_KEY" "AUTH_STORAGE_SCOPE_KEY \<noteq> TENANT_ID_KEY"
    by (simp_all add: TENANT_ID_KEY_def storage_keys)
  then show scope: "resolveAuthStorageScope b' = resolveAuthStorageScope b"
    unfolding resolveAuthStorageScope_def holds_value_def assms [OF keys(1)] assms [OF keys(4)] assms [OF keys(5)] by (simp only:)
  have items: "getAuthStorageItem b' k = getAuthStorageItem b k" if "k \<in> {ACCESS_TOKEN_KEY, REFRESH_TOKEN_KEY, TOKEN_EXPIRES_AT_KEY}" for k
    using that keys by (auto simp: getAuthStorageItem_def scope assms)
  then show "k \<in> {ACCESS_TOKEN_KEY, REFRESH_TOKEN_KEY, TOKEN_EXPIRES_AT_KEY} \<Longrightarrow> getAuthStorageItem b' k = getAuthStorageItem b k" .
  show "validateToken b' t = validateToken b t"
    using items by (simp add: validateToken_def resolveAccessToken_def getStoredExpiryMs_def)
qed

lemma keep_tenant_frame:
  "keep_tenant tenantId b = Some b' \<Longrightarrow> k \<noteq> TENANT_ID_KEY \<Longrightarrow> readStorageValue b' s k = readStorageValue b s k"
  by (cases s)
    (auto simp: keep_tenant_def Let_def readStorageValue_def writeStorageValue_def getStorage_def set_entries_def split: if_splits)

lemma keep_tenant_writable: "writable Local b \<Longrightarrow> keep_tenant tenantId b \<noteq> None"
  by (simp add: keep_tenant_def Let_def writable_def getStorage_def)

lemma sync_keeps:
  "browser (fst (syncAuthorizationContext now w)) = browser w"
  "isAuthenticated (auth (fst (syncAuthorizationContext now w))) = isAuthenticated (auth w)"
  "user (auth (fst (syncAuthorizationContext now w))) = user (auth w)"
  by (simp_all add: syncAuthorizationContext_def Let_def clearAuthorizationContext_def resetAuthorizationSyncTracking_def
      with_snapshot_def setAuthorizationContext_def split: option.split)

lemma loading_keeps:
  "browser (setLoading l w) = browser w" "isAuthenticated (auth (setLoading l w)) = isAuthenticated (auth w)"
  "user (auth (setLoading l w)) = user (auth w)"
  by (simp_all add: setLoading_def)

lemma login_keeps: "browser (login u w) = browser w" "isAuthenticated (auth (login u w))" "user (auth (login u w)) = Some u"
  by (simp_all add: login_def)

section \<open>Properties\<close>

text \<open>C3: When the service accepts a sign-in with a token, the times and the names of a user, and the browser lets both
  storages be written, the session made is the one of the answer: the store holds that user (without a mail address, the
  name at nexuslog.local; an administrator or editor by the role named, else a viewer), the storage area is the one chosen
  with "remember", both tokens are read back from it, and the guard of the pages accepts the token until five seconds
  before it expires: after the whole seconds the answer grants, at most six hours.\<close>

theorem sign_in_opens_session:
  assumes "data = json_field body ''data''" "u = json_field data ''user''"
    and "json_field data ''access_token'' = Some (JStr access)" "trim access \<noteq> []"
    and "json_field data ''refresh_token'' = Some (JStr refresh)"
    and "json_field data ''expires_in'' = Some (JNum seconds)" "0 < seconds"
    and "json_field u ''user_id'' = Some (JStr uid)" "uid \<noteq> []"
    and "json_field u ''username'' = Some (JStr nm)" "nm \<noteq> []"
    and "json_field u ''email'' = map_option JStr mail" "json_field u ''role'' = map_option JStr role"
    and "0 < now" "writable Local (browser (lf_world st))" "writable Session (browser (lf_world st))"
    and "answer_login now call (Some (True, body)) st = (st', pending)"
  shows "isAuthenticated (auth (lf_world st'))
    \<and> user (auth (lf_world st')) =
        Some \<lparr>u_id = uid, u_username = nm,
              u_email = (case mail of None \<Rightarrow> nm @ ''@nexuslog.local'' | Some m \<Rightarrow> if m = [] then nm @ ''@nexuslog.local'' else m),
              u_role = (if role = Some ''admin'' then AdminRole else if role = Some ''editor'' then EditorRole else ViewerRole),
              u_avatar = None\<rparr>
    \<and> resolveAuthStorageScope (browser (lf_world st')) = (if lc_remember call then Local else Session)
    \<and> getAuthStorageItem (browser (lf_world st')) ACCESS_TOKEN_KEY = Some access
    \<and> getAuthStorageItem (browser (lf_world st')) REFRESH_TOKEN_KEY = Some refresh
    \<and> (\<forall>t. isValid (validateToken (browser (lf_world st')) t) = (t + 5000 < now + min \<lfloor>seconds\<rfloor> 21600 * 1000))"
proof -
  define scp where "scp = (if lc_remember call then Local else Session)"
  define s where "s = \<lparr>accessToken = access, refreshToken = refresh, expiresAtMs = now + min \<lfloor>seconds\<rfloor> 21600 * 1000\<rparr>"
  define v where "v = \<lparr>u_id = uid, u_username = nm,
              u_email = (case mail of None \<Rightarrow> nm @ ''@nexuslog.local'' | Some m \<Rightarrow> if m = [] then nm @ ''@nexuslog.local'' else m),
              u_role = (if role = Some ''admin'' then AdminRole else if role = Some ''editor'' then EditorRole else ViewerRole),
              u_avatar = None\<rparr>"
  have "resolveTokenTtlSeconds (Fin seconds) = min \<lfloor>seconds\<rfloor> 21600"
    using assms(7) by (simp add: resolveTokenTtlSeconds_def MAX_FRONTEND_TOKEN_TTL_SECONDS_def Let_def)
  then have answered: "session_of now body = Some (s, v)"
    using assms(1-13) by (simp add: session_of_def Let_def truthy_def storage_text_def mapRole_def s_def v_def split: option.split)
  define b1 where "b1 = persistAuthSession s (lc_remember call) (browser (lf_world st))"
  have w: "writable scp (browser (lf_world st))" using assms(15,16) by (simp add: scp_def)
  then have wc: "writable scp (clearAuthStorage (browser (lf_world st)))" by simp
  have b1: "b1 = writeAuthSessionTokens scp s (clearAuthStorage (browser (lf_world st)))"
    by (simp add: b1_def persistAuthSession_def scp_def)
  have "writable Local b1"
    using assms(15) by (simp add: b1 writeAuthSessionTokens_def setActiveAuthStorageScope_def Let_def)
  then obtain b2 where b2: "keep_tenant (lc_tenant call) b1 = Some b2" using keep_tenant_writable by blast
  note frame = session_frame [OF keep_tenant_frame [OF b2]]
  define world where "world = login v (on_browser (\<lambda>_. b2) (on_browser (\<lambda>_. b1) (lf_world st)))"
  have "browser (lf_world st') = b2 \<and> isAuthenticated (auth (lf_world st')) \<and> user (auth (lf_world st')) = Some v"
    using assms(17) answered b2 sync_keeps [of now world] login_keeps [of v "on_browser (\<lambda>_. b2) (on_browser (\<lambda>_. b1) (lf_world st))"]
    by (auto simp: answer_login_def Let_def on_world_def on_browser_def login_done_def lf_say_def loading_keeps world_def b1_def
        split: prod.splits sync_outcome.splits)
  moreover have "0 < expiresAtMs s" using assms(7,14) by (simp add: s_def add_pos_nonneg)
  then have "\<forall>t. isValid (validateToken b2 t) = (t + 5000 < expiresAtMs s)"
    using validate_after_tokens [OF wc, of s] assms(4) frame(1) by (simp add: b1 s_def)
  moreover have "resolveAuthStorageScope b2 = scp" using frame(2) resolve_after_tokens [OF wc, of s] by (simp add: b1)
  moreover have "getAuthStorageItem b2 ACCESS_TOKEN_KEY = Some access" "getAuthStorageItem b2 REFRESH_TOKEN_KEY = Some refresh"
    using frame(3) getAuthStorageItem_after_tokens [OF wc, of s] by (simp_all add: b1 session_value_def s_def)
  ultimately show ?thesis by (simp add: scp_def v_def s_def)
qed

text \<open>C4: A sign-in that fails leaves no trace: without network, refused, or answered without a user, the sign-in only ends
  the mark of loading and shows one message; session, tokens and authorization are what they were.\<close>

theorem failed_sign_in_leaves_no_trace:
  assumes "answer = None \<or> (\<exists>body. answer = Some (False, body)) \<or> (\<exists>body. answer = Some (True, body) \<and> session_of now body = None)"
  shows "\<exists>m. answer_login now call answer st
    = (st\<lparr>lf_notices := Error_Notice m # lf_notices st,
          lf_world := (lf_world st)\<lparr>auth := (auth (lf_world st))\<lparr>isLoading := False\<rparr>\<rparr>\<rparr>, None)"
  using assms by (auto simp: answer_login_def login_failed_def lf_say_def on_world_def setLoading_def)

definition accepted_body :: json where
  "accepted_body = JObj [(''data'', JObj [(''access_token'', JStr ''at''), (''refresh_token'', JStr ''rt''), (''expires_in'', JNum 99999),
     (''user'', JObj [(''user_id'', JStr ''u1''), (''username'', JStr ''ann''), (''role'', JStr ''editor'')])])]"

definition fresh_form :: login_form where
  "fresh_form = \<lparr>lf_world = initial_world \<lparr>local_area = open_area, session_area = open_area\<rparr>, lf_notices = []\<rparr>"

definition remembered_call :: login_call where
  "remembered_call =
     \<lparr>lc_request = \<lparr>rq_url = ''/api/v1/auth/login'', rq_method = ''POST'', rq_headers = [], rq_body = None\<rparr>,
      lc_tenant = ''t1'', lc_remember = True\<rparr>"

theorem sign_in_opens_session_witness:
  "\<exists>st' pending. answer_login 1000 remembered_call (Some (True, Some accepted_body)) fresh_form = (st', pending)
     \<and> getAuthStorageItem (browser (lf_world st')) ACCESS_TOKEN_KEY = Some ''at''
     \<and> map_option u_email (user (auth (lf_world st'))) = Some ''ann@nexuslog.local''
     \<and> isValid (validateToken (browser (lf_world st')) 0) \<and> \<not> isValid (validateToken (browser (lf_world st')) 21596000)"
proof -
  obtain st' pending where a: "answer_login 1000 remembered_call (Some (True, Some accepted_body)) fresh_form = (st', pending)"
    by fastforce
  let ?data = "json_field (Some accepted_body) ''data''"
  have fields: "json_field ?data ''access_token'' = Some (JStr ''at'')" "json_field ?data ''refresh_token'' = Some (JStr ''rt'')"
    "json_field ?data ''expires_in'' = Some (JNum 99999)" "json_field (json_field ?data ''user'') ''user_id'' = Some (JStr ''u1'')"
    "json_field (json_field ?data ''user'') ''username'' = Some (JStr ''ann'')"
    "json_field (json_field ?data ''user'') ''email'' = map_option JStr None"
    "json_field (json_field ?data ''user'') ''role'' = map_option JStr (Some ''editor'')" by code_simp+
  have w: "writable scp (browser (lf_world fresh_form))" for scp
    by (cases scp) (simp_all add: fresh_form_def initial_world_def writable_def getStorage_def open_area_def)
  have t: "trim ''at'' \<noteq> []" "(0::rat) < 99999" "''u1'' \<noteq> []" "''ann'' \<noteq> []" "(0::int) < 1000" by (code_simp, simp_all)
  from sign_in_opens_session [OF refl refl fields(1) t(1) fields(2,3) t(2) fields(4) t(3) fields(5) t(4) fields(6,7) t(5) w w a]
  show ?thesis using a by simp
qed

theorem failed_sign_in_leaves_no_trace_witness:
  "\<exists>m. answer_login 1000 remembered_call (Some (False, Some JNull)) fresh_form
     = (fresh_form\<lparr>lf_notices := [Error_Notice m],
          lf_world := (lf_world fresh_form)\<lparr>auth := (auth (lf_world fresh_form))\<lparr>isLoading := False\<rparr>\<rparr>\<rparr>, None)"
  using failed_sign_in_leaves_no_trace [of "Some (False, Some JNull)" 1000 remembered_call fresh_form]
  by (simp add: fresh_form_def)

end
