(* ===== verification/Login_Policy_Page.thy ===== *)
theory Login_Policy_Page
  imports Page_Base Page_Access Runtime_Config Query_Store Js_Regex Zh_Console
    "HOL-Library.Word"
begin

text \<open>
  The login policy page (\<open>pages/security/LoginPolicy.tsx\<close>): its settings, how what the service sends becomes settings,
  their validation, the list of allowed networks, and the page as a state machine whose requests are answered at any
  later time.

  Settings are an object of the runtime: the members \<open>{...defaults, ...sent}\<close> leaves, with the types they were sent
  with. Only the list of networks and \<open>historyCheck\<close> are normalised by the code.
\<close>

section \<open>Settings\<close>

type_synonym policy_settings = "(string, json) jsmap"

record ip_item =
  ip_text :: string
  ip_note :: string

definition ip_json :: "ip_item \<Rightarrow> json" where
  "ip_json i = JObj [(''ip'', JStr (ip_text i)), (''note'', JStr (ip_note i))]"

definition default_networks :: "ip_item list" where
  "default_networks =
     [\<lparr>ip_text = ''10.0.0.0/8'', ip_note = zh_note_office\<rparr>, \<lparr>ip_text = ''192.168.1.10'', ip_note = zh_note_admin\<rparr>,
      \<lparr>ip_text = ''203.0.113.5'', ip_note = zh_note_vpn\<rparr>]"

definition with_networks :: "ip_item list \<Rightarrow> policy_settings \<Rightarrow> policy_settings" where
  "with_networks xs m = jm_set ''ipWhitelist'' (JArr (map ip_json xs)) m"

definition defaultSettings :: policy_settings where
  "defaultSettings = with_networks default_networks
     [(''totpEnabled'', JBool True), (''smsEnabled'', JBool False), (''minLength'', JNum 12), (''passwordExpiry'', JNum 90),
      (''requireUppercase'', JBool True), (''requireLowercase'', JBool True), (''requireNumbers'', JBool True),
      (''requireSpecialChars'', JBool False), (''historyCheck'', JStr ''3''), (''idleTimeout'', JNum 30),
      (''maxConcurrentSessions'', JNum 3), (''maxLoginAttempts'', JNum 5), (''lockoutDuration'', JNum 30),
      (''ipWhitelistEnabled'', JBool True)]"

text \<open>The networks of normalised settings, where each is an object with the texts \<open>ip\<close> and \<open>note\<close>.\<close>

definition item_of :: "json \<Rightarrow> ip_item" where
  "item_of v = \<lparr>ip_text = string_or_empty (json_field (Some v) ''ip''), ip_note = string_or_empty (json_field (Some v) ''note'')\<rparr>"

definition networks :: "policy_settings \<Rightarrow> ip_item list" where
  "networks m = (case jm_get m ''ipWhitelist'' of Some (JArr xs) \<Rightarrow> map item_of xs | _ \<Rightarrow> [])"

definition normalizeIpItem :: "json \<Rightarrow> ip_item option" where
  "normalizeIpItem item =
     (let ip = trim (string_or_empty (json_field (Some item) ''ip''));
          note = trim (string_or_empty (json_field (Some item) ''note''))
      in if ip = [] then None else Some \<lparr>ip_text = ip, ip_note = note\<rparr>)"

definition normalizeIpWhitelist :: "json option \<Rightarrow> ip_item list" where
  "normalizeIpWhitelist raw = (case raw of Some (JArr xs) \<Rightarrow> List.map_filter normalizeIpItem xs | _ \<Rightarrow> default_networks)"

definition normalizeSettings :: "json option \<Rightarrow> policy_settings" where
  "normalizeSettings raw =
     (case raw of
        Some (JObj ms) \<Rightarrow>
          (let merged = with_networks (normalizeIpWhitelist (jm_get ms ''ipWhitelist'')) (js_spread defaultSettings ms);
               history = (case jm_get merged ''historyCheck'' of Some v \<Rightarrow> js_String v | None \<Rightarrow> ''undefined'')
           in jm_set ''historyCheck'' (JStr (if history \<in> {''0'', ''3'', ''5''} then history else ''3'')) merged)
      | Some (JArr xs) \<Rightarrow> js_spread defaultSettings (own_entries raw)
      | _ \<Rightarrow> defaultSettings)"

definition serializeSettings :: "policy_settings \<Rightarrow> string" where
  "serializeSettings m = stringify (JObj m)"

section \<open>Validation\<close>

definition isValidIpv4Segment :: "string \<Rightarrow> bool" where
  "isValidIpv4Segment segment \<longleftrightarrow> segment \<noteq> [] \<and> list_all is_digit segment \<and> digits_val 0 segment \<le> 255"

definition isValidIpv4 :: "string \<Rightarrow> bool" where
  "isValidIpv4 v = (let segments = split_on ''.'' v in length segments = 4 \<and> list_all isValidIpv4Segment segments)"

definition isValidCidr :: "string \<Rightarrow> bool" where
  "isValidCidr v =
     (case split_on ''/'' v of
        address # bits # _ \<Rightarrow>
          address \<noteq> [] \<and> isValidIpv4 address \<and> bits \<noteq> [] \<and> list_all is_digit bits \<and> digits_val 0 bits \<le> 32
      | _ \<Rightarrow> False)"

definition isValidIpOrCidr :: "string \<Rightarrow> bool" where
  "isValidIpOrCidr v \<longleftrightarrow> isValidIpv4 v \<or> isValidCidr v"

definition formatSavedAt :: "(int \<Rightarrow> string) \<Rightarrow> clock \<Rightarrow> string option \<Rightarrow> string" where
  "formatSavedAt locale_time c v =
     (let s = nullish v [] in if s = [] then zh_never_saved else case date_of c s of None \<Rightarrow> s | Some t \<Rightarrow> locale_time t)"

definition toAccessibleDomId :: "string \<Rightarrow> string" where
  "toAccessibleDomId v =
     (let plain = (\<lambda>c. is_digit c \<or> (97 \<le> (of_char c :: nat) \<and> (of_char c :: nat) \<le> 122));
          dashed = replace_runs (\<lambda>c. \<not> plain c) ''-'' (toLowerCase (trim v));
          stripped = dropWhile (\<lambda>c. c = CHR ''-'') (rev (dropWhile (\<lambda>c. c = CHR ''-'') dashed))
      in or_str (rev stripped) ''item'')"

definition complexityEnabledCount :: "policy_settings \<Rightarrow> nat" where
  "complexityEnabledCount m =
     length (filter (\<lambda>k. truthy (jm_get m k)) [''requireUppercase'', ''requireLowercase'', ''requireNumbers'', ''requireSpecialChars''])"

definition validateSettings :: "policy_settings \<Rightarrow> string option" where
  "validateSettings m =
     (let expiry = num_of_json (jm_get m ''passwordExpiry'')
      in if num_lt (num_of_json (jm_get m ''minLength'')) 8 then Some zh_min_length_bad
         else if complexityEnabledCount m < 3 then Some zh_complexity_bad
         else if num_lt expiry 0 \<or> num_gt expiry 365 then Some zh_expiry_bad
         else if truthy (jm_get m ''ipWhitelistEnabled'') \<and> networks m = [] then Some zh_whitelist_empty
         else case find (\<lambda>i. \<not> isValidIpOrCidr (trim (ip_text i))) (networks m) of
                Some i \<Rightarrow> Some (zh_whitelist_bad @ ip_text i)
              | None \<Rightarrow> None)"

section \<open>The page\<close>

text \<open>
  An answer is the settings as they come and the time of the update, or the message of an error. A load that was
  cancelled leaves no trace, so only whether an uncancelled one is under way is kept; of a save, what was sent.
\<close>

type_synonym policy_answer = "string + (json option \<times> string option)"

record policy_page =
  pp_settings :: policy_settings
  pp_savedSnapshot :: string
  pp_lastSavedAt :: "string option"
  pp_newIp :: string
  pp_newIpNote :: string
  pp_isSaving :: bool
  pp_isLoading :: bool
  pp_access :: login_policy_action_access
  pp_notices :: "notice list"
  pp_loads :: bool
  pp_sent :: "policy_settings option"

definition say :: "notice \<Rightarrow> policy_page \<Rightarrow> policy_page" where
  "say n st = st\<lparr>pp_notices := n # pp_notices st\<rparr>"

definition isDirty :: "policy_page \<Rightarrow> bool" where
  "isDirty st \<longleftrightarrow> serializeSettings (pp_settings st) \<noteq> pp_savedSnapshot st"

definition start_load :: "policy_page \<Rightarrow> policy_page" where
  "start_load st =
     (if \<not> lp_canReadLoginPolicy (pp_access st) then st\<lparr>pp_isLoading := False, pp_loads := False\<rparr>
      else st\<lparr>pp_isLoading := True, pp_loads := True\<rparr>)"

definition open_policy_page :: "login_policy_action_access \<Rightarrow> policy_page" where
  "open_policy_page access =
     start_load \<lparr>pp_settings = defaultSettings, pp_savedSnapshot = serializeSettings defaultSettings, pp_lastSavedAt = None,
       pp_newIp = [], pp_newIpNote = [], pp_isSaving = False, pp_isLoading = True, pp_access = access, pp_notices = [],
       pp_loads = False, pp_sent = None\<rparr>"

text \<open>The session's capabilities change: the effect runs again when the right to read does.\<close>

definition change_access :: "login_policy_action_access \<Rightarrow> policy_page \<Rightarrow> policy_page" where
  "change_access access st =
     (let st1 = st\<lparr>pp_access := access\<rparr>
      in if lp_canReadLoginPolicy access = lp_canReadLoginPolicy (pp_access st) then st1 else start_load st1)"

definition take_settings :: "json option \<Rightarrow> string option \<Rightarrow> policy_page \<Rightarrow> policy_page" where
  "take_settings raw savedAt st =
     (let normalized = normalizeSettings raw
      in st\<lparr>pp_settings := normalized, pp_savedSnapshot := serializeSettings normalized, pp_lastSavedAt := savedAt\<rparr>)"

definition finish_load :: "policy_answer \<Rightarrow> policy_page \<Rightarrow> policy_page" where
  "finish_load answer st =
     (let st1 = (case answer of
                   Inr (raw, updated_at) \<Rightarrow> take_settings raw updated_at st
                 | Inl e \<Rightarrow> say (Error_Notice e) st)
      in st1\<lparr>pp_isLoading := False, pp_loads := False\<rparr>)"

definition handleSave :: "policy_page \<Rightarrow> policy_page" where
  "handleSave st =
     (if \<not> lp_canUpdateLoginPolicy (pp_access st) then say (Warning zh_policy_save_denied) st
      else case validateSettings (pp_settings st) of
             Some validationMessage \<Rightarrow> say (Error_Notice validationMessage) st
           | None \<Rightarrow> st\<lparr>pp_isSaving := True, pp_sent := Some (pp_settings st)\<rparr>)"

definition finish_save :: "clock \<Rightarrow> policy_answer \<Rightarrow> policy_page \<Rightarrow> policy_page" where
  "finish_save c answer st =
     (let st1 = (case answer of
                   Inr (raw, updated_at) \<Rightarrow>
                     say (Success_Notice zh_policy_saved) (take_settings raw (Some (nullish updated_at (toISOString (now_ms c)))) st)
                 | Inl e \<Rightarrow> say (Error_Notice e) st)
      in st1\<lparr>pp_isSaving := False, pp_sent := None\<rparr>)"

definition handleReset :: "policy_page \<Rightarrow> policy_page" where
  "handleReset st = say (Info zh_policy_reset) (st\<lparr>pp_settings := defaultSettings, pp_newIp := [], pp_newIpNote := []\<rparr>)"

definition handleAddIp :: "policy_page \<Rightarrow> policy_page" where
  "handleAddIp st =
     (let ipValue = trim (pp_newIp st); noteValue = trim (pp_newIpNote st)
      in if ipValue = [] then say (Warning zh_enter_network) st
         else if \<not> isValidIpOrCidr ipValue then say (Error_Notice zh_network_bad) st
         else if list_ex (\<lambda>i. ip_text i = ipValue) (networks (pp_settings st)) then say (Warning zh_network_known) st
         else st\<lparr>pp_settings := with_networks (networks (pp_settings st) @ [\<lparr>ip_text = ipValue, ip_note = noteValue\<rparr>]) (pp_settings st),
                 pp_newIp := [], pp_newIpNote := []\<rparr>)"

definition handleRemoveIp :: "string \<Rightarrow> policy_page \<Rightarrow> policy_page" where
  "handleRemoveIp ip st =
     st\<lparr>pp_settings := with_networks (filter (\<lambda>i. ip_text i \<noteq> ip) (networks (pp_settings st))) (pp_settings st)\<rparr>"

definition handleUpdateIpNote :: "string \<Rightarrow> string \<Rightarrow> policy_page \<Rightarrow> policy_page" where
  "handleUpdateIpNote ip note st =
     st\<lparr>pp_settings := with_networks (map (\<lambda>i. if ip_text i = ip then i\<lparr>ip_note := note\<rparr> else i) (networks (pp_settings st)))
          (pp_settings st)\<rparr>"

text \<open>A control of the form: any member but the list of networks.\<close>

definition set_member :: "string \<Rightarrow> json \<Rightarrow> policy_page \<Rightarrow> policy_page" where
  "set_member k v st = st\<lparr>pp_settings := jm_set k v (pp_settings st)\<rparr>"

text \<open>The save button.\<close>

definition save_enabled :: "policy_page \<Rightarrow> bool" where
  "save_enabled st \<longleftrightarrow> isDirty st \<and> lp_canUpdateLoginPolicy (pp_access st) \<and> \<not> pp_isSaving st"

inductive policy_run :: "policy_page \<Rightarrow> bool" where
  page_opened: "policy_run (open_policy_page access)"
| access_changed: "policy_run st \<Longrightarrow> policy_run (change_access access st)"
| loaded: "policy_run st \<Longrightarrow> pp_loads st \<Longrightarrow> policy_run (finish_load answer st)"
| save_clicked: "policy_run st \<Longrightarrow> save_enabled st \<Longrightarrow> policy_run (handleSave st)"
| saved: "policy_run st \<Longrightarrow> pp_isSaving st \<Longrightarrow> policy_run (finish_save c answer st)"
| reset: "policy_run st \<Longrightarrow> policy_run (handleReset st)"
| network_typed: "policy_run st \<Longrightarrow> policy_run (st\<lparr>pp_newIp := ip, pp_newIpNote := note\<rparr>)"
| network_added: "policy_run st \<Longrightarrow> policy_run (handleAddIp st)"
| network_removed: "policy_run st \<Longrightarrow> policy_run (handleRemoveIp ip st)"
| note_changed: "policy_run st \<Longrightarrow> policy_run (handleUpdateIpNote ip note st)"
| control_changed: "policy_run st \<Longrightarrow> k \<noteq> ''ipWhitelist'' \<Longrightarrow> json_wf v \<Longrightarrow> policy_run (set_member k v st)"

section \<open>Addresses\<close>

lemma item_of_ip_json [simp]: "item_of (ip_json i) = i"
  by (cases i) (simp add: item_of_def ip_json_def json_field_def string_or_empty_def)

lemma networks_with [simp]: "networks (with_networks xs m) = xs"
  by (simp add: networks_def with_networks_def comp_def)

lemma digit_not_sep: "is_digit c \<Longrightarrow> c \<noteq> CHR ''.'' \<and> c \<noteq> CHR ''/''"
  by (auto simp: is_digit_def)

lemma isValidIpv4_join:
  "length ss = 4 \<Longrightarrow> list_all isValidIpv4Segment ss \<Longrightarrow> isValidIpv4 (join ''.'' ss)"
proof -
  assume ss: "length ss = 4" "list_all isValidIpv4Segment ss"
  then have "ss \<noteq> []" "\<forall>s \<in> set ss. CHR ''.'' \<notin> set s"
    using digit_not_sep by (auto simp: isValidIpv4Segment_def list_all_iff)
  then show "isValidIpv4 (join ''.'' ss)" using ss by (simp add: isValidIpv4_def Let_def split_on_join)
qed

lemma isValidIpv4_iff: "isValidIpv4 v \<longleftrightarrow> (\<exists>ss. length ss = 4 \<and> list_all isValidIpv4Segment ss \<and> v = join ''.'' ss)"
proof
  assume "isValidIpv4 v"
  then show "\<exists>ss. length ss = 4 \<and> list_all isValidIpv4Segment ss \<and> v = join ''.'' ss"
    by (intro exI [of _ "split_on ''.'' v"]) (simp add: isValidIpv4_def Let_def join_split_on)
qed (auto intro: isValidIpv4_join)

lemma no_slash_in_address: "isValidIpv4 v \<Longrightarrow> CHR ''/'' \<notin> set v"
proof -
  have no_sep: "list_all isValidIpv4Segment ss \<Longrightarrow> CHR ''/'' \<notin> set (join ''.'' ss)" for ss
    using digit_not_sep
    by (induction "''.''" ss rule: join.induct) (fastforce simp: isValidIpv4Segment_def list_all_iff)+
  then show "isValidIpv4 v \<Longrightarrow> CHR ''/'' \<notin> set v" by (auto simp: isValidIpv4_iff)
qed

text \<open>The usual form of an address, and of a network.\<close>

definition dotted :: "32 word \<Rightarrow> string" where
  "dotted w = join ''.'' (map (\<lambda>i. nat_to_string (unat (and (drop_bit i w) 255))) [24, 16, 8, 0])"

definition cidr_text :: "32 word \<Rightarrow> nat \<Rightarrow> string" where
  "cidr_text w n = dotted w @ ''/'' @ nat_to_string n"

lemma byte_le: "unat (and x 255 :: 32 word) \<le> 255"
proof -
  have "and x 255 \<le> (255 :: 32 word)" by (rule word_and_le1)
  then show ?thesis by (simp add: word_le_nat_alt)
qed

lemma dotted_valid: "isValidIpv4 (dotted w)"
  unfolding dotted_def
  by (rule isValidIpv4_join)
    (simp_all add: isValidIpv4Segment_def list_all_iff nat_to_string_digits byte_le)

lemma cidr_valid: "n \<le> 32 \<Longrightarrow> isValidCidr (cidr_text w n)"
proof -
  assume "n \<le> 32"
  moreover have "dotted w \<noteq> []" using dotted_valid [of w] by (auto simp: isValidIpv4_def Let_def split_on_single)
  moreover have "split_on ''/'' (cidr_text w n) = [dotted w, nat_to_string n]"
    using split_on_join [of "[dotted w, nat_to_string n]" "CHR ''/''"] no_slash_in_address [OF dotted_valid [of w]]
      nat_to_string_digits [of n] digit_not_sep
    by (auto simp: cidr_text_def)
  ultimately show ?thesis by (simp add: isValidCidr_def dotted_valid list_all_iff nat_to_string_digits)
qed

text \<open>A number of at most \<open>n\<close> in decimal digits, and the entries of the list as a grammar: an address of four such numbers,
  alone, or followed by a slash and the length of a prefix. After another slash anything may follow.\<close>

definition number_upto :: "nat \<Rightarrow> string \<Rightarrow> bool" where
  "number_upto n s \<longleftrightarrow> s \<noteq> [] \<and> list_all is_digit s \<and> digits_val 0 s \<le> n"

inductive is_address :: "string \<Rightarrow> bool" where
  four_numbers: "number_upto 255 a \<Longrightarrow> number_upto 255 b \<Longrightarrow> number_upto 255 c \<Longrightarrow> number_upto 255 d
    \<Longrightarrow> is_address (a @ ''.'' @ b @ ''.'' @ c @ ''.'' @ d)"

inductive is_network_entry :: "string \<Rightarrow> bool" where
  an_address: "is_address a \<Longrightarrow> is_network_entry a"
| a_network: "is_address a \<Longrightarrow> number_upto 32 bits \<Longrightarrow> is_network_entry (a @ ''/'' @ bits)"
| with_more: "is_address a \<Longrightarrow> number_upto 32 bits \<Longrightarrow> is_network_entry (a @ ''/'' @ bits @ ''/'' @ rest)"

lemma segment_iff: "isValidIpv4Segment = number_upto 255"
  by (auto simp: fun_eq_iff isValidIpv4Segment_def number_upto_def)

lemma length_4: "length ss = 4 \<longleftrightarrow> (\<exists>a b c d. ss = [a, b, c, d])"
  by (auto simp: length_Suc_conv numeral_eq_Suc)

lemma address_iff: "isValidIpv4 v \<longleftrightarrow> is_address v"
proof
  assume "isValidIpv4 v"
  then obtain a b c d where "list_all (number_upto 255) [a, b, c, d]" "v = join ''.'' [a, b, c, d]"
    unfolding isValidIpv4_iff length_4 segment_iff by blast
  then show "is_address v" using four_numbers [of a b c d] by simp
next
  assume "is_address v"
  then obtain a b c d where "v = join ''.'' [a, b, c, d]" "list_all (number_upto 255) [a, b, c, d]"
    by cases simp
  then show "isValidIpv4 v" using isValidIpv4_join [of "[a, b, c, d]"] by (simp add: segment_iff)
qed

lemma cidr_iff:
  "isValidCidr v \<longleftrightarrow> (\<exists>a bits. is_address a \<and> number_upto 32 bits \<and> (v = a @ ''/'' @ bits \<or> (\<exists>rest. v = a @ ''/'' @ bits @ ''/'' @ rest)))"
proof
  assume "isValidCidr v"
  then obtain a bits more_parts where p: "split_on ''/'' v = a # bits # more_parts" "isValidIpv4 a" "number_upto 32 bits"
    by (auto simp: isValidCidr_def number_upto_def split: list.splits)
  have "join ''/'' (a # bits # more_parts) = v" using join_split_on [of "''/''" v] p(1) by simp
  then have "v = a @ ''/'' @ bits \<or> v = a @ ''/'' @ bits @ ''/'' @ join ''/'' more_parts"
    by (cases "more_parts = []") (simp_all add: join_Cons)
  then show "\<exists>a bits. is_address a \<and> number_upto 32 bits \<and> (v = a @ ''/'' @ bits \<or> (\<exists>rest. v = a @ ''/'' @ bits @ ''/'' @ rest))"
    using p by (auto simp: address_iff)
next
  have no_slash: "CHR ''/'' \<notin> set s" if "number_upto n s" for n s
    using that digit_not_sep by (auto simp: number_upto_def list_all_iff)
  assume "\<exists>a bits. is_address a \<and> number_upto 32 bits \<and> (v = a @ ''/'' @ bits \<or> (\<exists>rest. v = a @ ''/'' @ bits @ ''/'' @ rest))"
  then obtain a bits rest where v: "is_address a" "number_upto 32 bits" "v = a @ ''/'' @ bits \<or> v = a @ ''/'' @ bits @ ''/'' @ rest" by blast
  have a: "isValidIpv4 a" "CHR ''/'' \<notin> set a" using v(1) no_slash_in_address by (auto simp: address_iff [symmetric])
  from v(3) show "isValidCidr v"
  proof
    assume "v = a @ ''/'' @ bits"
    then have "split_on ''/'' v = [a, bits]"
      using split_on_join [of "[a, bits]" "CHR ''/''"] a(2) no_slash [OF v(2)] by auto
    then show ?thesis using a(1) v(2) by (auto simp: isValidCidr_def number_upto_def isValidIpv4_def Let_def split_on_single)
  next
    assume "v = a @ ''/'' @ bits @ ''/'' @ rest"
    then have "split_on ''/'' v = a # bits # split_on ''/'' rest"
      using split_on_single_append [OF a(2), of "bits @ ''/'' @ rest"] split_on_single_append [OF no_slash [OF v(2)], of rest] by simp
    then show ?thesis using a(1) v(2) by (auto simp: isValidCidr_def number_upto_def isValidIpv4_def Let_def split_on_single)
  qed
qed

text \<open>C11: The list of networks takes exactly the entries of a grammar: four numbers up to 255, in decimal digits (zeros in
  front do not matter), separated by dots, alone or followed by a slash and a number up to 32; what comes after a further
  slash is not looked at.\<close>

theorem network_entries_accepted: "isValidIpOrCidr v \<longleftrightarrow> is_network_entry v"
  unfolding isValidIpOrCidr_def address_iff cidr_iff is_network_entry.simps by blast

section \<open>What is sent\<close>

lemma say_sent [simp]: "pp_sent (say n st) = pp_sent st" "pp_isSaving (say n st) = pp_isSaving st"
  by (simp_all add: say_def)

lemma policy_run_sent:
  "policy_run st \<Longrightarrow> (\<forall>m. pp_sent st = Some m \<longrightarrow> validateSettings m = None) \<and> (pp_isSaving st \<longleftrightarrow> pp_sent st \<noteq> None)"
  by (induction rule: policy_run.induct)
    (auto simp: open_policy_page_def start_load_def change_access_def finish_load_def finish_save_def take_settings_def
      handleSave_def handleReset_def handleAddIp_def handleRemoveIp_def handleUpdateIpNote_def set_member_def Let_def
      split: sum.splits option.splits)

lemma validated:
  assumes "validateSettings m = None"
  shows "\<not> num_lt (num_of_json (jm_get m ''minLength'')) 8 \<and> 3 \<le> complexityEnabledCount m
    \<and> \<not> num_lt (num_of_json (jm_get m ''passwordExpiry'')) 0 \<and> \<not> num_gt (num_of_json (jm_get m ''passwordExpiry'')) 365
    \<and> (truthy (jm_get m ''ipWhitelistEnabled'') \<longrightarrow> networks m \<noteq> [])
    \<and> (\<forall>i \<in> set (networks m). isValidIpOrCidr (trim (ip_text i)))"
  using assms
  by (auto simp: validateSettings_def Let_def find_None_iff split: if_splits option.splits)

text \<open>No unsafe policy is sent: whatever was loaded, typed and clicked in any order, the settings a save sends ask for three
  rules at least and, where they are numbers, for eight characters at least and a life of at most a year, and do not lock
  everybody out: with the list of networks on it is not empty, and each of its entries is one the list takes. A length or a
  life that is loaded as something else than a number passes.\<close>

theorem sent_policy_is_safe:
  assumes "policy_run st" "pp_sent st = Some m"
  shows "\<not> num_lt (num_of_json (jm_get m ''minLength'')) 8 \<and> 3 \<le> complexityEnabledCount m
    \<and> \<not> num_lt (num_of_json (jm_get m ''passwordExpiry'')) 0 \<and> \<not> num_gt (num_of_json (jm_get m ''passwordExpiry'')) 365
    \<and> (truthy (jm_get m ''ipWhitelistEnabled'') \<longrightarrow> networks m \<noteq> [])
    \<and> (\<forall>i \<in> set (networks m). isValidIpOrCidr (trim (ip_text i)))"
  using policy_run_sent [OF assms(1)] assms(2) by (intro validated) simp

text \<open>Every address and every network can be allowed: typed in its usual form, around blanks or not, a 32-bit address or
  network with a prefix length is added as a new entry at the end, unless the list has it already, and the other
  settings stay.\<close>

theorem networks_can_be_added:
  assumes "text_of_it = dotted w \<or> (\<exists>n \<le> 32. text_of_it = cidr_text w n)" "trim (pp_newIp st) = text_of_it"
    and "\<forall>i \<in> set (networks (pp_settings st)). ip_text i \<noteq> text_of_it"
  shows "networks (pp_settings (handleAddIp st))
      = networks (pp_settings st) @ [\<lparr>ip_text = text_of_it, ip_note = trim (pp_newIpNote st)\<rparr>]
    \<and> (\<forall>k. k \<noteq> ''ipWhitelist'' \<longrightarrow> jm_get (pp_settings (handleAddIp st)) k = jm_get (pp_settings st) k)"
proof -
  have valid: "isValidIpOrCidr text_of_it" using assms(1) dotted_valid cidr_valid by (auto simp: isValidIpOrCidr_def)
  then have "text_of_it \<noteq> []" by (auto simp: isValidIpOrCidr_def isValidIpv4_def isValidCidr_def Let_def split_on_single)
  moreover have "\<not> list_ex (\<lambda>i. ip_text i = text_of_it) (networks (pp_settings st))" using assms(3) by (simp add: list_ex_iff)
  ultimately show ?thesis
    using valid assms(2) by (simp add: handleAddIp_def Let_def) (simp add: with_networks_def)
qed

text \<open>A session that may read and update the policy.\<close>

definition policy_admin :: login_policy_action_access where
  "policy_admin = \<lparr>lp_canReadLoginPolicy = True, lp_canUpdateLoginPolicy = True\<rparr>"

definition edited_policy :: policy_page where
  "edited_policy = handleAddIp ((open_policy_page policy_admin)\<lparr>pp_newIp := '' 172.16.0.0/12 '', pp_newIpNote := ''lab''\<rparr>)"

lemma edited_policy_run: "policy_run edited_policy"
  unfolding edited_policy_def by (intro network_added network_typed page_opened)

theorem sent_policy_is_safe_witness:
  "map ip_text (networks (the (pp_sent (handleSave edited_policy)))) = [''10.0.0.0/8'', ''192.168.1.10'', ''203.0.113.5'', ''172.16.0.0/12'']
   \<and> list_all (\<lambda>i. isValidIpOrCidr (trim (ip_text i))) (networks (the (pp_sent (handleSave edited_policy))))"
proof -
  have "save_enabled edited_policy" by code_simp
  then have run: "policy_run (handleSave edited_policy)" by (intro save_clicked edited_policy_run)
  have n: "map ip_text (networks (the (pp_sent (handleSave edited_policy)))) = [''10.0.0.0/8'', ''192.168.1.10'', ''203.0.113.5'', ''172.16.0.0/12'']"
    and "pp_sent (handleSave edited_policy) \<noteq> None" by code_simp+
  then obtain m where "pp_sent (handleSave edited_policy) = Some m" by blast
  then show ?thesis using sent_policy_is_safe [OF run] n by (simp add: list_all_iff)
qed

theorem networks_can_be_added_witness:
  "List.last (networks (pp_settings edited_policy)) = \<lparr>ip_text = cidr_text 0xAC100000 12, ip_note = ''lab''\<rparr>"
proof -
  let ?st = "(open_policy_page policy_admin)\<lparr>pp_newIp := '' 172.16.0.0/12 '', pp_newIpNote := ''lab''\<rparr>"
  have t: "cidr_text 0xAC100000 12 = ''172.16.0.0/12''" by code_simp
  have "trim (pp_newIp ?st) = ''172.16.0.0/12''" "trim (pp_newIpNote ?st) = ''lab''"
    "\<forall>i \<in> set (networks (pp_settings ?st)). ip_text i \<noteq> ''172.16.0.0/12''" by code_simp+
  moreover have "\<exists>n \<le> 32. ''172.16.0.0/12'' = cidr_text 0xAC100000 n" by (rule exI [of _ 12]) (simp add: t)
  ultimately show ?thesis
    using networks_can_be_added [of "''172.16.0.0/12''" "0xAC100000" ?st] by (simp add: t edited_policy_def)
qed

text \<open>A length that is no number is sent.\<close>

lemma unreadable_length_passes:
  "validateSettings (jm_set ''minLength'' (JStr ''short'') defaultSettings) = None"
  by code_simp

end
