(* ===== verification/User_Page.thy ===== *)
theory User_Page
  imports Page_Base Page_Access User_Api Js_Date Zh_Console
begin

text \<open>
  The user management page (\<open>pages/security/UserManagement.tsx\<close>) as a state machine: loading users and roles, the
  details of a user, creating and editing, changing the status of one user or of several. A request is answered at
  any later time, in any order; what it does then uses the values of the render its handler belongs to, which it
  carries. \<open>us_sent\<close> records every request that changes something, with the rights and the users it was sent for.

  An error is its message and, when it has one, its status. Values of a form are those that passed its rules.
\<close>

section \<open>Texts\<close>

record load_error =
  le_message :: string
  le_status :: "nat option"

definition toLoadError :: "load_error \<Rightarrow> string \<Rightarrow> load_error" where
  "toLoadError e fallbackMessage = e\<lparr>le_message := or_str (le_message e) fallbackMessage\<rparr>"

definition getUserDisplayName :: "user_data \<Rightarrow> string" where
  "getUserDisplayName u = or_str (user_display_name u) (user_username u)"

definition formatDateTime :: "(int \<Rightarrow> string) \<Rightarrow> (string \<Rightarrow> int option) \<Rightarrow> string option \<Rightarrow> string" where
  "formatDateTime locale_time host v =
     (let s = nullish v [] in if s = [] then ''-'' else case date_parse host s of None \<Rightarrow> s | Some t \<Rightarrow> locale_time t)"

definition getStatusLabel :: "string \<Rightarrow> string" where
  "getStatusLabel status = (if status = ''active'' then zh_enabled else zh_disabled)"

section \<open>The state\<close>

datatype user_status = Active | Disabled

fun status_name :: "user_status \<Rightarrow> string" where
  "status_name Active = ''active''"
| "status_name Disabled = ''disabled''"

text \<open>The requests that change something.\<close>

datatype user_request =
  Create_User create_user_payload
| Update_Profile string string string
| Activate_User string
| Disable_User string
| Remove_Role string string
| Assign_Role string string
| Set_Statuses "string list" user_status

text \<open>What follows when the requests of a handler have been answered.\<close>

datatype user_after = After_Create | After_Edit | After_Status user_status bool | After_Batch user_status nat

record user_work =
  uw_access :: user_management_action_access
  uw_targets :: "user_data list"
  uw_todo :: "user_request list"
  uw_reload :: fetch_users_params
  uw_after :: user_after

record sent_request =
  st_access :: user_management_action_access
  st_targets :: "user_data list"
  st_request :: user_request

text \<open>Work that waits for the lists it reloads, by their numbers; whether it is on several users.\<close>

type_synonym list_wait = "bool \<times> nat list"

record user_page =
  us_users :: "user_data list"
  us_roles :: "role_data list"
  us_total :: int
  us_page :: int
  us_pageSize :: int
  us_loading :: bool
  us_actionLoading :: bool
  us_batchActionLoading :: bool
  us_searchTerm :: string
  us_roleFilter :: "string option"
  us_statusFilter :: "string option"
  us_userLoadError :: "load_error option"
  us_roleLoadError :: "load_error option"
  us_lastUpdatedAt :: "int option"
  us_createOpen :: bool
  us_editOpen :: bool
  us_editingUser :: "user_data option"
  us_detailOpen :: bool
  us_detailUser :: "user_data option"
  us_detailLoading :: bool
  us_detailError :: "load_error option"
  us_selectedUsers :: "user_data list"
  us_access :: user_management_action_access
  us_self :: "string option"
  us_notices :: "notice list"
  us_next :: nat
  us_followed :: "fetch_users_params option"
  us_userLoads :: "(nat \<times> fetch_users_params) list"
  us_roleLoads :: "nat list"
  us_details :: "string list"
  us_work :: "user_work list"
  us_waits :: "list_wait list"
  us_sent :: "sent_request list"

definition us_say :: "notice \<Rightarrow> user_page \<Rightarrow> user_page" where
  "us_say n st = st\<lparr>us_notices := n # us_notices st\<rparr>"

definition list_params :: "user_page \<Rightarrow> fetch_users_params" where
  "list_params st =
     \<lparr>fu_page = Some (us_page st), fu_pageSize = Some (us_pageSize st), fu_query = Some (us_searchTerm st),
      fu_status = us_statusFilter st, fu_roleId = us_roleFilter st\<rparr>"

definition clearSelection :: "user_page \<Rightarrow> user_page" where
  "clearSelection st = st\<lparr>us_selectedUsers := []\<rparr>"

section \<open>Loading\<close>

text \<open>The answer to a list with the details of its users: a user whose details failed stays as listed.\<close>

definition mergeHydratedUsers :: "user_data list \<Rightarrow> user_data option list \<Rightarrow> user_data list" where
  "mergeHydratedUsers baseUsers details = map (\<lambda>(u, d). nullish d u) (zip baseUsers details)"

definition start_users :: "fetch_users_params \<Rightarrow> user_page \<Rightarrow> user_page" where
  "start_users params st =
     st\<lparr>us_loading := True, us_userLoads := us_userLoads st @ [(us_next st, params)], us_next := us_next st + 1\<rparr>"

definition start_roles :: "user_page \<Rightarrow> user_page" where
  "start_roles st = st\<lparr>us_roleLoads := us_roleLoads st @ [us_next st], us_next := us_next st + 1\<rparr>"

text \<open>A list has been loaded: work that waited for it alone ends.\<close>

definition settle_waits :: "nat \<Rightarrow> user_page \<Rightarrow> user_page" where
  "settle_waits n st =
     (let rest = map (\<lambda>(batch, ns). (batch, filter (\<lambda>m. m \<noteq> n) ns)) (us_waits st)
      in st\<lparr>us_waits := filter (\<lambda>(_, ns). ns \<noteq> []) rest,
            us_actionLoading := (us_actionLoading st \<and> (False, []) \<notin> set rest),
            us_batchActionLoading := (us_batchActionLoading st \<and> (True, []) \<notin> set rest)\<rparr>)"

type_synonym users_answer = "load_error + (user_data list \<times> user_data option list \<times> int)"

definition show_users :: "int \<Rightarrow> users_answer \<Rightarrow> user_page \<Rightarrow> user_page" where
  "show_users now answer st =
     (case answer of
        Inr (baseUsers, details, n) \<Rightarrow>
          st\<lparr>us_users := mergeHydratedUsers baseUsers details, us_total := n, us_userLoadError := None,
             us_lastUpdatedAt := Some now\<rparr>
      | Inl e \<Rightarrow> st\<lparr>us_users := [], us_total := 0, us_userLoadError := Some (toLoadError e zh_user_list_failed)\<rparr>)"

text \<open>The answer to the \<open>i\<close>-th list under way. Nothing tells an older answer from a newer one.\<close>

definition finish_users :: "int \<Rightarrow> nat \<Rightarrow> users_answer \<Rightarrow> user_page \<Rightarrow> user_page" where
  "finish_users now i answer st =
     settle_waits (fst (us_userLoads st ! i))
       ((show_users now answer (st\<lparr>us_userLoads := drop_at i (us_userLoads st)\<rparr>))\<lparr>us_loading := False\<rparr>)"

definition finish_roles :: "int \<Rightarrow> nat \<Rightarrow> load_error + role_data list \<Rightarrow> user_page \<Rightarrow> user_page" where
  "finish_roles now i answer st =
     settle_waits (us_roleLoads st ! i)
       (case answer of
          Inr rs \<Rightarrow> st\<lparr>us_roleLoads := drop_at i (us_roleLoads st), us_roles := rs, us_roleLoadError := None, us_lastUpdatedAt := Some now\<rparr>
        | Inl e \<Rightarrow> st\<lparr>us_roleLoads := drop_at i (us_roleLoads st), us_roles := [],
                      us_roleLoadError := Some (toLoadError e zh_role_list_failed)\<rparr>)"

text \<open>The effect on the page, its size and the filters.\<close>

definition follow_list :: "user_page \<Rightarrow> user_page" where
  "follow_list st =
     (if us_followed st = Some (list_params st) then st
      else start_users (list_params st) (st\<lparr>us_followed := Some (list_params st)\<rparr>))"

definition open_user_page :: "user_management_action_access \<Rightarrow> string option \<Rightarrow> user_page" where
  "open_user_page access self =
     start_roles (follow_list
       \<lparr>us_users = [], us_roles = [], us_total = 0, us_page = 1, us_pageSize = 10, us_loading = True, us_actionLoading = False,
        us_batchActionLoading = False, us_searchTerm = [], us_roleFilter = None, us_statusFilter = None,
        us_userLoadError = None, us_roleLoadError = None, us_lastUpdatedAt = None, us_createOpen = False,
        us_editOpen = False, us_editingUser = None, us_detailOpen = False, us_detailUser = None,
        us_detailLoading = False, us_detailError = None, us_selectedUsers = [], us_access = access, us_self = self,
        us_notices = [], us_next = 0, us_followed = None, us_userLoads = [], us_roleLoads = [], us_details = [],
        us_work = [], us_waits = [], us_sent = []\<rparr>)"

definition refreshPageData :: "user_page \<Rightarrow> user_page" where
  "refreshPageData st = start_roles (start_users (list_params st) (clearSelection st))"

definition handleResetFilters :: "user_page \<Rightarrow> user_page" where
  "handleResetFilters st =
     clearSelection (st\<lparr>us_searchTerm := [], us_roleFilter := None, us_statusFilter := None, us_page := 1\<rparr>)"

definition set_filters :: "string \<Rightarrow> string option \<Rightarrow> string option \<Rightarrow> user_page \<Rightarrow> user_page" where
  "set_filters term role status st =
     clearSelection (st\<lparr>us_searchTerm := term, us_roleFilter := role, us_statusFilter := status, us_page := 1\<rparr>)"

definition turn_page :: "int \<Rightarrow> int option \<Rightarrow> user_page \<Rightarrow> user_page" where
  "turn_page page sz st = (clearSelection st)\<lparr>us_page := page, us_pageSize := nullish sz 10\<rparr>"

section \<open>One user\<close>

definition openDetailDrawer :: "user_data \<Rightarrow> user_page \<Rightarrow> user_page" where
  "openDetailDrawer u st =
     st\<lparr>us_detailUser := Some u, us_detailError := None, us_detailOpen := True, us_detailLoading := True,
        us_details := us_details st @ [user_id u]\<rparr>"

definition finish_detail :: "nat \<Rightarrow> load_error + user_data \<Rightarrow> user_page \<Rightarrow> user_page" where
  "finish_detail i answer st =
     (let st1 = st\<lparr>us_details := drop_at i (us_details st), us_detailLoading := False\<rparr>
      in case answer of
           Inr d \<Rightarrow> st1\<lparr>us_detailUser := Some d,
                        us_users := map (\<lambda>u. if user_id u = user_id d then d else u) (us_users st)\<rparr>
         | Inl e \<Rightarrow> st1\<lparr>us_detailError := Some (toLoadError e zh_load_user_failed)\<rparr>)"

definition closeDetailDrawer :: "user_page \<Rightarrow> user_page" where
  "closeDetailDrawer st = st\<lparr>us_detailOpen := False, us_detailError := None\<rparr>"

definition openCreateModal :: "user_page \<Rightarrow> user_page" where
  "openCreateModal st =
     (if \<not> um_canCreateUser (us_access st) then us_say (Warning zh_create_denied) st else st\<lparr>us_createOpen := True\<rparr>)"

text \<open>Copying a text; the clipboard may refuse it.\<close>

definition handleCopyText :: "bool \<Rightarrow> string \<Rightarrow> user_page \<Rightarrow> user_page" where
  "handleCopyText refused successMessage st =
     us_say (if refused then Error_Notice zh_copy_failed else Success_Notice successMessage) st"

definition cancel_create :: "user_page \<Rightarrow> user_page" where
  "cancel_create st = st\<lparr>us_createOpen := False\<rparr>"

definition cancel_edit :: "user_page \<Rightarrow> user_page" where
  "cancel_edit st = st\<lparr>us_editOpen := False, us_editingUser := None\<rparr>"

definition openEditModal :: "user_data \<Rightarrow> user_page \<Rightarrow> user_page" where
  "openEditModal u st =
     (if isProtectedUser (Some u) then us_say (Warning zh_edit_reserved) st
      else if \<not> canOpenUserEditModal (us_access st) then us_say (Warning zh_edit_denied) st
      else st\<lparr>us_editingUser := Some u, us_editOpen := True\<rparr>)"

section \<open>Changes\<close>

text \<open>The first request of the work is sent.\<close>

definition send_first :: "user_work \<Rightarrow> user_page \<Rightarrow> user_page" where
  "send_first w st =
     (case uw_todo w of
        [] \<Rightarrow> st
      | r # _ \<Rightarrow> st\<lparr>us_work := us_work st @ [w],
                    us_sent := \<lparr>st_access = uw_access w, st_targets = uw_targets w, st_request = r\<rparr> # us_sent st\<rparr>)"

definition work_of :: "user_page \<Rightarrow> user_data list \<Rightarrow> user_request list \<Rightarrow> user_after \<Rightarrow> user_work" where
  "work_of st targets todo after =
     \<lparr>uw_access = us_access st, uw_targets = targets, uw_todo = todo, uw_reload = list_params st, uw_after = after\<rparr>"

record user_form_values =
  uv_username :: string
  uv_password :: string
  uv_email :: string
  uv_display_name :: "string option"
  uv_role_id :: "string option"

definition handleCreateUser :: "user_form_values \<Rightarrow> user_page \<Rightarrow> user_page" where
  "handleCreateUser values st =
     (if \<not> um_canCreateUser (us_access st) then us_say (Warning zh_create_denied) st
      else send_first
        (work_of st []
          [Create_User \<lparr>cu_username = uv_username values, cu_password = uv_password values, cu_email = uv_email values,
             cu_display_name = Some (or_str (nullish (uv_display_name values) []) (uv_username values)),
             cu_role_id = (if canAssignRoleOnCreate (us_access st) then uv_role_id values else None)\<rparr>] After_Create)
        (st\<lparr>us_actionLoading := True\<rparr>))"

definition primary_role :: "user_data \<Rightarrow> string option" where
  "primary_role u = (case nullish (user_roles u) [] of [] \<Rightarrow> None | r # _ \<Rightarrow> Some (role_id r))"

text \<open>The requests an edit needs.\<close>

definition edit_requests :: "user_management_action_access \<Rightarrow> user_data \<Rightarrow> user_form_values \<Rightarrow> user_request list" where
  "edit_requests access u values =
     (let current = primary_role u; target = uv_role_id values;
          nextDisplayName = or_str (nullish (uv_display_name values) []) (user_username u);
          profileChanged = (um_canUpdateUserProfile access
            \<and> (nextDisplayName \<noteq> getUserDisplayName u \<or> uv_email values \<noteq> user_email u));
          roleChanged = (canApplyPrimaryRoleChange access current target \<and> target \<noteq> current)
      in (if profileChanged then [Update_Profile (user_id u) nextDisplayName (uv_email values)] else [])
         @ (if roleChanged
            then (if present current then [Remove_Role (user_id u) (nullish current [])] else [])
              @ (if present target then [Assign_Role (user_id u) (nullish target [])] else [])
            else []))"

text \<open>When no request is left although the role changed (from none to an empty one), the edit succeeds at once.\<close>

definition edit_is_empty :: "user_management_action_access \<Rightarrow> user_data \<Rightarrow> user_form_values \<Rightarrow> bool" where
  "edit_is_empty access u values \<longleftrightarrow> edit_requests access u values = [] \<and> uv_role_id values = primary_role u"

definition reload_after :: "fetch_users_params \<Rightarrow> bool \<Rightarrow> bool \<Rightarrow> user_page \<Rightarrow> user_page" where
  "reload_after params batch withRoles st =
     (let st1 = start_users params st; st2 = (if withRoles then start_roles st1 else st1)
      in st2\<lparr>us_waits := us_waits st @ [(batch, us_next st # (if withRoles then [us_next st1] else []))]\<rparr>)"

definition edited :: "fetch_users_params \<Rightarrow> user_page \<Rightarrow> user_page" where
  "edited params st =
     reload_after params False False
       (us_say (Success_Notice zh_user_updated) (st\<lparr>us_editOpen := False, us_editingUser := None\<rparr>))"

definition handleEditUser :: "user_form_values \<Rightarrow> user_page \<Rightarrow> user_page" where
  "handleEditUser values st =
     (case us_editingUser st of
        None \<Rightarrow> st
      | Some u \<Rightarrow>
          if isProtectedUser (Some u) then us_say (Warning zh_edit_reserved_here) st
          else if \<not> canOpenUserEditModal (us_access st) then us_say (Warning zh_edit_denied) st
          else (case getPrimaryRoleChangeDeniedReason (us_access st) (primary_role u) (uv_role_id values) of
                  Some reason \<Rightarrow> us_say (Warning reason) st
                | None \<Rightarrow>
                    (let todo = edit_requests (us_access st) u values
                     in if edit_is_empty (us_access st) u values then us_say (Info zh_nothing_changed) st
                        else if todo = [] then edited (list_params st) (st\<lparr>us_actionLoading := True\<rparr>)
                        else send_first (work_of st [u] todo After_Edit) (st\<lparr>us_actionLoading := True\<rparr>))))"

definition updateSingleUserStatus :: "user_data \<Rightarrow> user_status \<Rightarrow> user_page \<Rightarrow> user_page" where
  "updateSingleUserStatus u nextStatus st =
     (if isProtectedUser (Some u) then us_say (Warning zh_status_reserved) st
      else if \<not> um_canUpdateUserStatus (us_access st) then us_say (Warning zh_status_denied) st
      else send_first
        (work_of st [u] [if nextStatus = Disabled then Disable_User (user_id u) else Activate_User (user_id u)]
          (After_Status nextStatus (map_option user_id (us_detailUser st) = Some (user_id u))))
        (st\<lparr>us_actionLoading := True\<rparr>))"

definition handleBatchStatusChange :: "user_status \<Rightarrow> user_page \<Rightarrow> user_page" where
  "handleBatchStatusChange nextStatus st =
     (let skipped = filter (\<lambda>u. isProtectedUser (Some u)) (us_selectedUsers st);
          candidates = filter (\<lambda>u. \<not> isProtectedUser (Some u) \<and> user_status u \<noteq> status_name nextStatus) (us_selectedUsers st)
      in if \<not> um_canUpdateUserStatus (us_access st) then us_say (Warning zh_batch_denied) st
         else if candidates = []
         then us_say (if skipped \<noteq> [] then Warning zh_batch_reserved
                      else Info (if nextStatus = Active then zh_all_enabled else zh_all_disabled)) st
         else send_first
           (work_of st candidates [Set_Statuses (map user_id candidates) nextStatus] (After_Batch nextStatus (length skipped)))
           (st\<lparr>us_batchActionLoading := True\<rparr>))"

definition batch_notice :: "user_status \<Rightarrow> nat \<Rightarrow> batch_status \<Rightarrow> notice" where
  "batch_notice nextStatus skipped r =
     (if batch_updated r < batch_requested r
      then Warning (zh_batch_partly @ int_to_string (batch_requested r) @ zh_batch_partly2 @ int_to_string (batch_updated r) @ zh_batch_count)
      else if 0 < skipped
      then Warning (zh_batch_done @ int_to_string (batch_updated r) @ zh_batch_done2 @ nat_to_string skipped @ zh_batch_done3)
      else Success_Notice ((if nextStatus = Active then zh_batch_enabled else zh_batch_disabled)
             @ int_to_string (batch_updated r) @ zh_batch_users))"

definition fallback_message :: "user_after \<Rightarrow> string" where
  "fallback_message after =
     (case after of After_Create \<Rightarrow> zh_user_create_failed | After_Edit \<Rightarrow> zh_user_update_failed
      | After_Status _ _ \<Rightarrow> zh_action_failed | After_Batch _ _ \<Rightarrow> zh_batch_failed)"

definition is_batch :: "user_after \<Rightarrow> bool" where
  "is_batch after = (case after of After_Batch _ _ \<Rightarrow> True | _ \<Rightarrow> False)"

definition complete :: "user_work \<Rightarrow> batch_status \<Rightarrow> user_page \<Rightarrow> user_page" where
  "complete w r st =
     (case uw_after w of
        After_Create \<Rightarrow>
          reload_after ((uw_reload w)\<lparr>fu_page := Some 1\<rparr>) False True
            (clearSelection ((us_say (Success_Notice zh_user_created) (st\<lparr>us_createOpen := False\<rparr>))\<lparr>us_page := 1\<rparr>))
      | After_Edit \<Rightarrow> edited (uw_reload w) st
      | After_Status nextStatus shown \<Rightarrow>
          reload_after (uw_reload w) False False
            (us_say (Success_Notice (if nextStatus = Active then zh_user_enabled else zh_user_disabled))
              (if shown then st\<lparr>us_detailUser := map_option (\<lambda>d. d\<lparr>user_status := status_name nextStatus\<rparr>) (us_detailUser st)\<rparr>
               else st))
      | After_Batch nextStatus skipped \<Rightarrow>
          reload_after (uw_reload w) True False (clearSelection (us_say (batch_notice nextStatus skipped r) st)))"

text \<open>The answer to the request the \<open>i\<close>-th work waits for; \<open>r\<close> matters for several users only.\<close>

definition finish_work :: "nat \<Rightarrow> load_error + batch_status \<Rightarrow> user_page \<Rightarrow> user_page" where
  "finish_work i answer st =
     (let w = us_work st ! i; st1 = st\<lparr>us_work := drop_at i (us_work st)\<rparr>
      in case answer of
           Inl e \<Rightarrow>
             (let st2 = us_say (Error_Notice (or_str (le_message e) (fallback_message (uw_after w)))) st1
              in if is_batch (uw_after w) then st2\<lparr>us_batchActionLoading := False\<rparr> else st2\<lparr>us_actionLoading := False\<rparr>)
         | Inr r \<Rightarrow>
             if tl (uw_todo w) \<noteq> [] then send_first (w\<lparr>uw_todo := tl (uw_todo w)\<rparr>) st1 else complete w r st1)"

section \<open>Rows and summaries\<close>

definition row_selectable :: "user_page \<Rightarrow> user_data \<Rightarrow> bool" where
  "row_selectable st u \<longleftrightarrow>
     um_canUpdateUserStatus (us_access st) \<and> Some (user_id u) \<noteq> us_self st \<and> \<not> isProtectedUser (Some u)"

definition edit_enabled :: "user_page \<Rightarrow> user_data \<Rightarrow> bool" where
  "edit_enabled st u \<longleftrightarrow> \<not> isProtectedUser (Some u) \<and> canOpenUserEditModal (us_access st) \<and> \<not> us_actionLoading st"

definition toggle_enabled :: "user_page \<Rightarrow> user_data \<Rightarrow> bool" where
  "toggle_enabled st u \<longleftrightarrow>
     Some (user_id u) \<noteq> us_self st \<and> \<not> isProtectedUser (Some u) \<and> um_canUpdateUserStatus (us_access st) \<and> \<not> us_actionLoading st"

definition canBatchDisable :: "user_page \<Rightarrow> bool" where
  "canBatchDisable st \<longleftrightarrow>
     um_canUpdateUserStatus (us_access st) \<and> list_ex (\<lambda>u. user_status u = ''active'') (us_selectedUsers st)"

definition canBatchEnable :: "user_page \<Rightarrow> bool" where
  "canBatchEnable st \<longleftrightarrow>
     um_canUpdateUserStatus (us_access st) \<and> list_ex (\<lambda>u. user_status u = ''disabled'') (us_selectedUsers st)"

definition filtersActive :: "user_page \<Rightarrow> bool" where
  "filtersActive st \<longleftrightarrow>
     trim (us_searchTerm st) \<noteq> [] \<or> nullish (us_roleFilter st) [] \<noteq> [] \<or> nullish (us_statusFilter st) [] \<noteq> []"

definition currentPageSummary :: "user_page \<Rightarrow> string" where
  "currentPageSummary st =
     (if filtersActive st
      then zh_page_filtered @ nat_to_string (length (us_users st)) @ zh_page_filtered2 @ int_to_string (us_total st) @ zh_rows_unit
      else zh_page_loaded @ nat_to_string (length (us_users st)) @ zh_page_loaded2 @ int_to_string (us_total st) @ zh_rows_unit)"

section \<open>Runs\<close>

inductive user_run :: "user_page \<Rightarrow> bool" where
  opens: "user_run (open_user_page access self)"
| rights_change: "user_run st \<Longrightarrow> user_run (st\<lparr>us_access := access\<rparr>)"
| list_follows: "user_run st \<Longrightarrow> user_run (follow_list st)"
| users_answered: "user_run st \<Longrightarrow> i < length (us_userLoads st) \<Longrightarrow> user_run (finish_users now i answer st)"
| roles_answered: "user_run st \<Longrightarrow> i < length (us_roleLoads st) \<Longrightarrow> user_run (finish_roles now i rs st)"
| refresh: "user_run st \<Longrightarrow> user_run (refreshPageData st)"
| filters_set: "user_run st \<Longrightarrow> user_run (set_filters term role status st)"
| filters_reset: "user_run st \<Longrightarrow> user_run (handleResetFilters st)"
| page_turned: "user_run st \<Longrightarrow> user_run (turn_page n sz st)"
| rows_selected: "user_run st \<Longrightarrow> list_all (row_selectable st) rows \<Longrightarrow> user_run (st\<lparr>us_selectedUsers := rows\<rparr>)"
| selection_cleared: "user_run st \<Longrightarrow> user_run (clearSelection st)"
| text_copied: "user_run st \<Longrightarrow> user_run (handleCopyText refused successMessage st)"
| roles_retried: "user_run st \<Longrightarrow> user_run (start_roles st)"
| create_cancelled: "user_run st \<Longrightarrow> user_run (cancel_create st)"
| edit_cancelled: "user_run st \<Longrightarrow> user_run (cancel_edit st)"
| detail_opened: "user_run st \<Longrightarrow> user_run (openDetailDrawer u st)"
| detail_answered: "user_run st \<Longrightarrow> i < length (us_details st) \<Longrightarrow> user_run (finish_detail i d st)"
| detail_closed: "user_run st \<Longrightarrow> user_run (closeDetailDrawer st)"
| create_opened: "user_run st \<Longrightarrow> user_run (openCreateModal st)"
| edit_opened: "user_run st \<Longrightarrow> user_run (openEditModal u st)"
| created: "user_run st \<Longrightarrow> user_run (handleCreateUser values st)"
| edited: "user_run st \<Longrightarrow> user_run (handleEditUser values st)"
| status_changed: "user_run st \<Longrightarrow> user_run (updateSingleUserStatus u status' st)"
| batch_changed: "user_run st \<Longrightarrow> user_run (handleBatchStatusChange status' st)"
| work_answered: "user_run st \<Longrightarrow> i < length (us_work st) \<Longrightarrow> user_run (finish_work i r st)"

section \<open>What is sent\<close>

text \<open>A request that the rights allow, for the users it is meant for.\<close>

fun permitted :: "user_management_action_access \<Rightarrow> user_data list \<Rightarrow> user_request \<Rightarrow> bool" where
  "permitted a us (Create_User p) \<longleftrightarrow> um_canCreateUser a \<and> (cu_role_id p \<noteq> None \<longrightarrow> um_canGrantUserRole a) \<and> us = []"
| "permitted a us (Update_Profile uid _ _) \<longleftrightarrow> um_canUpdateUserProfile a \<and> map user_id us = [uid]"
| "permitted a us (Activate_User uid) \<longleftrightarrow> um_canUpdateUserStatus a \<and> map user_id us = [uid]"
| "permitted a us (Disable_User uid) \<longleftrightarrow> um_canUpdateUserStatus a \<and> map user_id us = [uid]"
| "permitted a us (Remove_Role uid r) \<longleftrightarrow> um_canRevokeUserRole a \<and> map user_id us = [uid] \<and> map primary_role us = [Some r]"
| "permitted a us (Assign_Role uid r) \<longleftrightarrow> um_canGrantUserRole a \<and> map user_id us = [uid]"
| "permitted a us (Set_Statuses uids _) \<longleftrightarrow> um_canUpdateUserStatus a \<and> map user_id us = uids \<and> us \<noteq> []"

definition unprotected :: "user_data list \<Rightarrow> bool" where
  "unprotected us \<longleftrightarrow> list_all (\<lambda>u. \<not> isProtectedUser (Some u)) us"

definition sent_ok :: "sent_request \<Rightarrow> bool" where
  "sent_ok s \<longleftrightarrow> unprotected (st_targets s) \<and> permitted (st_access s) (st_targets s) (st_request s)"

definition work_ok :: "user_work \<Rightarrow> bool" where
  "work_ok w \<longleftrightarrow> unprotected (uw_targets w) \<and> list_all (permitted (uw_access w) (uw_targets w)) (uw_todo w)"

definition changes_ok :: "user_page \<Rightarrow> bool" where
  "changes_ok st \<longleftrightarrow> list_all sent_ok (us_sent st) \<and> list_all work_ok (us_work st)"

lemma changes_ok_cong:
  "changes_ok st \<Longrightarrow> us_sent st' = us_sent st \<Longrightarrow> us_work st' = us_work st \<Longrightarrow> changes_ok st'"
  by (simp add: changes_ok_def)

lemma present_iff: "present r \<longleftrightarrow> (\<exists>x. r = Some x \<and> x \<noteq> [])"
  by (cases r) (simp_all add: present_def nullish_def)

lemma role_change_rights:
  assumes "canApplyPrimaryRoleChange a current target" "target \<noteq> current"
  shows "present current \<Longrightarrow> um_canRevokeUserRole a" "present target \<Longrightarrow> um_canGrantUserRole a"
  using assms by (auto simp: canApplyPrimaryRoleChange_def present_iff nullish_def split: if_splits option.splits)

lemma edit_requests_permitted:
  "r \<in> set (edit_requests access u values) \<Longrightarrow> permitted access [u] r"
  using role_change_rights [of access "primary_role u" "uv_role_id values"]
  by (auto simp: edit_requests_def Let_def present_iff nullish_def split: if_splits)

lemma send_first_ok: "work_ok w \<Longrightarrow> changes_ok st \<Longrightarrow> changes_ok (send_first w st)"
  by (auto simp: send_first_def work_ok_def changes_ok_def sent_ok_def split: list.splits)

lemma changes_ok_unchanged [simp]:
  "changes_ok (us_say n st) = changes_ok st"
  "changes_ok (start_users params st) = changes_ok st"
  "changes_ok (start_roles st) = changes_ok st"
  "changes_ok (clearSelection st) = changes_ok st"
  "changes_ok (reload_after params b r st) = changes_ok st"
  "changes_ok (settle_waits k st) = changes_ok st"
  "changes_ok (follow_list st) = changes_ok st"
  "changes_ok (st\<lparr>us_actionLoading := b\<rparr>) = changes_ok st"
  "changes_ok (st\<lparr>us_batchActionLoading := b\<rparr>) = changes_ok st"
  "changes_ok (edited params st) = changes_ok st"
  by (simp_all add: changes_ok_def us_say_def start_users_def start_roles_def clearSelection_def reload_after_def
      settle_waits_def follow_list_def edited_def Let_def)

lemma complete_ok [simp]: "changes_ok (complete w r st) = changes_ok st"
  by (simp add: complete_def changes_ok_def us_say_def start_users_def start_roles_def clearSelection_def reload_after_def
      edited_def Let_def split: user_after.splits)

lemma drop_at_ok: "changes_ok st \<Longrightarrow> changes_ok (st\<lparr>us_work := drop_at i (us_work st)\<rparr>)"
  by (auto simp: changes_ok_def drop_at_def list_all_iff dest: in_set_takeD in_set_dropD)

lemma finish_work_ok:
  assumes "changes_ok st" "i < length (us_work st)"
  shows "changes_ok (finish_work i r st)"
proof -
  have "work_ok (us_work st ! i)" using assms by (simp add: changes_ok_def list_all_length)
  then have "work_ok ((us_work st ! i)\<lparr>uw_todo := tl (uw_todo (us_work st ! i))\<rparr>)"
    by (cases "uw_todo (us_work st ! i)") (simp_all add: work_ok_def)
  then show ?thesis
    using drop_at_ok [OF assms(1)] by (auto simp: finish_work_def Let_def send_first_ok split: sum.splits)
qed

lemmas change_handlers = handleCreateUser_def handleEditUser_def updateSingleUserStatus_def handleBatchStatusChange_def

lemma handlers_ok:
  assumes "changes_ok st"
  shows "changes_ok (handleCreateUser values st)" "changes_ok (handleEditUser values st)"
    "changes_ok (updateSingleUserStatus u s st)" "changes_ok (handleBatchStatusChange s st)"
  using assms
  by (auto simp: change_handlers Let_def work_ok_def work_of_def unprotected_def canAssignRoleOnCreate_def
      list_all_iff intro!: send_first_ok edit_requests_permitted split: option.splits)

lemma user_run_ok: "user_run st \<Longrightarrow> changes_ok st"
proof (induction rule: user_run.induct)
  case (opens access self)
  show ?case by (simp add: open_user_page_def) (simp add: changes_ok_def)
next
  case (work_answered st i r)
  then show ?case by (intro finish_work_ok)
qed (auto simp: handlers_ok finish_users_def finish_roles_def show_users_def refreshPageData_def set_filters_def handleResetFilters_def
    turn_page_def openDetailDrawer_def finish_detail_def closeDetailDrawer_def openCreateModal_def openEditModal_def clearSelection_def
    cancel_create_def cancel_edit_def start_roles_def start_users_def handleCopyText_def
    Let_def split: sum.splits elim!: changes_ok_cong)

text \<open>C5: Only permitted changes leave the page: whatever is loaded, selected, typed and clicked, and in whatever order the
  answers come, every request that changes something was permitted by the rights the page had at the click, is for the
  very users it was clicked for, and none of them is a protected account; a new user gets a role only from a
  session that may grant roles, and a role is taken away only from the user who has it.\<close>

theorem user_changes_permitted:
  assumes "user_run st" "s \<in> set (us_sent st)"
  shows "permitted (st_access s) (st_targets s) (st_request s)
    \<and> (\<forall>u \<in> set (st_targets s). \<not> isProtectedUser (Some u))"
  using user_run_ok [OF assms(1)] assms(2) by (auto simp: changes_ok_def list_all_iff sent_ok_def unprotected_def)

section \<open>Witnesses\<close>

text \<open>A root session that may do everything, and a user to edit.\<close>

definition user_admin :: user_management_action_access where
  "user_admin = \<lparr>um_canCreateUser = True, um_canUpdateUserProfile = True, um_canUpdateUserStatus = True,
     um_canGrantUserRole = True, um_canRevokeUserRole = True, um_canInviteUser = True, um_canImportUser = True,
     um_hasAnyWriteAccess = True, um_isReadOnly = False\<rparr>"

definition viewer_role :: role_data where
  "viewer_role = \<lparr>role_id = ''r1'', role_name = ''viewer'', role_description = [], role_permissions = []\<rparr>"

definition alice :: user_data where
  "alice = \<lparr>user_id = ''u1'', user_username = ''alice'', user_email = ''a@x'', user_display_name = [],
     user_status = ''active'', user_last_login_at = None, user_created_at = [], user_updated_at = [], user_roles = Some [viewer_role]\<rparr>"

definition alice_values :: user_form_values where
  "alice_values = \<lparr>uv_username = ''alice'', uv_password = [], uv_email = ''a@x'', uv_display_name = Some ''Alice'', uv_role_id = Some ''r2''\<rparr>"

text \<open>The user is renamed and gets another role: three requests, each sent when the one before it was answered.\<close>

definition answered :: "user_page \<Rightarrow> user_page" where
  "answered = finish_work 0 (Inr \<lparr>batch_requested = 0, batch_updated = 0, batch_status = []\<rparr>)"

definition alice_edited :: user_page where
  "alice_edited = answered (answered (handleEditUser alice_values (openEditModal alice (open_user_page user_admin None))))"

lemma alice_edited_run: "user_run alice_edited"
  unfolding alice_edited_def answered_def
  by (intro work_answered user_run.edited edit_opened opens) code_simp+

theorem user_changes_permitted_witness:
  "map st_request (us_sent alice_edited) = [Assign_Role ''u1'' ''r2'', Remove_Role ''u1'' ''r1'', Update_Profile ''u1'' ''Alice'' ''a@x'']
   \<and> list_all (\<lambda>s. permitted (st_access s) (st_targets s) (st_request s)) (us_sent alice_edited)"
proof
  show "map st_request (us_sent alice_edited) = [Assign_Role ''u1'' ''r2'', Remove_Role ''u1'' ''r1'', Update_Profile ''u1'' ''Alice'' ''a@x'']"
    by code_simp
  show "list_all (\<lambda>s. permitted (st_access s) (st_targets s) (st_request s)) (us_sent alice_edited)"
    using user_changes_permitted [OF alice_edited_run] by (simp add: list_all_iff)
qed

end
