(* ===== verification/Dashboard_View.thy ===== *)
theory Dashboard_View
  imports Page_Base Query_Derived Audit_Logs Search_Query Zh_Pages Zh_Console
begin

text \<open>
  What the dashboard shows (\<open>pages/Dashboard.tsx\<close>, the functions before the component): texts of numbers, times and
  states, the trend, the busiest sources, the last audit records and the figures at the top.

  Arguments: \<open>loc\<close>, the local rendering of a time in a style; \<open>lc\<close>, the sign of \<open>localeCompare\<close>. The members of the
  overview have the types the console declares for them; counts are numbers of the runtime.
\<close>

section \<open>Numbers\<close>

definition num_add :: "jsnum \<Rightarrow> jsnum \<Rightarrow> jsnum" where
  "num_add x y =
     (case (x, y) of
        (Fin a, Fin b) \<Rightarrow> Fin (a + b)
      | (NaN, _) \<Rightarrow> NaN | (_, NaN) \<Rightarrow> NaN
      | (PosInf, NegInf) \<Rightarrow> NaN | (NegInf, PosInf) \<Rightarrow> NaN
      | (PosInf, _) \<Rightarrow> PosInf | (_, PosInf) \<Rightarrow> PosInf | _ \<Rightarrow> NegInf)"

text \<open>\<open>x / y\<close> for a positive \<open>y\<close>.\<close>

definition num_div :: "jsnum \<Rightarrow> jsnum \<Rightarrow> jsnum" where
  "num_div x y =
     (case (x, y) of
        (Fin a, Fin b) \<Rightarrow> Fin (a / b) | (Fin _, PosInf) \<Rightarrow> Fin 0
      | (PosInf, Fin _) \<Rightarrow> PosInf | (NegInf, Fin _) \<Rightarrow> NegInf | _ \<Rightarrow> NaN)"

definition num_scale :: "rat \<Rightarrow> jsnum \<Rightarrow> jsnum" where
  "num_scale k x = (case x of Fin a \<Rightarrow> Fin (k * a) | _ \<Rightarrow> x)"

definition num_ge :: "jsnum \<Rightarrow> rat \<Rightarrow> bool" where
  "num_ge x b \<longleftrightarrow> (case x of Fin q \<Rightarrow> b \<le> q | PosInf \<Rightarrow> True | _ \<Rightarrow> False)"

text \<open>\<open>Math.max\<close> of numbers none of which is \<open>NaN\<close>.\<close>

definition num_max :: "jsnum \<Rightarrow> jsnum \<Rightarrow> jsnum" where
  "num_max x y =
     (case (x, y) of (Fin a, Fin b) \<Rightarrow> Fin (max a b) | (PosInf, _) \<Rightarrow> PosInf | (_, PosInf) \<Rightarrow> PosInf | (NegInf, _) \<Rightarrow> y | _ \<Rightarrow> x)"

definition num_fixed :: "nat \<Rightarrow> jsnum \<Rightarrow> string" where
  "num_fixed d x = (case x of Fin q \<Rightarrow> toFixed d q | _ \<Rightarrow> num_to_string x)"

definition formatHealthLatency :: "json option \<Rightarrow> string" where
  "formatHealthLatency latencyMs = (case latencyMs of Some (JNum q) \<Rightarrow> num_to_string (Fin q) @ '' ms'' | _ \<Rightarrow> zh_em_dash)"

definition formatCompactPercent :: "jsnum \<Rightarrow> string" where
  "formatCompactPercent v = (case v of Fin q \<Rightarrow> num_to_string (Fin (round_to 2 q)) @ ''%'' | _ \<Rightarrow> ''0%'')"

definition formatCompactCount :: "jsnum \<Rightarrow> string" where
  "formatCompactCount v =
     (if num_ge v 1000000 then num_fixed 1 (num_scale (1 / 1000000) v) @ ''M''
      else if num_ge v 1000 then num_fixed 1 (num_scale (1 / 1000) v) @ ''k''
      else num_to_string v)"

definition clampMetricPercent :: "jsnum \<Rightarrow> rat" where
  "clampMetricPercent v = (case v of Fin q \<Rightarrow> max 0 (min 100 q) | _ \<Rightarrow> 0)"

definition formatMetricPercent :: "jsnum \<Rightarrow> string" where
  "formatMetricPercent v = toFixed 1 (clampMetricPercent v) @ ''%''"

definition board_units :: "string list" where
  "board_units = [''B'', ''KB'', ''MB'', ''GB'', ''TB'']"

function next_unit :: "rat \<Rightarrow> nat \<Rightarrow> rat \<times> nat" where
  "next_unit v unitIndex =
     (if 1024 \<le> v \<and> unitIndex < length board_units - 1 then next_unit (v / 1024) (unitIndex + 1) else (v, unitIndex))"
  by pat_completeness auto
termination by (relation "measure (\<lambda>(_, unitIndex). length board_units - unitIndex)") auto

declare next_unit.simps [simp del]

definition board_formatBytes :: "jsnum \<Rightarrow> string" where
  "board_formatBytes v =
     (case v of
        Fin q \<Rightarrow>
          (if q \<le> 0 then ''0 B''
           else (case next_unit q 0 of
                   (nextValue, unitIndex) \<Rightarrow>
                     toFixed (if 100 \<le> nextValue \<or> unitIndex = 0 then 0 else if 10 \<le> nextValue then 1 else 2) nextValue
                     @ '' '' @ board_units ! unitIndex))
      | _ \<Rightarrow> ''0 B'')"

section \<open>States and times\<close>

datatype tag_color = Tag_Success | Tag_Error | Tag_Warning | Tag_Processing | Tag_Default

definition getHealthStatusTagColor :: "string \<Rightarrow> tag_color" where
  "getHealthStatusTagColor status =
     (if status = ''healthy'' then Tag_Success
      else if status \<in> {''degraded'', ''unhealthy'', ''unreachable''} then Tag_Error
      else if status = ''unknown'' then Tag_Default else Tag_Processing)"

definition getHealthStatusLabel :: "string \<Rightarrow> string" where
  "getHealthStatusLabel status =
     (if status = ''healthy'' then zh_health_ok else if status = ''degraded'' then zh_health_degraded
      else if status = ''unhealthy'' then zh_health_bad else if status = ''unreachable'' then zh_health_unreachable
      else if status = ''unknown'' then zh_unknown else or_str status zh_unknown)"

definition extractReconcilerState :: "json option \<Rightarrow> string option" where
  "extractReconcilerState details =
     (case details of
        Some (JStr d) \<Rightarrow>
          Option.bind (rx_match (Seq (rx_lit_i ''reconciler:'') (Grp 1 (rx_plus rx_nonspace))) d) (group 1)
      | _ \<Rightarrow> None)"

datatype time_style = Day_And_Month | Hour_And_Minute | Monitor_Style

definition formatOverviewRangeLabel :: "overview_range \<Rightarrow> string" where
  "formatOverviewRangeLabel r = (if r = Range7d then zh_last_7_days else zh_last_24_hours)"

definition toDisplayTrendTime :: "(time_style \<Rightarrow> int \<Rightarrow> string) \<Rightarrow> clock \<Rightarrow> string \<Rightarrow> overview_range \<Rightarrow> string" where
  "toDisplayTrendTime loc c v r =
     (case date_of c v of None \<Rightarrow> v | Some t \<Rightarrow> loc (if r = Range7d then Day_And_Month else Hour_And_Minute) t)"

definition formatTimeAgo :: "clock \<Rightarrow> string \<Rightarrow> string" where
  "formatTimeAgo c v =
     (case date_of c v of
        None \<Rightarrow> v
      | Some t \<Rightarrow>
          (let seconds = max 0 ((now_ms c - t) div 1000); minutes = seconds div 60; hours = minutes div 60
           in if seconds < 60 then int_to_string seconds @ zh_seconds_ago
              else if minutes < 60 then int_to_string minutes @ zh_minutes_ago
              else if hours < 24 then int_to_string hours @ zh_hours_ago
              else int_to_string (hours div 24) @ zh_days_ago))"

definition formatMonitorTimestamp :: "(time_style \<Rightarrow> int \<Rightarrow> string) \<Rightarrow> clock \<Rightarrow> json option \<Rightarrow> string" where
  "formatMonitorTimestamp loc c v =
     (let trimmed = (case v of Some (JStr s) \<Rightarrow> trim s | _ \<Rightarrow> [])
      in if trimmed = [] then zh_no_data_yet
         else case date_of c trimmed of None \<Rightarrow> trimmed | Some t \<Rightarrow> loc Monitor_Style t)"

section \<open>The overview\<close>

record overview_data =
  ov_total :: jsnum
  ov_levels :: "(string, jsnum) jsmap"
  ov_sources :: "top_source list"
  ov_alerts :: "jsnum \<times> jsnum \<times> jsnum"
  ov_trend :: "(string \<times> jsnum) list"

text \<open>The overview as the client hands it over: the members of what the service sent, or the one computed locally.\<close>

definition member_number :: "json option \<Rightarrow> string \<Rightarrow> jsnum" where
  "member_number v k = or_num (num_of_json (json_field v k)) (Fin 0)"

definition overview_data_of :: "overview_result \<Rightarrow> overview_data" where
  "overview_data_of r =
     (case r of
        ServedOverview s \<Rightarrow>
          \<lparr>ov_total = so_total s,
           ov_levels = (case so_levels s of JObj ms \<Rightarrow> map (\<lambda>(k, v). (k, num_of_json (Some v))) ms | _ \<Rightarrow> []),
           ov_sources = so_sources s,
           ov_alerts = (member_number (Some (so_alerts s)) ''total'', member_number (Some (so_alerts s)) ''firing'',
                        member_number (Some (so_alerts s)) ''resolved''),
           ov_trend = map (\<lambda>p. (string_or_empty (json_field (Some p) ''time''), num_of_json (json_field (Some p) ''count'')))
                        (array_items (Some (so_trend s)))\<rparr>
      | LocalOverview s \<Rightarrow>
          (case os_alerts s of
             (t, f, d) \<Rightarrow>
               \<lparr>ov_total = Fin (of_nat (os_total s)), ov_levels = map (\<lambda>(k, n). (k, Fin (of_nat n))) (os_levels s),
                ov_sources = os_sources s, ov_alerts = (Fin (of_nat t), Fin (of_nat f), Fin (of_nat d)),
                ov_trend = map (\<lambda>(k, n). (k, Fin (of_nat n))) (os_trend s)\<rparr>))"

definition buildTrendData ::
    "(time_style \<Rightarrow> int \<Rightarrow> string) \<Rightarrow> clock \<Rightarrow> overview_data option \<Rightarrow> overview_range \<Rightarrow> (string \<times> jsnum) list" where
  "buildTrendData loc c overview r =
     (case overview of
        None \<Rightarrow> []
      | Some o' \<Rightarrow> map (\<lambda>(t, n). (toDisplayTrendTime loc c t r, or_num n (Fin 0))) (ov_trend o'))"

definition normalizeIdentityValue :: "string option \<Rightarrow> string \<Rightarrow> string" where
  "normalizeIdentityValue v fallback =
     (let trimmed = trim (nullish v []) in if trimmed = [] \<or> toLowerCase trimmed = ''unknown'' then fallback else trimmed)"

definition formatTopSourceLabel :: "top_source option \<Rightarrow> string" where
  "formatTopSourceLabel topSource =
     (case topSource of
        None \<Rightarrow> zh_waiting_for_data
      | Some s \<Rightarrow>
          (let host = normalizeIdentityValue (Some (ts_host s)) []; service = normalizeIdentityValue (Some (ts_service s)) []
           in if host \<noteq> [] \<and> service \<noteq> [] then ''Top '' @ host @ zh_dot_sep @ service
              else if host \<noteq> [] then zh_top_host @ host
              else if service \<noteq> [] then zh_top_service @ service
              else if trim (ts_source s) \<noteq> [] then ''Top '' @ ts_source s else zh_waiting_for_data))"

datatype row_status = Critical_Row | Warning_Row | Healthy_Row

record source_row =
  sr_name :: string
  sr_source :: string
  sr_host :: string
  sr_service :: string
  sr_errorRate :: jsnum
  sr_status :: row_status

definition ratio_status :: "jsnum \<Rightarrow> row_status" where
  "ratio_status ratio =
     (if num_ge ratio (75 / 100) then Critical_Row else if num_ge ratio (35 / 100) then Warning_Row else Healthy_Row)"

definition source_count :: "top_source \<Rightarrow> jsnum" where
  "source_count s = or_num (ts_count s) (Fin 0)"

definition max_count :: "top_source list \<Rightarrow> jsnum" where
  "max_count sources = fold num_max (map source_count sources) (Fin 0)"

definition source_row_of :: "jsnum \<Rightarrow> top_source \<Rightarrow> source_row" where
  "source_row_of maxCount s =
     (let host = normalizeIdentityValue (Some (ts_host s)) zh_unknown_host;
          service = normalizeIdentityValue (Some (ts_service s)) zh_unknown_service
      in \<lparr>sr_name = host @ zh_dot_sep @ service, sr_source = or_str (ts_source s) (host @ '' / '' @ service), sr_host = host,
          sr_service = service, sr_errorRate = source_count s,
          sr_status = ratio_status (if num_gt maxCount 0 then num_div (source_count s) maxCount else Fin 0)\<rparr>)"

definition buildSourceRows :: "overview_data option \<Rightarrow> source_row list" where
  "buildSourceRows overview =
     (let sources = (case overview of None \<Rightarrow> [] | Some o' \<Rightarrow> ov_sources o')
      in map (source_row_of (max_count sources)) (take 5 sources))"

section \<open>The way to the search page\<close>

definition buildSourcePresetQuery :: "(string \<Rightarrow> string \<Rightarrow> int) \<Rightarrow> source_row \<Rightarrow> string" where
  "buildSourcePresetQuery lc row =
     (let host = normalizeIdentityValue (Some (sr_host row)) []; service = normalizeIdentityValue (Some (sr_service row)) []
      in or_str
           (buildRealtimePresetQuery lc []
              ((if host \<noteq> [] then [(''host'', JStr host)] else []) @ (if service \<noteq> [] then [(''service'', JStr service)] else [])))
           (sr_name row))"

definition buildRealtimeTimeRangeForOverviewRange :: "clock \<Rightarrow> overview_range \<Rightarrow> string \<times> string" where
  "buildRealtimeTimeRangeForOverviewRange c r =
     (toISOString (now_ms c - (if r = Range7d then 7 * 24 * 60 * 60 * 1000 else 24 * 60 * 60 * 1000)), toISOString (now_ms c))"

definition buildRealtimeTimeRangePresetQuery :: "string \<times> string \<Rightarrow> string" where
  "buildRealtimeTimeRangePresetQuery timeRange =
     (let f = trim (fst timeRange); t = trim (snd timeRange)
      in if f = [] \<and> t = [] then [] else ''time:['' @ f @ '', '' @ t @ '']'')"

section \<open>The audit records\<close>

datatype audit_type = Audit_Update | Audit_Create | Audit_Delete

record dashboard_audit =
  da_time :: string
  da_user :: string
  da_action :: string
  da_target :: string
  da_type :: audit_type

definition includes_any :: "string list \<Rightarrow> string \<Rightarrow> bool" where
  "includes_any ps s \<longleftrightarrow> list_ex (js_includes s) ps"

definition inferAuditType :: "string \<Rightarrow> audit_type" where
  "inferAuditType v =
     (let normalized = toLowerCase (trim v)
      in if includes_any [''create'', ''add'', ''insert'', ''invite'', ''grant'', ''assign'', ''enable'', ''bind''] normalized
         then Audit_Create
         else if includes_any [''delete'', ''remove'', ''drop'', ''revoke'', ''disable'', ''unbind''] normalized then Audit_Delete
         else Audit_Update)"

definition audit_operation_text :: "json \<Rightarrow> string" where
  "audit_operation_text item =
     (let action = json_field (Some item) ''action'';
          detailOperation = (case json_field (json_field (Some item) ''detail'') ''operation'' of Some (JStr s) \<Rightarrow> s | _ \<Rightarrow> [])
      in trim ((if truthy action then js_String (the action) else []) @ '' '' @ detailOperation))"

definition formatAuditActionText :: "json \<Rightarrow> string" where
  "formatAuditActionText item =
     (let normalized = toLowerCase (audit_operation_text item)
      in if includes_any [''create'', ''add'', ''insert'', ''invite''] normalized then zh_did_create
         else if includes_any [''delete'', ''remove'', ''drop''] normalized then zh_did_delete
         else if includes_any [''grant'', ''assign'', ''bind''] normalized then zh_did_grant
         else if includes_any [''revoke'', ''unbind''] normalized then zh_did_revoke
         else if includes_any [''login'', ''signin''] normalized then zh_did_sign_in
         else if includes_any [''logout'', ''signout''] normalized then zh_did_sign_out
         else if rx_test (Alt (rx_seq [rx_lit ''reset'', rx_star rx_dot, rx_lit ''password''])
                              (rx_seq [rx_lit ''password'', rx_star rx_dot, rx_lit ''reset''])) normalized then zh_did_reset
         else zh_did_update)"

definition formatAuditTarget :: "json \<Rightarrow> string" where
  "formatAuditTarget item =
     (let text_of_member = (\<lambda>k. case nullish_json (json_field (Some item) k) None of None \<Rightarrow> [] | Some v \<Rightarrow> trim (js_String v));
          parts = filter (\<lambda>t. t \<noteq> []) [text_of_member ''resource_type'', text_of_member ''resource_id'']
      in if parts \<noteq> [] then join zh_dot_sep parts else zh_system_object)"

definition mapAuditLogsForDashboard :: "clock \<Rightarrow> json list \<Rightarrow> dashboard_audit list" where
  "mapAuditLogsForDashboard c items =
     map (\<lambda>item.
       \<lparr>da_time = formatTimeAgo c (string_or_empty (json_field (Some item) ''created_at'')),
        da_user = or_str (trim (string_or_empty (json_field (Some item) ''user_id''))) zh_system,
        da_action = formatAuditActionText item, da_target = formatAuditTarget item,
        da_type = inferAuditType (audit_operation_text item)\<rparr>) (take 5 items)"

end
