(* ===== verification/Dashboard_Page.thy ===== *)
theory Dashboard_Page
  imports Dashboard_View Page_Access Stores
begin

text \<open>
  The dashboard (\<open>pages/Dashboard.tsx\<close>) as a state machine: its refreshes, of which one runs at a time, the two timers
  that drive them, the visibility of the tab, and the ways to other pages. A refresh asks four services at once and
  goes on when all have answered. The effects that follow a click run before anything else, as React runs them.

  \<open>bd_shown_for\<close> is no state of the code: it records for which period the overview on show was asked for.
\<close>

section \<open>The state\<close>

text \<open>A service's answer: what it sent, or the message of the error when the reason is an error.\<close>

type_synonym 'a answered = "string option + 'a"

record refresh_answers =
  an_overview :: "overview_data answered"
  an_metrics :: "json answered"
  an_health :: "json answered"
  an_audit :: "json list answered"

record running_refresh =
  rr_silent :: bool
  rr_range :: overview_range

record dashboard =
  bd_overview :: "overview_data option"
  bd_overviewRange :: overview_range
  bd_metricsOverview :: "json option"
  bd_platformHealth :: "json option"
  bd_platformHealthError :: "string option"
  bd_auditLogs :: "dashboard_audit list"
  bd_lastUpdated :: int
  bd_refreshInterval :: int
  bd_countdown :: int
  bd_isLoading :: bool
  bd_loadError :: "string option"
  bd_refreshTimer :: "(int \<times> overview_range) option"
  bd_countdownTimer :: "int option"
  bd_request :: "running_refresh option"
  bd_hidden :: bool
  bd_prefs :: preferences
  bd_notices :: "notice list"
  bd_shown_for :: "overview_range option"

section \<open>Refreshing\<close>

text \<open>A refresh under way is joined, whatever it was asked for.\<close>

definition doRefresh :: "bool \<Rightarrow> overview_range \<Rightarrow> dashboard \<Rightarrow> dashboard" where
  "doRefresh silent nextOverviewRange st =
     (case bd_request st of
        Some _ \<Rightarrow> st
      | None \<Rightarrow> st\<lparr>bd_isLoading := True, bd_request := Some \<lparr>rr_silent = silent, rr_range = nextOverviewRange\<rparr>\<rparr>)"

definition reason_text :: "string option \<Rightarrow> string" where
  "reason_text reason = nullish reason zh_load_failed_short"

definition refresh_errors :: "refresh_answers \<Rightarrow> string list" where
  "refresh_errors a =
     (case an_overview a of Inl e \<Rightarrow> [zh_overview_error @ reason_text e] | Inr _ \<Rightarrow> [])
     @ (case an_metrics a of Inl e \<Rightarrow> [zh_metrics_error @ reason_text e] | Inr _ \<Rightarrow> [])
     @ (case an_health a of Inl e \<Rightarrow> [zh_health_error @ reason_text e] | Inr _ \<Rightarrow> [])
     @ (case an_audit a of Inl e \<Rightarrow> [zh_audit_error @ reason_text e] | Inr _ \<Rightarrow> [])"

definition any_success :: "refresh_answers \<Rightarrow> bool" where
  "any_success a \<longleftrightarrow> \<not> (Sum_Type.isl (an_overview a) \<and> Sum_Type.isl (an_metrics a) \<and> Sum_Type.isl (an_health a) \<and> Sum_Type.isl (an_audit a))"

definition take_answers :: "clock \<Rightarrow> running_refresh \<Rightarrow> refresh_answers \<Rightarrow> dashboard \<Rightarrow> dashboard" where
  "take_answers c request a st =
     (let st1 = (case an_overview a of Inl _ \<Rightarrow> st | Inr v \<Rightarrow> st\<lparr>bd_overview := Some v, bd_shown_for := Some (rr_range request)\<rparr>);
          st2 = (case an_metrics a of Inl _ \<Rightarrow> st1 | Inr v \<Rightarrow> st1\<lparr>bd_metricsOverview := Some v\<rparr>);
          st3 = (case an_health a of
                   Inl e \<Rightarrow> st2\<lparr>bd_platformHealthError := Some (reason_text e)\<rparr>
                 | Inr v \<Rightarrow> st2\<lparr>bd_platformHealth := Some v, bd_platformHealthError := None\<rparr>)
      in case an_audit a of Inl _ \<Rightarrow> st3 | Inr items \<Rightarrow> st3\<lparr>bd_auditLogs := mapAuditLogsForDashboard c items\<rparr>)"

definition finish_refresh :: "clock \<Rightarrow> refresh_answers \<Rightarrow> dashboard \<Rightarrow> dashboard" where
  "finish_refresh c a st =
     (case bd_request st of
        None \<Rightarrow> st
      | Some request \<Rightarrow>
          (let st1 = take_answers c request a st; errors = refresh_errors a;
               nextLoadError = (if errors \<noteq> [] then Some (join zh_semicolon errors) else None);
               st2 = st1\<lparr>bd_lastUpdated := (if any_success a then now_ms c else bd_lastUpdated st1), bd_loadError := nextLoadError\<rparr>;
               st3 = (case nextLoadError of
                        Some e \<Rightarrow> (if rr_silent request then st2 else st2\<lparr>bd_notices := Error_Notice e # bd_notices st2\<rparr>)
                      | None \<Rightarrow> st2)
           in st3\<lparr>bd_request := None, bd_isLoading := False\<rparr>))"

section \<open>Timers and effects\<close>

definition clearRefreshTimers :: "dashboard \<Rightarrow> dashboard" where
  "clearRefreshTimers st = st\<lparr>bd_refreshTimer := None, bd_countdownTimer := None\<rparr>"

definition startRefreshTimers :: "dashboard \<Rightarrow> dashboard" where
  "startRefreshTimers st =
     (let st1 = clearRefreshTimers st
      in if bd_refreshInterval st \<le> 0 \<or> bd_hidden st then st1
         else st1\<lparr>bd_countdown := bd_refreshInterval st div 1000,
                  bd_refreshTimer := Some (bd_refreshInterval st, bd_overviewRange st),
                  bd_countdownTimer := Some (bd_refreshInterval st)\<rparr>)"

definition refresh_tick :: "dashboard \<Rightarrow> dashboard" where
  "refresh_tick st =
     (case bd_refreshTimer st of
        None \<Rightarrow> st
      | Some (every, r) \<Rightarrow> (doRefresh True r st)\<lparr>bd_countdown := every div 1000\<rparr>)"

definition countdown_tick :: "dashboard \<Rightarrow> dashboard" where
  "countdown_tick st =
     (case bd_countdownTimer st of
        None \<Rightarrow> st
      | Some every \<Rightarrow>
          st\<lparr>bd_countdown := (if 0 < bd_countdown st then bd_countdown st - 1 else every div 1000)\<rparr>)"

text \<open>The effect on the interval and the period, after a change of \<open>old\<close>.\<close>

definition follow_board :: "dashboard \<Rightarrow> dashboard \<Rightarrow> dashboard" where
  "follow_board old st =
     (if bd_refreshInterval old = bd_refreshInterval st \<and> bd_overviewRange old = bd_overviewRange st then st
      else startRefreshTimers st)"

definition open_dashboard :: "preferences \<Rightarrow> bool \<Rightarrow> clock \<Rightarrow> dashboard" where
  "open_dashboard prefs hidden c =
     (let stored = refreshInterval prefs
      in startRefreshTimers (doRefresh True Range24h
           \<lparr>bd_overview = None, bd_overviewRange = Range24h, bd_metricsOverview = None, bd_platformHealth = None,
            bd_platformHealthError = None, bd_auditLogs = [], bd_lastUpdated = now_ms c,
            bd_refreshInterval = (if 0 < stored then stored * 1000 else 0), bd_countdown = stored, bd_isLoading = False,
            bd_loadError = None, bd_refreshTimer = None, bd_countdownTimer = None, bd_request = None, bd_hidden = hidden,
            bd_prefs = prefs, bd_notices = [], bd_shown_for = None\<rparr>))"

definition handleRefresh :: "dashboard \<Rightarrow> dashboard" where
  "handleRefresh st =
     (let st1 = doRefresh False (bd_overviewRange st) st
      in if 0 < bd_refreshInterval st then st1\<lparr>bd_countdown := bd_refreshInterval st div 1000\<rparr> else st1)"

definition handleOverviewRangeChange :: "overview_range \<Rightarrow> dashboard \<Rightarrow> dashboard" where
  "handleOverviewRangeChange v st = follow_board st (doRefresh True v (st\<lparr>bd_overviewRange := v\<rparr>))"

definition handleIntervalChange :: "int \<Rightarrow> dashboard \<Rightarrow> dashboard" where
  "handleIntervalChange v st =
     follow_board st
       (st\<lparr>bd_refreshInterval := v, bd_prefs := setRefreshInterval (if v = 0 then 0 else v div 1000) (bd_prefs st),
           bd_countdown := (if 0 < v then v div 1000 else 0)\<rparr>)"

definition handleVisibility :: "bool \<Rightarrow> dashboard \<Rightarrow> dashboard" where
  "handleVisibility hidden st =
     (let st1 = st\<lparr>bd_hidden := hidden\<rparr>
      in if hidden then clearRefreshTimers st1
         else if 0 < bd_refreshInterval st then startRefreshTimers (doRefresh True (bd_overviewRange st) st1)
         else st1)"

definition REFRESH_INTERVAL_OPTIONS :: "int list" where
  "REFRESH_INTERVAL_OPTIONS = [1000, 3000, 5000, 10000, 30000, 60000, 300000, 0]"

text \<open>The remaining seconds are shown only for an interval of more than one second.\<close>

definition shown_countdown :: "dashboard \<Rightarrow> int option" where
  "shown_countdown st = (if 1000 < bd_refreshInterval st \<and> 0 < bd_countdown st then Some (bd_countdown st) else None)"

section \<open>Ways to other pages\<close>

definition pending_access :: dashboard_quick_action_access where
  "pending_access =
     (let g = deny zh_rights_loading
      in \<lparr>gate_realtimeSearch = g, gate_alertsList = g, gate_ingestSourceCreate = g, gate_alertRuleCreate = g,
          gate_storageIndexCreate = g, gate_reportGenerate = g, gate_auditLogs = g\<rparr>)"

definition dashboardEntryAccess :: "(string \<Rightarrow> string \<Rightarrow> bool) \<Rightarrow> bool \<Rightarrow> authz \<Rightarrow> dashboard_quick_action_access" where
  "dashboardEntryAccess mp ready auth =
     (if ready then resolveDashboardQuickActionAccess mp auth else pending_access)"

text \<open>Where a click leads: the page, or the warning.\<close>

definition handleProtectedNavigate :: "string \<Rightarrow> dashboard_entry_gate \<Rightarrow> string + string" where
  "handleProtectedNavigate target g =
     (if \<not> gate_allowed g then Inl (nullish (gate_tooltip g) zh_no_page_right) else Inr target)"

record realtime_visit =
  rv_path :: string
  rv_presetQuery :: string
  rv_timeRange :: "(string \<times> string) option"

definition handleRealtimeSearchNavigate ::
    "clock \<Rightarrow> dashboard_quick_action_access \<Rightarrow> string \<Rightarrow> (string \<times> string) option \<Rightarrow> browser
     \<Rightarrow> (string + realtime_visit) \<times> browser" where
  "handleRealtimeSearchNavigate c access presetQuery timeRange b =
     (if \<not> gate_allowed (gate_realtimeSearch access)
      then (Inl (nullish (gate_tooltip (gate_realtimeSearch access)) zh_no_query_right), b)
      else (Inr \<lparr>rv_path = ''/search/realtime'', rv_presetQuery = presetQuery, rv_timeRange = timeRange\<rparr>,
            persistPendingRealtimeStartupQuery c presetQuery b))"

section \<open>Figures\<close>

datatype trend_type = Trend_Up | Trend_Down | Trend_Neutral

record kpi =
  kp_title :: string
  kp_value :: string
  kp_trend :: string
  kp_trendType :: trend_type
  kp_trendLabel :: string
  kp_icon :: string
  kp_color :: string

definition level_count :: "overview_data option \<Rightarrow> string \<Rightarrow> jsnum" where
  "level_count overview level =
     (case overview of None \<Rightarrow> Fin 0 | Some v \<Rightarrow> or_num (nullish (jm_get (ov_levels v) level) NaN) (Fin 0))"

definition bad_logs :: "overview_data option \<Rightarrow> jsnum" where
  "bad_logs overview = num_add (level_count overview ''error'') (level_count overview ''fatal'')"

definition level_logs :: "overview_data option \<Rightarrow> jsnum" where
  "level_logs overview =
     num_add (num_add (num_add (bad_logs overview) (level_count overview ''warn'')) (level_count overview ''info''))
       (level_count overview ''debug'')"

definition board_error_rate :: "overview_data option \<Rightarrow> jsnum" where
  "board_error_rate overview =
     (if num_gt (level_logs overview) 0 then num_scale 100 (num_div (bad_logs overview) (level_logs overview)) else Fin 0)"

definition buildKpiData :: "overview_data option \<Rightarrow> overview_range \<Rightarrow> kpi list" where
  "buildKpiData overview r =
     (let n = level_count overview; errorRate = board_error_rate overview;
          sources = (case overview of None \<Rightarrow> [] | Some v \<Rightarrow> ov_sources v);
          topSource = (case sources of [] \<Rightarrow> None | s # _ \<Rightarrow> Some s);
          levels = (case overview of None \<Rightarrow> [] | Some v \<Rightarrow> ov_levels v);
          label = formatOverviewRangeLabel r
      in case (case overview of None \<Rightarrow> (Fin 0, Fin 0, Fin 0) | Some v \<Rightarrow> ov_alerts v) of
           (allAlerts, firing, resolved) \<Rightarrow>
             [\<lparr>kp_title = zh_total_logs,
               kp_value = formatCompactCount (case overview of None \<Rightarrow> Fin 0 | Some v \<Rightarrow> or_num (ov_total v) (Fin 0)),
               kp_trend = label, kp_trendType = Trend_Neutral, kp_trendLabel = formatTopSourceLabel topSource,
               kp_icon = ''data_usage'', kp_color = ''primary''\<rparr>,
              \<lparr>kp_title = zh_error_rate_label, kp_value = num_fixed 2 errorRate @ ''%'',
               kp_trend = formatCompactCount (bad_logs overview) @ zh_rows,
               kp_trendType = (if num_ge errorRate 5 then Trend_Up else Trend_Neutral), kp_trendLabel = ''error + fatal'',
               kp_icon = ''error'', kp_color = ''danger''\<rparr>,
              \<lparr>kp_title = zh_alerts_firing, kp_value = num_to_string firing, kp_trend = zh_in_total @ num_to_string allAlerts,
               kp_trendType = (if num_gt firing 0 then Trend_Up else Trend_Neutral), kp_trendLabel = label,
               kp_icon = ''notifications_active'', kp_color = ''warning''\<rparr>,
              \<lparr>kp_title = zh_alerts_resolved, kp_value = num_to_string resolved,
               kp_trend = formatCompactCount (n ''warn'') @ '' warn'', kp_trendType = Trend_Neutral, kp_trendLabel = label,
               kp_icon = ''task_alt'', kp_color = ''success''\<rparr>,
              \<lparr>kp_title = zh_active_sources, kp_value = nat_to_string (length sources),
               kp_trend = (case topSource of None \<Rightarrow> ''0'' | Some s \<Rightarrow> formatCompactCount (source_count s)),
               kp_trendType = Trend_Neutral, kp_trendLabel = formatTopSourceLabel topSource, kp_icon = ''dns'', kp_color = ''info''\<rparr>,
              \<lparr>kp_title = zh_level_coverage,
               kp_value = nat_to_string (length (filter (\<lambda>(_, v). num_gt v 0) levels)) @ ''/5'',
               kp_trend = formatCompactCount (num_add (n ''debug'') (n ''info'')) @ zh_low_risk, kp_trendType = Trend_Neutral,
               kp_trendLabel = ''debug + info'', kp_icon = ''monitoring'', kp_color = ''success''\<rparr>])"

text \<open>The services on show, with the state of the reconciler read from the details of the control plane.\<close>

record health_item =
  hi_key :: string
  hi_label :: string
  hi_probe :: "json option"
  hi_reconcilerState :: "string option"

definition serviceItems :: "json option \<Rightarrow> health_item list" where
  "serviceItems data =
     (case data of
        None \<Rightarrow> []
      | Some d \<Rightarrow>
          (let services = json_field (Some d) ''services''; dataServices = json_field services ''dataServices'';
               plain = (\<lambda>key label probe. \<lparr>hi_key = key, hi_label = label, hi_probe = probe, hi_reconcilerState = None\<rparr>);
               controlPlane = json_field services ''controlPlane''
           in [(plain ''controlPlane'' zh_control_plane controlPlane)
                 \<lparr>hi_reconcilerState := extractReconcilerState (json_field controlPlane ''details'')\<rparr>,
               plain ''apiService'' zh_business_api (json_field services ''apiService''),
               plain ''queryApi'' zh_query_service (json_field dataServices ''queryApi''),
               plain ''auditApi'' zh_audit_service (json_field dataServices ''auditApi''),
               plain ''exportApi'' zh_export_service (json_field dataServices ''exportApi'')]))"

definition risk_of :: "jsnum \<Rightarrow> tag_color \<times> string" where
  "risk_of v =
     (if num_ge v 80 then (Tag_Error, zh_high) else if num_ge v 60 then (Tag_Warning, zh_middle) else (Tag_Success, zh_low))"

text \<open>An error of the last health check is shown only beside an older result.\<close>

definition stale_error :: "dashboard \<Rightarrow> string option" where
  "stale_error st =
     (if bd_platformHealth st \<noteq> None \<and> nullish (bd_platformHealthError st) [] \<noteq> [] then bd_platformHealthError st else None)"

section \<open>Runs\<close>

inductive board_run :: "dashboard \<Rightarrow> bool" where
  board_opened: "0 \<le> refreshInterval prefs \<Longrightarrow> board_run (open_dashboard prefs hidden c)"
| refresh_clicked: "board_run st \<Longrightarrow> \<not> bd_isLoading st \<Longrightarrow> board_run (handleRefresh st)"
| range_chosen: "board_run st \<Longrightarrow> board_run (handleOverviewRangeChange r st)"
| interval_chosen: "board_run st \<Longrightarrow> v \<in> set REFRESH_INTERVAL_OPTIONS \<Longrightarrow> board_run (handleIntervalChange v st)"
| visibility_changed: "board_run st \<Longrightarrow> bd_hidden st \<noteq> h \<Longrightarrow> board_run (handleVisibility h st)"
| time_to_refresh: "board_run st \<Longrightarrow> board_run (refresh_tick st)"
| second_passed: "board_run st \<Longrightarrow> board_run (countdown_tick st)"
| refresh_answered: "board_run st \<Longrightarrow> board_run (finish_refresh c a st)"

section \<open>What holds on every run\<close>

definition board_ok :: "dashboard \<Rightarrow> bool" where
  "board_ok st \<longleftrightarrow>
     (bd_isLoading st \<longleftrightarrow> bd_request st \<noteq> None)
   \<and> bd_refreshTimer st =
       (if 0 < bd_refreshInterval st \<and> \<not> bd_hidden st then Some (bd_refreshInterval st, bd_overviewRange st) else None)
   \<and> bd_countdownTimer st = (if 0 < bd_refreshInterval st \<and> \<not> bd_hidden st then Some (bd_refreshInterval st) else None)
   \<and> 0 \<le> bd_refreshInterval st \<and> 0 \<le> bd_countdown st \<and> bd_countdown st \<le> bd_refreshInterval st div 1000"

lemma doRefresh_fields [simp]:
  "bd_refreshInterval (doRefresh s r st) = bd_refreshInterval st" "bd_overviewRange (doRefresh s r st) = bd_overviewRange st"
  "bd_hidden (doRefresh s r st) = bd_hidden st" "bd_countdown (doRefresh s r st) = bd_countdown st"
  "bd_refreshTimer (doRefresh s r st) = bd_refreshTimer st" "bd_countdownTimer (doRefresh s r st) = bd_countdownTimer st"
  by (simp_all add: doRefresh_def split: option.split)

lemma doRefresh_marks:
  "bd_isLoading st = (bd_request st \<noteq> None)
    \<Longrightarrow> bd_isLoading (doRefresh s r st) = (bd_request (doRefresh s r st) \<noteq> None)"
  by (simp add: doRefresh_def split: option.split)

lemma doRefresh_ok: "board_ok st \<Longrightarrow> board_ok (doRefresh s r st)"
  unfolding board_ok_def by (elim conjE, intro conjI doRefresh_marks) simp_all

lemma startRefreshTimers_ok:
  assumes "bd_isLoading st \<longleftrightarrow> bd_request st \<noteq> None" "0 \<le> bd_refreshInterval st" "0 \<le> bd_countdown st"
    and "bd_countdown st \<le> bd_refreshInterval st div 1000"
  shows "board_ok (startRefreshTimers st)"
  using assms by (auto simp: board_ok_def startRefreshTimers_def clearRefreshTimers_def Let_def)

lemma take_answers_fields [simp]:
  "bd_refreshInterval (take_answers c q a st) = bd_refreshInterval st" "bd_overviewRange (take_answers c q a st) = bd_overviewRange st"
  "bd_hidden (take_answers c q a st) = bd_hidden st" "bd_countdown (take_answers c q a st) = bd_countdown st"
  "bd_refreshTimer (take_answers c q a st) = bd_refreshTimer st" "bd_countdownTimer (take_answers c q a st) = bd_countdownTimer st"
  by (simp_all add: take_answers_def Let_def split: sum.split)

lemma finish_refresh_ok: "board_ok st \<Longrightarrow> board_ok (finish_refresh c a st)"
  by (auto simp: finish_refresh_def Let_def board_ok_def split: option.split)

lemma interval_options: "v \<in> set REFRESH_INTERVAL_OPTIONS \<Longrightarrow> 0 \<le> v \<and> 0 \<le> v div 1000"
  by (auto simp: REFRESH_INTERVAL_OPTIONS_def)

lemma range_change_ok:
  assumes "board_ok st"
  shows "board_ok (handleOverviewRangeChange r st)"
proof -
  let ?st = "doRefresh True r (st\<lparr>bd_overviewRange := r\<rparr>)"
  show ?thesis
  proof (cases "bd_overviewRange st = r")
    case True
    then have "st\<lparr>bd_overviewRange := r\<rparr> = st" by (cases st) simp
    then have "handleOverviewRangeChange r st = doRefresh True r st"
      by (simp add: handleOverviewRangeChange_def follow_board_def)
    then show ?thesis using doRefresh_ok [OF assms] by simp
  next
    case False
    then have "handleOverviewRangeChange r st = startRefreshTimers ?st"
      by (simp add: handleOverviewRangeChange_def follow_board_def)
    moreover have "board_ok (startRefreshTimers ?st)"
      using assms doRefresh_marks [of "st\<lparr>bd_overviewRange := r\<rparr>"]
      by (intro startRefreshTimers_ok) (simp_all add: board_ok_def)
    ultimately show ?thesis by simp
  qed
qed

lemma interval_change_ok:
  assumes "board_ok st" "v \<in> set REFRESH_INTERVAL_OPTIONS"
  shows "board_ok (handleIntervalChange v st)"
proof -
  let ?st = "st\<lparr>bd_refreshInterval := v, bd_prefs := setRefreshInterval (if v = 0 then 0 else v div 1000) (bd_prefs st),
    bd_countdown := (if 0 < v then v div 1000 else 0)\<rparr>"
  note v = interval_options [OF assms(2)]
  show ?thesis
  proof (cases "bd_refreshInterval st = v")
    case True
    then have "handleIntervalChange v st = ?st" by (simp add: handleIntervalChange_def follow_board_def)
    moreover have "board_ok ?st" using assms(1) True v by (simp add: board_ok_def)
    ultimately show ?thesis by (simp only:)
  next
    case False
    then have "handleIntervalChange v st = startRefreshTimers ?st" by (simp add: handleIntervalChange_def follow_board_def)
    moreover have "board_ok (startRefreshTimers ?st)"
      using assms(1) v by (intro startRefreshTimers_ok) (simp_all add: board_ok_def)
    ultimately show ?thesis by (simp only:)
  qed
qed

lemma visibility_ok:
  assumes "board_ok st" "bd_hidden st \<noteq> h"
  shows "board_ok (handleVisibility h st)"
proof -
  show ?thesis
  proof (cases h)
    case True
    then show ?thesis using assms by (simp add: handleVisibility_def clearRefreshTimers_def board_ok_def)
  next
    case False
    then have "board_ok (startRefreshTimers (doRefresh True (bd_overviewRange st) (st\<lparr>bd_hidden := h\<rparr>)))"
      using assms(1) doRefresh_marks [of "st\<lparr>bd_hidden := h\<rparr>"]
      by (intro startRefreshTimers_ok) (simp_all add: board_ok_def)
    then show ?thesis using False assms by (auto simp: handleVisibility_def Let_def board_ok_def)
  qed
qed

lemma board_run_ok: "board_run st \<Longrightarrow> board_ok st"
proof (induction rule: board_run.induct)
  case (board_opened prefs hidden c)
  then show ?case unfolding open_dashboard_def Let_def
    by (intro startRefreshTimers_ok) (simp_all add: doRefresh_def)
next
  case (refresh_clicked st)
  then show ?case using doRefresh_ok [OF refresh_clicked.IH, of False "bd_overviewRange st"]
    by (auto simp: handleRefresh_def Let_def board_ok_def)
next
  case (range_chosen st r)
  then show ?case by (intro range_change_ok)
next
  case (interval_chosen st v)
  then show ?case by (intro interval_change_ok)
next
  case (visibility_changed st h)
  then show ?case by (intro visibility_ok)
next
  case (time_to_refresh st)
  then show ?case using doRefresh_ok [OF time_to_refresh.IH, of True "bd_overviewRange st"]
    by (auto simp: refresh_tick_def board_ok_def)
next
  case (second_passed st)
  then show ?case by (auto simp: countdown_tick_def board_ok_def split: option.split)
next
  case (refresh_answered st c a)
  then show ?case by (intro finish_refresh_ok)
qed

text \<open>C31: The dashboard refreshes itself as chosen: whatever is clicked, answered or hidden in any order, it shows the mark of
  loading exactly while its one refresh is under way; the two timers run exactly while an interval is chosen and the
  tab is visible, with the chosen interval and period; and the countdown stays between zero and the interval.\<close>

theorem dashboard_refreshes_as_chosen:
  assumes "board_run st"
  shows "(bd_isLoading st \<longleftrightarrow> bd_request st \<noteq> None)
    \<and> bd_refreshTimer st =
        (if 0 < bd_refreshInterval st \<and> \<not> bd_hidden st then Some (bd_refreshInterval st, bd_overviewRange st) else None)
    \<and> (bd_countdownTimer st \<noteq> None \<longleftrightarrow> bd_refreshTimer st \<noteq> None)
    \<and> 0 \<le> bd_countdown st \<and> bd_countdown st \<le> bd_refreshInterval st div 1000"
  using board_run_ok [OF assms] by (auto simp: board_ok_def)

text \<open>C32: Which period is shown: after a period has been chosen and the refresh has brought an overview, the page shows that
  overview under the chosen period; it is the overview of the chosen period if no refresh was under way at the
  choice, and of the period that refresh was asked for if one was.\<close>

theorem chosen_period_shown:
  "let st' = finish_refresh c (a\<lparr>an_overview := Inr v\<rparr>) (handleOverviewRangeChange r st)
   in bd_overviewRange st' = r \<and> bd_overview st' = Some v \<and> bd_request st' = None
    \<and> bd_shown_for st' = Some (case bd_request st of None \<Rightarrow> r | Some running \<Rightarrow> rr_range running)"
  by (simp add: finish_refresh_def handleOverviewRangeChange_def follow_board_def startRefreshTimers_def clearRefreshTimers_def
      doRefresh_def take_answers_def Let_def split: option.split sum.split)

section \<open>The error rate\<close>

lemma num_add_Fin [simp]: "num_add (Fin a) (Fin b) = Fin (a + b)" by (simp add: num_add_def)

text \<open>The counts of the levels, as numbers that are not negative.\<close>

lemma level_count_nonneg:
  assumes "\<forall>(k, n) \<in> set (ov_levels v). \<exists>q. n = Fin q \<and> 0 \<le> q"
  obtains q where "level_count (Some v) level = Fin q" "0 \<le> q"
proof (cases "jm_get (ov_levels v) level")
  case None
  then show ?thesis using that [of 0] by (simp add: level_count_def nullish_def or_num_def)
next
  case (Some n)
  then have "(level, n) \<in> set (ov_levels v)" by (simp add: jm_get_def map_of_SomeD)
  then obtain q where "n = Fin q" "0 \<le> q" using assms by blast
  then show ?thesis using Some that [of q] by (simp add: level_count_def nullish_def or_num_def)
qed

text \<open>The error rate is a percentage: when the counts of the levels are numbers that are not negative, it lies between 0
  and 100, and it is 100 exactly when there are entries and all of them are errors.\<close>

theorem error_rate_is_percentage:
  assumes "\<forall>(k, n) \<in> set (ov_levels v). \<exists>q. n = Fin q \<and> 0 \<le> q"
  shows "\<exists>q. board_error_rate (Some v) = Fin q \<and> 0 \<le> q \<and> q \<le> 100
    \<and> (q = 100 \<longleftrightarrow> num_gt (bad_logs (Some v)) 0 \<and> level_logs (Some v) = bad_logs (Some v))"
proof -
  obtain e where e: "level_count (Some v) ''error'' = Fin e" "0 \<le> e" using level_count_nonneg [OF assms] .
  obtain f where f: "level_count (Some v) ''fatal'' = Fin f" "0 \<le> f" using level_count_nonneg [OF assms] .
  obtain w where w: "level_count (Some v) ''warn'' = Fin w" "0 \<le> w" using level_count_nonneg [OF assms] .
  obtain i where i: "level_count (Some v) ''info'' = Fin i" "0 \<le> i" using level_count_nonneg [OF assms] .
  obtain d where d: "level_count (Some v) ''debug'' = Fin d" "0 \<le> d" using level_count_nonneg [OF assms] .
  let ?b = "e + f" and ?t = "e + f + w + i + d"
  have b: "bad_logs (Some v) = Fin ?b" and t: "level_logs (Some v) = Fin ?t"
    by (simp_all add: bad_logs_def level_logs_def e f w i d)
  show ?thesis
  proof (cases "0 < ?t")
    case True
    have "100 * (?b / ?t) \<le> 100" using True w(2) i(2) d(2) by (simp add: field_simps)
    moreover have "100 * (?b / ?t) = 100 \<longleftrightarrow> 0 < ?b \<and> ?t = ?b" using True by (auto simp: field_simps)
    ultimately show ?thesis
      using True e(2) f(2) by (simp add: board_error_rate_def b t num_gt_def num_div_def num_scale_def)
  next
    case False
    then have "?b = 0" using e(2) f(2) w(2) i(2) d(2) by linarith
    then show ?thesis using False by (simp add: board_error_rate_def b t num_gt_def)
  qed
qed

section \<open>A click on a source\<close>

lemma normalizeIdentityValue_shown:
  assumes "fallback \<noteq> []" "trim fallback = fallback" "toLowerCase fallback \<noteq> ''unknown''"
    and "x = normalizeIdentityValue v fallback"
  shows "x \<noteq> []" "trim x = x" "normalizeIdentityValue (Some x) [] = x"
  using assms by (auto simp: normalizeIdentityValue_def Let_def nullish_def)

lemma shown_names:
  "zh_unknown_host \<noteq> []" "trim zh_unknown_host = zh_unknown_host" "toLowerCase zh_unknown_host \<noteq> ''unknown''"
  "zh_unknown_service \<noteq> []" "trim zh_unknown_service = zh_unknown_service" "toLowerCase zh_unknown_service \<noteq> ''unknown''"
  by code_simp+

definition shown_filters :: "string \<Rightarrow> string \<Rightarrow> filters" where
  "shown_filters host service = [(''host'', JStr host), (''service'', JStr service)]"

lemma key_names: "trim ''host'' = ''host''" "trim ''service'' = ''service''" by code_simp+

lemma shown_filters_normal:
  assumes "host \<noteq> []" "trim host = host" "service \<noteq> []" "trim service = service"
  shows "normalizeRealtimePresetFilters (shown_filters host service) = shown_filters host service" "clean (shown_filters host service)"
  using assms
  by (simp_all add: normalizeRealtimePresetFilters_def build_members_def shown_filters_def key_names clean_def)

text \<open>A click on a source searches for that source: the query handed to the search page is read back there as no text and
  the two filters on the host and the service of the row, as long as their text does not itself contain the prefix of
  filters. For a source without a known host the row shows a placeholder, and the placeholder is what is searched for.\<close>

theorem source_click_searches_row:
  assumes "row = source_row_of m s"
    and "\<not> js_includes (stringify (sortJSONValue lc (JObj (shown_filters (sr_host row) (sr_service row))))) ('' '' @ FILTERS_PREFIX)"
  shows "pq_queryText (normalizeRealtimePresetQuery c (buildSourcePresetQuery lc row)) = []
    \<and> set (pq_filters (normalizeRealtimePresetQuery c (buildSourcePresetQuery lc row)))
        = {(''host'', JStr (sr_host row)), (''service'', JStr (sr_service row))}
    \<and> sr_host row = (if trim (ts_host s) = [] \<or> toLowerCase (trim (ts_host s)) = ''unknown'' then zh_unknown_host
                     else trim (ts_host s))"
proof -
  let ?h = "sr_host row" and ?v = "sr_service row"
  have h: "?h = normalizeIdentityValue (Some (ts_host s)) zh_unknown_host"
    and v: "?v = normalizeIdentityValue (Some (ts_service s)) zh_unknown_service"
    by (simp_all add: assms(1) source_row_of_def Let_def)
  note nh = normalizeIdentityValue_shown [OF shown_names(1-3) h] and nv = normalizeIdentityValue_shown [OF shown_names(4-6) v]
  let ?f = "shown_filters ?h ?v"
  note normal = shown_filters_normal [OF nh(1,2) nv(1,2)]
  have ne: "normalizeRealtimePresetFilters ?f \<noteq> []" unfolding normal(1) by (simp add: shown_filters_def)
  obtain ms where ms: "sortJSONValue lc (JObj ?f) = JObj ms" by simp
  have built: "buildRealtimePresetQuery lc [] ?f = query_with_filters [] (JObj ms)"
    using build_with_filters [OF ne, of lc "[]"] unfolding normal(1) ms by (simp only: trim_Nil)
  have "query_with_filters [] (JObj ms) \<noteq> []" by (simp add: query_with_filters_def)
  then have q: "buildSourcePresetQuery lc row = query_with_filters [] (JObj ms)"
    using nh nv built by (simp add: buildSourcePresetQuery_def Let_def shown_filters_def or_str_def)
  have wf: "json_wf (JObj ?f)" by (simp add: shown_filters_def)
  have "normalizeRealtimePresetQuery c (query_with_filters [] (JObj ms)) =
    \<lparr>pq_queryText = [], pq_filters = ms, pq_levelFilter = normalizeFilterString (jm_get ms ''level''),
     pq_sourceFilter = or_str (normalizeFilterString (jm_get ms ''service'')) (normalizeFilterString (jm_get ms ''source'')),
     pq_strippedTimeRange = False, pq_extractedFilters = True, pq_timeRange = None\<rparr>"
  proof (rule normalize_query_with_filters)
    show "clean ms" using clean_sorted [OF normal(2) _ ms] by (simp add: shown_filters_def)
    show "json_wf (JObj ms)" using json_wf_sorted [OF wf, of lc] unfolding ms .
  qed (use assms(2) ms in \<open>simp_all add: trim_Nil FILTERS_PREFIX_def\<close>)
  moreover have "ms = js_sort (\<lambda>l r. lc (fst l) (fst r) \<le> 0) (map (\<lambda>e. (fst e, sortJSONValue lc (snd e))) ?f)" using ms by simp
  then have "set ms = (\<lambda>e. (fst e, sortJSONValue lc (snd e))) ` set ?f" by (simp only: set_js_sort set_map)
  then have "set ms = set ?f" by (simp add: shown_filters_def)
  ultimately show ?thesis unfolding q h by (auto simp: shown_filters_def v normalizeIdentityValue_def Let_def nullish_def)
qed

section \<open>Examples\<close>

definition board_clock :: clock where "board_clock = \<lparr>now_ms = 1700000000000, host_date = \<lambda>_. None\<rparr>"

definition five_seconds :: dashboard where
  "five_seconds = countdown_tick (handleIntervalChange 5000 (open_dashboard initial_preferences False board_clock))"

theorem dashboard_refreshes_as_chosen_witness:
  "bd_refreshTimer five_seconds = Some (5000, Range24h) \<and> bd_isLoading five_seconds
   \<and> bd_countdown five_seconds = 4 \<and> bd_countdown five_seconds \<le> bd_refreshInterval five_seconds div 1000"
proof -
  have "board_run five_seconds"
    unfolding five_seconds_def
    by (intro second_passed interval_chosen board_opened) (simp_all add: REFRESH_INTERVAL_OPTIONS_def initial_preferences_def)
  moreover have "bd_refreshInterval five_seconds = 5000" "\<not> bd_hidden five_seconds" "bd_overviewRange five_seconds = Range24h"
    "bd_request five_seconds \<noteq> None" "bd_countdown five_seconds = 4" by code_simp+
  ultimately show ?thesis using dashboard_refreshes_as_chosen [of five_seconds] by simp
qed

definition quarter_errors :: overview_data where
  "quarter_errors = \<lparr>ov_total = Fin 8, ov_levels = [(''error'', Fin 1), (''info'', Fin 6), (''fatal'', Fin 1)], ov_sources = [],
     ov_alerts = (Fin 0, Fin 0, Fin 0), ov_trend = []\<rparr>"

theorem error_rate_is_percentage_witness:
  "\<exists>q. board_error_rate (Some quarter_errors) = Fin q \<and> 0 \<le> q \<and> q \<le> 100 \<and> q = 25"
proof -
  have rate: "board_error_rate (Some quarter_errors) = Fin 25" by code_simp
  have "\<forall>(k, n) \<in> set (ov_levels quarter_errors). \<exists>q. n = Fin q \<and> 0 \<le> q" by (simp add: quarter_errors_def)
  then show ?thesis using error_rate_is_percentage [of quarter_errors] rate by auto
qed

definition nameless_source :: top_source where
  "nameless_source = \<lparr>ts_source = [], ts_host = '' Unknown'', ts_service = ''api'', ts_count = Fin 3\<rparr>"

theorem source_click_searches_row_witness:
  "(''host'', JStr zh_unknown_host) \<in> set (pq_filters (normalizeRealtimePresetQuery board_clock
     (buildSourcePresetQuery (\<lambda>_ _. 0) (source_row_of (Fin 3) nameless_source))))"
proof -
  let ?row = "source_row_of (Fin 3) nameless_source"
  have h: "sr_host ?row = zh_unknown_host" by code_simp
  have "\<not> js_includes (stringify (sortJSONValue (\<lambda>_ _. 0) (JObj (shown_filters (sr_host ?row) (sr_service ?row))))) ('' '' @ FILTERS_PREFIX)"
    by code_simp
  then show ?thesis using source_click_searches_row [of ?row "Fin 3" nameless_source "\<lambda>_ _. 0" board_clock] h by auto
qed

end
