(* ===== verification/Paged_List.thy ===== *)
theory Paged_List
  imports Page_Base Query_Calls Search_View Stores
begin

text \<open>
  The list with pages that the query history and the saved queries have in common
  (\<open>pages/search/SearchHistory.tsx\<close>, \<open>pages/search/SavedQueries.tsx\<close>): a request has a number and only the answer to
  the newest one counts; a page turn that fails is undone; an effect asks again whenever page, page size or filter
  change. The definitions are read from \<open>SearchHistory.tsx\<close>; the other page extends the record with its own state.

  A handler that waits for an answer goes on with the values of the render it belongs to, so a list is asked for with a
  view (page, size and filter) of its own, which need not be the view on show any more.
\<close>

section \<open>The state\<close>

record 'q list_view =
  vw_page :: int
  vw_pageSize :: int
  vw_filter :: 'q

record 'q list_request =
  lq_id :: nat
  lq_view :: "'q list_view"
  lq_retry :: bool

record pending_page =
  pe_targetPage :: int
  pe_targetPageSize :: int
  pe_previousPage :: int
  pe_previousPageSize :: int

record ('i, 'q) paged_list =
  pl_items :: "'i list"
  pl_total :: int
  pl_loading :: bool
  pl_hasLoadedOnce :: bool
  pl_errorText :: string
  pl_retrying :: bool
  pl_currentPage :: int
  pl_pageSize :: int
  pl_loadedPage :: int
  pl_loadedPageSize :: int
  pl_filter :: 'q
  pl_pending :: "pending_page option"
  pl_latest :: nat
  pl_requests :: "'q list_request list"
  pl_followed :: "'q list_view option"
  pl_prefs :: preferences
  pl_notices :: "notice list"

definition view_of :: "('i, 'q, 'z) paged_list_scheme \<Rightarrow> 'q list_view" where
  "view_of st = \<lparr>vw_page = pl_currentPage st, vw_pageSize = pl_pageSize st, vw_filter = pl_filter st\<rparr>"

definition pl_say :: "notice \<Rightarrow> ('i, 'q, 'z) paged_list_scheme \<Rightarrow> ('i, 'q, 'z) paged_list_scheme" where
  "pl_say n st = st\<lparr>pl_notices := n # pl_notices st\<rparr>"

text \<open>The page size is kept in the preferences under the key of the page.\<close>

definition set_page_size :: "string \<Rightarrow> int \<Rightarrow> ('i, 'q, 'z) paged_list_scheme \<Rightarrow> ('i, 'q, 'z) paged_list_scheme" where
  "set_page_size pageKey n st = st\<lparr>pl_pageSize := n, pl_prefs := setPageSize pageKey n (pl_prefs st)\<rparr>"

section \<open>Asking\<close>

definition start_list :: "bool \<Rightarrow> 'q list_view \<Rightarrow> ('i, 'q, 'z) paged_list_scheme \<Rightarrow> ('i, 'q, 'z) paged_list_scheme" where
  "start_list retry view st =
     (let requestId = pl_latest st + 1
      in st\<lparr>pl_latest := requestId, pl_loading := True, pl_errorText := [],
            pl_requests := pl_requests st @ [\<lparr>lq_id = requestId, lq_view = view, lq_retry = retry\<rparr>]\<rparr>)"

text \<open>The effect on page, page size and filter.\<close>

definition follow_view :: "('i, 'q, 'z) paged_list_scheme \<Rightarrow> ('i, 'q, 'z) paged_list_scheme" where
  "follow_view st =
     (if pl_followed st = Some (view_of st) then st
      else start_list False (view_of st) (st\<lparr>pl_followed := Some (view_of st)\<rparr>))"

definition retry_list :: "('i, 'q, 'z) paged_list_scheme \<Rightarrow> ('i, 'q, 'z) paged_list_scheme" where
  "retry_list st = start_list True (view_of st) (st\<lparr>pl_retrying := True\<rparr>)"

definition turn_to :: "string \<Rightarrow> int \<Rightarrow> int option \<Rightarrow> ('i, 'q, 'z) paged_list_scheme \<Rightarrow> ('i, 'q, 'z) paged_list_scheme" where
  "turn_to pageKey page sz st =
     (let nextPageSize = nullish sz (pl_pageSize st);
          targetPage = (if nextPageSize \<noteq> pl_pageSize st then 1 else page)
      in set_page_size pageKey nextPageSize
           (st\<lparr>pl_pending := Some \<lparr>pe_targetPage = targetPage, pe_targetPageSize = nextPageSize,
                  pe_previousPage = pl_currentPage st, pe_previousPageSize = pl_pageSize st\<rparr>,
               pl_currentPage := targetPage\<rparr>))"

section \<open>Answers\<close>

definition show_list ::
    "string \<Rightarrow> 'q list_view \<Rightarrow> 'i listed \<Rightarrow> ('i, 'q, 'z) paged_list_scheme \<Rightarrow> ('i, 'q, 'z) paged_list_scheme" where
  "show_list pageKey view result st =
     (let st1 = st\<lparr>pl_items := ls_items result, pl_total := ls_total result, pl_loadedPage := ls_page result,
                   pl_loadedPageSize := ls_pageSize result, pl_pending := None,
                   pl_currentPage := (if ls_page result \<noteq> vw_page view then ls_page result else pl_currentPage st)\<rparr>
      in if ls_pageSize result \<noteq> vw_pageSize view then set_page_size pageKey (ls_pageSize result) st1 else st1)"

definition pending_fits :: "pending_page option \<Rightarrow> 'q list_view \<Rightarrow> bool" where
  "pending_fits p view \<longleftrightarrow>
     (case p of None \<Rightarrow> False | Some q \<Rightarrow> pe_targetPage q = vw_page view \<and> pe_targetPageSize q = vw_pageSize view)"

text \<open>A list could not be loaded: a page turn is undone, else the error is shown.\<close>

definition fail_list ::
    "string \<Rightarrow> string \<Rightarrow> string \<Rightarrow> 'q list_view \<Rightarrow> string option \<Rightarrow> ('i, 'q, 'z) paged_list_scheme
     \<Rightarrow> ('i, 'q, 'z) paged_list_scheme" where
  "fail_list pageKey failedText turnFailedText view reason st =
     (if pending_fits (pl_pending st) view
      then (let p = the (pl_pending st)
            in pl_say (Warning turnFailedText)
                 (set_page_size pageKey (pe_previousPageSize p)
                   (st\<lparr>pl_pending := None, pl_currentPage := pe_previousPage p\<rparr>)))
      else st\<lparr>pl_errorText := nullish reason failedText\<rparr>)"

definition settle_list :: "('i, 'q, 'z) paged_list_scheme \<Rightarrow> ('i, 'q, 'z) paged_list_scheme" where
  "settle_list st = st\<lparr>pl_hasLoadedOnce := True, pl_loading := False\<rparr>"

text \<open>\<open>extra\<close> is what a page does besides with a list it shows.\<close>

definition finish_list ::
    "string \<Rightarrow> string \<Rightarrow> string \<Rightarrow> ('i listed \<Rightarrow> ('i, 'q, 'z) paged_list_scheme \<Rightarrow> ('i, 'q, 'z) paged_list_scheme)
     \<Rightarrow> nat \<Rightarrow> string option + 'i listed \<Rightarrow> ('i, 'q, 'z) paged_list_scheme \<Rightarrow> ('i, 'q, 'z) paged_list_scheme" where
  "finish_list pageKey failedText turnFailedText extra i answer st =
     (let r = pl_requests st ! i; st1 = st\<lparr>pl_requests := drop_at i (pl_requests st)\<rparr>;
          st2 = (if lq_id r \<noteq> pl_latest st then st1
                 else settle_list
                   (case answer of
                      Inr result \<Rightarrow> extra result (show_list pageKey (lq_view r) result st1)
                    | Inl reason \<Rightarrow> fail_list pageKey failedText turnFailedText (lq_view r) reason st1))
      in if lq_retry r then st2\<lparr>pl_retrying := False\<rparr> else st2)"

section \<open>What a page shows while it loads\<close>

definition loading_placeholder :: "('i, 'q, 'z) paged_list_scheme \<Rightarrow> bool" where
  "loading_placeholder st \<longleftrightarrow> pl_loading st \<and> pl_items st = [] \<and> \<not> pl_retrying st"

definition inline_error_state :: "('i, 'q, 'z) paged_list_scheme \<Rightarrow> bool" where
  "inline_error_state st \<longleftrightarrow>
     (pl_errorText st \<noteq> [] \<or> pl_retrying st) \<and> pl_items st = [] \<and> \<not> loading_placeholder st"

definition shown_range :: "('i, 'q, 'z) paged_list_scheme \<Rightarrow> visible_range" where
  "shown_range st =
     resolveSearchPageVisibleRange (Fin (of_int (pl_total st))) (Fin (of_int (pl_loadedPage st)))
       (Fin (of_int (pl_loadedPageSize st))) (Fin (of_nat (length (pl_items st))))"

section \<open>What all such lists keep\<close>

definition list_ok :: "('i, 'q, 'z) paged_list_scheme \<Rightarrow> bool" where
  "list_ok st \<longleftrightarrow>
     distinct (map lq_id (pl_requests st)) \<and> (\<forall>r \<in> set (pl_requests st). lq_id r \<le> pl_latest st)
   \<and> pl_loading st = (pl_latest st \<in> lq_id ` set (pl_requests st))"

lemma list_ok_cong:
  "list_ok st \<Longrightarrow> pl_requests st' = pl_requests st \<Longrightarrow> pl_latest st' = pl_latest st \<Longrightarrow> pl_loading st' = pl_loading st \<Longrightarrow> list_ok st'"
  by (simp add: list_ok_def)

lemma start_list_ok: "list_ok st \<Longrightarrow> list_ok (start_list retry view st)"
  unfolding list_ok_def start_list_def Let_def by force

lemma follow_view_ok: "list_ok st \<Longrightarrow> list_ok (follow_view st)"
  by (auto simp: follow_view_def intro!: start_list_ok elim: list_ok_cong)

lemma retry_list_ok: "list_ok st \<Longrightarrow> list_ok (retry_list st)"
  by (auto simp: retry_list_def intro!: start_list_ok elim: list_ok_cong)

lemma turn_to_ok: "list_ok st \<Longrightarrow> list_ok (turn_to pageKey page sz st)"
  by (auto simp: turn_to_def set_page_size_def Let_def elim: list_ok_cong)

lemma pl_say_ok: "list_ok st \<Longrightarrow> list_ok (pl_say n st)"
  by (auto simp: pl_say_def elim: list_ok_cong)

text \<open>The requests left when the \<open>i\<close>-th has been answered.\<close>

lemma drop_at_parts:
  assumes "i < length xs"
  shows "xs = take i xs @ xs ! i # drop (Suc i) xs" "drop_at i xs = take i xs @ drop (Suc i) xs"
  using assms by (simp_all add: drop_at_def id_take_nth_drop)

lemma finish_list_ok:
  assumes "list_ok st" "i < length (pl_requests st)"
    and extra: "\<And>result t. pl_requests (extra result t) = pl_requests t \<and> pl_latest (extra result t) = pl_latest t"
  shows "list_ok (finish_list pageKey failedText turnFailedText extra i answer st)"
proof -
  let ?rs = "pl_requests st"
  let ?st = "finish_list pageKey failedText turnFailedText extra i answer st"
  have same: "pl_requests ?st = drop_at i ?rs" "pl_latest ?st = pl_latest st"
    by (simp_all add: finish_list_def Let_def settle_list_def extra show_list_def set_page_size_def fail_list_def pl_say_def split: sum.split)
  have loading: "pl_loading ?st = (if lq_id (?rs ! i) = pl_latest st then False else pl_loading st)"
    by (simp add: finish_list_def Let_def settle_list_def)
  note parts = drop_at_parts [OF assms(2)]
  have d: "distinct (map lq_id (take i ?rs @ ?rs ! i # drop (Suc i) ?rs))" using assms(1) parts(1) unfolding list_ok_def by metis
  have "set ?rs = insert (?rs ! i) (set (drop_at i ?rs))" using parts by (metis Un_insert_right list.set(2) set_append)
  then show ?thesis
    using assms(1) d unfolding list_ok_def same loading parts(2) by auto
qed

text \<open>An answer that is not to the newest request changes nothing that is shown.\<close>

lemma overtaken_list:
  assumes "lq_id (pl_requests st ! i) \<noteq> pl_latest st"
  shows "finish_list pageKey failedText turnFailedText extra i answer st
    = st\<lparr>pl_requests := drop_at i (pl_requests st), pl_retrying := (pl_retrying st \<and> \<not> lq_retry (pl_requests st ! i))\<rparr>"
  using assms by (simp add: finish_list_def Let_def)

text \<open>A page turn that fails leads back to the page it came from.\<close>

lemma failed_turn:
  assumes "st1 = follow_view (turn_to pageKey page sz st)" "view_of (turn_to pageKey page sz st) \<noteq> view_of st"
    and "pl_followed st = Some (view_of st)"
  shows "let st2 = finish_list pageKey failedText turnFailedText extra (length (pl_requests st)) (Inl reason) st1
     in view_of st2 = view_of st \<and> pl_items st2 = pl_items st \<and> pl_loadedPage st2 = pl_loadedPage st
      \<and> pl_errorText st2 = [] \<and> pl_notices st2 = Warning turnFailedText # pl_notices st \<and> \<not> pl_loading st2"
proof -
  have "pl_followed (turn_to pageKey page sz st) = pl_followed st"
    by (simp add: turn_to_def set_page_size_def Let_def)
  then have "st1 = start_list False (view_of (turn_to pageKey page sz st))
      ((turn_to pageKey page sz st)\<lparr>pl_followed := Some (view_of (turn_to pageKey page sz st))\<rparr>)"
    using assms by (simp add: follow_view_def)
  then show ?thesis
    by (simp add: start_list_def turn_to_def set_page_size_def finish_list_def fail_list_def pending_fits_def view_of_def pl_say_def
        settle_list_def nth_append Let_def)
qed

end
