(* ===== verification/Saved_Page.thy ===== *)
theory Saved_Page
  imports Paged_List Search_Query Zh_Console
begin

text \<open>
  The page of the saved queries (\<open>pages/search/SavedQueries.tsx\<close>): a list with pages, its tags, the dialog that saves a
  query in its cleaned form, deleting, running and the cleaning of all queries of the old form. \<open>sd_sent\<close> records
  every query sent to be saved. Requests are answered at any later time, in any order, and their handlers go on with
  the view of the render they belong to.
\<close>

section \<open>The state\<close>

record saved_filter =
  sf_search :: string
  sf_tag :: "string option"

datatype modal_mode = Create_Mode | Edit_Mode

text \<open>Why a request failed: the message if the reason is an error, and its status.\<close>

record fail_reason =
  fr_message :: "string option"
  fr_status :: "nat option"

datatype saved_task = Saving modal_mode bool | Deleting_Saved string | Cleaning

record saved_work =
  sw_task :: saved_task
  sw_view :: "saved_filter list_view"
  sw_shown :: nat

record sent_query =
  sn_target :: "string option"
  sn_payload :: saved_payload

record saved_page = "(saved_query, saved_filter) paged_list" +
  sd_knownTags :: "string list"
  sd_searchText :: string
  sd_editModalOpen :: bool
  sd_modalMode :: modal_mode
  sd_editingItem :: "saved_query option"
  sd_cleanupSubmitting :: bool
  sd_work :: "saved_work list"
  sd_sent :: "sent_query list"
  sd_started :: "string option"

abbreviation saved_key :: string where "saved_key \<equiv> ''savedQueries''"

section \<open>The list\<close>

definition sorted_tags :: "(string \<Rightarrow> string \<Rightarrow> int) \<Rightarrow> string list \<Rightarrow> string list" where
  "sorted_tags lc tags = js_sort (\<lambda>l r. lc l r \<le> 0) (js_uniq tags)"

definition take_tags :: "(string \<Rightarrow> string \<Rightarrow> int) \<Rightarrow> saved_query listed \<Rightarrow> saved_page \<Rightarrow> saved_page" where
  "take_tags lc result st =
     st\<lparr>sd_knownTags :=
          (case ls_tags result of
             Some tags \<Rightarrow> tags
           | None \<Rightarrow> sorted_tags lc (sd_knownTags st @ concat (map sq_tags (ls_items result))))\<rparr>"

definition mergedTags :: "(string \<Rightarrow> string \<Rightarrow> int) \<Rightarrow> saved_page \<Rightarrow> string list" where
  "mergedTags lc st =
     sorted_tags lc (sd_knownTags st @ concat (map sq_tags (pl_items st))
       @ (case sf_tag (pl_filter st) of None \<Rightarrow> [] | Some t \<Rightarrow> if t = [] then [] else [t]))"

definition finish_saved ::
    "(string \<Rightarrow> string \<Rightarrow> int) \<Rightarrow> nat \<Rightarrow> string option + saved_query listed \<Rightarrow> saved_page \<Rightarrow> saved_page" where
  "finish_saved lc = finish_list saved_key zh_sv_load_failed zh_sv_turn_failed (take_tags lc)"

definition open_saved_page :: "preferences \<Rightarrow> saved_page" where
  "open_saved_page prefs =
     (let n = nullish (jm_get (pageSizes prefs) saved_key) 12
      in follow_view
           \<lparr>pl_items = [], pl_total = 0, pl_loading = False, pl_hasLoadedOnce = False, pl_errorText = [], pl_retrying = False,
            pl_currentPage = 1, pl_pageSize = n, pl_loadedPage = 1, pl_loadedPageSize = n,
            pl_filter = \<lparr>sf_search = [], sf_tag = None\<rparr>, pl_pending = None, pl_latest = 0, pl_requests = [], pl_followed = None,
            pl_prefs = prefs, pl_notices = [], sd_knownTags = [], sd_searchText = [], sd_editModalOpen = False,
            sd_modalMode = Create_Mode, sd_editingItem = None, sd_cleanupSubmitting = False, sd_work = [], sd_sent = [],
            sd_started = None\<rparr>)"

definition search_saved :: "string \<Rightarrow> saved_page \<Rightarrow> saved_page" where
  "search_saved v st = st\<lparr>pl_currentPage := 1, pl_filter := (pl_filter st)\<lparr>sf_search := trim v\<rparr>\<rparr>"

definition choose_tag :: "string option \<Rightarrow> saved_page \<Rightarrow> saved_page" where
  "choose_tag tag st =
     st\<lparr>pl_filter := (pl_filter st)\<lparr>sf_tag := (case tag of None \<Rightarrow> None | Some t \<Rightarrow> if sf_tag (pl_filter st) = Some t then None else Some t)\<rparr>,
        pl_currentPage := 1\<rparr>"

definition reset_saved :: "saved_page \<Rightarrow> saved_page" where
  "reset_saved st =
     st\<lparr>sd_searchText := [], pl_filter := \<lparr>sf_search = [], sf_tag = None\<rparr>, pl_currentPage := 1\<rparr>"

section \<open>The dialog\<close>

definition openCreateModal :: "saved_page \<Rightarrow> saved_page" where
  "openCreateModal st = st\<lparr>sd_modalMode := Create_Mode, sd_editingItem := None, sd_editModalOpen := True\<rparr>"

definition openEditModal :: "saved_query \<Rightarrow> saved_page \<Rightarrow> saved_page" where
  "openEditModal item st = st\<lparr>sd_modalMode := Edit_Mode, sd_editingItem := Some item, sd_editModalOpen := True\<rparr>"

definition closeModal :: "saved_page \<Rightarrow> saved_page" where
  "closeModal st = st\<lparr>sd_editModalOpen := False, sd_editingItem := None\<rparr>"

text \<open>What the dialog saves, and whether cleaning changed the query.\<close>

definition form_payload ::
    "(string \<Rightarrow> string \<Rightarrow> int) \<Rightarrow> clock \<Rightarrow> string \<Rightarrow> string \<Rightarrow> string list \<Rightarrow> saved_payload \<times> bool" where
  "form_payload lc c name query_text tags =
     (let cleanupState = buildQueryCleanupState lc c (trim query_text) None
      in (\<lparr>sv_name = trim name, sv_query = cu_cleanedQuery cleanupState,
           sv_tags = filter (\<lambda>t. t \<noteq> []) (map trim tags), sv_description = None, sv_filters = None\<rparr>,
          cu_needsCleanup cleanupState))"

definition modalQueryCleanupPreview :: "(string \<Rightarrow> string \<Rightarrow> int) \<Rightarrow> clock \<Rightarrow> string \<Rightarrow> cleanup_state option" where
  "modalQueryCleanupPreview lc c watched =
     (let rawQuery = trim watched; cleanupState = buildQueryCleanupState lc c rawQuery None
      in if rawQuery = [] then None else if cu_needsCleanup cleanupState then Some cleanupState else None)"

definition begin_work :: "saved_task \<Rightarrow> sent_query list \<Rightarrow> saved_page \<Rightarrow> saved_page" where
  "begin_work task sent st =
     st\<lparr>sd_work := sd_work st @ [\<lparr>sw_task = task, sw_view = view_of st, sw_shown = length (pl_items st)\<rparr>],
        sd_sent := sent @ sd_sent st\<rparr>"

text \<open>After saving: the dialog closes and the list is asked for again, from its first page after a creation.\<close>

definition after_save :: "modal_mode \<Rightarrow> saved_filter list_view \<Rightarrow> saved_page \<Rightarrow> saved_page" where
  "after_save md view st =
     (let st1 = closeModal st
      in if vw_page view \<noteq> 1 \<and> md = Create_Mode then st1\<lparr>pl_currentPage := 1\<rparr> else start_list False view st1)"

definition handleSave ::
    "(string \<Rightarrow> string \<Rightarrow> int) \<Rightarrow> clock \<Rightarrow> string \<Rightarrow> string \<Rightarrow> string list \<Rightarrow> saved_page \<Rightarrow> saved_page" where
  "handleSave lc c name query_text tags st =
     (case form_payload lc c name query_text tags of
        (payload, changed) \<Rightarrow>
          if sv_name payload = [] \<or> sv_query payload = [] then pl_say (Warning zh_sv_incomplete) st
          else (case (sd_modalMode st, sd_editingItem st) of
                  (Create_Mode, _) \<Rightarrow>
                    begin_work (Saving Create_Mode changed) [\<lparr>sn_target = None, sn_payload = payload\<rparr>] st
                | (Edit_Mode, Some item) \<Rightarrow>
                    begin_work (Saving Edit_Mode changed) [\<lparr>sn_target = Some (sq_id item), sn_payload = payload\<rparr>] st
                | (Edit_Mode, None) \<Rightarrow> after_save Edit_Mode (view_of st) st))"

definition saved_text :: "modal_mode \<Rightarrow> bool \<Rightarrow> string" where
  "saved_text md changed =
     (if md = Create_Mode then (if changed then zh_sv_created_cleaned else zh_sv_created)
      else if changed then zh_sv_updated_cleaned else zh_sv_updated)"

section \<open>Deleting, running, cleaning\<close>

definition lower_includes :: "string \<Rightarrow> string \<Rightarrow> bool" where
  "lower_includes s p \<longleftrightarrow> js_includes (toLowerCase s) p"

text \<open>An error that says that the record does not exist.\<close>

definition missing_error :: "fail_reason \<Rightarrow> bool" where
  "missing_error e \<longleftrightarrow>
     (case fr_message e of None \<Rightarrow> False
      | Some m \<Rightarrow> list_ex (lower_includes m) [''not found'', zh_not_there, zh_was_deleted])
   \<or> fr_status e = Some 404"

definition handleDelete :: "string \<Rightarrow> saved_page \<Rightarrow> saved_page" where
  "handleDelete i = begin_work (Deleting_Saved i) []"

text \<open>The page shown may have lost its last entry.\<close>

definition after_delete :: "saved_work \<Rightarrow> saved_page \<Rightarrow> saved_page" where
  "after_delete w st =
     (if sw_shown w = 1 \<and> 1 < vw_page (sw_view w) then st\<lparr>pl_currentPage := vw_page (sw_view w) - 1\<rparr>
      else start_list False (sw_view w) st)"

text \<open>Running a saved query; the clipboard may refuse the text.\<close>

definition handleExecute :: "bool \<Rightarrow> saved_query \<Rightarrow> saved_page \<Rightarrow> saved_page" where
  "handleExecute refused item st =
     (let presetQuery = trim (sq_query item)
      in if presetQuery = [] then pl_say (Warning zh_sv_empty_query) st
         else (pl_say (if refused then Info (zh_going_to_search @ zh_but_not_copied)
                       else Success_Notice (zh_going_to_search @ zh_and_copied)) st)
              \<lparr>sd_started := Some presetQuery\<rparr>)"

definition savedQueryDiagnostics :: "(string \<Rightarrow> string \<Rightarrow> int) \<Rightarrow> clock \<Rightarrow> saved_page \<Rightarrow> (saved_query \<times> cleanup_state) list" where
  "savedQueryDiagnostics lc c st = map (\<lambda>item. (item, buildQueryCleanupState lc c (sq_query item) None)) (pl_items st)"

definition dirtySavedQueries :: "(string \<Rightarrow> string \<Rightarrow> int) \<Rightarrow> clock \<Rightarrow> saved_page \<Rightarrow> (saved_query \<times> cleanup_state) list" where
  "dirtySavedQueries lc c st = filter (cu_needsCleanup \<circ> snd) (savedQueryDiagnostics lc c st)"

definition performCleanupDirtyQueries :: "(string \<Rightarrow> string \<Rightarrow> int) \<Rightarrow> clock \<Rightarrow> saved_page \<Rightarrow> saved_page" where
  "performCleanupDirtyQueries lc c st =
     (let dirty = dirtySavedQueries lc c st
      in if dirty = [] then st
         else begin_work Cleaning
                (map (\<lambda>(item, cleanupState).
                   \<lparr>sn_target = Some (sq_id item),
                    sn_payload = \<lparr>sv_name = sq_name item, sv_query = cu_cleanedQuery cleanupState, sv_tags = sq_tags item,
                                  sv_description = None, sv_filters = None\<rparr>\<rparr>) dirty)
                (st\<lparr>sd_cleanupSubmitting := True\<rparr>))"

definition after_cleanup :: "saved_filter list_view \<Rightarrow> nat \<Rightarrow> nat \<Rightarrow> saved_page \<Rightarrow> saved_page" where
  "after_cleanup view successCount failedCount st =
     (let st1 = (if 0 < successCount
                 then start_list False view (pl_say (Success_Notice (zh_cleaned @ nat_to_string successCount @ zh_cleaned_saved)) st)
                 else st);
          st2 = (if 0 < failedCount then pl_say (Error_Notice (nat_to_string failedCount @ zh_clean_failed)) st1 else st1)
      in st2\<lparr>sd_cleanupSubmitting := False\<rparr>)"

text \<open>How the request, or the requests, of a work have ended.\<close>

datatype work_result = Work_Done | Was_Deleted bool | Cleaned nat nat | Work_Failed fail_reason

fun fits_work :: "saved_task \<Rightarrow> work_result \<Rightarrow> bool" where
  "fits_work (Saving _ _) r \<longleftrightarrow> (case r of Work_Done \<Rightarrow> True | Work_Failed _ \<Rightarrow> True | _ \<Rightarrow> False)"
| "fits_work (Deleting_Saved _) r \<longleftrightarrow> (case r of Was_Deleted _ \<Rightarrow> True | Work_Failed _ \<Rightarrow> True | _ \<Rightarrow> False)"
| "fits_work Cleaning r \<longleftrightarrow> (case r of Cleaned _ _ \<Rightarrow> True | _ \<Rightarrow> False)"

definition work_failed :: "saved_work \<Rightarrow> fail_reason \<Rightarrow> saved_page \<Rightarrow> saved_page" where
  "work_failed w e st =
     (case sw_task w of
        Deleting_Saved _ \<Rightarrow>
          (if missing_error e then after_delete w (pl_say (Warning zh_missing_record) st)
           else pl_say (Error_Notice (nullish (fr_message e) zh_delete_failed)) st)
      | _ \<Rightarrow>
          if (case fr_message e of None \<Rightarrow> False | Some m \<Rightarrow> js_includes m ''required'') then st
          else pl_say (Error_Notice (nullish (fr_message e) zh_sv_save_failed)) st)"

definition finish_work :: "nat \<Rightarrow> work_result \<Rightarrow> saved_page \<Rightarrow> saved_page" where
  "finish_work i r st =
     (let w = sd_work st ! i; st1 = st\<lparr>sd_work := drop_at i (sd_work st)\<rparr>
      in case r of
           Work_Done \<Rightarrow>
             (case sw_task w of
                Saving md changed \<Rightarrow> after_save md (sw_view w) (pl_say (Success_Notice (saved_text md changed)) st1)
              | _ \<Rightarrow> st1)
         | Was_Deleted deleted \<Rightarrow>
             after_delete w (pl_say (if deleted then Success_Notice zh_deleted else Warning zh_missing_record) st1)
         | Cleaned successCount failedCount \<Rightarrow> after_cleanup (sw_view w) successCount failedCount st1
         | Work_Failed e \<Rightarrow> work_failed w e st1)"

definition savedSummaryText :: "(int \<Rightarrow> string) \<Rightarrow> saved_page \<Rightarrow> string" where
  "savedSummaryText locale_number st =
     (if loading_placeholder st then zh_sv_loading
      else if pl_retrying st \<and> pl_items st = [] then zh_sv_retrying
      else formatSearchPageSummary locale_number (Fin (of_int (pl_total st))) zh_sv_unit (Some (shown_range st)) (Some zh_piece))"

definition savedEmptyDescription :: "saved_page \<Rightarrow> string" where
  "savedEmptyDescription st =
     resolveSearchPageEmptyDescription (sf_search (pl_filter st) \<noteq> [] \<or> nullish (sf_tag (pl_filter st)) [] \<noteq> []) zh_sv_no_match zh_sv_none"

section \<open>Runs\<close>

inductive saved_run :: "(string \<Rightarrow> string \<Rightarrow> int) \<Rightarrow> clock \<Rightarrow> saved_page \<Rightarrow> bool" for lc c where
  opened: "saved_run lc c (open_saved_page prefs)"
| view_follows: "saved_run lc c st \<Longrightarrow> saved_run lc c (follow_view st)"
| list_answered: "saved_run lc c st \<Longrightarrow> i < length (pl_requests st) \<Longrightarrow> saved_run lc c (finish_saved lc i answer st)"
| retried: "saved_run lc c st \<Longrightarrow> \<not> pl_retrying st \<Longrightarrow> saved_run lc c (retry_list st)"
| page_turned: "saved_run lc c st \<Longrightarrow> saved_run lc c (turn_to saved_key page sz st)"
| text_typed: "saved_run lc c st \<Longrightarrow> saved_run lc c (st\<lparr>sd_searchText := s\<rparr>)"
| searched: "saved_run lc c st \<Longrightarrow> saved_run lc c (search_saved v st)"
| tag_chosen: "saved_run lc c st \<Longrightarrow> saved_run lc c (choose_tag tag st)"
| filters_reset: "saved_run lc c st \<Longrightarrow> saved_run lc c (reset_saved st)"
| create_opened: "saved_run lc c st \<Longrightarrow> saved_run lc c (openCreateModal st)"
| edit_opened: "saved_run lc c st \<Longrightarrow> saved_run lc c (openEditModal item st)"
| modal_closed: "saved_run lc c st \<Longrightarrow> saved_run lc c (closeModal st)"
| save_clicked: "saved_run lc c st \<Longrightarrow> saved_run lc c (handleSave lc c name query_text tags st)"
| delete_confirmed: "saved_run lc c st \<Longrightarrow> saved_run lc c (handleDelete i st)"
| executed: "saved_run lc c st \<Longrightarrow> saved_run lc c (handleExecute refused item st)"
| cleanup_confirmed: "saved_run lc c st \<Longrightarrow> saved_run lc c (performCleanupDirtyQueries lc c st)"
| work_answered: "saved_run lc c st \<Longrightarrow> i < length (sd_work st) \<Longrightarrow> fits_work (sw_task (sd_work st ! i)) r
    \<Longrightarrow> saved_run lc c (finish_work i r st)"

section \<open>What holds on every run\<close>

lemma list_ok_saved:
  "list_ok st \<Longrightarrow> list_ok (closeModal st)" "list_ok st \<Longrightarrow> list_ok (begin_work task sent st)"
  by (auto simp: closeModal_def begin_work_def elim: list_ok_cong)

lemma after_save_ok: "list_ok st \<Longrightarrow> list_ok (after_save md view st)"
  by (auto simp: after_save_def closeModal_def Let_def intro!: start_list_ok elim: list_ok_cong)

lemma after_delete_ok: "list_ok st \<Longrightarrow> list_ok (after_delete w st)"
  by (auto simp: after_delete_def intro!: start_list_ok elim: list_ok_cong)

lemma after_cleanup_ok: "list_ok st \<Longrightarrow> list_ok (after_cleanup view m n st)"
  unfolding after_cleanup_def Let_def
  by (rule list_ok_cong [of "if 0 < n then _ else _"]) (auto intro: start_list_ok pl_say_ok)

lemma saved_save_ok: "list_ok st \<Longrightarrow> list_ok (handleSave lc c name query_text tags st)"
  by (auto simp: handleSave_def intro!: pl_say_ok list_ok_saved after_save_ok split: prod.split modal_mode.split option.split)

lemma finish_saved_ok:
  assumes "list_ok st"
  shows "list_ok (finish_work i r st)"
proof -
  have "list_ok (st\<lparr>sd_work := drop_at i (sd_work st)\<rparr>)" using assms by (rule list_ok_cong) simp_all
  then show ?thesis
    by (auto simp: finish_work_def Let_def work_failed_def intro!: after_save_ok after_delete_ok after_cleanup_ok pl_say_ok
        split: work_result.split saved_task.split)
qed

lemma saved_run_ok: "saved_run lc c st \<Longrightarrow> list_ok st"
proof (induction rule: saved_run.induct)
  case (opened prefs)
  show ?case unfolding open_saved_page_def Let_def by (rule follow_view_ok) (simp add: list_ok_def)
next
  case (list_answered st i answer)
  then show ?case unfolding finish_saved_def by (intro finish_list_ok) (simp_all add: take_tags_def)
next
  case (cleanup_confirmed st)
  then show ?case
    by (auto simp: performCleanupDirtyQueries_def Let_def intro!: list_ok_saved elim: list_ok_cong)
qed (auto simp: search_saved_def choose_tag_def reset_saved_def openCreateModal_def openEditModal_def handleDelete_def
    handleExecute_def Let_def pl_say_def intro!: follow_view_ok retry_list_ok turn_to_ok list_ok_saved saved_save_ok finish_saved_ok
    elim: list_ok_cong)

section \<open>Properties\<close>

text \<open>C33: The saved queries on show are the newest answer: on every run the mark of loading is on exactly while the newest
  request is under way, and an answer to any other request changes neither the entries nor the page, the filters, the
  tags or the error on show.\<close>

theorem saved_page_shows_newest:
  assumes "saved_run lc c st"
  shows "(pl_loading st \<longleftrightarrow> pl_latest st \<in> lq_id ` set (pl_requests st))
    \<and> (\<forall>i answer. lq_id (pl_requests st ! i) \<noteq> pl_latest st \<longrightarrow>
         (\<exists>rs b. finish_saved lc i answer st = st\<lparr>pl_requests := rs, pl_retrying := b\<rparr>))"
  using saved_run_ok [OF assms] by (auto simp: list_ok_def finish_saved_def overtaken_list)

text \<open>A page turn that fails is undone: when the page or its size is changed and the list for it cannot be loaded, the page
  goes back to the page and the size it came from, keeps its entries and says so; no error is left on show.\<close>

theorem failed_saved_turn_undone:
  assumes "pl_followed st = Some (view_of st)" "view_of (turn_to saved_key page sz st) \<noteq> view_of st"
  shows "let st' = finish_saved lc (length (pl_requests st)) (Inl reason) (follow_view (turn_to saved_key page sz st))
     in view_of st' = view_of st \<and> pl_items st' = pl_items st \<and> pl_loadedPage st' = pl_loadedPage st
      \<and> pl_errorText st' = [] \<and> pl_notices st' = Warning zh_sv_turn_failed # pl_notices st \<and> \<not> pl_loading st'"
  unfolding finish_saved_def by (rule failed_turn [OF refl assms(2,1)])

text \<open>A deletion answered late shows the view it was clicked in: the list is asked for with the page and the filters of the
  click, that request counts as the newest, and its entries are then on show under the page and the filters chosen
  meanwhile; nothing asks for the list of the view on show again.\<close>

theorem late_deletion_shows_old_view:
  assumes "sd_work st ! i = \<lparr>sw_task = Deleting_Saved x, sw_view = v, sw_shown = n\<rparr>" "n \<noteq> 1"
    and "ls_page result = vw_page v" "ls_pageSize result = vw_pageSize v" "pl_followed st = Some (view_of st)"
  shows "let st' = finish_saved lc (length (pl_requests st)) (Inr result) (finish_work i (Was_Deleted True) st)
     in lq_view (List.last (pl_requests (finish_work i (Was_Deleted True) st))) = v
      \<and> pl_items st' = ls_items result \<and> view_of st' = view_of st \<and> \<not> pl_loading st' \<and> follow_view st' = st'"
  using assms
  by (simp add: finish_work_def after_delete_def start_list_def pl_say_def finish_saved_def finish_list_def show_list_def take_tags_def
      settle_list_def follow_view_def view_of_def Let_def)

section \<open>Examples\<close>

definition plain_saved :: "string \<Rightarrow> saved_query" where
  "plain_saved i = \<lparr>sq_id = i, sq_name = i, sq_description = [], sq_query = ''timeout'', sq_filters = JObj [], sq_tags = [''ops''],
     sq_createdAt = [], sq_updatedAt = None, sq_runCount = Fin 0\<rparr>"

definition two_saved :: "saved_query listed" where
  "two_saved = \<lparr>ls_items = [plain_saved ''a'', plain_saved ''b''], ls_total = 30, ls_page = 1, ls_pageSize = 12, ls_hasNext = True,
     ls_tags = Some [''ops'']\<rparr>"

definition saved_clock :: clock where "saved_clock = \<lparr>now_ms = 0, host_date = \<lambda>_. None\<rparr>"

definition shown_saved :: saved_page where
  "shown_saved = finish_saved (\<lambda>_ _. 0) 0 (Inr two_saved) (open_saved_page initial_preferences)"

text \<open>The tag is chosen while the deletion is under way.\<close>

definition tag_chosen_meanwhile :: saved_page where
  "tag_chosen_meanwhile = finish_saved (\<lambda>_ _. 0) 0 (Inr two_saved) (follow_view (choose_tag (Some ''ops'') (handleDelete ''a'' shown_saved)))"

theorem saved_page_shows_newest_witness:
  "pl_loading (follow_view (search_saved ''x'' (retry_list shown_saved)))
   \<and> pl_latest (follow_view (search_saved ''x'' (retry_list shown_saved)))
       \<in> lq_id ` set (pl_requests (follow_view (search_saved ''x'' (retry_list shown_saved))))"
proof -
  have "saved_run (\<lambda>_ _. 0) saved_clock (follow_view (search_saved ''x'' (retry_list shown_saved)))"
    unfolding shown_saved_def
    by (intro view_follows searched retried list_answered opened) code_simp+
  moreover have "pl_loading (follow_view (search_saved ''x'' (retry_list shown_saved)))" by code_simp
  ultimately show ?thesis using saved_page_shows_newest by blast
qed

theorem failed_saved_turn_undone_witness:
  "pl_currentPage (finish_saved (\<lambda>_ _. 0) 0 (Inl None) (follow_view (turn_to saved_key 3 None shown_saved))) = 1"
proof -
  have f: "pl_followed shown_saved = Some (view_of shown_saved)" "view_of (turn_to saved_key 3 None shown_saved) \<noteq> view_of shown_saved"
    "length (pl_requests shown_saved) = 0" "pl_currentPage shown_saved = 1" by code_simp+
  then show ?thesis
    using failed_saved_turn_undone [OF f(1,2), of "\<lambda>_ _. 0" None] by (simp add: Let_def view_of_def)
qed

theorem late_deletion_shows_old_view_witness:
  "sf_tag (pl_filter (finish_saved (\<lambda>_ _. 0) 0 (Inr two_saved) (finish_work 0 (Was_Deleted True) tag_chosen_meanwhile))) = Some ''ops''
   \<and> lq_view (List.last (pl_requests (finish_work 0 (Was_Deleted True) tag_chosen_meanwhile)))
       = \<lparr>vw_page = 1, vw_pageSize = 12, vw_filter = \<lparr>sf_search = [], sf_tag = None\<rparr>\<rparr>"
proof -
  let ?v = "\<lparr>vw_page = 1, vw_pageSize = 12, vw_filter = \<lparr>sf_search = [], sf_tag = None\<rparr>\<rparr>"
  have w: "sd_work tag_chosen_meanwhile ! 0 = \<lparr>sw_task = Deleting_Saved ''a'', sw_view = ?v, sw_shown = 2\<rparr>"
    "ls_page two_saved = vw_page ?v" "ls_pageSize two_saved = vw_pageSize ?v"
    "pl_followed tag_chosen_meanwhile = Some (view_of tag_chosen_meanwhile)" "length (pl_requests tag_chosen_meanwhile) = 0"
    "sf_tag (pl_filter tag_chosen_meanwhile) = Some ''ops''" by code_simp+
  then show ?thesis
    using late_deletion_shows_old_view [OF w(1) _ w(2-4), of "\<lambda>_ _. 0"] by (simp add: Let_def view_of_def)
qed

end
