(* ===== verification/History_Page.thy ===== *)
theory History_Page
  imports Saved_Page
begin

text \<open>
  The page of the query history (\<open>pages/search/SearchHistory.tsx\<close>): a list with pages, a selection of entries, deleting
  one or all selected, running a query again and keeping it as a saved query. It shares the list with the page of the
  saved queries and the test for a missing record.
\<close>

section \<open>The state\<close>

text \<open>The bounds of the chosen days are new objects after every choice; \<open>hf_choice\<close> tells them apart.\<close>

record history_filter =
  hf_keyword :: string
  hf_from :: "string option"
  hf_to :: "string option"
  hf_choice :: nat

datatype history_task = Delete_One | Delete_Selected | Bookmark bool

record history_work =
  hw_task :: history_task
  hw_view :: "history_filter list_view"
  hw_total :: int

datatype history_call = Delete_History string | Create_Saved saved_payload

record history_page = "(query_history, history_filter) paged_list" +
  hi_keywordInput :: string
  hi_selectedRowKeys :: "string list"
  hi_batchDeleting :: bool
  hi_confirming :: "(query_history \<times> saved_payload) option"
  hi_work :: "history_work list"
  hi_sent :: "history_call list"
  hi_started :: "string option"

abbreviation history_key :: string where "history_key \<equiv> ''searchHistory''"

section \<open>The list and the selection\<close>

definition finish_history :: "nat \<Rightarrow> string option + query_history listed \<Rightarrow> history_page \<Rightarrow> history_page" where
  "finish_history = finish_list history_key zh_hy_load_failed zh_hy_turn_failed (\<lambda>_ st. st)"

definition open_history_page :: "preferences \<Rightarrow> history_page" where
  "open_history_page prefs =
     (let n = nullish (jm_get (pageSizes prefs) history_key) 15
      in follow_view
           \<lparr>pl_items = [], pl_total = 0, pl_loading = False, pl_hasLoadedOnce = False, pl_errorText = [], pl_retrying = False,
            pl_currentPage = 1, pl_pageSize = n, pl_loadedPage = 1, pl_loadedPageSize = n,
            pl_filter = \<lparr>hf_keyword = [], hf_from = None, hf_to = None, hf_choice = 0\<rparr>, pl_pending = None, pl_latest = 0,
            pl_requests = [], pl_followed = None, pl_prefs = prefs, pl_notices = [], hi_keywordInput = [], hi_selectedRowKeys = [],
            hi_batchDeleting = False, hi_confirming = None, hi_work = [], hi_sent = [], hi_started = None\<rparr>)"

definition handleSearch :: "string \<Rightarrow> history_page \<Rightarrow> history_page" where
  "handleSearch v st =
     st\<lparr>hi_selectedRowKeys := [], pl_currentPage := 1, pl_filter := (pl_filter st)\<lparr>hf_keyword := trim v\<rparr>\<rparr>"

definition choose_dates :: "string option \<Rightarrow> string option \<Rightarrow> history_page \<Rightarrow> history_page" where
  "choose_dates f t st =
     st\<lparr>hi_selectedRowKeys := [], pl_currentPage := 1,
        pl_filter := (pl_filter st)\<lparr>hf_from := f, hf_to := t, hf_choice := hf_choice (pl_filter st) + 1\<rparr>\<rparr>"

definition reset_history :: "history_page \<Rightarrow> history_page" where
  "reset_history st =
     st\<lparr>hi_selectedRowKeys := [], hi_keywordInput := [], pl_currentPage := 1,
        pl_filter := \<lparr>hf_keyword = [], hf_from = None, hf_to = None, hf_choice = 0\<rparr>\<rparr>"

definition turn_history :: "int \<Rightarrow> int option \<Rightarrow> history_page \<Rightarrow> history_page" where
  "turn_history page sz st = turn_to history_key page sz (st\<lparr>hi_selectedRowKeys := []\<rparr>)"

text \<open>Adding to and taking from the selection, a set in order of insertion.\<close>

definition add_key :: "string \<Rightarrow> string list \<Rightarrow> string list" where
  "add_key k ks = (if k \<in> set ks then ks else ks @ [k])"

definition handleVisibleRowsSelectionChange :: "bool \<Rightarrow> history_page \<Rightarrow> history_page" where
  "handleVisibleRowsSelectionChange checked st =
     st\<lparr>hi_selectedRowKeys :=
          fold (\<lambda>row ks. if checked then add_key (qh_id row) ks else filter (\<lambda>k. k \<noteq> qh_id row) ks) (pl_items st)
            (js_uniq (hi_selectedRowKeys st))\<rparr>"

definition handleRowSelectionChange :: "string \<Rightarrow> bool \<Rightarrow> history_page \<Rightarrow> history_page" where
  "handleRowSelectionChange rowID checked st =
     st\<lparr>hi_selectedRowKeys :=
          (let ks = js_uniq (hi_selectedRowKeys st) in if checked then add_key rowID ks else filter (\<lambda>k. k \<noteq> rowID) ks)\<rparr>"

definition visibleRowsSelectedCount :: "history_page \<Rightarrow> nat" where
  "visibleRowsSelectedCount st = length (filter (\<lambda>row. qh_id row \<in> set (hi_selectedRowKeys st)) (pl_items st))"

definition allVisibleRowsSelected :: "history_page \<Rightarrow> bool" where
  "allVisibleRowsSelected st \<longleftrightarrow> pl_items st \<noteq> [] \<and> visibleRowsSelectedCount st = length (pl_items st)"

definition someVisibleRowsSelected :: "history_page \<Rightarrow> bool" where
  "someVisibleRowsSelected st \<longleftrightarrow> 0 < visibleRowsSelectedCount st \<and> visibleRowsSelectedCount st < length (pl_items st)"

section \<open>Deleting\<close>

definition begin_history :: "history_task \<Rightarrow> history_call list \<Rightarrow> history_page \<Rightarrow> history_page" where
  "begin_history task calls st =
     st\<lparr>hi_work := hi_work st @ [\<lparr>hw_task = task, hw_view = view_of st, hw_total = pl_total st\<rparr>],
        hi_sent := rev calls @ hi_sent st\<rparr>"

definition delete_history :: "string \<Rightarrow> history_page \<Rightarrow> history_page" where
  "delete_history historyID = begin_history Delete_One [Delete_History historyID]"

definition handleBatchDelete :: "history_page \<Rightarrow> history_page" where
  "handleBatchDelete st =
     (if hi_selectedRowKeys st = [] then st
      else begin_history Delete_Selected (map Delete_History (hi_selectedRowKeys st)) (st\<lparr>hi_batchDeleting := True\<rparr>))"

text \<open>The page shown after entries have been deleted: the last one that can still have entries.\<close>

definition page_after_delete :: "int \<Rightarrow> int \<Rightarrow> int \<Rightarrow> int \<Rightarrow> int" where
  "page_after_delete totl pageSize currentPage deletedCount =
     (let nextTotal = max 0 (totl - deletedCount); maxPage = max 1 (- ((- nextTotal) div pageSize))
      in min currentPage maxPage)"

definition refreshAfterDelete :: "history_work \<Rightarrow> int \<Rightarrow> history_page \<Rightarrow> history_page" where
  "refreshAfterDelete w deletedCount st =
     (let st1 = st\<lparr>hi_selectedRowKeys := []\<rparr>; v = hw_view w;
          nextPage = page_after_delete (hw_total w) (vw_pageSize v) (vw_page v) deletedCount
      in if deletedCount \<le> 0 then start_list False v st1
         else if nextPage \<noteq> vw_page v then st1\<lparr>pl_currentPage := nextPage\<rparr>
         else start_list False v st1)"

text \<open>How the requests of a work have ended: per entry, whether it was deleted, or why not.\<close>

type_synonym delete_result = "fail_reason + bool"

definition is_missing :: "delete_result \<Rightarrow> bool" where
  "is_missing r = (case r of Inr deleted \<Rightarrow> \<not> deleted | Inl e \<Rightarrow> missing_error e)"

definition finish_delete :: "history_work \<Rightarrow> delete_result \<Rightarrow> history_page \<Rightarrow> history_page" where
  "finish_delete w r st =
     (case r of
        Inr deleted \<Rightarrow>
          refreshAfterDelete w 1 (pl_say (if deleted then Success_Notice zh_deleted else Warning zh_missing_record) st)
      | Inl e \<Rightarrow>
          if missing_error e then refreshAfterDelete w 1 (pl_say (Warning zh_missing_record) st)
          else pl_say (Error_Notice (nullish (fr_message e) zh_delete_failed)) st)"

definition finish_batch :: "history_work \<Rightarrow> delete_result list \<Rightarrow> history_page \<Rightarrow> history_page" where
  "finish_batch w rs st =
     (let deletedCount = length (filter (\<lambda>r. r = Inr True) rs);
          missingCount = length (filter is_missing rs);
          failedCount = length rs - deletedCount - missingCount;
          affectedCount = deletedCount + missingCount;
          st1 = (if 0 < deletedCount
                 then pl_say (Success_Notice (zh_hy_deleted @ nat_to_string deletedCount @ zh_hy_records)) st else st);
          st2 = (if 0 < affectedCount then refreshAfterDelete w (int affectedCount) st1
                 else start_list False (hw_view w) (st1\<lparr>hi_selectedRowKeys := []\<rparr>));
          st3 = (if 0 < missingCount then pl_say (Warning (nat_to_string missingCount @ zh_hy_missing)) st2 else st2);
          st4 = (if 0 < failedCount then pl_say (Error_Notice (nat_to_string failedCount @ zh_hy_failed)) st3 else st3)
      in st4\<lparr>hi_batchDeleting := False\<rparr>)"

section \<open>Running again and keeping\<close>

definition handleReplay :: "(string \<Rightarrow> string \<Rightarrow> int) \<Rightarrow> clock \<Rightarrow> bool \<Rightarrow> query_history \<Rightarrow> history_page \<Rightarrow> history_page" where
  "handleReplay lc c refused entry st =
     (let cleanupState = buildQueryCleanupState lc c (qh_query entry) None;
          replayQuery = trim (cu_rawQuery cleanupState);
          blank = (\<lambda>b. trim (nullish b []) = []);
          hasHistoricalTimeRange =
            (case pq_timeRange (cu_normalized cleanupState) of
               None \<Rightarrow> False | Some r \<Rightarrow> \<not> blank (Some (pr_from r)) \<or> \<not> blank (Some (pr_to r)));
          replayMessage = (if hasHistoricalTimeRange then zh_hy_replay_range else zh_going_to_search)
      in (pl_say (if refused then Info (replayMessage @ zh_but_not_copied) else Success_Notice (replayMessage @ zh_and_copied)) st)
           \<lparr>hi_started := Some replayQuery\<rparr>)"

text \<open>\<open>nowText\<close> is the local rendering of the time of the click.\<close>

definition bookmark_payload :: "(string \<Rightarrow> string \<Rightarrow> int) \<Rightarrow> clock \<Rightarrow> string \<Rightarrow> query_history \<Rightarrow> saved_payload" where
  "bookmark_payload lc c nowText entry =
     \<lparr>sv_name = zh_hy_name @ nowText, sv_query = cu_cleanedQuery (buildQueryCleanupState lc c (qh_query entry) None),
      sv_tags = [zh_hy_tag], sv_description = None, sv_filters = None\<rparr>"

definition bookmark_stripped :: "(string \<Rightarrow> string \<Rightarrow> int) \<Rightarrow> clock \<Rightarrow> query_history \<Rightarrow> bool" where
  "bookmark_stripped lc c entry = pq_strippedTimeRange (cu_normalized (buildQueryCleanupState lc c (qh_query entry) None))"

text \<open>A query of the old form is kept only after a dialog.\<close>

definition handleBookmark ::
    "(string \<Rightarrow> string \<Rightarrow> int) \<Rightarrow> clock \<Rightarrow> string \<Rightarrow> query_history \<Rightarrow> history_page \<Rightarrow> history_page" where
  "handleBookmark lc c nowText entry st =
     (let payload = bookmark_payload lc c nowText entry
      in if \<not> cu_needsCleanup (buildQueryCleanupState lc c (qh_query entry) None)
         then begin_history (Bookmark (bookmark_stripped lc c entry)) [Create_Saved payload] st
         else st\<lparr>hi_confirming := Some (entry, payload)\<rparr>)"

definition confirm_bookmark :: "(string \<Rightarrow> string \<Rightarrow> int) \<Rightarrow> clock \<Rightarrow> history_page \<Rightarrow> history_page" where
  "confirm_bookmark lc c st =
     (case hi_confirming st of
        None \<Rightarrow> st
      | Some (entry, payload) \<Rightarrow>
          begin_history (Bookmark (bookmark_stripped lc c entry)) [Create_Saved payload] (st\<lparr>hi_confirming := None\<rparr>))"

definition finish_bookmark :: "bool \<Rightarrow> string option option \<Rightarrow> history_page \<Rightarrow> history_page" where
  "finish_bookmark stripped failure st =
     (case failure of
        None \<Rightarrow> pl_say (Success_Notice (if stripped then zh_hy_bookmarked_cleaned else zh_hy_bookmarked)) st
      | Some reason \<Rightarrow> pl_say (Error_Notice (nullish reason zh_hy_bookmark_failed)) st)"

datatype history_result = One_Result delete_result | Batch_Results "delete_result list" | Bookmark_Result "string option option"

fun fits_history :: "history_task \<Rightarrow> history_result \<Rightarrow> bool" where
  "fits_history Delete_One r \<longleftrightarrow> (case r of One_Result _ \<Rightarrow> True | _ \<Rightarrow> False)"
| "fits_history Delete_Selected r \<longleftrightarrow> (case r of Batch_Results _ \<Rightarrow> True | _ \<Rightarrow> False)"
| "fits_history (Bookmark _) r \<longleftrightarrow> (case r of Bookmark_Result _ \<Rightarrow> True | _ \<Rightarrow> False)"

definition finish_history_work :: "nat \<Rightarrow> history_result \<Rightarrow> history_page \<Rightarrow> history_page" where
  "finish_history_work i r st =
     (let w = hi_work st ! i; st1 = st\<lparr>hi_work := drop_at i (hi_work st)\<rparr>
      in case r of
           One_Result d \<Rightarrow> finish_delete w d st1
         | Batch_Results ds \<Rightarrow> finish_batch w ds st1
         | Bookmark_Result f \<Rightarrow>
             (case hw_task w of Bookmark stripped \<Rightarrow> finish_bookmark stripped f st1 | _ \<Rightarrow> st1))"

section \<open>What the page shows\<close>

definition historyBackgroundLoading :: "history_page \<Rightarrow> bool" where
  "historyBackgroundLoading st \<longleftrightarrow> pl_loading st \<and> pl_items st \<noteq> [] \<and> \<not> pl_retrying st \<and> \<not> hi_batchDeleting st"

definition historyEmptyDescription :: "history_page \<Rightarrow> string" where
  "historyEmptyDescription st =
     resolveSearchPageEmptyDescription
       (trim (hf_keyword (pl_filter st)) \<noteq> [] \<or> hf_from (pl_filter st) \<noteq> None \<or> hf_to (pl_filter st) \<noteq> None)
       zh_hy_no_match zh_hy_none"

definition historySummaryText :: "(int \<Rightarrow> string) \<Rightarrow> history_page \<Rightarrow> string" where
  "historySummaryText locale_number st =
     (if loading_placeholder st then zh_hy_loading
      else if pl_retrying st \<and> pl_items st = [] then zh_hy_retrying
      else formatSearchPageSummary locale_number (Fin (of_int (pl_total st))) zh_hy_unit (Some (shown_range st)) (Some zh_unit_items))"

section \<open>Runs\<close>

inductive history_run :: "(string \<Rightarrow> string \<Rightarrow> int) \<Rightarrow> clock \<Rightarrow> history_page \<Rightarrow> bool" for lc c where
  history_opened: "history_run lc c (open_history_page prefs)"
| history_follows: "history_run lc c st \<Longrightarrow> history_run lc c (follow_view st)"
| history_answered: "history_run lc c st \<Longrightarrow> i < length (pl_requests st) \<Longrightarrow> history_run lc c (finish_history i answer st)"
| history_retried: "history_run lc c st \<Longrightarrow> \<not> pl_retrying st \<Longrightarrow> history_run lc c (retry_list st)"
| history_turned: "history_run lc c st \<Longrightarrow> history_run lc c (turn_history page sz st)"
| keyword_typed: "history_run lc c st \<Longrightarrow> history_run lc c (st\<lparr>hi_keywordInput := s\<rparr>)"
| history_searched: "history_run lc c st \<Longrightarrow> history_run lc c (handleSearch v st)"
| dates_chosen: "history_run lc c st \<Longrightarrow> history_run lc c (choose_dates f t st)"
| history_reset: "history_run lc c st \<Longrightarrow> history_run lc c (reset_history st)"
| rows_chosen: "history_run lc c st \<Longrightarrow> history_run lc c (handleVisibleRowsSelectionChange checked st)"
| row_chosen: "history_run lc c st \<Longrightarrow> history_run lc c (handleRowSelectionChange rowID checked st)"
| table_chosen: "history_run lc c st \<Longrightarrow> distinct ks \<Longrightarrow> history_run lc c (st\<lparr>hi_selectedRowKeys := ks\<rparr>)"
| delete_clicked: "history_run lc c st \<Longrightarrow> history_run lc c (delete_history historyID st)"
| batch_clicked: "history_run lc c st \<Longrightarrow> history_run lc c (handleBatchDelete st)"
| replayed: "history_run lc c st \<Longrightarrow> history_run lc c (handleReplay lc c refused entry st)"
| bookmark_clicked: "history_run lc c st \<Longrightarrow> history_run lc c (handleBookmark lc c nowText entry st)"
| bookmark_confirmed: "history_run lc c st \<Longrightarrow> history_run lc c (confirm_bookmark lc c st)"
| bookmark_cancelled: "history_run lc c st \<Longrightarrow> history_run lc c (st\<lparr>hi_confirming := None\<rparr>)"
| history_work_answered: "history_run lc c st \<Longrightarrow> i < length (hi_work st) \<Longrightarrow> fits_history (hw_task (hi_work st ! i)) r
    \<Longrightarrow> history_run lc c (finish_history_work i r st)"

section \<open>What holds on every run\<close>

text \<open>A selection names each entry once.\<close>

definition history_ok :: "history_page \<Rightarrow> bool" where
  "history_ok st \<longleftrightarrow> list_ok st \<and> distinct (hi_selectedRowKeys st)"

lemma history_ok_cong:
  "history_ok st \<Longrightarrow> pl_requests st' = pl_requests st \<Longrightarrow> pl_latest st' = pl_latest st \<Longrightarrow> pl_loading st' = pl_loading st
   \<Longrightarrow> distinct (hi_selectedRowKeys st) \<longrightarrow> distinct (hi_selectedRowKeys st') \<Longrightarrow> history_ok st'"
  by (auto simp: history_ok_def elim: list_ok_cong)

lemma start_list_keys [simp]: "hi_selectedRowKeys (start_list retry view st) = hi_selectedRowKeys st"
  by (simp add: start_list_def Let_def)

lemma history_ok_simps [intro]:
  "history_ok st \<Longrightarrow> history_ok (start_list retry view st)" "history_ok st \<Longrightarrow> history_ok (follow_view st)"
  "history_ok st \<Longrightarrow> history_ok (retry_list st)" "history_ok st \<Longrightarrow> history_ok (turn_to pageKey page sz st)"
  "history_ok st \<Longrightarrow> history_ok (pl_say n st)" "history_ok st \<Longrightarrow> history_ok (begin_history task calls st)"
  "history_ok st \<Longrightarrow> history_ok (st\<lparr>hi_selectedRowKeys := []\<rparr>)" "history_ok st \<Longrightarrow> history_ok (st\<lparr>hi_batchDeleting := b\<rparr>)"
  "history_ok st \<Longrightarrow> history_ok (st\<lparr>hi_confirming := x\<rparr>)"
  by (auto simp: history_ok_def follow_view_def retry_list_def turn_to_def set_page_size_def pl_say_def begin_history_def Let_def
      intro!: start_list_ok elim: list_ok_cong)

lemma add_key_distinct: "distinct ks \<Longrightarrow> distinct (add_key k ks)"
  by (simp add: add_key_def)

lemma fold_keys_distinct:
  "distinct ks \<Longrightarrow> distinct (fold (\<lambda>row ks. if checked then add_key (qh_id row) ks else filter (\<lambda>k. k \<noteq> qh_id row) ks) rows ks)"
  by (induction rows arbitrary: ks) (simp_all add: add_key_distinct)

lemma refreshAfterDelete_ok: "history_ok st \<Longrightarrow> history_ok (refreshAfterDelete w n st)"
  unfolding refreshAfterDelete_def Let_def by (auto elim: history_ok_cong)

lemma finish_delete_ok: "history_ok st \<Longrightarrow> history_ok (finish_delete w r st)"
  by (auto simp: finish_delete_def intro!: refreshAfterDelete_ok split: sum.split)

lemma finish_batch_ok: "history_ok st \<Longrightarrow> history_ok (finish_batch w rs st)"
  unfolding finish_batch_def Let_def by (auto intro!: refreshAfterDelete_ok history_ok_simps)

lemma finish_history_work_ok:
  assumes "history_ok st" shows "history_ok (finish_history_work i r st)"
proof -
  have "history_ok (st\<lparr>hi_work := drop_at i (hi_work st)\<rparr>)" using assms by (rule history_ok_cong) simp_all
  then show ?thesis
    by (auto simp: finish_history_work_def finish_bookmark_def Let_def intro!: finish_delete_ok finish_batch_ok
        split: history_result.split history_task.split option.split)
qed

lemma history_run_ok: "history_run lc c st \<Longrightarrow> history_ok st"
proof (induction rule: history_run.induct)
  case (history_opened prefs)
  show ?case unfolding open_history_page_def Let_def
    by (rule history_ok_simps) (simp add: history_ok_def list_ok_def)
next
  case (history_answered st i answer)
  moreover have "hi_selectedRowKeys (finish_history i answer st) = hi_selectedRowKeys st"
    by (simp add: finish_history_def finish_list_def fail_list_def show_list_def settle_list_def set_page_size_def pl_say_def Let_def
        split: sum.split)
  ultimately show ?case
    unfolding history_ok_def finish_history_def by (auto intro!: finish_list_ok)
next
  case (rows_chosen st checked)
  show ?case using rows_chosen.IH
    unfolding handleVisibleRowsSelectionChange_def
    by (rule history_ok_cong) (simp_all add: fold_keys_distinct js_uniq_distinct)
next
  case (row_chosen st rowID checked)
  show ?case using row_chosen.IH
    unfolding handleRowSelectionChange_def
    by (rule history_ok_cong) (simp_all add: add_key_distinct js_uniq_distinct Let_def)
next
  case (history_work_answered st i r)
  then show ?case by (intro finish_history_work_ok)
qed (auto simp: handleSearch_def choose_dates_def reset_history_def turn_history_def delete_history_def handleBatchDelete_def
    handleReplay_def handleBookmark_def confirm_bookmark_def pl_say_def Let_def elim: history_ok_cong split: option.split)

lemma ceil_div:
  fixes a b :: int
  assumes "0 < b"
  shows "a \<le> b * (- ((- a) div b))" "b * (- ((- a) div b)) < a + b"
proof -
  have "b * ((- a) div b) + (- a) mod b = - a" by (rule mult_div_mod_eq)
  moreover have "0 \<le> (- a) mod b" "(- a) mod b < b" using assms by simp_all
  moreover have "b * (- ((- a) div b)) = - (b * ((- a) div b))" by simp
  ultimately show "a \<le> b * (- ((- a) div b))" "b * (- ((- a) div b)) < a + b" by linarith+
qed

section \<open>Properties\<close>

text \<open>Deleting the selected entries asks once for each: on every run the requests of the deletion are one per selected
  entry, in the order of the selection, none is asked for twice, and nothing is sent without a selection.\<close>

theorem selected_deleted_once:
  assumes "history_run lc c st"
  shows "hi_sent (handleBatchDelete st) = rev (map Delete_History (hi_selectedRowKeys st)) @ hi_sent st
    \<and> distinct (map Delete_History (hi_selectedRowKeys st))
    \<and> hi_batchDeleting (handleBatchDelete st) = (hi_selectedRowKeys st \<noteq> [] \<or> hi_batchDeleting st)"
  using history_run_ok [OF assms]
  by (auto simp: handleBatchDelete_def begin_history_def history_ok_def distinct_map inj_on_def)

text \<open>After a deletion the page on show exists: the next page is between the first page and the current one, it is the
  first page or has an entry left, and the page is only left when no entry remains on it.\<close>

theorem page_after_delete_exists:
  assumes "0 < pageSize" "1 \<le> currentPage"
  shows "1 \<le> page_after_delete totl pageSize currentPage n \<and> page_after_delete totl pageSize currentPage n \<le> currentPage
    \<and> (page_after_delete totl pageSize currentPage n = 1 \<or> pageSize * (page_after_delete totl pageSize currentPage n - 1) < totl - n)
    \<and> (page_after_delete totl pageSize currentPage n = currentPage
       \<or> max 0 (totl - n) \<le> pageSize * page_after_delete totl pageSize currentPage n)"
proof -
  let ?t = "max 0 (totl - n)" let ?m = "- ((- ?t) div pageSize)" let ?p = "page_after_delete totl pageSize currentPage n"
  have p: "?p = min currentPage (max 1 ?m)" by (simp add: page_after_delete_def Let_def)
  note m = ceil_div [OF assms(1), of ?t]
  have last: "pageSize * (?p - 1) < totl - n" if "?p \<noteq> 1"
  proof -
    have le: "?p - 1 \<le> ?m - 1" and pos: "1 \<le> ?p - 1" using that p assms(2) by linarith+
    have "pageSize * 1 \<le> pageSize * (?p - 1)" using pos assms(1) by (intro mult_left_mono) simp_all
    moreover have "pageSize * (?p - 1) \<le> pageSize * (?m - 1)" using le assms(1) by (intro mult_left_mono) simp_all
    moreover have "pageSize * (?m - 1) < ?t" using m(2) by (simp add: right_diff_distrib)
    ultimately show ?thesis using assms(1) by linarith
  qed
  have "?t \<le> pageSize * ?p" if "?p \<noteq> currentPage"
  proof -
    have "?m \<le> ?p" using that p by linarith
    then have "pageSize * ?m \<le> pageSize * ?p" using assms(1) by (intro mult_left_mono) simp_all
    then show ?thesis using m(1) by linarith
  qed
  moreover have "1 \<le> ?p" "?p \<le> currentPage" using p assms(2) by simp_all
  ultimately show ?thesis using last by blast
qed

text \<open>A selection made while a page turn loads outlives it: turning the page clears the selection, but an entry of the
  old page that is selected before the new one has loaded stays selected when the new page is on show, and deleting
  the selection then deletes it.\<close>

theorem selection_outlives_page_turn:
  assumes "st1 = follow_view (turn_history page sz st)" "view_of (turn_history page sz st) \<noteq> view_of st"
    and "pl_followed st = Some (view_of st)" "qh_id row \<notin> qh_id ` set (ls_items result)"
  shows "let st2 = finish_history (length (pl_requests st)) (Inr result) (handleRowSelectionChange (qh_id row) True st1)
     in pl_items st2 = ls_items result \<and> hi_selectedRowKeys st2 = [qh_id row] \<and> visibleRowsSelectedCount st2 = 0
      \<and> hi_sent (handleBatchDelete st2) = Delete_History (qh_id row) # hi_sent st"
proof -
  have "pl_followed (turn_history page sz st) = pl_followed st"
    by (simp add: turn_history_def turn_to_def set_page_size_def Let_def)
  then have "st1 = start_list False (view_of (turn_history page sz st))
      ((turn_history page sz st)\<lparr>pl_followed := Some (view_of (turn_history page sz st))\<rparr>)"
    using assms(1-3) by (simp add: follow_view_def)
  moreover have "\<forall>x \<in> set (ls_items result). qh_id x \<noteq> qh_id row" using assms(4) by force
  ultimately show ?thesis
    by (simp add: start_list_def turn_history_def turn_to_def set_page_size_def finish_history_def finish_list_def show_list_def
        settle_list_def handleRowSelectionChange_def add_key_def visibleRowsSelectedCount_def handleBatchDelete_def
        begin_history_def nth_append filter_empty_conv image_iff Let_def)
qed

section \<open>Examples\<close>

definition plain_entry :: "string \<Rightarrow> query_history" where
  "plain_entry i = \<lparr>qh_id = i, qh_query = ''timeout'', qh_executedAt = [], qh_duration = Fin 12, qh_resultCount = Fin 3\<rparr>"

definition history_of :: "string list \<Rightarrow> int \<Rightarrow> query_history listed" where
  "history_of is p = \<lparr>ls_items = map plain_entry is, ls_total = 31, ls_page = p, ls_pageSize = 15, ls_hasNext = True, ls_tags = None\<rparr>"

definition shown_history :: history_page where
  "shown_history = finish_history 0 (Inr (history_of [''a'', ''b''] 1)) (open_history_page initial_preferences)"

theorem selected_deleted_once_witness:
  "hi_sent (handleBatchDelete (handleVisibleRowsSelectionChange True shown_history)) = [Delete_History ''b'', Delete_History ''a'']"
proof -
  have "history_run (\<lambda>_ _. 0) saved_clock (handleVisibleRowsSelectionChange True shown_history)"
    unfolding shown_history_def by (intro rows_chosen history_answered history_opened) code_simp
  moreover have "hi_selectedRowKeys (handleVisibleRowsSelectionChange True shown_history) = [''a'', ''b'']"
    "hi_sent (handleVisibleRowsSelectionChange True shown_history) = []" by code_simp+
  ultimately show ?thesis using selected_deleted_once by fastforce
qed

theorem page_after_delete_exists_witness:
  "page_after_delete 31 15 3 1 = 2 \<and> page_after_delete 31 15 3 1 \<le> 3"
  using page_after_delete_exists [of 15 3 31 1] by (simp add: page_after_delete_def)

theorem selection_outlives_page_turn_witness:
  "hi_sent (handleBatchDelete (finish_history 0 (Inr (history_of [''c''] 2))
     (handleRowSelectionChange ''a'' True (follow_view (turn_history 2 None shown_history))))) = [Delete_History ''a'']"
proof -
  have f: "view_of (turn_history 2 None shown_history) \<noteq> view_of shown_history"
    "pl_followed shown_history = Some (view_of shown_history)"
    "qh_id (plain_entry ''a'') \<notin> qh_id ` set (ls_items (history_of [''c''] 2))"
    "length (pl_requests shown_history) = 0" "hi_sent shown_history = []" "qh_id (plain_entry ''a'') = ''a''" by code_simp+
  then show ?thesis
    using selection_outlives_page_turn [OF refl f(1-3)] by (simp add: Let_def)
qed

end
