(* ===== verification/Rules_Page.thy ===== *)
theory Rules_Page
  imports Page_Base Alert_Api Alert_Prefill Search_Query Zh_Console
begin

text \<open>
  The page of the alert rules (\<open>pages/alerts/AlertRules.tsx\<close>): the list with its filters, the dialog for a new rule or
  a change, which may be opened with a draft made from an anomaly, deleting, enabling and disabling. \<open>ru_sent\<close> records
  every request. The fields of the form of the kind of rule that is not chosen are not on show and are not read.
\<close>

section \<open>The state\<close>

datatype rule_kind = Keyword_Rule | Level_Rule | Threshold_Rule

fun rule_kind_name :: "rule_kind \<Rightarrow> string" where
  "rule_kind_name Keyword_Rule = ''keyword''"
| "rule_kind_name Level_Rule = ''level_count''"
| "rule_kind_name Threshold_Rule = ''threshold''"

record rule_form =
  fm_name :: string
  fm_description :: string
  fm_owner :: string
  fm_labels :: "string list"
  fm_channels :: "string list"
  fm_ruleType :: rule_kind
  fm_severity :: string
  fm_keyword :: "string option"
  fm_keywordField :: "string option"
  fm_level :: "string option"
  fm_conditionMetric :: json
  fm_conditionOperator :: string
  fm_conditionThreshold :: "json option"
  fm_windowSeconds :: "json option"

datatype rule_modal = New_Rule | Change_Rule

datatype rule_request =
    Create_Rule rule_payload
  | Update_Rule "json option" rule_payload
  | Delete_Rule "json option"
  | Enable_Rule "json option"
  | Disable_Rule "json option"

datatype rule_work = Creating string | Updating string | Deleting_Rule alert_rule | Toggling alert_rule

text \<open>\<open>ru_loads\<close>: the requests for the list under way, and whether a dialog waits for each.\<close>

record rules_page =
  ru_rules :: "alert_rule list"
  ru_loading :: bool
  ru_error :: "string option"
  ru_searchQuery :: string
  ru_statusFilter :: "string option"
  ru_modalOpen :: bool
  ru_modalMode :: rule_modal
  ru_deleteModalOpen :: bool
  ru_currentRule :: "alert_rule option"
  ru_submitting :: bool
  ru_form :: rule_form
  ru_pendingPrefillDraft :: "rule_draft option"
  ru_availableChannels :: "notification_channel list"
  ru_channelsLoaded :: bool
  ru_lastUpdatedAt :: "int option"
  ru_loads :: "bool list"
  ru_work :: "rule_work list"
  ru_sent :: "rule_request list"
  ru_notices :: "notice list"

definition ru_say :: "notice \<Rightarrow> rules_page \<Rightarrow> rules_page" where
  "ru_say n st = st\<lparr>ru_notices := n # ru_notices st\<rparr>"

section \<open>The list\<close>

definition start_rules :: "bool \<Rightarrow> rules_page \<Rightarrow> rules_page" where
  "start_rules awaited st = st\<lparr>ru_loading := True, ru_error := None, ru_loads := ru_loads st @ [awaited]\<rparr>"

text \<open>The answer to a request for the list; a dialog that waits for it is released.\<close>

definition finish_rules :: "int \<Rightarrow> nat \<Rightarrow> string option + alert_rule list \<Rightarrow> rules_page \<Rightarrow> rules_page" where
  "finish_rules now i answer st =
     (let st1 = st\<lparr>ru_loads := drop_at i (ru_loads st)\<rparr>;
          st2 = (case answer of
                   Inr items \<Rightarrow> st1\<lparr>ru_rules := items, ru_lastUpdatedAt := Some now\<rparr>
                 | Inl reason \<Rightarrow>
                     (let msg = nullish reason zh_ru_load_failed
                      in (ru_say (Error_Notice msg) st1)\<lparr>ru_error := Some msg, ru_rules := []\<rparr>));
          st3 = st2\<lparr>ru_loading := False\<rparr>
      in if ru_loads st ! i then st3\<lparr>ru_submitting := False\<rparr> else st3)"

definition finish_channels :: "string option + notification_channel list \<Rightarrow> rules_page \<Rightarrow> rules_page" where
  "finish_channels answer st =
     st\<lparr>ru_availableChannels := (case answer of Inr items \<Rightarrow> items | Inl _ \<Rightarrow> []), ru_channelsLoaded := True\<rparr>"

text \<open>Texts of the service; a template shows a missing one as \<open>undefined\<close>.\<close>

definition shown_name :: "alert_rule \<Rightarrow> string" where
  "shown_name r = (case ar_name r of None \<Rightarrow> ''undefined'' | Some v \<Rightarrow> js_String v)"

definition visibleRules :: "rules_page \<Rightarrow> alert_rule list" where
  "visibleRules st =
     filter (\<lambda>r. \<not> isLocalAlertArtifact [map_option js_String (ar_name r), Some (js_String (ar_description r)), Some (ar_query r)])
       (ru_rules st)"

definition hiddenRuleCount :: "rules_page \<Rightarrow> nat" where
  "hiddenRuleCount st = length (ru_rules st) - length (visibleRules st)"

definition filteredRules :: "rules_page \<Rightarrow> alert_rule list" where
  "filteredRules st =
     filter (\<lambda>r.
       (ru_searchQuery st = [] \<or>
          (let q = toLowerCase (ru_searchQuery st)
           in js_includes (toLowerCase (shown_name r)) q \<or> js_includes (toLowerCase (ar_query r)) q))
       \<and> (case ru_statusFilter st of None \<Rightarrow> True | Some s \<Rightarrow> ar_status r = s))
       (visibleRules st)"

definition rule_count :: "string option \<Rightarrow> rules_page \<Rightarrow> nat" where
  "rule_count status st =
     length (filter (\<lambda>r. case status of None \<Rightarrow> True | Some s \<Rightarrow> ar_status r = s) (visibleRules st))"

definition rules_empty_text :: "rules_page \<Rightarrow> string" where
  "rules_empty_text st =
     (if 0 < hiddenRuleCount st \<and> ru_searchQuery st = [] \<and> ru_statusFilter st = None then zh_ru_none_hidden else zh_ru_none)"

definition rule_status_text :: "string \<Rightarrow> string" where
  "rule_status_text status =
     (if status = ''enabled'' then zh_ru_normal else if status = ''disabled'' then zh_ru_off else zh_abnormal)"

definition formatInterval :: "int \<Rightarrow> string" where
  "formatInterval seconds =
     (if seconds < 60 then rat_to_string (of_int seconds) @ ''s''
      else if seconds < 3600 then rat_to_string (of_int (seconds div 60)) @ ''m''
      else rat_to_string (of_int (seconds div 3600)) @ ''h'')"

definition formatTimeAgo :: "int \<Rightarrow> int \<Rightarrow> string" where
  "formatTimeAgo now timestamp =
     (let seconds = (now - timestamp) div 1000; minutes = seconds div 60; hours = minutes div 60;
          shown = (\<lambda>n unit. rat_to_string (of_int n) @ unit)
      in if seconds < 60 then shown seconds zh_seconds_ago
         else if minutes < 60 then shown minutes zh_minutes_ago
         else if hours < 24 then shown hours zh_hours_ago
         else shown (hours div 24) zh_days_ago)"

section \<open>The dialog\<close>

definition drafted :: "rule_draft option \<Rightarrow> (rule_draft \<Rightarrow> 'a) \<Rightarrow> 'a \<Rightarrow> 'a" where
  "drafted draft f d = (case draft of None \<Rightarrow> d | Some r \<Rightarrow> f r)"

definition openCreate :: "(string \<Rightarrow> string \<Rightarrow> int) \<Rightarrow> rule_draft option \<Rightarrow> rules_page \<Rightarrow> rules_page" where
  "openCreate lc draft st =
     st\<lparr>ru_modalMode := New_Rule, ru_currentRule := None, ru_modalOpen := True,
        ru_form :=
          \<lparr>fm_name = drafted draft rd_name [], fm_description = drafted draft rd_description [], fm_owner = drafted draft rd_owner [],
           fm_labels = drafted draft rd_labels [],
           fm_channels = drafted draft (\<lambda>r. resolveSuggestedNotificationChannelIDs lc r (ru_availableChannels st)) [],
           fm_ruleType = drafted draft (\<lambda>_. Threshold_Rule) Keyword_Rule,
           fm_severity = drafted draft (\<lambda>r. alert_severity_name (rd_severity r)) ''medium'',
           fm_keyword = None, fm_keywordField = None, fm_level = None,
           fm_conditionMetric = drafted draft (\<lambda>r. JStr (rd_conditionMetric r)) (JStr []),
           fm_conditionOperator = drafted draft (\<lambda>r. operator_name (rd_conditionOperator r)) ''gt'',
           fm_conditionThreshold = drafted draft (\<lambda>r. Some (JNum (rd_conditionThreshold r))) None,
           fm_windowSeconds = None\<rparr>\<rparr>"

text \<open>A draft left by the page of the anomalies is taken from the storage, and opens the dialog once rules and channels
  have been loaded.\<close>

definition take_draft :: "browser \<Rightarrow> rules_page \<Rightarrow> rules_page \<times> browser" where
  "take_draft b st =
     (case consumePendingAlertRuleDraft b of
        (None, b') \<Rightarrow> (st, b')
      | (Some draft, b') \<Rightarrow> (st\<lparr>ru_pendingPrefillDraft := Some draft\<rparr>, b'))"

definition follow_prefill :: "(string \<Rightarrow> string \<Rightarrow> int) \<Rightarrow> rules_page \<Rightarrow> rules_page" where
  "follow_prefill lc st =
     (case ru_pendingPrefillDraft st of
        None \<Rightarrow> st
      | Some draft \<Rightarrow>
          if ru_loading st \<or> \<not> ru_channelsLoaded st then st
          else ru_say (Info zh_ru_prefilled) ((openCreate lc (Some draft) st)\<lparr>ru_pendingPrefillDraft := None\<rparr>))"

text \<open>What a rule is, read back from the text of its condition.\<close>

definition KEYWORD_PATTERN :: rx where
  "KEYWORD_PATTERN =
     rx_seq [rx_lit ''contains('', rx_plus (not_char '',''), rx_char (CHR '',''), rx_star rx_space, rx_char (CHR 0x27),
       Grp 1 (rx_plus (not_char [CHR 0x27])), rx_char (CHR 0x27), rx_char (CHR '')'')]"

definition KEYWORD_FIELD_PATTERN :: rx where
  "KEYWORD_FIELD_PATTERN = rx_seq [rx_lit ''contains('', Grp 1 (rx_plus (not_char '','')), rx_char (CHR '','')]"

definition LEVEL_PATTERN :: rx where
  "LEVEL_PATTERN =
     rx_seq [rx_lit ''level='', rx_char (CHR 0x27), Grp 1 (rx_plus (not_char [CHR 0x27])), rx_char (CHR 0x27)]"

definition first_group :: "rx \<Rightarrow> string \<Rightarrow> string option" where
  "first_group r s = Option.bind (rx_match r s) (group 1)"

definition kind_of_rule :: "alert_rule \<Rightarrow> rule_kind" where
  "kind_of_rule r =
     (if js_includes (ar_query r) ''count(level='' then Level_Rule
      else if truthy (Some (ar_metric r)) \<and> ar_metric r \<noteq> JStr ''value'' \<and> ar_metric r \<noteq> JStr ''level_count''
      then Threshold_Rule else Keyword_Rule)"

definition json_default :: "json option \<Rightarrow> json \<Rightarrow> json" where
  "json_default v d = (case nullish_json v None of None \<Rightarrow> d | Some j \<Rightarrow> j)"

definition or_string :: "string option \<Rightarrow> string \<Rightarrow> string" where
  "or_string v d = or_str (nullish v []) d"

definition form_of_rule :: "alert_rule \<Rightarrow> rule_form" where
  "form_of_rule r =
     (let parsedDescription = parseAlertRuleDescription (js_String (ar_description r))
      in \<lparr>fm_name = shown_name r, fm_description = pd_body parsedDescription, fm_owner = pd_owner parsedDescription,
          fm_labels = pd_labels parsedDescription, fm_channels = ar_actions r, fm_ruleType = kind_of_rule r,
          fm_severity = ar_severity r,
          fm_keyword = Some (or_string (first_group KEYWORD_PATTERN (ar_query r)) []),
          fm_keywordField = Some (or_string (first_group KEYWORD_FIELD_PATTERN (ar_query r)) ''message''),
          fm_level = Some (or_string (first_group LEVEL_PATTERN (ar_query r)) ''ERROR''),
          fm_conditionMetric = or_json (Some (ar_metric r)) (JStr []),
          fm_conditionOperator = or_str (ar_operator r) ''gt'',
          fm_conditionThreshold = Some (json_default (Some (ar_threshold r)) (JNum 0)),
          fm_windowSeconds = Some (JNum 300)\<rparr>)"

definition openEdit :: "alert_rule \<Rightarrow> rules_page \<Rightarrow> rules_page" where
  "openEdit r st = st\<lparr>ru_modalMode := Change_Rule, ru_currentRule := Some r, ru_form := form_of_rule r, ru_modalOpen := True\<rparr>"

section \<open>Saving\<close>

definition form_condition :: "rule_form \<Rightarrow> json" where
  "form_condition f =
     (case fm_ruleType f of
        Keyword_Rule \<Rightarrow>
          JObj [(''keyword'', JStr (or_string (fm_keyword f) [])), (''field'', JStr (or_string (fm_keywordField f) ''message''))]
      | Level_Rule \<Rightarrow>
          JObj [(''level'', JStr (or_string (fm_level f) ''ERROR'')),
                (''threshold'', json_default (fm_conditionThreshold f) (JNum 10)),
                (''window_seconds'', json_default (fm_windowSeconds f) (JNum 300))]
      | Threshold_Rule \<Rightarrow>
          JObj [(''metric'', or_json (Some (fm_conditionMetric f)) (JStr [])),
                (''operator'', JStr (or_str (fm_conditionOperator f) ''gt'')),
                (''value'', json_default (fm_conditionThreshold f) (JNum 0))])"

definition form_payload :: "bool option \<Rightarrow> rule_form \<Rightarrow> rule_payload" where
  "form_payload enabled f =
     \<lparr>rp_name = Some (fm_name f),
      rp_description = Some (composeAlertRuleDescription (fm_description f) (fm_owner f) (fm_labels f)),
      rp_conditionType = Some (rule_kind_name (fm_ruleType f)), rp_condition = Some (form_condition f),
      rp_severity = Some (fm_severity f), rp_enabled = enabled, rp_notificationChannelIDs = Some (fm_channels f)\<rparr>"

definition buildCreatePayload :: "rule_form \<Rightarrow> rule_payload" where
  "buildCreatePayload = form_payload (Some True)"

text \<open>The rules of the form: what is on show and required is filled in.\<close>

definition filled_in :: "json option \<Rightarrow> bool" where
  "filled_in v \<longleftrightarrow> v \<noteq> None \<and> v \<noteq> Some JNull \<and> v \<noteq> Some (JStr [])"

definition form_valid :: "rule_form \<Rightarrow> bool" where
  "form_valid f \<longleftrightarrow> fm_name f \<noteq> []
     \<and> (case fm_ruleType f of
          Keyword_Rule \<Rightarrow> nullish (fm_keyword f) [] \<noteq> []
        | Level_Rule \<Rightarrow> filled_in (fm_conditionThreshold f)
        | Threshold_Rule \<Rightarrow> True)"

definition send_rule :: "rule_request \<Rightarrow> rule_work \<Rightarrow> rules_page \<Rightarrow> rules_page" where
  "send_rule req w st = st\<lparr>ru_sent := req # ru_sent st, ru_work := ru_work st @ [w]\<rparr>"

text \<open>After a request has succeeded the dialog is closed and the list is loaded, which the dialog waits for.\<close>

definition close_and_load :: "rules_page \<Rightarrow> rules_page" where
  "close_and_load st = start_rules True (st\<lparr>ru_modalOpen := False\<rparr>)"

definition handleSubmit :: "rules_page \<Rightarrow> rules_page" where
  "handleSubmit st =
     (let f = ru_form st; st1 = st\<lparr>ru_submitting := True\<rparr>
      in if \<not> form_valid f then st
         else case ru_modalMode st of
           New_Rule \<Rightarrow> send_rule (Create_Rule (buildCreatePayload f)) (Creating (fm_name f)) st1
         | Change_Rule \<Rightarrow>
             (case ru_currentRule st of
                Some r \<Rightarrow> send_rule (Update_Rule (ar_id r) (form_payload None f)) (Updating (fm_name f)) st1
              | None \<Rightarrow> close_and_load st1))"

definition ask_delete :: "alert_rule \<Rightarrow> rules_page \<Rightarrow> rules_page" where
  "ask_delete r st = st\<lparr>ru_currentRule := Some r, ru_deleteModalOpen := True\<rparr>"

definition handleDelete :: "rules_page \<Rightarrow> rules_page" where
  "handleDelete st =
     (case ru_currentRule st of
        None \<Rightarrow> st
      | Some r \<Rightarrow> send_rule (Delete_Rule (ar_id r)) (Deleting_Rule r) (st\<lparr>ru_submitting := True\<rparr>))"

definition toggleStatus :: "alert_rule \<Rightarrow> rules_page \<Rightarrow> rules_page" where
  "toggleStatus r =
     send_rule (if ar_status r = ''enabled'' then Disable_Rule (ar_id r) else Enable_Rule (ar_id r)) (Toggling r)"

definition named_rule :: "string \<Rightarrow> string \<Rightarrow> notice" where
  "named_rule nm what = Success_Notice (zh_ru_rule @ nm @ what)"

definition rule_done :: "rule_work \<Rightarrow> rules_page \<Rightarrow> rules_page" where
  "rule_done w st =
     (case w of
        Creating nm \<Rightarrow> close_and_load (ru_say (named_rule nm zh_ru_created) st)
      | Updating nm \<Rightarrow> close_and_load (ru_say (named_rule nm zh_ru_updated) st)
      | Deleting_Rule r \<Rightarrow>
          start_rules True
            ((ru_say (named_rule (shown_name r) zh_ru_deleted) (st\<lparr>ru_deleteModalOpen := False\<rparr>))\<lparr>ru_currentRule := None\<rparr>)
      | Toggling r \<Rightarrow>
          start_rules False
            (ru_say (named_rule (shown_name r) (if ar_status r = ''enabled'' then zh_ru_disabled else zh_ru_enabled)) st))"

definition rule_failed :: "rule_work \<Rightarrow> string option \<Rightarrow> rules_page \<Rightarrow> rules_page" where
  "rule_failed w reason st =
     (case w of
        Deleting_Rule _ \<Rightarrow> (ru_say (Error_Notice (nullish reason zh_delete_failed)) st)\<lparr>ru_submitting := False\<rparr>
      | Toggling _ \<Rightarrow> ru_say (Error_Notice (nullish reason zh_action_failed)) st
      | _ \<Rightarrow> (ru_say (Error_Notice (nullish reason zh_action_failed)) st)\<lparr>ru_submitting := False\<rparr>)"

definition finish_rule_work :: "nat \<Rightarrow> string option option \<Rightarrow> rules_page \<Rightarrow> rules_page" where
  "finish_rule_work i failure st =
     (let w = ru_work st ! i; st1 = st\<lparr>ru_work := drop_at i (ru_work st)\<rparr>
      in case failure of None \<Rightarrow> rule_done w st1 | Some reason \<Rightarrow> rule_failed w reason st1)"

section \<open>Runs\<close>

definition empty_rule_form :: rule_form where
  "empty_rule_form = \<lparr>fm_name = [], fm_description = [], fm_owner = [], fm_labels = [], fm_channels = [], fm_ruleType = Keyword_Rule,
     fm_severity = ''medium'', fm_keyword = None, fm_keywordField = None, fm_level = None, fm_conditionMetric = JStr [],
     fm_conditionOperator = ''gt'', fm_conditionThreshold = None, fm_windowSeconds = None\<rparr>"

definition open_rules_page :: rules_page where
  "open_rules_page =
     start_rules False
       \<lparr>ru_rules = [], ru_loading = True, ru_error = None, ru_searchQuery = [], ru_statusFilter = None, ru_modalOpen = False,
        ru_modalMode = New_Rule, ru_deleteModalOpen = False, ru_currentRule = None, ru_submitting = False,
        ru_form = empty_rule_form, ru_pendingPrefillDraft = None, ru_availableChannels = [], ru_channelsLoaded = False,
        ru_lastUpdatedAt = None, ru_loads = [], ru_work = [], ru_sent = [], ru_notices = []\<rparr>"

text \<open>A button that shows that it waits takes no clicks.\<close>

inductive rules_run :: "(string \<Rightarrow> string \<Rightarrow> int) \<Rightarrow> rules_page \<Rightarrow> bool" for lc where
  rules_opened: "rules_run lc open_rules_page"
| rules_answered: "rules_run lc st \<Longrightarrow> i < length (ru_loads st) \<Longrightarrow> rules_run lc (finish_rules now i answer st)"
| channels_answered: "rules_run lc st \<Longrightarrow> rules_run lc (finish_channels channels st)"
| rules_reloaded: "rules_run lc st \<Longrightarrow> rules_run lc (start_rules False st)"
| rules_searched: "rules_run lc st \<Longrightarrow> rules_run lc (st\<lparr>ru_searchQuery := s, ru_statusFilter := f\<rparr>)"
| draft_taken: "rules_run lc st \<Longrightarrow> rules_run lc (fst (take_draft b st))"
| draft_shown: "rules_run lc st \<Longrightarrow> rules_run lc (follow_prefill lc st)"
| rule_create_opened: "rules_run lc st \<Longrightarrow> rules_run lc (openCreate lc None st)"
| rule_edit_opened: "rules_run lc st \<Longrightarrow> rules_run lc (openEdit r st)"
| rule_form_edited: "rules_run lc st \<Longrightarrow> rules_run lc (st\<lparr>ru_form := form\<rparr>)"
| rule_modal_closed: "rules_run lc st \<Longrightarrow> rules_run lc (st\<lparr>ru_modalOpen := False\<rparr>)"
| rule_submitted: "rules_run lc st \<Longrightarrow> \<not> ru_submitting st \<Longrightarrow> rules_run lc (handleSubmit st)"
| rule_delete_asked: "rules_run lc st \<Longrightarrow> rules_run lc (ask_delete r st)"
| rule_delete_confirmed: "rules_run lc st \<Longrightarrow> \<not> ru_submitting st \<Longrightarrow> rules_run lc (handleDelete st)"
| rule_delete_cancelled: "rules_run lc st \<Longrightarrow> rules_run lc (st\<lparr>ru_deleteModalOpen := False\<rparr>)"
| rule_toggled: "rules_run lc st \<Longrightarrow> rules_run lc (toggleStatus r st)"
| rule_work_answered: "rules_run lc st \<Longrightarrow> i < length (ru_work st) \<Longrightarrow> rules_run lc (finish_rule_work i failure st)"

section \<open>What holds on every run\<close>

fun for_dialog :: "rule_work \<Rightarrow> bool" where
  "for_dialog (Toggling _) = False"
| "for_dialog _ = True"

definition payload_complete :: "rule_payload \<Rightarrow> bool" where
  "payload_complete p \<longleftrightarrow> nullish (rp_name p) [] \<noteq> []
     \<and> (rp_conditionType p = Some ''keyword'' \<longrightarrow> truthy (json_field (rp_condition p) ''keyword''))"

fun request_complete :: "rule_request \<Rightarrow> bool" where
  "request_complete (Create_Rule p) = payload_complete p"
| "request_complete (Update_Rule _ p) = payload_complete p"
| "request_complete _ = True"

definition how_many :: "('a \<Rightarrow> bool) \<Rightarrow> 'a list \<Rightarrow> nat" where
  "how_many P xs = length (filter P xs)"

lemma how_many_simps [simp]:
  "how_many P [] = 0" "how_many P (x # xs) = (if P x then 1 else 0) + how_many P xs"
  "how_many P (xs @ ys) = how_many P xs + how_many P ys"
  by (simp_all add: how_many_def)

text \<open>The requests a dialog waits for.\<close>

definition waits :: "rules_page \<Rightarrow> nat" where
  "waits st = how_many for_dialog (ru_work st) + how_many (\<lambda>b. b) (ru_loads st)"

definition rules_ok :: "rules_page \<Rightarrow> bool" where
  "rules_ok st \<longleftrightarrow> waits st = (if ru_submitting st then 1 else 0) \<and> list_all request_complete (ru_sent st)"

lemma rules_ok_cong:
  "rules_ok st \<Longrightarrow> ru_work st' = ru_work st \<Longrightarrow> ru_loads st' = ru_loads st \<Longrightarrow> ru_submitting st' = ru_submitting st
   \<Longrightarrow> ru_sent st' = ru_sent st \<Longrightarrow> rules_ok st'"
  by (simp add: rules_ok_def waits_def)

lemma how_many_drop_at:
  "i < length xs \<Longrightarrow> how_many P xs = how_many P (drop_at i xs) + (if P (xs ! i) then 1 else 0)"
  using id_take_nth_drop [of i xs] how_many_simps(3) [of P "take i xs" "xs ! i # drop (Suc i) xs"]
  by (simp add: drop_at_def)

lemma form_complete: "form_valid f \<Longrightarrow> payload_complete (form_payload enabled f)"
  by (auto simp: form_valid_def payload_complete_def form_payload_def form_condition_def json_field_def jm_get_def or_string_def
      or_str_def truthy_def split: rule_kind.splits)

lemma handleSubmit_ok: "rules_ok st \<Longrightarrow> \<not> ru_submitting st \<Longrightarrow> rules_ok (handleSubmit st)"
  using form_complete [of "ru_form st"]
  by (auto simp: rules_ok_def waits_def handleSubmit_def send_rule_def close_and_load_def start_rules_def buildCreatePayload_def Let_def
      split: rule_modal.split option.split)

lemma finish_rules_ok:
  assumes "rules_ok st" "i < length (ru_loads st)"
  shows "rules_ok (finish_rules now i answer st)"
proof -
  have f: "ru_work (finish_rules now i answer st) = ru_work st" "ru_loads (finish_rules now i answer st) = drop_at i (ru_loads st)"
    "ru_sent (finish_rules now i answer st) = ru_sent st"
    "ru_submitting (finish_rules now i answer st) = (ru_submitting st \<and> \<not> ru_loads st ! i)"
    by (cases answer; simp add: finish_rules_def ru_say_def Let_def)+
  show ?thesis
    using assms(1) how_many_drop_at [OF assms(2), of "\<lambda>b. b"] unfolding rules_ok_def waits_def f by (auto split: if_splits)
qed

lemma rule_done_frame:
  "ru_work (rule_done w st) = ru_work st" "ru_sent (rule_done w st) = ru_sent st"
  "ru_submitting (rule_done w st) = ru_submitting st" "ru_loads (rule_done w st) = ru_loads st @ [for_dialog w]"
  by (cases w; simp add: rule_done_def close_and_load_def start_rules_def ru_say_def)+

lemma rule_failed_frame:
  "ru_work (rule_failed w reason st) = ru_work st" "ru_sent (rule_failed w reason st) = ru_sent st"
  "ru_submitting (rule_failed w reason st) = (ru_submitting st \<and> \<not> for_dialog w)" "ru_loads (rule_failed w reason st) = ru_loads st"
  by (cases w; simp add: rule_failed_def ru_say_def)+

lemma finish_rule_work_ok:
  assumes "rules_ok st" "i < length (ru_work st)"
  shows "rules_ok (finish_rule_work i failure st)"
  using assms(1) how_many_drop_at [OF assms(2), of for_dialog]
  by (cases failure)
    (auto simp: rules_ok_def waits_def finish_rule_work_def rule_done_frame rule_failed_frame Let_def split: if_splits)

lemma rules_run_ok: "rules_run lc st \<Longrightarrow> rules_ok st"
proof (induction rule: rules_run.induct)
  case rules_opened
  show ?case by (simp add: open_rules_page_def start_rules_def rules_ok_def waits_def)
next
  case (rules_reloaded st)
  then show ?case by (simp add: rules_ok_def waits_def start_rules_def)
next
  case (draft_taken st b)
  show ?case using draft_taken.IH
    by (rule rules_ok_cong) (auto simp: take_draft_def split: prod.split option.split)
next
  case (draft_shown st)
  show ?case using draft_shown.IH
    by (rule rules_ok_cong) (simp_all add: follow_prefill_def ru_say_def openCreate_def Let_def split: option.split)
next
  case (rule_delete_confirmed st)
  then show ?case by (auto simp: handleDelete_def send_rule_def rules_ok_def waits_def split: option.split)
next
  case (rule_toggled st r)
  then show ?case by (auto simp: toggleStatus_def send_rule_def rules_ok_def waits_def)
qed (auto simp: finish_channels_def openCreate_def openEdit_def ask_delete_def Let_def intro: handleSubmit_ok finish_rules_ok finish_rule_work_ok
    elim: rules_ok_cong)

section \<open>Reading conditions back\<close>

text \<open>The first way a pattern matches at a place.\<close>

definition first_at :: "rx \<Rightarrow> rx_place \<Rightarrow> rx_place \<Rightarrow> bool" where
  "first_at r p q \<longleftrightarrow> (\<exists>qs. outcomes r p = q # qs)"

lemma first_at_Seq: "first_at a p q \<Longrightarrow> first_at b q t \<Longrightarrow> first_at (Seq a b) p t"
  by (auto simp: first_at_def)

lemma first_at_rx_seq: "first_at a p q \<Longrightarrow> first_at (rx_seq (b # bs)) q t \<Longrightarrow> first_at (rx_seq (a # b # bs)) p t"
  by (simp add: first_at_Seq)

lemma first_at_Grp: "first_at r p q \<Longrightarrow> first_at (Grp n r) p (q\<lparr>captures := (n, consumed p q) # captures q\<rparr>)"
  by (auto simp: first_at_def)

lemma first_at_char: "ahead p = [x] # cs \<Longrightarrow> first_at (rx_char x) p (p\<lparr>behind := [x] # behind p, ahead := cs\<rparr>)"
  by (simp add: first_at_def rx_char_def step_char_def)

lemma first_at_lit:
  "ahead p = map (\<lambda>c. [c]) s @ cs \<Longrightarrow> first_at (rx_lit s) p (p\<lparr>behind := rev (map (\<lambda>c. [c]) s) @ behind p, ahead := cs\<rparr>)"
proof (induction s arbitrary: p)
  case Nil
  then show ?case by (simp add: first_at_def)
next
  case (Cons x s)
  let ?q = "p\<lparr>behind := [x] # behind p, ahead := map (\<lambda>c. [c]) s @ cs\<rparr>"
  have "first_at (rx_char x) p ?q" using Cons.prems by (intro first_at_char) simp
  moreover have "first_at (rx_lit s) ?q (?q\<lparr>behind := rev (map (\<lambda>c. [c]) s) @ behind ?q, ahead := cs\<rparr>)"
    by (rule Cons.IH) simp
  ultimately show ?case by (auto intro: first_at_Seq)
qed

text \<open>A repeated class takes all it can.\<close>

lemma repeat_run:
  assumes "\<not> P c"
  shows "list_all P us \<Longrightarrow> length us < n \<Longrightarrow> lo \<le> length us \<Longrightarrow> ahead p = us @ c # cs \<Longrightarrow>
    \<exists>qs. repeat (step_char P) n lo None p = p\<lparr>behind := rev us @ behind p, ahead := c # cs\<rparr> # qs"
proof (induction us arbitrary: n lo p)
  case Nil
  then obtain m where "n = Suc m" by (cases n) auto
  then show ?case using Nil assms by (simp add: step_char_def)
next
  case (Cons u us)
  then obtain m where n: "n = Suc m" by (cases n) auto
  let ?q = "p\<lparr>behind := u # behind p, ahead := us @ c # cs\<rparr>"
  have step: "step_char P p = [?q]" using Cons.prems by (simp add: step_char_def)
  have "\<exists>qs. repeat (step_char P) m (lo - 1) None ?q = ?q\<lparr>behind := rev us @ behind ?q, ahead := c # cs\<rparr> # qs"
    using Cons.prems n by (intro Cons.IH) auto
  then show ?case using Cons.prems(4) by (auto simp: n step)
qed

lemma first_at_run:
  assumes "list_all P us" "\<not> P c" "lo \<le> length us" "ahead p = us @ c # cs"
  shows "first_at (Rep lo None (Cls P)) p (p\<lparr>behind := rev us @ behind p, ahead := c # cs\<rparr>)"
  using repeat_run [OF assms(2,1) _ assms(3,4)] assms(4) by (simp add: first_at_def del: repeat.simps)

lemma first_at_plus:
  assumes "us \<noteq> []" "list_all P us" "\<not> P c" "ahead p = us @ c # cs"
  shows "first_at (rx_plus (Cls P)) p (p\<lparr>behind := rev us @ behind p, ahead := c # cs\<rparr>)"
  unfolding rx_plus_def using assms by (intro first_at_run) (cases us; simp)+

lemma search_skip: "outcomes r \<lparr>behind = pre, ahead = c # cs, captures = []\<rparr> = [] \<Longrightarrow> search r pre (c # cs) = search r (c # pre) cs"
  by (simp add: first_outcome_def)

lemma search_here:
  assumes "first_at r \<lparr>behind = pre, ahead = post, captures = []\<rparr> q"
  shows "search r pre post = Some (result_of pre q)"
  using assms by (cases post) (auto simp: first_at_def first_outcome_def)

text \<open>The text between two quotes, or before a comma.\<close>

definition one_of_its_kind :: "char \<Rightarrow> string \<Rightarrow> bool" where
  "one_of_its_kind c s \<longleftrightarrow> is_ascii s \<and> s \<noteq> [] \<and> c \<notin> set s"

lemma kept_class:
  assumes "one_of_its_kind c s"
  shows "list_all (\<lambda>x. x \<notin> (\<lambda>x. [x]) ` set [c]) (map (\<lambda>x. [x]) s)" "map (\<lambda>x. [x]) s \<noteq> []" "js_chars s = map (\<lambda>x. [x]) s"
  using assms js_chars_ascii [of s] by (auto simp: one_of_its_kind_def list_all_iff)

lemma first_at_kept:
  assumes "one_of_its_kind c s" "ahead p = map (\<lambda>x. [x]) s @ [c] # cs"
  shows "first_at (rx_plus (not_char [c])) p (p\<lparr>behind := rev (map (\<lambda>x. [x]) s) @ behind p, ahead := [c] # cs\<rparr>)"
  unfolding not_char_def using kept_class [OF assms(1)] assms(2) by (intro first_at_plus) simp_all

lemma consumed_rev:
  "consumed p (p\<lparr>behind := rev (map (\<lambda>x. [x]) s) @ behind p, ahead := a\<rparr>) = s"
  by (simp add: consumed_def comp_def)

lemma first_at_group:
  assumes "one_of_its_kind c s" "ahead p = map (\<lambda>x. [x]) s @ [c] # cs"
  shows "first_at (Grp n (rx_plus (not_char [c]))) p
    (p\<lparr>behind := rev (map (\<lambda>x. [x]) s) @ behind p, ahead := [c] # cs, captures := (n, s) # captures p\<rparr>)"
  using first_at_Grp [OF first_at_kept [OF assms], of n] by (simp add: consumed_rev)

lemma level_read_back:
  assumes "one_of_its_kind (CHR 0x27) level" "is_ascii w"
  shows "first_group LEVEL_PATTERN (''count(level='' @ quoted level @ w) = Some level"
proof -
  let ?m = "map (\<lambda>c. [c])" and ?q = "CHR 0x27"
  have chars: "js_chars (''count(level='' @ quoted level @ w) = ?m ''count('' @ ?m ''level='' @ [?q] # ?m level @ [?q] # ?m w"
    using assms by (subst js_chars_ascii) (simp_all add: quoted_def one_of_its_kind_def)
  let ?p = "\<lparr>behind = rev (?m ''count(''), ahead = ?m ''level='' @ [?q] # ?m level @ [?q] # ?m w, captures = []\<rparr>"
  let ?p1 = "?p\<lparr>behind := rev (?m ''level='') @ behind ?p, ahead := [?q] # ?m level @ [?q] # ?m w\<rparr>"
  let ?p2 = "?p1\<lparr>behind := [?q] # behind ?p1, ahead := ?m level @ [?q] # ?m w\<rparr>"
  let ?p3 = "?p2\<lparr>behind := rev (?m level) @ behind ?p2, ahead := [?q] # ?m w, captures := (1, level) # captures ?p2\<rparr>"
  let ?p4 = "?p3\<lparr>behind := [?q] # behind ?p3, ahead := ?m w\<rparr>"
  have "first_at LEVEL_PATTERN ?p ?p4"
    unfolding LEVEL_PATTERN_def
  proof (intro first_at_rx_seq)
    show "first_at (rx_lit ''level='') ?p ?p1" by (rule first_at_lit) simp
    show "first_at (rx_char ?q) ?p1 ?p2" by (rule first_at_char) simp
    show "first_at (Grp 1 (rx_plus (not_char [?q]))) ?p2 ?p3" by (rule first_at_group [OF assms(1)]) simp
    show "first_at (rx_seq [rx_char ?q]) ?p3 ?p4" unfolding rx_seq.simps by (rule first_at_char) simp
  qed
  then have here: "search LEVEL_PATTERN (behind ?p) (ahead ?p) = Some (result_of (behind ?p) ?p4)"
    by (intro search_here) simp
  have skip: "search LEVEL_PATTERN pre (c # cs) = search LEVEL_PATTERN (c # pre) cs" if "c \<noteq> ''l''" for c pre cs
    using that by (intro search_skip) (simp add: LEVEL_PATTERN_def rx_char_def step_char_def)
  have "rx_match LEVEL_PATTERN (''count(level='' @ quoted level @ w) = search LEVEL_PATTERN (behind ?p) (ahead ?p)"
    unfolding rx_match_def chars by (simp add: skip del: search.simps)
  then show ?thesis unfolding first_group_def here by (simp add: group_def result_of_def)
qed

lemma keyword_read_back:
  assumes "one_of_its_kind (CHR '','') field" "one_of_its_kind (CHR 0x27) keyword"
  shows "first_group KEYWORD_FIELD_PATTERN (''contains('' @ field @ '', '' @ quoted keyword @ '')'') = Some field"
    and "first_group KEYWORD_PATTERN (''contains('' @ field @ '', '' @ quoted keyword @ '')'') = Some keyword"
proof -
  let ?m = "map (\<lambda>c. [c])" and ?q = "CHR 0x27" and ?b = "'','' :: string"
  let ?rest = "[?q] # '')'' # []"
  let ?tail = "'','' # '' '' # [?q] # ?m keyword @ ?rest"
  have chars: "js_chars (''contains('' @ field @ '', '' @ quoted keyword @ '')'') = ?m ''contains('' @ ?m field @ ?tail"
    using assms by (subst js_chars_ascii) (simp_all add: quoted_def one_of_its_kind_def)
  let ?p = "\<lparr>behind = [], ahead = ?m ''contains('' @ ?m field @ ?tail, captures = []\<rparr>"
  let ?p1 = "?p\<lparr>behind := rev (?m ''contains('') @ behind ?p, ahead := ?m field @ ?tail\<rparr>"
  have lit: "first_at (rx_lit ''contains('') ?p ?p1" by (rule first_at_lit) simp
  show "first_group KEYWORD_FIELD_PATTERN (''contains('' @ field @ '', '' @ quoted keyword @ '')'') = Some field"
  proof -
    let ?p2 = "?p1\<lparr>behind := rev (?m field) @ behind ?p1, ahead := ?tail, captures := (1, field) # captures ?p1\<rparr>"
    let ?p3 = "?p2\<lparr>behind := '','' # behind ?p2, ahead := '' '' # [?q] # ?m keyword @ ?rest\<rparr>"
    have "first_at KEYWORD_FIELD_PATTERN ?p ?p3"
      unfolding KEYWORD_FIELD_PATTERN_def
    proof (intro first_at_rx_seq)
      show "first_at (rx_lit ''contains('') ?p ?p1" by (rule lit)
      show "first_at (Grp 1 (rx_plus (not_char '',''))) ?p1 ?p2" by (rule first_at_group [OF assms(1)]) simp
      show "first_at (rx_seq [rx_char (CHR '','')]) ?p2 ?p3" unfolding rx_seq.simps by (rule first_at_char) simp
    qed
    then have "search KEYWORD_FIELD_PATTERN [] (?m ''contains('' @ ?m field @ ?tail) = Some (result_of [] ?p3)" by (rule search_here)
    then show ?thesis unfolding first_group_def rx_match_def chars by (simp add: group_def result_of_def)
  qed
  show "first_group KEYWORD_PATTERN (''contains('' @ field @ '', '' @ quoted keyword @ '')'') = Some keyword"
  proof -
    let ?p2 = "?p1\<lparr>behind := rev (?m field) @ behind ?p1, ahead := ?tail\<rparr>"
    let ?p3 = "?p2\<lparr>behind := '','' # behind ?p2, ahead := '' '' # [?q] # ?m keyword @ ?rest\<rparr>"
    let ?p4 = "?p3\<lparr>behind := rev ['' ''] @ behind ?p3, ahead := [?q] # ?m keyword @ ?rest\<rparr>"
    let ?p5 = "?p4\<lparr>behind := [?q] # behind ?p4, ahead := ?m keyword @ ?rest\<rparr>"
    let ?p6 = "?p5\<lparr>behind := rev (?m keyword) @ behind ?p5, ahead := ?rest, captures := (1, keyword) # captures ?p5\<rparr>"
    let ?p7 = "?p6\<lparr>behind := [?q] # behind ?p6, ahead := ['')'']\<rparr>"
    let ?p8 = "?p7\<lparr>behind := '')'' # behind ?p7, ahead := []\<rparr>"
    have space: "js_space '' ''" "\<not> js_space [?q]" by code_simp+
    have "first_at KEYWORD_PATTERN ?p ?p8"
      unfolding KEYWORD_PATTERN_def
    proof (intro first_at_rx_seq)
      show "first_at (rx_lit ''contains('') ?p ?p1" by (rule lit)
      show "first_at (rx_plus (not_char '','')) ?p1 ?p2" by (rule first_at_kept [OF assms(1)]) simp
      show "first_at (rx_char (CHR '','')) ?p2 ?p3" by (rule first_at_char) simp
      show "first_at (rx_star rx_space) ?p3 ?p4"
        unfolding rx_star_def rx_space_def by (rule first_at_run) (simp_all add: space)
      show "first_at (rx_char ?q) ?p4 ?p5" by (rule first_at_char) simp
      show "first_at (Grp 1 (rx_plus (not_char [?q]))) ?p5 ?p6" by (rule first_at_group [OF assms(2)]) simp
      show "first_at (rx_char ?q) ?p6 ?p7" by (rule first_at_char) simp
      show "first_at (rx_seq [rx_char (CHR '')'')]) ?p7 ?p8" unfolding rx_seq.simps by (rule first_at_char) simp
    qed
    then have "search KEYWORD_PATTERN [] (?m ''contains('' @ ?m field @ ?tail) = Some (result_of [] ?p8)" by (rule search_here)
    then show ?thesis unfolding first_group_def rx_match_def chars by (simp add: group_def result_of_def)
  qed
qed

section \<open>Properties\<close>

text \<open>Every rule sent to the service is complete, and no dialog stays blocked: on every run a rule to be created or changed
  has a name, and a keyword rule a keyword; the button of a dialog waits exactly while one request of that dialog, or
  the loading of the list after it, is under way.\<close>

theorem sent_rules_complete:
  assumes "rules_run lc st"
  shows "list_all request_complete (ru_sent st)
    \<and> how_many for_dialog (ru_work st) + how_many (\<lambda>b. b) (ru_loads st) = (if ru_submitting st then 1 else 0)
    \<and> \<not> (ru_submitting st \<and> ru_work st = [] \<and> ru_loads st = [])"
  using rules_run_ok [OF assms] by (auto simp: rules_ok_def waits_def)

text \<open>What the service stores for a rule of each kind.\<close>

definition keyword_condition :: "string \<Rightarrow> string \<Rightarrow> json" where
  "keyword_condition field keyword = JObj [(''type'', JStr ''keyword''), (''keyword'', JStr keyword), (''field'', JStr field)]"

definition level_condition :: "string \<Rightarrow> rat \<Rightarrow> rat \<Rightarrow> json" where
  "level_condition level t w =
     JObj [(''type'', JStr ''level_count''), (''level'', JStr level), (''threshold'', JNum t), (''window_seconds'', JNum w)]"

lemma rule_of_condition:
  assumes "mapBackendRuleToFrontend c r = Some rule" "json_field (Some r) ''condition'' = Some (JObj ms)"
  shows "ar_query rule = fst (condition_shown (JObj ms))"
    "ar_metric rule = or_json (Some (fst (snd (condition_shown (JObj ms))))) (JStr ''value'')"
    "ar_threshold rule = snd (snd (snd (condition_shown (JObj ms))))"
  using assms by (auto simp: mapBackendRuleToFrontend_def or_json_def truthy_def Let_def split: prod.splits)

text \<open>C34: Saving a keyword rule unchanged keeps its condition: the dialog opened for a rule the service sent, submitted as it is,
  sends the field and the keyword of the rule. The field and the keyword must be ASCII and not empty, the field
  without a comma and the keyword without a quote, and \<open>contains(field, 'keyword')\<close>, the query shown for the rule, must
  not contain \<open>count(level=\<close>, by which the dialog would take the rule for one on a level.\<close>

theorem keyword_rule_edit_keeps:
  assumes "mapBackendRuleToFrontend c r = Some rule" "json_field (Some r) ''condition'' = Some (keyword_condition field keyword)"
    and "is_ascii field" "field \<noteq> []" "CHR '','' \<notin> set field"
    and "is_ascii keyword" "keyword \<noteq> []" "CHR 0x27 \<notin> set keyword"
    and "\<not> js_includes (''contains('' @ field @ '', '' @ quoted keyword @ '')'') ''count(level=''"
  shows "update_condition (form_payload None (ru_form (openEdit rule st))) = Some (keyword_condition field keyword)"
proof -
  have ne: "field \<noteq> []" "keyword \<noteq> []" and plain: "one_of_its_kind (CHR '','') field" "one_of_its_kind (CHR 0x27) keyword"
    using assms(3-8) by (simp_all add: one_of_its_kind_def)
  note rule = rule_of_condition [OF assms(1) assms(2) [unfolded keyword_condition_def]]
  have q: "ar_query rule = ''contains('' @ field @ '', '' @ quoted keyword @ '')''" and m: "ar_metric rule = JStr ''value''"
    using ne unfolding rule by (simp_all add: condition_shown_def json_field_def jm_get_def or_json_def truthy_def Let_def)
  have kind: "kind_of_rule rule = Keyword_Rule" using assms(9) by (simp add: kind_of_rule_def m q)
  note found = keyword_read_back [OF plain, folded q]
  show ?thesis
    using ne
    by (simp add: openEdit_def form_of_rule_def kind found form_payload_def form_condition_def or_string_def or_str_def update_condition_def
        buildCondition_def keyword_condition_def json_field_def jm_get_def or_json_def truthy_def Let_def)
qed

text \<open>C35: Saving a rule on the number of entries forgets its window: the dialog opened for such a rule, submitted as it is, sends
  the level and the threshold of the rule with a window of 300 seconds, whatever its window was. The level must be
  ASCII, not empty and without a quote, the window a positive number of seconds and the threshold not 0: a threshold
  of 0 is shown, and sent, as 10.\<close>

theorem level_rule_edit_forgets_window:
  assumes "mapBackendRuleToFrontend c r = Some rule" "json_field (Some r) ''condition'' = Some (level_condition level t (of_nat w))"
    and "is_ascii level" "level \<noteq> []" "CHR 0x27 \<notin> set level" "t \<noteq> 0" "0 < w"
  shows "update_condition (form_payload None (ru_form (openEdit rule st))) = Some (level_condition level t 300)"
proof -
  have plain: "one_of_its_kind (CHR 0x27) level" using assms(3-5) by (simp add: one_of_its_kind_def)
  note ne = assms(4)
  note rule = rule_of_condition [OF assms(1) assms(2) [unfolded level_condition_def]]
  have window: "rat_to_string (of_nat w) = nat_to_string w"
    using rat_to_string_int [of "int w"] by (simp add: int_to_string_def)
  have digits: "is_ascii (nat_to_string w)"
    using nat_to_string_digits [of w] by (auto simp: is_ascii_def is_digit_def)
  have q: "ar_query rule = ''count(level='' @ quoted level @ '') in '' @ nat_to_string w @ ''s''" and t: "ar_threshold rule = JNum t"
    using ne assms(6,7) unfolding rule by (simp_all add: window condition_shown_def json_field_def jm_get_def or_json_def truthy_def Let_def)
  have kind: "kind_of_rule rule = Level_Rule"
    unfolding kind_of_rule_def q by (simp add: js_includes_append1)
  have "first_group LEVEL_PATTERN (ar_query rule) = Some level"
    unfolding q using level_read_back [OF plain, of "'') in '' @ nat_to_string w @ ''s''"] digits by simp
  then show ?thesis
    using ne assms(6)
    by (simp add: openEdit_def form_of_rule_def kind t form_payload_def form_condition_def or_string_def or_str_def update_condition_def
        json_default_def nullish_json_def buildCondition_def level_condition_def json_field_def jm_get_def or_json_def truthy_def field_or_def
        Let_def)
qed

text \<open>A deletion answered late makes the next change vanish: when a deletion is under way, its dialog is closed and another
  rule is opened to be changed, the answer to the deletion forgets that rule; saving then sends nothing, says nothing
  and closes the dialog as if the change had been made.\<close>

theorem late_deletion_drops_change:
  assumes "ru_work st ! i = Deleting_Rule r" "form_valid f"
    and "opened = (openEdit other (st\<lparr>ru_deleteModalOpen := False\<rparr>))\<lparr>ru_form := f\<rparr>"
    and "answered = finish_rules now (length (ru_loads st)) loaded (finish_rule_work i None opened)"
  shows "ru_modalOpen answered \<and> ru_modalMode answered = Change_Rule \<and> ru_form answered = f \<and> \<not> ru_submitting answered
    \<and> ru_sent (handleSubmit answered) = ru_sent st \<and> ru_work (handleSubmit answered) = ru_work answered
    \<and> ru_notices (handleSubmit answered) = ru_notices answered \<and> \<not> ru_modalOpen (handleSubmit answered)"
  using assms
  by (cases loaded)
    (simp_all add: openEdit_def finish_rule_work_def rule_done_def start_rules_def ru_say_def finish_rules_def handleSubmit_def
      close_and_load_def nth_append Let_def)

section \<open>Examples\<close>

definition rules_clock :: clock where "rules_clock = \<lparr>now_ms = 0, host_date = \<lambda>_. None\<rparr>"

definition sent_rule :: "json \<Rightarrow> json" where
  "sent_rule condition =
     JObj [(''id'', JStr ''r1''), (''name'', JStr ''timeouts''), (''condition'', condition), (''severity'', JStr ''high''),
           (''enabled'', JBool True), (''notification_channels'', JArr [])]"

definition shown_rule_of :: "json \<Rightarrow> alert_rule" where
  "shown_rule_of condition = the (mapBackendRuleToFrontend rules_clock (sent_rule condition))"

definition timeout_form :: rule_form where
  "timeout_form = empty_rule_form\<lparr>fm_name := ''timeouts'', fm_keyword := Some ''timeout''\<rparr>"

definition rule_being_created :: rules_page where
  "rule_being_created = handleSubmit ((openCreate (\<lambda>_ _. 0) None open_rules_page)\<lparr>ru_form := timeout_form\<rparr>)"

theorem sent_rules_complete_witness:
  "ru_submitting rule_being_created \<and> list_all request_complete (ru_sent rule_being_created)
   \<and> length (ru_sent rule_being_created) = 1 \<and> how_many for_dialog (ru_work rule_being_created) = 1"
proof -
  have "rules_run (\<lambda>_ _. 0) rule_being_created"
    unfolding rule_being_created_def
    by (intro rule_submitted rule_form_edited rule_create_opened rules_opened) code_simp
  moreover have "ru_submitting rule_being_created" "length (ru_sent rule_being_created) = 1"
    "how_many (\<lambda>b. b) (ru_loads rule_being_created) = 0" by code_simp+
  ultimately show ?thesis using sent_rules_complete [of "\<lambda>_ _. 0" rule_being_created] by simp
qed

theorem keyword_rule_edit_keeps_witness:
  "update_condition (form_payload None (ru_form (openEdit (shown_rule_of (keyword_condition ''host'' ''disk gone'')) open_rules_page)))
     = Some (keyword_condition ''host'' ''disk gone'')"
proof -
  let ?r = "sent_rule (keyword_condition ''host'' ''disk gone'')"
  have "mapBackendRuleToFrontend rules_clock ?r = Some (shown_rule_of (keyword_condition ''host'' ''disk gone''))"
    "json_field (Some ?r) ''condition'' = Some (keyword_condition ''host'' ''disk gone'')"
    "is_ascii ''host''" "''host'' \<noteq> ([] :: string)" "CHR '','' \<notin> set ''host''"
    "is_ascii ''disk gone''" "''disk gone'' \<noteq> ([] :: string)" "CHR 0x27 \<notin> set ''disk gone''"
    "\<not> js_includes (''contains('' @ ''host'' @ '', '' @ quoted ''disk gone'' @ '')'') ''count(level=''" by code_simp+
  then show ?thesis by (rule keyword_rule_edit_keeps)
qed

theorem level_rule_edit_forgets_window_witness:
  "update_condition (form_payload None (ru_form (openEdit (shown_rule_of (level_condition ''WARN'' 20 3600)) open_rules_page)))
     = Some (level_condition ''WARN'' 20 300)"
proof -
  let ?r = "sent_rule (level_condition ''WARN'' 20 3600)"
  have "mapBackendRuleToFrontend rules_clock ?r = Some (shown_rule_of (level_condition ''WARN'' 20 3600))"
    "json_field (Some ?r) ''condition'' = Some (level_condition ''WARN'' 20 3600)"
    "is_ascii ''WARN''" "''WARN'' \<noteq> ([] :: string)" "CHR 0x27 \<notin> set ''WARN''" by code_simp+
  then show ?thesis
    using level_rule_edit_forgets_window [of rules_clock ?r _ "''WARN''" 20 3600 open_rules_page] by simp
qed

definition rule_being_deleted :: rules_page where
  "rule_being_deleted = handleDelete (ask_delete (shown_rule_of (keyword_condition ''host'' ''disk gone'')) open_rules_page)"

theorem late_deletion_drops_change_witness:
  "ru_sent (handleSubmit (finish_rules 0 1 (Inr []) (finish_rule_work 0 None
     ((openEdit (shown_rule_of (keyword_condition ''host'' ''full'')) (rule_being_deleted\<lparr>ru_deleteModalOpen := False\<rparr>))
        \<lparr>ru_form := timeout_form\<rparr>)))) = [Delete_Rule (Some (JStr ''r1''))]"
proof -
  have f: "ru_work rule_being_deleted ! 0 = Deleting_Rule (shown_rule_of (keyword_condition ''host'' ''disk gone''))"
    "form_valid timeout_form" "length (ru_loads rule_being_deleted) = 1" "ru_sent rule_being_deleted = [Delete_Rule (Some (JStr ''r1''))]"
    by code_simp+
  show ?thesis using late_deletion_drops_change [where now = 0 and loaded = "Inr []", OF f(1,2) refl refl] f(3,4) by simp
qed

end
