(* ===== verification/Zh_Alerts.thy ===== *)
theory Zh_Alerts
  imports Js_String
begin

text \<open>
  The Chinese literals of the pages of alerts and incidents and of the pages for administration and
  analysis, as the UTF-8 bytes of their code points, so that the model's texts are those of the code. Each constant says what the text means.
\<close>

text \<open>Loading the alerts failed.\<close>

definition zh_al_load_failed :: string where
  "zh_al_load_failed =
    utf8 [0x52A0, 0x8F7D, 0x544A, 0x8B66, 0x5217, 0x8868, 0x5931, 0x8D25]"

text \<open>The alert no longer exists.\<close>

definition zh_al_gone :: string where
  "zh_al_gone =
    utf8 [0x544A, 0x8B66, 0x5DF2, 0x4E0D, 0x5B58, 0x5728, 0xFF0C, 0x5217, 0x8868, 0x5DF2,
      0x81EA, 0x52A8, 0x5237, 0x65B0]"

text \<open>The alert has been acknowledged.\<close>

definition zh_al_acknowledged :: string where
  "zh_al_acknowledged =
    utf8 [0x544A, 0x8B66, 0x5DF2, 0x786E, 0x8BA4]"

text \<open>Acknowledging failed.\<close>

definition zh_al_ack_failed :: string where
  "zh_al_ack_failed =
    utf8 [0x786E, 0x8BA4, 0x544A, 0x8B66, 0x5931, 0x8D25]"

text \<open>The alert has been resolved.\<close>

definition zh_al_resolved :: string where
  "zh_al_resolved =
    utf8 [0x544A, 0x8B66, 0x5DF2, 0x89E3, 0x51B3]"

text \<open>Resolving failed.\<close>

definition zh_al_resolve_failed :: string where
  "zh_al_resolve_failed =
    utf8 [0x89E3, 0x51B3, 0x544A, 0x8B66, 0x5931, 0x8D25]"

text \<open>The alert has been silenced.\<close>

definition zh_al_silenced :: string where
  "zh_al_silenced =
    utf8 [0x544A, 0x8B66, 0x5DF2, 0x9759, 0x9ED8]"

text \<open>Silencing failed.\<close>

definition zh_al_silence_failed :: string where
  "zh_al_silence_failed =
    utf8 [0x9759, 0x9ED8, 0x544A, 0x8B66, 0x5931, 0x8D25]"

text \<open>Before what has been done.\<close>

definition zh_al_done :: string where
  "zh_al_done =
    utf8 [0x5DF2]"

text \<open>Acknowledge.\<close>

definition zh_al_ack :: string where
  "zh_al_ack =
    utf8 [0x786E, 0x8BA4]"

text \<open>Resolve.\<close>

definition zh_al_resolve :: string where
  "zh_al_resolve =
    utf8 [0x89E3, 0x51B3]"

text \<open>Silence.\<close>

definition zh_al_silence :: string where
  "zh_al_silence =
    utf8 [0x9759, 0x9ED8]"

text \<open>Alerts.\<close>

definition zh_al_alerts :: string where
  "zh_al_alerts =
    '' '' @ utf8 [0x6761, 0x544A, 0x8B66]"

text \<open>Alerts no longer exist.\<close>

definition zh_al_many_gone :: string where
  "zh_al_many_gone =
    '' '' @ utf8 [0x6761, 0x544A, 0x8B66, 0x5DF2, 0x4E0D, 0x5B58, 0x5728, 0xFF0C, 0x5217,
      0x8868, 0x5DF2, 0x81EA, 0x52A8, 0x5237, 0x65B0]"

text \<open>Alerts could not be changed.\<close>

definition zh_al_many_failed :: string where
  "zh_al_many_failed =
    '' '' @ utf8 [0x6761, 0x544A, 0x8B66, 0x64CD, 0x4F5C, 0x5931, 0x8D25, 0xFF0C, 0x8BF7,
      0x91CD, 0x8BD5]"

text \<open>Sent.\<close>

definition zh_nt_sent :: string where
  "zh_nt_sent =
    utf8 [0x53D1, 0x9001, 0x6210, 0x529F]"

text \<open>Sent in part.\<close>

definition zh_nt_partial :: string where
  "zh_nt_partial =
    utf8 [0x90E8, 0x5206, 0x6210, 0x529F]"

text \<open>Sending failed.\<close>

definition zh_nt_failed :: string where
  "zh_nt_failed =
    utf8 [0x53D1, 0x9001, 0x5931, 0x8D25]"

text \<open>Skipped.\<close>

definition zh_nt_skipped :: string where
  "zh_nt_skipped =
    utf8 [0x5DF2, 0x8DF3, 0x8FC7]"

text \<open>No channels.\<close>

definition zh_nt_no_channels :: string where
  "zh_nt_no_channels =
    utf8 [0x672A, 0x914D, 0x7F6E, 0x6E20, 0x9053]"

text \<open>Silenced.\<close>

definition zh_nt_silenced :: string where
  "zh_nt_silenced =
    utf8 [0x5DF2, 0x9759, 0x9ED8]"

text \<open>Not sent.\<close>

definition zh_nt_none :: string where
  "zh_nt_none =
    utf8 [0x672A, 0x53D1, 0x9001]"

text \<open>No record of a notification.\<close>

definition zh_nt_no_record :: string where
  "zh_nt_no_record =
    utf8 [0x5F53, 0x524D, 0x544A, 0x8B66, 0x5C1A, 0x65E0, 0x901A, 0x77E5, 0x5206, 0x53D1,
      0x8BB0, 0x5F55]"

text \<open>The state.\<close>

definition zh_nt_status :: string where
  "zh_nt_status =
    utf8 [0x72B6, 0x6001, 0xFF1A]"

text \<open>Channels that took it.\<close>

definition zh_nt_successful :: string where
  "zh_nt_successful =
    utf8 [0x6210, 0x529F, 0x6E20, 0x9053, 0xFF1A]"

text \<open>Channels tried.\<close>

definition zh_nt_attempted :: string where
  "zh_nt_attempted =
    utf8 [0x5C1D, 0x8BD5, 0x6E20, 0x9053, 0xFF1A]"

text \<open>The last attempt.\<close>

definition zh_nt_last :: string where
  "zh_nt_last =
    utf8 [0x6700, 0x540E, 0x5C1D, 0x8BD5, 0xFF1A]"

text \<open>The page shows.\<close>

definition zh_al_page_shows :: string where
  "zh_al_page_shows =
    utf8 [0x5F53, 0x524D, 0x9875, 0x663E, 0x793A] @ '' ''"

text \<open>Alerts, and hides.\<close>

definition zh_al_and_hides :: string where
  "zh_al_and_hides =
    '' '' @ utf8 [0x6761, 0x4E1A, 0x52A1, 0x544A, 0x8B66, 0xFF0C, 0x5DF2, 0x9690, 0x85CF] @
      '' ''"

text \<open>Local alerts.\<close>

definition zh_al_local :: string where
  "zh_al_local =
    '' '' @ utf8 [0x6761, 0x672C, 0x5730, 0x5F15, 0x5BFC] @ ''/'' @ utf8 [0x8054, 0x8C03,
      0x544A, 0x8B66]"

text \<open>The page has local alerts only.\<close>

definition zh_al_only_local :: string where
  "zh_al_only_local =
    utf8 [0x5F53, 0x524D, 0x9875, 0x4EC5, 0x5305, 0x542B, 0x672C, 0x5730, 0x5F15, 0x5BFC] @
      ''/'' @ utf8 [0x8054, 0x8C03, 0x544A, 0x8B66, 0xFF0C, 0x5DF2, 0x9690, 0x85CF]"

text \<open>Shows.\<close>

definition zh_al_shows :: string where
  "zh_al_shows =
    utf8 [0x663E, 0x793A] @ '' ''"

text \<open>To.\<close>

definition zh_al_to :: string where
  "zh_al_to =
    '' '' @ utf8 [0x5230] @ '' ''"

text \<open>Of.\<close>

definition zh_al_of :: string where
  "zh_al_of =
    '' '' @ utf8 [0x6761, 0xFF0C, 0x5171] @ '' ''"

text \<open>No alerts.\<close>

definition zh_al_none :: string where
  "zh_al_none =
    utf8 [0x6682, 0x65E0, 0x544A, 0x8B66]"

text \<open>Just now.\<close>

definition zh_ic_just_now :: string where
  "zh_ic_just_now =
    utf8 [0x521A, 0x521A]"

text \<open>Minutes ago.\<close>

definition zh_ic_minutes :: string where
  "zh_ic_minutes =
    '' '' @ utf8 [0x5206, 0x949F, 0x524D]"

text \<open>Hours ago.\<close>

definition zh_ic_hours :: string where
  "zh_ic_hours =
    '' '' @ utf8 [0x5C0F, 0x65F6, 0x524D]"

text \<open>Days ago.\<close>

definition zh_ic_days :: string where
  "zh_ic_days =
    '' '' @ utf8 [0x5929, 0x524D]"

text \<open>Loading the incidents failed.\<close>

definition zh_ic_load_failed :: string where
  "zh_ic_load_failed =
    utf8 [0x52A0, 0x8F7D, 0x4E8B, 0x4EF6, 0x5217, 0x8868, 0x5931, 0x8D25]"

text \<open>Choose incidents first.\<close>

definition zh_ic_choose_first :: string where
  "zh_ic_choose_first =
    utf8 [0x8BF7, 0x5148, 0x9009, 0x62E9, 0x4E8B, 0x4EF6]"

text \<open>Done, all together.\<close>

definition zh_ic_ok :: string where
  "zh_ic_ok =
    utf8 [0x6210, 0x529F, 0xFF0C, 0x5171, 0x5904, 0x7406] @ '' ''"

text \<open>Incidents.\<close>

definition zh_ic_incidents :: string where
  "zh_ic_incidents =
    '' '' @ utf8 [0x6761, 0x4E8B, 0x4EF6]"

text \<open>Done in part: successful.\<close>

definition zh_ic_partly :: string where
  "zh_ic_partly =
    utf8 [0x90E8, 0x5206, 0x5B8C, 0x6210, 0xFF1A, 0x6210, 0x529F] @ '' ''"

text \<open>And failed.\<close>

definition zh_ic_failed_of :: string where
  "zh_ic_failed_of =
    '' '' @ utf8 [0x6761, 0xFF0C, 0x5931, 0x8D25] @ '' ''"

text \<open>Because.\<close>

definition zh_ic_because :: string where
  "zh_ic_because =
    '' '' @ utf8 [0x6761, 0xFF08]"

text \<open>Failed.\<close>

definition zh_ic_failed :: string where
  "zh_ic_failed =
    utf8 [0x5931, 0x8D25, 0xFF1A]"

text \<open>All requests failed.\<close>

definition zh_ic_all_failed :: string where
  "zh_ic_all_failed =
    utf8 [0x5168, 0x90E8, 0x8BF7, 0x6C42, 0x5931, 0x8D25]"

text \<open>An incident created by hand.\<close>

definition zh_ic_manual :: string where
  "zh_ic_manual =
    utf8 [0x624B, 0x52A8, 0x521B, 0x5EFA, 0x4E8B, 0x4EF6] @ '' ''"

text \<open>The incident has been created.\<close>

definition zh_ic_created :: string where
  "zh_ic_created =
    utf8 [0x4E8B, 0x4EF6, 0x521B, 0x5EFA, 0x6210, 0x529F]"

text \<open>Creating the incident failed.\<close>

definition zh_ic_create_failed :: string where
  "zh_ic_create_failed =
    utf8 [0x521B, 0x5EFA, 0x4E8B, 0x4EF6, 0x5931, 0x8D25]"

text \<open>No incident chosen to be assigned.\<close>

definition zh_ic_none_to_assign :: string where
  "zh_ic_none_to_assign =
    utf8 [0x672A, 0x9009, 0x62E9, 0x5F85, 0x6307, 0x6D3E, 0x4E8B, 0x4EF6]"

text \<open>Assign incidents.\<close>

definition zh_ic_assign :: string where
  "zh_ic_assign =
    utf8 [0x6307, 0x6D3E, 0x4E8B, 0x4EF6]"

text \<open>Take the assignee away.\<close>

definition zh_ic_unassign :: string where
  "zh_ic_unassign =
    utf8 [0x6E05, 0x7A7A, 0x8D1F, 0x8D23, 0x4EBA]"

text \<open>A verdict is needed.\<close>

definition zh_ic_verdict_needed :: string where
  "zh_ic_verdict_needed =
    utf8 [0x8BF7, 0x8F93, 0x5165, 0x5F52, 0x6863, 0x7ED3, 0x8BBA]"

text \<open>Archive incidents.\<close>

definition zh_ic_archive :: string where
  "zh_ic_archive =
    utf8 [0x5F52, 0x6863, 0x4E8B, 0x4EF6]"

text \<open>Delete incidents.\<close>

definition zh_ic_delete :: string where
  "zh_ic_delete =
    utf8 [0x5220, 0x9664, 0x4E8B, 0x4EF6]"

text \<open>Acknowledge incidents.\<close>

definition zh_ic_acknowledge :: string where
  "zh_ic_acknowledge =
    utf8 [0x6279, 0x91CF, 0x54CD, 0x5E94, 0x4E8B, 0x4EF6]"

text \<open>Investigate incidents.\<close>

definition zh_ic_investigate :: string where
  "zh_ic_investigate =
    utf8 [0x6279, 0x91CF, 0x8F6C, 0x4E3A, 0x5206, 0x6790, 0x4E2D]"

text \<open>Resolve incidents.\<close>

definition zh_ic_resolve :: string where
  "zh_ic_resolve =
    utf8 [0x6279, 0x91CF, 0x89E3, 0x51B3, 0x4E8B, 0x4EF6]"

text \<open>The source.\<close>

definition zh_ic_source :: string where
  "zh_ic_source =
    utf8 [0x6765, 0x6E90] @ '' ''"

text \<open>No source yet.\<close>

definition zh_ic_no_source :: string where
  "zh_ic_no_source =
    utf8 [0x6765, 0x6E90, 0x5F85, 0x8865, 0x5145]"

text \<open>Affects.\<close>

definition zh_ic_affects :: string where
  "zh_ic_affects =
    '' '' @ utf8 [0x00B7] @ '' '' @ utf8 [0x5F71, 0x54CD] @ '' ''"

text \<open>Services.\<close>

definition zh_ic_services :: string where
  "zh_ic_services =
    '' '' @ utf8 [0x4E2A, 0x670D, 0x52A1]"

text \<open>No services yet.\<close>

definition zh_ic_no_services :: string where
  "zh_ic_no_services =
    '' '' @ utf8 [0x00B7] @ '' '' @ utf8 [0x5F71, 0x54CD, 0x8303, 0x56F4, 0x5F85, 0x8865,
      0x5145]"

text \<open>A name is needed.\<close>

definition zh_wz_name_needed :: string where
  "zh_wz_name_needed =
    utf8 [0x8BF7, 0x8F93, 0x5165, 0x6570, 0x636E, 0x6E90, 0x540D, 0x79F0]"

text \<open>A kind of source is needed.\<close>

definition zh_wz_type_needed :: string where
  "zh_wz_type_needed =
    utf8 [0x8BF7, 0x9009, 0x62E9, 0x6570, 0x636E, 0x6E90, 0x7C7B, 0x578B]"

text \<open>An agent has to be chosen.\<close>

definition zh_wz_agent_needed :: string where
  "zh_wz_agent_needed =
    utf8 [0x8BF7, 0x9009, 0x62E9, 0x4E00, 0x4E2A, 0x5DF2, 0x6709] @ '' Agent''"

text \<open>The base URL of the agent is needed.\<close>

definition zh_wz_url_needed :: string where
  "zh_wz_url_needed =
    utf8 [0x8BF7, 0x8F93, 0x5165] @ '' Agent '' @ utf8 [0x57FA, 0x7840] @ '' URL''"

text \<open>A path is needed.\<close>

definition zh_wz_path_needed :: string where
  "zh_wz_path_needed =
    utf8 [0x8BF7, 0x8F93, 0x5165, 0x91C7, 0x96C6, 0x8DEF, 0x5F84, 0x6216] @ '' source_path''"

text \<open>Uploading needs brokers.\<close>

definition zh_wz_brokers_needed :: string where
  "zh_wz_brokers_needed =
    utf8 [0x4E3B, 0x52A8, 0x4E0A, 0x4F20, 0x6A21, 0x5F0F, 0x4E0B, 0xFF0C, 0x8BF7, 0x586B,
      0x5199] @ '' Kafka Brokers''"

text \<open>Uploading needs a topic.\<close>

definition zh_wz_topic_needed :: string where
  "zh_wz_topic_needed =
    utf8 [0x4E3B, 0x52A8, 0x4E0A, 0x4F20, 0x6A21, 0x5F0F, 0x4E0B, 0xFF0C, 0x8BF7, 0x586B,
      0x5199] @ '' Kafka Topic''"

text \<open>The script has been generated.\<close>

definition zh_wz_script_made :: string where
  "zh_wz_script_made =
    utf8 [0x90E8, 0x7F72, 0x811A, 0x672C, 0x5DF2, 0x751F, 0x6210]"

text \<open>Generating the script failed.\<close>

definition zh_wz_script_failed :: string where
  "zh_wz_script_failed =
    utf8 [0x811A, 0x672C, 0x751F, 0x6210, 0x5931, 0x8D25, 0xFF1A]"

text \<open>The URL has no host.\<close>

definition zh_wz_no_host :: string where
  "zh_wz_no_host =
    ''Agent '' @ utf8 [0x57FA, 0x7840] @ '' URL '' @ utf8 [0x65E0, 0x6CD5, 0x89E3, 0x6790,
      0x4E3B, 0x673A, 0x540D]"

text \<open>Has been saved.\<close>

definition zh_wz_saved :: string where
  "zh_wz_saved =
    '' '' @ utf8 [0x5DF2, 0x4FDD, 0x5B58]"

text \<open>Saving the source failed.\<close>

definition zh_wz_save_failed :: string where
  "zh_wz_save_failed =
    utf8 [0x4FDD, 0x5B58, 0x91C7, 0x96C6, 0x6E90, 0x914D, 0x7F6E, 0x5931, 0x8D25, 0xFF1A]"

text \<open>Loading the agents failed.\<close>

definition zh_wz_agents_failed :: string where
  "zh_wz_agents_failed =
    ''Agent '' @ utf8 [0x5217, 0x8868, 0x52A0, 0x8F7D, 0x5931, 0x8D25, 0xFF1A]"

text \<open>Active.\<close>

definition zh_sr_active :: string where
  "zh_sr_active =
    utf8 [0x542F, 0x7528, 0x4E2D]"

text \<open>Has been paused.\<close>

definition zh_sr_paused :: string where
  "zh_sr_paused =
    utf8 [0x5DF2, 0x6682, 0x505C]"

text \<open>Nothing has been reported.\<close>

definition zh_sr_not_reported :: string where
  "zh_sr_not_reported =
    utf8 [0x672A, 0x4E0A, 0x62A5]"

text \<open>Running.\<close>

definition zh_sr_running :: string where
  "zh_sr_running =
    utf8 [0x8FD0, 0x884C, 0x4E2D]"

text \<open>Paused.\<close>

definition zh_sr_pausing :: string where
  "zh_sr_pausing =
    utf8 [0x6682, 0x505C]"

text \<open>Offline.\<close>

definition zh_sr_offline :: string where
  "zh_sr_offline =
    utf8 [0x79BB, 0x7EBF]"

text \<open>An error.\<close>

definition zh_sr_error :: string where
  "zh_sr_error =
    utf8 [0x9519, 0x8BEF]"

text \<open>Succeeded.\<close>

definition zh_sr_ok :: string where
  "zh_sr_ok =
    utf8 [0x6210, 0x529F]"

text \<open>Waiting.\<close>

definition zh_sr_waiting :: string where
  "zh_sr_waiting =
    utf8 [0x5F85, 0x6267, 0x884C]"

text \<open>Failed.\<close>

definition zh_sr_failed :: string where
  "zh_sr_failed =
    utf8 [0x5931, 0x8D25]"

text \<open>Acknowledged.\<close>

definition zh_sr_acked :: string where
  "zh_sr_acked =
    utf8 [0x5DF2, 0x786E, 0x8BA4]"

text \<open>Refused.\<close>

definition zh_sr_nacked :: string where
  "zh_sr_nacked =
    utf8 [0x56DE, 0x6267, 0x5931, 0x8D25]"

text \<open>Being handled.\<close>

definition zh_sr_handling :: string where
  "zh_sr_handling =
    utf8 [0x5904, 0x7406, 0x4E2D]"

text \<open>The sources could not be loaded.\<close>

definition zh_sr_config_error :: string where
  "zh_sr_config_error =
    utf8 [0x91C7, 0x96C6, 0x6E90, 0x914D, 0x7F6E, 0xFF1A]"

text \<open>The agents could not be loaded.\<close>

definition zh_sr_agent_error :: string where
  "zh_sr_agent_error =
    ''Agent'' @ utf8 [0xFF1A]"

text \<open>Loading failed.\<close>

definition zh_sr_load_failed :: string where
  "zh_sr_load_failed =
    utf8 [0x91C7, 0x96C6, 0x4E0E, 0x63A5, 0x5165, 0x52A0, 0x8F7D, 0x5931, 0x8D25, 0xFF1A]"

text \<open>The source has been created.\<close>

definition zh_sr_created :: string where
  "zh_sr_created =
    utf8 [0x91C7, 0x96C6, 0x6E90, 0x5DF2, 0x521B, 0x5EFA]"

text \<open>The source has been changed.\<close>

definition zh_sr_updated :: string where
  "zh_sr_updated =
    utf8 [0x91C7, 0x96C6, 0x6E90, 0x5DF2, 0x66F4, 0x65B0]"

text \<open>Saving failed.\<close>

definition zh_sr_save_failed :: string where
  "zh_sr_save_failed =
    utf8 [0x4FDD, 0x5B58, 0x5931, 0x8D25, 0xFF1A]"

text \<open>The source has been disabled.\<close>

definition zh_sr_disabled :: string where
  "zh_sr_disabled =
    utf8 [0x5DF2, 0x7981, 0x7528, 0x91C7, 0x96C6, 0x6E90, 0xFF1A]"

text \<open>Disabling failed.\<close>

definition zh_sr_disable_failed :: string where
  "zh_sr_disable_failed =
    utf8 [0x7981, 0x7528, 0x5931, 0x8D25, 0xFF1A]"

text \<open>The name of the source has to be typed.\<close>

definition zh_sr_wrong_name :: string where
  "zh_sr_wrong_name =
    utf8 [0x8BF7, 0x8F93, 0x5165, 0x6B63, 0x786E, 0x7684, 0x91C7, 0x96C6, 0x6E90, 0x540D,
      0x79F0, 0x540E, 0x518D, 0x5220, 0x9664]"

text \<open>The source has been deleted.\<close>

definition zh_sr_deleted :: string where
  "zh_sr_deleted =
    utf8 [0x5DF2, 0x5220, 0x9664, 0x91C7, 0x96C6, 0x6E90, 0xFF1A]"

text \<open>The deletion timed out.\<close>

definition zh_sr_delete_timeout :: string where
  "zh_sr_delete_timeout =
    utf8 [0x5220, 0x9664, 0x8BF7, 0x6C42, 0x8D85, 0x65F6, 0xFF0C, 0x670D, 0x52A1, 0x7AEF,
      0x53EF, 0x80FD, 0x4ECD, 0x5728, 0x5904, 0x7406, 0x4E2D, 0xFF0C, 0x5DF2, 0x4E3A, 0x4F60,
      0x5173, 0x95ED, 0x5F39, 0x7A97, 0x5E76, 0x5237, 0x65B0, 0x5217, 0x8868]"

text \<open>The deletion failed.\<close>

definition zh_sr_delete_failed :: string where
  "zh_sr_delete_failed =
    utf8 [0x5220, 0x9664, 0x5931, 0x8D25, 0xFF1A]"

text \<open>A task has been submitted.\<close>

definition zh_sr_submitted :: string where
  "zh_sr_submitted =
    utf8 [0x5DF2, 0x63D0, 0x4EA4, 0x91C7, 0x96C6, 0x4EFB, 0x52A1, 0xFF1A]"

text \<open>Running the task failed.\<close>

definition zh_sr_run_failed :: string where
  "zh_sr_run_failed =
    utf8 [0x6267, 0x884C, 0x91C7, 0x96C6, 0x5931, 0x8D25, 0xFF1A]"

text \<open>The task.\<close>

definition zh_sr_task :: string where
  "zh_sr_task =
    utf8 [0x4EFB, 0x52A1, 0xFF1A]"

text \<open>The package.\<close>

definition zh_sr_package :: string where
  "zh_sr_package =
    utf8 [0x8D44, 0x6E90, 0x5305, 0xFF1A]"

text \<open>Reported.\<close>

definition zh_sr_reported :: string where
  "zh_sr_reported =
    utf8 [0x4E0A, 0x62A5, 0xFF1A]"

text \<open>Loading the state of the sources failed.\<close>

definition zh_sr_status_failed :: string where
  "zh_sr_status_failed =
    utf8 [0x6570, 0x636E, 0x6E90, 0x72B6, 0x6001, 0x52A0, 0x8F7D, 0x5931, 0x8D25, 0xFF1A]"

text \<open>The last package.\<close>

definition zh_sr_last_package :: string where
  "zh_sr_last_package =
    utf8 [0x6700, 0x8FD1, 0x5305, 0xFF1A]"

text \<open>The state of the package.\<close>

definition zh_sr_package_state :: string where
  "zh_sr_package_state =
    utf8 [0x5305, 0x72B6, 0x6001, 0xFF1A]"

text \<open>The offset.\<close>

definition zh_sr_offset :: string where
  "zh_sr_offset =
    ''offset'' @ utf8 [0xFF1A]"

text \<open>The cursor.\<close>

definition zh_sr_cursor :: string where
  "zh_sr_cursor =
    ''cursor'' @ utf8 [0xFF1A]"

text \<open>The time of the cursor.\<close>

definition zh_sr_cursor_time :: string where
  "zh_sr_cursor_time =
    utf8 [0x6E38, 0x6807, 0x65F6, 0x95F4, 0xFF1A]"

text \<open>The last file.\<close>

definition zh_sr_last_file :: string where
  "zh_sr_last_file =
    utf8 [0x6700, 0x8FD1, 0x6587, 0x4EF6, 0xFF1A]"

text \<open>Recently.\<close>

definition zh_sr_recent :: string where
  "zh_sr_recent =
    utf8 [0x6700, 0x8FD1] @ '' ''"

end
