(* ===== verification/Alerts_Page.thy ===== *)
theory Alerts_Page
  imports Rules_Page Paged_List Zh_Pages Zh_Alerts
begin

text \<open>
  The page of the alerts (\<open>pages/alerts/AlertList.tsx\<close>): one page of the events with its filters, polled while the tab is
  on show, a selection, and acknowledging, resolving and silencing of one or of all selected. Requests with the same
  parameters are shared unless a handler forces its own; only the answer to the newest one counts. A handler that waited
  loads the list with the view of the render it belongs to. That the alerts in the store are marked as read when the page
  opens is an operation of Stores.
\<close>

section \<open>The state\<close>

record alerts_view =
  av_page :: int
  av_pageSize :: int
  av_status :: "string option"
  av_severity :: "string option"
  av_search :: string

type_synonym alerts_key = "int \<times> int \<times> string \<times> string \<times> string"

text \<open>What a handler does when the list it asked for has come: nothing, release the buttons, close the dialog.\<close>

datatype after_load = Nothing_More | Release_Buttons | Close_Silence

record alerts_request =
  aq_seq :: nat
  aq_view :: alerts_view
  aq_silent :: bool
  aq_after :: after_load

datatype alert_action = Acknowledge_It | Resolve_It | Silence_It

datatype alert_change = Ack_Alert string | Resolve_Alert string | Silence_Alert string string int

text \<open>Why a change failed.\<close>

record alert_failure =
  af_message :: "string option"
  af_status :: "nat option"
  af_code :: "string option"

datatype alert_task = One_Alert alert_action | Many_Alerts alert_action after_load

record alert_work =
  aw_task :: alert_task
  aw_view :: alerts_view

record alerts_page =
  ap_alerts :: "alert_event list"
  ap_loading :: bool
  ap_error :: "string option"
  ap_lastUpdatedAt :: "int option"
  ap_search :: string
  ap_severityFilter :: "string option"
  ap_statusFilter :: "string option"
  ap_selectedRowKeys :: "string list"
  ap_silenceModalOpen :: bool
  ap_silenceDuration :: int
  ap_silenceReason :: string
  ap_batchRunning :: bool
  ap_singleSilenceTargetID :: "string option"
  ap_poll :: "alerts_view option"
  ap_loadRequest :: "(alerts_key \<times> nat) option"
  ap_latestLoadSeq :: nat
  ap_pageSize :: int
  ap_currentPage :: int
  ap_totalAlerts :: jsnum
  ap_stats :: "jsnum \<times> jsnum \<times> jsnum \<times> jsnum"
  ap_prefs :: preferences
  ap_hidden :: bool
  ap_followed :: "alerts_view option"
  ap_requests :: "alerts_request list"
  ap_work :: "alert_work list"
  ap_sent :: "alert_change list"
  ap_started :: "string option"
  ap_notices :: "notice list"

abbreviation no_alerts_counted :: "jsnum \<times> jsnum \<times> jsnum \<times> jsnum" where
  "no_alerts_counted \<equiv> (Fin 0, Fin 0, Fin 0, Fin 0)"

definition ap_say :: "notice \<Rightarrow> alerts_page \<Rightarrow> alerts_page" where
  "ap_say n st = st\<lparr>ap_notices := n # ap_notices st\<rparr>"

definition alerts_view_of :: "alerts_page \<Rightarrow> alerts_view" where
  "alerts_view_of st =
     \<lparr>av_page = ap_currentPage st, av_pageSize = ap_pageSize st, av_status = ap_statusFilter st,
      av_severity = ap_severityFilter st, av_search = ap_search st\<rparr>"

section \<open>What is on show\<close>

definition mapStatusFilterToApi :: "string option \<Rightarrow> string option" where
  "mapStatusFilterToApi s =
     (case s of None \<Rightarrow> None | Some t \<Rightarrow>
        if t = ''active'' then Some ''firing''
        else if t \<in> set [''acknowledged'', ''resolved'', ''silenced''] then Some t else None)"

text \<open>The parameters of the request a view asks for.\<close>

definition key_of_view :: "alerts_view \<Rightarrow> alerts_key" where
  "key_of_view v =
     (av_page v, av_pageSize v, nullish (mapStatusFilterToApi (av_status v)) [], nullish (av_severity v) [], trim (av_search v))"

definition visible_alerts :: "alert_event list \<Rightarrow> alert_event list" where
  "visible_alerts items =
     filter (\<lambda>a. \<not> isLocalAlertArtifact
       [Some (js_String (ae_name a)), Some (js_String (ae_detail a)), Some (js_String (ae_source a)),
        map_option js_String (ae_ruleId a)]) items"

definition hiddenAlertCount :: "alerts_page \<Rightarrow> nat" where
  "hiddenAlertCount st = length (ap_alerts st) - length (visible_alerts (ap_alerts st))"

definition has_key :: "alert_event list \<Rightarrow> string \<Rightarrow> bool" where
  "has_key items k \<longleftrightarrow> list_ex (\<lambda>a. ae_id a = Some (JStr k)) items"

definition notificationLabel :: "notification_summary option \<Rightarrow> string" where
  "notificationLabel summary =
     (case summary of
        None \<Rightarrow> zh_nt_none
      | Some s \<Rightarrow>
          nullish (map_of [(''sent'', zh_nt_sent), (''partial'', zh_nt_partial), (''failed'', zh_nt_failed), (''skipped'', zh_nt_skipped),
            (''no_channels'', zh_nt_no_channels), (''silenced'', zh_nt_silenced)] (ns_status s)) zh_report_unknown)"

definition formatNotificationTooltip :: "(rat \<Rightarrow> string) \<Rightarrow> notification_summary option \<Rightarrow> string" where
  "formatNotificationTooltip locale_time summary =
     (case summary of
        None \<Rightarrow> zh_nt_no_record
      | Some s \<Rightarrow>
          join [CHR 0x0A]
            ([zh_nt_status @ notificationLabel summary,
              zh_nt_successful @ num_to_string (ns_successfulChannels s),
              zh_nt_attempted @ num_to_string (ns_attemptedChannels s)]
             @ (case ns_lastAttemptAt s of None \<Rightarrow> [] | Some t \<Rightarrow> if t = 0 then [] else [zh_nt_last @ locale_time t])))"

text \<open>The actions a row offers.\<close>

definition row_offers :: "alert_event \<Rightarrow> alert_action \<Rightarrow> bool" where
  "row_offers a action =
     (case action of
        Acknowledge_It \<Rightarrow> ae_status a = ''active''
      | Resolve_It \<Rightarrow> ae_status a = ''active'' \<or> ae_status a = ''acknowledged''
      | Silence_It \<Rightarrow> ae_status a \<noteq> ''silenced'' \<and> ae_status a \<noteq> ''resolved'')"

definition pagination_total :: "alerts_page \<Rightarrow> jsnum" where
  "pagination_total st =
     (if 0 < hiddenAlertCount st \<and> visible_alerts (ap_alerts st) = [] then Fin 0 else ap_totalAlerts st)"

definition alerts_total_text :: "alerts_page \<Rightarrow> int \<Rightarrow> int \<Rightarrow> string" where
  "alerts_total_text st first_row last_row =
     (let shown = length (visible_alerts (ap_alerts st)) in
      if 0 < hiddenAlertCount st then
        (if 0 < shown then zh_al_page_shows @ nat_to_string shown @ zh_al_and_hides @ nat_to_string (hiddenAlertCount st) @ zh_al_local
         else zh_al_only_local)
      else zh_al_shows @ int_to_string first_row @ zh_al_to @ int_to_string last_row @ zh_al_of
             @ num_to_string (pagination_total st) @ zh_rows)"

definition alerts_empty_text :: "alerts_page \<Rightarrow> string" where
  "alerts_empty_text st = (if 0 < hiddenAlertCount st then zh_al_only_local else zh_al_none)"

section \<open>Loading\<close>

definition start_alerts :: "bool \<Rightarrow> after_load \<Rightarrow> alerts_view \<Rightarrow> alerts_page \<Rightarrow> alerts_page" where
  "start_alerts silent afterwards v st =
     (let currentSeq = ap_latestLoadSeq st + 1
      in st\<lparr>ap_latestLoadSeq := currentSeq, ap_loading := True, ap_error := None,
            ap_requests := ap_requests st @ [\<lparr>aq_seq = currentSeq, aq_view = v, aq_silent = silent, aq_after = afterwards\<rparr>],
            ap_loadRequest := Some (key_of_view v, currentSeq)\<rparr>)"

text \<open>\<open>loadAlerts\<close> without force: a request for the same parameters under way is joined.\<close>

definition join_alerts :: "bool \<Rightarrow> alerts_view \<Rightarrow> alerts_page \<Rightarrow> alerts_page" where
  "join_alerts silent v st =
     (if map_option fst (ap_loadRequest st) = Some (key_of_view v) then st else start_alerts silent Nothing_More v st)"

definition finish_after :: "after_load \<Rightarrow> alerts_page \<Rightarrow> alerts_page" where
  "finish_after afterwards st =
     (case afterwards of
        Nothing_More \<Rightarrow> st
      | Release_Buttons \<Rightarrow> st\<lparr>ap_batchRunning := False\<rparr>
      | Close_Silence \<Rightarrow>
          st\<lparr>ap_silenceModalOpen := False, ap_singleSilenceTargetID := None, ap_silenceReason := [], ap_batchRunning := False\<rparr>)"

text \<open>The selection keeps what is among the items, then what is on show.\<close>

definition show_alerts :: "int \<Rightarrow> event_list \<Rightarrow> alerts_page \<Rightarrow> alerts_page" where
  "show_alerts now result st =
     st\<lparr>ap_alerts := el_items result, ap_totalAlerts := el_total result,
        ap_stats := (el_pending result, el_critical result, el_warning result, el_silenced result),
        ap_selectedRowKeys :=
          filter (has_key (visible_alerts (el_items result))) (filter (has_key (el_items result)) (ap_selectedRowKeys st)),
        ap_lastUpdatedAt := Some now\<rparr>"

definition fail_alerts :: "bool \<Rightarrow> string option \<Rightarrow> alerts_page \<Rightarrow> alerts_page" where
  "fail_alerts silent reason st =
     (let msg = nullish reason zh_al_load_failed;
          st1 = st\<lparr>ap_error := Some msg, ap_alerts := [], ap_totalAlerts := Fin 0, ap_stats := no_alerts_counted,
                   ap_selectedRowKeys := []\<rparr>
      in if silent then st1 else ap_say (Error_Notice msg) st1)"

definition finish_alerts :: "int \<Rightarrow> nat \<Rightarrow> string option + event_list \<Rightarrow> alerts_page \<Rightarrow> alerts_page" where
  "finish_alerts now i answer st =
     (let r = ap_requests st ! i; newest = (ap_latestLoadSeq st = aq_seq r);
          st1 = st\<lparr>ap_requests := drop_at i (ap_requests st)\<rparr>;
          st2 = (if \<not> newest then st1
                 else case answer of Inr result \<Rightarrow> show_alerts now result st1 | Inl reason \<Rightarrow> fail_alerts (aq_silent r) reason st1);
          st3 = (if map_option snd (ap_loadRequest st2) = Some (aq_seq r) then st2\<lparr>ap_loadRequest := None\<rparr> else st2);
          st4 = (if newest then st3\<lparr>ap_loading := False\<rparr> else st3)
      in finish_after (aq_after r) st4)"

section \<open>Polling\<close>

definition startPollTimer :: "alerts_page \<Rightarrow> alerts_page" where
  "startPollTimer st = st\<lparr>ap_poll := (if ap_hidden st then None else Some (alerts_view_of st))\<rparr>"

text \<open>The effects that depend on the view: load it, and poll it from now on.\<close>

definition follow_alerts :: "alerts_page \<Rightarrow> alerts_page" where
  "follow_alerts st =
     (if ap_followed st = Some (alerts_view_of st) then st
      else startPollTimer (join_alerts False (alerts_view_of st) (st\<lparr>ap_followed := Some (alerts_view_of st)\<rparr>)))"

definition poll_alerts :: "alerts_page \<Rightarrow> alerts_page" where
  "poll_alerts st = (case ap_poll st of None \<Rightarrow> st | Some v \<Rightarrow> join_alerts True v st)"

definition change_visibility :: "bool \<Rightarrow> alerts_page \<Rightarrow> alerts_page" where
  "change_visibility hidden st =
     (let st1 = st\<lparr>ap_hidden := hidden\<rparr>
      in if hidden then st1\<lparr>ap_poll := None\<rparr> else startPollTimer (join_alerts True (alerts_view_of st1) st1))"

section \<open>The view\<close>

definition type_search :: "string \<Rightarrow> alerts_page \<Rightarrow> alerts_page" where
  "type_search s st = follow_alerts (st\<lparr>ap_search := s, ap_currentPage := 1\<rparr>)"

definition choose_severity :: "string option \<Rightarrow> alerts_page \<Rightarrow> alerts_page" where
  "choose_severity s st = follow_alerts (st\<lparr>ap_severityFilter := s, ap_currentPage := 1\<rparr>)"

definition choose_status :: "string option \<Rightarrow> alerts_page \<Rightarrow> alerts_page" where
  "choose_status s st = follow_alerts (st\<lparr>ap_statusFilter := s, ap_currentPage := 1\<rparr>)"

definition turn_alerts :: "int \<Rightarrow> int option \<Rightarrow> alerts_page \<Rightarrow> alerts_page" where
  "turn_alerts page sz st =
     (let nextPageSize = nullish sz (ap_pageSize st)
      in follow_alerts
           (if nextPageSize \<noteq> ap_pageSize st
            then st\<lparr>ap_pageSize := nextPageSize, ap_prefs := setPageSize ''alertList'' nextPageSize (ap_prefs st), ap_currentPage := 1\<rparr>
            else st\<lparr>ap_currentPage := page\<rparr>))"

section \<open>Changes\<close>

definition send_changes :: "alert_change list \<Rightarrow> alert_task \<Rightarrow> alerts_page \<Rightarrow> alerts_page" where
  "send_changes cs task st =
     st\<lparr>ap_sent := rev cs @ ap_sent st, ap_work := ap_work st @ [\<lparr>aw_task = task, aw_view = alerts_view_of st\<rparr>]\<rparr>"

definition handleAcknowledge :: "string \<Rightarrow> alerts_page \<Rightarrow> alerts_page" where
  "handleAcknowledge i = send_changes [Ack_Alert i] (One_Alert Acknowledge_It)"

definition handleResolve :: "string \<Rightarrow> alerts_page \<Rightarrow> alerts_page" where
  "handleResolve i = send_changes [Resolve_Alert i] (One_Alert Resolve_It)"

text \<open>The dialog of silencing, for one alert or for the selection.\<close>

definition handleSilence :: "string option \<Rightarrow> alerts_page \<Rightarrow> alerts_page" where
  "handleSilence target st =
     st\<lparr>ap_singleSilenceTargetID := target, ap_silenceReason := [], ap_silenceDuration := 3600, ap_silenceModalOpen := True\<rparr>"

definition cancel_silence :: "alerts_page \<Rightarrow> alerts_page" where
  "cancel_silence st = st\<lparr>ap_silenceModalOpen := False, ap_singleSilenceTargetID := None, ap_silenceReason := []\<rparr>"

definition change_of :: "alerts_page \<Rightarrow> alert_action \<Rightarrow> string \<Rightarrow> alert_change" where
  "change_of st action i =
     (case action of
        Acknowledge_It \<Rightarrow> Ack_Alert i
      | Resolve_It \<Rightarrow> Resolve_Alert i
      | Silence_It \<Rightarrow> Silence_Alert i (ap_silenceReason st) (ap_silenceDuration st))"

definition executeBatch :: "alert_action \<Rightarrow> after_load \<Rightarrow> alerts_page \<Rightarrow> alerts_page" where
  "executeBatch action afterwards st =
     (if ap_selectedRowKeys st = [] then (if afterwards = Close_Silence then finish_after afterwards st else st)
      else send_changes (map (change_of st action) (ap_selectedRowKeys st)) (Many_Alerts action afterwards)
             (st\<lparr>ap_batchRunning := True\<rparr>))"

definition confirmBatchSilence :: "alerts_page \<Rightarrow> alerts_page" where
  "confirmBatchSilence st =
     (case ap_singleSilenceTargetID st of
        Some i \<Rightarrow>
          (if i = [] then executeBatch Silence_It Close_Silence st
           else send_changes [change_of st Silence_It i] (One_Alert Silence_It) (st\<lparr>ap_batchRunning := True\<rparr>))
      | None \<Rightarrow> executeBatch Silence_It Close_Silence st)"

definition action_label :: "alert_action \<Rightarrow> string" where
  "action_label action = (case action of Acknowledge_It \<Rightarrow> zh_al_ack | Resolve_It \<Rightarrow> zh_al_resolve | Silence_It \<Rightarrow> zh_al_silence)"

definition done_text :: "alert_action \<Rightarrow> string" where
  "done_text action =
     (case action of Acknowledge_It \<Rightarrow> zh_al_acknowledged | Resolve_It \<Rightarrow> zh_al_resolved | Silence_It \<Rightarrow> zh_al_silenced)"

definition failed_text :: "alert_action \<Rightarrow> string" where
  "failed_text action =
     (case action of Acknowledge_It \<Rightarrow> zh_al_ack_failed | Resolve_It \<Rightarrow> zh_al_resolve_failed | Silence_It \<Rightarrow> zh_al_silence_failed)"

definition is_gone :: "alert_failure \<Rightarrow> bool" where
  "is_gone e \<longleftrightarrow> af_status e = Some 404 \<or> af_code e = Some ''RES_NOT_FOUND''"

text \<open>What follows the answer to one change: after silencing, the dialog is closed with the list, or only its button
  released when the change failed.\<close>

definition handleMutationError :: "after_load \<Rightarrow> alert_action \<Rightarrow> alerts_view \<Rightarrow> alert_failure \<Rightarrow> alerts_page \<Rightarrow> alerts_page" where
  "handleMutationError afterwards action v e st =
     (if is_gone e then start_alerts True afterwards v (ap_say (Warning zh_al_gone) st)
      else finish_after afterwards (ap_say (Error_Notice (or_str (nullish (af_message e) []) (failed_text action))) st))"

definition finish_one :: "alert_action \<Rightarrow> alerts_view \<Rightarrow> alert_failure option \<Rightarrow> alerts_page \<Rightarrow> alerts_page" where
  "finish_one action v failure st =
     (case failure of
        None \<Rightarrow> start_alerts False (if action = Silence_It then Close_Silence else Nothing_More) v (ap_say (Success_Notice (done_text action)) st)
      | Some e \<Rightarrow> handleMutationError (if action = Silence_It then Release_Buttons else Nothing_More) action v e st)"

definition finish_many :: "alert_action \<Rightarrow> after_load \<Rightarrow> alerts_view \<Rightarrow> alert_failure option list \<Rightarrow> alerts_page \<Rightarrow> alerts_page" where
  "finish_many action afterwards v results st =
     (let successCount = length (filter (\<lambda>r. r = None) results);
          missingCount = length (filter (\<lambda>r. case r of None \<Rightarrow> False | Some e \<Rightarrow> is_gone e) results);
          failureCount = length results - successCount - missingCount;
          tell = (\<lambda>n notice st. if 0 < (n :: nat) then ap_say notice st else st)
      in start_alerts False afterwards v
           ((tell failureCount (Error_Notice (nat_to_string failureCount @ zh_al_many_failed))
             (tell missingCount (Warning (nat_to_string missingCount @ zh_al_many_gone))
               (tell successCount (Success_Notice (zh_al_done @ action_label action @ '' '' @ nat_to_string successCount @ zh_al_alerts)) st)))
              \<lparr>ap_selectedRowKeys := []\<rparr>))"

datatype change_result = One_Ended "alert_failure option" | Many_Ended "alert_failure option list"

definition finish_change :: "nat \<Rightarrow> change_result \<Rightarrow> alerts_page \<Rightarrow> alerts_page" where
  "finish_change i result st =
     (let w = ap_work st ! i; st1 = st\<lparr>ap_work := drop_at i (ap_work st)\<rparr>
      in case (aw_task w, result) of
           (One_Alert action, One_Ended failure) \<Rightarrow> finish_one action (aw_view w) failure st1
         | (Many_Alerts action afterwards, Many_Ended results) \<Rightarrow> finish_many action afterwards (aw_view w) results st1
         | _ \<Rightarrow> st)"

text \<open>The logs of an alert: its rule, its source or its name.\<close>

definition trimmed_text :: "json option \<Rightarrow> string" where
  "trimmed_text v = (case v of Some (JStr s) \<Rightarrow> trim s | _ \<Rightarrow> [])"

definition handleViewLogs :: "alert_event \<Rightarrow> alerts_page \<Rightarrow> alerts_page" where
  "handleViewLogs a st =
     st\<lparr>ap_started := Some (nullish (find (\<lambda>s. s \<noteq> [])
          [trimmed_text (ae_ruleId a), (if ae_source a = JStr ''-'' then [] else trimmed_text (Some (ae_source a))),
           trimmed_text (Some (ae_name a))]) [])\<rparr>"

section \<open>Runs\<close>

definition open_alerts_page :: "bool \<Rightarrow> preferences \<Rightarrow> alerts_page" where
  "open_alerts_page hidden prefs =
     follow_alerts
       \<lparr>ap_alerts = [], ap_loading = True, ap_error = None, ap_lastUpdatedAt = None, ap_search = [], ap_severityFilter = None,
        ap_statusFilter = None, ap_selectedRowKeys = [], ap_silenceModalOpen = False, ap_silenceDuration = 3600, ap_silenceReason = [],
        ap_batchRunning = False, ap_singleSilenceTargetID = None, ap_poll = None, ap_loadRequest = None, ap_latestLoadSeq = 0,
        ap_pageSize = nullish (jm_get (pageSizes prefs) ''alertList'') 10, ap_currentPage = 1, ap_totalAlerts = Fin 0,
        ap_stats = no_alerts_counted, ap_prefs = prefs, ap_hidden = hidden, ap_followed = None, ap_requests = [], ap_work = [],
        ap_sent = [], ap_started = None, ap_notices = []\<rparr>"

text \<open>The table selects among its rows.\<close>

inductive alerts_run :: "alerts_page \<Rightarrow> bool" where
  alerts_opened: "alerts_run (open_alerts_page hidden prefs)"
| alerts_answered: "alerts_run st \<Longrightarrow> i < length (ap_requests st) \<Longrightarrow> alerts_run (finish_alerts now i answer st)"
| alerts_refreshed: "alerts_run st \<Longrightarrow> alerts_run (start_alerts False Nothing_More (alerts_view_of st) st)"
| alerts_polled: "alerts_run st \<Longrightarrow> alerts_run (poll_alerts st)"
| visibility_changed: "alerts_run st \<Longrightarrow> alerts_run (change_visibility hidden st)"
| alerts_searched: "alerts_run st \<Longrightarrow> alerts_run (type_search s st)"
| severity_chosen: "alerts_run st \<Longrightarrow> alerts_run (choose_severity s st)"
| status_chosen: "alerts_run st \<Longrightarrow> alerts_run (choose_status s st)"
| alerts_turned: "alerts_run st \<Longrightarrow> alerts_run (turn_alerts page sz st)"
| alerts_selected: "alerts_run st \<Longrightarrow> distinct ks \<Longrightarrow> list_all (has_key (visible_alerts (ap_alerts st))) ks
    \<Longrightarrow> alerts_run (st\<lparr>ap_selectedRowKeys := ks\<rparr>)"
| acknowledged: "alerts_run st \<Longrightarrow> alerts_run (handleAcknowledge k st)"
| resolved: "alerts_run st \<Longrightarrow> alerts_run (handleResolve k st)"
| silence_opened: "alerts_run st \<Longrightarrow> alerts_run (handleSilence target st)"
| silence_edited: "alerts_run st \<Longrightarrow> alerts_run (st\<lparr>ap_silenceDuration := d, ap_silenceReason := s\<rparr>)"
| silence_cancelled: "alerts_run st \<Longrightarrow> alerts_run (cancel_silence st)"
| batch_clicked: "alerts_run st \<Longrightarrow> \<not> ap_batchRunning st \<Longrightarrow> alerts_run (executeBatch action Release_Buttons st)"
| silence_confirmed: "alerts_run st \<Longrightarrow> \<not> ap_batchRunning st \<Longrightarrow> alerts_run (confirmBatchSilence st)"
| change_answered: "alerts_run st \<Longrightarrow> i < length (ap_work st) \<Longrightarrow> alerts_run (finish_change i result st)"
| logs_opened: "alerts_run st \<Longrightarrow> alerts_run (handleViewLogs a st)"

section \<open>What holds on every run\<close>

definition newest_registered :: "alerts_page \<Rightarrow> bool" where
  "newest_registered st \<longleftrightarrow>
     distinct (map aq_seq (ap_requests st)) \<and> (\<forall>r \<in> set (ap_requests st). aq_seq r \<le> ap_latestLoadSeq st)
   \<and> ap_loading st = (ap_latestLoadSeq st \<in> aq_seq ` set (ap_requests st))
   \<and> (case ap_loadRequest st of
        None \<Rightarrow> ap_latestLoadSeq st \<notin> aq_seq ` set (ap_requests st)
      | Some (k, n) \<Rightarrow> n = ap_latestLoadSeq st \<and> (\<exists>r \<in> set (ap_requests st). aq_seq r = n \<and> key_of_view (aq_view r) = k))"

definition selection_shown :: "alerts_page \<Rightarrow> bool" where
  "selection_shown st \<longleftrightarrow>
     distinct (ap_selectedRowKeys st) \<and> list_all (has_key (visible_alerts (ap_alerts st))) (ap_selectedRowKeys st)"

definition polled_as_shown :: "alerts_page \<Rightarrow> bool" where
  "polled_as_shown st \<longleftrightarrow>
     ap_followed st = Some (alerts_view_of st) \<and> ap_poll st = (if ap_hidden st then None else Some (alerts_view_of st))"

definition alerts_ok :: "alerts_page \<Rightarrow> bool" where
  "alerts_ok st \<longleftrightarrow> newest_registered st \<and> selection_shown st \<and> polled_as_shown st"

lemma start_registered: "newest_registered st \<Longrightarrow> newest_registered (start_alerts silent afterwards v st)"
  unfolding newest_registered_def start_alerts_def Let_def by force

lemma registered_cong:
  "newest_registered st \<Longrightarrow> ap_requests st' = ap_requests st \<Longrightarrow> ap_latestLoadSeq st' = ap_latestLoadSeq st
   \<Longrightarrow> ap_loading st' = ap_loading st \<Longrightarrow> ap_loadRequest st' = ap_loadRequest st \<Longrightarrow> newest_registered st'"
  by (cases "ap_loadRequest st") (auto simp: newest_registered_def)

lemma view_cong:
  "ap_currentPage st' = ap_currentPage st \<Longrightarrow> ap_pageSize st' = ap_pageSize st \<Longrightarrow> ap_statusFilter st' = ap_statusFilter st
   \<Longrightarrow> ap_severityFilter st' = ap_severityFilter st \<Longrightarrow> ap_search st' = ap_search st \<Longrightarrow> alerts_view_of st' = alerts_view_of st"
  by (simp add: alerts_view_of_def)

text \<open>What the parts of the handlers leave alone.\<close>

lemma start_frame [simp]:
  "ap_alerts (start_alerts silent afterwards v st) = ap_alerts st"
  "ap_selectedRowKeys (start_alerts silent afterwards v st) = ap_selectedRowKeys st"
  "ap_followed (start_alerts silent afterwards v st) = ap_followed st" "ap_poll (start_alerts silent afterwards v st) = ap_poll st"
  "ap_hidden (start_alerts silent afterwards v st) = ap_hidden st"
  "alerts_view_of (start_alerts silent afterwards v st) = alerts_view_of st"
  by (simp_all add: start_alerts_def alerts_view_of_def Let_def)

lemma start_alerts_ok: "alerts_ok st \<Longrightarrow> alerts_ok (start_alerts silent afterwards v st)"
  by (simp add: alerts_ok_def start_registered selection_shown_def polled_as_shown_def)

lemma join_alerts_ok: "alerts_ok st \<Longrightarrow> alerts_ok (join_alerts silent v st)"
  by (simp add: join_alerts_def start_alerts_ok)

lemma join_frame [simp]:
  "ap_alerts (join_alerts silent v st) = ap_alerts st" "ap_selectedRowKeys (join_alerts silent v st) = ap_selectedRowKeys st"
  "ap_followed (join_alerts silent v st) = ap_followed st" "ap_hidden (join_alerts silent v st) = ap_hidden st"
  "alerts_view_of (join_alerts silent v st) = alerts_view_of st"
  by (simp_all add: join_alerts_def)

lemma join_registered: "newest_registered st \<Longrightarrow> newest_registered (join_alerts silent v st)"
  by (simp add: join_alerts_def start_registered)

text \<open>A new view is loaded and polled.\<close>

lemma poll_follows: "polled_as_shown (startPollTimer st) \<longleftrightarrow> ap_followed st = Some (alerts_view_of st)"
  by (simp add: polled_as_shown_def startPollTimer_def alerts_view_of_def)

lemma startPollTimer_parts:
  "newest_registered st \<Longrightarrow> newest_registered (startPollTimer st)" "selection_shown (startPollTimer st) = selection_shown st"
  by (auto simp: startPollTimer_def selection_shown_def elim: registered_cong)

lemma follow_alerts_ok:
  assumes "newest_registered st" "selection_shown st" "ap_followed st = Some (alerts_view_of st) \<Longrightarrow> polled_as_shown st"
  shows "alerts_ok (follow_alerts st)"
proof (cases "ap_followed st = Some (alerts_view_of st)")
  case True
  then show ?thesis using assms by (simp add: follow_alerts_def alerts_ok_def)
next
  case False
  let ?st = "st\<lparr>ap_followed := Some (alerts_view_of st)\<rparr>"
  have v: "alerts_view_of ?st = alerts_view_of st" by (rule view_cong) simp_all
  have "newest_registered ?st" using assms(1) by (rule registered_cong) simp_all
  moreover have "selection_shown (join_alerts False (alerts_view_of st) ?st)" using assms(2) by (simp add: selection_shown_def)
  ultimately show ?thesis
    using False by (simp add: follow_alerts_def alerts_ok_def poll_follows startPollTimer_parts join_registered v)
qed

text \<open>A handler that changes the view before it is followed: the poll of the old view fits only the old view.\<close>

lemma change_view_ok:
  assumes "alerts_ok st" "ap_requests st' = ap_requests st" "ap_latestLoadSeq st' = ap_latestLoadSeq st" "ap_loading st' = ap_loading st"
    "ap_loadRequest st' = ap_loadRequest st" "ap_selectedRowKeys st' = ap_selectedRowKeys st" "ap_alerts st' = ap_alerts st"
    "ap_followed st' = ap_followed st" "ap_poll st' = ap_poll st" "ap_hidden st' = ap_hidden st"
  shows "alerts_ok (follow_alerts st')"
proof (rule follow_alerts_ok)
  show "newest_registered st'" using assms(1) unfolding alerts_ok_def by (auto intro: registered_cong [OF _ assms(2-5)])
  show "selection_shown st'" using assms(1,6,7) by (simp add: alerts_ok_def selection_shown_def)
  show "polled_as_shown st'" if "ap_followed st' = Some (alerts_view_of st')"
    using assms(1,8-10) that by (simp add: alerts_ok_def polled_as_shown_def)
qed

text \<open>A handler that leaves list, view, timer and selection alone.\<close>

lemma alerts_ok_cong:
  assumes "alerts_ok st" "ap_requests st' = ap_requests st" "ap_latestLoadSeq st' = ap_latestLoadSeq st" "ap_loading st' = ap_loading st"
    "ap_loadRequest st' = ap_loadRequest st" "selection_shown st \<Longrightarrow> selection_shown st'" "ap_followed st' = ap_followed st"
    "ap_poll st' = ap_poll st" "ap_hidden st' = ap_hidden st" "alerts_view_of st' = alerts_view_of st"
  shows "alerts_ok st'"
  using assms(1) registered_cong [OF _ assms(2-5)] assms(6-10) by (simp add: alerts_ok_def polled_as_shown_def)

lemma finish_after_ok: "alerts_ok st \<Longrightarrow> alerts_ok (finish_after afterwards st)"
  by (erule alerts_ok_cong) (cases afterwards; simp add: finish_after_def selection_shown_def alerts_view_of_def)+

lemma ap_say_ok: "alerts_ok st \<Longrightarrow> alerts_ok (ap_say n st)"
  by (erule alerts_ok_cong) (simp_all add: ap_say_def selection_shown_def alerts_view_of_def)

lemma send_changes_ok: "alerts_ok st \<Longrightarrow> alerts_ok (send_changes cs task st)"
  by (erule alerts_ok_cong) (simp_all add: send_changes_def selection_shown_def alerts_view_of_def)

lemma update_ok:
  "alerts_ok st \<Longrightarrow> alerts_ok (st\<lparr>ap_batchRunning := b\<rparr>)" "alerts_ok st \<Longrightarrow> alerts_ok (st\<lparr>ap_selectedRowKeys := []\<rparr>)"
  "alerts_ok st \<Longrightarrow> alerts_ok (st\<lparr>ap_work := ws\<rparr>)" "alerts_ok st \<Longrightarrow> alerts_ok (handleViewLogs a st)"
  "alerts_ok st \<Longrightarrow> alerts_ok (handleSilence target st)" "alerts_ok st \<Longrightarrow> alerts_ok (cancel_silence st)"
  "alerts_ok st \<Longrightarrow> alerts_ok (st\<lparr>ap_silenceDuration := d, ap_silenceReason := s\<rparr>)"
  by (erule alerts_ok_cong; simp add: handleViewLogs_def handleSilence_def cancel_silence_def selection_shown_def alerts_view_of_def)+

lemma executeBatch_ok: "alerts_ok st \<Longrightarrow> alerts_ok (executeBatch action afterwards st)"
  by (simp add: executeBatch_def finish_after_ok send_changes_ok update_ok)

lemma finish_one_ok: "alerts_ok st \<Longrightarrow> alerts_ok (finish_one action v failure st)"
  unfolding finish_one_def handleMutationError_def
  by (cases failure) (simp_all add: start_alerts_ok finish_after_ok ap_say_ok)

lemma finish_many_ok: "alerts_ok st \<Longrightarrow> alerts_ok (finish_many action afterwards v results st)"
  unfolding finish_many_def Let_def by (intro start_alerts_ok update_ok(2)) (simp add: ap_say_ok)

lemma finish_change_ok: "alerts_ok st \<Longrightarrow> alerts_ok (finish_change i result st)"
  unfolding finish_change_def Let_def
  by (simp add: finish_one_ok finish_many_ok update_ok(3) split: alert_task.split change_result.split)

text \<open>After an answer.\<close>

lemma after_frame [simp]:
  "ap_requests (finish_after afterwards st) = ap_requests st" "ap_latestLoadSeq (finish_after afterwards st) = ap_latestLoadSeq st"
  "ap_followed (finish_after afterwards st) = ap_followed st" "ap_poll (finish_after afterwards st) = ap_poll st"
  "ap_hidden (finish_after afterwards st) = ap_hidden st" "alerts_view_of (finish_after afterwards st) = alerts_view_of st"
  "ap_loading (finish_after afterwards st) = ap_loading st" "ap_loadRequest (finish_after afterwards st) = ap_loadRequest st"
  "ap_alerts (finish_after afterwards st) = ap_alerts st" "ap_selectedRowKeys (finish_after afterwards st) = ap_selectedRowKeys st"
  by (cases afterwards; simp add: finish_after_def alerts_view_of_def)+

definition answered_alerts :: "int \<Rightarrow> bool \<Rightarrow> string option + event_list \<Rightarrow> alerts_page \<Rightarrow> alerts_page" where
  "answered_alerts now silent answer st =
     (case answer of Inr result \<Rightarrow> show_alerts now result st | Inl reason \<Rightarrow> fail_alerts silent reason st)"

lemma answered_frame [simp]:
  "ap_requests (answered_alerts now silent answer st) = ap_requests st"
  "ap_latestLoadSeq (answered_alerts now silent answer st) = ap_latestLoadSeq st"
  "ap_followed (answered_alerts now silent answer st) = ap_followed st" "ap_poll (answered_alerts now silent answer st) = ap_poll st"
  "ap_hidden (answered_alerts now silent answer st) = ap_hidden st"
  "alerts_view_of (answered_alerts now silent answer st) = alerts_view_of st"
  "ap_loading (answered_alerts now silent answer st) = ap_loading st"
  "ap_loadRequest (answered_alerts now silent answer st) = ap_loadRequest st"
  by (cases answer; simp add: answered_alerts_def show_alerts_def fail_alerts_def ap_say_def alerts_view_of_def Let_def)+

lemma answered_selection: "selection_shown st \<Longrightarrow> selection_shown (answered_alerts now silent answer st)"
  by (cases answer) (auto simp: answered_alerts_def selection_shown_def show_alerts_def fail_alerts_def ap_say_def list_all_iff Let_def)

lemma finish_alerts_eq:
  "finish_alerts now i answer st =
     (let r = ap_requests st ! i; newest = (ap_latestLoadSeq st = aq_seq r); st1 = st\<lparr>ap_requests := drop_at i (ap_requests st)\<rparr>;
          st2 = (if newest then answered_alerts now (aq_silent r) answer st1 else st1);
          st3 = (if map_option snd (ap_loadRequest st2) = Some (aq_seq r) then st2\<lparr>ap_loadRequest := None\<rparr> else st2)
      in finish_after (aq_after r) (if newest then st3\<lparr>ap_loading := False\<rparr> else st3))"
  by (simp add: finish_alerts_def answered_alerts_def Let_def)

lemma view_updates [simp]:
  "alerts_view_of (st\<lparr>ap_requests := rs\<rparr>) = alerts_view_of st" "alerts_view_of (st\<lparr>ap_loading := b\<rparr>) = alerts_view_of st"
  "alerts_view_of (st\<lparr>ap_loadRequest := q\<rparr>) = alerts_view_of st"
  by (simp_all add: alerts_view_of_def)

lemma finish_alerts_frame:
  "ap_requests (finish_alerts now i answer st) = drop_at i (ap_requests st)"
  "ap_latestLoadSeq (finish_alerts now i answer st) = ap_latestLoadSeq st"
  "ap_followed (finish_alerts now i answer st) = ap_followed st" "ap_poll (finish_alerts now i answer st) = ap_poll st"
  "ap_hidden (finish_alerts now i answer st) = ap_hidden st"
  "alerts_view_of (finish_alerts now i answer st) = alerts_view_of st"
  "ap_loading (finish_alerts now i answer st) = (ap_loading st \<and> aq_seq (ap_requests st ! i) \<noteq> ap_latestLoadSeq st)"
  "ap_loadRequest (finish_alerts now i answer st)
     = (if map_option snd (ap_loadRequest st) = Some (aq_seq (ap_requests st ! i)) then None else ap_loadRequest st)"
  unfolding finish_alerts_eq Let_def by simp_all

lemma selection_updates:
  "selection_shown (st\<lparr>ap_requests := rs\<rparr>) = selection_shown st" "selection_shown (st\<lparr>ap_loading := b\<rparr>) = selection_shown st"
  "selection_shown (st\<lparr>ap_loadRequest := q\<rparr>) = selection_shown st" "selection_shown (finish_after afterwards st) = selection_shown st"
  by (simp_all add: selection_shown_def)

lemma finish_alerts_selection: "selection_shown st \<Longrightarrow> selection_shown (finish_alerts now i answer st)"
  unfolding finish_alerts_eq Let_def by (simp add: selection_updates answered_selection)

lemma finish_registered:
  assumes "newest_registered st" "i < length (ap_requests st)"
  shows "newest_registered (finish_alerts now i answer st)"
proof -
  let ?rs = "ap_requests st" and ?l = "ap_latestLoadSeq st"
  note parts = drop_at_parts [OF assms(2)]
  have d: "distinct (map aq_seq (take i ?rs @ ?rs ! i # drop (Suc i) ?rs))"
    using assms(1) parts(1) unfolding newest_registered_def by metis
  have all: "set ?rs = insert (?rs ! i) (set (drop_at i ?rs))" using parts by (metis Un_insert_right list.set(2) set_append)
  have fresh: "aq_seq (?rs ! i) \<notin> aq_seq ` set (drop_at i ?rs)" and distinct: "distinct (map aq_seq (drop_at i ?rs))"
    using d by (auto simp: parts(2))
  have bound: "\<forall>r \<in> set (drop_at i ?rs). aq_seq r \<le> ?l" and loading: "ap_loading st = (?l \<in> aq_seq ` set ?rs)"
    using assms(1) by (simp_all add: newest_registered_def all)
  show ?thesis
  proof (cases "aq_seq (?rs ! i) = ?l")
    case True
    then obtain k where "ap_loadRequest st = Some (k, ?l)"
      using assms(1) by (cases "ap_loadRequest st") (auto simp: newest_registered_def all)
    then show ?thesis unfolding newest_registered_def finish_alerts_frame using distinct bound fresh True by simp
  next
    case False
    have l: "?l \<in> aq_seq ` set ?rs \<longleftrightarrow> ?l \<in> aq_seq ` set (drop_at i ?rs)" using False by (auto simp: all)
    show ?thesis
    proof (cases "ap_loadRequest st")
      case None
      then have "?l \<notin> aq_seq ` set ?rs" using assms(1) by (simp add: newest_registered_def)
      then show ?thesis unfolding newest_registered_def finish_alerts_frame using distinct bound loading l None False by simp
    next
      case (Some q)
      then obtain k where q: "q = (k, ?l)" using assms(1) by (cases q) (auto simp: newest_registered_def)
      then obtain r where "r \<in> set ?rs" "aq_seq r = ?l" "key_of_view (aq_view r) = k"
        using assms(1) Some by (auto simp: newest_registered_def)
      moreover have "r \<in> set (drop_at i ?rs)" using calculation False by (auto simp: all)
      ultimately show ?thesis
        unfolding newest_registered_def finish_alerts_frame using distinct bound loading l Some q False by auto
    qed
  qed
qed

lemma finish_alerts_ok: "alerts_ok st \<Longrightarrow> i < length (ap_requests st) \<Longrightarrow> alerts_ok (finish_alerts now i answer st)"
  by (simp add: alerts_ok_def finish_registered finish_alerts_selection polled_as_shown_def finish_alerts_frame)

lemma visibility_change_ok:
  assumes "alerts_ok st" shows "alerts_ok (change_visibility hidden st)"
proof -
  let ?st = "st\<lparr>ap_hidden := hidden\<rparr>"
  have v: "alerts_view_of ?st = alerts_view_of st" by (rule view_cong) simp_all
  have p: "newest_registered ?st" "selection_shown ?st" "ap_followed ?st = Some (alerts_view_of ?st)"
    using assms v by (auto simp: alerts_ok_def selection_shown_def polled_as_shown_def elim: registered_cong)
  show ?thesis
  proof (cases hidden)
    case True
    then show ?thesis
      using p by (auto simp: change_visibility_def alerts_ok_def polled_as_shown_def selection_shown_def alerts_view_of_def elim: registered_cong)
  next
    case False
    have "selection_shown (join_alerts True (alerts_view_of ?st) ?st)" using p(2) by (simp add: selection_shown_def)
    then show ?thesis
      using False p by (simp add: change_visibility_def alerts_ok_def poll_follows startPollTimer_parts join_registered v Let_def)
  qed
qed

lemma alerts_run_ok: "alerts_run st \<Longrightarrow> alerts_ok st"
proof (induction rule: alerts_run.induct)
  case (alerts_opened hidden prefs)
  show ?case
    by (simp add: open_alerts_page_def follow_alerts_def join_alerts_def start_alerts_def alerts_ok_def newest_registered_def
        selection_shown_def polled_as_shown_def startPollTimer_def alerts_view_of_def Let_def)
next
  case (alerts_selected st ks)
  show ?case using alerts_selected.IH
    by (rule alerts_ok_cong) (use alerts_selected.hyps in \<open>simp_all add: selection_shown_def alerts_view_of_def\<close>)
next
  case (silence_confirmed st)
  then show ?case
    by (auto simp: confirmBatchSilence_def intro!: executeBatch_ok send_changes_ok update_ok split: option.split)
qed (auto simp: poll_alerts_def type_search_def choose_severity_def choose_status_def turn_alerts_def handleAcknowledge_def
    handleResolve_def Let_def intro!: finish_alerts_ok start_alerts_ok join_alerts_ok visibility_change_ok send_changes_ok update_ok
    executeBatch_ok finish_change_ok intro: change_view_ok split: option.split)

section \<open>Properties\<close>

text \<open>C36: The page of the alerts is consistent on every run: the mark of loading is on exactly while the newest request is under
  way, and that request is the one registered for sharing; alerts are polled with the view on show exactly while the
  tab is on show; and what is selected is on show, each alert once.\<close>

theorem alerts_page_consistent:
  assumes "alerts_run st"
  shows "(ap_loading st \<longleftrightarrow> ap_latestLoadSeq st \<in> aq_seq ` set (ap_requests st))
    \<and> (case ap_loadRequest st of
         None \<Rightarrow> \<not> ap_loading st
       | Some (k, n) \<Rightarrow> ap_loading st \<and> n = ap_latestLoadSeq st
           \<and> (\<exists>r \<in> set (ap_requests st). aq_seq r = n \<and> key_of_view (aq_view r) = k))
    \<and> ap_poll st = (if ap_hidden st then None else Some (alerts_view_of st))
    \<and> distinct (ap_selectedRowKeys st) \<and> list_all (has_key (visible_alerts (ap_alerts st))) (ap_selectedRowKeys st)"
  using alerts_run_ok [OF assms]
  by (cases "ap_loadRequest st") (auto simp: alerts_ok_def newest_registered_def polled_as_shown_def selection_shown_def image_iff, metis)

text \<open>C37: A change of all selected alerts touches the alerts on show and no other: on every run one request is sent per selected
  alert, none for the same alert twice, each for an alert of the list that is not hidden.\<close>

theorem batch_changes_shown_alerts:
  assumes "alerts_run st" "ap_selectedRowKeys st \<noteq> []"
  shows "ap_sent (executeBatch action afterwards st) = rev (map (change_of st action) (ap_selectedRowKeys st)) @ ap_sent st
    \<and> distinct (map (change_of st action) (ap_selectedRowKeys st))
    \<and> list_all (\<lambda>k. list_ex (\<lambda>a. ae_id a = Some (JStr k)) (visible_alerts (ap_alerts st))) (ap_selectedRowKeys st)
    \<and> ap_batchRunning (executeBatch action afterwards st)"
proof -
  have "inj (change_of st action)" by (cases action) (auto simp: inj_def change_of_def)
  then show ?thesis
    using alerts_run_ok [OF assms(1)] assms(2)
    by (simp add: executeBatch_def send_changes_def change_of_def alerts_ok_def selection_shown_def has_key_def [abs_def] distinct_map
        inj_on_subset [OF _ subset_UNIV])
qed

text \<open>A change answered late shows the view it was clicked in: the list is loaded with the page and the filters of the
  click, and stays on show under those chosen meanwhile; no effect loads the view on show.\<close>

theorem late_change_shows_old_view:
  assumes "ap_work st ! i = \<lparr>aw_task = One_Alert action, aw_view = v\<rparr>" "ap_followed st = Some (alerts_view_of st)"
    and "st1 = finish_change i (One_Ended None) st" "st2 = finish_alerts now (length (ap_requests st)) (Inr result) st1"
  shows "aq_view (List.last (ap_requests st1)) = v \<and> ap_alerts st2 = el_items result \<and> \<not> ap_loading st2
    \<and> alerts_view_of st2 = alerts_view_of st \<and> follow_alerts st2 = st2"
  using assms
  by (cases "action = Silence_It")
    (simp_all add: finish_change_def finish_one_def ap_say_def start_alerts_def finish_alerts_def finish_after_def show_alerts_def
      follow_alerts_def alerts_view_of_def Let_def)

text \<open>A silencing answered late closes the dialog of another: when the dialog of a silencing under way is cancelled and
  opened for another alert, the list that comes after the answer closes it and forgets that alert and the reason
  typed, and nothing has been sent for it.\<close>

theorem late_silencing_closes_dialog:
  assumes "ap_work st ! i = \<lparr>aw_task = One_Alert Silence_It, aw_view = v\<rparr>"
    and "opened = (handleSilence (Some k) (cancel_silence st))\<lparr>ap_silenceReason := reason\<rparr>"
    and "gone = finish_alerts now (length (ap_requests st)) answer (finish_change i (One_Ended None) opened)"
  shows "ap_silenceModalOpen opened \<and> ap_singleSilenceTargetID opened = Some k
    \<and> \<not> ap_silenceModalOpen gone \<and> ap_singleSilenceTargetID gone = None \<and> ap_silenceReason gone = [] \<and> ap_sent gone = ap_sent st"
  using assms
  by (cases answer)
    (simp_all add: handleSilence_def cancel_silence_def finish_change_def finish_one_def ap_say_def start_alerts_def finish_alerts_def
      finish_after_def show_alerts_def fail_alerts_def Let_def)

section \<open>Examples\<close>

definition plain_alert :: "string \<Rightarrow> alert_event" where
  "plain_alert i = \<lparr>ae_id = Some (JStr i), ae_name = JStr ''disk full'', ae_severity = ''high'', ae_status = ''active'', ae_source = JStr ''db-1'',
     ae_count = JNum 1, ae_lastTriggeredAt = Fin 0, ae_ruleId = Some (JStr ''r1''), ae_detail = JStr [], ae_notificationSummary = None,
     ae_incidentId = None, ae_incidentAutoCreated = None\<rparr>"

definition two_alerts :: event_list where
  "two_alerts = \<lparr>el_items = [plain_alert ''a'', plain_alert ''b''], el_total = Fin 30, el_pending = Fin 2, el_critical = Fin 0,
     el_warning = Fin 2, el_silenced = Fin 0\<rparr>"

definition shown_alerts :: alerts_page where
  "shown_alerts = finish_alerts 0 0 (Inr two_alerts) (open_alerts_page False initial_preferences)"

definition selected_alerts :: alerts_page where
  "selected_alerts = shown_alerts\<lparr>ap_selectedRowKeys := [''a'', ''b'']\<rparr>"

lemma selected_alerts_run: "alerts_run selected_alerts"
proof -
  have "alerts_run shown_alerts" unfolding shown_alerts_def by (intro alerts_answered alerts_opened) code_simp
  then show ?thesis unfolding selected_alerts_def by (rule alerts_selected) code_simp+
qed

theorem alerts_page_consistent_witness:
  "ap_poll selected_alerts = Some (alerts_view_of selected_alerts) \<and> \<not> ap_loading selected_alerts
   \<and> list_all (has_key (visible_alerts (ap_alerts selected_alerts))) [''a'', ''b'']"
proof -
  have "ap_loadRequest selected_alerts = None" "\<not> ap_hidden selected_alerts" "ap_selectedRowKeys selected_alerts = [''a'', ''b'']"
    by code_simp+
  then show ?thesis using alerts_page_consistent [OF selected_alerts_run] by auto
qed

theorem batch_changes_shown_alerts_witness:
  "ap_sent (executeBatch Acknowledge_It Release_Buttons selected_alerts) = [Ack_Alert ''b'', Ack_Alert ''a'']"
proof -
  have f: "ap_selectedRowKeys selected_alerts = [''a'', ''b'']" "ap_sent selected_alerts = []" by code_simp+
  then show ?thesis
    using batch_changes_shown_alerts [OF selected_alerts_run, of Acknowledge_It Release_Buttons] by (simp add: change_of_def)
qed

text \<open>The filter is chosen while the acknowledging is under way.\<close>

definition critical_meanwhile :: alerts_page where
  "critical_meanwhile = finish_alerts 0 0 (Inr two_alerts) (choose_severity (Some ''critical'') (handleAcknowledge ''a'' shown_alerts))"

theorem late_change_shows_old_view_witness:
  "aq_view (List.last (ap_requests (finish_change 0 (One_Ended None) critical_meanwhile))) = alerts_view_of shown_alerts
   \<and> ap_severityFilter (finish_alerts 0 0 (Inr two_alerts) (finish_change 0 (One_Ended None) critical_meanwhile)) = Some ''critical''"
proof -
  have w: "ap_work critical_meanwhile ! 0 = \<lparr>aw_task = One_Alert Acknowledge_It, aw_view = alerts_view_of shown_alerts\<rparr>"
    "ap_followed critical_meanwhile = Some (alerts_view_of critical_meanwhile)" "length (ap_requests critical_meanwhile) = 0"
    "ap_severityFilter critical_meanwhile = Some ''critical''" by code_simp+
  then show ?thesis
    using late_change_shows_old_view [OF w(1,2) refl refl, where now = 0 and result = two_alerts] by (simp add: alerts_view_of_def)
qed

theorem late_silencing_closes_dialog_witness:
  "\<not> ap_silenceModalOpen (finish_alerts 0 0 (Inl None) (finish_change 0 (One_Ended None)
     ((handleSilence (Some ''b'') (cancel_silence (confirmBatchSilence (handleSilence (Some ''a'') shown_alerts))))
        \<lparr>ap_silenceReason := ''maintenance''\<rparr>)))"
proof -
  let ?st = "confirmBatchSilence (handleSilence (Some ''a'') shown_alerts)"
  have w: "ap_work ?st ! 0 = \<lparr>aw_task = One_Alert Silence_It, aw_view = alerts_view_of shown_alerts\<rparr>" "length (ap_requests ?st) = 0"
    by code_simp+
  then show ?thesis
    using late_silencing_closes_dialog [OF w(1) refl refl, where now = 0 and answer = "Inl None" and k = "''b''" and reason = "''maintenance''"]
    by simp
qed

end
