(* ===== verification/Incidents_Page.thy ===== *)
theory Incidents_Page
  imports Page_Base Page_Access Incident User_Api Stores Zh_Pages Zh_Console Zh_Alerts
begin

text \<open>
  The page of the incidents (\<open>pages/incidents/IncidentList.tsx\<close>): one page of the incidents with filters and counts, a
  selection, and creating, assigning, moving on, archiving and deleting. Requests for the list have no numbers: every
  answer is shown. \<open>ic_sent\<close> records every change sent; \<open>access\<close> is what the session may do, the same while the page
  is open.
\<close>

section \<open>Texts\<close>

definition formatTime :: "int \<Rightarrow> int option \<Rightarrow> string" where
  "formatTime now ts =
     (case ts of
        None \<Rightarrow> ''-''
      | Some t \<Rightarrow>
          if t = 0 then ''-''
          else (let diff = now - t
                in if diff < 60000 then zh_ic_just_now
                   else if diff < 3600000 then int_to_string (diff div 60000) @ zh_ic_minutes
                   else if diff < 86400000 then int_to_string (diff div 3600000) @ zh_ic_hours
                   else int_to_string (diff div 86400000) @ zh_ic_days))"

text \<open>The remainder has the sign of the dividend, but a difference below a minute comes first.\<close>

definition calcDuration :: "int option \<Rightarrow> int option \<Rightarrow> string" where
  "calcDuration start stop =
     (case (start, stop) of
        (Some s, Some e) \<Rightarrow>
          (if s = 0 \<or> e = 0 then ''-''
           else (let diff = e - s
                 in if diff < 60000 then int_to_string (diff div 1000) @ ''s''
                    else if diff < 3600000 then int_to_string (diff div 60000) @ ''m''
                    else int_to_string (diff div 3600000) @ ''h '' @ int_to_string (diff mod 3600000 div 60000) @ ''m''))
      | _ \<Rightarrow> ''-'')"

definition resolveUserLabel :: "user_data \<Rightarrow> string" where
  "resolveUserLabel u =
     (let displayName = trim (user_display_name u); username = trim (user_username u)
      in if displayName \<noteq> [] \<and> username \<noteq> [] \<and> displayName \<noteq> username then displayName @ '' ('' @ username @ '')''
         else or_str displayName (or_str username (or_str (user_email u) (user_id u))))"

definition summarizeFailureReasons :: "string list \<Rightarrow> string" where
  "summarizeFailureReasons reasons =
     (let preview = join zh_semicolon (take 2 reasons)
      in if reasons = [] then [] else if 2 < length reasons then preview @ zh_and_more else preview)"

text \<open>Why a request was refused: an error with its message, a plain text, or anything else.\<close>

datatype rejection = Error_Reason string | Text_Reason string | Other_Reason

fun normalizeErrorMessage :: "rejection \<Rightarrow> string" where
  "normalizeErrorMessage (Error_Reason m) = or_str m zh_action_failed"
| "normalizeErrorMessage (Text_Reason t) = or_str (trim t) zh_action_failed"
| "normalizeErrorMessage Other_Reason = zh_action_failed"

definition assignee_text :: "user_data list \<Rightarrow> string \<Rightarrow> string" where
  "assignee_text people v =
     (if v = [] then zh_report_unassigned
      else nullish (map_of (rev (map (\<lambda>u. (user_id u, resolveUserLabel u)) people)) v) v)"

definition incident_subtitle :: "incident \<Rightarrow> string" where
  "incident_subtitle i =
     (if inc_source i \<noteq> ''-'' then zh_ic_source @ inc_source i else zh_ic_no_source)
     @ (if inc_affectedServices i \<noteq> [] then zh_ic_affects @ nat_to_string (length (inc_affectedServices i)) @ zh_ic_services
        else zh_ic_no_services)"

section \<open>The state\<close>

record incidents_view =
  iv_page :: int
  iv_pageSize :: int
  iv_severity :: "string option"
  iv_status :: "string option"
  iv_search :: string

text \<open>What the handler that asked for the list does then: nothing, release the buttons, and close its dialog.\<close>

datatype incidents_after = Ask_Only | Batch_Over | Assign_Over | Archive_Over

record incidents_request =
  iq_view :: incidents_view
  iq_after :: incidents_after

datatype incident_step = Step_Acknowledge | Step_Investigate | Step_Resolve

datatype incident_change =
    Create_Incident string
  | Assign_Incident string string
  | Move_Incident incident_step string
  | Archive_Incident string string
  | Delete_Incident string

datatype incident_task = Creating_Incident | Batch_Of string bool nat incidents_after

text \<open>A batch goes on with the view and the number of incidents of its render.\<close>

record incident_work =
  iw_task :: incident_task
  iw_view :: incidents_view
  iw_shown :: nat

record incidents_page =
  ic_search :: string
  ic_severityFilter :: "string option"
  ic_statusFilter :: "string option"
  ic_incidents :: "incident list"
  ic_total :: jsnum
  ic_loading :: bool
  ic_error :: "string option"
  ic_lastUpdatedAt :: "int option"
  ic_stats :: "int list"
  ic_users :: "user_data list"
  ic_usersLoading :: bool
  ic_selectedRowKeys :: "string list"
  ic_submitting :: bool
  ic_assignModalOpen :: bool
  ic_assignTargetIds :: "string list"
  ic_assignUserId :: string
  ic_archiveModalOpen :: bool
  ic_archiveTargetIds :: "string list"
  ic_archiveVerdict :: string
  ic_currentPage :: int
  ic_pageSize :: int
  ic_prefs :: preferences
  ic_followed :: "incidents_view option"
  ic_requests :: "incidents_request list"
  ic_counting :: "incident list list"
  ic_confirming :: "(incident_step \<times> string list) option"
  ic_work :: "incident_work list"
  ic_sent :: "incident_change list"
  ic_opened :: "string option"
  ic_notices :: "notice list"

definition ic_say :: "notice \<Rightarrow> incidents_page \<Rightarrow> incidents_page" where
  "ic_say n st = st\<lparr>ic_notices := n # ic_notices st\<rparr>"

definition incidents_view_of :: "incidents_page \<Rightarrow> incidents_view" where
  "incidents_view_of st =
     \<lparr>iv_page = ic_currentPage st, iv_pageSize = ic_pageSize st, iv_severity = ic_severityFilter st, iv_status = ic_statusFilter st,
      iv_search = ic_search st\<rparr>"

text \<open>The filters sent with a view.\<close>

definition view_filters :: "incidents_view \<Rightarrow> string option \<times> string option \<times> string option" where
  "view_filters v = (iv_status v, iv_severity v, if trim (iv_search v) = [] then None else Some (trim (iv_search v)))"

section \<open>The list and the counts\<close>

definition start_incidents :: "incidents_after \<Rightarrow> incidents_view \<Rightarrow> incidents_page \<Rightarrow> incidents_page" where
  "start_incidents afterwards v st =
     st\<lparr>ic_loading := True, ic_error := None, ic_requests := ic_requests st @ [\<lparr>iq_view = v, iq_after = afterwards\<rparr>]\<rparr>"

definition close_dialog :: "incidents_after \<Rightarrow> incidents_page \<Rightarrow> incidents_page" where
  "close_dialog afterwards st =
     (case afterwards of
        Assign_Over \<Rightarrow> st\<lparr>ic_assignModalOpen := False, ic_assignTargetIds := [], ic_assignUserId := []\<rparr>
      | Archive_Over \<Rightarrow> st\<lparr>ic_archiveModalOpen := False, ic_archiveTargetIds := [], ic_archiveVerdict := []\<rparr>
      | _ \<Rightarrow> st)"

definition over :: "incidents_after \<Rightarrow> incidents_page \<Rightarrow> incidents_page" where
  "over afterwards st = (if afterwards = Ask_Only then st else close_dialog afterwards (st\<lparr>ic_submitting := False\<rparr>))"

definition finish_incidents :: "int \<Rightarrow> nat \<Rightarrow> string option + incident list \<times> jsnum \<Rightarrow> incidents_page \<Rightarrow> incidents_page" where
  "finish_incidents now i answer st =
     (let r = ic_requests st ! i; st1 = st\<lparr>ic_requests := drop_at i (ic_requests st)\<rparr>;
          st2 = (case answer of
                   Inr (items, nextTotal) \<Rightarrow> st1\<lparr>ic_incidents := items, ic_total := nextTotal, ic_lastUpdatedAt := Some now\<rparr>
                 | Inl reason \<Rightarrow>
                     (let nextError = nullish reason zh_ic_load_failed
                      in (ic_say (Error_Notice nextError) st1)\<lparr>ic_error := Some nextError, ic_incidents := [], ic_total := Fin 0\<rparr>));
          st3 = st2\<lparr>ic_counting := ic_counting st2 @ [ic_incidents st2]\<rparr>
      in over (iq_after r) (st3\<lparr>ic_loading := False\<rparr>))"

text \<open>Open incidents, urgent ones, those that wait for an answer, those that wait for their report; without any incident
  on the page, the total of the service takes the first place.\<close>

definition counts_of :: "int \<Rightarrow> incident list \<Rightarrow> int list" where
  "counts_of slaTotal incidents =
     (let count = (\<lambda>P. int (length (filter P incidents)))
      in [if incidents \<noteq> [] then count (\<lambda>i. inc_status i \<notin> {Resolved, Postmortem, Archived}) else slaTotal,
          count (\<lambda>i. inc_severity i = P0 \<and> inc_status i \<noteq> Archived),
          count (\<lambda>i. inc_status i = Alerted),
          count (\<lambda>i. inc_status i = Postmortem)])"

definition finish_stats :: "nat \<Rightarrow> int option \<Rightarrow> incidents_page \<Rightarrow> incidents_page" where
  "finish_stats i slaTotal st =
     st\<lparr>ic_counting := drop_at i (ic_counting st),
        ic_stats := (case slaTotal of None \<Rightarrow> [0, 0, 0, 0] | Some n \<Rightarrow> counts_of n (ic_counting st ! i))\<rparr>"

definition sla_answer :: "incident_action_access \<Rightarrow> int option \<Rightarrow> int option" where
  "sla_answer access answer = (if inc_canReadSlaSummary access then answer else Some 0)"

definition start_users :: "incident_action_access \<Rightarrow> incidents_page \<Rightarrow> incidents_page" where
  "start_users access st =
     (if \<not> inc_canAssignIncident access then st\<lparr>ic_users := [], ic_usersLoading := False\<rparr> else st\<lparr>ic_usersLoading := True\<rparr>)"

definition finish_users :: "string option + user_data list \<Rightarrow> incidents_page \<Rightarrow> incidents_page" where
  "finish_users answer st = st\<lparr>ic_users := (case answer of Inr us \<Rightarrow> us | Inl _ \<Rightarrow> []), ic_usersLoading := False\<rparr>"

text \<open>A new view is loaded and clears the selection.\<close>

definition follow_incidents :: "incidents_page \<Rightarrow> incidents_page" where
  "follow_incidents st =
     (if ic_followed st = Some (incidents_view_of st) then st
      else start_incidents Ask_Only (incidents_view_of st)
             (st\<lparr>ic_followed := Some (incidents_view_of st), ic_selectedRowKeys := []\<rparr>))"

definition type_search :: "string \<Rightarrow> incidents_page \<Rightarrow> incidents_page" where
  "type_search s st = follow_incidents (st\<lparr>ic_search := s, ic_currentPage := 1\<rparr>)"

definition choose_severity :: "string option \<Rightarrow> incidents_page \<Rightarrow> incidents_page" where
  "choose_severity s st = follow_incidents (st\<lparr>ic_severityFilter := s, ic_currentPage := 1\<rparr>)"

definition choose_status :: "string option \<Rightarrow> incidents_page \<Rightarrow> incidents_page" where
  "choose_status s st = follow_incidents (st\<lparr>ic_statusFilter := s, ic_currentPage := 1\<rparr>)"

definition turn_incidents :: "int \<Rightarrow> int option \<Rightarrow> incidents_page \<Rightarrow> incidents_page" where
  "turn_incidents page sz st =
     (let nextSize = nullish sz (ic_pageSize st)
      in follow_incidents
           (if nextSize \<noteq> ic_pageSize st
            then st\<lparr>ic_pageSize := nextSize, ic_prefs := setPageSize ''incidentList'' nextSize (ic_prefs st), ic_currentPage := 1\<rparr>
            else st\<lparr>ic_currentPage := page\<rparr>))"

section \<open>Changing several incidents\<close>

definition target_ids :: "string list \<Rightarrow> string list" where
  "target_ids ids = js_uniq (filter (\<lambda>i. i \<noteq> []) (map trim ids))"

definition runBatchRequest ::
    "string list \<Rightarrow> string \<Rightarrow> (string \<Rightarrow> incident_change) \<Rightarrow> nat \<Rightarrow> incidents_after \<Rightarrow> incidents_page \<Rightarrow> incidents_page" where
  "runBatchRequest ids label change deletedCount afterwards st =
     (let uniqueIds = target_ids ids
      in if uniqueIds = [] then close_dialog afterwards (ic_say (Warning zh_ic_choose_first) st)
         else st\<lparr>ic_submitting := True, ic_sent := rev (map change uniqueIds) @ ic_sent st,
                 ic_work := ic_work st @ [\<lparr>iw_task = Batch_Of label True deletedCount afterwards, iw_view = incidents_view_of st,
                                          iw_shown = length (ic_incidents st)\<rparr>]\<rparr>)"

definition batch_notice :: "string \<Rightarrow> nat \<Rightarrow> string list \<Rightarrow> notice" where
  "batch_notice label successCount failedReasons =
     (if 0 < successCount \<and> failedReasons = [] then Success_Notice (label @ zh_ic_ok @ nat_to_string successCount @ zh_ic_incidents)
      else if 0 < successCount
      then Warning (label @ zh_ic_partly @ nat_to_string successCount @ zh_ic_failed_of @ nat_to_string (length failedReasons)
             @ zh_ic_because @ summarizeFailureReasons failedReasons @ zh_close_paren)
      else Error_Notice (label @ zh_ic_failed @ or_str (summarizeFailureReasons failedReasons) zh_ic_all_failed))"

text \<open>When the page may have become empty, the page before it is shown; the current page is the one at the time of the
  answer, the rest of the view that of the render. The new view is then loaded by its effect.\<close>

definition refreshCurrentPage :: "nat \<Rightarrow> incidents_after \<Rightarrow> incident_work \<Rightarrow> incidents_page \<Rightarrow> incidents_page" where
  "refreshCurrentPage deletedCount afterwards w st =
     (if 0 < deletedCount \<and> 1 < iv_page (iw_view w) \<and> iw_shown w \<le> deletedCount
      then follow_incidents (over afterwards (st\<lparr>ic_currentPage := max (ic_currentPage st - 1) 1\<rparr>))
      else start_incidents afterwards (iw_view w) st)"

definition finish_batch :: "incident_work \<Rightarrow> rejection option list \<Rightarrow> incidents_page \<Rightarrow> incidents_page" where
  "finish_batch w results st =
     (case iw_task w of
        Batch_Of label clearSelection deletedCount afterwards \<Rightarrow>
          (let failedReasons = map normalizeErrorMessage (List.map_filter id results);
               successCount = length results - length failedReasons;
               st1 = ic_say (batch_notice label successCount failedReasons) st
           in refreshCurrentPage deletedCount afterwards w (if clearSelection then st1\<lparr>ic_selectedRowKeys := []\<rparr> else st1))
      | Creating_Incident \<Rightarrow> st)"

definition denied :: "incident_capability \<Rightarrow> incidents_page \<Rightarrow> incidents_page" where
  "denied capability = ic_say (Warning (getIncidentPermissionDeniedReason capability))"

definition handleCreateIncident :: "incident_action_access \<Rightarrow> string \<Rightarrow> incidents_page \<Rightarrow> incidents_page" where
  "handleCreateIncident access nowText st =
     (if \<not> inc_canCreateIncident access then denied IncCreate st
      else st\<lparr>ic_sent := Create_Incident (zh_ic_manual @ nowText) # ic_sent st,
              ic_work := ic_work st @ [\<lparr>iw_task = Creating_Incident, iw_view = incidents_view_of st, iw_shown = length (ic_incidents st)\<rparr>]\<rparr>)"

definition finish_create :: "string option + string \<Rightarrow> incidents_page \<Rightarrow> incidents_page" where
  "finish_create answer st =
     (case answer of
        Inr i \<Rightarrow> (ic_say (Success_Notice zh_ic_created) st)\<lparr>ic_opened := Some i\<rparr>
      | Inl reason \<Rightarrow> ic_say (Error_Notice (nullish reason zh_ic_create_failed)) st)"

definition openAssignModal :: "incident_action_access \<Rightarrow> string list \<Rightarrow> string option \<Rightarrow> incidents_page \<Rightarrow> incidents_page" where
  "openAssignModal access ids presetAssignee st =
     (if \<not> inc_canAssignIncident access then denied IncAssign st
      else st\<lparr>ic_assignTargetIds := ids, ic_assignUserId := nullish presetAssignee [], ic_assignModalOpen := True\<rparr>)"

definition handleConfirmAssign :: "incidents_page \<Rightarrow> incidents_page" where
  "handleConfirmAssign st =
     (let nextAssignee = trim (ic_assignUserId st); targetIds = ic_assignTargetIds st
      in if targetIds = [] then ic_say (Warning zh_ic_none_to_assign) st
         else runBatchRequest targetIds (if nextAssignee \<noteq> [] then zh_ic_assign else zh_ic_unassign)
                (\<lambda>i. Assign_Incident i nextAssignee) 0 Assign_Over st)"

definition cancel_assign :: "incidents_page \<Rightarrow> incidents_page" where
  "cancel_assign st = st\<lparr>ic_assignModalOpen := False, ic_assignTargetIds := [], ic_assignUserId := []\<rparr>"

definition openArchiveModal :: "string list \<Rightarrow> incidents_page \<Rightarrow> incidents_page" where
  "openArchiveModal ids st = st\<lparr>ic_archiveTargetIds := ids, ic_archiveVerdict := [], ic_archiveModalOpen := True\<rparr>"

definition handleConfirmArchive :: "incident_action_access \<Rightarrow> incidents_page \<Rightarrow> incidents_page" where
  "handleConfirmArchive access st =
     (let verdict = trim (ic_archiveVerdict st)
      in if \<not> inc_canArchiveIncident access then denied IncArchive st
         else if verdict = [] then ic_say (Error_Notice zh_ic_verdict_needed) st
         else runBatchRequest (ic_archiveTargetIds st) zh_ic_archive (\<lambda>i. Archive_Incident i verdict) 0 Archive_Over st)"

definition cancel_archive :: "incidents_page \<Rightarrow> incidents_page" where
  "cancel_archive st = st\<lparr>ic_archiveModalOpen := False, ic_archiveTargetIds := [], ic_archiveVerdict := []\<rparr>"

definition handleDeleteIncidents :: "incident_action_access \<Rightarrow> string list \<Rightarrow> incidents_page \<Rightarrow> incidents_page" where
  "handleDeleteIncidents access ids st =
     (if \<not> inc_canCloseIncident access then denied IncClose st
      else runBatchRequest ids zh_ic_delete Delete_Incident (length ids) Batch_Over st)"

definition step_title :: "incident_step \<Rightarrow> string" where
  "step_title s =
     (case s of Step_Acknowledge \<Rightarrow> zh_ic_acknowledge | Step_Investigate \<Rightarrow> zh_ic_investigate | Step_Resolve \<Rightarrow> zh_ic_resolve)"

definition confirmBatchTransition :: "incident_action_access \<Rightarrow> incident_step \<Rightarrow> string list \<Rightarrow> incidents_page \<Rightarrow> incidents_page" where
  "confirmBatchTransition access s ids st =
     (if \<not> inc_canUpdateIncident access then denied IncUpdate st else st\<lparr>ic_confirming := Some (s, ids)\<rparr>)"

definition transition_confirmed :: "incidents_page \<Rightarrow> incidents_page" where
  "transition_confirmed st =
     (case ic_confirming st of
        None \<Rightarrow> st
      | Some (s, ids) \<Rightarrow> runBatchRequest ids (step_title s) (Move_Incident s) 0 Batch_Over (st\<lparr>ic_confirming := None\<rparr>))"

datatype incident_result = Created_As "string option + string" | Batch_Ended "rejection option list"

definition finish_incident_work :: "nat \<Rightarrow> incident_result \<Rightarrow> incidents_page \<Rightarrow> incidents_page" where
  "finish_incident_work i result st =
     (let w = ic_work st ! i; st1 = st\<lparr>ic_work := drop_at i (ic_work st)\<rparr>
      in case result of
           Created_As answer \<Rightarrow> (case iw_task w of Creating_Incident \<Rightarrow> finish_create answer st1 | _ \<Rightarrow> st)
         | Batch_Ended results \<Rightarrow> (case iw_task w of Batch_Of _ _ _ _ \<Rightarrow> finish_batch w results st1 | _ \<Rightarrow> st))"

section \<open>Runs\<close>

definition open_incidents_page :: "incident_action_access \<Rightarrow> preferences \<Rightarrow> incidents_page" where
  "open_incidents_page access prefs =
     start_users access (follow_incidents
       \<lparr>ic_search = [], ic_severityFilter = None, ic_statusFilter = None, ic_incidents = [], ic_total = Fin 0, ic_loading = True,
        ic_error = None, ic_lastUpdatedAt = None, ic_stats = [], ic_users = [], ic_usersLoading = False, ic_selectedRowKeys = [],
        ic_submitting = False, ic_assignModalOpen = False, ic_assignTargetIds = [], ic_assignUserId = [],
        ic_archiveModalOpen = False, ic_archiveTargetIds = [], ic_archiveVerdict = [], ic_currentPage = 1,
        ic_pageSize = nullish (jm_get (pageSizes prefs) ''incidentList'') 20, ic_prefs = prefs, ic_followed = None, ic_requests = [],
        ic_counting = [[]], ic_confirming = None, ic_work = [], ic_sent = [], ic_opened = None, ic_notices = []\<rparr>)"

inductive incidents_run :: "incident_action_access \<Rightarrow> incidents_page \<Rightarrow> bool" for access where
  incidents_opened: "incidents_run access (open_incidents_page access prefs)"
| incidents_answered: "incidents_run access st \<Longrightarrow> i < length (ic_requests st) \<Longrightarrow> incidents_run access (finish_incidents now i answer st)"
| stats_answered: "incidents_run access st \<Longrightarrow> i < length (ic_counting st)
    \<Longrightarrow> incidents_run access (finish_stats i (sla_answer access sla) st)"
| users_answered: "incidents_run access st \<Longrightarrow> ic_usersLoading st \<Longrightarrow> incidents_run access (finish_users people st)"
| incidents_refreshed: "incidents_run access st \<Longrightarrow> incidents_run access (start_incidents Ask_Only (incidents_view_of st) st)"
| incidents_searched: "incidents_run access st \<Longrightarrow> incidents_run access (type_search s st)"
| incident_severity_chosen: "incidents_run access st \<Longrightarrow> incidents_run access (choose_severity f st)"
| incident_status_chosen: "incidents_run access st \<Longrightarrow> incidents_run access (choose_status f st)"
| incidents_turned: "incidents_run access st \<Longrightarrow> incidents_run access (turn_incidents page sz st)"
| incidents_selected: "incidents_run access st \<Longrightarrow> incidents_run access (st\<lparr>ic_selectedRowKeys := ks\<rparr>)"
| incident_created: "incidents_run access st \<Longrightarrow> incidents_run access (handleCreateIncident access nowText st)"
| assign_opened: "incidents_run access st \<Longrightarrow> incidents_run access (openAssignModal access ids preset st)"
| assignee_typed: "incidents_run access st \<Longrightarrow> ic_assignModalOpen st \<Longrightarrow> incidents_run access (st\<lparr>ic_assignUserId := u\<rparr>)"
| assign_confirmed: "incidents_run access st \<Longrightarrow> incidents_run access (handleConfirmAssign st)"
| assign_cancelled: "incidents_run access st \<Longrightarrow> incidents_run access (cancel_assign st)"
| archive_opened: "incidents_run access st \<Longrightarrow> incidents_run access (openArchiveModal ids st)"
| verdict_typed: "incidents_run access st \<Longrightarrow> incidents_run access (st\<lparr>ic_archiveVerdict := v\<rparr>)"
| archive_confirmed: "incidents_run access st \<Longrightarrow> incidents_run access (handleConfirmArchive access st)"
| archive_cancelled: "incidents_run access st \<Longrightarrow> incidents_run access (cancel_archive st)"
| deletion_confirmed: "incidents_run access st \<Longrightarrow> incidents_run access (handleDeleteIncidents access ids st)"
| transition_asked: "incidents_run access st \<Longrightarrow> incidents_run access (confirmBatchTransition access s ids st)"
| transition_agreed: "incidents_run access st \<Longrightarrow> incidents_run access (transition_confirmed st)"
| transition_cancelled: "incidents_run access st \<Longrightarrow> incidents_run access (st\<lparr>ic_confirming := None\<rparr>)"
| incident_work_answered: "incidents_run access st \<Longrightarrow> i < length (ic_work st) \<Longrightarrow> incidents_run access (finish_incident_work i result st)"

section \<open>What holds on every run\<close>

fun change_permitted :: "incident_action_access \<Rightarrow> incident_change \<Rightarrow> bool" where
  "change_permitted access (Create_Incident t) \<longleftrightarrow> inc_canCreateIncident access"
| "change_permitted access (Assign_Incident i u) \<longleftrightarrow> inc_canAssignIncident access \<and> i \<noteq> []"
| "change_permitted access (Move_Incident s i) \<longleftrightarrow> inc_canUpdateIncident access \<and> i \<noteq> []"
| "change_permitted access (Archive_Incident i v) \<longleftrightarrow> inc_canArchiveIncident access \<and> i \<noteq> [] \<and> v \<noteq> [] \<and> trim v = v"
| "change_permitted access (Delete_Incident i) \<longleftrightarrow> inc_canCloseIncident access \<and> i \<noteq> []"

definition incidents_ok :: "incident_action_access \<Rightarrow> incidents_page \<Rightarrow> bool" where
  "incidents_ok access st \<longleftrightarrow>
     list_all (change_permitted access) (ic_sent st)
   \<and> (ic_assignTargetIds st \<noteq> [] \<longrightarrow> inc_canAssignIncident access) \<and> (ic_confirming st \<noteq> None \<longrightarrow> inc_canUpdateIncident access)"

lemma incidents_ok_cong:
  "incidents_ok access st \<Longrightarrow> ic_sent st' = ic_sent st \<Longrightarrow> ic_assignTargetIds st' = ic_assignTargetIds st \<or> ic_assignTargetIds st' = []
   \<Longrightarrow> ic_confirming st' = ic_confirming st \<or> ic_confirming st' = None \<Longrightarrow> incidents_ok access st'"
  by (elim disjE) (simp_all add: incidents_ok_def)

lemma target_ids_ne: "i \<in> set (target_ids ids) \<Longrightarrow> i \<noteq> []"
  by (auto simp: target_ids_def)

lemma quiet_incidents:
  "incidents_ok access st \<Longrightarrow> incidents_ok access (start_incidents afterwards v st)"
  "incidents_ok access st \<Longrightarrow> incidents_ok access (follow_incidents st)"
  "incidents_ok access st \<Longrightarrow> incidents_ok access (over afterwards st)"
  "incidents_ok access st \<Longrightarrow> incidents_ok access (close_dialog afterwards st)"
  "incidents_ok access st \<Longrightarrow> incidents_ok access (ic_say n st)"
  by (erule incidents_ok_cong;
      cases afterwards; simp add: start_incidents_def follow_incidents_def over_def close_dialog_def ic_say_def)+

lemma runBatchRequest_ok:
  assumes "incidents_ok access st" "\<And>i. i \<noteq> [] \<Longrightarrow> change_permitted access (change i)"
  shows "incidents_ok access (runBatchRequest ids label change deletedCount afterwards st)"
proof (cases "target_ids ids = []")
  case True
  then show ?thesis using assms(1) by (simp add: runBatchRequest_def quiet_incidents)
next
  case False
  then show ?thesis
    using assms target_ids_ne by (auto simp: runBatchRequest_def incidents_ok_def list_all_iff)
qed

lemma finish_incident_work_ok: "incidents_ok access st \<Longrightarrow> incidents_ok access (finish_incident_work i result st)"
proof -
  assume ok: "incidents_ok access st"
  have st1: "incidents_ok access (st\<lparr>ic_work := drop_at i (ic_work st)\<rparr>)" using ok by (rule incidents_ok_cong) simp_all
  have sel: "incidents_ok access (t\<lparr>ic_selectedRowKeys := ks\<rparr>)" "incidents_ok access (t\<lparr>ic_currentPage := p\<rparr>)"
    "incidents_ok access (t\<lparr>ic_opened := q\<rparr>)" if "incidents_ok access t" for t ks p q
    using that by (auto elim: incidents_ok_cong)
  show ?thesis
    using ok st1
    by (auto simp: finish_incident_work_def finish_create_def finish_batch_def refreshCurrentPage_def Let_def
        intro!: quiet_incidents sel split: incident_result.split incident_task.split sum.split)
qed

lemma incidents_run_ok: "incidents_run access st \<Longrightarrow> incidents_ok access st"
proof (induction rule: incidents_run.induct)
  case (incidents_opened prefs)
  show ?case
    by (simp add: open_incidents_page_def start_users_def follow_incidents_def start_incidents_def incidents_ok_def)
next
  case (incidents_answered st i now answer)
  show ?case unfolding finish_incidents_def Let_def
    by (rule quiet_incidents(3), rule incidents_ok_cong [OF incidents_answered.IH]) (simp_all add: ic_say_def split: sum.split prod.split)
next
  case (incident_created st nowText)
  then show ?case by (auto simp: handleCreateIncident_def denied_def incidents_ok_def ic_say_def)
next
  case (assign_opened st ids preset)
  then show ?case by (auto simp: openAssignModal_def denied_def incidents_ok_def ic_say_def)
next
  case (assign_confirmed st)
  show ?case
  proof (cases "ic_assignTargetIds st = []")
    case True
    then show ?thesis using assign_confirmed.IH by (simp add: handleConfirmAssign_def quiet_incidents Let_def)
  next
    case False
    then have "inc_canAssignIncident access" using assign_confirmed.IH by (simp add: incidents_ok_def)
    then show ?thesis using assign_confirmed.IH False by (simp add: handleConfirmAssign_def runBatchRequest_ok Let_def)
  qed
next
  case (archive_confirmed st)
  then show ?case by (simp add: handleConfirmArchive_def denied_def quiet_incidents runBatchRequest_ok Let_def)
next
  case (deletion_confirmed st ids)
  then show ?case by (simp add: handleDeleteIncidents_def denied_def quiet_incidents runBatchRequest_ok)
next
  case (transition_asked st s ids)
  then show ?case by (auto simp: confirmBatchTransition_def denied_def incidents_ok_def ic_say_def)
next
  case (transition_agreed st)
  show ?case
  proof (cases "ic_confirming st")
    case (Some q)
    then have "inc_canUpdateIncident access" using transition_agreed.IH by (simp add: incidents_ok_def)
    moreover have "incidents_ok access (st\<lparr>ic_confirming := None\<rparr>)" using transition_agreed.IH by (rule incidents_ok_cong) simp_all
    ultimately show ?thesis using Some by (cases q) (simp add: transition_confirmed_def runBatchRequest_ok)
  qed (use transition_agreed.IH in \<open>simp add: transition_confirmed_def\<close>)
next
  case (incident_work_answered st i result)
  then show ?case by (intro finish_incident_work_ok)
qed (auto simp: finish_stats_def finish_users_def type_search_def choose_severity_def choose_status_def turn_incidents_def cancel_assign_def
    openArchiveModal_def cancel_archive_def Let_def intro!: quiet_incidents elim: incidents_ok_cong)

section \<open>Properties\<close>

text \<open>C38: Incidents are changed only by a session that may: on every run each change sent to the service is one that the rights
  of the session permit, names an incident by an id that is not empty, and an archived one carries a verdict that is not blank.\<close>

theorem incident_changes_permitted:
  assumes "incidents_run access st"
  shows "list_all (change_permitted access) (ic_sent st)"
  using incidents_run_ok [OF assms] by (simp add: incidents_ok_def)

text \<open>An overtaken list is shown: when the list of the view on show has come before the one asked for earlier with another
  view, the earlier request's answer replaces it, under the filters of the view on show, without a mark of loading
  and without an effect that loads the list again.\<close>

theorem overtaken_incidents_shown:
  assumes "ic_requests st = [\<lparr>iq_view = earlier, iq_after = Ask_Only\<rparr>, \<lparr>iq_view = incidents_view_of st, iq_after = Ask_Only\<rparr>]"
    and "ic_followed st = Some (incidents_view_of st)"
    and "st2 = finish_incidents now' 0 (Inr stale) (finish_incidents now 1 (Inr fresh) st)"
  shows "ic_incidents st2 = fst stale \<and> ic_total st2 = snd stale \<and> incidents_view_of st2 = incidents_view_of st
    \<and> \<not> ic_loading st2 \<and> ic_requests st2 = [] \<and> follow_incidents st2 = st2"
  using assms
  by (cases stale; cases fresh) (simp add: finish_incidents_def over_def follow_incidents_def incidents_view_of_def drop_at_def Let_def)

text \<open>A deletion that fails turns the page back all the same: when all incidents of a page after the first are to be deleted
  and every request fails, the page before it is shown and loaded, though the incidents are still there.\<close>

theorem failed_deletion_turns_page:
  assumes "inc_canCloseIncident access" "target_ids ids = ids" "ids \<noteq> []" "length ids = length (ic_incidents st)"
    and "1 < ic_currentPage st" "ic_followed st = Some (incidents_view_of st)" "length reasons = length ids"
    and "st1 = handleDeleteIncidents access ids st"
    and "st2 = finish_incident_work (length (ic_work st)) (Batch_Ended (map Some reasons)) st1"
  shows "ic_currentPage st2 = ic_currentPage st - 1 \<and> iv_page (iq_view (List.last (ic_requests st2))) = ic_currentPage st - 1
    \<and> ic_incidents st2 = ic_incidents st \<and> \<not> ic_submitting st2"
proof -
  let ?w = "\<lparr>iw_task = Batch_Of zh_ic_delete True (length ids) Batch_Over, iw_view = incidents_view_of st,
     iw_shown = length (ic_incidents st)\<rparr>"
  have st1: "st1 = st\<lparr>ic_submitting := True, ic_sent := rev (map Delete_Incident ids) @ ic_sent st, ic_work := ic_work st @ [?w]\<rparr>"
    using assms(1-3,8) by (simp add: handleDeleteIncidents_def runBatchRequest_def)
  have "iv_page (incidents_view_of st) = ic_currentPage st" "ic_incidents st \<noteq> []"
    using assms(3,4) by (auto simp: incidents_view_of_def)
  then show ?thesis
    using assms(3-7,9)
    by (simp add: st1 finish_incident_work_def finish_batch_def refreshCurrentPage_def follow_incidents_def start_incidents_def
        over_def close_dialog_def ic_say_def incidents_view_of_def drop_at_def max_def Let_def)
qed

section \<open>Examples\<close>

definition every_right :: incident_action_access where
  "every_right = resolveIncidentActionAccess \<lparr>permissions = [''*''], capabilities = [''*'']\<rparr>"

definition plain_incident :: "string \<Rightarrow> incident" where
  "plain_incident i = (mapBackendIncidentToFrontend (\<lambda>_. None) 0 sample_incident)\<lparr>inc_id := i\<rparr>"

definition incidents_shown :: incidents_page where
  "incidents_shown = finish_incidents 0 0 (Inr ([plain_incident ''i1'', plain_incident ''i2''], Fin 22)) (open_incidents_page every_right initial_preferences)"

theorem incident_changes_permitted_witness:
  "list_all (change_permitted every_right) (ic_sent (handleDeleteIncidents every_right [''i1'', '' i1 ''] incidents_shown))
   \<and> ic_sent (handleDeleteIncidents every_right [''i1'', '' i1 ''] incidents_shown) = [Delete_Incident ''i1'']"
proof -
  have "incidents_run every_right (handleDeleteIncidents every_right [''i1'', '' i1 ''] incidents_shown)"
    unfolding incidents_shown_def by (intro deletion_confirmed incidents_answered incidents_opened) code_simp
  then show ?thesis using incident_changes_permitted [of every_right] by (intro conjI) (blast, code_simp)
qed

text \<open>A filter is chosen before the first list has come.\<close>

definition filtered_early :: incidents_page where
  "filtered_early = choose_severity (Some ''P0'') (open_incidents_page every_right initial_preferences)"

theorem overtaken_incidents_shown_witness:
  "ic_incidents (finish_incidents 0 0 (Inr ([plain_incident ''i1''], Fin 22)) (finish_incidents 0 1 (Inr ([], Fin 0)) filtered_early)) = [plain_incident ''i1'']
   \<and> ic_severityFilter filtered_early = Some ''P0''"
proof -
  have w: "ic_requests filtered_early = [\<lparr>iq_view = (incidents_view_of filtered_early)\<lparr>iv_severity := None\<rparr>, iq_after = Ask_Only\<rparr>,
      \<lparr>iq_view = incidents_view_of filtered_early, iq_after = Ask_Only\<rparr>]"
    "ic_followed filtered_early = Some (incidents_view_of filtered_early)" "ic_severityFilter filtered_early = Some ''P0''" by code_simp+
  then show ?thesis using overtaken_incidents_shown [OF w(1,2) refl] by simp
qed

definition second_page :: incidents_page where
  "second_page = finish_incidents 0 0 (Inr ([plain_incident ''i3''], Fin 21)) (turn_incidents 2 None incidents_shown)"

theorem failed_deletion_turns_page_witness:
  "ic_currentPage (finish_incident_work 0 (Batch_Ended [Some Other_Reason]) (handleDeleteIncidents every_right [''i3''] second_page)) = 1"
proof -
  have w: "inc_canCloseIncident every_right" "target_ids [''i3''] = [''i3'']" "length [''i3''] = length (ic_incidents second_page)"
    "1 < ic_currentPage second_page" "ic_followed second_page = Some (incidents_view_of second_page)" "ic_work second_page = []"
    "ic_currentPage second_page = 2" by code_simp+
  then show ?thesis
    using failed_deletion_turns_page [OF w(1,2) _ w(3-5) _ refl refl, of "[Other_Reason]"] by simp
qed

end
