(* ===== verification/Wizard_Page.thy ===== *)
theory Wizard_Page
  imports Page_Base Ingest_Paths Zh_Alerts
begin

text \<open>
  The access wizard (\<open>pages/ingestion/AccessWizard.tsx\<close>): three steps to a new pull source, with the choice of an agent, the
  effects that keep path, protocol and URL in step with the choices, the deployment script and the saving of the source,
  which is tried again as a paused one when its path overlaps that of another. \<open>url\<close> is the URL parser of the browser:
  host name, port and protocol. \<open>wz_sent\<close> records the sources sent, each with the fields of the page it was made from.
\<close>

section \<open>The fields\<close>

datatype agent_mode = Existing_Agent | New_Host

record wizard_fields =
  wf_sourceType :: string
  wf_sourceName :: string
  wf_sourcePath :: string
  wf_pullIntervalSec :: rat
  wf_pullTimeoutSec :: rat
  wf_agentMode :: agent_mode
  wf_selectedAgentKey :: string
  wf_agentBaseUrl :: string
  wf_controlPlaneBaseUrl :: string
  wf_releaseProvider :: string
  wf_releaseOwner :: string
  wf_releaseRepo :: string
  wf_releaseVersion :: string
  wf_releaseBaseUrl :: string
  wf_installScriptUrl :: string
  wf_containerImageProvider :: string
  wf_containerImage :: string
  wf_deliveryMode :: string
  wf_kafkaBrokers :: string
  wf_kafkaTopic :: string
  wf_kafkaSchemaRegistryUrl :: string
  wf_kafkaSchemaSubject :: string
  wf_kafkaRequiredAcks :: string
  wf_deploymentTarget :: string
  wf_syslogBind :: string
  wf_syslogProtocol :: string

definition DEFAULTS_BY_SOURCE_TYPE :: "(string \<times> string \<times> string) list" where
  "DEFAULTS_BY_SOURCE_TYPE =
     [(''custom'', ''/var/log/**/*.log'', ''http''),
      (''nginx'', ''/var/log/nginx/access.log,/var/log/nginx/error.log'', ''http''),
      (''java'', ''/var/log/**/*.log'', ''http''),
      (''mysql'', ''/var/log/mysql/*.log,/var/log/mysqld.log'', ''http''),
      (''docker'', ''/var/lib/docker/containers/*/*.log'', ''http''),
      (''kubernetes'', ''/var/log/containers/*.log'', ''http''),
      (''syslog'', ''syslog://udp/0.0.0.0:5514'', ''syslog_udp'')]"

definition type_defaults :: "string \<Rightarrow> string \<times> string" where
  "type_defaults t = nullish (map_of DEFAULTS_BY_SOURCE_TYPE t) (''/var/log/**/*.log'', ''http'')"

section \<open>Addresses\<close>

type_synonym url_parser = "string \<Rightarrow> (string \<times> string \<times> string) option"

definition parseHostPort :: "url_parser \<Rightarrow> string \<Rightarrow> string \<times> jsnum" where
  "parseHostPort url agentBaseUrl =
     (if agentBaseUrl = [] then ([], Fin 9091)
      else case url agentBaseUrl of
        None \<Rightarrow> ([], Fin 9091)
      | Some (hostname, port, protocol) \<Rightarrow>
          (hostname, if port \<noteq> [] then js_Number port else if protocol = ''https:'' then Fin 443 else Fin 80))"

definition buildReleaseBaseUrl :: "string \<Rightarrow> string \<Rightarrow> string \<Rightarrow> string \<Rightarrow> string \<Rightarrow> string" where
  "buildReleaseBaseUrl provider owner repo version customUrl =
     (if provider = ''custom'' then trim customUrl
      else (if provider = ''gitee'' then ''https://gitee.com'' else ''https://github.com'') @ ''/'' @ or_str (trim owner) ''<owner>''
             @ ''/'' @ or_str (trim repo) ''<repo>'' @ ''/releases/download/'' @ version)"

definition buildContainerImage :: "string \<Rightarrow> string \<Rightarrow> string \<Rightarrow> string \<Rightarrow> string" where
  "buildContainerImage provider owner version customImage =
     (if provider = ''custom'' then trim customImage
      else ''ghcr.io/'' @ or_str (toLowerCase (trim owner)) ''<owner>'' @ ''/nexuslog-collector-agent:'' @ version)"

definition drop_slash :: "string \<Rightarrow> string" where
  "drop_slash s = (if s \<noteq> [] \<and> last s = CHR ''/'' then butlast s else s)"

definition buildInstallScriptUrl :: "string \<Rightarrow> string \<Rightarrow> string" where
  "buildInstallScriptUrl resolvedReleaseBaseUrl customInstallScriptUrl =
     (if trim customInstallScriptUrl \<noteq> [] then trim customInstallScriptUrl
      else if trim resolvedReleaseBaseUrl = [] then []
      else drop_slash resolvedReleaseBaseUrl @ ''/collector-agent-installer.sh'')"

definition normalizedVersion :: "wizard_fields \<Rightarrow> string" where
  "normalizedVersion f = or_str (trim (wf_releaseVersion f)) ''latest''"

definition resolvedReleaseBaseUrl :: "wizard_fields \<Rightarrow> string" where
  "resolvedReleaseBaseUrl f =
     buildReleaseBaseUrl (wf_releaseProvider f) (wf_releaseOwner f) (wf_releaseRepo f) (normalizedVersion f) (wf_releaseBaseUrl f)"

definition resolvedContainerImage :: "wizard_fields \<Rightarrow> string" where
  "resolvedContainerImage f =
     buildContainerImage (wf_containerImageProvider f) (wf_releaseOwner f) (normalizedVersion f) (wf_containerImage f)"

definition resolvedInstallScriptUrl :: "wizard_fields \<Rightarrow> string" where
  "resolvedInstallScriptUrl f = buildInstallScriptUrl (resolvedReleaseBaseUrl f) (wf_installScriptUrl f)"

definition uses_placeholder :: "string \<Rightarrow> bool" where
  "uses_placeholder s \<longleftrightarrow> js_includes s ''<owner>'' \<or> js_includes s ''<repo>''"

definition placeholder_warning :: "wizard_fields \<Rightarrow> bool" where
  "placeholder_warning f \<longleftrightarrow>
     uses_placeholder (resolvedReleaseBaseUrl f)
     \<or> wf_deploymentTarget f = ''linux-docker'' \<and> uses_placeholder (resolvedContainerImage f)"

section \<open>The state\<close>

text \<open>The parameters of a script.\<close>

record script_payload =
  sp_target :: string
  sp_source_name :: string
  sp_source_type :: string
  sp_agent_id :: "string option"
  sp_agent_base_url :: string
  sp_control_plane_base_url :: string
  sp_release_base_url :: "string option"
  sp_install_script_url :: "string option"
  sp_container_image :: "string option"
  sp_version :: string
  sp_delivery_mode :: string
  sp_kafka :: "(string \<times> string \<times> string \<times> string \<times> string) option"
  sp_include_paths :: "string list"
  sp_syslog :: "(string \<times> string) option"

record source_payload =
  so_name :: string
  so_host :: string
  so_port :: jsnum
  so_protocol :: string
  so_path :: string
  so_agent_base_url :: string
  so_pull_interval_sec :: rat
  so_pull_timeout_sec :: rat
  so_status :: string

datatype create_stage = First_Try | Looking_Up | Paused_Try "pull_source option"

record create_work =
  cw_stage :: create_stage
  cw_payload :: source_payload
  cw_fields :: wizard_fields

text \<open>A saving under way keeps the fields it was started with, which its closure holds. \<open>wz_script\<close>: the script on show, with the parameters it was generated for.\<close>

record wizard_page =
  wz_currentStep :: nat
  wz_fields :: wizard_fields
  wz_protocol :: string
  wz_agents :: "agent_item list"
  wz_agentsLoading :: bool
  wz_script :: "(script_payload \<times> json) option"
  wz_submitting :: bool
  wz_scriptLoading :: bool
  wz_loads :: nat
  wz_scripts :: "script_payload list"
  wz_creating :: "create_work list"
  wz_sent :: "(source_payload \<times> wizard_fields) list"
  wz_left :: bool
  wz_notices :: "notice list"

definition wz_say :: "notice \<Rightarrow> wizard_page \<Rightarrow> wizard_page" where
  "wz_say n st = st\<lparr>wz_notices := n # wz_notices st\<rparr>"

definition agent_chosen :: "agent_item list \<Rightarrow> wizard_fields \<Rightarrow> agent_item option" where
  "agent_chosen agents f = find (\<lambda>a. buildAgentOptionValue a = wf_selectedAgentKey f) agents"

definition chosen_url :: "agent_item list \<Rightarrow> wizard_fields \<Rightarrow> string option" where
  "chosen_url agents f = Option.bind (agent_chosen agents f) ai_agent_base_url"

section \<open>Effects\<close>

definition syslog_path :: "wizard_fields \<Rightarrow> string" where
  "syslog_path f = ''syslog://'' @ wf_syslogProtocol f @ ''/'' @ wf_syslogBind f"

text \<open>Another kind of source, address or protocol: path, protocol and target are set anew.\<close>

definition source_effect :: "wizard_fields \<Rightarrow> wizard_fields \<times> string" where
  "source_effect f =
     (let (path, protocol) = type_defaults (wf_sourceType f)
      in if wf_sourceType f = ''syslog''
         then (f\<lparr>wf_sourcePath := syslog_path f,
                 wf_deploymentTarget :=
                   (if startsWith (wf_deploymentTarget f) ''network-syslog'' then wf_deploymentTarget f else ''linux-systemd'')\<rparr>,
               if wf_syslogProtocol f = ''tcp'' then ''syslog_tcp'' else ''syslog_udp'')
         else (f\<lparr>wf_sourcePath := path\<rparr>, protocol))"

definition source_choice :: "wizard_fields \<Rightarrow> string \<times> string \<times> string" where
  "source_choice f = (wf_sourceType f, wf_syslogBind f, wf_syslogProtocol f)"

text \<open>What the script depends on: the version counts in its normal form.\<close>

definition script_fields :: "wizard_fields \<Rightarrow> wizard_fields" where
  "script_fields f = f\<lparr>wf_releaseVersion := normalizedVersion f\<rparr>"

definition settle :: "wizard_fields \<Rightarrow> agent_item list \<Rightarrow> wizard_page \<Rightarrow> wizard_page" where
  "settle before_fields before_agents st =
     (let f = wz_fields st;
          (f1, protocol) = (if source_choice f = source_choice before_fields then (f, wz_protocol st) else source_effect f);
          u = chosen_url (wz_agents st) f1;
          f2 = (if (u, wf_agentMode f1) = (chosen_url before_agents before_fields, wf_agentMode before_fields) then f1
                else if nullish u [] \<noteq> [] \<and> wf_agentMode f1 = Existing_Agent then f1\<lparr>wf_agentBaseUrl := nullish u []\<rparr>
                else f1)
      in st\<lparr>wz_fields := f2, wz_protocol := protocol,
            wz_script := (if script_fields f2 = script_fields before_fields then wz_script st else None)\<rparr>)"

section \<open>Agents\<close>

definition start_agents :: "wizard_page \<Rightarrow> wizard_page" where
  "start_agents st = st\<lparr>wz_agentsLoading := True, wz_loads := wz_loads st + 1\<rparr>"

definition first_agent :: "agent_item list \<Rightarrow> agent_item option" where
  "first_agent agents = nullish_opt (find ai_live_connected agents) (case agents of [] \<Rightarrow> None | a # _ \<Rightarrow> Some a)"

definition take_first_agent :: "agent_item list \<Rightarrow> wizard_fields \<Rightarrow> wizard_fields" where
  "take_first_agent agents f =
     (case first_agent agents of
        None \<Rightarrow> f
      | Some a \<Rightarrow>
          f\<lparr>wf_selectedAgentKey := buildAgentOptionValue a,
            wf_agentBaseUrl := or_str (nullish (ai_agent_base_url a) []) (wf_agentBaseUrl f)\<rparr>)"

definition finish_agents :: "string + agent_item list \<Rightarrow> wizard_page \<Rightarrow> wizard_page" where
  "finish_agents answer st =
     (let st1 = st\<lparr>wz_loads := wz_loads st - 1, wz_agentsLoading := False\<rparr>
      in case answer of
           Inl reason \<Rightarrow> wz_say (Error_Notice (zh_wz_agents_failed @ reason)) st1
         | Inr data \<Rightarrow>
             settle (wz_fields st) (wz_agents st) (st1\<lparr>wz_agents := data, wz_fields := take_first_agent data (wz_fields st)\<rparr>))"

section \<open>Steps\<close>

definition edit_fields :: "wizard_fields \<Rightarrow> wizard_page \<Rightarrow> wizard_page" where
  "edit_fields f st = settle (wz_fields st) (wz_agents st) (st\<lparr>wz_fields := f\<rparr>)"

text \<open>Why a step may not be left.\<close>

definition validateStep :: "nat \<Rightarrow> wizard_fields \<Rightarrow> string option" where
  "validateStep s f =
     (if s = 0 then
        (if trim (wf_sourceName f) = [] then Some zh_wz_name_needed
         else if trim (wf_sourceType f) = [] then Some zh_wz_type_needed else None)
      else if s = 1 then
        (if wf_agentMode f = Existing_Agent \<and> wf_selectedAgentKey f = [] then Some zh_wz_agent_needed
         else if trim (wf_agentBaseUrl f) = [] then Some zh_wz_url_needed
         else if trim (wf_sourcePath f) = [] then Some zh_wz_path_needed
         else if wf_deliveryMode f = ''upload'' \<and> trim (wf_kafkaBrokers f) = [] then Some zh_wz_brokers_needed
         else if wf_deliveryMode f = ''upload'' \<and> trim (wf_kafkaTopic f) = [] then Some zh_wz_topic_needed
         else None)
      else None)"

definition when_valid :: "nat \<Rightarrow> (wizard_page \<Rightarrow> wizard_page) \<Rightarrow> wizard_page \<Rightarrow> wizard_page" where
  "when_valid s go st = (case validateStep s (wz_fields st) of None \<Rightarrow> go st | Some w \<Rightarrow> wz_say (Warning w) st)"

definition handleNext :: "wizard_page \<Rightarrow> wizard_page" where
  "handleNext st = when_valid (wz_currentStep st) (\<lambda>st. st\<lparr>wz_currentStep := min (wz_currentStep st + 1) 2\<rparr>) st"

definition handlePrev :: "wizard_page \<Rightarrow> wizard_page" where
  "handlePrev st = st\<lparr>wz_currentStep := wz_currentStep st - 1\<rparr>"

section \<open>The script\<close>

definition or_absent :: "string \<Rightarrow> string option" where
  "or_absent s = (if s = [] then None else Some s)"

definition script_payload_of :: "wizard_page \<Rightarrow> script_payload" where
  "script_payload_of st =
     (let f = wz_fields st; syslog = (wf_sourceType f = ''syslog''); upload = (wf_deliveryMode f = ''upload'')
      in \<lparr>sp_target = wf_deploymentTarget f, sp_source_name = trim (wf_sourceName f), sp_source_type = wf_sourceType f,
          sp_agent_id = Option.bind (agent_chosen (wz_agents st) f) (\<lambda>a. or_absent (ai_agent_id a)),
          sp_agent_base_url = trim (wf_agentBaseUrl f), sp_control_plane_base_url = trim (wf_controlPlaneBaseUrl f),
          sp_release_base_url = or_absent (resolvedReleaseBaseUrl f), sp_install_script_url = or_absent (resolvedInstallScriptUrl f),
          sp_container_image = or_absent (resolvedContainerImage f), sp_version = normalizedVersion f,
          sp_delivery_mode = wf_deliveryMode f,
          sp_kafka =
            (if upload then Some (trim (wf_kafkaBrokers f), trim (wf_kafkaTopic f), trim (wf_kafkaSchemaRegistryUrl f),
                                  trim (wf_kafkaSchemaSubject f), wf_kafkaRequiredAcks f)
             else None),
          sp_include_paths = (if syslog then [] else splitSourcePathPatterns (wf_sourcePath f)),
          sp_syslog = (if syslog then Some (wf_syslogBind f, wf_syslogProtocol f) else None)\<rparr>)"

definition handleGenerateScript :: "wizard_page \<Rightarrow> wizard_page" where
  "handleGenerateScript =
     when_valid 1 (\<lambda>st. st\<lparr>wz_scriptLoading := True, wz_scripts := wz_scripts st @ [script_payload_of st]\<rparr>)"

definition finish_script :: "nat \<Rightarrow> string + json \<Rightarrow> wizard_page \<Rightarrow> wizard_page" where
  "finish_script i answer st =
     (let st1 = st\<lparr>wz_scripts := drop_at i (wz_scripts st), wz_scriptLoading := False\<rparr>
      in case answer of
           Inr result \<Rightarrow> (wz_say (Success_Notice zh_wz_script_made) st1)\<lparr>wz_script := Some (wz_scripts st ! i, result)\<rparr>
         | Inl reason \<Rightarrow> wz_say (Error_Notice (zh_wz_script_failed @ reason)) st1)"

section \<open>Saving\<close>

definition source_payload_of :: "string \<Rightarrow> jsnum \<Rightarrow> wizard_page \<Rightarrow> source_payload" where
  "source_payload_of host port st =
     (let f = wz_fields st
      in \<lparr>so_name = trim (wf_sourceName f), so_host = host, so_port = port, so_protocol = wz_protocol st, so_path = trim (wf_sourcePath f),
          so_agent_base_url = trim (wf_agentBaseUrl f), so_pull_interval_sec = wf_pullIntervalSec f,
          so_pull_timeout_sec = wf_pullTimeoutSec f, so_status = ''active''\<rparr>)"

definition handleCreate :: "url_parser \<Rightarrow> wizard_page \<Rightarrow> wizard_page" where
  "handleCreate url =
     when_valid 1 (\<lambda>st.
       let (host, port) = parseHostPort url (trim (wf_agentBaseUrl (wz_fields st)));
           payload = source_payload_of host port st
       in if host = [] then wz_say (Warning zh_wz_no_host) st
          else st\<lparr>wz_submitting := True, wz_sent := (payload, wz_fields st) # wz_sent st,
                  wz_creating := wz_creating st @ [\<lparr>cw_stage = First_Try, cw_payload = payload, cw_fields = wz_fields st\<rparr>]\<rparr>)"

text \<open>Why saving failed: the status and the text of the error.\<close>

record save_failure =
  sf_status :: "nat option"
  sf_message :: string

definition isOverlapConflict :: "save_failure \<Rightarrow> bool" where
  "isOverlapConflict e \<longleftrightarrow> sf_status e = Some 409 \<and> js_includes (toLowerCase (sf_message e)) ''overlaps existing agent endpoint''"

datatype create_result = Saved_As string | Not_Saved save_failure | Found_Sources "(pull_source list) option"

fun fits_stage :: "create_stage \<Rightarrow> create_result \<Rightarrow> bool" where
  "fits_stage Looking_Up (Found_Sources _) = True"
| "fits_stage Looking_Up _ = False"
| "fits_stage _ (Found_Sources _) = False"
| "fits_stage _ _ = True"

definition conflict_among :: "regexp_engine \<Rightarrow> source_payload \<Rightarrow> (pull_source list) option \<Rightarrow> pull_source option" where
  "conflict_among engine p found =
     Option.bind found (\<lambda>existingSources. findOverlappingActivePullSource engine existingSources
       \<lparr>oc_agent_base_url = Some (so_agent_base_url p), oc_path = so_path p, oc_status = Some ''active''\<rparr>)"

definition saved_text :: "create_stage \<Rightarrow> string \<Rightarrow> string" where
  "saved_text stage nm =
     (case stage of
        Paused_Try conflict \<Rightarrow> buildPullSourceSavedAsPausedMessage conflict nm
      | _ \<Rightarrow> zh_saved_config @ nm @ zh_wz_saved)"

definition finish_create :: "regexp_engine \<Rightarrow> nat \<Rightarrow> create_result \<Rightarrow> wizard_page \<Rightarrow> wizard_page" where
  "finish_create engine i result st =
     (let w = wz_creating st ! i; st1 = st\<lparr>wz_creating := drop_at i (wz_creating st)\<rparr>; over = st1\<lparr>wz_submitting := False\<rparr>;
          onwards = (\<lambda>stage p s. s\<lparr>wz_creating := wz_creating s @ [\<lparr>cw_stage = stage, cw_payload = p, cw_fields = cw_fields w\<rparr>]\<rparr>)
      in case result of
           Saved_As nm \<Rightarrow> (wz_say (Success_Notice (saved_text (cw_stage w) nm)) over)\<lparr>wz_left := True\<rparr>
         | Not_Saved e \<Rightarrow>
             (if cw_stage w = First_Try \<and> isOverlapConflict e then onwards Looking_Up (cw_payload w) st1
              else wz_say (Error_Notice (zh_wz_save_failed @ sf_message e)) over)
         | Found_Sources found \<Rightarrow>
             (let conflict = conflict_among engine (cw_payload w) found; p = (cw_payload w)\<lparr>so_status := ''paused''\<rparr>
              in if wf_agentMode (cw_fields w) = New_Host
                 then onwards (Paused_Try conflict) p (st1\<lparr>wz_sent := (p, cw_fields w) # wz_sent st1\<rparr>)
                 else wz_say (Error_Notice (buildPullSourceOverlapMessage conflict)) over))"

section \<open>Runs\<close>

text \<open>The wizard as it is opened: \<open>config\<close> is the part of the runtime configuration about the agent, \<open>origin\<close> the origin
  of the window.\<close>

definition first_fields :: "(string \<Rightarrow> string option) \<Rightarrow> string \<Rightarrow> wizard_fields" where
  "first_fields config origin =
     \<lparr>wf_sourceType = ''custom'', wf_sourceName = [], wf_sourcePath = fst (type_defaults ''custom''), wf_pullIntervalSec = 30,
      wf_pullTimeoutSec = 30, wf_agentMode = Existing_Agent, wf_selectedAgentKey = [],
      wf_agentBaseUrl = ''http://127.0.0.1:9091'', wf_controlPlaneBaseUrl = origin,
      wf_releaseProvider = nullish (config ''releaseProvider'') ''github'', wf_releaseOwner = nullish (config ''owner'') [],
      wf_releaseRepo = nullish (config ''repo'') ''NexusLog'', wf_releaseVersion = nullish (config ''version'') [],
      wf_releaseBaseUrl = nullish (config ''releaseBaseUrl'') [],
      wf_installScriptUrl = nullish (config ''installScriptUrl'') [],
      wf_containerImageProvider = nullish (config ''containerImageProvider'') ''ghcr'',
      wf_containerImage = nullish (config ''containerImage'') [],
      wf_deliveryMode = nullish (config ''deliveryMode'') ''pull'',
      wf_kafkaBrokers = nullish (config ''kafkaBrokers'') ''127.0.0.1:9092'',
      wf_kafkaTopic = nullish (config ''kafkaTopic'') ''nexuslog.logs.raw'',
      wf_kafkaSchemaRegistryUrl = nullish (config ''kafkaSchemaRegistryUrl'') ''http://127.0.0.1:18081'',
      wf_kafkaSchemaSubject = nullish (config ''kafkaSchemaSubject'') ''nexuslog.logs.raw-value'',
      wf_kafkaRequiredAcks = nullish (config ''kafkaRequiredAcks'') ''all'',
      wf_deploymentTarget = ''linux-systemd'', wf_syslogBind = ''0.0.0.0:5514'', wf_syslogProtocol = ''udp''\<rparr>"

definition open_wizard :: "(string \<Rightarrow> string option) \<Rightarrow> string \<Rightarrow> wizard_page" where
  "open_wizard config origin =
     start_agents
       \<lparr>wz_currentStep = 0, wz_fields = first_fields config origin, wz_protocol = snd (type_defaults ''custom''), wz_agents = [],
        wz_agentsLoading = True, wz_script = None, wz_submitting = False, wz_scriptLoading = False, wz_loads = 0, wz_scripts = [],
        wz_creating = [], wz_sent = [], wz_left = False, wz_notices = []\<rparr>"

text \<open>What the inputs of a step can change. The two numbers of seconds leave their inputs within their bounds only.\<close>

definition in_bounds :: "wizard_fields \<Rightarrow> bool" where
  "in_bounds f \<longleftrightarrow> 2 \<le> wf_pullIntervalSec f \<and> wf_pullIntervalSec f \<le> 3600 \<and> 5 \<le> wf_pullTimeoutSec f \<and> wf_pullTimeoutSec f \<le> 3600"

definition editable :: "nat \<Rightarrow> wizard_fields \<Rightarrow> wizard_fields \<Rightarrow> bool" where
  "editable s f f' \<longleftrightarrow>
     (if s = 0 then f' = f\<lparr>wf_sourceType := wf_sourceType f', wf_sourceName := wf_sourceName f'\<rparr>
      else if s = 1 then
        in_bounds f' \<and> f' = f'\<lparr>wf_sourceType := wf_sourceType f, wf_sourceName := wf_sourceName f, wf_deploymentTarget := wf_deploymentTarget f\<rparr>
      else f' = f\<lparr>wf_deploymentTarget := wf_deploymentTarget f'\<rparr>)"

inductive wizard_run :: "url_parser \<Rightarrow> regexp_engine \<Rightarrow> wizard_page \<Rightarrow> bool" for url engine where
  wizard_opened: "wizard_run url engine (open_wizard config origin)"
| agents_answered: "wizard_run url engine st \<Longrightarrow> 0 < wz_loads st \<Longrightarrow> wizard_run url engine (finish_agents answer st)"
| fields_edited: "wizard_run url engine st \<Longrightarrow> editable (wz_currentStep st) (wz_fields st) f \<Longrightarrow> wizard_run url engine (edit_fields f st)"
| agents_refreshed: "wizard_run url engine st \<Longrightarrow> wizard_run url engine (start_agents st)"
| step_forward: "wizard_run url engine st \<Longrightarrow> wizard_run url engine (handleNext st)"
| step_back: "wizard_run url engine st \<Longrightarrow> wizard_run url engine (handlePrev st)"
| script_asked: "wizard_run url engine st \<Longrightarrow> wz_currentStep st = 2 \<Longrightarrow> \<not> wz_scriptLoading st
    \<Longrightarrow> wizard_run url engine (handleGenerateScript st)"
| script_answered: "wizard_run url engine st \<Longrightarrow> i < length (wz_scripts st) \<Longrightarrow> wizard_run url engine (finish_script i r st)"
| source_saved: "wizard_run url engine st \<Longrightarrow> wz_currentStep st = 2 \<Longrightarrow> \<not> wz_submitting st \<Longrightarrow> wizard_run url engine (handleCreate url st)"
| saving_answered: "wizard_run url engine st \<Longrightarrow> i < length (wz_creating st) \<Longrightarrow> fits_stage (cw_stage (wz_creating st ! i)) result
    \<Longrightarrow> wizard_run url engine (finish_create engine i result st)"

section \<open>What holds on every run\<close>

definition protocol_of :: "wizard_fields \<Rightarrow> string" where
  "protocol_of f =
     (if wf_sourceType f \<noteq> ''syslog'' then ''http'' else if wf_syslogProtocol f = ''tcp'' then ''syslog_tcp'' else ''syslog_udp'')"

text \<open>A source is complete, and it is the one of the fields: \<open>http\<close> unless it is a syslog source, then the protocol chosen
  for syslog.\<close>

definition source_complete :: "source_payload \<Rightarrow> wizard_fields \<Rightarrow> bool" where
  "source_complete p f \<longleftrightarrow>
     so_name p = trim (wf_sourceName f) \<and> so_name p \<noteq> [] \<and> so_host p \<noteq> []
     \<and> so_path p = trim (wf_sourcePath f) \<and> so_path p \<noteq> []
     \<and> so_agent_base_url p = trim (wf_agentBaseUrl f) \<and> so_agent_base_url p \<noteq> []
     \<and> so_protocol p =
         (if wf_sourceType f = ''syslog'' then (if wf_syslogProtocol f = ''tcp'' then ''syslog_tcp'' else ''syslog_udp'') else ''http'')
     \<and> 2 \<le> so_pull_interval_sec p \<and> so_pull_interval_sec p \<le> 3600 \<and> 5 \<le> so_pull_timeout_sec p \<and> so_pull_timeout_sec p \<le> 3600"

text \<open>A source is sent active, or paused for a new host after the same one has been sent active.\<close>

fun sent_in_order :: "(source_payload \<times> wizard_fields) list \<Rightarrow> bool" where
  "sent_in_order [] \<longleftrightarrow> True"
| "sent_in_order ((p, f) # sent) \<longleftrightarrow>
     source_complete p f
     \<and> (so_status p = ''active''
        \<or> so_status p = ''paused'' \<and> wf_agentMode f = New_Host \<and> List.member sent (p\<lparr>so_status := ''active''\<rparr>, f))
     \<and> sent_in_order sent"

definition work_ok :: "(source_payload \<times> wizard_fields) list \<Rightarrow> create_work \<Rightarrow> bool" where
  "work_ok sent w \<longleftrightarrow>
     source_complete (cw_payload w) (cw_fields w) \<and> (cw_payload w, cw_fields w) \<in> set sent
     \<and> (cw_stage w = First_Try \<or> cw_stage w = Looking_Up \<longrightarrow> so_status (cw_payload w) = ''active'')"

definition wizard_ok :: "wizard_page \<Rightarrow> bool" where
  "wizard_ok st \<longleftrightarrow>
     wz_currentStep st \<le> 2 \<and> (0 < wz_currentStep st \<longrightarrow> trim (wf_sourceName (wz_fields st)) \<noteq> [])
     \<and> in_bounds (wz_fields st) \<and> wz_protocol st = protocol_of (wz_fields st)
     \<and> sent_in_order (wz_sent st) \<and> (\<forall>w \<in> set (wz_creating st). work_ok (wz_sent st) w)"

lemma wizard_ok_cong:
  "wizard_ok st \<Longrightarrow> wz_currentStep st' = wz_currentStep st \<Longrightarrow> wz_fields st' = wz_fields st \<Longrightarrow> wz_protocol st' = wz_protocol st
   \<Longrightarrow> wz_sent st' = wz_sent st \<Longrightarrow> set (wz_creating st') \<subseteq> set (wz_creating st) \<Longrightarrow> wizard_ok st'"
  by (auto simp: wizard_ok_def)

lemma type_protocol: "t \<noteq> ''syslog'' \<Longrightarrow> snd (type_defaults t) = ''http''"
  by (simp add: type_defaults_def DEFAULTS_BY_SOURCE_TYPE_def)

lemma source_effect_fields:
  "wf_sourceName (fst (source_effect f)) = wf_sourceName f" "in_bounds (fst (source_effect f)) = in_bounds f"
  "protocol_of (fst (source_effect f)) = protocol_of f" "snd (source_effect f) = protocol_of f"
  using type_protocol [of "wf_sourceType f"]
  by (auto simp: source_effect_def in_bounds_def protocol_of_def split: prod.splits)

lemma settle_same [simp]:
  "wz_currentStep (settle bf ba st) = wz_currentStep st" "wz_sent (settle bf ba st) = wz_sent st"
  "wz_creating (settle bf ba st) = wz_creating st" "wz_scripts (settle bf ba st) = wz_scripts st"
  "wz_agents (settle bf ba st) = wz_agents st"
  by (simp_all add: settle_def Let_def split: prod.split)

lemma url_typed_fields:
  "wf_sourceName (f\<lparr>wf_agentBaseUrl := u\<rparr>) = wf_sourceName f" "in_bounds (f\<lparr>wf_agentBaseUrl := u\<rparr>) = in_bounds f"
  "protocol_of (f\<lparr>wf_agentBaseUrl := u\<rparr>) = protocol_of f"
  by (simp_all add: in_bounds_def protocol_of_def)

lemma settle_fields:
  "wf_sourceName (wz_fields (settle bf ba st)) = wf_sourceName (wz_fields st)"
  "in_bounds (wz_fields (settle bf ba st)) = in_bounds (wz_fields st)"
  "protocol_of (wz_fields (settle bf ba st)) = protocol_of (wz_fields st)"
  "wz_protocol (settle bf ba st) =
     (if source_choice (wz_fields st) = source_choice bf then wz_protocol st else protocol_of (wz_fields st))"
  using source_effect_fields [of "wz_fields st"]
  by (cases "source_effect (wz_fields st)"; simp add: settle_def Let_def url_typed_fields)+

lemma protocol_by_choice: "source_choice f = source_choice g \<Longrightarrow> protocol_of f = protocol_of g"
  by (simp add: source_choice_def protocol_of_def)

lemma settle_ok:
  assumes "wizard_ok st" "in_bounds f" "0 < wz_currentStep st \<longrightarrow> trim (wf_sourceName f) \<noteq> []"
    "wz_currentStep st' = wz_currentStep st" "wz_fields st' = f" "wz_protocol st' = wz_protocol st" "wz_sent st' = wz_sent st"
    "wz_creating st' = wz_creating st"
  shows "wizard_ok (settle (wz_fields st) ba st')"
  using assms protocol_by_choice [of f "wz_fields st"] by (simp add: wizard_ok_def settle_fields)

lemma editable_keeps:
  assumes "editable s f f'"
  shows "in_bounds f \<Longrightarrow> in_bounds f'" "0 < s \<Longrightarrow> wf_sourceName f' = wf_sourceName f"
proof -
  show "in_bounds f'" if "in_bounds f"
    using that assms by (cases f; cases f') (auto simp: editable_def in_bounds_def split: if_splits)
  show "wf_sourceName f' = wf_sourceName f" if "0 < s"
    using that assms by (cases f; cases f') (auto simp: editable_def split: if_splits)
qed

lemma edit_fields_ok: "wizard_ok st \<Longrightarrow> editable (wz_currentStep st) (wz_fields st) f \<Longrightarrow> wizard_ok (edit_fields f st)"
  unfolding edit_fields_def by (rule settle_ok) (auto simp: wizard_ok_def editable_keeps)

lemma take_first_agent_fields:
  "wf_sourceName (take_first_agent data f) = wf_sourceName f" "in_bounds (take_first_agent data f) = in_bounds f"
  by (simp_all add: take_first_agent_def in_bounds_def split: option.split)

lemma wz_say_ok: "wizard_ok st \<Longrightarrow> wizard_ok (wz_say n st)"
  by (auto simp: wz_say_def elim: wizard_ok_cong)

lemma finish_agents_ok: "wizard_ok st \<Longrightarrow> wizard_ok (finish_agents answer st)"
proof (cases answer)
  case (Inl reason)
  assume "wizard_ok st"
  then show ?thesis by (auto simp: Inl finish_agents_def Let_def intro!: wz_say_ok elim: wizard_ok_cong)
next
  case (Inr data)
  assume ok: "wizard_ok st"
  have fields: "in_bounds (take_first_agent data (wz_fields st))"
    "0 < wz_currentStep st \<longrightarrow> trim (wf_sourceName (take_first_agent data (wz_fields st))) \<noteq> []"
    using ok by (simp_all add: take_first_agent_fields wizard_ok_def)
  show ?thesis by (simp add: Inr finish_agents_def Let_def) (rule settle_ok [OF ok fields]; simp)
qed

lemma when_valid_ok: "wizard_ok st \<Longrightarrow> (validateStep s (wz_fields st) = None \<Longrightarrow> wizard_ok (go st)) \<Longrightarrow> wizard_ok (when_valid s go st)"
  by (auto simp: when_valid_def wz_say_def split: option.split elim: wizard_ok_cong)

lemma handleNext_ok: "wizard_ok st \<Longrightarrow> wizard_ok (handleNext st)"
  unfolding handleNext_def
  by (rule when_valid_ok) (auto simp: wizard_ok_def validateStep_def split: if_splits)

lemma handlePrev_ok: "wizard_ok st \<Longrightarrow> wizard_ok (handlePrev st)"
  by (auto simp: handlePrev_def wizard_ok_def)

lemma handleGenerateScript_ok: "wizard_ok st \<Longrightarrow> wizard_ok (handleGenerateScript st)"
  unfolding handleGenerateScript_def by (rule when_valid_ok) (auto elim: wizard_ok_cong)

lemma finish_script_ok: "wizard_ok st \<Longrightarrow> wizard_ok (finish_script i r st)"
  by (cases r) (auto simp: finish_script_def wz_say_def Let_def elim: wizard_ok_cong)

lemma work_ok_more: "work_ok sent w \<Longrightarrow> work_ok (x # sent) w"
  by (auto simp: work_ok_def)

lemma payload_complete:
  assumes "wizard_ok st" "wz_currentStep st = 2" "validateStep 1 (wz_fields st) = None" "host \<noteq> []"
  shows "source_complete (source_payload_of host port st) (wz_fields st)" "so_status (source_payload_of host port st) = ''active''"
  using assms
  by (auto simp: source_complete_def source_payload_of_def Let_def wizard_ok_def validateStep_def in_bounds_def protocol_of_def
        split: if_splits)

lemma handleCreate_ok:
  assumes ok: "wizard_ok st" and "wz_currentStep st = 2"
  shows "wizard_ok (handleCreate url st)"
  unfolding handleCreate_def
proof (rule when_valid_ok [OF ok])
  assume valid: "validateStep 1 (wz_fields st) = None"
  obtain host port where hp: "parseHostPort url (trim (wf_agentBaseUrl (wz_fields st))) = (host, port)" by fastforce
  show "wizard_ok (let (host, port) = parseHostPort url (trim (wf_agentBaseUrl (wz_fields st)));
           payload = source_payload_of host port st
       in if host = [] then wz_say (Warning zh_wz_no_host) st
          else st\<lparr>wz_submitting := True, wz_sent := (payload, wz_fields st) # wz_sent st,
                  wz_creating := wz_creating st @ [\<lparr>cw_stage = First_Try, cw_payload = payload, cw_fields = wz_fields st\<rparr>]\<rparr>)"
  proof (cases "host = []")
    case True
    then show ?thesis using ok by (auto simp: hp wz_say_def elim: wizard_ok_cong)
  next
    case False
    then show ?thesis
      using ok payload_complete [OF assms valid False, of port] by (auto simp: hp wizard_ok_def work_ok_def Let_def)
  qed
qed

lemma onwards_ok:
  "wizard_ok st \<Longrightarrow> wz_currentStep st' = wz_currentStep st \<Longrightarrow> wz_fields st' = wz_fields st \<Longrightarrow> wz_protocol st' = wz_protocol st
   \<Longrightarrow> wz_sent st' = wz_sent st \<Longrightarrow> set (wz_creating st') \<subseteq> insert w (set (wz_creating st)) \<Longrightarrow> work_ok (wz_sent st) w
   \<Longrightarrow> wizard_ok st'"
  by (auto simp: wizard_ok_def)

lemma paused_try_ok:
  assumes ok: "wizard_ok st" and w: "work_ok (wz_sent st) w" and stage: "cw_stage w = Looking_Up" and mode: "wf_agentMode (cw_fields w) = New_Host"
    and p: "p = (cw_payload w)\<lparr>so_status := ''paused''\<rparr>"
    and st': "wz_currentStep st' = wz_currentStep st" "wz_fields st' = wz_fields st" "wz_protocol st' = wz_protocol st"
      "wz_sent st' = (p, cw_fields w) # wz_sent st"
      "set (wz_creating st') \<subseteq> insert \<lparr>cw_stage = Paused_Try c, cw_payload = p, cw_fields = cw_fields w\<rparr> (set (wz_creating st))"
  shows "wizard_ok st'"
proof -
  have was: "p\<lparr>so_status := ''active''\<rparr> = cw_payload w" using w stage by (simp add: p work_ok_def)
  have complete: "source_complete p (cw_fields w)" using w by (auto simp: p work_ok_def source_complete_def)
  have "sent_in_order ((p, cw_fields w) # wz_sent st)"
    using ok w complete mode was by (simp add: wizard_ok_def work_ok_def p)
  moreover have "work_ok ((p, cw_fields w) # wz_sent st) \<lparr>cw_stage = Paused_Try c, cw_payload = p, cw_fields = cw_fields w\<rparr>"
    using complete by (simp add: work_ok_def)
  ultimately show ?thesis using ok st' work_ok_more by (auto simp: wizard_ok_def simp del: sent_in_order.simps)
qed

lemma finish_create_ok:
  assumes ok: "wizard_ok st" and i: "i < length (wz_creating st)" and fits: "fits_stage (cw_stage (wz_creating st ! i)) result"
  shows "wizard_ok (finish_create engine i result st)"
proof -
  let ?w = "wz_creating st ! i"
  have w: "work_ok (wz_sent st) ?w" using ok i by (simp add: wizard_ok_def)
  note fewer = set_drop_at [of i "wz_creating st"]
  have quiet: "wizard_ok (st\<lparr>wz_creating := drop_at i (wz_creating st), wz_submitting := False\<rparr>)"
    using fewer by (intro wizard_ok_cong [OF ok]) auto
  show ?thesis
  proof (cases result)
    case (Saved_As nm)
    show ?thesis by (simp add: Saved_As finish_create_def Let_def wz_say_def) (rule wizard_ok_cong [OF quiet]; simp)
  next
    case (Not_Saved e)
    have "work_ok (wz_sent st) \<lparr>cw_stage = Looking_Up, cw_payload = cw_payload ?w, cw_fields = cw_fields ?w\<rparr>" if "cw_stage ?w = First_Try"
      using w that by (simp add: work_ok_def)
    then show ?thesis using wz_say_ok [OF quiet] fewer
      by (auto simp: Not_Saved finish_create_def Let_def intro!: onwards_ok [OF ok])
  next
    case (Found_Sources found)
    have stage: "cw_stage ?w = Looking_Up" using fits by (cases "cw_stage ?w") (simp_all add: Found_Sources)
    show ?thesis
    proof (cases "wf_agentMode (cw_fields ?w)")
      case New_Host
      show ?thesis
        by (simp add: Found_Sources finish_create_def Let_def New_Host)
          (rule paused_try_ok [OF ok w stage New_Host refl], use fewer in auto)
    next
      case Existing_Agent
      then show ?thesis using wz_say_ok [OF quiet] by (simp add: Found_Sources finish_create_def Let_def)
    qed
  qed
qed

lemma wizard_run_ok: "wizard_run url engine st \<Longrightarrow> wizard_ok st"
proof (induction rule: wizard_run.induct)
  case (wizard_opened config origin)
  show ?case
    by (simp add: open_wizard_def start_agents_def wizard_ok_def first_fields_def in_bounds_def protocol_of_def type_protocol)
next
  case (agents_refreshed st)
  then show ?case by (auto simp: start_agents_def elim: wizard_ok_cong)
qed (simp_all add: finish_agents_ok edit_fields_ok handleNext_ok handlePrev_ok handleGenerateScript_ok finish_script_ok
      handleCreate_ok finish_create_ok)

section \<open>The properties\<close>

lemma sent_in_order_tail: "sent_in_order (xs @ ys) \<Longrightarrow> sent_in_order ys"
  by (induction xs) auto

text \<open>C39: Whatever happens on the page of the wizard, in whatever order the answers come and however often the list of
  the agents is refreshed, every source it sends is complete and is the one of the fields it was made from: the name,
  the path and the address of the fields, trimmed and not empty, a host, the protocol of its kind (that chosen for
  syslog when it is a syslog source, \<open>http\<close> otherwise), both numbers of seconds within their bounds; and one is sent
  paused only for a new host, after the very same source has been sent active.\<close>

theorem wizard_sends_complete_sources:
  assumes "wizard_run url engine st" "wz_sent st = later @ (p, f) # earlier"
  shows "so_name p = trim (wf_sourceName f) \<and> so_name p \<noteq> [] \<and> so_host p \<noteq> []
    \<and> so_path p = trim (wf_sourcePath f) \<and> so_path p \<noteq> []
    \<and> so_agent_base_url p = trim (wf_agentBaseUrl f) \<and> so_agent_base_url p \<noteq> []
    \<and> so_protocol p =
        (if wf_sourceType f = ''syslog'' then (if wf_syslogProtocol f = ''tcp'' then ''syslog_tcp'' else ''syslog_udp'') else ''http'')
    \<and> 2 \<le> so_pull_interval_sec p \<and> so_pull_interval_sec p \<le> 3600 \<and> 5 \<le> so_pull_timeout_sec p \<and> so_pull_timeout_sec p \<le> 3600
    \<and> (so_status p = ''active''
       \<or> so_status p = ''paused'' \<and> wf_agentMode f = New_Host \<and> List.member earlier (p\<lparr>so_status := ''active''\<rparr>, f))"
  using wizard_run_ok [OF assms(1)] sent_in_order_tail [of later "(p, f) # earlier"]
  by (auto simp: wizard_ok_def assms(2) source_complete_def)

text \<open>A script on show belongs to the fields: a change of them takes it away.\<close>

lemma script_taken_away: "script_fields f \<noteq> script_fields (wz_fields st) \<Longrightarrow> wf_sourceType f = wf_sourceType (wz_fields st)
    \<Longrightarrow> source_choice f = source_choice (wz_fields st) \<Longrightarrow> wf_selectedAgentKey f = wf_selectedAgentKey (wz_fields st)
    \<Longrightarrow> wf_agentMode f = wf_agentMode (wz_fields st) \<Longrightarrow> wz_script (edit_fields f st) = None"
  by (simp add: edit_fields_def settle_def Let_def chosen_url_def agent_chosen_def)

text \<open>A script that arrives after the fields have been changed is shown beside the new fields, although it was generated
  for the old ones.\<close>

theorem late_script_shown:
  assumes "wz_scripts st = [p]"
  shows "wz_script (finish_script 0 (Inr r) (edit_fields f st)) = Some (p, r)
    \<and> wz_fields (finish_script 0 (Inr r) (edit_fields f st)) = wz_fields (edit_fields f st)"
  using assms by (simp add: finish_script_def edit_fields_def wz_say_def)

text \<open>C40: The list of the agents takes its choice whenever it arrives: an address typed for a new host while it is being
  loaded is replaced by that of the first agent that is connected.\<close>

theorem late_agents_replace_address:
  assumes "wf_agentMode (wz_fields st) = New_Host" "find ai_live_connected data = Some a" "ai_agent_base_url a = Some u" "u \<noteq> []"
  shows "wf_agentBaseUrl (wz_fields (finish_agents (Inr data) st)) = u
    \<and> wf_selectedAgentKey (wz_fields (finish_agents (Inr data) st)) = buildAgentOptionValue a"
proof -
  let ?f = "take_first_agent data (wz_fields st)"
  have choice: "source_choice ?f = source_choice (wz_fields st)" "wf_agentMode ?f = New_Host" "wf_agentBaseUrl ?f = u"
    "wf_selectedAgentKey ?f = buildAgentOptionValue a"
    using assms by (simp_all add: take_first_agent_def first_agent_def source_choice_def split: option.split)
  show ?thesis by (simp add: finish_agents_def settle_def Let_def choice)
qed

section \<open>Witnesses\<close>

definition demo_url :: url_parser where
  "demo_url u = (if u = ''http://127.0.0.1:9091'' then Some (''127.0.0.1'', ''9091'', ''http:'') else None)"

definition demo_named :: wizard_page where
  "demo_named = edit_fields ((first_fields (\<lambda>_. None) ''o'')\<lparr>wf_sourceName := ''n''\<rparr>) (open_wizard (\<lambda>_. None) ''o'')"

definition demo_new_host :: wizard_page where
  "demo_new_host = (let st = handleNext demo_named in edit_fields ((wz_fields st)\<lparr>wf_agentMode := New_Host\<rparr>) st)"

definition demo_sent :: wizard_page where
  "demo_sent = handleCreate demo_url (handleNext demo_new_host)"

definition demo_paused :: wizard_page where
  "demo_paused =
     finish_create (\<lambda>_ _. False) 0 (Found_Sources None)
       (finish_create (\<lambda>_ _. False) 0 (Not_Saved \<lparr>sf_status = Some 409, sf_message = ''overlaps existing agent endpoint''\<rparr>) demo_sent)"

lemma plain_edit:
  "source_choice f = source_choice (wz_fields st) \<Longrightarrow> wz_agents st = [] \<Longrightarrow> wz_script st = None \<Longrightarrow> edit_fields f st = st\<lparr>wz_fields := f\<rparr>"
  by (simp add: edit_fields_def settle_def chosen_url_def agent_chosen_def)

lemma demo_named_value:
  "demo_named = (open_wizard (\<lambda>_. None) ''o'')\<lparr>wz_fields := (first_fields (\<lambda>_. None) ''o'')\<lparr>wf_sourceName := ''n''\<rparr>\<rparr>"
  unfolding demo_named_def by (rule plain_edit) (simp_all add: open_wizard_def start_agents_def source_choice_def)

lemma demo_trim: "trim ''n'' = ''n''" "trim ''custom'' = ''custom''" "trim ''http://127.0.0.1:9091'' = ''http://127.0.0.1:9091''"
  "trim ''/var/log/**/*.log'' = ''/var/log/**/*.log''"
  by code_simp+

lemma demo_next: "handleNext demo_named = demo_named\<lparr>wz_currentStep := 1\<rparr>"
  by (simp add: demo_named_value handleNext_def when_valid_def validateStep_def open_wizard_def start_agents_def first_fields_def demo_trim)

lemma demo_new_host_value:
  "demo_new_host = demo_named\<lparr>wz_currentStep := 1, wz_fields := (wz_fields demo_named)\<lparr>wf_agentMode := New_Host\<rparr>\<rparr>"
  unfolding demo_new_host_def demo_next Let_def
  by (subst plain_edit) (simp_all add: demo_named_value open_wizard_def start_agents_def source_choice_def)

definition demo_payload :: source_payload where
  "demo_payload = source_payload_of ''127.0.0.1'' (js_Number ''9091'') demo_new_host"

lemma demo_next_again: "handleNext demo_new_host = demo_new_host\<lparr>wz_currentStep := 2\<rparr>"
  by (simp add: demo_new_host_value demo_named_value handleNext_def when_valid_def validateStep_def open_wizard_def
      start_agents_def first_fields_def demo_trim type_defaults_def DEFAULTS_BY_SOURCE_TYPE_def)

lemma demo_sent_value:
  "wz_sent demo_sent = [(demo_payload, wz_fields demo_new_host)]"
  "wz_creating demo_sent = [\<lparr>cw_stage = First_Try, cw_payload = demo_payload, cw_fields = wz_fields demo_new_host\<rparr>]"
proof -
  have f: "wf_agentMode (wz_fields demo_new_host) = New_Host" "wf_agentBaseUrl (wz_fields demo_new_host) = ''http://127.0.0.1:9091''"
    "validateStep 1 (wz_fields demo_new_host) = None" "wz_sent demo_new_host = []" "wz_creating demo_new_host = []"
    by (simp_all add: demo_new_host_value demo_named_value open_wizard_def start_agents_def first_fields_def validateStep_def
        demo_trim type_defaults_def DEFAULTS_BY_SOURCE_TYPE_def)
  have "parseHostPort demo_url ''http://127.0.0.1:9091'' = (''127.0.0.1'', js_Number ''9091'')"
    by (simp add: parseHostPort_def demo_url_def)
  then show "wz_sent demo_sent = [(demo_payload, wz_fields demo_new_host)]"
      "wz_creating demo_sent = [\<lparr>cw_stage = First_Try, cw_payload = demo_payload, cw_fields = wz_fields demo_new_host\<rparr>]"
    by (simp_all add: demo_sent_def demo_next_again handleCreate_def when_valid_def f demo_trim demo_payload_def source_payload_of_def Let_def
          del: One_nat_def)
qed

lemma demo_overlap: "isOverlapConflict \<lparr>sf_status = Some 409, sf_message = ''overlaps existing agent endpoint''\<rparr>"
  by code_simp

lemma demo_mode: "wf_agentMode (wz_fields demo_new_host) = New_Host"
  by (simp add: demo_new_host_value)

lemma demo_paused_value:
  "wz_sent demo_paused = [(demo_payload\<lparr>so_status := ''paused''\<rparr>, wz_fields demo_new_host), (demo_payload, wz_fields demo_new_host)]"
  by (simp add: demo_paused_def finish_create_def demo_sent_value demo_overlap demo_mode drop_at_def Let_def)

lemma demo_run: "wizard_run demo_url (\<lambda>_ _. False) demo_paused"
proof -
  let ?r = "wizard_run demo_url (\<lambda>_ _. False)"
  have named: "?r demo_named" unfolding demo_named_def
    by (rule fields_edited [OF wizard_opened]) (simp add: editable_def open_wizard_def start_agents_def first_fields_def)
  have "?r demo_new_host" unfolding demo_new_host_def Let_def
    by (rule fields_edited [OF step_forward [OF named]])
      (simp add: demo_next editable_def in_bounds_def, simp add: demo_named_value open_wizard_def start_agents_def first_fields_def)
  then have "?r demo_sent" unfolding demo_sent_def
    by (intro source_saved step_forward)
      (simp_all add: demo_next_again, simp add: demo_new_host_value demo_named_value open_wizard_def start_agents_def)
  then have "?r (finish_create (\<lambda>_ _. False) 0 (Not_Saved \<lparr>sf_status = Some 409, sf_message = ''overlaps existing agent endpoint''\<rparr>) demo_sent)"
    by (rule saving_answered) (simp_all add: demo_sent_value)
  then show ?thesis unfolding demo_paused_def
    by (rule saving_answered) (simp_all add: finish_create_def demo_sent_value demo_overlap drop_at_def Let_def)
qed

theorem wizard_sends_complete_sources_witness:
  "wizard_run demo_url (\<lambda>_ _. False) demo_paused
   \<and> wz_sent demo_paused = [(demo_payload\<lparr>so_status := ''paused''\<rparr>, wz_fields demo_new_host), (demo_payload, wz_fields demo_new_host)]
   \<and> so_protocol demo_payload = ''http'' \<and> so_name demo_payload \<noteq> []"
proof -
  have "wf_sourceType (wz_fields demo_new_host) \<noteq> ''syslog''"
    by (simp add: demo_new_host_value demo_named_value open_wizard_def start_agents_def first_fields_def)
  then show ?thesis
    using wizard_sends_complete_sources [OF demo_run, of "[]" "demo_payload\<lparr>so_status := ''paused''\<rparr>" "wz_fields demo_new_host"
        "[(demo_payload, wz_fields demo_new_host)]"] demo_run by (auto simp: demo_paused_value)
qed

theorem late_script_shown_witness:
  "let st = handleGenerateScript demo_new_host; p = script_payload_of demo_new_host; f = (wz_fields st)\<lparr>wf_agentBaseUrl := ''http://b''\<rparr>;
       st' = finish_script 0 (Inr JNull) (edit_fields f st)
   in wz_script st' = Some (p, JNull) \<and> sp_agent_base_url p = ''http://127.0.0.1:9091'' \<and> wf_agentBaseUrl (wz_fields st') = ''http://b''"
proof -
  let ?st = "handleGenerateScript demo_new_host" and ?p = "script_payload_of demo_new_host"
  let ?f = "(wz_fields ?st)\<lparr>wf_agentBaseUrl := ''http://b''\<rparr>"
  have st: "?st = demo_new_host\<lparr>wz_scriptLoading := True, wz_scripts := [?p]\<rparr>"
    by (simp add: handleGenerateScript_def when_valid_def demo_new_host_value demo_named_value open_wizard_def start_agents_def
        first_fields_def validateStep_def demo_trim type_defaults_def DEFAULTS_BY_SOURCE_TYPE_def)
  have "wz_fields (edit_fields ?f ?st) = ?f"
    by (subst plain_edit) (simp_all add: st, simp_all add: demo_new_host_value demo_named_value open_wizard_def start_agents_def source_choice_def)
  moreover have "sp_agent_base_url ?p = ''http://127.0.0.1:9091''"
    by (simp add: script_payload_of_def demo_new_host_value demo_named_value open_wizard_def start_agents_def first_fields_def demo_trim
        Let_def)
  ultimately show ?thesis using late_script_shown [of ?st ?p JNull ?f] by (simp add: st Let_def)
qed

definition demo_agent :: agent_item where
  "demo_agent = \<lparr>ai_agent_id = ''a'', ai_agent_base_url = Some ''http://other:9091'', ai_host = None, ai_hostname = None,
                 ai_status = ''online'', ai_live_connected = True\<rparr>"

theorem late_agents_replace_address_witness:
  "let st = edit_fields ((wz_fields demo_new_host)\<lparr>wf_agentBaseUrl := ''http://new:9091''\<rparr>) demo_new_host
   in wf_agentBaseUrl (wz_fields st) = ''http://new:9091'' \<and> wz_loads st = 1
      \<and> wf_agentBaseUrl (wz_fields (finish_agents (Inr [demo_agent]) st)) = ''http://other:9091''"
proof -
  let ?f = "(wz_fields demo_new_host)\<lparr>wf_agentBaseUrl := ''http://new:9091''\<rparr>"
  have st: "edit_fields ?f demo_new_host = demo_new_host\<lparr>wz_fields := ?f\<rparr>"
    by (rule plain_edit) (simp_all add: demo_new_host_value demo_named_value open_wizard_def start_agents_def source_choice_def)
  have m: "wf_agentMode (wz_fields demo_new_host) = New_Host" "wz_loads demo_new_host = 1"
    by (simp_all add: demo_new_host_value demo_named_value open_wizard_def start_agents_def)
  show ?thesis
    using late_agents_replace_address [of "demo_new_host\<lparr>wz_fields := ?f\<rparr>" "[demo_agent]" demo_agent "''http://other:9091''"]
    by (simp add: st m demo_agent_def)
qed

end
