(* ===== verification/Spec2Isabelle.thy ===== *)
theory Spec2Isabelle
  imports Page_Access Menu Protected_Route Bff Incident Stores Query_Derived Search_Query Search_View
    Ingest_Paths Alert_Prefill Audit_Logs Ingest_Api Alert_Api Storage_Api Export_Api Notification_Api Realtime_Life
    Auth_Forms Login_Policy_Page User_Page Dashboard_Page History_Page Alerts_Page Incidents_Page Wizard_Page
begin

text \<open>
  A model of the TypeScript programs of NexusLog: the operations console (\<open>src/apps/frontend-console/src\<close>, a React
  application) and its small backend (\<open>src/apps/bff-service/src\<close>). The services behind them, written in other
  languages, are not modelled: what they answer is an argument of the definitions, and every property holds for every
  answer unless a hypothesis says otherwise.

  \<^bold>\<open>How the program is put together.\<close> A page is guarded by \<open>ProtectedRoute\<close>, which validates the token kept in the
  browser's storage (\<open>authStorage\<close>), refreshes it, and waits for the authorization snapshot that the session store
  (\<open>authStore\<close>) fetches from the service; \<open>routeAuthorization\<close> decides from the snapshot which page may be
  opened, the menu shows what may be opened, and every page has a module that turns the snapshot into the actions it
  offers. Pages talk to services through the modules under \<open>api\<close>; each has its own copy of a request function, with
  tenant and token headers from the runtime configuration and the storage, and turns what the service sends into the
  console's types. The query module goes further: when its service is away it computes histories, statistics, clusters
  and anomalies itself, from local storage, from demonstration logs or from the log search. The search page drives it
  with overlapping requests, timers and cursors.

  \<^bold>\<open>The runtime\<close> (under every component).
  Prelude: optional values (\<open>??\<close>, \<open>||\<close>), arrays, insertion-ordered maps with the locale \<open>kv_store\<close>; Js_String,
  Js_Number, Js_Date, Js_Regex: strings as UTF-8 bytes, numbers, dates, a backtracking matcher; Json: values, printing,
  parsing and the round trip between the two; Zh_Text, Zh_Pages, Zh_Console, Zh_Alerts: the Chinese literals; Page_Base: messages.

  \<^bold>\<open>Session and authorization.\<close>
  Authz (\<open>types/authz.ts\<close>, \<open>auth/routeAuthorization.ts\<close>), Page_Access (the \<open>*Authorization.ts\<close> modules),
  Menu (\<open>constants/menu.ts\<close>, \<open>AppSidebar.tsx\<close>), Governance (\<open>securityGovernance.ts\<close>,
  \<open>roleDescriptionLocalization.ts\<close>), Auth_Storage (\<open>utils/authStorage.ts\<close>), Runtime_Config
  (\<open>config/runtime-config.ts\<close>), Auth_Store (\<open>stores/authStore.ts\<close>), Protected_Route (\<open>ProtectedRoute.tsx\<close>),
  Auth_Forms (\<open>components/auth\<close>, the forms).
  The guard runs with a clock, and its timer is taken to fire on time, every five seconds.
  The lemmas show that page contents are rendered only for a session with the rights of the page and a token that was
  valid when it was last checked, at most five seconds ago; that a sign-in makes exactly the session of the answer and a
  failing one leaves no trace; that more rights never close a page; that what is written at sign-in is read back; that a
  session whose token is invalid and cannot be renewed ends.

  \<^bold>\<open>Clients of the services.\<close>
  Api_Client and User_Api (\<open>api/user.ts\<close>, \<open>auth.ts\<close>, \<open>loginPolicy.ts\<close>), Service_Request (what the other modules
  share), Ingest_Api, Alert_Api, Storage_Api, Export_Api (with \<open>metrics.ts\<close> and \<open>bff.ts\<close>), Notification_Api,
  Incident (with its store and report), Audit_Parse and Audit_Logs (\<open>api/audit.ts\<close>). The lemmas show that paging
  loops fetch every item once, caches never exceed their limit and never answer with what they were not given, and the
  merged audit page is the page of the merged lists.

  \<^bold>\<open>Queries.\<close> All of \<open>api/query.ts\<close>: Query_Request (requests, errors, sharing of requests under way), Query_Store (local
  history and saved queries), Log_Fields (entries from hits), Query_Demo, Query_Stats, Query_Derived (statistics
  computed by the console), Query_Calls (the exported operations). A \<open>null\<close> among the hits fails the search, as reading
  its fields is a type error. The lemmas show that one request at most is under way for one key; that the history in the
  browser refines a memory of the queries asked; that aggregation in one pass equals counting; that paging through the
  log search ends and, over a list that does not change, collects what is wanted.

  \<^bold>\<open>Pages.\<close> Search_Query, Search_View, Alert_Prefill, Ingest_Paths: the logic modules of the pages. Realtime_Window,
  Realtime_Cursor, Realtime_Page, Realtime_Run, Realtime_Life: the search page (\<open>RealtimeSearch.tsx\<close>) as a state
  machine. Login_Policy_Page, User_Page: administration pages as state machines. Dashboard_View, Dashboard_Page: the
  dashboard. Paged_List: a list with pages, for Saved_Page (\<open>SavedQueries.tsx\<close>) and History_Page
  (\<open>SearchHistory.tsx\<close>). Rules_Page, Alerts_Page, Incidents_Page: the alert rules, the alerts and the
  incidents (\<open>AlertRules.tsx\<close>, \<open>AlertList.tsx\<close>, \<open>IncidentList.tsx\<close>). Wizard_Page: a new source in three steps
  (\<open>AccessWizard.tsx\<close>).
  An asynchronous handler is cut at its awaits: the part up to the first request is an operation, the part after an
  answer another, and a step relation (\<open>inductive\<close>) interleaves them with everything else in any order. The lemmas
  are invariants of these relations by rule induction: an overtaken answer changes no more than its caller attached
  to it, the newest search ends, no
  request leaves a page that the rights do not permit or the validation refuses. What a service does with a request is not
  modelled: it is seen in the answers only.

  \<^bold>\<open>Stores and the backend.\<close> Stores (alerts, notifications, preferences, theme, identifiers), Bff (configuration, cache,
  probes, overview of \<open>bff-service\<close>).

  \<^bold>\<open>Interfaces.\<close> \<open>kv_store\<close> (Prelude; by the insertion-ordered map), \<open>access_check\<close> (Authz; by capability and route
  checks and by the three page modules), \<open>best_effort_store\<close> (Auth_Storage; by the scoped storage), \<open>stored_list\<close>
  (Query_Store; by the history and by the saved queries), \<open>recency_cache\<close> (Service_Request; by the audit and the channel
  cache), \<open>inbox\<close> (Stores; by alerts and notifications), \<open>expiring_cache\<close> (Bff; by the backend's cache). Each is
  interpreted where the model's operations are defined.

  \<^bold>\<open>Bounds and termination.\<close> Two functions take fuel, and it is shown to be enough: JSON parsing has twice the length of
  its text (every call consumes a character or descends once), repetition in the matcher has the length of the rest of
  the text (a repetition that consumes nothing stops, as in the language). Loops with a bound in the code are functions
  with a measure: the pages of the derived search, the audit windows, the eviction of caches, the steps to a deep page,
  unit scaling. Loops the service can keep going for ever are partial functions into \<open>option\<close>, where \<open>None\<close> is a call
  that never returns (\<open>all_pages\<close>, \<open>fetch_channels\<close>, \<open>collect_matching\<close>); that they return is a property, under
  hypotheses on the service. The newest search of the page ends after a number of answers that a rank of its state
  bounds.

  \<^bold>\<open>Parameters\<close>, for code outside the repository or choices the language leaves to its host: \<open>mp\<close> (\<open>matchPath\<close> of
  react-router-dom), \<open>lc\<close> (the sign of \<open>localeCompare\<close>), \<open>locale_time\<close> and \<open>locale_number\<close> (local rendering), the URL
  parser, \<open>host\<close> (dates of other formats), \<open>sqr\<close> (square root), the regular-expression engine for patterns
  entered by a user, sources of randomness and of time. Where the code computes with local hours the
  time zone is UTC. The bounds that the number fields of
  the library keep to are conditions of the steps that edit them. Numbers are exact rationals with \<open>NaN\<close> and the infinities;
  rounding is not modelled. Words of 32 bits are used where the code computes with them (deterministic ids).

  \<^bold>\<open>Not modelled.\<close> The rendering of the pages (JSX, antd widgets and their form rules, styles, chart options), the
  routing table and the browser entry, NestJS wiring, downloads that only hand a blob to the browser, the write-through
  of the persist middleware of zustand: they have no logic of their own that a theorem could be about. Pages not named
  above are left out; they call the clients that are modelled.
\<close>

end
